(* ===== verification/Prelude.thy ===== *)
theory Prelude
  imports Main "HOL-Library.Word" "HOL-Library.Sublist"
begin

text \<open>
  Shared vocabulary of the development: the byte strings the gateway hashes and puts on the
  wire, the little-endian integers of Go's \<open>encoding/binary\<close>, the two's-complement \<open>int64\<close>
  of the billing code, decimal and hexadecimal text, and the generic list facts every
  component uses. The collections \<open>wire\<close> (unfolding of byte layouts) and \<open>guards\<close>
  (unfolding of validation code) are filled by the components.
\<close>

named_theorems wire \<open>definitions of byte layouts\<close>
named_theorems guards \<open>definitions of guard and validation code\<close>

type_synonym byte = "8 word"
type_synonym bytes = "byte list"
type_synonym u8 = "8 word"
type_synonym u16 = "16 word"
type_synonym u32 = "32 word"
type_synonym u64 = "64 word"

section \<open>Results\<close>

text \<open>A Go pair \<open>(value, error)\<close> is a sum: \<open>Inl\<close> the error, \<open>Inr\<close> the value.\<close>

definition bind_res :: "'e + 'a \<Rightarrow> ('a \<Rightarrow> 'e + 'b) \<Rightarrow> 'e + 'b" where
  "bind_res r f = (case r of Inl e \<Rightarrow> Inl e | Inr x \<Rightarrow> f x)"

lemma bind_res_simps [simp]:
  "bind_res (Inl e) f = Inl e" "bind_res (Inr x) f = f x"
  by (simp_all add: bind_res_def)

lemma bind_res_Inr_iff [simp]:
  "bind_res r f = Inr y \<longleftrightarrow> (\<exists>x. r = Inr x \<and> f x = Inr y)"
  by (cases r) simp_all

lemma bind_res_Inl_iff:
  "bind_res r f = Inl e \<longleftrightarrow> r = Inl e \<or> (\<exists>x. r = Inr x \<and> f x = Inl e)"
  by (cases r) simp_all

section \<open>Two's-complement int64\<close>

text \<open>Go's \<open>int64\<close> arithmetic wraps; a value is an \<open>int\<close> brought back into range.\<close>

definition wrap64 :: "int \<Rightarrow> int" where
  "wrap64 x = (x + 2 ^ 63) mod 2 ^ 64 - 2 ^ 63"

definition in64 :: "int \<Rightarrow> bool" where
  "in64 x \<longleftrightarrow> - (2 ^ 63) \<le> x \<and> x < 2 ^ 63"

lemma wrap64_id [simp]: "in64 x \<Longrightarrow> wrap64 x = x"
  by (simp add: wrap64_def in64_def)

lemma wrap64_in64 [simp]: "in64 (wrap64 x)"
proof -
  have "0 \<le> (x + 2 ^ 63) mod 2 ^ 64" "(x + 2 ^ 63) mod 2 ^ 64 < (2 ^ 64 :: int)"
    by simp_all
  then show ?thesis by (simp add: wrap64_def in64_def)
qed

text \<open>Go's integer division truncates towards zero.\<close>

definition quot :: "int \<Rightarrow> int \<Rightarrow> int" where
  "quot a b = sgn a * sgn b * (\<bar>a\<bar> div \<bar>b\<bar>)"

lemma quot_nonneg: "0 \<le> a \<Longrightarrow> 0 < b \<Longrightarrow> quot a b = a div b"
  by (cases "a = 0") (auto simp: quot_def)

section \<open>Little-endian integers\<close>

fun le_nat :: "nat \<Rightarrow> nat \<Rightarrow> bytes" where
  "le_nat 0 n = []"
| "le_nat (Suc k) n = of_nat (n mod 256) # le_nat k (n div 256)"

fun nat_le :: "bytes \<Rightarrow> nat" where
  "nat_le [] = 0"
| "nat_le (b # bs) = unat b + 256 * nat_le bs"

lemma unat_byte: "unat (b :: byte) < 256"
  using unsigned_less [of b] by simp

lemma length_le_nat [simp]: "length (le_nat k n) = k"
  by (induction k arbitrary: n) auto

lemma nat_le_le_nat: "nat_le (le_nat k n) = n mod 256 ^ k"
proof (induction k arbitrary: n)
  case 0
  then show ?case by simp
next
  case (Suc k)
  have "unat (of_nat (n mod 256) :: byte) = n mod 256"
    by (simp add: unat_of_nat)
  moreover have "n mod 256 + 256 * (n div 256 mod 256 ^ k) = n mod (256 * 256 ^ k)"
    by (simp add: mod_mult2_eq)
  ultimately show ?case by (simp add: Suc.IH)
qed

lemma nat_le_bound: "nat_le bs < 256 ^ length bs"
proof (induction bs)
  case (Cons b bs)
  have "unat b < 256" by (rule unat_byte)
  with Cons show ?case by simp
qed simp

lemma le_nat_nat_le: "le_nat (length bs) (nat_le bs) = bs"
proof (induction bs)
  case (Cons b bs)
  have b: "unat b < 256" by (rule unat_byte)
  then have "(unat b + 256 * nat_le bs) mod 256 = unat b"
    "(unat b + 256 * nat_le bs) div 256 = nat_le bs" by simp_all
  with Cons show ?case by simp
qed simp

text \<open>A fixed-width field: an encoder of constant width with a left inverse.\<close>

locale fixed_codec =
  fixes enc :: "'a \<Rightarrow> bytes" and dec :: "bytes \<Rightarrow> 'a" and width :: nat
  assumes enc_len: "length (enc x) = width"
    and dec_enc: "dec (enc x) = x"
begin

lemma enc_inj: "enc x = enc y \<longleftrightarrow> x = y"
  by (metis dec_enc)

lemma enc_append_inj: "enc x @ r = enc y @ s \<longleftrightarrow> x = y \<and> r = s"
  using enc_len by (auto simp: enc_inj)

lemma take_enc: "take width (enc x @ r) = enc x"
  by (simp add: enc_len)

lemma drop_enc: "drop width (enc x @ r) = r"
  by (simp add: enc_len)

lemma dec_take_enc: "dec (take width (enc x @ r)) = x"
  by (simp only: take_enc dec_enc)

end

text \<open>\<open>binary.LittleEndian.PutUintN\<close> and \<open>UintN\<close> at the three widths the code uses.\<close>

definition U16LE :: "u16 \<Rightarrow> bytes" where "U16LE v = le_nat 2 (unat v)"
definition U32LE :: "u32 \<Rightarrow> bytes" where "U32LE v = le_nat 4 (unat v)"
definition U64LE :: "u64 \<Rightarrow> bytes" where "U64LE v = le_nat 8 (unat v)"

definition LE16 :: "bytes \<Rightarrow> u16" where "LE16 bs = of_nat (nat_le bs)"
definition LE32 :: "bytes \<Rightarrow> u32" where "LE32 bs = of_nat (nat_le bs)"
definition LE64 :: "bytes \<Rightarrow> u64" where "LE64 bs = of_nat (nat_le bs)"

lemma le_word_inverse:
  "(256 :: nat) ^ k = 2 ^ LENGTH('a::len) \<Longrightarrow>
   of_nat (nat_le (le_nat k (unat (v :: 'a word)))) = v"
  using unsigned_less [of v] by (simp add: nat_le_le_nat)

interpretation u16: fixed_codec U16LE LE16 2
  by unfold_locales (simp_all only: U16LE_def LE16_def length_le_nat, rule le_word_inverse, simp)

interpretation u32: fixed_codec U32LE LE32 4
  by unfold_locales (simp_all only: U32LE_def LE32_def length_le_nat, rule le_word_inverse, simp)

interpretation u64: fixed_codec U64LE LE64 8
  by unfold_locales (simp_all only: U64LE_def LE64_def length_le_nat, rule le_word_inverse, simp)

text \<open>An \<open>int64\<close> travels as the two's-complement \<open>uint64\<close> with the same bits.\<close>

definition I64LE :: "int \<Rightarrow> bytes" where "I64LE v = U64LE (word_of_int v)"
definition LEI64 :: "bytes \<Rightarrow> int" where "LEI64 bs = sint (LE64 bs)"

lemma length_I64LE [simp]: "length (I64LE v) = 8"
  by (simp add: I64LE_def u64.enc_len)

lemma word_of_int_inj64:
  assumes "in64 a" "in64 b" "(word_of_int a :: 64 word) = word_of_int b"
  shows "a = b"
proof -
  have "a mod 2 ^ 64 = b mod 2 ^ 64"
    using assms(3) by (simp add: word_of_int_eq_iff take_bit_eq_mod)
  then have "(a + 2 ^ 63) mod 2 ^ 64 = (b + 2 ^ 63) mod 2 ^ 64"
    by (metis mod_add_left_eq)
  then have "wrap64 a = wrap64 b" by (simp add: wrap64_def)
  with assms(1,2) show ?thesis by simp
qed

lemma I64LE_inj: "in64 a \<Longrightarrow> in64 b \<Longrightarrow> I64LE a = I64LE b \<longleftrightarrow> a = b"
  by (auto simp: I64LE_def u64.enc_inj dest: word_of_int_inj64)

lemmas le_len [simp] = u16.enc_len u32.enc_len u64.enc_len
lemmas le_inj [simp] = u16.enc_inj u32.enc_inj u64.enc_inj
lemmas le_append_inj [simp] = u16.enc_append_inj u32.enc_append_inj u64.enc_append_inj

section \<open>Text\<close>

definition ascii :: "string \<Rightarrow> bytes" where
  "ascii s = map of_char s"

lemma ascii_append [simp]: "ascii (s @ t) = ascii s @ ascii t"
  by (simp add: ascii_def)

lemma length_ascii [simp]: "length (ascii s) = length s"
  by (simp add: ascii_def)

lemma unat_of_char: "unat (of_char c :: byte) = of_char c"
proof -
  have "(of_char c :: byte) = of_nat (of_char c)" by (cases c) (simp add: of_char_def)
  moreover have "(of_char c :: nat) < 256" by simp
  ultimately show ?thesis by (simp only: unat_of_nat) simp
qed

lemma of_char_byte_inj: "(of_char c :: byte) = of_char d \<longleftrightarrow> c = d"
  by (metis unat_of_char char_of_char)

lemma ascii_inj [simp]: "ascii s = ascii t \<longleftrightarrow> s = t"
  by (simp add: ascii_def inj_def of_char_byte_inj inj_map_eq_map)

section \<open>Separated labels\<close>

text \<open>A list of labels none of which is a prefix of another: whatever bytes follow, the label
  at the front of a message can be told, and with it the rest.\<close>

fun separated :: "string list \<Rightarrow> bool" where
  "separated [] = True"
| "separated (s # ss) = (list_all (\<lambda>t. \<not> prefix s t \<and> \<not> prefix t s) ss \<and> separated ss)"

lemma separated_nth:
  "separated L \<Longrightarrow> i < length L \<Longrightarrow> j < length L \<Longrightarrow> prefix (L ! i) (L ! j) \<Longrightarrow> i = j"
proof (induction L arbitrary: i j)
  case (Cons s L)
  then show ?case
    by (cases i; cases j) (auto simp: list_all_length)
qed simp

lemma prefix_ascii: "prefix (ascii s) (ascii t) \<longleftrightarrow> prefix s t"
proof
  assume "prefix (ascii s) (ascii t)"
  then have "take (length s) (ascii t) = ascii s" "length s \<le> length t"
    by (auto simp: prefix_def) (metis length_append length_ascii le_add1)
  then have "ascii (take (length s) t) = ascii s" by (simp add: ascii_def take_map)
  then show "prefix s t" by (metis ascii_inj take_is_prefix)
qed (auto simp: prefix_def)

lemma separated_append_eq:
  assumes "separated L" "i < length L" "j < length L"
    and eq: "ascii (L ! i) @ x = ascii (L ! j) @ y"
  shows "i = j \<and> x = y"
proof -
  from eq have "prefix (ascii (L ! i)) (ascii (L ! j)) \<or> prefix (ascii (L ! j)) (ascii (L ! i))"
    by (metis prefix_append prefix_order.refl prefix_same_cases append_prefixD)
  then have "i = j"
    unfolding prefix_ascii using separated_nth [OF assms(1-3)] separated_nth [OF assms(1,3,2)] by blast
  with eq show ?thesis by simp
qed

section \<open>Length-prefixed text\<close>

text \<open>A \<open>uint16\<close> length and the bytes; it can be told from what follows as long as the length
  fits.\<close>

definition lp :: "bytes \<Rightarrow> bytes" where
  "lp b = U16LE (of_nat (length b)) @ b"

lemma unat_of_nat16: "n < 65536 \<Longrightarrow> unat (of_nat n :: u16) = n"
  by (simp add: unat_of_nat)

lemma lp_append_inj:
  assumes "length a < 65536" "length b < 65536"
  shows "lp a @ x = lp b @ y \<longleftrightarrow> a = b \<and> x = y"
proof
  assume "lp a @ x = lp b @ y"
  then have l: "(of_nat (length a) :: u16) = of_nat (length b)" and r: "a @ x = b @ y"
    by (auto simp: lp_def)
  from l assms have "length a = length b" by (metis unat_of_nat16)
  with r show "a = b \<and> x = y" by simp
qed simp

text \<open>A list of length-prefixed byte strings determines its elements.\<close>

lemma lps_inj:
  "(\<And>a. a \<in> set as \<Longrightarrow> length a < 65536) \<Longrightarrow> (\<And>b. b \<in> set bs \<Longrightarrow> length b < 65536) \<Longrightarrow>
   concat (map lp as) = concat (map lp bs) \<Longrightarrow> as = bs"
proof (induction as arbitrary: bs)
  case Nil
  then show ?case by (cases bs) (auto simp: lp_def simp flip: length_0_conv)
next
  case (Cons a as)
  then obtain b bs' where bs: "bs = b # bs'"
    by (cases bs) (auto simp: lp_def simp flip: length_0_conv)
  with Cons.prems have "a = b \<and> concat (map lp as) = concat (map lp bs')"
    using lp_append_inj [of a b] by simp
  with Cons bs show ?case by auto
qed

end
