(* ===== verification/HumanFmt.thy ===== *)
theory HumanFmt
  imports Prelude
begin

text \<open>
  Package \<open>humanfmt\<close> (\<open>gateway/internal/humanfmt/amount.go\<close>): raw base-unit amounts as
  decimal text. \<open>dec\<close> is \<open>big.Int.String\<close>/\<open>strconv.FormatUint\<close> of a natural number;
  \<open>FormatAmountPlain\<close> is the canonical shift shared by the signed messages. The main
  fact is that the text determines the amount, so an approver who reads the number reads
  the amount that is signed.
\<close>

section \<open>Decimal numerals\<close>

definition digit :: "nat \<Rightarrow> char" where
  "digit d = ''0123456789'' ! (d mod 10)"

definition digit_val :: "char \<Rightarrow> nat" where
  "digit_val c = of_char c - 48"

fun dec :: "nat \<Rightarrow> string" where
  "dec n = (if n < 10 then [digit n] else dec (n div 10) @ [digit (n mod 10)])"

declare dec.simps [simp del]

definition undec :: "string \<Rightarrow> nat" where
  "undec s = foldl (\<lambda>a c. a * 10 + digit_val c) 0 s"

definition is_digit :: "char \<Rightarrow> bool" where
  "is_digit c \<longleftrightarrow> c \<in> set ''0123456789''"

lemma lt10_cases: "(d::nat) < 10 \<Longrightarrow> d \<in> {0,1,2,3,4,5,6,7,8,9}"
  by auto

lemma digit_val_digit [simp]: "d < 10 \<Longrightarrow> digit_val (digit d) = d"
  by (drule lt10_cases) (elim insertE emptyE; simp only:; code_simp)

lemma is_digit_digit [simp]: "is_digit (digit d)"
proof -
  have "d mod 10 < 10" by simp
  then show ?thesis
    by (subst digit_def, unfold is_digit_def) (rule nth_mem, simp)
qed

lemma digit_0 [simp]: "digit 0 = CHR ''0''"
  by (simp add: digit_def)

lemma digit_eq_0: "d < 10 \<Longrightarrow> digit d = CHR ''0'' \<longleftrightarrow> d = 0"
  by (drule lt10_cases) (auto simp: digit_def)

lemma undec_append: "undec (s @ t) = undec s * 10 ^ length t + undec t"
proof (induction t rule: rev_induct)
  case (snoc x xs)
  have "undec ((s @ xs) @ [x]) = undec (s @ xs) * 10 + digit_val x"
    "undec (xs @ [x]) = undec xs * 10 + digit_val x"
    by (simp_all only: undec_def foldl_append foldl.simps)
  with snoc.IH show ?case by simp
qed (simp add: undec_def)

lemma undec_Nil [simp]: "undec [] = 0" by (simp add: undec_def)
lemma undec_single [simp]: "undec [c] = digit_val c" by (simp add: undec_def)

lemma undec_dec [simp]: "undec (dec n) = n"
proof (induction n rule: dec.induct)
  case (1 n)
  then show ?case
    by (cases "n < 10") (simp_all add: dec.simps [of n] undec_append)
qed

lemma dec_inj [simp]: "dec m = dec n \<longleftrightarrow> m = n"
  by (metis undec_dec)

lemma dec_digits: "c \<in> set (dec n) \<Longrightarrow> is_digit c"
proof (induction n rule: dec.induct)
  case (1 n)
  then show ?case
    by (cases "n < 10") (auto simp: dec.simps [of n])
qed

lemma dec_nonempty [simp]: "dec n \<noteq> []"
  by (simp add: dec.simps [of n])

lemma dec_length_bound: "n < 10 ^ k \<Longrightarrow> 0 < k \<Longrightarrow> length (dec n) \<le> k"
proof (induction n arbitrary: k rule: dec.induct)
  case (1 n k)
  show ?case
  proof (cases "n < 10")
    case True
    with "1.prems" show ?thesis by (simp add: dec.simps [of n])
  next
    case False
    with "1.prems" obtain j where k: "k = Suc j" and "n div 10 < 10 ^ j"
      by (cases k) auto
    moreover from False this have "0 < j" by (cases j) auto
    ultimately show ?thesis
      using "1.IH" [OF False, of j] False by (simp add: dec.simps [of n])
  qed
qed

lemma undec_zeros [simp]: "undec (replicate k (CHR ''0'') @ s) = undec s"
proof -
  have "undec (replicate k (CHR ''0'')) = 0"
    by (induction k) (simp_all add: undec_append [of "[CHR ''0'']", simplified] digit_val_def of_char_def)
  then show ?thesis by (simp add: undec_append)
qed

section \<open>The canonical plain shift\<close>

definition MaxDecimals :: int where "MaxDecimals = 38"
definition ValueDecimals1e8 :: int where "ValueDecimals1e8 = 8"

datatype fmt_error = DecimalsOutOfRange int | RawNil | RawNegative

definition trim_right :: "char \<Rightarrow> string \<Rightarrow> string" where
  "trim_right c s = rev (dropWhile (\<lambda>x. x = c) (rev s))"

definition frac_digits :: "nat \<Rightarrow> nat \<Rightarrow> string" where
  "frac_digits d frac =
     (let s = dec frac;
          s = (if length s < d then replicate (d - length s) (CHR ''0'') @ s else s)
      in trim_right (CHR ''0'') s)"

text \<open>\<open>raw\<close> is a \<open>*big.Int\<close>: \<open>None\<close> is the nil pointer. \<open>QuoRem\<close> of non-negative
  operands is \<open>div\<close> and \<open>mod\<close>.\<close>

definition FormatAmountPlain :: "int option \<Rightarrow> int \<Rightarrow> fmt_error + string" where
  "FormatAmountPlain raw decimals =
     (if decimals < 0 \<or> decimals > MaxDecimals then Inl (DecimalsOutOfRange decimals)
      else case raw of
        None \<Rightarrow> Inl RawNil
      | Some r \<Rightarrow>
          if r < 0 then Inl RawNegative
          else if decimals = 0 then Inr (dec (nat r))
          else
            (let scale = 10 ^ nat decimals;
                 intPart = nat r div scale;
                 frac = nat r mod scale
             in if frac = 0 then Inr (dec intPart)
                else Inr (dec intPart @ ''.'' @ frac_digits (nat decimals) frac)))"

text \<open>The string of \<open>s, _ := FormatAmountPlain(...)\<close>: the empty string on an error.\<close>

definition str_of :: "fmt_error + string \<Rightarrow> string" where
  "str_of r = (case r of Inl _ \<Rightarrow> [] | Inr s \<Rightarrow> s)"

definition FormatU64Shifted :: "u64 \<Rightarrow> int \<Rightarrow> string" where
  "FormatU64Shifted v decimals = str_of (FormatAmountPlain (Some (uint v)) decimals)"

definition FormatI64Shifted :: "int \<Rightarrow> int \<Rightarrow> string" where
  "FormatI64Shifted v decimals =
     (if v < 0 then ''-'' @ str_of (FormatAmountPlain (Some \<bar>v\<bar>) decimals)
      else str_of (FormatAmountPlain (Some v) decimals))"

section \<open>Display-only decoration\<close>

record fmt_options =
  Symbol :: string
  Group :: bool

function group_loop :: "string \<Rightarrow> string" where
  "group_loop s =
     (if s = [] then [] else take 3 s @ (if 3 < length s then [CHR '',''] else []) @ group_loop (drop 3 s))"
  by pat_completeness auto
termination by (relation "measure length") auto

declare group_loop.simps [simp del]

definition groupInteger :: "string \<Rightarrow> string" where
  "groupInteger s =
     (let n = length s in
      if n \<le> 3 then s
      else let pre = n mod 3
           in (if pre > 0 then take pre s @ [CHR '',''] else []) @ group_loop (drop pre s))"

definition FormatAmount :: "int option \<Rightarrow> int \<Rightarrow> fmt_options \<Rightarrow> fmt_error + string" where
  "FormatAmount raw decimals opts =
     bind_res (FormatAmountPlain raw decimals) (\<lambda>s.
       let s = (if Group opts
                then groupInteger (takeWhile (\<lambda>c. c \<noteq> CHR ''.'') s) @ dropWhile (\<lambda>c. c \<noteq> CHR ''.'') s
                else s);
           s = (if Symbol opts \<noteq> [] then s @ '' '' @ Symbol opts else s)
       in Inr s)"

section \<open>The text determines the amount\<close>

text \<open>Reading a shifted decimal back: the digits before the point, and the digits after it
  padded on the right to \<open>d\<close> places.\<close>

definition parse_shifted :: "nat \<Rightarrow> string \<Rightarrow> nat" where
  "parse_shifted d s =
     (let i = takeWhile (\<lambda>c. c \<noteq> CHR ''.'') s; f = drop 1 (dropWhile (\<lambda>c. c \<noteq> CHR ''.'') s)
      in undec i * 10 ^ d + undec f * 10 ^ (d - length f))"

lemma dot_not_digit [simp]: "\<not> is_digit (CHR ''.'')"
  by (simp add: is_digit_def)

lemma dec_no_dot [simp]: "CHR ''.'' \<notin> set (dec n)"
  using dec_digits by force

lemma takeWhile_dec [simp]:
  "takeWhile (\<lambda>c. c \<noteq> CHR ''.'') (dec n @ CHR ''.'' # t) = dec n"
  "dropWhile (\<lambda>c. c \<noteq> CHR ''.'') (dec n @ CHR ''.'' # t) = CHR ''.'' # t"
  "takeWhile (\<lambda>c. c \<noteq> CHR ''.'') (dec n) = dec n"
  "dropWhile (\<lambda>c. c \<noteq> CHR ''.'') (dec n) = []"
proof -
  have *: "\<forall>c \<in> set (dec n). c \<noteq> CHR ''.''" using dec_no_dot by metis
  show "takeWhile (\<lambda>c. c \<noteq> CHR ''.'') (dec n @ CHR ''.'' # t) = dec n"
    "dropWhile (\<lambda>c. c \<noteq> CHR ''.'') (dec n @ CHR ''.'' # t) = CHR ''.'' # t"
    using * by (simp_all add: takeWhile_append2 dropWhile_append2)
  show "takeWhile (\<lambda>c. c \<noteq> CHR ''.'') (dec n) = dec n"
    "dropWhile (\<lambda>c. c \<noteq> CHR ''.'') (dec n) = []"
    using * by (simp_all add: takeWhile_eq_all_conv dropWhile_eq_Nil_conv)
qed

lemma trim_right_split: "\<exists>k. s = trim_right c s @ replicate k c"
proof (induction s rule: rev_induct)
  case (snoc x xs)
  then obtain k where k: "xs = trim_right c xs @ replicate k c" by blast
  show ?case
  proof (cases "x = c")
    case True
    then have "trim_right c (xs @ [x]) = trim_right c xs" by (simp add: trim_right_def)
    with k True have "xs @ [x] = trim_right c (xs @ [x]) @ replicate (Suc k) c"
      by (metis append_assoc replicate_Suc replicate_append_same)
    then show ?thesis by blast
  next
    case False
    then have "xs @ [x] = trim_right c (xs @ [x]) @ replicate 0 c" by (simp add: trim_right_def)
    then show ?thesis by blast
  qed
qed (simp add: trim_right_def)

lemma undec_replicate0 [simp]: "undec (replicate k (CHR ''0'')) = 0"
  using undec_zeros [of k "[]"] by simp

lemma frac_digits_value:
  assumes "frac < 10 ^ d" "0 < d"
  shows "length (frac_digits d frac) \<le> d
    \<and> undec (frac_digits d frac) * 10 ^ (d - length (frac_digits d frac)) = frac"
proof -
  let ?p = "if length (dec frac) < d then replicate (d - length (dec frac)) (CHR ''0'') @ dec frac else dec frac"
  have len: "length ?p = d"
    using dec_length_bound [OF assms] by auto
  have val: "undec ?p = frac" by simp
  obtain k where k: "?p = trim_right (CHR ''0'') ?p @ replicate k (CHR ''0'')"
    using trim_right_split by blast
  have fd: "frac_digits d frac = trim_right (CHR ''0'') ?p"
    by (simp add: frac_digits_def Let_def)
  have l: "length (frac_digits d frac) + k = d"
    using arg_cong [OF k, of length] len fd by simp
  have "undec ?p = undec (frac_digits d frac) * 10 ^ k"
    using arg_cong [OF k, of undec] fd by (simp add: undec_append)
  moreover have "d - length (frac_digits d frac) = k" using l by simp
  ultimately show ?thesis using val l by simp
qed

lemma parse_FormatAmountPlain:
  assumes "FormatAmountPlain (Some r) decimals = Inr s"
  shows "int (parse_shifted (nat decimals) s) = r"
proof -
  from assms have r: "0 \<le> r" and d: "0 \<le> decimals"
    by (auto simp: FormatAmountPlain_def Let_def split: if_splits)
  let ?d = "nat decimals" and ?n = "nat r"
  show ?thesis
  proof (cases "?n mod 10 ^ ?d = 0 \<or> decimals = 0")
    case True
    with assms r d have "s = dec (?n div 10 ^ ?d)" "?n div 10 ^ ?d * 10 ^ ?d = ?n"
      by (auto simp: FormatAmountPlain_def Let_def split: if_splits)
    with r show ?thesis by (simp add: parse_shifted_def)
  next
    case False
    with assms r d have s: "s = dec (?n div 10 ^ ?d) @ ''.'' @ frac_digits ?d (?n mod 10 ^ ?d)"
      by (auto simp: FormatAmountPlain_def Let_def split: if_splits)
    have "0 < ?d" using False d by simp
    then have "parse_shifted ?d s = ?n div 10 ^ ?d * 10 ^ ?d + ?n mod 10 ^ ?d"
      using s frac_digits_value [of "?n mod 10 ^ ?d" ?d] by (simp add: parse_shifted_def)
    with r show ?thesis by (simp only: div_mult_mod_eq nat_0_le)
  qed
qed

text \<open>Text the signed messages embed: printable, without blanks, and never empty.\<close>

definition amount_char :: "char \<Rightarrow> bool" where
  "amount_char c \<longleftrightarrow> is_digit c \<or> c = CHR ''.'' \<or> c = CHR ''-''"

lemma set_trim_right: "set (trim_right c s) \<subseteq> set s"
  unfolding trim_right_def using set_dropWhileD by fastforce

lemma set_frac_digits: "c \<in> set (frac_digits d n) \<Longrightarrow> is_digit c"
proof -
  let ?p = "if length (dec n) < d then replicate (d - length (dec n)) (CHR ''0'') @ dec n else dec n"
  assume "c \<in> set (frac_digits d n)"
  then have "c \<in> set ?p"
    unfolding frac_digits_def Let_def using set_trim_right by blast
  then have "c = CHR ''0'' \<or> c \<in> set (dec n)" by (auto split: if_splits)
  moreover have "is_digit (CHR ''0'')" by (simp add: is_digit_def)
  ultimately show ?thesis using dec_digits by blast
qed

lemma FormatAmountPlain_chars:
  "FormatAmountPlain raw d = Inr s \<Longrightarrow> c \<in> set s \<Longrightarrow> is_digit c \<or> c = CHR ''.''"
  by (auto simp: FormatAmountPlain_def Let_def dest: dec_digits set_frac_digits
      split: if_splits option.splits)

lemma FormatAmountPlain_ok:
  "0 \<le> d \<Longrightarrow> d \<le> 38 \<Longrightarrow> 0 \<le> r \<Longrightarrow> \<exists>s. FormatAmountPlain (Some r) d = Inr s"
  by (simp add: FormatAmountPlain_def MaxDecimals_def Let_def)

lemma FormatU64Shifted_eq:
  "FormatAmountPlain (Some (uint v)) ValueDecimals1e8 = Inr (FormatU64Shifted v ValueDecimals1e8)"
  using FormatAmountPlain_ok [of 8 "uint v"]
  by (auto simp: FormatU64Shifted_def str_of_def ValueDecimals1e8_def)

lemma FormatU64Shifted_inj [simp]:
  "FormatU64Shifted v ValueDecimals1e8 = FormatU64Shifted w ValueDecimals1e8 \<longleftrightarrow> v = w"
  by (metis FormatU64Shifted_eq parse_FormatAmountPlain word_uint_eqI)

lemma FormatU64Shifted_chars: "c \<in> set (FormatU64Shifted v ValueDecimals1e8) \<Longrightarrow> amount_char c"
  using FormatAmountPlain_chars [OF FormatU64Shifted_eq] by (auto simp: amount_char_def)

lemma FormatI64Shifted_eq:
  obtains s where "FormatAmountPlain (Some \<bar>v\<bar>) ValueDecimals1e8 = Inr s"
    "FormatI64Shifted v ValueDecimals1e8 = (if v < 0 then ''-'' else []) @ s"
proof -
  obtain s where "FormatAmountPlain (Some \<bar>v\<bar>) ValueDecimals1e8 = Inr s"
    using FormatAmountPlain_ok [of 8 "\<bar>v\<bar>"] by (auto simp: ValueDecimals1e8_def)
  then show ?thesis by (intro that) (auto simp: FormatI64Shifted_def str_of_def)
qed

lemma FormatI64Shifted_chars: "c \<in> set (FormatI64Shifted v ValueDecimals1e8) \<Longrightarrow> amount_char c"
proof -
  assume c: "c \<in> set (FormatI64Shifted v ValueDecimals1e8)"
  obtain s where "FormatAmountPlain (Some \<bar>v\<bar>) ValueDecimals1e8 = Inr s"
    "FormatI64Shifted v ValueDecimals1e8 = (if v < 0 then ''-'' else []) @ s"
    by (rule FormatI64Shifted_eq)
  with c show ?thesis
    using FormatAmountPlain_chars by (auto simp: amount_char_def split: if_splits)
qed

lemma FormatI64Shifted_inj [simp]:
  "FormatI64Shifted v ValueDecimals1e8 = FormatI64Shifted w ValueDecimals1e8 \<longleftrightarrow> v = w"
proof
  assume eq: "FormatI64Shifted v ValueDecimals1e8 = FormatI64Shifted w ValueDecimals1e8"
  obtain s where s: "FormatAmountPlain (Some \<bar>v\<bar>) ValueDecimals1e8 = Inr s"
    "FormatI64Shifted v ValueDecimals1e8 = (if v < 0 then ''-'' else []) @ s"
    by (rule FormatI64Shifted_eq)
  obtain t where t: "FormatAmountPlain (Some \<bar>w\<bar>) ValueDecimals1e8 = Inr t"
    "FormatI64Shifted w ValueDecimals1e8 = (if w < 0 then ''-'' else []) @ t"
    by (rule FormatI64Shifted_eq)
  have "CHR ''-'' \<notin> set s" "CHR ''-'' \<notin> set t"
    using FormatAmountPlain_chars [OF s(1)] FormatAmountPlain_chars [OF t(1)]
    by (auto simp: is_digit_def)
  moreover have "(if v < 0 then ''-'' else []) @ s = (if w < 0 then ''-'' else []) @ t"
    using eq s(2) t(2) by simp
  ultimately have "(v < 0) = (w < 0) \<and> s = t"
    by (cases "v < 0"; cases "w < 0") auto
  with s(1) t(1) show "v = w"
    by (smt (verit) parse_FormatAmountPlain)
qed simp

section \<open>Grouping is display only\<close>

lemma filter_group_loop: "CHR '','' \<notin> set s \<Longrightarrow> filter (\<lambda>c. c \<noteq> CHR '','') (group_loop s) = s"
proof (induction s rule: group_loop.induct)
  case (1 s)
  have "CHR '','' \<notin> set (take 3 s)" "CHR '','' \<notin> set (drop 3 s)"
    using "1.prems" by (auto dest: in_set_takeD in_set_dropD)
  then have "filter (\<lambda>c. c \<noteq> CHR '','') (take 3 s) = take 3 s" by (auto intro: filter_True)
  with 1 \<open>CHR '','' \<notin> set (drop 3 s)\<close> show ?case
    by (subst group_loop.simps) auto
qed

lemma filter_groupInteger:
  assumes "CHR '','' \<notin> set s"
  shows "filter (\<lambda>c. c \<noteq> CHR '','') (groupInteger s) = s"
proof -
  have *: "CHR '','' \<notin> set (take k s)" "CHR '','' \<notin> set (drop k s)" for k
    using assms by (auto dest: in_set_takeD in_set_dropD)
  have keep: "CHR '','' \<notin> set t \<Longrightarrow> filter (\<lambda>c. c \<noteq> CHR '','') t = t" for t
    by (induction t) auto
  then have "filter (\<lambda>c. c \<noteq> CHR '','') (take k s) = take k s" for k
    using * by blast
  with * assms show ?thesis
    by (simp add: groupInteger_def Let_def filter_group_loop keep)
qed

end
