(* ===== verification/Solana.thy ===== *)
theory Solana
  imports Prelude "HOL-Library.Numeral_Type"
begin

text \<open>
  The vocabulary of \<open>gateway/internal/policy/pda.go\<close> and of the instruction builders: Go's
  fixed arrays \<open>[N]byte\<close>, account metas and instructions, and the seeds of every
  program-derived address. \<open>github.com/gagliardetto/solana-go\<close> is not part of the
  repository: \<open>FindProgramAddress\<close>, the base58 rendering and the well-known program
  addresses are the fields of the record \<open>solana_env\<close>, an argument of every definition
  that uses them.
\<close>

section \<open>Fixed arrays\<close>

typedef (overloaded) ('n::len) arr = "{bs :: bytes. length bs = LENGTH('n)}"
  morphisms arr_bytes Abs_arr
  by (rule exI [of _ "replicate LENGTH('n) 0"]) simp

text \<open>\<open>copy(out[:], bs)\<close> into a zeroed array: cut to the array, zero-padded.\<close>

definition mk_arr :: "bytes \<Rightarrow> 'n::len arr" where
  "mk_arr bs = Abs_arr (take LENGTH('n) (bs @ replicate LENGTH('n) 0))"

lemma Abs_arr_arr_bytes [code abstype]: "Abs_arr (arr_bytes a) = a"
  by (rule arr_bytes_inverse)

lemma arr_bytes_mk_arr_gen [code abstract]:
  "arr_bytes (mk_arr bs :: 'n::len arr) = take LENGTH('n) (bs @ replicate LENGTH('n) 0)"
  by (simp add: mk_arr_def Abs_arr_inverse)

lemma length_arr_bytes [simp]: "length (arr_bytes (a :: 'n::len arr)) = LENGTH('n)"
  using arr_bytes [of a] by simp

lemma arr_bytes_inj [simp]: "arr_bytes a = arr_bytes b \<longleftrightarrow> a = b"
  by (rule arr_bytes_inject)

lemma arr_bytes_append_inj [simp]:
  "arr_bytes (a :: 'n::len arr) @ r = arr_bytes b @ s \<longleftrightarrow> a = b \<and> r = s"
  by auto

instantiation arr :: (len) equal
begin

definition equal_arr :: "'a arr \<Rightarrow> 'a arr \<Rightarrow> bool" where
  "equal_arr a b \<longleftrightarrow> arr_bytes a = arr_bytes b"

instance
  by standard (simp add: equal_arr_def)

end

lemma mk_arr_arr_bytes [simp]: "mk_arr (arr_bytes a) = a"
  by (simp flip: arr_bytes_inj add: arr_bytes_mk_arr_gen)

lemma arr_bytes_mk_arr:
  "length bs = LENGTH('n) \<Longrightarrow> arr_bytes (mk_arr bs :: 'n::len arr) = bs"
  by (simp add: arr_bytes_mk_arr_gen)

definition zero_arr :: "'n::len arr" where "zero_arr = mk_arr []"

lemma arr_bytes_zero: "arr_bytes (zero_arr :: 'n::len arr) = replicate LENGTH('n) 0"
  by (simp add: zero_arr_def arr_bytes_mk_arr_gen)

type_synonym key = "32 arr"
type_synonym hash = "32 arr"
type_synonym slot = "34 arr"

section \<open>Instructions\<close>

record account_meta =
  PublicKey :: key
  IsSigner :: bool
  IsWritable :: bool

record instruction =
  ProgID :: key
  Accounts :: "account_meta list"
  Data :: bytes

abbreviation ro :: "key \<Rightarrow> account_meta" where
  "ro k \<equiv> \<lparr>PublicKey = k, IsSigner = False, IsWritable = False\<rparr>"
abbreviation wr :: "key \<Rightarrow> account_meta" where
  "wr k \<equiv> \<lparr>PublicKey = k, IsSigner = False, IsWritable = True\<rparr>"
abbreviation ro_signer :: "key \<Rightarrow> account_meta" where
  "ro_signer k \<equiv> \<lparr>PublicKey = k, IsSigner = True, IsWritable = False\<rparr>"
abbreviation wr_signer :: "key \<Rightarrow> account_meta" where
  "wr_signer k \<equiv> \<lparr>PublicKey = k, IsSigner = True, IsWritable = True\<rparr>"

record solana_env =
  FindProgramAddress :: "bytes list \<Rightarrow> key \<Rightarrow> string + key \<times> u8"
  Base58 :: "key \<Rightarrow> string"
  SysvarInstructions :: key
  SysvarClock :: key
  SysvarRent :: key
  SystemProgramID :: key
  IkaDwalletProgramID :: key
  IkaCoordinatorFallback :: key
  Ed25519PrecompileID :: key
  Secp256k1PrecompileID :: key
  Secp256r1PrecompileID :: key

datatype policy_error =
    PdaError string
  | NoPdaSeed u8
  | DigestNot32
  | BadField string

section \<open>Rule kinds\<close>

type_synonym rule_kind = u8

abbreviation KindEmpty :: rule_kind where "KindEmpty \<equiv> 0"
abbreviation KindAllowlist :: rule_kind where "KindAllowlist \<equiv> 1"
abbreviation KindVelocity :: rule_kind where "KindVelocity \<equiv> 2"
abbreviation KindTimeLock :: rule_kind where "KindTimeLock \<equiv> 3"
abbreviation KindOracle :: rule_kind where "KindOracle \<equiv> 4"
abbreviation KindPasskey :: rule_kind where "KindPasskey \<equiv> 5"
abbreviation KindFheGated :: rule_kind where "KindFheGated \<equiv> 6"
abbreviation KindSessionKey :: rule_kind where "KindSessionKey \<equiv> 7"
abbreviation KindRecovery :: rule_kind where "KindRecovery \<equiv> 8"
abbreviation KindSpendingUsd :: rule_kind where "KindSpendingUsd \<equiv> 9"

definition SeedForKind :: "rule_kind \<Rightarrow> policy_error + bytes" where
  "SeedForKind kind =
     (if kind = KindAllowlist then Inr (ascii ''rule_allowlist'')
      else if kind = KindVelocity then Inr (ascii ''rule_velocity'')
      else if kind = KindTimeLock then Inr (ascii ''rule_time_lock'')
      else if kind = KindOracle then Inr (ascii ''rule_oracle'')
      else if kind = KindPasskey then Inr (ascii ''rule_passkey'')
      else if kind = KindFheGated then Inr (ascii ''rule_fhe_gated'')
      else if kind = KindSessionKey then Inr (ascii ''rule_session_key'')
      else if kind = KindRecovery then Inr (ascii ''rule_recovery'')
      else if kind = KindSpendingUsd then Inr (ascii ''rule_spending_usd'')
      else Inl (NoPdaSeed kind))"

section \<open>Program-derived addresses\<close>

definition find_pda :: "solana_env \<Rightarrow> bytes list \<Rightarrow> key \<Rightarrow> policy_error + key \<times> u8" where
  "find_pda E seeds prog =
     (case FindProgramAddress E seeds prog of Inl e \<Rightarrow> Inl (PdaError e) | Inr r \<Rightarrow> Inr r)"

definition engine_seeds :: "key \<Rightarrow> hash \<Rightarrow> bytes list" where
  "engine_seeds dwallet initHash = [ascii ''policy_engine'', arr_bytes dwallet, arr_bytes initHash]"

definition EnginePDA :: "solana_env \<Rightarrow> key \<Rightarrow> key \<Rightarrow> hash \<Rightarrow> policy_error + key \<times> u8" where
  "EnginePDA E programID dwallet initHash = find_pda E (engine_seeds dwallet initHash) programID"

definition rule_seeds :: "key \<Rightarrow> rule_kind \<Rightarrow> u8 \<Rightarrow> policy_error + bytes list" where
  "rule_seeds engine kind slotIndex =
     bind_res (SeedForKind kind) (\<lambda>seed. Inr [seed, arr_bytes engine, [slotIndex]])"

definition RulePDA :: "solana_env \<Rightarrow> key \<Rightarrow> key \<Rightarrow> rule_kind \<Rightarrow> u8 \<Rightarrow> policy_error + key \<times> u8" where
  "RulePDA E programID engine kind slotIndex =
     bind_res (rule_seeds engine kind slotIndex) (\<lambda>seeds. find_pda E seeds programID)"

definition CPIAuthorityPDA :: "solana_env \<Rightarrow> key \<Rightarrow> policy_error + key \<times> u8" where
  "CPIAuthorityPDA E programID = find_pda E [ascii ''__ika_cpi_authority''] programID"

definition EventAuthorityPDA :: "solana_env \<Rightarrow> key \<Rightarrow> policy_error + key \<times> u8" where
  "EventAuthorityPDA E programID = find_pda E [ascii ''__event_authority''] programID"

definition session_seeds :: "key \<Rightarrow> u32 \<Rightarrow> bytes list" where
  "session_seeds engine idx = [ascii ''session'', arr_bytes engine, U32LE idx]"

definition SessionPDA :: "solana_env \<Rightarrow> key \<Rightarrow> key \<Rightarrow> u32 \<Rightarrow> policy_error + key \<times> u8" where
  "SessionPDA E programID engine idx = find_pda E (session_seeds engine idx) programID"

definition quorum_seeds :: "key \<Rightarrow> u64 \<Rightarrow> bytes list" where
  "quorum_seeds engine nonce = [ascii ''quorum_session'', arr_bytes engine, U64LE nonce]"

definition QuorumSessionPDA :: "solana_env \<Rightarrow> key \<Rightarrow> key \<Rightarrow> u64 \<Rightarrow> policy_error + key \<times> u8" where
  "QuorumSessionPDA E programID engine nonce = find_pda E (quorum_seeds engine nonce) programID"

definition passkey_seeds :: "key \<Rightarrow> u64 \<Rightarrow> bytes list" where
  "passkey_seeds engine nonce = [ascii ''passkey_session'', arr_bytes engine, U64LE nonce]"

definition PasskeySessionPDA :: "solana_env \<Rightarrow> key \<Rightarrow> key \<Rightarrow> u64 \<Rightarrow> policy_error + key \<times> u8" where
  "PasskeySessionPDA E programID engine nonce = find_pda E (passkey_seeds engine nonce) programID"

definition IkaCoordinator :: "solana_env \<Rightarrow> key" where
  "IkaCoordinator E =
     (case FindProgramAddress E [ascii ''dwallet_coordinator''] (IkaDwalletProgramID E) of
        Inl _ \<Rightarrow> IkaCoordinatorFallback E
      | Inr (pk, _) \<Rightarrow> pk)"

text \<open>\<open>sha256\<close> is an argument (\<open>sha\<close>): only its type, 32 bytes out, matters here.\<close>

definition InitAuthorityHashFromSlot :: "(bytes \<Rightarrow> hash) \<Rightarrow> slot \<Rightarrow> hash" where
  "InitAuthorityHashFromSlot sha s = sha (arr_bytes s)"

section \<open>The MessageApproval address\<close>

definition isAllZero :: "bytes \<Rightarrow> bool" where
  "isAllZero b \<longleftrightarrow> list_all (\<lambda>x. x = 0) b"

text \<open>The loop \<open>for i := 0; i < len(buf); i += 32\<close>, over what is left of \<open>buf\<close>.\<close>

function chunks32 :: "bytes \<Rightarrow> bytes list" where
  "chunks32 buf = (if buf = [] then [] else take 32 buf # chunks32 (drop 32 buf))"
  by pat_completeness auto
termination by (relation "measure length") auto

declare chunks32.simps [simp del]

definition chunkDwalletSeedPayload :: "u16 \<Rightarrow> bytes \<Rightarrow> bytes list" where
  "chunkDwalletSeedPayload curve pk = chunks32 (ucast curve # ucast (drop_bit 8 curve) # pk)"

definition approval_seeds :: "u16 \<Rightarrow> bytes \<Rightarrow> u16 \<Rightarrow> bytes \<Rightarrow> bytes \<Rightarrow> bytes list" where
  "approval_seeds curve dwalletPubkey scheme messageDigest meta =
     [ascii ''dwallet''] @ chunkDwalletSeedPayload curve dwalletPubkey @ [ascii ''message_approval'']
     @ [[ucast scheme, ucast (drop_bit 8 scheme)]] @ [messageDigest]
     @ (if length meta = 32 \<and> \<not> isAllZero meta then [meta] else [])"

definition MessageApprovalPDA ::
    "solana_env \<Rightarrow> u16 \<Rightarrow> bytes \<Rightarrow> u16 \<Rightarrow> bytes \<Rightarrow> bytes \<Rightarrow> policy_error + key \<times> u8" where
  "MessageApprovalPDA E curve dwalletPubkey scheme messageDigest meta =
     (if length messageDigest \<noteq> 32 then Inl DigestNot32
      else find_pda E (approval_seeds curve dwalletPubkey scheme messageDigest meta)
             (IkaDwalletProgramID E))"

lemma chunks32_Nil [simp]: "chunks32 [] = []"
  by (subst chunks32.simps) simp

lemma concat_chunks32: "concat (chunks32 buf) = buf"
proof (induction buf rule: chunks32.induct)
  case (1 buf)
  then show ?case by (subst chunks32.simps) auto
qed

lemma chunks32_len: "c \<in> set (chunks32 buf) \<Longrightarrow> c \<noteq> [] \<and> length c \<le> 32"
proof (induction buf rule: chunks32.induct)
  case (1 buf)
  then show ?case by (subst (asm) chunks32.simps) (auto split: if_splits)
qed

lemma length_chunks32: "length (chunks32 buf) = (length buf + 31) div 32"
proof (induction buf rule: chunks32.induct)
  case (1 buf)
  show ?case
  proof (cases "buf = []")
    case False
    with 1 have "length (chunks32 buf) = Suc ((length buf - 32 + 31) div 32)"
      by (subst chunks32.simps) simp
    also have "\<dots> = (length buf + 31) div 32"
      using False by (cases "length buf \<le> 32") (auto simp: Suc_le_eq div_if)
    finally show ?thesis .
  qed simp
qed

section \<open>Seeds separate the address families\<close>

text \<open>Solana hashes the concatenation of the seeds, so families of addresses must differ
  after concatenation, not only as lists.\<close>

datatype pda_id =
    PEngine key hash
  | PRule key rule_kind u8
  | PSession key u32
  | PQuorum key u64
  | PPasskey key u64

fun pda_preimage :: "pda_id \<Rightarrow> policy_error + bytes" where
  "pda_preimage (PEngine d h) = Inr (concat (engine_seeds d h))"
| "pda_preimage (PRule e k i) = bind_res (rule_seeds e k i) (\<lambda>s. Inr (concat s))"
| "pda_preimage (PSession e i) = Inr (concat (session_seeds e i))"
| "pda_preimage (PQuorum e n) = Inr (concat (quorum_seeds e n))"
| "pda_preimage (PPasskey e n) = Inr (concat (passkey_seeds e n))"

lemmas seed_defs = engine_seeds_def rule_seeds_def session_seeds_def quorum_seeds_def
  passkey_seeds_def

lemma SeedForKind_cases:
  assumes "SeedForKind k = Inr s"
  obtains "k = 1" "s = ascii ''rule_allowlist''" | "k = 2" "s = ascii ''rule_velocity''"
    | "k = 3" "s = ascii ''rule_time_lock''" | "k = 4" "s = ascii ''rule_oracle''"
    | "k = 5" "s = ascii ''rule_passkey''" | "k = 6" "s = ascii ''rule_fhe_gated''"
    | "k = 7" "s = ascii ''rule_session_key''" | "k = 8" "s = ascii ''rule_recovery''"
    | "k = 9" "s = ascii ''rule_spending_usd''"
  using assms by (auto simp: SeedForKind_def split: if_splits)

lemma seed_append_eq:
  "length x = length y \<Longrightarrow> ascii s @ x = ascii t @ y \<longleftrightarrow> s = t \<and> x = y"
proof
  assume l: "length x = length y" and eq: "ascii s @ x = ascii t @ y"
  then have "length (ascii s) = length (ascii t)"
    by (metis add_right_cancel length_append)
  with eq have "ascii s = ascii t" "x = y" by auto
  then show "s = t \<and> x = y" by simp
qed simp

lemma SeedForKind_inj:
  assumes "SeedForKind k = Inr s" "SeedForKind l = Inr s"
  shows "k = l"
  using assms(1)
  by (rule SeedForKind_cases; use assms(2) in \<open>rule SeedForKind_cases\<close>; simp)

definition kind_label :: "rule_kind \<Rightarrow> string" where
  "kind_label k =
     (if k = 1 then ''rule_allowlist'' else if k = 2 then ''rule_velocity''
      else if k = 3 then ''rule_time_lock'' else if k = 4 then ''rule_oracle''
      else if k = 5 then ''rule_passkey'' else if k = 6 then ''rule_fhe_gated''
      else if k = 7 then ''rule_session_key'' else if k = 8 then ''rule_recovery''
      else ''rule_spending_usd'')"

lemma SeedForKind_label: "SeedForKind k = Inr s \<Longrightarrow> s = ascii (kind_label k)"
  by (auto simp: SeedForKind_def kind_label_def split: if_splits)

fun pda_label :: "pda_id \<Rightarrow> string" where
  "pda_label (PEngine _ _) = ''policy_engine''"
| "pda_label (PRule _ k _) = kind_label k"
| "pda_label (PSession _ _) = ''session''"
| "pda_label (PQuorum _ _) = ''quorum_session''"
| "pda_label (PPasskey _ _) = ''passkey_session''"

fun pda_tail :: "pda_id \<Rightarrow> bytes" where
  "pda_tail (PEngine d h) = arr_bytes d @ arr_bytes h"
| "pda_tail (PRule e _ i) = arr_bytes e @ [i]"
| "pda_tail (PSession e i) = arr_bytes e @ U32LE i"
| "pda_tail (PQuorum e n) = arr_bytes e @ U64LE n"
| "pda_tail (PPasskey e n) = arr_bytes e @ U64LE n"

lemma pda_preimage_split: "pda_preimage a = Inr x \<Longrightarrow> x = ascii (pda_label a) @ pda_tail a"
  by (cases a) (auto simp: seed_defs dest: SeedForKind_label)

lemma kind_label_cases:
  "kind_label k \<in> {''rule_allowlist'', ''rule_velocity'', ''rule_time_lock'', ''rule_oracle'',
     ''rule_passkey'', ''rule_fhe_gated'', ''rule_session_key'', ''rule_recovery'',
     ''rule_spending_usd''}"
  by (simp add: kind_label_def)

lemma kind_label_len: "length (kind_label k) \<in> {11, 12, 13, 14, 16, 17}"
  by (simp add: kind_label_def)

lemma pda_lens:
  "(length (pda_label a), length (pda_tail a))
     \<in> {(13, 64), (11, 33), (12, 33), (13, 33), (14, 33), (16, 33), (17, 33), (7, 36), (14, 40), (15, 40)}"
proof (cases a)
  case (PRule e k i)
  then show ?thesis using kind_label_len [of k] by auto
qed simp_all

lemma pda_tail_len:
  "length (pda_label a) + length (pda_tail a) = length (pda_label b) + length (pda_tail b)
   \<Longrightarrow> length (pda_tail a) = length (pda_tail b)"
  using pda_lens [of a] pda_lens [of b] by auto

lemma pda_label_tail_inj:
  assumes "pda_preimage a = Inr x" "pda_preimage b = Inr y"
    and "pda_label a = pda_label b" "pda_tail a = pda_tail b"
  shows "a = b"
proof -
  have *: "kind_label k \<notin> {''policy_engine'', ''session'', ''quorum_session'', ''passkey_session''}" for k
    using kind_label_cases [of k] by auto
  have "SeedForKind k = Inr s \<Longrightarrow> SeedForKind l = Inr t \<Longrightarrow> kind_label k = kind_label l \<Longrightarrow> k = l"
    for k l s t
    by (metis SeedForKind_label SeedForKind_inj)
  with assms * show ?thesis
    by (cases a; cases b) (auto simp: seed_defs)
qed

text \<open>
  Two program-derived addresses of the gateway (engine, rule of any kind, session,
  quorum session, passkey session) are derived from the same seed bytes only if they are the
  same address of the same family: no choice of keys, indices or nonces makes a session
  address out of the seeds of a rule, or a rule of one kind out of a rule of another.
\<close>

theorem pda_preimage_injective:
  assumes ne: "a \<noteq> b" and a: "pda_preimage a = Inr x"
  shows "pda_preimage b \<noteq> Inr x"
proof
  assume b: "pda_preimage b = Inr x"
  have eq: "ascii (pda_label a) @ pda_tail a = ascii (pda_label b) @ pda_tail b"
    using pda_preimage_split a b by metis
  then have "length (ascii (pda_label a) @ pda_tail a) = length (ascii (pda_label b) @ pda_tail b)"
    by (rule arg_cong)
  then have "length (pda_tail a) = length (pda_tail b)"
    by (intro pda_tail_len) (simp only: length_append length_ascii)
  with eq have "pda_label a = pda_label b \<and> pda_tail a = pda_tail b"
    by (simp add: seed_append_eq)
  with a b ne show False by (blast dest: pda_label_tail_inj)
qed

theorem pda_preimage_injective_witness:
  "pda_preimage (PQuorum zero_arr 5) \<noteq> Inr (ascii ''passkey_session'' @ replicate 32 0 @ U64LE 5)"
proof -
  have "pda_preimage (PPasskey zero_arr 5) = Inr (ascii ''passkey_session'' @ replicate 32 0 @ U64LE 5)"
    by (simp add: passkey_seeds_def arr_bytes_zero)
  then show ?thesis
    by (intro pda_preimage_injective [of "PPasskey zero_arr 5"]) simp_all
qed


section \<open>An environment for concrete runs\<close>

text \<open>Stand-ins for the third-party functions, with which the theorems that assume something of
  them are applied: a key is written as 43 characters of six bits, an address is the cut
  concatenation of its seeds.\<close>

fun sextets :: "nat \<Rightarrow> nat \<Rightarrow> string" where
  "sextets 0 n = []"
| "sextets (Suc k) n = char_of (33 + n mod 64) # sextets k (n div 64)"

definition key_text :: "key \<Rightarrow> string" where
  "key_text k = sextets 43 (nat_le (arr_bytes k))"

lemma length_sextets [simp]: "length (sextets k n) = k"
  by (induction k arbitrary: n) auto

lemma sextets_chars: "c \<in> set (sextets k n) \<Longrightarrow> 33 \<le> (of_char c :: nat) \<and> (of_char c :: nat) < 97"
  by (induction k arbitrary: n) (auto simp: of_char_of)

lemma sextets_inj: "m < 64 ^ k \<Longrightarrow> n < 64 ^ k \<Longrightarrow> sextets k m = sextets k n \<Longrightarrow> m = n"
proof (induction k arbitrary: m n)
  case (Suc k)
  have "(of_char (char_of (33 + m mod 64)) :: nat) = of_char (char_of (33 + n mod 64))"
    using Suc.prems(3) by simp
  then have "m mod 64 = n mod 64" by (simp add: of_char_of)
  moreover have "m div 64 = n div 64" using Suc by auto
  ultimately show ?case by (metis div_mult_mod_eq)
qed simp

lemma key_text_chars:
  "c \<in> set (key_text k) \<Longrightarrow> 33 \<le> (of_char c :: nat) \<and> (of_char c :: nat) < 97"
  "length (key_text k) = 43"
  using sextets_chars by (auto simp: key_text_def)

lemma key_text_inj: "key_text a = key_text b \<longleftrightarrow> a = b"
proof
  assume eq: "key_text a = key_text b"
  have "nat_le (arr_bytes k) < 64 ^ 43" for k :: key
    using nat_le_bound [of "arr_bytes k"] by (rule order.strict_trans2) simp
  with eq have "nat_le (arr_bytes a) = nat_le (arr_bytes b)"
    unfolding key_text_def by (blast dest: sextets_inj)
  then have "arr_bytes a = arr_bytes b"
    by (metis le_nat_nat_le length_arr_bytes)
  then show "a = b" by simp
qed simp

definition key_of :: "u8 \<Rightarrow> key" where "key_of b = mk_arr (replicate 32 b)"

definition sample_env :: solana_env where
  "sample_env =
     \<lparr>FindProgramAddress = (\<lambda>seeds prog. Inr (mk_arr (concat seeds), 255)), Base58 = key_text,
      SysvarInstructions = key_of 1, SysvarClock = key_of 2, SysvarRent = key_of 3,
      SystemProgramID = zero_arr, IkaDwalletProgramID = key_of 5, IkaCoordinatorFallback = key_of 6,
      Ed25519PrecompileID = key_of 7, Secp256k1PrecompileID = key_of 8, Secp256r1PrecompileID = key_of 9\<rparr>"

end
