(* ===== verification/ClearSigning.thy ===== *)
theory ClearSigning
  imports HumanFmt Solana
begin

text \<open>
  \<open>gateway/internal/auth/clear_signing.go\<close>: the bounded ASCII writer and the 23 renderers of
  the text an approver reads before signing an administrative change. A renderer is the
  sequence of writes of the Go function, run until the first error. The section on words
  shows that the text determines the operation and every parameter of it.
\<close>

section \<open>The bounded writer\<close>

datatype msg_error = errNonAscii | errBufferTooSmall

definition MaxHumanMessageBytes :: nat where "MaxHumanMessageBytes = 768"

type_synonym writer = "string \<Rightarrow> msg_error + string"

definition printable :: "char \<Rightarrow> bool" where
  "printable c \<longleftrightarrow> 0x20 \<le> (of_char c :: nat) \<and> (of_char c :: nat) \<le> 0x7e"

definition writeBytes :: "string \<Rightarrow> writer" where
  "writeBytes p w =
     (if length w + length p > MaxHumanMessageBytes then Inl errBufferTooSmall else Inr (w @ p))"

definition writeStr :: "string \<Rightarrow> writer" where
  "writeStr s w = (if list_ex (\<lambda>c. \<not> printable c) s then Inl errNonAscii else writeBytes s w)"

definition writeU16Dec :: "u16 \<Rightarrow> writer" where "writeU16Dec v = writeStr (dec (unat v))"
definition writeU32Dec :: "u32 \<Rightarrow> writer" where "writeU32Dec v = writeStr (dec (unat v))"
definition writeU64Dec :: "u64 \<Rightarrow> writer" where "writeU64Dec v = writeStr (dec (unat v))"
definition writeI64Dec :: "int \<Rightarrow> writer" where
  "writeI64Dec v = writeStr (if v < 0 then ''-'' @ dec (nat (- v)) else dec (nat v))"

definition hex_digit :: "nat \<Rightarrow> char" where
  "hex_digit n = ''0123456789abcdef'' ! (n mod 16)"

definition hex_lower :: "bytes \<Rightarrow> string" where
  "hex_lower b = concat (map (\<lambda>x. [hex_digit (unat x div 16), hex_digit (unat x mod 16)]) b)"

definition writeHexLower :: "bytes \<Rightarrow> writer" where
  "writeHexLower b w =
     (if length w + length b * 2 > MaxHumanMessageBytes then Inl errBufferTooSmall
      else Inr (w @ hex_lower b))"

definition writeBase58_32 :: "solana_env \<Rightarrow> key \<Rightarrow> writer" where
  "writeBase58_32 E addr = writeStr (Base58 E addr)"

text \<open>\<open>w := newMsgWriter(); if err := ...; err != nil { return "", err }; ...\<close>\<close>

fun run_writes :: "writer list \<Rightarrow> writer" where
  "run_writes [] w = Inr w"
| "run_writes (f # fs) w = bind_res (f w) (run_writes fs)"

abbreviation rendered :: "writer list \<Rightarrow> msg_error + string" where
  "rendered fs \<equiv> run_writes fs []"

definition timeLockModeLabel :: "u8 \<Rightarrow> string" where
  "timeLockModeLabel mode =
     (if mode = 0 then ''before'' else if mode = 1 then ''after''
      else if mode = 2 then ''between'' else if mode = 3 then ''recurring'' else ''unknown'')"

text \<open>\<open>HumanLenLE\<close>: \<open>None\<close> is the panic.\<close>

definition HumanLenLE :: "bytes \<Rightarrow> bytes option" where
  "HumanLenLE human =
     (if length human > 0xffff then None else Some (U16LE (of_nat (length human))))"

section \<open>The renderers\<close>

definition pauseResumeMessage :: "solana_env \<Rightarrow> string \<Rightarrow> key \<Rightarrow> key \<Rightarrow> msg_error + string" where
  "pauseResumeMessage E lead policy dwallet = rendered
     [writeStr lead, writeBase58_32 E policy, writeStr '' for dWallet '', writeBase58_32 E dwallet]"

definition programSessionKeysMessage ::
    "solana_env \<Rightarrow> string \<Rightarrow> key \<Rightarrow> key \<Rightarrow> key \<Rightarrow> msg_error + string" where
  "programSessionKeysMessage E lead programID policy dwallet = rendered
     [writeStr lead, writeBase58_32 E programID, writeStr '' on session-keys policy '',
      writeBase58_32 E policy, writeStr '' for dWallet '', writeBase58_32 E dwallet]"

definition AllowlistAddDestinationMessage :: "solana_env \<Rightarrow> key \<Rightarrow> key \<Rightarrow> key \<Rightarrow> msg_error + string" where
  "AllowlistAddDestinationMessage E destination policy dwallet = rendered
     [writeStr ''Allow destination '', writeHexLower (arr_bytes destination),
      writeStr '' on allowlist policy '', writeBase58_32 E policy,
      writeStr '' for dWallet '', writeBase58_32 E dwallet]"

definition AllowlistRemoveDestinationMessage :: "solana_env \<Rightarrow> key \<Rightarrow> key \<Rightarrow> key \<Rightarrow> msg_error + string" where
  "AllowlistRemoveDestinationMessage E destination policy dwallet = rendered
     [writeStr ''Block destination '', writeHexLower (arr_bytes destination),
      writeStr '' on allowlist policy '', writeBase58_32 E policy,
      writeStr '' for dWallet '', writeBase58_32 E dwallet]"

definition AllowlistPauseMessage :: "solana_env \<Rightarrow> key \<Rightarrow> key \<Rightarrow> msg_error + string" where
  "AllowlistPauseMessage E = pauseResumeMessage E ''Pause allowlist policy ''"
definition AllowlistResumeMessage :: "solana_env \<Rightarrow> key \<Rightarrow> key \<Rightarrow> msg_error + string" where
  "AllowlistResumeMessage E = pauseResumeMessage E ''Resume allowlist policy ''"

definition VelocityUpdateWindowMessage ::
    "solana_env \<Rightarrow> u32 \<Rightarrow> u64 \<Rightarrow> key \<Rightarrow> key \<Rightarrow> msg_error + string" where
  "VelocityUpdateWindowMessage E maxSigsPerWindow windowSlots policy dwallet = rendered
     [writeStr ''Update velocity window on policy '', writeBase58_32 E policy,
      writeStr '' for dWallet '', writeBase58_32 E dwallet,
      writeStr '' to '', writeU32Dec maxSigsPerWindow,
      writeStr '' signatures per '', writeU64Dec windowSlots, writeStr '' slots'']"

definition VelocityPauseMessage :: "solana_env \<Rightarrow> key \<Rightarrow> key \<Rightarrow> msg_error + string" where
  "VelocityPauseMessage E = pauseResumeMessage E ''Pause velocity-guard policy ''"
definition VelocityResumeMessage :: "solana_env \<Rightarrow> key \<Rightarrow> key \<Rightarrow> msg_error + string" where
  "VelocityResumeMessage E = pauseResumeMessage E ''Resume velocity-guard policy ''"

definition TimeLockUpdateWindowMessage ::
    "solana_env \<Rightarrow> u8 \<Rightarrow> u64 \<Rightarrow> u64 \<Rightarrow> u64 \<Rightarrow> key \<Rightarrow> key \<Rightarrow> msg_error + string" where
  "TimeLockUpdateWindowMessage E mode startSlot endSlot recurringPeriodSlots policy dwallet = rendered
     [writeStr ''Update time-lock window on policy '', writeBase58_32 E policy,
      writeStr '' for dWallet '', writeBase58_32 E dwallet,
      writeStr '' mode '', writeStr (timeLockModeLabel mode),
      writeStr '' start '', writeU64Dec startSlot,
      writeStr '' end '', writeU64Dec endSlot,
      writeStr '' period '', writeU64Dec recurringPeriodSlots]"

definition TimeLockPauseMessage :: "solana_env \<Rightarrow> key \<Rightarrow> key \<Rightarrow> msg_error + string" where
  "TimeLockPauseMessage E = pauseResumeMessage E ''Pause time-lock policy ''"
definition TimeLockResumeMessage :: "solana_env \<Rightarrow> key \<Rightarrow> key \<Rightarrow> msg_error + string" where
  "TimeLockResumeMessage E = pauseResumeMessage E ''Resume time-lock policy ''"

definition OracleUpdateBoundsMessage ::
    "solana_env \<Rightarrow> int \<Rightarrow> int \<Rightarrow> u64 \<Rightarrow> u16 \<Rightarrow> key \<Rightarrow> key \<Rightarrow> msg_error + string" where
  "OracleUpdateBoundsMessage E minPrice maxPrice maxAgeSlots maxConfidenceBps policy dwallet = rendered
     [writeStr ''Update oracle bounds on policy '', writeBase58_32 E policy,
      writeStr '' for dWallet '', writeBase58_32 E dwallet,
      writeStr '' min '', writeStr (FormatI64Shifted minPrice ValueDecimals1e8),
      writeStr '' max '', writeStr (FormatI64Shifted maxPrice ValueDecimals1e8),
      writeStr '' maxAge '', writeU64Dec maxAgeSlots,
      writeStr '' maxConfidence '', writeU16Dec maxConfidenceBps, writeStr '' bps'']"

definition OraclePauseMessage :: "solana_env \<Rightarrow> key \<Rightarrow> key \<Rightarrow> msg_error + string" where
  "OraclePauseMessage E = pauseResumeMessage E ''Pause oracle-conditional policy ''"
definition OracleResumeMessage :: "solana_env \<Rightarrow> key \<Rightarrow> key \<Rightarrow> msg_error + string" where
  "OracleResumeMessage E = pauseResumeMessage E ''Resume oracle-conditional policy ''"

definition PasskeyUpdatePolicyMessage ::
    "solana_env \<Rightarrow> u64 \<Rightarrow> 33 arr \<Rightarrow> key \<Rightarrow> key \<Rightarrow> msg_error + string" where
  "PasskeyUpdatePolicyMessage E thresholdAmount passkeyPubkey policy dwallet = rendered
     [writeStr ''Update passkey step-up on policy '', writeBase58_32 E policy,
      writeStr '' for dWallet '', writeBase58_32 E dwallet,
      writeStr '' threshold '', writeU64Dec thresholdAmount,
      writeStr '' passkey '', writeHexLower (arr_bytes passkeyPubkey)]"

definition PasskeyPauseMessage :: "solana_env \<Rightarrow> key \<Rightarrow> key \<Rightarrow> msg_error + string" where
  "PasskeyPauseMessage E = pauseResumeMessage E ''Pause passkey step-up policy ''"
definition PasskeyResumeMessage :: "solana_env \<Rightarrow> key \<Rightarrow> key \<Rightarrow> msg_error + string" where
  "PasskeyResumeMessage E = pauseResumeMessage E ''Resume passkey step-up policy ''"

definition SessionKeysRevokeSessionMessage :: "solana_env \<Rightarrow> key \<Rightarrow> key \<Rightarrow> msg_error + string" where
  "SessionKeysRevokeSessionMessage E policy dwallet = rendered
     [writeStr ''Revoke session keys on policy '', writeBase58_32 E policy,
      writeStr '' for dWallet '', writeBase58_32 E dwallet]"

definition SessionKeysAddAllowedProgramMessage ::
    "solana_env \<Rightarrow> key \<Rightarrow> key \<Rightarrow> key \<Rightarrow> msg_error + string" where
  "SessionKeysAddAllowedProgramMessage E = programSessionKeysMessage E ''Allow program ''"
definition SessionKeysRemoveAllowedProgramMessage ::
    "solana_env \<Rightarrow> key \<Rightarrow> key \<Rightarrow> key \<Rightarrow> msg_error + string" where
  "SessionKeysRemoveAllowedProgramMessage E = programSessionKeysMessage E ''Block program ''"

definition SessionKeysCloseSessionMessage ::
    "solana_env \<Rightarrow> key \<Rightarrow> key \<Rightarrow> key \<Rightarrow> msg_error + string" where
  "SessionKeysCloseSessionMessage E recipient policy dwallet = rendered
     [writeStr ''Close session-keys policy '', writeBase58_32 E policy,
      writeStr '' for dWallet '', writeBase58_32 E dwallet,
      writeStr '' refund recipient '', writeBase58_32 E recipient]"

definition FHERotateAuthorityMessage ::
    "solana_env \<Rightarrow> key \<Rightarrow> key \<Rightarrow> key \<Rightarrow> msg_error + string" where
  "FHERotateAuthorityMessage E newFHEAuthority policy dwallet = rendered
     [writeStr ''Rotate FHE authority on policy '', writeBase58_32 E policy,
      writeStr '' for dWallet '', writeBase58_32 E dwallet,
      writeStr '' to '', writeBase58_32 E newFHEAuthority]"

definition FHEPauseMessage :: "solana_env \<Rightarrow> key \<Rightarrow> key \<Rightarrow> msg_error + string" where
  "FHEPauseMessage E = pauseResumeMessage E ''Pause fhe-gated policy ''"
definition FHEResumeMessage :: "solana_env \<Rightarrow> key \<Rightarrow> key \<Rightarrow> msg_error + string" where
  "FHEResumeMessage E = pauseResumeMessage E ''Resume fhe-gated policy ''"

section \<open>One type for all operations\<close>

datatype subject = SAllowlist | SVelocity | STimeLock | SOracle | SPasskey | SFhe

datatype admin_op =
    AllowDest key | BlockDest key | Pause subject | Resume subject
  | VelocityWindow u32 u64 | TimeLockWindow u8 u64 u64 u64 | OracleBounds int int u64 u16
  | PasskeyPolicy u64 "33 arr" | RevokeSession | AllowProgram key | BlockProgram key
  | CloseSession key | RotateFhe key

fun render_op :: "solana_env \<Rightarrow> admin_op \<Rightarrow> key \<Rightarrow> key \<Rightarrow> msg_error + string" where
  "render_op E (AllowDest d) = AllowlistAddDestinationMessage E d"
| "render_op E (BlockDest d) = AllowlistRemoveDestinationMessage E d"
| "render_op E (Pause SAllowlist) = AllowlistPauseMessage E"
| "render_op E (Pause SVelocity) = VelocityPauseMessage E"
| "render_op E (Pause STimeLock) = TimeLockPauseMessage E"
| "render_op E (Pause SOracle) = OraclePauseMessage E"
| "render_op E (Pause SPasskey) = PasskeyPauseMessage E"
| "render_op E (Pause SFhe) = FHEPauseMessage E"
| "render_op E (Resume SAllowlist) = AllowlistResumeMessage E"
| "render_op E (Resume SVelocity) = VelocityResumeMessage E"
| "render_op E (Resume STimeLock) = TimeLockResumeMessage E"
| "render_op E (Resume SOracle) = OracleResumeMessage E"
| "render_op E (Resume SPasskey) = PasskeyResumeMessage E"
| "render_op E (Resume SFhe) = FHEResumeMessage E"
| "render_op E (VelocityWindow m w) = VelocityUpdateWindowMessage E m w"
| "render_op E (TimeLockWindow m s e p) = TimeLockUpdateWindowMessage E m s e p"
| "render_op E (OracleBounds lo hi age conf) = OracleUpdateBoundsMessage E lo hi age conf"
| "render_op E (PasskeyPolicy t k) = PasskeyUpdatePolicyMessage E t k"
| "render_op E RevokeSession = SessionKeysRevokeSessionMessage E"
| "render_op E (AllowProgram p) = SessionKeysAddAllowedProgramMessage E p"
| "render_op E (BlockProgram p) = SessionKeysRemoveAllowedProgramMessage E p"
| "render_op E (CloseSession r) = SessionKeysCloseSessionMessage E r"
| "render_op E (RotateFhe a) = FHERotateAuthorityMessage E a"

lemmas renderer_defs =
  pauseResumeMessage_def programSessionKeysMessage_def AllowlistAddDestinationMessage_def
  AllowlistRemoveDestinationMessage_def AllowlistPauseMessage_def AllowlistResumeMessage_def
  VelocityUpdateWindowMessage_def VelocityPauseMessage_def VelocityResumeMessage_def
  TimeLockUpdateWindowMessage_def TimeLockPauseMessage_def TimeLockResumeMessage_def
  OracleUpdateBoundsMessage_def OraclePauseMessage_def OracleResumeMessage_def
  PasskeyUpdatePolicyMessage_def PasskeyPauseMessage_def PasskeyResumeMessage_def
  SessionKeysRevokeSessionMessage_def SessionKeysAddAllowedProgramMessage_def
  SessionKeysRemoveAllowedProgramMessage_def SessionKeysCloseSessionMessage_def
  FHERotateAuthorityMessage_def FHEPauseMessage_def FHEResumeMessage_def

section \<open>Every operation can be shown\<close>

text \<open>\<open>emits fs s n\<close>: from any buffer with \<open>n\<close> bytes left, the writes append exactly \<open>s\<close>.\<close>

definition emits :: "writer list \<Rightarrow> string \<Rightarrow> nat \<Rightarrow> bool" where
  "emits fs s n \<longleftrightarrow> length s \<le> n \<and> list_all printable s
     \<and> (\<forall>w. length w + n \<le> MaxHumanMessageBytes \<longrightarrow> run_writes fs w = Inr (w @ s))"

lemma emits_Nil: "emits [] [] 0"
  by (simp add: emits_def)

lemma emits_str:
  "list_all printable s \<Longrightarrow> length s \<le> k \<Longrightarrow> emits fs t n \<Longrightarrow> emits (writeStr s # fs) (s @ t) (k + n)"
  by (auto simp: emits_def writeStr_def writeBytes_def list_ex_iff list_all_iff)

lemma emits_hex:
  "list_all printable (hex_lower b) \<Longrightarrow> length (hex_lower b) = 2 * length b \<Longrightarrow> 2 * length b = k \<Longrightarrow>
   emits fs t n \<Longrightarrow> emits (writeHexLower b # fs) (hex_lower b @ t) (k + n)"
  by (auto simp: emits_def writeHexLower_def)

lemma emits_rendered:
  "emits fs s n \<Longrightarrow> n \<le> MaxHumanMessageBytes \<Longrightarrow>
   \<exists>t. rendered fs = Inr t \<and> length t \<le> MaxHumanMessageBytes \<and> list_all printable t"
  by (auto simp: emits_def)

text \<open>The tokens of a message: what the writes between the fixed words append.\<close>

definition token :: "string \<Rightarrow> bool" where
  "token s \<longleftrightarrow> s \<noteq> [] \<and> CHR '' '' \<notin> set s \<and> list_all printable s"

lemma digit_printable: "is_digit c \<Longrightarrow> printable c \<and> c \<noteq> CHR '' ''"
  by (auto simp: is_digit_def printable_def)

lemma token_dec [simp]: "token (dec n)"
  using dec_digits digit_printable by (fastforce simp: token_def list_all_iff)

lemma amount_char_printable: "amount_char c \<Longrightarrow> printable c \<and> c \<noteq> CHR '' ''"
  by (auto simp: amount_char_def printable_def dest: digit_printable)

lemma FormatAmountPlain_nonempty: "FormatAmountPlain r d = Inr s \<Longrightarrow> s \<noteq> []"
  by (auto simp: FormatAmountPlain_def Let_def split: if_splits option.splits)

lemma token_FormatI64Shifted [simp]: "token (FormatI64Shifted v ValueDecimals1e8)"
proof -
  obtain s where "FormatAmountPlain (Some \<bar>v\<bar>) ValueDecimals1e8 = Inr s"
    "FormatI64Shifted v ValueDecimals1e8 = (if v < 0 then ''-'' else []) @ s"
    by (rule FormatI64Shifted_eq)
  then have "FormatI64Shifted v ValueDecimals1e8 \<noteq> []" by (auto dest: FormatAmountPlain_nonempty)
  then show ?thesis
    using FormatI64Shifted_chars [of _ v] amount_char_printable by (force simp: token_def list_all_iff)
qed

lemma token_timeLockModeLabel [simp]: "token (timeLockModeLabel m)"
  by (simp add: timeLockModeLabel_def token_def printable_def)

lemma hex_digit_props:
  "hex_digit n \<in> set ''0123456789abcdef''"
proof -
  have "n mod 16 < length ''0123456789abcdef''" by simp
  then show ?thesis unfolding hex_digit_def by (rule nth_mem)
qed

lemma hex_digit_inj: "m < 16 \<Longrightarrow> n < 16 \<Longrightarrow> hex_digit m = hex_digit n \<longleftrightarrow> m = n"
proof -
  have "distinct ''0123456789abcdef''" by simp
  then show "m < 16 \<Longrightarrow> n < 16 \<Longrightarrow> hex_digit m = hex_digit n \<longleftrightarrow> m = n"
    by (simp add: hex_digit_def nth_eq_iff_index_eq)
qed

lemma hex_lower_simps [simp]:
  "hex_lower [] = []"
  "hex_lower (x # b) = hex_digit (unat x div 16) # hex_digit (unat x mod 16) # hex_lower b"
  by (simp_all add: hex_lower_def)

lemma length_hex_lower [simp]: "length (hex_lower b) = 2 * length b"
  by (induction b) auto

lemma hex_digit_printable: "printable (hex_digit n) \<and> hex_digit n \<noteq> CHR '' ''"
proof -
  have "list_all (\<lambda>c. printable c \<and> c \<noteq> CHR '' '') ''0123456789abcdef''"
    by (simp add: printable_def)
  then show ?thesis using hex_digit_props [of n] unfolding list_all_iff by blast
qed

lemma hex_lower_printable: "list_all (\<lambda>c. printable c \<and> c \<noteq> CHR '' '') (hex_lower b)"
  by (induction b) (simp_all add: hex_digit_printable)

lemma token_hex_lower [simp]: "b \<noteq> [] \<Longrightarrow> token (hex_lower b)"
proof -
  assume "b \<noteq> []"
  then have "hex_lower b \<noteq> []" by (cases b) simp_all
  moreover have "\<forall>c \<in> set (hex_lower b). printable c \<and> c \<noteq> CHR '' ''"
    using hex_lower_printable [of b] unfolding list_all_iff .
  ultimately show ?thesis unfolding token_def list_all_iff by blast
qed

lemma byte_nibbles: "(x :: byte) = y \<longleftrightarrow> unat x div 16 = unat y div 16 \<and> unat x mod 16 = unat y mod 16"
proof
  assume "unat x div 16 = unat y div 16 \<and> unat x mod 16 = unat y mod 16"
  then have "unat x = unat y" by (metis div_mult_mod_eq)
  then show "x = y" by (simp only: word_unat_eq_iff)
qed simp

lemma byte_nibbles_lt: "unat (y :: byte) div 16 < 16" "unat (y :: byte) mod 16 < 16"
  using unat_byte [of y] by simp_all

lemma hex_lower_inj [simp]: "hex_lower a = hex_lower b \<longleftrightarrow> a = b"
proof (induction a arbitrary: b)
  case Nil
  then show ?case by (cases b) auto
next
  case (Cons x a)
  show ?case
  proof (cases b)
    case (Cons y c)
    then show ?thesis
      by (simp only: hex_lower_simps list.inject Cons.IH hex_digit_inj [OF byte_nibbles_lt(1) byte_nibbles_lt(1)]
          hex_digit_inj [OF byte_nibbles_lt(2) byte_nibbles_lt(2)] byte_nibbles [of x] conj_assoc)
  qed simp
qed

lemma FormatI64Shifted_len: "in64 v \<Longrightarrow> length (FormatI64Shifted v ValueDecimals1e8) \<le> 21"
proof -
  assume v: "in64 v"
  obtain s where s: "FormatAmountPlain (Some \<bar>v\<bar>) 8 = Inr s"
    and eq: "FormatI64Shifted v ValueDecimals1e8 = (if v < 0 then ''-'' else []) @ s"
    using FormatI64Shifted_eq [of v] by (auto simp: ValueDecimals1e8_def)
  let ?i = "nat \<bar>v\<bar> div 10 ^ 8" and ?f = "nat \<bar>v\<bar> mod 10 ^ 8"
  have "\<bar>v\<bar> < 10 ^ 19" using v by (simp add: in64_def abs_if)
  then have "nat \<bar>v\<bar> < 10 ^ 19" by simp
  then have "?i < 10 ^ 11" by (simp add: div_less_iff_less_mult)
  then have "length (dec ?i) \<le> 11" by (rule dec_length_bound) simp
  moreover have "length (frac_digits 8 ?f) \<le> 8" using frac_digits_value [of ?f 8] by simp
  ultimately have "length s \<le> 20"
    using s by (auto simp: FormatAmountPlain_def MaxDecimals_def Let_def split: if_splits)
  then show ?thesis by (simp add: eq)
qed

lemma dec_word_len:
  "2 ^ LENGTH('a::len) \<le> (10 :: nat) ^ k \<Longrightarrow> 0 < k \<Longrightarrow> length (dec (unat (v :: 'a word))) \<le> k"
  by (rule dec_length_bound) (rule order.strict_trans2 [OF unsigned_less], simp_all)

lemma dec_u16_len: "length (dec (unat (v :: u16))) \<le> 5"
  by (rule dec_word_len) simp_all
lemma dec_u32_len: "length (dec (unat (v :: u32))) \<le> 10"
  by (rule dec_word_len) simp_all
lemma dec_u64_len: "length (dec (unat (v :: u64))) \<le> 20"
  by (rule dec_word_len) simp_all

lemma timeLockModeLabel_len: "length (timeLockModeLabel m) \<le> 9"
  by (simp add: timeLockModeLabel_def)

text \<open>What the text relies on of the base58 package: at most 44 characters of an alphabet
  without the space.\<close>

definition base58_text :: "solana_env \<Rightarrow> bool" where
  "base58_text E \<longleftrightarrow> (\<forall>k. token (Base58 E k) \<and> length (Base58 E k) \<le> 44)"

text \<open>The parameters a caller can hold: prices are \<open>int64\<close>.\<close>

fun op_ranged :: "admin_op \<Rightarrow> bool" where
  "op_ranged (OracleBounds lo hi _ _) = (in64 lo \<and> in64 hi)"
| "op_ranged _ = True"

lemma emits_lit: "list_all printable s \<Longrightarrow> emits fs t n \<Longrightarrow> emits (writeStr s # fs) (s @ t) (length s + n)"
  by (rule emits_str) simp_all

lemma emits_token: "token s \<Longrightarrow> length s \<le> k \<Longrightarrow> emits fs t n \<Longrightarrow> emits (writeStr s # fs) (s @ t) (k + n)"
  by (rule emits_str) (simp_all add: token_def)

lemma emits_base58:
  "base58_text E \<Longrightarrow> emits fs t n \<Longrightarrow> emits (writeBase58_32 E k # fs) (Base58 E k @ t) (44 + n)"
  unfolding writeBase58_32_def by (rule emits_token) (simp_all add: base58_text_def)

lemma emits_hex_key:
  "emits fs t n \<Longrightarrow> emits (writeHexLower (arr_bytes (a :: 'n::len arr)) # fs)
     (hex_lower (arr_bytes a) @ t) (2 * LENGTH('n) + n)"
  using hex_lower_printable [of "arr_bytes a"]
  by (intro emits_hex) (auto simp: list_all_iff)

lemmas emits_intros =
  emits_base58 emits_hex_key emits_token [OF _ FormatI64Shifted_len] emits_token [OF _ timeLockModeLabel_len]
  emits_token [OF _ dec_u16_len] emits_token [OF _ dec_u32_len] emits_token [OF _ dec_u64_len]
  emits_lit emits_Nil

lemmas write_num_defs = writeU16Dec_def writeU32Dec_def writeU64Dec_def


lemma render_total:
  assumes "base58_text E" "op_ranged oper"
  shows "\<exists>t. render_op E oper policy dwallet = Inr t \<and> length t \<le> MaxHumanMessageBytes \<and> list_all printable t"
  using assms
  apply (induction E oper rule: render_op.induct)
  apply (simp_all only: render_op.simps renderer_defs write_num_defs op_ranged.simps)
                      apply ((rule emits_rendered, (rule emits_intros; (simp add: printable_def; fail)?)+)[1], (simp add: MaxHumanMessageBytes_def; fail))+
  done


section \<open>The text determines the operation\<close>

text \<open>The words of a text, split at single spaces.\<close>

definition push :: "char \<Rightarrow> string list \<Rightarrow> string list" where
  "push c ws = (case ws of [] \<Rightarrow> [[c]] | w # ws \<Rightarrow> (c # w) # ws)"

lemma push_Cons [simp]: "push c (w # ws) = (c # w) # ws"
  by (simp add: push_def)

fun words :: "string \<Rightarrow> string list" where
  "words [] = [[]]"
| "words (c # cs) = (if c = CHR '' '' then [] # words cs else push c (words cs))"

lemma words_token: "CHR '' '' \<notin> set s \<Longrightarrow> words s = [s]"
  by (induction s) auto

lemma words_token_append:
  "CHR '' '' \<notin> set s \<Longrightarrow> words (s @ CHR '' '' # t) = s # words t"
  by (induction s) auto

lemma words_of_token [simp]:
  "token s \<Longrightarrow> words s = [s]" "token s \<Longrightarrow> words (s @ CHR '' '' # t) = s # words t"
  by (simp_all add: token_def words_token words_token_append)

lemma token_hex_key [simp]: "token (hex_lower (arr_bytes (a :: 'n::len arr)))"
  by (rule token_hex_lower) (simp flip: length_greater_0_conv)

text \<open>A successful write appends exactly its text.\<close>

lemma writeStr_Inr: "writeStr s w = Inr u \<Longrightarrow> u = w @ s"
  by (auto simp: writeStr_def writeBytes_def split: if_splits)

lemma writeHexLower_Inr: "writeHexLower b w = Inr u \<Longrightarrow> u = w @ hex_lower b"
  by (auto simp: writeHexLower_def split: if_splits)

definition appends :: "writer list \<Rightarrow> string \<Rightarrow> bool" where
  "appends fs s \<longleftrightarrow> (\<forall>w u. run_writes fs w = Inr u \<longrightarrow> u = w @ s)"

lemma appends_intros:
  "appends [] []"
  "appends fs t \<Longrightarrow> appends (writeStr s # fs) (s @ t)"
  "appends fs t \<Longrightarrow> appends (writeHexLower b # fs) (hex_lower b @ t)"
  "appends fs t \<Longrightarrow> appends (writeBase58_32 E k # fs) (Base58 E k @ t)"
  by (fastforce simp: appends_def writeBase58_32_def dest: writeStr_Inr writeHexLower_Inr)+

lemma appends_rendered: "rendered fs = Inr t \<Longrightarrow> appends fs s \<Longrightarrow> t = s"
  by (auto simp: appends_def)

text \<open>The words each operation is shown as.\<close>

fun subject_words :: "subject \<Rightarrow> string list" where
  "subject_words SAllowlist = [''allowlist'']"
| "subject_words SVelocity = [''velocity-guard'']"
| "subject_words STimeLock = [''time-lock'']"
| "subject_words SOracle = [''oracle-conditional'']"
| "subject_words SPasskey = [''passkey'', ''step-up'']"
| "subject_words SFhe = [''fhe-gated'']"

fun op_words :: "admin_op \<Rightarrow> string \<Rightarrow> (key \<Rightarrow> string) \<Rightarrow> string \<Rightarrow> string list" where
  "op_words (AllowDest a) p f d = [''Allow'', ''destination'', hex_lower (arr_bytes a), ''on'',
     ''allowlist'', ''policy'', p, ''for'', ''dWallet'', d]"
| "op_words (BlockDest a) p f d = [''Block'', ''destination'', hex_lower (arr_bytes a), ''on'',
     ''allowlist'', ''policy'', p, ''for'', ''dWallet'', d]"
| "op_words (Pause s) p f d = [''Pause''] @ subject_words s @ [''policy'', p, ''for'', ''dWallet'', d]"
| "op_words (Resume s) p f d = [''Resume''] @ subject_words s @ [''policy'', p, ''for'', ''dWallet'', d]"
| "op_words (VelocityWindow m w) p f d = [''Update'', ''velocity'', ''window'', ''on'', ''policy'', p,
     ''for'', ''dWallet'', d, ''to'', dec (unat m), ''signatures'', ''per'', dec (unat w), ''slots'']"
| "op_words (TimeLockWindow m s e q) p f d = [''Update'', ''time-lock'', ''window'', ''on'', ''policy'', p,
     ''for'', ''dWallet'', d, ''mode'', timeLockModeLabel m, ''start'', dec (unat s), ''end'', dec (unat e),
     ''period'', dec (unat q)]"
| "op_words (OracleBounds lo hi age conf) p f d = [''Update'', ''oracle'', ''bounds'', ''on'', ''policy'', p,
     ''for'', ''dWallet'', d, ''min'', FormatI64Shifted lo ValueDecimals1e8,
     ''max'', FormatI64Shifted hi ValueDecimals1e8, ''maxAge'', dec (unat age),
     ''maxConfidence'', dec (unat conf), ''bps'']"
| "op_words (PasskeyPolicy t k) p f d = [''Update'', ''passkey'', ''step-up'', ''on'', ''policy'', p,
     ''for'', ''dWallet'', d, ''threshold'', dec (unat t), ''passkey'', hex_lower (arr_bytes k)]"
| "op_words RevokeSession p f d = [''Revoke'', ''session'', ''keys'', ''on'', ''policy'', p,
     ''for'', ''dWallet'', d]"
| "op_words (AllowProgram a) p f d = [''Allow'', ''program'', f a, ''on'', ''session-keys'', ''policy'', p,
     ''for'', ''dWallet'', d]"
| "op_words (BlockProgram a) p f d = [''Block'', ''program'', f a, ''on'', ''session-keys'', ''policy'', p,
     ''for'', ''dWallet'', d]"
| "op_words (CloseSession r) p f d = [''Close'', ''session-keys'', ''policy'', p, ''for'', ''dWallet'', d,
     ''refund'', ''recipient'', f r]"
| "op_words (RotateFhe a) p f d = [''Rotate'', ''FHE'', ''authority'', ''on'', ''policy'', p,
     ''for'', ''dWallet'', d, ''to'', f a]"

lemma words_appends:
  "rendered fs = Inr t \<Longrightarrow> appends fs s \<Longrightarrow> words s = ws \<Longrightarrow> words t = ws"
  by (drule (1) appends_rendered) simp

lemma render_words:
  assumes "base58_text E" "render_op E oper policy dwallet = Inr t"
  shows "words t = op_words oper (Base58 E policy) (Base58 E) (Base58 E dwallet)"
proof -
  have [simp]: "token (Base58 E k)" for k using assms(1) by (simp add: base58_text_def)
  show ?thesis
    using assms(2)
    by (cases "(E, oper)" rule: render_op.cases)
      (simp_all only: prod.inject render_op.simps renderer_defs write_num_defs,
       (erule words_appends, (rule appends_intros)+, simp; fail)+)
qed

text \<open>The modes the program knows; every other mode is shown as the same word.\<close>

definition same_shown :: "admin_op \<Rightarrow> admin_op \<Rightarrow> bool" where
  "same_shown a b \<longleftrightarrow> a = b \<or> (\<exists>m m' s e q. 3 < m \<and> 3 < m' \<and> a = TimeLockWindow m s e q \<and> b = TimeLockWindow m' s e q)"

lemma mode_le3: "(m :: u8) \<le> 3 \<Longrightarrow> m \<in> {0, 1, 2, 3}"
proof -
  assume "m \<le> 3"
  then have "unat m \<le> 3" by (simp add: word_le_nat_alt)
  then have "unat m = 0 \<or> unat m = 1 \<or> unat m = 2 \<or> unat m = 3" by auto
  then show ?thesis by (simp add: word_unat_eq_iff)
qed

lemma timeLockModeLabel_inj: "timeLockModeLabel m = timeLockModeLabel n \<longleftrightarrow> m = n \<or> 3 < m \<and> 3 < n"
proof -
  have "(\<not> 3 < k) = (k \<in> {0, 1, 2, 3})" for k :: u8 using mode_le3 [of k] by auto
  then show ?thesis by (auto simp: timeLockModeLabel_def)
qed

lemma subject_words_inj:
  "subject_words s @ ''policy'' # x = subject_words s' @ ''policy'' # y \<longleftrightarrow> s = s' \<and> x = y"
  by (cases s; cases s') simp_all

lemma op_words_inj:
  assumes "inj f" "op_words a p f d = op_words b p' f d'"
  shows "same_shown a b \<and> p = p' \<and> d = d'"
  using assms
  by (cases a; cases b)
    (auto simp: subject_words_inj inj_eq timeLockModeLabel_inj same_shown_def)

lemma same_shown_rendered: "same_shown a b \<Longrightarrow> render_op E a p d = render_op E b p d"
proof -
  assume "same_shown a b"
  then consider "a = b" | m m' s e q where "3 < m" "3 < m'" "a = TimeLockWindow m s e q" "b = TimeLockWindow m' s e q"
    unfolding same_shown_def by blast
  then show ?thesis
  proof cases
    case 2
    then have "timeLockModeLabel m = timeLockModeLabel m'" by (simp add: timeLockModeLabel_inj)
    then show ?thesis by (simp only: 2 render_op.simps TimeLockUpdateWindowMessage_def)
  qed simp
qed

lemma base58_text_sample: "base58_text sample_env"
proof -
  have "token (key_text k)" for k
  proof -
    have "key_text k \<noteq> []" using key_text_chars(2) [of k] by auto
    moreover have "printable c \<and> c \<noteq> CHR '' ''" if "c \<in> set (key_text k)" for c
      using key_text_chars(1) [OF that] by (auto simp: printable_def)
    ultimately show ?thesis by (auto simp: token_def list_all_iff)
  qed
  then show ?thesis by (simp add: base58_text_def sample_env_def key_text_chars)
qed

lemma inj_Base58_sample: "inj (Base58 sample_env)"
  by (auto intro: injI simp: sample_env_def key_text_inj)

text \<open>
  Showing an administrative operation never fails: for every operation and any
  keys the text is rendered, fits the 768 bytes of the buffer and is printable ASCII, given
  that base58 keeps to printable tokens of at most 44 characters.
\<close>

theorem admin_text_total:
  assumes "base58_text E" "op_ranged oper"
  shows "\<exists>t. render_op E oper policy dwallet = Inr t \<and> length t \<le> MaxHumanMessageBytes \<and> list_all printable t"
  by (rule render_total [OF assms])

theorem admin_text_total_witness:
  "\<exists>t. render_op sample_env (OracleBounds (- (2 ^ 63)) (2 ^ 63 - 1) 7 100) zero_arr zero_arr = Inr t
     \<and> length t \<le> 768"
  using admin_text_total [OF base58_text_sample, of "OracleBounds (- (2 ^ 63)) (2 ^ 63 - 1) 7 100" zero_arr zero_arr]
  by (auto simp: in64_def MaxHumanMessageBytes_def)

text \<open>
  Property C39. What you see is what you sign, but for one word: two administrative changes show the same text
  exactly if they are for the same policy and the same dWallet and are the same operation with the same
  parameters, or are two changes of a time-lock window with the same slots whose modes are both above 3. The
  renderer has words for the modes 0 to 3 and shows every other one of the 256 as \<open>unknown\<close>.
\<close>

theorem admin_text_determines_operation:
  assumes "base58_text E" "inj (Base58 E)" and "render_op E a policy dwallet = Inr t"
  shows "render_op E b policy' dwallet' = Inr t \<longleftrightarrow> policy = policy' \<and> dwallet = dwallet'
    \<and> (a = b \<or> (\<exists>m m' s e q. 3 < m \<and> 3 < m' \<and> a = TimeLockWindow m s e q \<and> b = TimeLockWindow m' s e q))"
proof -
  have "same_shown a b \<and> policy = policy' \<and> dwallet = dwallet'" if "render_op E b policy' dwallet' = Inr t"
  proof -
    have "op_words a (Base58 E policy) (Base58 E) (Base58 E dwallet) = op_words b (Base58 E policy') (Base58 E) (Base58 E dwallet')"
      using render_words [OF assms(1,3)] render_words [OF assms(1) that] by simp
    from op_words_inj [OF assms(2) this] assms(2) show ?thesis by (simp add: inj_eq)
  qed
  moreover have "render_op E b policy' dwallet' = Inr t" if "same_shown a b" "policy = policy'" "dwallet = dwallet'"
    using same_shown_rendered [OF that(1)] assms(3) that(2,3) by simp
  ultimately show ?thesis unfolding same_shown_def by blast
qed

theorem admin_text_determines_operation_witness:
  "render_op sample_env (AllowDest zero_arr) zero_arr zero_arr \<noteq> render_op sample_env (BlockDest zero_arr) zero_arr zero_arr
   \<and> render_op sample_env (TimeLockWindow 4 1 2 3) zero_arr zero_arr = render_op sample_env (TimeLockWindow 255 1 2 3) zero_arr zero_arr"
proof
  obtain t where t: "render_op sample_env (AllowDest zero_arr) zero_arr zero_arr = Inr t"
    using render_total [OF base58_text_sample, of "AllowDest zero_arr" zero_arr zero_arr] by auto
  with admin_text_determines_operation [OF base58_text_sample inj_Base58_sample t, of "BlockDest zero_arr" zero_arr zero_arr]
  show "render_op sample_env (AllowDest zero_arr) zero_arr zero_arr \<noteq> render_op sample_env (BlockDest zero_arr) zero_arr zero_arr"
    by auto
next
  obtain t where t: "render_op sample_env (TimeLockWindow 4 1 2 3) zero_arr zero_arr = Inr t"
    using render_total [OF base58_text_sample, of "TimeLockWindow 4 1 2 3" zero_arr zero_arr] by auto
  with admin_text_determines_operation [OF base58_text_sample inj_Base58_sample t, of "TimeLockWindow 255 1 2 3" zero_arr zero_arr]
  show "render_op sample_env (TimeLockWindow 4 1 2 3) zero_arr zero_arr = render_op sample_env (TimeLockWindow 255 1 2 3) zero_arr zero_arr"
    by auto
qed

end
