(* ===== verification/AuthCore.thy ===== *)
theory AuthCore
  imports Solana
begin

text \<open>
  Package \<open>auth\<close>: member slots (\<open>core.go\<close>), the canonical hash (\<open>hashv.go\<close>), API-key
  scopes (\<open>scopes.go\<close>) and the signature-verification precompile instructions
  (\<open>precompile.go\<close>). A member slot is the 34-byte credential an approver is known by; a
  precompile instruction carries signature, key and message together with the offsets the
  Solana runtime reads them at. \<open>sha256\<close> is the argument \<open>sha\<close>.
\<close>

section \<open>Member slots\<close>

datatype auth_error =
    ErrUnsupportedScheme
  | ErrInvalidIdentifierLen
  | ErrInvalidSlotLayout
  | BadPubkeyLen nat
  | BadSignatureLen nat
  | WebauthnPayloadMissing

abbreviation SchemeEd25519 :: u8 where "SchemeEd25519 \<equiv> 0"
abbreviation SchemeSecp256k1 :: u8 where "SchemeSecp256k1 \<equiv> 1"
abbreviation SchemeSecp256r1 :: u8 where "SchemeSecp256r1 \<equiv> 2"
abbreviation SchemeWebAuthn :: u8 where "SchemeWebAuthn \<equiv> 3"

definition IDLenForScheme :: "u8 \<Rightarrow> auth_error + nat" where
  "IDLenForScheme scheme =
     (if scheme = SchemeEd25519 then Inr 32
      else if scheme = SchemeSecp256k1 then Inr 20
      else if scheme = SchemeSecp256r1 \<or> scheme = SchemeWebAuthn then Inr 33
      else Inl ErrUnsupportedScheme)"

definition BuildMemberSlot :: "u8 \<Rightarrow> bytes \<Rightarrow> auth_error + slot" where
  "BuildMemberSlot scheme identifier =
     bind_res (IDLenForScheme scheme) (\<lambda>expected.
       if length identifier \<noteq> expected then Inl ErrInvalidIdentifierLen
       else Inr (mk_arr (scheme # identifier)))"

definition ValidateSlot :: "slot \<Rightarrow> auth_error + unit" where
  "ValidateSlot s =
     bind_res (IDLenForScheme (arr_bytes s ! 0)) (\<lambda>idLen.
       if \<exists>i \<in> set [1 + idLen ..< 34]. arr_bytes s ! i \<noteq> 0 then Inl ErrInvalidSlotLayout
       else Inr ())"

text \<open>What a slot says: its scheme and the identifier bytes of that scheme.\<close>

definition slot_scheme :: "slot \<Rightarrow> u8" where "slot_scheme s = arr_bytes s ! 0"
definition slot_ident :: "slot \<Rightarrow> nat \<Rightarrow> bytes" where "slot_ident s n = take n (drop 1 (arr_bytes s))"

lemma IDLen_cases:
  assumes "IDLenForScheme c = Inr n"
  obtains "c = 0" "n = 32" | "c = 1" "n = 20" | "c = 2" "n = 33" | "c = 3" "n = 33"
  using assms by (auto simp: IDLenForScheme_def split: if_splits)

lemma IDLen_le: "IDLenForScheme c = Inr n \<Longrightarrow> n \<le> 33"
  by (erule IDLen_cases) simp_all

lemma arr_bytes_slot: "length bs \<le> 33 \<Longrightarrow>
   arr_bytes (mk_arr (c # bs) :: slot) = c # bs @ replicate (33 - length bs) 0"
  by (simp add: arr_bytes_mk_arr_gen take_append min_def)

lemma BuildMemberSlot_bytes:
  assumes "BuildMemberSlot c ident = Inr s"
  shows "arr_bytes s = c # ident @ replicate (33 - length ident) 0"
    "IDLenForScheme c = Inr (length ident)"
  using assms IDLen_le arr_bytes_slot [of ident c]
  by (auto simp: BuildMemberSlot_def split: if_splits)

text \<open>
  Building a member slot is canonical: a built slot passes \<open>ValidateSlot\<close>, and
  it determines the scheme and the identifier it was built from, so two credentials never
  share a slot.
\<close>

theorem BuildMemberSlot_canonical:
  assumes "BuildMemberSlot c ident = Inr s"
  shows "ValidateSlot s = Inr ()
    \<and> (\<forall>c' ident'. BuildMemberSlot c' ident' = Inr s \<longleftrightarrow> c' = c \<and> ident' = ident)"
proof -
  note b = BuildMemberSlot_bytes [OF assms]
  have pad: "arr_bytes s ! i = 0" if "1 + length ident \<le> i" "i < 34" for i
    using that b(1) by (auto simp: nth_append nth_Cons')
  have sch: "arr_bytes s ! 0 = c" by (simp add: b(1))
  have "ValidateSlot s = Inr ()"
    unfolding ValidateSlot_def sch b(2) using pad by (auto simp del: upt_Suc)
  moreover have "c' = c \<and> ident' = ident" if "BuildMemberSlot c' ident' = Inr s" for c' ident'
  proof -
    note b' = BuildMemberSlot_bytes [OF that]
    have "c' = c" using b(1) b'(1) by simp
    moreover from this have "length ident' = length ident" using b(2) b'(2) by simp
    moreover from this have "ident' = ident" using b(1) b'(1) by simp
    ultimately show ?thesis by simp
  qed
  ultimately show ?thesis using assms by blast
qed

theorem BuildMemberSlot_canonical_witness:
  "ValidateSlot (mk_arr (1 # replicate 20 7)) = Inr ()"
proof -
  have "BuildMemberSlot 1 (replicate 20 7) = Inr (mk_arr (1 # replicate 20 7))"
    by (simp add: BuildMemberSlot_def IDLenForScheme_def)
  from BuildMemberSlot_canonical [OF this] show ?thesis by blast
qed

section \<open>The canonical hash\<close>

definition Hashv :: "(bytes \<Rightarrow> hash) \<Rightarrow> bytes list \<Rightarrow> hash" where
  "Hashv sha parts = sha (concat parts)"

section \<open>Scopes\<close>

definition ScopeRead :: string where "ScopeRead = ''read''"
definition ScopeWrite :: string where "ScopeWrite = ''write''"
definition ScopeAdmin :: string where "ScopeAdmin = ''admin''"
definition ScopeWildcard :: string where "ScopeWildcard = ''*''"
definition DefaultScopes :: "string list" where "DefaultScopes = [ScopeRead, ScopeWrite]"

lemmas scope_defs = ScopeRead_def ScopeWrite_def ScopeAdmin_def ScopeWildcard_def DefaultScopes_def

fun HasScope_loop :: "string list \<Rightarrow> string \<Rightarrow> bool" where
  "HasScope_loop [] required = False"
| "HasScope_loop (g # gs) required =
     (if g = ScopeWildcard \<or> g = required then True else HasScope_loop gs required)"

definition HasScope :: "string list \<Rightarrow> string \<Rightarrow> bool" where
  "HasScope granted required = (if granted = [] then True else HasScope_loop granted required)"

fun ValidateScopes :: "string list \<Rightarrow> string" where
  "ValidateScopes [] = []"
| "ValidateScopes (s # ss) =
     (if s \<in> set [ScopeRead, ScopeWrite, ScopeAdmin, ScopeWildcard] then ValidateScopes ss else s)"

lemma HasScope_loop_iff: "HasScope_loop gs r \<longleftrightarrow> ScopeWildcard \<in> set gs \<or> r \<in> set gs"
  by (induction gs) auto

text \<open>The boolean of a validation: the empty string of Go is the absence of a bad entry, but a
  list may hold the empty string itself, which \<open>ValidateScopes\<close> then reports as "no error".\<close>

lemma ValidateScopes_ok:
  "set ss \<subseteq> {ScopeRead, ScopeWrite, ScopeAdmin, ScopeWildcard} \<Longrightarrow> ValidateScopes ss = []"
  by (induction ss) auto

lemma ValidateScopes_sound:
  "ValidateScopes ss = [] \<Longrightarrow> [] \<notin> set ss \<Longrightarrow>
   set ss \<subseteq> {ScopeRead, ScopeWrite, ScopeAdmin, ScopeWildcard}"
  by (induction ss) (auto split: if_splits)

text \<open>
  Admin routes stay closed to ordinary keys: a key with a non-empty scope list
  holds a scope exactly if the list names it or the wildcard; the default scopes open read
  and write but not admin; the back-compatible exception is the empty list, which opens all.
\<close>

theorem HasScope_spec:
  "(HasScope gs r \<longleftrightarrow> gs = [] \<or> ScopeWildcard \<in> set gs \<or> r \<in> set gs)
   \<and> \<not> HasScope DefaultScopes ScopeAdmin
   \<and> HasScope DefaultScopes ScopeRead \<and> HasScope DefaultScopes ScopeWrite"
  by (auto simp: HasScope_def HasScope_loop_iff scope_defs)

text \<open>
  The gap of \<open>ValidateScopes\<close>: an empty-string scope is accepted together with
  everything after it, because the value reported for it is the value that means "valid".
\<close>

theorem ValidateScopes_empty_entry_hides_rest:
  "ValidateScopes ([] # rest) = []"
  by (simp add: scope_defs)

section \<open>Signature precompiles\<close>

abbreviation longSelfIndex :: u16 where "longSelfIndex \<equiv> 0xFFFF"
abbreviation shortSelfIndex :: u8 where "shortSelfIndex \<equiv> 0xFF"

text \<open>The long format (ed25519 and secp256r1): two header bytes, fourteen offset bytes, then
  signature, key and message.\<close>

definition long_precompile_data :: "nat \<Rightarrow> nat \<Rightarrow> bytes \<Rightarrow> bytes \<Rightarrow> bytes \<Rightarrow> bytes" where
  "long_precompile_data sigLen pubkeyLen pubkey message signature =
     (let sigOffset = 2 + 14;
          pubkeyOffset = sigOffset + sigLen;
          messageOffset = pubkeyOffset + pubkeyLen
      in [1, 0]
         @ U16LE (of_nat sigOffset) @ U16LE longSelfIndex
         @ U16LE (of_nat pubkeyOffset) @ U16LE longSelfIndex
         @ U16LE (of_nat messageOffset) @ U16LE (of_nat (length message)) @ U16LE longSelfIndex
         @ signature @ pubkey @ message)"

definition BuildEd25519PrecompileInstruction ::
    "solana_env \<Rightarrow> bytes \<Rightarrow> bytes \<Rightarrow> bytes \<Rightarrow> auth_error + instruction" where
  "BuildEd25519PrecompileInstruction E pubkey message signature =
     (if length pubkey \<noteq> 32 then Inl (BadPubkeyLen (length pubkey))
      else if length signature \<noteq> 64 then Inl (BadSignatureLen (length signature))
      else Inr \<lparr>ProgID = Ed25519PrecompileID E, Accounts = [],
                Data = long_precompile_data 64 32 pubkey message signature\<rparr>)"

definition BuildSecp256k1PrecompileInstruction ::
    "solana_env \<Rightarrow> bytes \<Rightarrow> bytes \<Rightarrow> bytes \<Rightarrow> auth_error + instruction" where
  "BuildSecp256k1PrecompileInstruction E ethAddress message signature =
     (if length ethAddress \<noteq> 20 then Inl (BadPubkeyLen (length ethAddress))
      else if length signature \<noteq> 64 + 1 then Inl (BadSignatureLen (length signature))
      else
        (let sigOffset = 1 + 11;
             ethAddrOffset = sigOffset + 64 + 1;
             messageOffset = ethAddrOffset + 20
         in Inr \<lparr>ProgID = Secp256k1PrecompileID E, Accounts = [],
              Data = [1]
                @ U16LE (of_nat sigOffset) @ [shortSelfIndex]
                @ U16LE (of_nat ethAddrOffset) @ [shortSelfIndex]
                @ U16LE (of_nat messageOffset) @ U16LE (of_nat (length message)) @ [shortSelfIndex]
                @ signature @ ethAddress @ message\<rparr>))"

definition BuildSecp256r1PrecompileInstruction ::
    "solana_env \<Rightarrow> bytes \<Rightarrow> bytes \<Rightarrow> bytes \<Rightarrow> auth_error + instruction" where
  "BuildSecp256r1PrecompileInstruction E pubkey message signature =
     (if length pubkey \<noteq> 33 then Inl (BadPubkeyLen (length pubkey))
      else if length signature \<noteq> 64 then Inl (BadSignatureLen (length signature))
      else Inr \<lparr>ProgID = Secp256r1PrecompileID E, Accounts = [],
                Data = long_precompile_data 64 33 pubkey message signature\<rparr>)"

definition BuildCredentialPrecompile ::
    "solana_env \<Rightarrow> (bytes \<Rightarrow> hash) \<Rightarrow> slot \<Rightarrow> hash \<Rightarrow> bytes \<Rightarrow> bytes \<Rightarrow> bytes \<Rightarrow> auth_error + instruction" where
  "BuildCredentialPrecompile E sha s challenge signature authData clientDataJSON =
     (let scheme = arr_bytes s ! 0 in
      if scheme = SchemeEd25519 then
        BuildEd25519PrecompileInstruction E (slot_ident s 32) (arr_bytes challenge) signature
      else if scheme = SchemeSecp256k1 then
        BuildSecp256k1PrecompileInstruction E (slot_ident s 20) (arr_bytes challenge) signature
      else if scheme = SchemeSecp256r1 then
        BuildSecp256r1PrecompileInstruction E (slot_ident s 33) (arr_bytes challenge) signature
      else if scheme = SchemeWebAuthn then
        (if authData = [] \<or> clientDataJSON = [] then Inl WebauthnPayloadMissing
         else BuildSecp256r1PrecompileInstruction E (slot_ident s 33)
                (authData @ arr_bytes (Hashv sha [clientDataJSON])) signature)
      else Inl ErrUnsupportedScheme)"

text \<open>What the runtime reads: a field of given offset and length out of the data, the offset and
  the length being little-endian words at fixed positions of the header.\<close>

definition field :: "bytes \<Rightarrow> nat \<Rightarrow> nat \<Rightarrow> bytes" where
  "field d off len = take len (drop off d)"

definition le16_at :: "bytes \<Rightarrow> nat \<Rightarrow> nat" where
  "le16_at d i = unat (LE16 (field d i 2))"

definition long_view :: "nat \<Rightarrow> nat \<Rightarrow> bytes \<Rightarrow> bytes \<times> bytes \<times> bytes" where
  "long_view sigLen keyLen d =
     (field d (le16_at d 2) sigLen, field d (le16_at d 6) keyLen, field d (le16_at d 10) (le16_at d 12))"

definition short_view :: "bytes \<Rightarrow> bytes \<times> bytes \<times> bytes" where
  "short_view d =
     (field d (le16_at d 1) 65, field d (le16_at d 4) 20, field d (le16_at d 7) (le16_at d 9))"

lemma field_at: "length p = off \<Longrightarrow> length x = len \<Longrightarrow> field (p @ x @ r) off len = x"
  by (simp add: field_def)

lemma le16_at: "length p = i \<Longrightarrow> le16_at (p @ U16LE v @ r) i = unat v"
  unfolding le16_at_def by (subst field_at) (simp_all add: u16.dec_enc)

lemma long_view_data:
  assumes "length pubkey = kl" "length signature = sl" "16 + sl + kl < 65536" "length message < 65536"
  shows "long_view sl kl (long_precompile_data sl kl pubkey message signature)
    = (signature, pubkey, message)"
proof -
  let ?d = "long_precompile_data sl kl pubkey message signature"
  let ?so = "of_nat 16 :: u16" and ?ko = "of_nat (16 + sl) :: u16" and ?mo = "of_nat (16 + sl + kl) :: u16"
    and ?ml = "of_nat (length message) :: u16"
  let ?h = "[1, 0] @ U16LE ?so @ U16LE 0xFFFF @ U16LE ?ko @ U16LE 0xFFFF @ U16LE ?mo @ U16LE ?ml @ U16LE 0xFFFF"
  have d: "?d = ?h @ signature @ pubkey @ message"
    by (simp add: long_precompile_data_def Let_def)
  have "le16_at ?d 2 = 16"
    unfolding d using le16_at [of "[1, 0]" 2 ?so] by (simp add: unat_of_nat16)
  moreover have "le16_at ?d 6 = 16 + sl"
    unfolding d using le16_at [of "[1, 0] @ U16LE ?so @ U16LE 0xFFFF" 6 ?ko] assms(3)
    by (simp add: unat_of_nat16 del: of_nat_add)
  moreover have "le16_at ?d 10 = 16 + sl + kl"
    unfolding d
    using le16_at [of "[1, 0] @ U16LE ?so @ U16LE 0xFFFF @ U16LE ?ko @ U16LE 0xFFFF" 10 ?mo] assms(3)
    by (simp add: unat_of_nat16 del: of_nat_add)
  moreover have "le16_at ?d 12 = length message"
    unfolding d
    using le16_at [of "[1, 0] @ U16LE ?so @ U16LE 0xFFFF @ U16LE ?ko @ U16LE 0xFFFF @ U16LE ?mo" 12 ?ml] assms(4)
    by (simp add: unat_of_nat16 del: of_nat_add)
  moreover have "field ?d 16 sl = signature" "field ?d (16 + sl) kl = pubkey"
    "field ?d (16 + sl + kl) (length message) = message"
    unfolding d using assms(1,2)
      field_at [of ?h 16 signature sl "pubkey @ message"]
      field_at [of "?h @ signature" "16 + sl" pubkey kl message]
      field_at [of "?h @ signature @ pubkey" "16 + sl + kl" message "length message" "[]"]
    by simp_all
  ultimately show ?thesis by (simp add: long_view_def)
qed

lemma short_view_data:
  assumes "BuildSecp256k1PrecompileInstruction E eth message signature = Inr ix" "length message < 65536"
  shows "short_view (Data ix) = (signature, eth, message) \<and> ProgID ix = Secp256k1PrecompileID E"
proof -
  let ?so = "of_nat 12 :: u16" and ?eo = "of_nat 77 :: u16" and ?mo = "of_nat 97 :: u16"
    and ?ml = "of_nat (length message) :: u16"
  let ?h = "[1] @ U16LE ?so @ [shortSelfIndex] @ U16LE ?eo @ [shortSelfIndex] @ U16LE ?mo @ U16LE ?ml
    @ [shortSelfIndex]"
  from assms(1) have len: "length eth = 20" "length signature = 65"
    and d: "Data ix = ?h @ signature @ eth @ message" and id: "ProgID ix = Secp256k1PrecompileID E"
    by (auto simp: BuildSecp256k1PrecompileInstruction_def Let_def split: if_splits)
  have "le16_at (Data ix) 1 = 12"
    unfolding d using le16_at [of "[1]" 1 ?so] by (simp add: unat_of_nat16)
  moreover have "le16_at (Data ix) 4 = 77"
    unfolding d using le16_at [of "[1] @ U16LE ?so @ [shortSelfIndex]" 4 ?eo] by (simp add: unat_of_nat16)
  moreover have "le16_at (Data ix) 7 = 97"
    unfolding d
    using le16_at [of "[1] @ U16LE ?so @ [shortSelfIndex] @ U16LE ?eo @ [shortSelfIndex]" 7 ?mo]
    by (simp add: unat_of_nat16)
  moreover have "le16_at (Data ix) 9 = length message"
    unfolding d
    using le16_at [of "[1] @ U16LE ?so @ [shortSelfIndex] @ U16LE ?eo @ [shortSelfIndex] @ U16LE ?mo" 9 ?ml]
      assms(2)
    by (simp add: unat_of_nat16)
  moreover have "field (Data ix) 12 65 = signature" "field (Data ix) 77 20 = eth"
    "field (Data ix) 97 (length message) = message"
    unfolding d using len
      field_at [of ?h 12 signature 65 "eth @ message"]
      field_at [of "?h @ signature" 77 eth 20 message]
      field_at [of "?h @ signature @ eth" 97 message "length message" "[]"]
    by simp_all
  ultimately show ?thesis using id by (simp add: short_view_def)
qed

text \<open>The precompile a scheme is verified by, and the view its runtime takes of the data.\<close>

definition precompile_id :: "solana_env \<Rightarrow> u8 \<Rightarrow> key" where
  "precompile_id E scheme =
     (if scheme = SchemeEd25519 then Ed25519PrecompileID E
      else if scheme = SchemeSecp256k1 then Secp256k1PrecompileID E
      else Secp256r1PrecompileID E)"

definition precompile_view :: "u8 \<Rightarrow> bytes \<Rightarrow> bytes \<times> bytes \<times> bytes" where
  "precompile_view scheme d =
     (if scheme = SchemeEd25519 then long_view 64 32 d
      else if scheme = SchemeSecp256k1 then short_view d
      else long_view 64 33 d)"

definition signed_message :: "(bytes \<Rightarrow> hash) \<Rightarrow> u8 \<Rightarrow> hash \<Rightarrow> bytes \<Rightarrow> bytes \<Rightarrow> bytes" where
  "signed_message sha scheme challenge authData cdj =
     (if scheme = SchemeWebAuthn then authData @ arr_bytes (sha cdj) else arr_bytes challenge)"

lemma ed25519_view:
  assumes "BuildEd25519PrecompileInstruction E pk m sig = Inr ix" "length m < 65536"
  shows "long_view 64 32 (Data ix) = (sig, pk, m) \<and> ProgID ix = Ed25519PrecompileID E"
  using assms
  by (auto simp: BuildEd25519PrecompileInstruction_def long_view_data split: if_splits)

lemma secp256r1_view:
  assumes "BuildSecp256r1PrecompileInstruction E pk m sig = Inr ix" "length m < 65536"
  shows "long_view 64 33 (Data ix) = (sig, pk, m) \<and> ProgID ix = Secp256r1PrecompileID E"
  using assms
  by (auto simp: BuildSecp256r1PrecompileInstruction_def long_view_data split: if_splits)

text \<open>
  Whatever credential scheme a slot names, the instruction built for it makes the
  runtime verify exactly the given signature, under exactly the slot's key, over exactly the
  challenge (for WebAuthn: the authenticator data followed by the hash of the client data),
  at the precompile of that scheme; the offsets written into the header lead to these bytes.
\<close>

theorem BuildCredentialPrecompile_readback:
  assumes built: "BuildCredentialPrecompile E sha s challenge signature authData cdj = Inr ix"
    and small: "length authData < 65000"
  shows "ProgID ix = precompile_id E (slot_scheme s)
    \<and> (\<exists>n. IDLenForScheme (slot_scheme s) = Inr n
        \<and> precompile_view (slot_scheme s) (Data ix)
          = (signature, slot_ident s n, signed_message sha (slot_scheme s) challenge authData cdj))"
proof -
  let ?c = "arr_bytes s ! 0"
  consider "?c = 0" | "?c = 1" | "?c = 2" | "?c = 3"
    using built by (auto simp: BuildCredentialPrecompile_def Let_def split: if_splits)
  then show ?thesis
  proof cases
    case 1
    with built ed25519_view [of E "slot_ident s 32" "arr_bytes challenge" signature ix] show ?thesis
      by (simp add: BuildCredentialPrecompile_def slot_scheme_def precompile_id_def precompile_view_def
          signed_message_def IDLenForScheme_def)
  next
    case 2
    with built short_view_data [of E "slot_ident s 20" "arr_bytes challenge" signature ix] show ?thesis
      by (simp add: BuildCredentialPrecompile_def slot_scheme_def precompile_id_def precompile_view_def
          signed_message_def IDLenForScheme_def)
  next
    case 3
    with built secp256r1_view [of E "slot_ident s 33" "arr_bytes challenge" signature ix] show ?thesis
      by (simp add: BuildCredentialPrecompile_def slot_scheme_def precompile_id_def precompile_view_def
          signed_message_def IDLenForScheme_def)
  next
    case 4
    with built small
      secp256r1_view [of E "slot_ident s 33" "authData @ arr_bytes (sha cdj)" signature ix]
    show ?thesis
      by (simp add: BuildCredentialPrecompile_def slot_scheme_def precompile_id_def precompile_view_def
          signed_message_def IDLenForScheme_def Hashv_def split: if_splits)
  qed
qed

theorem BuildCredentialPrecompile_readback_witness:
  "\<forall>E sha. \<exists>ix. BuildCredentialPrecompile E sha (mk_arr (3 # replicate 33 9)) zero_arr (replicate 64 1) [5] [6] = Inr ix
    \<and> ProgID ix = Secp256r1PrecompileID E"
proof (intro allI)
  fix E sha
  let ?s = "mk_arr (3 # replicate 33 9) :: slot"
  have s: "arr_bytes ?s = 3 # replicate 33 9" by (simp add: arr_bytes_mk_arr)
  obtain ix where ix: "BuildCredentialPrecompile E sha ?s zero_arr (replicate 64 1) [5] [6] = Inr ix"
    by (simp add: BuildCredentialPrecompile_def s slot_ident_def BuildSecp256r1PrecompileInstruction_def)
  from BuildCredentialPrecompile_readback [OF ix] have "ProgID ix = precompile_id E (slot_scheme ?s)"
    by simp
  then have "ProgID ix = Secp256r1PrecompileID E" by (simp add: slot_scheme_def s precompile_id_def)
  with ix show "\<exists>ix. BuildCredentialPrecompile E sha ?s zero_arr (replicate 64 1) [5] [6] = Inr ix
    \<and> ProgID ix = Secp256r1PrecompileID E" by blast
qed

end
