(* ===== verification/Templates.thy ===== *)
theory Templates
  imports ClearSigning AuthCore
begin

text \<open>
  The challenges of package \<open>auth\<close>: \<open>challenges_templates.go\<close> (owner-signed administrative
  changes of the seven policy templates), \<open>challenges_templates_init.go\<close> (their creation) and
  \<open>challenges_recovery.go\<close> (the rules-policy operations). A challenge is the SHA-256 of the
  concatenation of a domain, an operation tag and the typed parameters; \<open>sha\<close> is an argument
  and the bytes it is applied to are what the theorems speak of.
\<close>

section \<open>What a challenge returns\<close>

datatype any = VStr string | VNum nat

record clear_signing =
  Version :: string
  Operation :: string
  Fields :: "string \<rightharpoonup> any"

datatype challenge_error = RenderError msg_error | HumanLenPanic

type_synonym sha = "bytes \<Rightarrow> hash"
type_synonym shown_challenge = "challenge_error + hash \<times> string \<times> clear_signing"

definition ClearSigningVersionPolicy :: string where
  "ClearSigningVersionPolicy = ''policy-clear-v1''"

definition shown :: "msg_error + string \<Rightarrow> challenge_error + string" where
  "shown r = (case r of Inl e \<Rightarrow> Inl (RenderError e) | Inr s \<Rightarrow> Inr s)"

definition I64Dec :: "int \<Rightarrow> string" where
  "I64Dec v = (if v < 0 then ''-'' @ dec (nat (- v)) else dec (nat v))"

definition ownerAdminHashWithHuman ::
    "sha \<Rightarrow> string \<Rightarrow> string \<Rightarrow> string \<Rightarrow> key \<Rightarrow> key \<Rightarrow> u64 \<Rightarrow> slot \<Rightarrow> bytes list
     \<Rightarrow> challenge_error + hash" where
  "ownerAdminHashWithHuman sha domain opTag human dwallet policy nonce ownerSlot extras =
     (case HumanLenLE (ascii human) of
        None \<Rightarrow> Inl HumanLenPanic
      | Some hl \<Rightarrow> Inr (Hashv sha
          ([ascii domain, ascii opTag, hl, ascii human, arr_bytes dwallet, arr_bytes policy,
            U64LE nonce, arr_bytes ownerSlot] @ extras)))"

definition baseAdminFields :: "solana_env \<Rightarrow> key \<Rightarrow> key \<Rightarrow> u64 \<Rightarrow> string \<rightharpoonup> any" where
  "baseAdminFields E dwallet policy expectedNonce =
     [''dwallet'' \<mapsto> VStr (Base58 E dwallet), ''policy'' \<mapsto> VStr (Base58 E policy),
      ''expected_nonce'' \<mapsto> VStr (dec (unat expectedNonce))]"

section \<open>Domains\<close>

definition allowlistDomain :: string where "allowlistDomain = ''andromeda::allowlist-destinations::v2''"
definition velocityDomain :: string where "velocityDomain = ''andromeda::velocity-guard::v2''"
definition timeLockDomain :: string where "timeLockDomain = ''andromeda::time-lock::v2''"
definition oracleDomain :: string where "oracleDomain = ''andromeda::oracle-conditional::v2''"
definition passkeyDomain :: string where "passkeyDomain = ''andromeda::passkey-step-up::v2''"
definition passkeyDomainStepUpV1 :: string where "passkeyDomainStepUpV1 = ''andromeda::passkey-step-up::v1''"
definition sessionKeysDomain :: string where "sessionKeysDomain = ''andromeda::session-keys::v2''"
definition sessionKeysDomainInitV1 :: string where "sessionKeysDomainInitV1 = ''andromeda::session-keys::v1''"
definition fheGatedDomain :: string where "fheGatedDomain = ''andromeda::fhe-gated::v2''"
definition fheGatedDomainDecision :: string where "fheGatedDomainDecision = ''andromeda::fhe-gated::decision::v1''"
definition rulesPolicyDomain :: string where "rulesPolicyDomain = ''andromeda::rules-policy::v1''"

lemmas domain_defs =
  allowlistDomain_def velocityDomain_def timeLockDomain_def oracleDomain_def
  passkeyDomain_def passkeyDomainStepUpV1_def sessionKeysDomain_def sessionKeysDomainInitV1_def
  fheGatedDomain_def fheGatedDomainDecision_def rulesPolicyDomain_def

section \<open>Administrative challenges\<close>

definition AllowlistAddDestinationChallenge ::
    "solana_env \<Rightarrow> sha \<Rightarrow> key \<Rightarrow> key \<Rightarrow> key \<Rightarrow> u64 \<Rightarrow> slot \<Rightarrow> shown_challenge" where
  "AllowlistAddDestinationChallenge E sha dwallet policy destination nonce ownerSlot =
     bind_res (shown (AllowlistAddDestinationMessage E destination policy dwallet)) (\<lambda>human.
     bind_res (ownerAdminHashWithHuman sha allowlistDomain ''add-destination'' human dwallet policy nonce ownerSlot
         [arr_bytes destination]) (\<lambda>h.
     Inr (h, human, \<lparr>Version = ClearSigningVersionPolicy, Operation = ''allowlist.add_destination'',
        Fields = (baseAdminFields E dwallet policy nonce)(''destination_hex'' \<mapsto> VStr (hex_lower (arr_bytes destination)))\<rparr>)))"

definition AllowlistRemoveDestinationChallenge ::
    "solana_env \<Rightarrow> sha \<Rightarrow> key \<Rightarrow> key \<Rightarrow> key \<Rightarrow> u64 \<Rightarrow> slot \<Rightarrow> shown_challenge" where
  "AllowlistRemoveDestinationChallenge E sha dwallet policy destination nonce ownerSlot =
     bind_res (shown (AllowlistRemoveDestinationMessage E destination policy dwallet)) (\<lambda>human.
     bind_res (ownerAdminHashWithHuman sha allowlistDomain ''remove-destination'' human dwallet policy nonce ownerSlot
         [arr_bytes destination]) (\<lambda>h.
     Inr (h, human, \<lparr>Version = ClearSigningVersionPolicy, Operation = ''allowlist.remove_destination'',
        Fields = (baseAdminFields E dwallet policy nonce)(''destination_hex'' \<mapsto> VStr (hex_lower (arr_bytes destination)))\<rparr>)))"

definition AllowlistPauseChallenge ::
    "solana_env \<Rightarrow> sha \<Rightarrow> key \<Rightarrow> key \<Rightarrow> u64 \<Rightarrow> slot \<Rightarrow> shown_challenge" where
  "AllowlistPauseChallenge E sha dwallet policy nonce ownerSlot =
     bind_res (shown (AllowlistPauseMessage E policy dwallet)) (\<lambda>human.
     bind_res (ownerAdminHashWithHuman sha allowlistDomain ''pause'' human dwallet policy nonce ownerSlot
         []) (\<lambda>h.
     Inr (h, human, \<lparr>Version = ClearSigningVersionPolicy, Operation = ''allowlist.pause'',
        Fields = baseAdminFields E dwallet policy nonce\<rparr>)))"

definition AllowlistResumeChallenge ::
    "solana_env \<Rightarrow> sha \<Rightarrow> key \<Rightarrow> key \<Rightarrow> u64 \<Rightarrow> slot \<Rightarrow> shown_challenge" where
  "AllowlistResumeChallenge E sha dwallet policy nonce ownerSlot =
     bind_res (shown (AllowlistResumeMessage E policy dwallet)) (\<lambda>human.
     bind_res (ownerAdminHashWithHuman sha allowlistDomain ''resume'' human dwallet policy nonce ownerSlot
         []) (\<lambda>h.
     Inr (h, human, \<lparr>Version = ClearSigningVersionPolicy, Operation = ''allowlist.resume'',
        Fields = baseAdminFields E dwallet policy nonce\<rparr>)))"

definition VelocityUpdateWindowChallenge ::
    "solana_env \<Rightarrow> sha \<Rightarrow> key \<Rightarrow> key \<Rightarrow> u32 \<Rightarrow> u64 \<Rightarrow> u64 \<Rightarrow> slot \<Rightarrow> shown_challenge" where
  "VelocityUpdateWindowChallenge E sha dwallet policy maxSigsPerWindow windowSlots nonce ownerSlot =
     bind_res (shown (VelocityUpdateWindowMessage E maxSigsPerWindow windowSlots policy dwallet)) (\<lambda>human.
     bind_res (ownerAdminHashWithHuman sha velocityDomain ''update-window'' human dwallet policy nonce ownerSlot
         [U32LE maxSigsPerWindow, U64LE windowSlots]) (\<lambda>h.
     Inr (h, human, \<lparr>Version = ClearSigningVersionPolicy, Operation = ''velocity.update_window'',
        Fields = (baseAdminFields E dwallet policy nonce)(''max_sigs_per_window'' \<mapsto> VNum (unat maxSigsPerWindow), ''window_slots'' \<mapsto> VStr (dec (unat windowSlots)))\<rparr>)))"

definition VelocityPauseChallenge ::
    "solana_env \<Rightarrow> sha \<Rightarrow> key \<Rightarrow> key \<Rightarrow> u64 \<Rightarrow> slot \<Rightarrow> shown_challenge" where
  "VelocityPauseChallenge E sha dwallet policy nonce ownerSlot =
     bind_res (shown (VelocityPauseMessage E policy dwallet)) (\<lambda>human.
     bind_res (ownerAdminHashWithHuman sha velocityDomain ''pause'' human dwallet policy nonce ownerSlot
         []) (\<lambda>h.
     Inr (h, human, \<lparr>Version = ClearSigningVersionPolicy, Operation = ''velocity.pause'',
        Fields = baseAdminFields E dwallet policy nonce\<rparr>)))"

definition VelocityResumeChallenge ::
    "solana_env \<Rightarrow> sha \<Rightarrow> key \<Rightarrow> key \<Rightarrow> u64 \<Rightarrow> slot \<Rightarrow> shown_challenge" where
  "VelocityResumeChallenge E sha dwallet policy nonce ownerSlot =
     bind_res (shown (VelocityResumeMessage E policy dwallet)) (\<lambda>human.
     bind_res (ownerAdminHashWithHuman sha velocityDomain ''resume'' human dwallet policy nonce ownerSlot
         []) (\<lambda>h.
     Inr (h, human, \<lparr>Version = ClearSigningVersionPolicy, Operation = ''velocity.resume'',
        Fields = baseAdminFields E dwallet policy nonce\<rparr>)))"

definition TimeLockUpdateWindowChallenge ::
    "solana_env \<Rightarrow> sha \<Rightarrow> key \<Rightarrow> key \<Rightarrow> u8 \<Rightarrow> u64 \<Rightarrow> u64 \<Rightarrow> u64 \<Rightarrow> u64 \<Rightarrow> slot \<Rightarrow> shown_challenge" where
  "TimeLockUpdateWindowChallenge E sha dwallet policy mode startSlot endSlot recurringPeriodSlots nonce ownerSlot =
     bind_res (shown (TimeLockUpdateWindowMessage E mode startSlot endSlot recurringPeriodSlots policy dwallet)) (\<lambda>human.
     bind_res (ownerAdminHashWithHuman sha timeLockDomain ''update-window'' human dwallet policy nonce ownerSlot
         [[mode], U64LE startSlot, U64LE endSlot, U64LE recurringPeriodSlots]) (\<lambda>h.
     Inr (h, human, \<lparr>Version = ClearSigningVersionPolicy, Operation = ''time_lock.update_window'',
        Fields = (baseAdminFields E dwallet policy nonce)(''mode'' \<mapsto> VNum (unat mode), ''start_slot'' \<mapsto> VStr (dec (unat startSlot)), ''end_slot'' \<mapsto> VStr (dec (unat endSlot)), ''recurring_period_slots'' \<mapsto> VStr (dec (unat recurringPeriodSlots)))\<rparr>)))"

definition TimeLockPauseChallenge ::
    "solana_env \<Rightarrow> sha \<Rightarrow> key \<Rightarrow> key \<Rightarrow> u64 \<Rightarrow> slot \<Rightarrow> shown_challenge" where
  "TimeLockPauseChallenge E sha dwallet policy nonce ownerSlot =
     bind_res (shown (TimeLockPauseMessage E policy dwallet)) (\<lambda>human.
     bind_res (ownerAdminHashWithHuman sha timeLockDomain ''pause'' human dwallet policy nonce ownerSlot
         []) (\<lambda>h.
     Inr (h, human, \<lparr>Version = ClearSigningVersionPolicy, Operation = ''time_lock.pause'',
        Fields = baseAdminFields E dwallet policy nonce\<rparr>)))"

definition TimeLockResumeChallenge ::
    "solana_env \<Rightarrow> sha \<Rightarrow> key \<Rightarrow> key \<Rightarrow> u64 \<Rightarrow> slot \<Rightarrow> shown_challenge" where
  "TimeLockResumeChallenge E sha dwallet policy nonce ownerSlot =
     bind_res (shown (TimeLockResumeMessage E policy dwallet)) (\<lambda>human.
     bind_res (ownerAdminHashWithHuman sha timeLockDomain ''resume'' human dwallet policy nonce ownerSlot
         []) (\<lambda>h.
     Inr (h, human, \<lparr>Version = ClearSigningVersionPolicy, Operation = ''time_lock.resume'',
        Fields = baseAdminFields E dwallet policy nonce\<rparr>)))"

definition OracleUpdateBoundsChallenge ::
    "solana_env \<Rightarrow> sha \<Rightarrow> key \<Rightarrow> key \<Rightarrow> int \<Rightarrow> int \<Rightarrow> u64 \<Rightarrow> u16 \<Rightarrow> u64 \<Rightarrow> slot \<Rightarrow> shown_challenge" where
  "OracleUpdateBoundsChallenge E sha dwallet policy minPrice maxPrice maxAgeSlots maxConfidenceBps nonce ownerSlot =
     bind_res (shown (OracleUpdateBoundsMessage E minPrice maxPrice maxAgeSlots maxConfidenceBps policy dwallet)) (\<lambda>human.
     bind_res (ownerAdminHashWithHuman sha oracleDomain ''update-bounds'' human dwallet policy nonce ownerSlot
         [I64LE minPrice, I64LE maxPrice, U64LE maxAgeSlots, U16LE maxConfidenceBps]) (\<lambda>h.
     Inr (h, human, \<lparr>Version = ClearSigningVersionPolicy, Operation = ''oracle.update_bounds'',
        Fields = (baseAdminFields E dwallet policy nonce)(''min_price'' \<mapsto> VStr (I64Dec minPrice), ''max_price'' \<mapsto> VStr (I64Dec maxPrice), ''max_age_slots'' \<mapsto> VStr (dec (unat maxAgeSlots)), ''max_confidence_bps'' \<mapsto> VNum (unat maxConfidenceBps))\<rparr>)))"

definition OraclePauseChallenge ::
    "solana_env \<Rightarrow> sha \<Rightarrow> key \<Rightarrow> key \<Rightarrow> u64 \<Rightarrow> slot \<Rightarrow> shown_challenge" where
  "OraclePauseChallenge E sha dwallet policy nonce ownerSlot =
     bind_res (shown (OraclePauseMessage E policy dwallet)) (\<lambda>human.
     bind_res (ownerAdminHashWithHuman sha oracleDomain ''pause'' human dwallet policy nonce ownerSlot
         []) (\<lambda>h.
     Inr (h, human, \<lparr>Version = ClearSigningVersionPolicy, Operation = ''oracle.pause'',
        Fields = baseAdminFields E dwallet policy nonce\<rparr>)))"

definition OracleResumeChallenge ::
    "solana_env \<Rightarrow> sha \<Rightarrow> key \<Rightarrow> key \<Rightarrow> u64 \<Rightarrow> slot \<Rightarrow> shown_challenge" where
  "OracleResumeChallenge E sha dwallet policy nonce ownerSlot =
     bind_res (shown (OracleResumeMessage E policy dwallet)) (\<lambda>human.
     bind_res (ownerAdminHashWithHuman sha oracleDomain ''resume'' human dwallet policy nonce ownerSlot
         []) (\<lambda>h.
     Inr (h, human, \<lparr>Version = ClearSigningVersionPolicy, Operation = ''oracle.resume'',
        Fields = baseAdminFields E dwallet policy nonce\<rparr>)))"

definition PasskeyUpdatePolicyChallenge ::
    "solana_env \<Rightarrow> sha \<Rightarrow> key \<Rightarrow> key \<Rightarrow> u64 \<Rightarrow> (33 arr) \<Rightarrow> u64 \<Rightarrow> slot \<Rightarrow> shown_challenge" where
  "PasskeyUpdatePolicyChallenge E sha dwallet policy thresholdAmount passkeyPubkey nonce ownerSlot =
     bind_res (shown (PasskeyUpdatePolicyMessage E thresholdAmount passkeyPubkey policy dwallet)) (\<lambda>human.
     bind_res (ownerAdminHashWithHuman sha passkeyDomain ''update-policy'' human dwallet policy nonce ownerSlot
         [U64LE thresholdAmount, arr_bytes passkeyPubkey]) (\<lambda>h.
     Inr (h, human, \<lparr>Version = ClearSigningVersionPolicy, Operation = ''passkey.update_policy'',
        Fields = (baseAdminFields E dwallet policy nonce)(''threshold_amount'' \<mapsto> VStr (dec (unat thresholdAmount)), ''passkey_pubkey_hex'' \<mapsto> VStr (hex_lower (arr_bytes passkeyPubkey)))\<rparr>)))"

definition PasskeyPauseChallenge ::
    "solana_env \<Rightarrow> sha \<Rightarrow> key \<Rightarrow> key \<Rightarrow> u64 \<Rightarrow> slot \<Rightarrow> shown_challenge" where
  "PasskeyPauseChallenge E sha dwallet policy nonce ownerSlot =
     bind_res (shown (PasskeyPauseMessage E policy dwallet)) (\<lambda>human.
     bind_res (ownerAdminHashWithHuman sha passkeyDomain ''pause'' human dwallet policy nonce ownerSlot
         []) (\<lambda>h.
     Inr (h, human, \<lparr>Version = ClearSigningVersionPolicy, Operation = ''passkey.pause'',
        Fields = baseAdminFields E dwallet policy nonce\<rparr>)))"

definition PasskeyResumeChallenge ::
    "solana_env \<Rightarrow> sha \<Rightarrow> key \<Rightarrow> key \<Rightarrow> u64 \<Rightarrow> slot \<Rightarrow> shown_challenge" where
  "PasskeyResumeChallenge E sha dwallet policy nonce ownerSlot =
     bind_res (shown (PasskeyResumeMessage E policy dwallet)) (\<lambda>human.
     bind_res (ownerAdminHashWithHuman sha passkeyDomain ''resume'' human dwallet policy nonce ownerSlot
         []) (\<lambda>h.
     Inr (h, human, \<lparr>Version = ClearSigningVersionPolicy, Operation = ''passkey.resume'',
        Fields = baseAdminFields E dwallet policy nonce\<rparr>)))"

definition SessionKeysRevokeChallenge ::
    "solana_env \<Rightarrow> sha \<Rightarrow> key \<Rightarrow> key \<Rightarrow> u64 \<Rightarrow> slot \<Rightarrow> shown_challenge" where
  "SessionKeysRevokeChallenge E sha dwallet policy nonce ownerSlot =
     bind_res (shown (SessionKeysRevokeSessionMessage E policy dwallet)) (\<lambda>human.
     bind_res (ownerAdminHashWithHuman sha sessionKeysDomain ''revoke-session'' human dwallet policy nonce ownerSlot
         []) (\<lambda>h.
     Inr (h, human, \<lparr>Version = ClearSigningVersionPolicy, Operation = ''session_keys.revoke'',
        Fields = baseAdminFields E dwallet policy nonce\<rparr>)))"

definition SessionKeysAddAllowedProgramChallenge ::
    "solana_env \<Rightarrow> sha \<Rightarrow> key \<Rightarrow> key \<Rightarrow> key \<Rightarrow> u64 \<Rightarrow> slot \<Rightarrow> shown_challenge" where
  "SessionKeysAddAllowedProgramChallenge E sha dwallet policy programID nonce ownerSlot =
     bind_res (shown (SessionKeysAddAllowedProgramMessage E programID policy dwallet)) (\<lambda>human.
     bind_res (ownerAdminHashWithHuman sha sessionKeysDomain ''add-allowed-program'' human dwallet policy nonce ownerSlot
         [arr_bytes programID]) (\<lambda>h.
     Inr (h, human, \<lparr>Version = ClearSigningVersionPolicy, Operation = ''session_keys.add_allowed_program'',
        Fields = (baseAdminFields E dwallet policy nonce)(''program_id'' \<mapsto> VStr (Base58 E programID))\<rparr>)))"

definition SessionKeysRemoveAllowedProgramChallenge ::
    "solana_env \<Rightarrow> sha \<Rightarrow> key \<Rightarrow> key \<Rightarrow> key \<Rightarrow> u64 \<Rightarrow> slot \<Rightarrow> shown_challenge" where
  "SessionKeysRemoveAllowedProgramChallenge E sha dwallet policy programID nonce ownerSlot =
     bind_res (shown (SessionKeysRemoveAllowedProgramMessage E programID policy dwallet)) (\<lambda>human.
     bind_res (ownerAdminHashWithHuman sha sessionKeysDomain ''remove-allowed-program'' human dwallet policy nonce ownerSlot
         [arr_bytes programID]) (\<lambda>h.
     Inr (h, human, \<lparr>Version = ClearSigningVersionPolicy, Operation = ''session_keys.remove_allowed_program'',
        Fields = (baseAdminFields E dwallet policy nonce)(''program_id'' \<mapsto> VStr (Base58 E programID))\<rparr>)))"

definition SessionKeysCloseSessionChallenge ::
    "solana_env \<Rightarrow> sha \<Rightarrow> key \<Rightarrow> key \<Rightarrow> key \<Rightarrow> u64 \<Rightarrow> slot \<Rightarrow> shown_challenge" where
  "SessionKeysCloseSessionChallenge E sha dwallet policy recipient nonce ownerSlot =
     bind_res (shown (SessionKeysCloseSessionMessage E recipient policy dwallet)) (\<lambda>human.
     bind_res (ownerAdminHashWithHuman sha sessionKeysDomain ''close-session'' human dwallet policy nonce ownerSlot
         [arr_bytes recipient]) (\<lambda>h.
     Inr (h, human, \<lparr>Version = ClearSigningVersionPolicy, Operation = ''session_keys.close_session'',
        Fields = (baseAdminFields E dwallet policy nonce)(''recipient'' \<mapsto> VStr (Base58 E recipient))\<rparr>)))"

definition FHEGatedRotateAuthorityChallenge ::
    "solana_env \<Rightarrow> sha \<Rightarrow> key \<Rightarrow> key \<Rightarrow> key \<Rightarrow> u64 \<Rightarrow> slot \<Rightarrow> shown_challenge" where
  "FHEGatedRotateAuthorityChallenge E sha dwallet policy newFheAuthority nonce ownerSlot =
     bind_res (shown (FHERotateAuthorityMessage E newFheAuthority policy dwallet)) (\<lambda>human.
     bind_res (ownerAdminHashWithHuman sha fheGatedDomain ''rotate-authority'' human dwallet policy nonce ownerSlot
         [arr_bytes newFheAuthority]) (\<lambda>h.
     Inr (h, human, \<lparr>Version = ClearSigningVersionPolicy, Operation = ''fhe.rotate_authority'',
        Fields = (baseAdminFields E dwallet policy nonce)(''new_fhe_authority'' \<mapsto> VStr (Base58 E newFheAuthority))\<rparr>)))"

definition FHEGatedPauseChallenge ::
    "solana_env \<Rightarrow> sha \<Rightarrow> key \<Rightarrow> key \<Rightarrow> u64 \<Rightarrow> slot \<Rightarrow> shown_challenge" where
  "FHEGatedPauseChallenge E sha dwallet policy nonce ownerSlot =
     bind_res (shown (FHEPauseMessage E policy dwallet)) (\<lambda>human.
     bind_res (ownerAdminHashWithHuman sha fheGatedDomain ''pause'' human dwallet policy nonce ownerSlot
         []) (\<lambda>h.
     Inr (h, human, \<lparr>Version = ClearSigningVersionPolicy, Operation = ''fhe.pause'',
        Fields = baseAdminFields E dwallet policy nonce\<rparr>)))"

definition FHEGatedResumeChallenge ::
    "solana_env \<Rightarrow> sha \<Rightarrow> key \<Rightarrow> key \<Rightarrow> u64 \<Rightarrow> slot \<Rightarrow> shown_challenge" where
  "FHEGatedResumeChallenge E sha dwallet policy nonce ownerSlot =
     bind_res (shown (FHEResumeMessage E policy dwallet)) (\<lambda>human.
     bind_res (ownerAdminHashWithHuman sha fheGatedDomain ''resume'' human dwallet policy nonce ownerSlot
         []) (\<lambda>h.
     Inr (h, human, \<lparr>Version = ClearSigningVersionPolicy, Operation = ''fhe.resume'',
        Fields = baseAdminFields E dwallet policy nonce\<rparr>)))"

lemmas admin_challenge_defs =
  AllowlistAddDestinationChallenge_def AllowlistRemoveDestinationChallenge_def
  AllowlistPauseChallenge_def AllowlistResumeChallenge_def
  VelocityUpdateWindowChallenge_def VelocityPauseChallenge_def
  VelocityResumeChallenge_def TimeLockUpdateWindowChallenge_def
  TimeLockPauseChallenge_def TimeLockResumeChallenge_def
  OracleUpdateBoundsChallenge_def OraclePauseChallenge_def
  OracleResumeChallenge_def PasskeyUpdatePolicyChallenge_def
  PasskeyPauseChallenge_def PasskeyResumeChallenge_def
  SessionKeysRevokeChallenge_def SessionKeysAddAllowedProgramChallenge_def
  SessionKeysRemoveAllowedProgramChallenge_def SessionKeysCloseSessionChallenge_def
  FHEGatedRotateAuthorityChallenge_def FHEGatedPauseChallenge_def
  FHEGatedResumeChallenge_def

definition PasskeyStepUpChallenge ::
    "sha \<Rightarrow> key \<Rightarrow> hash \<Rightarrow> u64 \<Rightarrow> u64 \<Rightarrow> (33 arr) \<Rightarrow> hash" where
  "PasskeyStepUpChallenge sha dwallet messageDigest txAmount nonce passkeyPubkey =
     Hashv sha
       [ascii passkeyDomainStepUpV1, ascii ''step-up'', arr_bytes dwallet,
        arr_bytes messageDigest, U64LE txAmount, U64LE nonce, arr_bytes passkeyPubkey]"

definition SessionKeysCreateSessionChallenge ::
    "sha \<Rightarrow> key \<Rightarrow> key \<Rightarrow> key \<Rightarrow> u64 \<Rightarrow> u64 \<Rightarrow> u32 \<Rightarrow> slot \<Rightarrow> hash" where
  "SessionKeysCreateSessionChallenge sha dwallet policy sessionKey expiresAtSlot maxAmountPerTx maxUses ownerSlot =
     Hashv sha
       [ascii sessionKeysDomainInitV1, ascii ''create-session'', arr_bytes dwallet,
        arr_bytes policy, U64LE 0, arr_bytes ownerSlot, arr_bytes sessionKey,
        U64LE expiresAtSlot, U64LE maxAmountPerTx, U32LE maxUses]"

definition FHEGatedDecisionCanonicalBytes ::
    "sha \<Rightarrow> key \<Rightarrow> hash \<Rightarrow> u64 \<Rightarrow> u8 \<Rightarrow> hash" where
  "FHEGatedDecisionCanonicalBytes sha policy messageDigest decisionCreatedSlot decisionAuthorize =
     Hashv sha
       [ascii fheGatedDomainDecision, arr_bytes policy, arr_bytes messageDigest,
        U64LE decisionCreatedSlot, [decisionAuthorize]]"

section \<open>Creation challenges\<close>

definition initOpTag :: string where "initOpTag = ''init''"

definition AllowlistInitPolicyChallenge ::
    "sha \<Rightarrow> key \<Rightarrow> slot \<Rightarrow> slot \<Rightarrow> hash" where
  "AllowlistInitPolicyChallenge sha dwallet initAuthoritySlot ownerSlot =
     Hashv sha
       [ascii allowlistDomain, ascii initOpTag, arr_bytes dwallet,
        arr_bytes initAuthoritySlot, arr_bytes ownerSlot]"

definition VelocityInitPolicyChallenge ::
    "sha \<Rightarrow> key \<Rightarrow> slot \<Rightarrow> slot \<Rightarrow> u32 \<Rightarrow> u64 \<Rightarrow> hash" where
  "VelocityInitPolicyChallenge sha dwallet initAuthoritySlot ownerSlot maxSigsPerWindow windowSlots =
     Hashv sha
       [ascii velocityDomain, ascii initOpTag, arr_bytes dwallet,
        arr_bytes initAuthoritySlot, arr_bytes ownerSlot, U32LE maxSigsPerWindow,
        U64LE windowSlots]"

definition TimeLockInitPolicyChallenge ::
    "sha \<Rightarrow> key \<Rightarrow> slot \<Rightarrow> slot \<Rightarrow> u8 \<Rightarrow> u64 \<Rightarrow> u64 \<Rightarrow> u64 \<Rightarrow> hash" where
  "TimeLockInitPolicyChallenge sha dwallet initAuthoritySlot ownerSlot mode startSlot endSlot recurringPeriodSlots =
     Hashv sha
       [ascii timeLockDomain, ascii initOpTag, arr_bytes dwallet,
        arr_bytes initAuthoritySlot, arr_bytes ownerSlot, [mode], U64LE startSlot,
        U64LE endSlot, U64LE recurringPeriodSlots]"

definition OracleInitPolicyChallenge ::
    "sha \<Rightarrow> key \<Rightarrow> slot \<Rightarrow> slot \<Rightarrow> key \<Rightarrow> int \<Rightarrow> int \<Rightarrow> u64 \<Rightarrow> u16 \<Rightarrow> hash" where
  "OracleInitPolicyChallenge sha dwallet initAuthoritySlot ownerSlot oracleFeed minPrice maxPrice maxAgeSlots maxConfidenceBps =
     Hashv sha
       [ascii oracleDomain, ascii initOpTag, arr_bytes dwallet,
        arr_bytes initAuthoritySlot, arr_bytes ownerSlot, arr_bytes oracleFeed,
        I64LE minPrice, I64LE maxPrice, U64LE maxAgeSlots, U16LE maxConfidenceBps]"

definition PasskeyInitPolicyChallenge ::
    "sha \<Rightarrow> key \<Rightarrow> slot \<Rightarrow> slot \<Rightarrow> u64 \<Rightarrow> (33 arr) \<Rightarrow> hash" where
  "PasskeyInitPolicyChallenge sha dwallet initAuthoritySlot ownerSlot thresholdAmount passkeyPubkey =
     Hashv sha
       [ascii passkeyDomain, ascii initOpTag, arr_bytes dwallet,
        arr_bytes initAuthoritySlot, arr_bytes ownerSlot, U64LE thresholdAmount,
        arr_bytes passkeyPubkey]"

definition FHEGatedInitPolicyChallenge ::
    "sha \<Rightarrow> key \<Rightarrow> slot \<Rightarrow> slot \<Rightarrow> key \<Rightarrow> u64 \<Rightarrow> hash" where
  "FHEGatedInitPolicyChallenge sha dwallet initAuthoritySlot ownerSlot fheAuthority decisionMaxAgeSlots =
     Hashv sha
       [ascii fheGatedDomain, ascii initOpTag, arr_bytes dwallet,
        arr_bytes initAuthoritySlot, arr_bytes ownerSlot, arr_bytes fheAuthority,
        U64LE decisionMaxAgeSlots]"

definition SessionKeysInitPolicyChallenge ::
    "sha \<Rightarrow> key \<Rightarrow> slot \<Rightarrow> u32 \<Rightarrow> slot \<Rightarrow> key \<Rightarrow> u64 \<Rightarrow> u64 \<Rightarrow> u32 \<Rightarrow> hash" where
  "SessionKeysInitPolicyChallenge sha dwallet initAuthoritySlot sessionIndex ownerSlot sessionKey expiresAtSlot maxAmountPerTx maxUses =
     Hashv sha
       [ascii sessionKeysDomain, ascii initOpTag, arr_bytes dwallet,
        arr_bytes initAuthoritySlot, U32LE sessionIndex, arr_bytes ownerSlot,
        arr_bytes sessionKey, U64LE expiresAtSlot, U64LE maxAmountPerTx, U32LE maxUses]"

section \<open>Rules-policy challenges\<close>

definition PrimaryRecoverChallenge ::
    "sha \<Rightarrow> key \<Rightarrow> hash \<Rightarrow> hash \<Rightarrow> u64 \<Rightarrow> slot \<Rightarrow> hash" where
  "PrimaryRecoverChallenge sha dwallet messageDigest metadataDigest nonce primarySlot =
     Hashv sha
       [ascii rulesPolicyDomain, ascii ''primary-recover'', arr_bytes dwallet,
        arr_bytes messageDigest, arr_bytes metadataDigest, U64LE nonce,
        arr_bytes primarySlot]"

definition QuorumSessionOpenChallenge ::
    "sha \<Rightarrow> key \<Rightarrow> hash \<Rightarrow> hash \<Rightarrow> u64 \<Rightarrow> hash \<Rightarrow> int \<Rightarrow> u64 \<Rightarrow> slot \<Rightarrow> hash" where
  "QuorumSessionOpenChallenge sha dwallet messageDigest metadataDigest amount destination expiresAt sessionNonce primarySlot =
     Hashv sha
       [ascii rulesPolicyDomain, ascii ''quorum-session-open'', arr_bytes dwallet,
        arr_bytes messageDigest, arr_bytes metadataDigest, U64LE amount,
        arr_bytes destination, I64LE expiresAt, U64LE sessionNonce,
        arr_bytes primarySlot]"

definition QuorumContributeChallenge ::
    "sha \<Rightarrow> key \<Rightarrow> slot \<Rightarrow> hash" where
  "QuorumContributeChallenge sha session memberSlot =
     Hashv sha
       [ascii rulesPolicyDomain, ascii ''quorum-contribute'', arr_bytes session,
        arr_bytes memberSlot]"

definition adminHash :: "sha \<Rightarrow> string \<Rightarrow> key \<Rightarrow> u64 \<Rightarrow> slot \<Rightarrow> bytes list \<Rightarrow> hash" where
  "adminHash sha opTag dwallet nonce primarySlot extras =
     Hashv sha ([ascii rulesPolicyDomain, ascii opTag, arr_bytes dwallet, U64LE nonce, arr_bytes primarySlot]
        @ extras)"

definition AdminAddMemberChallenge :: "sha \<Rightarrow> key \<Rightarrow> slot \<Rightarrow> u64 \<Rightarrow> slot \<Rightarrow> hash" where
  "AdminAddMemberChallenge sha dwallet newMemberSlot nonce primarySlot =
     adminHash sha ''admin-add-member'' dwallet nonce primarySlot [arr_bytes newMemberSlot]"

definition AdminRemoveMemberChallenge :: "sha \<Rightarrow> key \<Rightarrow> slot \<Rightarrow> u64 \<Rightarrow> slot \<Rightarrow> hash" where
  "AdminRemoveMemberChallenge sha dwallet memberSlot nonce primarySlot =
     adminHash sha ''admin-remove-member'' dwallet nonce primarySlot [arr_bytes memberSlot]"

definition AdminAddDestinationChallenge :: "sha \<Rightarrow> key \<Rightarrow> hash \<Rightarrow> u64 \<Rightarrow> slot \<Rightarrow> hash" where
  "AdminAddDestinationChallenge sha dwallet destination nonce primarySlot =
     adminHash sha ''admin-add-destination'' dwallet nonce primarySlot [arr_bytes destination]"

definition AdminRemoveDestinationChallenge :: "sha \<Rightarrow> key \<Rightarrow> hash \<Rightarrow> u64 \<Rightarrow> slot \<Rightarrow> hash" where
  "AdminRemoveDestinationChallenge sha dwallet destination nonce primarySlot =
     adminHash sha ''admin-remove-destination'' dwallet nonce primarySlot [arr_bytes destination]"

definition AdminRevokeChallenge :: "sha \<Rightarrow> key \<Rightarrow> u64 \<Rightarrow> slot \<Rightarrow> hash" where
  "AdminRevokeChallenge sha dwallet nonce primarySlot =
     adminHash sha ''admin-revoke'' dwallet nonce primarySlot []"

definition AdminSetPrimaryChallenge :: "sha \<Rightarrow> key \<Rightarrow> slot \<Rightarrow> u64 \<Rightarrow> slot \<Rightarrow> hash" where
  "AdminSetPrimaryChallenge sha dwallet newPrimarySlot nonce primarySlot =
     adminHash sha ''admin-set-primary'' dwallet nonce primarySlot [arr_bytes newPrimarySlot]"

definition AdminSetQuorumThresholdImmediateChallenge :: "sha \<Rightarrow> key \<Rightarrow> u8 \<Rightarrow> u64 \<Rightarrow> slot \<Rightarrow> hash" where
  "AdminSetQuorumThresholdImmediateChallenge sha dwallet newThreshold nonce primarySlot =
     adminHash sha ''admin-set-qt-immediate'' dwallet nonce primarySlot [[newThreshold]]"

definition AdminSetDailyLimitImmediateChallenge :: "sha \<Rightarrow> key \<Rightarrow> bool \<Rightarrow> u64 \<Rightarrow> u64 \<Rightarrow> slot \<Rightarrow> hash" where
  "AdminSetDailyLimitImmediateChallenge sha dwallet newSome newLimit nonce primarySlot =
     adminHash sha ''admin-set-dl-immediate'' dwallet nonce primarySlot [[if newSome then 1 else 0], U64LE newLimit]"

definition AdminSetCooldownImmediateChallenge :: "sha \<Rightarrow> key \<Rightarrow> u64 \<Rightarrow> u64 \<Rightarrow> slot \<Rightarrow> hash" where
  "AdminSetCooldownImmediateChallenge sha dwallet newCooldownSeconds nonce primarySlot =
     adminHash sha ''admin-set-cd-immediate'' dwallet nonce primarySlot [U64LE newCooldownSeconds]"

definition AdminProposeQuorumThresholdChallenge :: "sha \<Rightarrow> key \<Rightarrow> u8 \<Rightarrow> u64 \<Rightarrow> slot \<Rightarrow> hash" where
  "AdminProposeQuorumThresholdChallenge sha dwallet newThreshold nonce primarySlot =
     adminHash sha ''admin-propose-qt'' dwallet nonce primarySlot [[newThreshold]]"

definition AdminProposeDailyLimitChallenge :: "sha \<Rightarrow> key \<Rightarrow> bool \<Rightarrow> u64 \<Rightarrow> u64 \<Rightarrow> slot \<Rightarrow> hash" where
  "AdminProposeDailyLimitChallenge sha dwallet newSome newLimit nonce primarySlot =
     adminHash sha ''admin-propose-dl'' dwallet nonce primarySlot [[if newSome then 1 else 0], U64LE newLimit]"

definition AdminProposeCooldownChallenge :: "sha \<Rightarrow> key \<Rightarrow> u64 \<Rightarrow> u64 \<Rightarrow> slot \<Rightarrow> hash" where
  "AdminProposeCooldownChallenge sha dwallet newCooldownSeconds nonce primarySlot =
     adminHash sha ''admin-propose-cd'' dwallet nonce primarySlot [U64LE newCooldownSeconds]"

section \<open>All requests of the package\<close>

datatype init_op =
    InitAllowlist
  | InitVelocity u32 u64
  | InitTimeLock u8 u64 u64 u64
  | InitOracle key int int u64 u16
  | InitPasskey u64 "33 arr"
  | InitFhe key u64
  | InitSession u32 key u64 u64 u32

datatype rules_op =
    AddMember slot
  | RemoveMember slot
  | AddDestination hash
  | RemoveDestination hash
  | Revoke
  | SetPrimary slot
  | SetThreshold u8
  | SetDailyLimit bool u64
  | SetCooldown u64
  | ProposeThreshold u8
  | ProposeDailyLimit bool u64
  | ProposeCooldown u64

datatype auth_request =
    Admin admin_op key key u64 slot
  | Init init_op key slot slot
  | RulesAdmin rules_op key u64 slot
  | StepUp key hash u64 u64 "33 arr"
  | CreateSession key key key u64 u64 u32 slot
  | Decision key hash u64 u8
  | RPrimary key hash hash u64 slot
  | RQuorumOpen key hash hash u64 hash int u64 slot
  | RContribute key slot

fun admin_challenge :: "solana_env \<Rightarrow> sha \<Rightarrow> admin_op \<Rightarrow> key \<Rightarrow> key \<Rightarrow> u64 \<Rightarrow> slot \<Rightarrow> shown_challenge" where
  "admin_challenge E sha (Pause SAllowlist) dwallet policy nonce s =
    AllowlistPauseChallenge E sha dwallet policy nonce s"
| "admin_challenge E sha (Resume SAllowlist) dwallet policy nonce s =
    AllowlistResumeChallenge E sha dwallet policy nonce s"
| "admin_challenge E sha (Pause SVelocity) dwallet policy nonce s =
    VelocityPauseChallenge E sha dwallet policy nonce s"
| "admin_challenge E sha (Resume SVelocity) dwallet policy nonce s =
    VelocityResumeChallenge E sha dwallet policy nonce s"
| "admin_challenge E sha (Pause STimeLock) dwallet policy nonce s =
    TimeLockPauseChallenge E sha dwallet policy nonce s"
| "admin_challenge E sha (Resume STimeLock) dwallet policy nonce s =
    TimeLockResumeChallenge E sha dwallet policy nonce s"
| "admin_challenge E sha (Pause SOracle) dwallet policy nonce s =
    OraclePauseChallenge E sha dwallet policy nonce s"
| "admin_challenge E sha (Resume SOracle) dwallet policy nonce s =
    OracleResumeChallenge E sha dwallet policy nonce s"
| "admin_challenge E sha (Pause SPasskey) dwallet policy nonce s =
    PasskeyPauseChallenge E sha dwallet policy nonce s"
| "admin_challenge E sha (Resume SPasskey) dwallet policy nonce s =
    PasskeyResumeChallenge E sha dwallet policy nonce s"
| "admin_challenge E sha (Pause SFhe) dwallet policy nonce s =
    FHEGatedPauseChallenge E sha dwallet policy nonce s"
| "admin_challenge E sha (Resume SFhe) dwallet policy nonce s =
    FHEGatedResumeChallenge E sha dwallet policy nonce s"
| "admin_challenge E sha (AllowDest a) dwallet policy nonce s =
    AllowlistAddDestinationChallenge E sha dwallet policy a nonce s"
| "admin_challenge E sha (BlockDest a) dwallet policy nonce s =
    AllowlistRemoveDestinationChallenge E sha dwallet policy a nonce s"
| "admin_challenge E sha (VelocityWindow a b) dwallet policy nonce s =
    VelocityUpdateWindowChallenge E sha dwallet policy a b nonce s"
| "admin_challenge E sha (TimeLockWindow a b c d) dwallet policy nonce s =
    TimeLockUpdateWindowChallenge E sha dwallet policy a b c d nonce s"
| "admin_challenge E sha (OracleBounds a b c d) dwallet policy nonce s =
    OracleUpdateBoundsChallenge E sha dwallet policy a b c d nonce s"
| "admin_challenge E sha (PasskeyPolicy a b) dwallet policy nonce s =
    PasskeyUpdatePolicyChallenge E sha dwallet policy a b nonce s"
| "admin_challenge E sha RevokeSession dwallet policy nonce s =
    SessionKeysRevokeChallenge E sha dwallet policy nonce s"
| "admin_challenge E sha (AllowProgram a) dwallet policy nonce s =
    SessionKeysAddAllowedProgramChallenge E sha dwallet policy a nonce s"
| "admin_challenge E sha (BlockProgram a) dwallet policy nonce s =
    SessionKeysRemoveAllowedProgramChallenge E sha dwallet policy a nonce s"
| "admin_challenge E sha (CloseSession a) dwallet policy nonce s =
    SessionKeysCloseSessionChallenge E sha dwallet policy a nonce s"
| "admin_challenge E sha (RotateFhe a) dwallet policy nonce s =
    FHEGatedRotateAuthorityChallenge E sha dwallet policy a nonce s"

fun init_hash :: "sha \<Rightarrow> init_op \<Rightarrow> key \<Rightarrow> slot \<Rightarrow> slot \<Rightarrow> hash" where
  "init_hash sha InitAllowlist d i s =
    AllowlistInitPolicyChallenge sha d i s"
| "init_hash sha (InitVelocity a b) d i s =
    VelocityInitPolicyChallenge sha d i s a b"
| "init_hash sha (InitTimeLock a b c x) d i s =
    TimeLockInitPolicyChallenge sha d i s a b c x"
| "init_hash sha (InitOracle a b c x e) d i s =
    OracleInitPolicyChallenge sha d i s a b c x e"
| "init_hash sha (InitPasskey a b) d i s =
    PasskeyInitPolicyChallenge sha d i s a b"
| "init_hash sha (InitFhe a b) d i s =
    FHEGatedInitPolicyChallenge sha d i s a b"
| "init_hash sha (InitSession a b c x e) d i s =
    SessionKeysInitPolicyChallenge sha d i a s b c x e"

fun rules_hash :: "sha \<Rightarrow> rules_op \<Rightarrow> key \<Rightarrow> u64 \<Rightarrow> slot \<Rightarrow> hash" where
  "rules_hash sha (AddMember a) dwallet nonce s =
    AdminAddMemberChallenge sha dwallet a nonce s"
| "rules_hash sha (RemoveMember a) dwallet nonce s =
    AdminRemoveMemberChallenge sha dwallet a nonce s"
| "rules_hash sha (AddDestination a) dwallet nonce s =
    AdminAddDestinationChallenge sha dwallet a nonce s"
| "rules_hash sha (RemoveDestination a) dwallet nonce s =
    AdminRemoveDestinationChallenge sha dwallet a nonce s"
| "rules_hash sha Revoke dwallet nonce s =
    AdminRevokeChallenge sha dwallet nonce s"
| "rules_hash sha (SetPrimary a) dwallet nonce s =
    AdminSetPrimaryChallenge sha dwallet a nonce s"
| "rules_hash sha (SetThreshold a) dwallet nonce s =
    AdminSetQuorumThresholdImmediateChallenge sha dwallet a nonce s"
| "rules_hash sha (SetDailyLimit a b) dwallet nonce s =
    AdminSetDailyLimitImmediateChallenge sha dwallet a b nonce s"
| "rules_hash sha (SetCooldown a) dwallet nonce s =
    AdminSetCooldownImmediateChallenge sha dwallet a nonce s"
| "rules_hash sha (ProposeThreshold a) dwallet nonce s =
    AdminProposeQuorumThresholdChallenge sha dwallet a nonce s"
| "rules_hash sha (ProposeDailyLimit a b) dwallet nonce s =
    AdminProposeDailyLimitChallenge sha dwallet a b nonce s"
| "rules_hash sha (ProposeCooldown a) dwallet nonce s =
    AdminProposeCooldownChallenge sha dwallet a nonce s"

text \<open>The hash the code returns for a request.\<close>

fun request_hash :: "solana_env \<Rightarrow> sha \<Rightarrow> auth_request \<Rightarrow> challenge_error + hash" where
  "request_hash E sha (Admin oper dwallet policy nonce s) =
    bind_res (admin_challenge E sha oper dwallet policy nonce s) (\<lambda>(h, _, _). Inr h)"
| "request_hash E sha (Init oper d i s) = Inr (init_hash sha oper d i s)"
| "request_hash E sha (RulesAdmin oper d n s) = Inr (rules_hash sha oper d n s)"
| "request_hash E sha (StepUp a b c d e) = Inr (PasskeyStepUpChallenge sha a b c d e)"
| "request_hash E sha (CreateSession a b c d e f g) = Inr (SessionKeysCreateSessionChallenge sha a b c d e f g)"
| "request_hash E sha (Decision a b c d) = Inr (FHEGatedDecisionCanonicalBytes sha a b c d)"
| "request_hash E sha (RPrimary a b c d e) = Inr (PrimaryRecoverChallenge sha a b c d e)"
| "request_hash E sha (RQuorumOpen a b c d e f g h) = Inr (QuorumSessionOpenChallenge sha a b c d e f g h)"
| "request_hash E sha (RContribute a b) = Inr (QuorumContributeChallenge sha a b)"

text \<open>The bytes under the hash, as a label and a body.\<close>

definition admin_text :: "solana_env \<Rightarrow> admin_op \<Rightarrow> key \<Rightarrow> key \<Rightarrow> string" where
  "admin_text E oper policy dwallet =
     (case render_op E oper policy dwallet of Inl _ \<Rightarrow> [] | Inr t \<Rightarrow> t)"

fun admin_label :: "admin_op \<Rightarrow> string" where
  "admin_label (Pause SAllowlist) = allowlistDomain @ ''pause''"
| "admin_label (Resume SAllowlist) = allowlistDomain @ ''resume''"
| "admin_label (Pause SVelocity) = velocityDomain @ ''pause''"
| "admin_label (Resume SVelocity) = velocityDomain @ ''resume''"
| "admin_label (Pause STimeLock) = timeLockDomain @ ''pause''"
| "admin_label (Resume STimeLock) = timeLockDomain @ ''resume''"
| "admin_label (Pause SOracle) = oracleDomain @ ''pause''"
| "admin_label (Resume SOracle) = oracleDomain @ ''resume''"
| "admin_label (Pause SPasskey) = passkeyDomain @ ''pause''"
| "admin_label (Resume SPasskey) = passkeyDomain @ ''resume''"
| "admin_label (Pause SFhe) = fheGatedDomain @ ''pause''"
| "admin_label (Resume SFhe) = fheGatedDomain @ ''resume''"
| "admin_label (AllowDest a) = allowlistDomain @ ''add-destination''"
| "admin_label (BlockDest a) = allowlistDomain @ ''remove-destination''"
| "admin_label (VelocityWindow a b) = velocityDomain @ ''update-window''"
| "admin_label (TimeLockWindow a b c d) = timeLockDomain @ ''update-window''"
| "admin_label (OracleBounds a b c d) = oracleDomain @ ''update-bounds''"
| "admin_label (PasskeyPolicy a b) = passkeyDomain @ ''update-policy''"
| "admin_label RevokeSession = sessionKeysDomain @ ''revoke-session''"
| "admin_label (AllowProgram a) = sessionKeysDomain @ ''add-allowed-program''"
| "admin_label (BlockProgram a) = sessionKeysDomain @ ''remove-allowed-program''"
| "admin_label (CloseSession a) = sessionKeysDomain @ ''close-session''"
| "admin_label (RotateFhe a) = fheGatedDomain @ ''rotate-authority''"

fun admin_extras :: "admin_op \<Rightarrow> bytes list" where
  "admin_extras (Pause _) = []"
| "admin_extras (Resume _) = []"
| "admin_extras (AllowDest a) = [arr_bytes a]"
| "admin_extras (BlockDest a) = [arr_bytes a]"
| "admin_extras (VelocityWindow a b) = [U32LE a, U64LE b]"
| "admin_extras (TimeLockWindow a b c d) = [[a], U64LE b, U64LE c, U64LE d]"
| "admin_extras (OracleBounds a b c d) = [I64LE a, I64LE b, U64LE c, U16LE d]"
| "admin_extras (PasskeyPolicy a b) = [U64LE a, arr_bytes b]"
| "admin_extras RevokeSession = []"
| "admin_extras (AllowProgram a) = [arr_bytes a]"
| "admin_extras (BlockProgram a) = [arr_bytes a]"
| "admin_extras (CloseSession a) = [arr_bytes a]"
| "admin_extras (RotateFhe a) = [arr_bytes a]"

fun init_label :: "init_op \<Rightarrow> string" where
  "init_label InitAllowlist = allowlistDomain @ initOpTag"
| "init_label (InitVelocity _ _) = velocityDomain @ initOpTag"
| "init_label (InitTimeLock _ _ _ _) = timeLockDomain @ initOpTag"
| "init_label (InitOracle _ _ _ _ _) = oracleDomain @ initOpTag"
| "init_label (InitPasskey _ _) = passkeyDomain @ initOpTag"
| "init_label (InitFhe _ _) = fheGatedDomain @ initOpTag"
| "init_label (InitSession _ _ _ _ _) = sessionKeysDomain @ initOpTag"

fun init_body :: "init_op \<Rightarrow> slot \<Rightarrow> slot \<Rightarrow> bytes" where
  "init_body InitAllowlist i s =
    arr_bytes i @ arr_bytes s"
| "init_body (InitVelocity a b) i s =
    arr_bytes i @ arr_bytes s @ U32LE a @ U64LE b"
| "init_body (InitTimeLock a b c x) i s =
    arr_bytes i @ arr_bytes s @ [a] @ U64LE b @ U64LE c @ U64LE x"
| "init_body (InitOracle a b c x e) i s =
    arr_bytes i @ arr_bytes s @ arr_bytes a @ I64LE b @ I64LE c @ U64LE x @ U16LE e"
| "init_body (InitPasskey a b) i s =
    arr_bytes i @ arr_bytes s @ U64LE a @ arr_bytes b"
| "init_body (InitFhe a b) i s =
    arr_bytes i @ arr_bytes s @ arr_bytes a @ U64LE b"
| "init_body (InitSession a b c x e) i s =
    arr_bytes i @ U32LE a @ arr_bytes s @ arr_bytes b @ U64LE c @ U64LE x @ U32LE e"

fun rules_label :: "rules_op \<Rightarrow> string" where
  "rules_label (AddMember _) = rulesPolicyDomain @ ''admin-add-member''"
| "rules_label (RemoveMember _) = rulesPolicyDomain @ ''admin-remove-member''"
| "rules_label (AddDestination _) = rulesPolicyDomain @ ''admin-add-destination''"
| "rules_label (RemoveDestination _) = rulesPolicyDomain @ ''admin-remove-destination''"
| "rules_label Revoke = rulesPolicyDomain @ ''admin-revoke''"
| "rules_label (SetPrimary _) = rulesPolicyDomain @ ''admin-set-primary''"
| "rules_label (SetThreshold _) = rulesPolicyDomain @ ''admin-set-qt-immediate''"
| "rules_label (SetDailyLimit _ _) = rulesPolicyDomain @ ''admin-set-dl-immediate''"
| "rules_label (SetCooldown _) = rulesPolicyDomain @ ''admin-set-cd-immediate''"
| "rules_label (ProposeThreshold _) = rulesPolicyDomain @ ''admin-propose-qt''"
| "rules_label (ProposeDailyLimit _ _) = rulesPolicyDomain @ ''admin-propose-dl''"
| "rules_label (ProposeCooldown _) = rulesPolicyDomain @ ''admin-propose-cd''"

fun rules_extras :: "rules_op \<Rightarrow> bytes" where
  "rules_extras (AddMember a) = arr_bytes a"
| "rules_extras (RemoveMember a) = arr_bytes a"
| "rules_extras (AddDestination a) = arr_bytes a"
| "rules_extras (RemoveDestination a) = arr_bytes a"
| "rules_extras Revoke = []"
| "rules_extras (SetPrimary a) = arr_bytes a"
| "rules_extras (SetThreshold a) = [a]"
| "rules_extras (SetDailyLimit a b) = [if a then 1 else 0] @ U64LE b"
| "rules_extras (SetCooldown a) = U64LE a"
| "rules_extras (ProposeThreshold a) = [a]"
| "rules_extras (ProposeDailyLimit a b) = [if a then 1 else 0] @ U64LE b"
| "rules_extras (ProposeCooldown a) = U64LE a"

fun request_label :: "auth_request \<Rightarrow> string" where
  "request_label (Admin oper _ _ _ _) = admin_label oper"
| "request_label (Init oper _ _ _) = init_label oper"
| "request_label (RulesAdmin oper _ _ _) = rules_label oper"
| "request_label (StepUp _ _ _ _ _) = passkeyDomainStepUpV1 @ ''step-up''"
| "request_label (CreateSession _ _ _ _ _ _ _) = sessionKeysDomainInitV1 @ ''create-session''"
| "request_label (Decision _ _ _ _) = fheGatedDomainDecision"
| "request_label (RPrimary _ _ _ _ _) = rulesPolicyDomain @ ''primary-recover''"
| "request_label (RQuorumOpen _ _ _ _ _ _ _ _) = rulesPolicyDomain @ ''quorum-session-open''"
| "request_label (RContribute _ _) = rulesPolicyDomain @ ''quorum-contribute''"

fun request_body :: "solana_env \<Rightarrow> auth_request \<Rightarrow> bytes" where
  "request_body E (Admin oper d p n s) =
    lp (ascii (admin_text E oper p d)) @ arr_bytes d @ arr_bytes p @ U64LE n @ arr_bytes s
      @ concat (admin_extras oper)"
| "request_body E (Init oper d i s) = arr_bytes d @ init_body oper i s"
| "request_body E (RulesAdmin oper d n s) =
    arr_bytes d @ U64LE n @ arr_bytes s @ rules_extras oper"
| "request_body _ (StepUp a b c d e) =
    arr_bytes a @ arr_bytes b @ U64LE c @ U64LE d @ arr_bytes e"
| "request_body _ (CreateSession a b c d e f g) =
    arr_bytes a @ arr_bytes b @ U64LE 0 @ arr_bytes g @ arr_bytes c @ U64LE d @ U64LE e @ U32LE f"
| "request_body _ (Decision a b c d) =
    arr_bytes a @ arr_bytes b @ U64LE c @ [d]"
| "request_body _ (RPrimary a b c d e) =
    arr_bytes a @ arr_bytes b @ arr_bytes c @ U64LE d @ arr_bytes e"
| "request_body _ (RQuorumOpen a b c d e f g h) =
    arr_bytes a @ arr_bytes b @ arr_bytes c @ U64LE d @ arr_bytes e @ I64LE f @ U64LE g @ arr_bytes h"
| "request_body _ (RContribute a b) =
    arr_bytes a @ arr_bytes b"

definition request_preimage :: "solana_env \<Rightarrow> auth_request \<Rightarrow> bytes" where
  "request_preimage E r = ascii (request_label r) @ request_body E r"

lemmas init_challenge_defs = 
  AllowlistInitPolicyChallenge_def VelocityInitPolicyChallenge_def
  TimeLockInitPolicyChallenge_def OracleInitPolicyChallenge_def
  PasskeyInitPolicyChallenge_def FHEGatedInitPolicyChallenge_def
  SessionKeysInitPolicyChallenge_def

lemmas rules_challenge_defs = adminHash_def
  AdminAddMemberChallenge_def AdminRemoveMemberChallenge_def
  AdminAddDestinationChallenge_def AdminRemoveDestinationChallenge_def
  AdminRevokeChallenge_def AdminSetPrimaryChallenge_def
  AdminSetQuorumThresholdImmediateChallenge_def AdminSetDailyLimitImmediateChallenge_def
  AdminSetCooldownImmediateChallenge_def AdminProposeQuorumThresholdChallenge_def
  AdminProposeDailyLimitChallenge_def AdminProposeCooldownChallenge_def

lemmas plain_challenge_defs = 
  PasskeyStepUpChallenge_def SessionKeysCreateSessionChallenge_def
  FHEGatedDecisionCanonicalBytes_def PrimaryRecoverChallenge_def
  QuorumSessionOpenChallenge_def QuorumContributeChallenge_def

section \<open>The labels separate the requests\<close>

text \<open>Every kind of request has a number, and the number names its label.\<close>

definition labels :: "string list" where
  "labels =
    [allowlistDomain @ ''pause'',
     allowlistDomain @ ''resume'',
     velocityDomain @ ''pause'',
     velocityDomain @ ''resume'',
     timeLockDomain @ ''pause'',
     timeLockDomain @ ''resume'',
     oracleDomain @ ''pause'',
     oracleDomain @ ''resume'',
     passkeyDomain @ ''pause'',
     passkeyDomain @ ''resume'',
     fheGatedDomain @ ''pause'',
     fheGatedDomain @ ''resume'',
     allowlistDomain @ ''add-destination'',
     allowlistDomain @ ''remove-destination'',
     velocityDomain @ ''update-window'',
     timeLockDomain @ ''update-window'',
     oracleDomain @ ''update-bounds'',
     passkeyDomain @ ''update-policy'',
     sessionKeysDomain @ ''revoke-session'',
     sessionKeysDomain @ ''add-allowed-program'',
     sessionKeysDomain @ ''remove-allowed-program'',
     sessionKeysDomain @ ''close-session'',
     fheGatedDomain @ ''rotate-authority'',
     allowlistDomain @ initOpTag,
     velocityDomain @ initOpTag,
     timeLockDomain @ initOpTag,
     oracleDomain @ initOpTag,
     passkeyDomain @ initOpTag,
     fheGatedDomain @ initOpTag,
     sessionKeysDomain @ initOpTag,
     rulesPolicyDomain @ ''admin-add-member'',
     rulesPolicyDomain @ ''admin-remove-member'',
     rulesPolicyDomain @ ''admin-add-destination'',
     rulesPolicyDomain @ ''admin-remove-destination'',
     rulesPolicyDomain @ ''admin-revoke'',
     rulesPolicyDomain @ ''admin-set-primary'',
     rulesPolicyDomain @ ''admin-set-qt-immediate'',
     rulesPolicyDomain @ ''admin-set-dl-immediate'',
     rulesPolicyDomain @ ''admin-set-cd-immediate'',
     rulesPolicyDomain @ ''admin-propose-qt'',
     rulesPolicyDomain @ ''admin-propose-dl'',
     rulesPolicyDomain @ ''admin-propose-cd'',
     passkeyDomainStepUpV1 @ ''step-up'',
     sessionKeysDomainInitV1 @ ''create-session'',
     fheGatedDomainDecision,
     rulesPolicyDomain @ ''primary-recover'',
     rulesPolicyDomain @ ''quorum-session-open'',
     rulesPolicyDomain @ ''quorum-contribute'']"

fun admin_tag :: "admin_op \<Rightarrow> nat" where
  "admin_tag (Pause SAllowlist) = 0"
| "admin_tag (Resume SAllowlist) = 1"
| "admin_tag (Pause SVelocity) = 2"
| "admin_tag (Resume SVelocity) = 3"
| "admin_tag (Pause STimeLock) = 4"
| "admin_tag (Resume STimeLock) = 5"
| "admin_tag (Pause SOracle) = 6"
| "admin_tag (Resume SOracle) = 7"
| "admin_tag (Pause SPasskey) = 8"
| "admin_tag (Resume SPasskey) = 9"
| "admin_tag (Pause SFhe) = 10"
| "admin_tag (Resume SFhe) = 11"
| "admin_tag (AllowDest a) = 12"
| "admin_tag (BlockDest a) = 13"
| "admin_tag (VelocityWindow a b) = 14"
| "admin_tag (TimeLockWindow a b c d) = 15"
| "admin_tag (OracleBounds a b c d) = 16"
| "admin_tag (PasskeyPolicy a b) = 17"
| "admin_tag RevokeSession = 18"
| "admin_tag (AllowProgram a) = 19"
| "admin_tag (BlockProgram a) = 20"
| "admin_tag (CloseSession a) = 21"
| "admin_tag (RotateFhe a) = 22"

fun init_tag :: "init_op \<Rightarrow> nat" where
  "init_tag InitAllowlist = 23"
| "init_tag (InitVelocity _ _) = 24"
| "init_tag (InitTimeLock _ _ _ _) = 25"
| "init_tag (InitOracle _ _ _ _ _) = 26"
| "init_tag (InitPasskey _ _) = 27"
| "init_tag (InitFhe _ _) = 28"
| "init_tag (InitSession _ _ _ _ _) = 29"

fun rules_tag :: "rules_op \<Rightarrow> nat" where
  "rules_tag (AddMember _) = 30"
| "rules_tag (RemoveMember _) = 31"
| "rules_tag (AddDestination _) = 32"
| "rules_tag (RemoveDestination _) = 33"
| "rules_tag Revoke = 34"
| "rules_tag (SetPrimary _) = 35"
| "rules_tag (SetThreshold _) = 36"
| "rules_tag (SetDailyLimit _ _) = 37"
| "rules_tag (SetCooldown _) = 38"
| "rules_tag (ProposeThreshold _) = 39"
| "rules_tag (ProposeDailyLimit _ _) = 40"
| "rules_tag (ProposeCooldown _) = 41"

fun request_tag :: "auth_request \<Rightarrow> nat" where
  "request_tag (Admin oper _ _ _ _) = admin_tag oper"
| "request_tag (Init oper _ _ _) = init_tag oper"
| "request_tag (RulesAdmin oper _ _ _) = rules_tag oper"
| "request_tag (StepUp _ _ _ _ _) = 42"
| "request_tag (CreateSession _ _ _ _ _ _ _) = 43"
| "request_tag (Decision _ _ _ _) = 44"
| "request_tag (RPrimary _ _ _ _ _) = 45"
| "request_tag (RQuorumOpen _ _ _ _ _ _ _ _) = 46"
| "request_tag (RContribute _ _) = 47"

lemma labels_separated: "separated labels"
  unfolding labels_def domain_defs initOpTag_def by code_simp

lemma admin_label_tag: "admin_label oper = labels ! admin_tag oper \<and> admin_tag oper < 23"
  by (cases oper rule: admin_label.cases) (simp_all add: labels_def)

lemma init_label_tag: "init_label oper = labels ! init_tag oper \<and> 23 \<le> init_tag oper \<and> init_tag oper < 30"
  by (cases oper) (simp_all add: labels_def)

lemma rules_label_tag: "rules_label oper = labels ! rules_tag oper \<and> 30 \<le> rules_tag oper \<and> rules_tag oper < 42"
  by (cases oper) (simp_all add: labels_def)

lemma length_labels: "length labels = 48"
  by (simp add: labels_def)

lemma request_label_tag: "request_label r = labels ! request_tag r \<and> request_tag r < length labels"
proof (cases r)
  case (Admin a1 a2 a3 a4 a5)
  then show ?thesis using admin_label_tag [of a1] by (simp add: length_labels)
next
  case (Init a1 a2 a3 a4)
  then show ?thesis using init_label_tag [of a1] by (simp add: length_labels)
next
  case (RulesAdmin a1 a2 a3 a4)
  then show ?thesis using rules_label_tag [of a1] by (simp add: length_labels)
qed (simp_all add: labels_def)

lemma admin_tag_inj:
  "admin_tag a = admin_tag b \<Longrightarrow> concat (admin_extras a) = concat (admin_extras b) \<Longrightarrow>
   op_ranged a \<Longrightarrow> op_ranged b \<Longrightarrow> a = b"
  by (cases a rule: admin_tag.cases; cases b rule: admin_tag.cases) (simp_all add: I64LE_inj)

text \<open>Prices and expiry times are \<open>int64\<close>.\<close>

fun init_ranged :: "init_op \<Rightarrow> bool" where
  "init_ranged (InitOracle _ lo hi _ _) = (in64 lo \<and> in64 hi)"
| "init_ranged _ = True"

fun request_ranged :: "auth_request \<Rightarrow> bool" where
  "request_ranged (Admin oper _ _ _ _) = op_ranged oper"
| "request_ranged (Init oper _ _ _) = init_ranged oper"
| "request_ranged (RQuorumOpen _ _ _ _ _ t _ _) = in64 t"
| "request_ranged _ = True"

lemma I64LE_append_inj:
  "in64 a \<Longrightarrow> in64 b \<Longrightarrow> I64LE a @ x = I64LE b @ y \<longleftrightarrow> a = b \<and> x = y"
  by (simp add: I64LE_inj)

lemma init_tag_inj:
  "init_tag a = init_tag b \<Longrightarrow> init_body a i s = init_body b i' s' \<Longrightarrow>
   init_ranged a \<Longrightarrow> init_ranged b \<Longrightarrow> a = b \<and> i = i' \<and> s = s'"
  by (cases a; cases b) (auto simp: I64LE_inj)

lemma rules_tag_inj:
  "rules_tag a = rules_tag b \<Longrightarrow> rules_extras a = rules_extras b \<Longrightarrow> a = b"
  by (cases a; cases b) (auto split: if_splits)

lemma admin_text_len:
  "base58_text E \<Longrightarrow> op_ranged oper \<Longrightarrow> length (admin_text E oper policy dwallet) \<le> 768"
  using render_total [of E oper policy dwallet] by (auto simp: admin_text_def MaxHumanMessageBytes_def)

lemma tag_ranges [simp]:
  "23 \<le> n \<Longrightarrow> admin_tag f \<noteq> n" "23 \<le> n \<Longrightarrow> n \<noteq> admin_tag f"
  "n < 23 \<or> 30 \<le> n \<Longrightarrow> init_tag g \<noteq> n" "n < 23 \<or> 30 \<le> n \<Longrightarrow> n \<noteq> init_tag g"
  "n < 30 \<or> 42 \<le> n \<Longrightarrow> rules_tag h \<noteq> n" "n < 30 \<or> 42 \<le> n \<Longrightarrow> n \<noteq> rules_tag h"
  "23 \<le> init_tag g" "init_tag g < 30" "30 \<le> rules_tag h" "23 \<le> rules_tag h"
  using admin_label_tag [of f] init_label_tag [of g] rules_label_tag [of h] by auto

lemma request_body_inj:
  assumes E: "base58_text E" and r: "request_ranged a" "request_ranged b"
    and t: "request_tag a = request_tag b" and body: "request_body E a = request_body E b"
  shows "a = b"
proof (cases a)
  case a: (Admin f d p n s)
  with t obtain g e q m u where b: "b = Admin g e q m u" by (cases b) auto
  have "lp (ascii (admin_text E f p d)) @ x = lp (ascii (admin_text E g q e)) @ y
     \<longleftrightarrow> admin_text E f p d = admin_text E g q e \<and> x = y" for x y
    using admin_text_len [OF E, of f p d] admin_text_len [OF E, of g q e] r
    by (subst lp_append_inj) (auto simp: a b)
  with body have "d = e \<and> p = q \<and> n = m \<and> s = u \<and> concat (admin_extras f) = concat (admin_extras g)"
    by (simp add: a b)
  with t r show ?thesis by (auto simp: a b dest: admin_tag_inj)
next
  case a: (Init f d i s)
  with t obtain g e j u where b: "b = Init g e j u" by (cases b) auto
  with body t r a show ?thesis by (auto dest: init_tag_inj)
next
  case a: (RulesAdmin f d n s)
  with t obtain g e m u where b: "b = RulesAdmin g e m u" by (cases b) auto
  with body t r a show ?thesis by (auto dest: rules_tag_inj)
qed (use t body r in \<open>cases b; auto simp: I64LE_inj\<close>)+

lemma request_preimage_inj:
  assumes "base58_text E" "request_ranged a" "request_ranged b" "request_preimage E a = request_preimage E b"
  shows "a = b"
proof -
  have "request_tag a = request_tag b \<and> request_body E a = request_body E b"
    using request_label_tag [of a] request_label_tag [of b] assms(4)
    by (intro separated_append_eq [OF labels_separated]) (auto simp: request_preimage_def)
  with request_body_inj [OF assms(1-3)] show ?thesis by blast
qed

section \<open>The code hashes these bytes\<close>

lemma ownerAdminHash_lp:
  "length human \<le> 768 \<Longrightarrow> ownerAdminHashWithHuman sha domain opTag human dwallet policy nonce s extras
   = Inr (sha (ascii (domain @ opTag) @ lp (ascii human) @ arr_bytes dwallet @ arr_bytes policy
       @ U64LE nonce @ arr_bytes s @ concat extras))"
  by (simp add: ownerAdminHashWithHuman_def HumanLenLE_def Hashv_def lp_def)

text \<open>All administrative challenges have one shape: the rendered text, then the hash of the
  label, the text and the parameters.\<close>

lemma admin_challenge_shape:
  "render_op E oper policy dwallet = Inr t \<Longrightarrow> length t \<le> 768 \<Longrightarrow>
   \<exists>cs. admin_challenge E sha oper dwallet policy nonce s =
     Inr (sha (ascii (admin_label oper) @ lp (ascii t) @ arr_bytes dwallet @ arr_bytes policy
       @ U64LE nonce @ arr_bytes s @ concat (admin_extras oper)), t, cs)"
  by (cases oper rule: admin_label.cases)
    (simp_all add: admin_challenge_defs shown_def ownerAdminHash_lp)

lemma init_hash_eq: "init_hash sha oper d i s = sha (ascii (init_label oper) @ arr_bytes d @ init_body oper i s)"
  by (cases oper) (simp_all add: init_challenge_defs Hashv_def)

lemma rules_hash_eq:
  "rules_hash sha oper d n s
   = sha (ascii (rules_label oper) @ arr_bytes d @ U64LE n @ arr_bytes s @ rules_extras oper)"
  by (cases oper) (simp_all add: rules_challenge_defs Hashv_def)

lemma request_hash_eq:
  assumes "base58_text E" "request_ranged r"
  shows "request_hash E sha r = Inr (sha (request_preimage E r))"
proof (cases r)
  case r: (Admin oper d p n s)
  obtain t where t: "render_op E oper p d = Inr t" "length t \<le> 768"
    using render_total [OF assms(1), of oper p d] assms(2) r by (auto simp: MaxHumanMessageBytes_def)
  from admin_challenge_shape [OF this, of sha n s] show ?thesis
    by (auto simp: r request_preimage_def admin_text_def t)
qed (simp_all add: request_preimage_def init_hash_eq rules_hash_eq plain_challenge_defs Hashv_def)

text \<open>
  Property C2. No signature can be replayed for another request. Every challenge of the
  package (administration of the seven templates, their creation, step-up, session creation,
  decisions, and the rules-policy operations) is the hash of \<open>request_preimage\<close>, whatever the
  hash function, and two different requests, of the same kind or of different kinds, never
  hash the same bytes.
\<close>

theorem auth_challenges_separate_requests:
  assumes "base58_text E" "request_ranged a" "request_ranged b" "a \<noteq> b"
  shows "(\<forall>sha. request_hash E sha a = Inr (sha (request_preimage E a)))
    \<and> (\<forall>sha. request_hash E sha b = Inr (sha (request_preimage E b)))
    \<and> request_preimage E a \<noteq> request_preimage E b"
  using assms request_hash_eq [OF assms(1,2)] request_hash_eq [OF assms(1,3)]
    request_preimage_inj [OF assms(1-3)] by blast

theorem auth_challenges_separate_requests_witness:
  "request_preimage sample_env (Admin (Pause SFhe) zero_arr zero_arr 1 zero_arr)
   \<noteq> request_preimage sample_env (Admin (Resume SFhe) zero_arr zero_arr 1 zero_arr)"
  using auth_challenges_separate_requests [OF base58_text_sample,
      of "Admin (Pause SFhe) zero_arr zero_arr 1 zero_arr" "Admin (Resume SFhe) zero_arr zero_arr 1 zero_arr"]
  by simp

text \<open>
  An administrative challenge comes with the text it binds: the human-readable
  message returned next to the hash is the rendering of exactly the operation, policy and
  dWallet whose bytes are hashed.
\<close>

theorem admin_challenge_binds_text:
  assumes "base58_text E" "op_ranged oper"
  shows "\<exists>t cs. render_op E oper policy dwallet = Inr t
    \<and> admin_challenge E sha oper dwallet policy nonce s
      = Inr (sha (request_preimage E (Admin oper dwallet policy nonce s)), t, cs)"
proof -
  obtain t where t: "render_op E oper policy dwallet = Inr t" "length t \<le> 768"
    using render_total [OF assms] by (auto simp: MaxHumanMessageBytes_def)
  from admin_challenge_shape [OF this, of sha nonce s] t show ?thesis
    by (auto simp: request_preimage_def admin_text_def)
qed

theorem admin_challenge_binds_text_witness:
  "\<exists>t cs. admin_challenge sample_env mk_arr (AllowDest (key_of 4)) zero_arr zero_arr 7 zero_arr
     = Inr (mk_arr (request_preimage sample_env (Admin (AllowDest (key_of 4)) zero_arr zero_arr 7 zero_arr)), t, cs)"
  using admin_challenge_binds_text [OF base58_text_sample, of "AllowDest (key_of 4)" zero_arr zero_arr mk_arr 7 zero_arr]
  by auto

end
