(* ===== verification/Encoding.thy ===== *)
theory Encoding
  imports ClearSigning
begin

text \<open>
  The text codecs of Go's standard library the gateway relies on: \<open>encoding/hex\<close>,
  \<open>base64.StdEncoding\<close> and the decimal parsers of \<open>strconv\<close> and \<open>math/big\<close>, as decoders that
  fail where Go returns an error, with their round trips.
\<close>

section \<open>Hexadecimal\<close>

definition hex_val :: "char \<Rightarrow> nat option" where
  "hex_val c = (let n = (of_char c :: nat) in
     if 48 \<le> n \<and> n \<le> 57 then Some (n - 48)
     else if 97 \<le> n \<and> n \<le> 102 then Some (n - 87)
     else if 65 \<le> n \<and> n \<le> 70 then Some (n - 55)
     else None)"

fun hex_decode :: "string \<Rightarrow> bytes option" where
  "hex_decode [] = Some []"
| "hex_decode [_] = None"
| "hex_decode (a # b # r) =
     (case (hex_val a, hex_val b, hex_decode r) of
        (Some x, Some y, Some t) \<Rightarrow> Some (of_nat (16 * x + y) # t)
      | _ \<Rightarrow> None)"

lemma hex_val_digit: "n < 16 \<Longrightarrow> hex_val (hex_digit n) = Some n"
proof -
  assume "n < 16"
  then have "n \<in> {0, 1, 2, 3, 4, 5, 6, 7, 8, 9, 10, 11, 12, 13, 14, 15}" by simp presburger
  then show ?thesis by (auto simp: hex_val_def hex_digit_def Let_def)
qed

lemma hex_decode_lower [simp]: "hex_decode (hex_lower b) = Some b"
proof (induction b)
  case (Cons x b)
  have "unat x < 256" by (rule unat_byte)
  then have "unat x div 16 < 16" by simp
  moreover have "(of_nat (16 * (unat x div 16) + unat x mod 16) :: byte) = x"
    by (simp only: mult_div_mod_eq) simp
  ultimately show ?case using Cons by (simp add: hex_val_digit)
qed simp

lemma hex_decode_len: "hex_decode s = Some b \<Longrightarrow> length s = 2 * length b"
  by (induction s arbitrary: b rule: hex_decode.induct) (auto split: option.splits prod.splits)

section \<open>Base64\<close>

definition b64_val :: "char \<Rightarrow> nat option" where
  "b64_val c = (let n = (of_char c :: nat) in
     if 65 \<le> n \<and> n \<le> 90 then Some (n - 65)
     else if 97 \<le> n \<and> n \<le> 122 then Some (n - 71)
     else if 48 \<le> n \<and> n \<le> 57 then Some (n + 4)
     else if n = 43 then Some 62
     else if n = 47 then Some 63
     else None)"

definition b64_char :: "nat \<Rightarrow> char" where
  "b64_char n = char_of
     (if n < 26 then n + 65 else if n < 52 then n + 71 else if n < 62 then n - 4
      else if n = 62 then 43 else 47)"

text \<open>\<open>decodeQuantum\<close> over groups of four characters, padding only in the last; the bits below a
  padded group are not checked (\<open>StdEncoding\<close> is not strict). Line breaks are skipped first.\<close>

fun b64_groups :: "string \<Rightarrow> bytes option" where
  "b64_groups [] = Some []"
| "b64_groups (a # b # c # d # r) =
     (case (b64_val a, b64_val b) of
        (Some x, Some y) \<Rightarrow>
          if c = CHR ''='' then
            (if d = CHR ''='' \<and> r = [] then Some [of_nat ((64 * x + y) div 16)] else None)
          else (case b64_val c of None \<Rightarrow> None | Some z \<Rightarrow>
            let v = 64 * (64 * x + y) + z in
            if d = CHR ''='' then
              (if r = [] then Some [of_nat (v div 1024), of_nat (v div 4 mod 256)] else None)
            else (case (b64_val d, b64_groups r) of
              (Some w, Some t) \<Rightarrow> Some (of_nat ((64 * v + w) div 65536)
                # of_nat ((64 * v + w) div 256 mod 256) # of_nat ((64 * v + w) mod 256) # t)
            | _ \<Rightarrow> None))
      | _ \<Rightarrow> None)"
| "b64_groups _ = None"

definition b64_decode :: "string \<Rightarrow> bytes option" where
  "b64_decode s = b64_groups (filter (\<lambda>c. c \<noteq> CHR 0x0A \<and> c \<noteq> CHR 0x0D) s)"

fun b64_encode :: "bytes \<Rightarrow> string" where
  "b64_encode [] = []"
| "b64_encode [x] = [b64_char (unat x div 4), b64_char (unat x mod 4 * 16), CHR ''='', CHR ''='']"
| "b64_encode [x, y] =
     [b64_char (unat x div 4), b64_char (unat x mod 4 * 16 + unat y div 16),
      b64_char (unat y mod 16 * 4), CHR ''='']"
| "b64_encode (x # y # z # r) =
     b64_char (unat x div 4) # b64_char (unat x mod 4 * 16 + unat y div 16)
     # b64_char (unat y mod 16 * 4 + unat z div 64) # b64_char (unat z mod 64) # b64_encode r"

lemma b64_char_code:
  "n < 64 \<Longrightarrow> (of_char (b64_char n) :: nat) =
     (if n < 26 then n + 65 else if n < 52 then n + 71 else if n < 62 then n - 4
      else if n = 62 then 43 else 47)"
  by (simp add: b64_char_def)

lemma b64_char_facts:
  assumes "n < 64"
  shows "b64_val (b64_char n) = Some n" "b64_char n \<noteq> CHR ''=''"
    "b64_char n \<noteq> CHR 0x0A" "b64_char n \<noteq> CHR 0x0D"
proof -
  note code = b64_char_code [OF assms]
  show "b64_val (b64_char n) = Some n"
    using assms by (simp add: b64_val_def code Let_def) presburger
  have "(of_char (b64_char n) :: nat) \<notin> {61, 10, 13}" using assms by (simp add: code) presburger
  then show "b64_char n \<noteq> CHR ''=''" "b64_char n \<noteq> CHR 0x0A" "b64_char n \<noteq> CHR 0x0D"
    by (auto intro: ccontr)
qed

lemma byte_parts:
  obtains a b where "unat (x :: byte) = 4 * a + b" "a < 64" "b < 4"
    "unat x div 4 = a" "unat x mod 4 = b"
proof
  show "unat x div 4 < 64" using unat_byte [of x] by linarith
qed simp_all

lemma byte_halves:
  obtains a b where "unat (x :: byte) = 16 * a + b" "a < 16" "b < 16"
    "unat x div 16 = a" "unat x mod 16 = b"
proof
  show "unat x div 16 < 16" using unat_byte [of x] by linarith
qed simp_all

lemma byte_top:
  obtains a b where "unat (x :: byte) = 64 * a + b" "a < 4" "b < 64"
    "unat x div 64 = a" "unat x mod 64 = b"
proof
  show "unat x div 64 < 4" using unat_byte [of x] by linarith
qed simp_all

lemma div_shift: "b < n \<Longrightarrow> (n * a + b) div n = (a :: nat)"
  by simp

lemma byte_of: "n = unat (x :: byte) \<Longrightarrow> of_nat n = x"
  by simp

lemma b64_group1:
  assumes "b64_val a = Some p" "b64_val b = Some q" "64 * p + q = 16 * unat x"
  shows "b64_groups [a, b, CHR ''='', CHR ''=''] = Some [x]"
  using assms by (simp add: byte_of)

lemma b64_group2:
  assumes "b64_val a = Some p" "b64_val b = Some q" "b64_val c = Some r" "c \<noteq> CHR ''=''"
    and v: "64 * (64 * p + q) + r = 1024 * unat x + 4 * unat y"
  shows "b64_groups [a, b, c, CHR ''=''] = Some [x, y]"
proof -
  have "(1024 * unat x + 4 * unat y) div 1024 = unat x"
    "(1024 * unat x + 4 * unat y) div 4 mod 256 = unat y"
    using unat_byte [of y] by simp_all
  then show ?thesis using assms(1-4) by (simp only: b64_groups.simps v Let_def option.case prod.case if_True if_False simp_thms byte_of)
qed

lemma b64_group3:
  assumes "b64_val a = Some p" "b64_val b = Some q" "b64_val c = Some r" "c \<noteq> CHR ''=''"
    and "b64_val d = Some s" "d \<noteq> CHR ''=''" "b64_groups t = Some u"
    and v: "64 * (64 * (64 * p + q) + r) + s = 65536 * unat x + 256 * unat y + unat z"
  shows "b64_groups (a # b # c # d # t) = Some (x # y # z # u)"
proof -
  let ?n = "65536 * unat x + 256 * unat y + unat z"
  have e: "?n = 256 * (256 * unat x + unat y) + unat z"
      "?n = 65536 * unat x + (256 * unat y + unat z)" by simp_all
  have "256 * unat y + unat z < 65536" using unat_byte [of y] unat_byte [of z] by linarith
  then have "?n div 65536 = unat x" unfolding e(2) by (rule div_shift)
  moreover have "?n div 256 mod 256 = unat y"
    unfolding e(1) div_shift [OF unat_byte] using unat_byte [of y] by simp
  moreover have "?n mod 256 = unat z" unfolding e(1) mod_mult_self4 using unat_byte [of z] by (rule mod_less)
  ultimately show ?thesis using assms(1-7)
    by (simp only: b64_groups.simps v Let_def option.case prod.case if_True if_False simp_thms byte_of)
qed

lemma b64_groups_encode: "b64_groups (b64_encode b) = Some b"
proof (induction b rule: b64_encode.induct)
  case (2 x)
  obtain a b where x: "unat x = 4 * a + b" "a < 64" "b < 4" "unat x div 4 = a" "unat x mod 4 = b"
    by (rule byte_parts)
  then show ?case unfolding b64_encode.simps
    by (intro b64_group1) (simp_all add: b64_char_facts)
next
  case (3 x y)
  obtain a b where x: "unat x = 4 * a + b" "a < 64" "b < 4" "unat x div 4 = a" "unat x mod 4 = b"
    by (rule byte_parts)
  obtain c d where y: "unat y = 16 * c + d" "c < 16" "d < 16" "unat y div 16 = c" "unat y mod 16 = d"
    by (rule byte_halves)
  show ?case unfolding b64_encode.simps x(4,5) y(4,5)
    by (intro b64_group2) (use x(1-3) y(1-3) in \<open>(simp add: b64_char_facts | linarith)+\<close>)
next
  case (4 x y z r)
  obtain a b where x: "unat x = 4 * a + b" "a < 64" "b < 4" "unat x div 4 = a" "unat x mod 4 = b"
    by (rule byte_parts)
  obtain c d where y: "unat y = 16 * c + d" "c < 16" "d < 16" "unat y div 16 = c" "unat y mod 16 = d"
    by (rule byte_halves)
  obtain e f where z: "unat z = 64 * e + f" "e < 4" "f < 64" "unat z div 64 = e" "unat z mod 64 = f"
    by (rule byte_top)
  show ?case unfolding b64_encode.simps x(4,5) y(4,5) z(4,5)
    by (intro b64_group3) (use x(1-3) y(1-3) z(1-3) 4 in \<open>(simp add: b64_char_facts | linarith)+\<close>)
qed simp

lemma b64_encode_no_breaks: "filter (\<lambda>c. c \<noteq> CHR 0x0A \<and> c \<noteq> CHR 0x0D) (b64_encode b) = b64_encode b"
proof -
  have "\<forall>c \<in> set (b64_encode b). c \<noteq> CHR 0x0A \<and> c \<noteq> CHR 0x0D"
  proof (induction b rule: b64_encode.induct)
    case (2 x)
    show ?case by (rule byte_parts [of x]) (simp add: b64_char_facts)
  next
    case (3 x y)
    show ?case by (rule byte_parts [of x], rule byte_halves [of y]) (simp add: b64_char_facts)
  next
    case (4 x y z r)
    then show ?case
      by (rule_tac byte_parts [of x], rule_tac byte_halves [of y], rule_tac byte_top [of z])
        (simp add: b64_char_facts)
  qed simp
  then show ?thesis by (simp add: filter_True)
qed

lemma b64_decode_encode [simp]: "b64_decode (b64_encode b) = Some b"
  by (simp add: b64_decode_def b64_encode_no_breaks b64_groups_encode)

section \<open>Decimal numbers\<close>

text \<open>\<open>strconv.ParseUint(s, 10, bits)\<close>, and \<open>strconv.Atoi\<close> and \<open>big.Int.SetString\<close> with their sign.\<close>

definition ParseUint :: "nat \<Rightarrow> string \<Rightarrow> nat option" where
  "ParseUint bits s =
     (if s = [] \<or> \<not> list_all is_digit s then None
      else if undec s < 2 ^ bits then Some (undec s) else None)"

definition big_parse :: "string \<Rightarrow> int option" where
  "big_parse s =
     (let (neg, t) = (case s of [] \<Rightarrow> (False, [])
        | c # r \<Rightarrow> if c = CHR ''-'' then (True, r) else if c = CHR ''+'' then (False, r) else (False, s))
      in if t = [] \<or> \<not> list_all is_digit t then None
         else Some (if neg then - int (undec t) else int (undec t)))"

definition Atoi :: "string \<Rightarrow> int option" where
  "Atoi s = (case big_parse s of None \<Rightarrow> None | Some v \<Rightarrow> if in64 v then Some v else None)"

lemma ParseUint_dec: "n < 2 ^ bits \<Longrightarrow> ParseUint bits (dec n) = Some n"
proof -
  have "list_all is_digit (dec n)" using dec_digits by (auto simp: list_all_iff)
  moreover have "undec (dec n) = n" by (rule undec_dec)
  moreover assume "n < 2 ^ bits"
  ultimately show ?thesis by (simp add: ParseUint_def)
qed

end
