(* ===== verification/Challenges.thy ===== *)
theory Challenges
  imports ClearSigning AuthCore
begin

text \<open>
  The challenges of package \<open>policy\<close>: \<open>challenges.go\<close> (administration of the policy engine,
  normal, swap and bundle authorizations, metadata digests), \<open>challenges_recovery.go\<close> (recovery,
  quorum and passkey sessions), the init preimage of \<open>routes.go\<close>, the session-administration
  challenge of \<open>handlers_session.go\<close> and the owner authorization of \<open>owner_auth.go\<close>. Every
  \<open>Preimage\<close> method is a function from the input record to the bytes that are hashed.
\<close>

section \<open>Domains and tags\<close>

definition DomainInitV1 :: string where "DomainInitV1 = ''andromeda::policy-engine::init::v1''"
definition DomainV3 :: string where "DomainV3 = ''andromeda::policy-engine::v3''"
definition DomainRequestV2 :: string where "DomainRequestV2 = ''andromeda::policy-engine::request::v2''"
definition DomainRequestV3 :: string where "DomainRequestV3 = ''andromeda::policy-engine::request::v3''"
definition DomainRulesPolicyV2 :: string where "DomainRulesPolicyV2 = ''andromeda::rules-policy::v2''"

definition OpInit :: string where "OpInit = ''init''"
definition OpInitWithRecovery :: string where "OpInitWithRecovery = ''init-with-recovery''"
definition OpNormalSign :: string where "OpNormalSign = ''normal-sign''"
definition OpSwapSign :: string where "OpSwapSign = ''swap-sign''"
definition OpBundleSign :: string where "OpBundleSign = ''bundle-sign''"

text \<open>The tags an \<open>AdminChallengeInput\<close> is built with.\<close>

definition admin_tags :: "string list" where
  "admin_tags =
    [''add-rule-allowlist'', ''allowlist-add-destination'', ''allowlist-remove-destination'',
     ''add-rule-oracle'', ''oracle-add-feed'', ''add-rule-spending-usd'', ''spending-usd-add-feed'',
     ''pause'', ''resume'', ''revoke'', ''remove-rule'', ''update-rule-fhe-authorities'',
     ''session-open'', ''session-revoke'', ''session-close'', ''session-add-destination'',
     ''session-remove-destination'']"

definition OpTagPrimaryRecover :: string where "OpTagPrimaryRecover = ''primary-recover''"
definition OpTagQuorumSessionOpen :: string where "OpTagQuorumSessionOpen = ''quorum-session-open''"
definition OpTagQuorumContribute :: string where "OpTagQuorumContribute = ''quorum-contribute''"
definition OpTagPasskeySessionOpen :: string where "OpTagPasskeySessionOpen = ''passkey-session-open''"
definition OpTagPasskeyPrimaryUse :: string where "OpTagPasskeyPrimaryUse = ''passkey-primary-use''"

lemmas op_defs = DomainInitV1_def DomainV3_def DomainRequestV2_def DomainRequestV3_def
  DomainRulesPolicyV2_def OpInit_def OpInitWithRecovery_def OpNormalSign_def OpSwapSign_def
  OpBundleSign_def admin_tags_def OpTagPrimaryRecover_def OpTagQuorumSessionOpen_def
  OpTagQuorumContribute_def OpTagPasskeySessionOpen_def OpTagPasskeyPrimaryUse_def

datatype preimage_error =
    HumanTooLong nat
  | ExtraTooLong nat
  | BundleTotalOutside u8
  | BundleIndexOutside u8 u8
  | BundleOthers u8 nat
  | SchemeUnsupported u8
  | ChainTagNotPrintable nat
  | ConfigLength nat

section \<open>Administration\<close>

record admin_input =
  ac_OpTag :: string
  ac_HumanMessage :: bytes
  ac_Engine :: key
  ac_DWallet :: key
  ac_RuleKind :: u8
  ac_RuleIndex :: u8
  ac_RuleGeneration :: u32
  ac_ExpectedNonce :: u64
  ac_ConfigHash :: hash
  ac_OwnerSlot :: slot
  ac_Extras :: "bytes list"

text \<open>The loop over the extras: each is length-prefixed, the first too long one ends it.\<close>

fun extras_loop :: "bytes list \<Rightarrow> preimage_error + bytes" where
  "extras_loop [] = Inr []"
| "extras_loop (e # es) =
     (if length e > 0xFFFF then Inl (ExtraTooLong (length e))
      else bind_res (extras_loop es) (\<lambda>r. Inr (U16LE (of_nat (length e)) @ e @ r)))"

definition AdminPreimage :: "admin_input \<Rightarrow> preimage_error + bytes" where
  "AdminPreimage a =
     (if length (ac_HumanMessage a) > 0xFFFF then Inl (HumanTooLong (length (ac_HumanMessage a)))
      else bind_res (extras_loop (ac_Extras a)) (\<lambda>extras. Inr
       (ascii DomainV3 @ ascii (ac_OpTag a)
        @ U16LE (of_nat (length (ac_HumanMessage a))) @ ac_HumanMessage a
        @ arr_bytes (ac_Engine a) @ arr_bytes (ac_DWallet a)
        @ [ac_RuleKind a] @ [ac_RuleIndex a]
        @ U32LE (ac_RuleGeneration a) @ U64LE (ac_ExpectedNonce a)
        @ arr_bytes (ac_ConfigHash a) @ arr_bytes (ac_OwnerSlot a) @ extras)))"

definition AdminHash :: "(bytes \<Rightarrow> hash) \<Rightarrow> admin_input \<Rightarrow> preimage_error + hash" where
  "AdminHash sha a = bind_res (AdminPreimage a) (\<lambda>pre. Inr (sha pre))"

section \<open>Metadata digests\<close>

record request_metadata =
  rm_Engine :: key
  rm_DWallet :: key
  rm_MessageDigest :: hash
  rm_Destination :: "32 arr"
  rm_UserPubkey :: "32 arr"
  rm_SignatureScheme :: u16
  rm_Path :: u8
  rm_RulesGeneration :: u32
  rm_Amount :: u64
  rm_AssetIndex :: u8

definition RequestMetadataPreimage :: "request_metadata \<Rightarrow> bytes" where
  "RequestMetadataPreimage r =
     ascii DomainRequestV2 @ ascii ''request-signature''
     @ arr_bytes (rm_Engine r) @ arr_bytes (rm_DWallet r) @ arr_bytes (rm_MessageDigest r)
     @ arr_bytes (rm_Destination r) @ arr_bytes (rm_UserPubkey r)
     @ U16LE (rm_SignatureScheme r) @ [rm_Path r] @ U32LE (rm_RulesGeneration r)
     @ U64LE (rm_Amount r) @ [rm_AssetIndex r]"

record swap_metadata =
  sm_Engine :: key
  sm_DWallet :: key
  sm_MessageDigest :: hash
  sm_Destination :: "32 arr"
  sm_UserPubkey :: "32 arr"
  sm_SignatureScheme :: u16
  sm_RulesGeneration :: u32
  sm_FromAmount :: u64
  sm_AssetIndex :: u8
  sm_FromToken :: "32 arr"
  sm_ToToken :: "32 arr"
  sm_MinAmountOut :: u64
  sm_ChainTag :: "8 arr"

definition SwapMetadataPreimage :: "swap_metadata \<Rightarrow> bytes" where
  "SwapMetadataPreimage r =
     ascii DomainRequestV3 @ ascii ''request-signature-swap''
     @ arr_bytes (sm_Engine r) @ arr_bytes (sm_DWallet r) @ arr_bytes (sm_MessageDigest r)
     @ arr_bytes (sm_Destination r) @ arr_bytes (sm_UserPubkey r)
     @ U16LE (sm_SignatureScheme r) @ [1] @ U32LE (sm_RulesGeneration r)
     @ U64LE (sm_FromAmount r) @ [sm_AssetIndex r]
     @ arr_bytes (sm_FromToken r) @ arr_bytes (sm_ToToken r) @ U64LE (sm_MinAmountOut r)
     @ arr_bytes (sm_ChainTag r)"

section \<open>Owner authorizations\<close>

definition HumanMessageNormalSign :: "solana_env \<Rightarrow> key \<Rightarrow> 32 arr \<Rightarrow> u64 \<Rightarrow> u16 \<Rightarrow> bytes" where
  "HumanMessageNormalSign E dwallet destination amount signatureScheme =
     ascii (''Sign for dWallet '' @ Base58 E dwallet @ '' to '' @ hex_lower (arr_bytes destination)
       @ '' amount '' @ dec (unat amount) @ '' scheme '' @ dec (unat signatureScheme))"

definition HumanMessageSwap ::
    "solana_env \<Rightarrow> key \<Rightarrow> 32 arr \<Rightarrow> u64 \<Rightarrow> 32 arr \<Rightarrow> u64 \<Rightarrow> 8 arr \<Rightarrow> u16 \<Rightarrow> bytes" where
  "HumanMessageSwap E dwallet fromToken fromAmount toToken minAmountOut chainTag signatureScheme =
     ascii (''Swap '' @ dec (unat fromAmount) @ '' of '' @ hex_lower (arr_bytes fromToken)
       @ '' for at least '' @ dec (unat minAmountOut) @ '' of '' @ hex_lower (arr_bytes toToken)
       @ '' on '')
     @ takeWhile (\<lambda>b. b \<noteq> 0) (arr_bytes chainTag)
     @ ascii ('' for dWallet '' @ Base58 E dwallet @ '' scheme '' @ dec (unat signatureScheme))"

text \<open>\<open>NormalUseChallengeInput\<close> and \<open>SwapUseChallengeInput\<close> have the same fields.\<close>

record use_input =
  uc_HumanMessage :: bytes
  uc_Engine :: key
  uc_DWallet :: key
  uc_MetadataDigest :: hash
  uc_OwnerSlot :: slot

definition NormalUsePreimage :: "use_input \<Rightarrow> bytes" where
  "NormalUsePreimage u =
     ascii DomainV3 @ ascii OpNormalSign
     @ U16LE (of_nat (length (uc_HumanMessage u))) @ uc_HumanMessage u
     @ arr_bytes (uc_Engine u) @ arr_bytes (uc_DWallet u) @ arr_bytes (uc_MetadataDigest u)
     @ arr_bytes (uc_OwnerSlot u)"

definition SwapUsePreimage :: "use_input \<Rightarrow> bytes" where
  "SwapUsePreimage u =
     ascii DomainV3 @ ascii OpSwapSign
     @ U16LE (of_nat (length (uc_HumanMessage u))) @ uc_HumanMessage u
     @ arr_bytes (uc_Engine u) @ arr_bytes (uc_DWallet u) @ arr_bytes (uc_MetadataDigest u)
     @ arr_bytes (uc_OwnerSlot u)"

definition MinBundleTotal :: u8 where "MinBundleTotal = 2"
definition MaxBundleTotal :: u8 where "MaxBundleTotal = 4"

record bundle_input =
  bu_Engine :: key
  bu_DWallet :: key
  bu_ThisMetadataDigest :: hash
  bu_OwnerSlot :: slot
  bu_Total :: u8
  bu_ThisIndex :: u8
  bu_OtherDigests :: "hash list"

text \<open>The loop \<open>for i := 0; i < Total; i++\<close> with its second index into the other digests: \<open>k\<close>
  rounds are left, \<open>others\<close> is what \<open>otherIter\<close> has not consumed.\<close>

fun order_loop :: "nat \<Rightarrow> nat \<Rightarrow> nat \<Rightarrow> hash \<Rightarrow> hash list \<Rightarrow> hash list" where
  "order_loop 0 i idx this others = []"
| "order_loop (Suc k) i idx this others =
     (if i = idx then this # order_loop k (Suc i) idx this others
      else hd others # order_loop k (Suc i) idx this (tl others))"

definition BundlePreimage :: "bundle_input \<Rightarrow> preimage_error + bytes" where
  "BundlePreimage b =
     (if bu_Total b < MinBundleTotal \<or> bu_Total b > MaxBundleTotal then Inl (BundleTotalOutside (bu_Total b))
      else if bu_ThisIndex b \<ge> bu_Total b then Inl (BundleIndexOutside (bu_ThisIndex b) (bu_Total b))
      else if (of_nat (length (bu_OtherDigests b)) :: u8) \<noteq> bu_Total b - 1
        then Inl (BundleOthers (bu_Total b - 1) (length (bu_OtherDigests b)))
      else Inr
       (ascii DomainV3 @ ascii OpBundleSign @ arr_bytes (bu_Engine b) @ arr_bytes (bu_DWallet b)
        @ [bu_Total b]
        @ concat (map arr_bytes (order_loop (unat (bu_Total b)) 0 (unat (bu_ThisIndex b))
             (bu_ThisMetadataDigest b) (bu_OtherDigests b)))
        @ arr_bytes (bu_OwnerSlot b)))"

definition NormalUseHash :: "(bytes \<Rightarrow> hash) \<Rightarrow> use_input \<Rightarrow> hash" where
  "NormalUseHash sha u = sha (NormalUsePreimage u)"

definition SwapUseHash :: "(bytes \<Rightarrow> hash) \<Rightarrow> use_input \<Rightarrow> hash" where
  "SwapUseHash sha u = sha (SwapUsePreimage u)"

definition BundleHash :: "(bytes \<Rightarrow> hash) \<Rightarrow> bundle_input \<Rightarrow> preimage_error + hash" where
  "BundleHash sha b = bind_res (BundlePreimage b) (\<lambda>pre. Inr (sha pre))"

section \<open>Configuration hashes\<close>

definition MaxOracleFeeds :: nat where "MaxOracleFeeds = 4"
definition OracleFeedBytes :: nat where "OracleFeedBytes = 80"
definition MaxSpendingUsdFeeds :: nat where "MaxSpendingUsdFeeds = 16"
definition SpendingUsdFeedBytes :: nat where "SpendingUsdFeedBytes = 33"

lemmas feed_sizes = MaxOracleFeeds_def OracleFeedBytes_def MaxSpendingUsdFeeds_def SpendingUsdFeedBytes_def

definition AllowlistConfigHash :: "(bytes \<Rightarrow> hash) \<Rightarrow> u8 \<Rightarrow> u8 \<Rightarrow> bytes \<Rightarrow> preimage_error + hash" where
  "AllowlistConfigHash sha appliesTo destinationsCount destinationsFlat =
     (if length destinationsFlat \<noteq> 1024 then Inl (ConfigLength (length destinationsFlat))
      else Inr (sha (ascii ''allowlist-config-v1'' @ [appliesTo] @ [destinationsCount] @ destinationsFlat)))"

definition OracleConfigHash ::
    "(bytes \<Rightarrow> hash) \<Rightarrow> u8 \<Rightarrow> u8 \<Rightarrow> u8 \<Rightarrow> u8 \<Rightarrow> bytes \<Rightarrow> preimage_error + hash" where
  "OracleConfigHash sha appliesTo feedsCount freshnessDiv16 confidenceDiv4 feedsFlat =
     (if length feedsFlat \<noteq> MaxOracleFeeds * OracleFeedBytes then Inl (ConfigLength (length feedsFlat))
      else Inr (sha (ascii ''oracle-config-v1''
        @ [appliesTo, feedsCount, freshnessDiv16, confidenceDiv4] @ feedsFlat)))"

definition SpendingUsdConfigHash ::
    "(bytes \<Rightarrow> hash) \<Rightarrow> u8 \<Rightarrow> u8 \<Rightarrow> u8 \<Rightarrow> u8 \<Rightarrow> u64 \<Rightarrow> u64 \<Rightarrow> u64 \<Rightarrow> bytes \<Rightarrow> preimage_error + hash" where
  "SpendingUsdConfigHash sha appliesTo feedsCount freshnessDiv16 confidenceDiv4 maxPerTx maxPerDay
       maxPerWeek feedsFlat =
     (if length feedsFlat \<noteq> MaxSpendingUsdFeeds * SpendingUsdFeedBytes
      then Inl (ConfigLength (length feedsFlat))
      else Inr (sha (ascii ''spending-usd-config-v1''
        @ [appliesTo, feedsCount, freshnessDiv16, confidenceDiv4]
        @ (U64LE maxPerTx @ U64LE maxPerDay @ U64LE maxPerWeek) @ feedsFlat)))"

section \<open>Texts of the engine's administration\<close>

definition HumanMessageSpendingUsdAdd :: "solana_env \<Rightarrow> u64 \<Rightarrow> u64 \<Rightarrow> u64 \<Rightarrow> key \<Rightarrow> key \<Rightarrow> bytes" where
  "HumanMessageSpendingUsdAdd E maxPerTx maxPerDay maxPerWeek engine dwallet =
     ascii (''Add USD spending limit policy '' @ Base58 E engine @ '' for dWallet '' @ Base58 E dwallet
       @ '' maxPerTx '' @ FormatU64Shifted maxPerTx ValueDecimals1e8
       @ '' maxPerDay '' @ FormatU64Shifted maxPerDay ValueDecimals1e8
       @ '' maxPerWeek '' @ FormatU64Shifted maxPerWeek ValueDecimals1e8)"

definition HumanMessageSpendingUsdAddFeed :: "solana_env \<Rightarrow> key \<Rightarrow> u8 \<Rightarrow> key \<Rightarrow> key \<Rightarrow> bytes" where
  "HumanMessageSpendingUsdAddFeed E feedCache decimals engine dwallet =
     ascii (''Add spending feed '' @ Base58 E feedCache @ '' decimals '' @ dec (unat decimals)
       @ '' on USD spending policy '' @ Base58 E engine @ '' for dWallet '' @ Base58 E dwallet)"

definition HumanMessageOracleAddFeed ::
    "solana_env \<Rightarrow> key \<Rightarrow> key \<Rightarrow> int \<Rightarrow> int \<Rightarrow> key \<Rightarrow> key \<Rightarrow> bytes" where
  "HumanMessageOracleAddFeed E feedAccount feedOwner minQ64 maxQ64 engine dwallet =
     ascii (''Add oracle feed '' @ Base58 E feedAccount @ '' owner '' @ Base58 E feedOwner
       @ '' min '' @ FormatI64Shifted minQ64 ValueDecimals1e8
       @ '' max '' @ FormatI64Shifted maxQ64 ValueDecimals1e8
       @ '' on oracle policy '' @ Base58 E engine @ '' for dWallet '' @ Base58 E dwallet)"

definition HumanMessageAllowlistAddDestination :: "solana_env \<Rightarrow> 32 arr \<Rightarrow> key \<Rightarrow> key \<Rightarrow> bytes" where
  "HumanMessageAllowlistAddDestination E dest engine dwallet =
     ascii (''Allow destination '' @ hex_lower (arr_bytes dest) @ '' on allowlist policy ''
       @ Base58 E engine @ '' for dWallet '' @ Base58 E dwallet)"

definition HumanMessageAllowlistRemoveDestination :: "solana_env \<Rightarrow> 32 arr \<Rightarrow> key \<Rightarrow> key \<Rightarrow> bytes" where
  "HumanMessageAllowlistRemoveDestination E dest engine dwallet =
     ascii (''Block destination '' @ hex_lower (arr_bytes dest) @ '' on allowlist policy ''
       @ Base58 E engine @ '' for dWallet '' @ Base58 E dwallet)"

definition HumanMessageAllowlistPause :: "solana_env \<Rightarrow> key \<Rightarrow> key \<Rightarrow> bytes" where
  "HumanMessageAllowlistPause E engine dwallet =
     ascii (''Pause allowlist policy '' @ Base58 E engine @ '' for dWallet '' @ Base58 E dwallet)"

section \<open>Engine creation and session administration\<close>

definition initChallengePreimageAndHash ::
    "(bytes \<Rightarrow> hash) \<Rightarrow> key \<Rightarrow> slot \<Rightarrow> slot \<Rightarrow> u8 \<Rightarrow> hash \<Rightarrow> bytes \<times> hash" where
  "initChallengePreimageAndHash sha dwallet initSlot ownerSlot present recoveryHash =
     (let opTag = (if present = 1 then OpInitWithRecovery else OpInit);
          pre = ascii DomainInitV1 @ ascii opTag @ arr_bytes dwallet @ arr_bytes initSlot
            @ arr_bytes ownerSlot @ [present] @ arr_bytes recoveryHash
      in (pre, sha pre))"

definition sessionOpenExtras :: "u32 \<Rightarrow> key \<Rightarrow> int \<Rightarrow> u32 \<Rightarrow> u64 \<Rightarrow> bytes list" where
  "sessionOpenExtras sessionIndex signer expiresAt maxUses maxAmount =
     [U32LE sessionIndex, arr_bytes signer, I64LE expiresAt, U32LE maxUses, U64LE maxAmount]"

definition sessionRevokeExtras :: "key \<Rightarrow> u32 \<Rightarrow> bytes list" where
  "sessionRevokeExtras sessionPDA sessionIndex = [arr_bytes sessionPDA, U32LE sessionIndex]"

definition sessionCloseExtras :: "key \<Rightarrow> u32 \<Rightarrow> key \<Rightarrow> bytes list" where
  "sessionCloseExtras sessionPDA sessionIndex recipient =
     [arr_bytes sessionPDA, U32LE sessionIndex, arr_bytes recipient]"

definition sessionDestExtras :: "key \<Rightarrow> u32 \<Rightarrow> 32 arr \<Rightarrow> bytes list" where
  "sessionDestExtras sessionPDA sessionIndex dest =
     [arr_bytes sessionPDA, U32LE sessionIndex, arr_bytes dest]"

definition buildSessionAdminChallenge ::
    "solana_env \<Rightarrow> (bytes \<Rightarrow> hash) \<Rightarrow> string \<Rightarrow> key \<Rightarrow> key \<Rightarrow> slot \<Rightarrow> u64 \<Rightarrow> bool \<Rightarrow> hash \<Rightarrow> u8 \<Rightarrow> u32
     \<Rightarrow> bytes list \<Rightarrow> preimage_error + admin_input \<times> bytes \<times> hash" where
  "buildSessionAdminChallenge E sha opTag engine dwallet ownerSlot expectedNonce engineLevel configHash
       ruleIndex ruleGeneration extras =
     (let human = HumanMessageAllowlistPause E engine dwallet;
          rIdx = (if \<not> engineLevel then 0 else ruleIndex);
          rg = (if \<not> engineLevel then 0 else ruleGeneration);
          cfg = (if \<not> engineLevel then zero_arr else configHash);
          a = \<lparr>ac_OpTag = opTag, ac_HumanMessage = human, ac_Engine = engine, ac_DWallet = dwallet,
               ac_RuleKind = KindSessionKey, ac_RuleIndex = rIdx, ac_RuleGeneration = rg,
               ac_ExpectedNonce = expectedNonce, ac_ConfigHash = cfg, ac_OwnerSlot = ownerSlot,
               ac_Extras = extras\<rparr>
      in bind_res (AdminPreimage a) (\<lambda>pre. bind_res (AdminHash sha a) (\<lambda>h. Inr (a, pre, h))))"

section \<open>Recovery\<close>

definition idLenForScheme :: "u8 \<Rightarrow> preimage_error + nat" where
  "idLenForScheme scheme =
     (if scheme = 0 then Inr 32
      else if scheme = 1 then Inr 20
      else if scheme = 2 \<or> scheme = 3 then Inr 33
      else if scheme = 4 then Inr 32
      else Inl (SchemeUnsupported scheme))"

definition renderMemberSlot :: "slot \<Rightarrow> preimage_error + string" where
  "renderMemberSlot s =
     bind_res (idLenForScheme (arr_bytes s ! 0)) (\<lambda>idLen.
       Inr (''scheme:'' @ dec (unat (arr_bytes s ! 0)) @ '';id:''
         @ hex_lower (take idLen (drop 1 (arr_bytes s)))))"

text \<open>The common frame of the five recovery preimages: text too long is an error, otherwise
  domain, tag, length-prefixed text, and the typed parameters.\<close>

definition recovery_frame :: "string \<Rightarrow> bytes \<Rightarrow> bytes \<Rightarrow> preimage_error + bytes" where
  "recovery_frame opTag human params =
     (if length human > MaxHumanMessageBytes then Inl (HumanTooLong (length human))
      else Inr (ascii DomainRulesPolicyV2 @ ascii opTag @ U16LE (of_nat (length human)) @ human @ params))"

definition HumanMessagePrimaryRecover :: "solana_env \<Rightarrow> key \<Rightarrow> hash \<Rightarrow> hash \<Rightarrow> 32 arr \<Rightarrow> u16 \<Rightarrow> bytes" where
  "HumanMessagePrimaryRecover E dwallet messageDigest metadataDigest userPubkey signatureScheme =
     ascii (''Recover dWallet '' @ Base58 E dwallet @ '' for message '' @ hex_lower (arr_bytes messageDigest)
       @ '' metadata '' @ hex_lower (arr_bytes metadataDigest)
       @ '' scheme '' @ dec (unat signatureScheme) @ '' user '' @ hex_lower (arr_bytes userPubkey))"

record primary_recover_input =
  pr_DWallet :: "key"
  pr_MessageApproval :: "key"
  pr_MessageDigest :: "hash"
  pr_MetadataDigest :: "hash"
  pr_UserPubkey :: "32 arr"
  pr_SignatureScheme :: "u16"
  pr_MessageApprovalBump :: "u8"
  pr_Nonce :: "u64"
  pr_PrimarySlot :: "slot"

definition PrimaryRecoverPreimage :: "solana_env \<Rightarrow> primary_recover_input \<Rightarrow> preimage_error + bytes" where
  "PrimaryRecoverPreimage E r =
     recovery_frame OpTagPrimaryRecover
       (HumanMessagePrimaryRecover E (pr_DWallet r) (pr_MessageDigest r) (pr_MetadataDigest r)
          (pr_UserPubkey r) (pr_SignatureScheme r))
       (arr_bytes (pr_DWallet r) @ arr_bytes (pr_MessageApproval r) @ arr_bytes (pr_MessageDigest r)
        @ arr_bytes (pr_MetadataDigest r) @ arr_bytes (pr_UserPubkey r) @ U16LE (pr_SignatureScheme r)
        @ [pr_MessageApprovalBump r] @ U64LE (pr_Nonce r) @ arr_bytes (pr_PrimarySlot r))"

definition IntDec :: "int \<Rightarrow> string" where
  "IntDec v = (if v < 0 then ''-'' @ dec (nat (- v)) else dec (nat v))"

definition HumanMessageQuorumSessionOpen ::
    "solana_env \<Rightarrow> key \<Rightarrow> u64 \<Rightarrow> 32 arr \<Rightarrow> hash \<Rightarrow> hash \<Rightarrow> u16 \<Rightarrow> int \<Rightarrow> bytes" where
  "HumanMessageQuorumSessionOpen E dwallet amount destination messageDigest metadataDigest
       signatureScheme expiresAt =
     ascii (''Open quorum session for dWallet '' @ Base58 E dwallet @ '' amount '' @ dec (unat amount)
       @ '' destination '' @ hex_lower (arr_bytes destination)
       @ '' message '' @ hex_lower (arr_bytes messageDigest)
       @ '' metadata '' @ hex_lower (arr_bytes metadataDigest)
       @ '' scheme '' @ dec (unat signatureScheme) @ '' expires '' @ IntDec expiresAt)"

record quorum_open_input =
  qo_DWallet :: "key"
  qo_MessageDigest :: "hash"
  qo_MetadataDigest :: "hash"
  qo_UserPubkey :: "32 arr"
  qo_SignatureScheme :: "u16"
  qo_MessageApprovalBump :: "u8"
  qo_Amount :: "u64"
  qo_Destination :: "32 arr"
  qo_ExpiresAt :: "int"
  qo_SessionNonce :: "u64"
  qo_PrimarySlot :: "slot"

definition QuorumSessionOpenPreimage :: "solana_env \<Rightarrow> quorum_open_input \<Rightarrow> preimage_error + bytes" where
  "QuorumSessionOpenPreimage E r =
     recovery_frame OpTagQuorumSessionOpen
       (HumanMessageQuorumSessionOpen E (qo_DWallet r) (qo_Amount r) (qo_Destination r)
          (qo_MessageDigest r) (qo_MetadataDigest r) (qo_SignatureScheme r) (qo_ExpiresAt r))
       (arr_bytes (qo_DWallet r) @ arr_bytes (qo_MessageDigest r) @ arr_bytes (qo_MetadataDigest r)
        @ arr_bytes (qo_UserPubkey r) @ U16LE (qo_SignatureScheme r) @ [qo_MessageApprovalBump r]
        @ U64LE (qo_Amount r) @ arr_bytes (qo_Destination r) @ I64LE (qo_ExpiresAt r)
        @ U64LE (qo_SessionNonce r) @ arr_bytes (qo_PrimarySlot r))"

definition HumanMessageQuorumContribute ::
    "solana_env \<Rightarrow> key \<Rightarrow> slot \<Rightarrow> key \<Rightarrow> u64 \<Rightarrow> 32 arr \<Rightarrow> hash \<Rightarrow> hash \<Rightarrow> 32 arr \<Rightarrow> u16 \<Rightarrow> int
     \<Rightarrow> preimage_error + bytes" where
  "HumanMessageQuorumContribute E session memberSlot dwallet amount destination messageDigest
       metadataDigest userPubkey signatureScheme expiresAt =
     bind_res (renderMemberSlot memberSlot) (\<lambda>slotText. Inr
       (ascii (''Contribute to quorum session '' @ Base58 E session @ '' as member '' @ slotText
         @ '' for dWallet '' @ Base58 E dwallet @ '' amount '' @ dec (unat amount)
         @ '' destination '' @ hex_lower (arr_bytes destination)
         @ '' message '' @ hex_lower (arr_bytes messageDigest)
         @ '' metadata '' @ hex_lower (arr_bytes metadataDigest)
         @ '' scheme '' @ dec (unat signatureScheme)
         @ '' user '' @ hex_lower (arr_bytes userPubkey) @ '' expires '' @ IntDec expiresAt)))"

record quorum_contribute_input =
  qc_Session :: "key"
  qc_MemberSlot :: "slot"
  qc_DWallet :: "key"
  qc_Amount :: "u64"
  qc_Destination :: "32 arr"
  qc_MessageDigest :: "hash"
  qc_MetadataDigest :: "hash"
  qc_UserPubkey :: "32 arr"
  qc_SignatureScheme :: "u16"
  qc_MessageApprovalBump :: "u8"
  qc_ExpiresAt :: "int"

definition QuorumContributePreimage :: "solana_env \<Rightarrow> quorum_contribute_input \<Rightarrow> preimage_error + bytes" where
  "QuorumContributePreimage E r =
     bind_res (HumanMessageQuorumContribute E (qc_Session r) (qc_MemberSlot r) (qc_DWallet r) (qc_Amount r)
         (qc_Destination r) (qc_MessageDigest r) (qc_MetadataDigest r) (qc_UserPubkey r)
         (qc_SignatureScheme r) (qc_ExpiresAt r)) (\<lambda>human.
     recovery_frame OpTagQuorumContribute human
       (arr_bytes (qc_Session r) @ arr_bytes (qc_MemberSlot r) @ arr_bytes (qc_DWallet r)
        @ U64LE (qc_Amount r) @ arr_bytes (qc_Destination r) @ arr_bytes (qc_MessageDigest r)
        @ arr_bytes (qc_MetadataDigest r) @ arr_bytes (qc_UserPubkey r) @ U16LE (qc_SignatureScheme r)
        @ [qc_MessageApprovalBump r] @ I64LE (qc_ExpiresAt r)))"

definition HumanMessagePasskeySessionOpen :: "solana_env \<Rightarrow> key \<Rightarrow> u64 \<Rightarrow> 32 arr \<Rightarrow> bytes" where
  "HumanMessagePasskeySessionOpen E dwallet notAfterUnixTs ephPk =
     ascii (''Open passkey session for dWallet '' @ Base58 E dwallet @ '' until ''
       @ dec (unat notAfterUnixTs) @ '' using ephemeral key '' @ hex_lower (arr_bytes ephPk))"

record passkey_open_input =
  po_DWallet :: "key"
  po_PrimarySlot :: "slot"
  po_EphPk :: "32 arr"
  po_NotAfterUnixTs :: "u64"
  po_CredentialIDHash :: "hash"
  po_SessionNonce :: "u64"

definition PasskeySessionOpenPreimage :: "solana_env \<Rightarrow> passkey_open_input \<Rightarrow> preimage_error + bytes" where
  "PasskeySessionOpenPreimage E r =
     recovery_frame OpTagPasskeySessionOpen
       (HumanMessagePasskeySessionOpen E (po_DWallet r) (po_NotAfterUnixTs r) (po_EphPk r))
       (arr_bytes (po_DWallet r) @ arr_bytes (po_PrimarySlot r) @ arr_bytes (po_EphPk r)
        @ U64LE (po_NotAfterUnixTs r) @ arr_bytes (po_CredentialIDHash r) @ U64LE (po_SessionNonce r))"

definition HumanMessagePasskeyPrimaryUse ::
    "solana_env \<Rightarrow> key \<Rightarrow> key \<Rightarrow> hash \<Rightarrow> hash \<Rightarrow> 32 arr \<Rightarrow> u16 \<Rightarrow> bytes" where
  "HumanMessagePasskeyPrimaryUse E session dwallet messageDigest metadataDigest userPubkey
       signatureScheme =
     ascii (''Authorize passkey session '' @ Base58 E session @ '' for dWallet '' @ Base58 E dwallet
       @ '' message '' @ hex_lower (arr_bytes messageDigest)
       @ '' metadata '' @ hex_lower (arr_bytes metadataDigest)
       @ '' scheme '' @ dec (unat signatureScheme) @ '' user '' @ hex_lower (arr_bytes userPubkey))"

record passkey_use_input =
  pu_Session :: "key"
  pu_DWallet :: "key"
  pu_MessageApproval :: "key"
  pu_MessageDigest :: "hash"
  pu_MetadataDigest :: "hash"
  pu_UserPubkey :: "32 arr"
  pu_SignatureScheme :: "u16"
  pu_MessageApprovalBump :: "u8"
  pu_UseNonce :: "u64"
  pu_PrimarySlot :: "slot"

definition PasskeyPrimaryUsePreimage :: "solana_env \<Rightarrow> passkey_use_input \<Rightarrow> preimage_error + bytes" where
  "PasskeyPrimaryUsePreimage E r =
     recovery_frame OpTagPasskeyPrimaryUse
       (HumanMessagePasskeyPrimaryUse E (pu_Session r) (pu_DWallet r) (pu_MessageDigest r)
          (pu_MetadataDigest r) (pu_UserPubkey r) (pu_SignatureScheme r))
       (arr_bytes (pu_Session r) @ arr_bytes (pu_DWallet r) @ arr_bytes (pu_MessageApproval r)
        @ arr_bytes (pu_MessageDigest r) @ arr_bytes (pu_MetadataDigest r) @ arr_bytes (pu_UserPubkey r)
        @ U16LE (pu_SignatureScheme r) @ [pu_MessageApprovalBump r] @ U64LE (pu_UseNonce r)
        @ arr_bytes (pu_PrimarySlot r))"

section \<open>Owner authorization of a request\<close>

record swap_meta =
  sw_FromToken :: "32 arr"
  sw_ToToken :: "32 arr"
  sw_MinAmountOut :: u64
  sw_ChainTag :: "8 arr"

record bundle_proof =
  bp_Total :: u8
  bp_ThisIndex :: u8
  bp_OtherDigests :: "hash list"

record owner_auth_input =
  oa_OwnerSlot :: slot
  oa_SignatureBase64 :: string
  oa_WebauthnAuthDataBase64 :: string
  oa_WebauthnCDJBase64 :: string
  oa_Engine :: key
  oa_DWallet :: key
  oa_MetadataDigest :: hash
  oa_Destination :: "32 arr"
  oa_Amount :: u64
  oa_SignatureScheme :: u16
  oa_Swap :: "swap_meta option"
  oa_Bundle :: "bundle_proof option"

record owner_auth_challenge =
  OwnerAuthChallengeHex :: string
  OwnerAuthPreimageHex :: string
  OwnerAuthHumanMessage :: bytes

text \<open>The loop over the tag, \<open>i\<close> counting the bytes seen.\<close>

fun chain_tag_loop :: "nat \<Rightarrow> bytes \<Rightarrow> preimage_error + unit" where
  "chain_tag_loop i [] = Inr ()"
| "chain_tag_loop i (b # bs) =
     (if b = 0 then Inr ()
      else if b < 0x20 \<or> b > 0x7E then Inl (ChainTagNotPrintable i)
      else chain_tag_loop (Suc i) bs)"

definition ValidateChainTag :: "8 arr \<Rightarrow> preimage_error + unit" where
  "ValidateChainTag tag = chain_tag_loop 0 (arr_bytes tag)"

definition renderHumanForOwnerAuth :: "solana_env \<Rightarrow> owner_auth_input \<Rightarrow> bytes \<times> string" where
  "renderHumanForOwnerAuth E a =
     (case oa_Swap a of
        Some sw \<Rightarrow> (HumanMessageSwap E (oa_DWallet a) (sw_FromToken sw) (oa_Amount a) (sw_ToToken sw)
            (sw_MinAmountOut sw) (sw_ChainTag sw) (oa_SignatureScheme a), OpSwapSign)
      | None \<Rightarrow> (HumanMessageNormalSign E (oa_DWallet a) (oa_Destination a) (oa_Amount a)
            (oa_SignatureScheme a), OpNormalSign))"

definition bundle_of :: "owner_auth_input \<Rightarrow> bundle_proof \<Rightarrow> bundle_input" where
  "bundle_of a bp =
     \<lparr>bu_Engine = oa_Engine a, bu_DWallet = oa_DWallet a, bu_ThisMetadataDigest = oa_MetadataDigest a,
      bu_OwnerSlot = oa_OwnerSlot a, bu_Total = bp_Total bp, bu_ThisIndex = bp_ThisIndex bp,
      bu_OtherDigests = bp_OtherDigests bp\<rparr>"

definition use_of :: "owner_auth_input \<Rightarrow> bytes \<Rightarrow> use_input" where
  "use_of a human =
     \<lparr>uc_HumanMessage = human, uc_Engine = oa_Engine a, uc_DWallet = oa_DWallet a,
      uc_MetadataDigest = oa_MetadataDigest a, uc_OwnerSlot = oa_OwnerSlot a\<rparr>"

definition ComputeOwnerAuthChallenge ::
    "solana_env \<Rightarrow> (bytes \<Rightarrow> hash) \<Rightarrow> owner_auth_input \<Rightarrow> preimage_error + owner_auth_challenge" where
  "ComputeOwnerAuthChallenge E sha a =
     bind_res (case oa_Swap a of Some sw \<Rightarrow> ValidateChainTag (sw_ChainTag sw) | None \<Rightarrow> Inr ()) (\<lambda>_.
     let (human, opTag) = renderHumanForOwnerAuth E a in
     case oa_Bundle a of
       Some bp \<Rightarrow>
         bind_res (BundlePreimage (bundle_of a bp)) (\<lambda>preimage.
         bind_res (BundleHash sha (bundle_of a bp)) (\<lambda>challenge.
         Inr \<lparr>OwnerAuthChallengeHex = hex_lower (arr_bytes challenge),
              OwnerAuthPreimageHex = hex_lower preimage, OwnerAuthHumanMessage = human\<rparr>))
     | None \<Rightarrow>
         (case oa_Swap a of
            Some _ \<Rightarrow> Inr
              \<lparr>OwnerAuthChallengeHex = hex_lower (arr_bytes (SwapUseHash sha (use_of a human))),
               OwnerAuthPreimageHex = hex_lower (SwapUsePreimage (use_of a human)),
               OwnerAuthHumanMessage = human\<rparr>
          | None \<Rightarrow> Inr
              \<lparr>OwnerAuthChallengeHex = hex_lower (arr_bytes (NormalUseHash sha (use_of a human))),
               OwnerAuthPreimageHex = hex_lower (NormalUsePreimage (use_of a human)),
               OwnerAuthHumanMessage = human\<rparr>))"

section \<open>A preimage determines its input\<close>

lemma lp_unfold: "U16LE (of_nat (length h)) @ h @ r = lp h @ r"
  by (simp add: lp_def)

lemma extras_loop_Inr:
  "extras_loop es = Inr x \<longleftrightarrow> (\<forall>e \<in> set es. length e \<le> 0xFFFF) \<and> x = concat (map lp es)"
  by (induction es arbitrary: x) (auto simp: lp_def)

lemma AdminPreimage_Inr:
  "AdminPreimage a = Inr x \<longleftrightarrow> length (ac_HumanMessage a) \<le> 0xFFFF
     \<and> (\<forall>e \<in> set (ac_Extras a). length e \<le> 0xFFFF)
     \<and> x = ascii (DomainV3 @ ac_OpTag a) @ lp (ac_HumanMessage a)
        @ arr_bytes (ac_Engine a) @ arr_bytes (ac_DWallet a) @ ac_RuleKind a # ac_RuleIndex a
        # U32LE (ac_RuleGeneration a) @ U64LE (ac_ExpectedNonce a)
        @ arr_bytes (ac_ConfigHash a) @ arr_bytes (ac_OwnerSlot a) @ concat (map lp (ac_Extras a))"
  by (auto simp: AdminPreimage_def extras_loop_Inr lp_def)

lemma AdminPreimage_inj:
  assumes "AdminPreimage a = Inr x" "AdminPreimage b = Inr x" "ac_OpTag a = ac_OpTag b"
  shows "a = b"
proof -
  have len: "length (ac_HumanMessage a) < 65536" "length (ac_HumanMessage b) < 65536"
    using assms by (simp_all add: AdminPreimage_Inr)
  have "ac_HumanMessage a = ac_HumanMessage b \<and> ac_Engine a = ac_Engine b \<and> ac_DWallet a = ac_DWallet b
    \<and> ac_RuleKind a = ac_RuleKind b \<and> ac_RuleIndex a = ac_RuleIndex b
    \<and> ac_RuleGeneration a = ac_RuleGeneration b \<and> ac_ExpectedNonce a = ac_ExpectedNonce b
    \<and> ac_ConfigHash a = ac_ConfigHash b \<and> ac_OwnerSlot a = ac_OwnerSlot b
    \<and> concat (map lp (ac_Extras a)) = concat (map lp (ac_Extras b))"
    using assms by (auto simp: AdminPreimage_Inr lp_append_inj [OF len])
  moreover from this have "ac_Extras a = ac_Extras b"
    using assms by (intro lps_inj) (auto simp: AdminPreimage_Inr less_Suc_eq_le)
  ultimately show ?thesis using assms(3) by simp
qed

lemma RequestMetadataPreimage_inj: "RequestMetadataPreimage a = RequestMetadataPreimage b \<longleftrightarrow> a = b"
  by (cases a; cases b) (simp add: RequestMetadataPreimage_def)

lemma SwapMetadataPreimage_inj: "SwapMetadataPreimage a = SwapMetadataPreimage b \<longleftrightarrow> a = b"
  by (cases a; cases b) (simp add: SwapMetadataPreimage_def)

lemma UsePreimage_inj:
  assumes "length (uc_HumanMessage a) < 65536" "length (uc_HumanMessage b) < 65536"
  shows "NormalUsePreimage a = NormalUsePreimage b \<longleftrightarrow> a = b" "SwapUsePreimage a = SwapUsePreimage b \<longleftrightarrow> a = b"
  unfolding NormalUsePreimage_def SwapUsePreimage_def lp_unfold same_append_eq lp_append_inj [OF assms]
  by (cases a; cases b; simp)+

text \<open>The digests of a bundle in the order they are hashed.\<close>

definition bundle_legs :: "bundle_input \<Rightarrow> hash list" where
  "bundle_legs b = order_loop (unat (bu_Total b)) 0 (unat (bu_ThisIndex b)) (bu_ThisMetadataDigest b)
     (bu_OtherDigests b)"

lemma length_order_loop [simp]: "length (order_loop k i idx this others) = k"
  by (induction k i idx this others rule: order_loop.induct) simp_all

lemma concat_arrs_inj:
  "length xs = length ys \<Longrightarrow> concat (map arr_bytes xs) @ r = concat (map arr_bytes ys) @ s \<longleftrightarrow> xs = ys \<and> r = s"
  by (induction xs ys rule: list_induct2) auto

lemma concat_arrs_inj0:
  "length xs = length ys \<Longrightarrow> concat (map arr_bytes xs) = concat (map arr_bytes ys) \<longleftrightarrow> xs = ys"
  using concat_arrs_inj [of xs ys "[]" "[]"] by simp

lemma BundlePreimage_inj:
  assumes "BundlePreimage a = Inr x" "BundlePreimage b = Inr x"
  shows "bu_Engine a = bu_Engine b \<and> bu_DWallet a = bu_DWallet b \<and> bu_Total a = bu_Total b
    \<and> bundle_legs a = bundle_legs b \<and> bu_OwnerSlot a = bu_OwnerSlot b"
  using assms
  by (auto simp: BundlePreimage_def bundle_legs_def concat_arrs_inj concat_arrs_inj0 split: if_splits)

lemma init_preimage_inj:
  assumes "fst (initChallengePreimageAndHash sha d i s p r) = fst (initChallengePreimageAndHash sha d' i' s' p' r')"
  shows "d = d' \<and> i = i' \<and> s = s' \<and> p = p' \<and> r = r'"
proof -
  have "p = 1 \<longleftrightarrow> p' = 1"
    using arg_cong [OF assms, of length]
    by (auto simp: initChallengePreimageAndHash_def Let_def OpInit_def OpInitWithRecovery_def split: if_splits)
  with assms show ?thesis
    by (cases "p = 1") (auto simp: initChallengePreimageAndHash_def Let_def)
qed

lemma recovery_frame_Inr:
  "recovery_frame t h p = Inr x \<longleftrightarrow> length h \<le> 768 \<and> x = ascii (DomainRulesPolicyV2 @ t) @ lp h @ p"
  by (auto simp: recovery_frame_def MaxHumanMessageBytes_def lp_def)

lemma recovery_frame_inj:
  "recovery_frame t h p = Inr x \<Longrightarrow> recovery_frame t k q = Inr x \<Longrightarrow> h = k \<and> p = q"
  using lp_append_inj [of h k p q] by (auto simp: recovery_frame_Inr)

lemma PrimaryRecoverPreimage_inj:
  "PrimaryRecoverPreimage E a = Inr x \<Longrightarrow> PrimaryRecoverPreimage E b = Inr x \<Longrightarrow> a = b"
  unfolding PrimaryRecoverPreimage_def
  by (drule (1) recovery_frame_inj) (cases a; cases b; simp)

lemma QuorumSessionOpenPreimage_inj:
  "QuorumSessionOpenPreimage E a = Inr x \<Longrightarrow> QuorumSessionOpenPreimage E b = Inr x \<Longrightarrow>
   in64 (qo_ExpiresAt a) \<Longrightarrow> in64 (qo_ExpiresAt b) \<Longrightarrow> a = b"
  unfolding QuorumSessionOpenPreimage_def
  by (drule (1) recovery_frame_inj) (cases a; cases b; auto simp: I64LE_inj)

lemma QuorumContributePreimage_inj:
  assumes "QuorumContributePreimage E a = Inr x" "QuorumContributePreimage E b = Inr x"
    "in64 (qc_ExpiresAt a)" "in64 (qc_ExpiresAt b)"
  shows "a = b"
proof -
  from assms obtain h k where
    "recovery_frame OpTagQuorumContribute h
       (arr_bytes (qc_Session a) @ arr_bytes (qc_MemberSlot a) @ arr_bytes (qc_DWallet a)
        @ U64LE (qc_Amount a) @ arr_bytes (qc_Destination a) @ arr_bytes (qc_MessageDigest a)
        @ arr_bytes (qc_MetadataDigest a) @ arr_bytes (qc_UserPubkey a) @ U16LE (qc_SignatureScheme a)
        @ [qc_MessageApprovalBump a] @ I64LE (qc_ExpiresAt a)) = Inr x"
    "recovery_frame OpTagQuorumContribute k
       (arr_bytes (qc_Session b) @ arr_bytes (qc_MemberSlot b) @ arr_bytes (qc_DWallet b)
        @ U64LE (qc_Amount b) @ arr_bytes (qc_Destination b) @ arr_bytes (qc_MessageDigest b)
        @ arr_bytes (qc_MetadataDigest b) @ arr_bytes (qc_UserPubkey b) @ U16LE (qc_SignatureScheme b)
        @ [qc_MessageApprovalBump b] @ I64LE (qc_ExpiresAt b)) = Inr x"
    unfolding QuorumContributePreimage_def by auto
  from recovery_frame_inj [OF this] assms(3,4) show ?thesis
    by (cases a; cases b) (auto simp: I64LE_inj)
qed

lemma PasskeySessionOpenPreimage_inj:
  "PasskeySessionOpenPreimage E a = Inr x \<Longrightarrow> PasskeySessionOpenPreimage E b = Inr x \<Longrightarrow> a = b"
  unfolding PasskeySessionOpenPreimage_def
  by (drule (1) recovery_frame_inj) (cases a; cases b; simp)

lemma PasskeyPrimaryUsePreimage_inj:
  "PasskeyPrimaryUsePreimage E a = Inr x \<Longrightarrow> PasskeyPrimaryUsePreimage E b = Inr x \<Longrightarrow> a = b"
  unfolding PasskeyPrimaryUsePreimage_def
  by (drule (1) recovery_frame_inj) (cases a; cases b; simp)


section \<open>The labels separate the kinds\<close>

datatype engine_request =
    EAdmin admin_input
  | ENormal use_input
  | ESwap use_input
  | EBundle bundle_input
  | EMetadata request_metadata
  | ESwapMetadata swap_metadata
  | EInit key slot slot u8 hash
  | EPrimary primary_recover_input
  | EQuorumOpen quorum_open_input
  | EContribute quorum_contribute_input
  | EPasskeyOpen passkey_open_input
  | EPasskeyUse passkey_use_input

fun engine_preimage :: "solana_env \<Rightarrow> engine_request \<Rightarrow> preimage_error + bytes" where
  "engine_preimage E (EAdmin a) = AdminPreimage a"
| "engine_preimage E (ENormal u) = Inr (NormalUsePreimage u)"
| "engine_preimage E (ESwap u) = Inr (SwapUsePreimage u)"
| "engine_preimage E (EBundle b) = BundlePreimage b"
| "engine_preimage E (EMetadata r) = Inr (RequestMetadataPreimage r)"
| "engine_preimage E (ESwapMetadata r) = Inr (SwapMetadataPreimage r)"
| "engine_preimage E (EInit d i s p r) = Inr (fst (initChallengePreimageAndHash mk_arr d i s p r))"
| "engine_preimage E (EPrimary r) = PrimaryRecoverPreimage E r"
| "engine_preimage E (EQuorumOpen r) = QuorumSessionOpenPreimage E r"
| "engine_preimage E (EContribute r) = QuorumContributePreimage E r"
| "engine_preimage E (EPasskeyOpen r) = PasskeySessionOpenPreimage E r"
| "engine_preimage E (EPasskeyUse r) = PasskeyPrimaryUsePreimage E r"

fun engine_label :: "engine_request \<Rightarrow> string" where
  "engine_label (EAdmin a) = DomainV3 @ ac_OpTag a"
| "engine_label (ENormal u) = DomainV3 @ OpNormalSign"
| "engine_label (ESwap u) = DomainV3 @ OpSwapSign"
| "engine_label (EBundle b) = DomainV3 @ OpBundleSign"
| "engine_label (EMetadata r) = DomainRequestV2 @ ''request-signature''"
| "engine_label (ESwapMetadata r) = DomainRequestV3 @ ''request-signature-swap''"
| "engine_label (EInit d i s p r) = DomainInitV1"
| "engine_label (EPrimary r) = DomainRulesPolicyV2 @ OpTagPrimaryRecover"
| "engine_label (EQuorumOpen r) = DomainRulesPolicyV2 @ OpTagQuorumSessionOpen"
| "engine_label (EContribute r) = DomainRulesPolicyV2 @ OpTagQuorumContribute"
| "engine_label (EPasskeyOpen r) = DomainRulesPolicyV2 @ OpTagPasskeySessionOpen"
| "engine_label (EPasskeyUse r) = DomainRulesPolicyV2 @ OpTagPasskeyPrimaryUse"

definition engine_labels :: "string list" where
  "engine_labels = map (\<lambda>t. DomainV3 @ t) (admin_tags @ [OpNormalSign, OpSwapSign, OpBundleSign])
     @ [DomainRequestV2 @ ''request-signature'', DomainRequestV3 @ ''request-signature-swap'', DomainInitV1]
     @ map (\<lambda>t. DomainRulesPolicyV2 @ t) [OpTagPrimaryRecover, OpTagQuorumSessionOpen,
         OpTagQuorumContribute, OpTagPasskeySessionOpen, OpTagPasskeyPrimaryUse]"

lemma engine_labels_separated: "separated engine_labels"
  unfolding engine_labels_def op_defs by code_simp

text \<open>Requests as the code makes them: a tag of the list, a text within \<open>uint16\<close>, an \<open>int64\<close>
  expiry.\<close>

fun engine_ok :: "engine_request \<Rightarrow> bool" where
  "engine_ok (EAdmin a) = (ac_OpTag a \<in> set admin_tags)"
| "engine_ok (ENormal u) = (length (uc_HumanMessage u) < 65536)"
| "engine_ok (ESwap u) = (length (uc_HumanMessage u) < 65536)"
| "engine_ok (EQuorumOpen r) = in64 (qo_ExpiresAt r)"
| "engine_ok (EContribute r) = in64 (qc_ExpiresAt r)"
| "engine_ok _ = True"

text \<open>Legs of one bundle are meant to share their challenge: they are the same request.\<close>

fun same_request :: "engine_request \<Rightarrow> engine_request \<Rightarrow> bool" where
  "same_request (EBundle a) (EBundle b) =
     (bu_Engine a = bu_Engine b \<and> bu_DWallet a = bu_DWallet b \<and> bu_Total a = bu_Total b
      \<and> bundle_legs a = bundle_legs b \<and> bu_OwnerSlot a = bu_OwnerSlot b)"
| "same_request a b = (a = b)"

lemma engine_label_mem: "engine_ok r \<Longrightarrow> engine_label r \<in> set engine_labels"
  by (cases r) (auto simp: engine_labels_def)

lemma engine_preimage_label: "engine_preimage E r = Inr x \<Longrightarrow> \<exists>body. x = ascii (engine_label r) @ body"
  by (cases r)
    (auto simp: AdminPreimage_Inr BundlePreimage_def NormalUsePreimage_def SwapUsePreimage_def
      RequestMetadataPreimage_def SwapMetadataPreimage_def initChallengePreimageAndHash_def Let_def
      PrimaryRecoverPreimage_def QuorumSessionOpenPreimage_def QuorumContributePreimage_def
      PasskeySessionOpenPreimage_def PasskeyPrimaryUsePreimage_def recovery_frame_Inr split: if_splits)

lemma engine_labels_eq:
  assumes "engine_preimage E a = Inr x" "engine_preimage E b = Inr x" "engine_ok a" "engine_ok b"
  shows "engine_label a = engine_label b"
proof -
  obtain i j where "i < length engine_labels" "engine_label a = engine_labels ! i"
    "j < length engine_labels" "engine_label b = engine_labels ! j"
    using engine_label_mem assms(3,4) by (metis in_set_conv_nth)
  moreover obtain p q where "x = ascii (engine_label a) @ p" "x = ascii (engine_label b) @ q"
    using engine_preimage_label assms(1,2) by blast
  ultimately show ?thesis using separated_append_eq [OF engine_labels_separated] by metis
qed

definition same_kind :: "engine_request \<Rightarrow> engine_request \<Rightarrow> bool" where
  "same_kind a b \<longleftrightarrow> (case (a, b) of
       (EAdmin x, EAdmin y) \<Rightarrow> ac_OpTag x = ac_OpTag y
     | (ENormal _, ENormal _) \<Rightarrow> True | (ESwap _, ESwap _) \<Rightarrow> True | (EBundle _, EBundle _) \<Rightarrow> True
     | (EMetadata _, EMetadata _) \<Rightarrow> True | (ESwapMetadata _, ESwapMetadata _) \<Rightarrow> True
     | (EInit _ _ _ _ _, EInit _ _ _ _ _) \<Rightarrow> True | (EPrimary _, EPrimary _) \<Rightarrow> True
     | (EQuorumOpen _, EQuorumOpen _) \<Rightarrow> True | (EContribute _, EContribute _) \<Rightarrow> True
     | (EPasskeyOpen _, EPasskeyOpen _) \<Rightarrow> True | (EPasskeyUse _, EPasskeyUse _) \<Rightarrow> True
     | _ \<Rightarrow> False)"

lemma engine_label_kind:
  "engine_label a = engine_label b \<Longrightarrow> engine_ok a \<Longrightarrow> engine_ok b \<Longrightarrow> same_kind a b"
  by (cases a; cases b) (auto simp: same_kind_def op_defs)

lemma engine_preimage_inj:
  assumes "engine_preimage E a = Inr x" "engine_preimage E b = Inr x" "engine_ok a" "engine_ok b"
  shows "same_request a b"
proof -
  have "same_kind a b" using engine_label_kind engine_labels_eq assms by blast
  then show ?thesis
    using assms
    by (cases a; cases b; simp add: same_kind_def)
      (blast dest: AdminPreimage_inj BundlePreimage_inj PrimaryRecoverPreimage_inj
        QuorumSessionOpenPreimage_inj QuorumContributePreimage_inj PasskeySessionOpenPreimage_inj
        PasskeyPrimaryUsePreimage_inj
      | metis UsePreimage_inj RequestMetadataPreimage_inj SwapMetadataPreimage_inj
      | (rule init_preimage_inj [where sha = mk_arr], simp; fail))+
qed


section \<open>Bundles\<close>

lemma order_loop_skip: "idx < i \<Longrightarrow> length others = k \<Longrightarrow> order_loop k i idx this others = others"
proof (induction k arbitrary: i others)
  case (Suc k)
  then show ?case by (cases others) auto
qed simp

lemma order_loop_insert:
  "i \<le> idx \<Longrightarrow> idx < i + Suc (length others) \<Longrightarrow>
   order_loop (Suc (length others)) i idx this others
     = take (idx - i) others @ this # drop (idx - i) others"
proof (induction others arbitrary: i)
  case Nil
  then show ?case by simp
next
  case (Cons d others)
  show ?case
  proof (cases "i = idx")
    case True
    then show ?thesis by (subst order_loop.simps) (simp add: order_loop_skip)
  next
    case False
    with Cons.prems have "Suc i \<le> idx" "idx < Suc i + Suc (length others)" by auto
    from Cons.IH [OF this] False \<open>Suc i \<le> idx\<close> show ?thesis
      by (subst order_loop.simps) (simp add: Suc_diff_Suc del: order_loop.simps flip: Suc_diff_Suc)
  qed
qed

text \<open>The leg at position \<open>i\<close> of a bundle, as its request handler builds it.\<close>

definition leg :: "key \<Rightarrow> key \<Rightarrow> slot \<Rightarrow> hash list \<Rightarrow> nat \<Rightarrow> bundle_input" where
  "leg engine dwallet ownerSlot ds i =
     \<lparr>bu_Engine = engine, bu_DWallet = dwallet, bu_ThisMetadataDigest = ds ! i, bu_OwnerSlot = ownerSlot,
      bu_Total = of_nat (length ds), bu_ThisIndex = of_nat i, bu_OtherDigests = take i ds @ drop (Suc i) ds\<rparr>"

lemma bundle_legs_leg:
  assumes "length ds \<le> 4" "i < length ds"
  shows "bundle_legs (leg e d s ds i) = ds"
proof -
  have n: "unat (of_nat (length ds) :: u8) = length ds" "unat (of_nat i :: u8) = i"
    using assms by (simp_all add: unat_of_nat)
  let ?o = "take i ds @ drop (Suc i) ds"
  have len: "length ds = Suc (length ?o)" using assms by simp
  have "order_loop (length ds) 0 i (ds ! i) ?o = take i ?o @ ds ! i # drop i ?o"
    unfolding len by (subst order_loop_insert) (use assms in simp_all)
  also have "\<dots> = ds" using assms by (simp add: id_take_nth_drop [symmetric])
  finally show ?thesis using n by (simp add: bundle_legs_def leg_def)
qed

lemma u8_small_cases:
  assumes "2 \<le> n" "n \<le> 4" "i < n"
  shows "(2 :: u8) \<le> of_nat n" "(of_nat n :: u8) \<le> 4" "(of_nat i :: u8) < of_nat n"
    "(of_nat (n - 1) :: u8) = of_nat n - 1"
  using assms by (simp_all add: word_le_nat_alt word_less_nat_alt unat_of_nat of_nat_diff)

text \<open>
  One owner signature covers a bundle: for two to four metadata digests, every
  leg, whatever its position, hashes the same bytes, and these bytes determine the list of
  digests in order, the engine, the dWallet and the owner.
\<close>

theorem bundle_legs_share_challenge:
  assumes "2 \<le> length ds" "length ds \<le> 4" "i < length ds" "j < length ds"
  shows "\<exists>pre. BundlePreimage (leg e d s ds i) = Inr pre \<and> BundlePreimage (leg e d s ds j) = Inr pre
    \<and> (\<forall>b. BundlePreimage b = Inr pre \<longrightarrow> bundle_legs b = ds \<and> bu_Engine b = e \<and> bu_DWallet b = d
          \<and> bu_OwnerSlot b = s)"
proof -
  have ok: "BundlePreimage (leg e d s ds k) = Inr (ascii DomainV3 @ ascii OpBundleSign @ arr_bytes e
      @ arr_bytes d @ [of_nat (length ds)] @ concat (map arr_bytes ds) @ arr_bytes s)"
    if k: "k < length ds" for k
  proof -
    have "length (take k ds @ drop (Suc k) ds) = length ds - 1" using k by simp
    moreover note u8_small_cases [OF assms(1,2) k] bundle_legs_leg [OF assms(2) k, of e d s]
    ultimately show ?thesis
      by (auto simp: BundlePreimage_def bundle_legs_def leg_def MinBundleTotal_def MaxBundleTotal_def
          not_less not_le)
  qed
  have legs: "bundle_legs (leg e d s ds i) = ds" using bundle_legs_leg assms by blast
  have "bundle_legs b = ds \<and> bu_Engine b = e \<and> bu_DWallet b = d \<and> bu_OwnerSlot b = s"
    if "BundlePreimage b = BundlePreimage (leg e d s ds i)" for b
    using BundlePreimage_inj [of b _ "leg e d s ds i"] that ok [OF assms(3)] legs by (simp add: leg_def)
  with ok [OF assms(3)] ok [OF assms(4)] show ?thesis by auto
qed

theorem bundle_legs_share_challenge_witness:
  "BundlePreimage (leg zero_arr zero_arr zero_arr [key_of 1, key_of 2, key_of 3] 0)
   = BundlePreimage (leg zero_arr zero_arr zero_arr [key_of 1, key_of 2, key_of 3] 2)"
  using bundle_legs_share_challenge [of "[key_of 1, key_of 2, key_of 3]" 0 2 zero_arr zero_arr zero_arr]
  by auto

text \<open>
  Property C1. The engine's signature requests are separated: whatever two requests the
  gateway builds (administration under any of its tags, engine creation, normal, swap and
  bundle authorization, metadata digests, recovery, quorum and passkey sessions), if they hash
  the same bytes they are the same request with the same fields (for a bundle: legs of the
  same bundle).
\<close>

theorem engine_challenges_separate_requests:
  assumes "engine_ok a" "engine_ok b" "\<not> same_request a b" "engine_preimage E a = Inr x"
  shows "engine_preimage E b \<noteq> Inr x"
  using engine_preimage_inj assms by blast

theorem engine_challenges_separate_requests_witness:
  "engine_preimage sample_env (ESwap \<lparr>uc_HumanMessage = [65], uc_Engine = zero_arr, uc_DWallet = zero_arr,
       uc_MetadataDigest = zero_arr, uc_OwnerSlot = zero_arr\<rparr>)
   \<noteq> Inr (NormalUsePreimage \<lparr>uc_HumanMessage = [65], uc_Engine = zero_arr, uc_DWallet = zero_arr,
       uc_MetadataDigest = zero_arr, uc_OwnerSlot = zero_arr\<rparr>)"
  by (rule engine_challenges_separate_requests [of "ENormal \<lparr>uc_HumanMessage = [65], uc_Engine = zero_arr,
      uc_DWallet = zero_arr, uc_MetadataDigest = zero_arr, uc_OwnerSlot = zero_arr\<rparr>"]) simp_all

section \<open>What the owner is asked to sign\<close>

text \<open>The request an owner authorization stands for.\<close>

definition auth_request_of :: "solana_env \<Rightarrow> owner_auth_input \<Rightarrow> engine_request" where
  "auth_request_of E a =
     (let human = fst (renderHumanForOwnerAuth E a) in
      case oa_Bundle a of
        Some bp \<Rightarrow> EBundle (bundle_of a bp)
      | None \<Rightarrow> (case oa_Swap a of Some _ \<Rightarrow> ESwap (use_of a human) | None \<Rightarrow> ENormal (use_of a human)))"

lemma length_takeWhile_arr: "length (takeWhile P (arr_bytes (a :: 8 arr))) \<le> 8"
  using length_takeWhile_le [of P "arr_bytes a"] by simp

lemma base58_len: "base58_text E \<Longrightarrow> length (Base58 E k) \<le> 44"
  by (simp add: base58_text_def)

lemma owner_auth_text_len:
  "base58_text E \<Longrightarrow> length (fst (renderHumanForOwnerAuth E a)) \<le> 768"
  using base58_len [of E "oa_DWallet a"] dec_u16_len [of "oa_SignatureScheme a"] dec_u64_len [of "oa_Amount a"]
    dec_u64_len [of "sw_MinAmountOut (the (oa_Swap a))"]
    length_takeWhile_arr [of "\<lambda>b. b \<noteq> 0" "sw_ChainTag (the (oa_Swap a))"]
  by (cases "oa_Swap a") (simp_all add: renderHumanForOwnerAuth_def HumanMessageSwap_def HumanMessageNormalSign_def)

text \<open>A field without a separator ends at the first one, and from the end, begins after the last one.\<close>

lemma sep_eq: "c \<notin> set s \<Longrightarrow> c \<notin> set t \<Longrightarrow> s @ c # x = t @ c # y \<longleftrightarrow> s = t \<and> x = y"
proof (induction s arbitrary: t)
  case Nil
  then show ?case by (cases t) auto
next
  case (Cons a s)
  then show ?case by (cases t) auto
qed

lemma rsep_eq:
  assumes "c \<notin> set s" "c \<notin> set t"
  shows "x @ c # s = y @ c # t \<longleftrightarrow> x = y \<and> s = t"
proof -
  have "x @ c # s = y @ c # t \<longleftrightarrow> rev s @ c # rev x = rev t @ c # rev y" by (subst rev_is_rev_conv [symmetric]) simp
  also have "\<dots> \<longleftrightarrow> x = y \<and> s = t" using sep_eq [of c "rev s" "rev t" "rev x" "rev y"] assms by auto
  finally show ?thesis .
qed

lemma ascii_no_space: "CHR '' '' \<notin> set s \<Longrightarrow> (32 :: byte) \<notin> set (ascii s)"
proof
  assume "CHR '' '' \<notin> set s" "(32 :: byte) \<in> set (ascii s)"
  then obtain c where "c \<in> set s" "(of_char c :: byte) = of_char (CHR '' '')" by (auto simp: ascii_def)
  with \<open>CHR '' '' \<notin> set s\<close> show False by (simp only: of_char_byte_inj)
qed

lemma ascii_space: "ascii (CHR '' '' # x) = 32 # ascii x"
  by (simp add: ascii_def)

lemma field_no_space:
  "CHR '' '' \<notin> set (dec n)" "CHR '' '' \<notin> set (hex_lower (arr_bytes (a :: 32 arr)))"
  using token_dec [of n] token_hex_key [of a] unfolding token_def by blast+

lemma field_no_space_byte:
  "(32 :: byte) \<notin> set (ascii (dec n))" "(32 :: byte) \<notin> set (ascii (hex_lower (arr_bytes (a :: 32 arr))))"
  by (simp_all add: ascii_no_space field_no_space)

lemmas separating = sep_eq field_no_space field_no_space_byte

lemma normal_text_inj:
  assumes "HumanMessageNormalSign E d dest amt s = HumanMessageNormalSign E d dest' amt' s'"
  shows "dest = dest' \<and> amt = amt' \<and> s = s'"
  using assms by (auto simp: HumanMessageNormalSign_def separating word_unat_eq_iff)

lemma swap_tail_inj:
  assumes "tag @ ascii ('' for dWallet '' @ B @ '' scheme '' @ dec s) = tag' @ ascii ('' for dWallet '' @ B @ '' scheme '' @ dec s')"
  shows "tag = tag' \<and> s = s'"
proof -
  have "(tag @ ascii ('' for dWallet '' @ B @ '' scheme'')) @ 32 # ascii (dec s)
    = (tag' @ ascii ('' for dWallet '' @ B @ '' scheme'')) @ 32 # ascii (dec s')"
    using assms by (simp add: ascii_def)
  from iffD1 [OF rsep_eq this] show ?thesis by (simp add: field_no_space_byte)
qed

lemma swap_fields_inj:
  assumes "P @ ascii (dec b) @ 32 # Q @ ascii (hex_lower (arr_bytes (a :: 32 arr))) @ 32 # R @ ascii (dec e) @ 32 # Q
      @ ascii (hex_lower (arr_bytes (c :: 32 arr))) @ 32 # T @ z
    = P @ ascii (dec b') @ 32 # Q @ ascii (hex_lower (arr_bytes (a' :: 32 arr))) @ 32 # R @ ascii (dec e') @ 32 # Q
      @ ascii (hex_lower (arr_bytes (c' :: 32 arr))) @ 32 # T @ z'"
  shows "a = a' \<and> b = b' \<and> c = c' \<and> e = e' \<and> z = z'"
  using assms by (simp add: separating)

lemma swap_text_parts:
  "HumanMessageSwap E d a b c e u v = ascii ''Swap '' @ ascii (dec (unat b)) @ 32 # ascii ''of '' @ ascii (hex_lower (arr_bytes a))
    @ 32 # ascii ''for at least '' @ ascii (dec (unat e)) @ 32 # ascii ''of '' @ ascii (hex_lower (arr_bytes c))
    @ 32 # ascii ''on '' @ takeWhile (\<lambda>b. b \<noteq> 0) (arr_bytes u) @ ascii ('' for dWallet '' @ Base58 E d @ '' scheme '' @ dec (unat v))"
  by (simp add: HumanMessageSwap_def ascii_def)

lemma swap_text_inj:
  assumes "HumanMessageSwap E d f amt t mn tag s = HumanMessageSwap E d f' amt' t' mn' tag' s'"
  shows "f = f' \<and> amt = amt' \<and> t = t' \<and> mn = mn' \<and> s = s'
    \<and> takeWhile (\<lambda>b. b \<noteq> 0) (arr_bytes tag) = takeWhile (\<lambda>b. b \<noteq> 0) (arr_bytes tag')"
proof -
  note r = swap_fields_inj [OF assms [unfolded swap_text_parts]]
  then have "takeWhile (\<lambda>b. b \<noteq> 0) (arr_bytes tag) = takeWhile (\<lambda>b. b \<noteq> 0) (arr_bytes tag') \<and> unat s = unat s'"
    by (elim conjE) (erule swap_tail_inj)
  with r show ?thesis by (simp only: word_unat_eq_iff simp_thms)
qed

lemma ComputeOwnerAuthChallenge_Inr:
  assumes "base58_text E" "ComputeOwnerAuthChallenge E sha a = Inr c"
  shows "\<exists>pre. engine_preimage E (auth_request_of E a) = Inr pre \<and> engine_ok (auth_request_of E a)
    \<and> OwnerAuthChallengeHex c = hex_lower (arr_bytes (sha pre)) \<and> OwnerAuthPreimageHex c = hex_lower pre
    \<and> OwnerAuthHumanMessage c = fst (renderHumanForOwnerAuth E a)"
  using assms owner_auth_text_len [OF assms(1), of a]
  by (auto simp: ComputeOwnerAuthChallenge_def auth_request_of_def BundleHash_def SwapUseHash_def
      NormalUseHash_def use_of_def Let_def split: option.splits prod.splits)

lemma bundle_of_fields:
  "bu_Engine (bundle_of a p) = oa_Engine a" "bu_DWallet (bundle_of a p) = oa_DWallet a"
  "bu_OwnerSlot (bundle_of a p) = oa_OwnerSlot a" "bu_Total (bundle_of a p) = bp_Total p"
  by (simp_all add: bundle_of_def)

text \<open>What one signature fixes: the whole request, or the legs of the bundle.\<close>

definition same_terms :: "owner_auth_input \<Rightarrow> owner_auth_input \<Rightarrow> bool" where
  "same_terms a b \<longleftrightarrow>
     oa_Engine a = oa_Engine b \<and> oa_DWallet a = oa_DWallet b \<and> oa_OwnerSlot a = oa_OwnerSlot b
     \<and> (case (oa_Bundle a, oa_Bundle b) of
          (Some p, Some q) \<Rightarrow> bp_Total p = bp_Total q \<and> bundle_legs (bundle_of a p) = bundle_legs (bundle_of b q)
        | (None, None) \<Rightarrow>
            oa_MetadataDigest a = oa_MetadataDigest b \<and> oa_Amount a = oa_Amount b
            \<and> oa_SignatureScheme a = oa_SignatureScheme b
            \<and> (case (oa_Swap a, oa_Swap b) of
                 (None, None) \<Rightarrow> oa_Destination a = oa_Destination b
               | (Some v, Some w) \<Rightarrow> sw_FromToken v = sw_FromToken w \<and> sw_ToToken v = sw_ToToken w
                   \<and> sw_MinAmountOut v = sw_MinAmountOut w
                   \<and> takeWhile (\<lambda>x. x \<noteq> 0) (arr_bytes (sw_ChainTag v)) = takeWhile (\<lambda>x. x \<noteq> 0) (arr_bytes (sw_ChainTag w))
               | _ \<Rightarrow> False)
        | _ \<Rightarrow> False)"

text \<open>
  Property C3. What the owner signs fixes what the owner agrees to: two authorizations served with the
  same preimage are for the same engine, dWallet and owner credential and of the same kind; outside a
  bundle they have the same metadata digest, amount, scheme and text, and the same destination, or the same
  tokens, least amount out and chain of a swap; in a bundle they are legs of the same list of digests. The
  challenge to sign is the hash of that preimage. (Base58 keeps to tokens of at most 44 characters.)
\<close>

theorem owner_auth_preimage_fixes_terms:
  assumes "base58_text E" "ComputeOwnerAuthChallenge E sha a = Inr c" "ComputeOwnerAuthChallenge E sha b = Inr c'"
    and "OwnerAuthPreimageHex c = OwnerAuthPreimageHex c'"
  shows "same_terms a b \<and> OwnerAuthChallengeHex c = OwnerAuthChallengeHex c'
    \<and> (oa_Bundle a = None \<longrightarrow> OwnerAuthHumanMessage c = OwnerAuthHumanMessage c')
    \<and> (\<exists>pre. OwnerAuthPreimageHex c = hex_lower pre \<and> OwnerAuthChallengeHex c = hex_lower (arr_bytes (sha pre)))"
proof -
  obtain x y where x: "engine_preimage E (auth_request_of E a) = Inr x" "engine_ok (auth_request_of E a)"
      "OwnerAuthChallengeHex c = hex_lower (arr_bytes (sha x))" "OwnerAuthPreimageHex c = hex_lower x"
      "OwnerAuthHumanMessage c = fst (renderHumanForOwnerAuth E a)"
    and y: "engine_preimage E (auth_request_of E b) = Inr y" "engine_ok (auth_request_of E b)"
      "OwnerAuthChallengeHex c' = hex_lower (arr_bytes (sha y))" "OwnerAuthPreimageHex c' = hex_lower y"
      "OwnerAuthHumanMessage c' = fst (renderHumanForOwnerAuth E b)"
    using ComputeOwnerAuthChallenge_Inr [OF assms(1)] assms(2,3) by metis
  have "x = y" using assms(4) x y by simp
  then have same: "same_request (auth_request_of E a) (auth_request_of E b)"
    using engine_preimage_inj x y by blast
  have "same_terms a b \<and> (oa_Bundle a = None \<longrightarrow> fst (renderHumanForOwnerAuth E a) = fst (renderHumanForOwnerAuth E b))"
  proof (cases "oa_Bundle a"; cases "oa_Bundle b")
    fix p q assume "oa_Bundle a = Some p" "oa_Bundle b = Some q"
    with same show ?thesis by (simp add: auth_request_of_def same_terms_def bundle_of_fields)
  next
    assume n: "oa_Bundle a = None" "oa_Bundle b = None"
    show ?thesis
    proof (cases "oa_Swap a"; cases "oa_Swap b")
      assume "oa_Swap a = None" "oa_Swap b = None"
      with same n show ?thesis
        by (auto simp: auth_request_of_def same_terms_def use_of_def renderHumanForOwnerAuth_def dest!: normal_text_inj)
    next
      fix v w assume "oa_Swap a = Some v" "oa_Swap b = Some w"
      with same n show ?thesis
        by (auto simp: auth_request_of_def same_terms_def use_of_def renderHumanForOwnerAuth_def dest!: swap_text_inj)
    qed (use same n in \<open>simp_all add: auth_request_of_def\<close>)
  qed (use same in \<open>auto simp: auth_request_of_def Let_def split: option.splits\<close>)
  with x y \<open>x = y\<close> show ?thesis by auto
qed

definition sample_auth :: owner_auth_input where
  "sample_auth =
     \<lparr>oa_OwnerSlot = zero_arr, oa_SignatureBase64 = [], oa_WebauthnAuthDataBase64 = [],
      oa_WebauthnCDJBase64 = [], oa_Engine = key_of 1, oa_DWallet = key_of 2, oa_MetadataDigest = key_of 3,
      oa_Destination = key_of 4, oa_Amount = 250, oa_SignatureScheme = 1, oa_Swap = None, oa_Bundle = None\<rparr>"

lemma sample_auth_same: "sample_auth\<lparr>oa_Amount := 250\<rparr> = sample_auth"
  by (simp add: sample_auth_def)

lemma sample_auth_fields: "oa_Swap sample_auth = None" "oa_Bundle sample_auth = None"
  "oa_Swap (sample_auth\<lparr>oa_Amount := n\<rparr>) = None" "oa_Bundle (sample_auth\<lparr>oa_Amount := n\<rparr>) = None"
  by (simp_all add: sample_auth_def)

theorem owner_auth_preimage_fixes_terms_witness:
  "\<exists>c c'. ComputeOwnerAuthChallenge sample_env mk_arr sample_auth = Inr c
     \<and> ComputeOwnerAuthChallenge sample_env mk_arr (sample_auth\<lparr>oa_Amount := 251\<rparr>) = Inr c'
     \<and> OwnerAuthPreimageHex c \<noteq> OwnerAuthPreimageHex c'"
proof -
  have ok: "\<exists>c. ComputeOwnerAuthChallenge sample_env mk_arr (sample_auth\<lparr>oa_Amount := n\<rparr>) = Inr c" for n
    by (cases "renderHumanForOwnerAuth sample_env (sample_auth\<lparr>oa_Amount := n\<rparr>)")
      (simp add: ComputeOwnerAuthChallenge_def sample_auth_fields)
  have "\<exists>c. ComputeOwnerAuthChallenge sample_env mk_arr sample_auth = Inr c"
    using ok [of 250] by (simp only: sample_auth_same)
  then obtain c c' where c: "ComputeOwnerAuthChallenge sample_env mk_arr sample_auth = Inr c"
    "ComputeOwnerAuthChallenge sample_env mk_arr (sample_auth\<lparr>oa_Amount := 251\<rparr>) = Inr c'"
    using ok [of 251] by blast
  have "\<not> same_terms sample_auth (sample_auth\<lparr>oa_Amount := 251\<rparr>)" by (simp add: same_terms_def sample_auth_def)
  with owner_auth_preimage_fixes_terms [OF base58_text_sample c] c show ?thesis by blast
qed

text \<open>
  The bundle challenge is blind to what is shown: it does not change with the
  swap fields, the amount, the destination or the scheme of a leg. Only the metadata digest
  stands for them, so the op tag of the leg that the comments mention is not bound.
\<close>

theorem bundle_challenge_ignores_leg_text:
  "bundle_of (a\<lparr>oa_Swap := sw, oa_Amount := amt, oa_Destination := dst, oa_SignatureScheme := sch\<rparr>) bp
   = bundle_of a bp"
  by (simp add: bundle_of_def)

text \<open>
  Session administration is not clear-signed: whatever the session operation
  (open, revoke, close, add or remove a destination) and its parameters, the text bound into
  the challenge says that an allowlist policy is paused.
\<close>

theorem session_admin_text_says_pause:
  assumes "buildSessionAdminChallenge E sha opTag engine dwallet s nonce lvl cfg idx gen extras = Inr (a, pre, h)"
  shows "ac_HumanMessage a = ascii (''Pause allowlist policy '' @ Base58 E engine @ '' for dWallet '' @ Base58 E dwallet)
    \<and> ac_OpTag a = opTag \<and> ac_Extras a = extras \<and> h = sha pre"
  using assms
  by (auto simp: buildSessionAdminChallenge_def HumanMessageAllowlistPause_def AdminHash_def Let_def)

theorem session_admin_text_says_pause_witness:
  "\<exists>a pre h. buildSessionAdminChallenge sample_env mk_arr ''session-close'' zero_arr zero_arr zero_arr 3 False
       zero_arr 0 0 (sessionCloseExtras zero_arr 1 (key_of 9)) = Inr (a, pre, h)
     \<and> take 22 (ac_HumanMessage a) = ascii ''Pause allowlist policy''"
proof -
  obtain r where r: "buildSessionAdminChallenge sample_env mk_arr ''session-close'' zero_arr zero_arr zero_arr 3
      False zero_arr 0 0 (sessionCloseExtras zero_arr 1 (key_of 9)) = Inr r"
    by (simp add: buildSessionAdminChallenge_def AdminHash_def AdminPreimage_def HumanMessageAllowlistPause_def
        sessionCloseExtras_def sample_env_def key_text_chars Let_def)
  obtain a pre h where "r = (a, pre, h)" by (cases r)
  with r session_admin_text_says_pause [of sample_env mk_arr "''session-close''" zero_arr zero_arr zero_arr 3
      False zero_arr 0 0 "sessionCloseExtras zero_arr 1 (key_of 9)" a pre h]
  show ?thesis by (auto simp: ascii_def)
qed

section \<open>Recovery challenges always exist\<close>

lemma IntDec_len: "in64 v \<Longrightarrow> length (IntDec v) \<le> 20"
proof -
  assume v: "in64 v"
  then have "nat \<bar>v\<bar> < 10 ^ 19" by (auto simp: in64_def abs_if nat_less_iff)
  then have "length (dec (nat \<bar>v\<bar>)) \<le> 19" by (rule dec_length_bound) simp
  then show ?thesis by (auto simp: IntDec_def abs_if split: if_splits)
qed

lemma renderMemberSlot_len:
  assumes "renderMemberSlot s = Inr t"
  shows "length t \<le> 80"
proof -
  have "length (dec (unat (arr_bytes s ! 0))) \<le> 3" by (rule dec_word_len) simp_all
  with assms show ?thesis
    by (auto simp: renderMemberSlot_def idLenForScheme_def split: if_splits)
qed

lemma recovery_total:
  assumes "base58_text E"
  shows "\<exists>x. PrimaryRecoverPreimage E p = Inr x"
    "in64 (qo_ExpiresAt q) \<Longrightarrow> \<exists>x. QuorumSessionOpenPreimage E q = Inr x"
    "in64 (qc_ExpiresAt c) \<Longrightarrow> renderMemberSlot (qc_MemberSlot c) = Inr t \<Longrightarrow> \<exists>x. QuorumContributePreimage E c = Inr x"
    "\<exists>x. PasskeySessionOpenPreimage E so = Inr x"
    "\<exists>x. PasskeyPrimaryUsePreimage E u = Inr x"
proof -
  note b = base58_len [OF assms]
  show "\<exists>x. PrimaryRecoverPreimage E p = Inr x"
    using b [of "pr_DWallet p"] dec_u16_len [of "pr_SignatureScheme p"]
    by (simp add: PrimaryRecoverPreimage_def recovery_frame_Inr HumanMessagePrimaryRecover_def)
  show "\<exists>x. QuorumSessionOpenPreimage E q = Inr x" if "in64 (qo_ExpiresAt q)"
    using b [of "qo_DWallet q"] dec_u16_len [of "qo_SignatureScheme q"] dec_u64_len [of "qo_Amount q"]
      IntDec_len [OF that]
    by (simp add: QuorumSessionOpenPreimage_def recovery_frame_Inr HumanMessageQuorumSessionOpen_def)
  show "\<exists>x. QuorumContributePreimage E c = Inr x"
    if "in64 (qc_ExpiresAt c)" "renderMemberSlot (qc_MemberSlot c) = Inr t"
    using b [of "qc_DWallet c"] b [of "qc_Session c"] dec_u16_len [of "qc_SignatureScheme c"]
      dec_u64_len [of "qc_Amount c"] IntDec_len [OF that(1)] renderMemberSlot_len [OF that(2)] that(2)
    by (simp add: QuorumContributePreimage_def recovery_frame_Inr HumanMessageQuorumContribute_def)
  show "\<exists>x. PasskeySessionOpenPreimage E so = Inr x"
    using b [of "po_DWallet so"] dec_u64_len [of "po_NotAfterUnixTs so"]
    by (simp add: PasskeySessionOpenPreimage_def recovery_frame_Inr HumanMessagePasskeySessionOpen_def)
  show "\<exists>x. PasskeyPrimaryUsePreimage E u = Inr x"
    using b [of "pu_DWallet u"] b [of "pu_Session u"] dec_u16_len [of "pu_SignatureScheme u"]
    by (simp add: PasskeyPrimaryUsePreimage_def recovery_frame_Inr HumanMessagePasskeyPrimaryUse_def)
qed

text \<open>
  A recovery can always be asked for: the five recovery texts fit the buffer for
  all inputs (a known member scheme, \<open>int64\<close> expiries), so their preimages are never refused.
\<close>

theorem recovery_preimages_total:
  assumes "base58_text E" "in64 (qo_ExpiresAt q)" "in64 (qc_ExpiresAt c)" "renderMemberSlot (qc_MemberSlot c) = Inr t"
  shows "(\<exists>x. PrimaryRecoverPreimage E p = Inr x) \<and> (\<exists>x. QuorumSessionOpenPreimage E q = Inr x)
    \<and> (\<exists>x. QuorumContributePreimage E c = Inr x) \<and> (\<exists>x. PasskeySessionOpenPreimage E so = Inr x)
    \<and> (\<exists>x. PasskeyPrimaryUsePreimage E u = Inr x)"
  using recovery_total [OF assms(1)] assms(2-) by blast

definition sample_contribute :: quorum_contribute_input where
  "sample_contribute =
     \<lparr>qc_Session = key_of 1, qc_MemberSlot = zero_arr, qc_DWallet = key_of 2, qc_Amount = 2 ^ 63,
      qc_Destination = key_of 3, qc_MessageDigest = key_of 4, qc_MetadataDigest = key_of 5,
      qc_UserPubkey = key_of 6, qc_SignatureScheme = 65535, qc_MessageApprovalBump = 255,
      qc_ExpiresAt = - (2 ^ 63)\<rparr>"

theorem recovery_preimages_total_witness:
  "\<exists>x. QuorumContributePreimage sample_env sample_contribute = Inr x"
proof -
  have s: "renderMemberSlot (qc_MemberSlot sample_contribute)
    = Inr (''scheme:0;id:'' @ hex_lower (replicate 32 0))"
    by (simp add: sample_contribute_def renderMemberSlot_def idLenForScheme_def arr_bytes_zero dec.simps)
  have e: "in64 (qc_ExpiresAt sample_contribute)" by (simp add: sample_contribute_def in64_def)
  show ?thesis
    using recovery_preimages_total [OF base58_text_sample _ e s,
        of "\<lparr>qo_DWallet = zero_arr, qo_MessageDigest = zero_arr, qo_MetadataDigest = zero_arr,
           qo_UserPubkey = zero_arr, qo_SignatureScheme = 0, qo_MessageApprovalBump = 0, qo_Amount = 0,
           qo_Destination = zero_arr, qo_ExpiresAt = 0, qo_SessionNonce = 0, qo_PrimarySlot = zero_arr\<rparr>"]
    by (simp add: in64_def)
qed

text \<open>
  The two copies of the scheme table disagree: package \<open>policy\<close> knows the OIDC
  scheme 4 with a 32-byte identifier, package \<open>auth\<close> refuses it; on every other scheme they
  agree.
\<close>

theorem scheme_tables_differ_on_oidc:
  "idLenForScheme 4 = Inr 32 \<and> IDLenForScheme 4 = Inl ErrUnsupportedScheme
   \<and> (\<forall>c n. c = 4 \<or> (idLenForScheme c = Inr n \<longleftrightarrow> IDLenForScheme c = Inr n))"
  by (auto simp: idLenForScheme_def IDLenForScheme_def)

end
