(* ===== verification/Instructions.thy ===== *)
theory Instructions
  imports Solana
begin

text \<open>
  The instruction builders of package \<open>policy\<close> (files \<open>ix_*.go\<close>): one function per instruction of
  the on-chain policy engine, from a parameter record to the account list and the data bytes.
  The parameter structs share fields, so they are one hierarchy of records; the account lists
  that several builders repeat are written once.
\<close>

section \<open>Parameters\<close>

record ix_base =
  ProgramID :: key
  Engine :: key
  DWallet :: key
  InitAuthorityHash :: hash

record payer_ix = ix_base + Payer :: key

record init_ix = payer_ix +
  InitAuthoritySlot :: slot
  OwnerSlot :: slot
  DefaultRecoveryPresent :: u8
  DefaultRecoveryHash :: hash

record rule_admin_ix = payer_ix +
  ExpectedNonce :: u64
  RuleIndex :: u8

record add_rule_ix = rule_admin_ix + AppliesTo :: u8

record velocity_window =
  WindowSeconds :: u64
  Cap :: u64

record add_velocity_ix = add_rule_ix + Windows :: "velocity_window list"

record add_time_lock_ix = add_rule_ix +
  Mode :: u8
  UnlockTs :: int
  DelaySeconds :: u64

record add_oracle_ix = add_rule_ix +
  OracleFreshnessDiv16 :: u8
  MinConfidenceBpsDiv4 :: u8

record add_fhe_ix = add_rule_ix + FheFreshnessDiv16 :: u8

record add_session_key_ix = add_rule_ix +
  MaxSessions :: u8
  DefaultTTLSeconds :: u64
  DefaultMaxUses :: u32
  SessionMaxAmountPerTx :: u64

record add_spending_ix = add_rule_ix +
  SpendingFreshnessDiv16 :: u8
  MaxConfidenceBpsDiv4 :: u8
  MaxPerTxUsd :: u64
  MaxPerDayUsd :: u64
  MaxPerWeekUsd :: u64

record rule_dest_ix = rule_admin_ix + Destination :: "32 arr"
record rule_member_ix = rule_admin_ix + MemberSlot :: slot

record oracle_feed_ix = rule_admin_ix +
  FeedAccount :: "32 arr"
  FeedOwner :: "32 arr"
  MinQ64 :: int
  MaxQ64 :: int

record fhe_authorities_ix = rule_admin_ix +
  NewCount :: u8
  NewAuthorities :: "128 arr"

record spending_feed_ix = rule_admin_ix +
  FeedCacheAccount :: "32 arr"
  Decimals :: u8

record remove_rule_ix = rule_admin_ix +
  RemovedRulePDA :: key
  RuleRecipient :: key

record session_ix = payer_ix + SessionIndex :: u32
record session_admin_ix = session_ix + SessionAdminNonce :: u64
record session_close_ix = session_admin_ix + CloseRecipient :: key
record session_expired_ix = session_ix + ExpiredRecipient :: key
record session_dest_ix = session_admin_ix + SessionDestination :: "32 arr"

record session_open_ix = session_ix +
  OpenNonce :: u64
  OpenRuleIndex :: u8
  SessionSigner :: key
  ExpiresAtTs :: int
  MaxUses :: u32
  MaxAmountPerTx :: u64

text \<open>The accounts of the signing path and the digests of a request.\<close>

record cpi_ix = payer_ix +
  Coordinator :: key
  MessageApproval :: key
  CPIAuthority :: key
  CallerProgram :: key
  DWalletProgram :: key
  CPIAuthorityBump :: u8

record sign_ix = cpi_ix +
  MessageDigest :: hash
  MetadataDigest :: hash
  UserPubkey :: "32 arr"
  SignatureScheme :: u16
  MessageApprovalBump :: u8

record request_ix = sign_ix +
  RulePDAs :: "key list"
  RuleAux :: "key list list"
  ReqDestination :: "32 arr"
  RulesGenerationSeen :: u32
  Amount :: u64
  AssetIndex :: u8
  IkaMsgMetadataDigest :: hash
  SigningKind :: u8
  SwapFromToken :: "32 arr"
  SwapToToken :: "32 arr"
  SwapMinAmountOut :: u64
  SwapChainTag :: "8 arr"
  BundleTotal :: u8
  BundleThisIndex :: u8
  BundleOtherDigest1 :: hash
  BundleOtherDigest2 :: hash
  BundleOtherDigest3 :: hash

record via_session_ix = sign_ix +
  ViaRulePDAs :: "key list"
  ViaRuleAux :: "key list list"
  ViaSessionSigner :: key
  ViaSessionIndex :: u32
  ViaDestination :: "32 arr"
  ExpectedSignatureNonce :: u64
  ViaAmount :: u64

record quorum_open_ix = payer_ix +
  QRuleIndex :: u8
  QSessionNonce :: u64
  QMessageDigest :: hash
  QMetadataDigest :: hash
  QUserPubkey :: "32 arr"
  QSignatureScheme :: u16
  QMessageApprovalBump :: u8
  QAmount :: u64
  QDestination :: "32 arr"
  QExpiresAt :: int

record quorum_contribute_ix = payer_ix +
  QCSessionNonce :: u64
  MemberIndex :: u8

record quorum_finalize_ix = cpi_ix +
  QFRuleIndex :: u8
  QFSessionNonce :: u64

record recipient_close_ix = ix_base +
  Recipient :: key
  CloseSessionNonce :: u64

record recover_primary_ix = sign_ix +
  RPRuleIndex :: u8
  RPDestination :: "32 arr"
  RPExpectedNonce :: u64
  RPAmount :: u64

record passkey_open_ix = payer_ix +
  PKRuleIndex :: u8
  PasskeySessionNonce :: u64
  EphPk :: "32 arr"
  NotAfterUnixTs :: u64
  CredentialIdHash :: hash
  ExpectedPasskeySessionNonce :: u64
  WebAuthnAuthData :: bytes
  WebAuthnClientDataJSON :: bytes

record recover_passkey_ix = sign_ix +
  RKRuleIndex :: u8
  RKSessionNonce :: u64
  ExpectedUseNonce :: u64

section \<open>Derivations and account lists\<close>

type_synonym ix_result = "policy_error + instruction"

text \<open>\<open>if err != nil { return nil, err }\<close> after each derivation; only the address is used.\<close>

definition with_event :: "solana_env \<Rightarrow> key \<Rightarrow> (key \<Rightarrow> ix_result) \<Rightarrow> ix_result" where
  "with_event E programID k = bind_res (EventAuthorityPDA E programID) (\<lambda>(eventAuth, _). k eventAuth)"

definition with_rule :: "solana_env \<Rightarrow> key \<Rightarrow> key \<Rightarrow> rule_kind \<Rightarrow> u8 \<Rightarrow> (key \<Rightarrow> ix_result) \<Rightarrow> ix_result" where
  "with_rule E programID engine kind idx k = bind_res (RulePDA E programID engine kind idx) (\<lambda>(rulePDA, _). k rulePDA)"

definition with_session :: "solana_env \<Rightarrow> key \<Rightarrow> key \<Rightarrow> u32 \<Rightarrow> (key \<Rightarrow> ix_result) \<Rightarrow> ix_result" where
  "with_session E programID engine idx k = bind_res (SessionPDA E programID engine idx) (\<lambda>(session, _). k session)"

definition with_quorum :: "solana_env \<Rightarrow> key \<Rightarrow> key \<Rightarrow> u64 \<Rightarrow> (key \<Rightarrow> ix_result) \<Rightarrow> ix_result" where
  "with_quorum E programID engine nonce k = bind_res (QuorumSessionPDA E programID engine nonce) (\<lambda>(session, _). k session)"

definition with_passkey :: "solana_env \<Rightarrow> key \<Rightarrow> key \<Rightarrow> u64 \<Rightarrow> (key \<Rightarrow> ix_result) \<Rightarrow> ix_result" where
  "with_passkey E programID engine nonce k = bind_res (PasskeySessionPDA E programID engine nonce) (\<lambda>(session, _). k session)"

lemmas with_defs = with_event_def with_rule_def with_session_def with_quorum_def with_passkey_def

text \<open>The ten accounts of every \<open>AddRule\<close> builder, the nine of every \<open>Update\<close> builder
  (\<open>recoveryUpdateAccounts\<close>), those of session administration and closing.\<close>

definition addRuleAccounts :: "solana_env \<Rightarrow> key \<Rightarrow> key \<Rightarrow> key \<Rightarrow> key \<Rightarrow> key \<Rightarrow> key \<Rightarrow> account_meta list" where
  "addRuleAccounts E programID dwallet engine rulePDA payer eventAuth =
     [ro dwallet, wr engine, wr rulePDA, wr_signer payer, ro (SysvarInstructions E), ro (SysvarClock E),
      ro (SysvarRent E), ro (SystemProgramID E), ro eventAuth, ro programID]"

definition recoveryUpdateAccounts ::
    "solana_env \<Rightarrow> key \<Rightarrow> key \<Rightarrow> key \<Rightarrow> key \<Rightarrow> key \<Rightarrow> key \<Rightarrow> account_meta list" where
  "recoveryUpdateAccounts E programID dwallet engine rulePDA payer eventAuth =
     [ro dwallet, wr engine, wr rulePDA, wr_signer payer, ro (SysvarInstructions E), ro (SysvarClock E),
      ro (SystemProgramID E), ro eventAuth, ro programID]"

definition sessionAdminAccounts ::
    "solana_env \<Rightarrow> key \<Rightarrow> key \<Rightarrow> key \<Rightarrow> key \<Rightarrow> key \<Rightarrow> key \<Rightarrow> account_meta list" where
  "sessionAdminAccounts E programID dwallet engine session payer eventAuth =
     [ro dwallet, wr engine, wr session, ro (SysvarInstructions E), ro (SysvarClock E), wr_signer payer,
      ro eventAuth, ro programID]"

definition sessionCloseAccounts ::
    "solana_env \<Rightarrow> key \<Rightarrow> key \<Rightarrow> key \<Rightarrow> key \<Rightarrow> key \<Rightarrow> key \<Rightarrow> key \<Rightarrow> account_meta list" where
  "sessionCloseAccounts E programID dwallet engine session recipient payer eventAuth =
     [ro dwallet, wr engine, wr session, wr recipient, ro (SysvarInstructions E), ro (SysvarClock E),
      wr_signer payer, ro eventAuth, ro programID]"

text \<open>The accounts of the Ika approval call that four builders share.\<close>

definition cpi_accounts :: "('a) cpi_ix_scheme \<Rightarrow> account_meta list" where
  "cpi_accounts p =
     [ro (Coordinator p), wr (MessageApproval p), wr_signer (Payer p), ro (CPIAuthority p),
      ro (CallerProgram p), ro (DWalletProgram p)]"

lemmas account_defs = addRuleAccounts_def recoveryUpdateAccounts_def sessionAdminAccounts_def
  sessionCloseAccounts_def cpi_accounts_def

text \<open>The trailing accounts: each sub-account writable, followed by its read-only auxiliaries. The
  loop runs over \<open>RulePDAs\<close>; \<open>RuleAux[i]\<close> counts only where it exists.\<close>

fun rule_accounts :: "key list \<Rightarrow> key list list \<Rightarrow> account_meta list" where
  "rule_accounts [] aux = []"
| "rule_accounts (pda # pdas) [] = wr pda # rule_accounts pdas []"
| "rule_accounts (pda # pdas) (a # aux) = wr pda # map ro a @ rule_accounts pdas aux"

definition admin_head :: "u8 \<Rightarrow> ('a) rule_admin_ix_scheme \<Rightarrow> bytes" where
  "admin_head disc p = [disc] @ arr_bytes (InitAuthorityHash p) @ U64LE (ExpectedNonce p) @ [RuleIndex p]"

section \<open>Creation of the engine\<close>

definition InitEngine :: "solana_env \<Rightarrow> init_ix \<Rightarrow> ix_result" where
  "InitEngine E p =
     (if DefaultRecoveryPresent p \<noteq> 0 then Inl (BadField ''default_recovery_present'')
      else with_event E (ProgramID p) (\<lambda>eventAuth. Inr
       \<lparr>ProgID = ProgramID p,
        Accounts = [ro (DWallet p), wr (Engine p), wr_signer (Payer p), ro (SysvarInstructions E),
          ro (SysvarClock E), ro (SysvarRent E), ro (SystemProgramID E), ro eventAuth, ro (ProgramID p)],
        Data = [0] @ arr_bytes (InitAuthoritySlot p) @ arr_bytes (InitAuthorityHash p)
          @ arr_bytes (OwnerSlot p) @ [DefaultRecoveryPresent p] @ arr_bytes (DefaultRecoveryHash p)\<rparr>))"

section \<open>Adding rules\<close>

definition build_add_rule :: "solana_env \<Rightarrow> ('a) add_rule_ix_scheme \<Rightarrow> rule_kind \<Rightarrow> u8 \<Rightarrow> bytes \<Rightarrow> ix_result" where
  "build_add_rule E p kind disc config =
     with_rule E (ProgramID p) (Engine p) kind (RuleIndex p) (\<lambda>rulePDA.
     with_event E (ProgramID p) (\<lambda>eventAuth. Inr
       \<lparr>ProgID = ProgramID p,
        Accounts = addRuleAccounts E (ProgramID p) (DWallet p) (Engine p) rulePDA (Payer p) eventAuth,
        Data = admin_head disc p @ [AppliesTo p] @ config\<rparr>))"

definition AddRuleAllowlist :: "solana_env \<Rightarrow> add_rule_ix \<Rightarrow> ix_result" where
  "AddRuleAllowlist E p = build_add_rule E p KindAllowlist 10 []"

definition AddRulePasskey :: "solana_env \<Rightarrow> add_rule_ix \<Rightarrow> ix_result" where
  "AddRulePasskey E p = build_add_rule E p KindPasskey 14 []"

definition MaxVelocityWindows :: nat where "MaxVelocityWindows = 4"

text \<open>The loop over the windows fills a zeroed array of 64 bytes from the front.\<close>

fun windows_loop :: "nat \<Rightarrow> velocity_window list \<Rightarrow> policy_error + bytes" where
  "windows_loop i [] = Inr (replicate (64 - i * 16) 0)"
| "windows_loop i (w # ws) =
     (if WindowSeconds w = 0 \<or> Cap w = 0 then Inl (BadField ''window'')
      else bind_res (windows_loop (Suc i) ws) (\<lambda>r. Inr (U64LE (WindowSeconds w) @ U64LE (Cap w) @ r)))"

definition AddRuleVelocity :: "solana_env \<Rightarrow> add_velocity_ix \<Rightarrow> ix_result" where
  "AddRuleVelocity E p =
     (if length (Windows p) < 1 \<or> length (Windows p) > MaxVelocityWindows then Inl (BadField ''windows'')
      else
        with_rule E (ProgramID p) (Engine p) KindVelocity (RuleIndex p) (\<lambda>rulePDA.
        with_event E (ProgramID p) (\<lambda>eventAuth.
        bind_res (windows_loop 0 (Windows p)) (\<lambda>windowsCfg. Inr
         \<lparr>ProgID = ProgramID p,
          Accounts = addRuleAccounts E (ProgramID p) (DWallet p) (Engine p) rulePDA (Payer p) eventAuth,
          Data = admin_head 11 p @ [AppliesTo p] @ [of_nat (length (Windows p))] @ windowsCfg\<rparr>))))"

definition VelocityConfigHash :: "(bytes \<Rightarrow> hash) \<Rightarrow> u8 \<Rightarrow> u8 \<Rightarrow> bytes \<Rightarrow> policy_error + hash" where
  "VelocityConfigHash sha appliesTo windowsCount windowsFlat =
     (if length windowsFlat \<noteq> MaxVelocityWindows * 48 then Inl (BadField ''windows_flat'')
      else Inr (sha (ascii ''velocity-config-v1'' @ [appliesTo, windowsCount] @ windowsFlat)))"

abbreviation TimeLockModeAbsolute :: u8 where "TimeLockModeAbsolute \<equiv> 0"
abbreviation TimeLockModeDelay :: u8 where "TimeLockModeDelay \<equiv> 1"

definition AddRuleTimeLock :: "solana_env \<Rightarrow> add_time_lock_ix \<Rightarrow> ix_result" where
  "AddRuleTimeLock E p =
     (if Mode p \<noteq> TimeLockModeAbsolute \<and> Mode p \<noteq> TimeLockModeDelay then Inl (BadField ''mode'')
      else build_add_rule E p KindTimeLock 12 ([Mode p] @ I64LE (UnlockTs p) @ U64LE (DelaySeconds p)))"

definition TimeLockConfigHash :: "(bytes \<Rightarrow> hash) \<Rightarrow> u8 \<Rightarrow> u8 \<Rightarrow> int \<Rightarrow> u64 \<Rightarrow> hash" where
  "TimeLockConfigHash sha appliesTo mode unlockTs delaySeconds =
     sha (ascii ''time-lock-config-v1'' @ [appliesTo, mode] @ I64LE unlockTs @ U64LE delaySeconds)"

definition AddRuleOracle :: "solana_env \<Rightarrow> add_oracle_ix \<Rightarrow> ix_result" where
  "AddRuleOracle E p =
     build_add_rule E p KindOracle 13 [OracleFreshnessDiv16 p, MinConfidenceBpsDiv4 p]"

definition AddRuleFheGated :: "solana_env \<Rightarrow> add_fhe_ix \<Rightarrow> ix_result" where
  "AddRuleFheGated E p = build_add_rule E p KindFheGated 15 [FheFreshnessDiv16 p]"

definition FheGatedConfigHash :: "(bytes \<Rightarrow> hash) \<Rightarrow> u8 \<Rightarrow> u8 \<Rightarrow> u8 \<Rightarrow> 128 arr \<Rightarrow> hash" where
  "FheGatedConfigHash sha appliesTo count freshnessDiv16 authoritiesFlat =
     sha (ascii ''fhe-gated-config-v1'' @ [appliesTo, count, freshnessDiv16] @ arr_bytes authoritiesFlat)"

definition AddRuleSessionKey :: "solana_env \<Rightarrow> add_session_key_ix \<Rightarrow> ix_result" where
  "AddRuleSessionKey E p =
     build_add_rule E p KindSessionKey 16
       ([MaxSessions p] @ U64LE (DefaultTTLSeconds p) @ U32LE (DefaultMaxUses p) @ U64LE (SessionMaxAmountPerTx p))"

definition SessionKeyConfigHash :: "(bytes \<Rightarrow> hash) \<Rightarrow> u8 \<Rightarrow> u8 \<Rightarrow> u64 \<Rightarrow> u32 \<Rightarrow> u64 \<Rightarrow> hash" where
  "SessionKeyConfigHash sha appliesTo maxSessions ttl maxUses maxAmount =
     sha (ascii ''session-key-config-v1'' @ [appliesTo, maxSessions] @ U64LE ttl @ U32LE maxUses @ U64LE maxAmount)"

definition AddRuleSpendingUsd :: "solana_env \<Rightarrow> add_spending_ix \<Rightarrow> ix_result" where
  "AddRuleSpendingUsd E p =
     build_add_rule E p KindSpendingUsd 18
       ([SpendingFreshnessDiv16 p, MaxConfidenceBpsDiv4 p]
        @ U64LE (MaxPerTxUsd p) @ U64LE (MaxPerDayUsd p) @ U64LE (MaxPerWeekUsd p))"

section \<open>Changing rules\<close>

definition build_update_rule :: "solana_env \<Rightarrow> ('a) rule_admin_ix_scheme \<Rightarrow> rule_kind \<Rightarrow> u8 \<Rightarrow> bytes \<Rightarrow> ix_result" where
  "build_update_rule E p kind disc args =
     with_rule E (ProgramID p) (Engine p) kind (RuleIndex p) (\<lambda>rulePDA.
     with_event E (ProgramID p) (\<lambda>eventAuth. Inr
       \<lparr>ProgID = ProgramID p,
        Accounts = recoveryUpdateAccounts E (ProgramID p) (DWallet p) (Engine p) rulePDA (Payer p) eventAuth,
        Data = admin_head disc p @ args\<rparr>))"

definition UpdateRuleAllowlistAddDestination :: "solana_env \<Rightarrow> rule_dest_ix \<Rightarrow> ix_result" where
  "UpdateRuleAllowlistAddDestination E p = build_update_rule E p KindAllowlist 120 (arr_bytes (Destination p))"

definition UpdateRuleOracleAddFeed :: "solana_env \<Rightarrow> oracle_feed_ix \<Rightarrow> ix_result" where
  "UpdateRuleOracleAddFeed E p =
     (if MinQ64 p > MaxQ64 p then Inl (BadField ''oracle band'')
      else build_update_rule E p KindOracle 122
        (arr_bytes (FeedAccount p) @ arr_bytes (FeedOwner p) @ I64LE (MinQ64 p) @ I64LE (MaxQ64 p)))"

definition MaxFheAuthorities :: nat where "MaxFheAuthorities = 4"

definition UpdateRuleFheGatedAuthorities :: "solana_env \<Rightarrow> fhe_authorities_ix \<Rightarrow> ix_result" where
  "UpdateRuleFheGatedAuthorities E p =
     (if NewCount p = 0 \<or> unat (NewCount p) > MaxFheAuthorities then Inl (BadField ''fhe authorities count'')
      else build_update_rule E p KindFheGated 126 ([NewCount p] @ arr_bytes (NewAuthorities p)))"

definition UpdateRuleSpendingUsdAddFeed :: "solana_env \<Rightarrow> spending_feed_ix \<Rightarrow> ix_result" where
  "UpdateRuleSpendingUsdAddFeed E p =
     (if Decimals p > 24 then Inl (BadField ''spending decimals'')
      else
        with_rule E (ProgramID p) (Engine p) KindSpendingUsd (RuleIndex p) (\<lambda>rulePDA.
        with_event E (ProgramID p) (\<lambda>eventAuth. Inr
         \<lparr>ProgID = ProgramID p,
          Accounts = [ro (DWallet p), wr (Engine p), wr rulePDA, ro (FeedCacheAccount p), wr_signer (Payer p),
            ro (SysvarInstructions E), ro (SysvarClock E), ro (SystemProgramID E), ro eventAuth,
            ro (ProgramID p)],
          Data = admin_head 19 p @ arr_bytes (FeedCacheAccount p) @ [Decimals p]\<rparr>)))"

definition RemoveRule :: "solana_env \<Rightarrow> remove_rule_ix \<Rightarrow> ix_result" where
  "RemoveRule E p =
     with_event E (ProgramID p) (\<lambda>eventAuth. Inr
       \<lparr>ProgID = ProgramID p,
        Accounts = [ro (DWallet p), wr (Engine p), wr (RemovedRulePDA p), wr (RuleRecipient p),
          ro (SysvarInstructions E), ro (SysvarClock E), wr_signer (Payer p), ro eventAuth, ro (ProgramID p)],
        Data = admin_head 110 p\<rparr>)"

definition buildRecoveryMemberIx :: "solana_env \<Rightarrow> u8 \<Rightarrow> rule_member_ix \<Rightarrow> ix_result" where
  "buildRecoveryMemberIx E disc p = build_update_rule E p KindRecovery disc (arr_bytes (MemberSlot p))"

definition UpdateRecoveryAddMember :: "solana_env \<Rightarrow> rule_member_ix \<Rightarrow> ix_result" where
  "UpdateRecoveryAddMember E p = buildRecoveryMemberIx E 130 p"
definition UpdateRecoveryRemoveMember :: "solana_env \<Rightarrow> rule_member_ix \<Rightarrow> ix_result" where
  "UpdateRecoveryRemoveMember E p = buildRecoveryMemberIx E 131 p"

definition buildRecoveryDestinationIx :: "solana_env \<Rightarrow> u8 \<Rightarrow> rule_dest_ix \<Rightarrow> ix_result" where
  "buildRecoveryDestinationIx E disc p = build_update_rule E p KindRecovery disc (arr_bytes (Destination p))"

definition UpdateRecoveryAddDestination :: "solana_env \<Rightarrow> rule_dest_ix \<Rightarrow> ix_result" where
  "UpdateRecoveryAddDestination E p = buildRecoveryDestinationIx E 132 p"
definition UpdateRecoveryRemoveDestination :: "solana_env \<Rightarrow> rule_dest_ix \<Rightarrow> ix_result" where
  "UpdateRecoveryRemoveDestination E p = buildRecoveryDestinationIx E 133 p"

definition RecoveryConfigHash ::
    "(bytes \<Rightarrow> hash) \<Rightarrow> u8 \<Rightarrow> u8 \<Rightarrow> slot \<Rightarrow> u8 \<Rightarrow> u8 \<Rightarrow> u64 \<Rightarrow> u64 \<Rightarrow> 16 arr \<Rightarrow> 16 arr \<Rightarrow> key \<Rightarrow> hash" where
  "RecoveryConfigHash sha appliesTo primaryPresent primarySlot quorumThreshold dailyLimitPresent dailyLimit
       cooldownSeconds oidcIssHash oidcAudHash jwkRegistryAddr =
     sha (ascii ''recovery-config-v1'' @ [appliesTo, primaryPresent] @ arr_bytes primarySlot
       @ [quorumThreshold, dailyLimitPresent] @ U64LE dailyLimit @ U64LE cooldownSeconds
       @ replicate (16 * 34) 0 @ replicate (16 * 32) 0
       @ arr_bytes oidcIssHash @ arr_bytes oidcAudHash @ arr_bytes jwkRegistryAddr)"

section \<open>Requesting a signature\<close>

definition RequestSignature :: "solana_env \<Rightarrow> request_ix \<Rightarrow> ix_result" where
  "RequestSignature E p =
     with_event E (ProgramID p) (\<lambda>eventAuth. Inr
       \<lparr>ProgID = ProgramID p,
        Accounts = [ro (DWallet p), wr (Engine p)] @ cpi_accounts p
          @ [ro (SysvarInstructions E), ro (SysvarClock E), ro (SystemProgramID E), ro eventAuth,
             ro (ProgramID p)]
          @ rule_accounts (RulePDAs p) (RuleAux p),
        Data = [1] @ arr_bytes (InitAuthorityHash p) @ arr_bytes (MessageDigest p)
          @ arr_bytes (MetadataDigest p) @ arr_bytes (UserPubkey p) @ U16LE (SignatureScheme p)
          @ [MessageApprovalBump p, CPIAuthorityBump p] @ arr_bytes (ReqDestination p)
          @ U32LE (RulesGenerationSeen p) @ U64LE (Amount p) @ [AssetIndex p]
          @ arr_bytes (IkaMsgMetadataDigest p) @ [SigningKind p] @ arr_bytes (SwapFromToken p)
          @ arr_bytes (SwapToToken p) @ U64LE (SwapMinAmountOut p) @ arr_bytes (SwapChainTag p)
          @ [BundleTotal p] @ [BundleThisIndex p] @ arr_bytes (BundleOtherDigest1 p)
          @ arr_bytes (BundleOtherDigest2 p) @ arr_bytes (BundleOtherDigest3 p)\<rparr>)"

definition RequestSignatureViaSession :: "solana_env \<Rightarrow> via_session_ix \<Rightarrow> ix_result" where
  "RequestSignatureViaSession E p =
     with_session E (ProgramID p) (Engine p) (ViaSessionIndex p) (\<lambda>session.
     with_event E (ProgramID p) (\<lambda>eventAuth. Inr
       \<lparr>ProgID = ProgramID p,
        Accounts = [ro (DWallet p), wr (Engine p), wr session, ro_signer (ViaSessionSigner p)]
          @ cpi_accounts p
          @ [ro (SysvarInstructions E), ro (SysvarClock E), ro (SystemProgramID E), ro eventAuth,
             ro (ProgramID p)]
          @ rule_accounts (ViaRulePDAs p) (ViaRuleAux p),
        Data = [101] @ arr_bytes (InitAuthorityHash p) @ U32LE (ViaSessionIndex p)
          @ arr_bytes (MessageDigest p) @ arr_bytes (MetadataDigest p) @ arr_bytes (UserPubkey p)
          @ U16LE (SignatureScheme p) @ [MessageApprovalBump p, CPIAuthorityBump p]
          @ arr_bytes (ViaDestination p) @ U64LE (ExpectedSignatureNonce p) @ U64LE (ViaAmount p)\<rparr>))"

section \<open>Session administration\<close>

definition session_head :: "u8 \<Rightarrow> ('a) session_ix_scheme \<Rightarrow> bytes" where
  "session_head disc p = [disc] @ arr_bytes (InitAuthorityHash p) @ U32LE (SessionIndex p)"

definition SessionOpen :: "solana_env \<Rightarrow> session_open_ix \<Rightarrow> ix_result" where
  "SessionOpen E p =
     with_rule E (ProgramID p) (Engine p) KindSessionKey (OpenRuleIndex p) (\<lambda>rulePDA.
     with_session E (ProgramID p) (Engine p) (SessionIndex p) (\<lambda>session.
     with_event E (ProgramID p) (\<lambda>eventAuth. Inr
       \<lparr>ProgID = ProgramID p,
        Accounts = [ro (DWallet p), wr (Engine p), ro rulePDA, wr session, wr_signer (Payer p),
          ro (SysvarInstructions E), ro (SysvarClock E), ro (SysvarRent E), ro (SystemProgramID E),
          ro eventAuth, ro (ProgramID p)],
        Data = [100] @ arr_bytes (InitAuthorityHash p) @ U64LE (OpenNonce p) @ [OpenRuleIndex p]
          @ U32LE (SessionIndex p) @ arr_bytes (SessionSigner p) @ I64LE (ExpiresAtTs p)
          @ U32LE (MaxUses p) @ U64LE (MaxAmountPerTx p)\<rparr>)))"

definition SessionRevoke :: "solana_env \<Rightarrow> session_admin_ix \<Rightarrow> ix_result" where
  "SessionRevoke E p =
     with_session E (ProgramID p) (Engine p) (SessionIndex p) (\<lambda>session.
     with_event E (ProgramID p) (\<lambda>eventAuth. Inr
       \<lparr>ProgID = ProgramID p,
        Accounts = sessionAdminAccounts E (ProgramID p) (DWallet p) (Engine p) session (Payer p) eventAuth,
        Data = session_head 102 p @ U64LE (SessionAdminNonce p)\<rparr>))"

definition SessionClose :: "solana_env \<Rightarrow> session_close_ix \<Rightarrow> ix_result" where
  "SessionClose E p =
     with_session E (ProgramID p) (Engine p) (SessionIndex p) (\<lambda>session.
     with_event E (ProgramID p) (\<lambda>eventAuth. Inr
       \<lparr>ProgID = ProgramID p,
        Accounts = sessionCloseAccounts E (ProgramID p) (DWallet p) (Engine p) session (CloseRecipient p)
          (Payer p) eventAuth,
        Data = session_head 103 p @ U64LE (SessionAdminNonce p)\<rparr>))"

definition CloseExpiredSession :: "solana_env \<Rightarrow> session_expired_ix \<Rightarrow> ix_result" where
  "CloseExpiredSession E p =
     with_session E (ProgramID p) (Engine p) (SessionIndex p) (\<lambda>session.
     with_event E (ProgramID p) (\<lambda>eventAuth. Inr
       \<lparr>ProgID = ProgramID p,
        Accounts = sessionCloseAccounts E (ProgramID p) (DWallet p) (Engine p) session (ExpiredRecipient p)
          (Payer p) eventAuth,
        Data = session_head 104 p\<rparr>))"

definition buildSessionUpdateDestination :: "solana_env \<Rightarrow> u8 \<Rightarrow> session_dest_ix \<Rightarrow> ix_result" where
  "buildSessionUpdateDestination E disc p =
     with_session E (ProgramID p) (Engine p) (SessionIndex p) (\<lambda>session.
     with_event E (ProgramID p) (\<lambda>eventAuth. Inr
       \<lparr>ProgID = ProgramID p,
        Accounts = sessionAdminAccounts E (ProgramID p) (DWallet p) (Engine p) session (Payer p) eventAuth,
        Data = session_head disc p @ U64LE (SessionAdminNonce p) @ arr_bytes (SessionDestination p)\<rparr>))"

definition SessionAddDestination :: "solana_env \<Rightarrow> session_dest_ix \<Rightarrow> ix_result" where
  "SessionAddDestination E p = buildSessionUpdateDestination E 105 p"
definition SessionRemoveDestination :: "solana_env \<Rightarrow> session_dest_ix \<Rightarrow> ix_result" where
  "SessionRemoveDestination E p = buildSessionUpdateDestination E 106 p"

section \<open>Quorum recovery\<close>

definition QuorumSessionOpen :: "solana_env \<Rightarrow> quorum_open_ix \<Rightarrow> ix_result" where
  "QuorumSessionOpen E p =
     with_rule E (ProgramID p) (Engine p) KindRecovery (QRuleIndex p) (\<lambda>rulePDA.
     with_quorum E (ProgramID p) (Engine p) (QSessionNonce p) (\<lambda>session.
     with_event E (ProgramID p) (\<lambda>eventAuth. Inr
       \<lparr>ProgID = ProgramID p,
        Accounts = [ro (DWallet p), wr (Engine p), wr rulePDA, wr session, ro (SysvarInstructions E),
          ro (SysvarClock E), ro (SysvarRent E), wr_signer (Payer p), ro (SystemProgramID E),
          ro eventAuth, ro (ProgramID p)],
        Data = [82] @ arr_bytes (InitAuthorityHash p) @ [QRuleIndex p] @ U64LE (QSessionNonce p)
          @ arr_bytes (QMessageDigest p) @ arr_bytes (QMetadataDigest p) @ arr_bytes (QUserPubkey p)
          @ U16LE (QSignatureScheme p) @ [QMessageApprovalBump p] @ U64LE (QAmount p)
          @ arr_bytes (QDestination p) @ I64LE (QExpiresAt p)\<rparr>)))"

definition QuorumSessionContribute :: "solana_env \<Rightarrow> quorum_contribute_ix \<Rightarrow> ix_result" where
  "QuorumSessionContribute E p =
     with_quorum E (ProgramID p) (Engine p) (QCSessionNonce p) (\<lambda>session.
     with_event E (ProgramID p) (\<lambda>eventAuth. Inr
       \<lparr>ProgID = ProgramID p,
        Accounts = sessionAdminAccounts E (ProgramID p) (DWallet p) (Engine p) session (Payer p) eventAuth,
        Data = [83] @ arr_bytes (InitAuthorityHash p) @ U64LE (QCSessionNonce p) @ [MemberIndex p]\<rparr>))"

definition QuorumSessionFinalize :: "solana_env \<Rightarrow> quorum_finalize_ix \<Rightarrow> ix_result" where
  "QuorumSessionFinalize E p =
     with_rule E (ProgramID p) (Engine p) KindRecovery (QFRuleIndex p) (\<lambda>rulePDA.
     with_quorum E (ProgramID p) (Engine p) (QFSessionNonce p) (\<lambda>session.
     with_event E (ProgramID p) (\<lambda>eventAuth. Inr
       \<lparr>ProgID = ProgramID p,
        Accounts = [ro (DWallet p), wr (Engine p), wr rulePDA, wr session] @ cpi_accounts p
          @ [ro (SysvarClock E), ro (SystemProgramID E), ro eventAuth, ro (ProgramID p)],
        Data = [85] @ arr_bytes (InitAuthorityHash p) @ [QFRuleIndex p] @ U64LE (QFSessionNonce p)
          @ [CPIAuthorityBump p]\<rparr>)))"

text \<open>\<open>QuorumSessionClose\<close> and \<open>PasskeySessionClose\<close>: the recipient signs and pays.\<close>

definition recipient_close :: "solana_env \<Rightarrow> recipient_close_ix \<Rightarrow> u8 \<Rightarrow> key \<Rightarrow> key \<Rightarrow> instruction" where
  "recipient_close E p disc session eventAuth =
     \<lparr>ProgID = ProgramID p,
      Accounts = [ro (DWallet p), ro (Engine p), wr session, wr_signer (Recipient p), ro (SysvarClock E),
        ro eventAuth, ro (ProgramID p)],
      Data = [disc] @ arr_bytes (InitAuthorityHash p) @ U64LE (CloseSessionNonce p)\<rparr>"

definition QuorumSessionClose :: "solana_env \<Rightarrow> recipient_close_ix \<Rightarrow> ix_result" where
  "QuorumSessionClose E p =
     with_quorum E (ProgramID p) (Engine p) (CloseSessionNonce p) (\<lambda>session.
     with_event E (ProgramID p) (\<lambda>eventAuth. Inr (recipient_close E p 86 session eventAuth)))"

section \<open>Recovery by the primary\<close>

definition RecoverAsPrimary :: "solana_env \<Rightarrow> recover_primary_ix \<Rightarrow> ix_result" where
  "RecoverAsPrimary E p =
     with_rule E (ProgramID p) (Engine p) KindRecovery (RPRuleIndex p) (\<lambda>rulePDA.
     with_event E (ProgramID p) (\<lambda>eventAuth. Inr
       \<lparr>ProgID = ProgramID p,
        Accounts = [ro (DWallet p), wr (Engine p), wr rulePDA] @ cpi_accounts p
          @ [ro (SysvarInstructions E), ro (SysvarClock E), ro (SystemProgramID E), ro eventAuth,
             ro (ProgramID p)],
        Data = [80] @ arr_bytes (InitAuthorityHash p) @ [RPRuleIndex p] @ arr_bytes (MessageDigest p)
          @ arr_bytes (MetadataDigest p) @ arr_bytes (UserPubkey p) @ U16LE (SignatureScheme p)
          @ [MessageApprovalBump p, CPIAuthorityBump p] @ arr_bytes (RPDestination p)
          @ U64LE (RPExpectedNonce p) @ U64LE (RPAmount p)\<rparr>))"

definition WebAuthnAuthDataMax :: nat where "WebAuthnAuthDataMax = 192"
definition WebAuthnClientDataJSONMax :: nat where "WebAuthnClientDataJSONMax = 192"

definition padded :: "nat \<Rightarrow> bytes \<Rightarrow> bytes" where
  "padded n b = b @ replicate (n - length b) 0"

definition PasskeySessionOpen :: "solana_env \<Rightarrow> passkey_open_ix \<Rightarrow> ix_result" where
  "PasskeySessionOpen E p =
     (if length (WebAuthnAuthData p) = 0 \<or> length (WebAuthnAuthData p) > WebAuthnAuthDataMax
      then Inl (BadField ''webauthn_auth_data'')
      else if length (WebAuthnClientDataJSON p) = 0
        \<or> length (WebAuthnClientDataJSON p) > WebAuthnClientDataJSONMax
      then Inl (BadField ''webauthn_client_data_json'')
      else
        with_rule E (ProgramID p) (Engine p) KindRecovery (PKRuleIndex p) (\<lambda>rulePDA.
        with_passkey E (ProgramID p) (Engine p) (PasskeySessionNonce p) (\<lambda>session.
        with_event E (ProgramID p) (\<lambda>eventAuth. Inr
         \<lparr>ProgID = ProgramID p,
          Accounts = [ro (DWallet p), wr (Engine p), wr rulePDA, wr session, ro (SysvarInstructions E),
            ro (SysvarClock E), ro (SysvarRent E), wr_signer (Payer p), ro (SystemProgramID E),
            ro eventAuth, ro (ProgramID p)],
          Data = [89] @ arr_bytes (InitAuthorityHash p) @ [PKRuleIndex p] @ U64LE (PasskeySessionNonce p)
            @ arr_bytes (EphPk p) @ U64LE (NotAfterUnixTs p) @ arr_bytes (CredentialIdHash p)
            @ U64LE (ExpectedPasskeySessionNonce p)
            @ U16LE (of_nat (length (WebAuthnAuthData p))) @ padded WebAuthnAuthDataMax (WebAuthnAuthData p)
            @ U16LE (of_nat (length (WebAuthnClientDataJSON p)))
            @ padded WebAuthnClientDataJSONMax (WebAuthnClientDataJSON p)\<rparr>))))"

definition RecoverAsPrimaryPasskeySession :: "solana_env \<Rightarrow> recover_passkey_ix \<Rightarrow> ix_result" where
  "RecoverAsPrimaryPasskeySession E p =
     with_rule E (ProgramID p) (Engine p) KindRecovery (RKRuleIndex p) (\<lambda>rulePDA.
     with_passkey E (ProgramID p) (Engine p) (RKSessionNonce p) (\<lambda>session.
     with_event E (ProgramID p) (\<lambda>eventAuth. Inr
       \<lparr>ProgID = ProgramID p,
        Accounts = [ro (DWallet p), wr (Engine p), ro rulePDA, wr session] @ cpi_accounts p
          @ [ro (SysvarInstructions E), ro (SysvarClock E), ro (SystemProgramID E), ro eventAuth,
             ro (ProgramID p)],
        Data = [90] @ arr_bytes (InitAuthorityHash p) @ [RKRuleIndex p] @ U64LE (RKSessionNonce p)
          @ arr_bytes (MessageDigest p) @ arr_bytes (MetadataDigest p) @ arr_bytes (UserPubkey p)
          @ U16LE (SignatureScheme p) @ [MessageApprovalBump p, CPIAuthorityBump p]
          @ U64LE (ExpectedUseNonce p)\<rparr>)))"

definition PasskeySessionClose :: "solana_env \<Rightarrow> recipient_close_ix \<Rightarrow> ix_result" where
  "PasskeySessionClose E p =
     with_passkey E (ProgramID p) (Engine p) (CloseSessionNonce p) (\<lambda>session.
     with_event E (ProgramID p) (\<lambda>eventAuth. Inr (recipient_close E p 91 session eventAuth)))"

section \<open>All instructions\<close>

datatype add_req =
    AAllowlist add_rule_ix | AVelocity add_velocity_ix | ATimeLock add_time_lock_ix
  | AOracle add_oracle_ix | APasskey add_rule_ix | AFhe add_fhe_ix
  | ASessionKey add_session_key_ix | ASpending add_spending_ix

datatype update_req =
    UAllowAdd rule_dest_ix | UOracleFeed oracle_feed_ix | UFheAuth fhe_authorities_ix
  | USpendingFeed spending_feed_ix | URemove remove_rule_ix | UMemberAdd rule_member_ix
  | UMemberRemove rule_member_ix | UDestAdd rule_dest_ix | UDestRemove rule_dest_ix

datatype session_req =
    SOpen session_open_ix | SRevoke session_admin_ix | SClose session_close_ix
  | SExpired session_expired_ix | SDestAdd session_dest_ix | SDestRemove session_dest_ix

datatype recovery_req =
    RQOpen quorum_open_ix | RQContribute quorum_contribute_ix | RQFinalize quorum_finalize_ix
  | RQClose recipient_close_ix | RPrimary recover_primary_ix | RPKOpen passkey_open_ix
  | RPKUse recover_passkey_ix | RPKClose recipient_close_ix

datatype ix_req =
    IInit init_ix | ISign request_ix | IVia via_session_ix
  | IAdd add_req | IUpdate update_req | ISession session_req | IRecovery recovery_req

fun build_add :: "solana_env \<Rightarrow> add_req \<Rightarrow> ix_result" where
  "build_add E (AAllowlist p) = AddRuleAllowlist E p"
| "build_add E (AVelocity p) = AddRuleVelocity E p"
| "build_add E (ATimeLock p) = AddRuleTimeLock E p"
| "build_add E (AOracle p) = AddRuleOracle E p"
| "build_add E (APasskey p) = AddRulePasskey E p"
| "build_add E (AFhe p) = AddRuleFheGated E p"
| "build_add E (ASessionKey p) = AddRuleSessionKey E p"
| "build_add E (ASpending p) = AddRuleSpendingUsd E p"

fun build_update :: "solana_env \<Rightarrow> update_req \<Rightarrow> ix_result" where
  "build_update E (UAllowAdd p) = UpdateRuleAllowlistAddDestination E p"
| "build_update E (UOracleFeed p) = UpdateRuleOracleAddFeed E p"
| "build_update E (UFheAuth p) = UpdateRuleFheGatedAuthorities E p"
| "build_update E (USpendingFeed p) = UpdateRuleSpendingUsdAddFeed E p"
| "build_update E (URemove p) = RemoveRule E p"
| "build_update E (UMemberAdd p) = UpdateRecoveryAddMember E p"
| "build_update E (UMemberRemove p) = UpdateRecoveryRemoveMember E p"
| "build_update E (UDestAdd p) = UpdateRecoveryAddDestination E p"
| "build_update E (UDestRemove p) = UpdateRecoveryRemoveDestination E p"

fun build_session :: "solana_env \<Rightarrow> session_req \<Rightarrow> ix_result" where
  "build_session E (SOpen p) = SessionOpen E p"
| "build_session E (SRevoke p) = SessionRevoke E p"
| "build_session E (SClose p) = SessionClose E p"
| "build_session E (SExpired p) = CloseExpiredSession E p"
| "build_session E (SDestAdd p) = SessionAddDestination E p"
| "build_session E (SDestRemove p) = SessionRemoveDestination E p"

fun build_recovery :: "solana_env \<Rightarrow> recovery_req \<Rightarrow> ix_result" where
  "build_recovery E (RQOpen p) = QuorumSessionOpen E p"
| "build_recovery E (RQContribute p) = QuorumSessionContribute E p"
| "build_recovery E (RQFinalize p) = QuorumSessionFinalize E p"
| "build_recovery E (RQClose p) = QuorumSessionClose E p"
| "build_recovery E (RPrimary p) = RecoverAsPrimary E p"
| "build_recovery E (RPKOpen p) = PasskeySessionOpen E p"
| "build_recovery E (RPKUse p) = RecoverAsPrimaryPasskeySession E p"
| "build_recovery E (RPKClose p) = PasskeySessionClose E p"

fun build_ix :: "solana_env \<Rightarrow> ix_req \<Rightarrow> ix_result" where
  "build_ix E (IInit p) = InitEngine E p"
| "build_ix E (ISign p) = RequestSignature E p"
| "build_ix E (IVia p) = RequestSignatureViaSession E p"
| "build_ix E (IAdd r) = build_add E r"
| "build_ix E (IUpdate r) = build_update E r"
| "build_ix E (ISession r) = build_session E r"
| "build_ix E (IRecovery r) = build_recovery E r"

lemmas add_defs = build_add_rule_def AddRuleAllowlist_def AddRuleVelocity_def AddRuleTimeLock_def
  AddRuleOracle_def AddRulePasskey_def AddRuleFheGated_def AddRuleSessionKey_def AddRuleSpendingUsd_def
lemmas update_defs = build_update_rule_def UpdateRuleAllowlistAddDestination_def
  UpdateRuleOracleAddFeed_def UpdateRuleFheGatedAuthorities_def UpdateRuleSpendingUsdAddFeed_def
  RemoveRule_def buildRecoveryMemberIx_def UpdateRecoveryAddMember_def UpdateRecoveryRemoveMember_def
  buildRecoveryDestinationIx_def UpdateRecoveryAddDestination_def UpdateRecoveryRemoveDestination_def
lemmas session_defs = SessionOpen_def SessionRevoke_def SessionClose_def CloseExpiredSession_def
  buildSessionUpdateDestination_def SessionAddDestination_def SessionRemoveDestination_def
lemmas recovery_defs = QuorumSessionOpen_def QuorumSessionContribute_def QuorumSessionFinalize_def
  QuorumSessionClose_def RecoverAsPrimary_def PasskeySessionOpen_def RecoverAsPrimaryPasskeySession_def
  PasskeySessionClose_def recipient_close_def
lemmas sign_defs = InitEngine_def RequestSignature_def RequestSignatureViaSession_def

section \<open>Who signs, and for which program\<close>

text \<open>A successful derivation chain ends in the record the builder returns.\<close>

lemma with_Inr:
  "with_event E p k = Inr ix \<longleftrightarrow> (\<exists>a b. EventAuthorityPDA E p = Inr (a, b) \<and> k a = Inr ix)"
  "with_rule E p e kd i k = Inr ix \<longleftrightarrow> (\<exists>a b. RulePDA E p e kd i = Inr (a, b) \<and> k a = Inr ix)"
  "with_session E p e j k = Inr ix \<longleftrightarrow> (\<exists>a b. SessionPDA E p e j = Inr (a, b) \<and> k a = Inr ix)"
  "with_quorum E p e n k = Inr ix \<longleftrightarrow> (\<exists>a b. QuorumSessionPDA E p e n = Inr (a, b) \<and> k a = Inr ix)"
  "with_passkey E p e n k = Inr ix \<longleftrightarrow> (\<exists>a b. PasskeySessionPDA E p e n = Inr (a, b) \<and> k a = Inr ix)"
  by (auto simp: with_defs)

definition signers :: "instruction \<Rightarrow> key list" where
  "signers ix = map PublicKey (filter IsSigner (Accounts ix))"

definition writables :: "instruction \<Rightarrow> key list" where
  "writables ix = map PublicKey (filter IsWritable (Accounts ix))"

lemma filter_rule_accounts: "filter IsSigner (rule_accounts pdas aux) = []"
  by (induction pdas aux rule: rule_accounts.induct) (auto simp: filter_empty_conv)

text \<open>The keys whose signature a request needs, and the program it goes to.\<close>

fun add_base :: "add_req \<Rightarrow> key \<times> key" where
  "add_base (AAllowlist p) = (ProgramID p, Payer p)"
| "add_base (AVelocity p) = (ProgramID p, Payer p)"
| "add_base (ATimeLock p) = (ProgramID p, Payer p)"
| "add_base (AOracle p) = (ProgramID p, Payer p)"
| "add_base (APasskey p) = (ProgramID p, Payer p)"
| "add_base (AFhe p) = (ProgramID p, Payer p)"
| "add_base (ASessionKey p) = (ProgramID p, Payer p)"
| "add_base (ASpending p) = (ProgramID p, Payer p)"

fun update_base :: "update_req \<Rightarrow> key \<times> key" where
  "update_base (UAllowAdd p) = (ProgramID p, Payer p)"
| "update_base (UOracleFeed p) = (ProgramID p, Payer p)"
| "update_base (UFheAuth p) = (ProgramID p, Payer p)"
| "update_base (USpendingFeed p) = (ProgramID p, Payer p)"
| "update_base (URemove p) = (ProgramID p, Payer p)"
| "update_base (UMemberAdd p) = (ProgramID p, Payer p)"
| "update_base (UMemberRemove p) = (ProgramID p, Payer p)"
| "update_base (UDestAdd p) = (ProgramID p, Payer p)"
| "update_base (UDestRemove p) = (ProgramID p, Payer p)"

fun session_base :: "session_req \<Rightarrow> key \<times> key" where
  "session_base (SOpen p) = (ProgramID p, Payer p)"
| "session_base (SRevoke p) = (ProgramID p, Payer p)"
| "session_base (SClose p) = (ProgramID p, Payer p)"
| "session_base (SExpired p) = (ProgramID p, Payer p)"
| "session_base (SDestAdd p) = (ProgramID p, Payer p)"
| "session_base (SDestRemove p) = (ProgramID p, Payer p)"

fun recovery_base :: "recovery_req \<Rightarrow> key \<times> key" where
  "recovery_base (RQOpen p) = (ProgramID p, Payer p)"
| "recovery_base (RQContribute p) = (ProgramID p, Payer p)"
| "recovery_base (RQFinalize p) = (ProgramID p, Payer p)"
| "recovery_base (RQClose p) = (ProgramID p, Recipient p)"
| "recovery_base (RPrimary p) = (ProgramID p, Payer p)"
| "recovery_base (RPKOpen p) = (ProgramID p, Payer p)"
| "recovery_base (RPKUse p) = (ProgramID p, Payer p)"
| "recovery_base (RPKClose p) = (ProgramID p, Recipient p)"

fun required_signers :: "ix_req \<Rightarrow> key list" where
  "required_signers (IInit p) = [Payer p]"
| "required_signers (ISign p) = [Payer p]"
| "required_signers (IVia p) = [ViaSessionSigner p, Payer p]"
| "required_signers (IAdd r) = [snd (add_base r)]"
| "required_signers (IUpdate r) = [snd (update_base r)]"
| "required_signers (ISession r) = [snd (session_base r)]"
| "required_signers (IRecovery r) = [snd (recovery_base r)]"

fun request_program :: "ix_req \<Rightarrow> key" where
  "request_program (IInit p) = ProgramID p"
| "request_program (ISign p) = ProgramID p"
| "request_program (IVia p) = ProgramID p"
| "request_program (IAdd r) = fst (add_base r)"
| "request_program (IUpdate r) = fst (update_base r)"
| "request_program (ISession r) = fst (session_base r)"
| "request_program (IRecovery r) = fst (recovery_base r)"

lemma build_add_signers:
  "build_add E r = Inr ix \<Longrightarrow> signers ix = [snd (add_base r)] \<and> ProgID ix = fst (add_base r)"
  by (cases r) (auto simp: add_defs with_Inr account_defs signers_def split: if_splits)

lemma build_update_signers:
  "build_update E r = Inr ix \<Longrightarrow> signers ix = [snd (update_base r)] \<and> ProgID ix = fst (update_base r)"
  by (cases r) (auto simp: update_defs with_Inr account_defs signers_def split: if_splits)

lemma build_session_signers:
  "build_session E r = Inr ix \<Longrightarrow> signers ix = [snd (session_base r)] \<and> ProgID ix = fst (session_base r)"
  by (cases r) (auto simp: session_defs with_Inr account_defs signers_def split: if_splits)

lemma build_recovery_signers:
  "build_recovery E r = Inr ix \<Longrightarrow> signers ix = [snd (recovery_base r)] \<and> ProgID ix = fst (recovery_base r)"
  by (cases r) (auto simp: recovery_defs with_Inr account_defs signers_def split: if_splits)

text \<open>
  An instruction asks for exactly the signatures it should: the fee payer's (the
  rent recipient's when a recovery session is closed), and the session key's as well when a
  signature is requested through a session. It is addressed to the program of the request, and
  none of the auxiliary accounts of the rules becomes a signer.
\<close>

theorem build_ix_signers:
  assumes "build_ix E r = Inr ix"
  shows "signers ix = required_signers r \<and> ProgID ix = request_program r"
proof (cases r)
  case (IAdd q)
  then show ?thesis using assms build_add_signers [of E q] by simp
next
  case (IUpdate q)
  then show ?thesis using assms build_update_signers [of E q] by simp
next
  case (ISession q)
  then show ?thesis using assms build_session_signers [of E q] by simp
next
  case (IRecovery q)
  then show ?thesis using assms build_recovery_signers [of E q] by simp
qed (use assms in \<open>auto simp: sign_defs with_Inr account_defs signers_def filter_rule_accounts split: if_splits\<close>)

definition sample_add :: add_rule_ix where
  "sample_add = \<lparr>ProgramID = key_of 1, Engine = key_of 2, DWallet = key_of 3, InitAuthorityHash = key_of 4,
     Payer = key_of 5, ExpectedNonce = 6, RuleIndex = 7, AppliesTo = 1\<rparr>"

lemma sample_build_add: "\<exists>ix. AddRuleAllowlist sample_env sample_add = Inr ix"
  by (simp add: add_defs with_defs RulePDA_def rule_seeds_def SeedForKind_def EventAuthorityPDA_def
      find_pda_def sample_env_def)

theorem build_ix_signers_witness:
  "\<exists>ix. build_ix sample_env (IAdd (AAllowlist sample_add)) = Inr ix \<and> signers ix = [key_of 5]"
proof -
  obtain ix where ix: "build_ix sample_env (IAdd (AAllowlist sample_add)) = Inr ix"
    using sample_build_add by auto
  from build_ix_signers [OF this] ix show ?thesis by (auto simp: sample_add_def)
qed

section \<open>The discriminator tells the instruction\<close>

fun add_disc :: "add_req \<Rightarrow> u8" where
  "add_disc (AAllowlist _) = 10" | "add_disc (AVelocity _) = 11" | "add_disc (ATimeLock _) = 12"
| "add_disc (AOracle _) = 13" | "add_disc (APasskey _) = 14" | "add_disc (AFhe _) = 15"
| "add_disc (ASessionKey _) = 16" | "add_disc (ASpending _) = 18"

fun update_disc :: "update_req \<Rightarrow> u8" where
  "update_disc (UAllowAdd _) = 120" | "update_disc (UOracleFeed _) = 122" | "update_disc (UFheAuth _) = 126"
| "update_disc (USpendingFeed _) = 19" | "update_disc (URemove _) = 110" | "update_disc (UMemberAdd _) = 130"
| "update_disc (UMemberRemove _) = 131" | "update_disc (UDestAdd _) = 132" | "update_disc (UDestRemove _) = 133"

fun session_disc :: "session_req \<Rightarrow> u8" where
  "session_disc (SOpen _) = 100" | "session_disc (SRevoke _) = 102" | "session_disc (SClose _) = 103"
| "session_disc (SExpired _) = 104" | "session_disc (SDestAdd _) = 105" | "session_disc (SDestRemove _) = 106"

fun recovery_disc :: "recovery_req \<Rightarrow> u8" where
  "recovery_disc (RQOpen _) = 82" | "recovery_disc (RQContribute _) = 83" | "recovery_disc (RQFinalize _) = 85"
| "recovery_disc (RQClose _) = 86" | "recovery_disc (RPrimary _) = 80" | "recovery_disc (RPKOpen _) = 89"
| "recovery_disc (RPKUse _) = 90" | "recovery_disc (RPKClose _) = 91"

fun ix_disc :: "ix_req \<Rightarrow> u8" where
  "ix_disc (IInit _) = 0" | "ix_disc (ISign _) = 1" | "ix_disc (IVia _) = 101"
| "ix_disc (IAdd r) = add_disc r" | "ix_disc (IUpdate r) = update_disc r"
| "ix_disc (ISession r) = session_disc r" | "ix_disc (IRecovery r) = recovery_disc r"

lemma build_ix_disc: "build_ix E r = Inr ix \<Longrightarrow> Data ix \<noteq> [] \<and> hd (Data ix) = ix_disc r"
proof (cases r)
  case (IAdd q)
  then show "build_ix E r = Inr ix \<Longrightarrow> ?thesis"
    by (cases q) (auto simp: add_defs with_Inr admin_head_def split: if_splits)
next
  case (IUpdate q)
  then show "build_ix E r = Inr ix \<Longrightarrow> ?thesis"
    by (cases q) (auto simp: update_defs with_Inr admin_head_def split: if_splits)
next
  case (ISession q)
  then show "build_ix E r = Inr ix \<Longrightarrow> ?thesis"
    by (cases q) (auto simp: session_defs with_Inr session_head_def split: if_splits)
next
  case (IRecovery q)
  then show "build_ix E r = Inr ix \<Longrightarrow> ?thesis"
    by (cases q) (auto simp: recovery_defs with_Inr split: if_splits)
qed (auto simp: sign_defs with_Inr split: if_splits)

section \<open>An instruction determines its parameters\<close>

text \<open>Prices and times are \<open>int64\<close>; there is an entry of auxiliaries for every rule account.\<close>

fun ix_ranged :: "ix_req \<Rightarrow> bool" where
  "ix_ranged (ISign p) = (length (RuleAux p) = length (RulePDAs p))"
| "ix_ranged (IVia p) = (length (ViaRuleAux p) = length (ViaRulePDAs p))"
| "ix_ranged (IAdd (ATimeLock p)) = in64 (UnlockTs p)"
| "ix_ranged (IUpdate (UOracleFeed p)) = (in64 (MinQ64 p) \<and> in64 (MaxQ64 p))"
| "ix_ranged (ISession (SOpen p)) = in64 (ExpiresAtTs p)"
| "ix_ranged (IRecovery (RQOpen p)) = in64 (QExpiresAt p)"
| "ix_ranged _ = True"

lemma ro_wr_prefix:
  "map ro a @ x = map ro b @ y \<Longrightarrow> (x = [] \<or> IsWritable (hd x)) \<Longrightarrow> (y = [] \<or> IsWritable (hd y)) \<Longrightarrow> a = b \<and> x = y"
proof (induction a arbitrary: b)
  case Nil
  then show ?case by (cases b) auto
next
  case (Cons k a)
  then show ?case by (cases b) auto
qed

lemma rule_accounts_hd: "rule_accounts pdas aux = [] \<or> IsWritable (hd (rule_accounts pdas aux))"
  by (cases "(pdas, aux)" rule: rule_accounts.cases) auto

lemma rule_accounts_inj:
  "length aux = length pdas \<Longrightarrow> length aux' = length pdas' \<Longrightarrow>
   rule_accounts pdas aux = rule_accounts pdas' aux' \<Longrightarrow> pdas = pdas' \<and> aux = aux'"
proof (induction pdas aux arbitrary: pdas' aux' rule: rule_accounts.induct)
  case (1 aux)
  then show ?case by (cases "(pdas', aux')" rule: rule_accounts.cases) auto
next
  case (3 pda pdas a aux)
  then obtain pda' ps' a' as' where e: "pdas' = pda' # ps'" "aux' = a' # as'"
    by (cases "(pdas', aux')" rule: rule_accounts.cases) auto
  with "3.prems" have "pda = pda'" "map ro a @ rule_accounts pdas aux = map ro a' @ rule_accounts ps' as'"
    by auto
  moreover from ro_wr_prefix [OF this(2) rule_accounts_hd rule_accounts_hd]
  have "a = a'" "rule_accounts pdas aux = rule_accounts ps' as'" by auto
  ultimately show ?case using "3.IH" [of as' ps'] "3.prems" e by auto
qed simp

lemma windows_loop_Cons:
  "windows_loop i (w # ws) = Inr r \<Longrightarrow>
   \<exists>r'. windows_loop (Suc i) ws = Inr r' \<and> r = U64LE (WindowSeconds w) @ U64LE (Cap w) @ r'"
  by (auto split: if_splits)

lemma windows_loop_inj:
  "windows_loop i ws = Inr r \<Longrightarrow> windows_loop i vs = Inr r \<Longrightarrow> length ws = length vs \<Longrightarrow> ws = vs"
proof (induction ws arbitrary: i vs r)
  case (Cons w ws)
  from Cons.prems(3) obtain v vs' where vs: "vs = v # vs'" by (cases vs) auto
  from windows_loop_Cons [OF Cons.prems(1)] windows_loop_Cons [OF Cons.prems(2) [unfolded vs]]
  obtain r' where "windows_loop (Suc i) ws = Inr r'" "windows_loop (Suc i) vs' = Inr r'"
    and wv: "WindowSeconds w = WindowSeconds v" "Cap w = Cap v"
    by auto
  moreover have "length ws = length vs'" using Cons.prems(3) vs by simp
  ultimately have "ws = vs'" using Cons.IH by blast
  with wv vs show ?case by simp
qed simp

lemma count4_inj: "m \<le> 4 \<Longrightarrow> n \<le> 4 \<Longrightarrow> (of_nat m :: u8) = of_nat n \<longleftrightarrow> m = n"
  by (auto simp: word_unat_eq_iff unat_of_nat)

lemma count192_inj: "m \<le> 192 \<Longrightarrow> n \<le> 192 \<Longrightarrow> (of_nat m :: u16) = of_nat n \<longleftrightarrow> m = n"
  by (auto simp: word_unat_eq_iff unat_of_nat)

lemma padded_append_inj:
  "length a \<le> n \<Longrightarrow> length b \<le> n \<Longrightarrow> length a = length b \<Longrightarrow>
   padded n a @ x = padded n b @ y \<longleftrightarrow> a = b \<and> x = y"
  by (auto simp: padded_def)

lemmas inj_simps = with_Inr account_defs admin_head_def session_head_def I64LE_inj

lemma InitEngine_inj: "InitEngine E p = Inr ix \<Longrightarrow> InitEngine E q = Inr ix \<Longrightarrow> p = q"
  by (cases p; cases q) (clarsimp simp: sign_defs inj_simps split: if_splits)

lemma RequestSignature_inj:
  "RequestSignature E p = Inr ix \<Longrightarrow> RequestSignature E q = Inr ix \<Longrightarrow>
   length (RuleAux p) = length (RulePDAs p) \<Longrightarrow> length (RuleAux q) = length (RulePDAs q) \<Longrightarrow> p = q"
  by (cases p; cases q) (clarsimp simp: sign_defs inj_simps rule_accounts_inj)

lemma RequestSignatureViaSession_inj:
  "RequestSignatureViaSession E p = Inr ix \<Longrightarrow> RequestSignatureViaSession E q = Inr ix \<Longrightarrow>
   length (ViaRuleAux p) = length (ViaRulePDAs p) \<Longrightarrow> length (ViaRuleAux q) = length (ViaRulePDAs q) \<Longrightarrow> p = q"
  by (cases p; cases q) (clarsimp simp: sign_defs inj_simps rule_accounts_inj)

lemma build_add_inj:
  assumes "build_add E a = Inr ix" "build_add E b = Inr ix" "add_disc a = add_disc b"
    "ix_ranged (IAdd a)" "ix_ranged (IAdd b)"
  shows "a = b"
proof (cases a)
  case a: (AVelocity p)
  with assms(3) obtain q where b: "b = AVelocity q" by (cases b) auto
  from assms(1) obtain r where p: "windows_loop 0 (Windows p) = Inr r" "length (Windows p) \<le> 4"
    "Data ix = admin_head 11 p @ [AppliesTo p] @ [of_nat (length (Windows p))] @ r"
    "Accounts ix ! 0 = ro (DWallet p)" "Accounts ix ! 1 = wr (Engine p)" "Accounts ix ! 3 = wr_signer (Payer p)"
    "ProgID ix = ProgramID p"
    by (auto simp: a AddRuleVelocity_def MaxVelocityWindows_def with_Inr account_defs split: if_splits)
  from assms(2) obtain s where q: "windows_loop 0 (Windows q) = Inr s" "length (Windows q) \<le> 4"
    "Data ix = admin_head 11 q @ [AppliesTo q] @ [of_nat (length (Windows q))] @ s"
    "Accounts ix ! 0 = ro (DWallet q)" "Accounts ix ! 1 = wr (Engine q)" "Accounts ix ! 3 = wr_signer (Payer q)"
    "ProgID ix = ProgramID q"
    by (auto simp: b AddRuleVelocity_def MaxVelocityWindows_def with_Inr account_defs split: if_splits)
  have "length (Windows p) = length (Windows q)" "r = s"
    using p(3) q(3) count4_inj [OF p(2) q(2)] by (auto simp: admin_head_def)
  with windows_loop_inj p(1) q(1) have "Windows p = Windows q" by blast
  with p(3-) q(3-) show ?thesis by (simp add: a b admin_head_def)
qed (use assms in \<open>cases b; auto simp: add_defs inj_simps split: if_splits\<close>)+

lemma build_update_inj:
  assumes "build_update E a = Inr ix" "build_update E b = Inr ix" "update_disc a = update_disc b"
    "ix_ranged (IUpdate a)" "ix_ranged (IUpdate b)"
  shows "a = b"
  by (cases a) (use assms in \<open>cases b; auto simp: update_defs inj_simps split: if_splits\<close>)+

lemma build_session_inj:
  assumes "build_session E a = Inr ix" "build_session E b = Inr ix" "session_disc a = session_disc b"
    "ix_ranged (ISession a)" "ix_ranged (ISession b)"
  shows "a = b"
  by (cases a) (use assms in \<open>cases b; auto simp: session_defs inj_simps split: if_splits\<close>)+

lemma length_padded: "length b \<le> n \<Longrightarrow> length (padded n b) = n"
  by (simp add: padded_def)

text \<open>A padded field between its length and the rest.\<close>

lemma padded_field_inj:
  assumes "length a \<le> 192" "length b \<le> 192"
  shows "U16LE (of_nat (length a)) @ padded 192 a @ x = U16LE (of_nat (length b)) @ padded 192 b @ y
    \<longleftrightarrow> a = b \<and> x = y"
proof
  assume eq: "U16LE (of_nat (length a)) @ padded 192 a @ x = U16LE (of_nat (length b)) @ padded 192 b @ y"
  then have len: "length a = length b" using count192_inj [OF assms] by simp
  from eq have "padded 192 a @ x = padded 192 b @ y" by simp
  with padded_append_inj [OF assms len] show "a = b \<and> x = y" by simp
qed simp

lemma padded_field_inj0:
  assumes "length a \<le> 192" "length b \<le> 192"
  shows "U16LE (of_nat (length a)) @ padded 192 a = U16LE (of_nat (length b)) @ padded 192 b \<longleftrightarrow> a = b"
  using padded_field_inj [OF assms, of "[]" "[]"] by simp

lemma PasskeySessionOpen_Inr:
  "PasskeySessionOpen E p = Inr ix \<Longrightarrow>
   length (WebAuthnAuthData p) \<le> 192 \<and> length (WebAuthnClientDataJSON p) \<le> 192
   \<and> ProgID ix = ProgramID p \<and> Accounts ix ! 0 = ro (DWallet p) \<and> Accounts ix ! 1 = wr (Engine p)
   \<and> Accounts ix ! 7 = wr_signer (Payer p)
   \<and> Data ix = [89] @ arr_bytes (InitAuthorityHash p) @ [PKRuleIndex p] @ U64LE (PasskeySessionNonce p)
            @ arr_bytes (EphPk p) @ U64LE (NotAfterUnixTs p) @ arr_bytes (CredentialIdHash p)
            @ U64LE (ExpectedPasskeySessionNonce p)
            @ U16LE (of_nat (length (WebAuthnAuthData p))) @ padded 192 (WebAuthnAuthData p)
            @ U16LE (of_nat (length (WebAuthnClientDataJSON p))) @ padded 192 (WebAuthnClientDataJSON p)"
  by (auto simp: PasskeySessionOpen_def WebAuthnAuthDataMax_def WebAuthnClientDataJSONMax_def with_Inr
      split: if_splits)

lemma PasskeySessionOpen_inj:
  assumes "PasskeySessionOpen E p = Inr ix" "PasskeySessionOpen E q = Inr ix"
  shows "p = q"
proof -
  note p = PasskeySessionOpen_Inr [OF assms(1)] and q = PasskeySessionOpen_Inr [OF assms(2)]
  then have "WebAuthnAuthData p = WebAuthnAuthData q \<and>
      U16LE (of_nat (length (WebAuthnClientDataJSON p))) @ padded 192 (WebAuthnClientDataJSON p)
    = U16LE (of_nat (length (WebAuthnClientDataJSON q))) @ padded 192 (WebAuthnClientDataJSON q)"
    using padded_field_inj [of "WebAuthnAuthData p" "WebAuthnAuthData q"
        "U16LE (of_nat (length (WebAuthnClientDataJSON p))) @ padded 192 (WebAuthnClientDataJSON p)"
        "U16LE (of_nat (length (WebAuthnClientDataJSON q))) @ padded 192 (WebAuthnClientDataJSON q)"]
    by simp
  moreover from this have "WebAuthnClientDataJSON p = WebAuthnClientDataJSON q"
    using padded_field_inj0 p q by blast
  ultimately show ?thesis using p q by simp
qed

lemma build_recovery_inj:
  assumes "build_recovery E a = Inr ix" "build_recovery E b = Inr ix" "recovery_disc a = recovery_disc b"
    "ix_ranged (IRecovery a)" "ix_ranged (IRecovery b)"
  shows "a = b"
proof (cases a)
  case (RPKOpen p)
  with assms show ?thesis using PasskeySessionOpen_inj by (cases b) auto
qed (use assms in \<open>cases b; auto simp: recovery_defs inj_simps split: if_splits\<close>)+

lemma add_update_disc: "add_disc a \<noteq> update_disc u" by (cases a; cases u; simp)
lemma add_session_disc: "add_disc a \<noteq> session_disc s" by (cases a; cases s; simp)
lemma add_recovery_disc: "add_disc a \<noteq> recovery_disc v" by (cases a; cases v; simp)
lemma update_session_disc: "update_disc u \<noteq> session_disc s" by (cases u; cases s; simp)
lemma update_recovery_disc: "update_disc u \<noteq> recovery_disc v" by (cases u; cases v; simp)
lemma session_recovery_disc: "session_disc s \<noteq> recovery_disc v" by (cases s; cases v; simp)
lemma add_single_disc: "add_disc a \<noteq> 0 \<and> add_disc a \<noteq> 1 \<and> add_disc a \<noteq> 101" by (cases a; simp)
lemma update_single_disc: "update_disc a \<noteq> 0 \<and> update_disc a \<noteq> 1 \<and> update_disc a \<noteq> 101" by (cases a; simp)
lemma session_single_disc: "session_disc a \<noteq> 0 \<and> session_disc a \<noteq> 1 \<and> session_disc a \<noteq> 101" by (cases a; simp)
lemma recovery_single_disc: "recovery_disc a \<noteq> 0 \<and> recovery_disc a \<noteq> 1 \<and> recovery_disc a \<noteq> 101" by (cases a; simp)

lemmas disc_families = add_update_disc add_session_disc add_recovery_disc update_session_disc
  update_recovery_disc session_recovery_disc add_single_disc update_single_disc session_single_disc
  recovery_single_disc

text \<open>The families of operations by their discriminators.\<close>

definition same_family :: "ix_req \<Rightarrow> ix_req \<Rightarrow> bool" where
  "same_family a b \<longleftrightarrow> (case (a, b) of
       (IInit _, IInit _) \<Rightarrow> True | (ISign _, ISign _) \<Rightarrow> True | (IVia _, IVia _) \<Rightarrow> True
     | (IAdd _, IAdd _) \<Rightarrow> True | (IUpdate _, IUpdate _) \<Rightarrow> True | (ISession _, ISession _) \<Rightarrow> True
     | (IRecovery _, IRecovery _) \<Rightarrow> True | _ \<Rightarrow> False)"

lemma disc_same_family: "ix_disc a = ix_disc b \<Longrightarrow> same_family a b"
  using disc_families
  by (cases a; cases b; simp add: same_family_def; metis)

text \<open>
  Property C4. Nothing a caller asks for is lost in an instruction: over all the builders, two
  requests that give the same instruction (program, accounts and data) are the same operation
  with the same parameters, the velocity windows and the passkey payloads with their padding
  included. In particular no two of the 34 operations share a discriminator.
\<close>

theorem build_ix_injective:
  assumes "build_ix E a = Inr ix" "build_ix E b = Inr ix" "ix_ranged a" "ix_ranged b"
  shows "a = b"
proof -
  have disc: "ix_disc a = ix_disc b"
    using build_ix_disc [OF assms(1)] build_ix_disc [OF assms(2)] by simp
  then have fam: "same_family a b" by (rule disc_same_family)
  show ?thesis
  proof (cases a)
    case a: (IAdd p)
    with fam obtain q where "b = IAdd q" by (cases b) (simp_all add: same_family_def)
    with a assms disc show ?thesis using build_add_inj [of E p ix q] by simp
  next
    case a: (IUpdate p)
    with fam obtain q where "b = IUpdate q" by (cases b) (simp_all add: same_family_def)
    with a assms disc show ?thesis using build_update_inj [of E p ix q] by simp
  next
    case a: (ISession p)
    with fam obtain q where "b = ISession q" by (cases b) (simp_all add: same_family_def)
    with a assms disc show ?thesis using build_session_inj [of E p ix q] by simp
  next
    case a: (IRecovery p)
    with fam obtain q where "b = IRecovery q" by (cases b) (simp_all add: same_family_def)
    with a assms disc show ?thesis using build_recovery_inj [of E p ix q] by simp
  next
    case a: (IInit p)
    with fam obtain q where b: "b = IInit q" by (cases b) (simp_all add: same_family_def)
    with a assms show ?thesis using InitEngine_inj [of E p ix q] by simp
  next
    case a: (ISign p)
    with fam obtain q where b: "b = ISign q" by (cases b) (simp_all add: same_family_def)
    with a assms show ?thesis using RequestSignature_inj [of E p ix q] by simp
  next
    case a: (IVia p)
    with fam obtain q where b: "b = IVia q" by (cases b) (simp_all add: same_family_def)
    with a assms show ?thesis using RequestSignatureViaSession_inj [of E p ix q] by simp
  qed
qed

theorem build_ix_injective_witness:
  "build_ix sample_env (IAdd (AAllowlist sample_add)) \<noteq> build_ix sample_env (IAdd (APasskey sample_add))"
proof
  assume eq: "build_ix sample_env (IAdd (AAllowlist sample_add)) = build_ix sample_env (IAdd (APasskey sample_add))"
  obtain ix where ix: "build_ix sample_env (IAdd (AAllowlist sample_add)) = Inr ix"
    using sample_build_add by auto
  from build_ix_injective [OF ix, of "IAdd (APasskey sample_add)"] eq ix show False by simp
qed

end
