(* ===== verification/Codecs.thy ===== *)
theory Codecs
  imports Solana
begin

text \<open>
  \<open>gateway/internal/policy/codecs.go\<close>: the decoders of the accounts the policy engine keeps on
  chain. A slice expression that runs past the data is a panic in Go; it is the outcome
  \<open>OutOfRange\<close> here. \<open>enc_engine\<close> is the layout the comments and the ABI give, against which
  the decoder is checked.
\<close>

datatype decode_error =
    TooShort nat nat
  | BadDiscriminator u8
  | BadVersion u8
  | OutOfRange nat nat

section \<open>The engine account\<close>

definition MaxRules :: nat where "MaxRules = 16"
definition ruleEntryBytes :: nat where "ruleEntryBytes = 96"

definition policyEngineMinBytes :: nat where
  "policyEngineMinBytes = 1 + 1 + 32 + 34 + 34 + 5 * 8 + 1 + 1 + 4 + 6 + MaxRules * ruleEntryBytes + 8"

record rule_entry =
  Kind :: rule_kind
  Bump :: u8
  EntryVersion :: u8
  Enabled :: bool
  Generation :: u32
  RuleAddress :: key
  EntryConfigHash :: hash

record engine_state =
  AccountDiscriminator :: u8
  LayoutVersion :: u8
  EngineDWallet :: key
  InitAuthoritySlotOf :: slot
  OwnerSlotOf :: slot
  NextAdminNonce :: u64
  NextPrimaryRecoverNonce :: u64
  NextQuorumSessionNonce :: u64
  NextOidcSessionNonce :: u64
  NextPasskeySessionNonce :: u64
  Paused :: u8
  RulesCount :: u8
  RulesGeneration :: u32
  Rules :: "rule_entry list"

text \<open>\<open>data[lo:hi]\<close>, for bounds that are within the data.\<close>

definition go_slice :: "bytes \<Rightarrow> nat \<Rightarrow> nat \<Rightarrow> bytes" where
  "go_slice d lo hi = take (hi - lo) (drop lo d)"

definition decodeRuleEntry :: "bytes \<Rightarrow> rule_entry" where
  "decodeRuleEntry b =
     \<lparr>Kind = b ! 0, Bump = b ! 1, EntryVersion = b ! 2, Enabled = (b ! 3 = 1),
      Generation = LE32 (go_slice b 4 8), RuleAddress = mk_arr (go_slice b 8 40),
      EntryConfigHash = mk_arr (go_slice b 40 72)\<rparr>"

definition DecodePolicyEngine :: "bytes \<Rightarrow> decode_error + engine_state" where
  "DecodePolicyEngine d =
     (if length d < policyEngineMinBytes then Inl (TooShort (length d) policyEngineMinBytes)
      else if d ! 0 \<noteq> 1 then Inl (BadDiscriminator (d ! 0))
      else if d ! 1 \<noteq> 1 then Inl (BadVersion (d ! 1))
      else Inr
       \<lparr>AccountDiscriminator = d ! 0, LayoutVersion = d ! 1,
        EngineDWallet = mk_arr (go_slice d 2 34), InitAuthoritySlotOf = mk_arr (go_slice d 34 68),
        OwnerSlotOf = mk_arr (go_slice d 68 102),
        NextAdminNonce = LE64 (go_slice d 102 110), NextPrimaryRecoverNonce = LE64 (go_slice d 110 118),
        NextQuorumSessionNonce = LE64 (go_slice d 118 126), NextOidcSessionNonce = LE64 (go_slice d 126 134),
        NextPasskeySessionNonce = LE64 (go_slice d 134 142),
        Paused = d ! 142, RulesCount = d ! 143, RulesGeneration = LE32 (go_slice d 144 148),
        Rules = map (\<lambda>i. let off = 154 + i * ruleEntryBytes
                          in decodeRuleEntry (go_slice d off (off + ruleEntryBytes))) [0..<MaxRules]\<rparr>)"

section \<open>The allowlist account\<close>

record allowlist_state =
  ADiscriminator :: u8
  AKind :: rule_kind
  AIndex :: u8
  AEnabled :: bool
  AGeneration :: u32
  AConfigVersion :: u32
  AEngine :: key
  ANextAdminNonce :: u64
  AConfigHash :: hash
  AAppliesTo :: u8
  DestinationsCount :: u8
  Destinations :: "key list"

definition allowlistRuleMinBytes :: nat where "allowlistRuleMinBytes = 1 + 96 + 8 + 1024"

text \<open>The loop over the destinations: \<open>n\<close> entries are left from entry \<open>i\<close> on. Go bounds a go_slice
  expression by the capacity: \<open>buf\<close> is the data with whatever its array holds beyond it.\<close>

fun destinations_loop :: "bytes \<Rightarrow> nat \<Rightarrow> nat \<Rightarrow> decode_error + key list" where
  "destinations_loop buf 0 i = Inr []"
| "destinations_loop buf (Suc n) i =
     (let off = 105 + i * 32 in
      if off + 32 > length buf then Inl (OutOfRange (off + 32) (length buf))
      else bind_res (destinations_loop buf n (Suc i)) (\<lambda>r. Inr (mk_arr (go_slice buf off (off + 32)) # r)))"

definition DecodeAllowlistRule :: "bytes \<Rightarrow> bytes \<Rightarrow> decode_error + allowlist_state" where
  "DecodeAllowlistRule d spare =
     (if length d < allowlistRuleMinBytes then Inl (TooShort (length d) allowlistRuleMinBytes)
      else if d ! 0 \<noteq> 2 then Inl (BadDiscriminator (d ! 0))
      else bind_res (destinations_loop (d @ spare) (unat (d ! 98)) 0) (\<lambda>dests. Inr
       \<lparr>ADiscriminator = d ! 0, AKind = d ! 1, AIndex = d ! 2, AEnabled = (d ! 3 = 1),
        AGeneration = LE32 (go_slice d 5 9), AConfigVersion = LE32 (go_slice d 9 13),
        AEngine = mk_arr (go_slice d 17 49), ANextAdminNonce = LE64 (go_slice d 49 57),
        AConfigHash = mk_arr (go_slice d 57 89), AAppliesTo = d ! 97, DestinationsCount = d ! 98,
        Destinations = dests\<rparr>))"

section \<open>The layout\<close>

definition enc_rule :: "rule_entry \<Rightarrow> bytes" where
  "enc_rule r = [Kind r, Bump r, EntryVersion r, if Enabled r then 1 else 0] @ U32LE (Generation r)
     @ arr_bytes (RuleAddress r) @ arr_bytes (EntryConfigHash r) @ replicate 24 0"

definition enc_engine :: "engine_state \<Rightarrow> bytes" where
  "enc_engine s =
     [AccountDiscriminator s, LayoutVersion s] @ arr_bytes (EngineDWallet s)
     @ arr_bytes (InitAuthoritySlotOf s) @ arr_bytes (OwnerSlotOf s)
     @ U64LE (NextAdminNonce s) @ U64LE (NextPrimaryRecoverNonce s) @ U64LE (NextQuorumSessionNonce s)
     @ U64LE (NextOidcSessionNonce s) @ U64LE (NextPasskeySessionNonce s)
     @ [Paused s, RulesCount s] @ U32LE (RulesGeneration s) @ replicate 6 0
     @ concat (map enc_rule (Rules s)) @ replicate 8 0"

lemma length_enc_rule [simp]: "length (enc_rule r) = 96"
  by (simp add: enc_rule_def)

lemma length_enc_rules [simp]: "length (concat (map enc_rule rs)) = length rs * 96"
  by (induction rs) auto

lemma slice_skip: "length p = n \<Longrightarrow> n \<le> lo \<Longrightarrow> go_slice (p @ r) lo hi = go_slice r (lo - n) (hi - n)"
  by (cases "hi \<le> lo") (auto simp: go_slice_def)

lemma slice_here: "length x = hi \<Longrightarrow> go_slice (x @ r) 0 hi = x"
  by (simp add: go_slice_def)

lemma mk_arr_slice [simp]: "mk_arr (arr_bytes a) = a"
  by (rule mk_arr_arr_bytes)

lemma slice_rule: "i < length rs \<Longrightarrow> go_slice (concat (map enc_rule rs) @ t) (i * 96) (i * 96 + 96) = enc_rule (rs ! i)"
proof (induction rs arbitrary: i)
  case (Cons r rs)
  show ?case
  proof (cases i)
    case (Suc j)
    with Cons show ?thesis by (simp add: slice_skip [of "enc_rule r" 96] algebra_simps)
  qed (simp add: slice_here)
qed simp

lemma decodeRuleEntry_enc: "decodeRuleEntry (enc_rule r) = r"
proof -
  have "go_slice (enc_rule r) 4 8 = U32LE (Generation r)"
    "go_slice (enc_rule r) 8 40 = arr_bytes (RuleAddress r)"
    "go_slice (enc_rule r) 40 72 = arr_bytes (EntryConfigHash r)"
    by (simp_all add: enc_rule_def go_slice_def)
  then show ?thesis
    by (simp add: decodeRuleEntry_def u32.dec_enc) (simp add: enc_rule_def)
qed

lemma engine_rules_at:
  assumes "length (Rules s) = 16" "i < 16"
  shows "go_slice (enc_engine s @ t) (154 + i * 96) (154 + i * 96 + 96) = enc_rule (Rules s ! i)"
proof -
  define h where "h = [AccountDiscriminator s, LayoutVersion s] @ arr_bytes (EngineDWallet s)
     @ arr_bytes (InitAuthoritySlotOf s) @ arr_bytes (OwnerSlotOf s)
     @ U64LE (NextAdminNonce s) @ U64LE (NextPrimaryRecoverNonce s) @ U64LE (NextQuorumSessionNonce s)
     @ U64LE (NextOidcSessionNonce s) @ U64LE (NextPasskeySessionNonce s)
     @ [Paused s, RulesCount s] @ U32LE (RulesGeneration s) @ replicate 6 0"
  have "enc_engine s @ t = h @ concat (map enc_rule (Rules s)) @ replicate 8 0 @ t"
    by (simp add: enc_engine_def h_def)
  moreover have "length h = 154" by (simp add: h_def)
  ultimately have "go_slice (enc_engine s @ t) (154 + i * 96) (154 + i * 96 + 96)
    = go_slice (concat (map enc_rule (Rules s)) @ replicate 8 0 @ t) (i * 96) (i * 96 + 96)"
    using slice_skip [of h 154 "154 + i * 96"] by (simp add: add.commute)
  also have "\<dots> = enc_rule (Rules s ! i)" using assms by (intro slice_rule) simp
  finally show ?thesis .
qed

lemma engine_fields:
  "go_slice (enc_engine s @ t) 2 34 = arr_bytes (EngineDWallet s)"
  "go_slice (enc_engine s @ t) 34 68 = arr_bytes (InitAuthoritySlotOf s)"
  "go_slice (enc_engine s @ t) 68 102 = arr_bytes (OwnerSlotOf s)"
  "go_slice (enc_engine s @ t) 102 110 = U64LE (NextAdminNonce s)"
  "go_slice (enc_engine s @ t) 110 118 = U64LE (NextPrimaryRecoverNonce s)"
  "go_slice (enc_engine s @ t) 118 126 = U64LE (NextQuorumSessionNonce s)"
  "go_slice (enc_engine s @ t) 126 134 = U64LE (NextOidcSessionNonce s)"
  "go_slice (enc_engine s @ t) 134 142 = U64LE (NextPasskeySessionNonce s)"
  "go_slice (enc_engine s @ t) 144 148 = U32LE (RulesGeneration s)"
  by (simp_all add: enc_engine_def go_slice_def)

lemma engine_bytes:
  "(enc_engine s @ t) ! 0 = AccountDiscriminator s" "(enc_engine s @ t) ! 1 = LayoutVersion s"
  "(enc_engine s @ t) ! 142 = Paused s" "(enc_engine s @ t) ! 143 = RulesCount s"
  by (simp_all add: enc_engine_def nth_append)

lemma DecodePolicyEngine_enc:
  assumes "AccountDiscriminator s = 1" "LayoutVersion s = 1" "length (Rules s) = 16"
  shows "DecodePolicyEngine (enc_engine s @ t) = Inr s"
proof -
  have len: "length (enc_engine s @ t) \<ge> policyEngineMinBytes"
    using assms(3) by (simp add: enc_engine_def policyEngineMinBytes_def MaxRules_def ruleEntryBytes_def)
  have "map (\<lambda>i. decodeRuleEntry (go_slice (enc_engine s @ t) (154 + i * 96) (154 + i * 96 + 96))) [0..<16]
      = map (\<lambda>i. Rules s ! i) [0..<16]"
    using engine_rules_at [OF assms(3), of _ t] by (intro map_cong) (simp_all add: decodeRuleEntry_enc)
  also have "\<dots> = Rules s" using assms(3) by (metis map_nth)
  finally have rules: "map (\<lambda>i. decodeRuleEntry (go_slice (enc_engine s @ t) (154 + i * 96) (154 + i * 96 + 96)))
    [0..<16] = Rules s" .
  show ?thesis
    using len assms(1,2) unfolding DecodePolicyEngine_def Let_def MaxRules_def ruleEntryBytes_def rules
      engine_fields engine_bytes
    by (simp add: u64.dec_enc u32.dec_enc)
qed

text \<open>
  Property C38. Reading an engine account gives back exactly what the layout wrote: every
  field, all sixteen rule entries, whatever bytes follow the account.
\<close>

theorem DecodePolicyEngine_roundtrip:
  assumes "AccountDiscriminator s = 1" "LayoutVersion s = 1" "length (Rules s) = 16"
  shows "DecodePolicyEngine (enc_engine s @ t) = Inr s"
  using assms by (rule DecodePolicyEngine_enc)

definition sample_rule :: rule_entry where
  "sample_rule = \<lparr>Kind = 1, Bump = 254, EntryVersion = 1, Enabled = True, Generation = 3,
     RuleAddress = key_of 8, EntryConfigHash = key_of 9\<rparr>"

definition sample_engine :: engine_state where
  "sample_engine = \<lparr>AccountDiscriminator = 1, LayoutVersion = 1, EngineDWallet = key_of 1,
     InitAuthoritySlotOf = zero_arr, OwnerSlotOf = zero_arr, NextAdminNonce = 1, NextPrimaryRecoverNonce = 2,
     NextQuorumSessionNonce = 3, NextOidcSessionNonce = 4, NextPasskeySessionNonce = 5, Paused = 0,
     RulesCount = 1, RulesGeneration = 3, Rules = replicate 16 sample_rule\<rparr>"

theorem DecodePolicyEngine_roundtrip_witness:
  "DecodePolicyEngine (enc_engine sample_engine @ [7, 7]) = Inr sample_engine"
  by (rule DecodePolicyEngine_roundtrip) (simp_all add: sample_engine_def)

section \<open>Destinations out of range\<close>

lemma destinations_loop_ok:
  "105 + (i + n) * 32 \<le> length buf \<Longrightarrow>
   destinations_loop buf n i = Inr (map (\<lambda>j. mk_arr (go_slice buf (105 + j * 32) (105 + j * 32 + 32))) [i..<i + n])"
proof (induction n arbitrary: i)
  case (Suc n)
  have "[i..<i + Suc n] = i # [Suc i..<Suc i + n]" by (simp add: upt_rec)
  with Suc show ?case by (simp add: Let_def algebra_simps)
qed simp

lemma destinations_loop_short:
  "length buf < 105 + (i + n) * 32 \<Longrightarrow> \<exists>a b. destinations_loop buf n i = Inl (OutOfRange a b) \<or> n = 0"
proof (induction n arbitrary: i)
  case (Suc n)
  show ?case
  proof (cases "105 + i * 32 + 32 > length buf")
    case False
    with Suc.prems have "length buf < 105 + (Suc i + n) * 32" "n \<noteq> 0" by (auto simp: algebra_simps)
    with Suc.IH [of "Suc i"] False show ?thesis by (auto simp: Let_def)
  qed (simp add: Let_def)
qed simp

text \<open>
  The allowlist decoder trusts the count byte: on an account of the minimal
  length (whose array holds at most 31 more bytes) it returns the listed destinations while
  the count is at most 32, and panics for every count from 33 to 255.
\<close>

theorem DecodeAllowlistRule_count:
  assumes "length d = allowlistRuleMinBytes" "d ! 0 = 2" "length spare < 32"
  shows "if d ! 98 \<le> 32
    then \<exists>r. DecodeAllowlistRule d spare = Inr r \<and> length (Destinations r) = unat (d ! 98)
    else \<exists>a b. DecodeAllowlistRule d spare = Inl (OutOfRange a b)"
proof (cases "d ! 98 \<le> 32")
  case True
  then have "unat (d ! 98) \<le> 32" by (simp add: word_le_nat_alt)
  with assms True destinations_loop_ok [of 0 "unat (d ! 98)" "d @ spare"] show ?thesis
    by (simp add: DecodeAllowlistRule_def allowlistRuleMinBytes_def)
next
  case False
  then have "33 \<le> unat (d ! 98)" by (simp add: word_le_nat_alt)
  with assms False destinations_loop_short [of "d @ spare" 0 "unat (d ! 98)"] show ?thesis
    by (auto simp: DecodeAllowlistRule_def allowlistRuleMinBytes_def)
qed

theorem DecodeAllowlistRule_count_witness:
  "\<exists>a b. DecodeAllowlistRule (2 # replicate 97 0 @ [33] @ replicate 1030 0) [] = Inl (OutOfRange a b)"
proof -
  let ?d = "2 # replicate 97 0 @ [33] @ replicate 1030 0 :: bytes"
  have "?d ! 98 = 33" by (simp add: nth_append nth_Cons')
  with DecodeAllowlistRule_count [of ?d "[]"] show ?thesis
    by (simp add: allowlistRuleMinBytes_def)
qed

end
