(* ===== verification/PolicyService.thy ===== *)
theory PolicyService
  imports Encoding Challenges Instructions Codecs
begin

text \<open>
  What the HTTP handlers of package \<open>policy\<close> share: the wired \<open>Service\<close> (\<open>routes.go\<close>), the
  validation tags of \<open>httpx/validate.go\<close>, the request fields every handler decodes
  (\<open>memberSlotJSON\<close>, \<open>signedSubmitFields\<close>, \<open>mustHex32\<close>), the error of a handler and the tail
  every \<open>/submit\<close> ends with: sign and send, audit, answer. A request is the decoded JSON body;
  the text of an error message is left out, its status and code are kept.
\<close>

section \<open>Errors and effects\<close>

datatype http_error = HttpError nat string

abbreviation invalid_field :: http_error where "invalid_field \<equiv> HttpError 400 ''invalid_field''"
abbreviation pda_failed :: http_error where "pda_failed \<equiv> HttpError 500 ''pda_derivation_failed''"
abbreviation encode_failed :: http_error where "encode_failed \<equiv> HttpError 500 ''encode_failed''"
abbreviation build_failed :: http_error where "build_failed \<equiv> HttpError 500 ''build_failed''"
abbreviation invalid_signature :: http_error where "invalid_signature \<equiv> HttpError 400 ''invalid_signature''"
abbreviation send_failed :: http_error where "send_failed \<equiv> HttpError 502 ''send_failed''"
abbreviation no_rpc :: http_error where "no_rpc \<equiv> HttpError 503 ''no_rpc''"

record PolicyEngineAuditEvent =
  ev_APIKeyID :: string
  ev_Action :: string
  ev_Engine :: string
  ev_DWallet :: string
  ev_TxSignature :: string
  ev_ExtraJSON :: string

text \<open>What a handler does to the world: hand a transaction to the gas sponsor (whether it landed
  is the sponsor's answer), append to the audit chain, start and collect a presign.\<close>

datatype effect =
    SendTx "instruction list"
  | Audit PolicyEngineAuditEvent
  | FirePresign string string
  | HarvestPresign string

text \<open>\<open>sv_GetAccount\<close> is \<open>GetAccountInfo\<close>: an error, no account, or its data; \<open>sv_Spare\<close> what the
  array behind that slice holds beyond it. \<open>sv_Presign\<close> is the presign cache when the prefetch is
  wired and the request has a tenant. \<open>sv_UnsignedTx\<close> fetches a blockhash and serialises.\<close>

record Service =
  sv_Solana :: solana_env
  sv_sha :: "bytes \<Rightarrow> hash"
  sv_ProgramID :: key
  sv_PublicKeyFromBase58 :: "string \<Rightarrow> string + key"
  sv_GasSponsor :: "key option"
  sv_RPCClient :: bool
  sv_SignAndSend :: "instruction list \<Rightarrow> string + string"
  sv_ConfirmSlot :: "string \<Rightarrow> string + u64"
  sv_GetAccount :: "key \<Rightarrow> string + bytes option"
  sv_Spare :: "key \<Rightarrow> bytes"
  sv_UnsignedTx :: "key \<Rightarrow> instruction list \<Rightarrow> http_error + string"
  sv_AuditAppender :: bool
  sv_ResolveAPIKey :: "(string + string) option"
  sv_OracleRefresher :: "(key list \<Rightarrow> string + instruction list) option"
  sv_Presign :: "(string \<Rightarrow> string) option"
  sv_Rand32 :: "key option"
  sv_NewWallet :: key

text \<open>\<open>if err != nil { WriteError(status, code); return }\<close>\<close>

definition or_fail :: "http_error \<Rightarrow> 'e + 'a \<Rightarrow> http_error + 'a" where
  "or_fail h r = (case r of Inl _ \<Rightarrow> Inl h | Inr x \<Rightarrow> Inr x)"

definition ok_or :: "http_error \<Rightarrow> bool \<Rightarrow> http_error + unit" where
  "ok_or h b = (if b then Inr () else Inl h)"

lemma or_fail_simps [simp]: "or_fail h (Inl e) = Inl h" "or_fail h (Inr x) = Inr x"
  by (simp_all add: or_fail_def)

lemma or_fail_Inr [simp]: "or_fail h r = Inr x \<longleftrightarrow> r = Inr x"
  by (cases r) simp_all

lemma ok_or_Inr [simp]: "ok_or h b = Inr u \<longleftrightarrow> b"
  by (simp add: ok_or_def)

section \<open>Validation tags\<close>

definition validateSolanaPubkey :: "Service \<Rightarrow> string \<Rightarrow> bool" where
  "validateSolanaPubkey S s \<longleftrightarrow> s \<noteq> [] \<and> (case sv_PublicKeyFromBase58 S s of Inr _ \<Rightarrow> True | Inl _ \<Rightarrow> False)"

definition validateBase64 :: "string \<Rightarrow> bool" where
  "validateBase64 s \<longleftrightarrow> s \<noteq> [] \<and> b64_decode s \<noteq> None"

definition validateHexLen :: "nat \<Rightarrow> string \<Rightarrow> bool" where
  "validateHexLen n s \<longleftrightarrow> s \<noteq> [] \<and> (case hex_decode s of Some b \<Rightarrow> length b = n | None \<Rightarrow> False)"

abbreviation hex_len_32 :: "string \<Rightarrow> bool" where "hex_len_32 \<equiv> validateHexLen 32"

definition omitempty :: "(string \<Rightarrow> bool) \<Rightarrow> string \<Rightarrow> bool" where
  "omitempty p s \<longleftrightarrow> s = [] \<or> p s"

section \<open>Request fields\<close>

record memberSlotJSON =
  Scheme :: u8
  IdentifierHex :: string

definition slot_valid :: "memberSlotJSON \<Rightarrow> bool" where
  "slot_valid m \<longleftrightarrow> Scheme m \<le> 4 \<and> IdentifierHex m \<noteq> []"

definition expected_len :: "u8 \<Rightarrow> nat option" where
  "expected_len s = (if s = 0 then Some 32 else if s = 1 then Some 20 else if s = 2 then Some 33
     else if s = 3 then Some 33 else if s = 4 then Some 32 else None)"

definition decode_slot :: "memberSlotJSON \<Rightarrow> string + slot" where
  "decode_slot m =
     (case hex_decode (IdentifierHex m) of
        None \<Rightarrow> Inl ''identifier_hex must be valid hex''
      | Some idBytes \<Rightarrow>
          (case expected_len (Scheme m) of
             None \<Rightarrow> Inl ''identifier_hex length does not match scheme''
           | Some exp \<Rightarrow>
               if length idBytes \<noteq> exp then Inl ''identifier_hex length does not match scheme''
               else Inr (mk_arr (Scheme m # idBytes))))"

definition mustHex32 :: "string \<Rightarrow> string + 32 arr" where
  "mustHex32 s =
     (case hex_decode s of
        Some b \<Rightarrow> if length b \<noteq> 32 then Inl ''expected 32-byte hex'' else Inr (mk_arr b)
      | None \<Rightarrow> Inl ''expected 32-byte hex'')"

definition optionalHex32 :: "string \<Rightarrow> string + 32 arr" where
  "optionalHex32 s = (if s = [] then Inr zero_arr else mustHex32 s)"

definition decodeMemberSlotHex :: "string \<Rightarrow> string + slot" where
  "decodeMemberSlotHex s =
     (case hex_decode s of
        None \<Rightarrow> Inl ''hex''
      | Some b \<Rightarrow> if length b \<noteq> 34 then Inl ''owner_slot_hex length'' else Inr (mk_arr b))"

text \<open>\<open>x, _ := f(s)\<close>: an error leaves the zero value.\<close>

definition or_zero :: "'e + 'n::len arr \<Rightarrow> 'n arr" where
  "or_zero r = (case r of Inl _ \<Rightarrow> zero_arr | Inr x \<Rightarrow> x)"

abbreviation hex32z :: "string \<Rightarrow> 32 arr" where "hex32z s \<equiv> or_zero (mustHex32 s)"

abbreviation pubkey_of :: "Service \<Rightarrow> string \<Rightarrow> key" where
  "pubkey_of S s \<equiv> or_zero (sv_PublicKeyFromBase58 S s)"

record signedSubmitFields =
  SignatureBase64 :: string
  WebauthnAuthDataBase64 :: string
  WebauthnCDJBase64 :: string

definition signed_valid :: "signedSubmitFields \<Rightarrow> bool" where
  "signed_valid f \<longleftrightarrow> validateBase64 (SignatureBase64 f)
     \<and> omitempty validateBase64 (WebauthnAuthDataBase64 f) \<and> omitempty validateBase64 (WebauthnCDJBase64 f)"

text \<open>An optional base64 field: absent is the empty byte string (\<open>nil\<close>).\<close>

definition b64_opt :: "string \<Rightarrow> bytes option" where
  "b64_opt s = (if s = [] then Some [] else b64_decode s)"

definition decode_signed :: "signedSubmitFields \<Rightarrow> string + bytes \<times> bytes \<times> bytes" where
  "decode_signed f =
     (case b64_decode (SignatureBase64 f) of
        None \<Rightarrow> Inl ''signature_base64''
      | Some sig \<Rightarrow>
          (case b64_opt (WebauthnAuthDataBase64 f) of
             None \<Rightarrow> Inl ''webauthn_auth_data_base64''
           | Some authData \<Rightarrow>
               (case b64_opt (WebauthnCDJBase64 f) of
                  None \<Rightarrow> Inl ''webauthn_cdj_base64''
                | Some cdj \<Rightarrow> Inr (sig, authData, cdj))))"

definition ruleIndexFromPath :: "string \<Rightarrow> http_error + u8" where
  "ruleIndexFromPath s =
     (case Atoi s of
        None \<Rightarrow> Inl (HttpError 400 ''invalid_rule_index'')
      | Some i \<Rightarrow> if i < 0 \<or> int MaxRules \<le> i then Inl (HttpError 400 ''invalid_rule_index'')
                  else Inr (word_of_int i))"

section \<open>Wiring and the tail of a submit\<close>

definition requireSubmitWiring :: "Service \<Rightarrow> http_error + key" where
  "requireSubmitWiring S =
     (case sv_GasSponsor S of
        None \<Rightarrow> Inl (HttpError 503 ''no_gas_sponsor'')
      | Some sponsor \<Rightarrow> if \<not> sv_RPCClient S then Inl no_rpc else Inr sponsor)"

definition buildCredentialPrecompile ::
    "Service \<Rightarrow> slot \<Rightarrow> hash \<Rightarrow> bytes \<Rightarrow> bytes \<Rightarrow> bytes \<Rightarrow> auth_error + instruction" where
  "buildCredentialPrecompile S s challenge signature authData cdj =
     BuildCredentialPrecompile (sv_Solana S) (sv_sha S) s challenge signature authData cdj"

text \<open>The flat JSON objects the handlers put into the audit event.\<close>

fun joined :: "string \<Rightarrow> string list \<Rightarrow> string" where
  "joined sep [] = []"
| "joined sep [x] = x"
| "joined sep (x # y # ys) = x @ sep @ joined sep (y # ys)"

definition json_str :: "string \<Rightarrow> string" where "json_str s = CHR 0x22 # s @ [CHR 0x22]"

definition json_obj :: "(string \<times> string) list \<Rightarrow> string" where
  "json_obj fs = ''{'' @ joined '','' (map (\<lambda>(k, v). json_str k @ '':'' @ v) fs) @ ''}''"

definition num :: "'a::len word \<Rightarrow> string" where "num w = dec (unat w)"

record tx_response =
  TxSignature :: string
  EngineAddress :: string
  ApprovalSlot :: u64
  PresignSessionIdHex :: string

definition appendAuditSubmit ::
    "Service \<Rightarrow> string \<Rightarrow> string \<Rightarrow> string \<Rightarrow> string \<Rightarrow> string \<Rightarrow> effect list" where
  "appendAuditSubmit S action engine dwallet txSig extraJSON =
     (if \<not> sv_AuditAppender S then []
      else case sv_ResolveAPIKey S of
        Some (Inr keyID) \<Rightarrow>
          if keyID = [] then []
          else [Audit \<lparr>ev_APIKeyID = keyID, ev_Action = action, ev_Engine = engine, ev_DWallet = dwallet,
                  ev_TxSignature = txSig, ev_ExtraJSON = extraJSON\<rparr>]
      | _ \<Rightarrow> [])"

text \<open>What a handler has computed when it comes to sending.\<close>

record submit_plan =
  pl_ixs :: "instruction list"
  pl_action :: string
  pl_engine :: key
  pl_dwallet :: key
  pl_extra :: string

type_synonym 'a outcome = "effect list \<times> (http_error + 'a)"

definition sendSessionAdminTx :: "Service \<Rightarrow> submit_plan \<Rightarrow> tx_response outcome" where
  "sendSessionAdminTx S p =
     (case sv_SignAndSend S (pl_ixs p) of
        Inl _ \<Rightarrow> ([SendTx (pl_ixs p)], Inl send_failed)
      | Inr sigOut \<Rightarrow>
          (SendTx (pl_ixs p)
             # appendAuditSubmit S (pl_action p) (Base58 (sv_Solana S) (pl_engine p))
                 (Base58 (sv_Solana S) (pl_dwallet p)) sigOut (pl_extra p),
           Inr \<lparr>TxSignature = sigOut, EngineAddress = Base58 (sv_Solana S) (pl_engine p),
                ApprovalSlot = 0, PresignSessionIdHex = []\<rparr>))"

text \<open>A submit handler: its computation, then the tail.\<close>

definition run_submit :: "Service \<Rightarrow> http_error + submit_plan \<Rightarrow> tx_response outcome" where
  "run_submit S r = (case r of Inl e \<Rightarrow> ([], Inl e) | Inr p \<Rightarrow> sendSessionAdminTx S p)"

definition confirmApprovalSlot :: "Service \<Rightarrow> string \<Rightarrow> u64" where
  "confirmApprovalSlot S sig =
     (if sv_GasSponsor S = None then 0
      else case sv_ConfirmSlot S sig of Inl _ \<Rightarrow> 0 | Inr s \<Rightarrow> s)"

definition firePresignPrefetch :: "Service \<Rightarrow> string \<Rightarrow> string \<Rightarrow> effect list" where
  "firePresignPrefetch S dwalletAddress challengeHex =
     (if sv_Presign S = None \<or> dwalletAddress = [] \<or> challengeHex = [] then []
      else [FirePresign dwalletAddress challengeHex])"

definition harvestPresign :: "Service \<Rightarrow> string \<Rightarrow> effect list \<times> string" where
  "harvestPresign S challengeHex =
     (case sv_Presign S of
        None \<Rightarrow> ([], [])
      | Some get \<Rightarrow> if challengeHex = [] then ([], []) else ([HarvestPresign challengeHex], get challengeHex))"

section \<open>Facts\<close>

lemma hex32z_lower [simp]: "hex32z (hex_lower (arr_bytes (a :: 32 arr))) = a"
  by (simp add: mustHex32_def or_zero_def)

lemma mustHex32_lower [simp]: "mustHex32 (hex_lower (arr_bytes (a :: 32 arr))) = Inr a"
  by (simp add: mustHex32_def)

lemma hex_len_32_mustHex32: "hex_len_32 s \<longleftrightarrow> (\<exists>a. mustHex32 s = Inr a)"
  by (cases s) (auto simp: validateHexLen_def mustHex32_def split: option.splits)

lemma decode_slot_ident:
  assumes "decode_slot m = Inr s"
  obtains b n where "hex_decode (IdentifierHex m) = Some b" "expected_len (Scheme m) = Some n"
    "length b = n" "s = mk_arr (Scheme m # b)"
  using assms by (auto simp: decode_slot_def split: option.splits if_splits)

lemma slot_scheme_head: "length b \<le> 33 \<Longrightarrow> arr_bytes (mk_arr (c # b) :: slot) ! 0 = c"
  by (simp add: arr_bytes_slot)

definition sent :: "effect list \<Rightarrow> instruction list list" where
  "sent es = concat (map (\<lambda>e. case e of SendTx ixs \<Rightarrow> [ixs] | _ \<Rightarrow> []) es)"

definition audited :: "effect list \<Rightarrow> PolicyEngineAuditEvent list" where
  "audited es = concat (map (\<lambda>e. case e of Audit a \<Rightarrow> [a] | _ \<Rightarrow> []) es)"

lemma sent_simps [simp]:
  "sent [] = []" "sent (SendTx i # es) = i # sent es" "sent (Audit a # es) = sent es"
  "sent (FirePresign d c # es) = sent es" "sent (HarvestPresign c # es) = sent es"
  "sent (es @ fs) = sent es @ sent fs"
  by (simp_all add: sent_def)

lemma audited_simps [simp]:
  "audited [] = []" "audited (SendTx i # es) = audited es" "audited (Audit a # es) = a # audited es"
  "audited (FirePresign d c # es) = audited es" "audited (HarvestPresign c # es) = audited es"
  "audited (es @ fs) = audited es @ audited fs"
  by (simp_all add: audited_def)

lemma sent_appendAudit [simp]: "sent (appendAuditSubmit S a e d t x) = []"
  by (simp add: appendAuditSubmit_def split: option.split sum.split)

lemma run_submit_Inl [simp]: "run_submit S (Inl e) = ([], Inl e)"
  by (simp add: run_submit_def)

lemma run_submit_sent:
  "sent (fst (run_submit S r)) = (case r of Inl _ \<Rightarrow> [] | Inr p \<Rightarrow> [pl_ixs p])"
  by (simp add: run_submit_def sendSessionAdminTx_def split: sum.split)

lemma run_submit_ok:
  "snd (run_submit S r) = Inr t \<longleftrightarrow>
   (\<exists>p. r = Inr p \<and> sv_SignAndSend S (pl_ixs p) = Inr (TxSignature t)
     \<and> t = \<lparr>TxSignature = TxSignature t, EngineAddress = Base58 (sv_Solana S) (pl_engine p),
            ApprovalSlot = 0, PresignSessionIdHex = []\<rparr>)"
  by (cases t) (auto simp: run_submit_def sendSessionAdminTx_def split: sum.split)

end
