(* ===== verification/Json.thy ===== *)
theory Json
  imports PolicyService "HOL-Library.List_Lexorder" "HOL-Library.AList" "HOL-Library.Multiset"
begin

text \<open>
  JSON as Go's \<open>encoding/json\<close> writes it: compact, object keys in byte order, HTML characters
  escaped, bytes that are not UTF-8 replaced. Reading such text gives the value back, so the text
  determines the value; the audit chain and the webhook signatures hash such text.
\<close>

section \<open>UTF-8\<close>

definition byte_in :: "nat \<Rightarrow> nat \<Rightarrow> char \<Rightarrow> bool" where
  "byte_in lo hi c \<longleftrightarrow> lo \<le> of_char c \<and> of_char c \<le> hi"

text \<open>The length of the rune a text starts with (\<open>utf8.DecodeRuneInString\<close>); 0 when the bytes are not
  UTF-8: the first byte gives the length and the range of the second.\<close>

definition lead_len :: "nat \<Rightarrow> nat" where
  "lead_len n =
     (if n < 0x80 then 1 else if n < 0xC2 then 0 else if n < 0xE0 then 2 else if n < 0xF0 then 3
      else if n < 0xF5 then 4 else 0)"

definition conts_ok :: "nat \<Rightarrow> string \<Rightarrow> bool" where
  "conts_ok n bs =
     (case bs of [] \<Rightarrow> True
      | b # r \<Rightarrow>
          byte_in (if n = 0xE0 then 0xA0 else if n = 0xF0 then 0x90 else 0x80)
            (if n = 0xED then 0x9F else if n = 0xF4 then 0x8F else 0xBF) b
          \<and> list_all (byte_in 0x80 0xBF) r)"

definition rune_len :: "string \<Rightarrow> nat" where
  "rune_len s =
     (case s of [] \<Rightarrow> 0
      | a # r \<Rightarrow>
          let k = lead_len (of_char a) in
          if length r < k - 1 \<or> \<not> conts_ok (of_char a) (take (k - 1) r) then 0 else k)"

lemma rune_len_Nil [simp]: "rune_len [] = 0"
  by (simp add: rune_len_def)

lemma rune_len_le: "rune_len s \<le> length s"
  by (cases s) (auto simp: rune_len_def Let_def)

lemma rune_len_append: "0 < rune_len s \<Longrightarrow> rune_len (take (rune_len s) s @ x) = rune_len s"
proof (cases s)
  case (Cons a r)
  assume "0 < rune_len s"
  then have k: "rune_len s = lead_len (of_char a)" "0 < lead_len (of_char a)" "lead_len (of_char a) - 1 \<le> length r"
    "conts_ok (of_char a) (take (lead_len (of_char a) - 1) r)"
    by (auto simp: rune_len_def Cons Let_def split: if_splits)
  then obtain j where "lead_len (of_char a) = Suc j" using not0_implies_Suc by blast
  with k show ?thesis by (simp add: Cons rune_len_def Let_def min_absorb2)
qed simp

definition replacement :: string where
  "replacement = [CHR 0xEF, CHR 0xBF, CHR 0xBD]"

fun fix_utf8 :: "string \<Rightarrow> string" where
  "fix_utf8 [] = []"
| "fix_utf8 (c # s) =
     (let k = rune_len (c # s) in
      if k = 0 then replacement @ fix_utf8 s else take k (c # s) @ fix_utf8 (drop (k - 1) s))"

fun valid_utf8 :: "string \<Rightarrow> bool" where
  "valid_utf8 [] = True"
| "valid_utf8 (c # s) = (let k = rune_len (c # s) in k \<noteq> 0 \<and> valid_utf8 (drop (k - 1) s))"

lemma fix_utf8_valid [simp]: "valid_utf8 s \<Longrightarrow> fix_utf8 s = s"
proof (induction s rule: fix_utf8.induct)
  case (2 c s)
  then show ?case by (cases "rune_len (c # s)") (simp_all add: Let_def)
qed simp

section \<open>Values and their text\<close>

text \<open>A number is the text of its literal (\<open>json.Number\<close>).\<close>

datatype json =
    JNull
  | JBool bool
  | JNum string
  | JStr string
  | JArr "json list"
  | JObj "(string \<times> json) list"

definition short_escapes :: "(char \<times> char) list" where
  "short_escapes = [(CHR 0x22, CHR 0x22), (CHR 0x5C, CHR 0x5C), (CHR ''b'', CHR 0x08), (CHR ''f'', CHR 0x0C),
     (CHR ''n'', CHR 0x0A), (CHR ''r'', CHR 0x0D), (CHR ''t'', CHR 0x09)]"

definition hex4 :: "nat \<Rightarrow> string" where
  "hex4 n = [hex_digit (n div 4096 mod 16), hex_digit (n div 256 mod 16), hex_digit (n div 16 mod 16), hex_digit (n mod 16)]"

definition u_escape :: "nat \<Rightarrow> string" where
  "u_escape n = CHR 0x5C # CHR ''u'' # hex4 n"

definition ascii_token :: "char \<Rightarrow> string" where
  "ascii_token c =
     (case find (\<lambda>(e, x). x = c) short_escapes of
        Some (e, x) \<Rightarrow> [CHR 0x5C, e]
      | None \<Rightarrow>
          if (of_char c :: nat) < 0x20 \<or> c \<in> {CHR ''<'', CHR ''>'', CHR ''&''} then u_escape (of_char c) else [c])"

definition json_token :: "string \<Rightarrow> string" where
  "json_token u =
     (case u of [c] \<Rightarrow> ascii_token c
      | _ \<Rightarrow> if u = [CHR 0xE2, CHR 0x80, CHR 0xA8] then u_escape 0x2028
             else if u = [CHR 0xE2, CHR 0x80, CHR 0xA9] then u_escape 0x2029 else u)"

fun json_chars :: "string \<Rightarrow> string" where
  "json_chars [] = []"
| "json_chars (c # s) =
     (let k = rune_len (c # s) in
      if k = 0 then u_escape 0xFFFD @ json_chars s
      else json_token (take k (c # s)) @ json_chars (drop (k - 1) s))"

definition json_string :: "string \<Rightarrow> string" where
  "json_string s = CHR 0x22 # json_chars s @ [CHR 0x22]"

fun render :: "json \<Rightarrow> string" where
  "render JNull = ''null''"
| "render (JBool b) = (if b then ''true'' else ''false'')"
| "render (JNum t) = t"
| "render (JStr s) = json_string s"
| "render (JArr vs) = ''['' @ joined '','' (map render vs) @ '']''"
| "render (JObj kvs) = ''{'' @ joined '','' (map (\<lambda>(k, v). json_string k @ '':'' @ render v) kvs) @ ''}''"

text \<open>A Go map has one value per key; it is written in the byte order of its keys.\<close>

definition as_map :: "(string \<times> 'v) list \<Rightarrow> (string \<times> 'v) list" where
  "as_map kvs = sort_key (\<lambda>(k, v). map (of_char :: char \<Rightarrow> nat) k) (AList.clearjunk (rev kvs))"

fun canon :: "json \<Rightarrow> json" where
  "canon (JArr vs) = JArr (map canon vs)"
| "canon (JObj kvs) = JObj (as_map (map (\<lambda>(k, v). (k, canon v)) kvs))"
| "canon v = v"

definition marshal :: "json \<Rightarrow> string" where
  "marshal v = render (canon v)"

section \<open>Reading it back\<close>

definition utf8_of :: "nat \<Rightarrow> string option" where
  "utf8_of n =
     (if n < 0x80 then Some [char_of n]
      else if n < 0x800 then Some [char_of (0xC0 + n div 64), char_of (0x80 + n mod 64)]
      else if 0xD800 \<le> n \<and> n \<le> 0xDFFF then None
      else Some [char_of (0xE0 + n div 4096), char_of (0x80 + n div 64 mod 64), char_of (0x80 + n mod 64)])"

definition hex4_val :: "char \<Rightarrow> char \<Rightarrow> char \<Rightarrow> char \<Rightarrow> nat option" where
  "hex4_val a b c d =
     (case (hex_val a, hex_val b, hex_val c, hex_val d) of
        (Some w, Some x, Some y, Some z) \<Rightarrow> Some (((w * 16 + x) * 16 + y) * 16 + z)
      | _ \<Rightarrow> None)"

text \<open>One rune or escape; surrogate escapes, which are never written, are not read.\<close>

fun read_escape :: "string \<Rightarrow> (string \<times> string) option" where
  "read_escape [] = None"
| "read_escape (e # r) =
     (if e = CHR ''u'' then
        (case r of a # b # c # d # t \<Rightarrow>
           (case hex4_val a b c d of None \<Rightarrow> None
            | Some n \<Rightarrow> (case utf8_of n of None \<Rightarrow> None | Some u \<Rightarrow> Some (u, t)))
         | _ \<Rightarrow> None)
      else case map_of short_escapes e of None \<Rightarrow> None | Some x \<Rightarrow> Some ([x], r))"

definition read_token :: "string \<Rightarrow> (string \<times> string) option" where
  "read_token s =
     (case s of [] \<Rightarrow> None
      | c # r \<Rightarrow>
          if c = CHR 0x5C then read_escape r
          else if (of_char c :: nat) < 0x20 then None
          else if rune_len s = 0 then Some (replacement, r)
          else Some (take (rune_len s) s, drop (rune_len s) s))"

lemma read_token_shorter: "read_token s = Some (u, t) \<Longrightarrow> length t < length s"
  by (cases s; cases "tl s")
    (auto simp: read_token_def split: if_splits option.splits list.splits)

function read_string :: "string \<Rightarrow> (string \<times> string) option" where
  "read_string s =
     (case s of [] \<Rightarrow> None
      | c # r \<Rightarrow>
          if c = CHR 0x22 then Some ([], r)
          else case read_token s of None \<Rightarrow> None
            | Some (u, t) \<Rightarrow> map_option (\<lambda>(v, w). (u @ v, w)) (read_string t))"
  by auto
termination by (relation "measure length") (auto dest: read_token_shorter)

declare read_string.simps [simp del]

definition is_num_char :: "char \<Rightarrow> bool" where
  "is_num_char c \<longleftrightarrow> is_digit c \<or> c \<in> {CHR ''-'', CHR ''+'', CHR ''.'', CHR ''e'', CHR ''E''}"

text \<open>Nesting is bounded by the length of the text.\<close>

fun read_value :: "nat \<Rightarrow> string \<Rightarrow> (json \<times> string) option"
  and read_items :: "nat \<Rightarrow> string \<Rightarrow> (json list \<times> string) option"
  and read_fields :: "nat \<Rightarrow> string \<Rightarrow> ((string \<times> json) list \<times> string) option" where
  "read_value 0 s = None"
| "read_value (Suc n) s =
     (case s of [] \<Rightarrow> None
      | c # r \<Rightarrow>
          if c = CHR 0x22 then map_option (\<lambda>(x, t). (JStr x, t)) (read_string r)
          else if c = CHR ''['' then
            (if take 1 r = '']'' then Some (JArr [], tl r) else map_option (\<lambda>(xs, t). (JArr xs, t)) (read_items n r))
          else if c = CHR ''{'' then
            (if take 1 r = ''}'' then Some (JObj [], tl r) else map_option (\<lambda>(xs, t). (JObj xs, t)) (read_fields n r))
          else if take 4 s = ''null'' then Some (JNull, drop 4 s)
          else if take 4 s = ''true'' then Some (JBool True, drop 4 s)
          else if take 5 s = ''false'' then Some (JBool False, drop 5 s)
          else if is_num_char c then Some (JNum (takeWhile is_num_char s), dropWhile is_num_char s)
          else None)"
| "read_items 0 s = None"
| "read_items (Suc n) s =
     (case read_value n s of None \<Rightarrow> None
      | Some (v, t) \<Rightarrow>
          if take 1 t = '','' then map_option (\<lambda>(vs, w). (v # vs, w)) (read_items n (tl t))
          else if take 1 t = '']'' then Some ([v], tl t) else None)"
| "read_fields 0 s = None"
| "read_fields (Suc n) s =
     (if take 1 s \<noteq> [CHR 0x22] then None
      else (case read_string (tl s) of None \<Rightarrow> None
        | Some (k, t) \<Rightarrow>
            if take 1 t \<noteq> '':'' then None
            else (case read_value n (tl t) of None \<Rightarrow> None
              | Some (v, u) \<Rightarrow>
                  if take 1 u = '','' then map_option (\<lambda>(vs, w). ((k, v) # vs, w)) (read_fields n (tl u))
                  else if take 1 u = ''}'' then Some ([(k, v)], tl u) else None)))"

definition unmarshal :: "string \<Rightarrow> json option" where
  "unmarshal s = (case read_value (length s + 1) s of Some (v, []) \<Rightarrow> Some v | _ \<Rightarrow> None)"

section \<open>Reading inverts writing\<close>

lemma hex4_read:
  assumes "n < 65536" "hex4 n = [a, b, c, d]"
  shows "hex4_val a b c d = Some n"
proof -
  have "n div 256 = n div 16 div 16" "n div 4096 = n div 16 div 16 div 16" by (simp_all add: div_mult2_eq [symmetric])
  moreover have "n div 4096 < 16" using assms(1) by simp
  ultimately have "((n div 4096 mod 16 * 16 + n div 256 mod 16) * 16 + n div 16 mod 16) * 16 + n mod 16 = n"
    using div_mult_mod_eq [of n 16] div_mult_mod_eq [of "n div 16" 16] div_mult_mod_eq [of "n div 16 div 16" 16] by simp
  then show ?thesis using assms by (auto simp: hex4_def hex4_val_def hex_val_digit)
qed

lemma read_u_escape:
  assumes "n < 65536" "utf8_of n = Some u"
  shows "read_token (u_escape n @ x) = Some (u, x)"
proof -
  obtain a b c d where h: "hex4 n = [a, b, c, d]" by (simp add: hex4_def)
  show ?thesis using hex4_read [OF assms(1) h] assms(2) by (simp add: u_escape_def read_token_def h)
qed

lemma read_ascii:
  assumes "(of_char c :: nat) < 0x80"
  shows "read_token (ascii_token c @ x) = Some ([c], x)"
proof (cases "find (\<lambda>(e, y). y = c) short_escapes")
  case (Some p)
  then have "p \<in> set short_escapes" "snd p = c" by (auto simp: find_Some_iff in_set_conv_nth)
  then show ?thesis using Some by (auto simp: short_escapes_def ascii_token_def read_token_def)
next
  case None
  then have s: "c \<noteq> CHR 0x5C" by (auto simp: find_None_iff short_escapes_def)
  have "utf8_of (of_char c) = Some [c]" using assms by (simp add: utf8_of_def)
  then have "read_token (u_escape (of_char c) @ x) = Some ([c], x)" using assms by (intro read_u_escape) auto
  moreover have "rune_len (c # x) = 1" using assms by (simp add: rune_len_def lead_len_def conts_ok_def)
  then have "\<not> (of_char c :: nat) < 0x20 \<Longrightarrow> read_token (c # x) = Some ([c], x)" using s by (simp add: read_token_def)
  ultimately show ?thesis using None by (simp add: ascii_token_def)
qed

lemma rune_len_1: "rune_len (c # s) = Suc 0 \<longleftrightarrow> (of_char c :: nat) < 0x80"
  by (auto simp: rune_len_def lead_len_def conts_ok_def Let_def)

lemma read_raw:
  "rune_len (c # w @ x) = Suc (length w) \<Longrightarrow> c \<noteq> CHR 0x5C \<Longrightarrow> \<not> (of_char c :: nat) < 0x20
     \<Longrightarrow> read_token (c # w @ x) = Some (c # w, x)"
  by (simp add: read_token_def)

lemma json_token_long:
  "length u \<noteq> 1 \<Longrightarrow> json_token u =
     (if u = [CHR 0xE2, CHR 0x80, CHR 0xA8] then u_escape 0x2028
      else if u = [CHR 0xE2, CHR 0x80, CHR 0xA9] then u_escape 0x2029 else u)"
  by (cases u; cases "tl u") (simp_all add: json_token_def)

lemma char_of_values:
  "char_of (226 :: nat) = CHR 0xE2" "char_of (128 :: nat) = CHR 0x80" "char_of (168 :: nat) = CHR 0xA8"
  "char_of (169 :: nat) = CHR 0xA9" "char_of (239 :: nat) = CHR 0xEF" "char_of (191 :: nat) = CHR 0xBF"
  "char_of (189 :: nat) = CHR 0xBD"
  by code_simp+

lemma read_separators:
  "read_token (u_escape 0x2028 @ x) = Some ([CHR 0xE2, CHR 0x80, CHR 0xA8], x)"
  "read_token (u_escape 0x2029 @ x) = Some ([CHR 0xE2, CHR 0x80, CHR 0xA9], x)"
  "read_token (u_escape 0xFFFD @ x) = Some (replacement, x)"
  by (rule read_u_escape; simp add: utf8_of_def replacement_def char_of_values)+

definition opens :: "string \<Rightarrow> bool" where
  "opens t \<longleftrightarrow> t \<noteq> [] \<and> hd t \<noteq> CHR 0x22"

lemma opens_escape [simp]: "opens (u_escape n)"
  by (simp add: opens_def u_escape_def)

lemma opens_ascii: "opens (ascii_token c)"
proof (cases "find (\<lambda>(e, x). x = c) short_escapes")
  case None
  then have "c \<noteq> CHR 0x22" by (auto simp: find_None_iff short_escapes_def)
  then show ?thesis using None by (auto simp: ascii_token_def) (simp add: opens_def)
qed (auto simp: ascii_token_def opens_def)

lemma read_json_token:
  assumes "rune_len s = k" "0 < k"
  shows "read_token (json_token (take k s) @ x) = Some (take k s, x)" "opens (json_token (take k s))"
proof -
  obtain c r where s: "s = c # r" using assms by (cases s) auto
  have "read_token (json_token (take k s) @ x) = Some (take k s, x) \<and> opens (json_token (take k s))"
  proof (cases "k = 1")
    case True
    then show ?thesis using assms s rune_len_1 [of c r] read_ascii [of c x] opens_ascii [of c]
      by (simp add: json_token_def)
  next
    case False
    let ?u = "take k s"
    have l: "length ?u = k" using assms rune_len_le [of s] by simp
    have "\<not> (of_char c :: nat) < 0x80" using assms False s rune_len_1 [of c r] by auto
    then have c: "c \<noteq> CHR 0x5C" "c \<noteq> CHR 0x22" "\<not> (of_char c :: nat) < 0x20" by auto
    obtain j where "k = Suc j" using assms(2) not0_implies_Suc by blast
    then have u: "?u = c # take j r" by (simp add: s)
    have "rune_len (c # take j r @ x) = k" using rune_len_append [of s x] assms u by simp
    moreover have "k = Suc (length (take j r))" using l u by simp
    ultimately have "read_token (?u @ x) = Some (?u, x)" using read_raw c u by simp
    moreover have "opens ?u" using u c by (simp add: opens_def)
    ultimately show ?thesis using json_token_long [of ?u] l False read_separators(1,2) by simp
  qed
  then show "read_token (json_token (take k s) @ x) = Some (take k s, x)" "opens (json_token (take k s))" by simp_all
qed

lemma read_string_token:
  "opens t \<Longrightarrow> read_token (t @ x) = Some (u, x)
     \<Longrightarrow> read_string (t @ x) = map_option (\<lambda>(v, w). (u @ v, w)) (read_string x)"
  by (cases t) (simp_all add: opens_def read_string.simps [of "_ # _"])

lemma read_string_chars: "read_string (json_chars s @ CHR 0x22 # r) = Some (fix_utf8 s, r)"
proof (induction s rule: json_chars.induct)
  case 1
  then show ?case by (simp add: read_string.simps)
next
  case (2 c s)
  show ?case
  proof (cases "rune_len (c # s) = 0")
    case True
    then show ?thesis using 2(1) [OF refl] read_string_token [OF opens_escape read_separators(3)]
      by (simp add: Let_def)
  next
    case False
    let ?k = "rune_len (c # s)"
    have "read_string (json_token (take ?k (c # s)) @ y) = map_option (\<lambda>(v, w). (take ?k (c # s) @ v, w)) (read_string y)" for y
      using read_json_token(1) [of "c # s" ?k y] read_json_token(2) [of "c # s" ?k] False by (intro read_string_token) auto
    then show ?thesis using 2(2) [OF refl False] False by (simp add: Let_def)
  qed
qed

text \<open>What reading gives back: the same value with its strings repaired.\<close>

fun repair :: "json \<Rightarrow> json" where
  "repair (JStr s) = JStr (fix_utf8 s)"
| "repair (JArr vs) = JArr (map repair vs)"
| "repair (JObj kvs) = JObj (map (\<lambda>(k, v). (fix_utf8 k, repair v)) kvs)"
| "repair v = v"

definition num_ok :: "string \<Rightarrow> bool" where
  "num_ok t \<longleftrightarrow> t \<noteq> [] \<and> list_all is_num_char t"

fun json_ok :: "json \<Rightarrow> bool" where
  "json_ok (JNum t) = num_ok t"
| "json_ok (JArr vs) = list_all json_ok vs"
| "json_ok (JObj kvs) = list_all (\<lambda>(k, v). json_ok v) kvs"
| "json_ok _ = True"

fun json_depth :: "json \<Rightarrow> nat" where
  "json_depth (JArr vs) = Suc (sum_list (map (\<lambda>v. Suc (json_depth v)) vs))"
| "json_depth (JObj kvs) = Suc (sum_list (map (\<lambda>(k, v). Suc (json_depth v)) kvs))"
| "json_depth _ = 1"

definition delimited :: "string \<Rightarrow> bool" where
  "delimited r \<longleftrightarrow> r = [] \<or> \<not> is_num_char (hd r)"

lemma delimiters [simp]:
  "delimited []" "delimited (CHR '','' # r)" "delimited (CHR '']'' # r)" "delimited (CHR ''}'' # r)"
  by (simp_all add: delimited_def is_num_char_def is_digit_def)

lemma read_number:
  assumes "num_ok t" "delimited r"
  shows "read_value (Suc n) (t @ r) = Some (JNum t, r)"
proof -
  obtain c u where t: "t = c # u" "is_num_char c" "list_all is_num_char u"
    using assms(1) by (cases t) (auto simp: num_ok_def)
  have "c \<notin> {CHR 0x22, CHR ''['', CHR ''{'', CHR ''n'', CHR ''t'', CHR ''f''}"
    using t(2) by (auto simp: is_num_char_def is_digit_def)
  moreover have "takeWhile is_num_char (t @ r) = t" "dropWhile is_num_char (t @ r) = r"
    using assms(2) t by (cases r; auto simp: delimited_def list_all_iff)+
  ultimately show ?thesis using t by simp
qed

lemma render_head: "json_ok v \<Longrightarrow> \<exists>c t. render v = c # t \<and> c \<noteq> CHR '']''"
  by (cases v) (auto simp: json_string_def num_ok_def is_num_char_def is_digit_def neq_Nil_conv)

definition reads_back :: "json \<Rightarrow> bool" where
  "reads_back v \<longleftrightarrow> (\<forall>n r. json_depth v \<le> n \<longrightarrow> delimited r \<longrightarrow> read_value n (render v @ r) = Some (repair v, r))"

lemma reads_backD: "reads_back v \<Longrightarrow> json_depth v \<le> n \<Longrightarrow> delimited r \<Longrightarrow> read_value n (render v @ r) = Some (repair v, r)"
  by (simp add: reads_back_def)

lemma joined_Cons: "joined sep (x # xs) = x @ (if xs = [] then [] else sep @ joined sep xs)"
  by (cases xs) simp_all

lemma read_items_render:
  assumes "\<forall>v \<in> set vs. reads_back v" "vs \<noteq> []" "sum_list (map (\<lambda>v. Suc (json_depth v)) vs) \<le> n"
  shows "read_items n (joined '','' (map render vs) @ CHR '']'' # r) = Some (map repair vs, r)"
  using assms
proof (induction vs arbitrary: n)
  case (Cons v vs)
  then obtain m where n: "n = Suc m" "json_depth v \<le> m" "sum_list (map (\<lambda>v. Suc (json_depth v)) vs) \<le> m"
    by (cases n) auto
  show ?case
  proof (cases "vs = []")
    case True
    then show ?thesis using n Cons.prems(1) reads_backD [of v m "CHR '']'' # r"] by simp
  next
    case False
    then have "read_items m (joined '','' (map render vs) @ CHR '']'' # r) = Some (map repair vs, r)"
      using Cons.IH [of m] Cons.prems(1) n by simp
    then show ?thesis using n Cons.prems(1) False reads_backD [of v m "CHR '','' # joined '','' (map render vs) @ CHR '']'' # r"]
      by (simp add: joined_Cons)
  qed
qed simp

definition field :: "string \<times> json \<Rightarrow> string" where
  "field = (\<lambda>(k, v). json_string k @ '':'' @ render v)"

lemma read_fields_render:
  assumes "\<forall>(k, v) \<in> set kvs. reads_back v" "kvs \<noteq> []" "sum_list (map (\<lambda>(k, v). Suc (json_depth v)) kvs) \<le> n"
  shows "read_fields n (joined '','' (map field kvs) @ CHR ''}'' # r)
    = Some (map (\<lambda>(k, v). (fix_utf8 k, repair v)) kvs, r)"
  using assms
proof (induction kvs arbitrary: n)
  case (Cons p kvs)
  obtain k v where p: "p = (k, v)" by (cases p)
  from Cons p obtain m where n: "n = Suc m" "json_depth v \<le> m" "sum_list (map (\<lambda>(k, v). Suc (json_depth v)) kvs) \<le> m"
    by (cases n) auto
  have v: "reads_back v" using Cons.prems(1) p by simp
  show ?case
  proof (cases "kvs = []")
    case True
    then show ?thesis using n v p reads_backD [of v m "CHR ''}'' # r"]
      by (simp add: field_def json_string_def read_string_chars)
  next
    case False
    then have "read_fields m (joined '','' (map field kvs) @ CHR ''}'' # r)
        = Some (map (\<lambda>(k, v). (fix_utf8 k, repair v)) kvs, r)"
      using Cons.IH [of m] Cons.prems(1) n by simp
    then show ?thesis using n v p False reads_backD [of v m "CHR '','' # joined '','' (map field kvs) @ CHR ''}'' # r"]
      by (simp add: joined_Cons) (simp add: field_def json_string_def read_string_chars)
  qed
qed simp

lemma render_reads_back: "json_ok v \<Longrightarrow> reads_back v"
proof (induction v rule: render.induct)
  case (3 t)
  then show ?case by (auto simp: reads_back_def num_ok_def read_number gr0_conv_Suc Suc_le_eq simp del: read_value.simps(2))
next
  case (4 s)
  then show ?case by (auto simp: reads_back_def json_string_def read_string_chars gr0_conv_Suc Suc_le_eq)
next
  case (5 vs)
  show ?case unfolding reads_back_def
  proof (intro allI impI)
    fix n r assume d: "json_depth (JArr vs) \<le> n" "delimited r"
    then obtain m where m: "n = Suc m" "sum_list (map (\<lambda>v. Suc (json_depth v)) vs) \<le> m" by (cases n) auto
    show "read_value n (render (JArr vs) @ r) = Some (repair (JArr vs), r)"
    proof (cases vs)
      case (Cons v ws)
      have "\<forall>v \<in> set vs. reads_back v" using 5 by (auto simp: list_all_iff)
      then have "read_items m (joined '','' (map render vs) @ CHR '']'' # r) = Some (map repair vs, r)"
        using read_items_render [of vs m r] m Cons by blast
      moreover have "take 1 (joined '','' (map render vs) @ CHR '']'' # r) \<noteq> '']''"
        using render_head [of v] 5(2) Cons by (auto simp: joined_Cons)
      ultimately show ?thesis by (simp add: m del: One_nat_def)
    qed (simp add: m)
  qed
next
  case (6 kvs)
  show ?case unfolding reads_back_def
  proof (intro allI impI)
    fix n r assume d: "json_depth (JObj kvs) \<le> n" "delimited r"
    then obtain m where m: "n = Suc m" "sum_list (map (\<lambda>(k, v). Suc (json_depth v)) kvs) \<le> m" by (cases n) auto
    have f: "map (\<lambda>(k, v). json_string k @ '':'' @ render v) kvs = map field kvs" by (simp add: field_def)
    show "read_value n (render (JObj kvs) @ r) = Some (repair (JObj kvs), r)"
    proof (cases kvs)
      case (Cons p ws)
      have "\<forall>(k, v) \<in> set kvs. reads_back v" using 6 by (auto simp: list_all_iff)
      then have "read_fields m (joined '','' (map field kvs) @ CHR ''}'' # r)
          = Some (map (\<lambda>(k, v). (fix_utf8 k, repair v)) kvs, r)"
        using read_fields_render [of kvs m r] m Cons by blast
      moreover have "take 1 (joined '','' (map field kvs) @ CHR ''}'' # r) \<noteq> ''}''"
        using Cons by (cases p) (simp add: joined_Cons field_def json_string_def)
      ultimately show ?thesis unfolding render.simps f by (simp add: m del: One_nat_def)
    qed (simp add: m)
  qed
qed (auto simp: reads_back_def gr0_conv_Suc Suc_le_eq)

lemma joined_length: "vs \<noteq> [] \<Longrightarrow> Suc (length (joined '','' vs)) = sum_list (map (\<lambda>v. Suc (length v)) vs)"
  by (induction "'',''" vs rule: joined.induct) simp_all

lemma joined_bound:
  assumes "\<And>x. x \<in> set xs \<Longrightarrow> d x \<le> length (f x)"
  shows "sum_list (map (\<lambda>x. Suc (d x)) xs) \<le> Suc (length (joined '','' (map f xs)))"
proof (cases "xs = []")
  case False
  have "sum_list (map (\<lambda>x. Suc (d x)) xs) \<le> sum_list (map (\<lambda>x. Suc (length (f x))) xs)"
    using assms by (intro sum_list_mono) simp
  then show ?thesis using joined_length [of "map f xs"] False by (simp add: comp_def)
qed simp

lemma json_depth_le: "json_ok v \<Longrightarrow> json_depth v \<le> length (render v)"
proof (induction v rule: render.induct)
  case (5 vs)
  then show ?case using joined_bound [of vs json_depth render] by (simp add: list_all_iff)
next
  case (6 kvs)
  have "sum_list (map (\<lambda>p. Suc (json_depth (snd p))) kvs) \<le> Suc (length (joined '','' (map field kvs)))"
    by (rule joined_bound) (use 6 in \<open>fastforce simp: field_def list_all_iff\<close>)
  then show ?case by (simp add: field_def case_prod_unfold)
qed (auto simp: json_string_def num_ok_def Suc_le_eq)

text \<open>Reading what was written gives the value back, repaired.\<close>

lemma unmarshal_render: "json_ok v \<Longrightarrow> unmarshal (render v) = Some (repair v)"
  using reads_backD [OF render_reads_back, of v "length (render v) + 1" "[]"] json_depth_le [of v]
  by (simp add: unmarshal_def)

lemma render_unambiguous:
  assumes "render v @ r = render w @ s" "json_ok v" "json_ok w" "repair v = v" "repair w = w" "delimited r" "delimited s"
  shows "v = w \<and> r = s"
proof -
  let ?n = "json_depth v + json_depth w"
  have "read_value ?n (render v @ r) = Some (repair v, r)"
    by (rule reads_backD [OF render_reads_back [OF assms(2)] _ assms(6)]) simp
  moreover have "read_value ?n (render w @ s) = Some (repair w, s)"
    by (rule reads_backD [OF render_reads_back [OF assms(3)] _ assms(7)]) simp
  ultimately have "Some (repair v, r) = Some (repair w, s)" by (simp only: assms(1))
  then show ?thesis by (simp add: assms(4,5))
qed

end
