(* ===== verification/JsonCanon.thy ===== *)
theory JsonCanon
  imports Json
begin

text \<open>The canonical text of a JSON value: keys sorted, one value per key, read back unchanged.\<close>

section \<open>Canonical text\<close>

lemma clearjunk_subset: "set (AList.clearjunk al) \<subseteq> set al"
  by (induction al rule: AList.clearjunk.induct) (auto simp: AList.delete_eq)

lemma clearjunk_id: "distinct (map fst al) \<Longrightarrow> AList.clearjunk al = al"
proof (induction al)
  case (Cons p al)
  then have "AList.delete (fst p) al = al" by (intro AList.delete_id) simp
  with Cons show ?case by simp
qed simp

lemma as_map_keys: "distinct (map fst (as_map kvs))" "sorted (map (\<lambda>(k, v). map (of_char :: char \<Rightarrow> nat) k) (as_map kvs))"
  "set (as_map kvs) \<subseteq> set kvs"
proof -
  have "mset (map fst (as_map kvs)) = mset (map fst (AList.clearjunk (rev kvs)))" by (simp add: as_map_def)
  then show "distinct (map fst (as_map kvs))" by (metis AList.distinct_clearjunk mset_eq_imp_distinct_iff)
  show "sorted (map (\<lambda>(k, v). map (of_char :: char \<Rightarrow> nat) k) (as_map kvs))" unfolding as_map_def by (rule sorted_sort_key)
  show "set (as_map kvs) \<subseteq> set kvs" using clearjunk_subset [of "rev kvs"] by (simp add: as_map_def)
qed

lemma as_map_id:
  assumes "distinct (map fst kvs)" "sorted (map (\<lambda>(k, v). map (of_char :: char \<Rightarrow> nat) k) kvs)"
  shows "as_map kvs = kvs"
proof -
  have "map of_char a = map (of_char :: char \<Rightarrow> nat) b \<longleftrightarrow> a = b" for a b
    by (rule inj_map_eq_map [OF inj_of_char])
  then have i: "inj_on (\<lambda>(k, v). map (of_char :: char \<Rightarrow> nat) k) (set (rev kvs))"
    using assms(1) by (fastforce simp: inj_on_def distinct_map)
  have "AList.clearjunk (rev kvs) = rev kvs" using assms(1) by (intro clearjunk_id) (simp add: rev_map [symmetric])
  then show ?thesis unfolding as_map_def using sort_key_inj_key_eq [OF _ i assms(2)] by simp
qed

lemma as_map_all: "(\<And>p. p \<in> set kvs \<Longrightarrow> f p = p) \<Longrightarrow> map f (as_map kvs) = as_map kvs"
  using as_map_keys(3) [of kvs] by (intro map_idI) blast

lemma canon_canon [simp]: "canon (canon v) = canon v"
proof (induction v rule: canon.induct)
  case (2 kvs)
  let ?m = "as_map (map (\<lambda>(k, v). (k, canon v)) kvs)"
  have "map (\<lambda>(k, v). (k, canon v)) ?m = ?m" by (rule as_map_all) (use 2 in auto)
  then show ?case by (simp only: canon.simps as_map_id [OF as_map_keys(1,2)])
qed simp_all

lemma json_ok_canon: "json_ok v \<Longrightarrow> json_ok (canon v)"
proof (induction v rule: canon.induct)
  case (2 kvs)
  then show ?case using as_map_keys(3) [of "map (\<lambda>(k, v). (k, canon v)) kvs"] by (fastforce simp: list_all_iff)
qed (auto simp: list_all_iff)

lemma repair_list: "map repair vs = vs \<longleftrightarrow> (\<forall>v \<in> set vs. repair v = v)"
  by (induction vs) auto

lemma repair_fields:
  "map (\<lambda>(k, v). (fix_utf8 k, repair v)) kvs = kvs \<longleftrightarrow> (\<forall>(k, v) \<in> set kvs. fix_utf8 k = k \<and> repair v = v)"
  by (induction kvs) auto

lemma repair_canon: "repair v = v \<Longrightarrow> repair (canon v) = canon v"
proof (induction v rule: canon.induct)
  case (2 kvs)
  then show ?case using as_map_keys(3) [of "map (\<lambda>(k, v). (k, canon v)) kvs"]
    by (fastforce simp: repair_fields)
qed (auto simp: repair_list)

definition well_formed :: "json \<Rightarrow> bool" where
  "well_formed v \<longleftrightarrow> json_ok v \<and> repair v = v"

text \<open>Two values that are well formed have the same text exactly when they are the same object, whatever the
  order of their keys.\<close>

lemma marshal_eq_iff: "well_formed v \<Longrightarrow> well_formed w \<Longrightarrow> marshal v = marshal w \<longleftrightarrow> canon v = canon w"
  using render_unambiguous [of "canon v" "[]" "canon w" "[]"]
  by (auto simp: marshal_def well_formed_def json_ok_canon repair_canon)

lemma unmarshal_marshal: "well_formed v \<Longrightarrow> unmarshal (marshal v) = Some (canon v)"
  by (simp add: marshal_def well_formed_def unmarshal_render json_ok_canon repair_canon)

end
