(* ===== verification/PolicyResolve.thy ===== *)
theory PolicyResolve
  imports PolicyService
begin

text \<open>
  Reading the policy engine from the chain: \<open>resolve_accounts.go\<close>, which derives the trailing
  accounts of a signature request from the rules that are active, and \<open>GET /v1/policy/{dwallet}\<close>
  (\<open>read.go\<close>). An account's data come from \<open>sv_GetAccount\<close>.
\<close>

unbundle bit_operations_syntax

section \<open>Rule accounts\<close>

abbreviation AppliesNormal :: u8 where "AppliesNormal \<equiv> 1"
abbreviation AppliesRecovery :: u8 where "AppliesRecovery \<equiv> 2"
abbreviation AppliesSession :: u8 where "AppliesSession \<equiv> 4"

definition ruleAppliesToOffset :: nat where "ruleAppliesToOffset = 97"
definition oracleFeedsCountOff :: nat where "oracleFeedsCountOff = 98"
definition oracleFeedsFlatOff :: nat where "oracleFeedsFlatOff = 105"
definition oracleFeedBytes :: nat where "oracleFeedBytes = 80"
definition maxOracleFeeds :: nat where "maxOracleFeeds = 4"
definition spendingFeedsCountOff :: nat where "spendingFeedsCountOff = 98"
definition spendingFeedsFlatOff :: nat where "spendingFeedsFlatOff = 161"
definition spendingFeedBytes :: nat where "spendingFeedBytes = 33"
definition maxSpendingFeeds :: nat where "maxSpendingFeeds = 16"

lemmas offset_defs = ruleAppliesToOffset_def oracleFeedsCountOff_def oracleFeedsFlatOff_def
  oracleFeedBytes_def maxOracleFeeds_def spendingFeedsCountOff_def spendingFeedsFlatOff_def
  spendingFeedBytes_def maxSpendingFeeds_def

datatype resolve_error =
    RpcError string
  | NotFound
  | EngineUndecodable decode_error
  | RuleTooShort nat
  | TooManyFeeds nat
  | AssetOutOfRange u8 nat
  | RuleTruncated nat nat
  | PasskeyNeedsRuntimeAux nat

definition parseOracleFeeds :: "bytes \<Rightarrow> resolve_error + key list \<times> u8" where
  "parseOracleFeeds d =
     (if length d \<le> oracleFeedsCountOff then Inl (RuleTooShort (length d))
      else
        let applies = d ! ruleAppliesToOffset; count = unat (d ! oracleFeedsCountOff);
            need = oracleFeedsFlatOff + count * oracleFeedBytes in
        if count > maxOracleFeeds then Inl (TooManyFeeds count)
        else if length d < need then Inl (RuleTruncated need (length d))
        else Inr (map (\<lambda>i. let base = oracleFeedsFlatOff + i * oracleFeedBytes
                           in mk_arr (go_slice d base (base + 32))) [0..<count], applies))"

definition parseSpendingFeed :: "bytes \<Rightarrow> u8 \<Rightarrow> resolve_error + key \<times> u8" where
  "parseSpendingFeed d assetIndex =
     (if length d \<le> spendingFeedsCountOff then Inl (RuleTooShort (length d))
      else
        let applies = d ! ruleAppliesToOffset; count = unat (d ! spendingFeedsCountOff);
            base = spendingFeedsFlatOff + unat assetIndex * spendingFeedBytes in
        if count > maxSpendingFeeds then Inl (TooManyFeeds count)
        else if unat assetIndex \<ge> count then Inl (AssetOutOfRange assetIndex count)
        else if length d < base + 32 then Inl (RuleTruncated (base + 32) (length d))
        else Inr (mk_arr (go_slice d base (base + 32)), applies))"

definition ruleSubPDAData :: "Service \<Rightarrow> key \<Rightarrow> resolve_error + bytes" where
  "ruleSubPDAData S rulePDA =
     (case sv_GetAccount S rulePDA of
        Inl e \<Rightarrow> Inl (RpcError e)
      | Inr None \<Rightarrow> Inl NotFound
      | Inr (Some d) \<Rightarrow> Inr d)"

definition fetchOracleFeedAccounts :: "Service \<Rightarrow> key \<Rightarrow> resolve_error + key list \<times> u8" where
  "fetchOracleFeedAccounts S rulePDA = bind_res (ruleSubPDAData S rulePDA) parseOracleFeeds"

definition fetchSpendingFeedAccount :: "Service \<Rightarrow> key \<Rightarrow> u8 \<Rightarrow> resolve_error + key \<times> u8" where
  "fetchSpendingFeedAccount S rulePDA assetIndex =
     bind_res (ruleSubPDAData S rulePDA) (\<lambda>d. parseSpendingFeed d assetIndex)"

definition fetchRuleAppliesTo :: "Service \<Rightarrow> key \<Rightarrow> resolve_error + u8" where
  "fetchRuleAppliesTo S rulePDA =
     bind_res (ruleSubPDAData S rulePDA) (\<lambda>d.
       if length d \<le> ruleAppliesToOffset then Inl (RuleTooShort (length d))
       else Inr (d ! ruleAppliesToOffset))"

section \<open>Trailing accounts\<close>

text \<open>The auxiliary accounts of one active slot.\<close>

definition rule_aux :: "Service \<Rightarrow> u8 \<Rightarrow> u8 \<Rightarrow> nat \<Rightarrow> rule_entry \<Rightarrow> resolve_error + key list" where
  "rule_aux S assetIndex path i e =
     (if Kind e = KindOracle then
        bind_res (fetchOracleFeedAccounts S (RuleAddress e)) (\<lambda>(feeds, applies).
          Inr (if (applies AND path) \<noteq> 0 then feeds else []))
      else if Kind e = KindSpendingUsd then
        bind_res (fetchSpendingFeedAccount S (RuleAddress e) assetIndex) (\<lambda>(feed, applies).
          Inr (if (applies AND path) \<noteq> 0 then [feed] else []))
      else if Kind e = KindPasskey then
        bind_res (fetchRuleAppliesTo S (RuleAddress e)) (\<lambda>applies.
          if (applies AND path) \<noteq> 0 then Inl (PasskeyNeedsRuntimeAux i) else Inr [])
      else Inr [])"

text \<open>\<open>for i := 0; i < MaxRules; i++\<close> over the entries, from slot \<open>i\<close> on.\<close>

fun resolve_loop ::
    "Service \<Rightarrow> u8 \<Rightarrow> u8 \<Rightarrow> nat \<Rightarrow> rule_entry list \<Rightarrow> resolve_error + key list \<times> key list list" where
  "resolve_loop S assetIndex path i [] = Inr ([], [])"
| "resolve_loop S assetIndex path i (e # es) =
     (if Kind e = KindEmpty \<or> \<not> Enabled e then resolve_loop S assetIndex path (Suc i) es
      else
        bind_res (rule_aux S assetIndex path i e) (\<lambda>aux.
        bind_res (resolve_loop S assetIndex path (Suc i) es) (\<lambda>(pdas, auxs).
        Inr (RuleAddress e # pdas, aux # auxs))))"

definition resolveTrailingAccounts ::
    "Service \<Rightarrow> key \<Rightarrow> u8 \<Rightarrow> u8 \<Rightarrow> resolve_error + key list \<times> key list list" where
  "resolveTrailingAccounts S engine assetIndex path =
     (case sv_GetAccount S engine of
        Inl e \<Rightarrow> Inl (RpcError e)
      | Inr None \<Rightarrow> Inl NotFound
      | Inr (Some d) \<Rightarrow>
          (case DecodePolicyEngine d of
             Inl e \<Rightarrow> Inl (EngineUndecodable e)
           | Inr state \<Rightarrow> resolve_loop S assetIndex path 0 (Rules state)))"

section \<open>Reading a policy\<close>

record allowlistDetailJSON =
  ad_AppliesTo :: u8
  ad_DestinationsCount :: u8
  ad_DestinationsHex :: "string list"

record ruleStateJSON =
  rs_Kind :: u8
  rs_Bump :: u8
  rs_Version :: u8
  rs_Enabled :: bool
  rs_Generation :: u32
  rs_RulePDA :: string
  rs_ConfigHashHex :: string
  rs_Detail :: "allowlistDetailJSON option"

record readPolicyResponse =
  rp_ProgramID :: string
  rp_EngineAddress :: string
  rp_DwalletAddress :: string
  rp_Version :: u8
  rp_Paused :: bool
  rp_RulesCount :: u8
  rp_RulesGeneration :: u32
  rp_NextAdminNonce :: u64
  rp_NextPrimaryRecoverNonce :: u64
  rp_NextOidcSessionNonce :: u64
  rp_NextPasskeySessionNonce :: u64
  rp_NextQuorumSessionNonce :: u64
  rp_InitAuthoritySlotHex :: string
  rp_OwnerSlotHex :: string
  rp_Rules :: "ruleStateJSON list"

text \<open>A slice bound past the array is a panic, which the server's \<open>Recoverer\<close> turns into a bare
  500; any other failure to read the detail leaves it out.\<close>

definition fetchAllowlistDetail :: "Service \<Rightarrow> key \<Rightarrow> http_error + allowlistDetailJSON option" where
  "fetchAllowlistDetail S pda =
     (case sv_GetAccount S pda of
        Inr (Some d) \<Rightarrow>
          (case DecodeAllowlistRule d (sv_Spare S pda) of
             Inr st \<Rightarrow> Inr (Some \<lparr>ad_AppliesTo = AAppliesTo st, ad_DestinationsCount = DestinationsCount st,
                ad_DestinationsHex = map (\<lambda>k. hex_lower (arr_bytes k)) (Destinations st)\<rparr>)
           | Inl (OutOfRange _ _) \<Rightarrow> Inl (HttpError 500 [])
           | Inl _ \<Rightarrow> Inr None)
      | _ \<Rightarrow> Inr None)"

fun read_rules :: "Service \<Rightarrow> rule_entry list \<Rightarrow> http_error + ruleStateJSON list" where
  "read_rules S [] = Inr []"
| "read_rules S (e # es) =
     (if Kind e = KindEmpty then read_rules S es
      else
        bind_res (if Kind e = KindAllowlist then fetchAllowlistDetail S (RuleAddress e) else Inr None) (\<lambda>detail.
        bind_res (read_rules S es) (\<lambda>rs.
        Inr (\<lparr>rs_Kind = Kind e, rs_Bump = Bump e, rs_Version = EntryVersion e, rs_Enabled = Enabled e,
              rs_Generation = Generation e, rs_RulePDA = Base58 (sv_Solana S) (RuleAddress e),
              rs_ConfigHashHex = hex_lower (arr_bytes (EntryConfigHash e)), rs_Detail = detail\<rparr> # rs))))"

definition readPolicy :: "Service \<Rightarrow> string \<Rightarrow> string \<Rightarrow> http_error + readPolicyResponse" where
  "readPolicy S dwalletStr hashHex =
     bind_res (ok_or no_rpc (sv_RPCClient S)) (\<lambda>_.
     bind_res (or_fail (HttpError 400 ''invalid_dwallet'') (sv_PublicKeyFromBase58 S dwalletStr)) (\<lambda>dwallet.
     bind_res (ok_or (HttpError 400 ''missing_init_authority_hash'') (hashHex \<noteq> [])) (\<lambda>_.
     bind_res (or_fail (HttpError 400 ''invalid_init_authority_hash'') (mustHex32 hashHex)) (\<lambda>initHash.
     bind_res (or_fail pda_failed (EnginePDA (sv_Solana S) (sv_ProgramID S) dwallet initHash)) (\<lambda>(engine, _).
     bind_res (or_fail (HttpError 502 ''rpc_failed'') (sv_GetAccount S engine)) (\<lambda>acct.
     (case acct of
        None \<Rightarrow> Inl (HttpError 404 ''engine_not_found'')
      | Some d \<Rightarrow>
          bind_res (or_fail (HttpError 500 ''decode_failed'') (DecodePolicyEngine d)) (\<lambda>st.
          bind_res (read_rules S (Rules st)) (\<lambda>rules.
          Inr \<lparr>rp_ProgramID = Base58 (sv_Solana S) (sv_ProgramID S),
               rp_EngineAddress = Base58 (sv_Solana S) engine, rp_DwalletAddress = Base58 (sv_Solana S) dwallet,
               rp_Version = LayoutVersion st, rp_Paused = (Paused st = 1), rp_RulesCount = RulesCount st,
               rp_RulesGeneration = RulesGeneration st, rp_NextAdminNonce = NextAdminNonce st,
               rp_NextPrimaryRecoverNonce = NextPrimaryRecoverNonce st,
               rp_NextOidcSessionNonce = NextOidcSessionNonce st,
               rp_NextPasskeySessionNonce = NextPasskeySessionNonce st,
               rp_NextQuorumSessionNonce = NextQuorumSessionNonce st,
               rp_InitAuthoritySlotHex = hex_lower (arr_bytes (InitAuthoritySlotOf st)),
               rp_OwnerSlotHex = hex_lower (arr_bytes (OwnerSlotOf st)), rp_Rules = rules\<rparr>)))))))))"

end
