(* ===== verification/PolicyAdmin.thy ===== *)
theory PolicyAdmin
  imports PolicyService
begin

text \<open>
  The administration of the policy engine over HTTP: creating an engine (\<open>init\<close>), adding rules
  (allowlist, oracle, USD spending), adding items to them, removing them. Every operation is a
  pair of handlers: \<open>/challenge\<close> returns the bytes the owner signs (\<open>routes.go\<close>,
  \<open>routes_spending_usd.go\<close>, \<open>remove_rule.go\<close>), \<open>/submit\<close> recomputes them from the same fields, turns the
  signature into a precompile instruction and lands it with the engine's instruction
  (\<open>submit.go\<close>, \<open>submit_spending_usd.go\<close>). A \<open>\<dots>Plan\<close> is a submit handler up to \<open>SignAndSend\<close>.
\<close>

section \<open>Shared by all pairs\<close>

text \<open>dWallet, init-authority hash, owner slot and engine address of a request.\<close>

definition admin_target ::
    "Service \<Rightarrow> string \<Rightarrow> string \<Rightarrow> memberSlotJSON \<Rightarrow> http_error + key \<times> hash \<times> slot \<times> key" where
  "admin_target S dwalletAddress initAuthorityHash ownerSlotJSON =
     (let dwallet = pubkey_of S dwalletAddress; initHash = hex32z initAuthorityHash in
      bind_res (or_fail invalid_field (decode_slot ownerSlotJSON)) (\<lambda>ownerSlot.
      bind_res (or_fail pda_failed (EnginePDA (sv_Solana S) (sv_ProgramID S) dwallet initHash)) (\<lambda>(engine, _).
      Inr (dwallet, initHash, ownerSlot, engine))))"

text \<open>The precompile over the challenge, the main instruction, and what is audited.\<close>

definition plan_with ::
    "Service \<Rightarrow> slot \<Rightarrow> hash \<Rightarrow> bytes \<times> bytes \<times> bytes \<Rightarrow> ix_result \<Rightarrow> string \<Rightarrow> key \<Rightarrow> key \<Rightarrow> string
     \<Rightarrow> http_error + submit_plan" where
  "plan_with S signer challenge creds mainIx action engine dwallet extra =
     (case creds of (sig, authData, cdj) \<Rightarrow>
      bind_res (or_fail invalid_signature (buildCredentialPrecompile S signer challenge sig authData cdj)) (\<lambda>precompile.
      bind_res (or_fail build_failed mainIx) (\<lambda>main.
      Inr \<lparr>pl_ixs = [precompile, main], pl_action = action, pl_engine = engine, pl_dwallet = dwallet,
           pl_extra = extra\<rparr>)))"

text \<open>The answer of an administration challenge; \<open>itemsAdd\<close> and \<open>removeRule\<close> leave the configuration
  hash out.\<close>

record addRuleChallengeResponse =
  cr_ProgramID :: string
  cr_EngineAddress :: string
  cr_RulePDA :: string
  cr_OpTag :: string
  cr_HumanMessage :: bytes
  cr_ConfigHashHex :: string
  cr_PreimageHex :: string
  cr_ChallengeHex :: string

definition admin_reply ::
    "Service \<Rightarrow> key \<Rightarrow> key \<Rightarrow> string \<Rightarrow> admin_input \<Rightarrow> http_error + addRuleChallengeResponse" where
  "admin_reply S engine rulePDA configHashHex ch =
     bind_res (or_fail encode_failed (AdminPreimage ch)) (\<lambda>preimage.
     let h = or_zero (AdminHash (sv_sha S) ch) in
     Inr \<lparr>cr_ProgramID = Base58 (sv_Solana S) (sv_ProgramID S),
          cr_EngineAddress = Base58 (sv_Solana S) engine, cr_RulePDA = Base58 (sv_Solana S) rulePDA,
          cr_OpTag = ac_OpTag ch, cr_HumanMessage = ac_HumanMessage ch, cr_ConfigHashHex = configHashHex,
          cr_PreimageHex = hex_lower preimage, cr_ChallengeHex = hex_lower (arr_bytes h)\<rparr>)"

section \<open>Creating an engine\<close>

record initChallengeRequest =
  in_DwalletAddress :: string
  in_InitAuthoritySlot :: memberSlotJSON
  in_OwnerSlot :: memberSlotJSON
  in_DefaultRecoveryHash :: string

record initSubmitRequest = initChallengeRequest + in_signed :: signedSubmitFields

definition init_valid :: "Service \<Rightarrow> 'a initChallengeRequest_scheme \<Rightarrow> bool" where
  "init_valid S r \<longleftrightarrow> validateSolanaPubkey S (in_DwalletAddress r) \<and> slot_valid (in_InitAuthoritySlot r)
     \<and> slot_valid (in_OwnerSlot r) \<and> omitempty hex_len_32 (in_DefaultRecoveryHash r)"

record initChallengeResponse =
  ir_ProgramID :: string
  ir_EngineAddress :: string
  ir_InitAuthorityHash :: string
  ir_Domain :: string
  ir_OpTag :: string
  ir_PreimageHex :: string
  ir_ChallengeHex :: string

definition init_recovery :: "string \<Rightarrow> http_error + u8 \<times> hash" where
  "init_recovery s =
     (if s = [] then Inr (0, zero_arr)
      else bind_res (or_fail invalid_field (mustHex32 s)) (\<lambda>h. Inr (1, h)))"

definition initChallenge :: "Service \<Rightarrow> initChallengeRequest \<Rightarrow> http_error + initChallengeResponse" where
  "initChallenge S r =
     bind_res (ok_or invalid_field (init_valid S r)) (\<lambda>_.
     let dwallet = pubkey_of S (in_DwalletAddress r) in
     bind_res (or_fail invalid_field (decode_slot (in_InitAuthoritySlot r))) (\<lambda>initSlot.
     bind_res (or_fail invalid_field (decode_slot (in_OwnerSlot r))) (\<lambda>ownerSlot.
     let initHash = InitAuthorityHashFromSlot (sv_sha S) initSlot in
     bind_res (or_fail pda_failed (EnginePDA (sv_Solana S) (sv_ProgramID S) dwallet initHash)) (\<lambda>(engine, _).
     bind_res (init_recovery (in_DefaultRecoveryHash r)) (\<lambda>(present, recoveryHash).
     let opTag = (if present = 1 then OpInitWithRecovery else OpInit);
         (preimage, challenge) = initChallengePreimageAndHash (sv_sha S) dwallet initSlot ownerSlot present recoveryHash
     in Inr \<lparr>ir_ProgramID = Base58 (sv_Solana S) (sv_ProgramID S),
          ir_EngineAddress = Base58 (sv_Solana S) engine, ir_InitAuthorityHash = hex_lower (arr_bytes initHash),
          ir_Domain = DomainInitV1, ir_OpTag = opTag, ir_PreimageHex = hex_lower preimage,
          ir_ChallengeHex = hex_lower (arr_bytes challenge)\<rparr>)))))"

definition initPlan :: "Service \<Rightarrow> initSubmitRequest \<Rightarrow> http_error + submit_plan" where
  "initPlan S r =
     bind_res (requireSubmitWiring S) (\<lambda>sponsor.
     bind_res (ok_or invalid_field (init_valid S r \<and> signed_valid (in_signed r))) (\<lambda>_.
     bind_res (or_fail invalid_field (decode_signed (in_signed r))) (\<lambda>creds.
     let dwallet = pubkey_of S (in_DwalletAddress r) in
     bind_res (or_fail invalid_field (decode_slot (in_InitAuthoritySlot r))) (\<lambda>initSlot.
     bind_res (or_fail invalid_field (decode_slot (in_OwnerSlot r))) (\<lambda>ownerSlot.
     let initHash = InitAuthorityHashFromSlot (sv_sha S) initSlot in
     bind_res (or_fail pda_failed (EnginePDA (sv_Solana S) (sv_ProgramID S) dwallet initHash)) (\<lambda>(engine, _).
     bind_res (init_recovery (in_DefaultRecoveryHash r)) (\<lambda>(present, recoveryHash).
     if present = 1 then Inl (HttpError 501 ''default_recovery_not_yet'')
     else
       let (_, challenge) = initChallengePreimageAndHash (sv_sha S) dwallet initSlot ownerSlot present recoveryHash
       in plan_with S initSlot challenge creds
            (InitEngine (sv_Solana S)
              \<lparr>ProgramID = sv_ProgramID S, Engine = engine, DWallet = dwallet, InitAuthorityHash = initHash,
               Payer = sponsor, InitAuthoritySlot = initSlot, OwnerSlot = ownerSlot,
               DefaultRecoveryPresent = present, DefaultRecoveryHash = recoveryHash\<rparr>)
            ''init'' engine dwallet [])))))))"

definition initSubmit :: "Service \<Rightarrow> initSubmitRequest \<Rightarrow> tx_response outcome" where
  "initSubmit S r = run_submit S (initPlan S r)"

section \<open>Adding a rule\<close>

text \<open>The fields the two requests share; the challenge request also has a generation, the submit
  request the signature.\<close>

record add_rule_fields =
  ar_DwalletAddress :: string
  ar_InitAuthorityHash :: string
  ar_OwnerSlot :: memberSlotJSON
  ar_RuleKind :: u8
  ar_RuleIndex :: u8
  ar_ExpectedNonce :: u64
  ar_AppliesTo :: u8
  ar_FreshnessSecondsDiv16 :: u8
  ar_MinConfidenceBpsDiv4 :: u8
  ar_MaxPerTxUsd :: u64
  ar_MaxPerDayUsd :: u64
  ar_MaxPerWeekUsd :: u64

record addRuleRequest = add_rule_fields + ar_RuleGeneration :: u32
record addRuleSubmitRequest = add_rule_fields + ar_signed :: signedSubmitFields

definition add_valid :: "Service \<Rightarrow> 'a add_rule_fields_scheme \<Rightarrow> bool" where
  "add_valid S r \<longleftrightarrow> validateSolanaPubkey S (ar_DwalletAddress r) \<and> hex_len_32 (ar_InitAuthorityHash r)
     \<and> slot_valid (ar_OwnerSlot r) \<and> 1 \<le> ar_RuleKind r \<and> ar_RuleKind r \<le> 9 \<and> ar_RuleIndex r \<le> 15
     \<and> 1 \<le> ar_AppliesTo r \<and> ar_AppliesTo r \<le> 7"

definition spendingUsdCaps :: "u64 \<Rightarrow> u64 \<Rightarrow> u64 \<Rightarrow> bytes" where
  "spendingUsdCaps maxPerTx maxPerDay maxPerWeek = U64LE maxPerTx @ U64LE maxPerDay @ U64LE maxPerWeek"

definition first_gen :: "u32 \<Rightarrow> u32" where "first_gen g = (if g = 0 then 1 else g)"

definition addRuleAllowlistChallenge :: "Service \<Rightarrow> addRuleRequest \<Rightarrow> http_error + addRuleChallengeResponse" where
  "addRuleAllowlistChallenge S r =
     bind_res (admin_target S (ar_DwalletAddress r) (ar_InitAuthorityHash r) (ar_OwnerSlot r)) (\<lambda>(dwallet, initHash, ownerSlot, engine).
     bind_res (or_fail pda_failed (RulePDA (sv_Solana S) (sv_ProgramID S) engine KindAllowlist (ar_RuleIndex r))) (\<lambda>(rulePDA, _).
     bind_res (or_fail (HttpError 500 ''internal'') (AllowlistConfigHash (sv_sha S) (ar_AppliesTo r) 0 (replicate 1024 0))) (\<lambda>configHash.
     let gen = first_gen (ar_RuleGeneration r) in
     admin_reply S engine rulePDA (hex_lower (arr_bytes configHash))
       \<lparr>ac_OpTag = ''add-rule-allowlist'', ac_HumanMessage = HumanMessageAllowlistPause (sv_Solana S) engine dwallet,
        ac_Engine = engine, ac_DWallet = dwallet, ac_RuleKind = KindAllowlist, ac_RuleIndex = ar_RuleIndex r,
        ac_RuleGeneration = gen, ac_ExpectedNonce = ar_ExpectedNonce r, ac_ConfigHash = configHash,
        ac_OwnerSlot = ownerSlot, ac_Extras = [[ar_AppliesTo r], U32LE gen]\<rparr>)))"

definition addRuleOracleChallenge :: "Service \<Rightarrow> addRuleRequest \<Rightarrow> http_error + addRuleChallengeResponse" where
  "addRuleOracleChallenge S r =
     bind_res (admin_target S (ar_DwalletAddress r) (ar_InitAuthorityHash r) (ar_OwnerSlot r)) (\<lambda>(dwallet, initHash, ownerSlot, engine).
     bind_res (or_fail pda_failed (RulePDA (sv_Solana S) (sv_ProgramID S) engine KindOracle (ar_RuleIndex r))) (\<lambda>(rulePDA, _).
     bind_res (or_fail (HttpError 500 ''internal'') (OracleConfigHash (sv_sha S) (ar_AppliesTo r) 0
         (ar_FreshnessSecondsDiv16 r) (ar_MinConfidenceBpsDiv4 r) (replicate (MaxOracleFeeds * OracleFeedBytes) 0))) (\<lambda>configHash.
     let gen = first_gen (ar_RuleGeneration r) in
     admin_reply S engine rulePDA (hex_lower (arr_bytes configHash))
       \<lparr>ac_OpTag = ''add-rule-oracle'', ac_HumanMessage = HumanMessageAllowlistPause (sv_Solana S) engine dwallet,
        ac_Engine = engine, ac_DWallet = dwallet, ac_RuleKind = KindOracle, ac_RuleIndex = ar_RuleIndex r,
        ac_RuleGeneration = gen, ac_ExpectedNonce = ar_ExpectedNonce r, ac_ConfigHash = configHash,
        ac_OwnerSlot = ownerSlot,
        ac_Extras = [[ar_AppliesTo r], [ar_FreshnessSecondsDiv16 r], [ar_MinConfidenceBpsDiv4 r], U32LE gen]\<rparr>)))"

definition addRuleSpendingUsdChallenge :: "Service \<Rightarrow> addRuleRequest \<Rightarrow> http_error + addRuleChallengeResponse" where
  "addRuleSpendingUsdChallenge S r =
     bind_res (admin_target S (ar_DwalletAddress r) (ar_InitAuthorityHash r) (ar_OwnerSlot r)) (\<lambda>(dwallet, initHash, ownerSlot, engine).
     bind_res (or_fail pda_failed (RulePDA (sv_Solana S) (sv_ProgramID S) engine KindSpendingUsd (ar_RuleIndex r))) (\<lambda>(rulePDA, _).
     bind_res (or_fail (HttpError 500 ''internal'') (SpendingUsdConfigHash (sv_sha S) (ar_AppliesTo r) 0
         (ar_FreshnessSecondsDiv16 r) (ar_MinConfidenceBpsDiv4 r) (ar_MaxPerTxUsd r) (ar_MaxPerDayUsd r)
         (ar_MaxPerWeekUsd r) (replicate (MaxSpendingUsdFeeds * SpendingUsdFeedBytes) 0))) (\<lambda>configHash.
     let gen = first_gen (ar_RuleGeneration r) in
     admin_reply S engine rulePDA (hex_lower (arr_bytes configHash))
       \<lparr>ac_OpTag = ''add-rule-spending-usd'',
        ac_HumanMessage = HumanMessageSpendingUsdAdd (sv_Solana S) (ar_MaxPerTxUsd r) (ar_MaxPerDayUsd r)
          (ar_MaxPerWeekUsd r) engine dwallet,
        ac_Engine = engine, ac_DWallet = dwallet, ac_RuleKind = KindSpendingUsd, ac_RuleIndex = ar_RuleIndex r,
        ac_RuleGeneration = gen, ac_ExpectedNonce = ar_ExpectedNonce r, ac_ConfigHash = configHash,
        ac_OwnerSlot = ownerSlot,
        ac_Extras = [[ar_AppliesTo r], [ar_FreshnessSecondsDiv16 r], [ar_MinConfidenceBpsDiv4 r],
          spendingUsdCaps (ar_MaxPerTxUsd r) (ar_MaxPerDayUsd r) (ar_MaxPerWeekUsd r), U32LE gen]\<rparr>)))"

definition addRuleChallenge :: "Service \<Rightarrow> addRuleRequest \<Rightarrow> http_error + addRuleChallengeResponse" where
  "addRuleChallenge S r =
     bind_res (ok_or invalid_field (add_valid S r)) (\<lambda>_.
     if ar_RuleKind r = KindAllowlist then addRuleAllowlistChallenge S r
     else if ar_RuleKind r = KindOracle then addRuleOracleChallenge S r
     else if ar_RuleKind r = KindSpendingUsd then addRuleSpendingUsdChallenge S r
     else Inl (HttpError 501 ''kind_not_supported_yet''))"

definition rule_add_extra :: "addRuleSubmitRequest \<Rightarrow> string" where
  "rule_add_extra r = json_obj [(''rule_kind'', num (ar_RuleKind r)), (''rule_index'', num (ar_RuleIndex r)),
     (''applies_to'', num (ar_AppliesTo r))]"

text \<open>Each kind's submit handler: the generation is always 1 here.\<close>

definition addRuleAllowlistPlan :: "Service \<Rightarrow> key \<Rightarrow> addRuleSubmitRequest \<Rightarrow> http_error + submit_plan" where
  "addRuleAllowlistPlan S sponsor r =
     bind_res (or_fail invalid_field (decode_signed (ar_signed r))) (\<lambda>creds.
     bind_res (admin_target S (ar_DwalletAddress r) (ar_InitAuthorityHash r) (ar_OwnerSlot r)) (\<lambda>(dwallet, initHash, ownerSlot, engine).
     bind_res (or_fail (HttpError 500 ''internal'') (AllowlistConfigHash (sv_sha S) (ar_AppliesTo r) 0 (replicate 1024 0))) (\<lambda>configHash.
     let gen = 1;
         challenge = or_zero (AdminHash (sv_sha S)
           \<lparr>ac_OpTag = ''add-rule-allowlist'', ac_HumanMessage = HumanMessageAllowlistPause (sv_Solana S) engine dwallet,
            ac_Engine = engine, ac_DWallet = dwallet, ac_RuleKind = KindAllowlist, ac_RuleIndex = ar_RuleIndex r,
            ac_RuleGeneration = gen, ac_ExpectedNonce = ar_ExpectedNonce r, ac_ConfigHash = configHash,
            ac_OwnerSlot = ownerSlot, ac_Extras = [[ar_AppliesTo r], U32LE gen]\<rparr>)
     in plan_with S ownerSlot challenge creds
       (AddRuleAllowlist (sv_Solana S)
         \<lparr>ProgramID = sv_ProgramID S, Engine = engine, DWallet = dwallet, InitAuthorityHash = initHash,
          Payer = sponsor, ExpectedNonce = ar_ExpectedNonce r, RuleIndex = ar_RuleIndex r, AppliesTo = ar_AppliesTo r\<rparr>)
       ''rule.add'' engine dwallet (rule_add_extra r))))"

definition addRuleOraclePlan :: "Service \<Rightarrow> key \<Rightarrow> addRuleSubmitRequest \<Rightarrow> http_error + submit_plan" where
  "addRuleOraclePlan S sponsor r =
     bind_res (or_fail invalid_field (decode_signed (ar_signed r))) (\<lambda>creds.
     bind_res (admin_target S (ar_DwalletAddress r) (ar_InitAuthorityHash r) (ar_OwnerSlot r)) (\<lambda>(dwallet, initHash, ownerSlot, engine).
     bind_res (or_fail (HttpError 500 ''internal'') (OracleConfigHash (sv_sha S) (ar_AppliesTo r) 0
         (ar_FreshnessSecondsDiv16 r) (ar_MinConfidenceBpsDiv4 r) (replicate (MaxOracleFeeds * OracleFeedBytes) 0))) (\<lambda>configHash.
     let gen = 1;
         challenge = or_zero (AdminHash (sv_sha S)
           \<lparr>ac_OpTag = ''add-rule-oracle'', ac_HumanMessage = HumanMessageAllowlistPause (sv_Solana S) engine dwallet,
            ac_Engine = engine, ac_DWallet = dwallet, ac_RuleKind = KindOracle, ac_RuleIndex = ar_RuleIndex r,
            ac_RuleGeneration = gen, ac_ExpectedNonce = ar_ExpectedNonce r, ac_ConfigHash = configHash,
            ac_OwnerSlot = ownerSlot,
            ac_Extras = [[ar_AppliesTo r], [ar_FreshnessSecondsDiv16 r], [ar_MinConfidenceBpsDiv4 r], U32LE gen]\<rparr>)
     in plan_with S ownerSlot challenge creds
       (AddRuleOracle (sv_Solana S)
         \<lparr>ProgramID = sv_ProgramID S, Engine = engine, DWallet = dwallet, InitAuthorityHash = initHash,
          Payer = sponsor, ExpectedNonce = ar_ExpectedNonce r, RuleIndex = ar_RuleIndex r, AppliesTo = ar_AppliesTo r,
          OracleFreshnessDiv16 = ar_FreshnessSecondsDiv16 r, MinConfidenceBpsDiv4 = ar_MinConfidenceBpsDiv4 r\<rparr>)
       ''rule.add'' engine dwallet (rule_add_extra r))))"

definition addRuleSpendingUsdPlan :: "Service \<Rightarrow> key \<Rightarrow> addRuleSubmitRequest \<Rightarrow> http_error + submit_plan" where
  "addRuleSpendingUsdPlan S sponsor r =
     bind_res (or_fail invalid_field (decode_signed (ar_signed r))) (\<lambda>creds.
     bind_res (admin_target S (ar_DwalletAddress r) (ar_InitAuthorityHash r) (ar_OwnerSlot r)) (\<lambda>(dwallet, initHash, ownerSlot, engine).
     bind_res (or_fail (HttpError 500 ''internal'') (SpendingUsdConfigHash (sv_sha S) (ar_AppliesTo r) 0
         (ar_FreshnessSecondsDiv16 r) (ar_MinConfidenceBpsDiv4 r) (ar_MaxPerTxUsd r) (ar_MaxPerDayUsd r)
         (ar_MaxPerWeekUsd r) (replicate (MaxSpendingUsdFeeds * SpendingUsdFeedBytes) 0))) (\<lambda>configHash.
     let gen = 1;
         challenge = or_zero (AdminHash (sv_sha S)
           \<lparr>ac_OpTag = ''add-rule-spending-usd'',
            ac_HumanMessage = HumanMessageSpendingUsdAdd (sv_Solana S) (ar_MaxPerTxUsd r) (ar_MaxPerDayUsd r)
              (ar_MaxPerWeekUsd r) engine dwallet,
            ac_Engine = engine, ac_DWallet = dwallet, ac_RuleKind = KindSpendingUsd, ac_RuleIndex = ar_RuleIndex r,
            ac_RuleGeneration = gen, ac_ExpectedNonce = ar_ExpectedNonce r, ac_ConfigHash = configHash,
            ac_OwnerSlot = ownerSlot,
            ac_Extras = [[ar_AppliesTo r], [ar_FreshnessSecondsDiv16 r], [ar_MinConfidenceBpsDiv4 r],
              spendingUsdCaps (ar_MaxPerTxUsd r) (ar_MaxPerDayUsd r) (ar_MaxPerWeekUsd r), U32LE gen]\<rparr>)
     in plan_with S ownerSlot challenge creds
       (AddRuleSpendingUsd (sv_Solana S)
         \<lparr>ProgramID = sv_ProgramID S, Engine = engine, DWallet = dwallet, InitAuthorityHash = initHash,
          Payer = sponsor, ExpectedNonce = ar_ExpectedNonce r, RuleIndex = ar_RuleIndex r, AppliesTo = ar_AppliesTo r,
          SpendingFreshnessDiv16 = ar_FreshnessSecondsDiv16 r, MaxConfidenceBpsDiv4 = ar_MinConfidenceBpsDiv4 r,
          MaxPerTxUsd = ar_MaxPerTxUsd r, MaxPerDayUsd = ar_MaxPerDayUsd r, MaxPerWeekUsd = ar_MaxPerWeekUsd r\<rparr>)
       ''rule.add'' engine dwallet (rule_add_extra r))))"

definition addRulePlan :: "Service \<Rightarrow> addRuleSubmitRequest \<Rightarrow> http_error + submit_plan" where
  "addRulePlan S r =
     bind_res (requireSubmitWiring S) (\<lambda>sponsor.
     bind_res (ok_or invalid_field (add_valid S r \<and> signed_valid (ar_signed r))) (\<lambda>_.
     if ar_RuleKind r = KindAllowlist then addRuleAllowlistPlan S sponsor r
     else if ar_RuleKind r = KindOracle then addRuleOraclePlan S sponsor r
     else if ar_RuleKind r = KindSpendingUsd then addRuleSpendingUsdPlan S sponsor r
     else Inl (HttpError 501 ''kind_not_supported_yet'')))"

definition addRuleSubmit :: "Service \<Rightarrow> addRuleSubmitRequest \<Rightarrow> tx_response outcome" where
  "addRuleSubmit S r = run_submit S (addRulePlan S r)"

section \<open>Adding an item to a rule\<close>

record itemsAddRequest =
  ia_DwalletAddress :: string
  ia_InitAuthorityHash :: string
  ia_OwnerSlot :: memberSlotJSON
  ia_RuleKind :: u8
  ia_RuleGeneration :: u32
  ia_ExpectedNonce :: u64
  ia_DestinationHex :: string
  ia_FeedAccount :: string
  ia_FeedOwner :: string
  ia_MinQ64 :: int
  ia_MaxQ64 :: int
  ia_Decimals :: u8

record itemsAddSubmitRequest = itemsAddRequest + ia_signed :: signedSubmitFields

definition items_valid :: "Service \<Rightarrow> 'a itemsAddRequest_scheme \<Rightarrow> bool" where
  "items_valid S r \<longleftrightarrow> validateSolanaPubkey S (ia_DwalletAddress r) \<and> hex_len_32 (ia_InitAuthorityHash r)
     \<and> slot_valid (ia_OwnerSlot r) \<and> 1 \<le> ia_RuleKind r \<and> ia_RuleKind r \<le> 9 \<and> 1 \<le> ia_RuleGeneration r
     \<and> omitempty hex_len_32 (ia_DestinationHex r) \<and> omitempty (validateSolanaPubkey S) (ia_FeedAccount r)
     \<and> omitempty (validateSolanaPubkey S) (ia_FeedOwner r) \<and> ia_Decimals r \<le> 24"

definition decodeOracleFeed :: "Service \<Rightarrow> string \<Rightarrow> string \<Rightarrow> int \<Rightarrow> int \<Rightarrow> http_error + key \<times> key" where
  "decodeOracleFeed S feedAccountStr feedOwnerStr minQ64 maxQ64 =
     (if feedAccountStr = [] \<or> feedOwnerStr = [] then Inl invalid_field
      else if minQ64 > maxQ64 then Inl invalid_field
      else
        bind_res (or_fail invalid_field (sv_PublicKeyFromBase58 S feedAccountStr)) (\<lambda>feedAccount.
        bind_res (or_fail invalid_field (sv_PublicKeyFromBase58 S feedOwnerStr)) (\<lambda>feedOwner.
        Inr (feedAccount, feedOwner))))"

definition decode_spending_feed :: "Service \<Rightarrow> string \<Rightarrow> http_error + key" where
  "decode_spending_feed S s =
     (if s = [] then Inl invalid_field else or_fail invalid_field (sv_PublicKeyFromBase58 S s))"

definition itemsAddAllowlistChallenge ::
    "Service \<Rightarrow> itemsAddRequest \<Rightarrow> u8 \<Rightarrow> http_error + addRuleChallengeResponse" where
  "itemsAddAllowlistChallenge S r ruleIndex =
     bind_res (ok_or invalid_field (ia_DestinationHex r \<noteq> [])) (\<lambda>_.
     let dest = hex32z (ia_DestinationHex r) in
     bind_res (admin_target S (ia_DwalletAddress r) (ia_InitAuthorityHash r) (ia_OwnerSlot r)) (\<lambda>(dwallet, initHash, ownerSlot, engine).
     bind_res (or_fail pda_failed (RulePDA (sv_Solana S) (sv_ProgramID S) engine KindAllowlist ruleIndex)) (\<lambda>(rulePDA, _).
     admin_reply S engine rulePDA []
       \<lparr>ac_OpTag = ''allowlist-add-destination'',
        ac_HumanMessage = HumanMessageAllowlistAddDestination (sv_Solana S) dest engine dwallet,
        ac_Engine = engine, ac_DWallet = dwallet, ac_RuleKind = KindAllowlist, ac_RuleIndex = ruleIndex,
        ac_RuleGeneration = ia_RuleGeneration r, ac_ExpectedNonce = ia_ExpectedNonce r, ac_ConfigHash = zero_arr,
        ac_OwnerSlot = ownerSlot, ac_Extras = [arr_bytes dest, U32LE (ia_RuleGeneration r)]\<rparr>)))"

definition itemsAddOracleChallenge ::
    "Service \<Rightarrow> itemsAddRequest \<Rightarrow> u8 \<Rightarrow> http_error + addRuleChallengeResponse" where
  "itemsAddOracleChallenge S r ruleIndex =
     bind_res (decodeOracleFeed S (ia_FeedAccount r) (ia_FeedOwner r) (ia_MinQ64 r) (ia_MaxQ64 r)) (\<lambda>(feedAccount, feedOwner).
     bind_res (admin_target S (ia_DwalletAddress r) (ia_InitAuthorityHash r) (ia_OwnerSlot r)) (\<lambda>(dwallet, initHash, ownerSlot, engine).
     bind_res (or_fail pda_failed (RulePDA (sv_Solana S) (sv_ProgramID S) engine KindOracle ruleIndex)) (\<lambda>(rulePDA, _).
     admin_reply S engine rulePDA []
       \<lparr>ac_OpTag = ''oracle-add-feed'',
        ac_HumanMessage = HumanMessageOracleAddFeed (sv_Solana S) feedAccount feedOwner (ia_MinQ64 r) (ia_MaxQ64 r) engine dwallet,
        ac_Engine = engine, ac_DWallet = dwallet, ac_RuleKind = KindOracle, ac_RuleIndex = ruleIndex,
        ac_RuleGeneration = ia_RuleGeneration r, ac_ExpectedNonce = ia_ExpectedNonce r, ac_ConfigHash = zero_arr,
        ac_OwnerSlot = ownerSlot,
        ac_Extras = [arr_bytes feedAccount, arr_bytes feedOwner, I64LE (ia_MinQ64 r), I64LE (ia_MaxQ64 r),
          U32LE (ia_RuleGeneration r)]\<rparr>)))"

definition itemsAddSpendingUsdChallenge ::
    "Service \<Rightarrow> itemsAddRequest \<Rightarrow> u8 \<Rightarrow> http_error + addRuleChallengeResponse" where
  "itemsAddSpendingUsdChallenge S r ruleIndex =
     bind_res (decode_spending_feed S (ia_FeedAccount r)) (\<lambda>feedCache.
     bind_res (admin_target S (ia_DwalletAddress r) (ia_InitAuthorityHash r) (ia_OwnerSlot r)) (\<lambda>(dwallet, initHash, ownerSlot, engine).
     bind_res (or_fail pda_failed (RulePDA (sv_Solana S) (sv_ProgramID S) engine KindSpendingUsd ruleIndex)) (\<lambda>(rulePDA, _).
     admin_reply S engine rulePDA []
       \<lparr>ac_OpTag = ''spending-usd-add-feed'',
        ac_HumanMessage = HumanMessageSpendingUsdAddFeed (sv_Solana S) feedCache (ia_Decimals r) engine dwallet,
        ac_Engine = engine, ac_DWallet = dwallet, ac_RuleKind = KindSpendingUsd, ac_RuleIndex = ruleIndex,
        ac_RuleGeneration = ia_RuleGeneration r, ac_ExpectedNonce = ia_ExpectedNonce r, ac_ConfigHash = zero_arr,
        ac_OwnerSlot = ownerSlot,
        ac_Extras = [arr_bytes feedCache, [ia_Decimals r], U32LE (ia_RuleGeneration r)]\<rparr>)))"

definition itemsAddChallenge ::
    "Service \<Rightarrow> string \<Rightarrow> itemsAddRequest \<Rightarrow> http_error + addRuleChallengeResponse" where
  "itemsAddChallenge S path r =
     bind_res (ruleIndexFromPath path) (\<lambda>ruleIndex.
     bind_res (ok_or invalid_field (items_valid S r)) (\<lambda>_.
     if ia_RuleKind r = KindAllowlist then itemsAddAllowlistChallenge S r ruleIndex
     else if ia_RuleKind r = KindOracle then itemsAddOracleChallenge S r ruleIndex
     else if ia_RuleKind r = KindSpendingUsd then itemsAddSpendingUsdChallenge S r ruleIndex
     else Inl (HttpError 501 ''kind_not_supported_yet'')))"

definition items_extra :: "itemsAddSubmitRequest \<Rightarrow> u8 \<Rightarrow> string" where
  "items_extra r ruleIndex = json_obj [(''rule_kind'', num (ia_RuleKind r)), (''rule_index'', num ruleIndex)]"

definition itemsAddAllowlistPlan ::
    "Service \<Rightarrow> key \<Rightarrow> itemsAddSubmitRequest \<Rightarrow> u8 \<Rightarrow> http_error + submit_plan" where
  "itemsAddAllowlistPlan S sponsor r ruleIndex =
     bind_res (ok_or invalid_field (ia_DestinationHex r \<noteq> [])) (\<lambda>_.
     bind_res (or_fail invalid_field (decode_signed (ia_signed r))) (\<lambda>creds.
     let dest = hex32z (ia_DestinationHex r) in
     bind_res (admin_target S (ia_DwalletAddress r) (ia_InitAuthorityHash r) (ia_OwnerSlot r)) (\<lambda>(dwallet, initHash, ownerSlot, engine).
     let challenge = or_zero (AdminHash (sv_sha S)
           \<lparr>ac_OpTag = ''allowlist-add-destination'',
            ac_HumanMessage = HumanMessageAllowlistAddDestination (sv_Solana S) dest engine dwallet,
            ac_Engine = engine, ac_DWallet = dwallet, ac_RuleKind = KindAllowlist, ac_RuleIndex = ruleIndex,
            ac_RuleGeneration = ia_RuleGeneration r, ac_ExpectedNonce = ia_ExpectedNonce r,
            ac_ConfigHash = zero_arr, ac_OwnerSlot = ownerSlot,
            ac_Extras = [arr_bytes dest, U32LE (ia_RuleGeneration r)]\<rparr>)
     in plan_with S ownerSlot challenge creds
       (UpdateRuleAllowlistAddDestination (sv_Solana S)
         \<lparr>ProgramID = sv_ProgramID S, Engine = engine, DWallet = dwallet, InitAuthorityHash = initHash,
          Payer = sponsor, ExpectedNonce = ia_ExpectedNonce r, RuleIndex = ruleIndex, Destination = dest\<rparr>)
       ''rule.items.add'' engine dwallet (items_extra r ruleIndex))))"

definition itemsAddOraclePlan ::
    "Service \<Rightarrow> key \<Rightarrow> itemsAddSubmitRequest \<Rightarrow> u8 \<Rightarrow> http_error + submit_plan" where
  "itemsAddOraclePlan S sponsor r ruleIndex =
     bind_res (decodeOracleFeed S (ia_FeedAccount r) (ia_FeedOwner r) (ia_MinQ64 r) (ia_MaxQ64 r)) (\<lambda>(feedAccount, feedOwner).
     bind_res (or_fail invalid_field (decode_signed (ia_signed r))) (\<lambda>creds.
     bind_res (admin_target S (ia_DwalletAddress r) (ia_InitAuthorityHash r) (ia_OwnerSlot r)) (\<lambda>(dwallet, initHash, ownerSlot, engine).
     let challenge = or_zero (AdminHash (sv_sha S)
           \<lparr>ac_OpTag = ''oracle-add-feed'',
            ac_HumanMessage = HumanMessageOracleAddFeed (sv_Solana S) feedAccount feedOwner (ia_MinQ64 r) (ia_MaxQ64 r) engine dwallet,
            ac_Engine = engine, ac_DWallet = dwallet, ac_RuleKind = KindOracle, ac_RuleIndex = ruleIndex,
            ac_RuleGeneration = ia_RuleGeneration r, ac_ExpectedNonce = ia_ExpectedNonce r,
            ac_ConfigHash = zero_arr, ac_OwnerSlot = ownerSlot,
            ac_Extras = [arr_bytes feedAccount, arr_bytes feedOwner, I64LE (ia_MinQ64 r), I64LE (ia_MaxQ64 r),
              U32LE (ia_RuleGeneration r)]\<rparr>)
     in plan_with S ownerSlot challenge creds
       (UpdateRuleOracleAddFeed (sv_Solana S)
         \<lparr>ProgramID = sv_ProgramID S, Engine = engine, DWallet = dwallet, InitAuthorityHash = initHash,
          Payer = sponsor, ExpectedNonce = ia_ExpectedNonce r, RuleIndex = ruleIndex,
          FeedAccount = feedAccount, FeedOwner = feedOwner, MinQ64 = ia_MinQ64 r, MaxQ64 = ia_MaxQ64 r\<rparr>)
       ''rule.items.add'' engine dwallet (items_extra r ruleIndex))))"

definition itemsAddSpendingUsdPlan ::
    "Service \<Rightarrow> key \<Rightarrow> itemsAddSubmitRequest \<Rightarrow> u8 \<Rightarrow> http_error + submit_plan" where
  "itemsAddSpendingUsdPlan S sponsor r ruleIndex =
     bind_res (decode_spending_feed S (ia_FeedAccount r)) (\<lambda>feedCache.
     bind_res (or_fail invalid_field (decode_signed (ia_signed r))) (\<lambda>creds.
     bind_res (admin_target S (ia_DwalletAddress r) (ia_InitAuthorityHash r) (ia_OwnerSlot r)) (\<lambda>(dwallet, initHash, ownerSlot, engine).
     let challenge = or_zero (AdminHash (sv_sha S)
           \<lparr>ac_OpTag = ''spending-usd-add-feed'',
            ac_HumanMessage = HumanMessageSpendingUsdAddFeed (sv_Solana S) feedCache (ia_Decimals r) engine dwallet,
            ac_Engine = engine, ac_DWallet = dwallet, ac_RuleKind = KindSpendingUsd, ac_RuleIndex = ruleIndex,
            ac_RuleGeneration = ia_RuleGeneration r, ac_ExpectedNonce = ia_ExpectedNonce r,
            ac_ConfigHash = zero_arr, ac_OwnerSlot = ownerSlot,
            ac_Extras = [arr_bytes feedCache, [ia_Decimals r], U32LE (ia_RuleGeneration r)]\<rparr>)
     in plan_with S ownerSlot challenge creds
       (UpdateRuleSpendingUsdAddFeed (sv_Solana S)
         \<lparr>ProgramID = sv_ProgramID S, Engine = engine, DWallet = dwallet, InitAuthorityHash = initHash,
          Payer = sponsor, ExpectedNonce = ia_ExpectedNonce r, RuleIndex = ruleIndex,
          FeedCacheAccount = feedCache, Decimals = ia_Decimals r\<rparr>)
       ''rule.items.add'' engine dwallet (items_extra r ruleIndex))))"

definition itemsAddPlan :: "Service \<Rightarrow> string \<Rightarrow> itemsAddSubmitRequest \<Rightarrow> http_error + submit_plan" where
  "itemsAddPlan S path r =
     bind_res (requireSubmitWiring S) (\<lambda>sponsor.
     bind_res (ruleIndexFromPath path) (\<lambda>ruleIndex.
     bind_res (ok_or invalid_field (items_valid S r \<and> signed_valid (ia_signed r))) (\<lambda>_.
     if ia_RuleKind r = KindAllowlist then itemsAddAllowlistPlan S sponsor r ruleIndex
     else if ia_RuleKind r = KindOracle then itemsAddOraclePlan S sponsor r ruleIndex
     else if ia_RuleKind r = KindSpendingUsd then itemsAddSpendingUsdPlan S sponsor r ruleIndex
     else Inl (HttpError 501 ''kind_not_supported_yet''))))"

definition itemsAddSubmit :: "Service \<Rightarrow> string \<Rightarrow> itemsAddSubmitRequest \<Rightarrow> tx_response outcome" where
  "itemsAddSubmit S path r = run_submit S (itemsAddPlan S path r)"

section \<open>Removing a rule\<close>

record removeRuleChallengeRequest =
  rr_DwalletAddress :: string
  rr_InitAuthorityHash :: string
  rr_OwnerSlot :: memberSlotJSON
  rr_RuleKind :: u8
  rr_RuleGeneration :: u32
  rr_ConfigHashHex :: string
  rr_ExpectedNonce :: u64
  rr_Recipient :: string

record removeRuleSubmitRequest = removeRuleChallengeRequest + rr_signed :: signedSubmitFields

definition remove_valid :: "Service \<Rightarrow> 'a removeRuleChallengeRequest_scheme \<Rightarrow> bool" where
  "remove_valid S r \<longleftrightarrow> validateSolanaPubkey S (rr_DwalletAddress r) \<and> hex_len_32 (rr_InitAuthorityHash r)
     \<and> slot_valid (rr_OwnerSlot r) \<and> 1 \<le> rr_RuleKind r \<and> rr_RuleKind r \<le> 9 \<and> 1 \<le> rr_RuleGeneration r
     \<and> hex_len_32 (rr_ConfigHashHex r) \<and> validateSolanaPubkey S (rr_Recipient r)"

definition buildRemoveRuleChallenge ::
    "Service \<Rightarrow> key \<Rightarrow> key \<Rightarrow> key \<Rightarrow> slot \<Rightarrow> u8 \<Rightarrow> u8 \<Rightarrow> u32 \<Rightarrow> hash \<Rightarrow> u64 \<Rightarrow> admin_input" where
  "buildRemoveRuleChallenge S engine dwallet recipient ownerSlot ruleKind ruleIndex currentGeneration
       configHash expectedNonce =
     (let newGen = currentGeneration + 1 in
      \<lparr>ac_OpTag = ''remove-rule'', ac_HumanMessage = HumanMessageAllowlistPause (sv_Solana S) engine dwallet,
       ac_Engine = engine, ac_DWallet = dwallet, ac_RuleKind = ruleKind, ac_RuleIndex = ruleIndex,
       ac_RuleGeneration = newGen, ac_ExpectedNonce = expectedNonce, ac_ConfigHash = configHash,
       ac_OwnerSlot = ownerSlot, ac_Extras = [arr_bytes recipient, U32LE newGen]\<rparr>)"

definition removeRuleChallenge ::
    "Service \<Rightarrow> string \<Rightarrow> removeRuleChallengeRequest \<Rightarrow> http_error + addRuleChallengeResponse" where
  "removeRuleChallenge S path r =
     bind_res (ruleIndexFromPath path) (\<lambda>ruleIndex.
     bind_res (ok_or invalid_field (remove_valid S r)) (\<lambda>_.
     bind_res (or_fail invalid_field (SeedForKind (rr_RuleKind r))) (\<lambda>_.
     let configHash = hex32z (rr_ConfigHashHex r); recipient = pubkey_of S (rr_Recipient r) in
     bind_res (admin_target S (rr_DwalletAddress r) (rr_InitAuthorityHash r) (rr_OwnerSlot r)) (\<lambda>(dwallet, initHash, ownerSlot, engine).
     bind_res (or_fail pda_failed (RulePDA (sv_Solana S) (sv_ProgramID S) engine (rr_RuleKind r) ruleIndex)) (\<lambda>(rulePDA, _).
     admin_reply S engine rulePDA []
       (buildRemoveRuleChallenge S engine dwallet recipient ownerSlot (rr_RuleKind r) ruleIndex
         (rr_RuleGeneration r) configHash (rr_ExpectedNonce r)))))))"

definition removeRulePlan :: "Service \<Rightarrow> string \<Rightarrow> removeRuleSubmitRequest \<Rightarrow> http_error + submit_plan" where
  "removeRulePlan S path r =
     bind_res (requireSubmitWiring S) (\<lambda>sponsor.
     bind_res (ruleIndexFromPath path) (\<lambda>ruleIndex.
     bind_res (ok_or invalid_field (remove_valid S r \<and> signed_valid (rr_signed r))) (\<lambda>_.
     bind_res (or_fail invalid_field (SeedForKind (rr_RuleKind r))) (\<lambda>_.
     bind_res (or_fail invalid_field (decode_signed (rr_signed r))) (\<lambda>creds.
     let configHash = hex32z (rr_ConfigHashHex r); recipient = pubkey_of S (rr_Recipient r) in
     bind_res (admin_target S (rr_DwalletAddress r) (rr_InitAuthorityHash r) (rr_OwnerSlot r)) (\<lambda>(dwallet, initHash, ownerSlot, engine).
     bind_res (or_fail pda_failed (RulePDA (sv_Solana S) (sv_ProgramID S) engine (rr_RuleKind r) ruleIndex)) (\<lambda>(rulePDA, _).
     let ch = buildRemoveRuleChallenge S engine dwallet recipient ownerSlot (rr_RuleKind r) ruleIndex
         (rr_RuleGeneration r) configHash (rr_ExpectedNonce r) in
     bind_res (or_fail encode_failed (AdminHash (sv_sha S) ch)) (\<lambda>challenge.
     plan_with S ownerSlot challenge creds
       (RemoveRule (sv_Solana S)
         \<lparr>ProgramID = sv_ProgramID S, Engine = engine, DWallet = dwallet, InitAuthorityHash = initHash,
          Payer = sponsor, ExpectedNonce = rr_ExpectedNonce r, RuleIndex = ruleIndex,
          RemovedRulePDA = rulePDA, RuleRecipient = recipient\<rparr>)
       ''rule.remove'' engine dwallet
       (json_obj [(''rule_kind'', num (rr_RuleKind r)), (''rule_index'', num ruleIndex)])))))))))"

definition removeRuleSubmit :: "Service \<Rightarrow> string \<Rightarrow> removeRuleSubmitRequest \<Rightarrow> tx_response outcome" where
  "removeRuleSubmit S path r = run_submit S (removeRulePlan S path r)"

end
