(* ===== verification/PolicySessions.thy ===== *)
theory PolicySessions
  imports PolicyAdmin
begin

text \<open>
  The session-key lifecycle over HTTP (\<open>handlers_session.go\<close>): open, revoke, close, add and remove
  a destination as challenge/submit pairs, the permissionless close of an expired session, the
  unsigned use instruction, and the reading of a session account.
\<close>

section \<open>Derivation\<close>

record sessionDerived =
  sd_dwallet :: key
  sd_initHash :: hash
  sd_engine :: key
  sd_rulePDA :: key
  sd_sessionPDA :: key
  sd_configHash :: hash
  sd_ownerSlot :: slot

definition deriveSessionAdmin ::
    "Service \<Rightarrow> string \<Rightarrow> string \<Rightarrow> string \<Rightarrow> u8 \<Rightarrow> u32 \<Rightarrow> memberSlotJSON option \<Rightarrow> http_error + sessionDerived" where
  "deriveSessionAdmin S dwalletAddr initAuthHash configHash ruleIndex sessionIndex ownerSlotJSON =
     bind_res (or_fail invalid_field (sv_PublicKeyFromBase58 S dwalletAddr)) (\<lambda>dwallet.
     bind_res (or_fail invalid_field (mustHex32 initAuthHash)) (\<lambda>initHash.
     bind_res (or_fail invalid_field (mustHex32 configHash)) (\<lambda>cfgHash.
     bind_res (or_fail pda_failed (EnginePDA (sv_Solana S) (sv_ProgramID S) dwallet initHash)) (\<lambda>(engine, _).
     bind_res (or_fail pda_failed (RulePDA (sv_Solana S) (sv_ProgramID S) engine KindSessionKey ruleIndex)) (\<lambda>(rulePDA, _).
     bind_res (or_fail pda_failed (SessionPDA (sv_Solana S) (sv_ProgramID S) engine sessionIndex)) (\<lambda>(sessionPDA, _).
     (case ownerSlotJSON of
        None \<Rightarrow> Inl invalid_field
      | Some m \<Rightarrow>
          bind_res (or_fail invalid_field (decode_slot m)) (\<lambda>ownerSlot.
          Inr \<lparr>sd_dwallet = dwallet, sd_initHash = initHash, sd_engine = engine, sd_rulePDA = rulePDA,
               sd_sessionPDA = sessionPDA, sd_configHash = cfgHash, sd_ownerSlot = ownerSlot\<rparr>))))))))"

definition zero32HexPlaceholder :: string where "zero32HexPlaceholder = replicate 64 CHR ''0''"

record sessionAdminInputs =
  si_DwalletAddress :: string
  si_InitAuthorityHash :: string
  si_SessionIndex :: u32
  si_ExpectedNonce :: u64
  si_OwnerSlot :: "memberSlotJSON option"

definition inputs_valid :: "Service \<Rightarrow> 'a sessionAdminInputs_scheme \<Rightarrow> bool" where
  "inputs_valid S r \<longleftrightarrow> validateSolanaPubkey S (si_DwalletAddress r) \<and> hex_len_32 (si_InitAuthorityHash r)
     \<and> si_SessionIndex r \<le> 255 \<and> (case si_OwnerSlot r of None \<Rightarrow> False | Some m \<Rightarrow> slot_valid m)"

definition deriveSessionPerSession :: "Service \<Rightarrow> 'a sessionAdminInputs_scheme \<Rightarrow> http_error + sessionDerived" where
  "deriveSessionPerSession S r =
     deriveSessionAdmin S (si_DwalletAddress r) (si_InitAuthorityHash r) zero32HexPlaceholder 0
       (si_SessionIndex r) (si_OwnerSlot r)"

record sessionAdminChallengeResponse =
  sc_EngineAddress :: string
  sc_SessionAddress :: string
  sc_OpTag :: string
  sc_HumanMessage :: bytes
  sc_OwnerAuthChallengeHex :: string
  sc_OwnerAuthPreimageHex :: string
  sc_ExpectedNonce :: u64

definition session_reply ::
    "Service \<Rightarrow> sessionDerived \<Rightarrow> string \<Rightarrow> u64 \<Rightarrow> admin_input \<times> bytes \<times> hash \<Rightarrow> sessionAdminChallengeResponse" where
  "session_reply S d opTag nonce a =
     (case a of (_, pre, h) \<Rightarrow>
       \<lparr>sc_EngineAddress = Base58 (sv_Solana S) (sd_engine d),
        sc_SessionAddress = Base58 (sv_Solana S) (sd_sessionPDA d), sc_OpTag = opTag,
        sc_HumanMessage = HumanMessageAllowlistPause (sv_Solana S) (sd_engine d) (sd_dwallet d),
        sc_OwnerAuthChallengeHex = hex_lower (arr_bytes h), sc_OwnerAuthPreimageHex = hex_lower pre,
        sc_ExpectedNonce = nonce\<rparr>)"

text \<open>\<open>adminPrecompile\<close> followed by the building of the main instruction.\<close>

definition adminPrecompile ::
    "Service \<Rightarrow> slot \<Rightarrow> hash \<Rightarrow> signedSubmitFields \<Rightarrow> http_error + instruction" where
  "adminPrecompile S ownerSlot challenge f =
     bind_res (or_fail invalid_field (decode_signed f)) (\<lambda>(sig, authData, cdj).
     or_fail invalid_signature (buildCredentialPrecompile S ownerSlot challenge sig authData cdj))"

definition session_plan ::
    "Service \<Rightarrow> sessionDerived \<Rightarrow> hash \<Rightarrow> signedSubmitFields \<Rightarrow> ix_result \<Rightarrow> string \<Rightarrow> string
     \<Rightarrow> http_error + submit_plan" where
  "session_plan S d h f mainIx action extra =
     bind_res (adminPrecompile S (sd_ownerSlot d) h f) (\<lambda>precompile.
     bind_res (or_fail build_failed mainIx) (\<lambda>main.
     Inr \<lparr>pl_ixs = [precompile, main], pl_action = action, pl_engine = sd_engine d,
          pl_dwallet = sd_dwallet d, pl_extra = extra\<rparr>))"

section \<open>Opening\<close>

record sessionOpenChallengeRequest =
  so_DwalletAddress :: string
  so_InitAuthorityHash :: string
  so_RuleIndex :: u8
  so_RuleGeneration :: u32
  so_RuleConfigHashHex :: string
  so_ExpectedNonce :: u64
  so_OwnerSlot :: "memberSlotJSON option"
  so_SessionIndex :: u32
  so_SessionSignerPubkey :: string
  so_ExpiresAtTs :: int
  so_MaxUses :: u32
  so_MaxAmountPerTx :: u64

record sessionOpenSubmitRequest = sessionOpenChallengeRequest + so_signed :: signedSubmitFields

definition open_valid :: "Service \<Rightarrow> 'a sessionOpenChallengeRequest_scheme \<Rightarrow> bool" where
  "open_valid S r \<longleftrightarrow> validateSolanaPubkey S (so_DwalletAddress r) \<and> hex_len_32 (so_InitAuthorityHash r)
     \<and> so_RuleIndex r \<le> 15 \<and> hex_len_32 (so_RuleConfigHashHex r)
     \<and> (case so_OwnerSlot r of None \<Rightarrow> False | Some m \<Rightarrow> slot_valid m) \<and> so_SessionIndex r \<le> 255
     \<and> validateSolanaPubkey S (so_SessionSignerPubkey r) \<and> so_ExpiresAtTs r \<noteq> 0 \<and> 1 \<le> so_MaxUses r
     \<and> 1 \<le> so_MaxAmountPerTx r"

definition sessionOpenChallenge ::
    "Service \<Rightarrow> sessionOpenChallengeRequest \<Rightarrow> http_error + sessionAdminChallengeResponse" where
  "sessionOpenChallenge S r =
     bind_res (ok_or invalid_field (open_valid S r)) (\<lambda>_.
     bind_res (deriveSessionAdmin S (so_DwalletAddress r) (so_InitAuthorityHash r) (so_RuleConfigHashHex r)
       (so_RuleIndex r) (so_SessionIndex r) (so_OwnerSlot r)) (\<lambda>d.
     bind_res (or_fail invalid_field (sv_PublicKeyFromBase58 S (so_SessionSignerPubkey r))) (\<lambda>signerPK.
     let extras = sessionOpenExtras (so_SessionIndex r) signerPK (so_ExpiresAtTs r) (so_MaxUses r) (so_MaxAmountPerTx r) in
     bind_res (or_fail encode_failed (buildSessionAdminChallenge (sv_Solana S) (sv_sha S) ''session-open''
       (sd_engine d) (sd_dwallet d) (sd_ownerSlot d) (so_ExpectedNonce r) True (sd_configHash d)
       (so_RuleIndex r) (so_RuleGeneration r) extras)) (\<lambda>a.
     Inr (session_reply S d ''session-open'' (so_ExpectedNonce r) a)))))"

definition sessionOpenPlan :: "Service \<Rightarrow> sessionOpenSubmitRequest \<Rightarrow> http_error + submit_plan" where
  "sessionOpenPlan S r =
     bind_res (requireSubmitWiring S) (\<lambda>sponsor.
     bind_res (ok_or invalid_field (open_valid S r \<and> signed_valid (so_signed r))) (\<lambda>_.
     bind_res (deriveSessionAdmin S (so_DwalletAddress r) (so_InitAuthorityHash r) (so_RuleConfigHashHex r)
       (so_RuleIndex r) (so_SessionIndex r) (so_OwnerSlot r)) (\<lambda>d.
     bind_res (or_fail invalid_field (sv_PublicKeyFromBase58 S (so_SessionSignerPubkey r))) (\<lambda>signerPK.
     let extras = sessionOpenExtras (so_SessionIndex r) signerPK (so_ExpiresAtTs r) (so_MaxUses r) (so_MaxAmountPerTx r) in
     bind_res (or_fail encode_failed (buildSessionAdminChallenge (sv_Solana S) (sv_sha S) ''session-open''
       (sd_engine d) (sd_dwallet d) (sd_ownerSlot d) (so_ExpectedNonce r) True (sd_configHash d)
       (so_RuleIndex r) (so_RuleGeneration r) extras)) (\<lambda>(_, _, h).
     session_plan S d h (so_signed r)
       (SessionOpen (sv_Solana S)
         \<lparr>ProgramID = sv_ProgramID S, Engine = sd_engine d, DWallet = sd_dwallet d,
          InitAuthorityHash = sd_initHash d, Payer = sponsor, SessionIndex = so_SessionIndex r,
          OpenNonce = so_ExpectedNonce r, OpenRuleIndex = so_RuleIndex r, SessionSigner = signerPK,
          ExpiresAtTs = so_ExpiresAtTs r, MaxUses = so_MaxUses r, MaxAmountPerTx = so_MaxAmountPerTx r\<rparr>)
       ''session.open''
       (json_obj [(''session_index'', num (so_SessionIndex r)), (''expires_at_ts'', IntDec (so_ExpiresAtTs r)),
          (''max_uses'', num (so_MaxUses r)), (''max_amount_per_tx'', num (so_MaxAmountPerTx r))]))))))"

definition sessionOpenSubmit :: "Service \<Rightarrow> sessionOpenSubmitRequest \<Rightarrow> tx_response outcome" where
  "sessionOpenSubmit S r = run_submit S (sessionOpenPlan S r)"

section \<open>Revoking, closing, destinations\<close>

record sessionRevokeSubmitRequest = sessionAdminInputs + sn_signed :: signedSubmitFields
record sessionCloseRequest = sessionAdminInputs + si_Recipient :: string
record sessionCloseSubmitRequest = sessionCloseRequest + sl_signed :: signedSubmitFields
record sessionDestRequest = sessionAdminInputs + si_DestinationHex :: string
record sessionDestSubmitRequest = sessionDestRequest + sx_signed :: signedSubmitFields

text \<open>The per-session administration path: rule fields zero.\<close>

definition per_session_challenge ::
    "Service \<Rightarrow> sessionDerived \<Rightarrow> string \<Rightarrow> u64 \<Rightarrow> bytes list \<Rightarrow> http_error + admin_input \<times> bytes \<times> hash" where
  "per_session_challenge S d opTag nonce extras =
     or_fail encode_failed (buildSessionAdminChallenge (sv_Solana S) (sv_sha S) opTag (sd_engine d)
       (sd_dwallet d) (sd_ownerSlot d) nonce False zero_arr 0 0 extras)"

definition sessionRevokeChallenge ::
    "Service \<Rightarrow> sessionAdminInputs \<Rightarrow> http_error + sessionAdminChallengeResponse" where
  "sessionRevokeChallenge S r =
     bind_res (ok_or invalid_field (inputs_valid S r)) (\<lambda>_.
     bind_res (deriveSessionPerSession S r) (\<lambda>d.
     bind_res (per_session_challenge S d ''session-revoke'' (si_ExpectedNonce r)
       (sessionRevokeExtras (sd_sessionPDA d) (si_SessionIndex r))) (\<lambda>a.
     Inr (session_reply S d ''session-revoke'' (si_ExpectedNonce r) a))))"

definition sessionRevokePlan :: "Service \<Rightarrow> sessionRevokeSubmitRequest \<Rightarrow> http_error + submit_plan" where
  "sessionRevokePlan S r =
     bind_res (requireSubmitWiring S) (\<lambda>sponsor.
     bind_res (ok_or invalid_field (inputs_valid S r \<and> signed_valid (sn_signed r))) (\<lambda>_.
     bind_res (deriveSessionPerSession S r) (\<lambda>d.
     bind_res (per_session_challenge S d ''session-revoke'' (si_ExpectedNonce r)
       (sessionRevokeExtras (sd_sessionPDA d) (si_SessionIndex r))) (\<lambda>(_, _, h).
     session_plan S d h (sn_signed r)
       (SessionRevoke (sv_Solana S)
         \<lparr>ProgramID = sv_ProgramID S, Engine = sd_engine d, DWallet = sd_dwallet d,
          InitAuthorityHash = sd_initHash d, Payer = sponsor, SessionIndex = si_SessionIndex r,
          SessionAdminNonce = si_ExpectedNonce r\<rparr>)
       ''session.revoke'' (json_obj [(''session_index'', num (si_SessionIndex r))])))))"

definition sessionRevokeSubmit :: "Service \<Rightarrow> sessionRevokeSubmitRequest \<Rightarrow> tx_response outcome" where
  "sessionRevokeSubmit S r = run_submit S (sessionRevokePlan S r)"

definition sessionCloseChallenge ::
    "Service \<Rightarrow> sessionCloseRequest \<Rightarrow> http_error + sessionAdminChallengeResponse" where
  "sessionCloseChallenge S r =
     bind_res (ok_or invalid_field (inputs_valid S r \<and> validateSolanaPubkey S (si_Recipient r))) (\<lambda>_.
     bind_res (or_fail invalid_field (sv_PublicKeyFromBase58 S (si_Recipient r))) (\<lambda>recipient.
     bind_res (deriveSessionPerSession S r) (\<lambda>d.
     bind_res (per_session_challenge S d ''session-close'' (si_ExpectedNonce r)
       (sessionCloseExtras (sd_sessionPDA d) (si_SessionIndex r) recipient)) (\<lambda>a.
     Inr (session_reply S d ''session-close'' (si_ExpectedNonce r) a)))))"

definition sessionClosePlan :: "Service \<Rightarrow> sessionCloseSubmitRequest \<Rightarrow> http_error + submit_plan" where
  "sessionClosePlan S r =
     bind_res (requireSubmitWiring S) (\<lambda>sponsor.
     bind_res (ok_or invalid_field (inputs_valid S r \<and> validateSolanaPubkey S (si_Recipient r)
       \<and> signed_valid (sl_signed r))) (\<lambda>_.
     bind_res (or_fail invalid_field (sv_PublicKeyFromBase58 S (si_Recipient r))) (\<lambda>recipient.
     bind_res (deriveSessionPerSession S r) (\<lambda>d.
     bind_res (per_session_challenge S d ''session-close'' (si_ExpectedNonce r)
       (sessionCloseExtras (sd_sessionPDA d) (si_SessionIndex r) recipient)) (\<lambda>(_, _, h).
     session_plan S d h (sl_signed r)
       (SessionClose (sv_Solana S)
         \<lparr>ProgramID = sv_ProgramID S, Engine = sd_engine d, DWallet = sd_dwallet d,
          InitAuthorityHash = sd_initHash d, Payer = sponsor, SessionIndex = si_SessionIndex r,
          SessionAdminNonce = si_ExpectedNonce r, CloseRecipient = recipient\<rparr>)
       ''session.close'' (json_obj [(''session_index'', num (si_SessionIndex r)),
          (''recipient'', json_str (Base58 (sv_Solana S) recipient))]))))))"

definition sessionCloseSubmit :: "Service \<Rightarrow> sessionCloseSubmitRequest \<Rightarrow> tx_response outcome" where
  "sessionCloseSubmit S r = run_submit S (sessionClosePlan S r)"

definition sessionDestChallenge ::
    "Service \<Rightarrow> sessionDestRequest \<Rightarrow> string \<Rightarrow> http_error + sessionAdminChallengeResponse" where
  "sessionDestChallenge S r opTag =
     bind_res (ok_or invalid_field (inputs_valid S r \<and> hex_len_32 (si_DestinationHex r))) (\<lambda>_.
     bind_res (or_fail invalid_field (mustHex32 (si_DestinationHex r))) (\<lambda>dest.
     bind_res (deriveSessionPerSession S r) (\<lambda>d.
     bind_res (per_session_challenge S d opTag (si_ExpectedNonce r)
       (sessionDestExtras (sd_sessionPDA d) (si_SessionIndex r) dest)) (\<lambda>a.
     Inr (session_reply S d opTag (si_ExpectedNonce r) a)))))"

definition sessionDestAddChallenge :: "Service \<Rightarrow> sessionDestRequest \<Rightarrow> http_error + sessionAdminChallengeResponse" where
  "sessionDestAddChallenge S r = sessionDestChallenge S r ''session-add-destination''"

definition sessionDestRemoveChallenge :: "Service \<Rightarrow> sessionDestRequest \<Rightarrow> http_error + sessionAdminChallengeResponse" where
  "sessionDestRemoveChallenge S r = sessionDestChallenge S r ''session-remove-destination''"

definition sessionDestPlan :: "Service \<Rightarrow> sessionDestSubmitRequest \<Rightarrow> bool \<Rightarrow> http_error + submit_plan" where
  "sessionDestPlan S r isAdd =
     bind_res (requireSubmitWiring S) (\<lambda>sponsor.
     bind_res (ok_or invalid_field (inputs_valid S r \<and> hex_len_32 (si_DestinationHex r)
       \<and> signed_valid (sx_signed r))) (\<lambda>_.
     bind_res (or_fail invalid_field (mustHex32 (si_DestinationHex r))) (\<lambda>dest.
     bind_res (deriveSessionPerSession S r) (\<lambda>d.
     let opTag = (if isAdd then ''session-add-destination'' else ''session-remove-destination'') in
     bind_res (per_session_challenge S d opTag (si_ExpectedNonce r)
       (sessionDestExtras (sd_sessionPDA d) (si_SessionIndex r) dest)) (\<lambda>(_, _, h).
     let p = \<lparr>ProgramID = sv_ProgramID S, Engine = sd_engine d, DWallet = sd_dwallet d,
          InitAuthorityHash = sd_initHash d, Payer = sponsor, SessionIndex = si_SessionIndex r,
          SessionAdminNonce = si_ExpectedNonce r, SessionDestination = dest\<rparr> in
     session_plan S d h (sx_signed r)
       (if isAdd then SessionAddDestination (sv_Solana S) p else SessionRemoveDestination (sv_Solana S) p)
       (if isAdd then ''session.destinations.add'' else ''session.destinations.remove'')
       (json_obj [(''session_index'', num (si_SessionIndex r)),
          (''destination'', json_str (si_DestinationHex r))]))))))"

definition sessionDestSubmit :: "Service \<Rightarrow> sessionDestSubmitRequest \<Rightarrow> bool \<Rightarrow> tx_response outcome" where
  "sessionDestSubmit S r isAdd = run_submit S (sessionDestPlan S r isAdd)"

section \<open>Closing an expired session\<close>

text \<open>Permissionless: no precompile, the main instruction alone.\<close>

record sessionCloseExpiredRequest =
  se_DwalletAddress :: string
  se_InitAuthorityHash :: string
  se_SessionIndex :: u32
  se_Recipient :: string

definition sessionCloseExpiredPlan :: "Service \<Rightarrow> sessionCloseExpiredRequest \<Rightarrow> http_error + submit_plan" where
  "sessionCloseExpiredPlan S r =
     bind_res (requireSubmitWiring S) (\<lambda>sponsor.
     bind_res (ok_or invalid_field (validateSolanaPubkey S (se_DwalletAddress r)
       \<and> hex_len_32 (se_InitAuthorityHash r) \<and> se_SessionIndex r \<le> 255
       \<and> validateSolanaPubkey S (se_Recipient r))) (\<lambda>_.
     bind_res (or_fail invalid_field (sv_PublicKeyFromBase58 S (se_Recipient r))) (\<lambda>recipient.
     let dwallet = pubkey_of S (se_DwalletAddress r); initHash = hex32z (se_InitAuthorityHash r) in
     bind_res (or_fail pda_failed (EnginePDA (sv_Solana S) (sv_ProgramID S) dwallet initHash)) (\<lambda>(engine, _).
     bind_res (or_fail build_failed (CloseExpiredSession (sv_Solana S)
       \<lparr>ProgramID = sv_ProgramID S, Engine = engine, DWallet = dwallet, InitAuthorityHash = initHash,
        Payer = sponsor, SessionIndex = se_SessionIndex r, ExpiredRecipient = recipient\<rparr>)) (\<lambda>main.
     Inr \<lparr>pl_ixs = [main], pl_action = ''session.close-expired'', pl_engine = engine, pl_dwallet = dwallet,
          pl_extra = json_obj [(''session_index'', num (se_SessionIndex r)),
            (''recipient'', json_str (Base58 (sv_Solana S) recipient))]\<rparr>)))))"

definition sessionCloseExpiredSubmit :: "Service \<Rightarrow> sessionCloseExpiredRequest \<Rightarrow> tx_response outcome" where
  "sessionCloseExpiredSubmit S r = run_submit S (sessionCloseExpiredPlan S r)"

section \<open>Building the use of a session\<close>

record instructionAcctJSON =
  ij_Pubkey :: string
  ij_IsSigner :: bool
  ij_IsWritable :: bool

record instructionJSON =
  ij_ProgramID :: string
  ij_Accounts :: "instructionAcctJSON list"
  ij_DataBase64 :: string

definition serializeInstruction :: "Service \<Rightarrow> instruction \<Rightarrow> instructionJSON" where
  "serializeInstruction S ix =
     \<lparr>ij_ProgramID = Base58 (sv_Solana S) (ProgID ix),
      ij_Accounts = map (\<lambda>a. \<lparr>ij_Pubkey = Base58 (sv_Solana S) (PublicKey a), ij_IsSigner = IsSigner a,
        ij_IsWritable = IsWritable a\<rparr>) (Accounts ix),
      ij_DataBase64 = b64_encode (Data ix)\<rparr>"

definition ika_pubkey :: "string \<Rightarrow> http_error + bytes" where
  "ika_pubkey s =
     (case hex_decode s of
        None \<Rightarrow> Inl invalid_field
      | Some b \<Rightarrow> if length b = 0 \<or> length b > 96 then Inl invalid_field else Inr b)"

record sessionUseBuildRequest =
  su_DwalletAddress :: string
  su_InitAuthorityHash :: string
  su_SessionIndex :: u32
  su_SessionSignerPubkey :: string
  su_MessageDigestHex :: string
  su_MetadataDigestHex :: string
  su_UserPubkeyHex :: string
  su_SignatureScheme :: u16
  su_IkaCurve :: u16
  su_IkaDWalletPubkeyHex :: string
  su_DestinationHex :: string
  su_ExpectedNonce :: u64
  su_Amount :: u64
  su_Payer :: string

record sessionUseBuildResponse =
  ub_EngineAddress :: string
  ub_SessionAddress :: string
  ub_Instruction :: instructionJSON

definition use_valid :: "Service \<Rightarrow> sessionUseBuildRequest \<Rightarrow> bool" where
  "use_valid S r \<longleftrightarrow> validateSolanaPubkey S (su_DwalletAddress r) \<and> hex_len_32 (su_InitAuthorityHash r)
     \<and> su_SessionIndex r \<le> 255 \<and> validateSolanaPubkey S (su_SessionSignerPubkey r)
     \<and> hex_len_32 (su_MessageDigestHex r) \<and> hex_len_32 (su_MetadataDigestHex r)
     \<and> hex_len_32 (su_UserPubkeyHex r) \<and> su_SignatureScheme r \<le> 6 \<and> su_IkaCurve r \<le> 2
     \<and> su_IkaDWalletPubkeyHex r \<noteq> [] \<and> hex_len_32 (su_DestinationHex r) \<and> validateSolanaPubkey S (su_Payer r)"

definition sessionUseBuild :: "Service \<Rightarrow> sessionUseBuildRequest \<Rightarrow> http_error + sessionUseBuildResponse" where
  "sessionUseBuild S r =
     bind_res (ok_or invalid_field (use_valid S r)) (\<lambda>_.
     let dwallet = pubkey_of S (su_DwalletAddress r); initHash = hex32z (su_InitAuthorityHash r) in
     bind_res (or_fail invalid_field (sv_PublicKeyFromBase58 S (su_SessionSignerPubkey r))) (\<lambda>sessionSigner.
     bind_res (or_fail invalid_field (sv_PublicKeyFromBase58 S (su_Payer r))) (\<lambda>payer.
     let msgDigest = hex32z (su_MessageDigestHex r); metaDigest = hex32z (su_MetadataDigestHex r);
         userPK = hex32z (su_UserPubkeyHex r); dest = hex32z (su_DestinationHex r) in
     bind_res (ika_pubkey (su_IkaDWalletPubkeyHex r)) (\<lambda>ikaPK.
     bind_res (or_fail pda_failed (EnginePDA (sv_Solana S) (sv_ProgramID S) dwallet initHash)) (\<lambda>(engine, _).
     bind_res (or_fail pda_failed (CPIAuthorityPDA (sv_Solana S) (sv_ProgramID S))) (\<lambda>(cpiAuth, cpiBump).
     bind_res (or_fail pda_failed (MessageApprovalPDA (sv_Solana S) (su_IkaCurve r) ikaPK
       (su_SignatureScheme r) (arr_bytes msgDigest) (replicate 32 0))) (\<lambda>(msgApproval, msgApprovalBump).
     bind_res (or_fail pda_failed (SessionPDA (sv_Solana S) (sv_ProgramID S) engine (su_SessionIndex r))) (\<lambda>(sessionPDA, _).
     bind_res (or_fail build_failed (RequestSignatureViaSession (sv_Solana S)
       \<lparr>ProgramID = sv_ProgramID S, Engine = engine, DWallet = dwallet, InitAuthorityHash = initHash,
        Payer = payer, Coordinator = IkaCoordinator (sv_Solana S), MessageApproval = msgApproval,
        CPIAuthority = cpiAuth, CallerProgram = sv_NewWallet S,
        DWalletProgram = IkaDwalletProgramID (sv_Solana S), CPIAuthorityBump = cpiBump,
        MessageDigest = msgDigest, MetadataDigest = metaDigest, UserPubkey = userPK,
        SignatureScheme = su_SignatureScheme r, MessageApprovalBump = msgApprovalBump,
        ViaRulePDAs = [], ViaRuleAux = [], ViaSessionSigner = sessionSigner,
        ViaSessionIndex = su_SessionIndex r, ViaDestination = dest,
        ExpectedSignatureNonce = su_ExpectedNonce r, ViaAmount = su_Amount r\<rparr>)) (\<lambda>main.
     Inr \<lparr>ub_EngineAddress = Base58 (sv_Solana S) engine, ub_SessionAddress = Base58 (sv_Solana S) sessionPDA,
          ub_Instruction = serializeInstruction S main\<rparr>)))))))))"

section \<open>Reading a session\<close>

record sessionReadResponse =
  sr_EngineAddress :: string
  sr_SessionAddress :: string
  sr_SessionSignerPubkey :: string
  sr_SessionIndex :: u32
  sr_CreatedAtTs :: int
  sr_ExpiresAtTs :: int
  sr_UsedCount :: u32
  sr_MaxUses :: u32
  sr_NextSignatureNonce :: u64
  sr_MaxAmountPerTx :: u64
  sr_NextAdminNonce :: u64
  sr_Destinations :: "string list"

definition SessionAccountBytes :: nat where
  "SessionAccountBytes = 1 + 32 + 32 + 4 + 4 + 8 + 8 + 4 + 4 + 8 + 8 + 8 + 1 + 7 + 8 * 32"

definition parseSessionAccount :: "solana_env \<Rightarrow> bytes \<Rightarrow> key \<Rightarrow> key \<Rightarrow> string + sessionReadResponse" where
  "parseSessionAccount E d engine sessionPDA =
     (if length d < SessionAccountBytes then Inl ''session account too short''
      else if d ! 0 \<noteq> 3 then Inl ''session account discriminator''
      else if mk_arr (go_slice d 1 33) \<noteq> engine then Inl ''session account engine mismatch''
      else
        let destCount = (if unat (d ! 121) > 8 then 8 else unat (d ! 121)) in
        Inr \<lparr>sr_EngineAddress = Base58 E engine, sr_SessionAddress = Base58 E sessionPDA,
             sr_SessionSignerPubkey = Base58 E (mk_arr (go_slice d 33 65)),
             sr_SessionIndex = LE32 (go_slice d 65 69), sr_CreatedAtTs = LEI64 (go_slice d 73 81),
             sr_ExpiresAtTs = LEI64 (go_slice d 81 89), sr_UsedCount = LE32 (go_slice d 89 93),
             sr_MaxUses = LE32 (go_slice d 93 97), sr_NextSignatureNonce = LE64 (go_slice d 97 105),
             sr_MaxAmountPerTx = LE64 (go_slice d 105 113), sr_NextAdminNonce = LE64 (go_slice d 113 121),
             sr_Destinations = map (\<lambda>i. hex_lower (go_slice d (129 + i * 32) (129 + i * 32 + 32))) [0..<destCount]\<rparr>)"

definition sessionReadHandler :: "Service \<Rightarrow> string \<Rightarrow> string \<Rightarrow> http_error + sessionReadResponse" where
  "sessionReadHandler S engineStr sessionIdxStr =
     bind_res (or_fail invalid_field (sv_PublicKeyFromBase58 S engineStr)) (\<lambda>engine.
     (case ParseUint 32 sessionIdxStr of
        None \<Rightarrow> Inl invalid_field
      | Some idx \<Rightarrow>
          bind_res (ok_or no_rpc (sv_RPCClient S)) (\<lambda>_.
          bind_res (or_fail pda_failed (SessionPDA (sv_Solana S) (sv_ProgramID S) engine (of_nat idx))) (\<lambda>(sessionPDA, _).
          bind_res (or_fail (HttpError 502 ''rpc_failed'') (sv_GetAccount S sessionPDA)) (\<lambda>acct.
          (case acct of
             None \<Rightarrow> Inl (HttpError 404 ''not_found'')
           | Some d \<Rightarrow> or_fail (HttpError 500 ''decode_failed'') (parseSessionAccount (sv_Solana S) d engine sessionPDA)))))))"

end
