(* ===== verification/PolicySigning.thy ===== *)
theory PolicySigning
  imports PolicyResolve PolicySessions
begin

text \<open>
  The signing path. \<open>request-signature\<close> as challenge, submit and build (\<open>routes.go\<close>,
  \<open>submit.go\<close>), the owner authorization that goes with it (\<open>owner_auth.go\<close>), and the server-side
  path of a swap (\<open>authorize_swap.go\<close>): the digest, the owner's challenge, and the landing.
\<close>

section \<open>The owner's authorization\<close>

datatype sign_error =
    OwnerAuthRequired
  | BadBase64 string
  | NotAuthorizable preimage_error
  | BadCredential auth_error
  | BadInput string
  | NoSponsor
  | Assemble http_error
  | SendFailed string

definition lift_err :: "('e \<Rightarrow> 'f) \<Rightarrow> 'e + 'a \<Rightarrow> 'f + 'a" where
  "lift_err f r = (case r of Inl e \<Rightarrow> Inl (f e) | Inr x \<Rightarrow> Inr x)"

lemma lift_err_simps [simp]: "lift_err f (Inl e) = Inl (f e)" "lift_err f (Inr x) = Inr x"
  by (simp_all add: lift_err_def)

lemma lift_err_Inr [simp]: "lift_err f r = Inr x \<longleftrightarrow> r = Inr x"
  by (cases r) simp_all

definition BuildOwnerAuthPrecompile :: "Service \<Rightarrow> owner_auth_input \<Rightarrow> sign_error + instruction" where
  "BuildOwnerAuthPrecompile S a =
     (if oa_SignatureBase64 a = [] then Inl OwnerAuthRequired
      else case b64_decode (oa_SignatureBase64 a) of
        None \<Rightarrow> Inl (BadBase64 ''signature_base64'')
      | Some sig \<Rightarrow>
          (case b64_opt (oa_WebauthnAuthDataBase64 a) of
             None \<Rightarrow> Inl (BadBase64 ''webauthn_auth_data_base64'')
           | Some authData \<Rightarrow>
               (case b64_opt (oa_WebauthnCDJBase64 a) of
                  None \<Rightarrow> Inl (BadBase64 ''webauthn_cdj_base64'')
                | Some cdj \<Rightarrow>
                    bind_res (lift_err NotAuthorizable (ComputeOwnerAuthChallenge (sv_Solana S) (sv_sha S) a)) (\<lambda>ch.
                    let challenge = hex32z (OwnerAuthChallengeHex ch) in
                    lift_err BadCredential (buildCredentialPrecompile S (oa_OwnerSlot a) challenge sig authData cdj)))))"

section \<open>Challenge of a request\<close>

record requestSignatureChallengeRequest =
  rc_DwalletAddress :: string
  rc_InitAuthorityHash :: string
  rc_MessageDigestHex :: string
  rc_DestinationHex :: string
  rc_UserPubkeyHex :: string
  rc_SignatureScheme :: u16
  rc_Path :: u8
  rc_RulesGeneration :: u32
  rc_Amount :: u64
  rc_AssetIndex :: u8
  rc_OwnerSlot :: "memberSlotJSON option"

definition opt_slot_valid :: "memberSlotJSON option \<Rightarrow> bool" where
  "opt_slot_valid m = (case m of None \<Rightarrow> True | Some s \<Rightarrow> slot_valid s)"

definition request_challenge_valid :: "Service \<Rightarrow> requestSignatureChallengeRequest \<Rightarrow> bool" where
  "request_challenge_valid S r \<longleftrightarrow> validateSolanaPubkey S (rc_DwalletAddress r)
     \<and> hex_len_32 (rc_InitAuthorityHash r) \<and> hex_len_32 (rc_MessageDigestHex r) \<and> hex_len_32 (rc_DestinationHex r)
     \<and> hex_len_32 (rc_UserPubkeyHex r) \<and> rc_SignatureScheme r \<le> 6 \<and> 1 \<le> rc_Path r \<and> rc_Path r \<le> 7
     \<and> rc_AssetIndex r \<le> 15 \<and> opt_slot_valid (rc_OwnerSlot r)"

record requestSignatureChallengeResponse =
  rq_EngineAddress :: string
  rq_MetadataDigest :: string
  rq_PreimageHex :: string
  rq_OwnerAuth :: "owner_auth_challenge option"

definition requestSignatureChallenge ::
    "Service \<Rightarrow> requestSignatureChallengeRequest \<Rightarrow> requestSignatureChallengeResponse outcome" where
  "requestSignatureChallenge S r =
     (let res =
        bind_res (ok_or invalid_field (request_challenge_valid S r)) (\<lambda>_.
        let dwallet = pubkey_of S (rc_DwalletAddress r); initHash = hex32z (rc_InitAuthorityHash r);
            msgDigest = hex32z (rc_MessageDigestHex r); dest = hex32z (rc_DestinationHex r);
            userPK = hex32z (rc_UserPubkeyHex r) in
        bind_res (or_fail pda_failed (EnginePDA (sv_Solana S) (sv_ProgramID S) dwallet initHash)) (\<lambda>(engine, _).
        let meta = \<lparr>rm_Engine = engine, rm_DWallet = dwallet, rm_MessageDigest = msgDigest,
              rm_Destination = dest, rm_UserPubkey = userPK, rm_SignatureScheme = rc_SignatureScheme r,
              rm_Path = rc_Path r, rm_RulesGeneration = rc_RulesGeneration r, rm_Amount = rc_Amount r,
              rm_AssetIndex = rc_AssetIndex r\<rparr>;
            pre = RequestMetadataPreimage meta; digest = sv_sha S pre in
        bind_res
          (if rc_Path r = AppliesNormal then
             (case rc_OwnerSlot r of
                None \<Rightarrow> Inl invalid_field
              | Some m \<Rightarrow>
                  bind_res (or_fail invalid_field (decode_slot m)) (\<lambda>ownerSlot.
                  let human = HumanMessageNormalSign (sv_Solana S) dwallet dest (rc_Amount r) (rc_SignatureScheme r);
                      nuc = \<lparr>uc_HumanMessage = human, uc_Engine = engine, uc_DWallet = dwallet,
                        uc_MetadataDigest = digest, uc_OwnerSlot = ownerSlot\<rparr> in
                  Inr (Some \<lparr>OwnerAuthChallengeHex = hex_lower (arr_bytes (NormalUseHash (sv_sha S) nuc)),
                    OwnerAuthPreimageHex = hex_lower (NormalUsePreimage nuc), OwnerAuthHumanMessage = human\<rparr>)))
           else Inr None) (\<lambda>auth.
        Inr \<lparr>rq_EngineAddress = Base58 (sv_Solana S) engine, rq_MetadataDigest = hex_lower (arr_bytes digest),
             rq_PreimageHex = hex_lower pre, rq_OwnerAuth = auth\<rparr>)))
      in case res of
        Inl e \<Rightarrow> ([], Inl e)
      | Inr resp \<Rightarrow> (firePresignPrefetch S (rc_DwalletAddress r) (rq_MetadataDigest resp), Inr resp))"

section \<open>Assembling the instruction\<close>

record requestSignatureSubmitRequest =
  rs_DwalletAddress :: string
  rs_InitAuthorityHash :: string
  rs_MessageDigestHex :: string
  rs_MetadataDigestHex :: string
  rs_UserPubkeyHex :: string
  rs_SignatureScheme :: u16
  rs_DestinationHex :: string
  rs_RulesGeneration :: u32
  rs_RulePDAs :: "string list"
  rs_RuleAuxAccounts :: "string list list"
  rs_AutoResolveAccounts :: bool
  rs_IkaCurve :: u16
  rs_IkaDWalletPubkey :: string
  rs_Amount :: u64
  rs_AssetIndex :: u8
  rs_IkaMsgMetadataDigestHex :: string
  rs_OwnerSlot :: "memberSlotJSON option"
  rs_signed :: signedSubmitFields
  rs_Swap :: "swap_meta option"
  rs_Bundle :: "bundle_proof option"

definition request_valid :: "Service \<Rightarrow> requestSignatureSubmitRequest \<Rightarrow> bool" where
  "request_valid S r \<longleftrightarrow> validateSolanaPubkey S (rs_DwalletAddress r) \<and> hex_len_32 (rs_InitAuthorityHash r)
     \<and> hex_len_32 (rs_MessageDigestHex r) \<and> hex_len_32 (rs_MetadataDigestHex r) \<and> hex_len_32 (rs_UserPubkeyHex r)
     \<and> rs_SignatureScheme r \<le> 6 \<and> hex_len_32 (rs_DestinationHex r)
     \<and> list_all (validateSolanaPubkey S) (rs_RulePDAs r) \<and> rs_IkaCurve r \<le> 2 \<and> rs_IkaDWalletPubkey r \<noteq> []
     \<and> rs_AssetIndex r \<le> 15 \<and> omitempty hex_len_32 (rs_IkaMsgMetadataDigestHex r)
     \<and> opt_slot_valid (rs_OwnerSlot r) \<and> omitempty validateBase64 (SignatureBase64 (rs_signed r))
     \<and> omitempty validateBase64 (WebauthnAuthDataBase64 (rs_signed r))
     \<and> omitempty validateBase64 (WebauthnCDJBase64 (rs_signed r))"

text \<open>The two decoding loops: the first string that is not a key ends them.\<close>

fun decode_keys :: "Service \<Rightarrow> string list \<Rightarrow> http_error + key list" where
  "decode_keys S [] = Inr []"
| "decode_keys S (s # ss) =
     bind_res (or_fail invalid_field (sv_PublicKeyFromBase58 S s)) (\<lambda>k.
     bind_res (decode_keys S ss) (\<lambda>ks. Inr (k # ks)))"

fun decode_groups :: "Service \<Rightarrow> string list list \<Rightarrow> http_error + key list list" where
  "decode_groups S [] = Inr []"
| "decode_groups S (g # gs) =
     bind_res (decode_keys S g) (\<lambda>k. bind_res (decode_groups S gs) (\<lambda>ks. Inr (k # ks)))"

text \<open>The checks on a bundle before its digests are put into the three fixed slots.\<close>

definition check_bundle :: "bundle_proof option \<Rightarrow> http_error + unit" where
  "check_bundle b =
     (case b of
        None \<Rightarrow> Inr ()
      | Some bp \<Rightarrow>
          if bp_Total bp < MinBundleTotal \<or> bp_Total bp > MaxBundleTotal then Inl invalid_field
          else if bp_ThisIndex bp \<ge> bp_Total bp then Inl invalid_field
          else if int (length (bp_OtherDigests bp)) \<noteq> uint (bp_Total bp) - 1 then Inl invalid_field
          else Inr ())"

definition bundle_slot :: "bundle_proof option \<Rightarrow> nat \<Rightarrow> hash" where
  "bundle_slot b i =
     (case b of
        None \<Rightarrow> zero_arr
      | Some bp \<Rightarrow> if i < length (bp_OtherDigests bp) then bp_OtherDigests bp ! i else zero_arr)"

definition assembleRequestSignatureIx ::
    "Service \<Rightarrow> requestSignatureSubmitRequest \<Rightarrow> key \<Rightarrow> http_error + instruction \<times> key \<times> key \<times> key list" where
  "assembleRequestSignatureIx S r payer =
     (let dwallet = pubkey_of S (rs_DwalletAddress r); initHash = hex32z (rs_InitAuthorityHash r);
          msgDigest = hex32z (rs_MessageDigestHex r); metaDigest = hex32z (rs_MetadataDigestHex r);
          userPK = hex32z (rs_UserPubkeyHex r); dest = hex32z (rs_DestinationHex r);
          ikaMetaDigest = (if rs_IkaMsgMetadataDigestHex r = [] then zero_arr
            else hex32z (rs_IkaMsgMetadataDigestHex r)) in
      bind_res (ika_pubkey (rs_IkaDWalletPubkey r)) (\<lambda>ikaPK.
      bind_res (or_fail pda_failed (EnginePDA (sv_Solana S) (sv_ProgramID S) dwallet initHash)) (\<lambda>(engine, _).
      bind_res (or_fail pda_failed (CPIAuthorityPDA (sv_Solana S) (sv_ProgramID S))) (\<lambda>(cpiAuth, cpiBump).
      bind_res (or_fail pda_failed (MessageApprovalPDA (sv_Solana S) (rs_IkaCurve r) ikaPK
        (rs_SignatureScheme r) (arr_bytes msgDigest) (arr_bytes ikaMetaDigest))) (\<lambda>(msgApproval, msgApprovalBump).
      bind_res (decode_keys S (rs_RulePDAs r)) (\<lambda>givenPDAs.
      bind_res (ok_or invalid_field (length (rs_RuleAuxAccounts r) \<le> length givenPDAs)) (\<lambda>_.
      bind_res (decode_groups S (rs_RuleAuxAccounts r)) (\<lambda>givenAux.
      bind_res
        (if rs_AutoResolveAccounts r then
           (if \<not> sv_RPCClient S then Inl no_rpc
            else or_fail (HttpError 502 ''resolve_failed'')
              (resolveTrailingAccounts S engine (rs_AssetIndex r) AppliesNormal))
         else Inr (givenPDAs, givenAux)) (\<lambda>(rulePDAs, ruleAux).
      (case sv_Rand32 S of
         None \<Rightarrow> Inl (HttpError 500 ''internal'')
       | Some callerProgram \<Rightarrow>
      bind_res (check_bundle (rs_Bundle r)) (\<lambda>_.
      bind_res (or_fail build_failed (RequestSignature (sv_Solana S)
        \<lparr>ProgramID = sv_ProgramID S, Engine = engine, DWallet = dwallet, InitAuthorityHash = initHash,
         Payer = payer, Coordinator = IkaCoordinator (sv_Solana S), MessageApproval = msgApproval,
         CPIAuthority = cpiAuth, CallerProgram = callerProgram,
         DWalletProgram = IkaDwalletProgramID (sv_Solana S), CPIAuthorityBump = cpiBump,
         MessageDigest = msgDigest, MetadataDigest = metaDigest, UserPubkey = userPK,
         SignatureScheme = rs_SignatureScheme r, MessageApprovalBump = msgApprovalBump,
         RulePDAs = rulePDAs, RuleAux = ruleAux, ReqDestination = dest,
         RulesGenerationSeen = rs_RulesGeneration r, Amount = rs_Amount r, AssetIndex = rs_AssetIndex r,
         IkaMsgMetadataDigest = ikaMetaDigest,
         SigningKind = (case rs_Swap r of None \<Rightarrow> 0 | Some _ \<Rightarrow> 1),
         SwapFromToken = (case rs_Swap r of None \<Rightarrow> zero_arr | Some w \<Rightarrow> sw_FromToken w),
         SwapToToken = (case rs_Swap r of None \<Rightarrow> zero_arr | Some w \<Rightarrow> sw_ToToken w),
         SwapMinAmountOut = (case rs_Swap r of None \<Rightarrow> 0 | Some w \<Rightarrow> sw_MinAmountOut w),
         SwapChainTag = (case rs_Swap r of None \<Rightarrow> zero_arr | Some w \<Rightarrow> sw_ChainTag w),
         BundleTotal = (case rs_Bundle r of None \<Rightarrow> 0 | Some b \<Rightarrow> bp_Total b),
         BundleThisIndex = (case rs_Bundle r of None \<Rightarrow> 0 | Some b \<Rightarrow> bp_ThisIndex b),
         BundleOtherDigest1 = bundle_slot (rs_Bundle r) 0, BundleOtherDigest2 = bundle_slot (rs_Bundle r) 1,
         BundleOtherDigest3 = bundle_slot (rs_Bundle r) 2\<rparr>)) (\<lambda>main.
      Inr (main, engine, dwallet, concat ruleAux)))))))))))))"

definition buildRequestSignatureOwnerAuth ::
    "Service \<Rightarrow> requestSignatureSubmitRequest \<Rightarrow> key \<Rightarrow> key \<Rightarrow> http_error + instruction" where
  "buildRequestSignatureOwnerAuth S r engine dwallet =
     (case rs_OwnerSlot r of
        None \<Rightarrow> Inl (HttpError 400 ''owner_auth_required'')
      | Some m \<Rightarrow>
          if SignatureBase64 (rs_signed r) = [] then Inl (HttpError 400 ''owner_auth_required'')
          else
            bind_res (or_fail invalid_field (decode_slot m)) (\<lambda>ownerSlot.
            or_fail invalid_signature (BuildOwnerAuthPrecompile S
              \<lparr>oa_OwnerSlot = ownerSlot, oa_SignatureBase64 = SignatureBase64 (rs_signed r),
               oa_WebauthnAuthDataBase64 = WebauthnAuthDataBase64 (rs_signed r),
               oa_WebauthnCDJBase64 = WebauthnCDJBase64 (rs_signed r), oa_Engine = engine,
               oa_DWallet = dwallet, oa_MetadataDigest = hex32z (rs_MetadataDigestHex r),
               oa_Destination = hex32z (rs_DestinationHex r), oa_Amount = rs_Amount r,
               oa_SignatureScheme = rs_SignatureScheme r, oa_Swap = rs_Swap r, oa_Bundle = rs_Bundle r\<rparr>)))"

text \<open>\<open>[owner_auth_precompile, refresh_feed*, request_signature]\<close>: refreshing is best effort.\<close>

definition with_refresh :: "Service \<Rightarrow> instruction \<Rightarrow> key list \<Rightarrow> instruction \<Rightarrow> instruction list" where
  "with_refresh S precompile auxCaches mainIx =
     precompile #
     (case sv_OracleRefresher S of
        None \<Rightarrow> []
      | Some refresh \<Rightarrow>
          if auxCaches = [] then []
          else case refresh auxCaches of Inl _ \<Rightarrow> [] | Inr ixs \<Rightarrow> ixs) @ [mainIx]"

section \<open>Submitting a request\<close>

definition requestSignaturePlan :: "Service \<Rightarrow> requestSignatureSubmitRequest \<Rightarrow> http_error + submit_plan" where
  "requestSignaturePlan S r =
     bind_res (requireSubmitWiring S) (\<lambda>sponsor.
     bind_res (ok_or invalid_field (request_valid S r)) (\<lambda>_.
     bind_res (assembleRequestSignatureIx S r sponsor) (\<lambda>(mainIx, engine, dwallet, auxCaches).
     bind_res (buildRequestSignatureOwnerAuth S r engine dwallet) (\<lambda>ownerPrecompile.
     Inr \<lparr>pl_ixs = with_refresh S ownerPrecompile auxCaches mainIx, pl_action = ''request-signature'',
          pl_engine = engine, pl_dwallet = dwallet,
          pl_extra = json_obj [(''signature_scheme'', num (rs_SignatureScheme r)),
            (''rules_generation'', num (rs_RulesGeneration r))]\<rparr>))))"

definition requestSignatureSubmit ::
    "Service \<Rightarrow> requestSignatureSubmitRequest \<Rightarrow> tx_response outcome" where
  "requestSignatureSubmit S r =
     (case run_submit S (requestSignaturePlan S r) of
        (es, Inl e) \<Rightarrow> (es, Inl e)
      | (es, Inr t) \<Rightarrow>
          (case harvestPresign S (rs_MetadataDigestHex r) of
             (hs, presign) \<Rightarrow> (es @ hs,
               Inr (t\<lparr>ApprovalSlot := confirmApprovalSlot S (TxSignature t), PresignSessionIdHex := presign\<rparr>))))"

text \<open>The HTTP request carries neither a swap nor a bundle (\<open>json:"-"\<close>).\<close>

definition http_request :: "requestSignatureSubmitRequest \<Rightarrow> bool" where
  "http_request r \<longleftrightarrow> rs_Swap r = None \<and> rs_Bundle r = None"

record requestSignatureBuildResponse =
  qb_EngineAddress :: string
  qb_Instruction :: instructionJSON

definition requestSignatureBuild ::
    "Service \<Rightarrow> requestSignatureSubmitRequest \<Rightarrow> string \<Rightarrow> http_error + requestSignatureBuildResponse" where
  "requestSignatureBuild S r payerStr =
     bind_res (ok_or invalid_field (request_valid S r \<and> validateSolanaPubkey S payerStr)) (\<lambda>_.
     bind_res (or_fail invalid_field (sv_PublicKeyFromBase58 S payerStr)) (\<lambda>payer.
     bind_res (assembleRequestSignatureIx S r payer) (\<lambda>(mainIx, engine, _, _).
     Inr \<lparr>qb_EngineAddress = Base58 (sv_Solana S) engine, qb_Instruction = serializeInstruction S mainIx\<rparr>)))"

section \<open>Swaps\<close>

record SwapAuthorizeInput =
  sa_DwalletAddress :: string
  sa_InitAuthorityHashHex :: string
  sa_MessageDigestHex :: string
  sa_UserPubkeyHex :: string
  sa_SignatureScheme :: u16
  sa_IkaCurve :: u16
  sa_IkaDWalletPubkeyHex :: string
  sa_IkaMsgMetadataDigestHex :: string
  sa_DestinationHex :: string
  sa_Amount :: u64
  sa_AssetIndex :: u8
  sa_OwnerSlotHex :: string
  sa_signed :: signedSubmitFields
  sa_Swap :: "swap_meta option"
  sa_Bundle :: "bundle_proof option"

record AuthorizeResult =
  az_TxSignature :: string
  az_ApprovalSlot :: u64
  az_EngineAddress :: string
  az_MetadataDigestHex :: string

definition swapChallenge :: "Service \<Rightarrow> SwapAuthorizeInput \<Rightarrow> sign_error + hash \<times> key \<times> key" where
  "swapChallenge S a =
     bind_res (lift_err BadInput (sv_PublicKeyFromBase58 S (sa_DwalletAddress a))) (\<lambda>dwallet.
     bind_res (lift_err BadInput (mustHex32 (sa_InitAuthorityHashHex a))) (\<lambda>initHash.
     bind_res (lift_err BadInput (mustHex32 (sa_MessageDigestHex a))) (\<lambda>msgDigest.
     bind_res (lift_err BadInput (mustHex32 (sa_UserPubkeyHex a))) (\<lambda>userPK.
     bind_res (lift_err (\<lambda>_. BadInput ''engine pda'') (EnginePDA (sv_Solana S) (sv_ProgramID S) dwallet initHash)) (\<lambda>(engine, _).
     bind_res (lift_err BadInput (optionalHex32 (sa_DestinationHex a))) (\<lambda>dest.
     (case sa_Swap a of
        Some w \<Rightarrow> Inr (sv_sha S (SwapMetadataPreimage
          \<lparr>sm_Engine = engine, sm_DWallet = dwallet, sm_MessageDigest = msgDigest, sm_Destination = dest,
           sm_UserPubkey = userPK, sm_SignatureScheme = sa_SignatureScheme a, sm_RulesGeneration = 0,
           sm_FromAmount = sa_Amount a, sm_AssetIndex = sa_AssetIndex a, sm_FromToken = sw_FromToken w,
           sm_ToToken = sw_ToToken w, sm_MinAmountOut = sw_MinAmountOut w, sm_ChainTag = sw_ChainTag w\<rparr>),
           engine, dwallet)
      | None \<Rightarrow> Inr (sv_sha S (RequestMetadataPreimage
          \<lparr>rm_Engine = engine, rm_DWallet = dwallet, rm_MessageDigest = msgDigest, rm_Destination = dest,
           rm_UserPubkey = userPK, rm_SignatureScheme = sa_SignatureScheme a, rm_Path = 1,
           rm_RulesGeneration = 0, rm_Amount = sa_Amount a, rm_AssetIndex = sa_AssetIndex a\<rparr>),
           engine, dwallet))))))))"

definition SwapChallengeDigest :: "Service \<Rightarrow> SwapAuthorizeInput \<Rightarrow> sign_error + string" where
  "SwapChallengeDigest S a = bind_res (swapChallenge S a) (\<lambda>(meta, _, _). Inr (hex_lower (arr_bytes meta)))"

definition SwapOwnerAuthChallenge :: "Service \<Rightarrow> SwapAuthorizeInput \<Rightarrow> sign_error + owner_auth_challenge" where
  "SwapOwnerAuthChallenge S a =
     (if sa_OwnerSlotHex a = [] then Inl (BadInput ''owner_slot_hex is required'')
      else
        bind_res (lift_err BadInput (decodeMemberSlotHex (sa_OwnerSlotHex a))) (\<lambda>ownerSlot.
        bind_res (swapChallenge S a) (\<lambda>(meta, engine, dwallet).
        bind_res (lift_err BadInput (optionalHex32 (sa_DestinationHex a))) (\<lambda>dest.
        lift_err NotAuthorizable (ComputeOwnerAuthChallenge (sv_Solana S) (sv_sha S)
          \<lparr>oa_OwnerSlot = ownerSlot, oa_SignatureBase64 = [], oa_WebauthnAuthDataBase64 = [],
           oa_WebauthnCDJBase64 = [], oa_Engine = engine, oa_DWallet = dwallet, oa_MetadataDigest = meta,
           oa_Destination = dest, oa_Amount = sa_Amount a, oa_SignatureScheme = sa_SignatureScheme a,
           oa_Swap = sa_Swap a, oa_Bundle = sa_Bundle a\<rparr>)))))"

definition swap_request :: "SwapAuthorizeInput \<Rightarrow> hash \<Rightarrow> 32 arr \<Rightarrow> requestSignatureSubmitRequest" where
  "swap_request a metaDigest dest =
     \<lparr>rs_DwalletAddress = sa_DwalletAddress a, rs_InitAuthorityHash = sa_InitAuthorityHashHex a,
      rs_MessageDigestHex = sa_MessageDigestHex a, rs_MetadataDigestHex = hex_lower (arr_bytes metaDigest),
      rs_UserPubkeyHex = sa_UserPubkeyHex a, rs_SignatureScheme = sa_SignatureScheme a,
      rs_DestinationHex = hex_lower (arr_bytes dest), rs_RulesGeneration = 0, rs_RulePDAs = [],
      rs_RuleAuxAccounts = [], rs_AutoResolveAccounts = True, rs_IkaCurve = sa_IkaCurve a,
      rs_IkaDWalletPubkey = sa_IkaDWalletPubkeyHex a, rs_Amount = sa_Amount a, rs_AssetIndex = sa_AssetIndex a,
      rs_IkaMsgMetadataDigestHex = sa_IkaMsgMetadataDigestHex a, rs_OwnerSlot = None,
      rs_signed = \<lparr>SignatureBase64 = [], WebauthnAuthDataBase64 = [], WebauthnCDJBase64 = []\<rparr>,
      rs_Swap = sa_Swap a, rs_Bundle = sa_Bundle a\<rparr>"

text \<open>\<open>AuthorizeSwap\<close> up to \<open>SignAndSend\<close>: the instructions, the engine and the digest.\<close>

definition authorizePlan :: "Service \<Rightarrow> SwapAuthorizeInput \<Rightarrow> sign_error + instruction list \<times> key \<times> hash" where
  "authorizePlan S a =
     (if sa_OwnerSlotHex a = [] \<or> SignatureBase64 (sa_signed a) = [] then Inl OwnerAuthRequired
      else
        bind_res (lift_err BadInput (decodeMemberSlotHex (sa_OwnerSlotHex a))) (\<lambda>ownerSlot.
        (case sv_GasSponsor S of
           None \<Rightarrow> Inl NoSponsor
         | Some sponsor \<Rightarrow>
        bind_res (swapChallenge S a) (\<lambda>(metaDigest, _, _).
        bind_res (lift_err BadInput (optionalHex32 (sa_DestinationHex a))) (\<lambda>dest.
        bind_res (lift_err Assemble (assembleRequestSignatureIx S (swap_request a metaDigest dest) sponsor)) (\<lambda>(mainIx, engine, dwallet, auxCaches).
        bind_res (BuildOwnerAuthPrecompile S
          \<lparr>oa_OwnerSlot = ownerSlot, oa_SignatureBase64 = SignatureBase64 (sa_signed a),
           oa_WebauthnAuthDataBase64 = WebauthnAuthDataBase64 (sa_signed a),
           oa_WebauthnCDJBase64 = WebauthnCDJBase64 (sa_signed a), oa_Engine = engine, oa_DWallet = dwallet,
           oa_MetadataDigest = metaDigest, oa_Destination = dest, oa_Amount = sa_Amount a,
           oa_SignatureScheme = sa_SignatureScheme a, oa_Swap = sa_Swap a, oa_Bundle = sa_Bundle a\<rparr>) (\<lambda>precompile.
        Inr (with_refresh S precompile auxCaches mainIx, engine, metaDigest))))))))"

definition AuthorizeSwap :: "Service \<Rightarrow> SwapAuthorizeInput \<Rightarrow> effect list \<times> (sign_error + AuthorizeResult)" where
  "AuthorizeSwap S a =
     (case authorizePlan S a of
        Inl e \<Rightarrow> ([], Inl e)
      | Inr (ixs, engine, metaDigest) \<Rightarrow>
          (case sv_SignAndSend S ixs of
             Inl e \<Rightarrow> ([SendTx ixs], Inl (SendFailed e))
           | Inr sig \<Rightarrow> ([SendTx ixs],
               Inr \<lparr>az_TxSignature = sig, az_ApprovalSlot = confirmApprovalSlot S sig,
                 az_EngineAddress = Base58 (sv_Solana S) engine,
                 az_MetadataDigestHex = hex_lower (arr_bytes metaDigest)\<rparr>)))"

end
