(* ===== verification/IntentData.thy ===== *)
theory IntentData
  imports PolicySigning
begin

text \<open>
  Package \<open>intents\<close>: its data (\<open>types.go\<close>), the registry of chain families (\<open>chain_kinds.go\<close>), and
  the pure part of the orchestrator (\<open>orchestrator.go\<close>): what an intent asks the policy engine to
  authorize, and the owner's challenge for it. JSON values that are only passed on are strings.
\<close>

section \<open>Types\<close>

datatype intent_status =
    StatusPrepared
  | StatusAuthorizing
  | StatusApproving
  | StatusSigning
  | StatusBroadcasting
  | StatusSubmitted
  | StatusBroadcastUnknown
  | StatusSubmittedUnknown
  | StatusConfirmed
  | StatusSettled
  | StatusFailed
  | StatusExpired
  | StatusCancelled

record prepareRequest =
  pq_DwalletAddress :: string
  pq_DwalletPublicKeyHex :: string
  pq_OwnerPubkeyHex :: string
  pq_InitAuthorityHashHex :: string
  pq_IkaCurve :: u16
  pq_ChainNativeAddress :: string
  pq_ChainKind :: string
  pq_FromChain :: string
  pq_ToChain :: string
  pq_FromToken :: string
  pq_ToToken :: string
  pq_ToAddress :: string
  pq_FromAmount :: string
  pq_SlippageBps :: int

record ownerSignature =
  os_Kind :: string
  os_SignatureBase64 :: string
  os_WebAuthnAuthenticatorDataB64 :: string
  os_WebAuthnClientDataJSONB64 :: string

record challengeLeg =
  cl_Kind :: string
  cl_MessageDigestHex :: string
  cl_OwnerAuth :: owner_auth_challenge

record challengeResponse =
  ch_IntentID :: string
  ch_Challenges :: "challengeLeg list"

record submitRequest =
  sq_IntentID :: string
  sq_Passphrase :: string
  sq_OwnerSlotHex :: string
  sq_OwnerSignatures :: "ownerSignature list"

record submitResponse =
  su_IntentID :: string
  su_Status :: intent_status
  su_TxHash :: string

record Intent =
  it_ID :: string
  it_UserID :: string
  it_APIKeyID :: string
  it_ChainKind :: string
  it_FromChain :: string
  it_ToChain :: string
  it_FromToken :: string
  it_ToToken :: string
  it_FromAmount :: string
  it_QuotedAmountOut :: string
  it_QuotedAmountOutMin :: string
  it_IkaDwalletAddress :: string
  it_DwalletPublicKeyHex :: string
  it_OwnerPubkeyHex :: string
  it_InitAuthorityHashHex :: string
  it_IkaCurve :: u16
  it_ChainNativeAddress :: string
  it_ChainID :: string
  it_SignChainID :: string
  it_Status :: intent_status
  it_SignScheme :: u16
  it_SignMessageHex :: string
  it_MessageDigestHex :: string
  it_MessageMetadataHex :: string
  it_IkaMsgMetadataDigestHex :: string
  it_PolicyMetadataDigestHex :: string
  it_UnsignedTxB64 :: string
  it_UnsignedTxHash :: string
  it_RouteSnapshot :: string
  it_RiskSnapshot :: string
  it_ApprovalTxSig :: string
  it_ApprovalSlot :: u64
  it_PresignSessionID :: string
  it_SwapTxHash :: string
  it_EVMNonce :: u64
  it_ApproveUnsignedTxB64 :: string
  it_ApproveMessageHex :: string
  it_ApproveMessageDigestHex :: string
  it_ApproveTxHash :: string
  it_ExpiresAt :: int
  it_UpdatedAt :: int

text \<open>What the orchestrator is wired with, and the environment it runs in: \<open>or_numeric\<close>,
  \<open>or_pguuid\<close> and \<open>or_jsonb\<close> are PostgreSQL's reading and printing of a \<open>numeric\<close>, a \<open>uuid\<close> and a
  \<open>jsonb\<close>, \<open>or_uuid\<close> and \<open>or_base64\<close> what the validator's tags of these names accept.\<close>

record Orchestrator =
  or_authorizer :: Service
  or_audit :: bool
  or_webhooks :: bool
  or_ttl :: int
  or_numeric :: "string \<Rightarrow> string option"
  or_uuid :: "string \<Rightarrow> bool"
  or_base64 :: "string \<Rightarrow> bool"
  or_pguuid :: "string \<Rightarrow> string option"
  or_jsonb :: "string \<Rightarrow> string option"

section \<open>Chain families\<close>

definition registeredChainKinds :: "string list" where
  "registeredChainKinds = [''evm'', ''solana'', ''sui'']"

definition isRegisteredChainKind :: "string \<Rightarrow> bool" where
  "isRegisteredChainKind kind \<longleftrightarrow> kind \<in> set registeredChainKinds"

definition resolveSolanaFromAddress :: "Service \<Rightarrow> prepareRequest \<Rightarrow> http_error + string" where
  "resolveSolanaFromAddress S r =
     (case hex_decode (pq_DwalletPublicKeyHex r) of
        Some b \<Rightarrow> if length b \<noteq> 32 then Inl invalid_field else Inr (Base58 (sv_Solana S) (mk_arr b))
      | None \<Rightarrow> Inl invalid_field)"

definition resolveEVMFromAddress :: "prepareRequest \<Rightarrow> http_error + string" where
  "resolveEVMFromAddress r =
     (if pq_ChainNativeAddress r = [] then Inl invalid_field else Inr (pq_ChainNativeAddress r))"

definition resolveSuiFromAddress :: "prepareRequest \<Rightarrow> http_error + string" where
  "resolveSuiFromAddress r =
     (if pq_ChainNativeAddress r = [] then Inl invalid_field else Inr (pq_ChainNativeAddress r))"

definition resolveFromAddress :: "Service \<Rightarrow> prepareRequest \<Rightarrow> http_error + string" where
  "resolveFromAddress S r =
     (if pq_ChainKind r = ''solana'' then resolveSolanaFromAddress S r
      else if pq_ChainKind r = ''evm'' then resolveEVMFromAddress r
      else if pq_ChainKind r = ''sui'' then resolveSuiFromAddress r
      else Inl invalid_field)"

definition solanaTokenAddress32 :: "Service \<Rightarrow> string \<Rightarrow> string + 32 arr" where
  "solanaTokenAddress32 S tok = sv_PublicKeyFromBase58 S tok"

definition strip_0x :: "string \<Rightarrow> string" where
  "strip_0x s = (if take 2 s = ''0x'' \<or> take 2 s = ''0X'' then drop 2 s else s)"

definition evmTokenAddress32 :: "string \<Rightarrow> string + 32 arr" where
  "evmTokenAddress32 tok =
     (let s = strip_0x tok in
      if length s \<noteq> 40 then Inl ''expected 20-byte hex''
      else case hex_decode s of
        None \<Rightarrow> Inl ''hex''
      | Some b \<Rightarrow> Inr (mk_arr (replicate 12 0 @ b)))"

definition suiTokenAddress32 :: "Service \<Rightarrow> string \<Rightarrow> string + 32 arr" where
  "suiTokenAddress32 S tok =
     (if tok = [] then Inl ''sui token is empty'' else Inr (sv_sha S (ascii tok)))"

definition parseTokenAddress32 :: "Service \<Rightarrow> string \<Rightarrow> string \<Rightarrow> string + 32 arr" where
  "parseTokenAddress32 S tok chainKind =
     (if chainKind = ''solana'' then solanaTokenAddress32 S tok
      else if chainKind = ''evm'' then evmTokenAddress32 tok
      else if chainKind = ''sui'' then suiTokenAddress32 S tok
      else Inl ''unsupported chainKind'')"

section \<open>What an intent asks to be authorized\<close>

text \<open>The bytes of a string here are its characters: chain kinds are ASCII.\<close>

definition encodeChainTag :: "string \<Rightarrow> string + 8 arr" where
  "encodeChainTag chainKind =
     (if length chainKind = 0 \<or> length chainKind > 8 then Inl ''chain tag length''
      else if list_ex (\<lambda>b. b < 0x20 \<or> b > 0x7E) (ascii chainKind) then Inl ''non-printable''
      else Inr (mk_arr (ascii chainKind)))"

definition parseUintOrZero :: "string \<Rightarrow> u64" where
  "parseUintOrZero s =
     (if s = [] then 0 else case ParseUint 64 s of None \<Rightarrow> 0 | Some v \<Rightarrow> of_nat v)"

text \<open>\<open>strconv.Atoi\<close> returns the bound when the number is out of range.\<close>

definition atoiOrZero :: "string \<Rightarrow> int" where
  "atoiOrZero s =
     (case big_parse s of None \<Rightarrow> 0 | Some v \<Rightarrow> max (- (2 ^ 63)) (min (2 ^ 63 - 1) v))"

definition nonZeroDigest :: "string \<Rightarrow> string" where
  "nonZeroDigest hexStr =
     (if hexStr = [] then []
      else case hex_decode hexStr of
        None \<Rightarrow> []
      | Some b \<Rightarrow> if list_ex (\<lambda>x. x \<noteq> 0) b then hexStr else [])"

definition swapMetaFromIntent :: "Service \<Rightarrow> Intent \<Rightarrow> swap_meta option" where
  "swapMetaFromIntent S it =
     (case encodeChainTag (it_ChainKind it) of
        Inl _ \<Rightarrow> None
      | Inr tag \<Rightarrow>
          (case (parseTokenAddress32 S (it_FromToken it) (it_ChainKind it),
                 parseTokenAddress32 S (it_ToToken it) (it_ChainKind it)) of
             (Inr f, Inr t) \<Rightarrow>
               if f = t then None
               else Some \<lparr>sw_FromToken = f, sw_ToToken = t,
                      sw_MinAmountOut = parseUintOrZero (it_QuotedAmountOutMin it), sw_ChainTag = tag\<rparr>
           | _ \<Rightarrow> None))"

definition swapAuthInput :: "Intent \<Rightarrow> SwapAuthorizeInput" where
  "swapAuthInput it =
     \<lparr>sa_DwalletAddress = it_IkaDwalletAddress it, sa_InitAuthorityHashHex = it_InitAuthorityHashHex it,
      sa_MessageDigestHex = it_MessageDigestHex it, sa_UserPubkeyHex = it_OwnerPubkeyHex it,
      sa_SignatureScheme = it_SignScheme it, sa_IkaCurve = it_IkaCurve it,
      sa_IkaDWalletPubkeyHex = it_DwalletPublicKeyHex it,
      sa_IkaMsgMetadataDigestHex = nonZeroDigest (it_IkaMsgMetadataDigestHex it),
      sa_DestinationHex = [], sa_Amount = parseUintOrZero (it_FromAmount it), sa_AssetIndex = 0,
      sa_OwnerSlotHex = [],
      sa_signed = \<lparr>SignatureBase64 = [], WebauthnAuthDataBase64 = [], WebauthnCDJBase64 = []\<rparr>,
      sa_Swap = None, sa_Bundle = None\<rparr>"

definition authInputWithDigest :: "Intent \<Rightarrow> string \<Rightarrow> SwapAuthorizeInput" where
  "authInputWithDigest it msgDigest = (swapAuthInput it)\<lparr>sa_MessageDigestHex := msgDigest\<rparr>"

definition digest_failed :: http_error where
  "digest_failed = HttpError 500 ''metadata_digest_failed''"

definition computeLegMetadataDigest :: "Service \<Rightarrow> Intent \<Rightarrow> bytes \<Rightarrow> swap_meta option \<Rightarrow> http_error + hash" where
  "computeLegMetadataDigest S it msgDigest swap =
     bind_res (or_fail digest_failed (SwapChallengeDigest S
       ((swapAuthInput it)\<lparr>sa_MessageDigestHex := hex_lower msgDigest, sa_Swap := swap\<rparr>))) (\<lambda>dig.
     or_fail digest_failed (mustHex32 dig))"

text \<open>A persisted digest, decoded: \<open>hex.DecodeString\<close> and the check for 32 bytes.\<close>

definition persisted_digest :: "string \<Rightarrow> http_error + bytes" where
  "persisted_digest s =
     (case hex_decode s of
        Some b \<Rightarrow> if length b \<noteq> 32 then Inl (HttpError 500 ''digest_decode'') else Inr b
      | None \<Rightarrow> Inl (HttpError 500 ''digest_decode''))"

section \<open>The owner's challenge\<close>

definition buildSingleChallengeLeg ::
    "Service \<Rightarrow> Intent \<Rightarrow> string \<Rightarrow> string \<Rightarrow> string \<Rightarrow> swap_meta option \<Rightarrow> http_error + challengeLeg" where
  "buildSingleChallengeLeg S it kind msgDigest ownerSlotHex swap =
     bind_res (or_fail (HttpError 400 ''challenge_failed'') (SwapOwnerAuthChallenge S
       ((swapAuthInput it)\<lparr>sa_MessageDigestHex := msgDigest, sa_OwnerSlotHex := ownerSlotHex, sa_Swap := swap\<rparr>))) (\<lambda>ch.
     Inr \<lparr>cl_Kind = kind, cl_MessageDigestHex = msgDigest, cl_OwnerAuth = ch\<rparr>)"

definition bundle_proof_for :: "u8 \<Rightarrow> hash \<Rightarrow> bundle_proof" where
  "bundle_proof_for i other = \<lparr>bp_Total = 2, bp_ThisIndex = i, bp_OtherDigests = [other]\<rparr>"

definition buildBundleChallengeLeg :: "Service \<Rightarrow> Intent \<Rightarrow> string \<Rightarrow> hash \<Rightarrow> http_error + challengeLeg" where
  "buildBundleChallengeLeg S it ownerSlotHex swapMeta =
     bind_res (or_fail (HttpError 400 ''challenge_failed'') (SwapOwnerAuthChallenge S
       ((swapAuthInput it)\<lparr>sa_MessageDigestHex := it_ApproveMessageDigestHex it, sa_OwnerSlotHex := ownerSlotHex,
          sa_Bundle := Some (bundle_proof_for 0 swapMeta)\<rparr>))) (\<lambda>ch.
     Inr \<lparr>cl_Kind = ''bundle'', cl_MessageDigestHex = it_MessageDigestHex it, cl_OwnerAuth = ch\<rparr>)"

text \<open>\<open>Challenge\<close> once the intent is loaded.\<close>

definition challenge_of :: "Service \<Rightarrow> Intent \<Rightarrow> string \<Rightarrow> int \<Rightarrow> http_error + challengeResponse" where
  "challenge_of S it ownerSlotHex now =
     bind_res (ok_or (HttpError 409 ''expired'') (\<not> now > it_ExpiresAt it)) (\<lambda>_.
     let swapMeta = swapMetaFromIntent S it in
     bind_res
       (if it_ApproveMessageDigestHex it \<noteq> [] then
          bind_res (persisted_digest (it_ApproveMessageDigestHex it)) (\<lambda>approveDigest.
          bind_res (persisted_digest (it_MessageDigestHex it)) (\<lambda>swapDigest.
          bind_res (computeLegMetadataDigest S it approveDigest None) (\<lambda>_.
          bind_res (computeLegMetadataDigest S it swapDigest swapMeta) (\<lambda>swapMetaDigest.
          buildBundleChallengeLeg S it ownerSlotHex swapMetaDigest))))
        else buildSingleChallengeLeg S it ''swap'' (it_MessageDigestHex it) ownerSlotHex swapMeta) (\<lambda>leg.
     Inr \<lparr>ch_IntentID = it_ID it, ch_Challenges = [leg]\<rparr>))"

section \<open>Submission input\<close>

text \<open>The tags of \<open>ownerSignature\<close> and \<open>submitRequest\<close>; an absent optional field is empty.\<close>

definition owner_signature_valid :: "Orchestrator \<Rightarrow> ownerSignature \<Rightarrow> bool" where
  "owner_signature_valid W s \<longleftrightarrow> os_Kind s \<in> {''swap'', ''approve''}
     \<and> os_SignatureBase64 s \<noteq> [] \<and> or_base64 W (os_SignatureBase64 s)
     \<and> omitempty (or_base64 W) (os_WebAuthnAuthenticatorDataB64 s)
     \<and> omitempty (or_base64 W) (os_WebAuthnClientDataJSONB64 s)"

definition submit_valid :: "Orchestrator \<Rightarrow> submitRequest \<Rightarrow> bool" where
  "submit_valid W r \<longleftrightarrow> or_uuid W (sq_IntentID r) \<and> 12 \<le> length (sq_Passphrase r)
     \<and> length (sq_OwnerSlotHex r) = 68 \<and> 1 \<le> length (sq_OwnerSignatures r) \<and> length (sq_OwnerSignatures r) \<le> 2
     \<and> list_all (owner_signature_valid W) (sq_OwnerSignatures r)"

definition find_signature :: "ownerSignature list \<Rightarrow> string \<Rightarrow> ownerSignature option" where
  "find_signature sigs kind = find (\<lambda>s. os_Kind s = kind) sigs"

definition validateOwnerSignatures :: "ownerSignature list \<Rightarrow> bool \<Rightarrow> http_error + unit" where
  "validateOwnerSignatures sigs needApprove =
     (if sigs = [] then Inl (HttpError 400 ''owner_auth_required'')
      else if needApprove then
        (if length sigs \<noteq> 1 \<or> os_Kind (hd sigs) \<noteq> ''bundle'' then Inl (HttpError 400 ''owner_auth_bundle_required'')
         else Inr ())
      else if length sigs \<noteq> 1 \<or> os_Kind (hd sigs) \<noteq> ''swap'' then Inl (HttpError 400 ''owner_auth_swap_required'')
      else Inr ())"

text \<open>The input of an authorization at submission: the owner's signature put into the intent's.\<close>

definition signed_input ::
    "SwapAuthorizeInput \<Rightarrow> string \<Rightarrow> ownerSignature \<Rightarrow> swap_meta option \<Rightarrow> bundle_proof option \<Rightarrow> SwapAuthorizeInput" where
  "signed_input a ownerSlotHex s swap bundle =
     a\<lparr>sa_OwnerSlotHex := ownerSlotHex,
       sa_signed := \<lparr>SignatureBase64 = os_SignatureBase64 s,
         WebauthnAuthDataBase64 = os_WebAuthnAuthenticatorDataB64 s,
         WebauthnCDJBase64 = os_WebAuthnClientDataJSONB64 s\<rparr>,
       sa_Swap := swap, sa_Bundle := bundle\<rparr>"

text \<open>The authorization input of the swap leg, with its bundle proof in the two-step case, and of
  the approve leg.\<close>

definition swap_leg_bundle :: "Service \<Rightarrow> Intent \<Rightarrow> http_error + bundle_proof option" where
  "swap_leg_bundle S it =
     (if it_ApproveMessageDigestHex it = [] then Inr None
      else
        bind_res (persisted_digest (it_ApproveMessageDigestHex it)) (\<lambda>approveDigest.
        bind_res (computeLegMetadataDigest S it approveDigest None) (\<lambda>approveMetaDigest.
        Inr (Some (bundle_proof_for 1 approveMetaDigest)))))"

definition approve_leg_bundle :: "Service \<Rightarrow> Intent \<Rightarrow> http_error + bundle_proof" where
  "approve_leg_bundle S it =
     bind_res (persisted_digest (it_MessageDigestHex it)) (\<lambda>swapDigest.
     bind_res (computeLegMetadataDigest S it swapDigest (swapMetaFromIntent S it)) (\<lambda>swapMetaDigest.
     Inr (bundle_proof_for 0 swapMetaDigest)))"

definition swap_leg_input ::
    "Service \<Rightarrow> Intent \<Rightarrow> string \<Rightarrow> ownerSignature \<Rightarrow> bundle_proof option \<Rightarrow> SwapAuthorizeInput" where
  "swap_leg_input S it ownerSlotHex s bundle =
     signed_input (swapAuthInput it) ownerSlotHex s (swapMetaFromIntent S it) bundle"

definition approve_leg_input ::
    "Intent \<Rightarrow> string \<Rightarrow> ownerSignature \<Rightarrow> bundle_proof \<Rightarrow> SwapAuthorizeInput" where
  "approve_leg_input it ownerSlotHex s bundle =
     signed_input (authInputWithDigest it (it_ApproveMessageDigestHex it)) ownerSlotHex s None (Some bundle)"

end
