(* ===== verification/IntentFlow.thy ===== *)
theory IntentFlow
  imports IntentData
begin

text \<open>
  The orchestrator (\<open>orchestrator.go\<close>) and the reconciler (\<open>reconciler.go\<close>) as programs: every call of
  the store, the policy engine, the two backends and the clock is an \<open>op\<close> whose answer the rest of
  the program depends on. \<open>db_apply\<close> is what PostgreSQL does on the calls of the store (\<open>store.go\<close>).
  Metrics and logs are left out.
\<close>

section \<open>Calls and answers\<close>

record ibApproval =
  ap_UnsignedTxB64 :: string
  ap_MessageToSignHex :: string
  ap_MessageDigestHex :: string

record ibPrepareResult =
  ib_ChainKind :: string
  ib_ChainID :: int
  ib_SignChainID :: string
  ib_SignScheme :: int
  ib_ChainNativeAddress :: string
  ib_UnsignedTxB64 :: string
  ib_MessageToSignHex :: string
  ib_MessageDigestHex :: string
  ib_UnsignedTxHash :: string
  ib_AmountOut :: string
  ib_AmountOutMin :: string
  ib_TransactionFeeUSD :: string
  ib_NativeFeeEstimate :: string
  ib_RouteSnapshot :: string
  ib_EVMNonce :: u64
  ib_Approval :: "ibApproval option"

record ikaPrepareMsg =
  pm_PreprocessedHex :: string
  pm_DigestHex :: string
  pm_MessageMetadataHex :: string
  pm_IkaMsgMetadataDigestHex :: string
  pm_Scheme :: int

record sign_body =
  sg_DwalletAddress :: string
  sg_Passphrase :: string
  sg_MessageHex :: string
  sg_Scheme :: u16
  sg_ApprovalTxSignature :: string
  sg_ApprovalSlot :: u64
  sg_MessageMetadataHex :: string
  sg_PresignSessionIdHex :: string

record finalize_body =
  fb_ChainKind :: string
  fb_UnsignedTxB64 :: string
  fb_SignatureB64 :: string
  fb_SignerPubkeyHex :: string
  fb_ChainID :: int

datatype leg = ApproveLeg | SwapLeg

text \<open>\<open>Finalize\<close> carries, besides the body, the leg and the intent \<open>broadcastTx\<close> is called for.\<close>

datatype op =
    GetForUser string string
  | CASStatus string intent_status intent_status
  | SetStatus string intent_status
  | SetError string intent_status
  | SaveApproval string string u64 string string
  | SaveERC20Approve string string
  | SaveRisk string string
  | SaveBroadcast string intent_status string
  | InsertPrepared Intent
  | ListOpenOlderThan int nat
  | Now
  | IbPrepare prepareRequest string
  | IkaPrepareMessage string string
  | IkaAddresses string
  | NativeBalance string int string
  | DeriveMessage string string
  | AuthorizeSwapCall SwapAuthorizeInput
  | HarvestPresignCall string string
  | FirePrefetchCall string string string
  | EvaluateSwapRisk string string string string string string
  | IkaSign sign_body
  | Finalize leg string finalize_body
  | EvmReceipt string string
  | TxStatus string string string
  | AuditAppend string Intent string
  | PublishWebhook string Intent string

text \<open>\<open>AErr\<close>: the call failed in transport or in the database; \<open>AStatus\<close>: a status other than 200;
  \<open>AUnreadable\<close>: a body that does not parse.\<close>

datatype ans =
    AErr
  | AStatus nat
  | AUnreadable
  | ADone
  | ANotFound
  | AConflict
  | AInFlight
  | ARow Intent
  | ARows "Intent list"
  | AInserted string int
  | ATime int
  | APrepared ibPrepareResult
  | AMessage ikaPrepareMsg
  | AAddresses "string list"
  | ABalance string
  | ADerived string string string
  | AAuth AuthorizeResult
  | AText string
  | ASignature string
  | AFinal string bool
  | AReceipt bool bool
  | AChainStatus string

datatype 'r prog = Ret 'r | Do op "ans \<Rightarrow> 'r prog"

primrec bind_prog :: "'a prog \<Rightarrow> ('a \<Rightarrow> 'b prog) \<Rightarrow> 'b prog" where
  "bind_prog (Ret r) f = f r"
| "bind_prog (Do c k) f = Do c (\<lambda>a. bind_prog (k a) f)"

text \<open>The rest of a function after a call that returned an error or a value.\<close>

definition bind_ok :: "(http_error + 'a) prog \<Rightarrow> ('a \<Rightarrow> (http_error + 'b) prog) \<Rightarrow> (http_error + 'b) prog" where
  "bind_ok p f = bind_prog p (\<lambda>r. case r of Inl e \<Rightarrow> Ret (Inl e) | Inr x \<Rightarrow> f x)"

definition pure_ok :: "http_error + 'a \<Rightarrow> ('a \<Rightarrow> (http_error + 'b) prog) \<Rightarrow> (http_error + 'b) prog" where
  "pure_ok r f = (case r of Inl e \<Rightarrow> Ret (Inl e) | Inr x \<Rightarrow> f x)"

text \<open>What an answer holds, if it is of the expected kind.\<close>

definition row_of :: "ans \<Rightarrow> Intent option" where
  "row_of a = (case a of ARow it \<Rightarrow> Some it | _ \<Rightarrow> None)"

definition rows_of :: "ans \<Rightarrow> Intent list option" where
  "rows_of a = (case a of ARows its \<Rightarrow> Some its | _ \<Rightarrow> None)"

definition inserted_of :: "ans \<Rightarrow> string option" where
  "inserted_of a = (case a of AInserted i _ \<Rightarrow> Some i | _ \<Rightarrow> None)"

definition clock_of :: "ans \<Rightarrow> int option" where
  "clock_of a = (case a of ATime t \<Rightarrow> Some t | _ \<Rightarrow> None)"

definition prepared_of :: "ans \<Rightarrow> ibPrepareResult option" where
  "prepared_of a = (case a of APrepared pr \<Rightarrow> Some pr | _ \<Rightarrow> None)"

definition message_of :: "ans \<Rightarrow> ikaPrepareMsg option" where
  "message_of a = (case a of AMessage pm \<Rightarrow> Some pm | _ \<Rightarrow> None)"

definition addresses_of :: "ans \<Rightarrow> string list option" where
  "addresses_of a = (case a of AAddresses as \<Rightarrow> Some as | _ \<Rightarrow> None)"

definition balance_of :: "ans \<Rightarrow> string option" where
  "balance_of a = (case a of ABalance s \<Rightarrow> Some s | _ \<Rightarrow> None)"

definition derived_of :: "ans \<Rightarrow> (string \<times> string \<times> string) option" where
  "derived_of a = (case a of ADerived m d h \<Rightarrow> Some (m, d, h) | _ \<Rightarrow> None)"

definition auth_of :: "ans \<Rightarrow> AuthorizeResult option" where
  "auth_of a = (case a of AAuth r \<Rightarrow> Some r | _ \<Rightarrow> None)"

definition signature_of :: "ans \<Rightarrow> string option" where
  "signature_of a = (case a of ASignature s \<Rightarrow> Some s | _ \<Rightarrow> None)"

definition final_of :: "ans \<Rightarrow> (string \<times> bool) option" where
  "final_of a = (case a of AFinal h unknown \<Rightarrow> Some (h, unknown) | _ \<Rightarrow> None)"

definition receipt_of :: "ans \<Rightarrow> (bool \<times> bool) option" where
  "receipt_of a = (case a of AReceipt found ok \<Rightarrow> Some (found, ok) | _ \<Rightarrow> None)"

definition chain_status_of :: "ans \<Rightarrow> string option" where
  "chain_status_of a = (case a of AChainStatus s \<Rightarrow> Some s | _ \<Rightarrow> None)"

definition text_of :: "ans \<Rightarrow> string" where
  "text_of a = (case a of AText s \<Rightarrow> s | _ \<Rightarrow> [])"

definition time_of :: "ans \<Rightarrow> int" where
  "time_of a = (case a of ATime t \<Rightarrow> t | _ \<Rightarrow> 0)"

section \<open>Building a swap\<close>

definition trim_space :: "string \<Rightarrow> string" where
  "trim_space s =
     (let ws = (\<lambda>c. c \<in> {CHR '' '', CHR 0x09, CHR 0x0A, CHR 0x0B, CHR 0x0C, CHR 0x0D}) in
      rev (dropWhile ws (rev (dropWhile ws s))))"

definition lower_char :: "char \<Rightarrow> char" where
  "lower_char c = (let n = (of_char c :: nat) in if 65 \<le> n \<and> n \<le> 90 then char_of (n + 32) else c)"

definition normAddr :: "string \<Rightarrow> string" where
  "normAddr s =
     (let t = trim_space s in
      if take 2 t = ''0x'' \<or> take 2 t = ''0X'' then map lower_char t else t)"

definition verifyOwnDestination :: "string \<Rightarrow> string \<Rightarrow> (http_error + unit) prog" where
  "verifyOwnDestination dwalletAddress toAddress =
     Do (IkaAddresses dwalletAddress) (\<lambda>a. Ret (case addresses_of a of
         Some as \<Rightarrow>
           if list_ex (\<lambda>x. normAddr x = normAddr toAddress) as then Inr ()
           else Inl (HttpError 400 ''external_destination'')
       | None \<Rightarrow> Inl (HttpError 502 ''address_check_failed'')))"

definition upstreamUserError :: "nat \<Rightarrow> http_error" where
  "upstreamUserError st =
     (if st = 422 then HttpError 422 ''no_route''
      else if st = 429 then HttpError 429 ''backpressure''
      else HttpError 502 ''upstream_error'')"

definition prepare_error :: "ans \<Rightarrow> http_error" where
  "prepare_error a =
     (case a of AStatus st \<Rightarrow> upstreamUserError st
      | AUnreadable \<Rightarrow> HttpError 502 ''intents_bad_response''
      | _ \<Rightarrow> HttpError 502 ''intents_unavailable'')"

definition check_drift :: "ibPrepareResult \<Rightarrow> ikaPrepareMsg \<Rightarrow> http_error + unit" where
  "check_drift pr pm =
     (if ib_MessageDigestHex pr = [] then Inl (HttpError 502 ''missing_digest'')
      else if pm_DigestHex pm \<noteq> ib_MessageDigestHex pr then Inl (HttpError 502 ''sign_material_drift'')
      else if pm_Scheme pm \<noteq> ib_SignScheme pr then Inl (HttpError 502 ''scheme_mismatch'')
      else Inr ())"

definition buildSwap :: "Service \<Rightarrow> prepareRequest \<Rightarrow> (http_error + ibPrepareResult \<times> ikaPrepareMsg) prog" where
  "buildSwap S r =
     pure_ok (ok_or (HttpError 400 ''to_address_required'')
       (\<not> (pq_FromChain r \<noteq> pq_ToChain r \<and> pq_ToAddress r = []))) (\<lambda>_.
     bind_ok (if pq_ToAddress r \<noteq> [] then verifyOwnDestination (pq_DwalletAddress r) (pq_ToAddress r)
       else Ret (Inr ())) (\<lambda>_.
     pure_ok (resolveFromAddress S r) (\<lambda>fromAddress.
     Do (IbPrepare r fromAddress) (\<lambda>a. case prepared_of a of
         Some pr \<Rightarrow>
           Do (IkaPrepareMessage (ib_SignChainID pr) (ib_MessageToSignHex pr)) (\<lambda>b. case message_of b of
               Some pm \<Rightarrow> pure_ok (check_drift pr pm) (\<lambda>_. Ret (Inr (pr, pm)))
             | None \<Rightarrow> Ret (Inl (HttpError 502 (if b = AUnreadable then ''prepare_message_bad_response''
                 else ''prepare_message_failed''))))
       | None \<Rightarrow> Ret (Inl (prepare_error a))))))"

record simulateResponse =
  sm_ChainKind :: string
  sm_AmountOut :: string
  sm_AmountOutMin :: string
  sm_TransactionFeeUSD :: string
  sm_NativeFeeEstimate :: string
  sm_RequiresApproval :: bool
  sm_MessageDigestHex :: string
  sm_Route :: string
  sm_Risk :: string

definition Simulate :: "Orchestrator \<Rightarrow> string \<Rightarrow> prepareRequest \<Rightarrow> (http_error + simulateResponse) prog" where
  "Simulate W userID r =
     bind_ok (buildSwap (or_authorizer W) r) (\<lambda>(pr, pm).
     Do (EvaluateSwapRisk (pm_PreprocessedHex pm) (ib_SignChainID pr) (pm_DigestHex pm) (pq_DwalletAddress r)
       (pq_DwalletPublicKeyHex r) userID) (\<lambda>risk.
     Ret (Inr \<lparr>sm_ChainKind = ib_ChainKind pr, sm_AmountOut = ib_AmountOut pr,
       sm_AmountOutMin = ib_AmountOutMin pr, sm_TransactionFeeUSD = ib_TransactionFeeUSD pr,
       sm_NativeFeeEstimate = ib_NativeFeeEstimate pr, sm_RequiresApproval = (ib_Approval pr \<noteq> None),
       sm_MessageDigestHex = pm_DigestHex pm, sm_Route = ib_RouteSnapshot pr, sm_Risk = text_of risk\<rparr>)))"

section \<open>Preparing\<close>

text \<open>Only a confirmed shortfall fails; an estimate that is no positive number skips the check.\<close>

definition checkNativeBalance :: "string \<Rightarrow> int \<Rightarrow> string \<Rightarrow> string \<Rightarrow> (http_error + unit) prog" where
  "checkNativeBalance chainKind chainID address needStr =
     (case big_parse (trim_space needStr) of
        None \<Rightarrow> Ret (Inr ())
      | Some need \<Rightarrow>
          if need \<le> 0 then Ret (Inr ())
          else Do (NativeBalance chainKind chainID address) (\<lambda>a. Ret (case balance_of a of
              Some s \<Rightarrow>
                (case big_parse s of
                   None \<Rightarrow> Inr ()
                 | Some bal \<Rightarrow> if bal < need then Inl (HttpError 400 ''insufficient_native_balance'') else Inr ())
            | None \<Rightarrow> Inr ())))"

definition new_intent ::
    "string \<Rightarrow> string \<Rightarrow> prepareRequest \<Rightarrow> ibPrepareResult \<Rightarrow> ikaPrepareMsg \<Rightarrow> int \<Rightarrow> Intent" where
  "new_intent userID apiKeyID r pr pm expiresAt =
     \<lparr>it_ID = [], it_UserID = userID, it_APIKeyID = apiKeyID, it_ChainKind = pq_ChainKind r,
      it_FromChain = pq_FromChain r, it_ToChain = pq_ToChain r, it_FromToken = pq_FromToken r,
      it_ToToken = pq_ToToken r, it_FromAmount = pq_FromAmount r, it_QuotedAmountOut = ib_AmountOut pr,
      it_QuotedAmountOutMin = ib_AmountOutMin pr, it_IkaDwalletAddress = pq_DwalletAddress r,
      it_DwalletPublicKeyHex = pq_DwalletPublicKeyHex r, it_OwnerPubkeyHex = pq_OwnerPubkeyHex r,
      it_InitAuthorityHashHex = pq_InitAuthorityHashHex r, it_IkaCurve = pq_IkaCurve r,
      it_ChainNativeAddress = ib_ChainNativeAddress pr, it_ChainID = IntDec (ib_ChainID pr),
      it_SignChainID = ib_SignChainID pr, it_Status = StatusPrepared,
      it_SignScheme = word_of_int (pm_Scheme pm), it_SignMessageHex = pm_PreprocessedHex pm,
      it_MessageDigestHex = pm_DigestHex pm, it_MessageMetadataHex = pm_MessageMetadataHex pm,
      it_IkaMsgMetadataDigestHex = pm_IkaMsgMetadataDigestHex pm, it_PolicyMetadataDigestHex = [],
      it_UnsignedTxB64 = ib_UnsignedTxB64 pr, it_UnsignedTxHash = ib_UnsignedTxHash pr,
      it_RouteSnapshot = ib_RouteSnapshot pr, it_RiskSnapshot = [], it_ApprovalTxSig = [],
      it_ApprovalSlot = 0, it_PresignSessionID = [], it_SwapTxHash = [], it_EVMNonce = ib_EVMNonce pr,
      it_ApproveUnsignedTxB64 = [], it_ApproveMessageHex = [], it_ApproveMessageDigestHex = [],
      it_ApproveTxHash = [], it_ExpiresAt = expiresAt, it_UpdatedAt = 0\<rparr>"

definition add_approval :: "Intent \<Rightarrow> ibApproval \<Rightarrow> ikaPrepareMsg \<Rightarrow> Intent" where
  "add_approval it ap pm =
     it\<lparr>it_ApproveUnsignedTxB64 := ap_UnsignedTxB64 ap, it_ApproveMessageHex := pm_PreprocessedHex pm,
        it_ApproveMessageDigestHex := pm_DigestHex pm\<rparr>"

definition prepare_approval :: "string \<Rightarrow> ibApproval option \<Rightarrow> Intent \<Rightarrow> (http_error + Intent) prog" where
  "prepare_approval signChainID approval it =
     (case approval of
        None \<Rightarrow> Ret (Inr it)
      | Some ap \<Rightarrow>
          Do (IkaPrepareMessage signChainID (ap_MessageToSignHex ap)) (\<lambda>a. Ret (case message_of a of
              Some pm \<Rightarrow>
                if ap_MessageDigestHex ap = [] then Inl (HttpError 502 ''missing_approve_digest'')
                else if pm_DigestHex pm \<noteq> ap_MessageDigestHex ap then Inl (HttpError 502 ''approve_drift'')
                else Inr (add_approval it ap pm)
            | None \<Rightarrow> Inl (HttpError 502 ''approve_prepare_failed''))))"

record prepareResponse =
  pp_IntentID :: string
  pp_Status :: intent_status
  pp_ChainKind :: string
  pp_AmountOut :: string
  pp_AmountOutMin :: string
  pp_TransactionFeeUSD :: string
  pp_NativeFeeEstimate :: string
  pp_MessageDigestHex :: string
  pp_ExpiresAt :: int
  pp_Route :: string

definition prefetch_input :: "Service \<Rightarrow> Intent \<Rightarrow> SwapAuthorizeInput" where
  "prefetch_input S it = (swapAuthInput it)\<lparr>sa_Swap := swapMetaFromIntent S it\<rparr>"

definition insert_intent ::
    "Intent \<Rightarrow> ibPrepareResult \<Rightarrow> ikaPrepareMsg \<Rightarrow> (http_error + prepareResponse) prog" where
  "insert_intent it pr pm =
     Do (InsertPrepared it) (\<lambda>a. Ret (case inserted_of a of
         Some newID \<Rightarrow> Inr
           \<lparr>pp_IntentID = newID, pp_Status = it_Status it, pp_ChainKind = it_ChainKind it,
            pp_AmountOut = ib_AmountOut pr, pp_AmountOutMin = ib_AmountOutMin pr,
            pp_TransactionFeeUSD = ib_TransactionFeeUSD pr, pp_NativeFeeEstimate = ib_NativeFeeEstimate pr,
            pp_MessageDigestHex = pm_DigestHex pm, pp_ExpiresAt = it_ExpiresAt it, pp_Route = ib_RouteSnapshot pr\<rparr>
       | None \<Rightarrow> Inl (if a = AInFlight then HttpError 409 ''evm_in_flight'' else HttpError 500 ''persist_failed'')))"

definition Prepare ::
    "Orchestrator \<Rightarrow> string \<Rightarrow> string \<Rightarrow> prepareRequest \<Rightarrow> (http_error + prepareResponse) prog" where
  "Prepare W userID apiKeyID r =
     (let S = or_authorizer W in
      bind_ok (buildSwap S r) (\<lambda>(pr, pm).
      bind_ok (checkNativeBalance (pq_ChainKind r) (ib_ChainID pr) (ib_ChainNativeAddress pr) (ib_NativeFeeEstimate pr)) (\<lambda>_.
      Do Now (\<lambda>now.
      bind_ok (prepare_approval (ib_SignChainID pr) (ib_Approval pr)
        (new_intent userID apiKeyID r pr pm (time_of now + or_ttl W))) (\<lambda>it.
      (case SwapChallengeDigest S (prefetch_input S it) of
         Inr digest \<Rightarrow>
           Do (FirePrefetchCall userID (pq_DwalletAddress r) digest) (\<lambda>_.
           insert_intent (it\<lparr>it_PolicyMetadataDigestHex := digest\<rparr>) pr pm)
       | Inl _ \<Rightarrow> insert_intent it pr pm))))))"

section \<open>Challenge and status\<close>

definition load_intent :: "string \<Rightarrow> string \<Rightarrow> (http_error + Intent) prog" where
  "load_intent i userID =
     Do (GetForUser i userID) (\<lambda>a. Ret (case row_of a of
         Some it \<Rightarrow> Inr it
       | None \<Rightarrow> Inl (if a = ANotFound then HttpError 404 ''not_found'' else HttpError 500 ''load_failed'')))"

definition Challenge :: "Orchestrator \<Rightarrow> string \<Rightarrow> string \<Rightarrow> string \<Rightarrow> (http_error + challengeResponse) prog" where
  "Challenge W userID intentID ownerSlotHex =
     bind_ok (load_intent intentID userID) (\<lambda>it.
     Do Now (\<lambda>now. Ret (challenge_of (or_authorizer W) it ownerSlotHex (time_of now))))"

record statusResponse =
  st_IntentID :: string
  st_Status :: intent_status
  st_ChainKind :: string
  st_FromToken :: string
  st_ToToken :: string
  st_FromAmount :: string
  st_AmountOut :: string
  st_TxHash :: string
  st_UpdatedAt :: int

definition Status :: "string \<Rightarrow> string \<Rightarrow> (http_error + statusResponse) prog" where
  "Status userID i =
     bind_ok (load_intent i userID) (\<lambda>it. Ret (Inr
       \<lparr>st_IntentID = it_ID it, st_Status = it_Status it, st_ChainKind = it_ChainKind it,
        st_FromToken = it_FromToken it, st_ToToken = it_ToToken it, st_FromAmount = it_FromAmount it,
        st_AmountOut = it_QuotedAmountOut it, st_TxHash = it_SwapTxHash it, st_UpdatedAt = it_UpdatedAt it\<rparr>))"


section \<open>Submitting\<close>

record submitAuth =
  au_Passphrase :: string
  au_OwnerSlotHex :: string
  au_Sigs :: "ownerSignature list"

definition respond :: "Intent \<Rightarrow> (http_error + submitResponse) prog" where
  "respond it = Ret (Inr \<lparr>su_IntentID = it_ID it, su_Status = it_Status it, su_TxHash = it_SwapTxHash it\<rparr>)"

definition currentState :: "string \<Rightarrow> Intent \<Rightarrow> (http_error + submitResponse) prog" where
  "currentState userID it =
     Do (GetForUser (it_ID it) userID) (\<lambda>a. case row_of a of Some cur \<Rightarrow> respond cur | None \<Rightarrow> respond it)"

text \<open>\<open>SetError(FAILED)\<close> and the error answer.\<close>

definition fail_with :: "Intent \<Rightarrow> http_error \<Rightarrow> (http_error + 'a) prog" where
  "fail_with it e = Do (SetError (it_ID it) StatusFailed) (\<lambda>_. Ret (Inl e))"

definition appendAudit :: "Orchestrator \<Rightarrow> Intent \<Rightarrow> string \<Rightarrow> string \<Rightarrow> 'r prog \<Rightarrow> 'r prog" where
  "appendAudit W it action txHash p =
     (if \<not> or_audit W \<or> it_APIKeyID it = [] then p else Do (AuditAppend action it txHash) (\<lambda>_. p))"

definition publish :: "Orchestrator \<Rightarrow> string \<Rightarrow> Intent \<Rightarrow> string \<Rightarrow> 'r prog \<Rightarrow> 'r prog" where
  "publish W event it txHash p =
     (if \<not> or_webhooks W \<or> it_APIKeyID it = [] \<or> \<not> or_uuid W (it_APIKeyID it) then p
      else Do (PublishWebhook event it txHash) (\<lambda>_. p))"

definition compare_derived :: "ans \<Rightarrow> string \<Rightarrow> string \<Rightarrow> string \<Rightarrow> http_error + unit" where
  "compare_derived a wantMsg wantDigest wantTxHash =
     (case derived_of a of
         Some (m, d, h) \<Rightarrow>
           if m \<noteq> wantMsg \<or> d \<noteq> wantDigest \<or> (wantTxHash \<noteq> [] \<and> h \<noteq> wantTxHash)
           then Inl (HttpError 409 ''payload_drift'') else Inr ()
       | None \<Rightarrow> Inl (HttpError 502 ''revalidate_failed''))"

definition revalidate :: "string \<Rightarrow> string \<Rightarrow> string \<Rightarrow> string \<Rightarrow> string \<Rightarrow> (http_error + unit) prog" where
  "revalidate chainKind unsignedTxB64 wantMsg wantDigest wantTxHash =
     Do (DeriveMessage chainKind unsignedTxB64) (\<lambda>a. Ret (compare_derived a wantMsg wantDigest wantTxHash))"

definition sign_answer :: "ans \<Rightarrow> string + string" where
  "sign_answer a =
     (case signature_of a of
         Some s \<Rightarrow> if s = [] then Inl ''sign returned no signature'' else Inr s
       | None \<Rightarrow> Inl (if a = AUnreadable then ''sign returned no signature'' else ''sign failed''))"

definition signWithApproval ::
    "Intent \<Rightarrow> string \<Rightarrow> string \<Rightarrow> AuthorizeResult \<Rightarrow> string \<Rightarrow> string \<Rightarrow> (string + string) prog" where
  "signWithApproval it msgHex metadataHex auth presign passphrase =
     Do (IkaSign
       \<lparr>sg_DwalletAddress = it_IkaDwalletAddress it, sg_Passphrase = passphrase, sg_MessageHex = msgHex,
        sg_Scheme = it_SignScheme it, sg_ApprovalTxSignature = az_TxSignature auth,
        sg_ApprovalSlot = az_ApprovalSlot auth, sg_MessageMetadataHex = metadataHex,
        sg_PresignSessionIdHex = presign\<rparr>) (\<lambda>a. Ret (sign_answer a))"

definition authorizeAndSignSwap ::
    "string \<Rightarrow> Intent \<Rightarrow> SwapAuthorizeInput \<Rightarrow> string \<Rightarrow> (string + string) prog" where
  "authorizeAndSignSwap userID it input passphrase =
     Do (AuthorizeSwapCall input) (\<lambda>a. case auth_of a of
         Some auth \<Rightarrow>
           Do (HarvestPresignCall userID (az_MetadataDigestHex auth)) (\<lambda>h.
           Do (SaveApproval (it_ID it) (az_TxSignature auth) (az_ApprovalSlot auth) (text_of h) (az_MetadataDigestHex auth)) (\<lambda>_.
           signWithApproval it (it_SignMessageHex it) (it_MessageMetadataHex it) auth (text_of h) passphrase))
       | None \<Rightarrow> Ret (Inl ''authorize''))"

definition authorizeAndSignWithBundle ::
    "string \<Rightarrow> Intent \<Rightarrow> string \<Rightarrow> string \<Rightarrow> SwapAuthorizeInput \<Rightarrow> string \<Rightarrow> (string + string) prog" where
  "authorizeAndSignWithBundle userID it msgHex metadataHex input passphrase =
     Do (AuthorizeSwapCall input) (\<lambda>a. case auth_of a of
         Some auth \<Rightarrow>
           Do (HarvestPresignCall userID (az_MetadataDigestHex auth)) (\<lambda>h.
           signWithApproval it msgHex metadataHex auth (text_of h) passphrase)
       | None \<Rightarrow> Ret (Inl ''authorize''))"

text \<open>The transaction hash and whether the outcome is unknown; a failed call is unknown.\<close>

definition broadcast_answer :: "ans \<Rightarrow> string \<times> bool" where
  "broadcast_answer a = (case final_of a of Some r \<Rightarrow> r | None \<Rightarrow> ([], True))"

definition broadcastTx :: "leg \<Rightarrow> Intent \<Rightarrow> string \<Rightarrow> string \<Rightarrow> (string \<times> bool) prog" where
  "broadcastTx l it unsignedTxB64 sigB64 =
     Do (Finalize l (it_ID it)
       \<lparr>fb_ChainKind = it_ChainKind it, fb_UnsignedTxB64 = unsignedTxB64, fb_SignatureB64 = sigB64,
        fb_SignerPubkeyHex = it_DwalletPublicKeyHex it, fb_ChainID = atoiOrZero (it_ChainID it)\<rparr>)
       (\<lambda>a. Ret (broadcast_answer a))"

definition checkReceiptOnce :: "Intent \<Rightarrow> string \<Rightarrow> (bool \<times> bool) prog" where
  "checkReceiptOnce it txHash =
     Do (EvmReceipt (it_ChainID it) txHash) (\<lambda>a. Ret (case receipt_of a of Some r \<Rightarrow> r | None \<Rightarrow> (False, False)))"

text \<open>One round: a check, a look at the clock, a wait of two seconds or the end of the request
  (\<open>AErr\<close>). After \<open>maxWait div 2 + 1\<close> waits the deadline has passed, so as many rounds suffice.\<close>

fun poll_rounds :: "nat \<Rightarrow> Intent \<Rightarrow> string \<Rightarrow> int \<Rightarrow> (bool \<times> bool) prog" where
  "poll_rounds 0 it txHash deadline = Ret (False, False)"
| "poll_rounds (Suc n) it txHash deadline =
     bind_prog (checkReceiptOnce it txHash) (\<lambda>(found, ok).
       if found then Ret (found, ok)
       else Do Now (\<lambda>t. case clock_of t of
           Some now \<Rightarrow> if now > deadline then Ret (False, False) else poll_rounds n it txHash deadline
         | None \<Rightarrow> Ret (False, False)))"

definition pollApproveReceipt :: "Intent \<Rightarrow> string \<Rightarrow> nat \<Rightarrow> (bool \<times> bool) prog" where
  "pollApproveReceipt it txHash maxWait =
     Do Now (\<lambda>now. poll_rounds (maxWait div 2 + 2) it txHash (time_of now + int maxWait))"

definition status_event :: "intent_status \<Rightarrow> string" where
  "status_event s = ''intent.swap.'' @ (if s = StatusSubmitted then ''submitted'' else ''broadcast_unknown'')"

definition sign_and_broadcast ::
    "Orchestrator \<Rightarrow> string \<Rightarrow> Intent \<Rightarrow> SwapAuthorizeInput \<Rightarrow> string \<Rightarrow> (http_error + submitResponse) prog" where
  "sign_and_broadcast W userID it input passphrase =
     bind_prog (authorizeAndSignSwap userID it input passphrase) (\<lambda>r. case r of
         Inl _ \<Rightarrow> fail_with it (HttpError 502 ''sign_failed'')
       | Inr sig \<Rightarrow>
           Do (SetStatus (it_ID it) StatusBroadcasting) (\<lambda>_.
           bind_prog (broadcastTx SwapLeg it (it_UnsignedTxB64 it) sig) (\<lambda>(txHash, unknown).
           let st = (if unknown then StatusBroadcastUnknown else StatusSubmitted);
               it' = it\<lparr>it_Status := st, it_SwapTxHash := txHash\<rparr> in
           Do (SaveBroadcast (it_ID it) st txHash) (\<lambda>_.
           appendAudit W it' ''intent.swap.submit'' txHash
             (publish W (status_event st) it' txHash (respond it'))))))"

definition runSwap ::
    "Orchestrator \<Rightarrow> string \<Rightarrow> Intent \<Rightarrow> submitAuth \<Rightarrow> (http_error + submitResponse) prog" where
  "runSwap W userID it auth =
     bind_prog (revalidate (it_ChainKind it) (it_UnsignedTxB64 it) (it_SignMessageHex it)
       (it_MessageDigestHex it) (it_UnsignedTxHash it)) (\<lambda>r. case r of
         Inl e \<Rightarrow> fail_with it e
       | Inr _ \<Rightarrow>
           (case find_signature (au_Sigs auth)
               (if it_ApproveMessageDigestHex it \<noteq> [] then ''bundle'' else ''swap'') of
              None \<Rightarrow> fail_with it (HttpError 400 (if it_ApproveMessageDigestHex it \<noteq> []
                then ''owner_auth_missing_bundle'' else ''owner_auth_missing_swap''))
            | Some s \<Rightarrow>
                (case swap_leg_bundle (or_authorizer W) it of
                   Inl e \<Rightarrow> fail_with it e
                 | Inr bundle \<Rightarrow>
                     sign_and_broadcast W userID it
                       (swap_leg_input (or_authorizer W) it (au_OwnerSlotHex auth) s bundle) (au_Passphrase auth))))"

definition continueAfterApprove ::
    "Orchestrator \<Rightarrow> string \<Rightarrow> Intent \<Rightarrow> string \<Rightarrow> submitAuth \<Rightarrow> nat \<Rightarrow> (http_error + submitResponse) prog" where
  "continueAfterApprove W userID it approveTxHash auth maxWait =
     (if approveTxHash = [] then Ret (Inr \<lparr>su_IntentID = it_ID it, su_Status = StatusApproving, su_TxHash = []\<rparr>)
      else
        bind_prog (pollApproveReceipt it approveTxHash maxWait) (\<lambda>(found, ok).
        if \<not> found then Ret (Inr \<lparr>su_IntentID = it_ID it, su_Status = StatusApproving, su_TxHash = it_SwapTxHash it\<rparr>)
        else if \<not> ok then fail_with it (HttpError 502 ''approve_reverted'')
        else Do (CASStatus (it_ID it) StatusApproving StatusSigning) (\<lambda>a.
          if a = ADone then runSwap W userID it auth else currentState userID it)))"

definition runApprove ::
    "Orchestrator \<Rightarrow> string \<Rightarrow> Intent \<Rightarrow> submitAuth \<Rightarrow> (http_error + submitResponse) prog" where
  "runApprove W userID it auth =
     bind_prog (revalidate ''evm'' (it_ApproveUnsignedTxB64 it) (it_ApproveMessageHex it)
       (it_ApproveMessageDigestHex it) []) (\<lambda>r. case r of
         Inl e \<Rightarrow> fail_with it e
       | Inr _ \<Rightarrow>
           (case find_signature (au_Sigs auth) ''bundle'' of
              None \<Rightarrow> fail_with it (HttpError 400 ''owner_auth_missing_bundle'')
            | Some s \<Rightarrow>
                (case approve_leg_bundle (or_authorizer W) it of
                   Inl e \<Rightarrow> fail_with it e
                 | Inr bundle \<Rightarrow>
                     bind_prog (authorizeAndSignWithBundle userID it (it_ApproveMessageHex it) []
                       (approve_leg_input it (au_OwnerSlotHex auth) s bundle) (au_Passphrase auth)) (\<lambda>x. case x of
                         Inl _ \<Rightarrow> fail_with it (HttpError 502 ''approve_failed'')
                       | Inr sig \<Rightarrow>
                           bind_prog (broadcastTx ApproveLeg it (it_ApproveUnsignedTxB64 it) sig) (\<lambda>(txHash, _).
                           Do (SaveERC20Approve (it_ID it) txHash) (\<lambda>_.
                           appendAudit W it ''intent.swap.approve'' txHash
                             (continueAfterApprove W userID it txHash auth 15)))))))"

definition resumeApprove ::
    "Orchestrator \<Rightarrow> string \<Rightarrow> Intent \<Rightarrow> submitAuth \<Rightarrow> (http_error + submitResponse) prog" where
  "resumeApprove W userID it auth = continueAfterApprove W userID it (it_ApproveTxHash it) auth 3"

definition submit_prepared ::
    "Orchestrator \<Rightarrow> string \<Rightarrow> Intent \<Rightarrow> submitAuth \<Rightarrow> (http_error + submitResponse) prog" where
  "submit_prepared W userID it auth =
     Do Now (\<lambda>now.
     if time_of now > it_ExpiresAt it then
       Do (SetStatus (it_ID it) StatusExpired) (\<lambda>_. Ret (Inl (HttpError 409 ''expired'')))
     else
       Do (CASStatus (it_ID it) StatusPrepared StatusAuthorizing) (\<lambda>a.
       if a \<noteq> ADone then currentState userID it
       else
         Do (EvaluateSwapRisk (it_SignMessageHex it) (it_SignChainID it) (it_MessageDigestHex it)
           (it_IkaDwalletAddress it) (it_DwalletPublicKeyHex it) userID) (\<lambda>risk.
         Do (SaveRisk (it_ID it) (text_of risk)) (\<lambda>_.
         if it_ApproveMessageDigestHex it \<noteq> [] then runApprove W userID it auth
         else runSwap W userID it auth))))"

definition Submit :: "Orchestrator \<Rightarrow> string \<Rightarrow> submitRequest \<Rightarrow> (http_error + submitResponse) prog" where
  "Submit W userID r =
     bind_ok (load_intent (sq_IntentID r) userID) (\<lambda>it.
     pure_ok (validateOwnerSignatures (sq_OwnerSignatures r) (it_ApproveMessageDigestHex it \<noteq> [])) (\<lambda>_.
     let auth = \<lparr>au_Passphrase = sq_Passphrase r, au_OwnerSlotHex = sq_OwnerSlotHex r, au_Sigs = sq_OwnerSignatures r\<rparr> in
     if it_Status it = StatusPrepared then submit_prepared W userID it auth
     else if it_Status it = StatusApproving then resumeApprove W userID it auth
     else respond it))"

section \<open>Reconciling\<close>

definition poll :: "Orchestrator \<Rightarrow> Intent \<Rightarrow> unit prog" where
  "poll W it =
     (if it_SwapTxHash it = [] then Ret ()
      else Do (TxStatus (it_SwapTxHash it) (it_FromChain it) (it_ToChain it)) (\<lambda>a. case chain_status_of a of
          Some s \<Rightarrow>
            if s = ''DONE'' then
              Do (SetStatus (it_ID it) StatusSettled) (\<lambda>_.
              publish W ''intent.swap.settled'' (it\<lparr>it_Status := StatusSettled\<rparr>) (it_SwapTxHash it) (Ret ()))
            else if s = ''FAILED'' then
              Do (SetError (it_ID it) StatusFailed) (\<lambda>_.
              publish W ''intent.swap.failed'' (it\<lparr>it_Status := StatusFailed\<rparr>) (it_SwapTxHash it) (Ret ()))
            else Ret ()
        | None \<Rightarrow> Ret ()))"

definition resolve_approving :: "Intent \<Rightarrow> int \<Rightarrow> unit prog" where
  "resolve_approving it now =
     (let late = (if now - it_UpdatedAt it > 10 * 60 then Do (SetError (it_ID it) StatusFailed) (\<lambda>_. Ret ()) else Ret ()) in
      if it_ApproveTxHash it \<noteq> [] then
        Do (EvmReceipt (it_ChainID it) (it_ApproveTxHash it)) (\<lambda>a.
          if a = AReceipt True False then Do (SetError (it_ID it) StatusFailed) (\<lambda>_. Ret ()) else late)
      else late)"

definition resolve :: "Orchestrator \<Rightarrow> Intent \<Rightarrow> int \<Rightarrow> unit prog" where
  "resolve W it now =
     (case it_Status it of
        StatusPrepared \<Rightarrow>
          if now > it_ExpiresAt it then Do (SetStatus (it_ID it) StatusExpired) (\<lambda>_. Ret ()) else Ret ()
      | StatusAuthorizing \<Rightarrow> Do (SetError (it_ID it) StatusFailed) (\<lambda>_. Ret ())
      | StatusSigning \<Rightarrow> Do (SetError (it_ID it) StatusFailed) (\<lambda>_. Ret ())
      | StatusApproving \<Rightarrow> resolve_approving it now
      | StatusBroadcasting \<Rightarrow> Do (SaveBroadcast (it_ID it) StatusBroadcastUnknown (it_SwapTxHash it)) (\<lambda>_. Ret ())
      | StatusSubmitted \<Rightarrow> poll W it
      | StatusBroadcastUnknown \<Rightarrow> poll W it
      | StatusSubmittedUnknown \<Rightarrow> poll W it
      | _ \<Rightarrow> Ret ())"

fun resolve_all :: "Orchestrator \<Rightarrow> Intent list \<Rightarrow> int \<Rightarrow> unit prog" where
  "resolve_all W [] now = Ret ()"
| "resolve_all W (it # its) now = bind_prog (resolve W it now) (\<lambda>_. resolve_all W its now)"

text \<open>\<open>staleAfter\<close> is two minutes; a hundred intents at a time.\<close>

definition sweep :: "Orchestrator \<Rightarrow> unit prog" where
  "sweep W =
     Do (ListOpenOlderThan 120 100) (\<lambda>a. case rows_of a of
         Some its \<Rightarrow> Do Now (\<lambda>now. resolve_all W its (time_of now))
       | None \<Rightarrow> Ret ())"

end
