(* ===== verification/AuditLog.thy ===== *)
theory AuditLog
  imports JsonCanon IntentFlow
begin

text \<open>
  Package \<open>audit\<close>: what an event may carry (\<open>sanitize.go\<close>, \<open>clear_signing.go\<close>), the hash chain per tenant
  (\<open>audit.go\<close>), the worker that signs it (\<open>worker.go\<close>, \<open>signer.go\<close>), the snapshots (\<open>snapshot.go\<close>), the
  reads (\<open>routes.go\<close>), and the events two packages send (\<open>api/bridges.go\<close>). A time is the text it is
  hashed as; the names of columns are those of migrations 006, 027 and 028.
\<close>

section \<open>Events and what is kept of them\<close>

text \<open>A Go value of a payload: a string, a \<open>[]any\<close>, a \<open>map[string]any\<close> in the order an iteration visits
  it, or any other value, given by its JSON.\<close>

datatype goval =
    VStr string
  | VSlice "goval list"
  | VMap "(string \<times> goval) list"
  | VOther json

fun to_json :: "goval \<Rightarrow> json" where
  "to_json (VStr s) = JStr s"
| "to_json (VSlice vs) = JArr (map to_json vs)"
| "to_json (VMap kvs) = JObj (map (\<lambda>(k, v). (k, to_json v)) kvs)"
| "to_json (VOther j) = j"

record Event =
  ae_APIKeyID :: string
  ae_EventType :: string
  ae_ResourceType :: string
  ae_ResourceID :: string
  ae_Actor :: string
  ae_Payload :: "(string \<times> goval) list"
  ae_CUConsumed :: "int option"

definition maxStringValueBytes :: nat where "maxStringValueBytes = 1024"
definition maxPayloadKeys :: nat where "maxPayloadKeys = 32"

definition globalAllowlist :: "string list" where
  "globalAllowlist =
     [''id'', ''actor'', ''reason'', ''tenant_id'', ''request_id'', ''trace_id'', ''version'', ''duration_ms'',
      ''cu_consumed'', ''status'', ''previous_status'', ''next_status'']"

definition clearSigningKeys :: "string list" where
  "clearSigningKeys =
     [''clear_signing_version'', ''operation'', ''challenge_hash_base64'', ''human_message'', ''fields_hash_base64'']"

definition withClearSigning :: "string list \<Rightarrow> string list" where
  "withClearSigning base = base @ clearSigningKeys"

definition perEventAllowlist :: "(string \<times> string list) list" where
  "perEventAllowlist =
    [(''api_key.created'', [''name'', ''scopes'', ''ip_allowlist'']),
     (''api_key.revoked'', [''name'']),
     (''subscription.assigned'', [''plan_code'', ''billing_cycle'']),
     (''dwallet.dkg.submitted'', [''dwallet_address'', ''scheme'', ''tx_signature'']),
     (''dwallet.sign.submitted'', [''dwallet_address'', ''scheme'', ''tx_signature'', ''operation'']),
     (''dwallet.sign.completed'', [''dwallet_address'', ''tx_signature'']),
     (''dwallet.presign.completed'', [''dwallet_address'', ''tx_signature'']),
     (''policy.deployed'', [''policy_id'', ''dwallet_address'', ''tx_signature'']),
     (''policy.updated'', withClearSigning [''policy_id'', ''dwallet_address'', ''tx_signature'', ''operation'']),
     (''policy.paused'', withClearSigning [''policy_id'', ''dwallet_address'']),
     (''policy.resumed'', withClearSigning [''policy_id'', ''dwallet_address'']),
     (''policy.revoked'', withClearSigning [''policy_id'', ''dwallet_address'']),
     (''policy.signature_request.approved'', [''policy_id'', ''dwallet_address'', ''request_id'']),
     (''policy.signature_request.rejected'', [''policy_id'', ''dwallet_address'', ''request_id'', ''reason'']),
     (''policy.simulate.executed'', [''policy_id'', ''dwallet_address'', ''outcome'']),
     (''recovery.primary.used'', withClearSigning [''dwallet_address'', ''policy_id'', ''tx_signature'', ''scheme'']),
     (''recovery.quorum.used'', withClearSigning [''dwallet_address'', ''policy_id'', ''tx_signature'',
        ''session_address'', ''members_used'']),
     (''recovery.policy.changed'', withClearSigning [''dwallet_address'', ''policy_id'', ''operation'']),
     (''recovery.oidc.jwt_staged'', [''dwallet_address'', ''policy_id'', ''tx_signature'', ''staging_address'']),
     (''recovery.oidc.session_opened'', withClearSigning [''dwallet_address'', ''policy_id'', ''tx_signature'',
        ''session_address'', ''provider'', ''issuer_hash'', ''audience_hash'', ''subject_hash'']),
     (''recovery.oidc.primary_used'', withClearSigning [''dwallet_address'', ''policy_id'', ''tx_signature'',
        ''session_address'']),
     (''recovery.oidc.session_closed'', [''dwallet_address'', ''policy_id'', ''tx_signature'', ''session_address'']),
     (''oidc.id_token.validated'', [''provider'', ''issuer_hash'', ''audience_hash'', ''subject_hash'', ''outcome'']),
     (''oidc.id_token.rejected'', [''provider'', ''outcome'']),
     (''oauth.handshake.started'', [''provider'', ''outcome'']),
     (''oauth.handshake.completed'', [''provider'', ''outcome'']),
     (''oauth.handshake.rejected'', [''provider'', ''outcome'', ''reason'']),
     (''oauth.token_exchanged'', [''provider'', ''outcome'', ''reason'']),
     (''future_sign.armed'', [''trigger_type'', ''dwallet_address'', ''expires_at'']),
     (''future_sign.fired'', [''trigger_type'', ''dwallet_address'', ''tx_signature'']),
     (''future_sign.expired'', [''trigger_type'', ''dwallet_address'']),
     (''future_sign.cancelled'', [''trigger_type'', ''dwallet_address'']),
     (''webhook.endpoint.created'', [''url'', ''events'']),
     (''webhook.endpoint.updated'', [''url'', ''events'', ''active'']),
     (''webhook.endpoint.deleted'', [''url'']),
     (''webhook.delivery.retry'', [''url'', ''attempt'', ''outcome'']),
     (''idempotency.replayed'', [''idempotency_key'', ''route''])]"

definition allowed_keys :: "string \<Rightarrow> string list" where
  "allowed_keys eventType =
     globalAllowlist @ (case map_of perEventAllowlist eventType of None \<Rightarrow> [] | Some ks \<Rightarrow> ks)"

definition ellipsis :: string where "ellipsis = [CHR 0xE2, CHR 0x80, CHR 0xA6]"

fun clampValue :: "goval \<Rightarrow> goval" where
  "clampValue (VStr s) =
     (if length s > maxStringValueBytes then VStr (take maxStringValueBytes s @ ellipsis) else VStr s)"
| "clampValue (VSlice vs) = VSlice (take 64 (map clampValue vs))"
| "clampValue (VMap kvs) = VMap (take 16 (map (\<lambda>(k, v). (k, clampValue v)) kvs))"
| "clampValue (VOther j) = VOther j"

fun sanitize_loop :: "string list \<Rightarrow> nat \<Rightarrow> (string \<times> goval) list \<Rightarrow> (string \<times> goval) list" where
  "sanitize_loop allowed n [] = []"
| "sanitize_loop allowed n ((k, v) # r) =
     (if n \<ge> maxPayloadKeys then []
      else if k \<notin> set allowed then sanitize_loop allowed n r
      else (k, clampValue v) # sanitize_loop allowed (Suc n) r)"

definition sanitizePayload :: "string \<Rightarrow> (string \<times> goval) list \<Rightarrow> (string \<times> goval) list" where
  "sanitizePayload eventType p = sanitize_loop (allowed_keys eventType) 0 p"

text \<open>Written, read with \<open>UseNumber\<close>, and written again.\<close>

definition canonicalJSON :: "json \<Rightarrow> string option" where
  "canonicalJSON v = map_option marshal (unmarshal (marshal v))"

section \<open>The hand-rolled canonicalizer of clear signing\<close>

fun canonicalizeForJCS :: "json \<Rightarrow> string" where
  "canonicalizeForJCS (JObj kvs) =
     ''{'' @ joined '','' (map (\<lambda>(k, t). json_string k @ '':'' @ t) (as_map (map (\<lambda>(k, v). (k, canonicalizeForJCS v)) kvs))) @ ''}''"
| "canonicalizeForJCS (JArr vs) = ''['' @ joined '','' (map canonicalizeForJCS vs) @ '']''"
| "canonicalizeForJCS v = marshal v"

record ClearSigningPayload =
  cp_ClearSigningVersion :: string
  cp_Operation :: string
  cp_ChallengeHashBase64 :: string
  cp_HumanMessage :: string
  cp_FieldsHashBase64 :: string

definition hashFieldsJCS :: "(bytes \<Rightarrow> hash) \<Rightarrow> json \<Rightarrow> hash" where
  "hashFieldsJCS sha fs = sha (ascii (canonicalizeForJCS fs))"

definition BuildClearSigningPayload ::
    "(bytes \<Rightarrow> hash) \<Rightarrow> hash \<Rightarrow> string \<Rightarrow> string \<Rightarrow> string \<Rightarrow> json \<Rightarrow> string + ClearSigningPayload" where
  "BuildClearSigningPayload sha challengeHash humanMessage version operation fs =
     (if length humanMessage > MaxHumanMessageBytes then Inl ''audit: humanMessage exceeds 768 bytes''
      else Inr \<lparr>cp_ClearSigningVersion = version, cp_Operation = operation,
        cp_ChallengeHashBase64 = b64_encode (arr_bytes challengeHash), cp_HumanMessage = humanMessage,
        cp_FieldsHashBase64 = b64_encode (arr_bytes (hashFieldsJCS sha fs))\<rparr>)"

section \<open>Bridges\<close>

text \<open>\<open>au_uuid\<close> is \<open>uuid.Parse\<close> and \<open>String\<close>; \<open>au_float\<close> the text of a number after it has become a
  \<open>float64\<close>; \<open>au_lock\<close> is PostgreSQL's \<open>hashtext\<close>; \<open>au_text\<close> what its \<open>text\<close> columns take.\<close>

record audit_env =
  au_sha :: "bytes \<Rightarrow> hash"
  au_uuid :: "string \<Rightarrow> string option"
  au_float :: "string \<Rightarrow> string"
  au_lock :: "string \<Rightarrow> int"
  au_sign :: "bytes \<Rightarrow> bytes option"
  au_constraints :: "string list"
  au_maxRows :: nat
  au_maxBytes :: nat
  au_prefix :: string

fun from_json :: "audit_env \<Rightarrow> json \<Rightarrow> goval" where
  "from_json E (JStr s) = VStr s"
| "from_json E (JArr vs) = VSlice (map (from_json E) vs)"
| "from_json E (JObj kvs) = VMap (map (\<lambda>(k, v). (k, from_json E v)) kvs)"
| "from_json E (JNum t) = VOther (JNum (au_float E t))"
| "from_json E j = VOther j"

definition merge_extra :: "audit_env \<Rightarrow> string \<Rightarrow> (string \<times> goval) list \<Rightarrow> (string \<times> goval) list" where
  "merge_extra E extra payload =
     (if extra = [] then payload
      else case unmarshal extra of
        Some (JObj kvs) \<Rightarrow> fold (\<lambda>(k, v). AList.update k (from_json E v)) kvs payload
      | Some JNull \<Rightarrow> payload
      | _ \<Rightarrow> AList.update ''extra_raw'' (VStr extra) payload)"

definition policy_event_type :: "string \<Rightarrow> string" where
  "policy_event_type action =
     (if action = ''init'' then ''policy.deployed''
      else if action = ''request-signature'' then ''policy.signature_request.approved''
      else ''policy.updated'')"

definition AppendPolicyEngineEvent :: "audit_env \<Rightarrow> PolicyEngineAuditEvent \<Rightarrow> string + Event" where
  "AppendPolicyEngineEvent E ev =
     (case au_uuid E (ev_APIKeyID ev) of
        None \<Rightarrow> Inl ''policy engine audit: invalid api_key_id''
      | Some key \<Rightarrow> Inr
          \<lparr>ae_APIKeyID = key, ae_EventType = policy_event_type (ev_Action ev), ae_ResourceType = ''policy'',
           ae_ResourceID = ev_Engine ev, ae_Actor = ''api_key:'' @ ev_APIKeyID ev,
           ae_Payload = merge_extra E (ev_ExtraJSON ev)
             [(''action'', VStr (ev_Action ev)), (''engine'', VStr (ev_Engine ev)), (''dwallet'', VStr (ev_DWallet ev)),
              (''tx_signature'', VStr (ev_TxSignature ev))],
           ae_CUConsumed = None\<rparr>)"

fun status_text :: "intent_status \<Rightarrow> string" where
  "status_text StatusPrepared = ''PREPARED''"
| "status_text StatusAuthorizing = ''AUTHORIZING''"
| "status_text StatusApproving = ''APPROVING''"
| "status_text StatusSigning = ''SIGNING''"
| "status_text StatusBroadcasting = ''BROADCASTING''"
| "status_text StatusSubmitted = ''SUBMITTED''"
| "status_text StatusBroadcastUnknown = ''BROADCAST_UNKNOWN''"
| "status_text StatusSubmittedUnknown = ''SUBMITTED_UNKNOWN''"
| "status_text StatusConfirmed = ''CONFIRMED''"
| "status_text StatusSettled = ''SETTLED''"
| "status_text StatusFailed = ''FAILED''"
| "status_text StatusExpired = ''EXPIRED''"
| "status_text StatusCancelled = ''CANCELLED''"

text \<open>What the call \<open>AuditAppend\<close> of the intents becomes.\<close>

definition intent_event :: "audit_env \<Rightarrow> string \<Rightarrow> Intent \<Rightarrow> string \<Rightarrow> string + Event" where
  "intent_event E action it txHash =
     (case au_uuid E (it_APIKeyID it) of
        None \<Rightarrow> Inl ''intents audit: invalid api_key_id''
      | Some key \<Rightarrow> Inr
          \<lparr>ae_APIKeyID = key, ae_EventType = action, ae_ResourceType = ''intent'', ae_ResourceID = it_ID it,
           ae_Actor = it_UserID it,
           ae_Payload = [(''chain_kind'', VStr (it_ChainKind it)), (''from_token'', VStr (it_FromToken it)),
             (''to_token'', VStr (it_ToToken it)), (''tx_hash'', VStr txHash),
             (''status'', VStr (status_text (it_Status it)))],
           ae_CUConsumed = None\<rparr>)"

section \<open>The chain\<close>

record audit_row =
  ar_Seq :: nat
  ar_APIKeyID :: string
  ar_TS :: string
  ar_EventType :: string
  ar_ResourceType :: string
  ar_ResourceID :: string
  ar_Actor :: string
  ar_Payload :: string
  ar_CUConsumed :: "int option"
  ar_PrevHash :: bytes
  ar_EntryHash :: bytes
  ar_Signature :: "bytes option"

text \<open>The struct \<open>record\<close>, in the order of its fields; the payload is inserted as it is.\<close>

definition record_fields :: "audit_row \<Rightarrow> (string \<times> string) list" where
  "record_fields r =
     [(''api_key_id'', json_string (ar_APIKeyID r)), (''ts'', json_string (ar_TS r)), (''event_type'', json_string (ar_EventType r)),
      (''resource_type'', json_string (ar_ResourceType r)), (''resource_id'', json_string (ar_ResourceID r)),
      (''actor'', json_string (ar_Actor r)), (''payload'', ar_Payload r)]
     @ (case ar_CUConsumed r of None \<Rightarrow> [] | Some n \<Rightarrow> [(''cu_consumed'', IntDec n)])"

definition record_json :: "audit_row \<Rightarrow> string" where
  "record_json r = ''{'' @ joined '','' (map (\<lambda>(k, t). json_string k @ '':'' @ t) (record_fields r)) @ ''}''"

definition entry_hash :: "audit_env \<Rightarrow> audit_row \<Rightarrow> bytes" where
  "entry_hash E r = arr_bytes (au_sha E (ar_PrevHash r @ ascii (record_json r)))"

definition zero_hash :: bytes where "zero_hash = replicate 32 0"

text \<open>The rows of a tenant in the order of \<open>seq\<close>.\<close>

definition trail :: "string \<Rightarrow> audit_row list \<Rightarrow> audit_row list" where
  "trail key rows = sort_key ar_Seq (filter (\<lambda>r. ar_APIKeyID r = key) rows)"

definition prev_hash :: "string \<Rightarrow> audit_row list \<Rightarrow> bytes" where
  "prev_hash key rows =
     (if trail key rows = [] then zero_hash
      else let p = ar_EntryHash (last (trail key rows)) in if length p = 32 then p else zero_hash)"

text \<open>What a \<open>text\<close> column takes: UTF-8 without NUL.\<close>

definition pg_text :: "string \<Rightarrow> bool" where
  "pg_text s \<longleftrightarrow> valid_utf8 s \<and> CHR 0x00 \<notin> set s"

definition new_row :: "audit_env \<Rightarrow> Event \<Rightarrow> string \<Rightarrow> string \<Rightarrow> nat \<Rightarrow> bytes \<Rightarrow> audit_row" where
  "new_row E ev payloadJSON ts s prev =
     (let r = \<lparr>ar_Seq = s, ar_APIKeyID = ae_APIKeyID ev, ar_TS = ts, ar_EventType = ae_EventType ev,
         ar_ResourceType = ae_ResourceType ev, ar_ResourceID = ae_ResourceID ev, ar_Actor = ae_Actor ev,
         ar_Payload = payloadJSON, ar_CUConsumed = ae_CUConsumed ev, ar_PrevHash = prev, ar_EntryHash = [],
         ar_Signature = None\<rparr>
      in r\<lparr>ar_EntryHash := entry_hash E r\<rparr>)"

text \<open>The columns PostgreSQL checks, the range of \<open>int\<close> among them.\<close>

definition row_storable :: "audit_row \<Rightarrow> bool" where
  "row_storable r \<longleftrightarrow> pg_text (ar_TS r) \<and> pg_text (ar_APIKeyID r) \<and> pg_text (ar_EventType r)
     \<and> pg_text (ar_ResourceType r) \<and> pg_text (ar_ResourceID r) \<and> pg_text (ar_Actor r) \<and> pg_text (ar_Payload r)
     \<and> (case ar_CUConsumed r of None \<Rightarrow> True | Some n \<Rightarrow> - (2 ^ 31) \<le> n \<and> n < 2 ^ 31)"

text \<open>The guards of \<open>Append\<close> and the text of its payload.\<close>

definition append_payload :: "Event \<Rightarrow> string + string" where
  "append_payload ev =
     (if ae_EventType ev = [] \<or> ae_ResourceType ev = []
      then Inl ''audit: event_type and resource_type are required''
      else case canonicalJSON (to_json (VMap (sanitizePayload (ae_EventType ev) (ae_Payload ev)))) of
        None \<Rightarrow> Inl ''audit canonical payload'' | Some t \<Rightarrow> Inr t)"

text \<open>An append under way: it holds the advisory lock of its tenant, has read the head, and may have
  inserted its row, which nobody sees before the commit.\<close>

record appending =
  ap_event :: Event
  ap_payload :: string
  ap_prev :: bytes
  ap_row :: "audit_row option"

record snapshot_entry =
  sn_first :: nat
  sn_last :: nat
  sn_rows :: nat
  sn_bytes :: nat
  sn_date :: string

record audit_db =
  db_rows :: "audit_row list"
  db_next :: nat
  db_open :: "appending list"
  db_snaps :: "snapshot_entry list"
  db_uploads :: "audit_row list list"

section \<open>Signing\<close>

fun sign_rows :: "audit_env \<Rightarrow> audit_row list \<Rightarrow> (nat \<times> bytes) list option" where
  "sign_rows E [] = Some []"
| "sign_rows E (r # rs) =
     (case au_sign E (ar_EntryHash r) of None \<Rightarrow> None
      | Some sig \<Rightarrow> map_option ((#) (ar_Seq r, sig)) (sign_rows E rs))"

definition set_signature :: "(nat \<times> bytes) list \<Rightarrow> audit_row \<Rightarrow> audit_row" where
  "set_signature sigs r =
     (case map_of sigs (ar_Seq r) of None \<Rightarrow> r | Some sig \<Rightarrow> r\<lparr>ar_Signature := Some sig\<rparr>)"

text \<open>The rows a worker claims: unsigned, not locked by another replica.\<close>

definition claim_batch :: "nat \<Rightarrow> nat set \<Rightarrow> audit_row list \<Rightarrow> audit_row list" where
  "claim_batch n locked rows =
     take n (sort_key ar_Seq (filter (\<lambda>r. ar_Signature r = None \<and> ar_Seq r \<notin> locked) rows))"

text \<open>One transaction: a signature that fails rolls the whole batch back.\<close>

definition processBatch :: "audit_env \<Rightarrow> nat \<Rightarrow> nat set \<Rightarrow> audit_row list \<Rightarrow> audit_row list" where
  "processBatch E n locked rows =
     (case sign_rows E (claim_batch n locked rows) of None \<Rightarrow> rows | Some sigs \<Rightarrow> map (set_signature sigs) rows)"

definition outboxDepth :: "audit_row list \<Rightarrow> nat" where
  "outboxDepth rows = length (filter (\<lambda>r. ar_Signature r = None) rows)"

text \<open>The answer of Vault: \<open>vault:v<n>:<base64>\<close>, checked against the configured key.\<close>

definition split_colon :: "string \<Rightarrow> (string \<times> string) option" where
  "split_colon s =
     (if CHR '':'' \<in> set s then Some (takeWhile (\<lambda>c. c \<noteq> CHR '':'') s, tl (dropWhile (\<lambda>c. c \<noteq> CHR '':'') s)) else None)"

definition vault_signature :: "(bytes \<Rightarrow> bytes \<Rightarrow> bool) \<Rightarrow> bytes \<Rightarrow> string \<Rightarrow> bytes option" where
  "vault_signature verify digest answer =
     (case split_colon answer of None \<Rightarrow> None
      | Some (a, r) \<Rightarrow>
          (case split_colon r of None \<Rightarrow> None
           | Some (v, b) \<Rightarrow>
               if a \<noteq> ''vault'' then None
               else (case b64_decode b of None \<Rightarrow> None
                 | Some sig \<Rightarrow> if length sig \<noteq> 64 \<or> \<not> verify digest sig then None else Some sig)))"

section \<open>Snapshots\<close>

definition lastSnapshottedSeq :: "audit_db \<Rightarrow> nat" where
  "lastSnapshottedSeq d = Max (insert 0 (sn_last ` set (db_snaps d)))"

fun fetch_loop :: "nat \<Rightarrow> audit_row list \<Rightarrow> nat \<Rightarrow> audit_row list \<Rightarrow> audit_row list \<times> nat" where
  "fetch_loop maxBytes taken acc [] = (taken, acc)"
| "fetch_loop maxBytes taken acc (r # rs) =
     (let used = acc + length (ar_Payload r) in
      if taken \<noteq> [] \<and> used \<ge> maxBytes then (taken, used)
      else fetch_loop maxBytes (taken @ [r]) used rs)"

definition fetchRange :: "audit_env \<Rightarrow> nat \<Rightarrow> audit_row list \<Rightarrow> audit_row list \<times> nat" where
  "fetchRange E from_seq rows =
     fetch_loop (au_maxBytes E) [] 0 (take (au_maxRows E) (sort_key ar_Seq (filter (\<lambda>r. ar_Seq r > from_seq) rows)))"

text \<open>\<open>INSERT ... ON CONFLICT ON CONSTRAINT uq_audit_snapshot_log_date_seq DO NOTHING\<close>: an error when the
  table has no constraint of this name; a unique index is none.\<close>

definition recordSnapshot :: "audit_env \<Rightarrow> snapshot_entry \<Rightarrow> snapshot_entry list \<Rightarrow> string + snapshot_entry list" where
  "recordSnapshot E e log =
     (if ''uq_audit_snapshot_log_date_seq'' \<notin> set (au_constraints E) then Inl ''constraint does not exist''
      else if list_ex (\<lambda>x. sn_date x = sn_date e \<and> sn_last x = sn_last e) log then Inr log
      else Inr (log @ [e]))"

text \<open>One run on the given day; \<open>put\<close> says whether the upload succeeds.\<close>

definition runOnce :: "audit_env \<Rightarrow> string \<Rightarrow> bool \<Rightarrow> audit_db \<Rightarrow> audit_db" where
  "runOnce E day put d =
     (case fetchRange E (lastSnapshottedSeq d) (db_rows d) of
        (rows, acc) \<Rightarrow>
          if rows = [] \<or> \<not> put then d
          else
            (let d' = d\<lparr>db_uploads := db_uploads d @ [rows]\<rparr> in
             case recordSnapshot E
                 \<lparr>sn_first = ar_Seq (hd rows), sn_last = ar_Seq (last rows), sn_rows = length rows,
                  sn_bytes = acc, sn_date = day\<rparr> (db_snaps d) of
               Inl _ \<Rightarrow> d'
             | Inr log \<Rightarrow> d'\<lparr>db_snaps := log\<rparr>))"

section \<open>Reading\<close>

definition list_limit :: "int \<Rightarrow> int" where
  "list_limit limit = (if limit > 500 then 500 else limit)"

definition audit_list :: "string \<Rightarrow> int \<Rightarrow> int \<Rightarrow> string \<Rightarrow> audit_row list \<Rightarrow> audit_row list" where
  "audit_list key afterSeq limit eventType rows =
     take (nat (list_limit limit)) (filter (\<lambda>r. int (ar_Seq r) > afterSeq \<and> (eventType = [] \<or> ar_EventType r = eventType)) (trail key rows))"

definition audit_proof :: "string \<Rightarrow> int \<Rightarrow> audit_row list \<Rightarrow> http_error + audit_row" where
  "audit_proof key s rows =
     (if s < 1 then Inl (HttpError 400 ''invalid_seq'')
      else case find (\<lambda>r. int (ar_Seq r) = s \<and> ar_APIKeyID r = key) rows of
        None \<Rightarrow> Inl (HttpError 404 ''not_found'') | Some r \<Rightarrow> Inr r)"

definition fetchHead :: "string \<Rightarrow> audit_row list \<Rightarrow> nat \<times> bytes \<times> nat" where
  "fetchHead key rows =
     (case trail key rows of [] \<Rightarrow> (0, [], 0)
      | rs \<Rightarrow> (ar_Seq (last rs), ar_EntryHash (last rs), length rs))"

section \<open>The system\<close>

text \<open>The other Go values of an event marshal to JSON.\<close>

definition event_ok :: "Event \<Rightarrow> bool" where
  "event_ok ev \<longleftrightarrow> json_ok (to_json (VMap (ae_Payload ev)))"

inductive audit_step :: "audit_env \<Rightarrow> audit_db \<Rightarrow> audit_db \<Rightarrow> bool" for E d where
  begin_append: "audit_step E d (d\<lparr>db_open := db_open d @
      [\<lparr>ap_event = ev, ap_payload = t, ap_prev = prev_hash (ae_APIKeyID ev) (db_rows d), ap_row = None\<rparr>]\<rparr>)"
    if "event_ok ev" "append_payload ev = Inr t"
      "au_lock E (ae_APIKeyID ev) \<notin> (\<lambda>a. au_lock E (ae_APIKeyID (ap_event a))) ` set (db_open d)"
| insert_row: "audit_step E d (d\<lparr>db_next := Suc (db_next d), db_open := (db_open d)[k := a\<lparr>ap_row := Some r\<rparr>]\<rparr>)"
    if "k < length (db_open d)" "db_open d ! k = a" "ap_row a = None"
      "r = new_row E (ap_event a) (ap_payload a) ts (db_next d) (ap_prev a)" "row_storable r"
| commit_append: "audit_step E d (d\<lparr>db_rows := db_rows d @ [r], db_open := take k (db_open d) @ drop (Suc k) (db_open d)\<rparr>)"
    if "k < length (db_open d)" "ap_row (db_open d ! k) = Some r"
| abort_append: "audit_step E d (d\<lparr>db_next := n, db_open := take k (db_open d) @ drop (Suc k) (db_open d)\<rparr>)"
    if "k < length (db_open d)" "db_next d \<le> n"
| sign_batch: "audit_step E d (d\<lparr>db_rows := processBatch E n locked (db_rows d)\<rparr>)"
| take_snapshot: "audit_step E d (runOnce E day put d)"

definition empty_db :: audit_db where
  "empty_db = \<lparr>db_rows = [], db_next = 1, db_open = [], db_snaps = [], db_uploads = []\<rparr>"

inductive audit_reach :: "audit_env \<Rightarrow> audit_db \<Rightarrow> bool" for E where
  audit_init: "audit_reach E empty_db"
| audit_next: "audit_reach E d \<Longrightarrow> audit_step E d d' \<Longrightarrow> audit_reach E d'"

end
