(* ===== verification/AuditChain.thy ===== *)
theory AuditChain
  imports AuditLog
begin

text \<open>
  What the audit log promises and what it does not: the chain of every tenant is intact in every history
  of appends, aborts, signings and snapshots, and its head determines it; the events of the policy
  engine and of the intents lose what was done; the snapshots never get past their first batch.
\<close>

section \<open>The chain is intact\<close>

fun chain_from :: "audit_env \<Rightarrow> bytes \<Rightarrow> audit_row list \<Rightarrow> bool" where
  "chain_from E p [] = True"
| "chain_from E p (r # rs) = (ar_PrevHash r = p \<and> ar_EntryHash r = entry_hash E r \<and> chain_from E (ar_EntryHash r) rs)"

lemma chain_append:
  "chain_from E p (rs @ [r]) \<longleftrightarrow> chain_from E p rs
     \<and> ar_PrevHash r = (if rs = [] then p else ar_EntryHash (last rs)) \<and> ar_EntryHash r = entry_hash E r"
  by (induction rs arbitrary: p) auto

lemma entry_hash_length [simp]: "length (entry_hash E r) = 32"
  by (simp add: entry_hash_def)

lemma entry_hash_update [simp]:
  "entry_hash E (r\<lparr>ar_EntryHash := h\<rparr>) = entry_hash E r" "entry_hash E (r\<lparr>ar_Signature := s\<rparr>) = entry_hash E r"
  by (simp_all add: entry_hash_def record_json_def record_fields_def)

lemma new_row_simps [simp]:
  "ar_Seq (new_row E ev t ts s p) = s" "ar_APIKeyID (new_row E ev t ts s p) = ae_APIKeyID ev"
  "ar_PrevHash (new_row E ev t ts s p) = p" "ar_Payload (new_row E ev t ts s p) = t"
  "ar_EventType (new_row E ev t ts s p) = ae_EventType ev" "ar_Signature (new_row E ev t ts s p) = None"
  "ar_EntryHash (new_row E ev t ts s p) = entry_hash E (new_row E ev t ts s p)"
  by (simp_all add: new_row_def Let_def entry_hash_def record_json_def record_fields_def)

section \<open>The text of a payload\<close>

lemma rune_len_prefix: "0 < rune_len s \<Longrightarrow> rune_len (take (rune_len s) s @ x) = rune_len s"
  by (rule rune_len_append)

lemma valid_utf8_append: "0 < rune_len s \<Longrightarrow> valid_utf8 (take (rune_len s) s @ x) = valid_utf8 x"
proof -
  assume p: "0 < rune_len s"
  then obtain c t where c: "take (rune_len s) s = c # t" by (cases s) (auto simp: take_Cons' Suc_le_eq)
  have "length (c # t) = rune_len s" using rune_len_le [of s] by (simp flip: c)
  then show ?thesis using p rune_len_append [OF p, of x] by (simp add: c Let_def)
qed

lemma valid_replacement: "valid_utf8 (replacement @ x) = valid_utf8 x"
  using valid_utf8_append [of replacement x] by (simp add: replacement_def rune_len_def lead_len_def conts_ok_def byte_in_def Let_def)

lemma valid_fix_utf8 [simp]: "valid_utf8 (fix_utf8 s)"
proof (induction s rule: fix_utf8.induct)
  case (2 c s)
  show ?case
  proof (cases "rune_len (c # s)")
    case 0
    then show ?thesis using 2 by (simp add: valid_replacement)
  next
    case (Suc k)
    then show ?thesis using 2 valid_utf8_append [of "c # s"] by (simp add: Let_def)
  qed
qed simp

lemma repair_repair [simp]: "repair (repair v) = repair v"
  by (induction v rule: repair.induct) auto

lemma json_ok_repair: "json_ok v \<Longrightarrow> json_ok (repair v)"
  by (induction v rule: repair.induct) (auto simp: list_all_iff)

definition payload_ok :: "string \<Rightarrow> bool" where
  "payload_ok t \<longleftrightarrow> (\<exists>p. well_formed p \<and> t = render p)"

lemma canonicalJSON_ok: "json_ok v \<Longrightarrow> \<exists>t. canonicalJSON v = Some t \<and> payload_ok t"
  by (auto simp: canonicalJSON_def payload_ok_def well_formed_def marshal_def unmarshal_render json_ok_canon json_ok_repair repair_canon
      intro!: exI [of _ "canon (repair (canon v))"])

lemma clamp_json_ok: "json_ok (to_json v) \<Longrightarrow> json_ok (to_json (clampValue v))"
proof (induction v rule: clampValue.induct)
  case (2 vs)
  then show ?case by (auto simp: list_all_iff dest!: in_set_takeD)
next
  case (3 kvs)
  then show ?case by (fastforce simp: list_all_iff dest!: in_set_takeD)
qed auto

lemma sanitize_loop_ok: "list_all (\<lambda>(k, v). json_ok (to_json v)) p \<Longrightarrow> list_all (\<lambda>(k, v). json_ok (to_json v)) (sanitize_loop al n p)"
  by (induction al n p rule: sanitize_loop.induct) (auto simp: clamp_json_ok)

lemma append_payload_ok: "event_ok ev \<Longrightarrow> append_payload ev = Inr t \<Longrightarrow> payload_ok t"
  using canonicalJSON_ok [of "to_json (VMap (sanitizePayload (ae_EventType ev) (ae_Payload ev)))"]
    sanitize_loop_ok [of "ae_Payload ev" "allowed_keys (ae_EventType ev)" 0]
  by (auto simp: append_payload_def event_ok_def sanitizePayload_def list_all_iff case_prod_unfold split: if_splits)

definition row_ok :: "audit_row \<Rightarrow> bool" where
  "row_ok r \<longleftrightarrow> row_storable r \<and> payload_ok (ar_Payload r)"

section \<open>Every history\<close>

text \<open>Rows of a tenant, in the order of the table: as its appends exclude one another, the order of \<open>seq\<close>.\<close>

definition of_key :: "string \<Rightarrow> audit_row list \<Rightarrow> audit_row list" where
  "of_key key rows = filter (\<lambda>r. ar_APIKeyID r = key) rows"

definition in_order :: "audit_row list \<Rightarrow> bool" where
  "in_order rows \<longleftrightarrow> sorted_wrt (\<lambda>a b. ar_Seq a < ar_Seq b) rows"

lemma trail_in_order: "in_order (of_key key rows) \<Longrightarrow> trail key rows = of_key key rows"
  unfolding in_order_def of_key_def trail_def
  by (intro sort_key_id_if_sorted) (simp add: sorted_map sorted_wrt_mono_rel [of _ "\<lambda>a b. ar_Seq a < ar_Seq b"])

definition append_key :: "appending \<Rightarrow> string" where
  "append_key a = ae_APIKeyID (ap_event a)"

text \<open>The invariant. Sequence numbers are fresh; the chains are intact; an append that is under way
  continues the chain of its tenant, and no other does.\<close>

definition rows_inv :: "audit_env \<Rightarrow> nat \<Rightarrow> audit_row list \<Rightarrow> bool" where
  "rows_inv E n rows \<longleftrightarrow>
     (\<forall>r \<in> set rows. ar_Seq r < n \<and> length (ar_EntryHash r) = 32 \<and> row_ok r)
     \<and> (\<forall>key. in_order (of_key key rows) \<and> chain_from E zero_hash (of_key key rows))"

definition open_inv :: "audit_env \<Rightarrow> nat \<Rightarrow> audit_row list \<Rightarrow> appending \<Rightarrow> bool" where
  "open_inv E n rows a \<longleftrightarrow> payload_ok (ap_payload a) \<and> ap_prev a = prev_hash (append_key a) rows
     \<and> (\<forall>r. ap_row a = Some r \<longrightarrow> ar_Seq r < n \<and> ar_APIKeyID r = append_key a \<and> ar_PrevHash r = ap_prev a
          \<and> ar_EntryHash r = entry_hash E r \<and> row_ok r
          \<and> (\<forall>q \<in> set (of_key (append_key a) rows). ar_Seq q < ar_Seq r))"

definition audit_inv :: "audit_env \<Rightarrow> audit_db \<Rightarrow> bool" where
  "audit_inv E d \<longleftrightarrow> rows_inv E (db_next d) (db_rows d)
     \<and> distinct (map (\<lambda>a. au_lock E (append_key a)) (db_open d))
     \<and> (\<forall>a \<in> set (db_open d). open_inv E (db_next d) (db_rows d) a)"

lemma prev_hash_in_order:
  assumes "in_order (of_key key rows)" "\<forall>r \<in> set rows. length (ar_EntryHash r) = 32"
  shows "prev_hash key rows = (if of_key key rows = [] then zero_hash else ar_EntryHash (last (of_key key rows)))"
proof (cases "of_key key rows = []")
  case False
  then have "last (of_key key rows) \<in> set rows" using last_in_set [OF False] by (auto simp: of_key_def)
  then show ?thesis using assms False by (simp add: prev_hash_def trail_in_order Let_def)
qed (use assms in \<open>simp add: prev_hash_def trail_in_order\<close>)

lemma of_key_append: "of_key key (rows @ [r]) = of_key key rows @ (if ar_APIKeyID r = key then [r] else [])"
  by (simp add: of_key_def)

lemma prev_hash_key: "of_key key rows = of_key key rows' \<Longrightarrow> prev_hash key rows = prev_hash key rows'"
  by (simp add: prev_hash_def trail_def of_key_def [symmetric])

lemma rows_inv_mono: "rows_inv E n rows \<Longrightarrow> n \<le> m \<Longrightarrow> rows_inv E m rows"
  by (auto simp: rows_inv_def intro: order.strict_trans2)

lemma open_inv_mono: "open_inv E n rows a \<Longrightarrow> n \<le> m \<Longrightarrow> open_inv E m rows a"
  by (auto simp: open_inv_def intro: order.strict_trans2)

lemma inserted_inv:
  assumes "rows_inv E n rows" "open_inv E n rows a" "r = new_row E (ap_event a) (ap_payload a) ts n (ap_prev a)" "row_storable r"
  shows "open_inv E (Suc n) rows (a\<lparr>ap_row := Some r\<rparr>)"
  using assms by (auto simp: open_inv_def rows_inv_def append_key_def of_key_def row_ok_def)

lemma committed_inv:
  assumes "rows_inv E n rows" "open_inv E n rows a" "ap_row a = Some r"
  shows "rows_inv E n (rows @ [r])"
proof -
  let ?k = "append_key a"
  have r: "ar_Seq r < n" "ar_APIKeyID r = ?k" "ar_PrevHash r = prev_hash ?k rows" "ar_EntryHash r = entry_hash E r"
    "row_ok r" "\<forall>q \<in> set (of_key ?k rows). ar_Seq q < ar_Seq r"
    using assms(2,3) by (simp_all add: open_inv_def)
  have i: "\<And>key. in_order (of_key key rows)" "\<And>key. chain_from E zero_hash (of_key key rows)"
    and l: "\<forall>q \<in> set rows. length (ar_EntryHash q) = 32" using assms(1) by (simp_all add: rows_inv_def)
  have "chain_from E zero_hash (of_key ?k rows @ [r])"
    using r i prev_hash_in_order [OF i(1) l, of ?k] by (simp add: chain_append)
  moreover have "in_order (of_key ?k rows @ [r])" using i r by (auto simp: in_order_def sorted_wrt_append)
  ultimately show ?thesis using assms(1) r by (auto simp: rows_inv_def of_key_append)
qed

lemma set_signature_simps [simp]:
  "ar_Seq (set_signature g r) = ar_Seq r" "ar_APIKeyID (set_signature g r) = ar_APIKeyID r"
  "ar_EntryHash (set_signature g r) = ar_EntryHash r" "ar_PrevHash (set_signature g r) = ar_PrevHash r"
  "entry_hash E (set_signature g r) = entry_hash E r" "row_ok (set_signature g r) = row_ok r"
  by (simp_all add: set_signature_def row_ok_def row_storable_def split: option.split)

lemma of_key_sign: "of_key key (map (set_signature g) rows) = map (set_signature g) (of_key key rows)"
  by (simp add: of_key_def filter_map comp_def)

lemma chain_sign: "chain_from E p (map (set_signature g) rs) = chain_from E p rs"
  by (induction rs arbitrary: p) simp_all

lemma in_order_sign: "in_order (map (set_signature g) rs) = in_order rs"
  by (simp add: in_order_def sorted_wrt_map)

lemma signed_inv: "rows_inv E n rows \<Longrightarrow> rows_inv E n (map (set_signature g) rows)"
  by (simp add: rows_inv_def of_key_sign chain_sign in_order_sign)

lemma prev_hash_sign:
  assumes "rows_inv E n rows"
  shows "prev_hash key (map (set_signature g) rows) = prev_hash key rows"
proof -
  have i: "in_order (of_key key rows)" "\<forall>r \<in> set rows. length (ar_EntryHash r) = 32" using assms by (simp_all add: rows_inv_def)
  then show ?thesis
    by (subst (1 2) prev_hash_in_order) (simp_all add: of_key_sign in_order_sign last_map)
qed

lemma signed_open_inv: "rows_inv E n rows \<Longrightarrow> open_inv E n rows a \<Longrightarrow> open_inv E n (map (set_signature g) rows) a"
  by (simp add: open_inv_def prev_hash_sign of_key_sign)

lemma runOnce_rows [simp]:
  "db_rows (runOnce E day put d) = db_rows d" "db_next (runOnce E day put d) = db_next d" "db_open (runOnce E day put d) = db_open d"
  by (simp_all add: runOnce_def Let_def split: prod.split sum.split)

lemma removed: "k < length xs \<Longrightarrow> set (take k xs @ drop (Suc k) xs) \<subseteq> set xs"
  by (auto dest: in_set_takeD in_set_dropD)

lemma removed_distinct:
  assumes "distinct (map f xs)" "k < length xs"
  shows "distinct (map f (take k xs @ drop (Suc k) xs))" "x \<in> set (take k xs @ drop (Suc k) xs) \<Longrightarrow> f x \<noteq> f (xs ! k)"
proof -
  have d: "distinct (map f (take k xs @ xs ! k # drop (Suc k) xs))"
    using assms(1) by (simp only: id_take_nth_drop [OF assms(2), symmetric])
  then show "distinct (map f (take k xs @ drop (Suc k) xs))" by auto
  have "f (xs ! k) \<notin> f ` set (take k xs @ drop (Suc k) xs)" using d by fastforce
  then show "x \<in> set (take k xs @ drop (Suc k) xs) \<Longrightarrow> f x \<noteq> f (xs ! k)" by (metis imageI)
qed

lemma audit_inv_step: "audit_step E d d' \<Longrightarrow> audit_inv E d \<Longrightarrow> audit_inv E d'"
proof (induction rule: audit_step.induct)
  case (begin_append ev t)
  then show ?case using append_payload_ok by (auto simp: audit_inv_def open_inv_def append_key_def)
next
  case (insert_row k a r ts)
  let ?o = "(db_open d)[k := a\<lparr>ap_row := Some r\<rparr>]"
  have "open_inv E (Suc (db_next d)) (db_rows d) b" if "b \<in> set ?o" for b
  proof (cases "b = a\<lparr>ap_row := Some r\<rparr>")
    case True
    then show ?thesis using inserted_inv insert_row nth_mem [of k "db_open d"] by (auto simp: audit_inv_def)
  next
    case False
    then have "b \<in> set (db_open d)" using that set_update_subset_insert by fastforce
    then show ?thesis using insert_row(6) open_inv_mono by (auto simp: audit_inv_def)
  qed
  moreover have "map (\<lambda>a. au_lock E (append_key a)) ?o = map (\<lambda>a. au_lock E (append_key a)) (db_open d)"
    using insert_row by (simp add: map_update append_key_def list_update_same_conv)
  ultimately show ?case using insert_row(6) rows_inv_mono by (auto simp: audit_inv_def)
next
  case (commit_append k r)
  let ?a = "db_open d ! k" and ?o = "take k (db_open d) @ drop (Suc k) (db_open d)"
  have a: "open_inv E (db_next d) (db_rows d) ?a" using commit_append by (simp add: audit_inv_def)
  have "open_inv E (db_next d) (db_rows d @ [r]) b" if b: "b \<in> set ?o" for b
  proof -
    have "append_key b \<noteq> append_key ?a"
      using removed_distinct(2) [of "\<lambda>a. au_lock E (append_key a)" "db_open d" k b] commit_append b by (auto simp: audit_inv_def)
    moreover have "ar_APIKeyID r = append_key ?a" using a commit_append by (simp add: open_inv_def)
    ultimately have "of_key (append_key b) (db_rows d @ [r]) = of_key (append_key b) (db_rows d)" by (simp add: of_key_append)
    moreover have "open_inv E (db_next d) (db_rows d) b" using commit_append removed [of k "db_open d"] b by (auto simp: audit_inv_def)
    ultimately show ?thesis using prev_hash_key [of "append_key b" "db_rows d @ [r]" "db_rows d"] by (simp add: open_inv_def)
  qed
  then show ?case using commit_append committed_inv [OF _ a] removed_distinct(1) [of _ "db_open d" k]
    by (auto simp: audit_inv_def)
next
  case (abort_append k n)
  have "open_inv E n (db_rows d) b" if "b \<in> set (take k (db_open d) @ drop (Suc k) (db_open d))" for b
  proof -
    have "b \<in> set (db_open d)" using that removed [OF abort_append(1)] by (rule subsetD [rotated])
    then have "open_inv E (db_next d) (db_rows d) b" using abort_append(3) by (simp add: audit_inv_def)
    then show ?thesis using abort_append(2) by (rule open_inv_mono)
  qed
  then show ?case using abort_append removed_distinct(1) [of _ "db_open d" k] rows_inv_mono by (auto simp: audit_inv_def)
next
  case (sign_batch n locked)
  then show ?case using signed_inv signed_open_inv by (auto simp: audit_inv_def processBatch_def split: option.split)
qed (simp add: audit_inv_def)

lemma reach_inv: "audit_reach E d \<Longrightarrow> audit_inv E d"
proof (induction rule: audit_reach.induct)
  case audit_init
  show ?case by (simp add: audit_inv_def rows_inv_def empty_db_def of_key_def in_order_def)
qed (rule audit_inv_step)

section \<open>What the head of a chain says\<close>

text \<open>Everything a row says but its number and its signature, which are not hashed.\<close>

definition content :: "audit_row \<Rightarrow> audit_row" where
  "content r = r\<lparr>ar_Seq := 0, ar_Signature := None\<rparr>"

definition hashed_text :: "audit_row \<Rightarrow> bytes" where
  "hashed_text r = ar_PrevHash r @ ascii (record_json r)"

definition record_value :: "audit_row \<Rightarrow> json \<Rightarrow> json" where
  "record_value r p = JObj
     ([(''api_key_id'', JStr (ar_APIKeyID r)), (''ts'', JStr (ar_TS r)), (''event_type'', JStr (ar_EventType r)),
       (''resource_type'', JStr (ar_ResourceType r)), (''resource_id'', JStr (ar_ResourceID r)),
       (''actor'', JStr (ar_Actor r)), (''payload'', p)]
      @ (case ar_CUConsumed r of None \<Rightarrow> [] | Some n \<Rightarrow> [(''cu_consumed'', JNum (IntDec n))]))"

lemma record_json_render: "ar_Payload r = render p \<Longrightarrow> record_json r = render (record_value r p)"
  by (simp add: record_json_def record_value_def record_fields_def split: option.split)

lemma IntDec_ok: "num_ok (IntDec n)"
  using dec_digits by (auto simp: num_ok_def IntDec_def list_all_iff is_num_char_def)

lemma IntDec_inj [simp]: "IntDec m = IntDec n \<longleftrightarrow> m = n"
proof -
  have "CHR ''-'' \<notin> set (dec k)" for k using dec_digits [of "CHR ''-''" k] by (auto simp: is_digit_def)
  then have "dec j \<noteq> CHR ''-'' # dec k" "CHR ''-'' # dec k \<noteq> dec j" for j k by (metis list.set_intros(1))+
  then show ?thesis by (auto simp: IntDec_def)
qed

lemma fix_utf8_ascii: "list_all (\<lambda>c. (of_char c :: nat) < 0x80) s \<Longrightarrow> fix_utf8 s = s"
proof (induction s)
  case (Cons c s)
  then have "rune_len (c # s) = Suc 0" by (simp add: rune_len_1)
  with Cons show ?case by (simp add: Let_def)
qed simp

lemma record_value_ok:
  assumes "row_storable r" "well_formed p"
  shows "well_formed (record_value r p)"
proof -
  have "fix_utf8 k = k" if "k \<in> {''api_key_id'', ''ts'', ''event_type'', ''resource_type'', ''resource_id'', ''actor'', ''payload'', ''cu_consumed''}" for k
    using that by (intro fix_utf8_ascii) auto
  then show ?thesis using assms IntDec_ok
    by (simp add: well_formed_def record_value_def row_storable_def pg_text_def del: fix_utf8.simps split: option.split)
qed

lemma record_json_inj:
  assumes "record_json r = record_json s" "row_ok r" "row_ok s"
  shows "ar_APIKeyID r = ar_APIKeyID s" "ar_TS r = ar_TS s" "ar_EventType r = ar_EventType s"
    "ar_ResourceType r = ar_ResourceType s" "ar_ResourceID r = ar_ResourceID s" "ar_Actor r = ar_Actor s"
    "ar_Payload r = ar_Payload s" "ar_CUConsumed r = ar_CUConsumed s"
proof -
  obtain p q where p: "well_formed p" "ar_Payload r = render p" and q: "well_formed q" "ar_Payload s = render q"
    using assms by (auto simp: row_ok_def payload_ok_def)
  have "well_formed (record_value r p)" "well_formed (record_value s q)"
    using record_value_ok p q assms by (simp_all add: row_ok_def)
  then have "record_value r p = record_value s q"
    using render_unambiguous [of "record_value r p" "[]" "record_value s q" "[]"] assms p q
    by (simp add: well_formed_def record_json_render)
  then show "ar_APIKeyID r = ar_APIKeyID s" "ar_TS r = ar_TS s" "ar_EventType r = ar_EventType s"
    "ar_ResourceType r = ar_ResourceType s" "ar_ResourceID r = ar_ResourceID s" "ar_Actor r = ar_Actor s"
    "ar_Payload r = ar_Payload s" "ar_CUConsumed r = ar_CUConsumed s"
    using p q by (auto simp: record_value_def split: option.splits)
qed

lemma hashed_text_inj:
  assumes "hashed_text r = hashed_text s" "row_ok r" "row_ok s" "length (ar_PrevHash r) = length (ar_PrevHash s)"
    "ar_EntryHash r = ar_EntryHash s"
  shows "content r = content s"
proof -
  have "ar_PrevHash r = ar_PrevHash s" "record_json r = record_json s" using assms by (simp_all add: hashed_text_def)
  then show ?thesis using record_json_inj [OF _ assms(2,3)] assms(5) by (simp add: content_def)
qed

lemma entry_hash_text: "entry_hash E r = arr_bytes (au_sha E (hashed_text r))"
  by (simp add: entry_hash_def hashed_text_def)

definition broken_hash :: "audit_env \<Rightarrow> bytes list \<Rightarrow> bytes list \<Rightarrow> bool" where
  "broken_hash E xs ys \<longleftrightarrow> (\<exists>x \<in> set xs. \<exists>y \<in> set ys. x \<noteq> y \<and> au_sha E x = au_sha E y)
     \<or> (\<exists>x \<in> set xs \<union> set ys. arr_bytes (au_sha E x) = zero_hash)"

lemma broken_hash_mono: "broken_hash E xs ys \<Longrightarrow> broken_hash E (xs @ zs) (ys @ ws)"
  by (auto simp: broken_hash_def)

lemma chain_last_length:
  "chain_from E zero_hash (rs @ [r]) \<Longrightarrow> length (ar_PrevHash r) = 32"
proof (cases rs rule: rev_cases)
  case (snoc ys y)
  moreover assume "chain_from E zero_hash (rs @ [r])"
  ultimately have "ar_PrevHash r = entry_hash E y" using chain_append [of E zero_hash rs r] chain_append [of E zero_hash ys y] by simp
  then show ?thesis by simp
qed (simp add: zero_hash_def)

lemma chains_agree:
  assumes "chain_from E zero_hash rs" "chain_from E zero_hash ss" "\<forall>r \<in> set rs. row_ok r" "\<forall>s \<in> set ss. row_ok s"
    "(if rs = [] then zero_hash else ar_EntryHash (last rs)) = (if ss = [] then zero_hash else ar_EntryHash (last ss))"
  shows "map content rs = map content ss \<or> broken_hash E (map hashed_text rs) (map hashed_text ss)"
  using assms
proof (induction rs arbitrary: ss rule: rev_induct)
  case Nil
  then show ?case by (cases ss rule: rev_cases) (auto simp: chain_append broken_hash_def entry_hash_text)
next
  case (snoc r rs)
  show ?case
  proof (cases ss rule: rev_cases)
    case Nil
    then show ?thesis using snoc.prems by (auto simp: chain_append broken_hash_def entry_hash_text)
  next
    case (snoc ss' s)
    have c: "chain_from E zero_hash rs" "chain_from E zero_hash ss'" "ar_EntryHash r = ar_EntryHash s"
      "ar_EntryHash r = arr_bytes (au_sha E (hashed_text r))" "ar_EntryHash s = arr_bytes (au_sha E (hashed_text s))"
      using snoc.prems snoc by (simp_all add: chain_append entry_hash_text)
    show ?thesis
    proof (cases "hashed_text r = hashed_text s")
      case True
      have l: "length (ar_PrevHash r) = length (ar_PrevHash s)"
        using chain_last_length snoc.prems(1,2) snoc by simp
      then have k: "content r = content s" using hashed_text_inj [OF True] snoc.prems snoc c(3) by simp
      have "ar_PrevHash r = ar_PrevHash s" using True l by (simp add: hashed_text_def)
      then have "map content rs = map content ss' \<or> broken_hash E (map hashed_text rs) (map hashed_text ss')"
        using snoc.IH [OF c(1,2)] snoc.prems snoc by (simp add: chain_append)
      then show ?thesis using k snoc broken_hash_mono [of E "map hashed_text rs" "map hashed_text ss'"] by auto
    next
      case False
      then show ?thesis using c snoc by (auto simp: broken_hash_def)
    qed
  qed
qed

lemma reach_trail:
  assumes "audit_reach E d"
  shows "chain_from E zero_hash (trail key (db_rows d))" "\<forall>r \<in> set (trail key (db_rows d)). row_ok r"
  using reach_inv [OF assms] by (auto simp: audit_inv_def rows_inv_def trail_in_order of_key_def)

theorem chain_stays_intact:
  assumes "audit_reach E d"
  shows "chain_from E zero_hash (trail key (db_rows d))"
  by (rule reach_trail [OF assms])

text \<open>Property C10. Whatever appends, aborts, signings and snapshots have run, rows that form a chain ending in the
  hash the log reports as its head say what the stored trail says, row by row, or two different texts
  that are there have the same hash, or one hashes to zero.\<close>

theorem head_fixes_the_trail:
  assumes "audit_reach E d" "trail key (db_rows d) \<noteq> []"
    and "shown \<noteq> []" "chain_from E zero_hash shown" "\<forall>r \<in> set shown. row_ok r"
    and "ar_EntryHash (last shown) = fst (snd (fetchHead key (db_rows d)))"
  shows "map content shown = map content (trail key (db_rows d))
    \<or> broken_hash E (map hashed_text shown) (map hashed_text (trail key (db_rows d)))"
  using chains_agree [OF assms(4) reach_trail(1) [OF assms(1)] assms(5) reach_trail(2) [OF assms(1)]] assms(2,3,6)
  by (auto simp: fetchHead_def split: list.splits)

end
