(* ===== verification/AuditGaps.thy ===== *)
theory AuditGaps
  imports AuditChain
begin

text \<open>
  The rest of the audit log: what the sanitizer keeps and what it drops of the events of the policy
  engine and of the intents, the two canonical writers, the signatures, the snapshots, and the redaction of
  Vault tokens.
\<close>

section \<open>The sanitizer\<close>

definition kept :: "string list \<Rightarrow> (string \<times> goval) list \<Rightarrow> (string \<times> goval) list" where
  "kept allowed p = filter (\<lambda>(k, v). k \<in> set allowed) p"

lemma sanitize_loop_kept: "sanitize_loop allowed n p = map (\<lambda>(k, v). (k, clampValue v)) (take (maxPayloadKeys - n) (kept allowed p))"
proof (induction allowed n p rule: sanitize_loop.induct)
  case (2 allowed n k v r)
  show ?case
  proof (cases "n \<ge> maxPayloadKeys")
    case False
    then have "maxPayloadKeys - n = Suc (maxPayloadKeys - Suc n)" by simp
    with 2 False show ?thesis by (auto simp: kept_def)
  qed simp
qed (simp add: kept_def)

lemma kept_Cons: "kept allowed (q # p) = (if fst q \<in> set allowed then q # kept allowed p else kept allowed p)"
  by (simp add: kept_def case_prod_unfold)

lemma kept_update: "kept allowed (AList.update k v p) = (if k \<in> set allowed then AList.update k v (kept allowed p) else kept allowed p)"
proof (induction p)
  case (Cons q p)
  then show ?case by (cases "fst q = k"; cases "fst q \<in> set allowed"; cases "k \<in> set allowed") (simp_all add: kept_Cons)
qed (simp add: kept_def)

lemma kept_fold:
  "kept allowed p = kept allowed q \<Longrightarrow> kept allowed (fold (\<lambda>(k, v). AList.update k (f v)) kvs p)
     = kept allowed (fold (\<lambda>(k, v). AList.update k (f v)) kvs q)"
proof (induction kvs arbitrary: p q)
  case (Cons kv kvs)
  show ?case unfolding fold_Cons comp_apply
    by (rule Cons.IH) (cases kv, simp add: kept_update Cons.prems)
qed simp

lemma kept_merge:
  assumes "kept allowed p = kept allowed q"
  shows "kept allowed (merge_extra E extra p) = kept allowed (merge_extra E extra q)"
proof -
  have "kept allowed (AList.update k v p) = kept allowed (AList.update k v q)" for k v
    by (simp add: kept_update assms)
  then show ?thesis unfolding merge_extra_def
    by (cases "extra = []"; cases "unmarshal extra"; cases "the (unmarshal extra)") (simp_all add: assms kept_fold [OF assms])
qed

lemma policy_event_types:
  "policy_event_type a \<in> {''policy.deployed'', ''policy.signature_request.approved'', ''policy.updated''}"
  by (simp add: policy_event_type_def)

lemma dropped_keys:
  "list_all (\<lambda>ty. list_all (\<lambda>k. k \<notin> set (allowed_keys ty)) [''action'', ''engine'', ''dwallet''])
     [''policy.deployed'', ''policy.signature_request.approved'', ''policy.updated'']"
  "''tx_signature'' \<notin> set (allowed_keys ''policy.signature_request.approved'')"
  "allowed_keys ''intent.swap.approve'' = globalAllowlist" "allowed_keys ''intent.swap.submit'' = globalAllowlist"
  by code_simp+

lemma action_not_allowed:
  "k \<in> {''action'', ''engine'', ''dwallet''} \<Longrightarrow> k \<notin> set (allowed_keys (policy_event_type a))"
  using policy_event_types [of a] dropped_keys(1) by auto

lemma same_kept_payload: "kept (allowed_keys ty) p = kept (allowed_keys ty) q \<Longrightarrow> sanitizePayload ty p = sanitizePayload ty q"
  by (simp add: sanitizePayload_def sanitize_loop_kept)

text \<open>Property C11. Two events of the policy engine whose actions are filed under the same event type and that differ
  in the action, in the wallet and, for signature requests, in the transaction store the same row with the same
  hash: of the action the trail keeps the event type alone (\<open>policy.deployed\<close>, that of an approved
  signature request, and \<open>policy.updated\<close> for everything else), the sanitizer drops the rest.\<close>

theorem audit_forgets_the_action:
  assumes "AppendPolicyEngineEvent E ev = Inr e" "AppendPolicyEngineEvent E ev' = Inr e'"
    and "ev' = ev\<lparr>ev_Action := a', ev_DWallet := w', ev_TxSignature := t'\<rparr>"
    and "policy_event_type a' = policy_event_type (ev_Action ev)"
    and "t' = ev_TxSignature ev \<or> a' = ''request-signature''"
  shows "append_payload e' = append_payload e \<and> new_row E e' text ts s p = new_row E e text ts s p"
proof -
  let ?ty = "policy_event_type (ev_Action ev)"
  let ?p = "\<lambda>a w t. [(''action'', VStr a), (''engine'', VStr (ev_Engine ev)), (''dwallet'', VStr w), (''tx_signature'', VStr t)]"
  obtain key where key: "au_uuid E (ev_APIKeyID ev) = Some key" using assms(1) by (auto simp: AppendPolicyEngineEvent_def split: option.splits)
  have "a' = ''request-signature'' \<Longrightarrow> ''tx_signature'' \<notin> set (allowed_keys ?ty)"
    using assms(4) dropped_keys(2) by (simp add: policy_event_type_def)
  then have "kept (allowed_keys ?ty) (?p a' w' t') = kept (allowed_keys ?ty) (?p (ev_Action ev) (ev_DWallet ev) (ev_TxSignature ev))"
    using assms(5) action_not_allowed [of _ "ev_Action ev"] by (auto simp: kept_def)
  then have "sanitizePayload ?ty (merge_extra E (ev_ExtraJSON ev) (?p a' w' t'))
      = sanitizePayload ?ty (merge_extra E (ev_ExtraJSON ev) (?p (ev_Action ev) (ev_DWallet ev) (ev_TxSignature ev)))"
    by (rule same_kept_payload [OF kept_merge])
  then show ?thesis using assms(1,2,4) key
    by (auto simp: AppendPolicyEngineEvent_def assms(3) append_payload_def new_row_def)
qed

lemma status_utf8: "fix_utf8 (status_text s) = status_text s"
  by (intro fix_utf8_ascii) (cases s; simp)

theorem audit_of_swap_keeps_only_status:
  assumes "intent_event E action it txHash = Inr e" "action \<in> {''intent.swap.approve'', ''intent.swap.submit''}"
  shows "append_payload e = Inr (''{'' @ json_string ''status'' @ '':'' @ json_string (status_text (it_Status it)) @ ''}'')"
proof -
  let ?v = "JObj [(''status'', JStr (status_text (it_Status it)))]"
  have k: "allowed_keys action = globalAllowlist" using assms(2) dropped_keys(3,4) by auto
  have l: "\<not> maxStringValueBytes < length (status_text (it_Status it))" by (cases "it_Status it") (simp_all add: maxStringValueBytes_def)
  have e: "ae_EventType e = action" "ae_ResourceType e = ''intent''"
    "ae_Payload e = [(''chain_kind'', VStr (it_ChainKind it)), (''from_token'', VStr (it_FromToken it)),
             (''to_token'', VStr (it_ToToken it)), (''tx_hash'', VStr txHash), (''status'', VStr (status_text (it_Status it)))]"
    using assms(1) by (auto simp: intent_event_def split: option.splits)
  have "kept globalAllowlist (ae_Payload e) = [(''status'', VStr (status_text (it_Status it)))]"
    unfolding e by (simp add: kept_Cons globalAllowlist_def) (simp add: kept_def)
  then have v: "to_json (VMap (sanitizePayload action (ae_Payload e))) = ?v"
    using l by (simp add: k sanitizePayload_def sanitize_loop_kept maxPayloadKeys_def)
  have c: "canon ?v = ?v" by (simp add: as_map_def)
  have u: "unmarshal (render ?v) = Some ?v"
    using fix_utf8_ascii [of "''status''"] by (subst unmarshal_render) (simp_all add: status_utf8 del: fix_utf8.simps render.simps)
  have "canonicalJSON ?v = Some (render ?v)" by (simp only: canonicalJSON_def marshal_def c u option.map)
  moreover have "action \<noteq> []" using assms(2) by auto
  ultimately show ?thesis unfolding append_payload_def e(1,2) v by (simp del: json_chars.simps)
qed

section \<open>The two writers of canonical JSON\<close>

lemma clearjunk_map: "AList.clearjunk (map (\<lambda>(k, v). (k, f v)) kvs) = map (\<lambda>(k, v). (k, f v)) (AList.clearjunk kvs)"
proof (induction kvs rule: AList.clearjunk.induct)
  case (2 p kvs)
  have "AList.delete (fst p) (map (\<lambda>(k, v). (k, f v)) kvs) = map (\<lambda>(k, v). (k, f v)) (AList.delete (fst p) kvs)"
    by (auto simp: AList.delete_eq filter_map comp_def case_prod_unfold)
  with 2 show ?case by (simp add: case_prod_unfold)
qed simp

lemma insort_map: "(\<And>x. g (h x) = g' x) \<Longrightarrow> insort_key g (h x) (map h xs) = map h (insort_key g' x xs)"
  by (induction xs) simp_all

lemma sort_map: "(\<And>x. g (h x) = g' x) \<Longrightarrow> sort_key g (map h xs) = map h (sort_key g' xs)"
  by (induction xs) (simp_all add: insort_map)

lemma as_map_map: "as_map (map (\<lambda>(k, v). (k, f v)) kvs) = map (\<lambda>(k, v). (k, f v)) (as_map kvs)"
  by (simp add: as_map_def rev_map clearjunk_map) (rule sort_map, auto)

theorem jcs_is_marshal: "canonicalizeForJCS v = marshal v"
proof (induction v rule: canonicalizeForJCS.induct)
  case (1 kvs)
  have "map (\<lambda>(k, v). (k, canonicalizeForJCS v)) kvs = map (\<lambda>(k, t). (k, render t)) (map (\<lambda>(k, v). (k, canon v)) kvs)"
    using 1 by (auto simp: marshal_def)
  then have "as_map (map (\<lambda>(k, v). (k, canonicalizeForJCS v)) kvs)
      = map (\<lambda>(k, t). (k, render t)) (as_map (map (\<lambda>(k, v). (k, canon v)) kvs))"
    by (simp only: as_map_map)
  then show ?case by (simp add: marshal_def comp_def case_prod_unfold)
next
  case (2 vs)
  then have "map canonicalizeForJCS vs = map render (map canon vs)" by (simp add: marshal_def)
  then show ?case by (simp only: canonicalizeForJCS.simps marshal_def canon.simps render.simps)
qed (simp_all add: marshal_def)

text \<open>The route \<open>verify\<close> tells readers to hash JSON with sorted keys; the keys of the record that is hashed are
  in the order of the struct.\<close>

theorem record_keys_are_not_sorted:
  assumes "row_storable r" "well_formed p" "ar_Payload r = render p"
  shows "record_json r \<noteq> marshal (record_value r p)"
proof
  let ?v = "record_value r p"
  assume "record_json r = marshal ?v"
  moreover have w: "well_formed ?v" by (rule record_value_ok [OF assms(1,2)])
  ultimately have e: "canon ?v = ?v"
    using render_unambiguous [of ?v "[]" "canon ?v" "[]"]
    by (simp add: record_json_render [OF assms(3)] marshal_def well_formed_def json_ok_canon repair_canon)
  obtain fs where fs: "?v = JObj ((''api_key_id'', JStr (ar_APIKeyID r)) # (''ts'', JStr (ar_TS r)) # (''event_type'', JStr (ar_EventType r)) # fs)"
    by (simp add: record_value_def)
  have "sorted (map (\<lambda>(k, v). map (of_char :: char \<Rightarrow> nat) k)
      (as_map (map (\<lambda>(k, v). (k, canon v)) ((''api_key_id'', JStr (ar_APIKeyID r)) # (''ts'', JStr (ar_TS r)) # (''event_type'', JStr (ar_EventType r)) # fs))))"
    by (rule as_map_keys)
  moreover have "as_map (map (\<lambda>(k, v). (k, canon v)) ((''api_key_id'', JStr (ar_APIKeyID r)) # (''ts'', JStr (ar_TS r)) # (''event_type'', JStr (ar_EventType r)) # fs))
      = (''api_key_id'', JStr (ar_APIKeyID r)) # (''ts'', JStr (ar_TS r)) # (''event_type'', JStr (ar_EventType r)) # fs"
    using e by (simp add: fs)
  ultimately show False by simp
qed

section \<open>Reading page by page\<close>

lemma after_last:
  fixes f :: "'a \<Rightarrow> nat"
  assumes "sorted_wrt (\<lambda>a b. f a < f b) (xs @ ys)" "xs \<noteq> []"
  shows "filter (\<lambda>r. f (last xs) < f r) (xs @ ys) = ys"
proof (cases xs rule: rev_cases)
  case (snoc zs l)
  have "filter (\<lambda>r. f l < f r) zs = []" "filter (\<lambda>r. f l < f r) ys = ys"
    using assms(1) snoc by (auto simp: sorted_wrt_append filter_empty_conv filter_id_conv)
  then show ?thesis by (simp add: snoc)
qed (use assms in simp)

theorem pages_cover_the_trail:
  assumes "audit_reach E d" "0 < limit"
  shows "filter (\<lambda>r. int (ar_Seq r) > a) (trail key (db_rows d))
    = (let page = audit_list key a limit [] (db_rows d) in
       page @ (if page = [] then [] else filter (\<lambda>r. int (ar_Seq r) > int (ar_Seq (last page))) (trail key (db_rows d))))"
proof -
  let ?t = "trail key (db_rows d)" and ?F = "filter (\<lambda>r. int (ar_Seq r) > a) (trail key (db_rows d))"
  let ?n = "nat (list_limit limit)"
  have page: "audit_list key a limit [] (db_rows d) = take ?n ?F" by (simp add: audit_list_def)
  have n: "0 < ?n" using assms(2) by (simp add: list_limit_def)
  have "in_order ?t" using reach_inv [OF assms(1)] by (simp add: audit_inv_def rows_inv_def trail_in_order)
  then have F: "sorted_wrt (\<lambda>a b. ar_Seq a < ar_Seq b) (take ?n ?F @ drop ?n ?F)"
    by (simp add: in_order_def sorted_wrt_filter)
  show ?thesis
  proof (cases "?F = []")
    case True
    then show ?thesis by (simp add: page)
  next
    case False
    then have ne: "take ?n ?F \<noteq> []" using n by (simp add: take_eq_Nil)
    let ?l = "last (take ?n ?F)"
    have l: "?l \<in> set (take ?n ?F)" using ne by (rule last_in_set)
    have "a < int (ar_Seq ?l)" using l by (auto dest: in_set_takeD)
    then have "filter (\<lambda>r. int (ar_Seq r) > int (ar_Seq ?l)) ?t = filter (\<lambda>r. ar_Seq r > ar_Seq ?l) ?F"
      by (auto intro!: filter_cong)
    also have "\<dots> = drop ?n ?F" using after_last [OF F ne] by simp
    finally have "filter (\<lambda>r. int (ar_Seq r) > int (ar_Seq ?l)) ?t = drop ?n ?F" .
    then show ?thesis using ne by (simp add: page Let_def)
  qed
qed

section \<open>Signatures\<close>

definition open_rows :: "audit_db \<Rightarrow> audit_row list" where
  "open_rows d = List.map_filter ap_row (db_open d)"

definition signed_right :: "audit_env \<Rightarrow> audit_row \<Rightarrow> bool" where
  "signed_right E r \<longleftrightarrow> (\<forall>sig. ar_Signature r = Some sig \<longrightarrow> au_sign E (ar_EntryHash r) = Some sig)"

text \<open>Every row, stored or under way, has a number of its own, given out by the sequence; the signatures
  that are there sign the hash of their row.\<close>

definition seq_inv :: "audit_env \<Rightarrow> audit_db \<Rightarrow> bool" where
  "seq_inv E d \<longleftrightarrow> distinct (map ar_Seq (db_rows d @ open_rows d))
     \<and> (\<forall>r \<in> set (db_rows d @ open_rows d). 0 < ar_Seq r \<and> ar_Seq r < db_next d \<and> signed_right E r) \<and> 0 < db_next d"

lemma map_filter_append: "List.map_filter f (xs @ ys) = List.map_filter f xs @ List.map_filter f ys"
  by (induction xs) (simp_all split: option.split)

lemma open_split:
  assumes "k < length (db_open d)"
  shows "open_rows d = List.map_filter ap_row (take k (db_open d)) @ (case ap_row (db_open d ! k) of None \<Rightarrow> [] | Some r \<Rightarrow> [r])
    @ List.map_filter ap_row (drop (Suc k) (db_open d))"
  by (subst open_rows_def, subst id_take_nth_drop [OF assms]) (simp add: map_filter_append map_filter_simps split: option.split)

lemma sign_rows_map: "sign_rows E rs = Some sigs \<Longrightarrow> map fst sigs = map ar_Seq rs"
  "sign_rows E rs = Some sigs \<Longrightarrow> r \<in> set rs \<Longrightarrow> \<exists>sig. (ar_Seq r, sig) \<in> set sigs \<and> au_sign E (ar_EntryHash r) = Some sig"
  by (induction rs arbitrary: sigs) (auto split: option.splits)

lemma claim_batch_rows: "set (claim_batch n locked rows) \<subseteq> {r \<in> set rows. ar_Signature r = None \<and> ar_Seq r \<notin> locked}"
  by (auto simp: claim_batch_def dest: in_set_takeD)

lemma signed_by_batch:
  assumes "distinct (map ar_Seq rows)" "sign_rows E (claim_batch n locked rows) = Some sigs" "r \<in> set rows"
  shows "set_signature sigs r = (if r \<in> set (claim_batch n locked rows) then r\<lparr>ar_Signature := au_sign E (ar_EntryHash r)\<rparr> else r)"
proof -
  let ?b = "claim_batch n locked rows"
  have sub: "set ?b \<subseteq> set rows" using claim_batch_rows [of n locked rows] by auto
  have "distinct (map ar_Seq ?b)"
    using assms(1) sub by (auto simp: claim_batch_def distinct_map intro: inj_on_subset)
  then have d: "distinct (map fst sigs)" using sign_rows_map(1) [OF assms(2)] by simp
  show ?thesis
  proof (cases "r \<in> set ?b")
    case True
    then obtain sig where "(ar_Seq r, sig) \<in> set sigs" "au_sign E (ar_EntryHash r) = Some sig"
      using sign_rows_map(2) [OF assms(2)] by blast
    then show ?thesis using d True by (simp add: set_signature_def)
  next
    case False
    have "ar_Seq r \<notin> ar_Seq ` set ?b"
    proof
      assume "ar_Seq r \<in> ar_Seq ` set ?b"
      then obtain q where "q \<in> set ?b" "ar_Seq q = ar_Seq r" by auto
      then have "q = r" using assms(1,3) sub by (auto simp: distinct_map dest: inj_onD)
      then show False using False \<open>q \<in> set ?b\<close> by simp
    qed
    then have "map_of sigs (ar_Seq r) = None"
      using sign_rows_map(1) [OF assms(2)] by (metis list.set_map map_of_eq_None_iff)
    then show ?thesis using False by (simp add: set_signature_def)
  qed
qed

lemma seq_inv_step:
  assumes "audit_step E d d'" "seq_inv E d"
  shows "seq_inv E d'"
  using assms
proof (induction rule: audit_step.induct)
  case (begin_append ev t)
  then show ?case by (simp add: seq_inv_def open_rows_def map_filter_append map_filter_simps)
next
  case (insert_row k a r ts)
  let ?d = "d\<lparr>db_next := Suc (db_next d), db_open := (db_open d)[k := a\<lparr>ap_row := Some r\<rparr>]\<rparr>"
  have "open_rows ?d = List.map_filter ap_row (take k (db_open d)) @ [r] @ List.map_filter ap_row (drop (Suc k) (db_open d))"
    using open_split [of k ?d] insert_row by (simp add: take_update_cancel drop_update_cancel)
  moreover have "open_rows d = List.map_filter ap_row (take k (db_open d)) @ List.map_filter ap_row (drop (Suc k) (db_open d))"
    using open_split [of k d] insert_row by simp
  ultimately show ?case using insert_row by (auto simp: seq_inv_def signed_right_def less_Suc_eq)
next
  case (commit_append k r)
  let ?d = "d\<lparr>db_rows := db_rows d @ [r], db_open := take k (db_open d) @ drop (Suc k) (db_open d)\<rparr>"
  have "open_rows ?d = List.map_filter ap_row (take k (db_open d)) @ List.map_filter ap_row (drop (Suc k) (db_open d))"
    by (simp add: open_rows_def map_filter_append)
  then show ?case using open_split [of k d] commit_append by (auto simp: seq_inv_def)
next
  case (abort_append k n)
  let ?d = "d\<lparr>db_next := n, db_open := take k (db_open d) @ drop (Suc k) (db_open d)\<rparr>"
  have "open_rows ?d = List.map_filter ap_row (take k (db_open d)) @ List.map_filter ap_row (drop (Suc k) (db_open d))"
    by (simp add: open_rows_def map_filter_append)
  then show ?case using open_split [of k d] abort_append
    by (auto simp: seq_inv_def split: option.splits intro: order.strict_trans2)
next
  case (sign_batch n locked)
  show ?case
  proof (cases "sign_rows E (claim_batch n locked (db_rows d))")
    case (Some sigs)
    have "distinct (map ar_Seq (db_rows d))" using sign_batch by (simp add: seq_inv_def)
    note s = signed_by_batch [OF this Some]
    have "signed_right E (set_signature sigs r)" if "r \<in> set (db_rows d)" for r
      using s [OF that] sign_batch that by (auto simp: seq_inv_def signed_right_def)
    moreover have "ar_Seq \<circ> set_signature sigs = ar_Seq" by (simp add: fun_eq_iff)
    ultimately show ?thesis using sign_batch Some by (auto simp: seq_inv_def processBatch_def open_rows_def)
  qed (use sign_batch in \<open>simp add: seq_inv_def processBatch_def open_rows_def\<close>)
qed (simp add: seq_inv_def open_rows_def)

lemma reach_seq: "audit_reach E d \<Longrightarrow> seq_inv E d"
proof (induction rule: audit_reach.induct)
  case audit_init
  show ?case by (simp add: seq_inv_def empty_db_def open_rows_def map_filter_simps)
qed (rule seq_inv_step)

lemma chain_from_rows: "chain_from E p rs \<Longrightarrow> r \<in> set rs \<Longrightarrow> ar_EntryHash r = entry_hash E r"
  by (induction rs arbitrary: p) auto

lemma reach_entry_hash: "audit_reach E d \<Longrightarrow> r \<in> set (db_rows d) \<Longrightarrow> ar_EntryHash r = entry_hash E r"
  using reach_trail(1) [of E d "ar_APIKeyID r"] by (rule chain_from_rows) (simp_all add: trail_def)

theorem signatures_are_right:
  assumes "audit_reach E d" "r \<in> set (db_rows d)" "ar_Signature r = Some sig"
  shows "au_sign E (entry_hash E r) = Some sig"
proof -
  have "signed_right E r" using reach_seq [OF assms(1)] assms(2) by (simp add: seq_inv_def)
  then show ?thesis using assms(3) by (simp add: signed_right_def reach_entry_hash [OF assms(1,2)])
qed

lemma sign_rows_some: "\<forall>r \<in> set rs. au_sign E (ar_EntryHash r) \<noteq> None \<Longrightarrow> \<exists>sigs. sign_rows E rs = Some sigs"
  by (induction rs) auto

lemma length_without:
  assumes "distinct xs" "set ys \<subseteq> set xs" "distinct ys"
  shows "length (filter (\<lambda>x. x \<notin> set ys) xs) = length xs - length ys"
proof -
  have "set (filter (\<lambda>x. x \<notin> set ys) xs) = set xs - set ys" by auto
  then have "length (filter (\<lambda>x. x \<notin> set ys) xs) = card (set xs - set ys)" using assms(1) by (metis distinct_card distinct_filter)
  then show ?thesis using assms by (simp add: card_Diff_subset distinct_card)
qed

theorem batches_drain_the_outbox:
  assumes "audit_reach E d" "\<forall>r \<in> set (db_rows d). au_sign E (ar_EntryHash r) \<noteq> None"
  shows "outboxDepth (processBatch E n {} (db_rows d)) = outboxDepth (db_rows d) - n"
proof -
  let ?b = "claim_batch n {} (db_rows d)" and ?f = "filter (\<lambda>r. ar_Signature r = None) (db_rows d)"
  have sub: "set ?b \<subseteq> set ?f" using claim_batch_rows [of n "{}" "db_rows d"] by auto
  then obtain sigs where sigs: "sign_rows E ?b = Some sigs" using sign_rows_some [of ?b E] assms(2) by auto
  have dr: "distinct (map ar_Seq (db_rows d))" using reach_seq [OF assms(1)] by (simp add: seq_inv_def)
  then have d: "distinct ?f" "distinct ?b" by (auto simp: claim_batch_def distinct_map)
  have "ar_Signature (set_signature sigs r) = None \<longleftrightarrow> ar_Signature r = None \<and> r \<notin> set ?b" if "r \<in> set (db_rows d)" for r
    using signed_by_batch [OF dr sigs that] assms(2) that by auto
  then have "filter (\<lambda>r. ar_Signature (set_signature sigs r) = None) (db_rows d) = filter (\<lambda>r. ar_Signature r = None \<and> r \<notin> set ?b) (db_rows d)"
    by (rule filter_cong [OF refl])
  then have "outboxDepth (processBatch E n {} (db_rows d)) = length (filter (\<lambda>r. r \<notin> set ?b) ?f)"
    by (simp add: outboxDepth_def processBatch_def sigs filter_map comp_def conj_commute)
  also have "\<dots> = length ?f - length ?b" using length_without d sub by blast
  also have "length ?b = min n (length ?f)" by (simp add: claim_batch_def min.commute)
  finally show ?thesis by (simp add: outboxDepth_def)
qed

section \<open>Snapshots\<close>

lemma fetch_loop_subset: "set (fst (fetch_loop m taken acc rs)) \<subseteq> set taken \<union> set rs"
proof (induction m taken acc rs rule: fetch_loop.induct)
  case (2 m taken acc r rs)
  then show ?case by (auto simp: Let_def split: if_splits)
qed simp

lemma take_sorted_below:
  assumes "sorted (map f xs)" "n \<le> length (filter (\<lambda>x. f x < s) xs)" "x \<in> set (take n xs)"
  shows "f x < (s :: nat)"
  using assms
proof (induction xs arbitrary: n)
  case (Cons y xs)
  show ?case
  proof (cases "f y < s")
    case True
    then show ?thesis using Cons by (cases n) (auto intro: Cons.IH [of "n - 1"])
  next
    case False
    then have "filter (\<lambda>x. f x < s) (y # xs) = []" using Cons.prems(1) by (fastforce simp: filter_empty_conv)
    then show ?thesis using Cons.prems by simp
  qed
qed simp

lemma no_constraint_no_snapshot:
  "''uq_audit_snapshot_log_date_seq'' \<notin> set (au_constraints E) \<Longrightarrow> db_snaps (runOnce E day put d) = db_snaps d"
  by (simp add: runOnce_def recordSnapshot_def Let_def split: prod.split)

lemma first_batch_again:
  assumes "db_snaps d = []" "au_maxRows E \<le> length (filter (\<lambda>r. ar_Seq r < s) (db_rows d))" "\<forall>r \<in> set (db_rows d). 0 < ar_Seq r"
    and "u \<in> set (db_uploads (runOnce E day put d))" "u \<notin> set (db_uploads d)" "r \<in> set u"
  shows "ar_Seq r < s"
proof -
  have "u = fst (fetchRange E 0 (db_rows d))"
    using assms(1,4,5) by (auto simp: runOnce_def lastSnapshottedSeq_def Let_def split: prod.splits sum.splits if_splits)
  moreover have "filter (\<lambda>r. 0 < ar_Seq r) (db_rows d) = db_rows d" using assms(3) by simp
  ultimately have "r \<in> set (take (au_maxRows E) (sort_key ar_Seq (db_rows d)))"
    using assms(6) fetch_loop_subset [of "au_maxBytes E" "[]" 0] by (auto simp: fetchRange_def)
  moreover have "length (filter (\<lambda>r. ar_Seq r < s) (sort_key ar_Seq (db_rows d))) = length (filter (\<lambda>r. ar_Seq r < s) (db_rows d))"
    by (simp add: filter_sort)
  ultimately show ?thesis using assms(2)
    by (intro take_sorted_below [of ar_Seq "sort_key ar_Seq (db_rows d)" "au_maxRows E"]) simp_all
qed

text \<open>A number that has a full batch before it, and has not been uploaded.\<close>

definition behind :: "audit_env \<Rightarrow> nat \<Rightarrow> audit_db \<Rightarrow> bool" where
  "behind E s d \<longleftrightarrow> au_maxRows E \<le> length (filter (\<lambda>r. ar_Seq r < s) (db_rows d))
     \<and> (\<forall>u \<in> set (db_uploads d). \<forall>r \<in> set u. ar_Seq r \<noteq> s)"

lemma behind_step:
  assumes "audit_step E d d'" "''uq_audit_snapshot_log_date_seq'' \<notin> set (au_constraints E)" "db_snaps d = []" "seq_inv E d" "behind E s d"
  shows "behind E s d' \<and> db_snaps d' = []"
  using assms
proof (induction rule: audit_step.induct)
  case (take_snapshot day put)
  have "ar_Seq r \<noteq> s" if "u \<in> set (db_uploads (runOnce E day put d))" "r \<in> set u" for u r
  proof (cases "u \<in> set (db_uploads d)")
    case False
    then show ?thesis using first_batch_again [OF _ _ _ that(1) False that(2), of s] take_snapshot
      by (fastforce simp: behind_def seq_inv_def)
  qed (use take_snapshot that in \<open>simp add: behind_def\<close>)
  then show ?case using take_snapshot by (simp add: behind_def no_constraint_no_snapshot)
next
  case (sign_batch n locked)
  then show ?case by (simp add: behind_def processBatch_def filter_map comp_def split: option.split)
qed (simp_all add: behind_def)

lemma no_snapshots:
  "audit_reach E d \<Longrightarrow> ''uq_audit_snapshot_log_date_seq'' \<notin> set (au_constraints E) \<Longrightarrow> db_snaps d = []"
proof (induction rule: audit_reach.induct)
  case (audit_next d d')
  from audit_next.hyps(2) show ?case
    by (cases rule: audit_step.cases) (use audit_next no_constraint_no_snapshot in auto)
qed (simp add: empty_db_def)

text \<open>Property C21. Without a constraint of the name the insert mentions (the migrations create a unique index) no
  snapshot is ever recorded: the cursor stays at zero, and a row with a full batch before it is never
  uploaded, however long the snapshotter runs.\<close>

theorem snapshots_never_advance:
  assumes "''uq_audit_snapshot_log_date_seq'' \<notin> set (au_constraints E)"
    and "audit_reach E d" "behind E s d" "(audit_step E)\<^sup>*\<^sup>* d d'"
  shows "lastSnapshottedSeq d' = 0 \<and> behind E s d'"
proof -
  have "audit_reach E d' \<and> behind E s d'" using assms(4)
  proof (induction rule: rtranclp_induct)
    case (step x y)
    then show ?case using behind_step [OF step.hyps(2) assms(1), of s] no_snapshots reach_seq assms(1)
      by (auto intro: audit_next)
  qed (use assms in simp)
  then show ?thesis using no_snapshots [OF _ assms(1), of d'] by (simp add: lastSnapshottedSeq_def)
qed

section \<open>Tokens in error texts\<close>

fun find_sub :: "string \<Rightarrow> string \<Rightarrow> nat option" where
  "find_sub p s =
     (if prefix p s then Some 0 else case s of [] \<Rightarrow> None | c # r \<Rightarrow> map_option Suc (find_sub p r))"

declare find_sub.simps [simp del]

definition token_char :: "char \<Rightarrow> bool" where
  "token_char c \<longleftrightarrow> byte_in 0x61 0x7A c \<or> byte_in 0x41 0x5A c \<or> byte_in 0x30 0x39 c \<or> c \<in> {CHR ''-'', CHR ''_'', CHR ''.''}"

text \<open>The inner loop searches from the start again after every replacement.\<close>

partial_function (option) redact_prefix :: "string \<Rightarrow> string \<Rightarrow> string option" where
  "redact_prefix p out =
     (case find_sub p out of None \<Rightarrow> Some out
      | Some i \<Rightarrow> redact_prefix p (take i out @ ''[REDACTED]'' @ dropWhile token_char (drop (i + length p) out)))"

definition vault_prefixes :: "string list" where
  "vault_prefixes = [''hvs.'', ''hvr.'', ''hvb.'', ''hsv.'', ''s.'']"

fun redact_all :: "string list \<Rightarrow> string \<Rightarrow> string option" where
  "redact_all [] out = Some out"
| "redact_all (p # ps) out = (case redact_prefix p out of None \<Rightarrow> None | Some t \<Rightarrow> redact_all ps t)"

definition redactVaultToken :: "string \<Rightarrow> string option" where
  "redactVaultToken s = redact_all vault_prefixes s"

lemma find_sub_none: "find_sub p s = None \<Longrightarrow> \<not> sublist p s"
proof (induction s)
  case Nil
  then show ?case by (simp add: find_sub.simps [of p "[]"] split: if_splits)
next
  case (Cons c s)
  then show ?case by (simp add: find_sub.simps [of p "c # s"] sublist_Cons_right split: if_splits)
qed

lemma find_sub_some: "find_sub p s = Some i \<Longrightarrow> prefix p (drop i s) \<and> (\<forall>j < i. \<not> prefix p (drop j s))"
proof (induction s arbitrary: i)
  case Nil
  then show ?case by (simp add: find_sub.simps [of p "[]"] split: if_splits)
next
  case (Cons c s)
  show ?case
  proof (cases "prefix p (c # s)")
    case False
    then obtain j where j: "find_sub p s = Some j" "i = Suc j" using Cons.prems by (auto simp: find_sub.simps [of p "c # s"])
    with Cons.IH [OF j(1)] False show ?thesis by (auto simp: less_Suc_eq_0_disj)
  qed (use Cons.prems in \<open>simp add: find_sub.simps [of p "c # s"]\<close>)
qed

text \<open>A prefix without brackets does not reach across one.\<close>

definition token_prefix :: "string \<Rightarrow> bool" where
  "token_prefix p \<longleftrightarrow> CHR ''['' \<notin> set p \<and> CHR '']'' \<notin> set p \<and> CHR ''.'' \<in> set p"

lemma sublist_across:
  assumes "c \<notin> set p"
  shows "sublist p (x @ c # y) \<longleftrightarrow> sublist p x \<or> sublist p y"
proof -
  have "xs2 = []" if "prefix xs2 (c # y)" "p = xs1 @ xs2" for xs1 xs2 using that assms by (cases xs2) auto
  moreover have "sublist p (c # y) \<longleftrightarrow> sublist p y"
    using assms by (cases p) (auto simp: sublist_Cons_right)
  ultimately show ?thesis using suffix_imp_sublist by (fastforce simp: sublist_append)
qed

lemma redacted_sublist:
  assumes "token_prefix p"
  shows "sublist p (x @ ''[REDACTED]'' @ y) \<longleftrightarrow> sublist p x \<or> sublist p y"
proof -
  have b: "CHR ''['' \<notin> set p" "CHR '']'' \<notin> set p" "CHR ''.'' \<in> set p" using assms by (simp_all add: token_prefix_def)
  have "sublist p (x @ CHR ''['' # (''REDACTED'' @ CHR '']'' # y)) \<longleftrightarrow> sublist p x \<or> sublist p ''REDACTED'' \<or> sublist p y"
    by (simp only: sublist_across b(1,2) not_False_eq_True)
  moreover have "\<not> sublist p ''REDACTED''" using b(3) set_mono_sublist [of p "''REDACTED''"] by auto
  ultimately show ?thesis by simp
qed

lemma redacted_rest: "sublist q (dropWhile P (drop n s)) \<Longrightarrow> sublist q s"
  by (meson sublist_drop sublist_dropWhile sublist_order.order_trans)

lemma redact_prefix_returns:
  assumes "token_prefix p" "\<not> sublist p a" "a = [] \<or> last a = CHR '']''"
  shows "\<exists>t. redact_prefix p (a @ rest) = Some t \<and> \<not> sublist p t
    \<and> (\<forall>q. token_prefix q \<longrightarrow> \<not> sublist q (a @ rest) \<longrightarrow> \<not> sublist q t)"
  using assms(2,3)
proof (induction "length rest" arbitrary: a rest rule: less_induct)
  case less
  show ?case
  proof (cases "find_sub p (a @ rest)")
    case None
    then show ?thesis using find_sub_none [OF None] by (auto simp: redact_prefix.simps [of p "a @ rest"])
  next
    case (Some i)
    let ?s = "a @ rest"
    have i: "prefix p (drop i ?s)" "\<And>j. j < i \<Longrightarrow> \<not> prefix p (drop j ?s)" using find_sub_some [OF Some] by auto
    have p: "p \<noteq> []" "CHR '']'' \<notin> set p" using assms(1) by (auto simp: token_prefix_def)
    have ge: "length a \<le> i"
    proof (rule ccontr)
      assume n: "\<not> length a \<le> i"
      then have "a \<noteq> []" by auto
      then obtain b where b: "a = b @ [CHR '']'']" using less.prems by (metis append_butlast_last_id)
      have "drop i ?s = drop i b @ CHR '']'' # rest" using n by (simp add: b)
      then obtain z where "drop i b @ CHR '']'' # rest = p @ z" using i(1) by (auto simp: prefix_def)
      then have "prefix p (drop i b)" using p(2) by (auto simp: append_eq_append_conv2 Cons_eq_append_conv)
      then have "sublist p a" unfolding b by (meson prefix_imp_sublist sublist_append_leftI sublist_appendI sublist_drop sublist_order.order_trans sublist_append_rightI)
      then show False using less.prems by simp
    qed
    let ?a = "take i ?s @ ''[REDACTED]''" and ?r = "dropWhile token_char (drop (i + length p) ?s)"
    have free: "\<not> sublist p (take i ?s)"
    proof
      assume "sublist p (take i ?s)"
      then obtain u v where u: "take i ?s = u @ p @ v" by (auto simp: sublist_def)
      then have "length (u @ p @ v) \<le> i" by (metis length_take min.cobounded2)
      then have "length u < i" using p(1) by (cases p) auto
      moreover have "drop (length u) ?s = p @ v @ drop i ?s" using u by (metis append.assoc append_eq_conv_conj append_take_drop_id)
      ultimately show False using i(2) [of "length u"] by simp
    qed
    have "i + length p \<le> length ?s" using i(1) p(1) prefix_length_le [OF i(1)] by (cases p) auto
    then have "length ?r < length rest"
      using length_dropWhile_le [of token_char "drop (i + length p) ?s"] ge p(1) by (cases p) auto
    moreover have "\<not> sublist p ?a" using redacted_sublist [OF assms(1), of "take i ?s" "[]"] free p(1) by simp
    ultimately obtain t where t: "redact_prefix p (?a @ ?r) = Some t" "\<not> sublist p t"
      "\<And>q. token_prefix q \<Longrightarrow> \<not> sublist q (?a @ ?r) \<Longrightarrow> \<not> sublist q t"
      using less.hyps [of ?r ?a] by auto
    have "\<not> sublist q (?a @ ?r)" if "token_prefix q" "\<not> sublist q ?s" for q
      using redacted_sublist [OF that(1), of "take i ?s" ?r] redacted_rest [of q] that(2) sublist_order.order_trans [OF _ sublist_take]
      by (metis append.assoc)
    then show ?thesis using t Some by (auto simp: redact_prefix.simps [of p ?s])
  qed
qed

lemma redact_all_returns:
  "list_all token_prefix ps \<Longrightarrow> \<exists>t. redact_all ps s = Some t \<and> (\<forall>p \<in> set ps. \<not> sublist p t)
     \<and> (\<forall>q. token_prefix q \<longrightarrow> \<not> sublist q s \<longrightarrow> \<not> sublist q t)"
proof (induction ps arbitrary: s)
  case (Cons p ps)
  then have p: "token_prefix p" by simp
  then have "\<not> sublist p []" by (auto simp: token_prefix_def)
  then obtain u where u: "redact_prefix p s = Some u" "\<not> sublist p u" "\<forall>q. token_prefix q \<longrightarrow> \<not> sublist q s \<longrightarrow> \<not> sublist q u"
    using redact_prefix_returns [OF p, of "[]" s] by auto
  obtain t where "redact_all ps u = Some t" "\<forall>p \<in> set ps. \<not> sublist p t" "\<forall>q. token_prefix q \<longrightarrow> \<not> sublist q u \<longrightarrow> \<not> sublist q t"
    using Cons.IH [of u] Cons.prems by auto
  then show ?case using u p by auto
qed simp

text \<open>Property C30. Redaction returns on every text, and no prefix of a Vault token is left in what it returns.\<close>

theorem redaction_leaves_no_token:
  "\<exists>t. redactVaultToken s = Some t \<and> list_all (\<lambda>p. \<not> sublist p t) vault_prefixes"
  using redact_all_returns [of vault_prefixes s] by (auto simp: redactVaultToken_def vault_prefixes_def token_prefix_def list_all_iff)

end
