(* ===== verification/IntentStore.thy ===== *)
theory IntentStore
  imports IntentFlow
begin

text \<open>
  The store of the intents (\<open>store.go\<close> and the constraints of migrations 034, 035 and 038), the HTTP
  handlers (\<open>handlers.go\<close>), and the system they make: rows that several running requests and the
  reconciler read and write, one statement or external call at a time. A row is the intent as
  \<open>scanIntent\<close> reads it back. Every call may fail, with or without its effect, and a process may
  die between any two calls.
\<close>

section \<open>The table\<close>

definition is_open :: "intent_status \<Rightarrow> bool" where
  "is_open s \<longleftrightarrow> s \<notin> {StatusSettled, StatusFailed, StatusExpired, StatusCancelled}"

definition nullif :: "(string \<Rightarrow> string option) \<Rightarrow> string \<Rightarrow> string option" where
  "nullif f s = (if s = [] then Some [] else f s)"

definition nonEmptyJSON :: "string \<Rightarrow> string" where
  "nonEmptyJSON j = (if j = [] then ''{}'' else j)"

definition reencode_hex :: "string \<Rightarrow> string option" where
  "reencode_hex s = map_option hex_lower (hex_decode s)"

definition reencode_b64 :: "string \<Rightarrow> string option" where
  "reencode_b64 s = map_option b64_encode (b64_decode s)"

text \<open>The row an intent becomes: decoded, checked against the column types, and read back. The
  columns the statement does not name are NULL.\<close>

definition stored_row :: "Orchestrator \<Rightarrow> string \<Rightarrow> int \<Rightarrow> Intent \<Rightarrow> Intent option" where
  "stored_row W fresh t it =
     (case (reencode_hex (it_SignMessageHex it), reencode_hex (it_MessageMetadataHex it),
            reencode_b64 (it_UnsignedTxB64 it), nullif reencode_b64 (it_ApproveUnsignedTxB64 it),
            nullif reencode_hex (it_ApproveMessageHex it)) of
        (Some msg, Some meta, Some tx, Some atx, Some amsg) \<Rightarrow>
          (case (or_pguuid W (it_UserID it), nullif (or_pguuid W) (it_APIKeyID it), or_numeric W (it_FromAmount it),
                 nullif (or_numeric W) (it_QuotedAmountOut it), nullif (or_numeric W) (it_QuotedAmountOutMin it),
                 or_jsonb W (nonEmptyJSON (it_RouteSnapshot it)), or_jsonb W (nonEmptyJSON (it_RiskSnapshot it))) of
             (Some user, Some key, Some amt, Some out, Some outMin, Some route, Some risk) \<Rightarrow>
               if it_ChainKind it \<in> {''solana'', ''evm'', ''sui''} \<and> it_IkaCurve it < 0x8000 \<and> it_SignScheme it < 0x8000
               then Some (it\<lparr>it_ID := fresh, it_UserID := user, it_APIKeyID := key, it_FromAmount := amt,
                 it_QuotedAmountOut := out, it_QuotedAmountOutMin := outMin, it_SignMessageHex := msg,
                 it_MessageMetadataHex := meta, it_UnsignedTxB64 := tx, it_RouteSnapshot := route,
                 it_RiskSnapshot := risk, it_ApprovalTxSig := [], it_ApprovalSlot := 0, it_PresignSessionID := [],
                 it_SwapTxHash := [], it_ApproveUnsignedTxB64 := atx, it_ApproveMessageHex := amsg,
                 it_ApproveTxHash := [], it_UpdatedAt := t\<rparr>)
               else None
           | _ \<Rightarrow> None)
      | _ \<Rightarrow> None)"

text \<open>The single-in-flight guard of \<open>InsertPrepared\<close>; the advisory lock makes the count and the
  insertion one step.\<close>

definition evm_in_flight :: "Orchestrator \<Rightarrow> Intent list \<Rightarrow> Intent \<Rightarrow> bool" where
  "evm_in_flight W rows it \<longleftrightarrow> it_ChainKind it = ''evm'' \<and>
     list_ex (\<lambda>r. or_pguuid W (it_UserID it) = Some (it_UserID r) \<and> it_ChainNativeAddress r = it_ChainNativeAddress it
       \<and> it_ChainID r = it_ChainID it \<and> it_ChainKind r = ''evm'' \<and> is_open (it_Status r)) rows"

definition db_insert :: "Orchestrator \<Rightarrow> string \<Rightarrow> int \<Rightarrow> Intent \<Rightarrow> Intent list \<Rightarrow> Intent list \<times> ans" where
  "db_insert W fresh t it rows =
     (if evm_in_flight W rows it then (rows, AInFlight)
      else case stored_row W fresh t it of
        None \<Rightarrow> (rows, AErr)
      | Some r \<Rightarrow> (rows @ [r], AInserted fresh t))"

definition db_get :: "Orchestrator \<Rightarrow> string \<Rightarrow> string \<Rightarrow> Intent list \<Rightarrow> ans" where
  "db_get W i u rows =
     (case (or_pguuid W i, or_pguuid W u) of
        (Some i', Some u') \<Rightarrow>
          (case find (\<lambda>r. it_ID r = i' \<and> it_UserID r = u') rows of None \<Rightarrow> ANotFound | Some r \<Rightarrow> ARow r)
      | _ \<Rightarrow> AErr)"

text \<open>\<open>UPDATE intents SET ..., updated_at = now() WHERE id = $1\<close>\<close>

definition db_update ::
    "Orchestrator \<Rightarrow> string \<Rightarrow> int \<Rightarrow> (Intent \<Rightarrow> Intent) \<Rightarrow> Intent list \<Rightarrow> Intent list \<times> ans" where
  "db_update W i t f rows =
     (case or_pguuid W i of
        None \<Rightarrow> (rows, AErr)
      | Some c \<Rightarrow> (map (\<lambda>r. if it_ID r = c then (f r)\<lparr>it_UpdatedAt := t\<rparr> else r) rows, ADone))"

definition db_cas ::
    "Orchestrator \<Rightarrow> string \<Rightarrow> int \<Rightarrow> intent_status \<Rightarrow> intent_status \<Rightarrow> Intent list \<Rightarrow> Intent list \<times> ans" where
  "db_cas W i t s s' rows =
     (case or_pguuid W i of
        None \<Rightarrow> (rows, AErr)
      | Some c \<Rightarrow>
          if list_ex (\<lambda>r. it_ID r = c \<and> it_Status r = s) rows
          then (map (\<lambda>r. if it_ID r = c \<and> it_Status r = s then r\<lparr>it_Status := s', it_UpdatedAt := t\<rparr> else r) rows, ADone)
          else (rows, AConflict))"

definition db_list :: "int \<Rightarrow> int \<Rightarrow> nat \<Rightarrow> Intent list \<Rightarrow> Intent list" where
  "db_list t age lim rows =
     take lim (sort_key it_UpdatedAt (filter (\<lambda>r. is_open (it_Status r) \<and> it_UpdatedAt r < t - age) rows))"

definition db_risk :: "Orchestrator \<Rightarrow> string \<Rightarrow> int \<Rightarrow> string \<Rightarrow> Intent list \<Rightarrow> Intent list \<times> ans" where
  "db_risk W i t j rows =
     (if j = [] then (rows, ADone)
      else case or_jsonb W j of None \<Rightarrow> (rows, AErr)
        | Some v \<Rightarrow> db_update W i t (\<lambda>r. r\<lparr>it_RiskSnapshot := v\<rparr>) rows)"

text \<open>A call of the store or of the clock at time \<open>t\<close>; \<open>fresh\<close> is the next generated id. Every other
  call goes to an upstream.\<close>

fun db_apply :: "Orchestrator \<Rightarrow> int \<Rightarrow> string \<Rightarrow> op \<Rightarrow> Intent list \<Rightarrow> (Intent list \<times> ans) option" where
  "db_apply W t fresh (GetForUser i u) rows = Some (rows, db_get W i u rows)"
| "db_apply W t fresh (CASStatus i s s') rows = Some (db_cas W i t s s' rows)"
| "db_apply W t fresh (SetStatus i s) rows = Some (db_update W i t (\<lambda>r. r\<lparr>it_Status := s\<rparr>) rows)"
| "db_apply W t fresh (SetError i s) rows = Some (db_update W i t (\<lambda>r. r\<lparr>it_Status := s\<rparr>) rows)"
| "db_apply W t fresh (SaveApproval i sig slot presign meta) rows =
     Some (db_update W i t (\<lambda>r. r\<lparr>it_ApprovalTxSig := sig, it_ApprovalSlot := slot,
       it_PresignSessionID := presign, it_PolicyMetadataDigestHex := meta\<rparr>) rows)"
| "db_apply W t fresh (SaveERC20Approve i h) rows =
     Some (db_update W i t (\<lambda>r. r\<lparr>it_ApproveTxHash := h, it_Status := StatusApproving\<rparr>) rows)"
| "db_apply W t fresh (SaveRisk i j) rows = Some (db_risk W i t j rows)"
| "db_apply W t fresh (SaveBroadcast i s h) rows =
     Some (db_update W i t (\<lambda>r. r\<lparr>it_Status := s, it_SwapTxHash := h\<rparr>) rows)"
| "db_apply W t fresh (InsertPrepared it) rows = Some (db_insert W fresh t it rows)"
| "db_apply W t fresh (ListOpenOlderThan age lim) rows = Some (rows, ARows (db_list t age lim rows))"
| "db_apply W t fresh Now rows = Some (rows, ATime t)"
| "db_apply W t fresh _ rows = None"

section \<open>Handlers\<close>

record challengeRequest =
  cq_IntentID :: string
  cq_OwnerSlotHex :: string

fun digits1 :: "string \<Rightarrow> bool" where
  "digits1 [] = False"
| "digits1 s = list_all is_digit s"

text \<open>The tag \<open>numeric\<close>: \<open>^[-+]?[0-9]+(?:\.[0-9]+)?$\<close>.\<close>

definition validateNumeric :: "string \<Rightarrow> bool" where
  "validateNumeric s =
     (let u = (case s of c # r \<Rightarrow> if c \<in> {CHR ''-'', CHR ''+''} then r else s | [] \<Rightarrow> s);
          f = dropWhile (\<lambda>c. c \<noteq> CHR ''.'') u in
      digits1 (takeWhile (\<lambda>c. c \<noteq> CHR ''.'') u) \<and> (f = [] \<or> digits1 (tl f)))"

definition prepare_valid :: "prepareRequest \<Rightarrow> bool" where
  "prepare_valid r \<longleftrightarrow> pq_DwalletAddress r \<noteq> [] \<and> pq_DwalletPublicKeyHex r \<noteq> []
     \<and> length (pq_OwnerPubkeyHex r) = 64 \<and> length (pq_InitAuthorityHashHex r) = 64 \<and> pq_IkaCurve r \<le> 2
     \<and> pq_ChainKind r \<noteq> [] \<and> pq_FromChain r \<noteq> [] \<and> pq_ToChain r \<noteq> [] \<and> pq_FromToken r \<noteq> [] \<and> pq_ToToken r \<noteq> []
     \<and> validateNumeric (pq_FromAmount r) \<and> 0 \<le> pq_SlippageBps r \<and> pq_SlippageBps r \<le> 5000"

definition challenge_valid :: "Orchestrator \<Rightarrow> challengeRequest \<Rightarrow> bool" where
  "challenge_valid W r \<longleftrightarrow> or_uuid W (cq_IntentID r) \<and> length (cq_OwnerSlotHex r) = 68"

definition handle :: "string \<Rightarrow> bool \<Rightarrow> (http_error + 'a) prog \<Rightarrow> (http_error + 'a) prog" where
  "handle userID valid p =
     (if userID = [] then Ret (Inl (HttpError 401 ''unauthorized''))
      else if \<not> valid then Ret (Inl (HttpError 400 ''validation_failed'')) else p)"

definition handle_prepare ::
    "Orchestrator \<Rightarrow> string \<Rightarrow> string \<Rightarrow> prepareRequest \<Rightarrow> (http_error + prepareResponse) prog" where
  "handle_prepare W userID apiKeyID r = handle userID (prepare_valid r) (Prepare W userID apiKeyID r)"

definition handle_simulate :: "Orchestrator \<Rightarrow> string \<Rightarrow> prepareRequest \<Rightarrow> (http_error + simulateResponse) prog" where
  "handle_simulate W userID r = handle userID (prepare_valid r) (Simulate W userID r)"

definition handle_challenge :: "Orchestrator \<Rightarrow> string \<Rightarrow> challengeRequest \<Rightarrow> (http_error + challengeResponse) prog" where
  "handle_challenge W userID r =
     handle userID (challenge_valid W r) (Challenge W userID (cq_IntentID r) (cq_OwnerSlotHex r))"

definition handle_submit :: "Orchestrator \<Rightarrow> string \<Rightarrow> submitRequest \<Rightarrow> (http_error + submitResponse) prog" where
  "handle_submit W userID r = handle userID (submit_valid W r) (Submit W userID r)"

definition handle_status :: "string \<Rightarrow> string \<Rightarrow> (http_error + statusResponse) prog" where
  "handle_status userID i = handle userID True (Status userID i)"

section \<open>The system\<close>

type_synonym history = "(op \<times> ans) list"

text \<open>A running request of a user, or the reconciler (\<open>None\<close>): what it has called and been answered
  so far, and the rest of its program.\<close>

record proc =
  pr_user :: "string option"
  pr_hist :: history
  pr_prog :: "unit prog"

record world =
  wo_rows :: "Intent list"
  wo_procs :: "proc list"
  wo_clock :: int

definition run :: "'r prog \<Rightarrow> unit prog" where
  "run p = bind_prog p (\<lambda>_. Ret ())"

inductive client :: "Orchestrator \<Rightarrow> string option \<Rightarrow> unit prog \<Rightarrow> bool" for W where
  client_prepare: "client W (Some u) (run (Prepare W u k r))"
| client_simulate: "client W (Some u) (run (Simulate W u r))"
| client_challenge: "client W (Some u) (run (Challenge W u i s))"
| client_submit: "client W (Some u) (run (Submit W u sr))"
| client_status: "client W (Some u) (run (Status u i))"
| client_sweep: "client W None (sweep W)"

text \<open>The answer of a call and what it leaves in the table. A statement that fails may have been
  executed; an upstream may answer anything.\<close>

inductive serve :: "Orchestrator \<Rightarrow> int \<Rightarrow> op \<Rightarrow> Intent list \<Rightarrow> Intent list \<Rightarrow> ans \<Rightarrow> bool" for W t c rows where
  served: "serve W t c rows rows' a"
    if "db_apply W t fresh c rows = Some (rows', a)" "or_pguuid W fresh = Some fresh" "fresh \<notin> it_ID ` set rows"
| answer_lost: "serve W t c rows rows' AErr"
    if "db_apply W t fresh c rows = Some (rows', a)" "or_pguuid W fresh = Some fresh" "fresh \<notin> it_ID ` set rows"
| not_executed: "serve W t c rows rows AErr"
| upstream: "serve W t c rows rows a" if "db_apply W t [] c rows = None"

inductive step :: "Orchestrator \<Rightarrow> world \<Rightarrow> world \<Rightarrow> bool" for W w where
  step_spawn: "step W w (w\<lparr>wo_procs := wo_procs w @ [\<lparr>pr_user = u, pr_hist = [], pr_prog = p\<rparr>]\<rparr>)"
    if "client W u p"
| step_call: "step W w (w\<lparr>wo_rows := rows', wo_procs := (wo_procs w)[k :=
      P\<lparr>pr_hist := pr_hist P @ [(c, a)], pr_prog := f a\<rparr>]\<rparr>)"
    if "k < length (wo_procs w)" "wo_procs w ! k = P" "pr_prog P = Do c f"
      "serve W (wo_clock w) c (wo_rows w) rows' a"
| step_crash: "step W w (w\<lparr>wo_procs := (wo_procs w)[k := P\<lparr>pr_prog := Ret ()\<rparr>]\<rparr>)"
    if "k < length (wo_procs w)" "wo_procs w ! k = P"
| step_time: "step W w (w\<lparr>wo_clock := t\<rparr>)" if "wo_clock w \<le> t"

definition empty_world :: world where
  "empty_world = \<lparr>wo_rows = [], wo_procs = [], wo_clock = 0\<rparr>"

inductive reachable :: "Orchestrator \<Rightarrow> world \<Rightarrow> bool" for W where
  reach_init: "reachable W empty_world"
| reach_step: "reachable W w \<Longrightarrow> step W w w' \<Longrightarrow> reachable W w'"

inductive_cases client_cases: "client W u p"
inductive_cases serve_cases: "serve W t c rows rows' a"
inductive_cases step_cases: "step W w w'"

text \<open>How often \<open>Finalize\<close> was called for a leg of the row with id \<open>i\<close>.\<close>

definition broadcasts :: "Orchestrator \<Rightarrow> leg \<Rightarrow> string \<Rightarrow> history \<Rightarrow> nat" where
  "broadcasts W l i h =
     length (filter (\<lambda>(c, _). case c of Finalize l' j _ \<Rightarrow> l' = l \<and> or_pguuid W j = Some i | _ \<Rightarrow> False) h)"

definition total_broadcasts :: "Orchestrator \<Rightarrow> leg \<Rightarrow> string \<Rightarrow> world \<Rightarrow> nat" where
  "total_broadcasts W l i w = sum_list (map (\<lambda>P. broadcasts W l i (pr_hist P)) (wo_procs w))"

end
