(* ===== verification/IntentSafety.thy ===== *)
theory IntentSafety
  imports IntentStore
begin

text \<open>
  What every run of the intents service keeps. A monitor watches the calls of one process: a guard
  every call must meet in the monitor's state, and the state after the call and its answer. The
  locale \<open>monitored\<close> carries a monitor that all clients obey over to the reachable worlds; its
  instances are the broadcast licence of a leg, tenant isolation and the authorization of what is
  signed and broadcast.
\<close>

section \<open>Monitors\<close>

primrec wp :: "('s \<Rightarrow> op \<Rightarrow> bool) \<Rightarrow> ('s \<Rightarrow> op \<times> ans \<Rightarrow> 's) \<Rightarrow> 'r prog \<Rightarrow> ('r \<Rightarrow> 's \<Rightarrow> bool) \<Rightarrow> 's \<Rightarrow> bool" where
  "wp G d (Ret r) Q s = Q r s"
| "wp G d (Do c f) Q s = (G s c \<and> (\<forall>a. wp G d (f a) Q (d s (c, a))))"

fun obeys :: "('s \<Rightarrow> op \<Rightarrow> bool) \<Rightarrow> ('s \<Rightarrow> op \<times> ans \<Rightarrow> 's) \<Rightarrow> 's \<Rightarrow> history \<Rightarrow> bool" where
  "obeys G d s [] = True"
| "obeys G d s ((c, a) # h) = (G s c \<and> obeys G d (d s (c, a)) h)"

lemma wp_bind [simp]: "wp G d (bind_prog p f) Q s = wp G d p (\<lambda>r. wp G d (f r) Q) s"
  by (induction p arbitrary: s) simp_all

lemma wp_mono: "wp G d p Q s \<Longrightarrow> (\<And>r s. Q r s \<Longrightarrow> Q' r s) \<Longrightarrow> wp G d p Q' s"
  by (induction p arbitrary: s) auto

lemma wp_bind_ok [simp]:
  "wp G d (bind_ok p f) Q s = wp G d p (\<lambda>r s. case r of Inl e \<Rightarrow> Q (Inl e) s | Inr x \<Rightarrow> wp G d (f x) Q s) s"
  unfolding bind_ok_def wp_bind
  by (rule arg_cong [where f = "\<lambda>R. wp G d p R s"]) (auto simp: fun_eq_iff split: sum.split)

lemma wp_pure_ok [simp]:
  "wp G d (pure_ok r f) Q s = (case r of Inl e \<Rightarrow> Q (Inl e) s | Inr x \<Rightarrow> wp G d (f x) Q s)"
  by (simp add: pure_ok_def split: sum.split)

lemma wp_if [simp]: "wp G d (if b then p else q) Q s = (if b then wp G d p Q s else wp G d q Q s)"
  by simp

lemma wp_Ret: "wp G d (Ret r) Q = Q r"
  by (rule ext) simp

lemma wp_run [simp]: "wp G d (run p) Q s = wp G d p (\<lambda>_. Q ()) s"
  by (simp add: run_def wp_Ret)

lemma wp_appendAudit [simp]:
  "wp G d (appendAudit W it ac h p) Q s =
     (if \<not> or_audit W \<or> it_APIKeyID it = [] then wp G d p Q s
      else G s (AuditAppend ac it h) \<and> (\<forall>a. wp G d p Q (d s (AuditAppend ac it h, a))))"
  by (simp add: appendAudit_def)

lemma wp_publish [simp]:
  "wp G d (publish W ev it h p) Q s =
     (if \<not> or_webhooks W \<or> it_APIKeyID it = [] \<or> \<not> or_uuid W (it_APIKeyID it) then wp G d p Q s
      else G s (PublishWebhook ev it h) \<and> (\<forall>a. wp G d p Q (d s (PublishWebhook ev it h, a))))"
  by (simp add: publish_def)

lemma wp_fail_with [simp]:
  "wp G d (fail_with it e) Q s \<longleftrightarrow>
     G s (SetError (it_ID it) StatusFailed) \<and> (\<forall>a. Q (Inl e) (d s (SetError (it_ID it) StatusFailed, a)))"
  by (simp add: fail_with_def)

lemma wp_currentState:
  "G s (GetForUser (it_ID it) u) \<Longrightarrow> (\<And>a r. Q (Inr r) (d s (GetForUser (it_ID it) u, a))) \<Longrightarrow>
     wp G d (currentState u it) Q s"
  by (auto simp: currentState_def respond_def split: option.split)

lemma answer_facts:
  "row_of a = Some it \<longleftrightarrow> a = ARow it"
  "derived_of a = Some (m, dg, h) \<longleftrightarrow> a = ADerived m dg h"
  "auth_of a = Some au \<longleftrightarrow> a = AAuth au"
  "signature_of a = Some sg \<longleftrightarrow> a = ASignature sg"
  by (cases a; simp add: row_of_def derived_of_def auth_of_def signature_of_def)+

lemma obeys_append: "obeys G d s (h @ h') \<longleftrightarrow> obeys G d s h \<and> obeys G d (foldl d s h) h'"
  by (induction G d s h rule: obeys.induct) auto

lemma obeysD: "obeys G d s (h @ (c, a) # h') \<Longrightarrow> G (foldl d s h) c"
  by (simp add: obeys_append)

lemma in_set_append: "(c, a) \<in> set h \<Longrightarrow> \<exists>h1 h2. h = h1 @ (c, a) # h2"
  by (rule split_list)

text \<open>A call that neither needs anything of the monitor nor changes its state.\<close>

definition ignores :: "('s \<Rightarrow> op \<Rightarrow> bool) \<Rightarrow> ('s \<Rightarrow> op \<times> ans \<Rightarrow> 's) \<Rightarrow> op \<Rightarrow> bool" where
  "ignores G d c \<longleftrightarrow> (\<forall>s. G s c \<and> (\<forall>a. d s (c, a) = s))"

lemma ignoresD: "ignores G d c \<Longrightarrow> G s c" "ignores G d c \<Longrightarrow> d s (c, a) = s"
  by (simp_all add: ignores_def)

lemma poll_rounds_ignored:
  assumes "ignores G d (EvmReceipt (it_ChainID it) h)" "ignores G d Now" "\<And>r. Q r s"
  shows "wp G d (poll_rounds n it h dl) Q s"
  using assms(3)
  by (induction n) (auto simp: checkReceiptOnce_def ignoresD [OF assms(1)] ignoresD [OF assms(2)] split: option.split)

lemma pollApproveReceipt_ignored:
  assumes "ignores G d (EvmReceipt (it_ChainID it) h)" "ignores G d Now" "\<And>r. Q r s"
  shows "wp G d (pollApproveReceipt it h n) Q s"
  using poll_rounds_ignored [where G = G and d = d and it = it and h = h, OF assms(1,2)] assms(3)
  by (simp add: pollApproveReceipt_def ignoresD [OF assms(2)] del: poll_rounds.simps)

section \<open>Which calls a program makes\<close>

primrec only :: "(op \<Rightarrow> bool) \<Rightarrow> 'r prog \<Rightarrow> bool" where
  "only N (Ret r) = True"
| "only N (Do c f) = (N c \<and> (\<forall>a. only N (f a)))"

lemma only_bind: "only N p \<Longrightarrow> (\<And>r. only N (f r)) \<Longrightarrow> only N (bind_prog p f)"
  by (induction p) simp_all

lemma only_mono: "only N p \<Longrightarrow> (\<And>c. N c \<Longrightarrow> N' c) \<Longrightarrow> only N' p"
  by (induction p) auto

lemma only_bind_ok [intro]: "only N p \<Longrightarrow> (\<And>r. only N (f r)) \<Longrightarrow> only N (bind_ok p f)"
  by (auto simp: bind_ok_def intro!: only_bind split: sum.split)

lemma only_pure_ok [simp]: "only N (pure_ok r f) \<longleftrightarrow> (\<forall>x. r = Inr x \<longrightarrow> only N (f x))"
  by (auto simp: pure_ok_def split: sum.split)

lemma only_run: "only N p \<Longrightarrow> only N (run p)"
  by (simp add: run_def only_bind)

lemma only_publish: "N (PublishWebhook ev it h) \<Longrightarrow> only N p \<Longrightarrow> only N (publish W ev it h p)"
  by (simp add: publish_def)

text \<open>A property of the monitor's state under which such calls are allowed, and which they keep.\<close>

definition stable :: "('s \<Rightarrow> op \<Rightarrow> bool) \<Rightarrow> ('s \<Rightarrow> op \<times> ans \<Rightarrow> 's) \<Rightarrow> ('s \<Rightarrow> bool) \<Rightarrow> (op \<Rightarrow> bool) \<Rightarrow> bool" where
  "stable G d I N \<longleftrightarrow> (\<forall>c s. N c \<and> I s \<longrightarrow> G s c \<and> (\<forall>a. I (d s (c, a))))"

lemma wp_only: "only N p \<Longrightarrow> stable G d I N \<Longrightarrow> I s \<Longrightarrow> (\<And>r s. I s \<Longrightarrow> Q r s) \<Longrightarrow> wp G d p Q s"
  by (induction p arbitrary: s) (auto simp: stable_def)

text \<open>Calls that write no row, load none, and neither authorize, sign nor broadcast.\<close>

fun outside :: "op \<Rightarrow> bool" where
  "outside Now = True"
| "outside (IbPrepare r f) = True"
| "outside (IkaPrepareMessage c m) = True"
| "outside (IkaAddresses a) = True"
| "outside (NativeBalance k c a) = True"
| "outside (FirePrefetchCall u w h) = True"
| "outside (EvaluateSwapRisk x1 x2 x3 x4 x5 x6) = True"
| "outside (EvmReceipt c h) = True"
| "outside (TxStatus h f t) = True"
| "outside (PublishWebhook e it h) = True"
| "outside _ = False"

fun sweeps :: "op \<Rightarrow> bool" where
  "sweeps (ListOpenOlderThan age lim) = True"
| "sweeps (SetStatus j t) = (t \<in> {StatusExpired, StatusSettled})"
| "sweeps (SetError j t) = (t = StatusFailed)"
| "sweeps (SaveBroadcast j t h) = (t = StatusBroadcastUnknown)"
| "sweeps c = outside c"

definition prepares :: "string \<Rightarrow> op \<Rightarrow> bool" where
  "prepares u c \<longleftrightarrow> outside c \<or> (\<exists>it. c = InsertPrepared it \<and> it_UserID it = u \<and> it_Status it = StatusPrepared)"

definition views :: "string \<Rightarrow> op \<Rightarrow> bool" where
  "views u c \<longleftrightarrow> outside c \<or> (\<exists>j. c = GetForUser j u)"

lemma buildSwap_calls: "only outside (buildSwap S r)"
  unfolding buildSwap_def
  by (auto simp: verifyOwnDestination_def split: option.split)

lemma Simulate_calls: "only outside (Simulate W u r)"
  unfolding Simulate_def by (intro only_bind_ok buildSwap_calls) auto

lemma load_calls: "only (views u) (load_intent i u)"
  by (simp add: load_intent_def views_def)

lemma Challenge_calls: "only (views u) (Challenge W u i s)"
  unfolding Challenge_def by (intro only_bind_ok load_calls) (simp add: views_def)

lemma Status_calls: "only (views u) (Status u i)"
  unfolding Status_def by (intro only_bind_ok load_calls) simp

lemma poll_calls: "only sweeps (poll W it)"
  by (auto simp: poll_def intro!: only_publish split: option.split)

lemma resolve_approving_calls: "only sweeps (resolve_approving it now)"
  by (auto simp: resolve_approving_def Let_def)

lemma resolve_calls: "only sweeps (resolve W it now)"
  by (auto simp: resolve_def poll_calls resolve_approving_calls split: intent_status.split)

lemma resolve_all_calls: "only sweeps (resolve_all W its now)"
  by (induction its) (auto intro: only_bind resolve_calls)

lemma sweep_calls: "only sweeps (sweep W)"
  by (auto simp: sweep_def resolve_all_calls split: option.split)

lemma insert_calls: "prepares u (InsertPrepared it) \<Longrightarrow> only (prepares u) (insert_intent it pr pm)"
  by (simp add: insert_intent_def)

lemma balance_calls: "only outside (checkNativeBalance k c a n)"
  by (auto simp: checkNativeBalance_def split: option.split)

text \<open>The intent a request prepares is its user's.\<close>

primrec results :: "('r \<Rightarrow> bool) \<Rightarrow> 'r prog \<Rightarrow> bool" where
  "results R (Ret r) = R r"
| "results R (Do c f) = (\<forall>a. results R (f a))"

lemma only_bind_ok_results:
  "only N p \<Longrightarrow> results (\<lambda>r. \<forall>x. r = Inr x \<longrightarrow> R x) p \<Longrightarrow> (\<And>x. R x \<Longrightarrow> only N (f x)) \<Longrightarrow> only N (bind_ok p f)"
  unfolding bind_ok_def by (induction p) (auto split: sum.split)

definition own_intent :: "string \<Rightarrow> Intent \<Rightarrow> bool" where
  "own_intent u it \<longleftrightarrow> it_UserID it = u \<and> it_Status it = StatusPrepared"

lemma approval_calls: "only outside (prepare_approval ch ap it)"
  by (simp add: prepare_approval_def split: option.split)

lemma approval_results:
  "own_intent u it \<Longrightarrow> results (\<lambda>r. \<forall>x. r = Inr x \<longrightarrow> own_intent u x) (prepare_approval ch ap it)"
  by (auto simp: prepare_approval_def add_approval_def own_intent_def split: option.split)

lemma Prepare_calls: "only (prepares u) (Prepare W u k r)"
proof -
  have o: "only (prepares u) p" if "only outside p" for p :: "'a prog"
    using that by (rule only_mono) (simp add: prepares_def)
  have ins: "only (prepares u) (insert_intent it pr pm)" if "own_intent u it" for it pr pm
    using that by (intro insert_calls) (simp add: prepares_def own_intent_def)
  have it: "only (prepares u) (case SwapChallengeDigest S (prefetch_input S it) of
        Inr digest \<Rightarrow> Do (FirePrefetchCall v w digest) (\<lambda>_. insert_intent (it\<lparr>it_PolicyMetadataDigestHex := digest\<rparr>) pr pm)
      | Inl _ \<Rightarrow> insert_intent it pr pm)" if "own_intent u it" for it pr pm S v w
    using ins [of it] ins [of "it\<lparr>it_PolicyMetadataDigestHex := d\<rparr>" for d] that
    by (simp add: prepares_def own_intent_def split: sum.split)
  show ?thesis
    unfolding Prepare_def Let_def
    apply (rule only_bind_ok, rule o [OF buildSwap_calls], clarify)
    apply (rule only_bind_ok, rule o [OF balance_calls])
    apply (simp, rule conjI, simp add: prepares_def, intro allI)
    apply (rule only_bind_ok_results [where R = "own_intent u"], rule o [OF approval_calls])
     apply (rule approval_results, simp add: own_intent_def new_intent_def)
    apply (rule it, assumption)
    done
qed

section \<open>Monitored worlds\<close>

locale monitored =
  fixes W :: Orchestrator
    and G :: "string option \<Rightarrow> 's \<Rightarrow> op \<Rightarrow> bool"
    and d :: "'s \<Rightarrow> op \<times> ans \<Rightarrow> 's"
    and s0 :: 's
  assumes clients_obey: "client W u p \<Longrightarrow> wp (G u) d p (\<lambda>_ _. True) s0"
begin

definition follows :: "proc \<Rightarrow> bool" where
  "follows P \<longleftrightarrow> obeys (G (pr_user P)) d s0 (pr_hist P)
     \<and> wp (G (pr_user P)) d (pr_prog P) (\<lambda>_ _. True) (foldl d s0 (pr_hist P))"

lemma step_follows: "step W w w' \<Longrightarrow> \<forall>P \<in> set (wo_procs w). follows P \<Longrightarrow> \<forall>P \<in> set (wo_procs w'). follows P"
proof (induction rule: step.induct)
  case (step_spawn u p)
  then show ?case using clients_obey by (auto simp: follows_def)
next
  case (step_call k P c f rows' a)
  then have "follows P" by auto
  then have "follows (P\<lparr>pr_hist := pr_hist P @ [(c, a)], pr_prog := f a\<rparr>)"
    using step_call by (auto simp: follows_def obeys_append)
  then show ?case using step_call by (auto dest!: set_update_subset_insert [THEN subsetD])
next
  case (step_crash k P)
  then have "follows (P\<lparr>pr_prog := Ret ()\<rparr>)" by (auto simp: follows_def)
  then show ?case using step_crash by (auto dest!: set_update_subset_insert [THEN subsetD])
qed simp

lemma reachable_follows: "reachable W w \<Longrightarrow> P \<in> set (wo_procs w) \<Longrightarrow> follows P"
proof (induction arbitrary: P rule: reachable.induct)
  case (reach_step w w')
  then show ?case using step_follows [of w w'] by blast
qed (simp add: empty_world_def)

lemma reachable_obeys:
  "reachable W w \<Longrightarrow> P \<in> set (wo_procs w) \<Longrightarrow> pr_hist P = h @ (c, a) # h' \<Longrightarrow> G (pr_user P) (foldl d s0 h) c"
  using reachable_follows [of w P] by (auto simp: follows_def intro: obeysD)

lemma next_call_guarded:
  "reachable W w \<Longrightarrow> P \<in> set (wo_procs w) \<Longrightarrow> pr_prog P = Do c f \<Longrightarrow> G (pr_user P) (foldl d s0 (pr_hist P)) c"
  using reachable_follows [of w P] by (auto simp: follows_def)

end

end
