(* ===== verification/IntentOnce.thy ===== *)
theory IntentOnce
  imports IntentSafety
begin

text \<open>
  A leg of an intent is broadcast at most once. The right to broadcast is a licence: a row that
  awaits the leg holds it, the compare-and-swap that takes the row out of that state hands it to the
  process that won, and \<open>Finalize\<close> spends it; \<open>SaveERC20Approve\<close> hands the licence of the swap leg
  back to the row.
\<close>

definition opens :: "leg \<Rightarrow> intent_status set" where
  "opens l = (if l = SwapLeg then {StatusPrepared, StatusApproving} else {StatusPrepared})"

text \<open>Whether the process holds the licence of leg \<open>l\<close> of intent \<open>i\<close>.\<close>

definition licence :: "Orchestrator \<Rightarrow> leg \<Rightarrow> string \<Rightarrow> bool \<Rightarrow> op \<times> ans \<Rightarrow> bool" where
  "licence W l i s x =
     (case x of
        (CASStatus j f t, a) \<Rightarrow> s \<or> (or_pguuid W j = Some i \<and> a = ADone \<and> f \<in> opens l)
      | (Finalize l' j b, _) \<Rightarrow> s \<and> \<not> (l' = l \<and> or_pguuid W j = Some i)
      | (SaveERC20Approve j h, _) \<Rightarrow> s \<and> \<not> (or_pguuid W j = Some i \<and> l = SwapLeg)
      | _ \<Rightarrow> s)"

definition needs_licence :: "Orchestrator \<Rightarrow> leg \<Rightarrow> string \<Rightarrow> bool \<Rightarrow> op \<Rightarrow> bool" where
  "needs_licence W l i s c =
     (case c of
        Finalize l' j b \<Rightarrow> (l' = l \<and> or_pguuid W j = Some i \<longrightarrow> s)
      | SaveERC20Approve j h \<Rightarrow> (or_pguuid W j = Some i \<and> l = SwapLeg \<longrightarrow> s)
      | CASStatus j f t \<Rightarrow> t \<notin> opens l
      | SetStatus j t \<Rightarrow> t \<notin> opens l
      | SetError j t \<Rightarrow> t \<notin> opens l
      | SaveBroadcast j t h \<Rightarrow> t \<notin> opens l
      | _ \<Rightarrow> True)"

named_theorems once

lemmas [once] = licence_def needs_licence_def

lemma opens_simps [simp]:
  "StatusPrepared \<in> opens l" "StatusApproving \<in> opens l \<longleftrightarrow> l = SwapLeg"
  "StatusAuthorizing \<notin> opens l" "StatusSigning \<notin> opens l" "StatusBroadcasting \<notin> opens l"
  "StatusFailed \<notin> opens l" "StatusExpired \<notin> opens l" "StatusSettled \<notin> opens l"
  "StatusSubmitted \<notin> opens l" "StatusBroadcastUnknown \<notin> opens l"
  by (simp_all add: opens_def)

section \<open>The clients obey\<close>

abbreviation ok :: "Orchestrator \<Rightarrow> leg \<Rightarrow> string \<Rightarrow> 'r prog \<Rightarrow> bool \<Rightarrow> bool" where
  "ok W l i p s \<equiv> wp (needs_licence W l i) (licence W l i) p (\<lambda>_ _. True) s"

lemma outside_neutral: "outside c \<Longrightarrow> needs_licence W l i s c \<and> licence W l i s (c, a) = s"
  by (cases c) (simp_all add: once)

lemma ok_stable: "only N p \<Longrightarrow> stable (needs_licence W l i) (licence W l i) (\<lambda>_. True) N \<Longrightarrow> ok W l i p s"
  by (erule wp_only) simp_all

lemma prepares_stable: "stable (needs_licence W l i) (licence W l i) I (prepares u)"
  by (auto simp: stable_def prepares_def outside_neutral) (auto simp: once)

lemma views_stable: "stable (needs_licence W l i) (licence W l i) I (views u)"
  by (auto simp: stable_def views_def outside_neutral) (auto simp: once)

lemma outside_stable: "stable (needs_licence W l i) (licence W l i) I outside"
  by (auto simp: stable_def outside_neutral)

lemma sweeps_stable: "stable (needs_licence W l i) (licence W l i) (\<lambda>_. True) sweeps"
proof -
  have "needs_licence W l i s c" if "sweeps c" for s c using that by (cases c) (auto simp: once)
  then show ?thesis by (simp add: stable_def)
qed

lemma ok_currentState [simp]: "ok W l i (currentState u it) s"
  by (rule wp_currentState) (simp_all add: once)

lemma ok_poll:
  "(\<And>r. Q r s) \<Longrightarrow> wp (needs_licence W l i) (licence W l i) (pollApproveReceipt it h n) Q s"
  by (rule pollApproveReceipt_ignored) (simp_all add: ignores_def once)

text \<open>With the licence of its leg a process may run to the end.\<close>

lemmas sign_defs =
  revalidate_def authorizeAndSignSwap_def authorizeAndSignWithBundle_def signWithApproval_def broadcastTx_def respond_def

lemma ok_sign_and_broadcast:
  "(or_pguuid W (it_ID it) = Some i \<and> l = SwapLeg \<Longrightarrow> s) \<Longrightarrow> ok W l i (sign_and_broadcast V u it inp pw) s"
  by (auto simp: sign_and_broadcast_def sign_defs Let_def once split: sum.split option.split prod.split)

lemma ok_runSwap: "(or_pguuid W (it_ID it) = Some i \<and> l = SwapLeg \<Longrightarrow> s) \<Longrightarrow> ok W l i (runSwap V u it au) s"
  by (auto simp: runSwap_def sign_defs once intro!: ok_sign_and_broadcast split: sum.split option.split)

lemma ok_continue: "ok W l i (continueAfterApprove W u it h au n) s"
  unfolding continueAfterApprove_def
  by (auto simp: once intro!: ok_poll ok_runSwap)

lemma ok_runApprove: "(or_pguuid W (it_ID it) = Some i \<Longrightarrow> s) \<Longrightarrow> ok W l i (runApprove W u it au) s"
  by (auto simp: runApprove_def sign_defs once intro!: ok_continue split: sum.split option.split prod.split)

lemma ok_Submit: "ok W l i (Submit W u r) s"
  by (auto simp: Submit_def load_intent_def submit_prepared_def resumeApprove_def respond_def once Let_def
      intro!: ok_runSwap ok_runApprove ok_continue split: sum.split option.split)

lemma clients_once: "client W u p \<Longrightarrow> ok W l i p False"
  by (erule client_cases)
    (auto intro!: ok_Submit ok_stable [OF Prepare_calls prepares_stable] ok_stable [OF Simulate_calls outside_stable]
      ok_stable [OF Challenge_calls views_stable] ok_stable [OF Status_calls views_stable] ok_stable [OF sweep_calls sweeps_stable])

section \<open>Conservation of licences\<close>

definition row_licence :: "leg \<Rightarrow> string \<Rightarrow> Intent list \<Rightarrow> nat" where
  "row_licence l i rows = of_bool (\<exists>r \<in> set rows. it_ID r = i \<and> it_Status r \<in> opens l)"

definition spent :: "Orchestrator \<Rightarrow> leg \<Rightarrow> string \<Rightarrow> history \<Rightarrow> nat" where
  "spent W l i h = broadcasts W l i h + of_bool (foldl (licence W l i) False h)"

definition ids :: "Intent list \<Rightarrow> string list" where
  "ids rows = map it_ID rows"

lemma broadcasts_snoc [simp]:
  "broadcasts W l i (h @ [(c, a)]) = broadcasts W l i h + of_bool (\<exists>j b. c = Finalize l j b \<and> or_pguuid W j = Some i)"
  by (auto simp: broadcasts_def split: op.split)

lemma ids_simps [simp]:
  "ids (rows @ [r]) = ids rows @ [it_ID r]"
  "(\<And>r. it_ID (f r) = it_ID r) \<Longrightarrow> ids (map f rows) = ids rows"
  by (simp_all add: ids_def)

lemma stored_row_facts:
  assumes "stored_row W fresh t it = Some r"
  shows "it_ID r = fresh" "or_pguuid W (it_UserID it) = Some (it_UserID r)" "it_Status r = it_Status it"
  using assms by (auto simp: stored_row_def split: option.splits if_splits)

text \<open>What a statement of the store does to the ids of the table.\<close>

lemma db_update_ids: "db_update W i t f rows = (rows', a) \<Longrightarrow> (\<And>r. it_ID (f r) = it_ID r) \<Longrightarrow> ids rows' = ids rows"
  by (auto simp: db_update_def split: option.splits)

lemma db_apply_ids:
  assumes "db_apply W t fresh c rows = Some (rows', a)"
  shows "ids rows' = ids rows \<or> ids rows' = ids rows @ [fresh]"
  using assms
  by (cases c) (auto simp: db_cas_def db_risk_def db_insert_def stored_row_facts
      dest!: db_update_ids split: option.splits if_splits)

lemma row_licence_le: "row_licence l i rows \<le> 1"
  by (simp add: row_licence_def)

lemma row_licence_map:
  assumes "\<And>r. r \<in> set rows \<Longrightarrow> it_ID (f r) = it_ID r"
    "\<And>r. r \<in> set rows \<Longrightarrow> it_ID r = i \<Longrightarrow> it_Status (f r) \<in> opens l \<Longrightarrow> it_Status r \<in> opens l"
  shows "row_licence l i (map f rows) \<le> row_licence l i rows"
  using assms by (auto simp: row_licence_def)

text \<open>An update that does not put the row into a state that awaits the leg.\<close>

lemma row_licence_update:
  assumes "db_update W j t f rows = (rows', a)" "\<And>r. it_ID (f r) = it_ID r"
    "\<And>r. or_pguuid W j = Some i \<Longrightarrow> it_Status (f r) = it_Status r \<or> it_Status (f r) \<notin> opens l"
  shows "row_licence l i rows' \<le> row_licence l i rows"
proof (cases "or_pguuid W j")
  case (Some c)
  then have rows': "rows' = map (\<lambda>r. if it_ID r = c then (f r)\<lparr>it_UpdatedAt := t\<rparr> else r) rows"
    using assms(1) by (simp add: db_update_def)
  show ?thesis unfolding rows'
  proof (rule row_licence_map)
    fix r assume "it_ID r = i" "it_Status (if it_ID r = c then (f r)\<lparr>it_UpdatedAt := t\<rparr> else r) \<in> opens l"
    then show "it_Status r \<in> opens l" using assms(3) [of r] Some by (auto split: if_splits)
  qed (simp add: assms(2))
qed (use assms(1) in \<open>simp add: db_update_def\<close>)

text \<open>The compare-and-swap that succeeds takes the licence from the row.\<close>

lemma row_licence_cas:
  assumes "db_cas W j t f t' rows = (rows', a)" "distinct (ids rows)" "t' \<notin> opens l"
  shows "row_licence l i rows' + of_bool (or_pguuid W j = Some i \<and> a = ADone \<and> f \<in> opens l) \<le> row_licence l i rows"
proof (cases "or_pguuid W j = Some i \<and> a = ADone \<and> f \<in> opens l")
  case True
  then obtain r where r: "r \<in> set rows" "it_ID r = i" "it_Status r = f"
    and rows': "rows' = map (\<lambda>r. if it_ID r = i \<and> it_Status r = f then r\<lparr>it_Status := t', it_UpdatedAt := t\<rparr> else r) rows"
    using assms(1) by (auto simp: db_cas_def list_ex_iff split: if_splits)
  have same: "it_Status q = f" if "q \<in> set rows" "it_ID q = i" for q
    using that r inj_onD [of it_ID "set rows" q r] assms(2) by (simp add: ids_def distinct_map)
  have "it_Status q \<notin> opens l" if q: "q \<in> set rows'" "it_ID q = i" for q
  proof -
    obtain p where p: "p \<in> set rows" "q = (if it_ID p = i \<and> it_Status p = f then p\<lparr>it_Status := t', it_UpdatedAt := t\<rparr> else p)"
      using q(1) unfolding rows' by fastforce
    then have "it_ID p = i" using q(2) by (simp split: if_splits)
    then show ?thesis using p same [of p] assms(3) by simp
  qed
  then have "row_licence l i rows' = 0" by (auto simp: row_licence_def)
  moreover have "row_licence l i rows = 1" using r True by (auto simp: row_licence_def)
  ultimately show ?thesis by simp
next
  case False
  have "row_licence l i rows' \<le> row_licence l i rows"
    using assms(1,3) by (auto simp: db_cas_def split: option.splits if_splits intro!: row_licence_map)
  then show ?thesis using False by auto
qed

lemma row_licence_insert:
  assumes "db_insert W fresh t it rows = (rows', a)" "fresh \<notin> set (ids rows)"
  shows "row_licence l i rows' \<le> row_licence l i rows + of_bool (i \<notin> set (ids rows) \<and> i \<in> set (ids rows'))"
  using assms
  by (auto simp: db_insert_def row_licence_def ids_def stored_row_facts split: if_splits option.splits)

lemma apply_licence:
  assumes "db_apply W t fresh c rows = Some (rows', a)" "fresh \<notin> set (ids rows)" "distinct (ids rows)"
    "needs_licence W l i s c"
  shows "row_licence l i rows' + of_bool (licence W l i s (c, a))
    \<le> row_licence l i rows + of_bool s + of_bool (i \<notin> set (ids rows) \<and> i \<in> set (ids rows'))"
proof (cases c)
  case (CASStatus j f t')
  then show ?thesis using assms row_licence_cas [of W j t f t' rows rows' a l i] by (auto simp: once)
next
  case (SaveERC20Approve j h)
  then have u: "db_update W j t (\<lambda>r. r\<lparr>it_ApproveTxHash := h, it_Status := StatusApproving\<rparr>) rows = (rows', a)"
    using assms(1) by simp
  show ?thesis
  proof (cases "or_pguuid W j = Some i \<and> l = SwapLeg")
    case True
    then show ?thesis using assms(4) SaveERC20Approve row_licence_le [of l i rows'] by (simp add: once)
  next
    case False
    then have "row_licence l i rows' \<le> row_licence l i rows" by (intro row_licence_update [OF u]) auto
    then show ?thesis using False SaveERC20Approve by (auto simp: once)
  qed
next
  case (InsertPrepared it)
  then show ?thesis using assms row_licence_insert [of W fresh t it rows rows' a l i] by (simp add: once)
next
  case (SaveRisk j v)
  then show ?thesis using assms
    by (auto simp: once db_risk_def split: if_splits option.splits dest!: row_licence_update [where i = i and l = l])
next
  case (SetStatus j t')
  then show ?thesis using assms by (auto simp: once dest!: row_licence_update [where i = i and l = l])
next
  case (SetError j t')
  then show ?thesis using assms by (auto simp: once dest!: row_licence_update [where i = i and l = l])
next
  case (SaveBroadcast j t' h)
  then show ?thesis using assms by (auto simp: once dest!: row_licence_update [where i = i and l = l])
next
  case (SaveApproval j x1 x2 x3 x4)
  then show ?thesis using assms by (auto simp: once dest!: row_licence_update [where i = i and l = l])
qed (use assms(1) in \<open>auto simp: once\<close>)

lemma licence_lost: "licence W l i s (c, AErr) \<Longrightarrow> licence W l i s (c, a)"
  by (auto simp: once split: op.splits)

lemma serve_ids:
  assumes "serve W t c rows rows' a" "distinct (ids rows)"
  shows "distinct (ids rows') \<and> set (ids rows) \<subseteq> set (ids rows')"
  using assms(1)
proof (cases rule: serve.cases)
  case (served fresh)
  moreover have "fresh \<notin> set (ids rows)" using served by (simp add: ids_def)
  ultimately show ?thesis using db_apply_ids [of W t fresh c rows rows' a] assms(2) by auto
next
  case (answer_lost fresh b)
  moreover have "fresh \<notin> set (ids rows)" using answer_lost by (simp add: ids_def)
  ultimately show ?thesis using db_apply_ids [of W t fresh c rows rows' b] assms(2) by auto
qed (use assms(2) in simp_all)

text \<open>One call: what the row and the process hold afterwards, with what was spent, they held before;
  only a new row brings a licence.\<close>

lemma serve_licence:
  assumes "serve W t c rows rows' a" "distinct (ids rows)" "needs_licence W l i s c"
  shows "row_licence l i rows' + of_bool (\<exists>j b. c = Finalize l j b \<and> or_pguuid W j = Some i)
      + of_bool (licence W l i s (c, a))
    \<le> row_licence l i rows + of_bool s + of_bool (i \<notin> set (ids rows) \<and> i \<in> set (ids rows'))"
  using assms(1)
proof (cases rule: serve.cases)
  case (served fresh)
  then have "\<nexists>j b. c = Finalize l j b" by auto
  then show ?thesis using apply_licence [of W t fresh c rows rows' a l i s] served assms by (simp add: ids_def)
next
  case (answer_lost fresh b)
  then have "\<nexists>j b. c = Finalize l j b" by auto
  then show ?thesis using apply_licence [of W t fresh c rows rows' b l i s] answer_lost assms licence_lost [of W l i s c b]
    by (auto simp: ids_def split: if_splits)
next
  case not_executed
  then show ?thesis using assms(3) by (cases c) (auto simp: once)
next
  case upstream
  then show ?thesis using assms(3) by (cases c) (auto simp: once)
qed

definition total_spent :: "Orchestrator \<Rightarrow> leg \<Rightarrow> string \<Rightarrow> world \<Rightarrow> nat" where
  "total_spent W l i w = sum_list (map (\<lambda>P. spent W l i (pr_hist P)) (wo_procs w))"

definition conserved :: "Orchestrator \<Rightarrow> leg \<Rightarrow> string \<Rightarrow> world \<Rightarrow> bool" where
  "conserved W l i w \<longleftrightarrow> distinct (ids (wo_rows w))
     \<and> row_licence l i (wo_rows w) + total_spent W l i w \<le> of_bool (i \<in> set (ids (wo_rows w)))"

lemma sum_list_map_update:
  "k < length xs \<Longrightarrow> sum_list (map g (xs[k := y])) + (g (xs ! k) :: nat) = sum_list (map g xs) + g y"
  by (induction xs arbitrary: k) (auto split: nat.split)

interpretation licensed: monitored W "\<lambda>_. needs_licence W l i" "licence W l i" False for W l i
  by unfold_locales (rule clients_once)

lemma spent_snoc: "spent W l i (h @ [(c, a)]) =
    broadcasts W l i h + of_bool (\<exists>j b. c = Finalize l j b \<and> or_pguuid W j = Some i)
    + of_bool (licence W l i (foldl (licence W l i) False h) (c, a))"
  by (simp add: spent_def)

lemma step_conserved:
  assumes "step W w w'" "conserved W l i w" "\<forall>P \<in> set (wo_procs w). licensed.follows W l i P"
  shows "conserved W l i w'"
  using assms(1)
proof (cases rule: step.cases)
  case (step_call k P c f rows' a)
  let ?s = "foldl (licence W l i) False (pr_hist P)"
  have "licensed.follows W l i P" using step_call assms(3) nth_mem by metis
  then have "needs_licence W l i ?s c" using step_call(4) by (simp add: licensed.follows_def)
  then have "row_licence l i rows' + of_bool (\<exists>j b. c = Finalize l j b \<and> or_pguuid W j = Some i)
      + of_bool (licence W l i ?s (c, a))
    \<le> row_licence l i (wo_rows w) + of_bool ?s + of_bool (i \<notin> set (ids (wo_rows w)) \<and> i \<in> set (ids rows'))"
    using assms(2) by (intro serve_licence [OF step_call(5)]) (auto simp: conserved_def)
  then have "row_licence l i rows' + spent W l i (pr_hist P @ [(c, a)])
      \<le> row_licence l i (wo_rows w) + spent W l i (pr_hist P) + of_bool (i \<notin> set (ids (wo_rows w)) \<and> i \<in> set (ids rows'))"
    unfolding spent_snoc unfolding spent_def by linarith
  moreover have "total_spent W l i w' + spent W l i (pr_hist P) = total_spent W l i w + spent W l i (pr_hist P @ [(c, a)])"
    using sum_list_map_update [OF step_call(2), of "\<lambda>P. spent W l i (pr_hist P)"] step_call(1,3)
    by (simp add: total_spent_def)
  moreover have "row_licence l i (wo_rows w) + total_spent W l i w \<le> of_bool (i \<in> set (ids (wo_rows w)))"
    using assms(2) by (simp add: conserved_def)
  moreover have ids: "distinct (ids rows')" "set (ids (wo_rows w)) \<subseteq> set (ids rows')"
    using serve_ids [OF step_call(5)] assms(2) by (auto simp: conserved_def)
  then have "of_bool (i \<in> set (ids (wo_rows w))) + of_bool (i \<notin> set (ids (wo_rows w)) \<and> i \<in> set (ids rows'))
      \<le> (of_bool (i \<in> set (ids rows')) :: nat)"
    by auto
  ultimately have "row_licence l i rows' + total_spent W l i w' \<le> of_bool (i \<in> set (ids rows'))" by linarith
  then show ?thesis using ids(1) step_call(1) by (simp add: conserved_def)
next
  case (step_crash k P)
  then have "total_spent W l i w' = total_spent W l i w"
    using sum_list_map_update [OF step_crash(2), of "\<lambda>P. spent W l i (pr_hist P)" "P\<lparr>pr_prog := Ret ()\<rparr>"]
    by (simp add: total_spent_def)
  then show ?thesis using assms(2) step_crash(1) by (simp add: conserved_def)
qed (use assms(2) in \<open>simp_all add: conserved_def total_spent_def spent_def broadcasts_def\<close>)

lemma reachable_conserved: "reachable W w \<Longrightarrow> conserved W l i w"
proof (induction rule: reachable.induct)
  case (reach_step w w')
  then show ?case using step_conserved licensed.reachable_follows by blast
qed (simp add: empty_world_def conserved_def total_spent_def row_licence_def ids_def)

text \<open>Property C7. However many submissions of an intent run at once, whatever fails or is lost, and
  whatever the reconciler does meanwhile, each leg of the intent is handed to the broadcaster at most
  once: a swap is never broadcast twice.\<close>

theorem leg_broadcast_once: "reachable W w \<Longrightarrow> total_broadcasts W l i w \<le> 1"
proof -
  assume "reachable W w"
  then have "total_spent W l i w \<le> 1" using reachable_conserved [of W w l i]
    by (cases "i \<in> set (ids (wo_rows w))") (simp_all add: conserved_def)
  moreover have "total_broadcasts W l i w \<le> total_spent W l i w"
    unfolding total_broadcasts_def total_spent_def by (intro sum_list_mono) (simp add: spent_def)
  ultimately show ?thesis by linarith
qed

end
