(* ===== verification/IntentTenants.thy ===== *)
theory IntentTenants
  imports IntentOnce
begin

text \<open>
  Tenant isolation. A request of a user reads rows only through \<open>GetForUser\<close> with its own user id, and
  writes only rows it has read so; hence it never sees nor changes the row of another user.
\<close>

definition loaded :: "string set \<Rightarrow> op \<times> ans \<Rightarrow> string set" where
  "loaded s x = (case x of (GetForUser j u, ARow it) \<Rightarrow> insert (it_ID it) s | _ \<Rightarrow> s)"

definition stays_home :: "string option \<Rightarrow> string set \<Rightarrow> op \<Rightarrow> bool" where
  "stays_home who s c =
     (case who of None \<Rightarrow> True | Some u \<Rightarrow>
       (case c of
          GetForUser j u' \<Rightarrow> u' = u
        | InsertPrepared it \<Rightarrow> it_UserID it = u
        | ListOpenOlderThan age lim \<Rightarrow> False
        | CASStatus j f t \<Rightarrow> j \<in> s
        | SetStatus j t \<Rightarrow> j \<in> s
        | SetError j t \<Rightarrow> j \<in> s
        | SaveApproval j x1 x2 x3 x4 \<Rightarrow> j \<in> s
        | SaveERC20Approve j h \<Rightarrow> j \<in> s
        | SaveRisk j v \<Rightarrow> j \<in> s
        | SaveBroadcast j t h \<Rightarrow> j \<in> s
        | Finalize l j b \<Rightarrow> j \<in> s
        | _ \<Rightarrow> True))"


section \<open>The clients stay home\<close>

abbreviation home :: "string \<Rightarrow> 'r prog \<Rightarrow> string set \<Rightarrow> bool" where
  "home u p s \<equiv> wp (stays_home (Some u)) loaded p (\<lambda>_ _. True) s"

lemmas home_defs = loaded_def stays_home_def

lemma outside_home: "outside c \<Longrightarrow> stays_home who s c \<and> loaded s (c, a) = s"
  by (cases c) (simp_all add: home_defs split: option.split)

lemma home_stable: "only N p \<Longrightarrow> stable (stays_home (Some u)) loaded (\<lambda>_. True) N \<Longrightarrow> home u p s"
  by (erule wp_only) simp_all

lemma home_prepares: "stable (stays_home (Some u)) loaded (\<lambda>_. True) (prepares u)"
  by (auto simp: stable_def prepares_def outside_home) (auto simp: home_defs)

lemma home_views: "stable (stays_home (Some u)) loaded (\<lambda>_. True) (views u)"
  by (auto simp: stable_def views_def outside_home) (auto simp: home_defs)

lemma home_outside: "stable (stays_home (Some u)) loaded (\<lambda>_. True) outside"
  by (auto simp: stable_def outside_home)

lemma home_sweep: "(\<And>r s. Q r s) \<Longrightarrow> wp (stays_home None) loaded p Q s"
  by (induction p arbitrary: s) (simp_all add: stays_home_def)

lemma home_currentState [simp]: "home u (currentState u it) s"
  by (rule wp_currentState) (simp_all add: home_defs)

lemma home_poll: "(\<And>r. Q r s) \<Longrightarrow> wp (stays_home (Some u)) loaded (pollApproveReceipt it h n) Q s"
  by (rule pollApproveReceipt_ignored) (simp_all add: ignores_def home_defs)

lemma home_sign_and_broadcast: "it_ID it \<in> s \<Longrightarrow> home u (sign_and_broadcast W u it inp pw) s"
  by (auto simp: sign_and_broadcast_def sign_defs Let_def home_defs split: sum.split option.split prod.split)

lemma home_runSwap: "it_ID it \<in> s \<Longrightarrow> home u (runSwap W u it au) s"
  by (auto simp: runSwap_def sign_defs home_defs intro!: home_sign_and_broadcast split: sum.split option.split)

lemma home_continue: "it_ID it \<in> s \<Longrightarrow> home u (continueAfterApprove W u it h au n) s"
  unfolding continueAfterApprove_def
  by (auto simp: home_defs intro!: home_poll home_runSwap)

lemma home_runApprove: "it_ID it \<in> s \<Longrightarrow> home u (runApprove W u it au) s"
  by (auto simp: runApprove_def sign_defs home_defs intro!: home_continue split: sum.split option.split prod.split)

lemma home_Submit: "home u (Submit W u r) s"
proof -
  have p: "home u (submit_prepared W u it au) s" if "it_ID it \<in> s" for it au s
    using that by (auto simp: submit_prepared_def home_defs intro!: home_runSwap home_runApprove)
  show ?thesis
    by (auto simp: Submit_def load_intent_def resumeApprove_def respond_def answer_facts Let_def home_defs
        intro!: p home_continue split: sum.split option.split)
qed

lemma clients_home: "client W who p \<Longrightarrow> wp (stays_home who) loaded p (\<lambda>_ _. True) {}"
  by (erule client_cases)
    (auto intro!: home_Submit home_sweep home_stable [OF Prepare_calls home_prepares] home_stable [OF Simulate_calls home_outside]
      home_stable [OF Challenge_calls home_views] home_stable [OF Status_calls home_views])

interpretation tenant: monitored W stays_home loaded "{}" for W
  by unfold_locales (rule clients_home)

section \<open>Rows and their owners\<close>

definition owners :: "Intent list \<Rightarrow> (string \<times> string) list" where
  "owners rows = map (\<lambda>r. (it_ID r, it_UserID r)) rows"

lemma owners_map [simp]:
  "(\<And>r. it_ID (f r) = it_ID r \<and> it_UserID (f r) = it_UserID r) \<Longrightarrow> owners (map f rows) = owners rows"
  by (simp add: owners_def)

lemma db_update_owners:
  "db_update W i t f rows = (rows', a) \<Longrightarrow> (\<And>r. it_ID (f r) = it_ID r \<and> it_UserID (f r) = it_UserID r)
     \<Longrightarrow> owners rows' = owners rows"
  by (auto simp: db_update_def split: option.splits)

lemma owners_append [simp]: "owners (rows @ [r]) = owners rows @ [(it_ID r, it_UserID r)]"
  by (simp add: owners_def)

lemma db_apply_owners:
  assumes "db_apply W t fresh c rows = Some (rows', a)"
  shows "owners rows' = owners rows \<or> (\<exists>u. owners rows' = owners rows @ [(fresh, u)])"
  using assms
  by (cases c) (auto simp: db_cas_def db_risk_def db_insert_def stored_row_facts
      dest!: db_update_owners split: option.splits if_splits)

lemma serve_owners:
  assumes "serve W t c rows rows' a"
  shows "owners rows' = owners rows
    \<or> (\<exists>i u. owners rows' = owners rows @ [(i, u)] \<and> or_pguuid W i = Some i \<and> i \<notin> fst ` set (owners rows))"
proof -
  have "fst ` set (owners rows) = it_ID ` set rows" by (auto simp: owners_def image_image)
  then show ?thesis using assms by (auto elim!: serve_cases dest!: db_apply_owners)
qed

text \<open>Ids are canonical and unique, and what a process has loaded is a row of its user.\<close>

definition anchored :: "Orchestrator \<Rightarrow> world \<Rightarrow> bool" where
  "anchored W w \<longleftrightarrow> distinct (map fst (owners (wo_rows w)))
     \<and> (\<forall>(i, v) \<in> set (owners (wo_rows w)). or_pguuid W i = Some i)
     \<and> (\<forall>P \<in> set (wo_procs w). \<forall>j u it. (GetForUser j u, ARow it) \<in> set (pr_hist P)
          \<longrightarrow> (\<exists>v. or_pguuid W u = Some v \<and> (it_ID it, v) \<in> set (owners (wo_rows w))))"

lemma serve_row:
  assumes "serve W t (GetForUser j u) rows rows' (ARow it)"
  shows "it \<in> set rows \<and> or_pguuid W u = Some (it_UserID it) \<and> or_pguuid W j = Some (it_ID it)"
  using assms
  by (auto elim!: serve_cases simp: db_get_def find_Some_iff split: option.splits)

lemma step_anchored:
  assumes "step W w w'" "anchored W w"
  shows "anchored W w'"
  using assms(1)
proof (cases rule: step.cases)
  case (step_spawn u p)
  then show ?thesis using assms(2) by (auto simp: anchored_def)
next
  case (step_call k P c f rows' a)
  have P: "P \<in> set (wo_procs w)" using step_call by auto
  from serve_owners [OF step_call(5)]
  have o: "distinct (map fst (owners rows'))" "\<forall>(i, v) \<in> set (owners rows'). or_pguuid W i = Some i"
    and sub: "set (owners (wo_rows w)) \<subseteq> set (owners rows')"
    using assms(2) by (auto simp: anchored_def)
  have "\<exists>v. or_pguuid W u = Some v \<and> (it_ID it, v) \<in> set (owners rows')"
    if "c = GetForUser j u" "a = ARow it" for j u it
    using serve_row [of W "wo_clock w" j u "wo_rows w" rows' it] step_call(5) that sub by (auto simp: owners_def)
  moreover have "\<exists>v. or_pguuid W u = Some v \<and> (it_ID it, v) \<in> set (owners rows')"
    if "Q \<in> set (wo_procs w)" "(GetForUser j u, ARow it) \<in> set (pr_hist Q)" for Q j u it
    using that assms(2) sub unfolding anchored_def by blast
  ultimately show ?thesis using o P step_call(1)
    by (auto simp: anchored_def dest!: set_update_subset_insert [THEN subsetD])
next
  case (step_crash k P)
  then have "P \<in> set (wo_procs w)" by auto
  then show ?thesis using step_crash assms(2)
    by (auto simp: anchored_def dest!: set_update_subset_insert [THEN subsetD])
qed (use assms(2) in \<open>auto simp: anchored_def\<close>)

lemma reachable_anchored: "reachable W w \<Longrightarrow> anchored W w"
proof (induction rule: reachable.induct)
  case (reach_step w w')
  then show ?case using step_anchored by blast
qed (simp add: empty_world_def anchored_def owners_def)

lemma loadedD: "i \<in> loaded s (c, a) \<Longrightarrow> i \<in> s \<or> (\<exists>j u it. c = GetForUser j u \<and> a = ARow it \<and> it_ID it = i)"
  by (cases c; cases a) (auto simp: loaded_def)

lemma loaded_in_history:
  "i \<in> foldl loaded s h \<Longrightarrow> i \<in> s \<or> (\<exists>j u it. (GetForUser j u, ARow it) \<in> set h \<and> it_ID it = i)"
proof (induction h arbitrary: s)
  case (Cons x h)
  obtain c a where x: "x = (c, a)" by fastforce
  from Cons.IH [of "loaded s x"] Cons.prems
  consider "i \<in> loaded s (c, a)" | "\<exists>j u it. (GetForUser j u, ARow it) \<in> set h \<and> it_ID it = i"
    by (auto simp: x)
  then show ?case
  proof cases
    case 1
    then show ?thesis using loadedD [OF 1] unfolding x by (metis list.set_intros(1))
  next
    case 2
    then show ?thesis by (metis list.set_intros(2))
  qed
qed simp

text \<open>What a process of a user has loaded is one row of that user.\<close>

lemma loaded_is_own:
  assumes "reachable W w" "P \<in> set (wo_procs w)" "pr_user P = Some u" "i \<in> foldl loaded {} (pr_hist P)"
  shows "or_pguuid W i = Some i \<and> (\<forall>r \<in> set (wo_rows w). it_ID r = i \<longrightarrow> or_pguuid W u = Some (it_UserID r))"
proof -
  obtain j u' it where it: "(GetForUser j u', ARow it) \<in> set (pr_hist P)" "it_ID it = i"
    using loaded_in_history [OF assms(4)] by auto
  obtain h h' where "pr_hist P = h @ (GetForUser j u', ARow it) # h'" using split_list [OF it(1)] by blast
  then have "u' = u" using tenant.reachable_obeys [OF assms(1,2)] assms(3) by (fastforce simp: stays_home_def)
  moreover have an: "anchored W w" using assms(1) by (rule reachable_anchored)
  ultimately obtain v where v: "or_pguuid W u = Some v" "(i, v) \<in> set (owners (wo_rows w))"
    using it assms(2) unfolding anchored_def by blast
  have "it_UserID r = v" if "r \<in> set (wo_rows w)" "it_ID r = i" for r
  proof -
    have "(i, it_UserID r) \<in> set (owners (wo_rows w))" using that by (auto simp: owners_def)
    then show ?thesis using an v(2) eq_key_imp_eq_value unfolding anchored_def by metis
  qed
  then show ?thesis using v an by (auto simp: anchored_def)
qed

lemma db_update_other:
  "db_update W j t f rows = (rows', a) \<Longrightarrow> r \<in> set rows \<Longrightarrow> or_pguuid W j \<noteq> Some (it_ID r) \<Longrightarrow> r \<in> set rows'"
  by (auto simp: db_update_def image_iff split: option.splits intro!: bexI [of _ r])

lemma db_cas_other:
  "db_cas W j t f f' rows = (rows', a) \<Longrightarrow> r \<in> set rows \<Longrightarrow> or_pguuid W j \<noteq> Some (it_ID r) \<Longrightarrow> r \<in> set rows'"
  by (auto simp: db_cas_def image_iff split: option.splits if_splits intro!: bexI [of _ r])

lemma db_apply_other:
  assumes "db_apply W t fresh c rows = Some (rows', a)" "r \<in> set rows" "stays_home (Some u) s c"
    "\<And>i. i \<in> s \<Longrightarrow> or_pguuid W i \<noteq> Some (it_ID r)"
  shows "r \<in> set rows'"
proof -
  have u: "r \<in> set rows'" if "db_update W j t f rows = (rows', a)" "j \<in> s" for j f
    using db_update_other [OF that(1) assms(2)] assms(4) that(2) by blast
  show ?thesis
  proof (cases c)
    case (CASStatus j f f')
    then show ?thesis using assms db_cas_other [of W j t f f' rows rows' a r] by (simp add: stays_home_def)
  next
    case (InsertPrepared it)
    then show ?thesis using assms by (auto simp: db_insert_def split: if_splits option.splits)
  next
    case (SaveRisk j v)
    then show ?thesis using assms u by (auto simp: db_risk_def stays_home_def split: if_splits option.splits)
  qed (use assms(1-3) u in \<open>auto simp: stays_home_def\<close>)
qed

text \<open>Property C9. A request of one user never reads the row of another, whatever ids it is given, and
  no call it makes changes such a row.\<close>

theorem tenants_are_isolated:
  assumes "reachable W w" "P \<in> set (wo_procs w)" "pr_user P = Some u" "pr_prog P = Do c f"
    "serve W (wo_clock w) c (wo_rows w) rows' a" "r \<in> set (wo_rows w)" "or_pguuid W u \<noteq> Some (it_UserID r)"
  shows "r \<in> set rows' \<and> (\<forall>j v. (c, a) \<noteq> (GetForUser j v, ARow r)) \<and> (\<forall>age lim. c \<noteq> ListOpenOlderThan age lim)"
proof -
  let ?s = "foldl loaded {} (pr_hist P)"
  have g: "stays_home (Some u) ?s c"
    using tenant.next_call_guarded [OF assms(1,2,4)] assms(3) by simp
  have own: "or_pguuid W i \<noteq> Some (it_ID r)" if "i \<in> ?s" for i
    using loaded_is_own [OF assms(1-3) that] assms(6,7) by auto
  have "r \<in> set rows'"
    using assms(5) by (rule serve_cases) (use db_apply_other [OF _ assms(6) g] own assms(6) in blast)+
  moreover have "(c, a) \<noteq> (GetForUser j v, ARow r)" for j v
    using g assms(5,7) serve_row [of W "wo_clock w" j v "wo_rows w" rows' r] by (auto simp: stays_home_def)
  ultimately show ?thesis using g by (auto simp: stays_home_def)
qed

end
