(* ===== verification/IntentAuthorize.thy ===== *)
theory IntentAuthorize
  imports IntentTenants
begin

text \<open>
  What is signed and broadcast. Before a leg of an intent is signed, the intents backend has derived
  anew, from the stored transaction, the stored message and digest, and the policy engine has
  approved that digest for the wallet of the intent; the signature is made over that message with
  that approval, and what is broadcast is that transaction with that signature.
\<close>

definition leg_tx :: "leg \<Rightarrow> Intent \<Rightarrow> string" where
  "leg_tx l it = (case l of SwapLeg \<Rightarrow> it_UnsignedTxB64 it | ApproveLeg \<Rightarrow> it_ApproveUnsignedTxB64 it)"

definition leg_message :: "leg \<Rightarrow> Intent \<Rightarrow> string" where
  "leg_message l it = (case l of SwapLeg \<Rightarrow> it_SignMessageHex it | ApproveLeg \<Rightarrow> it_ApproveMessageHex it)"

definition leg_digest :: "leg \<Rightarrow> Intent \<Rightarrow> string" where
  "leg_digest l it = (case l of SwapLeg \<Rightarrow> it_MessageDigestHex it | ApproveLeg \<Rightarrow> it_ApproveMessageDigestHex it)"

lemmas leg_simps = leg_tx_def leg_message_def leg_digest_def

definition rederived :: "history \<Rightarrow> leg \<Rightarrow> Intent \<Rightarrow> bool" where
  "rederived h l it \<longleftrightarrow>
     (\<exists>ck th. (DeriveMessage ck (leg_tx l it), ADerived (leg_message l it) (leg_digest l it) th) \<in> set h)"

text \<open>The approval the signing request names is one the policy engine gave for this digest.\<close>

definition approved :: "history \<Rightarrow> leg \<Rightarrow> Intent \<Rightarrow> sign_body \<Rightarrow> bool" where
  "approved h l it b \<longleftrightarrow>
     (\<exists>input auth. (AuthorizeSwapCall input, AAuth auth) \<in> set h
        \<and> sa_MessageDigestHex input = leg_digest l it \<and> sa_DwalletAddress input = it_IkaDwalletAddress it
        \<and> sg_ApprovalTxSignature b = az_TxSignature auth \<and> sg_ApprovalSlot b = az_ApprovalSlot auth)"

definition backed :: "history \<Rightarrow> leg \<Rightarrow> Intent \<Rightarrow> sign_body \<Rightarrow> bool" where
  "backed h l it b \<longleftrightarrow> rederived h l it \<and> approved h l it b
     \<and> sg_DwalletAddress b = it_IkaDwalletAddress it \<and> sg_MessageHex b = leg_message l it"

definition was_loaded :: "history \<Rightarrow> Intent \<Rightarrow> bool" where
  "was_loaded h it \<longleftrightarrow> (\<exists>j u. (GetForUser j u, ARow it) \<in> set h)"

definition signed_for :: "history \<Rightarrow> leg \<Rightarrow> Intent \<Rightarrow> string \<Rightarrow> bool" where
  "signed_for h l it sig \<longleftrightarrow> (\<exists>b. (IkaSign b, ASignature sig) \<in> set h \<and> backed h l it b)"

definition justified :: "history \<Rightarrow> op \<Rightarrow> bool" where
  "justified h c =
     (case c of
        IkaSign b \<Rightarrow> (\<exists>l it. was_loaded h it \<and> backed h l it b)
      | Finalize l i b \<Rightarrow> (\<exists>it. was_loaded h it \<and> it_ID it = i \<and> fb_UnsignedTxB64 b = leg_tx l it
          \<and> signed_for h l it (fb_SignatureB64 b))
      | _ \<Rightarrow> True)"

definition logged :: "history \<Rightarrow> op \<times> ans \<Rightarrow> history" where
  "logged h x = h @ [x]"

lemma foldl_logged [simp]: "foldl logged s h = s @ h"
  by (induction h arbitrary: s) (simp_all add: logged_def)

section \<open>The clients are justified\<close>

abbreviation just :: "'r prog \<Rightarrow> history \<Rightarrow> bool" where
  "just p h \<equiv> wp justified logged p (\<lambda>_ _. True) h"

lemma evidence_grows:
  "rederived h l it \<Longrightarrow> rederived (logged h x) l it"
  "approved h l it b \<Longrightarrow> approved (logged h x) l it b"
  "backed h l it b \<Longrightarrow> backed (logged h x) l it b"
  "was_loaded h it \<Longrightarrow> was_loaded (logged h x) it"
  "signed_for h l it sig \<Longrightarrow> signed_for (logged h x) l it sig"
  by (auto simp: rederived_def approved_def backed_def was_loaded_def signed_for_def logged_def)

lemma in_logged [simp]: "x \<in> set (logged h y) \<longleftrightarrow> x = y \<or> x \<in> set h"
  by (auto simp: logged_def)

lemma evidence_new:
  "a = ADerived (leg_message l it) (leg_digest l it) th \<Longrightarrow> rederived (logged h (DeriveMessage ck (leg_tx l it), a)) l it"
  "(AuthorizeSwapCall inp, AAuth au) \<in> set h \<Longrightarrow> sa_MessageDigestHex inp = leg_digest l it
     \<Longrightarrow> sa_DwalletAddress inp = it_IkaDwalletAddress it \<Longrightarrow> sg_ApprovalTxSignature b = az_TxSignature au
     \<Longrightarrow> sg_ApprovalSlot b = az_ApprovalSlot au \<Longrightarrow> approved h l it b"
  "was_loaded (logged h (GetForUser j u, ARow it)) it"
  "backed h l it b \<Longrightarrow> signed_for (logged h (IkaSign b, ASignature sg)) l it sg"
  by (auto simp: rederived_def approved_def backed_def was_loaded_def signed_for_def logged_def)

fun needs_evidence :: "op \<Rightarrow> bool" where
  "needs_evidence (IkaSign b) = True"
| "needs_evidence (Finalize l i b) = True"
| "needs_evidence c = False"

lemma plain [simp]: "\<not> needs_evidence c \<Longrightarrow> justified h c"
  by (cases c) (simp_all add: justified_def)

lemma just_only: "only N p \<Longrightarrow> (\<And>c. N c \<Longrightarrow> \<not> needs_evidence c) \<Longrightarrow> just p h"
  by (erule wp_only [where I = "\<lambda>_. True"]) (simp_all add: stable_def)

lemma outside_plain: "outside c \<Longrightarrow> \<not> needs_evidence c"
  by (cases c) simp_all

lemma sweeps_plain: "sweeps c \<Longrightarrow> \<not> needs_evidence c"
  by (cases c) simp_all

lemma prepares_plain: "prepares u c \<Longrightarrow> \<not> needs_evidence c"
  by (auto simp: prepares_def outside_plain)

lemma views_plain: "views u c \<Longrightarrow> \<not> needs_evidence c"
  by (auto simp: views_def outside_plain)

lemma just_currentState [simp]: "just (currentState u it) h"
  by (rule wp_currentState) simp_all

lemma poll_rounds_calls: "only outside (poll_rounds n it tx dl)"
  by (induction n) (auto simp: checkReceiptOnce_def intro!: only_bind split: option.split)

lemma pollApproveReceipt_calls: "only outside (pollApproveReceipt it tx n)"
  unfolding pollApproveReceipt_def by (simp add: poll_rounds_calls del: poll_rounds.simps)

lemma just_poll:
  "was_loaded h it \<Longrightarrow> (\<And>r h. was_loaded h it \<Longrightarrow> Q r h) \<Longrightarrow> wp justified logged (pollApproveReceipt it tx n) Q h"
  by (rule wp_only [OF pollApproveReceipt_calls, where I = "\<lambda>h. was_loaded h it"])
    (auto simp: stable_def outside_plain evidence_grows)

text \<open>What signing and broadcasting one leg needs and leaves.\<close>

lemma compare_derived_Inr:
  "compare_derived a m dg th = Inr () \<Longrightarrow> \<exists>h. a = ADerived m dg h"
  by (auto simp: compare_derived_def answer_facts split: option.splits if_splits)

lemma wp_revalidate:
  assumes "tx = leg_tx l it" "m = leg_message l it" "dg = leg_digest l it" "was_loaded h it"
    "\<And>h' e. Q (Inl e) h'" "\<And>h'. was_loaded h' it \<Longrightarrow> rederived h' l it \<Longrightarrow> Q (Inr ()) h'"
  shows "wp justified logged (revalidate ck tx m dg th) Q h"
proof -
  have "Q (compare_derived a m dg th) (logged h (DeriveMessage ck tx, a))" for a
  proof (cases "compare_derived a m dg th")
    case (Inr x)
    then obtain th' where "a = ADerived m dg th'" using compare_derived_Inr [of a m dg th] by auto
    then show ?thesis using assms Inr by (auto intro!: assms(6) evidence_grows evidence_new(1))
  qed (simp add: assms(5))
  then show ?thesis by (simp add: revalidate_def)
qed

lemma sign_answer_Inr: "sign_answer a = Inr s \<Longrightarrow> a = ASignature s"
  by (auto simp: sign_answer_def answer_facts split: option.splits if_splits)

lemma wp_sign:
  assumes "m = leg_message l it" "was_loaded h it" "rederived h l it" "approved h l it
      \<lparr>sg_DwalletAddress = it_IkaDwalletAddress it, sg_Passphrase = pw, sg_MessageHex = m, sg_Scheme = it_SignScheme it,
       sg_ApprovalTxSignature = az_TxSignature au, sg_ApprovalSlot = az_ApprovalSlot au, sg_MessageMetadataHex = md,
       sg_PresignSessionIdHex = ps\<rparr>"
    "\<And>h' e. Q (Inl e) h'" "\<And>h' sg. was_loaded h' it \<Longrightarrow> signed_for h' l it sg \<Longrightarrow> Q (Inr sg) h'"
  shows "wp justified logged (signWithApproval it m md au ps pw) Q h"
proof -
  let ?b = "\<lparr>sg_DwalletAddress = it_IkaDwalletAddress it, sg_Passphrase = pw, sg_MessageHex = m, sg_Scheme = it_SignScheme it,
       sg_ApprovalTxSignature = az_TxSignature au, sg_ApprovalSlot = az_ApprovalSlot au, sg_MessageMetadataHex = md,
       sg_PresignSessionIdHex = ps\<rparr>"
  have b: "backed h l it ?b" using assms(1,3,4) by (simp add: backed_def)
  have "Q (sign_answer a) (logged h (IkaSign ?b, a))" for a
  proof (cases "sign_answer a")
    case (Inr sg)
    then have a: "a = ASignature sg" by (rule sign_answer_Inr)
    show ?thesis using assms(6) [OF evidence_grows(4) [OF assms(2)] evidence_new(4) [OF b]] Inr a by simp
  qed (simp add: assms(5))
  then show ?thesis using b assms(2) by (auto simp: signWithApproval_def justified_def)
qed

lemma wp_authorize_swap:
  assumes "was_loaded h it" "rederived h SwapLeg it" "sa_MessageDigestHex inp = it_MessageDigestHex it"
    "sa_DwalletAddress inp = it_IkaDwalletAddress it"
    "\<And>h' e. Q (Inl e) h'" "\<And>h' sg. was_loaded h' it \<Longrightarrow> signed_for h' SwapLeg it sg \<Longrightarrow> Q (Inr sg) h'"
  shows "wp justified logged (authorizeAndSignSwap u it inp pw) Q h"
  using assms
  by (auto simp: authorizeAndSignSwap_def answer_facts leg_simps
      intro!: wp_sign [where l = SwapLeg] evidence_grows(1,4) evidence_new(2) split: option.split)

lemma wp_authorize_approve:
  assumes "was_loaded h it" "rederived h ApproveLeg it" "sa_MessageDigestHex inp = it_ApproveMessageDigestHex it"
    "sa_DwalletAddress inp = it_IkaDwalletAddress it"
    "\<And>h' e. Q (Inl e) h'" "\<And>h' sg. was_loaded h' it \<Longrightarrow> signed_for h' ApproveLeg it sg \<Longrightarrow> Q (Inr sg) h'"
  shows "wp justified logged (authorizeAndSignWithBundle u it (it_ApproveMessageHex it) md inp pw) Q h"
  using assms
  by (auto simp: authorizeAndSignWithBundle_def answer_facts leg_simps
      intro!: wp_sign [where l = ApproveLeg] evidence_grows(1,4) evidence_new(2) split: option.split)

lemma just_broadcast:
  "was_loaded h it \<Longrightarrow> signed_for h l it sg \<Longrightarrow> tx = leg_tx l it
     \<Longrightarrow> justified h (Finalize l (it_ID it) \<lparr>fb_ChainKind = ck, fb_UnsignedTxB64 = tx, fb_SignatureB64 = sg,
           fb_SignerPubkeyHex = pk, fb_ChainID = ci\<rparr>)"
  by (auto simp: justified_def)

lemma just_sign_and_broadcast:
  "was_loaded h it \<Longrightarrow> rederived h SwapLeg it \<Longrightarrow> sa_MessageDigestHex inp = it_MessageDigestHex it
     \<Longrightarrow> sa_DwalletAddress inp = it_IkaDwalletAddress it \<Longrightarrow> just (sign_and_broadcast W u it inp pw) h"
  unfolding sign_and_broadcast_def wp_bind
  by (rule wp_authorize_swap)
    (auto simp: broadcastTx_def respond_def Let_def leg_simps intro!: just_broadcast evidence_grows split: prod.split)

lemma inputs [simp]:
  "sa_MessageDigestHex (swap_leg_input S it slot sg b) = it_MessageDigestHex it"
  "sa_DwalletAddress (swap_leg_input S it slot sg b) = it_IkaDwalletAddress it"
  "sa_MessageDigestHex (approve_leg_input it slot sg b') = it_ApproveMessageDigestHex it"
  "sa_DwalletAddress (approve_leg_input it slot sg b') = it_IkaDwalletAddress it"
  by (simp_all add: swap_leg_input_def approve_leg_input_def signed_input_def authInputWithDigest_def swapAuthInput_def)

lemma just_runSwap: "was_loaded h it \<Longrightarrow> just (runSwap W u it au) h"
  unfolding runSwap_def wp_bind
  by (rule wp_revalidate [where l = SwapLeg])
    (auto simp: leg_simps intro!: just_sign_and_broadcast split: option.split sum.split)

lemma just_continue: "was_loaded h it \<Longrightarrow> just (continueAfterApprove W u it tx au n) h"
  unfolding continueAfterApprove_def
  by (auto intro!: just_poll just_runSwap evidence_grows split: prod.split)

lemma just_runApprove: "was_loaded h it \<Longrightarrow> just (runApprove W u it au) h"
  unfolding runApprove_def wp_bind
  by (rule wp_revalidate [where l = ApproveLeg])
    (auto simp: leg_simps broadcastTx_def intro!: wp_authorize_approve just_broadcast just_continue evidence_grows
      split: option.split sum.split prod.split)

lemma just_Submit: "just (Submit W u r) h"
proof -
  have p: "just (submit_prepared W u it au) h" if "was_loaded h it" for it au h
    using that by (auto simp: submit_prepared_def intro!: just_runSwap just_runApprove evidence_grows)
  show ?thesis
    by (auto simp: Submit_def load_intent_def resumeApprove_def respond_def answer_facts Let_def
        intro!: p just_continue evidence_new(3) split: sum.split option.split)
qed

lemma clients_justified: "client W who p \<Longrightarrow> just p []"
  by (erule client_cases)
    (auto intro!: just_Submit just_only [OF Prepare_calls] just_only [OF Simulate_calls] just_only [OF Challenge_calls]
      just_only [OF Status_calls] just_only [OF sweep_calls]
      simp: outside_plain sweeps_plain prepares_plain views_plain)

interpretation justified: monitored W "\<lambda>_. justified" logged "[]" for W
  by unfold_locales (rule clients_justified)

text \<open>
  Property C8. Nothing unapproved is broadcast: when a process hands a leg of an intent to the
  broadcaster, it has loaded the intent, the transaction is the stored one, the backend has derived
  from it again the stored message and digest, the policy engine has approved that digest for the
  intent's wallet, and the signature is one the signer returned for that message under that approval.
\<close>

theorem broadcast_is_authorized:
  assumes "reachable W w" "P \<in> set (wo_procs w)" "pr_hist P = h @ (Finalize l i b, a) # h'"
  shows "\<exists>it ck th input auth s. was_loaded h it \<and> it_ID it = i \<and> fb_UnsignedTxB64 b = leg_tx l it
    \<and> (DeriveMessage ck (leg_tx l it), ADerived (leg_message l it) (leg_digest l it) th) \<in> set h
    \<and> (AuthorizeSwapCall input, AAuth auth) \<in> set h
    \<and> sa_MessageDigestHex input = leg_digest l it \<and> sa_DwalletAddress input = it_IkaDwalletAddress it
    \<and> (IkaSign s, ASignature (fb_SignatureB64 b)) \<in> set h \<and> sg_MessageHex s = leg_message l it
    \<and> sg_DwalletAddress s = it_IkaDwalletAddress it \<and> sg_ApprovalTxSignature s = az_TxSignature auth"
  using justified.reachable_obeys [OF assms]
  by (simp add: justified_def signed_for_def backed_def rederived_def approved_def) metis

end
