(* ===== verification/IntentPrepare.thy ===== *)
theory IntentPrepare
  imports IntentAuthorize
begin

text \<open>
  What \<open>Prepare\<close> stores. The row is made of what the two backends answered for one request, and only
  after they agreed on what is to be signed and the destination was found to be the wallet's own.
\<close>

definition own_destination :: "history \<Rightarrow> prepareRequest \<Rightarrow> bool" where
  "own_destination h r \<longleftrightarrow>
     (pq_ToAddress r = [] \<and> pq_FromChain r = pq_ToChain r)
     \<or> (\<exists>as. (IkaAddresses (pq_DwalletAddress r), as) \<in> set h
          \<and> (\<exists>xs. as = AAddresses xs \<and> (\<exists>x \<in> set xs. normAddr x = normAddr (pq_ToAddress r))))"

text \<open>The intents backend built the transaction, and the signer's preparation of its message gave the
  same digest and scheme.\<close>

definition agreed :: "history \<Rightarrow> prepareRequest \<Rightarrow> ibPrepareResult \<Rightarrow> ikaPrepareMsg \<Rightarrow> bool" where
  "agreed h r pr pm \<longleftrightarrow>
     (\<exists>f. (IbPrepare r f, APrepared pr) \<in> set h)
     \<and> (IkaPrepareMessage (ib_SignChainID pr) (ib_MessageToSignHex pr), AMessage pm) \<in> set h
     \<and> ib_MessageDigestHex pr \<noteq> [] \<and> pm_DigestHex pm = ib_MessageDigestHex pr \<and> pm_Scheme pm = ib_SignScheme pr"

definition approval_agreed :: "history \<Rightarrow> ibPrepareResult \<Rightarrow> Intent \<Rightarrow> bool" where
  "approval_agreed h pr it \<longleftrightarrow>
     (case ib_Approval pr of
        None \<Rightarrow> it_ApproveMessageDigestHex it = [] \<and> it_ApproveUnsignedTxB64 it = []
      | Some ap \<Rightarrow> it_ApproveUnsignedTxB64 it = ap_UnsignedTxB64 ap
          \<and> it_ApproveMessageDigestHex it = ap_MessageDigestHex ap \<and> ap_MessageDigestHex ap \<noteq> []
          \<and> (\<exists>pm. (IkaPrepareMessage (ib_SignChainID pr) (ap_MessageToSignHex ap), AMessage pm) \<in> set h
               \<and> pm_DigestHex pm = ap_MessageDigestHex ap \<and> pm_PreprocessedHex pm = it_ApproveMessageHex it))"

text \<open>The columns of the intent that come from the request and from the answers.\<close>

definition taken_from :: "prepareRequest \<Rightarrow> ibPrepareResult \<Rightarrow> ikaPrepareMsg \<Rightarrow> Intent \<Rightarrow> bool" where
  "taken_from r pr pm it \<longleftrightarrow>
     it_IkaDwalletAddress it = pq_DwalletAddress r \<and> it_FromToken it = pq_FromToken r \<and> it_ToToken it = pq_ToToken r
     \<and> it_FromAmount it = pq_FromAmount r \<and> it_FromChain it = pq_FromChain r \<and> it_ToChain it = pq_ToChain r
     \<and> it_UnsignedTxB64 it = ib_UnsignedTxB64 pr \<and> it_QuotedAmountOutMin it = ib_AmountOutMin pr
     \<and> it_SignMessageHex it = pm_PreprocessedHex pm \<and> it_MessageDigestHex it = pm_DigestHex pm"

definition grounded :: "history \<Rightarrow> op \<Rightarrow> bool" where
  "grounded h c =
     (case c of
        InsertPrepared it \<Rightarrow> \<exists>r pr pm. own_destination h r \<and> agreed h r pr pm \<and> approval_agreed h pr it
          \<and> taken_from r pr pm it \<and> it_Status it = StatusPrepared
      | _ \<Rightarrow> True)"

fun inserts :: "op \<Rightarrow> bool" where
  "inserts (InsertPrepared it) = True"
| "inserts c = False"

lemma grounded_other [simp]: "\<not> inserts c \<Longrightarrow> grounded h c"
  by (cases c) (simp_all add: grounded_def)

lemma prep_grows:
  "own_destination h r \<Longrightarrow> own_destination (logged h x) r"
  "agreed h r pr pm \<Longrightarrow> agreed (logged h x) r pr pm"
  "approval_agreed h pr it \<Longrightarrow> approval_agreed (logged h x) pr it"
  by (auto simp: own_destination_def agreed_def approval_agreed_def split: option.split)

abbreviation gr :: "'r prog \<Rightarrow> ('r \<Rightarrow> history \<Rightarrow> bool) \<Rightarrow> history \<Rightarrow> bool" where
  "gr p Q h \<equiv> wp grounded logged p Q h"

lemma more_answers:
  "message_of a = Some pm \<longleftrightarrow> a = AMessage pm" "prepared_of a = Some pr \<longleftrightarrow> a = APrepared pr"
  "addresses_of a = Some xs \<longleftrightarrow> a = AAddresses xs"
  by (cases a; simp add: message_of_def prepared_of_def addresses_of_def)+

lemma gr_destination:
  assumes "\<And>h' e. Q (Inl e) h'" "\<And>h'. own_destination h' r \<Longrightarrow> Q (Inr ()) h'" "pq_FromChain r = pq_ToChain r \<or> pq_ToAddress r \<noteq> []"
  shows "gr (if pq_ToAddress r \<noteq> [] then verifyOwnDestination (pq_DwalletAddress r) (pq_ToAddress r) else Ret (Inr ())) Q h"
proof (cases "pq_ToAddress r = []")
  case True
  then show ?thesis using assms by (simp add: own_destination_def)
next
  case False
  have "own_destination (logged h (IkaAddresses (pq_DwalletAddress r), AAddresses xs)) r"
    if "list_ex (\<lambda>x. normAddr x = normAddr (pq_ToAddress r)) xs" for xs
    using that by (auto simp: own_destination_def list_ex_iff)
  then show ?thesis using False assms(1,2)
    by (auto simp: verifyOwnDestination_def more_answers split: option.split)
qed

lemma check_drift_Inr:
  "check_drift pr pm = Inr u \<longleftrightarrow> ib_MessageDigestHex pr \<noteq> [] \<and> pm_DigestHex pm = ib_MessageDigestHex pr
     \<and> pm_Scheme pm = ib_SignScheme pr"
  by (simp add: check_drift_def)

lemma agreed_new:
  "check_drift pr pm = Inr u \<Longrightarrow> agreed (logged (logged h (IbPrepare r f, APrepared pr))
     (IkaPrepareMessage (ib_SignChainID pr) (ib_MessageToSignHex pr), AMessage pm)) r pr pm"
  by (auto simp: agreed_def check_drift_Inr)

lemma gr_buildSwap:
  assumes "\<And>h' e. Q (Inl e) h'" "\<And>h' pr pm. own_destination h' r \<Longrightarrow> agreed h' r pr pm \<Longrightarrow> Q (Inr (pr, pm)) h'"
  shows "gr (buildSwap S r) Q h"
proof -
  have last: "gr (Do (IbPrepare r f) (\<lambda>a. case prepared_of a of
         Some pr \<Rightarrow>
           Do (IkaPrepareMessage (ib_SignChainID pr) (ib_MessageToSignHex pr)) (\<lambda>b. case message_of b of
               Some pm \<Rightarrow> pure_ok (check_drift pr pm) (\<lambda>_. Ret (Inr (pr, pm)))
             | None \<Rightarrow> Ret (Inl (HttpError 502 (if b = AUnreadable then ''prepare_message_bad_response''
                 else ''prepare_message_failed''))))
       | None \<Rightarrow> Ret (Inl (prepare_error a)))) Q h'" if "own_destination h' r" for f h'
    using that assms
    by (auto simp: more_answers split: option.split sum.split intro!: assms(2) prep_grows(1) agreed_new)
  show ?thesis
  proof (cases "pq_FromChain r = pq_ToChain r \<or> pq_ToAddress r \<noteq> []")
    case True
    then have c: "ok_or e (\<not> (pq_FromChain r \<noteq> pq_ToChain r \<and> pq_ToAddress r = [])) = Inr ()" for e
      by (auto simp: ok_or_def)
    show ?thesis unfolding buildSwap_def wp_pure_ok wp_bind_ok c sum.case
      by (rule gr_destination) (use True assms(1) in \<open>auto simp del: wp.simps(2) intro: last split: sum.split\<close>)
  next
    case False
    then show ?thesis using assms(1) by (simp add: buildSwap_def ok_or_def)
  qed
qed

lemma grounded_stable: "only N p \<Longrightarrow> (\<And>c. N c \<Longrightarrow> \<not> inserts c) \<Longrightarrow> gr p (\<lambda>_ _. True) h"
  by (erule wp_only [where I = "\<lambda>_. True"]) (simp_all add: stable_def)

lemma outside_inserts: "outside c \<Longrightarrow> \<not> inserts c"
  by (cases c) simp_all

lemma sweeps_inserts: "sweeps c \<Longrightarrow> \<not> inserts c"
  by (cases c) simp_all

lemma views_inserts: "views u c \<Longrightarrow> \<not> inserts c"
  by (auto simp: views_def outside_inserts)

text \<open>What holds of the intent between the quote and its insertion.\<close>

definition quoted :: "history \<Rightarrow> prepareRequest \<Rightarrow> ibPrepareResult \<Rightarrow> ikaPrepareMsg \<Rightarrow> bool" where
  "quoted h r pr pm \<longleftrightarrow> own_destination h r \<and> agreed h r pr pm"

lemma quoted_grows: "quoted h r pr pm \<Longrightarrow> quoted (logged h x) r pr pm"
  by (simp add: quoted_def prep_grows)

lemma gr_insert:
  "quoted h r pr pm \<Longrightarrow> approval_agreed h pr it \<Longrightarrow> taken_from r pr pm it \<Longrightarrow> it_Status it = StatusPrepared
     \<Longrightarrow> gr (insert_intent it pr pm) (\<lambda>_ _. True) h"
  by (auto simp: insert_intent_def grounded_def quoted_def)

lemma gr_balance:
  assumes "quoted h r pr pm" "\<And>x h'. quoted h' r pr pm \<Longrightarrow> Q x h'"
  shows "gr (checkNativeBalance k c a n) Q h"
  by (rule wp_only [OF balance_calls, where I = "\<lambda>h. quoted h r pr pm"])
    (use assms in \<open>auto simp: stable_def outside_inserts quoted_grows\<close>)

lemma gr_approval:
  assumes "quoted h r pr pm" "taken_from r pr pm it" "it_Status it = StatusPrepared"
    "it_ApproveMessageDigestHex it = []" "it_ApproveUnsignedTxB64 it = []" "\<And>h' e. Q (Inl e) h'"
    "\<And>h' it'. quoted h' r pr pm \<Longrightarrow> approval_agreed h' pr it' \<Longrightarrow> taken_from r pr pm it'
       \<Longrightarrow> it_Status it' = StatusPrepared \<Longrightarrow> Q (Inr it') h'"
  shows "gr (prepare_approval (ib_SignChainID pr) (ib_Approval pr) it) Q h"
proof (cases "ib_Approval pr")
  case None
  then show ?thesis using assms by (simp add: prepare_approval_def approval_agreed_def)
next
  case (Some ap)
  have "Q (Inr (add_approval it ap m)) (logged h (IkaPrepareMessage (ib_SignChainID pr) (ap_MessageToSignHex ap), AMessage m))"
    if "ap_MessageDigestHex ap \<noteq> []" "pm_DigestHex m = ap_MessageDigestHex ap" for m
    using assms(1-3) that Some
    by (intro assms(7) quoted_grows) (auto simp: approval_agreed_def add_approval_def taken_from_def)
  then show ?thesis using Some assms(6) by (auto simp: prepare_approval_def more_answers split: option.split)
qed

lemma taken_new: "taken_from r pr pm (new_intent u k r pr pm t)"
  by (simp add: taken_from_def new_intent_def)

lemma gr_Prepare: "gr (Prepare W u k r) (\<lambda>_ _. True) h"
proof -
  have ins: "gr (case SwapChallengeDigest S (prefetch_input S it) of
         Inr digest \<Rightarrow>
           Do (FirePrefetchCall u (pq_DwalletAddress r) digest) (\<lambda>_.
           insert_intent (it\<lparr>it_PolicyMetadataDigestHex := digest\<rparr>) pr pm)
       | Inl _ \<Rightarrow> insert_intent it pr pm) (\<lambda>_ _. True) h'"
    if "quoted h' r pr pm" "approval_agreed h' pr it" "taken_from r pr pm it" "it_Status it = StatusPrepared" for S it pr pm h'
    using that
    by (auto split: sum.split intro!: gr_insert [where r = r] quoted_grows prep_grows(3))
      (auto simp: approval_agreed_def taken_from_def split: option.splits)
  have rest: "gr (bind_ok (checkNativeBalance (pq_ChainKind r) (ib_ChainID pr) (ib_ChainNativeAddress pr) (ib_NativeFeeEstimate pr)) (\<lambda>_.
      Do Now (\<lambda>now.
      bind_ok (prepare_approval (ib_SignChainID pr) (ib_Approval pr)
        (new_intent u k r pr pm (time_of now + or_ttl W))) (\<lambda>it.
      (case SwapChallengeDigest (or_authorizer W) (prefetch_input (or_authorizer W) it) of
         Inr digest \<Rightarrow>
           Do (FirePrefetchCall u (pq_DwalletAddress r) digest) (\<lambda>_.
           insert_intent (it\<lparr>it_PolicyMetadataDigestHex := digest\<rparr>) pr pm)
       | Inl _ \<Rightarrow> insert_intent it pr pm))))) (\<lambda>_ _. True) h'" if "quoted h' r pr pm" for pr pm h'
  proof -
    have a: "gr (prepare_approval (ib_SignChainID pr) (ib_Approval pr) (new_intent u k r pr pm t))
        (\<lambda>x s. case x of Inl e \<Rightarrow> True | Inr it \<Rightarrow>
          gr (case SwapChallengeDigest (or_authorizer W) (prefetch_input (or_authorizer W) it) of
           Inr digest \<Rightarrow>
             Do (FirePrefetchCall u (pq_DwalletAddress r) digest) (\<lambda>_.
             insert_intent (it\<lparr>it_PolicyMetadataDigestHex := digest\<rparr>) pr pm)
         | Inl _ \<Rightarrow> insert_intent it pr pm) (\<lambda>_ _. True) s) h''" if "quoted h'' r pr pm" for t h''
      by (rule gr_approval [OF that taken_new]) (simp_all add: new_intent_def ins)
    show ?thesis unfolding wp_bind_ok
      by (rule gr_balance [OF that]) (simp add: a quoted_grows split: sum.split)
  qed
  show ?thesis
    unfolding Prepare_def Let_def wp_bind_ok
    by (rule gr_buildSwap) (auto simp: quoted_def intro: rest [unfolded wp_bind_ok])
qed

lemma calls_currentState: "only (\<lambda>c. \<not> inserts c) (currentState u it)"
  by (simp add: currentState_def respond_def split: option.split)

lemma calls_fail: "only (\<lambda>c. \<not> inserts c) (fail_with it e)"
  by (simp add: fail_with_def)

lemma calls_audit: "only (\<lambda>c. \<not> inserts c) p \<Longrightarrow> only (\<lambda>c. \<not> inserts c) (appendAudit W it ac h p)"
  by (simp add: appendAudit_def)

lemma calls_outside: "only outside p \<Longrightarrow> only (\<lambda>c. \<not> inserts c) p"
  by (erule only_mono) (rule outside_inserts)

lemmas submit_calls = calls_currentState calls_fail calls_audit only_publish only_bind

lemma calls_sign: "only (\<lambda>c. \<not> inserts c) (sign_and_broadcast W u it inp pw)"
  unfolding sign_and_broadcast_def
  by (auto simp: authorizeAndSignSwap_def signWithApproval_def broadcastTx_def respond_def Let_def
      intro!: submit_calls split: sum.split option.split prod.split)

lemma calls_runSwap: "only (\<lambda>c. \<not> inserts c) (runSwap W u it au)"
  unfolding runSwap_def
  by (auto simp: revalidate_def intro!: submit_calls calls_sign split: sum.split option.split)

lemma calls_continue: "only (\<lambda>c. \<not> inserts c) (continueAfterApprove W u it tx au n)"
  unfolding continueAfterApprove_def
  by (auto intro!: submit_calls calls_runSwap calls_outside [OF pollApproveReceipt_calls] split: prod.split)

lemma calls_runApprove: "only (\<lambda>c. \<not> inserts c) (runApprove W u it au)"
  unfolding runApprove_def
  by (auto simp: revalidate_def authorizeAndSignWithBundle_def signWithApproval_def broadcastTx_def
      intro!: submit_calls calls_continue split: sum.split option.split prod.split)

lemma Submit_inserts_nothing: "only (\<lambda>c. \<not> inserts c) (Submit W u r)"
proof -
  have p: "only (\<lambda>c. \<not> inserts c) (submit_prepared W u it au)" for it au
    by (auto simp: submit_prepared_def intro!: calls_currentState calls_runSwap calls_runApprove)
  have l: "only (\<lambda>c. \<not> inserts c) (load_intent i u)" for i
    by (rule only_mono [OF load_calls]) (rule views_inserts)
  show ?thesis unfolding Submit_def Let_def
    by (rule only_bind_ok [OF l]) (auto simp: p resumeApprove_def respond_def calls_continue)
qed

lemma clients_grounded: "client W who p \<Longrightarrow> gr p (\<lambda>_ _. True) []"
  by (erule client_cases)
    (auto simp: gr_Prepare intro!: grounded_stable [OF Submit_inserts_nothing] grounded_stable [OF Simulate_calls]
      grounded_stable [OF Challenge_calls] grounded_stable [OF Status_calls] grounded_stable [OF sweep_calls]
      dest: outside_inserts sweeps_inserts views_inserts)

interpretation grounded: monitored W "\<lambda>_. grounded" logged "[]" for W
  by unfold_locales (rule clients_grounded)

text \<open>
  Property C24. A row is inserted only for a quote both backends agree on: the transaction, amounts and
  route are those the intents backend answered for the request, the message and digest are the signer's
  for exactly that transaction's message, with the digest and scheme the intents backend announced. Of an
  approval the transaction is the intents backend's and the digest the one both backends give for its
  message; its scheme is not compared. A destination, required across chains, is one of the wallet's own
  addresses.
\<close>

theorem prepared_intent_is_agreed:
  assumes "reachable W w" "P \<in> set (wo_procs w)" "pr_hist P = h @ (InsertPrepared it, a) # h'"
  shows "\<exists>r pr pm. own_destination h r \<and> agreed h r pr pm \<and> approval_agreed h pr it \<and> taken_from r pr pm it
    \<and> it_Status it = StatusPrepared"
  using grounded.reachable_obeys [OF assms] by (simp add: grounded_def)

end
