(* ===== verification/PolicyRecovery.thy ===== *)
theory PolicyRecovery
  imports PolicySessions
begin

text \<open>
  Recovery over HTTP: by the primary credential (\<open>handlers_recovery.go\<close>), by a quorum
  (\<open>handlers_quorum.go\<close>) and through a passkey session (\<open>handlers_passkey.go\<close>). Closing a quorum or
  passkey session answers with an unsigned transaction instead of sending one.
\<close>

section \<open>Derivations\<close>

text \<open>The signing accounts every recovery shares: approval, its bump, CPI authority, its bump.\<close>

record signing_accounts =
  ga_msgApproval :: key
  ga_msgApprovalBump :: u8
  ga_cpiAuthority :: key
  ga_cpiAuthorityBump :: u8

record recoverAsPrimaryChallengeRequest =
  rv_DwalletAddress :: string
  rv_InitAuthorityHash :: string
  rv_PrimarySlot :: memberSlotJSON
  rv_MessageDigestHex :: string
  rv_MetadataDigestHex :: string
  rv_UserPubkeyHex :: string
  rv_SignatureScheme :: u16
  rv_DestinationHex :: string
  rv_RuleIndex :: u8
  rv_ExpectedNonce :: u64
  rv_IkaCurve :: u16
  rv_IkaDWalletPubkey :: string

record recoverAsPrimarySubmitRequest = recoverAsPrimaryChallengeRequest +
  rv_signed :: signedSubmitFields
  rv_Amount :: u64

definition recover_valid :: "Service \<Rightarrow> 'a recoverAsPrimaryChallengeRequest_scheme \<Rightarrow> bool" where
  "recover_valid S r \<longleftrightarrow> validateSolanaPubkey S (rv_DwalletAddress r) \<and> hex_len_32 (rv_InitAuthorityHash r)
     \<and> slot_valid (rv_PrimarySlot r) \<and> hex_len_32 (rv_MessageDigestHex r) \<and> hex_len_32 (rv_MetadataDigestHex r)
     \<and> hex_len_32 (rv_UserPubkeyHex r) \<and> rv_SignatureScheme r \<le> 6 \<and> hex_len_32 (rv_DestinationHex r)
     \<and> rv_RuleIndex r \<le> 15 \<and> rv_IkaCurve r \<le> 2 \<and> rv_IkaDWalletPubkey r \<noteq> []"

record recoverAsPrimaryDerived = signing_accounts +
  rd_dwallet :: key
  rd_initHash :: hash
  rd_engine :: key
  rd_rulePDA :: key
  rd_primarySlot :: slot
  rd_msgDigest :: hash
  rd_metaDigest :: hash
  rd_userPubkey :: "32 arr"
  rd_destination :: "32 arr"

definition deriveRecoverAsPrimary ::
    "Service \<Rightarrow> 'a recoverAsPrimaryChallengeRequest_scheme \<Rightarrow> http_error + recoverAsPrimaryDerived" where
  "deriveRecoverAsPrimary S r =
     bind_res (or_fail invalid_field (sv_PublicKeyFromBase58 S (rv_DwalletAddress r))) (\<lambda>dwallet.
     bind_res (or_fail invalid_field (mustHex32 (rv_InitAuthorityHash r))) (\<lambda>initHash.
     bind_res (or_fail invalid_field (decode_slot (rv_PrimarySlot r))) (\<lambda>primarySlot.
     bind_res (or_fail invalid_field (mustHex32 (rv_MessageDigestHex r))) (\<lambda>msgDigest.
     bind_res (or_fail invalid_field (mustHex32 (rv_MetadataDigestHex r))) (\<lambda>metaDigest.
     bind_res (or_fail invalid_field (mustHex32 (rv_UserPubkeyHex r))) (\<lambda>userPubkey.
     bind_res (or_fail invalid_field (mustHex32 (rv_DestinationHex r))) (\<lambda>destination.
     bind_res (ika_pubkey (rv_IkaDWalletPubkey r)) (\<lambda>ikaPK.
     bind_res (or_fail pda_failed (EnginePDA (sv_Solana S) (sv_ProgramID S) dwallet initHash)) (\<lambda>(engine, _).
     bind_res (or_fail pda_failed (RulePDA (sv_Solana S) (sv_ProgramID S) engine KindRecovery (rv_RuleIndex r))) (\<lambda>(rulePDA, _).
     bind_res (or_fail pda_failed (CPIAuthorityPDA (sv_Solana S) (sv_ProgramID S))) (\<lambda>(cpiAuth, cpiBump).
     bind_res (or_fail pda_failed (MessageApprovalPDA (sv_Solana S) (rv_IkaCurve r) ikaPK
       (rv_SignatureScheme r) (arr_bytes msgDigest) [])) (\<lambda>(msgApproval, msgApprovalBump).
     Inr \<lparr>ga_msgApproval = msgApproval, ga_msgApprovalBump = msgApprovalBump, ga_cpiAuthority = cpiAuth,
          ga_cpiAuthorityBump = cpiBump, rd_dwallet = dwallet, rd_initHash = initHash, rd_engine = engine,
          rd_rulePDA = rulePDA, rd_primarySlot = primarySlot, rd_msgDigest = msgDigest,
          rd_metaDigest = metaDigest, rd_userPubkey = userPubkey, rd_destination = destination\<rparr>))))))))))))"

record quorumCommonInputs =
  qi_DwalletAddress :: string
  qi_InitAuthorityHash :: string
  qi_MessageDigestHex :: string
  qi_MetadataDigestHex :: string
  qi_UserPubkeyHex :: string
  qi_DestinationHex :: string
  qi_SignatureScheme :: u16
  qi_Amount :: u64
  qi_ExpiresAt :: int
  qi_SessionNonce :: u64
  qi_RuleIndex :: u8
  qi_IkaCurve :: u16
  qi_IkaDWalletPubkey :: string

definition quorum_valid :: "Service \<Rightarrow> 'a quorumCommonInputs_scheme \<Rightarrow> bool" where
  "quorum_valid S r \<longleftrightarrow> validateSolanaPubkey S (qi_DwalletAddress r) \<and> hex_len_32 (qi_InitAuthorityHash r)
     \<and> hex_len_32 (qi_MessageDigestHex r) \<and> hex_len_32 (qi_MetadataDigestHex r) \<and> hex_len_32 (qi_UserPubkeyHex r)
     \<and> hex_len_32 (qi_DestinationHex r) \<and> qi_SignatureScheme r \<le> 6 \<and> qi_RuleIndex r \<le> 15
     \<and> qi_IkaCurve r \<le> 2 \<and> qi_IkaDWalletPubkey r \<noteq> []"

record quorumDerived = signing_accounts +
  qd_dwallet :: key
  qd_initHash :: hash
  qd_engine :: key
  qd_rulePDA :: key
  qd_sessionPDA :: key
  qd_msgDigest :: hash
  qd_metaDigest :: hash
  qd_userPubkey :: "32 arr"
  qd_destination :: "32 arr"

definition deriveQuorum :: "Service \<Rightarrow> 'a quorumCommonInputs_scheme \<Rightarrow> http_error + quorumDerived" where
  "deriveQuorum S r =
     bind_res (or_fail invalid_field (sv_PublicKeyFromBase58 S (qi_DwalletAddress r))) (\<lambda>dwallet.
     bind_res (or_fail invalid_field (mustHex32 (qi_InitAuthorityHash r))) (\<lambda>initHash.
     bind_res (or_fail invalid_field (mustHex32 (qi_MessageDigestHex r))) (\<lambda>msgDigest.
     bind_res (or_fail invalid_field (mustHex32 (qi_MetadataDigestHex r))) (\<lambda>metaDigest.
     bind_res (or_fail invalid_field (mustHex32 (qi_UserPubkeyHex r))) (\<lambda>userPubkey.
     bind_res (or_fail invalid_field (mustHex32 (qi_DestinationHex r))) (\<lambda>destination.
     bind_res (ika_pubkey (qi_IkaDWalletPubkey r)) (\<lambda>ikaPK.
     bind_res (or_fail pda_failed (EnginePDA (sv_Solana S) (sv_ProgramID S) dwallet initHash)) (\<lambda>(engine, _).
     bind_res (or_fail pda_failed (RulePDA (sv_Solana S) (sv_ProgramID S) engine KindRecovery (qi_RuleIndex r))) (\<lambda>(rulePDA, _).
     bind_res (or_fail pda_failed (QuorumSessionPDA (sv_Solana S) (sv_ProgramID S) engine (qi_SessionNonce r))) (\<lambda>(sessionPDA, _).
     bind_res (or_fail pda_failed (CPIAuthorityPDA (sv_Solana S) (sv_ProgramID S))) (\<lambda>(cpiAuth, cpiBump).
     bind_res (or_fail pda_failed (MessageApprovalPDA (sv_Solana S) (qi_IkaCurve r) ikaPK
       (qi_SignatureScheme r) (arr_bytes msgDigest) [])) (\<lambda>(msgApproval, msgApprovalBump).
     Inr \<lparr>ga_msgApproval = msgApproval, ga_msgApprovalBump = msgApprovalBump, ga_cpiAuthority = cpiAuth,
          ga_cpiAuthorityBump = cpiBump, qd_dwallet = dwallet, qd_initHash = initHash, qd_engine = engine,
          qd_rulePDA = rulePDA, qd_sessionPDA = sessionPDA, qd_msgDigest = msgDigest,
          qd_metaDigest = metaDigest, qd_userPubkey = userPubkey, qd_destination = destination\<rparr>))))))))))))"

record passkeyCommonInputs =
  pi_DwalletAddress :: string
  pi_InitAuthorityHash :: string
  pi_RuleIndex :: u8
  pi_PasskeySessionNonce :: u64

definition passkey_valid :: "Service \<Rightarrow> 'a passkeyCommonInputs_scheme \<Rightarrow> bool" where
  "passkey_valid S r \<longleftrightarrow> validateSolanaPubkey S (pi_DwalletAddress r) \<and> hex_len_32 (pi_InitAuthorityHash r)
     \<and> pi_RuleIndex r \<le> 15"

record passkeyDerived =
  pd_dwallet :: key
  pd_initHash :: hash
  pd_engine :: key
  pd_rulePDA :: key
  pd_sessionPDA :: key

definition derivePasskey :: "Service \<Rightarrow> 'a passkeyCommonInputs_scheme \<Rightarrow> http_error + passkeyDerived" where
  "derivePasskey S r =
     bind_res (or_fail invalid_field (sv_PublicKeyFromBase58 S (pi_DwalletAddress r))) (\<lambda>dwallet.
     bind_res (or_fail invalid_field (mustHex32 (pi_InitAuthorityHash r))) (\<lambda>initHash.
     bind_res (or_fail pda_failed (EnginePDA (sv_Solana S) (sv_ProgramID S) dwallet initHash)) (\<lambda>(engine, _).
     bind_res (or_fail pda_failed (RulePDA (sv_Solana S) (sv_ProgramID S) engine KindRecovery (pi_RuleIndex r))) (\<lambda>(rulePDA, _).
     bind_res (or_fail pda_failed (PasskeySessionPDA (sv_Solana S) (sv_ProgramID S) engine (pi_PasskeySessionNonce r))) (\<lambda>(sessionPDA, _).
     Inr \<lparr>pd_dwallet = dwallet, pd_initHash = initHash, pd_engine = engine, pd_rulePDA = rulePDA,
          pd_sessionPDA = sessionPDA\<rparr>)))))"

text \<open>The answer of a recovery challenge; the fields an endpoint does not send are left empty.\<close>

record recovery_challenge =
  rch_ProgramID :: string
  rch_EngineAddress :: string
  rch_RulePDA :: string
  rch_SessionAddress :: string
  rch_MessageApprovalAddress :: string
  rch_MessageApprovalBump :: u8
  rch_OpTag :: string
  rch_HumanMessage :: bytes
  rch_PreimageHex :: string
  rch_ChallengeHex :: string
  rch_Scheme :: u8

section \<open>Recovery by the primary\<close>

definition recover_input :: "recoverAsPrimaryDerived \<Rightarrow> 'a recoverAsPrimaryChallengeRequest_scheme \<Rightarrow> primary_recover_input" where
  "recover_input d r =
     \<lparr>pr_DWallet = rd_dwallet d, pr_MessageApproval = ga_msgApproval d, pr_MessageDigest = rd_msgDigest d,
      pr_MetadataDigest = rd_metaDigest d, pr_UserPubkey = rd_userPubkey d,
      pr_SignatureScheme = rv_SignatureScheme r, pr_MessageApprovalBump = ga_msgApprovalBump d,
      pr_Nonce = rv_ExpectedNonce r, pr_PrimarySlot = rd_primarySlot d\<rparr>"

definition recoverAsPrimaryChallenge ::
    "Service \<Rightarrow> recoverAsPrimaryChallengeRequest \<Rightarrow> recovery_challenge outcome" where
  "recoverAsPrimaryChallenge S r =
     (let res =
        bind_res (ok_or invalid_field (recover_valid S r)) (\<lambda>_.
        bind_res (deriveRecoverAsPrimary S r) (\<lambda>d.
        bind_res (or_fail encode_failed (PrimaryRecoverPreimage (sv_Solana S) (recover_input d r))) (\<lambda>preimage.
        let hash = sv_sha S preimage;
            human = HumanMessagePrimaryRecover (sv_Solana S) (rd_dwallet d) (rd_msgDigest d) (rd_metaDigest d)
              (rd_userPubkey d) (rv_SignatureScheme r) in
        Inr \<lparr>rch_ProgramID = Base58 (sv_Solana S) (sv_ProgramID S),
             rch_EngineAddress = Base58 (sv_Solana S) (rd_engine d), rch_RulePDA = Base58 (sv_Solana S) (rd_rulePDA d),
             rch_SessionAddress = [], rch_MessageApprovalAddress = Base58 (sv_Solana S) (ga_msgApproval d),
             rch_MessageApprovalBump = ga_msgApprovalBump d, rch_OpTag = OpTagPrimaryRecover,
             rch_HumanMessage = human, rch_PreimageHex = hex_lower preimage,
             rch_ChallengeHex = hex_lower (arr_bytes hash), rch_Scheme = arr_bytes (rd_primarySlot d) ! 0\<rparr>)))
      in case res of
        Inl e \<Rightarrow> ([], Inl e)
      | Inr resp \<Rightarrow> (firePresignPrefetch S (rv_DwalletAddress r) (rch_ChallengeHex resp), Inr resp))"

text \<open>The plan and the challenge it was built over, which the tail uses as presign key.\<close>

definition recoverAsPrimaryPlan ::
    "Service \<Rightarrow> recoverAsPrimarySubmitRequest \<Rightarrow> http_error + submit_plan \<times> hash" where
  "recoverAsPrimaryPlan S r =
     bind_res (requireSubmitWiring S) (\<lambda>sponsor.
     bind_res (ok_or invalid_field (recover_valid S r \<and> signed_valid (rv_signed r))) (\<lambda>_.
     bind_res (or_fail invalid_field (decode_signed (rv_signed r))) (\<lambda>creds.
     bind_res (deriveRecoverAsPrimary S r) (\<lambda>d.
     bind_res (or_fail encode_failed (PrimaryRecoverPreimage (sv_Solana S) (recover_input d r))) (\<lambda>preimage.
     let challenge = sv_sha S preimage in
     bind_res (plan_with S (rd_primarySlot d) challenge creds
       (RecoverAsPrimary (sv_Solana S)
         \<lparr>ProgramID = sv_ProgramID S, Engine = rd_engine d, DWallet = rd_dwallet d,
          InitAuthorityHash = rd_initHash d, Payer = sponsor, Coordinator = IkaCoordinator (sv_Solana S),
          MessageApproval = ga_msgApproval d, CPIAuthority = ga_cpiAuthority d,
          CallerProgram = sv_NewWallet S, DWalletProgram = IkaDwalletProgramID (sv_Solana S),
          CPIAuthorityBump = ga_cpiAuthorityBump d, MessageDigest = rd_msgDigest d,
          MetadataDigest = rd_metaDigest d, UserPubkey = rd_userPubkey d,
          SignatureScheme = rv_SignatureScheme r, MessageApprovalBump = ga_msgApprovalBump d,
          RPRuleIndex = rv_RuleIndex r, RPDestination = rd_destination d,
          RPExpectedNonce = rv_ExpectedNonce r, RPAmount = rv_Amount r\<rparr>)
       ''recover-as-primary'' (rd_engine d) (rd_dwallet d)
       (json_obj [(''signature_scheme'', num (rv_SignatureScheme r)), (''rule_index'', num (rv_RuleIndex r)),
          (''amount'', num (rv_Amount r))])) (\<lambda>p.
     Inr (p, challenge)))))))"

definition recoverAsPrimarySubmit ::
    "Service \<Rightarrow> recoverAsPrimarySubmitRequest \<Rightarrow> tx_response outcome" where
  "recoverAsPrimarySubmit S r =
     (case recoverAsPrimaryPlan S r of
        Inl e \<Rightarrow> ([], Inl e)
      | Inr (p, challenge) \<Rightarrow>
          (case sendSessionAdminTx S p of
             (es, Inl e) \<Rightarrow> (es, Inl e)
           | (es, Inr t) \<Rightarrow>
               (case harvestPresign S (hex_lower (arr_bytes challenge)) of
                  (hs, presign) \<Rightarrow> (es @ hs, Inr (t\<lparr>ApprovalSlot := confirmApprovalSlot S (TxSignature t),
                    PresignSessionIdHex := presign\<rparr>)))))"

section \<open>Quorum sessions\<close>

record quorumOpenChallengeRequest = quorumCommonInputs + qi_PrimarySlot :: memberSlotJSON
record quorumOpenSubmitRequest = quorumOpenChallengeRequest + qo_signed :: signedSubmitFields
record quorumContributeChallengeRequest = quorumCommonInputs + qi_MemberSlot :: memberSlotJSON
record quorumContributeSubmitRequest = quorumContributeChallengeRequest +
  qc_signed :: signedSubmitFields
  qi_MemberIndex :: u8

definition quorum_open_of :: "quorumDerived \<Rightarrow> slot \<Rightarrow> 'a quorumCommonInputs_scheme \<Rightarrow> quorum_open_input" where
  "quorum_open_of d primarySlot r =
     \<lparr>qo_DWallet = qd_dwallet d, qo_MessageDigest = qd_msgDigest d, qo_MetadataDigest = qd_metaDigest d,
      qo_UserPubkey = qd_userPubkey d, qo_SignatureScheme = qi_SignatureScheme r,
      qo_MessageApprovalBump = ga_msgApprovalBump d, qo_Amount = qi_Amount r,
      qo_Destination = qd_destination d, qo_ExpiresAt = qi_ExpiresAt r, qo_SessionNonce = qi_SessionNonce r,
      qo_PrimarySlot = primarySlot\<rparr>"

definition quorumOpenChallenge :: "Service \<Rightarrow> quorumOpenChallengeRequest \<Rightarrow> http_error + recovery_challenge" where
  "quorumOpenChallenge S r =
     bind_res (ok_or invalid_field (quorum_valid S r \<and> slot_valid (qi_PrimarySlot r))) (\<lambda>_.
     bind_res (deriveQuorum S r) (\<lambda>d.
     bind_res (or_fail invalid_field (decode_slot (qi_PrimarySlot r))) (\<lambda>primarySlot.
     bind_res (or_fail encode_failed (QuorumSessionOpenPreimage (sv_Solana S) (quorum_open_of d primarySlot r))) (\<lambda>preimage.
     let hash = sv_sha S preimage;
         human = HumanMessageQuorumSessionOpen (sv_Solana S) (qd_dwallet d) (qi_Amount r) (qd_destination d)
           (qd_msgDigest d) (qd_metaDigest d) (qi_SignatureScheme r) (qi_ExpiresAt r) in
     Inr \<lparr>rch_ProgramID = Base58 (sv_Solana S) (sv_ProgramID S),
          rch_EngineAddress = Base58 (sv_Solana S) (qd_engine d), rch_RulePDA = Base58 (sv_Solana S) (qd_rulePDA d),
          rch_SessionAddress = Base58 (sv_Solana S) (qd_sessionPDA d),
          rch_MessageApprovalAddress = Base58 (sv_Solana S) (ga_msgApproval d),
          rch_MessageApprovalBump = ga_msgApprovalBump d, rch_OpTag = OpTagQuorumSessionOpen,
          rch_HumanMessage = human, rch_PreimageHex = hex_lower preimage,
          rch_ChallengeHex = hex_lower (arr_bytes hash), rch_Scheme = arr_bytes primarySlot ! 0\<rparr>))))"

definition quorumOpenPlan :: "Service \<Rightarrow> quorumOpenSubmitRequest \<Rightarrow> http_error + submit_plan" where
  "quorumOpenPlan S r =
     bind_res (requireSubmitWiring S) (\<lambda>sponsor.
     bind_res (ok_or invalid_field (quorum_valid S r \<and> slot_valid (qi_PrimarySlot r) \<and> signed_valid (qo_signed r))) (\<lambda>_.
     bind_res (or_fail invalid_field (decode_signed (qo_signed r))) (\<lambda>creds.
     bind_res (deriveQuorum S r) (\<lambda>d.
     bind_res (or_fail invalid_field (decode_slot (qi_PrimarySlot r))) (\<lambda>primarySlot.
     bind_res (or_fail encode_failed (QuorumSessionOpenPreimage (sv_Solana S) (quorum_open_of d primarySlot r))) (\<lambda>preimage.
     plan_with S primarySlot (sv_sha S preimage) creds
       (QuorumSessionOpen (sv_Solana S)
         \<lparr>ProgramID = sv_ProgramID S, Engine = qd_engine d, DWallet = qd_dwallet d,
          InitAuthorityHash = qd_initHash d, Payer = sponsor, QRuleIndex = qi_RuleIndex r,
          QSessionNonce = qi_SessionNonce r, QMessageDigest = qd_msgDigest d, QMetadataDigest = qd_metaDigest d,
          QUserPubkey = qd_userPubkey d, QSignatureScheme = qi_SignatureScheme r,
          QMessageApprovalBump = ga_msgApprovalBump d, QAmount = qi_Amount r,
          QDestination = qd_destination d, QExpiresAt = qi_ExpiresAt r\<rparr>)
       ''quorum.session.open'' (qd_engine d) (qd_dwallet d)
       (json_obj [(''session_nonce'', num (qi_SessionNonce r)), (''amount'', num (qi_Amount r))])))))))"

definition quorumOpenSubmit :: "Service \<Rightarrow> quorumOpenSubmitRequest \<Rightarrow> tx_response outcome" where
  "quorumOpenSubmit S r = run_submit S (quorumOpenPlan S r)"

definition quorum_contribute_of :: "quorumDerived \<Rightarrow> slot \<Rightarrow> 'a quorumCommonInputs_scheme \<Rightarrow> quorum_contribute_input" where
  "quorum_contribute_of d memberSlot r =
     \<lparr>qc_Session = qd_sessionPDA d, qc_MemberSlot = memberSlot, qc_DWallet = qd_dwallet d,
      qc_Amount = qi_Amount r, qc_Destination = qd_destination d, qc_MessageDigest = qd_msgDigest d,
      qc_MetadataDigest = qd_metaDigest d, qc_UserPubkey = qd_userPubkey d,
      qc_SignatureScheme = qi_SignatureScheme r, qc_MessageApprovalBump = ga_msgApprovalBump d,
      qc_ExpiresAt = qi_ExpiresAt r\<rparr>"

definition quorumContributeChallenge ::
    "Service \<Rightarrow> quorumContributeChallengeRequest \<Rightarrow> http_error + recovery_challenge" where
  "quorumContributeChallenge S r =
     bind_res (ok_or invalid_field (quorum_valid S r \<and> slot_valid (qi_MemberSlot r))) (\<lambda>_.
     bind_res (deriveQuorum S r) (\<lambda>d.
     bind_res (or_fail invalid_field (decode_slot (qi_MemberSlot r))) (\<lambda>memberSlot.
     bind_res (or_fail encode_failed (QuorumContributePreimage (sv_Solana S) (quorum_contribute_of d memberSlot r))) (\<lambda>preimage.
     let hash = sv_sha S preimage;
         human = (case HumanMessageQuorumContribute (sv_Solana S) (qd_sessionPDA d) memberSlot (qd_dwallet d)
            (qi_Amount r) (qd_destination d) (qd_msgDigest d) (qd_metaDigest d) (qd_userPubkey d)
            (qi_SignatureScheme r) (qi_ExpiresAt r) of Inl _ \<Rightarrow> [] | Inr h \<Rightarrow> h) in
     Inr \<lparr>rch_ProgramID = Base58 (sv_Solana S) (sv_ProgramID S),
          rch_EngineAddress = Base58 (sv_Solana S) (qd_engine d), rch_RulePDA = [],
          rch_SessionAddress = Base58 (sv_Solana S) (qd_sessionPDA d),
          rch_MessageApprovalAddress = [], rch_MessageApprovalBump = 0, rch_OpTag = OpTagQuorumContribute,
          rch_HumanMessage = human, rch_PreimageHex = hex_lower preimage,
          rch_ChallengeHex = hex_lower (arr_bytes hash), rch_Scheme = arr_bytes memberSlot ! 0\<rparr>))))"

definition quorumContributePlan :: "Service \<Rightarrow> quorumContributeSubmitRequest \<Rightarrow> http_error + submit_plan" where
  "quorumContributePlan S r =
     bind_res (requireSubmitWiring S) (\<lambda>sponsor.
     bind_res (ok_or invalid_field (quorum_valid S r \<and> slot_valid (qi_MemberSlot r) \<and> signed_valid (qc_signed r))) (\<lambda>_.
     bind_res (or_fail invalid_field (decode_signed (qc_signed r))) (\<lambda>creds.
     bind_res (deriveQuorum S r) (\<lambda>d.
     bind_res (or_fail invalid_field (decode_slot (qi_MemberSlot r))) (\<lambda>memberSlot.
     bind_res (or_fail encode_failed (QuorumContributePreimage (sv_Solana S) (quorum_contribute_of d memberSlot r))) (\<lambda>preimage.
     plan_with S memberSlot (sv_sha S preimage) creds
       (QuorumSessionContribute (sv_Solana S)
         \<lparr>ProgramID = sv_ProgramID S, Engine = qd_engine d, DWallet = qd_dwallet d,
          InitAuthorityHash = qd_initHash d, Payer = sponsor, QCSessionNonce = qi_SessionNonce r,
          MemberIndex = qi_MemberIndex r\<rparr>)
       ''quorum.session.contribute'' (qd_engine d) (qd_dwallet d)
       (json_obj [(''session_nonce'', num (qi_SessionNonce r)), (''member_index'', num (qi_MemberIndex r))])))))))"

definition quorumContributeSubmit :: "Service \<Rightarrow> quorumContributeSubmitRequest \<Rightarrow> tx_response outcome" where
  "quorumContributeSubmit S r = run_submit S (quorumContributePlan S r)"

definition quorumFinalizePlan :: "Service \<Rightarrow> quorumCommonInputs \<Rightarrow> http_error + submit_plan" where
  "quorumFinalizePlan S r =
     bind_res (requireSubmitWiring S) (\<lambda>sponsor.
     bind_res (ok_or invalid_field (quorum_valid S r)) (\<lambda>_.
     bind_res (deriveQuorum S r) (\<lambda>d.
     bind_res (or_fail build_failed (QuorumSessionFinalize (sv_Solana S)
       \<lparr>ProgramID = sv_ProgramID S, Engine = qd_engine d, DWallet = qd_dwallet d,
        InitAuthorityHash = qd_initHash d, Payer = sponsor, Coordinator = IkaCoordinator (sv_Solana S),
        MessageApproval = ga_msgApproval d, CPIAuthority = ga_cpiAuthority d, CallerProgram = sv_NewWallet S,
        DWalletProgram = IkaDwalletProgramID (sv_Solana S), CPIAuthorityBump = ga_cpiAuthorityBump d,
        QFRuleIndex = qi_RuleIndex r, QFSessionNonce = qi_SessionNonce r\<rparr>)) (\<lambda>main.
     Inr \<lparr>pl_ixs = [main], pl_action = ''quorum.session.finalize'', pl_engine = qd_engine d,
          pl_dwallet = qd_dwallet d, pl_extra = json_obj [(''session_nonce'', num (qi_SessionNonce r))]\<rparr>))))"

definition quorumFinalize :: "Service \<Rightarrow> quorumCommonInputs \<Rightarrow> tx_response outcome" where
  "quorumFinalize S r = run_submit S (quorumFinalizePlan S r)"

section \<open>Closing with an unsigned transaction\<close>

record closeRequest =
  cl_DwalletAddress :: string
  cl_InitAuthorityHash :: string
  cl_SessionNonce :: u64
  cl_Recipient :: string

record unsignedTxResponse =
  ut_UnsignedTxBase64 :: string
  ut_FeePayer :: string
  ut_engine_address :: string
  ut_session_address :: string
  ut_session_nonce :: u64

definition buildUnsignedTx ::
    "Service \<Rightarrow> key \<Rightarrow> instruction list \<Rightarrow> key \<Rightarrow> key \<Rightarrow> u64 \<Rightarrow> http_error + unsignedTxResponse" where
  "buildUnsignedTx S feePayer ixs engine sessionPDA nonce =
     (if \<not> sv_RPCClient S then Inl no_rpc
      else bind_res (sv_UnsignedTx S feePayer ixs) (\<lambda>raw.
        Inr \<lparr>ut_UnsignedTxBase64 = raw, ut_FeePayer = Base58 (sv_Solana S) feePayer,
             ut_engine_address = Base58 (sv_Solana S) engine,
             ut_session_address = Base58 (sv_Solana S) sessionPDA, ut_session_nonce = nonce\<rparr>))"

definition close_with ::
    "(solana_env \<Rightarrow> key \<Rightarrow> key \<Rightarrow> u64 \<Rightarrow> policy_error + key \<times> u8) \<Rightarrow> (solana_env \<Rightarrow> recipient_close_ix \<Rightarrow> ix_result)
     \<Rightarrow> Service \<Rightarrow> closeRequest \<Rightarrow> http_error + unsignedTxResponse" where
  "close_with pda build S r =
     bind_res (requireSubmitWiring S) (\<lambda>_.
     bind_res (ok_or invalid_field (validateSolanaPubkey S (cl_DwalletAddress r)
       \<and> hex_len_32 (cl_InitAuthorityHash r) \<and> validateSolanaPubkey S (cl_Recipient r))) (\<lambda>_.
     bind_res (or_fail invalid_field (sv_PublicKeyFromBase58 S (cl_DwalletAddress r))) (\<lambda>dwallet.
     bind_res (or_fail invalid_field (mustHex32 (cl_InitAuthorityHash r))) (\<lambda>initHash.
     bind_res (or_fail invalid_field (sv_PublicKeyFromBase58 S (cl_Recipient r))) (\<lambda>recipient.
     bind_res (or_fail pda_failed (EnginePDA (sv_Solana S) (sv_ProgramID S) dwallet initHash)) (\<lambda>(engine, _).
     bind_res (or_fail pda_failed (pda (sv_Solana S) (sv_ProgramID S) engine (cl_SessionNonce r))) (\<lambda>(sessionPDA, _).
     bind_res (or_fail build_failed (build (sv_Solana S)
       \<lparr>ProgramID = sv_ProgramID S, Engine = engine, DWallet = dwallet, InitAuthorityHash = initHash,
        Recipient = recipient, CloseSessionNonce = cl_SessionNonce r\<rparr>)) (\<lambda>closeIx.
     buildUnsignedTx S recipient [closeIx] engine sessionPDA (cl_SessionNonce r)))))))))"

definition quorumClose :: "Service \<Rightarrow> closeRequest \<Rightarrow> http_error + unsignedTxResponse" where
  "quorumClose S r = close_with QuorumSessionPDA QuorumSessionClose S r"

definition passkeyClose :: "Service \<Rightarrow> closeRequest \<Rightarrow> http_error + unsignedTxResponse" where
  "passkeyClose S r = close_with PasskeySessionPDA PasskeySessionClose S r"

section \<open>Passkey sessions\<close>

record passkeyOpenChallengeRequest = passkeyCommonInputs +
  pi_PrimarySlot :: memberSlotJSON
  pi_EphPkHex :: string
  pi_NotAfterUnixTs :: u64
  pi_CredentialIDHashHex :: string

text \<open>The submit request redeclares \<open>webauthn_auth_data_base64\<close>: the outer field is the one JSON
  fills, and that of the embedded \<open>signedSubmitFields\<close> stays empty. The embedded
  \<open>webauthn_cdj_base64\<close> has no outer counterpart (the outer one is
  \<open>webauthn_client_data_json_base64\<close>): it is filled, validated and decoded, and its value dropped.\<close>

record passkeyOpenSubmitRequest = passkeyOpenChallengeRequest +
  po_SignatureBase64 :: string
  po_WebauthnCDJBase64 :: string
  po_WebauthnAuthDataBase64 :: string
  po_WebauthnClientDataJSONBase64 :: string
  po_ExpectedPasskeySessionNonce :: u64

definition passkey_open_valid :: "Service \<Rightarrow> 'a passkeyOpenChallengeRequest_scheme \<Rightarrow> bool" where
  "passkey_open_valid S r \<longleftrightarrow> passkey_valid S r \<and> slot_valid (pi_PrimarySlot r) \<and> hex_len_32 (pi_EphPkHex r)
     \<and> hex_len_32 (pi_CredentialIDHashHex r)"

definition passkey_open_of :: "passkeyDerived \<Rightarrow> slot \<Rightarrow> 32 arr \<Rightarrow> hash \<Rightarrow> 'a passkeyOpenChallengeRequest_scheme \<Rightarrow> passkey_open_input" where
  "passkey_open_of d primarySlot ephPk credIDHash r =
     \<lparr>po_DWallet = pd_dwallet d, po_PrimarySlot = primarySlot, po_EphPk = ephPk,
      po_NotAfterUnixTs = pi_NotAfterUnixTs r, po_CredentialIDHash = credIDHash,
      po_SessionNonce = pi_PasskeySessionNonce r\<rparr>"

definition passkeyOpenChallenge :: "Service \<Rightarrow> passkeyOpenChallengeRequest \<Rightarrow> http_error + recovery_challenge" where
  "passkeyOpenChallenge S r =
     bind_res (ok_or invalid_field (passkey_open_valid S r)) (\<lambda>_.
     bind_res (derivePasskey S r) (\<lambda>d.
     bind_res (or_fail invalid_field (decode_slot (pi_PrimarySlot r))) (\<lambda>primarySlot.
     bind_res (ok_or invalid_field (arr_bytes primarySlot ! 0 = 3)) (\<lambda>_.
     bind_res (or_fail invalid_field (mustHex32 (pi_EphPkHex r))) (\<lambda>ephPk.
     bind_res (or_fail invalid_field (mustHex32 (pi_CredentialIDHashHex r))) (\<lambda>credIDHash.
     bind_res (or_fail encode_failed (PasskeySessionOpenPreimage (sv_Solana S) (passkey_open_of d primarySlot ephPk credIDHash r))) (\<lambda>preimage.
     let hash = sv_sha S preimage in
     Inr \<lparr>rch_ProgramID = Base58 (sv_Solana S) (sv_ProgramID S),
          rch_EngineAddress = Base58 (sv_Solana S) (pd_engine d), rch_RulePDA = [],
          rch_SessionAddress = Base58 (sv_Solana S) (pd_sessionPDA d), rch_MessageApprovalAddress = [],
          rch_MessageApprovalBump = 0, rch_OpTag = OpTagPasskeySessionOpen,
          rch_HumanMessage = HumanMessagePasskeySessionOpen (sv_Solana S) (pd_dwallet d) (pi_NotAfterUnixTs r) ephPk,
          rch_PreimageHex = hex_lower preimage, rch_ChallengeHex = hex_lower (arr_bytes hash), rch_Scheme = 0\<rparr>)))))))"

definition passkeyOpenPlan :: "Service \<Rightarrow> passkeyOpenSubmitRequest \<Rightarrow> http_error + submit_plan" where
  "passkeyOpenPlan S r =
     bind_res (requireSubmitWiring S) (\<lambda>sponsor.
     bind_res (ok_or invalid_field (passkey_open_valid S r \<and> validateBase64 (po_SignatureBase64 r)
       \<and> omitempty validateBase64 (po_WebauthnCDJBase64 r)
       \<and> validateBase64 (po_WebauthnAuthDataBase64 r) \<and> validateBase64 (po_WebauthnClientDataJSONBase64 r))) (\<lambda>_.
     bind_res (or_fail invalid_field (decode_signed
       \<lparr>SignatureBase64 = po_SignatureBase64 r, WebauthnAuthDataBase64 = [],
        WebauthnCDJBase64 = po_WebauthnCDJBase64 r\<rparr>)) (\<lambda>(sig, _, _).
     (case b64_decode (po_WebauthnAuthDataBase64 r) of
        None \<Rightarrow> Inl invalid_field
      | Some authData \<Rightarrow>
     (case b64_decode (po_WebauthnClientDataJSONBase64 r) of
        None \<Rightarrow> Inl invalid_field
      | Some cdj \<Rightarrow>
     bind_res (derivePasskey S r) (\<lambda>d.
     bind_res (or_fail invalid_field (decode_slot (pi_PrimarySlot r))) (\<lambda>primarySlot.
     bind_res (ok_or invalid_field (arr_bytes primarySlot ! 0 = 3)) (\<lambda>_.
     bind_res (or_fail invalid_field (mustHex32 (pi_EphPkHex r))) (\<lambda>ephPk.
     bind_res (or_fail invalid_field (mustHex32 (pi_CredentialIDHashHex r))) (\<lambda>credIDHash.
     bind_res (or_fail encode_failed (PasskeySessionOpenPreimage (sv_Solana S) (passkey_open_of d primarySlot ephPk credIDHash r))) (\<lambda>preimage.
     plan_with S primarySlot (sv_sha S preimage) (sig, authData, cdj)
       (PasskeySessionOpen (sv_Solana S)
         \<lparr>ProgramID = sv_ProgramID S, Engine = pd_engine d, DWallet = pd_dwallet d,
          InitAuthorityHash = pd_initHash d, Payer = sponsor, PKRuleIndex = pi_RuleIndex r,
          PasskeySessionNonce = pi_PasskeySessionNonce r, EphPk = ephPk,
          NotAfterUnixTs = pi_NotAfterUnixTs r, CredentialIdHash = credIDHash,
          ExpectedPasskeySessionNonce = po_ExpectedPasskeySessionNonce r,
          WebAuthnAuthData = authData, WebAuthnClientDataJSON = cdj\<rparr>)
       ''passkey.session.open'' (pd_engine d) (pd_dwallet d)
       (json_obj [(''passkey_session_nonce'', num (pi_PasskeySessionNonce r))]))))))))))))"

definition passkeyOpenSubmit :: "Service \<Rightarrow> passkeyOpenSubmitRequest \<Rightarrow> tx_response outcome" where
  "passkeyOpenSubmit S r = run_submit S (passkeyOpenPlan S r)"

record passkeyUseChallengeRequest = passkeyCommonInputs +
  pu_PrimarySlotJSON :: memberSlotJSON
  pu_EphPkHex :: string
  pu_MessageDigestHex :: string
  pu_MetadataDigestHex :: string
  pu_UserPubkeyHex :: string
  pu_SchemeReq :: u16
  pu_UseNonceReq :: u64
  pu_IkaCurve :: u16
  pu_IkaDWalletPubkey :: string

record passkeyUseSubmitRequest = passkeyUseChallengeRequest +
  pu_signed :: signedSubmitFields
  pu_ExpectedUseNonce :: u64

definition passkey_use_valid :: "Service \<Rightarrow> 'a passkeyUseChallengeRequest_scheme \<Rightarrow> bool" where
  "passkey_use_valid S r \<longleftrightarrow> passkey_valid S r \<and> slot_valid (pu_PrimarySlotJSON r) \<and> hex_len_32 (pu_EphPkHex r)
     \<and> hex_len_32 (pu_MessageDigestHex r) \<and> hex_len_32 (pu_MetadataDigestHex r) \<and> hex_len_32 (pu_UserPubkeyHex r)
     \<and> pu_SchemeReq r \<le> 6 \<and> pu_IkaCurve r \<le> 2 \<and> pu_IkaDWalletPubkey r \<noteq> []"

text \<open>The decoding both handlers of a use begin with: session, approval and the challenge input.\<close>

definition passkey_use_derive ::
    "Service \<Rightarrow> 'a passkeyUseChallengeRequest_scheme \<Rightarrow> http_error + passkeyDerived \<times> passkey_use_input" where
  "passkey_use_derive S r =
     bind_res (derivePasskey S r) (\<lambda>d.
     bind_res (or_fail invalid_field (decode_slot (pu_PrimarySlotJSON r))) (\<lambda>primarySlot.
     bind_res (or_fail invalid_field (mustHex32 (pu_MessageDigestHex r))) (\<lambda>msgDigest.
     bind_res (or_fail invalid_field (mustHex32 (pu_MetadataDigestHex r))) (\<lambda>metaDigest.
     bind_res (or_fail invalid_field (mustHex32 (pu_UserPubkeyHex r))) (\<lambda>userPubkey.
     bind_res (ika_pubkey (pu_IkaDWalletPubkey r)) (\<lambda>ikaPK.
     bind_res (or_fail pda_failed (MessageApprovalPDA (sv_Solana S) (pu_IkaCurve r) ikaPK
       (pu_SchemeReq r) (arr_bytes msgDigest) [])) (\<lambda>(msgApproval, msgApprovalBump).
     Inr (d, \<lparr>pu_Session = pd_sessionPDA d, pu_DWallet = pd_dwallet d, pu_MessageApproval = msgApproval,
          pu_MessageDigest = msgDigest, pu_MetadataDigest = metaDigest, pu_UserPubkey = userPubkey,
          pu_SignatureScheme = pu_SchemeReq r, pu_MessageApprovalBump = msgApprovalBump,
          pu_UseNonce = pu_UseNonceReq r, pu_PrimarySlot = primarySlot\<rparr>))))))))"

definition passkeyUseChallenge :: "Service \<Rightarrow> passkeyUseChallengeRequest \<Rightarrow> http_error + recovery_challenge" where
  "passkeyUseChallenge S r =
     bind_res (ok_or invalid_field (passkey_use_valid S r)) (\<lambda>_.
     bind_res (passkey_use_derive S r) (\<lambda>(d, u).
     bind_res (or_fail encode_failed (PasskeyPrimaryUsePreimage (sv_Solana S) u)) (\<lambda>preimage.
     let hash = sv_sha S preimage in
     Inr \<lparr>rch_ProgramID = Base58 (sv_Solana S) (sv_ProgramID S),
          rch_EngineAddress = Base58 (sv_Solana S) (pd_engine d), rch_RulePDA = [],
          rch_SessionAddress = Base58 (sv_Solana S) (pd_sessionPDA d),
          rch_MessageApprovalAddress = Base58 (sv_Solana S) (pu_MessageApproval u),
          rch_MessageApprovalBump = pu_MessageApprovalBump u, rch_OpTag = OpTagPasskeyPrimaryUse,
          rch_HumanMessage = HumanMessagePasskeyPrimaryUse (sv_Solana S) (pd_sessionPDA d) (pd_dwallet d)
            (pu_MessageDigest u) (pu_MetadataDigest u) (pu_UserPubkey u) (pu_SchemeReq r),
          rch_PreimageHex = hex_lower preimage, rch_ChallengeHex = hex_lower (arr_bytes hash), rch_Scheme = 0\<rparr>)))"

text \<open>The ephemeral key, as an ed25519 slot, signs; the primary slot is only part of the message.\<close>

definition passkeyUsePlan :: "Service \<Rightarrow> passkeyUseSubmitRequest \<Rightarrow> http_error + submit_plan" where
  "passkeyUsePlan S r =
     bind_res (requireSubmitWiring S) (\<lambda>sponsor.
     bind_res (ok_or invalid_field (passkey_use_valid S r \<and> signed_valid (pu_signed r))) (\<lambda>_.
     bind_res (or_fail invalid_field (decode_signed (pu_signed r))) (\<lambda>creds.
     bind_res (passkey_use_derive S r) (\<lambda>(d, u).
     bind_res (or_fail pda_failed (CPIAuthorityPDA (sv_Solana S) (sv_ProgramID S))) (\<lambda>(cpiAuth, cpiBump).
     bind_res (or_fail encode_failed (PasskeyPrimaryUsePreimage (sv_Solana S) u)) (\<lambda>preimage.
     bind_res (or_fail invalid_field (mustHex32 (pu_EphPkHex r))) (\<lambda>ephPk.
     let ephSlot = mk_arr (0 # arr_bytes ephPk) in
     plan_with S ephSlot (sv_sha S preimage) creds
       (RecoverAsPrimaryPasskeySession (sv_Solana S)
         \<lparr>ProgramID = sv_ProgramID S, Engine = pd_engine d, DWallet = pd_dwallet d,
          InitAuthorityHash = pd_initHash d, Payer = sponsor, Coordinator = IkaCoordinator (sv_Solana S),
          MessageApproval = pu_MessageApproval u, CPIAuthority = cpiAuth, CallerProgram = sv_NewWallet S,
          DWalletProgram = IkaDwalletProgramID (sv_Solana S), CPIAuthorityBump = cpiBump,
          MessageDigest = pu_MessageDigest u, MetadataDigest = pu_MetadataDigest u,
          UserPubkey = pu_UserPubkey u, SignatureScheme = pu_SchemeReq r,
          MessageApprovalBump = pu_MessageApprovalBump u, RKRuleIndex = pi_RuleIndex r,
          RKSessionNonce = pi_PasskeySessionNonce r, ExpectedUseNonce = pu_ExpectedUseNonce r\<rparr>)
       ''passkey.use'' (pd_engine d) (pd_dwallet d)
       (json_obj [(''passkey_session_nonce'', num (pi_PasskeySessionNonce r)),
          (''use_nonce'', num (pu_UseNonceReq r))]))))))))"

definition passkeyUseSubmit :: "Service \<Rightarrow> passkeyUseSubmitRequest \<Rightarrow> tx_response outcome" where
  "passkeyUseSubmit S r = run_submit S (passkeyUsePlan S r)"

end
