(* ===== verification/PolicyReads.thy ===== *)
theory PolicyReads
  imports PolicyResolve PolicySessions
begin

text \<open>
  What the handlers get right when they read accounts: the trailing accounts a request for a
  signature carries match the engine's rule table, and a session account is read back field by field.
\<close>

section \<open>A service to try the theorems on\<close>

definition demo_env :: solana_env where
  "demo_env = sample_env\<lparr>FindProgramAddress := \<lambda>seeds prog. Inr (mk_arr (last seeds), 254)\<rparr>"

definition demo_service :: Service where
  "demo_service =
     \<lparr>sv_Solana = demo_env, sv_sha = mk_arr, sv_ProgramID = zero_arr,
      sv_PublicKeyFromBase58 = (\<lambda>s. Inr (mk_arr (ascii s))), sv_GasSponsor = Some zero_arr, sv_RPCClient = True,
      sv_SignAndSend = (\<lambda>_. Inr ''tx''), sv_ConfirmSlot = (\<lambda>_. Inr 7),
      sv_GetAccount = (\<lambda>_. Inr (Some (enc_engine sample_engine))),
      sv_Spare = (\<lambda>_. []), sv_UnsignedTx = (\<lambda>_ _. Inr ''raw''), sv_AuditAppender = True,
      sv_ResolveAPIKey = Some (Inr ''tenant''), sv_OracleRefresher = None, sv_Presign = None,
      sv_Rand32 = Some zero_arr, sv_NewWallet = zero_arr\<rparr>"

lemma demo_env_simps [simp]:
  "find_pda demo_env seeds prog = Inr (mk_arr (last seeds), 254)" "Base58 demo_env = key_text"
  "sv_Solana demo_service = demo_env" "sv_sha demo_service = mk_arr" "sv_ProgramID demo_service = zero_arr"
  "sv_PublicKeyFromBase58 demo_service s = Inr (mk_arr (ascii s))" "sv_GasSponsor demo_service = Some zero_arr"
  "sv_RPCClient demo_service" "sv_SignAndSend demo_service ixs = Inr ''tx''"
  "sv_GetAccount demo_service k = Inr (Some (enc_engine sample_engine))" "sv_Rand32 demo_service = Some zero_arr"
  "sv_OracleRefresher demo_service = None"
  by (simp_all add: demo_env_def demo_service_def sample_env_def find_pda_def)

lemma demo_engine: "DecodePolicyEngine (enc_engine sample_engine) = Inr sample_engine"
  using DecodePolicyEngine_enc [of sample_engine "[]"] by (simp add: sample_engine_def)

lemma demo_resolve_loop:
  "resolve_loop S assetIndex path i (replicate n sample_rule) = Inr (replicate n (Solana.key_of 8), replicate n [])"
  by (induction n arbitrary: i) (simp_all add: sample_rule_def rule_aux_def)

lemma demo_resolve:
  "resolveTrailingAccounts demo_service e a p = Inr (replicate 16 (Solana.key_of 8), replicate 16 [])"
  using demo_resolve_loop [where n = 16]
  by (simp add: resolveTrailingAccounts_def demo_engine) (simp add: sample_engine_def)

section \<open>Trailing accounts\<close>

text \<open>
  The reference is the engine program. A rule account is what \<open>contracts/policy-engine/src/lib.rs\<close>
  stores (\<open>OracleRule\<close> 685-705, \<open>SpendingUsdRule\<close> 768-814): the discriminator and header (97 bytes),
  the paths the rule applies to, the feed count, the freshness and confidence bytes, four of padding, for
  a spending rule the caps and the running sums (56 bytes), and the feeds.
\<close>

record oracle_feed =
  of_Account :: key
  of_Owner :: key
  of_Min :: int
  of_Max :: int

record spending_feed =
  sf_Cache :: key
  sf_Decimals :: u8

datatype rule_config =
    OracleConfig u8 u8 bytes "oracle_feed list" bytes
  | SpendingConfig u8 u8 bytes bytes "spending_feed list" bytes
  | OtherConfig bytes

record rule_account =
  ra_Header :: bytes
  ra_AppliesTo :: u8
  ra_Config :: rule_config

definition oracle_feed_bytes :: "oracle_feed \<Rightarrow> bytes" where
  "oracle_feed_bytes f = arr_bytes (of_Account f) @ arr_bytes (of_Owner f) @ I64LE (of_Min f) @ I64LE (of_Max f)"

definition spending_feed_bytes :: "spending_feed \<Rightarrow> bytes" where
  "spending_feed_bytes f = arr_bytes (sf_Cache f) @ [sf_Decimals f]"

fun config_bytes :: "rule_config \<Rightarrow> bytes" where
  "config_bytes (OracleConfig freshness confidence pad feeds tail) =
     [of_nat (length feeds), freshness, confidence] @ pad @ concat (map oracle_feed_bytes feeds) @ tail"
| "config_bytes (SpendingConfig freshness confidence pad caps feeds tail) =
     [of_nat (length feeds), freshness, confidence] @ pad @ caps @ concat (map spending_feed_bytes feeds) @ tail"
| "config_bytes (OtherConfig b) = b"

definition rule_bytes :: "rule_account \<Rightarrow> bytes" where
  "rule_bytes a = ra_Header a @ [ra_AppliesTo a] @ config_bytes (ra_Config a)"

fun config_layout :: "rule_kind \<Rightarrow> rule_config \<Rightarrow> bool" where
  "config_layout k (OracleConfig _ _ pad feeds _) \<longleftrightarrow> k = KindOracle \<and> length pad = 4 \<and> length feeds \<le> 4"
| "config_layout k (SpendingConfig _ _ pad caps feeds _) \<longleftrightarrow>
     k = KindSpendingUsd \<and> length pad = 4 \<and> length caps = 56 \<and> length feeds \<le> 16"
| "config_layout k (OtherConfig _) \<longleftrightarrow> k \<noteq> KindOracle \<and> k \<noteq> KindSpendingUsd"

definition active :: "rule_entry \<Rightarrow> bool" where
  "active e \<longleftrightarrow> Kind e \<noteq> KindEmpty \<and> Enabled e"

text \<open>Every active slot's account is on chain, laid out as its kind says.\<close>

definition rules_on_chain :: "Service \<Rightarrow> (key \<Rightarrow> rule_account) \<Rightarrow> rule_entry list \<Rightarrow> bool" where
  "rules_on_chain S acc es \<longleftrightarrow> (\<forall>e \<in> set es. active e \<longrightarrow>
     sv_GetAccount S (RuleAddress e) = Inr (Some (rule_bytes (acc (RuleAddress e))))
     \<and> length (ra_Header (acc (RuleAddress e))) = 97 \<and> config_layout (Kind e) (ra_Config (acc (RuleAddress e))))"

text \<open>How the engine's \<open>dispatch_active_rules\<close> (\<open>lib.rs\<close> 1712-2330) takes the trailing accounts on the
  normal path: the account of every active slot, then, where the rule applies, the account of each oracle
  feed in order, of the one feed of the moved asset, or two payload accounts for a passkey. The result is
  what is left over; the caller wants nothing left.\<close>

fun take_accounts :: "key list \<Rightarrow> key list \<Rightarrow> key list option" where
  "take_accounts [] xs = Some xs"
| "take_accounts (k # ks) [] = None"
| "take_accounts (k # ks) (x # xs) = (if x = k then take_accounts ks xs else None)"

definition dispatch_aux :: "rule_account \<Rightarrow> rule_kind \<Rightarrow> u8 \<Rightarrow> key list \<Rightarrow> key list option" where
  "dispatch_aux a kind asset xs =
     (if (ra_AppliesTo a AND AppliesNormal) = 0 then Some xs
      else case ra_Config a of
        OracleConfig _ _ _ feeds _ \<Rightarrow> take_accounts (map of_Account feeds) xs
      | SpendingConfig _ _ _ _ feeds _ \<Rightarrow>
          if unat asset < length feeds then take_accounts [sf_Cache (feeds ! unat asset)] xs else None
      | OtherConfig _ \<Rightarrow>
          if kind = KindPasskey then (case xs of _ # _ # xs' \<Rightarrow> Some xs' | _ \<Rightarrow> None) else Some xs)"

fun dispatch_accounts :: "(key \<Rightarrow> rule_account) \<Rightarrow> u8 \<Rightarrow> rule_entry list \<Rightarrow> key list \<Rightarrow> key list option" where
  "dispatch_accounts acc asset [] xs = Some xs"
| "dispatch_accounts acc asset (e # es) xs =
     (if Kind e = KindEmpty \<or> \<not> Enabled e then dispatch_accounts acc asset es xs
      else case take_accounts [RuleAddress e] xs of
        None \<Rightarrow> None
      | Some xs' \<Rightarrow>
          (case dispatch_aux (acc (RuleAddress e)) (Kind e) asset xs' of
             None \<Rightarrow> None
           | Some xs'' \<Rightarrow> dispatch_accounts acc asset es xs''))"

text \<open>What the gateway cannot resolve: a passkey rule that applies, an asset beyond a spending rule's feeds.\<close>

definition unresolvable :: "rule_account \<Rightarrow> rule_kind \<Rightarrow> u8 \<Rightarrow> bool" where
  "unresolvable a kind asset \<longleftrightarrow>
     kind = KindPasskey \<and> (ra_AppliesTo a AND AppliesNormal) \<noteq> 0
     \<or> (case ra_Config a of SpendingConfig _ _ _ _ feeds _ \<Rightarrow> length feeds \<le> unat asset | _ \<Rightarrow> False)"

subsection \<open>Reading the feeds back\<close>

lemma slice_block:
  assumes "\<And>x. x \<in> set xs \<Longrightarrow> length (f x) = n" "i < length xs" "m \<le> n"
  shows "go_slice (concat (map f xs) @ t) (i * n) (i * n + m) = take m (f (xs ! i))"
  using assms
proof (induction xs arbitrary: i)
  case (Cons x xs)
  show ?case
  proof (cases i)
    case 0
    then show ?thesis using Cons.prems by (simp add: go_slice_def)
  next
    case (Suc j)
    with Cons show ?thesis by (simp add: slice_skip [of "f x" n] algebra_simps)
  qed
qed simp

lemma feed_at:
  assumes "length pre = n" "\<And>x. x \<in> set xs \<Longrightarrow> length (f x) = w" "i < length xs" "m \<le> w"
  shows "go_slice (pre @ concat (map f xs) @ t) (n + i * w) (n + i * w + m) = take m (f (xs ! i))"
  using slice_block [OF assms(2-4), where t = t] slice_skip [OF assms(1), of "n + i * w"] by simp

lemma length_feed_bytes [simp]:
  "length (oracle_feed_bytes f) = 80" "length (spending_feed_bytes g) = 33"
  by (simp_all add: oracle_feed_bytes_def spending_feed_bytes_def)

lemma length_feeds: "(\<And>x. x \<in> set xs \<Longrightarrow> length (f x) = w) \<Longrightarrow> length (concat (map f xs)) = length xs * w"
  by (induction xs) auto

lemma unat_count: "n \<le> 16 \<Longrightarrow> unat (of_nat n :: u8) = n"
  by (simp add: unat_of_nat)

lemma parse_oracle:
  assumes "length h = 97" "length pad = 4" "length feeds \<le> 4"
  shows "parseOracleFeeds (h @ [ap, of_nat (length feeds), fr, cf] @ pad @ concat (map oracle_feed_bytes feeds) @ t)
    = Inr (map of_Account feeds, ap)"
proof -
  let ?d = "h @ [ap, of_nat (length feeds), fr, cf] @ pad @ concat (map oracle_feed_bytes feeds) @ t"
  have d: "?d ! 97 = ap" "?d ! 98 = of_nat (length feeds)" using assms by (simp_all add: nth_append)
  have c: "unat (of_nat (length feeds) :: u8) = length feeds" using assms by (simp add: unat_count)
  have "map (\<lambda>i. mk_arr (go_slice ?d (105 + i * 80) (105 + i * 80 + 32))) [0..<length feeds]
    = map (\<lambda>i. of_Account (feeds ! i)) [0..<length feeds]"
    using feed_at [of "h @ [ap, of_nat (length feeds), fr, cf] @ pad" 105 feeds oracle_feed_bytes 80 _ 32 t] assms
    by (intro map_cong refl) (simp add: oracle_feed_bytes_def)
  also have "\<dots> = map of_Account feeds" by (simp add: map_nth [symmetric] map_equality_iff)
  finally show ?thesis
    using assms length_feeds [of feeds oracle_feed_bytes 80]
    by (simp add: parseOracleFeeds_def offset_defs d c Let_def del: append_Cons append_assoc) 
qed

lemma parse_spending:
  assumes "length h = 97" "length pad = 4" "length caps = 56" "length feeds \<le> 16"
  shows "parseSpendingFeed (h @ [ap, of_nat (length feeds), fr, cf] @ pad @ caps @ concat (map spending_feed_bytes feeds) @ t) ai
    = (if length feeds \<le> unat ai then Inl (AssetOutOfRange ai (length feeds)) else Inr (sf_Cache (feeds ! unat ai), ap))"
proof -
  let ?d = "h @ [ap, of_nat (length feeds), fr, cf] @ pad @ caps @ concat (map spending_feed_bytes feeds) @ t"
  have d: "?d ! 97 = ap" "?d ! 98 = of_nat (length feeds)" using assms by (simp_all add: nth_append)
  have c: "unat (of_nat (length feeds) :: u8) = length feeds" using assms by (simp add: unat_count)
  have s: "go_slice ?d (161 + unat ai * 33) (161 + unat ai * 33 + 32) = arr_bytes (sf_Cache (feeds ! unat ai))"
    if "unat ai < length feeds"
    using feed_at [of "h @ [ap, of_nat (length feeds), fr, cf] @ pad @ caps" 161 feeds spending_feed_bytes 33 "unat ai" 32 t] that assms
    by (simp add: spending_feed_bytes_def)
  have l: "length ?d = 161 + length feeds * 33 + length t"
    using assms length_feeds [of feeds spending_feed_bytes 33] by simp
  show ?thesis
    using assms s
    by (auto simp: parseSpendingFeed_def offset_defs d c l Let_def simp del: append_Cons append_assoc length_append)
qed

subsection \<open>The gateway resolves what the engine takes\<close>

lemma take_accounts_append: "take_accounts ks xs = Some r \<longleftrightarrow> xs = ks @ r"
  by (induction ks xs rule: take_accounts.induct) auto

lemma rule_bytes_simps:
  "ra_Config a = OracleConfig fr cf pad feeds t \<Longrightarrow> rule_bytes a =
     ra_Header a @ [ra_AppliesTo a, of_nat (length feeds), fr, cf] @ pad @ concat (map oracle_feed_bytes feeds) @ t"
  "ra_Config a = SpendingConfig fr cf pad caps sfeeds t \<Longrightarrow> rule_bytes a =
     ra_Header a @ [ra_AppliesTo a, of_nat (length sfeeds), fr, cf] @ pad @ caps @ concat (map spending_feed_bytes sfeeds) @ t"
  "ra_Config a = OtherConfig b \<Longrightarrow> rule_bytes a = ra_Header a @ [ra_AppliesTo a] @ b"
  by (simp_all add: rule_bytes_def)

text \<open>One active slot: its auxiliary accounts are those the engine takes, or it is not resolvable.\<close>

lemma rule_aux_dispatch:
  assumes "sv_GetAccount S (RuleAddress e) = Inr (Some (rule_bytes a))" "length (ra_Header a) = 97"
    and "config_layout (Kind e) (ra_Config a)"
  shows "case rule_aux S asset AppliesNormal i e of
      Inl _ \<Rightarrow> unresolvable a (Kind e) asset
    | Inr aux \<Rightarrow> \<not> unresolvable a (Kind e) asset
        \<and> (\<forall>xs r. dispatch_aux a (Kind e) asset xs = Some r \<longleftrightarrow> xs = aux @ r)"
proof (cases "ra_Config a")
  case (OracleConfig fr cf pad feeds t)
  then have "fetchOracleFeedAccounts S (RuleAddress e) = Inr (map of_Account feeds, ra_AppliesTo a)"
    using assms by (simp add: fetchOracleFeedAccounts_def ruleSubPDAData_def rule_bytes_simps(1) parse_oracle
      del: append_Cons append_assoc)
  then show ?thesis
    using OracleConfig assms by (auto simp: rule_aux_def unresolvable_def dispatch_aux_def take_accounts_append)
next
  case (SpendingConfig fr cf pad caps feeds t)
  then have "fetchSpendingFeedAccount S (RuleAddress e) asset =
    (if length feeds \<le> unat asset then Inl (AssetOutOfRange asset (length feeds))
     else Inr (sf_Cache (feeds ! unat asset), ra_AppliesTo a))"
    using assms by (simp add: fetchSpendingFeedAccount_def ruleSubPDAData_def rule_bytes_simps(2) parse_spending
      del: append_Cons append_assoc)
  then show ?thesis
    using SpendingConfig assms by (auto simp: rule_aux_def unresolvable_def dispatch_aux_def take_accounts_append)
next
  case (OtherConfig b)
  then have "fetchRuleAppliesTo S (RuleAddress e) = Inr (ra_AppliesTo a)"
    using assms by (simp add: fetchRuleAppliesTo_def ruleSubPDAData_def rule_bytes_simps(3) ruleAppliesToOffset_def nth_append)
  then show ?thesis
    using OtherConfig assms by (auto simp: rule_aux_def unresolvable_def dispatch_aux_def)
qed

lemma dispatch_Cons:
  "active e \<Longrightarrow> dispatch_accounts acc asset (e # es) xs = Some r \<longleftrightarrow>
   (\<exists>ys zs. xs = RuleAddress e # ys \<and> dispatch_aux (acc (RuleAddress e)) (Kind e) asset ys = Some zs
      \<and> dispatch_accounts acc asset es zs = Some r)"
  by (cases xs) (auto simp: active_def split: option.splits)

lemma resolve_loop_dispatch:
  assumes "rules_on_chain S acc es"
  shows "case resolve_loop S asset AppliesNormal i es of
      Inl _ \<Rightarrow> (\<exists>e \<in> set es. active e \<and> unresolvable (acc (RuleAddress e)) (Kind e) asset)
    | Inr (pdas, auxs) \<Rightarrow> (\<forall>e \<in> set es. active e \<longrightarrow> \<not> unresolvable (acc (RuleAddress e)) (Kind e) asset)
        \<and> (\<forall>xs r. dispatch_accounts acc asset es xs = Some r \<longleftrightarrow> xs = map PublicKey (rule_accounts pdas auxs) @ r)"
  using assms
proof (induction es arbitrary: i)
  case (Cons e es)
  have es: "rules_on_chain S acc es" using Cons.prems by (simp add: rules_on_chain_def)
  note IH = Cons.IH [OF es, of "Suc i"]
  show ?case
  proof (cases "active e")
    case False
    then show ?thesis using IH by (auto simp: active_def split: sum.splits)
  next
    case True
    then have "case rule_aux S asset AppliesNormal i e of
      Inl _ \<Rightarrow> unresolvable (acc (RuleAddress e)) (Kind e) asset
    | Inr aux \<Rightarrow> \<not> unresolvable (acc (RuleAddress e)) (Kind e) asset
        \<and> (\<forall>xs r. dispatch_aux (acc (RuleAddress e)) (Kind e) asset xs = Some r \<longleftrightarrow> xs = aux @ r)"
      using Cons.prems by (intro rule_aux_dispatch) (auto simp: rules_on_chain_def)
    with IH True show ?thesis
      by (simp only: dispatch_Cons [OF True]) (auto simp: active_def comp_def split: sum.splits prod.splits)
  qed
qed simp

text \<open>
  Property C22. Auto-resolving gives the engine exactly the trailing accounts its dispatch takes, no
  account missing, extra, or out of order: over rule accounts as the engine program lays them out, a
  list of accounts is consumed by \<open>dispatch_active_rules\<close> with nothing left over if and only if it is the
  resolved one (each active slot's account, then its oracle feeds or the feed of the moved asset where the rule
  applies to the normal path). It is refused exactly when a passkey rule applies or the asset index is beyond a
  spending rule's feeds, be that rule for another path or not.
\<close>

theorem resolved_accounts_are_what_the_engine_takes:
  assumes "sv_GetAccount S engine = Inr (Some d)" "DecodePolicyEngine d = Inr st" "rules_on_chain S acc (Rules st)"
  shows "case resolveTrailingAccounts S engine asset AppliesNormal of
      Inl _ \<Rightarrow> (\<exists>e \<in> set (Rules st). active e \<and> unresolvable (acc (RuleAddress e)) (Kind e) asset)
    | Inr (pdas, auxs) \<Rightarrow> (\<forall>e \<in> set (Rules st). active e \<longrightarrow> \<not> unresolvable (acc (RuleAddress e)) (Kind e) asset)
        \<and> (\<forall>xs. dispatch_accounts acc asset (Rules st) xs = Some [] \<longleftrightarrow> xs = map PublicKey (rule_accounts pdas auxs))"
  using resolve_loop_dispatch [OF assms(3), of asset 0] assms(1,2)
  by (auto simp: resolveTrailingAccounts_def split: sum.splits)

text \<open>An engine with an oracle rule of two feeds, a spending rule of two assets and a rule that is switched off.\<close>

definition feeds_engine :: engine_state where
  "feeds_engine = sample_engine\<lparr>Rules :=
     [sample_rule\<lparr>Kind := KindOracle, RuleAddress := Solana.key_of 20\<rparr>,
      sample_rule\<lparr>Enabled := False\<rparr>,
      sample_rule\<lparr>Kind := KindSpendingUsd, RuleAddress := Solana.key_of 21\<rparr>]
     @ replicate 13 (sample_rule\<lparr>Kind := KindEmpty\<rparr>)\<rparr>"

definition feeds_accounts :: "u8 \<Rightarrow> key \<Rightarrow> rule_account" where
  "feeds_accounts paths k =
     \<lparr>ra_Header = replicate 97 2, ra_AppliesTo = (if k = Solana.key_of 20 then 1 else paths),
      ra_Config =
        (if k = Solana.key_of 20 then
           OracleConfig 4 0 [0, 0, 0, 0]
             [\<lparr>of_Account = Solana.key_of 30, of_Owner = Solana.key_of 9, of_Min = 1, of_Max = 5\<rparr>,
              \<lparr>of_Account = Solana.key_of 31, of_Owner = Solana.key_of 9, of_Min = 1, of_Max = 5\<rparr>] []
         else
           SpendingConfig 4 0 [0, 0, 0, 0] (replicate 56 0)
             [\<lparr>sf_Cache = Solana.key_of 40, sf_Decimals = 6\<rparr>, \<lparr>sf_Cache = Solana.key_of 41, sf_Decimals = 9\<rparr>] [])\<rparr>"

definition feeds_service :: "u8 \<Rightarrow> Service" where
  "feeds_service paths = demo_service\<lparr>sv_GetAccount :=
     (\<lambda>k. Inr (Some (if k = zero_arr then enc_engine feeds_engine else rule_bytes (feeds_accounts paths k))))\<rparr>"

lemma key_of_first: "hd (arr_bytes (Solana.key_of b)) = b"
  by (simp add: Solana.key_of_def arr_bytes_mk_arr)

lemma zero_first: "hd (arr_bytes (zero_arr :: key)) = 0"
  by (simp add: zero_arr_def arr_bytes_mk_arr_gen)

lemma key_of_distinct [simp]:
  "Solana.key_of a = Solana.key_of b \<longleftrightarrow> a = b" "a \<noteq> 0 \<Longrightarrow> Solana.key_of a \<noteq> zero_arr"
  using key_of_first [of a] key_of_first [of b] zero_first by metis+

lemma dispatch_empty: "Kind e = KindEmpty \<Longrightarrow> dispatch_accounts acc asset (replicate n e) xs = Some xs"
  by (induction n) simp_all

lemma feeds_on_chain: "rules_on_chain (feeds_service paths) (feeds_accounts paths) (Rules feeds_engine)"
  by (auto simp: rules_on_chain_def feeds_engine_def feeds_service_def feeds_accounts_def active_def sample_rule_def)

lemma feeds_engine_read: "sv_GetAccount (feeds_service paths) zero_arr = Inr (Some (enc_engine feeds_engine))"
  "DecodePolicyEngine (enc_engine feeds_engine) = Inr feeds_engine"
  using DecodePolicyEngine_enc [of feeds_engine "[]"]
  by (simp_all add: feeds_service_def feeds_engine_def sample_engine_def)

lemma feeds_unresolvable:
  "(\<exists>e \<in> set (Rules feeds_engine). active e \<and> unresolvable (feeds_accounts paths (RuleAddress e)) (Kind e) asset)
   \<longleftrightarrow> 2 \<le> unat asset"
  by (auto simp: feeds_engine_def feeds_accounts_def active_def unresolvable_def sample_rule_def)

theorem resolved_accounts_are_what_the_engine_takes_witness:
  "\<exists>pdas auxs. resolveTrailingAccounts (feeds_service 1) zero_arr 1 AppliesNormal = Inr (pdas, auxs)
     \<and> map PublicKey (rule_accounts pdas auxs) = map Solana.key_of [20, 30, 31, 21, 41]"
proof -
  note th = resolved_accounts_are_what_the_engine_takes [OF feeds_engine_read(1) feeds_engine_read(2) feeds_on_chain, of 1 1]
  obtain pdas auxs where r: "resolveTrailingAccounts (feeds_service 1) zero_arr 1 AppliesNormal = Inr (pdas, auxs)"
    using th feeds_unresolvable [of 1 1] by (auto split: sum.splits)
  moreover have "dispatch_accounts (feeds_accounts 1) 1 (Rules feeds_engine) (map Solana.key_of [20, 30, 31, 21, 41]) = Some []"
    by (simp add: feeds_engine_def feeds_accounts_def dispatch_aux_def sample_rule_def dispatch_empty)
  ultimately show ?thesis using th by auto
qed

text \<open>The gateway is stricter than the engine: a spending rule that does not apply to the normal path
  still has its asset index checked, so a request the engine would take is refused.\<close>

theorem idle_spending_rule_blocks_resolution:
  "\<exists>e. resolveTrailingAccounts (feeds_service 4) zero_arr 7 AppliesNormal = Inl e
     \<and> dispatch_accounts (feeds_accounts 4) 7 (Rules feeds_engine) (map Solana.key_of [20, 30, 31, 21]) = Some []"
proof -
  have "7 = (7 :: u8) \<and> 2 \<le> unat (7 :: u8)" by simp
  then have "\<exists>e. resolveTrailingAccounts (feeds_service 4) zero_arr 7 AppliesNormal = Inl e"
    using resolve_loop_dispatch [OF feeds_on_chain [of 4], of 7 0] feeds_unresolvable [of 4 7] feeds_engine_read(1) [of 4] feeds_engine_read(2)
    by (auto simp: resolveTrailingAccounts_def split: sum.splits)
  then show ?thesis by (simp add: feeds_engine_def feeds_accounts_def dispatch_aux_def sample_rule_def dispatch_empty)
qed

section \<open>Session accounts\<close>

record session_layout =
  sy_Engine :: key
  sy_Signer :: key
  sy_Index :: u32
  sy_Reserved :: "bytes"
  sy_Created :: int
  sy_Expires :: int
  sy_Used :: u32
  sy_MaxUses :: u32
  sy_NextNonce :: u64
  sy_MaxAmount :: u64
  sy_AdminNonce :: u64
  sy_Count :: u8
  sy_Padding :: "bytes"
  sy_Dests :: "key list"

definition session_bytes :: "session_layout \<Rightarrow> bytes" where
  "session_bytes s = [3] @ arr_bytes (sy_Engine s) @ arr_bytes (sy_Signer s) @ U32LE (sy_Index s) @ sy_Reserved s
     @ I64LE (sy_Created s) @ I64LE (sy_Expires s) @ U32LE (sy_Used s) @ U32LE (sy_MaxUses s)
     @ U64LE (sy_NextNonce s) @ U64LE (sy_MaxAmount s) @ U64LE (sy_AdminNonce s) @ [sy_Count s] @ sy_Padding s
     @ concat (map arr_bytes (sy_Dests s))"

definition layout_ok :: "session_layout \<Rightarrow> bool" where
  "layout_ok s \<longleftrightarrow> length (sy_Reserved s) = 4 \<and> length (sy_Padding s) = 7 \<and> length (sy_Dests s) = 8
     \<and> in64 (sy_Created s) \<and> in64 (sy_Expires s)"

lemma LEI64_I64LE: "in64 v \<Longrightarrow> LEI64 (I64LE v) = v"
  by (simp add: LEI64_def I64LE_def u64.dec_enc in64_def sint_sbintrunc' signed_take_bit_int_eq_self)

lemma session_fields:
  assumes "length (sy_Reserved s) = 4" "length (sy_Padding s) = 7"
  shows "go_slice (session_bytes s @ t) 1 33 = arr_bytes (sy_Engine s)"
    "go_slice (session_bytes s @ t) 33 65 = arr_bytes (sy_Signer s)"
    "go_slice (session_bytes s @ t) 65 69 = U32LE (sy_Index s)"
    "go_slice (session_bytes s @ t) 73 81 = I64LE (sy_Created s)"
    "go_slice (session_bytes s @ t) 81 89 = I64LE (sy_Expires s)"
    "go_slice (session_bytes s @ t) 89 93 = U32LE (sy_Used s)"
    "go_slice (session_bytes s @ t) 93 97 = U32LE (sy_MaxUses s)"
    "go_slice (session_bytes s @ t) 97 105 = U64LE (sy_NextNonce s)"
    "go_slice (session_bytes s @ t) 105 113 = U64LE (sy_MaxAmount s)"
    "go_slice (session_bytes s @ t) 113 121 = U64LE (sy_AdminNonce s)"
    "(session_bytes s @ t) ! 0 = 3" "(session_bytes s @ t) ! 121 = sy_Count s"
  using assms by (simp_all add: session_bytes_def go_slice_def nth_append)

lemma concat_keys_slice:
  "i < length ks \<Longrightarrow> go_slice (concat (map arr_bytes (ks :: key list)) @ t) (i * 32) (i * 32 + 32) = arr_bytes (ks ! i)"
proof (induction ks arbitrary: i)
  case (Cons k ks)
  show ?case
  proof (cases i)
    case (Suc j)
    with Cons show ?thesis by (simp add: slice_skip [of "arr_bytes k" 32] algebra_simps)
  qed (simp add: slice_here)
qed simp

lemma session_dest:
  assumes "layout_ok s" "i < 8"
  shows "go_slice (session_bytes s @ t) (129 + i * 32) (129 + i * 32 + 32) = arr_bytes (sy_Dests s ! i)"
proof -
  define h where "h = [3] @ arr_bytes (sy_Engine s) @ arr_bytes (sy_Signer s) @ U32LE (sy_Index s) @ sy_Reserved s
     @ I64LE (sy_Created s) @ I64LE (sy_Expires s) @ U32LE (sy_Used s) @ U32LE (sy_MaxUses s)
     @ U64LE (sy_NextNonce s) @ U64LE (sy_MaxAmount s) @ U64LE (sy_AdminNonce s) @ [sy_Count s] @ sy_Padding s"
  have "length h = 129" using assms(1) by (simp add: h_def layout_ok_def)
  moreover have "session_bytes s @ t = h @ concat (map arr_bytes (sy_Dests s)) @ t"
    by (simp add: session_bytes_def h_def)
  ultimately show ?thesis
    using slice_skip [of h 129 "129 + i * 32"] concat_keys_slice [of i "sy_Dests s" t] assms
    by (simp add: layout_ok_def add.commute)
qed

text \<open>
  Reading a session account gives back what the layout wrote, whatever bytes follow;
  the count byte is cut to the eight destinations there is room for, so no count makes the
  reader leave the account.
\<close>

theorem parseSessionAccount_roundtrip:
  assumes "layout_ok s"
  shows "parseSessionAccount E (session_bytes s @ t) (sy_Engine s) pda = Inr
    \<lparr>sr_EngineAddress = Base58 E (sy_Engine s), sr_SessionAddress = Base58 E pda,
     sr_SessionSignerPubkey = Base58 E (sy_Signer s), sr_SessionIndex = sy_Index s,
     sr_CreatedAtTs = sy_Created s, sr_ExpiresAtTs = sy_Expires s, sr_UsedCount = sy_Used s,
     sr_MaxUses = sy_MaxUses s, sr_NextSignatureNonce = sy_NextNonce s, sr_MaxAmountPerTx = sy_MaxAmount s,
     sr_NextAdminNonce = sy_AdminNonce s,
     sr_Destinations = map (\<lambda>k. hex_lower (arr_bytes k)) (take (unat (sy_Count s)) (sy_Dests s))\<rparr>"
proof -
  have l: "length (sy_Reserved s) = 4" "length (sy_Padding s) = 7" "length (sy_Dests s) = 8"
    "in64 (sy_Created s)" "in64 (sy_Expires s)" using assms by (simp_all add: layout_ok_def)
  have "length (concat (map arr_bytes (ks :: key list))) = length ks * 32" for ks by (induction ks) simp_all
  then have len: "length (session_bytes s @ t) \<ge> SessionAccountBytes"
    using l by (simp add: session_bytes_def SessionAccountBytes_def)
  have dests: "map (\<lambda>i. hex_lower (go_slice (session_bytes s @ t) (129 + i * 32) (129 + i * 32 + 32))) [0..<n]
    = map (\<lambda>k. hex_lower (arr_bytes k)) (take n (sy_Dests s))" if "n \<le> 8" for n
  proof -
    have "map (\<lambda>i. hex_lower (go_slice (session_bytes s @ t) (129 + i * 32) (129 + i * 32 + 32))) [0..<n]
      = map (\<lambda>i. hex_lower (arr_bytes (sy_Dests s ! i))) [0..<n]"
      by (rule map_cong [OF refl], subst session_dest [OF assms]) (use that in simp_all)
    also have "\<dots> = map (\<lambda>k. hex_lower (arr_bytes k)) (take n (sy_Dests s))"
      by (rule nth_equalityI) (use that l in simp_all)
    finally show ?thesis .
  qed
  note read = parseSessionAccount_def session_fields [OF l(1,2)] u32.dec_enc u64.dec_enc LEI64_I64LE Let_def
  show ?thesis
  proof (cases "unat (sy_Count s) > 8")
    case True
    with l have "take (unat (sy_Count s)) (sy_Dests s) = take 8 (sy_Dests s)" by simp
    with True show ?thesis using len l dests [of 8] by (simp add: read del: One_nat_def)
  next
    case False
    then show ?thesis using len l dests [of "unat (sy_Count s)"] by (simp add: read del: One_nat_def)
  qed
qed


theorem parseSessionAccount_roundtrip_witness:
  "\<exists>r. parseSessionAccount sample_env (session_bytes
      \<lparr>sy_Engine = zero_arr, sy_Signer = zero_arr, sy_Index = 4, sy_Reserved = [0, 0, 0, 0], sy_Created = -1,
       sy_Expires = 2 ^ 40, sy_Used = 1, sy_MaxUses = 9, sy_NextNonce = 5, sy_MaxAmount = 100, sy_AdminNonce = 0,
       sy_Count = 200, sy_Padding = [0, 0, 0, 0, 0, 0, 0], sy_Dests = replicate 8 zero_arr\<rparr> @ [1]) zero_arr zero_arr = Inr r
    \<and> length (sr_Destinations r) = 8 \<and> sr_ExpiresAtTs r = 2 ^ 40"
  using parseSessionAccount_roundtrip [of
      "\<lparr>sy_Engine = zero_arr, sy_Signer = zero_arr, sy_Index = 4, sy_Reserved = [0, 0, 0, 0], sy_Created = -1,
       sy_Expires = 2 ^ 40, sy_Used = 1, sy_MaxUses = 9, sy_NextNonce = 5, sy_MaxAmount = 100, sy_AdminNonce = 0,
       sy_Count = 200, sy_Padding = [0, 0, 0, 0, 0, 0, 0], sy_Dests = replicate 8 zero_arr\<rparr>" sample_env "[1]" zero_arr]
  by (simp add: layout_ok_def in64_def)

end
