(* ===== verification/PolicySubmits.thy ===== *)
theory PolicySubmits
  imports PolicySigning PolicyRecovery PolicyReads
begin

text \<open>
  What the pairs of policy handlers guarantee together. \<open>signed_request\<close> is the sum of the signed
  \<open>/submit\<close> routes that \<open>MountRoutes\<close> registers, \<open>submit_plan_of\<close> what each has computed when it
  sends, \<open>challenge_for\<close> what the sibling \<open>/challenge\<close> route answers to the same fields and
  \<open>instruction_for\<close> the reference: the engine instruction as a function of the signed input alone.
\<close>

section \<open>The signed routes\<close>

datatype signed_request =
    PInit initSubmitRequest
  | PAddRule addRuleSubmitRequest
  | PItemsAdd string itemsAddSubmitRequest
  | PRemoveRule string removeRuleSubmitRequest
  | PSessionOpen sessionOpenSubmitRequest
  | PSessionRevoke sessionRevokeSubmitRequest
  | PSessionClose sessionCloseSubmitRequest
  | PSessionDest bool sessionDestSubmitRequest
  | PRecover recoverAsPrimarySubmitRequest
  | PQuorumOpen quorumOpenSubmitRequest
  | PQuorumContribute quorumContributeSubmitRequest
  | PPasskeyOpen passkeyOpenSubmitRequest
  | PPasskeyUse passkeyUseSubmitRequest
  | PRequestSignature requestSignatureSubmitRequest

text \<open>\<open>Swap\<close> and \<open>Bundle\<close> are not read from the request body (\<open>json:"-"\<close>): over HTTP they are nil.\<close>

definition http_body :: "requestSignatureSubmitRequest \<Rightarrow> requestSignatureSubmitRequest" where
  "http_body r = r\<lparr>rs_Swap := None, rs_Bundle := None\<rparr>"

fun submit_plan_of :: "Service \<Rightarrow> signed_request \<Rightarrow> http_error + submit_plan" where
  "submit_plan_of S (PInit r) = initPlan S r"
| "submit_plan_of S (PAddRule r) = addRulePlan S r"
| "submit_plan_of S (PItemsAdd i r) = itemsAddPlan S i r"
| "submit_plan_of S (PRemoveRule i r) = removeRulePlan S i r"
| "submit_plan_of S (PSessionOpen r) = sessionOpenPlan S r"
| "submit_plan_of S (PSessionRevoke r) = sessionRevokePlan S r"
| "submit_plan_of S (PSessionClose r) = sessionClosePlan S r"
| "submit_plan_of S (PSessionDest a r) = sessionDestPlan S r a"
| "submit_plan_of S (PRecover r) = bind_res (recoverAsPrimaryPlan S r) (\<lambda>(p, _). Inr p)"
| "submit_plan_of S (PQuorumOpen r) = quorumOpenPlan S r"
| "submit_plan_of S (PQuorumContribute r) = quorumContributePlan S r"
| "submit_plan_of S (PPasskeyOpen r) = passkeyOpenPlan S r"
| "submit_plan_of S (PPasskeyUse r) = passkeyUsePlan S r"
| "submit_plan_of S (PRequestSignature r) = requestSignaturePlan S (http_body r)"

fun policy_submit :: "Service \<Rightarrow> signed_request \<Rightarrow> tx_response outcome" where
  "policy_submit S (PInit r) = initSubmit S r"
| "policy_submit S (PAddRule r) = addRuleSubmit S r"
| "policy_submit S (PItemsAdd i r) = itemsAddSubmit S i r"
| "policy_submit S (PRemoveRule i r) = removeRuleSubmit S i r"
| "policy_submit S (PSessionOpen r) = sessionOpenSubmit S r"
| "policy_submit S (PSessionRevoke r) = sessionRevokeSubmit S r"
| "policy_submit S (PSessionClose r) = sessionCloseSubmit S r"
| "policy_submit S (PSessionDest a r) = sessionDestSubmit S r a"
| "policy_submit S (PRecover r) = recoverAsPrimarySubmit S r"
| "policy_submit S (PQuorumOpen r) = quorumOpenSubmit S r"
| "policy_submit S (PQuorumContribute r) = quorumContributeSubmit S r"
| "policy_submit S (PPasskeyOpen r) = passkeyOpenSubmit S r"
| "policy_submit S (PPasskeyUse r) = passkeyUseSubmit S r"
| "policy_submit S (PRequestSignature r) = requestSignatureSubmit S (http_body r)"

text \<open>The preimage and the challenge the challenge route answers with. An add-rule challenge is asked
  for the first generation, the one the submit route assumes; a signature is asked for on the normal
  path, the one whose owner authorization the submit route builds.\<close>

definition signature_challenge_request :: "requestSignatureSubmitRequest \<Rightarrow> requestSignatureChallengeRequest" where
  "signature_challenge_request r =
     \<lparr>rc_DwalletAddress = rs_DwalletAddress r, rc_InitAuthorityHash = rs_InitAuthorityHash r,
      rc_MessageDigestHex = rs_MessageDigestHex r, rc_DestinationHex = rs_DestinationHex r,
      rc_UserPubkeyHex = rs_UserPubkeyHex r, rc_SignatureScheme = rs_SignatureScheme r, rc_Path = AppliesNormal,
      rc_RulesGeneration = rs_RulesGeneration r, rc_Amount = rs_Amount r, rc_AssetIndex = rs_AssetIndex r,
      rc_OwnerSlot = rs_OwnerSlot r\<rparr>"

fun challenge_for :: "Service \<Rightarrow> signed_request \<Rightarrow> http_error + string \<times> string" where
  "challenge_for S (PInit r) =
     bind_res (initChallenge S (initChallengeRequest.truncate r)) (\<lambda>c. Inr (ir_PreimageHex c, ir_ChallengeHex c))"
| "challenge_for S (PAddRule r) =
     bind_res (addRuleChallenge S (add_rule_fields.extend (add_rule_fields.truncate r) (addRuleRequest.fields 1)))
       (\<lambda>c. Inr (cr_PreimageHex c, cr_ChallengeHex c))"
| "challenge_for S (PItemsAdd i r) =
     bind_res (itemsAddChallenge S i (itemsAddRequest.truncate r)) (\<lambda>c. Inr (cr_PreimageHex c, cr_ChallengeHex c))"
| "challenge_for S (PRemoveRule i r) =
     bind_res (removeRuleChallenge S i (removeRuleChallengeRequest.truncate r))
       (\<lambda>c. Inr (cr_PreimageHex c, cr_ChallengeHex c))"
| "challenge_for S (PSessionOpen r) =
     bind_res (sessionOpenChallenge S (sessionOpenChallengeRequest.truncate r))
       (\<lambda>c. Inr (sc_OwnerAuthPreimageHex c, sc_OwnerAuthChallengeHex c))"
| "challenge_for S (PSessionRevoke r) =
     bind_res (sessionRevokeChallenge S (sessionAdminInputs.truncate r))
       (\<lambda>c. Inr (sc_OwnerAuthPreimageHex c, sc_OwnerAuthChallengeHex c))"
| "challenge_for S (PSessionClose r) =
     bind_res (sessionCloseChallenge S (sessionCloseRequest.truncate r))
       (\<lambda>c. Inr (sc_OwnerAuthPreimageHex c, sc_OwnerAuthChallengeHex c))"
| "challenge_for S (PSessionDest a r) =
     bind_res (if a then sessionDestAddChallenge S (sessionDestRequest.truncate r)
       else sessionDestRemoveChallenge S (sessionDestRequest.truncate r))
       (\<lambda>c. Inr (sc_OwnerAuthPreimageHex c, sc_OwnerAuthChallengeHex c))"
| "challenge_for S (PRecover r) =
     bind_res (snd (recoverAsPrimaryChallenge S (recoverAsPrimaryChallengeRequest.truncate r)))
       (\<lambda>c. Inr (rch_PreimageHex c, rch_ChallengeHex c))"
| "challenge_for S (PQuorumOpen r) =
     bind_res (quorumOpenChallenge S (quorumOpenChallengeRequest.truncate r))
       (\<lambda>c. Inr (rch_PreimageHex c, rch_ChallengeHex c))"
| "challenge_for S (PQuorumContribute r) =
     bind_res (quorumContributeChallenge S (quorumContributeChallengeRequest.truncate r))
       (\<lambda>c. Inr (rch_PreimageHex c, rch_ChallengeHex c))"
| "challenge_for S (PPasskeyOpen r) =
     bind_res (passkeyOpenChallenge S (passkeyOpenChallengeRequest.truncate r))
       (\<lambda>c. Inr (rch_PreimageHex c, rch_ChallengeHex c))"
| "challenge_for S (PPasskeyUse r) =
     bind_res (passkeyUseChallenge S (passkeyUseChallengeRequest.truncate r))
       (\<lambda>c. Inr (rch_PreimageHex c, rch_ChallengeHex c))"
| "challenge_for S (PRequestSignature r) =
     bind_res (snd (requestSignatureChallenge S (signature_challenge_request r)))
       (\<lambda>c. case rq_OwnerAuth c of
          None \<Rightarrow> Inl invalid_field
        | Some o_c \<Rightarrow> Inr (OwnerAuthPreimageHex o_c, OwnerAuthChallengeHex o_c))"

text \<open>The credential that has to have signed.\<close>

fun signer_of :: "signed_request \<Rightarrow> string + slot" where
  "signer_of (PInit r) = decode_slot (in_InitAuthoritySlot r)"
| "signer_of (PAddRule r) = decode_slot (ar_OwnerSlot r)"
| "signer_of (PItemsAdd i r) = decode_slot (ia_OwnerSlot r)"
| "signer_of (PRemoveRule i r) = decode_slot (rr_OwnerSlot r)"
| "signer_of (PSessionOpen r) = decode_slot (the (so_OwnerSlot r))"
| "signer_of (PSessionRevoke r) = decode_slot (the (si_OwnerSlot r))"
| "signer_of (PSessionClose r) = decode_slot (the (si_OwnerSlot r))"
| "signer_of (PSessionDest a r) = decode_slot (the (si_OwnerSlot r))"
| "signer_of (PRecover r) = decode_slot (rv_PrimarySlot r)"
| "signer_of (PQuorumOpen r) = decode_slot (qi_PrimarySlot r)"
| "signer_of (PQuorumContribute r) = decode_slot (qi_MemberSlot r)"
| "signer_of (PPasskeyOpen r) = decode_slot (pi_PrimarySlot r)"
| "signer_of (PPasskeyUse r) = bind_res (mustHex32 (pu_EphPkHex r)) (\<lambda>k. Inr (mk_arr (0 # arr_bytes k)))"
| "signer_of (PRequestSignature r) = decode_slot (the (rs_OwnerSlot r))"

section \<open>What a plan consists of\<close>

text \<open>\<open>relays S p s h m\<close>: the plan is a precompile by \<open>s\<close> over \<open>h\<close> followed by \<open>m\<close>.\<close>

definition relays :: "Service \<Rightarrow> submit_plan \<Rightarrow> slot \<Rightarrow> hash \<Rightarrow> instruction \<Rightarrow> bool" where
  "relays S p s h m \<longleftrightarrow> (\<exists>sig authData cdj pre.
     BuildCredentialPrecompile (sv_Solana S) (sv_sha S) s h sig authData cdj = Inr pre
     \<and> pl_ixs p = [pre, m])"

lemma plan_with_relays:
  "plan_with S s h c mi a e d x = Inr p \<Longrightarrow> \<exists>m. mi = Inr m \<and> relays S p s h m"
  by (cases c) (fastforce simp: plan_with_def relays_def buildCredentialPrecompile_def)

lemma session_plan_relays:
  "session_plan S d h f mi a x = Inr p \<Longrightarrow> \<exists>m. mi = Inr m \<and> relays S p (sd_ownerSlot d) h m"
  by (fastforce simp: session_plan_def adminPrecompile_def relays_def buildCredentialPrecompile_def)

lemmas truncates = initChallengeRequest.truncate_def add_rule_fields.truncate_def
  add_rule_fields.extend_def addRuleRequest.fields_def itemsAddRequest.truncate_def
  removeRuleChallengeRequest.truncate_def sessionOpenChallengeRequest.truncate_def
  sessionAdminInputs.truncate_def sessionCloseRequest.truncate_def sessionDestRequest.truncate_def
  recoverAsPrimaryChallengeRequest.truncate_def quorumOpenChallengeRequest.truncate_def
  quorumContributeChallengeRequest.truncate_def passkeyOpenChallengeRequest.truncate_def
  passkeyUseChallengeRequest.truncate_def

lemma admin_reply_Inr:
  "admin_reply S e k c a = Inr r \<longleftrightarrow>
   (\<exists>x. AdminPreimage a = Inr x \<and> r = \<lparr>cr_ProgramID = Base58 (sv_Solana S) (sv_ProgramID S),
      cr_EngineAddress = Base58 (sv_Solana S) e, cr_RulePDA = Base58 (sv_Solana S) k,
      cr_OpTag = ac_OpTag a, cr_HumanMessage = ac_HumanMessage a, cr_ConfigHashHex = c,
      cr_PreimageHex = hex_lower x, cr_ChallengeHex = hex_lower (arr_bytes (sv_sha S x))\<rparr>)"
  by (auto simp: admin_reply_def AdminHash_def or_zero_def Let_def)

text \<open>\<open>serves S q x\<close>: the challenge route answers \<open>q\<close> with the preimage \<open>x\<close> and its hash.\<close>

definition serves :: "Service \<Rightarrow> signed_request \<Rightarrow> bytes \<Rightarrow> bool" where
  "serves S q x \<longleftrightarrow> challenge_for S q = Inr (hex_lower x, hex_lower (arr_bytes (sv_sha S x)))"

lemma add_rule_pda:
  "build_add_rule E p kind disc cfg = Inr m \<Longrightarrow> \<exists>k b. RulePDA E (ProgramID p) (Engine p) kind (RuleIndex p) = Inr (k, b)"
  by (auto simp: build_add_rule_def with_rule_def)

lemma update_rule_pda:
  "build_update_rule E p kind disc cfg = Inr m \<Longrightarrow> \<exists>k b. RulePDA E (ProgramID p) (Engine p) kind (RuleIndex p) = Inr (k, b)"
  by (auto simp: build_update_rule_def with_rule_def)

lemma with_rule_pda:
  "with_rule E prog e kind i f = Inr m \<Longrightarrow> \<exists>k b. RulePDA E prog e kind i = Inr (k, b)"
  by (auto simp: with_rule_def)

lemmas ix_rule_pda = add_rule_pda update_rule_pda with_rule_pda

section \<open>The instruction as a function of what was signed\<close>

text \<open>The engine instruction the input of an administration challenge stands for, given the
  init-authority hash and the payer: the operation is told by the tag, its arguments are read back
  from the rule fields and the extras.\<close>

definition instruction_for :: "solana_env \<Rightarrow> key \<Rightarrow> key \<Rightarrow> hash \<Rightarrow> admin_input \<Rightarrow> ix_result" where
  "instruction_for E prog payer ih a =
     (let t = ac_OpTag a; x = ac_Extras a; n = ac_ExpectedNonce a; i = ac_RuleIndex a; e = ac_Engine a;
          d = ac_DWallet a in
      if t = ''add-rule-allowlist'' then AddRuleAllowlist E
        \<lparr>ProgramID = prog, Engine = e, DWallet = d, InitAuthorityHash = ih, Payer = payer, ExpectedNonce = n,
         RuleIndex = i, AppliesTo = hd (x ! 0)\<rparr>
      else if t = ''add-rule-oracle'' then AddRuleOracle E
        \<lparr>ProgramID = prog, Engine = e, DWallet = d, InitAuthorityHash = ih, Payer = payer, ExpectedNonce = n,
         RuleIndex = i, AppliesTo = hd (x ! 0), OracleFreshnessDiv16 = hd (x ! 1), MinConfidenceBpsDiv4 = hd (x ! 2)\<rparr>
      else if t = ''add-rule-spending-usd'' then AddRuleSpendingUsd E
        \<lparr>ProgramID = prog, Engine = e, DWallet = d, InitAuthorityHash = ih, Payer = payer, ExpectedNonce = n,
         RuleIndex = i, AppliesTo = hd (x ! 0), SpendingFreshnessDiv16 = hd (x ! 1), MaxConfidenceBpsDiv4 = hd (x ! 2),
         MaxPerTxUsd = LE64 (take 8 (x ! 3)), MaxPerDayUsd = LE64 (take 8 (drop 8 (x ! 3))),
         MaxPerWeekUsd = LE64 (drop 16 (x ! 3))\<rparr>
      else if t = ''allowlist-add-destination'' then UpdateRuleAllowlistAddDestination E
        \<lparr>ProgramID = prog, Engine = e, DWallet = d, InitAuthorityHash = ih, Payer = payer, ExpectedNonce = n,
         RuleIndex = i, Destination = mk_arr (x ! 0)\<rparr>
      else if t = ''oracle-add-feed'' then UpdateRuleOracleAddFeed E
        \<lparr>ProgramID = prog, Engine = e, DWallet = d, InitAuthorityHash = ih, Payer = payer, ExpectedNonce = n,
         RuleIndex = i, FeedAccount = mk_arr (x ! 0), FeedOwner = mk_arr (x ! 1), MinQ64 = LEI64 (x ! 2),
         MaxQ64 = LEI64 (x ! 3)\<rparr>
      else if t = ''spending-usd-add-feed'' then UpdateRuleSpendingUsdAddFeed E
        \<lparr>ProgramID = prog, Engine = e, DWallet = d, InitAuthorityHash = ih, Payer = payer, ExpectedNonce = n,
         RuleIndex = i, FeedCacheAccount = mk_arr (x ! 0), Decimals = hd (x ! 1)\<rparr>
      else if t = ''remove-rule'' then
        with_rule E prog e (ac_RuleKind a) i (\<lambda>rulePDA. RemoveRule E
        \<lparr>ProgramID = prog, Engine = e, DWallet = d, InitAuthorityHash = ih, Payer = payer, ExpectedNonce = n,
         RuleIndex = i, RemovedRulePDA = rulePDA, RuleRecipient = mk_arr (x ! 0)\<rparr>)
      else if t = ''session-open'' then SessionOpen E
        \<lparr>ProgramID = prog, Engine = e, DWallet = d, InitAuthorityHash = ih, Payer = payer,
         SessionIndex = LE32 (x ! 0), OpenNonce = n, OpenRuleIndex = i, SessionSigner = mk_arr (x ! 1),
         ExpiresAtTs = LEI64 (x ! 2), MaxUses = LE32 (x ! 3), MaxAmountPerTx = LE64 (x ! 4)\<rparr>
      else if t = ''session-revoke'' then SessionRevoke E
        \<lparr>ProgramID = prog, Engine = e, DWallet = d, InitAuthorityHash = ih, Payer = payer,
         SessionIndex = LE32 (x ! 1), SessionAdminNonce = n\<rparr>
      else if t = ''session-close'' then SessionClose E
        \<lparr>ProgramID = prog, Engine = e, DWallet = d, InitAuthorityHash = ih, Payer = payer,
         SessionIndex = LE32 (x ! 1), SessionAdminNonce = n, CloseRecipient = mk_arr (x ! 2)\<rparr>
      else if t = ''session-add-destination'' then SessionAddDestination E
        \<lparr>ProgramID = prog, Engine = e, DWallet = d, InitAuthorityHash = ih, Payer = payer,
         SessionIndex = LE32 (x ! 1), SessionAdminNonce = n, SessionDestination = mk_arr (x ! 2)\<rparr>
      else if t = ''session-remove-destination'' then SessionRemoveDestination E
        \<lparr>ProgramID = prog, Engine = e, DWallet = d, InitAuthorityHash = ih, Payer = payer,
         SessionIndex = LE32 (x ! 1), SessionAdminNonce = n, SessionDestination = mk_arr (x ! 2)\<rparr>
      else Inl (BadField t))"

text \<open>\<open>lands S q p\<close>: the plan of an administration request and everything it hangs together with.\<close>

definition lands :: "Service \<Rightarrow> signed_request \<Rightarrow> submit_plan \<Rightarrow> admin_input \<Rightarrow> hash \<Rightarrow> key \<Rightarrow> bytes \<Rightarrow> instruction \<Rightarrow> bool" where
  "lands S q p a ih sponsor x m \<longleftrightarrow>
     sv_GasSponsor S = Some sponsor \<and> ac_OpTag a \<in> set admin_tags
     \<and> (\<exists>b. EnginePDA (sv_Solana S) (sv_ProgramID S) (ac_DWallet a) ih = Inr (ac_Engine a, b))
     \<and> AdminPreimage a = Inr x \<and> serves S q x \<and> signer_of q = Inr (ac_OwnerSlot a)
     \<and> relays S p (ac_OwnerSlot a) (sv_sha S x) m
     \<and> instruction_for (sv_Solana S) (sv_ProgramID S) sponsor ih a = Inr m"

lemma wiring_Inr [simp]: "requireSubmitWiring S = Inr k \<longleftrightarrow> sv_GasSponsor S = Some k \<and> sv_RPCClient S"
  by (auto simp: requireSubmitWiring_def split: option.splits)

lemma FormatU64Shifted_len: "length (FormatU64Shifted v ValueDecimals1e8) \<le> 22"
proof -
  obtain s where s: "FormatAmountPlain (Some (uint v)) 8 = Inr s" and eq: "FormatU64Shifted v ValueDecimals1e8 = s"
    using FormatU64Shifted_eq [of v] by (auto simp: ValueDecimals1e8_def)
  let ?i = "unat v div 10 ^ 8" and ?f = "unat v mod 10 ^ 8"
  have "unat v < 10 ^ 20"
    using order.strict_trans2 [of "unat v" "2 ^ 64" "10 ^ 20"] unsigned_less [of v, where ?'a = nat] by simp
  then have "?i < 10 ^ 12" by (simp add: div_less_iff_less_mult)
  then have "length (dec ?i) \<le> 12" by (rule dec_length_bound) simp
  moreover have "length (frac_digits 8 ?f) \<le> 8" using frac_digits_value [of ?f 8] by simp
  ultimately have "length s \<le> 21"
    using s by (auto simp: FormatAmountPlain_def MaxDecimals_def Let_def split: if_splits)
  then show ?thesis by (simp add: eq)
qed

text \<open>The texts fit their length field as long as base58 keeps to 44 characters.\<close>

lemma admin_text_fits:
  assumes "base58_text E"
  shows "length (HumanMessageAllowlistPause E k d) \<le> 0xFFFF"
    "length (HumanMessageAllowlistAddDestination E dest k d) \<le> 0xFFFF"
    "in64 lo \<Longrightarrow> in64 hi \<Longrightarrow> length (HumanMessageOracleAddFeed E fa fo lo hi k d) \<le> 0xFFFF"
    "length (HumanMessageSpendingUsdAdd E x y z k d) \<le> 0xFFFF"
    "length (HumanMessageSpendingUsdAddFeed E fa n k d) \<le> 0xFFFF"
proof -
  note b = base58_len [OF assms, of k] base58_len [OF assms, of d] base58_len [OF assms, of fa] base58_len [OF assms, of fo]
  show "length (HumanMessageAllowlistPause E k d) \<le> 0xFFFF"
    "length (HumanMessageAllowlistAddDestination E dest k d) \<le> 0xFFFF"
    using b by (simp_all add: HumanMessageAllowlistPause_def HumanMessageAllowlistAddDestination_def)
  show "in64 lo \<Longrightarrow> in64 hi \<Longrightarrow> length (HumanMessageOracleAddFeed E fa fo lo hi k d) \<le> 0xFFFF"
    using b FormatI64Shifted_len [of lo] FormatI64Shifted_len [of hi] by (simp add: HumanMessageOracleAddFeed_def)
  show "length (HumanMessageSpendingUsdAdd E x y z k d) \<le> 0xFFFF"
    using b FormatU64Shifted_len [of x] FormatU64Shifted_len [of y] FormatU64Shifted_len [of z]
    by (simp add: HumanMessageSpendingUsdAdd_def)
  have "length (dec (unat n)) \<le> 3" by (rule dec_word_len) simp_all
  then show "length (HumanMessageSpendingUsdAddFeed E fa n k d) \<le> 0xFFFF"
    using b by (simp add: HumanMessageSpendingUsdAddFeed_def)
qed

text \<open>A short text and short extras make a preimage.\<close>

lemma AdminPreimage_total:
  "length (ac_HumanMessage a) \<le> 0xFFFF \<Longrightarrow> \<forall>e \<in> set (ac_Extras a). length e \<le> 0xFFFF \<Longrightarrow>
   \<exists>x. AdminPreimage a = Inr x"
  by (simp add: AdminPreimage_Inr)


section \<open>The administration routes land what was signed\<close>

text \<open>Common to them: a plan whose challenge is the hash of an administration input.\<close>

lemma landsI:
  assumes "plan_with S os h c mi act e d ex = Inr p" "h = or_zero (AdminHash (sv_sha S) a)"
    "length (ac_HumanMessage a) \<le> 0xFFFF" "\<forall>e \<in> set (ac_Extras a). length e \<le> 0xFFFF"
    "sv_GasSponsor S = Some sponsor" "ac_OpTag a \<in> set admin_tags"
    "EnginePDA (sv_Solana S) (sv_ProgramID S) (ac_DWallet a) ih = Inr (ac_Engine a, b)" "ac_OwnerSlot a = os" "signer_of q = Inr os"
    "\<And>x m. AdminPreimage a = Inr x \<Longrightarrow> mi = Inr m \<Longrightarrow> serves S q x"
    "instruction_for (sv_Solana S) (sv_ProgramID S) sponsor ih a = mi"
  shows "\<exists>a ih sponsor x m. lands S q p a ih sponsor x m"
proof -
  obtain x where x: "AdminPreimage a = Inr x" using AdminPreimage_total [OF assms(3,4)] by blast
  then have "h = sv_sha S x" by (simp add: assms(2) AdminHash_def or_zero_def)
  then obtain m where "mi = Inr m" "relays S p os (sv_sha S x) m"
    using plan_with_relays [OF assms(1)] by auto
  then have "lands S q p a ih sponsor x m" using assms x by (auto simp: lands_def)
  then show ?thesis by blast
qed

lemma AdminHash_or_zero: "AdminHash sha a = Inr h \<Longrightarrow> h = or_zero (AdminHash sha a)"
  by (simp add: or_zero_def)

lemmas ix_rules = AddRuleAllowlist_def AddRuleOracle_def AddRuleSpendingUsd_def
  UpdateRuleAllowlistAddDestination_def UpdateRuleOracleAddFeed_def UpdateRuleSpendingUsdAddFeed_def


lemmas valids = add_valid_def items_valid_def remove_valid_def open_valid_def inputs_valid_def
  init_valid_def recover_valid_def quorum_valid_def passkey_open_valid_def passkey_use_valid_def passkey_valid_def

lemmas serving = serves_def truncates admin_target_def Let_def admin_reply_Inr valids first_gen_def ix_rules

lemma caps_fields [simp]:
  "length (spendingUsdCaps x y z) = 24" "LE64 (take 8 (spendingUsdCaps x y z)) = x"
  "LE64 (take 8 (drop 8 (spendingUsdCaps x y z))) = y" "LE64 (drop 16 (spendingUsdCaps x y z)) = z"
  by (simp_all add: spendingUsdCaps_def u64.dec_enc)

lemma addRuleAllowlist_lands:
  assumes "addRulePlan S r = Inr p" "ar_RuleKind r = KindAllowlist" and b: "base58_text (sv_Solana S)"
  shows "\<exists>a ih sponsor x m. lands S (PAddRule r) p a ih sponsor x m"
  using assms(1,2)
  apply (clarsimp simp: addRulePlan_def addRuleAllowlistPlan_def admin_target_def Let_def)
  apply (rule landsI, assumption, rule refl)
  apply (simp_all add: admin_text_fits [OF b] admin_tags_def instruction_for_def)
  apply (clarsimp simp: addRuleChallenge_def addRuleAllowlistChallenge_def serving dest!: ix_rule_pda)
  done

lemma addRuleOracle_lands:
  assumes "addRulePlan S r = Inr p" "ar_RuleKind r = KindOracle" and b: "base58_text (sv_Solana S)"
  shows "\<exists>a ih sponsor x m. lands S (PAddRule r) p a ih sponsor x m"
  using assms(1,2)
  apply (clarsimp simp: addRulePlan_def addRuleOraclePlan_def admin_target_def Let_def)
  apply (rule landsI, assumption, rule refl)
  apply (simp_all add: admin_text_fits [OF b] admin_tags_def instruction_for_def)
  apply (clarsimp simp: addRuleChallenge_def addRuleOracleChallenge_def serving dest!: ix_rule_pda)
  done

lemma addRuleSpendingUsd_lands:
  assumes "addRulePlan S r = Inr p" "ar_RuleKind r = KindSpendingUsd" and b: "base58_text (sv_Solana S)"
  shows "\<exists>a ih sponsor x m. lands S (PAddRule r) p a ih sponsor x m"
  using assms(1,2)
  apply (clarsimp simp: addRulePlan_def addRuleSpendingUsdPlan_def admin_target_def Let_def)
  apply (rule landsI, assumption, rule refl)
  apply (simp_all add: admin_text_fits [OF b] admin_tags_def instruction_for_def)
  apply (clarsimp simp: addRuleChallenge_def addRuleSpendingUsdChallenge_def serving dest!: ix_rule_pda)
  done

lemma itemsAddAllowlist_lands:
  assumes "itemsAddPlan S i r = Inr p" "ia_RuleKind r = KindAllowlist" and b: "base58_text (sv_Solana S)"
  shows "\<exists>a ih sponsor x m. lands S (PItemsAdd i r) p a ih sponsor x m"
  using assms(1,2)
  apply (clarsimp simp: itemsAddPlan_def itemsAddAllowlistPlan_def admin_target_def Let_def)
  apply (rule landsI, assumption, rule refl)
  apply (simp_all add: admin_text_fits [OF b] admin_tags_def instruction_for_def)
  apply (clarsimp simp: itemsAddChallenge_def itemsAddAllowlistChallenge_def serving dest!: ix_rule_pda)
  done

lemma itemsAddOracle_lands:
  assumes "itemsAddPlan S i r = Inr p" "ia_RuleKind r = KindOracle" and b: "base58_text (sv_Solana S)"
    and "in64 (ia_MinQ64 r)" "in64 (ia_MaxQ64 r)"
  shows "\<exists>a ih sponsor x m. lands S (PItemsAdd i r) p a ih sponsor x m"
  using assms(1,2,4,5)
  apply (clarsimp simp: itemsAddPlan_def itemsAddOraclePlan_def admin_target_def Let_def)
  apply (rule landsI, assumption, rule refl)
  apply (simp_all add: admin_text_fits [OF b] admin_tags_def instruction_for_def LEI64_I64LE)
  apply (clarsimp simp: itemsAddChallenge_def itemsAddOracleChallenge_def serving split: if_splits dest!: ix_rule_pda)
  done

lemma itemsAddSpendingUsd_lands:
  assumes "itemsAddPlan S i r = Inr p" "ia_RuleKind r = KindSpendingUsd" and b: "base58_text (sv_Solana S)"
  shows "\<exists>a ih sponsor x m. lands S (PItemsAdd i r) p a ih sponsor x m"
  using assms(1,2)
  apply (clarsimp simp: itemsAddPlan_def itemsAddSpendingUsdPlan_def admin_target_def Let_def)
  apply (rule landsI, assumption, rule refl)
  apply (simp_all add: admin_text_fits [OF b] admin_tags_def instruction_for_def)
  apply (clarsimp simp: itemsAddChallenge_def itemsAddSpendingUsdChallenge_def serving with_rule_def split: if_splits)
  done

lemma removeRule_lands:
  assumes "removeRulePlan S i r = Inr p" and b: "base58_text (sv_Solana S)"
  shows "\<exists>a ih sponsor x m. lands S (PRemoveRule i r) p a ih sponsor x m"
  using assms(1)
  apply (clarsimp simp: removeRulePlan_def admin_target_def Let_def)
  apply (drule AdminHash_or_zero)
  apply (rule landsI, assumption, assumption)
  apply (simp_all add: admin_text_fits [OF b] admin_tags_def instruction_for_def with_rule_def
     buildRemoveRuleChallenge_def Let_def)
  apply (clarsimp simp: removeRuleChallenge_def buildRemoveRuleChallenge_def serving)
  done



text \<open>The session routes: the input \<open>buildSessionAdminChallenge\<close> puts together.\<close>

lemma landsI2:
  assumes "session_plan S d h f mi act ex = Inr p" "AdminPreimage a = Inr x" "h = sv_sha S x"
    "sv_GasSponsor S = Some sponsor" "ac_OpTag a \<in> set admin_tags"
    "EnginePDA (sv_Solana S) (sv_ProgramID S) (ac_DWallet a) ih = Inr (ac_Engine a, b)" "ac_OwnerSlot a = sd_ownerSlot d"
    "signer_of q = Inr (sd_ownerSlot d)" "serves S q x"
    "instruction_for (sv_Solana S) (sv_ProgramID S) sponsor ih a = mi"
  shows "\<exists>a ih sponsor x m. lands S q p a ih sponsor x m"
proof -
  obtain m where "mi = Inr m" "relays S p (sd_ownerSlot d) h m"
    using session_plan_relays [OF assms(1)] by auto
  then have "lands S q p a ih sponsor x m" using assms by (auto simp: lands_def)
  then show ?thesis by blast
qed

lemmas session_parts = deriveSessionAdmin_def deriveSessionPerSession_def per_session_challenge_def
  buildSessionAdminChallenge_def AdminHash_def Let_def

lemmas session_extras = sessionOpenExtras_def sessionRevokeExtras_def sessionCloseExtras_def sessionDestExtras_def

lemma sessionOpen_lands:
  assumes "sessionOpenPlan S r = Inr p" and "in64 (so_ExpiresAtTs r)"
  shows "\<exists>a ih sponsor x m. lands S (PSessionOpen r) p a ih sponsor x m"
  using assms
  apply (clarsimp simp: sessionOpenPlan_def session_parts split: option.splits)
  apply (rule landsI2, assumption, assumption, rule refl, assumption)
  apply (simp_all add: admin_tags_def instruction_for_def session_extras LEI64_I64LE u32.dec_enc u64.dec_enc)
  apply (clarsimp simp: serves_def sessionOpenChallenge_def session_parts truncates valids session_reply_def session_extras)
  done

lemma sessionRevoke_lands:
  assumes "sessionRevokePlan S r = Inr p"
  shows "\<exists>a ih sponsor x m. lands S (PSessionRevoke r) p a ih sponsor x m"
  using assms
  apply (clarsimp simp: sessionRevokePlan_def session_parts split: option.splits)
  apply (rule landsI2, assumption, assumption, rule refl, assumption)
  apply (simp_all add: admin_tags_def instruction_for_def session_extras u32.dec_enc)
  apply (clarsimp simp: serves_def sessionRevokeChallenge_def session_parts truncates valids session_reply_def session_extras)
  done

lemma sessionClose_lands:
  assumes "sessionClosePlan S r = Inr p"
  shows "\<exists>a ih sponsor x m. lands S (PSessionClose r) p a ih sponsor x m"
  using assms
  apply (clarsimp simp: sessionClosePlan_def session_parts split: option.splits)
  apply (rule landsI2, assumption, assumption, rule refl, assumption)
  apply (simp_all add: admin_tags_def instruction_for_def session_extras u32.dec_enc)
  apply (clarsimp simp: serves_def sessionCloseChallenge_def session_parts truncates valids session_reply_def session_extras)
  done

lemma sessionDest_lands:
  assumes "sessionDestPlan S r add = Inr p"
  shows "\<exists>a ih sponsor x m. lands S (PSessionDest add r) p a ih sponsor x m"
  using assms
  apply (cases add; clarsimp simp: sessionDestPlan_def session_parts split: option.splits)
   apply (rule landsI2, assumption, assumption, rule refl, assumption;
     simp add: admin_tags_def instruction_for_def session_extras u32.dec_enc)
   apply (clarsimp simp: serves_def sessionDestAddChallenge_def sessionDestChallenge_def session_parts truncates
     valids session_reply_def session_extras)
  apply (rule landsI2, assumption, assumption, rule refl, assumption;
    simp add: admin_tags_def instruction_for_def session_extras u32.dec_enc)
  apply (clarsimp simp: serves_def sessionDestRemoveChallenge_def sessionDestChallenge_def session_parts truncates
    valids session_reply_def session_extras)
  done

section \<open>Creation and recovery relay the served challenge\<close>

lemma init_relays:
  assumes "initPlan S r = Inr p"
  shows "\<exists>x s m. serves S (PInit r) x \<and> signer_of (PInit r) = Inr s \<and> relays S p s (sv_sha S x) m"
  using assms
  apply (clarsimp simp: initPlan_def Let_def initChallengePreimageAndHash_def split: if_splits)
  apply (drule plan_with_relays)
  apply (clarsimp simp: serves_def initChallenge_def truncates valids Let_def initChallengePreimageAndHash_def)
  apply blast
  done

lemma recover_relays:
  assumes "recoverAsPrimaryPlan S r = Inr (p, h)"
  shows "\<exists>x s m. serves S (PRecover r) x \<and> signer_of (PRecover r) = Inr s \<and> relays S p s (sv_sha S x) m \<and> h = sv_sha S x"
  using assms
  apply (clarsimp simp: recoverAsPrimaryPlan_def Let_def deriveRecoverAsPrimary_def)
  apply (drule plan_with_relays)
  apply (clarsimp simp: serves_def recoverAsPrimaryChallenge_def truncates valids Let_def deriveRecoverAsPrimary_def
    recover_input_def ok_or_def)
  apply blast
  done

lemma quorumOpen_relays:
  assumes "quorumOpenPlan S r = Inr p"
  shows "\<exists>x s m. serves S (PQuorumOpen r) x \<and> signer_of (PQuorumOpen r) = Inr s \<and> relays S p s (sv_sha S x) m"
  using assms
  apply (clarsimp simp: quorumOpenPlan_def deriveQuorum_def)
  apply (drule plan_with_relays)
  apply (clarsimp simp: serves_def quorumOpenChallenge_def truncates valids Let_def deriveQuorum_def quorum_open_of_def)
  apply blast
  done

lemma quorumContribute_relays:
  assumes "quorumContributePlan S r = Inr p"
  shows "\<exists>x s m. serves S (PQuorumContribute r) x \<and> signer_of (PQuorumContribute r) = Inr s \<and> relays S p s (sv_sha S x) m"
  using assms
  apply (clarsimp simp: quorumContributePlan_def deriveQuorum_def)
  apply (drule plan_with_relays)
  apply (clarsimp simp: serves_def quorumContributeChallenge_def truncates valids Let_def deriveQuorum_def
    quorum_contribute_of_def)
  apply blast
  done

lemma case_option_Inl:
  "(case v of None \<Rightarrow> Inl e | Some x \<Rightarrow> f x) = Inr y \<longleftrightarrow> (\<exists>x. v = Some x \<and> f x = Inr y)"
  by (cases v) simp_all

lemma passkeyOpen_relays:
  assumes "passkeyOpenPlan S r = Inr p"
  shows "\<exists>x s m. serves S (PPasskeyOpen r) x \<and> signer_of (PPasskeyOpen r) = Inr s \<and> relays S p s (sv_sha S x) m"
  using assms
  apply (clarsimp simp: passkeyOpenPlan_def derivePasskey_def case_option_Inl)
  apply (drule plan_with_relays)
  apply (clarsimp simp: serves_def passkeyOpenChallenge_def truncates valids Let_def derivePasskey_def passkey_open_of_def)
  apply blast
  done

lemma passkeyUse_relays:
  assumes "passkeyUsePlan S r = Inr p"
  shows "\<exists>x s m. serves S (PPasskeyUse r) x \<and> signer_of (PPasskeyUse r) = Inr s \<and> relays S p s (sv_sha S x) m"
  using assms
  apply (clarsimp simp: passkeyUsePlan_def derivePasskey_def passkey_use_derive_def Let_def)
  apply (drule plan_with_relays)
  apply (clarsimp simp: serves_def passkeyUseChallenge_def truncates valids Let_def derivePasskey_def passkey_use_derive_def)
  apply blast
  done

section \<open>The routes together\<close>

fun admin_op :: "signed_request \<Rightarrow> bool" where
  "admin_op (PAddRule _) = True"
| "admin_op (PItemsAdd _ _) = True"
| "admin_op (PRemoveRule _ _) = True"
| "admin_op (PSessionOpen _) = True"
| "admin_op (PSessionRevoke _) = True"
| "admin_op (PSessionClose _) = True"
| "admin_op (PSessionDest _ _) = True"
| "admin_op _ = False"

fun int64_ok :: "signed_request \<Rightarrow> bool" where
  "int64_ok (PItemsAdd _ r) = (in64 (ia_MinQ64 r) \<and> in64 (ia_MaxQ64 r))"
| "int64_ok (PSessionOpen r) = in64 (so_ExpiresAtTs r)"
| "int64_ok _ = True"

lemma addRule_lands:
  assumes "addRulePlan S r = Inr p" and "base58_text (sv_Solana S)"
  shows "\<exists>a ih sponsor x m. lands S (PAddRule r) p a ih sponsor x m"
proof -
  consider "ar_RuleKind r = KindAllowlist" | "ar_RuleKind r = KindOracle" | "ar_RuleKind r = KindSpendingUsd"
    using assms(1) by (auto simp: addRulePlan_def split: if_splits)
  then show ?thesis
    using assms addRuleAllowlist_lands addRuleOracle_lands addRuleSpendingUsd_lands by cases blast+
qed

lemma itemsAdd_lands:
  assumes "itemsAddPlan S i r = Inr p" and "base58_text (sv_Solana S)" "in64 (ia_MinQ64 r)" "in64 (ia_MaxQ64 r)"
  shows "\<exists>a ih sponsor x m. lands S (PItemsAdd i r) p a ih sponsor x m"
proof -
  consider "ia_RuleKind r = KindAllowlist" | "ia_RuleKind r = KindOracle" | "ia_RuleKind r = KindSpendingUsd"
    using assms(1) by (auto simp: itemsAddPlan_def split: if_splits)
  then show ?thesis
    using assms itemsAddAllowlist_lands itemsAddOracle_lands itemsAddSpendingUsd_lands by cases blast+
qed

lemmas admin_lands = addRule_lands itemsAdd_lands removeRule_lands sessionOpen_lands sessionRevoke_lands
  sessionClose_lands sessionDest_lands

lemma admin_plan_lands:
  assumes "submit_plan_of S q = Inr p" "admin_op q" "int64_ok q" "base58_text (sv_Solana S)"
  shows "\<exists>a ih sponsor x m. lands S q p a ih sponsor x m"
  using assms by (cases q) (auto intro!: admin_lands)

fun requests_signature :: "signed_request \<Rightarrow> bool" where
  "requests_signature (PRequestSignature _) = True"
| "requests_signature _ = False"

lemma plan_relays:
  assumes "submit_plan_of S q = Inr p" "int64_ok q" "base58_text (sv_Solana S)" "\<not> requests_signature q"
  shows "\<exists>x s m. serves S q x \<and> signer_of q = Inr s \<and> relays S p s (sv_sha S x) m"
proof (cases "admin_op q")
  case True
  then show ?thesis using admin_plan_lands [OF assms(1) _ assms(2,3)] by (fastforce simp: lands_def)
next
  case False
  show ?thesis
  proof (cases q)
    case (PRecover r)
    then obtain h where "recoverAsPrimaryPlan S r = Inr (p, h)" using assms(1) by auto
    with PRecover recover_relays show ?thesis by blast
  qed (use False assms(1,4) init_relays quorumOpen_relays quorumContribute_relays passkeyOpen_relays
      passkeyUse_relays in \<open>simp_all add: Bex_def\<close>)
qed


lemma policy_submit_sent:
  "sent (fst (policy_submit S q)) = (case submit_plan_of S q of Inl _ \<Rightarrow> [] | Inr p \<Rightarrow> [pl_ixs p])"
proof (cases q)
  case (PRecover r)
  then show ?thesis
    by (auto simp: recoverAsPrimarySubmit_def sendSessionAdminTx_def harvestPresign_def split: sum.split prod.split option.split)
next
  case (PRequestSignature r)
  then show ?thesis
    by (auto simp: requestSignatureSubmit_def run_submit_def sendSessionAdminTx_def harvestPresign_def
        split: sum.split prod.split option.split)
qed (simp_all add: initSubmit_def addRuleSubmit_def itemsAddSubmit_def removeRuleSubmit_def sessionOpenSubmit_def
    sessionRevokeSubmit_def sessionCloseSubmit_def sessionDestSubmit_def quorumOpenSubmit_def
    quorumContributeSubmit_def passkeyOpenSubmit_def passkeyUseSubmit_def run_submit_sent)

section \<open>The engine instruction of a route\<close>

text \<open>The operation of the engine a route stands for, by its discriminator, and the dWallet and
  init-authority hash its request names.\<close>

fun operation_of :: "signed_request \<Rightarrow> u8" where
  "operation_of (PInit r) = 0"
| "operation_of (PAddRule r) =
     (if ar_RuleKind r = KindAllowlist then 10 else if ar_RuleKind r = KindOracle then 13 else 18)"
| "operation_of (PItemsAdd i r) =
     (if ia_RuleKind r = KindAllowlist then 120 else if ia_RuleKind r = KindOracle then 122 else 19)"
| "operation_of (PRemoveRule i r) = 110"
| "operation_of (PSessionOpen r) = 100"
| "operation_of (PSessionRevoke r) = 102"
| "operation_of (PSessionClose r) = 103"
| "operation_of (PSessionDest a r) = (if a then 105 else 106)"
| "operation_of (PRecover r) = 80"
| "operation_of (PQuorumOpen r) = 82"
| "operation_of (PQuorumContribute r) = 83"
| "operation_of (PPasskeyOpen r) = 89"
| "operation_of (PPasskeyUse r) = 90"
| "operation_of (PRequestSignature r) = 1"

fun target_of :: "Service \<Rightarrow> signed_request \<Rightarrow> key \<times> hash" where
  "target_of S (PInit r) = (pubkey_of S (in_DwalletAddress r),
     InitAuthorityHashFromSlot (sv_sha S) (or_zero (decode_slot (in_InitAuthoritySlot r))))"
| "target_of S (PAddRule r) = (pubkey_of S (ar_DwalletAddress r), hex32z (ar_InitAuthorityHash r))"
| "target_of S (PItemsAdd i r) = (pubkey_of S (ia_DwalletAddress r), hex32z (ia_InitAuthorityHash r))"
| "target_of S (PRemoveRule i r) = (pubkey_of S (rr_DwalletAddress r), hex32z (rr_InitAuthorityHash r))"
| "target_of S (PSessionOpen r) = (pubkey_of S (so_DwalletAddress r), hex32z (so_InitAuthorityHash r))"
| "target_of S (PSessionRevoke r) = (pubkey_of S (si_DwalletAddress r), hex32z (si_InitAuthorityHash r))"
| "target_of S (PSessionClose r) = (pubkey_of S (si_DwalletAddress r), hex32z (si_InitAuthorityHash r))"
| "target_of S (PSessionDest a r) = (pubkey_of S (si_DwalletAddress r), hex32z (si_InitAuthorityHash r))"
| "target_of S (PRecover r) = (pubkey_of S (rv_DwalletAddress r), hex32z (rv_InitAuthorityHash r))"
| "target_of S (PQuorumOpen r) = (pubkey_of S (qi_DwalletAddress r), hex32z (qi_InitAuthorityHash r))"
| "target_of S (PQuorumContribute r) = (pubkey_of S (qi_DwalletAddress r), hex32z (qi_InitAuthorityHash r))"
| "target_of S (PPasskeyOpen r) = (pubkey_of S (pi_DwalletAddress r), hex32z (pi_InitAuthorityHash r))"
| "target_of S (PPasskeyUse r) = (pubkey_of S (pi_DwalletAddress r), hex32z (pi_InitAuthorityHash r))"
| "target_of S (PRequestSignature r) = (pubkey_of S (rs_DwalletAddress r), hex32z (rs_InitAuthorityHash r))"

text \<open>\<open>calls_engine S d h op m\<close>: \<open>m\<close> calls operation \<open>op\<close> of the engine program, for the dWallet \<open>d\<close>
  and the engine of \<open>d\<close> and the init authority \<open>h\<close>, and only the gas sponsor signs it.\<close>

definition calls_engine :: "Service \<Rightarrow> key \<times> hash \<Rightarrow> u8 \<Rightarrow> instruction \<Rightarrow> bool" where
  "calls_engine S t op m \<longleftrightarrow> (\<exists>e b sponsor rest.
     EnginePDA (sv_Solana S) (sv_ProgramID S) (fst t) (snd t) = Inr (e, b) \<and> sv_GasSponsor S = Some sponsor
     \<and> ProgID m = sv_ProgramID S \<and> take 2 (Accounts m) = [ro (fst t), wr e] \<and> signers m = [sponsor]
     \<and> Data m = op # rest)"

lemma or_zero_Inr [simp]: "or_zero (Inr x) = x"
  by (simp add: or_zero_def)

lemmas calling = calls_engine_def signers_def with_Inr account_defs last_conv_nth

text \<open>A plan with a precompile and a main instruction calls what its main instruction calls.\<close>

lemma plan_with_calls:
  "plan_with S s h c mi a e d x = Inr p \<Longrightarrow> (\<And>m. mi = Inr m \<Longrightarrow> calls_engine S t op m)
   \<Longrightarrow> calls_engine S t op (last (pl_ixs p))"
  by (cases c) (auto simp: plan_with_def)

lemma session_plan_calls:
  "session_plan S d h f mi a x = Inr p \<Longrightarrow> (\<And>m. mi = Inr m \<Longrightarrow> calls_engine S t op m)
   \<Longrightarrow> calls_engine S t op (last (pl_ixs p))"
  by (auto simp: session_plan_def)

lemma init_calls: "initPlan S r = Inr p \<Longrightarrow> calls_engine S (target_of S (PInit r)) 0 (last (pl_ixs p))"
  apply (clarsimp simp: initPlan_def Let_def initChallengePreimageAndHash_def split: if_splits)
  apply (erule plan_with_calls)
  apply (auto simp: calling InitEngine_def split: if_splits)
  done

lemma addRuleAllowlist_calls:
  "addRuleAllowlistPlan S sponsor r = Inr p \<Longrightarrow> sv_GasSponsor S = Some sponsor \<Longrightarrow> calls_engine S (target_of S (PAddRule r)) 10 (last (pl_ixs p))"
  apply (clarsimp simp: addRuleAllowlistPlan_def admin_target_def Let_def)
  apply (erule plan_with_calls)
  apply (auto simp: calling ix_rules build_add_rule_def admin_head_def split: if_splits)
  done

lemma addRuleOracle_calls:
  "addRuleOraclePlan S sponsor r = Inr p \<Longrightarrow> sv_GasSponsor S = Some sponsor \<Longrightarrow> calls_engine S (target_of S (PAddRule r)) 13 (last (pl_ixs p))"
  apply (clarsimp simp: addRuleOraclePlan_def admin_target_def Let_def)
  apply (erule plan_with_calls)
  apply (auto simp: calling ix_rules build_add_rule_def admin_head_def split: if_splits)
  done

lemma addRuleSpendingUsd_calls:
  "addRuleSpendingUsdPlan S sponsor r = Inr p \<Longrightarrow> sv_GasSponsor S = Some sponsor \<Longrightarrow> calls_engine S (target_of S (PAddRule r)) 18 (last (pl_ixs p))"
  apply (clarsimp simp: addRuleSpendingUsdPlan_def admin_target_def Let_def)
  apply (erule plan_with_calls)
  apply (auto simp: calling ix_rules build_add_rule_def admin_head_def split: if_splits)
  done

lemma itemsAddAllowlist_calls:
  "itemsAddAllowlistPlan S sponsor r i = Inr p \<Longrightarrow> sv_GasSponsor S = Some sponsor \<Longrightarrow> calls_engine S (target_of S (PItemsAdd j r)) 120 (last (pl_ixs p))"
  apply (clarsimp simp: itemsAddAllowlistPlan_def admin_target_def Let_def)
  apply (erule plan_with_calls)
  apply (auto simp: calling ix_rules build_update_rule_def admin_head_def split: if_splits)
  done

lemma itemsAddOracle_calls:
  "itemsAddOraclePlan S sponsor r i = Inr p \<Longrightarrow> sv_GasSponsor S = Some sponsor \<Longrightarrow> calls_engine S (target_of S (PItemsAdd j r)) 122 (last (pl_ixs p))"
  apply (clarsimp simp: itemsAddOraclePlan_def admin_target_def Let_def)
  apply (erule plan_with_calls)
  apply (auto simp: calling ix_rules build_update_rule_def admin_head_def split: if_splits)
  done

lemma itemsAddSpendingUsd_calls:
  "itemsAddSpendingUsdPlan S sponsor r i = Inr p \<Longrightarrow> sv_GasSponsor S = Some sponsor \<Longrightarrow> calls_engine S (target_of S (PItemsAdd j r)) 19 (last (pl_ixs p))"
  apply (clarsimp simp: itemsAddSpendingUsdPlan_def admin_target_def Let_def)
  apply (erule plan_with_calls)
  apply (auto simp: calling ix_rules build_update_rule_def admin_head_def split: if_splits)
  done

lemma addRule_calls:
  "addRulePlan S r = Inr p \<Longrightarrow> calls_engine S (target_of S (PAddRule r)) (operation_of (PAddRule r)) (last (pl_ixs p))"
  by (auto simp: addRulePlan_def simp del: target_of.simps split: if_splits
      intro: addRuleAllowlist_calls addRuleOracle_calls addRuleSpendingUsd_calls)

lemma itemsAdd_calls:
  "itemsAddPlan S i r = Inr p \<Longrightarrow> calls_engine S (target_of S (PItemsAdd i r)) (operation_of (PItemsAdd i r)) (last (pl_ixs p))"
  by (auto simp: itemsAddPlan_def simp del: target_of.simps split: if_splits
      intro: itemsAddAllowlist_calls itemsAddOracle_calls itemsAddSpendingUsd_calls)

lemma removeRule_calls:
  "removeRulePlan S i r = Inr p \<Longrightarrow> calls_engine S (target_of S (PRemoveRule i r)) 110 (last (pl_ixs p))"
  apply (clarsimp simp: removeRulePlan_def admin_target_def Let_def)
  apply (erule plan_with_calls)
  apply (auto simp: calling RemoveRule_def admin_head_def split: if_splits)
  done

lemma sessionOpen_calls:
  "sessionOpenPlan S r = Inr p \<Longrightarrow> calls_engine S (target_of S (PSessionOpen r)) 100 (last (pl_ixs p))"
  apply (clarsimp simp: sessionOpenPlan_def session_parts split: option.splits)
  apply (erule session_plan_calls)
  apply (auto simp: calling SessionOpen_def split: if_splits)
  done

lemma sessionRevoke_calls:
  "sessionRevokePlan S r = Inr p \<Longrightarrow> calls_engine S (target_of S (PSessionRevoke r)) 102 (last (pl_ixs p))"
  apply (clarsimp simp: sessionRevokePlan_def session_parts split: option.splits)
  apply (erule session_plan_calls)
  apply (auto simp: calling SessionRevoke_def session_head_def split: if_splits)
  done

lemma sessionClose_calls:
  "sessionClosePlan S r = Inr p \<Longrightarrow> calls_engine S (target_of S (PSessionClose r)) 103 (last (pl_ixs p))"
  apply (clarsimp simp: sessionClosePlan_def session_parts split: option.splits)
  apply (erule session_plan_calls)
  apply (auto simp: calling SessionClose_def session_head_def split: if_splits)
  done

lemma sessionDest_calls:
  "sessionDestPlan S r a = Inr p \<Longrightarrow> calls_engine S (target_of S (PSessionDest a r)) (if a then 105 else 106) (last (pl_ixs p))"
  apply (cases a; clarsimp simp: sessionDestPlan_def session_parts split: option.splits)
   apply (erule session_plan_calls; auto simp: calling SessionAddDestination_def buildSessionUpdateDestination_def session_head_def)
  apply (erule session_plan_calls; auto simp: calling SessionRemoveDestination_def buildSessionUpdateDestination_def session_head_def)
  done

lemma recover_calls:
  "recoverAsPrimaryPlan S r = Inr (p, h) \<Longrightarrow> calls_engine S (target_of S (PRecover r)) 80 (last (pl_ixs p))"
  apply (clarsimp simp: recoverAsPrimaryPlan_def Let_def deriveRecoverAsPrimary_def)
  apply (erule plan_with_calls)
  apply (auto simp: calling RecoverAsPrimary_def split: if_splits)
  done

lemma quorumOpen_calls:
  "quorumOpenPlan S r = Inr p \<Longrightarrow> calls_engine S (target_of S (PQuorumOpen r)) 82 (last (pl_ixs p))"
  apply (clarsimp simp: quorumOpenPlan_def deriveQuorum_def)
  apply (erule plan_with_calls)
  apply (auto simp: calling QuorumSessionOpen_def split: if_splits)
  done

lemma quorumContribute_calls:
  "quorumContributePlan S r = Inr p \<Longrightarrow> calls_engine S (target_of S (PQuorumContribute r)) 83 (last (pl_ixs p))"
  apply (clarsimp simp: quorumContributePlan_def deriveQuorum_def)
  apply (erule plan_with_calls)
  apply (auto simp: calling QuorumSessionContribute_def split: if_splits)
  done

lemma passkeyOpen_calls:
  "passkeyOpenPlan S r = Inr p \<Longrightarrow> calls_engine S (target_of S (PPasskeyOpen r)) 89 (last (pl_ixs p))"
  apply (clarsimp simp: passkeyOpenPlan_def derivePasskey_def case_option_Inl)
  apply (erule plan_with_calls)
  apply (auto simp: calling PasskeySessionOpen_def split: if_splits)
  done

lemma passkeyUse_calls:
  "passkeyUsePlan S r = Inr p \<Longrightarrow> calls_engine S (target_of S (PPasskeyUse r)) 90 (last (pl_ixs p))"
  apply (clarsimp simp: passkeyUsePlan_def derivePasskey_def passkey_use_derive_def Let_def)
  apply (erule plan_with_calls)
  apply (auto simp: calling RecoverAsPrimaryPasskeySession_def split: if_splits)
  done

lemma assemble_calls:
  "assembleRequestSignatureIx S r payer = Inr (m, e, d, aux) \<Longrightarrow> sv_GasSponsor S = Some payer \<Longrightarrow>
   calls_engine S (pubkey_of S (rs_DwalletAddress r), hex32z (rs_InitAuthorityHash r)) 1 m"
  by (clarsimp simp: assembleRequestSignatureIx_def Let_def split: option.split_asm)
    (auto simp: calling RequestSignature_def filter_rule_accounts)

lemma with_refresh_last: "last (with_refresh S pre aux m) = m"
  by (simp add: with_refresh_def)

lemma requestSignature_calls:
  "requestSignaturePlan S (http_body r) = Inr p \<Longrightarrow> calls_engine S (target_of S (PRequestSignature r)) 1 (last (pl_ixs p))"
  by (clarsimp simp: requestSignaturePlan_def with_refresh_last dest!: assemble_calls) (simp add: http_body_def)

lemma plan_calls_engine:
  assumes "submit_plan_of S q = Inr p"
  shows "calls_engine S (target_of S q) (operation_of q) (last (pl_ixs p))"
proof (cases q)
  case (PAddRule r) then show ?thesis using addRule_calls assms by auto
next
  case (PItemsAdd i r) then show ?thesis using itemsAdd_calls assms by auto
next
  case (PSessionDest a r) then show ?thesis using sessionDest_calls [of S r a p] assms by simp
qed (use assms in \<open>auto simp del: target_of.simps intro: init_calls removeRule_calls sessionOpen_calls sessionRevoke_calls
    sessionClose_calls recover_calls quorumOpen_calls quorumContribute_calls passkeyOpen_calls
    passkeyUse_calls requestSignature_calls\<close>)


section \<open>A requested signature relays the served challenge\<close>

text \<open>The digest of the request is the client's to send back: the submit route does not recompute it.\<close>

fun echoes_digest :: "Service \<Rightarrow> signed_request \<Rightarrow> bool" where
  "echoes_digest S (PRequestSignature r) =
     (case snd (requestSignatureChallenge S (signature_challenge_request r)) of
        Inl _ \<Rightarrow> True
      | Inr c \<Rightarrow> rs_MetadataDigestHex r = rq_MetadataDigest c)"
| "echoes_digest S _ = True"

text \<open>Only a request for a signature puts refreshes of price accounts between its two instructions.\<close>

definition refreshes_of :: "Service \<Rightarrow> signed_request \<Rightarrow> instruction list \<Rightarrow> bool" where
  "refreshes_of S q rf \<longleftrightarrow>
     rf = [] \<or> requests_signature q \<and> (\<exists>refresh caches. sv_OracleRefresher S = Some refresh \<and> refresh caches = Inr rf)"

lemma with_refresh_of:
  assumes "requests_signature q"
  obtains rf where "with_refresh S pre aux m = pre # rf @ [m]" "refreshes_of S q rf"
proof
  let ?rf = "case sv_OracleRefresher S of None \<Rightarrow> []
    | Some refresh \<Rightarrow> if aux = [] then [] else case refresh aux of Inl _ \<Rightarrow> [] | Inr ixs \<Rightarrow> ixs"
  show "with_refresh S pre aux m = pre # ?rf @ [m]" by (simp add: with_refresh_def)
  show "refreshes_of S q ?rf"
    using assms by (auto simp: refreshes_of_def split: option.splits sum.splits)
qed

lemma assemble_Inr:
  assumes "assembleRequestSignatureIx S r payer = Inr (m, e, d, aux)"
  shows "d = pubkey_of S (rs_DwalletAddress r)
    \<and> (\<exists>b. EnginePDA (sv_Solana S) (sv_ProgramID S) d (hex32z (rs_InitAuthorityHash r)) = Inr (e, b))
    \<and> (\<exists>rq. RequestSignature (sv_Solana S) rq = Inr m \<and> MetadataDigest rq = hex32z (rs_MetadataDigestHex r)
         \<and> ReqDestination rq = hex32z (rs_DestinationHex r) \<and> Amount rq = rs_Amount r
         \<and> SwapMinAmountOut rq = (case rs_Swap r of None \<Rightarrow> 0 | Some w \<Rightarrow> sw_MinAmountOut w)
         \<and> (SigningKind rq = 1 \<longleftrightarrow> rs_Swap r \<noteq> None))"
  using assms
  apply (clarsimp simp: assembleRequestSignatureIx_def Let_def split: option.split_asm)
   apply (intro exI conjI, assumption; simp split: option.splits)+
  done

lemma requestSignature_serves:
  assumes "request_valid S (http_body r)" "EnginePDA (sv_Solana S) (sv_ProgramID S) (pubkey_of S (rs_DwalletAddress r))
      (hex32z (rs_InitAuthorityHash r)) = Inr (e, b)"
    and "buildRequestSignatureOwnerAuth S (http_body r) e (pubkey_of S (rs_DwalletAddress r)) = Inr pre"
    and "echoes_digest S (PRequestSignature r)"
  shows "\<exists>x s sig authData cdj. serves S (PRequestSignature r) x \<and> signer_of (PRequestSignature r) = Inr s
    \<and> BuildCredentialPrecompile (sv_Solana S) (sv_sha S) s (sv_sha S x) sig authData cdj = Inr pre"
proof -
  obtain mem s where s: "rs_OwnerSlot r = Some mem" "decode_slot mem = Inr s"
    using assms(3) by (auto simp: buildRequestSignatureOwnerAuth_def http_body_def split: option.splits if_splits)
  have "request_challenge_valid S (signature_challenge_request r)"
    using assms(1) by (auto simp: request_valid_def request_challenge_valid_def signature_challenge_request_def http_body_def)
  then obtain c oc where c: "snd (requestSignatureChallenge S (signature_challenge_request r)) = Inr c"
    "rq_OwnerAuth c = Some oc" and
    oc: "\<exists>nuc. oc = \<lparr>OwnerAuthChallengeHex = hex_lower (arr_bytes (NormalUseHash (sv_sha S) nuc)),
        OwnerAuthPreimageHex = hex_lower (NormalUsePreimage nuc), OwnerAuthHumanMessage = uc_HumanMessage nuc\<rparr>
      \<and> nuc = \<lparr>uc_HumanMessage = HumanMessageNormalSign (sv_Solana S) (pubkey_of S (rs_DwalletAddress r))
           (hex32z (rs_DestinationHex r)) (rs_Amount r) (rs_SignatureScheme r), uc_Engine = e,
          uc_DWallet = pubkey_of S (rs_DwalletAddress r), uc_MetadataDigest = hex32z (rq_MetadataDigest c), uc_OwnerSlot = s\<rparr>"
    using assms(2) s by (auto simp: requestSignatureChallenge_def signature_challenge_request_def Let_def ok_or_def)
  have "rs_MetadataDigestHex r = rq_MetadataDigest c" using assms(4) c by simp
  then show ?thesis
    using assms(3) s c oc
    by (fastforce simp: buildRequestSignatureOwnerAuth_def BuildOwnerAuthPrecompile_def ComputeOwnerAuthChallenge_def
      renderHumanForOwnerAuth_def use_of_def http_body_def buildCredentialPrecompile_def serves_def NormalUseHash_def Let_def
      split: option.splits if_splits)
qed

lemma requestSignature_relays:
  assumes "requestSignaturePlan S (http_body r) = Inr p" "echoes_digest S (PRequestSignature r)"
  shows "\<exists>x s sig authData cdj pre rf. serves S (PRequestSignature r) x \<and> signer_of (PRequestSignature r) = Inr s
    \<and> BuildCredentialPrecompile (sv_Solana S) (sv_sha S) s (sv_sha S x) sig authData cdj = Inr pre
    \<and> pl_ixs p = pre # rf @ [last (pl_ixs p)] \<and> refreshes_of S (PRequestSignature r) rf"
proof -
  obtain sponsor m e d aux pre where m: "request_valid S (http_body r)"
    "assembleRequestSignatureIx S (http_body r) sponsor = Inr (m, e, d, aux)"
    "buildRequestSignatureOwnerAuth S (http_body r) e d = Inr pre" "pl_ixs p = with_refresh S pre aux m"
    using assms(1) by (auto simp: requestSignaturePlan_def)
  obtain b where "d = pubkey_of S (rs_DwalletAddress r)"
    "EnginePDA (sv_Solana S) (sv_ProgramID S) d (hex32z (rs_InitAuthorityHash r)) = Inr (e, b)"
    using assemble_Inr [OF m(2)] by (auto simp: http_body_def)
  with requestSignature_serves [OF m(1) _ _ assms(2)] m(3) obtain x s sig authData cdj where
    x: "serves S (PRequestSignature r) x" "signer_of (PRequestSignature r) = Inr s"
    "BuildCredentialPrecompile (sv_Solana S) (sv_sha S) s (sv_sha S x) sig authData cdj = Inr pre" by blast
  obtain rf where "with_refresh S pre aux m = pre # rf @ [m]" "refreshes_of S (PRequestSignature r) rf"
    using with_refresh_of [of "PRequestSignature r" S pre aux m] by auto
  with x m(4) show ?thesis by auto
qed

text \<open>
  Property C6. Whatever a signed route sends (all fourteen \<open>submit\<close> routes that take a credential) is
  a precompile by the credential the request names over the hash of the very preimage its challenge
  route serves for the same fields, and last one instruction of the engine program: the operation the
  route stands for, on the dWallet and the engine the request names, signed by the gas sponsor alone.
  Only a request for a signature may put refreshes of price accounts between the two; its owner's
  challenge is the served one when the request sends the served metadata digest back, which the route
  does not recompute. (The time and price bounds are \<open>int64\<close>; base58 keeps to tokens of at most 44
  characters.)
\<close>

theorem submit_relays_served_challenge:
  assumes "ixs \<in> set (sent (fst (policy_submit S q)))" "int64_ok q" "base58_text (sv_Solana S)" "echoes_digest S q"
  shows "\<exists>x s sig authData cdj pre rf m e b sponsor rest.
     challenge_for S q = Inr (hex_lower x, hex_lower (arr_bytes (sv_sha S x))) \<and> signer_of q = Inr s
     \<and> BuildCredentialPrecompile (sv_Solana S) (sv_sha S) s (sv_sha S x) sig authData cdj = Inr pre
     \<and> ixs = pre # rf @ [m] \<and> refreshes_of S q rf
     \<and> ProgID m = sv_ProgramID S \<and> Data m = operation_of q # rest
     \<and> EnginePDA (sv_Solana S) (sv_ProgramID S) (fst (target_of S q)) (snd (target_of S q)) = Inr (e, b)
     \<and> take 2 (Accounts m) = [ro (fst (target_of S q)), wr e]
     \<and> sv_GasSponsor S = Some sponsor \<and> signers m = [sponsor]"
proof -
  obtain p where p: "submit_plan_of S q = Inr p" "ixs = pl_ixs p"
    using assms(1) by (cases "submit_plan_of S q") (simp_all add: policy_submit_sent)
  have "\<exists>x s sig authData cdj pre rf. serves S q x \<and> signer_of q = Inr s
    \<and> BuildCredentialPrecompile (sv_Solana S) (sv_sha S) s (sv_sha S x) sig authData cdj = Inr pre
    \<and> ixs = pre # rf @ [last (pl_ixs p)] \<and> refreshes_of S q rf"
  proof (cases "requests_signature q")
    case True
    then obtain r where "q = PRequestSignature r" by (cases q) simp_all
    with requestSignature_relays [of S r p] p assms(4) show ?thesis by simp
  next
    case False
    with plan_relays [OF p(1) assms(2,3)] p(2) show ?thesis
      by (fastforce simp: relays_def refreshes_of_def)
  qed
  with plan_calls_engine [OF p(1)] show ?thesis
    by (simp only: calls_engine_def serves_def) blast
qed

text \<open>
  Property C5. The administration routes refine the reference: what they land is the instruction
  \<open>instruction_for\<close> reads back from the input of the challenge the owner signed, for the engine of
  the request's dWallet and init authority, paid by the sponsor.
\<close>

theorem admin_submit_lands_what_was_signed:
  assumes "submit_plan_of S q = Inr p" "admin_op q" "int64_ok q" "base58_text (sv_Solana S)"
  shows "\<exists>a ih sponsor b x m. sv_GasSponsor S = Some sponsor
     \<and> EnginePDA (sv_Solana S) (sv_ProgramID S) (ac_DWallet a) ih = Inr (ac_Engine a, b)
     \<and> AdminPreimage a = Inr x \<and> challenge_for S q = Inr (hex_lower x, hex_lower (arr_bytes (sv_sha S x)))
     \<and> relays S p (ac_OwnerSlot a) (sv_sha S x) m
     \<and> instruction_for (sv_Solana S) (sv_ProgramID S) sponsor ih a = Inr m"
  using admin_plan_lands [OF assms] by (fastforce simp: lands_def serves_def)

lemma landsD:
  assumes "lands S q p a ih k x m"
  shows "sv_GasSponsor S = Some k" "\<exists>b. EnginePDA (sv_Solana S) (sv_ProgramID S) (ac_DWallet a) ih = Inr (ac_Engine a, b)"
    "challenge_for S q = Inr (hex_lower x, hex_lower (arr_bytes (sv_sha S x)))"
    "relays S p (ac_OwnerSlot a) (sv_sha S x) m" "instruction_for (sv_Solana S) (sv_ProgramID S) k ih a = Inr m"
  using assms by (simp_all add: lands_def serves_def)

lemma lands_agree:
  assumes "lands S q p a ih k x m" "lands S' q' p' a' ih' k' x' m'" "x = x'"
  shows "a = a'"
proof -
  have "same_request (EAdmin a) (EAdmin a')"
    by (rule engine_preimage_inj [of "sv_Solana S" _ x]) (use assms in \<open>auto simp: lands_def\<close>)
  then show ?thesis by simp
qed

text \<open>
  Property C20. A signature authorises one instruction: two administration requests, of whatever
  kinds, whose challenge routes answer the same land the same engine instruction, as long as no two
  init-authority hashes share an engine address.
\<close>

theorem same_challenge_same_instruction:
  assumes "submit_plan_of S q = Inr p" "submit_plan_of S q' = Inr p'" "admin_op q" "admin_op q'"
    and "int64_ok q" "int64_ok q'" "base58_text (sv_Solana S)"
    and "challenge_for S q = challenge_for S q'"
    and "\<And>d h h' e b b'. EnginePDA (sv_Solana S) (sv_ProgramID S) d h = Inr (e, b) \<Longrightarrow>
       EnginePDA (sv_Solana S) (sv_ProgramID S) d h' = Inr (e, b') \<Longrightarrow> h = h'"
  shows "pl_ixs p ! 1 = pl_ixs p' ! 1"
proof -
  obtain a ih k x m where l: "lands S q p a ih k x m" using admin_plan_lands [OF assms(1,3,5,7)] by blast
  obtain a' ih' k' x' m' where l': "lands S q' p' a' ih' k' x' m'" using admin_plan_lands [OF assms(2,4,6,7)] by blast
  have "hex_lower x = hex_lower x'" using landsD(3) [OF l] landsD(3) [OF l'] assms(8) by simp
  then have "x = x'" by (metis hex_decode_lower option.inject)
  then have a: "a = a'" by (rule lands_agree [OF l l'])
  have "ih = ih'" using landsD(2) [OF l] landsD(2) [OF l'] assms(9) unfolding a by blast
  moreover have "k = k'" using landsD(1) [OF l] landsD(1) [OF l'] by simp
  ultimately have "m = m'" using landsD(5) [OF l] landsD(5) [OF l'] unfolding a by simp
  then show ?thesis using landsD(4) [OF l] landsD(4) [OF l'] by (auto simp: relays_def)
qed


section \<open>A service to try the theorems on\<close>

lemma demo_base58: "base58_text (sv_Solana demo_service)"
  using base58_text_sample by (simp add: demo_service_def demo_env_def base58_text_def)

definition demo_signed :: "byte \<Rightarrow> signedSubmitFields" where
  "demo_signed b = \<lparr>SignatureBase64 = b64_encode (replicate 64 b), WebauthnAuthDataBase64 = [], WebauthnCDJBase64 = []\<rparr>"

definition demo_slot :: memberSlotJSON where
  "demo_slot = \<lparr>Scheme = 0, IdentifierHex = hex_lower (replicate 32 9)\<rparr>"

definition demo_revoke :: "byte \<Rightarrow> sessionRevokeSubmitRequest" where
  "demo_revoke b = \<lparr>si_DwalletAddress = ''dWallet'', si_InitAuthorityHash = hex_lower (replicate 32 5),
     si_SessionIndex = 3, si_ExpectedNonce = 11, si_OwnerSlot = Some demo_slot, sn_signed = demo_signed b\<rparr>"

lemma hex_lower_Nil: "hex_lower b = [] \<longleftrightarrow> b = []"
  by (cases b) simp_all

lemma b64_encode_Nil: "b64_encode b = [] \<Longrightarrow> b = []"
  using b64_decode_encode [of b] by (auto simp: b64_decode_def)

lemma demo_signed_ok [simp]: "signed_valid (demo_signed b)" "decode_signed (demo_signed b) = Inr (replicate 64 b, [], [])"
  using b64_encode_Nil [of "replicate 64 b"]
  by (auto simp: demo_signed_def signed_valid_def validateBase64_def omitempty_def decode_signed_def b64_opt_def)

lemma demo_slot_ok [simp]: "slot_valid demo_slot" "decode_slot demo_slot = Inr (mk_arr (0 # replicate 32 9))"
  by (simp_all add: demo_slot_def slot_valid_def decode_slot_def expected_len_def hex_lower_Nil)

lemma placeholder_hex: "zero32HexPlaceholder = hex_lower (replicate 32 0)"
  by code_simp

lemma demo_valid [simp]: "validateSolanaPubkey demo_service s \<longleftrightarrow> s \<noteq> []"
  by (simp add: validateSolanaPubkey_def)

lemma hex_len_32_lower: "length b = 32 \<Longrightarrow> hex_len_32 (hex_lower b)"
  by (auto simp: validateHexLen_def hex_lower_Nil)

lemma mustHex32_lower_mk: "length b = 32 \<Longrightarrow> mustHex32 (hex_lower b) = Inr (mk_arr b)"
  by (simp add: mustHex32_def)

lemmas demo_plans = session_parts valids hex_len_32_lower mustHex32_lower_mk placeholder_hex EnginePDA_def RulePDA_def
  SessionPDA_def CPIAuthorityPDA_def MessageApprovalPDA_def rule_seeds_def SeedForKind_def
  HumanMessageAllowlistPause_def key_text_chars buildCredentialPrecompile_def BuildCredentialPrecompile_def
  slot_scheme_head BuildEd25519PrecompileInstruction_def with_defs slot_ident_def arr_bytes_slot EventAuthorityPDA_def

lemma demo_revoke_plan: "\<exists>p. submit_plan_of demo_service (PSessionRevoke (demo_revoke b)) = Inr p"
  by (simp add: demo_revoke_def sessionRevokePlan_def demo_plans AdminPreimage_Inr sessionRevokeExtras_def
      session_plan_def adminPrecompile_def SessionRevoke_def)

definition demo_add :: addRuleSubmitRequest where
  "demo_add = \<lparr>ar_DwalletAddress = ''dWallet'', ar_InitAuthorityHash = hex_lower (replicate 32 5),
     ar_OwnerSlot = demo_slot, ar_RuleKind = KindAllowlist, ar_RuleIndex = 2, ar_ExpectedNonce = 1, ar_AppliesTo = 1,
     ar_FreshnessSecondsDiv16 = 0, ar_MinConfidenceBpsDiv4 = 0, ar_MaxPerTxUsd = 0, ar_MaxPerDayUsd = 0,
     ar_MaxPerWeekUsd = 0, ar_signed = demo_signed 7\<rparr>"

lemma demo_add_plan: "\<exists>p. submit_plan_of demo_service (PAddRule demo_add) = Inr p"
  by (simp add: demo_add_def addRulePlan_def addRuleAllowlistPlan_def admin_target_def demo_plans plan_with_def
      AllowlistConfigHash_def AddRuleAllowlist_def build_add_rule_def)

definition demo_recover :: recoverAsPrimarySubmitRequest where
  "demo_recover = \<lparr>rv_DwalletAddress = ''dWallet'', rv_InitAuthorityHash = hex_lower (replicate 32 5),
     rv_PrimarySlot = demo_slot, rv_MessageDigestHex = hex_lower (replicate 32 1),
     rv_MetadataDigestHex = hex_lower (replicate 32 2), rv_UserPubkeyHex = hex_lower (replicate 32 3),
     rv_SignatureScheme = 1, rv_DestinationHex = hex_lower (replicate 32 4), rv_RuleIndex = 0, rv_ExpectedNonce = 6,
     rv_IkaCurve = 0, rv_IkaDWalletPubkey = hex_lower (replicate 32 8), rv_signed = demo_signed 7, rv_Amount = 10\<rparr>"

lemma demo_recover_plan: "\<exists>p h. recoverAsPrimaryPlan demo_service demo_recover = Inr (p, h)"
  using recovery_total [OF demo_base58]
  apply (simp add: demo_recover_def recoverAsPrimaryPlan_def deriveRecoverAsPrimary_def demo_plans plan_with_def
      RecoverAsPrimary_def ika_pubkey_def hex_lower_Nil recover_input_def)
  done

text \<open>A request for a signature that sends the digest of its challenge back.\<close>

definition demo_metadata :: request_metadata where
  "demo_metadata =
     \<lparr>rm_Engine = mk_arr (replicate 32 5), rm_DWallet = mk_arr (ascii ''dWallet''),
      rm_MessageDigest = mk_arr (replicate 32 1), rm_Destination = mk_arr (replicate 32 4),
      rm_UserPubkey = mk_arr (replicate 32 3), rm_SignatureScheme = 0, rm_Path = 1, rm_RulesGeneration = 0,
      rm_Amount = 10, rm_AssetIndex = 0\<rparr>"

definition demo_request :: requestSignatureSubmitRequest where
  "demo_request =
     \<lparr>rs_DwalletAddress = ''dWallet'', rs_InitAuthorityHash = hex_lower (replicate 32 5),
      rs_MessageDigestHex = hex_lower (replicate 32 1),
      rs_MetadataDigestHex = hex_lower (arr_bytes (mk_arr (RequestMetadataPreimage demo_metadata) :: hash)),
      rs_UserPubkeyHex = hex_lower (replicate 32 3), rs_SignatureScheme = 0,
      rs_DestinationHex = hex_lower (replicate 32 4), rs_RulesGeneration = 0, rs_RulePDAs = [],
      rs_RuleAuxAccounts = [], rs_AutoResolveAccounts = False, rs_IkaCurve = 0,
      rs_IkaDWalletPubkey = hex_lower (replicate 32 8), rs_Amount = 10, rs_AssetIndex = 0,
      rs_IkaMsgMetadataDigestHex = [], rs_OwnerSlot = Some demo_slot, rs_signed = demo_signed 7,
      rs_Swap = None, rs_Bundle = None\<rparr>"

lemma demo_signed_fields [simp]:
  "SignatureBase64 (demo_signed b) \<noteq> []" "b64_decode (SignatureBase64 (demo_signed b)) = Some (replicate 64 b)"
  "WebauthnAuthDataBase64 (demo_signed b) = []" "WebauthnCDJBase64 (demo_signed b) = []"
  using b64_encode_Nil [of "replicate 64 b"] by (auto simp: demo_signed_def)

lemma demo_request_plan: "\<exists>p. submit_plan_of demo_service (PRequestSignature demo_request) = Inr p"
  by (simp del: hex_lower_simps add: demo_request_def http_body_def requestSignaturePlan_def request_valid_def
      opt_slot_valid_def omitempty_def validateBase64_def hex_lower_Nil assembleRequestSignatureIx_def ika_pubkey_def
      demo_plans check_bundle_def RequestSignature_def buildRequestSignatureOwnerAuth_def BuildOwnerAuthPrecompile_def
      ComputeOwnerAuthChallenge_def renderHumanForOwnerAuth_def b64_opt_def)

lemma demo_request_echoes: "echoes_digest demo_service (PRequestSignature demo_request)"
  by (simp del: hex_lower_simps add: demo_request_def requestSignatureChallenge_def signature_challenge_request_def
      request_challenge_valid_def opt_slot_valid_def demo_plans demo_metadata_def ok_or_def hex_lower_Nil engine_seeds_def)

theorem submit_relays_served_challenge_witness:
  "\<exists>ixs. sent (fst (policy_submit demo_service (PRequestSignature demo_request))) = [ixs]
     \<and> length ixs = 2 \<and> ProgID (ixs ! 1) = zero_arr \<and> hd (Data (ixs ! 1)) = 1 \<and> signers (ixs ! 1) = [zero_arr]"
proof -
  obtain p where p: "submit_plan_of demo_service (PRequestSignature demo_request) = Inr p" using demo_request_plan by blast
  then have s: "sent (fst (policy_submit demo_service (PRequestSignature demo_request))) = [pl_ixs p]"
    by (simp only: policy_submit_sent sum.case)
  then show ?thesis
    using submit_relays_served_challenge [OF _ _ demo_base58 demo_request_echoes, of "pl_ixs p"]
    by (auto simp: refreshes_of_def)
qed

theorem admin_submit_lands_what_was_signed_witness:
  "\<exists>p a ih m. submit_plan_of demo_service (PAddRule demo_add) = Inr p
     \<and> instruction_for demo_env zero_arr zero_arr ih a = Inr m \<and> pl_ixs p ! 1 = m"
proof -
  obtain p where p: "submit_plan_of demo_service (PAddRule demo_add) = Inr p" using demo_add_plan by blast
  show ?thesis using admin_submit_lands_what_was_signed [OF p _ _ demo_base58] p by (auto simp: relays_def) blast
qed

lemma demo_engine_inj:
  "EnginePDA demo_env prog d h = Inr (e, b) \<Longrightarrow> EnginePDA demo_env prog d h' = Inr (e, b') \<Longrightarrow> h = h'"
  by (auto simp: EnginePDA_def engine_seeds_def)

theorem same_challenge_same_instruction_witness:
  "\<exists>p p'. submit_plan_of demo_service (PSessionRevoke (demo_revoke 7)) = Inr p
     \<and> submit_plan_of demo_service (PSessionRevoke (demo_revoke 8)) = Inr p' \<and> pl_ixs p ! 1 = pl_ixs p' ! 1"
proof -
  obtain p p' where p: "submit_plan_of demo_service (PSessionRevoke (demo_revoke 7)) = Inr p"
    "submit_plan_of demo_service (PSessionRevoke (demo_revoke 8)) = Inr p'" using demo_revoke_plan by blast
  moreover have "pl_ixs p ! 1 = pl_ixs p' ! 1"
    by (rule same_challenge_same_instruction [OF p _ _ _ _ demo_base58])
      (auto simp: demo_revoke_def truncates dest: demo_engine_inj)
  ultimately show ?thesis by blast
qed
lemma hex_lower_eqD [simp]: "hex_lower x = hex_lower y \<longleftrightarrow> x = y"
  by (metis hex_decode_lower option.inject)

lemma addRuleChallenge_gen:
  assumes "addRuleChallenge S (add_rule_fields.extend (add_rule_fields.truncate r) (addRuleRequest.fields 1)) = Inr c"
    and "1 < g"
  shows "\<exists>c'. addRuleChallenge S (add_rule_fields.extend (add_rule_fields.truncate r) (addRuleRequest.fields g)) = Inr c'
    \<and> cr_PreimageHex c' \<noteq> cr_PreimageHex c"
proof -
  have g: "g \<noteq> 0" "g \<noteq> 1" using assms(2) by auto
  have "ar_RuleKind r = KindAllowlist \<or> ar_RuleKind r = KindOracle \<or> ar_RuleKind r = KindSpendingUsd"
    using assms(1) by (auto simp: addRuleChallenge_def truncates split: if_splits)
  then show ?thesis
    using assms(1) g
    apply (elim disjE)
      apply (clarsimp simp: addRuleChallenge_def addRuleAllowlistChallenge_def serving AdminPreimage_Inr u32.enc_inj)
     apply (clarsimp simp: addRuleChallenge_def addRuleOracleChallenge_def serving AdminPreimage_Inr u32.enc_inj)
    apply (clarsimp simp: addRuleChallenge_def addRuleSpendingUsdChallenge_def serving AdminPreimage_Inr u32.enc_inj)
    done
qed

text \<open>
  The add-rule pair disagrees on the generation: a challenge served for a rule
  generation above 1 has a preimage other than the one the submit route hashes, which always
  takes generation 1, so such a signature never authorises the submission.
\<close>

theorem add_rule_challenge_above_first_generation:
  assumes "submit_plan_of S (PAddRule r) = Inr p" "base58_text (sv_Solana S)" "1 < g"
  shows "\<exists>c x s m. addRuleChallenge S (add_rule_fields.extend (add_rule_fields.truncate r) (addRuleRequest.fields g)) = Inr c
    \<and> relays S p s (sv_sha S x) m \<and> cr_PreimageHex c \<noteq> hex_lower x"
proof -
  obtain x s m where x: "serves S (PAddRule r) x" "relays S p s (sv_sha S x) m"
    using plan_relays [OF assms(1) _ assms(2)] by auto
  then obtain c where "addRuleChallenge S (add_rule_fields.extend (add_rule_fields.truncate r) (addRuleRequest.fields 1)) = Inr c"
    "cr_PreimageHex c = hex_lower x" by (auto simp: serves_def)
  then show ?thesis using addRuleChallenge_gen [OF _ assms(3)] x(2) by metis
qed

theorem add_rule_challenge_above_first_generation_witness:
  "\<exists>c. addRuleChallenge demo_service (add_rule_fields.extend (add_rule_fields.truncate demo_add) (addRuleRequest.fields 2)) = Inr c"
proof -
  obtain p where p: "submit_plan_of demo_service (PAddRule demo_add) = Inr p" using demo_add_plan by blast
  show ?thesis using add_rule_challenge_above_first_generation [OF p demo_base58, of 2] by auto
qed

text \<open>
  Property C40. What the primary credential signs for a recovery fixes neither the amount nor the
  destination: a request that differs only there (and is as well-formed) gets the same challenge and
  the same precompile, and lands a different instruction. They reach the signature only through the
  metadata digest, which the client supplies.
\<close>

theorem recovery_signature_leaves_amount_open:
  assumes "recoverAsPrimaryPlan S r = Inr (p, h)" "hex_len_32 dest"
    and "mustHex32 dest \<noteq> mustHex32 (rv_DestinationHex r) \<or> amount \<noteq> rv_Amount r"
  shows "\<exists>p'. recoverAsPrimaryPlan S (r\<lparr>rv_DestinationHex := dest, rv_Amount := amount\<rparr>) = Inr (p', h)
    \<and> pl_ixs p' ! 0 = pl_ixs p ! 0 \<and> pl_ixs p' ! 1 \<noteq> pl_ixs p ! 1"
proof -
  obtain k where k: "mustHex32 dest = Inr k" using assms(2) by (auto simp: hex_len_32_mustHex32)
  show ?thesis
    using assms k
    apply (clarsimp simp: recoverAsPrimaryPlan_def Let_def deriveRecoverAsPrimary_def recover_input_def valids plan_with_def
      RecoverAsPrimary_def with_defs)
    done
qed


theorem recovery_signature_leaves_amount_open_witness:
  "\<exists>p h p'. recoverAsPrimaryPlan demo_service demo_recover = Inr (p, h)
     \<and> recoverAsPrimaryPlan demo_service
       (demo_recover\<lparr>rv_DestinationHex := hex_lower (replicate 32 99), rv_Amount := 1000000\<rparr>) = Inr (p', h)
     \<and> pl_ixs p' ! 0 = pl_ixs p ! 0 \<and> pl_ixs p' ! 1 \<noteq> pl_ixs p ! 1"
proof -
  obtain p h where p: "recoverAsPrimaryPlan demo_service demo_recover = Inr (p, h)" using demo_recover_plan by blast
  show ?thesis
    using recovery_signature_leaves_amount_open [OF p, of "hex_lower (replicate 32 99)" 1000000] p
    by (simp add: hex_len_32_lower demo_recover_def)
qed

section \<open>Signing\<close>

lemma owner_auth_unsigned:
  "renderHumanForOwnerAuth E (a\<lparr>oa_SignatureBase64 := x, oa_WebauthnAuthDataBase64 := y, oa_WebauthnCDJBase64 := z\<rparr>) = renderHumanForOwnerAuth E a"
  "use_of (a\<lparr>oa_SignatureBase64 := x, oa_WebauthnAuthDataBase64 := y, oa_WebauthnCDJBase64 := z\<rparr>) h = use_of a h"
  "bundle_of (a\<lparr>oa_SignatureBase64 := x, oa_WebauthnAuthDataBase64 := y, oa_WebauthnCDJBase64 := z\<rparr>) b = bundle_of a b"
  by (simp_all add: renderHumanForOwnerAuth_def use_of_def bundle_of_def split: option.split)

lemma ComputeOwnerAuthChallenge_unsigned:
  "ComputeOwnerAuthChallenge E sha (a\<lparr>oa_SignatureBase64 := x, oa_WebauthnAuthDataBase64 := y, oa_WebauthnCDJBase64 := z\<rparr>)
   = ComputeOwnerAuthChallenge E sha a"
  by (simp add: ComputeOwnerAuthChallenge_def owner_auth_unsigned split: option.split prod.split)

lemma BuildOwnerAuthPrecompile_Inr:
  assumes "BuildOwnerAuthPrecompile S a = Inr pre"
  shows "\<exists>c sig authData cdj. ComputeOwnerAuthChallenge (sv_Solana S) (sv_sha S) a = Inr c
    \<and> b64_decode (oa_SignatureBase64 a) = Some sig
    \<and> BuildCredentialPrecompile (sv_Solana S) (sv_sha S) (oa_OwnerSlot a) (hex32z (OwnerAuthChallengeHex c)) sig authData cdj = Inr pre"
  using assms by (auto simp: BuildOwnerAuthPrecompile_def buildCredentialPrecompile_def Let_def split: if_splits option.splits)

text \<open>
  Property C19. A swap lands under the challenge that was served for it: every transaction
  \<open>AuthorizeSwap\<close> sends starts with a precompile by the named owner over the challenge
  \<open>SwapOwnerAuthChallenge\<close> returns for the same input and ends with a request for the digest
  \<open>SwapChallengeDigest\<close> returns, for that destination and amount.
\<close>

theorem AuthorizeSwap_under_served_challenge:
  assumes "authorizePlan S a = Inr (ixs, engine, meta)"
  shows "\<exists>c s sig authData cdj pre refreshes rq m.
     SwapOwnerAuthChallenge S a = Inr c \<and> decodeMemberSlotHex (sa_OwnerSlotHex a) = Inr s
     \<and> b64_decode (SignatureBase64 (sa_signed a)) = Some sig
     \<and> BuildCredentialPrecompile (sv_Solana S) (sv_sha S) s (hex32z (OwnerAuthChallengeHex c)) sig authData cdj = Inr pre
     \<and> ixs = pre # refreshes @ [m] \<and> RequestSignature (sv_Solana S) rq = Inr m
     \<and> MetadataDigest rq = meta \<and> SwapChallengeDigest S a = Inr (hex_lower (arr_bytes meta))
     \<and> optionalHex32 (sa_DestinationHex a) = Inr (ReqDestination rq) \<and> Amount rq = sa_Amount a"
proof -
  obtain s sponsor meta' e d dest m engine' dwallet aux pre where
    ne: "sa_OwnerSlotHex a \<noteq> []" and s: "decodeMemberSlotHex (sa_OwnerSlotHex a) = Inr s"
    and c: "swapChallenge S a = Inr (meta, e, d)" and dest: "optionalHex32 (sa_DestinationHex a) = Inr dest"
    and m: "assembleRequestSignatureIx S (swap_request a meta dest) sponsor = Inr (m, engine, dwallet, aux)"
    and pre: "BuildOwnerAuthPrecompile S
          \<lparr>oa_OwnerSlot = s, oa_SignatureBase64 = SignatureBase64 (sa_signed a),
           oa_WebauthnAuthDataBase64 = WebauthnAuthDataBase64 (sa_signed a),
           oa_WebauthnCDJBase64 = WebauthnCDJBase64 (sa_signed a), oa_Engine = engine, oa_DWallet = dwallet,
           oa_MetadataDigest = meta, oa_Destination = dest, oa_Amount = sa_Amount a,
           oa_SignatureScheme = sa_SignatureScheme a, oa_Swap = sa_Swap a, oa_Bundle = sa_Bundle a\<rparr> = Inr pre"
    and ixs: "ixs = with_refresh S pre aux m"
    using assms by (auto simp: authorizePlan_def split: if_splits option.splits)
  obtain rq where rq: "RequestSignature (sv_Solana S) rq = Inr m" "MetadataDigest rq = meta"
    "ReqDestination rq = dest" "Amount rq = sa_Amount a"
    using assemble_Inr [OF m] by (auto simp: swap_request_def or_zero_def)
  have ed: "e = engine" "d = dwallet"
    using assemble_Inr [OF m] c by (auto simp: swap_request_def swapChallenge_def or_zero_def split: option.splits)
  obtain ch sig authData cdj where ch: "SwapOwnerAuthChallenge S a = Inr ch"
    "b64_decode (SignatureBase64 (sa_signed a)) = Some sig"
    "BuildCredentialPrecompile (sv_Solana S) (sv_sha S) s (hex32z (OwnerAuthChallengeHex ch)) sig authData cdj = Inr pre"
    using BuildOwnerAuthPrecompile_Inr [OF pre] ne s c dest ed
      ComputeOwnerAuthChallenge_unsigned [of "sv_Solana S" "sv_sha S", where x = "[]" and y = "[]" and z = "[]" and a = "\<lparr>oa_OwnerSlot = s, oa_SignatureBase64 = SignatureBase64 (sa_signed a),
           oa_WebauthnAuthDataBase64 = WebauthnAuthDataBase64 (sa_signed a),
           oa_WebauthnCDJBase64 = WebauthnCDJBase64 (sa_signed a), oa_Engine = engine, oa_DWallet = dwallet,
           oa_MetadataDigest = meta, oa_Destination = dest, oa_Amount = sa_Amount a,
           oa_SignatureScheme = sa_SignatureScheme a, oa_Swap = sa_Swap a, oa_Bundle = sa_Bundle a\<rparr>"]
    by (auto simp: SwapOwnerAuthChallenge_def)
  have "\<exists>rf. ixs = pre # rf @ [m]" by (simp add: ixs with_refresh_def)
  moreover have "SwapChallengeDigest S a = Inr (hex_lower (arr_bytes meta))" by (simp add: SwapChallengeDigest_def c)
  ultimately show ?thesis using s ch rq dest by blast
qed


definition demo_swap :: SwapAuthorizeInput where
  "demo_swap = \<lparr>sa_DwalletAddress = ''dWallet'', sa_InitAuthorityHashHex = hex_lower (replicate 32 5),
     sa_MessageDigestHex = hex_lower (replicate 32 1), sa_UserPubkeyHex = hex_lower (replicate 32 3),
     sa_SignatureScheme = 0, sa_IkaCurve = 0, sa_IkaDWalletPubkeyHex = hex_lower (replicate 32 8),
     sa_IkaMsgMetadataDigestHex = [], sa_DestinationHex = hex_lower (replicate 32 4), sa_Amount = 10,
     sa_AssetIndex = 0, sa_OwnerSlotHex = hex_lower (0 # replicate 33 0), sa_signed = demo_signed 7, sa_Swap = None,
     sa_Bundle = None\<rparr>"

lemma demo_swap_plan: "\<exists>r. authorizePlan demo_service demo_swap = Inr r"
  by (simp del: hex_lower_simps add: demo_swap_def authorizePlan_def hex_lower_Nil decodeMemberSlotHex_def swapChallenge_def
      optionalHex32_def assembleRequestSignatureIx_def swap_request_def demo_resolve check_bundle_def
      RequestSignature_def BuildOwnerAuthPrecompile_def ComputeOwnerAuthChallenge_def renderHumanForOwnerAuth_def
      b64_opt_def ika_pubkey_def or_zero_def demo_plans)

theorem AuthorizeSwap_under_served_challenge_witness:
  "\<exists>c. SwapOwnerAuthChallenge demo_service demo_swap = Inr c"
proof -
  obtain ixs e m where "authorizePlan demo_service demo_swap = Inr (ixs, e, m)" using demo_swap_plan by auto
  from AuthorizeSwap_under_served_challenge [OF this] show ?thesis by blast
qed

end
