(* ===== verification/IntentChallenge.thy ===== *)
theory IntentChallenge
  imports IntentAuthorize PolicySubmits
begin

text \<open>
  The owner's challenge of an intent. What \<open>Challenge\<close> serves is what the policy engine recomputes
  when the intent is submitted, for every leg; and where the HTTP layer and the orchestrator disagree
  on the kind of a signature.
\<close>

lemma swapChallenge_indep:
  assumes "mustHex32 (sa_MessageDigestHex a) = mustHex32 m"
  shows "swapChallenge S (signed_input (a\<lparr>sa_MessageDigestHex := m\<rparr>) slot s sw b) = swapChallenge S (a\<lparr>sa_Swap := sw\<rparr>)"
    "swapChallenge S (signed_input a slot s sw b) = swapChallenge S (a\<lparr>sa_Swap := sw\<rparr>)"
  using assms by (simp_all add: swapChallenge_def signed_input_def cong: prod.case_cong option.case_cong)

text \<open>The signature is no part of the challenge.\<close>

lemma SwapOwnerAuthChallenge_unsigned:
  "SwapOwnerAuthChallenge S (signed_input a slot s sw b)
   = SwapOwnerAuthChallenge S (a\<lparr>sa_OwnerSlotHex := slot, sa_Swap := sw, sa_Bundle := b\<rparr>)"
  by (simp add: SwapOwnerAuthChallenge_def swapChallenge_def signed_input_def cong: prod.case_cong option.case_cong)

lemma persisted_digest_mustHex32:
  "persisted_digest s = Inr b \<Longrightarrow> mustHex32 (hex_lower b) = mustHex32 s"
  by (auto simp: persisted_digest_def mustHex32_def split: option.splits if_splits)

lemma computeLegMetadataDigest_Inr:
  assumes "computeLegMetadataDigest S it b sw = Inr m"
  shows "\<exists>e d. swapChallenge S ((swapAuthInput it)\<lparr>sa_MessageDigestHex := hex_lower b, sa_Swap := sw\<rparr>) = Inr (m, e, d)"
  using assms by (auto simp: computeLegMetadataDigest_def SwapChallengeDigest_def)

text \<open>Engine and wallet of a challenge do not depend on the message or the swap.\<close>

lemma swapChallenge_engine:
  assumes "swapChallenge S a = Inr (m, e, d)"
    "swapChallenge S (a\<lparr>sa_MessageDigestHex := x, sa_Swap := sw\<rparr>) = Inr (m', e', d')"
  shows "e' = e \<and> d' = d"
  using assms by (auto simp: swapChallenge_def split: option.splits)

lemma chain_tag_loop_printable:
  "\<forall>b \<in> set bs. \<not> (b < 0x20 \<or> b > 0x7E) \<Longrightarrow> chain_tag_loop i (bs @ replicate k 0) = Inr ()"
proof (induction bs arbitrary: i)
  case Nil
  show ?case by (cases k) simp_all
qed auto

lemma swapMeta_tag: "swapMetaFromIntent S it = Some w \<Longrightarrow> ValidateChainTag (sw_ChainTag w) = Inr ()"
proof -
  assume "swapMetaFromIntent S it = Some w"
  then obtain tag where tag: "encodeChainTag (it_ChainKind it) = Inr tag" "sw_ChainTag w = tag"
    by (auto simp: swapMetaFromIntent_def split: sum.splits if_splits)
  let ?k = "ascii (it_ChainKind it)"
  have p: "tag = mk_arr ?k" "\<forall>b \<in> set ?k. \<not> (b < 0x20 \<or> b > 0x7E)" "length ?k \<le> 8"
    using tag(1) by (auto simp: encodeChainTag_def list_ex_iff split: if_splits)
  have "arr_bytes tag = ?k @ replicate (8 - length ?k) 0"
    using p by (simp add: arr_bytes_mk_arr_gen)
  then show ?thesis
    using chain_tag_loop_printable [of ?k] p by (simp add: ValidateChainTag_def tag(2))
qed

lemma swapChallenge_other_fields [simp]:
  "swapChallenge S (a\<lparr>sa_OwnerSlotHex := slot, sa_Swap := sw, sa_Bundle := b\<rparr>) = swapChallenge S (a\<lparr>sa_Swap := sw\<rparr>)"
  by (simp add: swapChallenge_def cong: prod.case_cong option.case_cong)

text \<open>Both legs of a two-step swap hash the same bytes.\<close>

lemma two_leg_preimages:
  "BundlePreimage \<lparr>bu_Engine = e, bu_DWallet = d, bu_ThisMetadataDigest = ma, bu_OwnerSlot = sl, bu_Total = 2,
      bu_ThisIndex = 0, bu_OtherDigests = [mb]\<rparr>
   = BundlePreimage \<lparr>bu_Engine = e, bu_DWallet = d, bu_ThisMetadataDigest = mb, bu_OwnerSlot = sl, bu_Total = 2,
      bu_ThisIndex = 1, bu_OtherDigests = [ma]\<rparr>"
proof -
  have "order_loop 2 0 0 ma [mb] = [ma, mb]" "order_loop 2 0 1 mb [ma] = [ma, mb]"
    by (simp_all add: eval_nat_numeral)
  moreover have "unat (2 :: u8) = 2" by simp
  moreover have "\<not> (2 :: u8) \<le> 1" by (simp add: word_le_nat_alt)
  ultimately show ?thesis by (simp add: BundlePreimage_def)
qed

definition bundle_input_of :: "key \<Rightarrow> key \<Rightarrow> slot \<Rightarrow> hash \<Rightarrow> bundle_proof \<Rightarrow> bundle_input" where
  "bundle_input_of e d sl m bp =
     \<lparr>bu_Engine = e, bu_DWallet = d, bu_ThisMetadataDigest = m, bu_OwnerSlot = sl, bu_Total = bp_Total bp,
      bu_ThisIndex = bp_ThisIndex bp, bu_OtherDigests = bp_OtherDigests bp\<rparr>"

lemma bundle_challenge:
  assumes "swapChallenge S (a\<lparr>sa_Swap := sw\<rparr>) = Inr (m, e, d)"
    "case sw of None \<Rightarrow> True | Some w \<Rightarrow> ValidateChainTag (sw_ChainTag w) = Inr ()"
  shows "(\<exists>c. SwapOwnerAuthChallenge S (signed_input a slot s sw (Some bp)) = Inr c
       \<and> OwnerAuthChallengeHex c = x \<and> OwnerAuthPreimageHex c = y) \<longleftrightarrow>
     (\<exists>sl dst pre. slot \<noteq> [] \<and> decodeMemberSlotHex slot = Inr sl \<and> optionalHex32 (sa_DestinationHex a) = Inr dst
       \<and> BundlePreimage (bundle_input_of e d sl m bp) = Inr pre
       \<and> x = hex_lower (arr_bytes (sv_sha S pre)) \<and> y = hex_lower pre)"
  unfolding SwapOwnerAuthChallenge_unsigned
  using assms
  by (auto simp: SwapOwnerAuthChallenge_def ComputeOwnerAuthChallenge_def bundle_of_def bundle_input_of_def
      BundleHash_def Let_def split_beta split: option.splits)

lemma swap_leg_challenge:
  assumes "SwapOwnerAuthChallenge S (signed_input a slot s None (Some (bundle_proof_for 0 mb))) = Inr c"
    "swapChallenge S (a\<lparr>sa_Swap := None\<rparr>) = Inr (ma, e, d)"
    "swapChallenge S (a'\<lparr>sa_Swap := sw\<rparr>) = Inr (mb, e, d)"
    "case sw of None \<Rightarrow> True | Some w \<Rightarrow> ValidateChainTag (sw_ChainTag w) = Inr ()"
    "sa_DestinationHex a' = sa_DestinationHex a"
  shows "\<exists>c'. SwapOwnerAuthChallenge S (signed_input a' slot s' sw (Some (bundle_proof_for 1 ma))) = Inr c'
    \<and> OwnerAuthChallengeHex c' = OwnerAuthChallengeHex c \<and> OwnerAuthPreimageHex c' = OwnerAuthPreimageHex c"
  unfolding bundle_challenge [OF assms(3,4)]
  using bundle_challenge [OF assms(2), of slot s "bundle_proof_for 0 mb" "OwnerAuthChallengeHex c" "OwnerAuthPreimageHex c"]
    assms(1,5) two_leg_preimages [of e d ma _ mb]
  by (auto simp: bundle_input_of_def bundle_proof_for_def)

text \<open>
  Property C25. The challenge an owner signs is the one submission uses. For an intent without an
  approval the policy engine recomputes, from the input of the swap leg, the very challenge \<open>Challenge\<close>
  served. With an approval it serves one challenge for both legs, which the engine recomputes from the
  input of either leg, whatever the signature.
\<close>

theorem submit_uses_served_challenge:
  assumes "challenge_of S it slot now = Inr r"
  shows "\<exists>l. ch_Challenges r = [l] \<and>
    (if it_ApproveMessageDigestHex it = []
     then swap_leg_bundle S it = Inr None
       \<and> (\<forall>s. SwapOwnerAuthChallenge S (swap_leg_input S it slot s None) = Inr (cl_OwnerAuth l))
     else \<exists>ba bs. approve_leg_bundle S it = Inr ba \<and> swap_leg_bundle S it = Inr (Some bs)
       \<and> (\<forall>s. SwapOwnerAuthChallenge S (approve_leg_input it slot s ba) = Inr (cl_OwnerAuth l))
       \<and> (\<forall>s. \<exists>c. SwapOwnerAuthChallenge S (swap_leg_input S it slot s (Some bs)) = Inr c
             \<and> OwnerAuthChallengeHex c = OwnerAuthChallengeHex (cl_OwnerAuth l)
             \<and> OwnerAuthPreimageHex c = OwnerAuthPreimageHex (cl_OwnerAuth l)))"
proof (cases "it_ApproveMessageDigestHex it = []")
  case True
  then show ?thesis using assms
    by (auto simp: challenge_of_def buildSingleChallengeLeg_def swap_leg_bundle_def swap_leg_input_def
        SwapOwnerAuthChallenge_unsigned swapAuthInput_def Let_def)
next
  case False
  let ?a = "authInputWithDigest it (it_ApproveMessageDigestHex it)" and ?b = "swapAuthInput it" and ?w = "swapMetaFromIntent S it"
  obtain ad sd ma mb l where d: "persisted_digest (it_ApproveMessageDigestHex it) = Inr ad"
      "persisted_digest (it_MessageDigestHex it) = Inr sd" "computeLegMetadataDigest S it ad None = Inr ma"
      "computeLegMetadataDigest S it sd ?w = Inr mb"
    and l: "buildBundleChallengeLeg S it slot mb = Inr l" "ch_Challenges r = [l]"
    using assms False by (auto simp: challenge_of_def Let_def)
  have a: "signed_input ?a slot s None b = signed_input (?b\<lparr>sa_MessageDigestHex := it_ApproveMessageDigestHex it\<rparr>) slot s None b" for s b
    by (simp add: authInputWithDigest_def)
  have c: "SwapOwnerAuthChallenge S (signed_input ?a slot s None (Some (bundle_proof_for 0 mb))) = Inr (cl_OwnerAuth l)" for s
    using l(1) by (auto simp: buildBundleChallengeLeg_def SwapOwnerAuthChallenge_unsigned authInputWithDigest_def swapAuthInput_def)
  obtain e f where ma: "swapChallenge S (?b\<lparr>sa_MessageDigestHex := hex_lower ad, sa_Swap := None\<rparr>) = Inr (ma, e, f)"
    using computeLegMetadataDigest_Inr [OF d(3)] by blast
  obtain e' f' where mb: "swapChallenge S (?b\<lparr>sa_MessageDigestHex := hex_lower sd, sa_Swap := ?w\<rparr>) = Inr (mb, e', f')"
    using computeLegMetadataDigest_Inr [OF d(4)] by blast
  have "e' = e \<and> f' = f"
    using swapChallenge_engine [OF ma, where x = "hex_lower sd" and sw = ?w and m' = mb and e' = e' and d' = f'] mb by simp
  then have "swapChallenge S (?b\<lparr>sa_Swap := ?w\<rparr>) = Inr (mb, e, f)"
    using mb persisted_digest_mustHex32 [OF d(2)]
    by (simp add: swapChallenge_def swapAuthInput_def cong: prod.case_cong option.case_cong)
  moreover have "swapChallenge S (?a\<lparr>sa_Swap := None\<rparr>) = Inr (ma, e, f)"
    using ma persisted_digest_mustHex32 [OF d(1)]
    by (simp add: swapChallenge_def swapAuthInput_def authInputWithDigest_def cong: prod.case_cong option.case_cong)
  ultimately have "\<exists>c. SwapOwnerAuthChallenge S (signed_input ?b slot s ?w (Some (bundle_proof_for 1 ma))) = Inr c
      \<and> OwnerAuthChallengeHex c = OwnerAuthChallengeHex (cl_OwnerAuth l)
      \<and> OwnerAuthPreimageHex c = OwnerAuthPreimageHex (cl_OwnerAuth l)" for s
    by (intro swap_leg_challenge [OF c]) (auto simp: swapMeta_tag authInputWithDigest_def swapAuthInput_def split: option.split)
  then show ?thesis using False d l(2) c
    by (simp add: approve_leg_bundle_def swap_leg_bundle_def swap_leg_input_def approve_leg_input_def)
qed

text \<open>
  Property C26. A swap that needs an approval can be challenged but not submitted over HTTP: the
  challenge is of kind \<open>bundle\<close>, the request validator admits only the kinds \<open>swap\<close> and \<open>approve\<close>, and the
  orchestrator accepts only \<open>bundle\<close>; so every submission of such an intent is refused with 401 or 400,
  before anything but the intent has been read.
\<close>

theorem approval_swaps_cannot_be_submitted:
  assumes "it_ApproveMessageDigestHex it \<noteq> []"
  shows "(\<forall>resp. challenge_of S it slot now = Inr resp \<longrightarrow> map cl_Kind (ch_Challenges resp) = [''bundle''])
    \<and> (handle_submit W u r \<in> {Ret (Inl (HttpError 401 ''unauthorized'')), Ret (Inl (HttpError 400 ''validation_failed''))}
       \<or> (\<exists>f. handle_submit W u r = Do (GetForUser (sq_IntentID r) u) f
           \<and> f (ARow it) = Ret (Inl (HttpError 400 ''owner_auth_bundle_required''))))"
proof -
  have v: "validateOwnerSignatures (sq_OwnerSignatures r) True = Inl (HttpError 400 ''owner_auth_bundle_required'')"
    if "submit_valid W r"
    using that by (cases "sq_OwnerSignatures r") (auto simp: submit_valid_def owner_signature_valid_def validateOwnerSignatures_def)
  show ?thesis using assms v
    by (auto simp: challenge_of_def buildBundleChallengeLeg_def Let_def handle_submit_def handle_def Submit_def
        load_intent_def bind_ok_def pure_ok_def answer_facts row_of_def)
qed

end
