(* ===== verification/IntentRuns.thy ===== *)
theory IntentRuns
  imports IntentPrepare IntentChallenge
begin

text \<open>
  Runs of the system, computed: a schedule names which process moves next and what the upstreams answer.
  A schedule that runs to its end reaches its world, so runs witness the theorems of the intents and
  show what the reconciler can do to a submission that is still under way.
\<close>

section \<open>Schedules\<close>

datatype request =
    RPrepare string string prepareRequest
  | RSubmit string submitRequest
  | RSweep

primrec request_prog :: "Orchestrator \<Rightarrow> request \<Rightarrow> unit prog" where
  "request_prog W (RPrepare u k r) = run (Prepare W u k r)"
| "request_prog W (RSubmit u r) = run (Submit W u r)"
| "request_prog W RSweep = sweep W"

primrec request_user :: "request \<Rightarrow> string option" where
  "request_user (RPrepare u k r) = Some u"
| "request_user (RSubmit u r) = Some u"
| "request_user RSweep = None"

text \<open>One process at a time: its calls are answered by the store (with the next id) or by an upstream.\<close>

datatype event =
    Store string
  | Answer ans

type_synonym stage = "Intent list \<times> history \<times> unit prog"

fun drive :: "Orchestrator \<Rightarrow> int \<Rightarrow> event list \<Rightarrow> stage \<Rightarrow> stage option" where
  "drive W t [] s = Some s"
| "drive W t (Store fresh # es) (rows, h, Do c f) =
     (if or_pguuid W fresh = Some fresh \<and> fresh \<notin> it_ID ` set rows
      then (case db_apply W t fresh c rows of
              None \<Rightarrow> None
            | Some (rows', a) \<Rightarrow> drive W t es (rows', h @ [(c, a)], f a))
      else None)"
| "drive W t (Answer a # es) (rows, h, Do c f) =
     (if db_apply W t [] c rows = None then drive W t es (rows, h @ [(c, a)], f a) else None)"
| "drive W t (e # es) (rows, h, Ret u) = None"

lemma request_client: "client W (request_user q) (request_prog W q)"
  by (cases q) (auto intro: client.intros)

text \<open>A stage of the process at place \<open>k\<close> of a world.\<close>

definition place :: "world \<Rightarrow> nat \<Rightarrow> stage \<Rightarrow> world" where
  "place w k s = (case s of (rows, h, p) \<Rightarrow>
     w\<lparr>wo_rows := rows, wo_procs := (wo_procs w)[k := (wo_procs w ! k)\<lparr>pr_hist := h, pr_prog := p\<rparr>]\<rparr>)"

lemma place_place [simp]: "place (place w k s) k s' = place w k s'"
  by (cases "k < length (wo_procs w)") (simp_all add: place_def list_update_beyond split: prod.splits)

lemma drive_reaches:
  "drive W (wo_clock w) es s = Some s' \<Longrightarrow> k < length (wo_procs w) \<Longrightarrow> reachable W (place w k s)
     \<Longrightarrow> reachable W (place w k s')"
proof (induction W "wo_clock w" es s rule: drive.induct)
  case (2 W fresh es rows h c f)
  then obtain rows' a where a: "or_pguuid W fresh = Some fresh" "fresh \<notin> it_ID ` set rows"
    "db_apply W (wo_clock w) fresh c rows = Some (rows', a)" by (auto split: if_splits option.splits)
  let ?w = "place w k (rows, h, Do c f)"
  have "serve W (wo_clock ?w) c (wo_rows ?w) rows' a" using a by (auto simp: place_def intro: served)
  then have "step W ?w (place w k (rows', h @ [(c, a)], f a))"
    using step_call [of k ?w "(wo_procs w ! k)\<lparr>pr_hist := h, pr_prog := Do c f\<rparr>" c f W rows' a] 2(3)
    by (simp add: place_def)
  then show ?case using 2 a reach_step by (auto split: if_splits)
next
  case (3 W a es rows h c f)
  then have a: "db_apply W (wo_clock w) [] c rows = None" by (auto split: if_splits)
  let ?w = "place w k (rows, h, Do c f)"
  have "serve W (wo_clock ?w) c (wo_rows ?w) rows a" using a by (auto simp: place_def intro: upstream)
  then have "step W ?w (place w k (rows, h @ [(c, a)], f a))"
    using step_call [of k ?w "(wo_procs w ! k)\<lparr>pr_hist := h, pr_prog := Do c f\<rparr>" c f W rows a] 3(3)
    by (simp add: place_def)
  then show ?case using 3 a reach_step by (auto split: if_splits)
qed simp_all

lemma start_reaches:
  "reachable W w \<Longrightarrow> reachable W (w\<lparr>wo_procs := wo_procs w @ [\<lparr>pr_user = request_user q, pr_hist = [], pr_prog = request_prog W q\<rparr>]\<rparr>)"
  by (rule reach_step [OF _ step_spawn [OF request_client]])

lemma time_reaches: "reachable W w \<Longrightarrow> wo_clock w \<le> t \<Longrightarrow> reachable W (w\<lparr>wo_clock := t\<rparr>)"
  by (rule reach_step [OF _ step_time])

section \<open>Waiting for an approval\<close>

text \<open>A program against a stream of answers; a program is finite along every branch.\<close>

primrec outcome :: "'r prog \<Rightarrow> (nat \<Rightarrow> ans) \<Rightarrow> nat \<Rightarrow> 'r" where
  "outcome (Ret x) ans n = x"
| "outcome (Do c f) ans n = outcome (f (ans n)) ans (Suc n)"

lemma poll_round_outcome:
  "outcome (poll_rounds (Suc m) it h d) ans n =
     (case receipt_of (ans n) of
        Some (True, b) \<Rightarrow> (True, b)
      | _ \<Rightarrow> (case clock_of (ans (Suc n)) of
           Some now \<Rightarrow> if now > d then (False, False) else outcome (poll_rounds m it h d) ans (Suc (Suc n))
         | None \<Rightarrow> (False, False)))"
  by (simp add: checkReceiptOnce_def split: option.split bool.split)

lemma poll_rounds_stable:
  assumes "\<And>j now. clock_of (ans (n + 2 * j + 1)) = Some now \<Longrightarrow> t + 2 * int j \<le> now"
    "t + 2 * int m > d"
  shows "outcome (poll_rounds (Suc m + k) it h d) ans n = outcome (poll_rounds (Suc m) it h d) ans n"
  using assms
proof (induction m arbitrary: n t)
  case 0
  have "d < now" if "clock_of (ans (Suc n)) = Some now" for now 
    using "0.prems"(1) [of 0 now] "0.prems"(2) that by simp
  then show ?case by (auto simp: poll_round_outcome simp del: poll_rounds.simps(2) split: option.split bool.split)
next
  case (Suc m)
  have later: "clock_of (ans (Suc (Suc n) + 2 * j + 1)) = Some now \<Longrightarrow> t + 2 + 2 * int j \<le> now" for j now
    using Suc.prems(1) [of "Suc j" now] by simp
  have "outcome (poll_rounds (Suc m + k) it h d) ans (Suc (Suc n)) = outcome (poll_rounds (Suc m) it h d) ans (Suc (Suc n))"
    by (rule Suc.IH [of _ "t + 2"]) (use later Suc.prems(2) in auto)
  then show ?case
    by (simp add: poll_round_outcome del: poll_rounds.simps(2) split: option.split bool.split)
qed

text \<open>With a clock that moves two seconds per wait, the rounds of \<open>pollApproveReceipt\<close> never run out:
  any larger number gives the same outcome.\<close>

lemma poll_rounds_suffice:
  assumes "\<And>j now. clock_of (ans (n + 2 * j + 1)) = Some now \<Longrightarrow> t + 2 * int j \<le> now"
  shows "outcome (poll_rounds (maxWait div 2 + 2 + k) it h (t + int maxWait)) ans n
    = outcome (poll_rounds (maxWait div 2 + 2) it h (t + int maxWait)) ans n"
proof -
  have "t + 2 * int (maxWait div 2 + 1) > t + int maxWait" by simp
  from poll_rounds_stable [OF assms this] show ?thesis by (simp del: poll_rounds.simps(2))
qed

section \<open>A swap from the quote to the broadcast\<close>

definition demo_W :: Orchestrator where
  "demo_W = \<lparr>or_authorizer = demo_service\<lparr>sv_PublicKeyFromBase58 := (\<lambda>_. Inl ''offline'')\<rparr>, or_audit = False,
     or_webhooks = False, or_ttl = 60, or_numeric = Some, or_uuid = (\<lambda>_. True), or_base64 = (\<lambda>_. True),
     or_pguuid = Some, or_jsonb = Some\<rparr>"

definition demo_quote :: prepareRequest where
  "demo_quote = \<lparr>pq_DwalletAddress = ''w'', pq_DwalletPublicKeyHex = ''aa'', pq_OwnerPubkeyHex = ''bb'',
     pq_InitAuthorityHashHex = ''cc'', pq_IkaCurve = 0, pq_ChainNativeAddress = ''0x1'', pq_ChainKind = ''evm'',
     pq_FromChain = ''1'', pq_ToChain = ''1'', pq_FromToken = ''f'', pq_ToToken = ''t'', pq_ToAddress = [],
     pq_FromAmount = ''5'', pq_SlippageBps = 0\<rparr>"

definition demo_built :: ibPrepareResult where
  "demo_built = \<lparr>ib_ChainKind = ''evm'', ib_ChainID = 1, ib_SignChainID = ''eip155:1'', ib_SignScheme = 0,
     ib_ChainNativeAddress = ''0x1'', ib_UnsignedTxB64 = ''AAAA'', ib_MessageToSignHex = ''00'',
     ib_MessageDigestHex = ''d1'', ib_UnsignedTxHash = ''h1'', ib_AmountOut = ''4'', ib_AmountOutMin = ''4'',
     ib_TransactionFeeUSD = [], ib_NativeFeeEstimate = ''0'', ib_RouteSnapshot = [], ib_EVMNonce = 7, ib_Approval = None\<rparr>"

definition demo_message :: ikaPrepareMsg where
  "demo_message = \<lparr>pm_PreprocessedHex = ''00'', pm_DigestHex = ''d1'', pm_MessageMetadataHex = [],
     pm_IkaMsgMetadataDigestHex = [], pm_Scheme = 0\<rparr>"

definition demo_submit :: submitRequest where
  "demo_submit = \<lparr>sq_IntentID = ''A'', sq_Passphrase = ''pass'', sq_OwnerSlotHex = ''00'',
     sq_OwnerSignatures = [\<lparr>os_Kind = ''swap'', os_SignatureBase64 = ''c2ln'', os_WebAuthnAuthenticatorDataB64 = [],
       os_WebAuthnClientDataJSONB64 = []\<rparr>]\<rparr>"

definition demo_auth :: AuthorizeResult where
  "demo_auth = \<lparr>az_TxSignature = ''tx'', az_ApprovalSlot = 9, az_EngineAddress = ''e'', az_MetadataDigestHex = ''ee''\<rparr>"

text \<open>Evaluation stops at the next call: what follows it is evaluated once its answer is known.\<close>

lemma Do_weak_cong: "c = c' \<Longrightarrow> Do c f = Do c' f"
  by simp

lemma bind_weak_cong: "p = p' \<Longrightarrow> bind_prog p f = bind_prog p' f"
  by simp

lemma bind_ok_weak_cong: "p = p' \<Longrightarrow> bind_ok p f = bind_ok p' f"
  by simp

lemma pure_ok_weak_cong: "r = r' \<Longrightarrow> pure_ok r f = pure_ok r' f"
  by simp

lemmas eval_congs = Do_weak_cong bind_weak_cong bind_ok_weak_cong pure_ok_weak_cong

lemma demo_W_simps [simp]:
  "or_authorizer demo_W = demo_service\<lparr>sv_PublicKeyFromBase58 := (\<lambda>_. Inl ''offline'')\<rparr>"
  "or_audit demo_W = False"
  "or_webhooks demo_W = False"
  "or_ttl demo_W = 60"
  "or_numeric demo_W = Some"
  "or_uuid demo_W = (\<lambda>_. True)"
  "or_base64 demo_W = (\<lambda>_. True)"
  "or_pguuid demo_W = Some"
  "or_jsonb demo_W = Some"
  by (simp_all add: demo_W_def)

lemma demo_quote_simps [simp]:
  "pq_DwalletAddress demo_quote = ''w''"
  "pq_DwalletPublicKeyHex demo_quote = ''aa''"
  "pq_OwnerPubkeyHex demo_quote = ''bb''"
  "pq_InitAuthorityHashHex demo_quote = ''cc''"
  "pq_IkaCurve demo_quote = 0"
  "pq_ChainNativeAddress demo_quote = ''0x1''"
  "pq_ChainKind demo_quote = ''evm''"
  "pq_FromChain demo_quote = ''1''"
  "pq_ToChain demo_quote = ''1''"
  "pq_FromToken demo_quote = ''f''"
  "pq_ToToken demo_quote = ''t''"
  "pq_ToAddress demo_quote = []"
  "pq_FromAmount demo_quote = ''5''"
  "pq_SlippageBps demo_quote = 0"
  by (simp_all add: demo_quote_def)

lemma demo_built_simps [simp]:
  "ib_ChainKind demo_built = ''evm''"
  "ib_ChainID demo_built = 1"
  "ib_SignChainID demo_built = ''eip155:1''"
  "ib_SignScheme demo_built = 0"
  "ib_ChainNativeAddress demo_built = ''0x1''"
  "ib_UnsignedTxB64 demo_built = ''AAAA''"
  "ib_MessageToSignHex demo_built = ''00''"
  "ib_MessageDigestHex demo_built = ''d1''"
  "ib_UnsignedTxHash demo_built = ''h1''"
  "ib_AmountOut demo_built = ''4''"
  "ib_AmountOutMin demo_built = ''4''"
  "ib_TransactionFeeUSD demo_built = []"
  "ib_NativeFeeEstimate demo_built = ''0''"
  "ib_RouteSnapshot demo_built = []"
  "ib_EVMNonce demo_built = 7"
  "ib_Approval demo_built = None"
  by (simp_all add: demo_built_def)

lemma demo_message_simps [simp]:
  "pm_PreprocessedHex demo_message = ''00''"
  "pm_DigestHex demo_message = ''d1''"
  "pm_MessageMetadataHex demo_message = []"
  "pm_IkaMsgMetadataDigestHex demo_message = []"
  "pm_Scheme demo_message = 0"
  by (simp_all add: demo_message_def)

lemma demo_submit_simps [simp]:
  "sq_IntentID demo_submit = ''A''"
  "sq_Passphrase demo_submit = ''pass''"
  "sq_OwnerSlotHex demo_submit = ''00''"
  "sq_OwnerSignatures demo_submit = [\<lparr>os_Kind = ''swap'', os_SignatureBase64 = ''c2ln'', os_WebAuthnAuthenticatorDataB64 = [], os_WebAuthnClientDataJSONB64 = []\<rparr>]"
  by (simp_all add: demo_submit_def)

lemma demo_values [simp]:
  "big_parse ''0'' = Some 0" "reencode_hex ''00'' = Some ''00''" "reencode_hex [] = Some []"
  "trim_space ''0'' = ''0''"
  by code_simp+

lemma demo_tx [simp]: "reencode_b64 ''AAAA'' = Some ''AAAA''"
proof -
  have "b64_encode [0, 0, 0] = ''AAAA''" by code_simp
  then show ?thesis using b64_decode_encode [of "[0, 0, 0]"] by (simp add: reencode_b64_def del: b64_encode.simps)
qed

lemma demo_offline [simp]:
  "SwapChallengeDigest (demo_service\<lparr>sv_PublicKeyFromBase58 := (\<lambda>_. Inl ''offline'')\<rparr>) a = Inl (BadInput ''offline'')"
  by (simp add: SwapChallengeDigest_def swapChallenge_def)

lemmas eval_defs =
  run_def bind_ok_def pure_ok_def Let_def
  Prepare_def buildSwap_def ok_or_def resolveFromAddress_def resolveEVMFromAddress_def prepared_of_def message_of_def
  check_drift_def checkNativeBalance_def prepare_approval_def insert_intent_def inserted_of_def
  db_insert_def evm_in_flight_def is_open_def time_of_def
  Submit_def load_intent_def row_of_def db_get_def validateOwnerSignatures_def submit_prepared_def db_cas_def
  db_risk_def text_of_def db_update_def runSwap_def revalidate_def compare_derived_def derived_of_def find_signature_def
  swap_leg_bundle_def sign_and_broadcast_def authorizeAndSignSwap_def auth_of_def signWithApproval_def
  sign_answer_def signature_of_def broadcastTx_def broadcast_answer_def final_of_def appendAudit_def publish_def respond_def
  fail_with_def

definition demo_intent :: Intent where
  "demo_intent = new_intent ''u'' [] demo_quote demo_built demo_message 60"

lemma demo_intent_eq [simp]: "new_intent ''u'' [] demo_quote demo_built demo_message 60 = demo_intent"
  by (simp add: demo_intent_def)

lemma demo_intent_simps [simp]:
  "it_UserID demo_intent = ''u''" "it_ChainKind demo_intent = ''evm''" "it_ID demo_intent = []"
  "it_Status demo_intent = StatusPrepared" "it_ExpiresAt demo_intent = 60"
  by (simp_all add: demo_intent_def new_intent_def)

definition demo_row :: Intent where
  "demo_row = demo_intent\<lparr>it_ID := ''A'', it_RouteSnapshot := ''{}'', it_RiskSnapshot := ''{}''\<rparr>"

lemma demo_row_stored [simp]: "stored_row demo_W ''A'' 0 demo_intent = Some demo_row"
  by (simp add: demo_row_def demo_intent_def new_intent_def stored_row_def nullif_def nonEmptyJSON_def)

lemma demo_row_simps [simp]:
  "it_ID demo_row = ''A''" "it_UserID demo_row = ''u''" "it_Status demo_row = StatusPrepared"
  "it_ExpiresAt demo_row = 60" "it_ApproveMessageDigestHex demo_row = []" "it_ChainKind demo_row = ''evm''"
  "it_UnsignedTxB64 demo_row = ''AAAA''" "it_SignMessageHex demo_row = ''00''" "it_MessageDigestHex demo_row = ''d1''"
  "it_UnsignedTxHash demo_row = ''h1''" "it_APIKeyID demo_row = []" "it_UpdatedAt demo_row = 0" "it_SwapTxHash demo_row = []"
  by (simp_all add: demo_row_def demo_intent_def new_intent_def)

definition quote_script :: "event list" where
  "quote_script = [Answer (APrepared demo_built), Answer (AMessage demo_message), Store ''A'', Store ''A'']"

definition quote_history :: history where
  "quote_history = [(IbPrepare demo_quote ''0x1'', APrepared demo_built),
     (IkaPrepareMessage ''eip155:1'' ''00'', AMessage demo_message), (Now, ATime 0),
     (InsertPrepared demo_intent, AInserted ''A'' 0)]"

lemma quote_runs:
  "drive demo_W 0 quote_script ([], [], request_prog demo_W (RPrepare ''u'' [] demo_quote)) = Some ([demo_row], quote_history, Ret ())"
  by (simp add: quote_script_def quote_history_def eval_defs cong: eval_congs)

text \<open>The row while the submission holds it, and once the swap has been broadcast.\<close>

definition claimed_row :: Intent where
  "claimed_row = demo_row\<lparr>it_Status := StatusAuthorizing\<rparr>"

definition broadcast_row :: "int \<Rightarrow> Intent" where
  "broadcast_row t = demo_row\<lparr>it_ApprovalTxSig := ''tx'', it_ApprovalSlot := 9, it_PresignSessionID := [],
     it_PolicyMetadataDigestHex := ''ee'', it_Status := StatusSubmitted, it_SwapTxHash := ''0xhash'', it_UpdatedAt := t\<rparr>"

lemma demo_auth_simps [simp]:
  "az_TxSignature demo_auth = ''tx''" "az_ApprovalSlot demo_auth = 9" "az_MetadataDigestHex demo_auth = ''ee''"
  by (simp_all add: demo_auth_def)

definition claim_script :: "event list" where
  "claim_script = [Store ''n'', Store ''n'', Store ''n'']"

definition broadcast_script :: "event list" where
  "broadcast_script = [Answer (AText []), Store ''n'', Answer (ADerived ''00'' ''d1'' ''h1''), Answer (AAuth demo_auth),
     Answer (AText []), Store ''n'', Answer (ASignature ''sig''), Store ''n'', Answer (AFinal ''0xhash'' False), Store ''n'']"

definition claim_history :: history where
  "claim_history = [(GetForUser ''A'' ''u'', ARow demo_row), (Now, ATime 0),
     (CASStatus ''A'' StatusPrepared StatusAuthorizing, ADone)]"

definition demo_tx :: finalize_body where
  "demo_tx = \<lparr>fb_ChainKind = ''evm'', fb_UnsignedTxB64 = ''AAAA'', fb_SignatureB64 = ''sig'',
     fb_SignerPubkeyHex = it_DwalletPublicKeyHex demo_row, fb_ChainID = atoiOrZero (it_ChainID demo_row)\<rparr>"

definition before_broadcast :: history where
  "before_broadcast = claim_history @
     [(EvaluateSwapRisk ''00'' (it_SignChainID demo_row) ''d1'' (it_IkaDwalletAddress demo_row)
         (it_DwalletPublicKeyHex demo_row) ''u'', AText []),
      (SaveRisk ''A'' [], ADone),
      (DeriveMessage ''evm'' ''AAAA'', ADerived ''00'' ''d1'' ''h1''),
      (AuthorizeSwapCall (swap_leg_input (or_authorizer demo_W) demo_row ''00''
         (hd (sq_OwnerSignatures demo_submit)) None), AAuth demo_auth),
      (HarvestPresignCall ''u'' ''ee'', AText []),
      (SaveApproval ''A'' ''tx'' 9 [] ''ee'', ADone),
      (IkaSign \<lparr>sg_DwalletAddress = it_IkaDwalletAddress demo_row, sg_Passphrase = ''pass'', sg_MessageHex = ''00'',
         sg_Scheme = it_SignScheme demo_row, sg_ApprovalTxSignature = ''tx'', sg_ApprovalSlot = 9,
         sg_MessageMetadataHex = it_MessageMetadataHex demo_row, sg_PresignSessionIdHex = []\<rparr>, ASignature ''sig''),
      (SetStatus ''A'' StatusBroadcasting, ADone)]"

definition broadcast_history :: history where
  "broadcast_history = before_broadcast @
     (Finalize SwapLeg ''A'' demo_tx, AFinal ''0xhash'' False) # [(SaveBroadcast ''A'' StatusSubmitted ''0xhash'', ADone)]"

text \<open>What a submission that has claimed the row still has to do.\<close>

definition claimed_prog :: "unit prog" where
  "claimed_prog =
     (case drive demo_W 0 claim_script ([demo_row], [], request_prog demo_W (RSubmit ''u'' demo_submit)) of
        Some (rows, h, p) \<Rightarrow> p | None \<Rightarrow> Ret ())"

lemma claim_runs:
  "drive demo_W 0 claim_script ([demo_row], [], request_prog demo_W (RSubmit ''u'' demo_submit))
     = Some ([claimed_row], claim_history, claimed_prog)"
  by (simp add: claimed_prog_def claim_script_def claim_history_def claimed_row_def eval_defs cong: eval_congs)

lemma broadcast_runs:
  "drive demo_W t broadcast_script ([claimed_row], claim_history, claimed_prog)
     = Some ([broadcast_row t], broadcast_history, Ret ())"
  by (simp add: claimed_prog_def claim_script_def broadcast_script_def claim_history_def broadcast_history_def
      before_broadcast_def demo_tx_def claimed_row_def broadcast_row_def eval_defs cong: eval_congs)

section \<open>The worlds the runs reach\<close>

lemma advance:
  assumes "reachable W w" "k < length (wo_procs w)"
    "drive W (wo_clock w) es (wo_rows w, pr_hist (wo_procs w ! k), pr_prog (wo_procs w ! k)) = Some s"
  shows "reachable W (place w k s)"
proof -
  have "place w k (wo_rows w, pr_hist (wo_procs w ! k), pr_prog (wo_procs w ! k)) = w" by (simp add: place_def)
  then show ?thesis using drive_reaches [OF assms(3,2)] assms(1) by simp
qed

abbreviation ended :: "string \<Rightarrow> history \<Rightarrow> proc" where
  "ended u h \<equiv> \<lparr>pr_user = Some u, pr_hist = h, pr_prog = Ret ()\<rparr>"

definition quoted_world :: world where
  "quoted_world = \<lparr>wo_rows = [demo_row], wo_procs = [ended ''u'' quote_history], wo_clock = 0\<rparr>"

lemma quoted_reachable: "reachable demo_W quoted_world"
  using advance [OF start_reaches [OF reach_init [of demo_W]], of 0 "RPrepare ''u'' [] demo_quote" quote_script] quote_runs
  by (simp add: empty_world_def quoted_world_def place_def)

definition claimed_world :: world where
  "claimed_world = \<lparr>wo_rows = [claimed_row], wo_procs = [ended ''u'' quote_history,
     \<lparr>pr_user = Some ''u'', pr_hist = claim_history, pr_prog = claimed_prog\<rparr>], wo_clock = 0\<rparr>"

lemma claimed_reachable: "reachable demo_W claimed_world"
  using advance [OF start_reaches [OF quoted_reachable], of 1 "RSubmit ''u'' demo_submit" claim_script] claim_runs
  by (simp add: quoted_world_def claimed_world_def place_def)

definition broadcast_world :: world where
  "broadcast_world = \<lparr>wo_rows = [broadcast_row 0],
     wo_procs = [ended ''u'' quote_history, ended ''u'' broadcast_history], wo_clock = 0\<rparr>"

lemma broadcast_reachable: "reachable demo_W broadcast_world"
  using advance [OF claimed_reachable, of 1 broadcast_script] broadcast_runs [of 0]
  by (simp add: claimed_world_def broadcast_world_def place_def)

section \<open>A sweep that meets a live submission\<close>

text \<open>Two minutes after the submission claimed the row, a sweep lists it; the submission then broadcasts,
  and only then does the sweep write.\<close>

definition swept_prog :: "unit prog" where
  "swept_prog =
     (case drive demo_W 121 [Store ''n'', Store ''n''] ([claimed_row], [], request_prog demo_W RSweep) of
        Some (rows, h, p) \<Rightarrow> p | None \<Rightarrow> Ret ())"

definition swept_history :: history where
  "swept_history = [(ListOpenOlderThan 120 100, ARows [claimed_row]), (Now, ATime 121)]"

lemma claimed_row_simps [simp]:
  "it_ID claimed_row = ''A''" "it_Status claimed_row = StatusAuthorizing" "it_UpdatedAt claimed_row = 0"
  by (simp_all add: claimed_row_def)

lemma sweep_runs:
  "drive demo_W 121 [Store ''n'', Store ''n''] ([claimed_row], [], request_prog demo_W RSweep)
     = Some ([claimed_row], swept_history, swept_prog)"
  by (simp add: swept_prog_def swept_history_def sweep_def db_list_def is_open_def rows_of_def cong: eval_congs)

lemma sweep_fails:
  "drive demo_W 121 [Store ''n''] ([broadcast_row 121], swept_history, swept_prog)
     = Some ([(broadcast_row 121)\<lparr>it_Status := StatusFailed\<rparr>],
         swept_history @ [(SetError ''A'' StatusFailed, ADone)], Ret ())"
  by (simp add: swept_prog_def swept_history_def sweep_def db_list_def is_open_def rows_of_def time_of_def
      resolve_def db_update_def broadcast_row_def cong: eval_congs)

abbreviation (input) sweeper :: "history \<Rightarrow> unit prog \<Rightarrow> proc" where
  "sweeper h p \<equiv> \<lparr>pr_user = None, pr_hist = h, pr_prog = p\<rparr>"

definition swept_world :: world where
  "swept_world = \<lparr>wo_rows = [claimed_row], wo_procs = [ended ''u'' quote_history,
     \<lparr>pr_user = Some ''u'', pr_hist = claim_history, pr_prog = claimed_prog\<rparr>, sweeper swept_history swept_prog],
     wo_clock = 121\<rparr>"

lemma swept_reachable: "reachable demo_W swept_world"
proof -
  have "reachable demo_W (claimed_world\<lparr>wo_clock := 121\<rparr>)"
    by (rule time_reaches [OF claimed_reachable]) (simp add: claimed_world_def)
  from advance [OF start_reaches [OF this], of 2 RSweep "[Store ''n'', Store ''n'']"] sweep_runs
  show ?thesis by (simp add: claimed_world_def swept_world_def place_def)
qed

definition overtaken_world :: world where
  "overtaken_world = \<lparr>wo_rows = [broadcast_row 121], wo_procs = [ended ''u'' quote_history,
     ended ''u'' broadcast_history, sweeper swept_history swept_prog], wo_clock = 121\<rparr>"

lemma overtaken_reachable: "reachable demo_W overtaken_world"
  using advance [OF swept_reachable, of 1 broadcast_script] broadcast_runs [of 121]
  by (simp add: swept_world_def overtaken_world_def place_def)

definition failed_world :: world where
  "failed_world = \<lparr>wo_rows = [(broadcast_row 121)\<lparr>it_Status := StatusFailed\<rparr>], wo_procs = [ended ''u'' quote_history,
     ended ''u'' broadcast_history, sweeper (swept_history @ [(SetError ''A'' StatusFailed, ADone)]) (Ret ())],
     wo_clock = 121\<rparr>"

lemma failed_reachable: "reachable demo_W failed_world"
  using advance [OF overtaken_reachable, of 2 "[Store ''n'']"] sweep_fails
  by (simp add: overtaken_world_def failed_world_def place_def)

definition asks_chain :: "op \<times> ans \<Rightarrow> bool" where
  "asks_chain = (\<lambda>(c, a). case c of TxStatus h f t \<Rightarrow> True | _ \<Rightarrow> False)"

text \<open>
  Property C28. The reconciler may fail a swap that is on its way: a sweep writes from a list read before,
  without comparing the status. There is a run in which every call succeeds, the broadcaster accepts
  the swap, and the row ends as \<open>FAILED\<close> although the chain was never asked; the guard that keeps a
  second EVM intent of the same address out is then lifted.
\<close>

theorem reconciler_can_fail_a_live_swap:
  "\<exists>W w r P b hash. reachable W w \<and> wo_rows w = [r] \<and> it_Status r = StatusFailed \<and> it_SwapTxHash r = hash
     \<and> P \<in> set (wo_procs w) \<and> (Finalize SwapLeg (it_ID r) b, AFinal hash False) \<in> set (pr_hist P)
     \<and> list_all (\<lambda>P. pr_prog P = Ret () \<and> \<not> list_ex (\<lambda>(c, a). asks_chain (c, a) \<or> a = AErr) (pr_hist P)) (wo_procs w)
     \<and> it_ChainKind r = ''evm'' \<and> \<not> evm_in_flight W (wo_rows w) r"
proof -
  let ?P = "ended ''u'' broadcast_history" and ?r = "(broadcast_row 121)\<lparr>it_Status := StatusFailed\<rparr>"
  have "(Finalize SwapLeg (it_ID ?r) demo_tx, AFinal ''0xhash'' False) \<in> set (pr_hist ?P)" "it_SwapTxHash ?r = ''0xhash''"
    by (simp_all add: broadcast_history_def broadcast_row_def)
  moreover have "list_all (\<lambda>P. pr_prog P = Ret () \<and> \<not> list_ex (\<lambda>(c, a). asks_chain (c, a) \<or> a = AErr) (pr_hist P))
      (wo_procs failed_world)"
    by (simp add: failed_world_def quote_history_def broadcast_history_def before_broadcast_def claim_history_def
        swept_history_def asks_chain_def)
  moreover have "\<not> evm_in_flight demo_W (wo_rows failed_world) ?r" "it_ChainKind ?r = ''evm''"
    by (simp_all add: failed_world_def evm_in_flight_def broadcast_row_def is_open_def)
  moreover have "wo_rows failed_world = [?r]" "it_Status ?r = StatusFailed" "?P \<in> set (wo_procs failed_world)"
    by (simp_all add: failed_world_def)
  ultimately show ?thesis using failed_reachable by blast
qed

section \<open>Witnesses\<close>

lemma demo_broadcasts: "total_broadcasts demo_W SwapLeg ''A'' broadcast_world = 1"
  by (simp add: total_broadcasts_def broadcasts_def broadcast_world_def quote_history_def broadcast_history_def
      before_broadcast_def claim_history_def)

theorem leg_broadcast_once_witness:
  "total_broadcasts demo_W SwapLeg ''A'' broadcast_world \<le> 1 \<and> total_broadcasts demo_W SwapLeg ''A'' broadcast_world = 1"
  using leg_broadcast_once [OF broadcast_reachable, of SwapLeg "''A''"] demo_broadcasts by simp

theorem broadcast_is_authorized_witness:
  "\<exists>it s. was_loaded before_broadcast it \<and> it_ID it = ''A'' \<and> sg_MessageHex s = leg_message SwapLeg it
     \<and> (IkaSign s, ASignature ''sig'') \<in> set before_broadcast"
proof -
  have "ended ''u'' broadcast_history \<in> set (wo_procs broadcast_world)" by (simp add: broadcast_world_def)
  from broadcast_is_authorized [OF broadcast_reachable this, of before_broadcast SwapLeg "''A''" demo_tx "AFinal ''0xhash'' False"]
  show ?thesis by (auto simp: broadcast_history_def demo_tx_def)
qed

theorem prepared_intent_is_agreed_witness:
  "\<exists>h r pr pm. agreed h r pr pm \<and> taken_from r pr pm demo_intent"
proof -
  have "ended ''u'' quote_history \<in> set (wo_procs quoted_world)" by (simp add: quoted_world_def)
  from prepared_intent_is_agreed [OF quoted_reachable this, of "take 3 quote_history" demo_intent "AInserted ''A'' 0" "[]"]
  show ?thesis by (auto simp: quote_history_def)
qed

text \<open>Another user who submits the same intent.\<close>

definition trespasser :: proc where
  "trespasser = \<lparr>pr_user = Some ''v'', pr_hist = [], pr_prog = request_prog demo_W (RSubmit ''v'' demo_submit)\<rparr>"

theorem tenants_are_isolated_witness:
  "\<exists>f w. pr_prog trespasser = Do (GetForUser ''A'' ''v'') f \<and> reachable demo_W w \<and> trespasser \<in> set (wo_procs w)
     \<and> serve demo_W 0 (GetForUser ''A'' ''v'') (wo_rows w) (wo_rows w) ANotFound \<and> demo_row \<in> set (wo_rows w)"
proof -
  obtain f where f: "pr_prog trespasser = Do (GetForUser ''A'' ''v'') f"
    by (simp add: trespasser_def eval_defs)
  let ?w = "quoted_world\<lparr>wo_procs := wo_procs quoted_world @ [trespasser]\<rparr>"
  have w: "reachable demo_W ?w"
    using start_reaches [OF quoted_reachable, of "RSubmit ''v'' demo_submit"] by (simp add: trespasser_def)
  have t: "trespasser \<in> set (wo_procs ?w)" "pr_user trespasser = Some ''v''" by (simp_all add: trespasser_def)
  have s: "serve demo_W (wo_clock ?w) (GetForUser ''A'' ''v'') (wo_rows ?w) (wo_rows ?w) ANotFound"
    by (rule served [where fresh = "''n''"]) (simp_all add: quoted_world_def db_get_def)
  have r: "demo_row \<in> set (wo_rows ?w)" "or_pguuid demo_W ''v'' \<noteq> Some (it_UserID demo_row)"
    by (simp_all add: quoted_world_def)
  have "demo_row \<in> set (wo_rows ?w)" using tenants_are_isolated [OF w t f s r] by blast
  then show ?thesis using f w t s by (auto simp: quoted_world_def)
qed

text \<open>An intent whose digests have 32 bytes, for the challenges.\<close>

definition owned_intent :: Intent where
  "owned_intent = demo_row\<lparr>it_ChainKind := ''sui'', it_FromToken := ''t'', it_MessageDigestHex := hex_lower (replicate 32 1),
     it_ApproveMessageDigestHex := hex_lower (replicate 32 2), it_InitAuthorityHashHex := hex_lower (replicate 32 5),
     it_OwnerPubkeyHex := hex_lower (replicate 32 3)\<rparr>"

theorem approval_swaps_cannot_be_submitted_witness:
  "\<exists>f. handle_submit demo_W ''u'' (demo_submit\<lparr>sq_Passphrase := replicate 12 CHR ''p'',
         sq_OwnerSlotHex := replicate 68 CHR ''0''\<rparr>) = Do (GetForUser ''A'' ''u'') f
     \<and> f (ARow owned_intent) = Ret (Inl (HttpError 400 ''owner_auth_bundle_required''))"
proof -
  let ?r = "demo_submit\<lparr>sq_Passphrase := replicate 12 CHR ''p'', sq_OwnerSlotHex := replicate 68 CHR ''0''\<rparr>"
  have d: "it_ApproveMessageDigestHex owned_intent \<noteq> []"
    by (simp del: hex_lower_simps add: owned_intent_def hex_lower_Nil)
  have v: "submit_valid demo_W ?r" by (simp add: submit_valid_def owner_signature_valid_def omitempty_def)
  have "handle_submit demo_W ''u'' ?r \<notin> {Ret (Inl (HttpError 401 ''unauthorized'')), Ret (Inl (HttpError 400 ''validation_failed''))}"
    using v by (simp add: handle_submit_def handle_def eval_defs)
  then show ?thesis
    using approval_swaps_cannot_be_submitted [OF d, of demo_service "''00''" 0 demo_W "''u''" ?r] by simp
qed

lemma owned_intent_simps:
  "it_MessageDigestHex owned_intent = hex_lower (replicate 32 1)" "it_ApproveMessageDigestHex owned_intent = hex_lower (replicate 32 2)"
  "it_InitAuthorityHashHex owned_intent = hex_lower (replicate 32 5)" "it_OwnerPubkeyHex owned_intent = hex_lower (replicate 32 3)"
  "it_ExpiresAt owned_intent = 60" "it_FromToken owned_intent = ''t''" "it_ToToken owned_intent = ''t''"
  by (simp_all add: owned_intent_def demo_row_def demo_intent_def new_intent_def)

lemma owned_meta: "swapMetaFromIntent S owned_intent = None"
  by (simp add: swapMetaFromIntent_def owned_intent_simps split: sum.split)

theorem submit_uses_served_challenge_witness:
  "\<exists>r. challenge_of demo_service owned_intent (hex_lower (0 # replicate 33 0)) 0 = Inr r \<and> length (ch_Challenges r) = 1"
proof -
  have "\<exists>r. challenge_of demo_service owned_intent (hex_lower (0 # replicate 33 0)) 0 = Inr r"
    by (simp del: hex_lower_simps add: owned_intent_simps owned_meta challenge_of_def persisted_digest_def ok_or_def hex_lower_Nil
        computeLegMetadataDigest_def or_fail_def SwapChallengeDigest_def swapChallenge_def swapAuthInput_def Let_def
        buildBundleChallengeLeg_def SwapOwnerAuthChallenge_def decodeMemberSlotHex_def optionalHex32_def
        ComputeOwnerAuthChallenge_def renderHumanForOwnerAuth_def bundle_proof_for_def demo_plans
        BundleHash_def BundlePreimage_def bundle_of_def MinBundleTotal_def MaxBundleTotal_def)
  then obtain r where r: "challenge_of demo_service owned_intent (hex_lower (0 # replicate 33 0)) 0 = Inr r" by blast
  from submit_uses_served_challenge [OF this] show ?thesis using r by fastforce
qed

end
