(* ===== verification/AuditRuns.thy ===== *)
theory AuditRuns
  imports AuditGaps IntentRuns
begin

text \<open>Histories of the audit log that witness its theorems: two events of one tenant, their signatures, two
  runs of the snapshotter.\<close>

definition demo_audit :: audit_env where
  "demo_audit = \<lparr>au_sha = (\<lambda>bs. mk_arr (take 32 (rev bs))), au_uuid = Some, au_float = id, au_lock = (\<lambda>_. 0),
     au_sign = (\<lambda>h. Some (h @ h)), au_constraints = [''audit_snapshot_log_pkey''], au_maxRows = 1, au_maxBytes = 1000,
     au_prefix = []\<rparr>"

definition demo_event :: "string \<Rightarrow> Event" where
  "demo_event pid = \<lparr>ae_APIKeyID = ''k'', ae_EventType = ''policy.paused'', ae_ResourceType = ''policy'', ae_ResourceID = ''e'',
     ae_Actor = ''api_key:k'', ae_Payload = [(''secret'', VStr ''x''), (''policy_id'', VStr pid)], ae_CUConsumed = Some 5\<rparr>"

definition demo_text :: "string \<Rightarrow> string" where
  "demo_text pid = ''{'' @ json_string ''policy_id'' @ '':'' @ json_string pid @ ''}''"

lemma demo_payload:
  "append_payload (demo_event ''a'') = Inr (demo_text ''a'')" "append_payload (demo_event ''b'') = Inr (demo_text ''b'')"
  by code_simp+

definition row1 :: audit_row where
  "row1 = new_row demo_audit (demo_event ''a'') (demo_text ''a'') ''t1'' 1 zero_hash"

definition row2 :: audit_row where
  "row2 = new_row demo_audit (demo_event ''b'') (demo_text ''b'') ''t2'' 2 (ar_EntryHash row1)"

lemma demo_event_ok: "event_ok (demo_event p)"
  by (simp add: event_ok_def demo_event_def)

lemma demo_storable: "row_storable row1" "row_storable row2"
  by code_simp+

lemma append_reach:
  assumes "audit_reach E d" "db_open d = []" "event_ok ev" "append_payload ev = Inr t"
    and "r = new_row E ev t ts (db_next d) (prev_hash (ae_APIKeyID ev) (db_rows d))" "row_storable r"
  shows "audit_reach E (d\<lparr>db_next := Suc (db_next d), db_rows := db_rows d @ [r]\<rparr>)"
proof -
  let ?a = "\<lparr>ap_event = ev, ap_payload = t, ap_prev = prev_hash (ae_APIKeyID ev) (db_rows d), ap_row = None\<rparr>"
  have "audit_reach E (d\<lparr>db_open := [?a]\<rparr>)"
    using audit_next [OF assms(1) begin_append [OF assms(3,4)]] assms(2) by simp
  from audit_next [OF this insert_row [where k = 0 and a = ?a and r = r and ts = ts]]
  have "audit_reach E (d\<lparr>db_next := Suc (db_next d), db_open := [?a\<lparr>ap_row := Some r\<rparr>]\<rparr>)" using assms(5,6) by simp
  from audit_next [OF this commit_append [where k = 0 and r = r]]
  have "audit_reach E (d\<lparr>db_next := Suc (db_next d), db_rows := db_rows d @ [r], db_open := []\<rparr>)" by simp
  moreover have "d\<lparr>db_next := Suc (db_next d), db_rows := db_rows d @ [r], db_open := []\<rparr>
      = d\<lparr>db_next := Suc (db_next d), db_rows := db_rows d @ [r]\<rparr>"
    using assms(2) by (cases d) simp
  ultimately show ?thesis by simp
qed

definition two_rows :: audit_db where
  "two_rows = \<lparr>db_rows = [row1, row2], db_next = 3, db_open = [], db_snaps = [], db_uploads = []\<rparr>"

lemma row_simps [simp]: "ar_Seq row1 = 1" "ar_Seq row2 = 2" "ar_APIKeyID row1 = ''k''" "ar_APIKeyID row2 = ''k''"
  "ar_Signature row1 = None" "ar_Signature row2 = None" "length (ar_EntryHash row1) = 32"
  by (simp_all add: row1_def row2_def demo_event_def)

lemma trail_two [simp]: "trail ''k'' [row1, row2] = [row1, row2]" "trail ''k'' [row1] = [row1]" "trail ''k'' [] = []"
  by (simp_all add: trail_def)

lemma two_rows_reach: "audit_reach demo_audit two_rows"
proof -
  have "audit_reach demo_audit (empty_db\<lparr>db_next := Suc (db_next empty_db), db_rows := db_rows empty_db @ [row1]\<rparr>)"
    by (rule append_reach [OF audit_init _ demo_event_ok demo_payload(1)])
      (simp_all add: empty_db_def row1_def demo_event_def prev_hash_def demo_storable [unfolded row1_def demo_event_def One_nat_def])
  then have "audit_reach demo_audit (empty_db\<lparr>db_next := 2, db_rows := [row1]\<rparr>)" by (simp add: empty_db_def numeral_2_eq_2)
  from append_reach [OF this _ demo_event_ok demo_payload(2), of row2 "''t2''"] demo_storable
  show ?thesis by (simp add: empty_db_def two_rows_def row2_def demo_event_def prev_hash_def Let_def numeral_3_eq_3)
qed

definition signed_rows :: audit_db where
  "signed_rows = two_rows\<lparr>db_rows := processBatch demo_audit 100 {} (db_rows two_rows)\<rparr>"

lemma signed_reach: "audit_reach demo_audit signed_rows"
  unfolding signed_rows_def by (rule audit_next [OF two_rows_reach sign_batch])

lemma signed_rows_eq: "db_rows signed_rows =
   [row1\<lparr>ar_Signature := Some (ar_EntryHash row1 @ ar_EntryHash row1)\<rparr>, row2\<lparr>ar_Signature := Some (ar_EntryHash row2 @ ar_EntryHash row2)\<rparr>]"
  by (simp add: signed_rows_def two_rows_def processBatch_def claim_batch_def demo_audit_def set_signature_def)

theorem chain_stays_intact_witness: "chain_from demo_audit zero_hash (trail ''k'' [row1, row2])"
  using chain_stays_intact [OF two_rows_reach, of "''k''"] by (simp add: two_rows_def)

theorem head_fixes_the_trail_witness:
  "map content [row1, row2] = map content (trail ''k'' (db_rows signed_rows))
    \<or> broken_hash demo_audit (map hashed_text [row1, row2]) (map hashed_text (trail ''k'' (db_rows signed_rows)))"
proof (rule head_fixes_the_trail [OF signed_reach])
  have t: "trail ''k'' (db_rows signed_rows) = db_rows signed_rows" by (simp add: trail_def signed_rows_eq)
  then show "trail ''k'' (db_rows signed_rows) \<noteq> []" by (simp add: signed_rows_eq)
  show "ar_EntryHash (last [row1, row2]) = fst (snd (fetchHead ''k'' (db_rows signed_rows)))"
    by (simp add: fetchHead_def t) (simp add: signed_rows_eq)
qed (use reach_trail [OF two_rows_reach, of "''k''"] in \<open>simp_all add: two_rows_def\<close>)

theorem signatures_are_right_witness:
  "au_sign demo_audit (entry_hash demo_audit (hd (db_rows signed_rows))) = Some (ar_EntryHash row1 @ ar_EntryHash row1)"
  by (rule signatures_are_right [OF signed_reach]) (simp_all add: signed_rows_eq)

theorem batches_drain_the_outbox_witness: "outboxDepth (processBatch demo_audit 1 {} [row1, row2]) = outboxDepth [row1, row2] - 1"
  using batches_drain_the_outbox [OF two_rows_reach, of 1] by (simp add: two_rows_def demo_audit_def)

theorem snapshots_never_advance_witness:
  "let d = runOnce demo_audit ''d2'' True (runOnce demo_audit ''d1'' True two_rows) in lastSnapshottedSeq d = 0 \<and> behind demo_audit 2 d"
proof -
  let ?d = "runOnce demo_audit ''d2'' True (runOnce demo_audit ''d1'' True two_rows)"
  have "(audit_step demo_audit)\<^sup>*\<^sup>* two_rows ?d"
    by (meson converse_rtranclp_into_rtranclp rtranclp.rtrancl_refl take_snapshot)
  moreover have "''uq_audit_snapshot_log_date_seq'' \<notin> set (au_constraints demo_audit)" "behind demo_audit 2 two_rows"
    by (simp_all add: demo_audit_def behind_def two_rows_def)
  ultimately have "lastSnapshottedSeq ?d = 0 \<and> behind demo_audit 2 ?d"
    using snapshots_never_advance [OF _ two_rows_reach] by blast
  then show ?thesis by (simp add: Let_def)
qed

definition demo_policy_event :: PolicyEngineAuditEvent where
  "demo_policy_event = \<lparr>ev_APIKeyID = ''k'', ev_Action = ''rule.add'', ev_Engine = ''e'', ev_DWallet = ''w1'',
     ev_TxSignature = ''s'', ev_ExtraJSON = ''{}''\<rparr>"

theorem audit_forgets_the_action_witness:
  "\<exists>e e'. AppendPolicyEngineEvent demo_audit demo_policy_event = Inr e
    \<and> AppendPolicyEngineEvent demo_audit (demo_policy_event\<lparr>ev_Action := ''rule.remove'', ev_DWallet := ''w2'', ev_TxSignature := ''s''\<rparr>) = Inr e'
    \<and> append_payload e' = append_payload e \<and> new_row demo_audit e' [] [] 1 [] = new_row demo_audit e [] [] 1 []"
proof -
  let ?ev' = "demo_policy_event\<lparr>ev_Action := ''rule.remove'', ev_DWallet := ''w2'', ev_TxSignature := ''s''\<rparr>"
  obtain e e' where e: "AppendPolicyEngineEvent demo_audit demo_policy_event = Inr e"
    "AppendPolicyEngineEvent demo_audit ?ev' = Inr e'"
    by (simp add: AppendPolicyEngineEvent_def demo_audit_def)
  show ?thesis
    using e audit_forgets_the_action [OF e refl, of "[]" "[]" 1 "[]"] by (simp add: demo_policy_event_def policy_event_type_def)
qed

theorem audit_of_swap_keeps_only_status_witness:
  "\<exists>e. intent_event demo_audit ''intent.swap.submit'' demo_row ''0xabc'' = Inr e
    \<and> append_payload e = Inr (''{'' @ json_string ''status'' @ '':'' @ json_string (status_text (it_Status demo_row)) @ ''}'')"
proof -
  obtain e where e: "intent_event demo_audit ''intent.swap.submit'' demo_row ''0xabc'' = Inr e"
    by (simp add: intent_event_def demo_audit_def)
  then show ?thesis using audit_of_swap_keeps_only_status [OF e] by blast
qed

theorem record_keys_are_not_sorted_witness:
  "record_json row1 \<noteq> marshal (record_value row1 (JObj [(''policy_id'', JStr ''a'')]))"
proof (rule record_keys_are_not_sorted [OF demo_storable(1)])
  show "well_formed (JObj [(''policy_id'', JStr ''a'')])" by (simp add: well_formed_def fix_utf8_ascii del: fix_utf8.simps)
qed (simp add: row1_def demo_text_def)

theorem pages_cover_the_trail_witness:
  "filter (\<lambda>r. int (ar_Seq r) > 0) (trail ''k'' (db_rows two_rows))
    = (let page = audit_list ''k'' 0 1 [] (db_rows two_rows) in
       page @ (if page = [] then [] else filter (\<lambda>r. int (ar_Seq r) > int (ar_Seq (last page))) (trail ''k'' (db_rows two_rows))))"
  by (rule pages_cover_the_trail [OF two_rows_reach]) simp

end
