(* ===== verification/Idempotency.thy ===== *)
theory Idempotency
  imports Prelude
begin

text \<open>
  The \<open>Idempotency-Key\<close> middleware, \<open>gateway/internal/idempotency/idempotency.go\<close>. The first
  part of \<open>handle\<close> (which requests are protected, under which key) is a function of the
  request. The second part talks to Redis, where requests of several gateways interleave: each
  Redis command and the run of the wrapped handler is one event, and \<open>act\<close> says what an event
  does. Redis is one table; the lock of a key lives beside its entry under the key with a
  suffix, as in the code.
\<close>

section \<open>Which requests are protected\<close>

definition is_space :: "char \<Rightarrow> bool" where
  "is_space c \<longleftrightarrow> of_char c \<in> {9, 10, 11, 12, 13, 32 :: nat}"

text \<open>Header values are ASCII here, where \<open>strings.TrimSpace\<close> trims these.\<close>

definition TrimSpace :: "string \<Rightarrow> string" where
  "TrimSpace s = rev (dropWhile is_space (rev (dropWhile is_space s)))"

definition lower :: "char \<Rightarrow> char" where
  "lower c = (let n = (of_char c :: nat) in if 65 \<le> n \<and> n \<le> 90 then char_of (n + 32) else c)"

definition ToLower :: "string \<Rightarrow> string" where
  "ToLower = map lower"

record request =
  rq_method :: string
  rq_path :: string
  rq_key_header :: string
  rq_api_key :: string
  rq_body :: bytes
  rq_required :: bool

definition shouldApply :: "request \<Rightarrow> bool" where
  "shouldApply r \<longleftrightarrow> rq_method r \<in> {''POST'', ''PATCH'', ''PUT'', ''DELETE''}"

definition maxBodyHashBytes :: nat where "maxBodyHashBytes = 1048576"

definition hashBody :: "(bytes \<Rightarrow> string) \<Rightarrow> bytes \<Rightarrow> string" where
  "hashBody sha_hex b = (if b = [] then [] else sha_hex b)"

record slot =
  sl_key :: string
  sl_hash :: string
  sl_required :: bool

datatype gate = Bypass | Refuse int string | Protect slot

definition cacheKey :: "request \<Rightarrow> string \<Rightarrow> string" where
  "cacheKey r key = ''idem:'' @ (if rq_api_key r = [] then ''anon'' else rq_api_key r) @ '':''
     @ rq_method r @ '' '' @ rq_path r @ '':'' @ key"

definition lockKey :: "string \<Rightarrow> string" where
  "lockKey k = k @ '':lock''"

definition handle_gate :: "(bytes \<Rightarrow> string) \<Rightarrow> request \<Rightarrow> gate" where
  "handle_gate sha_hex r =
     (if \<not> shouldApply r then Bypass
      else let key = TrimSpace (rq_key_header r) in
        if key = [] then (if rq_required r then Refuse 400 ''missing_idempotency_key'' else Bypass)
        else if length key < 8 \<or> 200 < length key then Refuse 400 ''invalid_idempotency_key''
        else if maxBodyHashBytes < length (rq_body r) then Refuse 400 ''body_too_large''
        else Protect \<lparr>sl_key = cacheKey r key, sl_hash = hashBody sha_hex (rq_body r),
               sl_required = rq_required r\<rparr>)"

definition tenant :: "request \<Rightarrow> string" where
  "tenant r = (if rq_api_key r = [] then ''anon'' else rq_api_key r)"

lemma colon_split:
  "c \<notin> set a \<Longrightarrow> c \<notin> set b \<Longrightarrow> a @ c # x = b @ c # y \<Longrightarrow> a = b \<and> x = y"
proof (induction a arbitrary: b)
  case Nil
  then show ?case by (cases b) auto
next
  case (Cons d a)
  then show ?case by (cases b) auto
qed

lemma gate_Protect:
  "handle_gate sha_hex r = Protect a \<Longrightarrow> a = \<lparr>sl_key = cacheKey r (TrimSpace (rq_key_header r)),
     sl_hash = hashBody sha_hex (rq_body r), sl_required = rq_required r\<rparr>"
  by (auto simp: handle_gate_def Let_def split: if_splits)

text \<open>
  A mutating request to a route that demands a key never runs unprotected: it is
  refused with 400, or goes through the cache under a trimmed key of 8 to 200 characters.
\<close>

theorem required_route_is_protected:
  assumes "shouldApply r" "rq_required r"
  shows "(\<exists>m. handle_gate sha_hex r = Refuse 400 m)
    \<or> (8 \<le> length (TrimSpace (rq_key_header r)) \<and> length (TrimSpace (rq_key_header r)) \<le> 200
       \<and> handle_gate sha_hex r = Protect \<lparr>sl_key = cacheKey r (TrimSpace (rq_key_header r)),
            sl_hash = hashBody sha_hex (rq_body r), sl_required = True\<rparr>)"
  using assms by (auto simp: handle_gate_def Let_def)

definition demo_request :: request where
  "demo_request = \<lparr>rq_method = ''POST'', rq_path = ''/v1/sign'', rq_key_header = '' key-0001 '',
     rq_api_key = ''k1'', rq_body = [], rq_required = True\<rparr>"

lemma demo_trim: "TrimSpace (rq_key_header demo_request) = ''key-0001''"
  by (simp add: demo_request_def TrimSpace_def is_space_def)

theorem required_route_is_protected_witness:
  "\<exists>a. handle_gate (\<lambda>b. ''00'') demo_request = Protect a"
proof -
  have "handle_gate (\<lambda>b. ''00'') demo_request \<noteq> Refuse 400 m" for m
    unfolding handle_gate_def demo_trim
    by (simp add: demo_request_def shouldApply_def maxBodyHashBytes_def)
  then show ?thesis
    using required_route_is_protected [of demo_request "\<lambda>b. ''00''"]
    by (auto simp: demo_request_def shouldApply_def)
qed

text \<open>
  Requests of two tenants never meet under one cache entry, whatever keys, paths and
  bodies they send, as long as the identifiers of the tenants hold no colon.
\<close>

theorem tenants_do_not_share_entries:
  assumes "handle_gate sha_hex r = Protect a" "handle_gate sha_hex s = Protect b" "sl_key a = sl_key b"
    and "CHR '':'' \<notin> set (rq_api_key r)" "CHR '':'' \<notin> set (rq_api_key s)"
  shows "tenant r = tenant s"
proof -
  have eq: "tenant r @ CHR '':'' # (rq_method r @ '' '' @ rq_path r @ '':'' @ TrimSpace (rq_key_header r))
    = tenant s @ CHR '':'' # (rq_method s @ '' '' @ rq_path s @ '':'' @ TrimSpace (rq_key_header s))"
    using assms(3) by (simp add: gate_Protect [OF assms(1)] gate_Protect [OF assms(2)] cacheKey_def tenant_def)
  have "CHR '':'' \<notin> set (tenant r)" "CHR '':'' \<notin> set (tenant s)"
    using assms(4,5) by (simp_all add: tenant_def)
  from colon_split [OF this eq] show ?thesis ..
qed

definition demo_deep_path :: request where
  "demo_deep_path = \<lparr>rq_method = ''POST'', rq_path = ''/v1/sign:a'', rq_key_header = ''key-0001'',
     rq_api_key = ''k1'', rq_body = [], rq_required = True\<rparr>"

definition demo_long_key :: request where
  "demo_long_key = \<lparr>rq_method = ''POST'', rq_path = ''/v1/sign'', rq_key_header = ''a:key-0001'',
     rq_api_key = ''k1'', rq_body = [], rq_required = True\<rparr>"

lemma demo_slots:
  "handle_gate (\<lambda>b. ''00'') demo_deep_path
    = Protect \<lparr>sl_key = ''idem:k1:POST /v1/sign:a:key-0001'', sl_hash = [], sl_required = True\<rparr>"
  "handle_gate (\<lambda>b. ''00'') demo_long_key
    = Protect \<lparr>sl_key = ''idem:k1:POST /v1/sign:a:key-0001'', sl_hash = [], sl_required = True\<rparr>"
  by (simp_all add: handle_gate_def demo_deep_path_def demo_long_key_def TrimSpace_def is_space_def
      shouldApply_def maxBodyHashBytes_def cacheKey_def hashBody_def)

theorem tenants_do_not_share_entries_witness:
  "\<exists>a b. handle_gate (\<lambda>b. ''00'') demo_deep_path = Protect a \<and>
     handle_gate (\<lambda>b. ''00'') demo_long_key = Protect b \<and> sl_key a = sl_key b
     \<and> tenant demo_deep_path = tenant demo_long_key"
  using tenants_do_not_share_entries [OF demo_slots]
  by (simp add: demo_slots) (simp add: demo_deep_path_def demo_long_key_def)

section \<open>The conversation with Redis\<close>

type_synonym header = "string \<rightharpoonup> string list"

record resp =
  rp_status :: int
  rp_header :: header
  rp_body :: bytes

record storedEntry =
  en_Status :: int
  en_Body :: bytes
  en_Header :: "string \<rightharpoonup> string"
  en_RequestHash :: string
  en_SavedAt :: string

datatype redis_value = Entry storedEntry | Lock string

definition skipCachedHeader :: "string \<Rightarrow> bool" where
  "skipCachedHeader k \<longleftrightarrow> ToLower k \<in> {''content-length'', ''transfer-encoding'', ''set-cookie'',
     ''authorization'', ''www-authenticate'', ''proxy-authenticate'', ''x-api-key''}"

definition flattenHeader :: "header \<Rightarrow> string \<rightharpoonup> string" where
  "flattenHeader h k =
     (if skipCachedHeader k then None
      else case h k of Some (v # _) \<Rightarrow> Some v | _ \<Rightarrow> None)"

definition replayCached :: "header \<Rightarrow> storedEntry \<Rightarrow> resp" where
  "replayCached w e =
     \<lparr>rp_status = en_Status e,
      rp_header = (\<lambda>k. if skipCachedHeader k then w k
        else case en_Header e k of Some v \<Rightarrow> Some [v] | None \<Rightarrow> w k)(''Idempotent-Replay'' \<mapsto> [''true'']),
      rp_body = en_Body e\<rparr>"

text \<open>The entry for a response; a handler that wrote no status wrote 200.\<close>

definition final_status :: "resp \<Rightarrow> int" where
  "final_status r = (if rp_status r = 0 then 200 else rp_status r)"

definition cacheable :: "resp \<Rightarrow> bool" where
  "cacheable r \<longleftrightarrow> 200 \<le> final_status r \<and> final_status r < 500"

definition entry_of :: "string \<Rightarrow> string \<Rightarrow> resp \<Rightarrow> storedEntry" where
  "entry_of h savedAt r = \<lparr>en_Status = final_status r, en_Body = rp_body r, en_Header = flattenHeader (rp_header r),
     en_RequestHash = h, en_SavedAt = savedAt\<rparr>"

text \<open>Where a protected request stands in \<open>handle\<close>.\<close>

datatype outcome = Own resp | Replayed resp | Refused int string | Unprotected resp

datatype phase = Start | Missed | Open | Locked | Ran resp | Saved resp | Finished outcome

text \<open>What \<open>GET\<close> and \<open>SETNX\<close> lead to; \<open>None\<close> is a Redis error. A value that does not decode as
  an entry (a lock under the same name) is ignored.\<close>

definition get_error :: "bool \<Rightarrow> slot \<Rightarrow> phase" where
  "get_error failClosed s =
     (if failClosed \<and> sl_required s then Finished (Refused 503 ''idempotency_unavailable'') else Open)"

definition after_get :: "bool \<Rightarrow> slot \<Rightarrow> header \<Rightarrow> redis_value option option \<Rightarrow> phase" where
  "after_get failClosed s w r =
     (case r of
        Some (Some (Entry e)) \<Rightarrow>
          (if en_RequestHash e \<noteq> sl_hash s then Finished (Refused 422 ''idempotency_collision'')
           else Finished (Replayed (replayCached w e)))
      | Some (Some (Lock _)) \<Rightarrow> Missed
      | Some None \<Rightarrow> Missed
      | None \<Rightarrow> get_error failClosed s)"

definition after_setnx :: "bool \<Rightarrow> slot \<Rightarrow> bool option \<Rightarrow> phase" where
  "after_setnx failClosed s r =
     (case r of Some True \<Rightarrow> Locked
      | Some False \<Rightarrow> Finished (Refused 409 ''idempotency_in_progress'')
      | None \<Rightarrow> get_error failClosed s)"

record sys =
  store :: "string \<rightharpoonup> redis_value"
  phases :: "nat \<Rightarrow> phase"
  execs :: "(nat \<times> resp) list"

text \<open>The events. \<open>RedisDown\<close> is a failing command, \<open>Expire\<close> the end of a time to live.\<close>

datatype event = Get nat | SetNX nat | Next nat resp | SetCache nat string | Del nat | RedisDown nat | Expire string

definition set_phase :: "nat \<Rightarrow> phase \<Rightarrow> sys \<Rightarrow> sys" where
  "set_phase i p st = st\<lparr>phases := (phases st)(i := p)\<rparr>"

fun act :: "bool \<Rightarrow> (nat \<Rightarrow> slot) \<Rightarrow> header \<Rightarrow> event \<Rightarrow> sys \<Rightarrow> sys option" where
  "act fc reqs w (Get i) st =
     (if phases st i = Start then Some (set_phase i (after_get fc (reqs i) w (Some (store st (sl_key (reqs i))))) st)
      else None)"
| "act fc reqs w (SetNX i) st =
     (if phases st i = Missed then
        let lk = lockKey (sl_key (reqs i)) in
        if store st lk = None
        then Some (set_phase i (after_setnx fc (reqs i) (Some True)) (st\<lparr>store := (store st)(lk \<mapsto> Lock (sl_hash (reqs i)))\<rparr>))
        else Some (set_phase i (after_setnx fc (reqs i) (Some False)) st)
      else None)"
| "act fc reqs w (Next i r) st =
     (if phases st i = Locked then Some (set_phase i (Ran r) (st\<lparr>execs := execs st @ [(i, r)]\<rparr>))
      else if phases st i = Open then Some (set_phase i (Finished (Unprotected r)) (st\<lparr>execs := execs st @ [(i, r)]\<rparr>))
      else None)"
| "act fc reqs w (SetCache i savedAt) st =
     (case phases st i of
        Ran r \<Rightarrow> Some (set_phase i (Saved r)
          (if cacheable r then st\<lparr>store := (store st)(sl_key (reqs i) \<mapsto> Entry (entry_of (sl_hash (reqs i)) savedAt r))\<rparr>
           else st))
      | _ \<Rightarrow> None)"
| "act fc reqs w (Del i) st =
     (case phases st i of
        Saved r \<Rightarrow> Some (set_phase i (Finished (Own r)) (st\<lparr>store := (store st)(lockKey (sl_key (reqs i)) := None)\<rparr>))
      | _ \<Rightarrow> None)"
| "act fc reqs w (RedisDown i) st =
     (case phases st i of
        Start \<Rightarrow> Some (set_phase i (after_get fc (reqs i) w None) st)
      | Missed \<Rightarrow> Some (set_phase i (after_setnx fc (reqs i) None) st)
      | Ran r \<Rightarrow> Some (set_phase i (Saved r) st)
      | Saved r \<Rightarrow> Some (set_phase i (Finished (Own r)) st)
      | _ \<Rightarrow> None)"
| "act fc reqs w (Expire k) st = Some (st\<lparr>store := (store st)(k := None)\<rparr>)"

definition init :: sys where
  "init = \<lparr>store = Map.empty, phases = (\<lambda>_. Start), execs = []\<rparr>"

text \<open>A request is in flight while it holds its lock, as far as it knows.\<close>

fun in_flight :: "phase \<Rightarrow> bool" where
  "in_flight Locked = True"
| "in_flight (Ran r) = True"
| "in_flight (Saved r) = True"
| "in_flight _ = False"

text \<open>Reachable states. \<open>quiet\<close> is the assumption under which the lock is a lock: no Redis command fails,
  and every request is done within the life of its lock (\<open>lockTTL\<close>, 60 seconds), so that what expires or
  is evicted, entries and abandoned locks included, is never the lock of a request in flight.\<close>

definition allowed :: "bool \<Rightarrow> (nat \<Rightarrow> slot) \<Rightarrow> sys \<Rightarrow> event \<Rightarrow> bool" where
  "allowed quiet reqs st e =
     (case e of
        RedisDown _ \<Rightarrow> \<not> quiet
      | Expire k \<Rightarrow> quiet \<longrightarrow> (\<forall>i. in_flight (phases st i) \<longrightarrow> k \<noteq> lockKey (sl_key (reqs i)))
      | _ \<Rightarrow> True)"

inductive idem_reach :: "bool \<Rightarrow> bool \<Rightarrow> (nat \<Rightarrow> slot) \<Rightarrow> header \<Rightarrow> sys \<Rightarrow> bool" for quiet fc reqs w where
  start: "idem_reach quiet fc reqs w init"
| event: "idem_reach quiet fc reqs w st \<Longrightarrow> allowed quiet reqs st e \<Longrightarrow> act fc reqs w e st = Some st' \<Longrightarrow>
    idem_reach quiet fc reqs w st'"

lemma set_phase_simps [simp]:
  "store (set_phase i p st) = store st" "execs (set_phase i p st) = execs st"
  "phases (set_phase i p st) = (phases st)(i := p)"
  by (simp_all add: set_phase_def)

lemma get_error_cases: "get_error fc s = Open \<or> get_error fc s = Finished (Refused 503 ''idempotency_unavailable'')"
  by (simp add: get_error_def)

section \<open>Replays\<close>

text \<open>An entry comes from a run of the handler under its key, and a run that is not yet saved is
  on record.\<close>

definition from_run :: "(nat \<Rightarrow> slot) \<Rightarrow> sys \<Rightarrow> string \<Rightarrow> storedEntry \<Rightarrow> bool" where
  "from_run reqs st k e \<longleftrightarrow> (\<exists>j r savedAt. (j, r) \<in> set (execs st) \<and> sl_key (reqs j) = k \<and> cacheable r
     \<and> e = entry_of (sl_hash (reqs j)) savedAt r)"

definition sound :: "(nat \<Rightarrow> slot) \<Rightarrow> header \<Rightarrow> sys \<Rightarrow> bool" where
  "sound reqs w st \<longleftrightarrow> (\<forall>k e. store st k = Some (Entry e) \<longrightarrow> from_run reqs st k e)
     \<and> (\<forall>i r. phases st i = Ran r \<longrightarrow> (i, r) \<in> set (execs st))
     \<and> (\<forall>i x. phases st i = Finished (Replayed x) \<longrightarrow>
          (\<exists>e. from_run reqs st (sl_key (reqs i)) e \<and> en_RequestHash e = sl_hash (reqs i) \<and> x = replayCached w e))"

lemma from_run_mono: "from_run reqs st k e \<Longrightarrow> set (execs st) \<subseteq> set (execs st') \<Longrightarrow> from_run reqs st' k e"
  by (auto simp: from_run_def)

text \<open>A step keeps what is sound when it adds to the record, adds only entries that come from
  runs, and moves one request to a phase that is sound.\<close>

lemma sound_update:
  assumes "sound reqs w st" "set (execs st) \<subseteq> set (execs st')" "phases st' = (phases st)(i := p)"
    and "\<And>k e. store st' k = Some (Entry e) \<Longrightarrow> store st k = Some (Entry e) \<or> from_run reqs st' k e"
    and "\<And>r. p = Ran r \<Longrightarrow> (i, r) \<in> set (execs st')"
    and "\<And>x. p = Finished (Replayed x) \<Longrightarrow> \<exists>e. from_run reqs st' (sl_key (reqs i)) e
      \<and> en_RequestHash e = sl_hash (reqs i) \<and> x = replayCached w e"
  shows "sound reqs w st'"
proof -
  have m: "from_run reqs st k e \<Longrightarrow> from_run reqs st' k e" for k e using from_run_mono assms(2) by blast
  show ?thesis
    unfolding sound_def
  proof (intro conjI allI impI)
    fix k e assume "store st' k = Some (Entry e)"
    with assms(4) [of k e] assms(1) show "from_run reqs st' k e" unfolding sound_def by (blast intro: m)
  next
    fix j r assume "phases st' j = Ran r"
    with assms(1,2,3,5) show "(j, r) \<in> set (execs st')" by (auto simp: sound_def split: if_splits)
  next
    fix j x assume "phases st' j = Finished (Replayed x)"
    show "\<exists>e. from_run reqs st' (sl_key (reqs j)) e \<and> en_RequestHash e = sl_hash (reqs j) \<and> x = replayCached w e"
    proof (cases "j = i")
      case True
      with assms(3,6) \<open>phases st' j = Finished (Replayed x)\<close> show ?thesis by simp
    next
      case False
      with assms(3) \<open>phases st' j = Finished (Replayed x)\<close> have "phases st j = Finished (Replayed x)" by simp
      with assms(1) have "\<exists>e. from_run reqs st (sl_key (reqs j)) e \<and> en_RequestHash e = sl_hash (reqs j)
        \<and> x = replayCached w e" unfolding sound_def by blast
      then show ?thesis using m by blast
    qed
  qed
qed

lemma act_sound:
  assumes "sound reqs w st" "act fc reqs w e st = Some st'"
  shows "sound reqs w st'"
proof (cases e)
  case (Get i)
  have st': "st' = set_phase i (after_get fc (reqs i) w (Some (store st (sl_key (reqs i))))) st"
    using assms(2) by (simp add: Get split: if_splits)
  have fr: "from_run reqs st (sl_key (reqs i)) x" if "store st (sl_key (reqs i)) = Some (Entry x)" for x
    using assms(1) that by (simp add: sound_def)
  have f: "from_run reqs (set_phase i p st) k x = from_run reqs st k x" for p k x by (simp add: from_run_def)
  show ?thesis
    by (rule sound_update [OF assms(1), of st' i "after_get fc (reqs i) w (Some (store st (sl_key (reqs i))))"])
      (auto simp: st' after_get_def get_error_def f split: option.splits redis_value.splits if_splits dest: fr)
next
  case (SetNX i)
  define p where "p = phases st' i"
  have p: "phases st' = (phases st)(i := p)" "execs st' = execs st"
    "p = Locked \<or> p = Finished (Refused 409 ''idempotency_in_progress'')"
    "\<And>k e. store st' k = Some (Entry e) \<Longrightarrow> store st k = Some (Entry e)"
    using assms(2) by (auto simp: SetNX p_def Let_def after_setnx_def split: if_splits)
  show ?thesis by (rule sound_update [OF assms(1), of st' i p]) (use p in auto)
next
  case (Next i r)
  with assms(2) obtain p where p: "phases st' = (phases st)(i := p)" "execs st' = execs st @ [(i, r)]"
    "p = Ran r \<or> p = Finished (Unprotected r)" "store st' = store st"
    by (auto split: if_splits)
  show ?thesis by (rule sound_update [OF assms(1), of st' i p]) (use p in auto)
next
  case (SetCache i savedAt)
  with assms(2) obtain r where r: "phases st i = Ran r" "phases st' = (phases st)(i := Saved r)" "execs st' = execs st"
    "store st' = (if cacheable r then (store st)(sl_key (reqs i) \<mapsto> Entry (entry_of (sl_hash (reqs i)) savedAt r)) else store st)"
    by (auto split: phase.splits)
  have "(i, r) \<in> set (execs st)" using assms(1) r(1) by (simp add: sound_def)
  then have "cacheable r \<Longrightarrow> from_run reqs st' (sl_key (reqs i)) (entry_of (sl_hash (reqs i)) savedAt r)"
    using r(3) by (auto simp: from_run_def)
  with r show ?thesis by (intro sound_update [OF assms(1), of st' i "Saved r"]) (auto split: if_splits)
next
  case (Del i)
  with assms(2) obtain r where "phases st' = (phases st)(i := Finished (Own r))" "execs st' = execs st"
    "store st' = (store st)(lockKey (sl_key (reqs i)) := None)"
    by (auto split: phase.splits)
  then show ?thesis by (intro sound_update [OF assms(1), of st' i "Finished (Own r)"]) (auto split: if_splits)
next
  case (RedisDown i)
  with assms(2) obtain p where p: "phases st' = (phases st)(i := p)" "execs st' = execs st" "store st' = store st"
    "\<And>x. p \<noteq> Finished (Replayed x)" "\<And>r. p \<noteq> Ran r"
    using get_error_cases [of fc "reqs i"]
    by (cases "phases st i") (auto simp: after_get_def after_setnx_def)
  show ?thesis by (rule sound_update [OF assms(1), of st' i p]) (use p in auto)
next
  case (Expire k)
  with assms(2) have st': "st' = st\<lparr>store := (store st)(k := None)\<rparr>" by simp
  with assms(1) show ?thesis
    by (auto simp: sound_def from_run_def split: if_splits)
qed

lemma reach_sound: "idem_reach quiet fc reqs w st \<Longrightarrow> sound reqs w st"
proof (induction rule: idem_reach.induct)
  case start
  show ?case by (simp add: init_def sound_def)
qed (rule act_sound)

text \<open>
  Property C27. Whatever Redis does (errors, lost entries, expired locks) and however requests
  interleave, a replay answers with a response that the handler really gave to a request under
  the same cache key with the same body hash, and never with a 5xx; and a request whose body
  hash differs from the entry's is not replayed.
\<close>

theorem replay_is_earlier_response:
  assumes "idem_reach quiet fc reqs w st" "phases st i = Finished (Replayed x)"
  shows "\<exists>j r savedAt. (j, r) \<in> set (execs st) \<and> sl_key (reqs j) = sl_key (reqs i)
    \<and> sl_hash (reqs j) = sl_hash (reqs i) \<and> 200 \<le> final_status r \<and> final_status r < 500
    \<and> x = replayCached w (entry_of (sl_hash (reqs i)) savedAt r)"
proof -
  from reach_sound [OF assms(1)] assms(2) obtain e where e: "from_run reqs st (sl_key (reqs i)) e"
    "en_RequestHash e = sl_hash (reqs i)" "x = replayCached w e" unfolding sound_def by blast
  from e(1) obtain j r savedAt where j: "(j, r) \<in> set (execs st)" "sl_key (reqs j) = sl_key (reqs i)" "cacheable r"
    "e = entry_of (sl_hash (reqs j)) savedAt r" by (auto simp: from_run_def)
  have h: "sl_hash (reqs j) = sl_hash (reqs i)" using e(2) j(4) by (simp add: entry_of_def)
  show ?thesis
    by (intro exI [of _ j] exI [of _ r] exI [of _ savedAt])
      (use e(3) j h in \<open>simp add: cacheable_def\<close>)
qed

text \<open>Runs of several events, to name reachable states.\<close>

fun acts :: "bool \<Rightarrow> (nat \<Rightarrow> slot) \<Rightarrow> header \<Rightarrow> event list \<Rightarrow> sys \<Rightarrow> sys option" where
  "acts fc reqs w [] st = Some st"
| "acts fc reqs w (e # es) st = (case act fc reqs w e st of None \<Rightarrow> None | Some st' \<Rightarrow> acts fc reqs w es st')"

fun plain :: "event \<Rightarrow> bool" where
  "plain (RedisDown _) = False"
| "plain (Expire _) = False"
| "plain _ = True"

lemma plain_allowed: "plain e \<Longrightarrow> allowed quiet reqs st e"
  by (cases e) (simp_all add: allowed_def)

lemma acts_reach:
  "idem_reach quiet fc reqs w st \<Longrightarrow> list_all plain es \<Longrightarrow> acts fc reqs w es st = Some st' \<Longrightarrow>
   idem_reach quiet fc reqs w st'"
  by (induction es arbitrary: st) (auto split: option.splits intro: idem_reach.event plain_allowed)

lemma acts_reach_any:
  "idem_reach False fc reqs w st \<Longrightarrow> acts fc reqs w es st = Some st' \<Longrightarrow> idem_reach False fc reqs w st'"
proof (induction es arbitrary: st)
  case (Cons e es)
  have "allowed False reqs st e" by (cases e) (simp_all add: allowed_def)
  with Cons show ?case by (auto split: option.splits intro: idem_reach.event)
qed simp

lemma lockKey_neq [simp]: "lockKey k \<noteq> k" "k \<noteq> lockKey k"
  by (simp_all add: lockKey_def)

lemma lockKey_inj [simp]: "lockKey k = lockKey l \<longleftrightarrow> k = l"
  by (simp add: lockKey_def)

definition demo_slot :: slot where
  "demo_slot = \<lparr>sl_key = ''k'', sl_hash = ''h'', sl_required = True\<rparr>"

definition ok_resp :: resp where
  "ok_resp = \<lparr>rp_status = 200, rp_header = Map.empty, rp_body = [1]\<rparr>"

definition replay_events :: "event list" where
  "replay_events = [Get 0, SetNX 0, Next 0 ok_resp, SetCache 0 ''t'', Del 0, Get 1]"

theorem replay_is_earlier_response_witness:
  "\<exists>st j r. idem_reach True True (\<lambda>_. demo_slot) Map.empty st \<and> (j, r) \<in> set (execs st)
     \<and> phases st 1 = Finished (Replayed (replayCached Map.empty (entry_of ''h'' ''t'' ok_resp)))"
proof -
  let ?x = "replayCached Map.empty (entry_of ''h'' ''t'' ok_resp)"
  obtain st where st: "acts True (\<lambda>_. demo_slot) Map.empty replay_events init = Some st"
    "phases st 1 = Finished (Replayed ?x)"
    by (simp add: replay_events_def init_def demo_slot_def after_get_def after_setnx_def Let_def cacheable_def
        final_status_def ok_resp_def entry_of_def lockKey_def)
  have r: "idem_reach True True (\<lambda>_. demo_slot) Map.empty st"
    by (rule acts_reach [OF idem_reach.start _ st(1)]) (simp add: replay_events_def)
  from replay_is_earlier_response [OF r st(2)] show ?thesis using r st(2) by blast
qed

section \<open>The lock\<close>

definition exclusive :: "(nat \<Rightarrow> slot) \<Rightarrow> sys \<Rightarrow> bool" where
  "exclusive reqs st \<longleftrightarrow> (\<forall>i. in_flight (phases st i) \<longrightarrow> store st (lockKey (sl_key (reqs i))) \<noteq> None)
     \<and> (\<forall>i j. in_flight (phases st i) \<longrightarrow> in_flight (phases st j) \<longrightarrow> sl_key (reqs i) = sl_key (reqs j) \<longrightarrow> i = j)"

lemma exclusive_phase:
  assumes "exclusive reqs st" "store st' = store st" "phases st' = (phases st)(i := p)"
    and "in_flight p \<Longrightarrow> in_flight (phases st i)"
  shows "exclusive reqs st'"
proof -
  have "in_flight (phases st' j) \<Longrightarrow> in_flight (phases st j)" for j
    using assms(3,4) by (auto split: if_splits)
  then show ?thesis using assms(1,2) unfolding exclusive_def by metis
qed

lemma act_exclusive:
  assumes "exclusive reqs st" "allowed True reqs st e" "act fc reqs w e st = Some st'"
  shows "exclusive reqs st'"
proof (cases e)
  case (Get i)
  then have "store st' = store st" "phases st' = (phases st)(i := phases st' i)" "\<not> in_flight (phases st' i)"
    using assms(3) by (auto simp: after_get_def get_error_def split: if_splits option.splits redis_value.splits)
  then show ?thesis using exclusive_phase [OF assms(1)] by blast
next
  case (SetNX i)
  show ?thesis
  proof (cases "store st (lockKey (sl_key (reqs i))) = None")
    case True
    then have st': "store st' = (store st)(lockKey (sl_key (reqs i)) \<mapsto> Lock (sl_hash (reqs i)))"
      "phases st' = (phases st)(i := Locked)"
      using assms(3) by (auto simp: SetNX Let_def after_setnx_def split: if_splits)
    have "sl_key (reqs j) \<noteq> sl_key (reqs i)" if "in_flight (phases st j)" for j
      using assms(1) True that unfolding exclusive_def by fastforce
    then show ?thesis
      using assms(1) unfolding exclusive_def st' by (auto split: if_splits dest: sym)
  next
    case False
    then have "store st' = store st" "phases st' = (phases st)(i := phases st' i)" "\<not> in_flight (phases st' i)"
      using assms(3) by (auto simp: SetNX Let_def after_setnx_def split: if_splits)
    then show ?thesis using exclusive_phase [OF assms(1)] by blast
  qed
next
  case (Next i r)
  then have "store st' = store st" "phases st' = (phases st)(i := phases st' i)"
    "in_flight (phases st' i) \<Longrightarrow> in_flight (phases st i)"
    using assms(3) by (auto split: if_splits)
  then show ?thesis using exclusive_phase [OF assms(1)] by blast
next
  case (SetCache i savedAt)
  then obtain r where r: "phases st i = Ran r" "phases st' = (phases st)(i := Saved r)"
    "store st' = store st \<or> store st' = (store st)(sl_key (reqs i) \<mapsto> Entry (entry_of (sl_hash (reqs i)) savedAt r))"
    using assms(3) by (auto split: phase.splits if_splits)
  have f: "in_flight (phases st' j) = in_flight (phases st j)" for j using r(1,2) by simp
  have "store st (lockKey (sl_key (reqs j))) \<noteq> None \<Longrightarrow> store st' (lockKey (sl_key (reqs j))) \<noteq> None" for j
    using r(3) by auto
  then show ?thesis using assms(1) unfolding exclusive_def f by blast
next
  case (Del i)
  then obtain r where r: "phases st i = Saved r" "phases st' = (phases st)(i := Finished (Own r))"
    "store st' = (store st)(lockKey (sl_key (reqs i)) := None)"
    using assms(3) by (auto split: phase.splits)
  have "sl_key (reqs j) \<noteq> sl_key (reqs i)" if "in_flight (phases st j)" "j \<noteq> i" for j
    using assms(1) r(1) that unfolding exclusive_def by fastforce
  then show ?thesis
    using assms(1) unfolding exclusive_def r(2,3) by (auto split: if_splits)
next
  case (RedisDown i)
  then show ?thesis using assms(2) by (simp add: allowed_def)
next
  case (Expire k)
  then have "store st' = (store st)(k := None)" "phases st' = phases st" using assms(3) by auto
  moreover have "in_flight (phases st i) \<Longrightarrow> k \<noteq> lockKey (sl_key (reqs i))" for i
    using assms(2) by (auto simp: Expire allowed_def)
  ultimately show ?thesis using assms(1) unfolding exclusive_def by (metis fun_upd_apply)
qed

text \<open>
  Property C29. As long as no Redis command fails and every protected request is done within the 60 seconds its lock
  lives (nothing else about expiry or eviction is assumed), at most one request under a cache key is between taking and
  releasing the lock, whatever keys the clients choose: the handler never runs for two of them at the same time.
\<close>

theorem lock_excludes:
  assumes "idem_reach True fc reqs w st"
    and "in_flight (phases st i)" "in_flight (phases st j)" "sl_key (reqs i) = sl_key (reqs j)"
  shows "i = j"
proof -
  have "exclusive reqs st"
    using assms(1)
  proof (induction rule: idem_reach.induct)
    case start
    show ?case by (simp add: exclusive_def init_def)
  next
    case (event st e st')
    then show ?case using act_exclusive by blast
  qed
  with assms(2-4) show ?thesis unfolding exclusive_def by blast
qed

theorem lock_excludes_witness:
  "\<exists>st. idem_reach True True (\<lambda>_. demo_slot) Map.empty st \<and> in_flight (phases st 0) \<and> \<not> in_flight (phases st 1)"
proof -
  obtain st where st: "acts True (\<lambda>_. demo_slot) Map.empty [Get 0, SetNX 0] init = Some st" "in_flight (phases st 0)"
    by (simp add: init_def after_get_def after_setnx_def Let_def)
  have r: "idem_reach True True (\<lambda>_. demo_slot) Map.empty st"
    by (rule acts_reach [OF idem_reach.start _ st(1)]) simp
  then have "\<not> in_flight (phases st 1)" using lock_excludes [OF r, of 0 1] st(2) by auto
  with r st(2) show ?thesis by blast
qed

text \<open>
  The assumption on the lock's life is needed, and no fault of Redis: the lock is set for 60 seconds, while the server
  lets a handler write for 120. A handler that outlives its lock shares its key with the next request; and when it is
  done it deletes the lock whoever holds it, so that a third request comes in beside the second.
\<close>

definition slow_run :: "slot \<Rightarrow> resp \<Rightarrow> event list" where
  "slow_run s r = [Get 0, SetNX 0, Expire (lockKey (sl_key s)), Get 1, SetNX 1, Next 0 r, SetCache 0 ''t'', Get 2, Del 0, SetNX 2]"

theorem slow_handler_loses_its_lock:
  "\<exists>st. idem_reach False fc (\<lambda>_. s) w st \<and> phases st 0 = Locked \<and> phases st 1 = Locked"
  "\<not> cacheable r \<Longrightarrow> \<exists>st. idem_reach False fc (\<lambda>_. s) w st \<and> phases st 0 = Finished (Own r)
     \<and> phases st 1 = Locked \<and> phases st 2 = Locked"
proof -
  obtain st where st: "acts fc (\<lambda>_. s) w (take 5 (slow_run s r)) init = Some st" "phases st 0 = Locked" "phases st 1 = Locked"
    by (simp add: slow_run_def init_def set_phase_def after_get_def after_setnx_def Let_def)
  with acts_reach_any [OF idem_reach.start this(1)]
  show "\<exists>st. idem_reach False fc (\<lambda>_. s) w st \<and> phases st 0 = Locked \<and> phases st 1 = Locked" by blast
  assume "\<not> cacheable r"
  then obtain st where st: "acts fc (\<lambda>_. s) w (slow_run s r) init = Some st" "phases st 0 = Finished (Own r)"
    "phases st 1 = Locked" "phases st 2 = Locked"
    by (simp add: slow_run_def init_def set_phase_def after_get_def after_setnx_def Let_def)
  with acts_reach_any [OF idem_reach.start this(1)]
  show "\<exists>st. idem_reach False fc (\<lambda>_. s) w st \<and> phases st 0 = Finished (Own r) \<and> phases st 1 = Locked \<and> phases st 2 = Locked"
    by blast
qed

definition race :: "resp \<Rightarrow> resp \<Rightarrow> event list" where
  "race r r' = [Get 0, Get 1, SetNX 0, Next 0 r, SetCache 0 ''t'', Del 0, SetNX 1, Next 1 r']"

text \<open>
  The lock does not make the handler run once. A second request that looked for an
  entry before the first one finished takes the lock the first one has released and runs the
  handler again, without any fault of Redis, although the first response was cached.
\<close>

theorem handler_runs_twice:
  "\<exists>st. idem_reach True fc (\<lambda>_. s) w st \<and> execs st = [(0, r), (1, r')] \<and> phases st 0 = Finished (Own r)"
proof -
  obtain st where st: "acts fc (\<lambda>_. s) w (race r r') init = Some st" "execs st = [(0, r), (1, r')]"
    "phases st 0 = Finished (Own r)"
    by (cases "cacheable r") (simp_all add: race_def init_def set_phase_def after_get_def after_setnx_def Let_def)
  have "idem_reach True fc (\<lambda>_. s) w st"
    by (rule acts_reach [OF idem_reach.start _ st(1)]) (simp add: race_def)
  with st(2,3) show ?thesis by blast
qed

definition blocked_slots :: "request \<Rightarrow> string \<Rightarrow> nat \<Rightarrow> slot" where
  "blocked_slots r h i = \<lparr>sl_key = cacheKey r (TrimSpace (rq_key_header r) @ (if i = 0 then '':lock'' else [])),
     sl_hash = h, sl_required = True\<rparr>"

definition blocked_run :: "resp \<Rightarrow> event list" where
  "blocked_run x = [Get 0, SetNX 0, Next 0 x, SetCache 0 ''t'', Del 0, Get 1, SetNX 1]"

text \<open>
  The lock of a key has the name of the entry of another key, the one with
  \<open>:lock\<close> appended. Once a response is cached under that one, a first request under the plain
  key is refused with 409 although nothing is in progress.
\<close>

theorem lock_name_blocks_other_key:
  "\<exists>st. idem_reach True fc (blocked_slots r h) w st \<and> phases st 0 = Finished (Own ok_resp)
     \<and> phases st 1 = Finished (Refused 409 ''idempotency_in_progress'') \<and> (\<forall>i. \<not> in_flight (phases st i))"
proof -
  have k: "sl_key (blocked_slots r h 0) = lockKey (sl_key (blocked_slots r h (Suc 0)))"
    by (simp add: blocked_slots_def cacheKey_def lockKey_def)
  obtain st where st: "acts fc (blocked_slots r h) w (blocked_run ok_resp) init = Some st"
    "phases st = (\<lambda>_. Start)(0 := Finished (Own ok_resp), Suc 0 := Finished (Refused 409 ''idempotency_in_progress''))"
    by (simp add: blocked_run_def init_def k after_get_def after_setnx_def Let_def cacheable_def final_status_def
        ok_resp_def set_phase_def fun_upd_twist)
  have "idem_reach True fc (blocked_slots r h) w st"
    by (rule acts_reach [OF idem_reach.start _ st(1)]) (simp add: blocked_run_def)
  moreover have "phases st 0 = Finished (Own ok_resp) \<and> phases st 1 = Finished (Refused 409 ''idempotency_in_progress'')
     \<and> (\<forall>i. \<not> in_flight (phases st i))"
    by (simp add: st(2))
  ultimately show ?thesis by blast
qed

end
