(* ===== verification/Netsafety.thy ===== *)
theory Netsafety
  imports Encoding Idempotency
begin

text \<open>
  Package \<open>netsafety\<close>: the guard of outbound URLs. An address is \<open>net.IP\<close>, 4 or 16 bytes; \<open>url.Parse\<close>,
  \<open>net.ParseIP\<close> and the resolver are arguments. The answers of the resolver are numbered: two lookups of
  one host need not agree.
\<close>

section \<open>Addresses\<close>

definition To4 :: "bytes \<Rightarrow> bytes option" where
  "To4 ip =
     (if length ip = 4 then Some ip
      else if length ip = 16 \<and> take 12 ip = replicate 10 0 @ [0xFF, 0xFF] then Some (drop 12 ip)
      else None)"

definition mapped :: "bytes \<Rightarrow> bytes" where
  "mapped v4 = replicate 10 0 @ [0xFF, 0xFF] @ v4"

lemma To4_mapped [simp]: "length v4 = 4 \<Longrightarrow> To4 (mapped v4) = Some v4"
  by (simp add: To4_def mapped_def)

definition IsUnspecified :: "bytes \<Rightarrow> bool" where
  "IsUnspecified ip \<longleftrightarrow> To4 ip = Some [0, 0, 0, 0] \<or> ip = replicate 16 0"

definition IsLoopback :: "bytes \<Rightarrow> bool" where
  "IsLoopback ip = (case To4 ip of Some v \<Rightarrow> v ! 0 = 127 | None \<Rightarrow> ip = replicate 15 0 @ [1])"

definition IsPrivate :: "bytes \<Rightarrow> bool" where
  "IsPrivate ip =
     (case To4 ip of
        Some v \<Rightarrow> v ! 0 = 10 \<or> (v ! 0 = 172 \<and> unat (v ! 1) div 16 = 1) \<or> (v ! 0 = 192 \<and> v ! 1 = 168)
      | None \<Rightarrow> length ip = 16 \<and> unat (ip ! 0) div 2 = 0x7E)"

definition IsMulticast :: "bytes \<Rightarrow> bool" where
  "IsMulticast ip = (case To4 ip of Some v \<Rightarrow> unat (v ! 0) div 16 = 0xE | None \<Rightarrow> length ip = 16 \<and> ip ! 0 = 0xFF)"

definition IsLinkLocalMulticast :: "bytes \<Rightarrow> bool" where
  "IsLinkLocalMulticast ip =
     (case To4 ip of Some v \<Rightarrow> v ! 0 = 224 \<and> v ! 1 = 0 \<and> v ! 2 = 0
      | None \<Rightarrow> length ip = 16 \<and> ip ! 0 = 0xFF \<and> unat (ip ! 1) mod 16 = 2)"

definition IsLinkLocalUnicast :: "bytes \<Rightarrow> bool" where
  "IsLinkLocalUnicast ip =
     (case To4 ip of Some v \<Rightarrow> v ! 0 = 169 \<and> v ! 1 = 254
      | None \<Rightarrow> length ip = 16 \<and> ip ! 0 = 0xFE \<and> unat (ip ! 1) div 64 = 2)"

definition metadataIPv4s :: "bytes list" where
  "metadataIPv4s = [[169, 254, 169, 254], [100, 100, 100, 200]]"

definition isBlockedIP :: "bytes \<Rightarrow> bool" where
  "isBlockedIP ip \<longleftrightarrow>
     IsLoopback ip \<or> IsUnspecified ip \<or> IsLinkLocalUnicast ip \<or> IsLinkLocalMulticast ip \<or> IsPrivate ip \<or> IsMulticast ip
     \<or> (case To4 ip of
          Some v \<Rightarrow> v \<in> set metadataIPv4s \<or> (v ! 0 = 100 \<and> 64 \<le> unat (v ! 1) \<and> unat (v ! 1) \<le> 127)
        | None \<Rightarrow> ip ! 0 = 0xFC \<or> ip ! 0 = 0xFD)"

section \<open>URLs\<close>

datatype guard_mode = ModeProduction | ModeDevelopment

record url =
  u_Scheme :: string
  u_User :: bool
  u_Host :: string

record net_env =
  ne_mode :: guard_mode
  ne_parse :: "string \<Rightarrow> url option"
  ne_ip :: "string \<Rightarrow> bytes option"
  ne_dns :: "string \<Rightarrow> nat \<Rightarrow> bytes list option"

definition isDevLoopback :: "string \<Rightarrow> bool" where
  "isDevLoopback host \<longleftrightarrow> ToLower host \<in> set [''localhost'', ''127.0.0.1'', ''::1'']"

definition parseAndCheck :: "net_env \<Rightarrow> string \<Rightarrow> url option" where
  "parseAndCheck N raw0 =
     (let raw = TrimSpace raw0 in
      if raw = [] then None
      else case ne_parse N raw of
        None \<Rightarrow> None
      | Some u \<Rightarrow>
          if u_User u \<or> u_Host u = [] \<or> list_ex (\<lambda>c. c \<in> set (u_Host u)) [CHR '' '', CHR 0x09, CHR 0x0D, CHR 0x0A] then None
          else if \<not> (ToLower (u_Scheme u) = ''https''
              \<or> (ToLower (u_Scheme u) = ''http'' \<and> ne_mode N = ModeDevelopment \<and> isDevLoopback (u_Host u))) then None
          else (case ne_ip N (u_Host u) of
              None \<Rightarrow> Some u
            | Some ip \<Rightarrow>
                if ne_mode N = ModeDevelopment \<and> IsLoopback ip then Some u
                else if isBlockedIP ip then None else Some u))"

definition checkHostIPs :: "net_env \<Rightarrow> nat \<Rightarrow> string \<Rightarrow> bool" where
  "checkHostIPs N q host =
     (if ne_ip N host \<noteq> None then True
      else if ne_mode N = ModeDevelopment \<and> isDevLoopback host then True
      else case ne_dns N host q of None \<Rightarrow> False | Some ips \<Rightarrow> ips \<noteq> [] \<and> list_all (\<lambda>ip. \<not> isBlockedIP ip) ips)"

definition ValidateRegister :: "net_env \<Rightarrow> nat \<Rightarrow> string \<Rightarrow> bool" where
  "ValidateRegister N q raw = (case parseAndCheck N raw of None \<Rightarrow> False | Some u \<Rightarrow> checkHostIPs N q (u_Host u))"

definition ValidateDispatch :: "net_env \<Rightarrow> nat \<Rightarrow> string \<Rightarrow> bool" where
  "ValidateDispatch N q raw = ValidateRegister N q raw"

text \<open>Where a client that is given the URL connects to, by its own lookup.\<close>

definition dial :: "net_env \<Rightarrow> nat \<Rightarrow> string \<Rightarrow> bytes set" where
  "dial N q raw =
     (case ne_parse N raw of None \<Rightarrow> {}
      | Some u \<Rightarrow>
          (case ne_ip N (u_Host u) of Some ip \<Rightarrow> {ip}
           | None \<Rightarrow> (case ne_dns N (u_Host u) q of None \<Rightarrow> {} | Some ips \<Rightarrow> set ips)))"

section \<open>What it keeps out\<close>

lemma isBlockedIP_mapped:
  assumes "length v4 = 4"
  shows "isBlockedIP (mapped v4) \<longleftrightarrow> isBlockedIP v4"
proof -
  have "mapped v4 ! 10 \<noteq> replicate 16 0 ! 10" by (simp add: mapped_def nth_append)
  then have "To4 v4 = Some v4" "mapped v4 \<noteq> replicate 16 0" "v4 \<noteq> replicate 16 0"
    using assms by (auto simp: To4_def)
  then show ?thesis using assms
    by (simp add: isBlockedIP_def IsLoopback_def IsUnspecified_def IsLinkLocalUnicast_def IsLinkLocalMulticast_def
        IsPrivate_def IsMulticast_def)
qed

text \<open>The ranges, octet by octet.\<close>

definition internal_v4 :: "nat \<Rightarrow> nat \<Rightarrow> nat \<Rightarrow> nat \<Rightarrow> bool" where
  "internal_v4 a b c d \<longleftrightarrow> a \<in> {10, 127} \<or> (a = 172 \<and> 16 \<le> b \<and> b < 32) \<or> (a = 192 \<and> b = 168) \<or> (a = 169 \<and> b = 254)
     \<or> (a = 100 \<and> 64 \<le> b \<and> b < 128) \<or> (224 \<le> a \<and> a < 240) \<or> (a = 0 \<and> b = 0 \<and> c = 0 \<and> d = 0)"

lemma internal_v4_cases:
  fixes a b c d :: nat
  shows "a = 127 \<or> (a = 0 \<and> b = 0 \<and> c = 0 \<and> d = 0) \<or> (a = 169 \<and> b = 254) \<or> (a = 224 \<and> b = 0 \<and> c = 0)
      \<or> (a = 10 \<or> (a = 172 \<and> b div 16 = 1) \<or> (a = 192 \<and> b = 168)) \<or> a div 16 = 14
      \<or> ((a = 169 \<and> b = 254 \<and> c = 169 \<and> d = 254) \<or> (a = 100 \<and> b = 100 \<and> c = 100 \<and> d = 200)) \<or> (a = 100 \<and> 64 \<le> b \<and> b \<le> 127)
    \<longleftrightarrow> internal_v4 a b c d"
proof -
  have "b div 16 = 1 \<longleftrightarrow> 16 \<le> b \<and> b < 32" "a div 16 = 14 \<longleftrightarrow> 224 \<le> a \<and> a < 240" "b \<le> 127 \<longleftrightarrow> b < 128" by presburger+
  then show ?thesis unfolding internal_v4_def insert_iff empty_iff
    by (intro iffI; elim disjE conjE; simp)
qed

lemma byte_eq: "(x :: byte) = y \<longleftrightarrow> unat x = unat y"
  by (rule word_unat_eq_iff)

lemma unat_numeral_byte:
  "unat (0 :: byte) = 0" "unat (10 :: byte) = 10" "unat (100 :: byte) = 100" "unat (127 :: byte) = 127" "unat (168 :: byte) = 168"
  "unat (169 :: byte) = 169" "unat (172 :: byte) = 172" "unat (192 :: byte) = 192" "unat (200 :: byte) = 200"
  "unat (224 :: byte) = 224" "unat (254 :: byte) = 254"
  by code_simp+

lemma isBlockedIP_v4: "isBlockedIP [a, b, c, d] \<longleftrightarrow> internal_v4 (unat a) (unat b) (unat c) (unat d)"
proof -
  have t: "To4 [a, b, c, d] = Some [a, b, c, d]" "length [a, b, c, d] \<noteq> length (replicate 16 0 :: bytes)" by (simp_all add: To4_def)
  then have z: "[a, b, c, d] \<noteq> replicate 16 0" by metis
  have p: "IsLoopback [a, b, c, d] \<longleftrightarrow> a = 127" "IsUnspecified [a, b, c, d] \<longleftrightarrow> a = 0 \<and> b = 0 \<and> c = 0 \<and> d = 0"
    "IsLinkLocalUnicast [a, b, c, d] \<longleftrightarrow> a = 169 \<and> b = 254" "IsLinkLocalMulticast [a, b, c, d] \<longleftrightarrow> a = 224 \<and> b = 0 \<and> c = 0"
    by (simp_all only: IsLoopback_def IsUnspecified_def IsLinkLocalUnicast_def IsLinkLocalMulticast_def t(1) z)
      (simp_all add: numeral_2_eq_2)
  have q: "IsPrivate [a, b, c, d] \<longleftrightarrow> a = 10 \<or> (a = 172 \<and> unat b div 16 = 1) \<or> (a = 192 \<and> b = 168)"
    "IsMulticast [a, b, c, d] \<longleftrightarrow> unat a div 16 = 14"
    by (simp_all only: IsPrivate_def IsMulticast_def t(1) option.case nth_Cons_0 nth_Cons_Suc One_nat_def)
  have m: "(case To4 [a, b, c, d] of Some v \<Rightarrow> v \<in> set metadataIPv4s \<or> (v ! 0 = 100 \<and> 64 \<le> unat (v ! 1) \<and> unat (v ! 1) \<le> 127)
        | None \<Rightarrow> [a, b, c, d] ! 0 = 0xFC \<or> [a, b, c, d] ! 0 = 0xFD)
      \<longleftrightarrow> ((a = 169 \<and> b = 254 \<and> c = 169 \<and> d = 254) \<or> (a = 100 \<and> b = 100 \<and> c = 100 \<and> d = 200)) \<or> (a = 100 \<and> 64 \<le> unat b \<and> unat b \<le> 127)"
    by (simp only: t(1) metadataIPv4s_def option.case nth_Cons_0 nth_Cons_Suc One_nat_def list.set insert_iff empty_iff list.inject simp_thms)
  have "isBlockedIP [a, b, c, d] \<longleftrightarrow>
      a = 127 \<or> (a = 0 \<and> b = 0 \<and> c = 0 \<and> d = 0) \<or> (a = 169 \<and> b = 254) \<or> (a = 224 \<and> b = 0 \<and> c = 0)
      \<or> (a = 10 \<or> (a = 172 \<and> unat b div 16 = 1) \<or> (a = 192 \<and> b = 168)) \<or> unat a div 16 = 14
      \<or> ((a = 169 \<and> b = 254 \<and> c = 169 \<and> d = 254) \<or> (a = 100 \<and> b = 100 \<and> c = 100 \<and> d = 200)) \<or> (a = 100 \<and> 64 \<le> unat b \<and> unat b \<le> 127)"
    unfolding isBlockedIP_def p q m by (rule refl)
  also have "\<dots> \<longleftrightarrow> internal_v4 (unat a) (unat b) (unat c) (unat d)"
    unfolding internal_v4_cases [symmetric] byte_eq by (simp only: unat_numeral_byte)
  finally show ?thesis .
qed

text \<open>A URL that production accepts is HTTPS without credentials, and what was looked up is not internal.\<close>

lemma production_accepts:
  assumes "ne_mode N = ModeProduction" "ValidateRegister N q raw"
  shows "\<exists>u. ne_parse N (TrimSpace raw) = Some u \<and> ToLower (u_Scheme u) = ''https'' \<and> \<not> u_User u
    \<and> (case ne_ip N (u_Host u) of Some ip \<Rightarrow> \<not> isBlockedIP ip
       | None \<Rightarrow> \<exists>ips. ne_dns N (u_Host u) q = Some ips \<and> ips \<noteq> [] \<and> (\<forall>ip \<in> set ips. \<not> isBlockedIP ip))"
  using assms
  by (auto simp: ValidateRegister_def parseAndCheck_def checkHostIPs_def Let_def list_all_iff
      split: option.splits if_splits)

definition stable_dns :: "net_env \<Rightarrow> bool" where
  "stable_dns N \<longleftrightarrow> (\<forall>h q r. ne_dns N h q = ne_dns N h r)"

lemma guarded_dial:
  assumes "ne_mode N = ModeProduction" "stable_dns N" "ValidateDispatch N q raw" "TrimSpace raw = raw" "ip \<in> dial N r raw"
  shows "\<not> isBlockedIP ip"
proof -
  from production_accepts [OF assms(1), of q raw] assms(3,4) obtain u where u: "ne_parse N raw = Some u"
    "case ne_ip N (u_Host u) of Some ip \<Rightarrow> \<not> isBlockedIP ip
       | None \<Rightarrow> \<exists>ips. ne_dns N (u_Host u) q = Some ips \<and> ips \<noteq> [] \<and> (\<forall>ip \<in> set ips. \<not> isBlockedIP ip)"
    by (auto simp: ValidateDispatch_def)
  show ?thesis
  proof (cases "ne_ip N (u_Host u)")
    case None
    have "ne_dns N (u_Host u) r = ne_dns N (u_Host u) q" using assms(2) by (simp add: stable_dns_def)
    then show ?thesis using None u assms(5) by (auto simp: dial_def)
  qed (use u assms(5) in \<open>simp add: dial_def\<close>)
qed

end
