(* ===== verification/Webhooks.thy ===== *)
theory Webhooks
  imports Netsafety AuditLog
begin

text \<open>
  Package \<open>webhooks\<close>: the tables (\<open>store.go\<close>), the publisher (\<open>publisher.go\<close>), the dispatcher
  (\<open>dispatcher.go\<close>) and the routes (\<open>routes.go\<close>). Times are nanoseconds of one clock. A delivery a worker
  has claimed is a job that goes through stages: between two stages of one job every other worker, replica,
  route and sweep may act; a route, and the two statements that write a verdict, are one step. Metrics, logging and paging of lists are left out; the token bucket of
  \<open>golang.org/x/time/rate\<close> is a choice of the run.
\<close>

section \<open>Tables\<close>

record Endpoint =
  ep_ID :: string
  ep_APIKeyID :: string
  ep_URL :: string
  ep_Secret :: string
  ep_Events :: "string list"
  ep_Active :: bool
  ep_CreatedAt :: int
  ep_LastSuccessAt :: "int option"
  ep_LastFailureAt :: "int option"
  ep_FailureCount :: int

datatype delivery_status = Pending | InFlight | Delivered | FailedStatus | DeadLetter

record Delivery =
  dv_ID :: string
  dv_EndpointID :: string
  dv_EventType :: string
  dv_EventID :: string
  dv_Payload :: string
  dv_Status :: delivery_status
  dv_Attempts :: int
  dv_NextAttemptAt :: int
  dv_LastResponseStatus :: "int option"
  dv_LastResponseBody :: "string option"
  dv_CreatedAt :: int
  dv_DeliveredAt :: "int option"
  dv_ClaimedAt :: "int option"
  dv_ClaimDeadline :: "int option"
  dv_ClaimOwner :: "string option"

record hook_db =
  hd_endpoints :: "Endpoint list"
  hd_deliveries :: "Delivery list"

text \<open>\<open>we_jsonb\<close> is what a \<open>jsonb\<close> column makes of a text, \<open>we_iso\<close> the format of a time, \<open>we_conv\<close> a
  conversion from \<open>float64\<close> that is out of range.\<close>

record hook_env =
  we_hmac :: "bytes \<Rightarrow> bytes \<Rightarrow> bytes"
  we_jsonb :: "string \<Rightarrow> string option"
  we_iso :: "int \<Rightarrow> string"
  we_conv :: "int \<Rightarrow> int"
  we_net :: net_env

definition second :: int where "second = 1000000000"
definition millisecond :: int where "millisecond = 1000000"

definition set_rows :: "('a \<Rightarrow> bool) \<Rightarrow> ('a \<Rightarrow> 'a) \<Rightarrow> 'a list \<Rightarrow> 'a list" where
  "set_rows P f rows = map (\<lambda>r. if P r then f r else r) rows"

text \<open>The check on the column \<open>url\<close>.\<close>

definition url_check :: "string \<Rightarrow> bool" where
  "url_check u \<longleftrightarrow> prefix ''https://'' u \<or> prefix ''http://localhost'' u \<or> prefix ''http://127.'' u"

text \<open>A Go slice that is nil is sent as NULL, which the column \<open>events\<close> refuses.\<close>

definition CreateEndpoint ::
    "int \<Rightarrow> string \<Rightarrow> string \<Rightarrow> string \<Rightarrow> string \<Rightarrow> string list option \<Rightarrow> hook_db \<Rightarrow> string + Endpoint \<times> hook_db" where
  "CreateEndpoint now newID apiKeyID url secret events D =
     (case events of
        None \<Rightarrow> Inl ''null value in column events''
      | Some evs \<Rightarrow>
          if \<not> url_check url \<or> \<not> pg_text url \<or> \<not> list_all pg_text evs then Inl ''constraint''
          else (let ep = \<lparr>ep_ID = newID, ep_APIKeyID = apiKeyID, ep_URL = url, ep_Secret = secret, ep_Events = evs,
                  ep_Active = True, ep_CreatedAt = now, ep_LastSuccessAt = None, ep_LastFailureAt = None, ep_FailureCount = 0\<rparr>
                in Inr (ep, D\<lparr>hd_endpoints := hd_endpoints D @ [ep]\<rparr>)))"

definition ListEndpoints :: "string \<Rightarrow> hook_db \<Rightarrow> Endpoint list" where
  "ListEndpoints apiKeyID D = sort_key (\<lambda>e. - ep_CreatedAt e) (filter (\<lambda>e. ep_APIKeyID e = apiKeyID) (hd_endpoints D))"

record EndpointPatch =
  pt_URL :: "string option"
  pt_Events :: "string list option"
  pt_Active :: "bool option"

definition coalesce :: "'a option \<Rightarrow> 'a \<Rightarrow> 'a" where
  "coalesce v d = (case v of None \<Rightarrow> d | Some x \<Rightarrow> x)"

definition patched :: "EndpointPatch \<Rightarrow> Endpoint \<Rightarrow> Endpoint" where
  "patched p e = e\<lparr>ep_URL := coalesce (pt_URL p) (ep_URL e), ep_Events := coalesce (pt_Events p) (ep_Events e),
     ep_Active := coalesce (pt_Active p) (ep_Active e)\<rparr>"

definition UpdateEndpoint :: "string \<Rightarrow> string \<Rightarrow> EndpointPatch \<Rightarrow> hook_db \<Rightarrow> string + Endpoint option \<times> hook_db" where
  "UpdateEndpoint apiKeyID i p D =
     (case find (\<lambda>e. ep_ID e = i \<and> ep_APIKeyID e = apiKeyID) (hd_endpoints D) of
        None \<Rightarrow> Inr (None, D)
      | Some e \<Rightarrow>
          if \<not> url_check (ep_URL (patched p e)) \<or> \<not> pg_text (ep_URL (patched p e)) \<or> \<not> list_all pg_text (ep_Events (patched p e))
          then Inl ''constraint''
          else Inr (Some (patched p e),
            D\<lparr>hd_endpoints := set_rows (\<lambda>e. ep_ID e = i \<and> ep_APIKeyID e = apiKeyID) (patched p) (hd_endpoints D)\<rparr>))"

text \<open>Deleting an endpoint deletes its deliveries.\<close>

definition DeleteEndpoint :: "string \<Rightarrow> string \<Rightarrow> hook_db \<Rightarrow> bool \<times> hook_db" where
  "DeleteEndpoint apiKeyID i D =
     (if list_ex (\<lambda>e. ep_ID e = i \<and> ep_APIKeyID e = apiKeyID) (hd_endpoints D)
      then (True, D\<lparr>hd_endpoints := filter (\<lambda>e. \<not> (ep_ID e = i \<and> ep_APIKeyID e = apiKeyID)) (hd_endpoints D),
                    hd_deliveries := filter (\<lambda>d. dv_EndpointID d \<noteq> i) (hd_deliveries D)\<rparr>)
      else (False, D))"

definition GetActiveEndpointsForEvent :: "string \<Rightarrow> string \<Rightarrow> hook_db \<Rightarrow> Endpoint list" where
  "GetActiveEndpointsForEvent apiKeyID eventType D =
     filter (\<lambda>e. ep_APIKeyID e = apiKeyID \<and> ep_Active e \<and> (eventType \<in> set (ep_Events e) \<or> ep_Events e = []))
       (hd_endpoints D)"

definition EnqueueDelivery ::
    "hook_env \<Rightarrow> int \<Rightarrow> string \<Rightarrow> string \<Rightarrow> string \<Rightarrow> string \<Rightarrow> string \<Rightarrow> hook_db \<Rightarrow> string + hook_db" where
  "EnqueueDelivery E now newID endpointID eventType eventID payload D =
     (if \<not> list_ex (\<lambda>e. ep_ID e = endpointID) (hd_endpoints D) \<or> \<not> pg_text eventType then Inl ''constraint''
      else case we_jsonb E payload of
        None \<Rightarrow> Inl ''invalid input syntax for type json''
      | Some p \<Rightarrow> Inr (D\<lparr>hd_deliveries := hd_deliveries D @
          [\<lparr>dv_ID = newID, dv_EndpointID = endpointID, dv_EventType = eventType, dv_EventID = eventID, dv_Payload = p,
            dv_Status = Pending, dv_Attempts = 0, dv_NextAttemptAt = now, dv_LastResponseStatus = None,
            dv_LastResponseBody = None, dv_CreatedAt = now, dv_DeliveredAt = None, dv_ClaimedAt = None,
            dv_ClaimDeadline = None, dv_ClaimOwner = None\<rparr>]\<rparr>))"

section \<open>The queue\<close>

definition claimable :: "int \<Rightarrow> Delivery \<Rightarrow> bool" where
  "claimable now d \<longleftrightarrow> dv_Status d = Pending \<and> dv_NextAttemptAt d \<le> now"

definition claim_row :: "int \<Rightarrow> int \<Rightarrow> string \<Rightarrow> Delivery \<Rightarrow> Delivery" where
  "claim_row now leaseSeconds owner d =
     d\<lparr>dv_Status := InFlight, dv_Attempts := dv_Attempts d + 1, dv_ClaimedAt := Some now,
       dv_ClaimDeadline := Some (now + leaseSeconds * second), dv_ClaimOwner := Some owner\<rparr>"

text \<open>One statement; rows another statement has locked are skipped.\<close>

definition picked :: "int \<Rightarrow> nat \<Rightarrow> string set \<Rightarrow> Delivery list \<Rightarrow> string list" where
  "picked now limit locked rows =
     take limit (map dv_ID (sort_key dv_NextAttemptAt (filter (\<lambda>d. claimable now d \<and> dv_ID d \<notin> locked) rows)))"

definition ClaimDeliveries :: "int \<Rightarrow> nat \<Rightarrow> int \<Rightarrow> string \<Rightarrow> string set \<Rightarrow> Delivery list \<Rightarrow> Delivery list \<times> Delivery list" where
  "ClaimDeliveries now limit leaseSeconds0 owner locked rows =
     (let leaseSeconds = (if leaseSeconds0 \<le> 0 then 60 else leaseSeconds0);
          ids = picked now limit locked rows;
          rows' = set_rows (\<lambda>d. dv_ID d \<in> set ids) (claim_row now leaseSeconds owner) rows
      in (filter (\<lambda>d. dv_ID d \<in> set ids) rows', rows'))"

definition unclaimed :: "Delivery \<Rightarrow> Delivery" where
  "unclaimed d = d\<lparr>dv_ClaimedAt := None, dv_ClaimDeadline := None, dv_ClaimOwner := None\<rparr>"

definition RequeueWithDelay :: "int \<Rightarrow> string \<Rightarrow> int \<Rightarrow> Delivery list \<Rightarrow> Delivery list" where
  "RequeueWithDelay now i delay0 rows =
     (let delay = (if delay0 \<le> 0 then second else delay0) in
      set_rows (\<lambda>d. dv_ID d = i \<and> dv_Status d = InFlight)
        (\<lambda>d. (unclaimed d)\<lparr>dv_Status := Pending, dv_Attempts := max (dv_Attempts d - 1) 0,
           dv_NextAttemptAt := now + quot delay millisecond * millisecond\<rparr>) rows)"

definition stuck :: "int \<Rightarrow> Delivery \<Rightarrow> bool" where
  "stuck now d \<longleftrightarrow> dv_Status d = InFlight \<and> (case dv_ClaimDeadline d of None \<Rightarrow> False | Some t \<Rightarrow> t < now)"

definition RecoverStuck :: "int \<Rightarrow> Delivery list \<Rightarrow> Delivery list" where
  "RecoverStuck now rows =
     set_rows (stuck now) (\<lambda>d. (unclaimed d)\<lparr>dv_Status := Pending, dv_NextAttemptAt := now\<rparr>) rows"

definition truncateBody :: "string \<Rightarrow> string" where
  "truncateBody s = (if length s > 4096 then take 4096 s else s)"

text \<open>The statement fails when the body is no text for PostgreSQL; then nothing is written.\<close>

definition touch_endpoint :: "string \<Rightarrow> (Endpoint \<Rightarrow> Endpoint) \<Rightarrow> hook_db \<Rightarrow> hook_db" where
  "touch_endpoint i f D =
     D\<lparr>hd_endpoints := set_rows (\<lambda>e. list_ex (\<lambda>d. dv_ID d = i \<and> dv_EndpointID d = ep_ID e) (hd_deliveries D)) f (hd_endpoints D)\<rparr>"

definition MarkDelivered :: "int \<Rightarrow> string \<Rightarrow> int \<Rightarrow> string \<Rightarrow> hook_db \<Rightarrow> hook_db" where
  "MarkDelivered now i status body D =
     (if \<not> pg_text (truncateBody body) then D
      else touch_endpoint i (\<lambda>e. e\<lparr>ep_LastSuccessAt := Some now, ep_FailureCount := 0\<rparr>)
        (D\<lparr>hd_deliveries := set_rows (\<lambda>d. dv_ID d = i)
          (\<lambda>d. (unclaimed d)\<lparr>dv_Status := Delivered, dv_DeliveredAt := Some now, dv_LastResponseStatus := Some status,
             dv_LastResponseBody := Some (truncateBody body)\<rparr>) (hd_deliveries D)\<rparr>))"

definition MarkFailed :: "int \<Rightarrow> string \<Rightarrow> int \<Rightarrow> string \<Rightarrow> int \<Rightarrow> bool \<Rightarrow> hook_db \<Rightarrow> hook_db" where
  "MarkFailed now i status body nextAttempt dead D =
     (if \<not> pg_text (truncateBody body) then D
      else touch_endpoint i (\<lambda>e. e\<lparr>ep_LastFailureAt := Some now, ep_FailureCount := ep_FailureCount e + 1\<rparr>)
        (D\<lparr>hd_deliveries := set_rows (\<lambda>d. dv_ID d = i)
          (\<lambda>d. (unclaimed d)\<lparr>dv_Status := (if dead then DeadLetter else Pending), dv_LastResponseStatus := Some status,
             dv_LastResponseBody := Some (truncateBody body), dv_NextAttemptAt := nextAttempt\<rparr>) (hd_deliveries D)\<rparr>))"

definition RetryDeadLetter :: "int \<Rightarrow> string \<Rightarrow> string \<Rightarrow> hook_db \<Rightarrow> bool \<times> hook_db" where
  "RetryDeadLetter now apiKeyID i D =
     (let hit = (\<lambda>d. dv_ID d = i \<and> dv_Status d = DeadLetter
                   \<and> list_ex (\<lambda>e. ep_ID e = dv_EndpointID d \<and> ep_APIKeyID e = apiKeyID) (hd_endpoints D))
      in (list_ex hit (hd_deliveries D),
          D\<lparr>hd_deliveries := set_rows hit (\<lambda>d. d\<lparr>dv_Status := Pending, dv_NextAttemptAt := now\<rparr>) (hd_deliveries D)\<rparr>))"

text \<open>\<open>status\<close> is cast to the enumeration; a word that is none of its values is an error of the database.\<close>

definition status_word :: "string \<Rightarrow> delivery_status option" where
  "status_word s = map_of [(''pending'', Pending), (''in_flight'', InFlight), (''delivered'', Delivered), (''failed'', FailedStatus),
     (''dead_letter'', DeadLetter)] s"

definition ListDeliveries :: "string \<Rightarrow> string option \<Rightarrow> string \<Rightarrow> int \<Rightarrow> hook_db \<Rightarrow> string + Delivery list" where
  "ListDeliveries apiKeyID endpointID status limit0 D =
     (let limit1 = (if limit0 > 200 then 200 else limit0);
          limit = (if limit1 \<le> 0 then 50 else limit1);
          mine = filter (\<lambda>d. list_ex (\<lambda>e. ep_ID e = dv_EndpointID d \<and> ep_APIKeyID e = apiKeyID) (hd_endpoints D)
                   \<and> (case endpointID of None \<Rightarrow> True | Some i \<Rightarrow> dv_EndpointID d = i)) (hd_deliveries D);
          page = (\<lambda>ds. take (nat limit) (sort_key (\<lambda>d. - dv_CreatedAt d) ds))
      in if status = [] then Inr (page mine)
         else case status_word status of
           None \<Rightarrow> Inl ''invalid input value for enum''
         | Some st \<Rightarrow> Inr (page (filter (\<lambda>d. dv_Status d = st) mine)))"

definition CountDLQ :: "hook_db \<Rightarrow> nat" where
  "CountDLQ D = length (filter (\<lambda>d. dv_Status d = DeadLetter) (hd_deliveries D))"

section \<open>Publishing\<close>

text \<open>\<open>payload\<close> is the JSON the caller's value is written as; the keys of the envelope are in byte order.\<close>

definition publish_body :: "hook_env \<Rightarrow> int \<Rightarrow> string \<Rightarrow> string \<Rightarrow> string \<Rightarrow> string" where
  "publish_body E now eventID eventType payload =
     ''{'' @ json_string ''created'' @ '':'' @ json_string (we_iso E now) @ '','' @ json_string ''data'' @ '':'' @ payload
       @ '','' @ json_string ''id'' @ '':'' @ json_string eventID @ '','' @ json_string ''type'' @ '':'' @ json_string eventType @ ''}''"

text \<open>One insert after the other; the rows that are in stay in when a later insert fails. \<open>fails\<close> says
  which inserts the database refuses for reasons of its own.\<close>

fun enqueue_all ::
    "hook_env \<Rightarrow> int \<Rightarrow> string \<Rightarrow> string \<Rightarrow> string \<Rightarrow> (string \<times> bool) list \<Rightarrow> Endpoint list \<Rightarrow> nat \<Rightarrow> hook_db \<Rightarrow> (nat \<times> bool) \<times> hook_db" where
  "enqueue_all E now eventType eventID body ids [] n D = ((n, True), D)"
| "enqueue_all E now eventType eventID body [] (e # es) n D = ((n, False), D)"
| "enqueue_all E now eventType eventID body ((i, fails) # ids) (e # es) n D =
     (if fails then ((n, False), D)
      else case EnqueueDelivery E now i (ep_ID e) eventType eventID body D of
        Inl _ \<Rightarrow> ((n, False), D)
      | Inr D' \<Rightarrow> enqueue_all E now eventType eventID body ids es (Suc n) D')"

definition Publish ::
    "hook_env \<Rightarrow> int \<Rightarrow> string \<Rightarrow> (string \<times> bool) list \<Rightarrow> string \<Rightarrow> string \<Rightarrow> string \<Rightarrow> hook_db \<Rightarrow> (nat \<times> bool) \<times> hook_db" where
  "Publish E now eventID ids apiKeyID eventType payload D =
     enqueue_all E now eventType eventID (publish_body E now eventID eventType payload) ids
       (GetActiveEndpointsForEvent apiKeyID eventType D) 0 D"

section \<open>Delivering\<close>

definition maxAttempts :: int where "maxAttempts = 8"
definition maxBackoff :: int where "maxBackoff = 24 * 3600 * second"

text \<open>\<open>60 * 2^(attempts-1)\<close> is exact as a \<open>float64\<close>; the conversion and the product are 64 bits wide.\<close>

definition backoff :: "hook_env \<Rightarrow> int \<Rightarrow> int" where
  "backoff E attempts0 =
     (let attempts = (if attempts0 < 1 then 1 else attempts0);
          secs = 60 * 2 ^ nat (attempts - 1);
          dur = wrap64 ((if in64 secs then secs else we_conv E secs) * second)
      in if dur > maxBackoff then maxBackoff else dur)"

definition exhausted :: "int \<Rightarrow> bool" where
  "exhausted attempts \<longleftrightarrow> attempts \<ge> maxAttempts"

datatype verdict = Requeue int | MarkOK int string | MarkBad int string int bool

definition failed_try :: "hook_env \<Rightarrow> int \<Rightarrow> Delivery \<Rightarrow> int \<Rightarrow> string \<Rightarrow> verdict" where
  "failed_try E now d status body = MarkBad status body (now + backoff E (dv_Attempts d)) (exhausted (dv_Attempts d))"

record post =
  po_time :: int
  po_delivery :: string
  po_endpoint :: string
  po_tenant :: string
  po_url :: string
  po_address :: bytes
  po_body :: bytes
  po_event_id :: string
  po_event_type :: string
  po_attempt :: int
  po_signature :: string

datatype job =
    Queued Delivery
  | Fetched Delivery Endpoint
  | Judged string verdict

definition signed_text :: "int \<Rightarrow> string \<Rightarrow> bytes" where
  "signed_text timestamp payload = ascii (IntDec timestamp @ ''.'' @ payload)"

definition signature_header :: "hook_env \<Rightarrow> string \<Rightarrow> int \<Rightarrow> string \<Rightarrow> string" where
  "signature_header E secret timestamp payload =
     ''t='' @ IntDec timestamp @ '',v1='' @ hex_lower (we_hmac E (ascii secret) (signed_text timestamp payload))"

text \<open>The stages of \<open>deliver\<close>: the lookup of the endpoint, the guard, the request, the answer.\<close>

definition after_fetch :: "hook_env \<Rightarrow> int \<Rightarrow> Delivery \<Rightarrow> Endpoint option \<Rightarrow> job" where
  "after_fetch E now d r =
     (case r of
        None \<Rightarrow> Judged (dv_ID d) (failed_try E now d 0 ''endpoint lookup'')
      | Some ep \<Rightarrow>
          if \<not> ep_Active ep then Judged (dv_ID d) (MarkBad 0 ''endpoint inactive'' (now + maxBackoff) True)
          else Fetched d ep)"

definition the_post :: "hook_env \<Rightarrow> int \<Rightarrow> Delivery \<Rightarrow> Endpoint \<Rightarrow> bytes \<Rightarrow> post" where
  "the_post E now d ep ip =
     \<lparr>po_time = now, po_delivery = dv_ID d, po_endpoint = ep_ID ep, po_tenant = ep_APIKeyID ep, po_url = ep_URL ep,
      po_address = ip, po_body = ascii (dv_Payload d), po_event_id = dv_EventID d, po_event_type = dv_EventType d,
      po_attempt = dv_Attempts d,
      po_signature = signature_header E (ep_Secret ep) (now div second) (dv_Payload d)\<rparr>"

definition after_answer :: "hook_env \<Rightarrow> int \<Rightarrow> Delivery \<Rightarrow> (int \<times> string) option \<Rightarrow> job" where
  "after_answer E now d ans =
     (case ans of
        None \<Rightarrow> Judged (dv_ID d) (failed_try E now d 0 ''network error'')
      | Some (status, body0) \<Rightarrow>
          (let body = take 4096 body0 in
           if 200 \<le> status \<and> status < 300 then Judged (dv_ID d) (MarkOK status body)
           else Judged (dv_ID d) (failed_try E now d status body)))"

definition write_verdict :: "int \<Rightarrow> string \<Rightarrow> verdict \<Rightarrow> hook_db \<Rightarrow> hook_db" where
  "write_verdict now i v D =
     (case v of
        Requeue delay \<Rightarrow> D\<lparr>hd_deliveries := RequeueWithDelay now i delay (hd_deliveries D)\<rparr>
      | MarkOK status body \<Rightarrow> MarkDelivered now i status body D
      | MarkBad status body next dead \<Rightarrow> MarkFailed now i status body next dead D)"

section \<open>Routes\<close>

datatype hook_answer = Refused http_error | Created Endpoint string | Updated Endpoint | Accepted | NoContent

definition handleCreateEndpoint ::
    "hook_env \<Rightarrow> int \<Rightarrow> nat \<Rightarrow> string \<Rightarrow> string \<Rightarrow> string \<Rightarrow> string \<Rightarrow> string list option \<Rightarrow> hook_db \<Rightarrow> hook_answer \<times> hook_db" where
  "handleCreateEndpoint E now q newID secret apiKeyID url0 events D =
     (let url = TrimSpace url0 in
      if url = [] then (Refused (HttpError 400 ''missing_url''), D)
      else if \<not> ValidateRegister (we_net E) q url then (Refused (HttpError 400 ''invalid_url''), D)
      else case CreateEndpoint now newID apiKeyID url secret events D of
        Inl _ \<Rightarrow> (Refused (HttpError 500 ''internal_error''), D)
      | Inr (ep, D') \<Rightarrow> (Created ep secret, D'))"

definition handleUpdateEndpoint ::
    "hook_env \<Rightarrow> nat \<Rightarrow> string \<Rightarrow> string \<Rightarrow> EndpointPatch \<Rightarrow> hook_db \<Rightarrow> hook_answer \<times> hook_db" where
  "handleUpdateEndpoint E q apiKeyID i req D =
     (let p = req\<lparr>pt_URL := map_option TrimSpace (pt_URL req)\<rparr> in
      if (case pt_URL p of None \<Rightarrow> False | Some u \<Rightarrow> \<not> ValidateRegister (we_net E) q u)
      then (Refused (HttpError 400 ''invalid_url''), D)
      else case UpdateEndpoint apiKeyID i p D of
        Inl _ \<Rightarrow> (Refused (HttpError 500 ''internal_error''), D)
      | Inr (None, _) \<Rightarrow> (Refused (HttpError 404 ''not_found''), D)
      | Inr (Some ep, D') \<Rightarrow> (Updated ep, D'))"

definition handleDeleteEndpoint :: "string \<Rightarrow> string \<Rightarrow> hook_db \<Rightarrow> hook_answer \<times> hook_db" where
  "handleDeleteEndpoint apiKeyID i D =
     (case DeleteEndpoint apiKeyID i D of
        (False, _) \<Rightarrow> (Refused (HttpError 404 ''not_found''), D)
      | (True, D') \<Rightarrow> (NoContent, D'))"

definition test_payload :: string where
  "test_payload = ''{'' @ json_string ''event_id'' @ '':'' @ json_string ''test'' @ '','' @ json_string ''kind'' @ '':''
     @ json_string ''webhook.test'' @ '','' @ json_string ''data'' @ '':{'' @ json_string ''hello'' @ '':'' @ json_string ''world'' @ ''}}''"

definition handleTestEndpoint ::
    "hook_env \<Rightarrow> int \<Rightarrow> string \<Rightarrow> string \<Rightarrow> string \<Rightarrow> string \<Rightarrow> hook_db \<Rightarrow> hook_answer \<times> hook_db" where
  "handleTestEndpoint E now newID eventID apiKeyID i D =
     (if \<not> list_ex (\<lambda>e. ep_ID e = i) (ListEndpoints apiKeyID D) then (Refused (HttpError 404 ''not_found''), D)
      else case EnqueueDelivery E now newID i ''webhook.test'' eventID test_payload D of
        Inl _ \<Rightarrow> (Refused (HttpError 500 ''internal_error''), D)
      | Inr D' \<Rightarrow> (Accepted, D'))"

definition handleRetryDelivery :: "int \<Rightarrow> string \<Rightarrow> string \<Rightarrow> hook_db \<Rightarrow> hook_answer \<times> hook_db" where
  "handleRetryDelivery now apiKeyID i D =
     (case RetryDeadLetter now apiKeyID i D of
        (False, _) \<Rightarrow> (Refused (HttpError 404 ''not_found''), D)
      | (True, D') \<Rightarrow> (Accepted, D'))"

end
