(* ===== verification/HookSystem.thy ===== *)
theory HookSystem
  imports Webhooks
begin

text \<open>
  The webhook system: tenants, publishers, any number of dispatchers and their sweeps act on the tables in
  any order; a job that has been claimed waits between its stages as long as it likes and may be lost.
  \<open>wh_posts\<close> logs every request that went out with its answer. \<open>wh_owner\<close>, \<open>wh_sent\<close>, \<open>wh_ids\<close>,
  \<open>wh_recovered\<close> and \<open>wh_retried\<close> are history: the endpoints ever asked for with their tenant and secret, the
  events ever published with their tenant, type and text, the identifiers given out, the leases that were swept
  and the retries of dead letters that were granted, each to the tenant of the delivery's endpoint.
\<close>

record hooks =
  wh_now :: int
  wh_db :: hook_db
  wh_jobs :: "job list"
  wh_posts :: "(post \<times> (int \<times> string) option) list"
  wh_queries :: nat
  wh_owner :: "(string \<times> string \<times> string) list"
  wh_sent :: "(string \<times> string \<times> string \<times> string) list"
  wh_ids :: "string list"
  wh_recovered :: "string list"
  wh_retried :: "string list"

definition without :: "nat \<Rightarrow> 'a list \<Rightarrow> 'a list" where
  "without k xs = take k xs @ drop (Suc k) xs"

definition the_rows :: "hooks \<Rightarrow> Delivery list" where
  "the_rows w = hd_deliveries (wh_db w)"

definition find_endpoint :: "string \<Rightarrow> hook_db \<Rightarrow> Endpoint option" where
  "find_endpoint i D = find (\<lambda>e. ep_ID e = i) (hd_endpoints D)"

definition with_rows :: "Delivery list \<Rightarrow> hooks \<Rightarrow> hooks" where
  "with_rows rows w = w\<lparr>wh_db := (wh_db w)\<lparr>hd_deliveries := rows\<rparr>\<rparr>"

inductive hook_step :: "hook_env \<Rightarrow> hooks \<Rightarrow> hooks \<Rightarrow> bool" for E w where
  clock: "hook_step E w (w\<lparr>wh_now := t\<rparr>)" if "wh_now w \<le> t"
| create: "hook_step E w (w\<lparr>wh_db := snd (handleCreateEndpoint E (wh_now w) (wh_queries w) i secret key url events (wh_db w)),
      wh_queries := Suc (wh_queries w), wh_owner := (i, key, secret) # wh_owner w\<rparr>)"
    if "i \<notin> fst ` set (wh_owner w)"
| update: "hook_step E w (w\<lparr>wh_db := snd (handleUpdateEndpoint E (wh_queries w) key i req (wh_db w)),
      wh_queries := Suc (wh_queries w)\<rparr>)"
| delete: "hook_step E w (w\<lparr>wh_db := snd (handleDeleteEndpoint key i (wh_db w))\<rparr>)"
| test: "hook_step E w (w\<lparr>wh_db := snd (handleTestEndpoint E (wh_now w) newID eventID key i (wh_db w)),
      wh_sent := (eventID, key, ''webhook.test'', test_payload) # wh_sent w, wh_ids := newID # wh_ids w\<rparr>)"
    if "newID \<notin> set (wh_ids w)"
| publish: "hook_step E w (w\<lparr>wh_db := snd (Publish E (wh_now w) eventID ids key eventType payload (wh_db w)),
      wh_sent := (eventID, key, eventType, publish_body E (wh_now w) eventID eventType payload) # wh_sent w, wh_ids := map fst ids @ wh_ids w\<rparr>)"
    if "distinct (map fst ids)" "set (map fst ids) \<inter> set (wh_ids w) = {}"
| retry: "hook_step E w (w\<lparr>wh_db := snd r, wh_retried := (if fst r = Accepted then [i] else []) @ wh_retried w\<rparr>)"
    if "r = handleRetryDelivery (wh_now w) key i (wh_db w)"
| claim: "hook_step E w ((with_rows (snd c) w)\<lparr>wh_jobs := wh_jobs w @ map Queued (fst c)\<rparr>)"
    if "c = ClaimDeliveries (wh_now w) n lease owner locked (the_rows w)"
| put_off: "hook_step E w (w\<lparr>wh_jobs := (wh_jobs w)[k := Judged (dv_ID d) (Requeue delay)]\<rparr>)"
    if "k < length (wh_jobs w)" "wh_jobs w ! k = Queued d"
| fetch: "hook_step E w (w\<lparr>wh_jobs := (wh_jobs w)[k := after_fetch E (wh_now w) d r]\<rparr>)"
    if "k < length (wh_jobs w)" "wh_jobs w ! k = Queued d" "r = None \<or> r = find_endpoint (dv_EndpointID d) (wh_db w)"
| reject: "hook_step E w (w\<lparr>wh_queries := Suc (wh_queries w),
      wh_jobs := (wh_jobs w)[k := Judged (dv_ID d) (failed_try E (wh_now w) d 0 ''endpoint URL rejected by url guard'')]\<rparr>)"
    if "k < length (wh_jobs w)" "wh_jobs w ! k = Fetched d ep" "\<not> ValidateDispatch (we_net E) (wh_queries w) (ep_URL ep)"
| unsent: "hook_step E w (w\<lparr>wh_queries := wh_queries w + 2,
      wh_jobs := (wh_jobs w)[k := after_answer E t d None]\<rparr>)"
    if "k < length (wh_jobs w)" "wh_jobs w ! k = Fetched d ep" "ValidateDispatch (we_net E) (wh_queries w) (ep_URL ep)" "wh_now w \<le> t"
| send: "hook_step E w (w\<lparr>wh_now := t, wh_queries := wh_queries w + 2,
      wh_posts := wh_posts w @ [(the_post E (wh_now w) d ep ip, ans)],
      wh_jobs := (wh_jobs w)[k := after_answer E t d ans]\<rparr>)"
    if "k < length (wh_jobs w)" "wh_jobs w ! k = Fetched d ep" "ValidateDispatch (we_net E) (wh_queries w) (ep_URL ep)"
      "ip \<in> dial (we_net E) (Suc (wh_queries w)) (ep_URL ep)" "wh_now w \<le> t"
| verdict_written: "hook_step E w (w\<lparr>wh_db := write_verdict (wh_now w) i v (wh_db w), wh_jobs := without k (wh_jobs w)\<rparr>)"
    if "k < length (wh_jobs w)" "wh_jobs w ! k = Judged i v"
| lost: "hook_step E w (w\<lparr>wh_jobs := without k (wh_jobs w)\<rparr>)"
    if "k < length (wh_jobs w)"
| sweep: "hook_step E w ((with_rows (RecoverStuck (wh_now w) (the_rows w)) w)\<lparr>wh_recovered :=
      map dv_ID (filter (stuck (wh_now w)) (the_rows w)) @ wh_recovered w\<rparr>)"

definition no_hooks :: "int \<Rightarrow> hooks" where
  "no_hooks t = \<lparr>wh_now = t, wh_db = \<lparr>hd_endpoints = [], hd_deliveries = []\<rparr>, wh_jobs = [], wh_posts = [], wh_queries = 0,
     wh_owner = [], wh_sent = [], wh_ids = [], wh_recovered = [], wh_retried = []\<rparr>"

inductive hook_reach :: "hook_env \<Rightarrow> hooks \<Rightarrow> bool" for E where
  hook_init: "hook_reach E (no_hooks t)"
| hook_next: "hook_reach E w \<Longrightarrow> hook_step E w w' \<Longrightarrow> hook_reach E w'"

section \<open>What the operations do to the tables\<close>

lemma set_rows_simps [simp]: "set_rows P f [] = []" "set_rows P f (r # rs) = (if P r then f r else r) # set_rows P f rs"
  "length (set_rows P f rs) = length rs"
  by (simp_all add: set_rows_def)

lemma in_set_rows: "r \<in> set (set_rows P f rows) \<longleftrightarrow> (\<exists>q \<in> set rows. r = (if P q then f q else q))"
  by (auto simp: set_rows_def)

lemma set_rows_map: "(\<And>r. g (f r) = g r) \<Longrightarrow> map g (set_rows P f rows) = map g rows"
  by (induction rows) (simp_all add: set_rows_def)

lemma touch_rows [simp]: "hd_deliveries (touch_endpoint i f D) = hd_deliveries D"
  by (simp add: touch_endpoint_def)

lemma with_rows_simps [simp]:
  "the_rows (with_rows rows w) = rows" "hd_endpoints (wh_db (with_rows rows w)) = hd_endpoints (wh_db w)"
  "wh_now (with_rows rows w) = wh_now w" "wh_jobs (with_rows rows w) = wh_jobs w" "wh_posts (with_rows rows w) = wh_posts w"
  "wh_owner (with_rows rows w) = wh_owner w" "wh_sent (with_rows rows w) = wh_sent w" "wh_ids (with_rows rows w) = wh_ids w"
  "wh_recovered (with_rows rows w) = wh_recovered w" "wh_retried (with_rows rows w) = wh_retried w"
  by (simp_all add: with_rows_def the_rows_def)

lemma the_rows_simps [simp]:
  "the_rows (w\<lparr>wh_db := D\<rparr>) = hd_deliveries D" "the_rows (w\<lparr>wh_now := t\<rparr>) = the_rows w"
  "the_rows (w\<lparr>wh_jobs := js\<rparr>) = the_rows w" "the_rows (w\<lparr>wh_posts := ps\<rparr>) = the_rows w"
  "the_rows (w\<lparr>wh_queries := q\<rparr>) = the_rows w" "the_rows (w\<lparr>wh_owner := os\<rparr>) = the_rows w"
  "the_rows (w\<lparr>wh_sent := ss\<rparr>) = the_rows w" "the_rows (w\<lparr>wh_ids := is\<rparr>) = the_rows w"
  "the_rows (w\<lparr>wh_recovered := rs\<rparr>) = the_rows w" "the_rows (w\<lparr>wh_retried := ts\<rparr>) = the_rows w"
  by (simp_all add: the_rows_def)

text \<open>A new row, and the tables after rows were added to them.\<close>

definition fresh_row :: "Delivery \<Rightarrow> bool" where
  "fresh_row d \<longleftrightarrow> dv_Status d = Pending \<and> dv_Attempts d = 0"

text \<open>A delivery of an event of a type with a text.\<close>

definition carries :: "hook_env \<Rightarrow> string \<Rightarrow> string \<Rightarrow> string \<Rightarrow> Delivery \<Rightarrow> bool" where
  "carries E ev ty p d \<longleftrightarrow> dv_EventID d = ev \<and> dv_EventType d = ty \<and> we_jsonb E p = Some (dv_Payload d)"

lemma Enqueue_adds:
  assumes "EnqueueDelivery E now i ep ty ev p D = Inr D'"
  shows "\<exists>d. D' = D\<lparr>hd_deliveries := hd_deliveries D @ [d]\<rparr> \<and> fresh_row d \<and> dv_ID d = i \<and> dv_EndpointID d = ep \<and> carries E ev ty p d"
  using assms by (auto simp: EnqueueDelivery_def fresh_row_def carries_def split: if_splits option.splits)

lemma enqueue_all_adds:
  "\<exists>ds. snd (enqueue_all E now ty ev body ids eps n D) = D\<lparr>hd_deliveries := hd_deliveries D @ ds\<rparr>
     \<and> prefix (map dv_ID ds) (map fst ids)
     \<and> (\<forall>d \<in> set ds. fresh_row d \<and> carries E ev ty body d \<and> (\<exists>e \<in> set eps. dv_EndpointID d = ep_ID e))"
proof (induction E now ty ev body ids eps n D rule: enqueue_all.induct)
  case (3 E now ty ev body i fails ids e es n D)
  show ?case
  proof (cases "fails \<or> (\<exists>x. EnqueueDelivery E now i (ep_ID e) ty ev body D = Inl x)")
    case True
    then show ?thesis by (auto intro!: exI [of _ "[]"])
  next
    case False
    then obtain D' where D': "\<not> fails" "EnqueueDelivery E now i (ep_ID e) ty ev body D = Inr D'"
      by (cases "EnqueueDelivery E now i (ep_ID e) ty ev body D") auto
    obtain d where d: "D' = D\<lparr>hd_deliveries := hd_deliveries D @ [d]\<rparr>" "fresh_row d" "dv_ID d = i"
      "dv_EndpointID d = ep_ID e" "carries E ev ty body d"
      using Enqueue_adds [OF D'(2)] by auto
    obtain ds where "snd (enqueue_all E now ty ev body ids es (Suc n) D') = D'\<lparr>hd_deliveries := hd_deliveries D' @ ds\<rparr>"
      "prefix (map dv_ID ds) (map fst ids)"
      "\<forall>d \<in> set ds. fresh_row d \<and> carries E ev ty body d \<and> (\<exists>e \<in> set es. dv_EndpointID d = ep_ID e)"
      using 3 D' by auto
    moreover have "D'\<lparr>hd_deliveries := hd_deliveries D' @ ds\<rparr> = D\<lparr>hd_deliveries := hd_deliveries D @ d # ds\<rparr>"
      using d by simp
    ultimately show ?thesis using D' d by (intro exI [of _ "d # ds"]) auto
  qed
qed (auto intro: exI [of _ "[]"])

text \<open>What a step does to the rows and the endpoints, one fact per operation.\<close>

lemma create_rows: "hd_deliveries (snd (handleCreateEndpoint E t q i secret key url events D)) = hd_deliveries D"
  by (auto simp: handleCreateEndpoint_def CreateEndpoint_def Let_def split: option.splits if_splits)

lemma update_rows: "hd_deliveries (snd (handleUpdateEndpoint E q key i req D)) = hd_deliveries D"
  by (auto simp: handleUpdateEndpoint_def UpdateEndpoint_def Let_def split: option.splits if_splits sum.splits)

lemma delete_rows: "\<exists>P. hd_deliveries (snd (handleDeleteEndpoint key i D)) = filter P (hd_deliveries D)"
  by (auto simp: handleDeleteEndpoint_def DeleteEndpoint_def intro: exI [of _ "\<lambda>_. True"])

lemma delete_endpoints: "set (hd_endpoints (snd (handleDeleteEndpoint key i D))) \<subseteq> set (hd_endpoints D)"
  by (auto simp: handleDeleteEndpoint_def DeleteEndpoint_def)

lemma test_adds:
  "snd (handleTestEndpoint E now newID ev key i D) = D
   \<or> (\<exists>d e. snd (handleTestEndpoint E now newID ev key i D) = D\<lparr>hd_deliveries := hd_deliveries D @ [d]\<rparr> \<and> fresh_row d
        \<and> dv_ID d = newID \<and> carries E ev ''webhook.test'' test_payload d \<and> e \<in> set (hd_endpoints D) \<and> ep_APIKeyID e = key \<and> dv_EndpointID d = ep_ID e)"
proof (cases "EnqueueDelivery E now newID i ''webhook.test'' ev test_payload D")
  case (Inr D')
  obtain d where d: "D' = D\<lparr>hd_deliveries := hd_deliveries D @ [d]\<rparr>" "fresh_row d" "dv_ID d = newID" "dv_EndpointID d = i" "carries E ev ''webhook.test'' test_payload d"
    using Enqueue_adds [OF Inr] by auto
  show ?thesis
  proof (cases "list_ex (\<lambda>e. ep_ID e = i) (ListEndpoints key D)")
    case True
    then obtain e where "e \<in> set (hd_endpoints D)" "ep_APIKeyID e = key" "ep_ID e = i" by (auto simp: ListEndpoints_def list_ex_iff)
    then show ?thesis using True Inr d by (auto simp: handleTestEndpoint_def)
  qed (simp add: handleTestEndpoint_def)
qed (simp add: handleTestEndpoint_def)

end
