(* ===== verification/HookTries.thy ===== *)
theory HookTries
  imports HookSystem
begin

text \<open>
  How often a delivery goes out: in every history at most eight times, and once more for every retry its
  tenant asked for and every lease of it that was swept.
\<close>

section \<open>Counting\<close>

definition cnt :: "('a \<Rightarrow> bool) \<Rightarrow> 'a list \<Rightarrow> nat" where
  "cnt P xs = length (filter P xs)"

lemma cnt_simps [simp]: "cnt P [] = 0" "cnt P (x # xs) = of_bool (P x) + cnt P xs" "cnt P (xs @ ys) = cnt P xs + cnt P ys"
  by (simp_all add: cnt_def)

lemma cnt_without: "k < length xs \<Longrightarrow> cnt P (without k xs) + of_bool (P (xs ! k)) = cnt P xs"
  by (subst (3) id_take_nth_drop [of k xs]) (simp_all add: without_def)

lemma cnt_update: "k < length xs \<Longrightarrow> cnt P (xs[k := y]) + of_bool (P (xs ! k)) = cnt P xs + of_bool (P y)"
  by (subst (2) id_take_nth_drop [of k xs]) (simp_all add: upd_conv_take_nth_drop)

lemma cnt_mono: "(\<And>x. P x \<Longrightarrow> Q x) \<Longrightarrow> cnt P xs \<le> cnt Q xs"
  by (induction xs) auto

lemma cnt_none: "(\<And>x. x \<in> set xs \<Longrightarrow> \<not> P x) \<Longrightarrow> cnt P xs = 0"
  by (simp add: cnt_def filter_empty_conv)

lemma cnt_map: "cnt P (map f xs) = cnt (P \<circ> f) xs"
  by (induction xs) simp_all

lemma cnt_unique: "distinct (map f xs) \<Longrightarrow> x \<in> set xs \<Longrightarrow> cnt (\<lambda>y. f y = f x \<and> Q y) xs = of_bool (Q x)"
proof (induction xs)
  case (Cons a xs)
  show ?case
  proof (cases "x = a")
    case True
    then have "cnt (\<lambda>y. f y = f x \<and> Q y) xs = 0" using Cons.prems(1) by (intro cnt_none) (metis distinct.simps(2) image_eqI list.set_map list.simps(9))
    then show ?thesis using True by simp
  next
    case False
    then have "f a \<noteq> f x" using Cons.prems by (metis distinct.simps(2) image_eqI list.set_map list.simps(9) set_ConsD)
    then show ?thesis using Cons False by simp
  qed
qed simp

section \<open>One delivery\<close>

fun job_id :: "job \<Rightarrow> string" where
  "job_id (Queued d) = dv_ID d"
| "job_id (Fetched d ep) = dv_ID d"
| "job_id (Judged i v) = i"

text \<open>A job that has not posted; one that may put its delivery back into the queue.\<close>

fun unposted :: "job \<Rightarrow> bool" where
  "unposted (Judged i (Requeue delay)) = True"
| "unposted (Judged i v) = False"
| "unposted j = True"

fun may_reopen :: "job \<Rightarrow> bool" where
  "may_reopen (Queued d) = (\<not> exhausted (dv_Attempts d))"
| "may_reopen (Fetched d ep) = (\<not> exhausted (dv_Attempts d))"
| "may_reopen (Judged i (MarkBad status body next dead)) = (\<not> dead)"
| "may_reopen (Judged i v) = False"

text \<open>Posts, jobs that have not posted, all jobs, jobs that may reopen, retries and sweeps of a delivery
  against its row.\<close>

definition tries_ok :: "nat \<Rightarrow> nat \<Rightarrow> nat \<Rightarrow> nat \<Rightarrow> nat \<Rightarrow> nat \<Rightarrow> Delivery \<Rightarrow> bool" where
  "tries_ok p u l n r c d \<longleftrightarrow>
     int (p + u) \<le> dv_Attempts d
     \<and> l \<le> c + of_bool (dv_Status d = InFlight)
     \<and> (dv_Attempts d \<ge> 8 \<longrightarrow> dv_Attempts d + int n \<le> 8 + int r + int c)
     \<and> (dv_Status d = Pending \<longrightarrow> dv_Attempts d \<ge> 8 \<longrightarrow> dv_Attempts d + int n \<le> 7 + int r + int c)"

lemma tries_mono:
  "tries_ok p u l n r c d \<Longrightarrow> p' + u' \<le> p + u \<Longrightarrow> l' \<le> l \<Longrightarrow> n' \<le> n \<Longrightarrow> r \<le> r' \<Longrightarrow> tries_ok p' u' l' n' r' c d"
  by (auto simp: tries_ok_def)

lemma tries_fresh: "fresh_row d \<Longrightarrow> tries_ok 0 0 0 0 r c d"
  by (simp add: tries_ok_def fresh_row_def)

lemma tries_claimed:
  assumes "tries_ok p u l n r c d" "claimable now d" "n \<le> l"
  shows "tries_ok p (Suc u) (Suc l) (n + of_bool (\<not> exhausted (dv_Attempts d + 1))) r c (claim_row now lease owner d)"
  using assms by (auto simp: tries_ok_def claimable_def claim_row_def exhausted_def maxAttempts_def)

lemma tries_requeued:
  assumes "tries_ok p (Suc u) (Suc l) n r c d" "dv_Status d = InFlight"
  shows "tries_ok p u l n r c ((unclaimed d)\<lparr>dv_Status := Pending, dv_Attempts := max (dv_Attempts d - 1) 0, dv_NextAttemptAt := t\<rparr>)"
  using assms by (auto simp: tries_ok_def unclaimed_def)

lemma tries_delivered:
  assumes "tries_ok p u (Suc l) n r c d"
  shows "tries_ok p u l n r c ((unclaimed d)\<lparr>dv_Status := Delivered, dv_DeliveredAt := a, dv_LastResponseStatus := s, dv_LastResponseBody := b\<rparr>)"
  using assms by (cases "dv_Status d = InFlight") (auto simp: tries_ok_def unclaimed_def)

lemma tries_failed:
  assumes "tries_ok p u (Suc l) (n + of_bool (\<not> dead)) r c d"
  shows "tries_ok p u l n r c ((unclaimed d)\<lparr>dv_Status := (if dead then DeadLetter else Pending), dv_LastResponseStatus := s,
     dv_LastResponseBody := b, dv_NextAttemptAt := t\<rparr>)"
  using assms by (cases "dv_Status d = InFlight"; cases dead) (auto simp: tries_ok_def unclaimed_def)

lemma tries_recovered:
  assumes "tries_ok p u l n r c d" "dv_Status d = InFlight"
  shows "tries_ok p u l n r (Suc c) ((unclaimed d)\<lparr>dv_Status := Pending, dv_NextAttemptAt := t\<rparr>)"
  using assms by (auto simp: tries_ok_def unclaimed_def)

lemma tries_retried:
  assumes "tries_ok p u l n r c d" "dv_Status d = DeadLetter"
  shows "tries_ok p u l n (Suc r) c (d\<lparr>dv_Status := Pending, dv_NextAttemptAt := t\<rparr>)"
  using assms by (auto simp: tries_ok_def)

section \<open>Every history\<close>

definition tries :: "hooks \<Rightarrow> Delivery \<Rightarrow> bool" where
  "tries w d = (let i = dv_ID d in
     tries_ok (cnt (\<lambda>p. po_delivery (fst p) = i) (wh_posts w)) (cnt (\<lambda>j. job_id j = i \<and> unposted j) (wh_jobs w))
       (cnt (\<lambda>j. job_id j = i) (wh_jobs w)) (cnt (\<lambda>j. job_id j = i \<and> may_reopen j) (wh_jobs w))
       (count_list (wh_retried w) i) (count_list (wh_recovered w) i) d)"

definition hook_inv :: "hooks \<Rightarrow> bool" where
  "hook_inv w \<longleftrightarrow> distinct (map dv_ID (the_rows w))
     \<and> dv_ID ` set (the_rows w) \<union> job_id ` set (wh_jobs w) \<union> (po_delivery \<circ> fst) ` set (wh_posts w) \<subseteq> set (wh_ids w)
     \<and> (\<forall>d \<in> set (the_rows w). tries w d)"

text \<open>A step that changes one job, or drops it.\<close>

lemma tries_job:
  assumes "tries w d" "k < length (wh_jobs w)" "wh_jobs w ! k = j" "job_id j' = job_id j"
    and "unposted j' \<longrightarrow> unposted j" "may_reopen j' \<longrightarrow> may_reopen j"
  shows "tries (w\<lparr>wh_jobs := (wh_jobs w)[k := j']\<rparr>) d"
proof (simp add: tries_def Let_def, rule tries_mono [OF assms(1) [unfolded tries_def Let_def]])
  note u = cnt_update [OF assms(2), where y = j', unfolded assms(3,4)]
  show "cnt (\<lambda>p. po_delivery (fst p) = dv_ID d) (wh_posts w) + cnt (\<lambda>j. job_id j = dv_ID d \<and> unposted j) ((wh_jobs w)[k := j'])
    \<le> cnt (\<lambda>p. po_delivery (fst p) = dv_ID d) (wh_posts w) + cnt (\<lambda>j. job_id j = dv_ID d \<and> unposted j) (wh_jobs w)"
    using u [of "\<lambda>j. job_id j = dv_ID d \<and> unposted j"] assms(4,5) by (auto simp: of_bool_def split: if_splits)
qed (use cnt_update [OF assms(2), where y = j', unfolded assms(3), of "\<lambda>j. job_id j = dv_ID d"]
      cnt_update [OF assms(2), where y = j', unfolded assms(3), of "\<lambda>j. job_id j = dv_ID d \<and> may_reopen j"] assms(4,6)
     in \<open>auto simp: of_bool_def split: if_splits\<close>)

lemma tries_without:
  assumes "tries w d" "k < length (wh_jobs w)"
  shows "tries (w\<lparr>wh_jobs := without k (wh_jobs w)\<rparr>) d"
  by (simp add: tries_def Let_def, rule tries_mono [OF assms(1) [unfolded tries_def Let_def]])
    (use cnt_without [OF assms(2), of "\<lambda>j. job_id j = dv_ID d \<and> unposted j"] cnt_without [OF assms(2), of "\<lambda>j. job_id j = dv_ID d"]
        cnt_without [OF assms(2), of "\<lambda>j. job_id j = dv_ID d \<and> may_reopen j"] in simp_all)

lemma tries_sent:
  assumes "tries w d" "k < length (wh_jobs w)" "wh_jobs w ! k = Fetched q ep" "job_id j' = dv_ID q"
    and "\<not> unposted j'" "may_reopen j' \<longrightarrow> may_reopen (Fetched q ep)" "po_delivery p = dv_ID q"
  shows "tries (w\<lparr>wh_posts := wh_posts w @ [(p, ans)], wh_jobs := (wh_jobs w)[k := j']\<rparr>) d"
proof -
  let ?J = "(wh_jobs w)[k := j']"
  have "tries_ok (cnt (\<lambda>p. po_delivery (fst p) = dv_ID d) (wh_posts w) + of_bool (dv_ID q = dv_ID d))
      (cnt (\<lambda>j. job_id j = dv_ID d \<and> unposted j) ?J) (cnt (\<lambda>j. job_id j = dv_ID d) ?J)
      (cnt (\<lambda>j. job_id j = dv_ID d \<and> may_reopen j) ?J)
      (count_list (wh_retried w) (dv_ID d)) (count_list (wh_recovered w) (dv_ID d)) d"
    by (rule tries_mono [OF assms(1) [unfolded tries_def Let_def]])
      (use cnt_update [OF assms(2), of "\<lambda>j. job_id j = dv_ID d \<and> unposted j" j', unfolded assms(3)]
          cnt_update [OF assms(2), of "\<lambda>j. job_id j = dv_ID d" j', unfolded assms(3)]
          cnt_update [OF assms(2), of "\<lambda>j. job_id j = dv_ID d \<and> may_reopen j" j', unfolded assms(3)] assms(4-6)
        in \<open>auto simp: of_bool_def split: if_splits\<close>)
  then show ?thesis using assms(7) by (simp add: tries_def Let_def)
qed

lemma tries_other [simp]: "tries (w\<lparr>wh_db := D\<rparr>) d = tries w d" "tries (w\<lparr>wh_now := t\<rparr>) d = tries w d"
  "tries (w\<lparr>wh_queries := q\<rparr>) d = tries w d" "tries (w\<lparr>wh_owner := os\<rparr>) d = tries w d"
  "tries (w\<lparr>wh_sent := ss\<rparr>) d = tries w d" "tries (w\<lparr>wh_ids := is\<rparr>) d = tries w d"
  by (simp_all add: tries_def)

lemma job_steps:
  "job_id (after_fetch E t d r) = dv_ID d" "unposted (after_fetch E t d r) \<longrightarrow> unposted (Queued d)"
  "may_reopen (after_fetch E t d r) \<longrightarrow> may_reopen (Queued d)"
  "job_id (after_answer E t d ans) = dv_ID d" "\<not> unposted (after_answer E t d ans)"
  "may_reopen (after_answer E t d ans) \<longrightarrow> may_reopen (Fetched d ep)"
  by (auto simp: after_fetch_def after_answer_def failed_try_def Let_def split: option.splits prod.splits if_splits)

section \<open>Steps on the rows\<close>

lemma tries_written:
  assumes "tries w d" "k < length (wh_jobs w)" "wh_jobs w ! k = Judged i v"
    and "distinct (map dv_ID (the_rows w))" "d' \<in> set (hd_deliveries (write_verdict t i v (wh_db w)))" "dv_ID d' = dv_ID d" "d \<in> set (the_rows w)"
  shows "tries (w\<lparr>wh_jobs := without k (wh_jobs w)\<rparr>) d'"
proof -
  let ?J = "without k (wh_jobs w)" and ?c = "\<lambda>P J. cnt (\<lambda>j. job_id j = dv_ID d \<and> P j) J"
  have w: "?c unposted ?J + of_bool (i = dv_ID d \<and> unposted (Judged i v)) = ?c unposted (wh_jobs w)"
    "?c (\<lambda>_. True) ?J + of_bool (i = dv_ID d) = ?c (\<lambda>_. True) (wh_jobs w)"
    "?c may_reopen ?J + of_bool (i = dv_ID d \<and> may_reopen (Judged i v)) = ?c may_reopen (wh_jobs w)"
    using cnt_without [OF assms(2), of "\<lambda>j. job_id j = dv_ID d \<and> unposted j"] cnt_without [OF assms(2), of "\<lambda>j. job_id j = dv_ID d \<and> True"]
      cnt_without [OF assms(2), of "\<lambda>j. job_id j = dv_ID d \<and> may_reopen j"] by (simp_all add: assms(3))
  obtain p r c where b: "tries_ok p (?c unposted (wh_jobs w)) (?c (\<lambda>_. True) (wh_jobs w)) (?c may_reopen (wh_jobs w)) r c d"
    and g: "\<And>d'. dv_ID d' = dv_ID d \<Longrightarrow> tries (w\<lparr>wh_jobs := ?J\<rparr>) d' \<longleftrightarrow> tries_ok p (?c unposted ?J) (?c (\<lambda>_. True) ?J) (?c may_reopen ?J) r c d'"
    using assms(1) by (simp add: tries_def Let_def)
  have same: "tries (w\<lparr>wh_jobs := ?J\<rparr>) d" by (rule tries_without [OF assms(1,2)])
  have eq: "q = d" if "q \<in> set (the_rows w)" "dv_ID q = dv_ID d" for q
    using assms(4,7) that by (auto simp: distinct_map dest: inj_onD)
  obtain q where q: "q \<in> set (the_rows w)" "d' = (if dv_ID q = i then (case v of
        Requeue delay \<Rightarrow> if dv_Status q = InFlight then (unclaimed q)\<lparr>dv_Status := Pending, dv_Attempts := max (dv_Attempts q - 1) 0,
           dv_NextAttemptAt := t + quot (if delay \<le> 0 then second else delay) millisecond * millisecond\<rparr> else q
      | MarkOK status body \<Rightarrow> if pg_text (truncateBody body) then (unclaimed q)\<lparr>dv_Status := Delivered, dv_DeliveredAt := Some t,
           dv_LastResponseStatus := Some status, dv_LastResponseBody := Some (truncateBody body)\<rparr> else q
      | MarkBad status body next dead \<Rightarrow> if pg_text (truncateBody body) then (unclaimed q)\<lparr>dv_Status := (if dead then DeadLetter else Pending),
           dv_LastResponseStatus := Some status, dv_LastResponseBody := Some (truncateBody body), dv_NextAttemptAt := next\<rparr> else q) else q)"
    using assms(5) by (cases v) (auto simp: write_verdict_def RequeueWithDelay_def MarkDelivered_def MarkFailed_def in_set_rows the_rows_def Let_def split: if_splits)
  have "dv_ID q = dv_ID d" using q(2) assms(6) by (auto simp: unclaimed_def split: verdict.splits if_splits)
  then have [simp]: "q = d" using eq q(1) by simp
  show ?thesis
  proof (cases "d' = d")
    case False
    then have i: "i = dv_ID d" using q(2) by (auto split: if_splits)
    have "tries_ok p (?c unposted ?J) (?c (\<lambda>_. True) ?J) (?c may_reopen ?J) r c d'"
    proof (cases v)
      case (Requeue delay)
      then show ?thesis using q(2) i w b False by (auto intro!: tries_requeued split: if_splits)
    next
      case (MarkOK status body)
      then show ?thesis using q(2) i w b False by (auto intro!: tries_delivered split: if_splits)
    next
      case (MarkBad status body nx dead)
      then have "tries_ok p (?c unposted ?J) (Suc (?c (\<lambda>_. True) ?J)) (?c may_reopen ?J + of_bool (\<not> dead)) r c d"
        using i w b by simp
      from tries_failed [OF this] show ?thesis using q(2) i MarkBad False by (auto split: if_splits)
    qed
    then show ?thesis using g assms(6) by simp
  qed (use same in simp)
qed


lemma hook_invI:
  assumes "distinct (map dv_ID (the_rows w))" "dv_ID ` set (the_rows w) \<subseteq> set (wh_ids w)" "job_id ` set (wh_jobs w) \<subseteq> set (wh_ids w)"
    and "(po_delivery \<circ> fst) ` set (wh_posts w) \<subseteq> set (wh_ids w)" "\<And>d. d \<in> set (the_rows w) \<Longrightarrow> tries w d"
  shows "hook_inv w"
  using assms by (simp add: hook_inv_def)

lemma hook_invD:
  assumes "hook_inv w"
  shows "distinct (map dv_ID (the_rows w))" "d \<in> set (the_rows w) \<Longrightarrow> dv_ID d \<in> set (wh_ids w)"
    and "j \<in> set (wh_jobs w) \<Longrightarrow> job_id j \<in> set (wh_ids w)" "x \<in> set (wh_posts w) \<Longrightarrow> po_delivery (fst x) \<in> set (wh_ids w)"
    and "d \<in> set (the_rows w) \<Longrightarrow> tries w d"
  using assms by (auto simp: hook_inv_def image_subset_iff)

lemma same_row: "hook_inv w \<Longrightarrow> d \<in> set (the_rows w) \<Longrightarrow> q \<in> set (the_rows w) \<Longrightarrow> dv_ID q = dv_ID d \<Longrightarrow> q = d"
  by (auto simp: hook_inv_def distinct_map dest: inj_onD)

lemma inv_job:
  assumes "hook_inv w" "k < length (wh_jobs w)" "wh_jobs w ! k = j" "job_id j' = job_id j"
    and "unposted j' \<longrightarrow> unposted j" "may_reopen j' \<longrightarrow> may_reopen j"
  shows "hook_inv (w\<lparr>wh_jobs := (wh_jobs w)[k := j']\<rparr>)"
proof (rule hook_invI)
  have "job_id j' \<in> set (wh_ids w)" using assms nth_mem [OF assms(2)] hook_invD(3) by metis
  then show "job_id ` set (wh_jobs (w\<lparr>wh_jobs := (wh_jobs w)[k := j']\<rparr>)) \<subseteq> set (wh_ids (w\<lparr>wh_jobs := (wh_jobs w)[k := j']\<rparr>))"
    using hook_invD(3) [OF assms(1)] set_update_subset_insert [of "wh_jobs w" k j'] by fastforce
qed (use hook_invD [OF assms(1)] tries_job [OF _ assms(2-6)] in auto)

lemma in_without: "x \<in> set (without k xs) \<Longrightarrow> x \<in> set xs"
  by (auto simp: without_def dest: in_set_takeD in_set_dropD)

lemma inv_job_dropped: "hook_inv w \<Longrightarrow> k < length (wh_jobs w) \<Longrightarrow> hook_inv (w\<lparr>wh_jobs := without k (wh_jobs w)\<rparr>)"
  by (rule hook_invI) (auto dest: hook_invD in_without intro!: tries_without)

text \<open>Tables that keep their deliveries.\<close>

lemma inv_db: "hook_inv w \<Longrightarrow> hd_deliveries D = the_rows w \<Longrightarrow> hook_inv (w\<lparr>wh_db := D\<rparr>)"
  by (simp add: hook_inv_def)

lemma inv_other [simp]: "hook_inv (w\<lparr>wh_now := t\<rparr>) = hook_inv w" "hook_inv (w\<lparr>wh_queries := q\<rparr>) = hook_inv w"
  "hook_inv (w\<lparr>wh_owner := os\<rparr>) = hook_inv w" "hook_inv (w\<lparr>wh_sent := ss\<rparr>) = hook_inv w"
  by (simp_all add: hook_inv_def)

lemma inv_deleted: "hook_inv w \<Longrightarrow> hd_deliveries D = filter P (the_rows w) \<Longrightarrow> hook_inv (w\<lparr>wh_db := D\<rparr>)"
  by (rule hook_invI) (auto dest: hook_invD intro: distinct_map_filter)

lemma cnt_strangers:
  assumes "hook_inv w" "i \<notin> set (wh_ids w)"
  shows "cnt (\<lambda>x. po_delivery (fst x) = i) (wh_posts w) = 0" "cnt (\<lambda>j. job_id j = i \<and> P j) (wh_jobs w) = 0" "cnt (\<lambda>j. job_id j = i) (wh_jobs w) = 0"
  by (rule cnt_none, use assms hook_invD(3,4) in blast)+

lemma inv_added:
  assumes "hook_inv w" "hd_deliveries D = the_rows w @ ds" "\<And>d. d \<in> set ds \<Longrightarrow> fresh_row d"
    and "distinct (map dv_ID ds)" "dv_ID ` set ds \<subseteq> set is" "set is \<inter> set (wh_ids w) = {}"
  shows "hook_inv (w\<lparr>wh_db := D, wh_ids := is @ wh_ids w\<rparr>)"
proof (rule hook_invI)
  fix d assume "d \<in> set (the_rows (w\<lparr>wh_db := D, wh_ids := is @ wh_ids w\<rparr>))"
  then consider "d \<in> set (the_rows w)" | "d \<in> set ds" using assms(2) by auto
  then show "tries (w\<lparr>wh_db := D, wh_ids := is @ wh_ids w\<rparr>) d"
  proof cases
    case 2
    then have "dv_ID d \<notin> set (wh_ids w)" using assms(5,6) by blast
    then show ?thesis using cnt_strangers [OF assms(1)] tries_fresh [OF assms(3) [OF 2]] by (simp add: tries_def Let_def)
  qed (use hook_invD(5) [OF assms(1)] in simp)
next
  have "dv_ID ` set (the_rows w) \<inter> dv_ID ` set ds = {}" using hook_invD(2) [OF assms(1)] assms(5,6) by blast
  then show "distinct (map dv_ID (the_rows (w\<lparr>wh_db := D, wh_ids := is @ wh_ids w\<rparr>)))"
    using hook_invD(1) [OF assms(1)] assms(2,4) by simp
qed (use hook_invD [OF assms(1)] assms(2,5) in \<open>auto simp: image_subset_iff\<close>)

lemma inv_accepted:
  assumes "hook_inv w"
  shows "hook_inv (w\<lparr>wh_db := snd (handleRetryDelivery t key i (wh_db w)), wh_retried := i # wh_retried w\<rparr>)"
proof -
  define hit :: "Delivery \<Rightarrow> bool" where "hit = (\<lambda>d. dv_ID d = i \<and> dv_Status d = DeadLetter
    \<and> list_ex (\<lambda>e. ep_ID e = dv_EndpointID d \<and> ep_APIKeyID e = key) (hd_endpoints (wh_db w)))"
  let ?f = "\<lambda>d. d\<lparr>dv_Status := Pending, dv_NextAttemptAt := t\<rparr>"
  have "hd_deliveries (snd (handleRetryDelivery t key i (wh_db w))) = the_rows w \<or> hd_deliveries (snd (handleRetryDelivery t key i (wh_db w))) = set_rows hit ?f (the_rows w)"
    by (auto simp: handleRetryDelivery_def RetryDeadLetter_def hit_def the_rows_def Let_def split: prod.splits bool.splits)
  moreover have "set_rows hit ?f (the_rows w) = the_rows w" if "\<not> list_ex hit (the_rows w)"
    using that by (simp add: set_rows_def list_ex_iff map_idI)
  ultimately have rows: "hd_deliveries (snd (handleRetryDelivery t key i (wh_db w))) = set_rows hit ?f (the_rows w)"
    by (auto simp: handleRetryDelivery_def RetryDeadLetter_def hit_def the_rows_def Let_def split: prod.splits bool.splits)
  have one: "tries (w\<lparr>wh_retried := i # wh_retried w\<rparr>) (if hit d then ?f d else d)" if "tries w d" for d
  proof (cases "hit d")
    case True
    then have "dv_ID d = i" "dv_Status d = DeadLetter" by (simp_all add: hit_def)
    then show ?thesis using that True by (simp add: tries_def Let_def tries_retried)
  next
    case False
    then show ?thesis using that by (auto simp: tries_def Let_def elim: tries_mono)
  qed
  show ?thesis
  proof (rule hook_invI)
    fix d assume "d \<in> set (the_rows (w\<lparr>wh_db := snd (handleRetryDelivery t key i (wh_db w)), wh_retried := i # wh_retried w\<rparr>))"
    then obtain q where "q \<in> set (the_rows w)" "d = (if hit q then ?f q else q)" using rows by (auto simp: in_set_rows)
    then show "tries (w\<lparr>wh_db := snd (handleRetryDelivery t key i (wh_db w)), wh_retried := i # wh_retried w\<rparr>) d"
      using one hook_invD(5) [OF assms] by (simp add: tries_def)
  next
    have m: "map dv_ID (set_rows hit ?f (the_rows w)) = map dv_ID (the_rows w)" by (rule set_rows_map) simp
    then have "dv_ID ` set (set_rows hit ?f (the_rows w)) = dv_ID ` set (the_rows w)" by (metis list.set_map)
    then show "distinct (map dv_ID (the_rows (w\<lparr>wh_db := snd (handleRetryDelivery t key i (wh_db w)), wh_retried := i # wh_retried w\<rparr>)))"
      "dv_ID ` set (the_rows (w\<lparr>wh_db := snd (handleRetryDelivery t key i (wh_db w)), wh_retried := i # wh_retried w\<rparr>)) \<subseteq>
         set (wh_ids (w\<lparr>wh_db := snd (handleRetryDelivery t key i (wh_db w)), wh_retried := i # wh_retried w\<rparr>))"
      using hook_invD(1,2) [OF assms] rows m by auto
  qed (use hook_invD(3,4) [OF assms] in auto)
qed

lemma inv_retried:
  assumes "hook_inv w" and "r = handleRetryDelivery t key i (wh_db w)"
  shows "hook_inv (w\<lparr>wh_db := snd r, wh_retried := (if fst r = Accepted then [i] else []) @ wh_retried w\<rparr>)"
proof (cases "fst r = Accepted")
  case True
  then show ?thesis using inv_accepted [OF assms(1), of i t key] by (simp add: assms(2))
next
  case False
  then have "snd r = wh_db w" by (auto simp: assms(2) handleRetryDelivery_def split: prod.splits bool.splits)
  with False show ?thesis using assms(1) by simp
qed


lemma rows_ids: "(\<And>d. dv_ID (f d) = dv_ID d) \<Longrightarrow> map dv_ID (set_rows P f rows) = map dv_ID rows"
  by (rule set_rows_map)

lemma claim_row_simps [simp]: "dv_ID (claim_row now lease owner d) = dv_ID d" "dv_Attempts (claim_row now lease owner d) = dv_Attempts d + 1"
  "dv_ID (unclaimed d) = dv_ID d"
  by (simp_all add: claim_row_def unclaimed_def)

lemma picked_claimable:
  assumes "distinct (map dv_ID rows)" "d \<in> set rows" "dv_ID d \<in> set (picked now limit locked rows)"
  shows "claimable now d"
proof -
  obtain q where "q \<in> set rows" "claimable now q" "dv_ID q = dv_ID d"
    using assms(3) by (auto simp: picked_def dest!: in_set_takeD)
  then show ?thesis using assms(1,2) by (auto simp: distinct_map dest: inj_onD)
qed

lemma inv_claimed:
  assumes "hook_inv w" "c = ClaimDeliveries now n lease owner locked (the_rows w)"
  shows "hook_inv ((with_rows (snd c) w)\<lparr>wh_jobs := wh_jobs w @ map Queued (fst c)\<rparr>)" (is "hook_inv ?w'")
proof -
  define l where "l = (if lease \<le> 0 then 60 else lease)"
  define ids where "ids = set (picked now n locked (the_rows w))"
  let ?rows = "set_rows (\<lambda>d. dv_ID d \<in> ids) (claim_row now l owner) (the_rows w)"
  have c: "c = (filter (\<lambda>d. dv_ID d \<in> ids) ?rows, ?rows)"
    by (simp add: assms(2) ClaimDeliveries_def Let_def l_def ids_def)
  have m: "map dv_ID ?rows = map dv_ID (the_rows w)" by (rule rows_ids) simp
  have new: "cnt (\<lambda>j. job_id j = dv_ID d \<and> P j) (map Queued (fst c)) = of_bool (dv_ID d \<in> ids \<and> P (Queued d))"
    if "d \<in> set ?rows" for P d
    using cnt_unique [of dv_ID ?rows d "\<lambda>q. dv_ID q \<in> ids \<and> P (Queued q)"] that hook_invD(1) [OF assms(1)] m
    by (simp add: cnt_map c cnt_def comp_def conj_commute conj_left_commute)
  show ?thesis
  proof (rule hook_invI)
    fix d' assume "d' \<in> set (the_rows ?w')"
    then have d': "d' \<in> set ?rows" using c by simp
    then obtain d where d: "d \<in> set (the_rows w)" "d' = (if dv_ID d \<in> ids then claim_row now l owner d else d)" by (auto simp: in_set_rows)
    note t = hook_invD(5) [OF assms(1) d(1), unfolded tries_def Let_def]
    show "tries ?w' d'"
    proof (cases "dv_ID d \<in> ids")
      case True
      have "claimable now d" using picked_claimable hook_invD(1) [OF assms(1)] d(1) True by (simp add: ids_def)
      moreover have "cnt (\<lambda>j. job_id j = dv_ID d \<and> may_reopen j) (wh_jobs w) \<le> cnt (\<lambda>j. job_id j = dv_ID d) (wh_jobs w)" by (rule cnt_mono) simp
      ultimately have "tries_ok (cnt (\<lambda>p. po_delivery (fst p) = dv_ID d) (wh_posts w)) (Suc (cnt (\<lambda>j. job_id j = dv_ID d \<and> unposted j) (wh_jobs w)))
        (Suc (cnt (\<lambda>j. job_id j = dv_ID d) (wh_jobs w))) (cnt (\<lambda>j. job_id j = dv_ID d \<and> may_reopen j) (wh_jobs w) + of_bool (\<not> exhausted (dv_Attempts d + 1)))
        (count_list (wh_retried w) (dv_ID d)) (count_list (wh_recovered w) (dv_ID d)) d'"
        using tries_claimed [OF t] d(2) True by simp
      then show ?thesis using new [OF d', of unposted] new [OF d', of "\<lambda>_. True"] new [OF d', of may_reopen] d(2) True
        by (simp add: tries_def Let_def)
    next
      case False
      then show ?thesis using new [OF d', of unposted] new [OF d', of "\<lambda>_. True"] new [OF d', of may_reopen] d(2) t
        by (simp add: tries_def Let_def)
    qed
  next
    have "dv_ID ` set ?rows = dv_ID ` set (the_rows w)" using arg_cong [OF m, of set] by simp
    then show "dv_ID ` set (the_rows ?w') \<subseteq> set (wh_ids ?w')" "job_id ` set (wh_jobs ?w') \<subseteq> set (wh_ids ?w')"
      using hook_invD(2,3) [OF assms(1)] c by (auto simp: image_Un image_image)
        (metis (no_types, lifting) imageE image_eqI)
  qed (use hook_invD [OF assms(1)] c m in auto)
qed

lemma inv_swept:
  assumes "hook_inv w"
  shows "hook_inv ((with_rows (RecoverStuck (wh_now w) (the_rows w)) w)\<lparr>wh_recovered :=
      map dv_ID (filter (stuck (wh_now w)) (the_rows w)) @ wh_recovered w\<rparr>)" (is "hook_inv ?w'")
proof (rule hook_invI)
  let ?f = "\<lambda>d. (unclaimed d)\<lparr>dv_Status := Pending, dv_NextAttemptAt := wh_now w\<rparr>"
  have m: "map dv_ID (the_rows ?w') = map dv_ID (the_rows w)" by (simp add: RecoverStuck_def) (rule rows_ids, simp)
  then have s: "dv_ID ` set (the_rows ?w') = dv_ID ` set (the_rows w)" by (metis list.set_map)
  show "distinct (map dv_ID (the_rows ?w'))" "dv_ID ` set (the_rows ?w') \<subseteq> set (wh_ids ?w')"
    using hook_invD(1,2) [OF assms] m s by auto
  fix d' assume "d' \<in> set (the_rows ?w')"
  then obtain d where d: "d \<in> set (the_rows w)" "d' = (if stuck (wh_now w) d then ?f d else d)"
    by (auto simp: RecoverStuck_def in_set_rows)
  have "count_list (map dv_ID (filter (stuck (wh_now w)) (the_rows w))) (dv_ID d) = of_bool (stuck (wh_now w) d)"
    using cnt_unique [OF hook_invD(1) [OF assms] d(1), of "stuck (wh_now w)"]
    by (simp add: cnt_def count_list_eq_length_filter filter_map comp_def eq_commute conj_commute)
  then show "tries ?w' d'" using d tries_recovered hook_invD(5) [OF assms d(1)]
    by (auto simp: tries_def Let_def stuck_def)
qed (use hook_invD [OF assms] in auto)


lemma inv_written:
  assumes "hook_inv w" "k < length (wh_jobs w)" "wh_jobs w ! k = Judged i v"
  shows "hook_inv (w\<lparr>wh_db := write_verdict t i v (wh_db w), wh_jobs := without k (wh_jobs w)\<rparr>)" (is "hook_inv ?w'")
proof (rule hook_invI)
  have m: "map dv_ID (hd_deliveries (write_verdict t i v (wh_db w))) = map dv_ID (the_rows w)"
    by (cases v) (simp_all add: write_verdict_def RequeueWithDelay_def MarkDelivered_def MarkFailed_def Let_def the_rows_def rows_ids)
  then have s: "dv_ID ` set (hd_deliveries (write_verdict t i v (wh_db w))) = dv_ID ` set (the_rows w)" by (metis list.set_map)
  show "distinct (map dv_ID (the_rows ?w'))" "dv_ID ` set (the_rows ?w') \<subseteq> set (wh_ids ?w')"
    using hook_invD(1,2) [OF assms(1)] m s by auto
  show "job_id ` set (wh_jobs ?w') \<subseteq> set (wh_ids ?w')" using hook_invD(3) [OF assms(1)] by (auto dest: in_without)
  fix d' assume d': "d' \<in> set (the_rows ?w')"
  then obtain d where d: "d \<in> set (the_rows w)" "dv_ID d' = dv_ID d" using s by (metis imageE image_eqI the_rows_simps(1,3))
  then show "tries ?w' d'"
    using tries_written [OF hook_invD(5) [OF assms(1) d(1)] assms(2,3) hook_invD(1) [OF assms(1)] _ d(2) d(1)] d'
    by (simp add: tries_def)
qed (use hook_invD(4) [OF assms(1)] in auto)

lemma inv_posted:
  assumes "hook_inv w" "k < length (wh_jobs w)" "wh_jobs w ! k = Fetched d ep"
  shows "hook_inv (w\<lparr>wh_posts := wh_posts w @ [(the_post E t d ep ip, ans)], wh_jobs := (wh_jobs w)[k := after_answer E t' d ans]\<rparr>)" (is "hook_inv ?w'")
proof (rule hook_invI)
  have "dv_ID d \<in> set (wh_ids w)" using hook_invD(3) [OF assms(1) nth_mem [OF assms(2)]] assms(3) by simp
  then show "job_id ` set (wh_jobs ?w') \<subseteq> set (wh_ids ?w')" "(po_delivery \<circ> fst) ` set (wh_posts ?w') \<subseteq> set (wh_ids ?w')"
    using hook_invD(3,4) [OF assms(1)] set_update_subset_insert [of "wh_jobs w" k "after_answer E t' d ans"]
    by (auto simp: job_steps the_post_def)
  show "tries ?w' q" if "q \<in> set (the_rows ?w')" for q
    using tries_sent [OF _ assms(2,3), of q "after_answer E t' d ans" "the_post E t d ep ip"] that hook_invD(5) [OF assms(1)] job_steps(4-6)
    by (simp add: the_post_def)
qed (use hook_invD [OF assms(1)] in auto)

lemma hook_inv_step: "hook_step E w w' \<Longrightarrow> hook_inv w \<Longrightarrow> hook_inv w'"
proof (induction rule: hook_step.induct)
  case (create i secret key url events)
  then show ?case by (simp add: create_rows the_rows_def inv_db)
next
  case (update key i req)
  then show ?case by (simp add: update_rows the_rows_def inv_db)
next
  case (delete key i)
  then show ?case using delete_rows [of key i "wh_db w"] inv_deleted [of w] by (auto simp: the_rows_def)
next
  case (test newID eventID key i)
  from test_adds [of E "wh_now w" newID eventID key i "wh_db w"] show ?case
  proof
    assume "snd (handleTestEndpoint E (wh_now w) newID eventID key i (wh_db w)) = wh_db w"
    then show ?thesis using inv_added [OF test(2), of "wh_db w" "[]" "[newID]"] test(1) by (simp add: the_rows_def hook_inv_def tries_def)
  next
    assume "\<exists>d e. snd (handleTestEndpoint E (wh_now w) newID eventID key i (wh_db w)) = (wh_db w)\<lparr>hd_deliveries := hd_deliveries (wh_db w) @ [d]\<rparr>
      \<and> fresh_row d \<and> dv_ID d = newID \<and> carries E eventID ''webhook.test'' test_payload d \<and> e \<in> set (hd_endpoints (wh_db w)) \<and> ep_APIKeyID e = key \<and> dv_EndpointID d = ep_ID e"
    then obtain d where d: "snd (handleTestEndpoint E (wh_now w) newID eventID key i (wh_db w)) = (wh_db w)\<lparr>hd_deliveries := hd_deliveries (wh_db w) @ [d]\<rparr>"
      "fresh_row d" "dv_ID d = newID" by auto
    then show ?thesis using inv_added [OF test(2), of "(wh_db w)\<lparr>hd_deliveries := hd_deliveries (wh_db w) @ [d]\<rparr>" "[d]" "[newID]"] test(1)
      by (simp add: the_rows_def hook_inv_def tries_def)
  qed
next
  case (publish ids eventID key eventType payload)
  obtain ds where ds: "snd (Publish E (wh_now w) eventID ids key eventType payload (wh_db w)) = (wh_db w)\<lparr>hd_deliveries := hd_deliveries (wh_db w) @ ds\<rparr>"
    "prefix (map dv_ID ds) (map fst ids)" "\<forall>d \<in> set ds. fresh_row d"
    using enqueue_all_adds [of E "wh_now w" eventType eventID _ ids _ 0 "wh_db w"] unfolding Publish_def by blast
  have "distinct (map dv_ID ds)" using ds(2) publish(1) by (auto simp: prefix_def)
  moreover have "dv_ID ` set ds \<subseteq> set (map fst ids)" using set_mono_prefix [OF ds(2)] by simp
  ultimately show ?case
    using inv_added [OF publish(3) _ _ _ _ publish(2), of "(wh_db w)\<lparr>hd_deliveries := hd_deliveries (wh_db w) @ ds\<rparr>" ds] ds
    by (simp add: the_rows_def hook_inv_def tries_def)
next
  case (retry key i)
  from inv_retried [OF retry(2,1)] show ?case .
next
  case (claim c n lease owner locked)
  then show ?case by (simp add: inv_claimed)
next
  case (put_off k d delay)
  then show ?case by (simp add: inv_job)
next
  case (fetch k d r)
  then show ?case using inv_job [OF fetch(4,1,2), of "after_fetch E (wh_now w) d r"] job_steps(1-3) by simp
next
  case (reject k d ep)
  then show ?case using inv_job [OF reject(4,1,2), of "Judged (dv_ID d) (failed_try E (wh_now w) d 0 ''endpoint URL rejected by url guard'')"]
    by (simp add: failed_try_def hook_inv_def tries_def)
next
  case (unsent k d ep t)
  then show ?case using inv_job [OF unsent(5,1,2), of "after_answer E t d None"] job_steps(4-6) by (simp add: hook_inv_def tries_def)
next
  case (send k d ep ip t ans)
  then show ?case using inv_posted [OF send(6,1,2), where E = E and t = "wh_now w" and ip = ip and ans = ans and t' = t] by (simp add: hook_inv_def tries_def)
next
  case (verdict_written k i v)
  then show ?case by (simp add: inv_written)
next
  case (lost k)
  then show ?case by (rule inv_job_dropped [rotated])
next
  case sweep
  then show ?case by (rule inv_swept)
qed simp

lemma reach_hook_inv: "hook_reach E w \<Longrightarrow> hook_inv w"
  by (induction rule: hook_reach.induct) (simp add: no_hooks_def hook_inv_def the_rows_def, rule hook_inv_step)

text \<open>Property C16. In every history a delivery is posted at most eight times, and once more for every retry its
  tenant was granted and every time its lease was swept.\<close>

theorem posts_are_bounded:
  assumes "hook_reach E w" "d \<in> set (the_rows w)"
  shows "length (filter (\<lambda>p. po_delivery (fst p) = dv_ID d) (wh_posts w))
    \<le> 8 + count_list (wh_retried w) (dv_ID d) + count_list (wh_recovered w) (dv_ID d)"
  using hook_invD(5) [OF reach_hook_inv [OF assms(1)] assms(2)]
  by (cases "dv_Attempts d \<ge> 8") (auto simp: tries_def tries_ok_def cnt_def Let_def)

end
