(* ===== verification/HookSafety.thy ===== *)
theory HookSafety
  imports HookSystem
begin

text \<open>
  What goes out: every request carries an event that was published for the tenant of its endpoint, signed with
  that endpoint's secret, and while lookups are stable no internal address is reached in production.
\<close>

definition owned :: "hooks \<Rightarrow> string \<Rightarrow> string \<Rightarrow> string \<Rightarrow> bool" where
  "owned w i key secret \<longleftrightarrow> (i, key, secret) \<in> set (wh_owner w)"

text \<open>A delivery that belongs to a tenant: of one of its endpoints and of one of its events.\<close>

definition belongs :: "hook_env \<Rightarrow> hooks \<Rightarrow> Delivery \<Rightarrow> bool" where
  "belongs E w d \<longleftrightarrow> (\<exists>key secret body. owned w (dv_EndpointID d) key secret
     \<and> (dv_EventID d, key, dv_EventType d, body) \<in> set (wh_sent w) \<and> we_jsonb E body = Some (dv_Payload d))"

definition known_endpoint :: "hooks \<Rightarrow> Endpoint \<Rightarrow> bool" where
  "known_endpoint w e \<longleftrightarrow> owned w (ep_ID e) (ep_APIKeyID e) (ep_Secret e) \<and> TrimSpace (ep_URL e) = ep_URL e"

fun good_job :: "hook_env \<Rightarrow> hooks \<Rightarrow> job \<Rightarrow> bool" where
  "good_job E w (Queued d) = belongs E w d"
| "good_job E w (Fetched d ep) = (belongs E w d \<and> known_endpoint w ep \<and> ep_ID ep = dv_EndpointID d)"
| "good_job E w (Judged i v) = True"

definition authentic :: "hook_env \<Rightarrow> hooks \<Rightarrow> post \<Rightarrow> bool" where
  "authentic E w p \<longleftrightarrow> (\<exists>secret body payload. owned w (po_endpoint p) (po_tenant p) secret
     \<and> (po_event_id p, po_tenant p, po_event_type p, body) \<in> set (wh_sent w) \<and> we_jsonb E body = Some payload
     \<and> po_body p = ascii payload \<and> po_signature p = signature_header E secret (po_time p div second) payload
     \<and> (ne_mode (we_net E) = ModeProduction \<and> stable_dns (we_net E) \<longrightarrow> \<not> isBlockedIP (po_address p)))"

definition post_inv :: "hook_env \<Rightarrow> hooks \<Rightarrow> bool" where
  "post_inv E w \<longleftrightarrow> distinct (map fst (wh_owner w)) \<and> (\<forall>e \<in> set (hd_endpoints (wh_db w)). known_endpoint w e)
     \<and> (\<forall>d \<in> set (the_rows w). belongs E w d) \<and> (\<forall>j \<in> set (wh_jobs w). good_job E w j)
     \<and> (\<forall>p \<in> set (wh_posts w). authentic E w (fst p))"

lemma post_invD:
  assumes "post_inv E w"
  shows "distinct (map fst (wh_owner w))" "e \<in> set (hd_endpoints (wh_db w)) \<Longrightarrow> known_endpoint w e"
    and "d \<in> set (the_rows w) \<Longrightarrow> belongs E w d" "j \<in> set (wh_jobs w) \<Longrightarrow> good_job E w j"
    and "x \<in> set (wh_posts w) \<Longrightarrow> authentic E w (fst x)"
  using assms by (auto simp: post_inv_def)

lemma owned_once: "post_inv E w \<Longrightarrow> owned w i key secret \<Longrightarrow> owned w i key' secret' \<Longrightarrow> key' = key \<and> secret' = secret"
  using eq_key_imp_eq_value [of "wh_owner w" i "(key, secret)" "(key', secret')"] by (simp add: owned_def post_inv_def)

text \<open>History only grows.\<close>

definition later :: "hooks \<Rightarrow> hooks \<Rightarrow> bool" where
  "later w w' \<longleftrightarrow> set (wh_owner w) \<subseteq> set (wh_owner w') \<and> set (wh_sent w) \<subseteq> set (wh_sent w')"

lemma later_keeps:
  assumes "later w w'"
  shows "known_endpoint w e \<Longrightarrow> known_endpoint w' e" "belongs E w d \<Longrightarrow> belongs E w' d" "good_job E w j \<Longrightarrow> good_job E w' j"
    and "authentic E w p \<Longrightarrow> authentic E w' p"
proof -
  have o: "owned w i key secret \<Longrightarrow> owned w' i key secret" for i key secret using assms by (auto simp: later_def owned_def)
  then show e: "known_endpoint w e \<Longrightarrow> known_endpoint w' e" for e by (simp add: known_endpoint_def)
  show d: "belongs E w d \<Longrightarrow> belongs E w' d" for d using o assms by (fastforce simp: belongs_def later_def)
  show "good_job E w j \<Longrightarrow> good_job E w' j" using e d by (cases j) auto
  show "authentic E w p \<Longrightarrow> authentic E w' p" using o assms unfolding authentic_def later_def by blast
qed

lemma post_invI:
  assumes "post_inv E w" "later w w'" "distinct (map fst (wh_owner w'))"
    and "\<And>e. e \<in> set (hd_endpoints (wh_db w')) \<Longrightarrow> e \<notin> set (hd_endpoints (wh_db w)) \<Longrightarrow> known_endpoint w' e"
    and "\<And>d. d \<in> set (the_rows w') \<Longrightarrow> d \<notin> set (the_rows w) \<Longrightarrow> belongs E w' d"
    and "\<And>j. j \<in> set (wh_jobs w') \<Longrightarrow> j \<notin> set (wh_jobs w) \<Longrightarrow> good_job E w' j"
    and "\<And>x. x \<in> set (wh_posts w') \<Longrightarrow> x \<notin> set (wh_posts w) \<Longrightarrow> authentic E w' (fst x)"
  shows "post_inv E w'"
  unfolding post_inv_def using assms(3-7) later_keeps [OF assms(2)] post_invD [OF assms(1)] by blast

text \<open>Rows whose endpoint, event and payload are those of a row that was there.\<close>

definition same_event :: "Delivery \<Rightarrow> Delivery \<Rightarrow> bool" where
  "same_event q d \<longleftrightarrow> dv_EndpointID q = dv_EndpointID d \<and> dv_EventID q = dv_EventID d
     \<and> dv_EventType q = dv_EventType d \<and> dv_Payload q = dv_Payload d"

lemma belongs_same: "belongs E w d \<Longrightarrow> same_event q d \<Longrightarrow> belongs E w q"
  by (simp add: belongs_def same_event_def)

lemma belongs_set_rows: "d \<in> set (set_rows P f rows) \<Longrightarrow> \<forall>q \<in> set rows. belongs E w q \<Longrightarrow> (\<And>q. same_event (f q) q) \<Longrightarrow> belongs E w d"
  by (auto simp: in_set_rows) (metis belongs_same)

lemma same_event_simps [simp]: "same_event q q" "same_event (claim_row now lease owner q) q" "same_event (unclaimed q) q"
  "same_event (q\<lparr>dv_Status := s, dv_NextAttemptAt := t\<rparr>) q"
  "same_event ((unclaimed q)\<lparr>dv_Status := s, dv_NextAttemptAt := t\<rparr>) q"
  "same_event ((unclaimed q)\<lparr>dv_Status := s, dv_Attempts := a, dv_NextAttemptAt := t\<rparr>) q"
  "same_event ((unclaimed q)\<lparr>dv_Status := s, dv_DeliveredAt := x, dv_LastResponseStatus := y, dv_LastResponseBody := z\<rparr>) q"
  "same_event ((unclaimed q)\<lparr>dv_Status := s, dv_LastResponseStatus := y, dv_LastResponseBody := z, dv_NextAttemptAt := t\<rparr>) q"
  by (simp_all add: same_event_def claim_row_def unclaimed_def)

lemma TrimSpace_TrimSpace: "TrimSpace (TrimSpace s) = TrimSpace s"
proof -
  define t u where "t = dropWhile is_space s" and "u = rev (dropWhile is_space (rev t))"
  have "rev t = takeWhile is_space (rev t) @ rev u" by (simp add: u_def)
  then have t: "t = u @ rev (takeWhile is_space (rev t))" by (metis rev_append rev_rev_ident)
  have "dropWhile is_space u = u"
  proof (cases u)
    case (Cons c v)
    then have "hd t = c" "t \<noteq> []" by (subst t, simp)+
    then have "\<not> is_space c" using hd_dropWhile [of is_space s] by (auto simp: t_def)
    then show ?thesis using Cons by simp
  qed simp
  then show ?thesis by (simp add: TrimSpace_def u_def t_def)
qed

lemma known_endpoints:
  "e \<in> set (set_rows P f eps) \<Longrightarrow> \<forall>e \<in> set eps. known_endpoint w e
    \<Longrightarrow> (\<And>e. ep_ID (f e) = ep_ID e \<and> ep_APIKeyID (f e) = ep_APIKeyID e \<and> ep_Secret (f e) = ep_Secret e \<and> ep_URL (f e) = ep_URL e)
    \<Longrightarrow> known_endpoint w e"
  by (auto simp: in_set_rows known_endpoint_def)

lemma create_endpoints:
  "e \<in> set (hd_endpoints (snd (handleCreateEndpoint E t q i secret key url events D))) \<Longrightarrow>
    e \<in> set (hd_endpoints D) \<or> (ep_ID e = i \<and> ep_APIKeyID e = key \<and> ep_Secret e = secret \<and> TrimSpace (ep_URL e) = ep_URL e)"
  by (auto simp: handleCreateEndpoint_def CreateEndpoint_def Let_def TrimSpace_TrimSpace split: option.splits if_splits)

lemma update_endpoints:
  "e \<in> set (hd_endpoints (snd (handleUpdateEndpoint E q key i req D))) \<Longrightarrow> \<forall>e \<in> set (hd_endpoints D). known_endpoint w e \<Longrightarrow> known_endpoint w e"
  by (cases "pt_URL req")
    (auto simp: handleUpdateEndpoint_def UpdateEndpoint_def Let_def known_endpoint_def patched_def coalesce_def in_set_rows TrimSpace_TrimSpace
      split: option.splits if_splits)

lemma verdict_endpoints:
  "e \<in> set (hd_endpoints (write_verdict t i v D)) \<Longrightarrow> \<forall>e \<in> set (hd_endpoints D). known_endpoint w e \<Longrightarrow> known_endpoint w e"
  by (cases v) (auto simp: write_verdict_def MarkDelivered_def MarkFailed_def touch_endpoint_def elim!: known_endpoints split: if_splits)

lemma verdict_rows:
  "d \<in> set (hd_deliveries (write_verdict t i v D)) \<Longrightarrow> \<forall>d \<in> set (hd_deliveries D). belongs E w d \<Longrightarrow> belongs E w d"
  by (cases v) (auto simp: write_verdict_def MarkDelivered_def MarkFailed_def RequeueWithDelay_def Let_def elim!: belongs_set_rows split: if_splits)

lemma the_post_authentic:
  assumes "post_inv E w" "good_job E w (Fetched d ep)" "ValidateDispatch (we_net E) q (ep_URL ep)" "ip \<in> dial (we_net E) r (ep_URL ep)"
  shows "authentic E w (the_post E t d ep ip)"
proof -
  obtain key secret body where b: "owned w (dv_EndpointID d) key secret" "(dv_EventID d, key, dv_EventType d, body) \<in> set (wh_sent w)"
    "we_jsonb E body = Some (dv_Payload d)" using assms(2) by (auto simp: belongs_def)
  have e: "owned w (ep_ID ep) (ep_APIKeyID ep) (ep_Secret ep)" "ep_ID ep = dv_EndpointID d" "TrimSpace (ep_URL ep) = ep_URL ep"
    using assms(2) by (auto simp: known_endpoint_def)
  then have "ep_APIKeyID ep = key" "ep_Secret ep = secret" using owned_once [OF assms(1) b(1)] by auto
  then show ?thesis using b e guarded_dial [OF _ _ assms(3) e(3) assms(4)]
    unfolding authentic_def by (intro exI [of _ secret] exI [of _ body] exI [of _ "dv_Payload d"]) (simp add: the_post_def)
qed

lemma good_jobs_simps [simp]: "good_job E w (Judged i v)" "good_job E w (after_answer E t d ans)"
  by (auto simp: after_answer_def Let_def split: option.splits prod.splits)

section \<open>Every history\<close>

lemma later_refl [simp]: "set (wh_owner w) \<subseteq> set (wh_owner w') \<Longrightarrow> set (wh_sent w) \<subseteq> set (wh_sent w') \<Longrightarrow> later w w'"
  by (simp add: later_def)

text \<open>Steps that touch neither history nor posts.\<close>

lemma post_inv_quiet:
  assumes "post_inv E w" "wh_owner w' = wh_owner w" "wh_sent w' = wh_sent w" "wh_posts w' = wh_posts w"
    and "\<forall>e \<in> set (hd_endpoints (wh_db w')). known_endpoint w e" "\<forall>d \<in> set (the_rows w'). belongs E w d"
    and "\<forall>j \<in> set (wh_jobs w'). good_job E w j"
  shows "post_inv E w'"
proof (rule post_invI [OF assms(1)])
  have l: "later w w'" using assms(2,3) by simp
  then show "later w w'" .
  show "known_endpoint w' e" if "e \<in> set (hd_endpoints (wh_db w'))" for e using later_keeps(1) [OF l] assms(5) that by blast
  show "belongs E w' d" if "d \<in> set (the_rows w')" for d using later_keeps(2) [OF l] assms(6) that by blast
  show "good_job E w' j" if "j \<in> set (wh_jobs w')" for j using later_keeps(3) [OF l] assms(7) that by blast
qed (use assms post_invD(1) [OF assms(1)] in auto)

lemma post_inv_job:
  assumes "post_inv E w" "wh_owner w' = wh_owner w" "wh_sent w' = wh_sent w" "wh_posts w' = wh_posts w" "wh_db w' = wh_db w"
    and "wh_jobs w' = (wh_jobs w)[k := j]" "good_job E w j"
  shows "post_inv E w'"
  by (rule post_inv_quiet [OF assms(1-4)])
    (use assms post_invD [OF assms(1)] set_update_subset_insert [of "wh_jobs w" k j] in \<open>auto simp: the_rows_def\<close>)

lemma published_belong:
  assumes "post_inv E w" "hd_deliveries D = the_rows w @ ds" "set (hd_endpoints D) \<subseteq> set (hd_endpoints (wh_db w))"
    and "\<forall>d \<in> set ds. carries E ev ty body d \<and> (\<exists>e \<in> set (hd_endpoints (wh_db w)). ep_APIKeyID e = key \<and> dv_EndpointID d = ep_ID e)"
  shows "post_inv E (w\<lparr>wh_db := D, wh_sent := (ev, key, ty, body) # wh_sent w, wh_ids := is\<rparr>)" (is "post_inv E ?w'")
proof (rule post_invI [OF assms(1)])
  show l: "later w ?w'" by (simp add: later_def subset_insertI)
  show "belongs E ?w' d" if "d \<in> set (the_rows ?w')" "d \<notin> set (the_rows w)" for d
  proof -
    have "d \<in> set ds" using that assms(2) by simp
    then obtain e where e: "carries E ev ty body d" "e \<in> set (hd_endpoints (wh_db w))" "ep_APIKeyID e = key" "dv_EndpointID d = ep_ID e"
      using assms(4) by blast
    then show ?thesis using post_invD(2) [OF assms(1) e(2)] by (auto simp: belongs_def known_endpoint_def owned_def carries_def)
  qed
qed (use assms(3) post_invD [OF assms(1)] in auto)

lemma post_inv_step: "hook_step E w w' \<Longrightarrow> post_inv E w \<Longrightarrow> post_inv E w'"
proof (induction rule: hook_step.induct)
  case (clock t)
  show ?case by (rule post_inv_quiet [OF clock(2)]) (use post_invD [OF clock(2)] in auto)
next
  case (create i key secret url events)
  show ?case
  proof (rule post_invI [OF create(2)], goal_cases)
    case 1
    show ?case by (simp add: later_def subset_insertI)
  next
    case (3 e)
    then show ?case using create_endpoints [of e] by (simp add: known_endpoint_def owned_def) blast
  qed (use create(1) post_invD(1) [OF create(2)] in \<open>auto simp: create_rows the_rows_def\<close>)
next
  case (update key i req)
  show ?case by (rule post_inv_quiet [OF update(1)])
      (use post_invD [OF update(1)] update_endpoints in \<open>auto simp: update_rows the_rows_def\<close>)
next
  case (delete key i)
  obtain P where P: "hd_deliveries (snd (handleDeleteEndpoint key i (wh_db w))) = filter P (the_rows w)"
    using delete_rows [of key i "wh_db w"] by (auto simp: the_rows_def)
  show ?case by (rule post_inv_quiet [OF delete(1)])
      (use post_invD [OF delete(1)] delete_endpoints [of key i "wh_db w"] P in auto)
next
  case (test newID eventID key i)
  from test_adds [of E "wh_now w" newID eventID key i "wh_db w"] show ?case
  proof
    assume "snd (handleTestEndpoint E (wh_now w) newID eventID key i (wh_db w)) = wh_db w"
    then show ?thesis using published_belong [OF test(2), of "wh_db w" "[]"] by (simp add: the_rows_def)
  next
    assume "\<exists>d e. snd (handleTestEndpoint E (wh_now w) newID eventID key i (wh_db w)) = (wh_db w)\<lparr>hd_deliveries := hd_deliveries (wh_db w) @ [d]\<rparr>
      \<and> fresh_row d \<and> dv_ID d = newID \<and> carries E eventID ''webhook.test'' test_payload d \<and> e \<in> set (hd_endpoints (wh_db w)) \<and> ep_APIKeyID e = key \<and> dv_EndpointID d = ep_ID e"
    then obtain d e where d: "snd (handleTestEndpoint E (wh_now w) newID eventID key i (wh_db w)) = (wh_db w)\<lparr>hd_deliveries := hd_deliveries (wh_db w) @ [d]\<rparr>"
      "carries E eventID ''webhook.test'' test_payload d" "e \<in> set (hd_endpoints (wh_db w))" "ep_APIKeyID e = key" "dv_EndpointID d = ep_ID e" by auto
    then have "\<forall>d \<in> set [d]. carries E eventID ''webhook.test'' test_payload d \<and> (\<exists>e \<in> set (hd_endpoints (wh_db w)). ep_APIKeyID e = key \<and> dv_EndpointID d = ep_ID e)"
      by auto
    then show ?thesis using published_belong [OF test(2), of "(wh_db w)\<lparr>hd_deliveries := hd_deliveries (wh_db w) @ [d]\<rparr>" "[d]"] d(1)
      by (simp add: the_rows_def)
  qed
next
  case (publish ids eventID key eventType payload)
  let ?eps = "GetActiveEndpointsForEvent key eventType (wh_db w)" and ?body = "publish_body E (wh_now w) eventID eventType payload"
  obtain ds where ds: "snd (Publish E (wh_now w) eventID ids key eventType payload (wh_db w)) = (wh_db w)\<lparr>hd_deliveries := hd_deliveries (wh_db w) @ ds\<rparr>"
    "\<forall>d \<in> set ds. fresh_row d \<and> carries E eventID eventType ?body d \<and> (\<exists>e \<in> set ?eps. dv_EndpointID d = ep_ID e)"
    using enqueue_all_adds [of E "wh_now w" eventType eventID ?body ids ?eps 0 "wh_db w"] unfolding Publish_def by blast
  have "\<forall>d \<in> set ds. carries E eventID eventType ?body d \<and> (\<exists>e \<in> set (hd_endpoints (wh_db w)). ep_APIKeyID e = key \<and> dv_EndpointID d = ep_ID e)"
    using ds(2) by (auto simp: GetActiveEndpointsForEvent_def)
  then show ?case using published_belong [OF publish(3), of "(wh_db w)\<lparr>hd_deliveries := hd_deliveries (wh_db w) @ ds\<rparr>" ds] ds(1)
    by (simp add: the_rows_def)
next
  case (retry r key i)
  have "belongs E w d" if "d \<in> set (hd_deliveries (snd (handleRetryDelivery (wh_now w) key i (wh_db w))))" for d
    using that post_invD(3) [OF retry(2)]
    by (auto simp: handleRetryDelivery_def RetryDeadLetter_def Let_def the_rows_def split: prod.splits bool.splits elim!: belongs_set_rows)
  moreover have "hd_endpoints (snd (handleRetryDelivery (wh_now w) key i (wh_db w))) = hd_endpoints (wh_db w)"
    by (auto simp: handleRetryDelivery_def RetryDeadLetter_def Let_def split: prod.splits bool.splits)
  ultimately show ?case unfolding retry(1) by (intro post_inv_quiet [OF retry(2)]) (use post_invD [OF retry(2)] in auto)
next
  case (claim c n lease owner locked)
  have "belongs E w d" if "d \<in> set (snd c)" for d
    using that post_invD(3) [OF claim(2)] claim(1) by (auto simp: ClaimDeliveries_def Let_def elim!: belongs_set_rows)
  moreover have "set (fst c) \<subseteq> set (snd c)" using claim(1) by (auto simp: ClaimDeliveries_def Let_def)
  ultimately show ?case by (intro post_inv_quiet [OF claim(2)]) (use post_invD [OF claim(2)] in auto)
next
  case (put_off k d delay)
  show ?case by (rule post_inv_job [OF put_off(3)]) auto
next
  case (fetch k d r)
  have "belongs E w d" using post_invD(4) [OF fetch(4) nth_mem [OF fetch(1)]] fetch(2) by simp
  moreover have "known_endpoint w e \<and> ep_ID e = dv_EndpointID d" if "r = Some e" for e
  proof -
    have "find (\<lambda>e. ep_ID e = dv_EndpointID d) (hd_endpoints (wh_db w)) = Some e" using that fetch(3) by (auto simp: find_endpoint_def)
    then have "e \<in> set (hd_endpoints (wh_db w))" "ep_ID e = dv_EndpointID d" by (auto simp: find_Some_iff)
    then show ?thesis using post_invD(2) [OF fetch(4)] by simp
  qed
  ultimately have "good_job E w (after_fetch E (wh_now w) d r)" by (auto simp: after_fetch_def split: option.splits)
  then show ?case by (intro post_inv_job [OF fetch(4)]) auto
next
  case (reject k d ep)
  show ?case by (rule post_inv_job [OF reject(4)]) auto
next
  case (unsent k d ep t)
  show ?case by (rule post_inv_job [OF unsent(5)]) auto
next
  case (send k d ep ip t ans)
  have "good_job E w (Fetched d ep)" using post_invD(4) [OF send(6) nth_mem [OF send(1)]] send(2) by simp
  from the_post_authentic [OF send(6) this send(3,4)]
  have a: "authentic E w (the_post E (wh_now w) d ep ip)" .
  show ?case
  proof (rule post_invI [OF send(6)], goal_cases)
    case (4 j)
    then show ?case using set_update_subset_insert [of "wh_jobs w" k "after_answer E t d ans"] by auto
  next
    case (6 x)
    then have "fst x = the_post E (wh_now w) d ep ip" by auto
    then show ?case using a by (simp add: authentic_def owned_def)
  qed (use post_invD [OF send(6)] set_update_subset_insert [of "wh_jobs w" k "after_answer E t d ans"] in auto)
next
  case (verdict_written k i v)
  show ?case by (rule post_inv_quiet [OF verdict_written(3)])
      (use post_invD [OF verdict_written(3)] verdict_endpoints verdict_rows in \<open>auto simp: without_def the_rows_def dest: in_set_takeD in_set_dropD\<close>)
next
  case (lost k)
  show ?case by (rule post_inv_quiet [OF lost(2)])
      (use post_invD [OF lost(2)] in \<open>auto simp: without_def dest: in_set_takeD in_set_dropD\<close>)
next
  case sweep
  have "belongs E w d" if "d \<in> set (RecoverStuck (wh_now w) (the_rows w))" for d
    using that post_invD(3) [OF sweep] by (auto simp: RecoverStuck_def elim!: belongs_set_rows)
  then show ?case by (intro post_inv_quiet [OF sweep]) (use post_invD [OF sweep] in auto)
qed

lemma reach_post_inv: "hook_reach E w \<Longrightarrow> post_inv E w"
  by (induction rule: hook_reach.induct) (simp add: no_hooks_def post_inv_def the_rows_def, rule post_inv_step)

text \<open>Property C17. Every webhook request that ever goes out is about an event that was published for the tenant of the
  endpoint it goes to, carries the payload stored for that event, and is signed, for the second it was sent, with the
  secret of that endpoint; in production, as long as a name keeps resolving to the same addresses, the address it is
  sent to is not an internal one.\<close>

theorem posts_are_authentic:
  assumes "hook_reach E w" "(p, ans) \<in> set (wh_posts w)"
  shows "\<exists>secret body payload. (po_endpoint p, po_tenant p, secret) \<in> set (wh_owner w)
    \<and> (po_event_id p, po_tenant p, po_event_type p, body) \<in> set (wh_sent w) \<and> we_jsonb E body = Some payload
    \<and> po_body p = ascii payload \<and> po_signature p = signature_header E secret (po_time p div second) payload
    \<and> (ne_mode (we_net E) = ModeProduction \<and> stable_dns (we_net E) \<longrightarrow> \<not> isBlockedIP (po_address p))"
  using post_invD(5) [OF reach_post_inv [OF assms(1)] assms(2)] unfolding authentic_def owned_def by simp

end
