(* ===== verification/WebhookEvents.thy ===== *)
theory WebhookEvents
  imports Webhooks PolicyReads
begin

text \<open>
  Package \<open>webhooks\<close>, the on-chain side: the base58 writer and the parser of event lines (\<open>events.go\<close>), what
  the listener publishes of a notification (\<open>listener.go\<close>) and the subscriptions it looks tenants up in
  (\<open>policy/subscriptions.go\<close>). The connection, its pings and its logging are left out.
\<close>

section \<open>Base58\<close>

definition b58_alphabet :: string where
  "b58_alphabet = ''123456789ABCDEFGHJKLMNPQRSTUVWXYZabcdefghijkmnopqrstuvwxyz''"

text \<open>The inner loop from index \<open>j - 1\<close> down; it gives rear \<open>i\<close> and the buffer.\<close>

fun carry_loop :: "nat \<Rightarrow> nat \<Rightarrow> nat \<Rightarrow> nat \<Rightarrow> nat list \<Rightarrow> nat \<times> nat list" where
  "carry_loop 0 carry i len out = (i, out)"
| "carry_loop (Suc j) carry i len out =
     (if carry \<noteq> 0 \<or> i < len
      then (let c = carry + 256 * (out ! j) in carry_loop j (c div 58) (Suc i) len (out[j := c mod 58]))
      else (i, out))"

fun convert_loop :: "nat \<Rightarrow> bytes \<Rightarrow> nat \<Rightarrow> nat list \<Rightarrow> nat \<times> nat list" where
  "convert_loop room [] len out = (len, out)"
| "convert_loop room (b # bs) len out =
     (let (len', out') = carry_loop room (unat b) 0 len out in convert_loop room bs len' out')"

definition base58Encode :: "bytes \<Rightarrow> string" where
  "base58Encode input =
     (if input = [] then ''''
      else let zeros = length (takeWhile (\<lambda>b. b = 0) input);
               room = length input * 138 div 100 + 1;
               (len, out) = convert_loop room input 0 (replicate room 0);
               rest = dropWhile (\<lambda>d. d = 0) (drop (room - len) out)
           in replicate zeros (b58_alphabet ! 0) @ map (\<lambda>d. b58_alphabet ! d) rest)"

definition encodePub :: "bytes \<Rightarrow> string" where
  "encodePub b = base58Encode b"

text \<open>What base58 is: the number of the bytes in base 58, with a \<open>1\<close> for every leading zero byte.\<close>

definition number :: "nat \<Rightarrow> nat list \<Rightarrow> nat" where
  "number b ds = foldl (\<lambda>a d. a * b + d) 0 ds"

fun digits :: "nat \<Rightarrow> nat list" where
  "digits n = (if n = 0 then [] else digits (n div 58) @ [n mod 58])"

declare digits.simps [simp del]

lemma digits_0: "digits 0 = []" and digits_pos: "n \<noteq> 0 \<Longrightarrow> digits n = digits (n div 58) @ [n mod 58]"
  by (subst digits.simps, simp)+

lemma digits_Nil: "digits n = [] \<longleftrightarrow> n = 0"
  by (cases "n = 0") (simp_all add: digits_0 digits_pos)

definition base58 :: "bytes \<Rightarrow> string" where
  "base58 b = replicate (length (takeWhile (\<lambda>x. x = 0) b)) CHR ''1'' @ map (\<lambda>d. b58_alphabet ! d) (digits (number 256 (map unat b)))"

lemma number_simps [simp]: "number b [] = 0" "number b (ds @ [d]) = number b ds * b + d"
  by (simp_all add: number_def)

lemma number_append: "number b (xs @ ys) = number b xs * b ^ length ys + number b ys"
proof (induction ys rule: rev_induct)
  case (snoc y ys)
  have "number b (xs @ ys @ [y]) = number b (xs @ ys) * b + y" using number_simps(2) [of b "xs @ ys" y] by simp
  then show ?case using snoc by (simp add: algebra_simps)
qed simp

lemma number_zeros: "number b (replicate n 0) = 0"
  by (induction n) (simp_all add: replicate_append_same [symmetric])

lemma number_bound: "\<forall>d \<in> set ds. d < b \<Longrightarrow> number b ds < b ^ length ds"
proof (induction ds rule: rev_induct)
  case (snoc d ds)
  then have "number b ds + 1 \<le> b ^ length ds" "d < b" by auto
  then have "(number b ds + 1) * b \<le> b ^ length ds * b" by (intro mult_right_mono) auto
  then show ?case using \<open>d < b\<close> by (simp add: algebra_simps)
qed simp

lemma number_all_zero: "\<forall>d \<in> set ds. d = 0 \<Longrightarrow> number b ds = 0"
  by (induction ds rule: rev_induct) simp_all

text \<open>One byte is multiplied in, when the buffer has room.\<close>

lemma carry_loop_spec:
  assumes "256 * number 58 front + carry < 58 ^ length front" "\<forall>d \<in> set (front @ rear). d < 58"
    and "list_all (\<lambda>d. d = 0) (take (length front - (len - i)) front)"
  shows "\<exists>i' front'. carry_loop (length front) carry i len (front @ rear) = (i', front' @ rear)
    \<and> length front' = length front \<and> (\<forall>d \<in> set front'. d < 58) \<and> number 58 front' = 256 * number 58 front + carry
    \<and> i \<le> i' \<and> list_all (\<lambda>d. d = 0) (take (length front - (i' - i)) front')"
  using assms
proof (induction front arbitrary: carry i rear rule: rev_induct)
  case (snoc d front)
  show ?case
  proof (cases "carry \<noteq> 0 \<or> i < len")
    case False
    then have "list_all (\<lambda>d. d = 0) (front @ [d])" using snoc.prems(3) by simp
    then have "\<forall>x \<in> set (front @ [d]). x = 0" by (simp only: list_all_iff)
    from number_all_zero [OF this] have "number 58 (front @ [d]) = 0" .
    then have "number 58 (front @ [d]) = 256 * number 58 (front @ [d]) + carry" using False by (simp del: number_simps)
    moreover have "carry_loop (length (front @ [d])) carry i len ((front @ [d]) @ rear) = (i, (front @ [d]) @ rear)" using False by simp
    moreover have "list_all (\<lambda>d. d = 0) (take (length (front @ [d]) - (i - i)) (front @ [d]))"
      using \<open>list_all (\<lambda>d. d = 0) (front @ [d])\<close> by simp
    ultimately show ?thesis using snoc.prems(2) by (intro exI [of _ i] exI [of _ "front @ [d]"] conjI) (simp_all only: set_append, blast+)
  next
    case True
    let ?c = "carry + 256 * d"
    have n: "256 * number 58 (front @ [d]) + carry = 58 * (256 * number 58 front + ?c div 58) + ?c mod 58"
      using mult_div_mod_eq [of 58 ?c] by (simp add: algebra_simps)
    then have "58 * (256 * number 58 front + ?c div 58) < 58 * 58 ^ length front" using snoc.prems(1) by simp
    then have b: "256 * number 58 front + ?c div 58 < 58 ^ length front" by simp
    have "list_all (\<lambda>d. d = 0) (take (length front - (len - Suc i)) front)"
    proof (cases "i < len")
      case True
      then have "length (front @ [d]) - (len - i) = length front - (len - Suc i)" by simp
      then show ?thesis using snoc.prems(3) by (simp add: list_all_iff)
    next
      case False
      then show ?thesis using snoc.prems(3) by (simp add: list_all_iff)
    qed
    then obtain i' front' where r: "carry_loop (length front) (?c div 58) (Suc i) len (front @ ?c mod 58 # rear) = (i', front' @ ?c mod 58 # rear)"
      "length front' = length front" "\<forall>d \<in> set front'. d < 58" "number 58 front' = 256 * number 58 front + ?c div 58"
      "Suc i \<le> i'" "list_all (\<lambda>d. d = 0) (take (length front - (i' - Suc i)) front')"
      using snoc.IH [of "?c div 58" "?c mod 58 # rear" "Suc i"] b snoc.prems(2) by auto
    show ?thesis
    proof (intro exI conjI)
      show "carry_loop (length (front @ [d])) carry i len ((front @ [d]) @ rear) = (i', (front' @ [?c mod 58]) @ rear)"
        using True r(1) by (simp add: nth_append list_update_append Let_def)
      show "number 58 (front' @ [?c mod 58]) = 256 * number 58 (front @ [d]) + carry" using n r(4) by simp
      have "length (front @ [d]) - (i' - i) = length front - (i' - Suc i)" using r(5) by simp
      then show "list_all (\<lambda>d. d = 0) (take (length (front @ [d]) - (i' - i)) (front' @ [?c mod 58]))" using r(2,6) by simp
    qed (use r(2,3,5) in auto)
  qed
qed simp

lemma convert_loop_spec:
  assumes "length out = room" "\<forall>d \<in> set out. d < 58" "list_all (\<lambda>d. d = 0) (take (room - len) out)"
    and "number 58 out * 256 ^ length bs + number 256 (map unat bs) < 58 ^ room"
  shows "\<exists>len' out'. convert_loop room bs len out = (len', out') \<and> length out' = room \<and> (\<forall>d \<in> set out'. d < 58)
    \<and> number 58 out' = number 58 out * 256 ^ length bs + number 256 (map unat bs) \<and> list_all (\<lambda>d. d = 0) (take (room - len') out')"
  using assms
proof (induction bs arbitrary: len out)
  case (Cons b bs)
  have v: "number 58 out * 256 ^ length (b # bs) + number 256 (map unat (b # bs))
      = (256 * number 58 out + unat b) * 256 ^ length bs + number 256 (map unat bs)"
    using number_append [of 256 "[unat b]" "map unat bs"] number_simps(2) [of 256 "[]" "unat b"] by (simp add: algebra_simps)
  have "256 * number 58 out + unat b \<le> (256 * number 58 out + unat b) * 256 ^ length bs" by simp
  from order.strict_trans1 [OF order_trans [OF this le_add1] Cons.prems(4) [unfolded v]]
  have "256 * number 58 out + unat b < 58 ^ length out" by (simp only: Cons.prems(1))
  from carry_loop_spec [OF this, of "[]" len 0] Cons.prems(1-3)
  obtain i' out' where r: "carry_loop room (unat b) 0 len out = (i', out')" "length out' = room" "\<forall>d \<in> set out'. d < 58"
    "number 58 out' = 256 * number 58 out + unat b" "list_all (\<lambda>d. d = 0) (take (room - i') out')" by auto
  show ?case using Cons.IH [OF r(2,3,5)] Cons.prems(4) r(1,4) v by simp
qed simp

text \<open>The buffer is long enough.\<close>

lemma room_suffices: "(256 :: nat) ^ n \<le> 58 ^ (n * 138 div 100 + 1)"
proof -
  let ?m = "n * 138 div 100 + 1"
  have "(256 :: nat) ^ 100 \<le> 58 ^ 138" by simp
  then have "((256 :: nat) ^ 100) ^ n \<le> (58 ^ 138) ^ n" by (rule power_mono) simp
  then have "((256 :: nat) ^ n) ^ 100 \<le> 58 ^ (138 * n)" by (simp only: power_mult [symmetric] mult.commute)
  also have "\<dots> \<le> 58 ^ (100 * ?m)"
  proof (rule power_increasing)
    show "138 * n \<le> 100 * ?m" using mult_div_mod_eq [of 100 "n * 138"] mod_less_divisor [of 100 "n * 138"] by simp
  qed simp
  finally have "((256 :: nat) ^ n) ^ Suc 99 \<le> (58 ^ ?m) ^ Suc 99" by (simp only: power_mult [symmetric] mult.commute) simp
  then show ?thesis by (rule power_le_imp_le_base) simp
qed

lemma digits_number: "\<forall>d \<in> set ds. d < 58 \<Longrightarrow> dropWhile (\<lambda>d. d = 0) ds = digits (number 58 ds)"
proof (induction ds rule: rev_induct)
  case Nil
  show ?case by (simp add: digits_0)
next
  case (snoc d ds)
  have z: "number 58 ds = 0 \<longleftrightarrow> dropWhile (\<lambda>d. d = 0) ds = []" using snoc by (simp add: digits_Nil)
  show ?case
  proof (cases "number 58 ds = 0")
    case True
    then have "\<forall>d \<in> set ds. d = 0" using z by (simp add: dropWhile_eq_Nil_conv)
    then show ?thesis using True snoc.prems by (simp add: digits_pos [of d] digits_0)
  next
    case False
    then have "\<exists>x \<in> set ds. x \<noteq> 0" using z by (auto simp: dropWhile_eq_Nil_conv)
    then have "dropWhile (\<lambda>d. d = 0) (ds @ [d]) = digits (number 58 ds) @ [d]" using snoc by (auto simp: dropWhile_append1)
    then show ?thesis using False snoc.prems by (simp add: digits_pos [of "number 58 ds * 58 + d"])
  qed
qed

lemma base58Encode_base58: "base58Encode b = base58 b"
proof (cases "b = []")
  case False
  let ?room = "length b * 138 div 100 + 1"
  have "number 256 (map unat b) < 256 ^ length (map unat b)" by (rule number_bound) (auto simp: unat_byte)
  then have "number 256 (map unat b) < 58 ^ ?room" using room_suffices [of "length b"] by (simp only: length_map)
  then obtain len' out' where r: "convert_loop ?room b 0 (replicate ?room 0) = (len', out')" "\<forall>d \<in> set out'. d < 58"
    "number 58 out' = number 256 (map unat b)" "list_all (\<lambda>d. d = 0) (take (?room - len') out')"
    using convert_loop_spec [of "replicate ?room 0" ?room 0 b] number_zeros [of 58 ?room] by (auto simp: list_all_iff simp del: replicate.simps)
  have "dropWhile (\<lambda>d. d = 0) (take (?room - len') out' @ drop (?room - len') out') = dropWhile (\<lambda>d. d = 0) (drop (?room - len') out')"
    using r(4) by (intro dropWhile_append2) (simp add: list_all_iff)
  then have "dropWhile (\<lambda>d. d = 0) (drop (?room - len') out') = digits (number 256 (map unat b))"
    using digits_number [OF r(2)] r(3) by simp
  moreover have "b58_alphabet ! 0 = CHR ''1''" by (simp add: b58_alphabet_def)
  ultimately show ?thesis using False r(1) by (simp add: base58Encode_def base58_def Let_def del: replicate.simps)
qed (simp add: base58Encode_def base58_def digits_0)

lemma digits_lt: "d \<in> set (digits n) \<Longrightarrow> d < 58"
proof (induction n rule: digits.induct)
  case (1 n)
  show ?case
  proof (cases "n = 0")
    case False
    then show ?thesis using 1 by (auto simp: digits_pos [of n])
  qed (use 1 in \<open>simp add: digits_0\<close>)
qed

lemma number_digits: "number 58 (digits n) = n"
proof (induction n rule: digits.induct)
  case (1 n)
  show ?case
  proof (cases "n = 0")
    case False
    then show ?thesis using 1 mult_div_mod_eq [of 58 n] by (simp add: digits_pos [of n] mult.commute)
  qed (simp add: digits_0)
qed

lemma hd_digits: "digits n \<noteq> [] \<Longrightarrow> hd (digits n) \<noteq> 0"
proof (induction n rule: digits.induct)
  case (1 n)
  then have "n \<noteq> 0" by (simp add: digits_Nil)
  show ?case
  proof (cases "n div 58 = 0")
    case True
    then show ?thesis using \<open>n \<noteq> 0\<close> by (simp add: digits_pos [of n] digits_0)
  next
    case False
    then have "digits (n div 58) \<noteq> []" by (simp only: digits_Nil) simp
    then show ?thesis using 1 \<open>n \<noteq> 0\<close> by (simp add: digits_pos [of n])
  qed
qed

lemma length_digits: "n < 58 ^ k \<Longrightarrow> length (digits n) \<le> k"
proof (induction k arbitrary: n)
  case (Suc k)
  then have "n div 58 < 58 ^ k" by (simp add: less_mult_imp_div_less mult.commute)
  then show ?case using Suc.IH [of "n div 58"] by (cases "n = 0") (simp_all add: digits_0 digits_pos)
qed (simp add: digits_0)

text \<open>Different inputs of the same length are written differently.\<close>

lemma alphabet_nth: "i < 58 \<Longrightarrow> j < 58 \<Longrightarrow> b58_alphabet ! i = b58_alphabet ! j \<longleftrightarrow> i = j"
  by (rule nth_eq_iff_index_eq) (simp_all add: b58_alphabet_def)

lemma map_alphabet: "\<forall>d \<in> set xs. d < 58 \<Longrightarrow> \<forall>d \<in> set ys. d < 58 \<Longrightarrow> map (\<lambda>d. b58_alphabet ! d) xs = map (\<lambda>d. b58_alphabet ! d) ys \<Longrightarrow> xs = ys"
  by (induction xs ys rule: list_induct2') (auto simp: alphabet_nth)

lemma number_bytes_inj: "length a = length b \<Longrightarrow> number 256 (map unat (a :: bytes)) = number 256 (map unat b) \<Longrightarrow> a = b"
proof (induction a arbitrary: b rule: rev_induct)
  case (snoc x a)
  then obtain c y where b: "b = c @ [y]" "length c = length a" by (cases b rule: rev_cases) auto
  have l: "unat x < 256" "unat y < 256" by (rule unat_byte)+
  have eq: "number 256 (map unat a) * 256 + unat x = number 256 (map unat c) * 256 + unat y" using snoc.prems(2) b by simp
  from arg_cong [OF eq, of "\<lambda>n. n mod 256"] l have "unat x = unat y" by simp
  moreover from arg_cong [OF eq, of "\<lambda>n. n div 256"] l have "number 256 (map unat a) = number 256 (map unat c)" by simp
  ultimately show ?case using snoc.IH [of c] b by (simp add: word_unat_eq_iff)
qed simp

lemma drop_ones: "dropWhile (\<lambda>c. c = x) (replicate n x @ ys) = dropWhile (\<lambda>c. c = x) ys"
  by (induction n) simp_all

lemma base58_inj:
  assumes "base58 a = base58 b" "length a = length b"
  shows "a = b"
proof -
  have one: "b58_alphabet ! 0 = CHR ''1''" by (simp add: b58_alphabet_def)
  have rest: "dropWhile (\<lambda>c. c = CHR ''1'') (base58 x) = map (\<lambda>d. b58_alphabet ! d) (digits (number 256 (map unat x)))" for x
  proof (cases "digits (number 256 (map unat x))")
    case Nil
    then show ?thesis by (simp add: base58_def)
  next
    case (Cons d ds)
    then have "d < 58" "d \<noteq> 0" using digits_lt [of d "number 256 (map unat x)"] hd_digits [of "number 256 (map unat x)"] by auto
    then have "b58_alphabet ! d \<noteq> CHR ''1''" using alphabet_nth [of d 0] one by simp
    then show ?thesis using Cons by (simp add: base58_def drop_ones)
  qed
  have "digits (number 256 (map unat a)) = digits (number 256 (map unat b))"
    using map_alphabet digits_lt rest [of a] rest [of b] assms(1) by metis
  then have "number 256 (map unat a) = number 256 (map unat b)" by (metis number_digits)
  then show ?thesis using number_bytes_inj assms(2) by blast
qed

lemma base58_length: "length b = 32 \<Longrightarrow> length (base58 b) \<le> 44"
proof -
  assume l: "length b = 32"
  define z where "z = length (takeWhile (\<lambda>x. x = 0) b)"
  have z: "z \<le> 32" using l length_takeWhile_le [of "\<lambda>x. x = 0" b] by (simp add: z_def)
  have "map unat b = map unat (takeWhile (\<lambda>x. x = 0) b) @ map unat (drop z b)"
    unfolding z_def by (metis map_append takeWhile_dropWhile_id dropWhile_eq_drop)
  moreover have "number 256 (map unat (takeWhile (\<lambda>x. x = (0 :: byte)) b)) = 0"
    by (rule number_all_zero) (auto dest: set_takeWhileD)
  ultimately have "number 256 (map unat b) = number 256 (map unat (drop z b))" by (simp add: number_append)
  then have n: "number 256 (map unat b) < 256 ^ (32 - z)"
    using number_bound [of "map unat (drop z b)" 256] unat_byte l by auto
  have "(256 :: nat) ^ (32 - z) * 58 ^ z \<le> 256 ^ (32 - z) * 256 ^ z" by (intro mult_left_mono power_mono) simp_all
  also have "\<dots> = 256 ^ 32" using z by (simp add: power_add [symmetric])
  also have "\<dots> < (58 :: nat) ^ 44" by simp
  also have "\<dots> = 58 ^ (44 - z) * 58 ^ z" using z by (simp add: power_add [symmetric])
  finally have "(256 :: nat) ^ (32 - z) < 58 ^ (44 - z)" by simp
  then have "length (digits (number 256 (map unat b))) \<le> 44 - z" using n by (intro length_digits) simp
  then show ?thesis using z by (simp add: base58_def z_def)
qed

text \<open>So it is a rendering of keys of the kind the clear-signing texts rely on.\<close>

lemma base58_chars: "c \<in> set (base58 b) \<Longrightarrow> c \<in> set b58_alphabet"
proof -
  assume "c \<in> set (base58 b)"
  then consider "c = CHR ''1''" | d where "c = b58_alphabet ! d" "d \<in> set (digits (number 256 (map unat b)))" by (auto simp: base58_def)
  then show ?thesis
  proof cases
    case 2
    moreover have "length b58_alphabet = 58" by (simp add: b58_alphabet_def)
    ultimately have "d < length b58_alphabet" using digits_lt [of d] by simp
    then show ?thesis using 2 by simp
  qed (simp add: b58_alphabet_def)
qed

lemma base58_nonempty:
  assumes "b \<noteq> []"
  shows "base58 b \<noteq> []"
proof
  assume "base58 b = []"
  then have n: "digits (number 256 (map unat b)) = []" "takeWhile (\<lambda>x. x = 0) b = []" by (simp_all add: base58_def)
  then have "number 256 (map unat b) = number 256 (map unat (replicate (length b) (0 :: byte)))"
    by (simp add: digits_Nil number_zeros del: replicate.simps)
  then have "b = replicate (length b) 0" using number_bytes_inj [of b "replicate (length b) 0"] by (simp del: replicate.simps)
  then show False using n(2) assms by (cases b) auto
qed

lemma encodePub_text: "base58_text (E\<lparr>Base58 := \<lambda>k. encodePub (arr_bytes k)\<rparr>)"
proof -
  have l: "list_all (\<lambda>c. printable c \<and> c \<noteq> CHR '' '') b58_alphabet" by (simp add: b58_alphabet_def printable_def)
  have "token (base58 (arr_bytes k))" for k :: key
  proof -
    have "base58 (arr_bytes k) \<noteq> []" by (rule base58_nonempty) (simp flip: length_0_conv)
    then show ?thesis using base58_chars l by (auto simp: token_def list_all_iff)
  qed
  moreover have "length (base58 (arr_bytes k)) \<le> 44" for k :: key by (rule base58_length) simp
  ultimately show ?thesis by (simp add: base58_text_def encodePub_def base58Encode_base58)
qed

text \<open>Property C34. The listener's base58 writer, digit loop and buffer bound included, writes exactly base58 of every byte
  string; on 32-byte keys it is injective and writes at most 44 visible characters, which is what the
  clear-signing texts need of a rendering of keys.\<close>

theorem base58Encode_writes_base58:
  "base58Encode b = base58 b \<and> inj (\<lambda>k :: key. encodePub (arr_bytes k)) \<and> base58_text (E\<lparr>Base58 := \<lambda>k. encodePub (arr_bytes k)\<rparr>)"
proof (intro conjI)
  show "inj (\<lambda>k :: key. encodePub (arr_bytes k))"
    by (rule injI) (auto simp: encodePub_def base58Encode_base58 dest!: base58_inj intro: arr_bytes_inj)
qed (simp_all add: base58Encode_base58 encodePub_text)

section \<open>Event lines\<close>

definition ikaEventTagLE :: bytes where
  "ikaEventTagLE = [0x1D, 0x9A, 0xCB, 0x51, 0xEA, 0x45, 0xA5, 0xE4]"

record CanonicalEvent =
  ce_Type :: string
  ce_Discriminator :: u8
  ce_Policy :: string
  ce_Dwallet :: string
  ce_Owner :: string
  ce_RequestHash :: string
  ce_TS :: int
  ce_ReasonCode :: "u64 option"
  ce_Slot :: int
  ce_Signature :: string
  ce_Raw :: "(string \<times> json) list"

definition bare_event :: "u8 \<Rightarrow> int \<Rightarrow> string \<Rightarrow> CanonicalEvent" where
  "bare_event disc slot sig = \<lparr>ce_Type = '''', ce_Discriminator = disc, ce_Policy = '''', ce_Dwallet = '''', ce_Owner = '''',
     ce_RequestHash = '''', ce_TS = 0, ce_ReasonCode = None, ce_Slot = slot, ce_Signature = sig, ce_Raw = []\<rparr>"

definition programDataPrefix :: string where "programDataPrefix = ''Program data: ''"

definition extractEventLines :: "string list \<Rightarrow> string list" where
  "extractEventLines logs = map (drop (length programDataPrefix)) (filter (prefix programDataPrefix) logs)"

definition json_nat :: "nat \<Rightarrow> json" where "json_nat n = JNum (dec n)"

definition parseIkaEvent :: "bytes \<Rightarrow> int \<Rightarrow> string \<Rightarrow> CanonicalEvent option" where
  "parseIkaEvent body slot sig =
     (if body = [] then None
      else let disc = hd body; payload = tl body;
               ev = (bare_event disc slot sig)\<lparr>ce_Raw := [(''source'', JStr ''ika''), (''raw_bytes'', JStr (hex_lower body))]\<rparr>
           in Some
             (if disc = 0 \<and> length payload \<ge> 65 then
                ev\<lparr>ce_Type := ''dwallet.created'', ce_Dwallet := encodePub (go_slice payload 0 32),
                   ce_Owner := encodePub (go_slice payload 32 64), ce_Raw := ce_Raw ev @ [(''curve'', json_nat (unat (payload ! 64)))]\<rparr>
              else if disc = 1 \<and> length payload \<ge> 96 then
                ev\<lparr>ce_Type := ''ika.message_approval.created'', ce_Dwallet := encodePub (go_slice payload 0 32),
                   ce_RequestHash := encodePub (go_slice payload 32 64),
                   ce_Raw := ce_Raw ev @ [(''caller_program'', JStr (encodePub (go_slice payload 64 96)))]\<rparr>
              else if disc = 2 \<and> length payload \<ge> 34 then
                ev\<lparr>ce_Type := ''signature.completed'',
                   ce_Raw := ce_Raw ev @ [(''message_approval'', JStr (encodePub (go_slice payload 0 32))),
                     (''signature_len'', json_nat (unat (LE16 (go_slice payload 32 34))))]\<rparr>
              else if disc = 3 \<and> length payload \<ge> 96 then
                ev\<lparr>ce_Type := ''dwallet.authority.transferred'', ce_Dwallet := encodePub (go_slice payload 0 32),
                   ce_Raw := ce_Raw ev @ [(''old_authority'', JStr (encodePub (go_slice payload 32 64))),
                     (''new_authority'', JStr (encodePub (go_slice payload 64 96)))]\<rparr>
              else ev\<lparr>ce_Type := ''ika.event.unknown.'' @ dec (unat disc), ce_Raw := ce_Raw ev @ [(''payload_len'', json_nat (length payload))]\<rparr>))"

text \<open>A text that is no base64 is an error; a line that is no event the parser knows is \<open>None\<close>.\<close>

definition parseTemplateEvent :: "u8 \<Rightarrow> bytes \<Rightarrow> int \<Rightarrow> string \<Rightarrow> CanonicalEvent option" where
  "parseTemplateEvent disc payload slot sig =
     (let ev = bare_event disc slot sig;
          pub = (\<lambda>i. encodePub (go_slice payload i (i + 32)));
          ts = (\<lambda>i. LEI64 (go_slice payload i (i + 8)))
      in if disc = 0 then
           (if length payload < 104 then None
            else Some (ev\<lparr>ce_Type := ''policy.deployed'', ce_Policy := pub 0, ce_Dwallet := pub 32, ce_Owner := pub 64, ce_TS := ts 96\<rparr>))
         else if disc = 1 then
           (if length payload < 72 then None
            else Some (ev\<lparr>ce_Type := ''signature.requested'', ce_Policy := pub 0, ce_RequestHash := pub 32, ce_TS := ts 64\<rparr>))
         else if disc = 2 then
           (if length payload < 72 then None
            else Some (ev\<lparr>ce_Type := ''signature.approved'', ce_Policy := pub 0, ce_RequestHash := pub 32, ce_TS := ts 64\<rparr>))
         else if disc = 3 then
           (if length payload < 80 then None
            else Some (ev\<lparr>ce_Type := ''signature.rejected'', ce_Policy := pub 0, ce_RequestHash := pub 32, ce_TS := ts 64,
                 ce_ReasonCode := Some (LE64 (go_slice payload 72 80))\<rparr>))
         else if disc = 4 then
           (if length payload < 40 then None
            else Some (ev\<lparr>ce_Type := ''policy.paused'', ce_Policy := pub 0, ce_TS := ts 32\<rparr>))
         else if disc = 5 then
           (if length payload < 40 then None
            else Some (ev\<lparr>ce_Type := ''policy.resumed'', ce_Policy := pub 0, ce_TS := ts 32\<rparr>))
         else None)"

definition ParseEvent :: "string \<Rightarrow> int \<Rightarrow> string \<Rightarrow> string + CanonicalEvent option" where
  "ParseEvent b64 slot sig =
     (case b64_decode b64 of
        None \<Rightarrow> Inl ''decode base64''
      | Some raw \<Rightarrow> Inr
          (if raw = [] then None
           else if length raw \<ge> 8 \<and> take 8 raw = ikaEventTagLE then parseIkaEvent (drop 8 raw) slot sig
           else parseTemplateEvent (hd raw) (tl raw) slot sig))"

section \<open>What the programs emit\<close>

text \<open>The events of the policy templates (\<open>contracts/shared/src/events.rs\<close>): a discriminator and the fields in
  order, without padding.\<close>

datatype template_event =
    PolicyDeployed key key key int
  | SignatureRequested key key int
  | SignatureApproved key key int
  | SignatureRejected key key int u64
  | PolicyPaused key int
  | PolicyResumed key int

fun template_bytes :: "template_event \<Rightarrow> bytes" where
  "template_bytes (PolicyDeployed policy dwallet owner ts) = 0 # arr_bytes policy @ arr_bytes dwallet @ arr_bytes owner @ I64LE ts"
| "template_bytes (SignatureRequested policy h ts) = 1 # arr_bytes policy @ arr_bytes h @ I64LE ts"
| "template_bytes (SignatureApproved policy h ts) = 2 # arr_bytes policy @ arr_bytes h @ I64LE ts"
| "template_bytes (SignatureRejected policy h ts reason) = 3 # arr_bytes policy @ arr_bytes h @ I64LE ts @ U64LE reason"
| "template_bytes (PolicyPaused policy ts) = 4 # arr_bytes policy @ I64LE ts"
| "template_bytes (PolicyResumed policy ts) = 5 # arr_bytes policy @ I64LE ts"

fun template_canonical :: "template_event \<Rightarrow> int \<Rightarrow> string \<Rightarrow> CanonicalEvent" where
  "template_canonical (PolicyDeployed policy dwallet owner ts) slot sig =
     (bare_event 0 slot sig)\<lparr>ce_Type := ''policy.deployed'', ce_Policy := base58 (arr_bytes policy), ce_Dwallet := base58 (arr_bytes dwallet),
        ce_Owner := base58 (arr_bytes owner), ce_TS := ts\<rparr>"
| "template_canonical (SignatureRequested policy h ts) slot sig =
     (bare_event 1 slot sig)\<lparr>ce_Type := ''signature.requested'', ce_Policy := base58 (arr_bytes policy), ce_RequestHash := base58 (arr_bytes h), ce_TS := ts\<rparr>"
| "template_canonical (SignatureApproved policy h ts) slot sig =
     (bare_event 2 slot sig)\<lparr>ce_Type := ''signature.approved'', ce_Policy := base58 (arr_bytes policy), ce_RequestHash := base58 (arr_bytes h), ce_TS := ts\<rparr>"
| "template_canonical (SignatureRejected policy h ts reason) slot sig =
     (bare_event 3 slot sig)\<lparr>ce_Type := ''signature.rejected'', ce_Policy := base58 (arr_bytes policy), ce_RequestHash := base58 (arr_bytes h), ce_TS := ts,
        ce_ReasonCode := Some reason\<rparr>"
| "template_canonical (PolicyPaused policy ts) slot sig =
     (bare_event 4 slot sig)\<lparr>ce_Type := ''policy.paused'', ce_Policy := base58 (arr_bytes policy), ce_TS := ts\<rparr>"
| "template_canonical (PolicyResumed policy ts) slot sig =
     (bare_event 5 slot sig)\<lparr>ce_Type := ''policy.resumed'', ce_Policy := base58 (arr_bytes policy), ce_TS := ts\<rparr>"

fun event_time :: "template_event \<Rightarrow> int" where
  "event_time (PolicyDeployed policy dwallet owner ts) = ts"
| "event_time (SignatureRequested policy h ts) = ts"
| "event_time (SignatureApproved policy h ts) = ts"
| "event_time (SignatureRejected policy h ts reason) = ts"
| "event_time (PolicyPaused policy ts) = ts"
| "event_time (PolicyResumed policy ts) = ts"

lemma parse_small_disc: "disc \<noteq> 0x1D \<Longrightarrow> ParseEvent (b64_encode (disc # payload)) slot sig = Inr (parseTemplateEvent disc payload slot sig)"
  by (auto simp: ParseEvent_def ikaEventTagLE_def)

lemma parse_template_bytes:
  assumes "in64 (event_time e)"
  shows "ParseEvent (b64_encode (template_bytes e)) slot sig = Inr (Some (template_canonical e slot sig))"
  using assms
  by (cases e) (simp_all add: parse_small_disc parseTemplateEvent_def Let_def go_slice_def encodePub_def base58Encode_base58
      LEI64_I64LE u64.dec_enc u64.enc_len)

text \<open>Property C32. Every event a policy template emits, written as a log line in base64, is parsed into the canonical event of
  its kind with its own keys in base58, its own time and, for a rejection, its own reason code.\<close>

theorem ParseEvent_reads_template_events:
  assumes "in64 (event_time e)"
  shows "ParseEvent (b64_encode (template_bytes e)) slot sig = Inr (Some (template_canonical e slot sig))"
  using assms by (rule parse_template_bytes)

text \<open>The events of the policy engine (\<open>contracts/policy-engine/src/lib.rs\<close>).\<close>

datatype engine_event =
    EngineInitialized key key int
  | EngineDelegationConfirmed key key int
  | EnginePaused key int
  | EngineResumed key int
  | RuleAdded key int u64 u64 u64
  | RuleUpdated key int u64 u64 u64
  | RuleRemoved key int u64 u64 u64
  | EngineSignatureRequested key key int
  | EngineSignatureApproved key key int
  | PrimaryRecoverInvoked key key int
  | SessionOpened key u64 int int
  | SessionRevoked key u64 int
  | SessionClosed key u64 int

fun engine_bytes :: "engine_event \<Rightarrow> bytes" where
  "engine_bytes (EngineInitialized e w ts) = 0 # arr_bytes e @ arr_bytes w @ I64LE ts"
| "engine_bytes (EngineDelegationConfirmed e w ts) = 1 # arr_bytes e @ arr_bytes w @ I64LE ts"
| "engine_bytes (EnginePaused e ts) = 2 # arr_bytes e @ I64LE ts"
| "engine_bytes (EngineResumed e ts) = 3 # arr_bytes e @ I64LE ts"
| "engine_bytes (RuleAdded e ts kind i gen) = 10 # arr_bytes e @ I64LE ts @ U64LE kind @ U64LE i @ U64LE gen"
| "engine_bytes (RuleUpdated e ts kind i gen) = 11 # arr_bytes e @ I64LE ts @ U64LE kind @ U64LE i @ U64LE gen"
| "engine_bytes (RuleRemoved e ts kind i gen) = 12 # arr_bytes e @ I64LE ts @ U64LE kind @ U64LE i @ U64LE gen"
| "engine_bytes (EngineSignatureRequested e h ts) = 20 # arr_bytes e @ arr_bytes h @ I64LE ts"
| "engine_bytes (EngineSignatureApproved e h ts) = 21 # arr_bytes e @ arr_bytes h @ I64LE ts"
| "engine_bytes (PrimaryRecoverInvoked e h ts) = 30 # arr_bytes e @ arr_bytes h @ I64LE ts"
| "engine_bytes (SessionOpened e i expires ts) = 40 # arr_bytes e @ U64LE i @ I64LE expires @ I64LE ts"
| "engine_bytes (SessionRevoked e i ts) = 41 # arr_bytes e @ U64LE i @ I64LE ts"
| "engine_bytes (SessionClosed e i ts) = 42 # arr_bytes e @ U64LE i @ I64LE ts"

text \<open>Of the events the policy engine emits the parser knows none: it reads the confirmation of a
  delegation as a request for a signature, with the engine as policy and the dWallet's address as request hash,
  and passes over every other one.\<close>

theorem engine_events_are_not_read:
  "ParseEvent (b64_encode (engine_bytes e)) slot sig =
     Inr (case e of
       EngineDelegationConfirmed engine dwallet ts \<Rightarrow>
         Some ((bare_event 1 slot sig)\<lparr>ce_Type := ''signature.requested'', ce_Policy := base58 (arr_bytes engine),
           ce_RequestHash := base58 (arr_bytes dwallet), ce_TS := LEI64 (I64LE ts)\<rparr>)
     | _ \<Rightarrow> None)"
  by (cases e) (simp_all add: parse_small_disc parseTemplateEvent_def Let_def go_slice_def encodePub_def base58Encode_base58 u64.enc_len)

section \<open>The listener\<close>

record Subscription =
  su_PolicyAddress :: string
  su_APIKeyID :: string
  su_Template :: string
  su_ProgramID :: string
  su_DwalletAddress :: string

definition Subscribe :: "string \<Rightarrow> string \<Rightarrow> string \<Rightarrow> string \<Rightarrow> string \<Rightarrow> Subscription list \<Rightarrow> Subscription list" where
  "Subscribe apiKeyID policyAddress template programID dwalletAddress rows =
     (let r = \<lparr>su_PolicyAddress = policyAddress, su_APIKeyID = apiKeyID, su_Template = template, su_ProgramID = programID,
                su_DwalletAddress = dwalletAddress\<rparr>
      in if list_ex (\<lambda>s. su_PolicyAddress s = policyAddress) rows
         then map (\<lambda>s. if su_PolicyAddress s = policyAddress then r else s) rows else rows @ [r])"

definition Resolve :: "string \<Rightarrow> Subscription list \<Rightarrow> string option" where
  "Resolve policyAddress rows = map_option su_APIKeyID (find (\<lambda>s. su_PolicyAddress s = policyAddress) rows)"

text \<open>What happens to the lookup and the event of one line: a lookup that fails finds nobody (\<open>None\<close>); without an
  order the database may give any of the rows that match, and \<open>Some i\<close> names one of them. \<open>lf_Allow\<close> says whether
  the tenant's token bucket (\<open>tenant_limiter.go\<close>) lets the event through.\<close>

record line_fate =
  lf_Row :: "nat option"
  lf_Allow :: bool

definition ResolveAny :: "nat option \<Rightarrow> string \<Rightarrow> Subscription list \<Rightarrow> string option" where
  "ResolveAny row addr rows =
     (let hits = filter (\<lambda>s. su_PolicyAddress s = addr \<or> su_DwalletAddress s = addr) rows
      in if hits = [] then None else map_option (\<lambda>i. su_APIKeyID (hits ! (i mod length hits))) row)"

record LogNotification =
  ln_Slot :: int
  ln_Signature :: string
  ln_Failed :: bool
  ln_Logs :: "string list"

definition nilUUID :: string where "nilUUID = ''00000000-0000-0000-0000-000000000000''"

definition lookupKey :: "CanonicalEvent \<Rightarrow> string" where
  "lookupKey ev = (if ce_Policy ev = '''' then ce_Dwallet ev else ce_Policy ev)"

text \<open>The events of one notification, in the order of its lines, with the tenants they are handed to the publisher for.
  \<open>fate i\<close> is that of the line with number \<open>i\<close>.\<close>

definition observe_line :: "Subscription list \<Rightarrow> line_fate \<Rightarrow> int \<Rightarrow> string \<Rightarrow> string \<Rightarrow> (string \<times> CanonicalEvent) list" where
  "observe_line rows f slot sig l =
     (case ParseEvent l slot sig of
        Inl _ \<Rightarrow> []
      | Inr None \<Rightarrow> []
      | Inr (Some ev) \<Rightarrow>
          (if lookupKey ev = '''' then []
           else case ResolveAny (lf_Row f) (lookupKey ev) rows of
             None \<Rightarrow> []
           | Some who \<Rightarrow> if who = nilUUID then [] else if \<not> lf_Allow f then [] else [(who, ev)]))"

fun observe_lines ::
    "Subscription list \<Rightarrow> (nat \<Rightarrow> line_fate) \<Rightarrow> nat \<Rightarrow> int \<Rightarrow> string \<Rightarrow> string list \<Rightarrow> (string \<times> CanonicalEvent) list" where
  "observe_lines rows fate i slot sig [] = []"
| "observe_lines rows fate i slot sig (l # ls) =
     observe_line rows (fate i) slot sig l @ observe_lines rows fate (Suc i) slot sig ls"

definition observeNotification ::
    "Subscription list \<Rightarrow> (nat \<Rightarrow> line_fate) \<Rightarrow> LogNotification \<Rightarrow> (string \<times> CanonicalEvent) list" where
  "observeNotification rows fate n =
     (if ln_Failed n then [] else observe_lines rows fate 0 (ln_Slot n) (ln_Signature n) (extractEventLines (ln_Logs n)))"

lemma observed_line: "(who, ev) \<in> set (observe_line rows f slot sig l) \<longleftrightarrow>
    ParseEvent l slot sig = Inr (Some ev) \<and> lookupKey ev \<noteq> '''' \<and> ResolveAny (lf_Row f) (lookupKey ev) rows = Some who
    \<and> who \<noteq> nilUUID \<and> lf_Allow f"
proof
  assume o: "(who, ev) \<in> set (observe_line rows f slot sig l)"
  then obtain e where e: "ParseEvent l slot sig = Inr (Some e)"
    by (cases "ParseEvent l slot sig"; cases "projr (ParseEvent l slot sig)") (simp_all add: observe_line_def)
  with o have k: "lookupKey e \<noteq> ''''" by (auto simp: observe_line_def)
  with o e obtain w where w: "ResolveAny (lf_Row f) (lookupKey e) rows = Some w"
    by (cases "ResolveAny (lf_Row f) (lookupKey e) rows") (simp_all add: observe_line_def)
  with o e k have "w \<noteq> nilUUID" "lf_Allow f" "who = w" "ev = e" by (auto simp: observe_line_def split: if_split_asm)
  with e k w show "ParseEvent l slot sig = Inr (Some ev) \<and> lookupKey ev \<noteq> '''' \<and> ResolveAny (lf_Row f) (lookupKey ev) rows = Some who
      \<and> who \<noteq> nilUUID \<and> lf_Allow f" by blast
qed (simp add: observe_line_def)

lemma observed:
  "(who, ev) \<in> set (observe_lines rows fate i slot sig ls) \<Longrightarrow>
    \<exists>l \<in> set ls. \<exists>row. ParseEvent l slot sig = Inr (Some ev) \<and> lookupKey ev \<noteq> '''' \<and> ResolveAny row (lookupKey ev) rows = Some who \<and> who \<noteq> nilUUID"
proof (induction ls arbitrary: i)
  case (Cons l ls)
  show ?case
  proof (cases "(who, ev) \<in> set (observe_lines rows fate (Suc i) slot sig ls)")
    case True
    then show ?thesis using Cons.IH by fastforce
  next
    case False
    with Cons.prems have "(who, ev) \<in> set (observe_line rows (fate i) slot sig l)" by simp
    then show ?thesis unfolding observed_line by (intro bexI [of _ l] exI [of _ "lf_Row (fate i)"]) simp_all
  qed
qed simp

lemma ResolveAny_row: "ResolveAny row addr rows = Some who \<Longrightarrow> \<exists>s \<in> set rows. su_APIKeyID s = who \<and> addr \<in> {su_PolicyAddress s, su_DwalletAddress s}"
proof -
  assume r: "ResolveAny row addr rows = Some who"
  let ?h = "filter (\<lambda>s. su_PolicyAddress s = addr \<or> su_DwalletAddress s = addr) rows"
  from r obtain i where "?h \<noteq> []" "who = su_APIKeyID (?h ! (i mod length ?h))" by (auto simp: ResolveAny_def Let_def split: if_splits)
  moreover from this have "?h ! (i mod length ?h) \<in> set ?h" by (intro nth_mem) simp
  ultimately show ?thesis by (auto intro!: bexI [of _ "?h ! (i mod length ?h)"])
qed

lemma ResolveAny_only:
  assumes "\<forall>s \<in> set rows. addr \<in> {su_PolicyAddress s, su_DwalletAddress s} \<longrightarrow> su_APIKeyID s = who"
    and "\<exists>s \<in> set rows. addr \<in> {su_PolicyAddress s, su_DwalletAddress s}"
  shows "ResolveAny (Some i) addr rows = Some who"
proof -
  have "\<exists>w. ResolveAny (Some i) addr rows = Some w" using assms(2) by (auto simp: ResolveAny_def Let_def filter_empty_conv)
  then show ?thesis using ResolveAny_row [of "Some i" addr rows] assms(1) by metis
qed

section \<open>Who an event is for\<close>

text \<open>The address an event is about, read off its bytes: the key after the discriminator, which is one byte for the
  policy templates (\<open>contracts/shared/src/events.rs\<close>) and the tag and one byte for the dWallet program.\<close>

definition event_address :: "bytes \<Rightarrow> string" where
  "event_address raw = base58 (take 32 (drop (if take 8 raw = ikaEventTagLE then 9 else 1) raw))"

fun event_policy :: "template_event \<Rightarrow> key" where
  "event_policy (PolicyDeployed policy dwallet owner ts) = policy"
| "event_policy (SignatureRequested policy h ts) = policy"
| "event_policy (SignatureApproved policy h ts) = policy"
| "event_policy (SignatureRejected policy h ts reason) = policy"
| "event_policy (PolicyPaused policy ts) = policy"
| "event_policy (PolicyResumed policy ts) = policy"

definition owns_address :: "Subscription list \<Rightarrow> string \<Rightarrow> string \<Rightarrow> bool" where
  "owns_address rows who addr \<longleftrightarrow> list_ex (\<lambda>s. su_APIKeyID s = who \<and> addr \<in> {su_PolicyAddress s, su_DwalletAddress s}) rows"

lemma template_policy: "ce_Policy (template_canonical e slot sig) = base58 (arr_bytes (event_policy e))"
  by (cases e) (simp_all add: bare_event_def)

lemma base58_key: "base58 (arr_bytes (k :: key)) \<noteq> ''''"
  by (rule base58_nonempty) (simp flip: length_0_conv)

lemma lookupKey_template: "lookupKey (template_canonical e slot sig) = base58 (arr_bytes (event_policy e))"
  by (simp add: lookupKey_def template_policy base58_key)

lemma lookupKey_ika: "parseIkaEvent body slot sig = Some ev \<Longrightarrow> lookupKey ev \<noteq> '''' \<Longrightarrow>
    lookupKey ev = base58 (take 32 (drop 1 body)) \<and> ce_Slot ev = slot \<and> ce_Signature ev = sig"
  by (cases body) (auto simp: parseIkaEvent_def lookupKey_def bare_event_def Let_def encodePub_def base58Encode_base58 go_slice_def split: if_splits)

lemma lookupKey_parsed_template: "parseTemplateEvent disc payload slot sig = Some ev \<Longrightarrow>
    lookupKey ev = base58 (take 32 payload) \<and> ce_Slot ev = slot \<and> ce_Signature ev = sig"
  using base58_nonempty [of "take 32 payload"]
  by (cases payload) (auto simp: parseTemplateEvent_def lookupKey_def bare_event_def Let_def encodePub_def base58Encode_base58 go_slice_def split: if_splits)

lemma parsed_address:
  assumes "ParseEvent l slot sig = Inr (Some ev)" and "lookupKey ev \<noteq> ''''"
  obtains raw where "b64_decode l = Some raw" and "lookupKey ev = event_address raw" and "ce_Slot ev = slot" and "ce_Signature ev = sig"
proof -
  from assms(1) obtain raw where raw: "b64_decode l = Some raw" "raw \<noteq> []"
      "(if length raw \<ge> 8 \<and> take 8 raw = ikaEventTagLE then parseIkaEvent (drop 8 raw) slot sig
        else parseTemplateEvent (hd raw) (tl raw) slot sig) = Some ev"
    by (auto simp: ParseEvent_def split: option.splits if_splits)
  have long: "take 8 raw = ikaEventTagLE \<Longrightarrow> length raw \<ge> 8"
    by (drule arg_cong [of _ _ length]) (simp add: ikaEventTagLE_def)
  have "lookupKey ev = event_address raw \<and> ce_Slot ev = slot \<and> ce_Signature ev = sig"
  proof (cases "take 8 raw = ikaEventTagLE")
    case True
    with raw(3) long have "parseIkaEvent (drop 8 raw) slot sig = Some ev" by simp
    from lookupKey_ika [OF this assms(2)] show ?thesis by (simp add: event_address_def True)
  next
    case False
    with raw(3) have "parseTemplateEvent (hd raw) (tl raw) slot sig = Some ev" by simp
    from lookupKey_parsed_template [OF this] show ?thesis by (simp add: event_address_def False drop_Suc)
  qed
  with raw(1) that show ?thesis by blast
qed

lemma owned_by_row: "ResolveAny row addr rows = Some who \<Longrightarrow> owns_address rows who addr"
  by (drule ResolveAny_row) (auto simp: owns_address_def list_ex_iff)

lemma owned_by_one:
  assumes "owns_address rows who addr" and "\<forall>w. owns_address rows w addr \<longrightarrow> w = who"
  shows "ResolveAny (Some i) addr rows = Some who"
proof (rule ResolveAny_only)
  show "\<exists>s \<in> set rows. addr \<in> {su_PolicyAddress s, su_DwalletAddress s}" using assms(1) by (auto simp: owns_address_def list_ex_iff)
  have "owns_address rows (su_APIKeyID s) addr" if "s \<in> set rows" "addr \<in> {su_PolicyAddress s, su_DwalletAddress s}" for s
    using that by (auto simp: owns_address_def list_ex_iff)
  with assms(2) show "\<forall>s \<in> set rows. addr \<in> {su_PolicyAddress s, su_DwalletAddress s} \<longrightarrow> su_APIKeyID s = who" by blast
qed

text \<open>A line that is sure to be published, as often as it occurs.\<close>

lemma observe_count:
  assumes "\<forall>j < length ls. observe_line rows (fate (i + j)) slot sig l = [x]"
  shows "count_list ls l \<le> count_list (observe_lines rows fate i slot sig ls) x"
  using assms
proof (induction ls arbitrary: i)
  case (Cons a ls)
  have "count_list ls l \<le> count_list (observe_lines rows fate (Suc i) slot sig ls) x"
    using Cons.prems by (intro Cons.IH) (metis Suc_less_eq add_Suc_shift length_Cons)
  moreover have "a = l \<Longrightarrow> observe_line rows (fate i) slot sig a = [x]" using Cons.prems by fastforce
  ultimately show ?case by (cases "a = l") simp_all
qed simp

lemma count_lines: "count_list (extractEventLines logs) l = count_list logs (programDataPrefix @ l)"
  by (induction logs) (auto simp: extractEventLines_def prefix_def)

lemma template_line_published:
  assumes "in64 (event_time e)" and "who \<noteq> nilUUID" and "lf_Row f \<noteq> None" and "lf_Allow f"
    and "owns_address rows who (base58 (arr_bytes (event_policy e)))"
    and "\<forall>w. owns_address rows w (base58 (arr_bytes (event_policy e))) \<longrightarrow> w = who"
  shows "observe_line rows f slot sig (b64_encode (template_bytes e)) = [(who, template_canonical e slot sig)]"
proof -
  from assms(3) obtain i where "lf_Row f = Some i" by blast
  with owned_by_one [OF assms(5,6)] assms(2,4) parse_template_bytes [OF assms(1)] show ?thesis
    by (simp add: observe_line_def lookupKey_template base58_key)
qed

lemma published_has_line:
  assumes "(w, ev) \<in> set (observeNotification rows fate n)"
  shows "\<not> ln_Failed n \<and> w \<noteq> nilUUID \<and> ce_Slot ev = ln_Slot n \<and> ce_Signature ev = ln_Signature n
    \<and> owns_address rows w (lookupKey ev)
    \<and> (\<exists>l raw. programDataPrefix @ l \<in> set (ln_Logs n) \<and> b64_decode l = Some raw \<and> lookupKey ev = event_address raw)"
proof -
  have ok: "\<not> ln_Failed n" using assms by (auto simp: observeNotification_def split: if_splits)
  with assms have "(w, ev) \<in> set (observe_lines rows fate 0 (ln_Slot n) (ln_Signature n) (extractEventLines (ln_Logs n)))"
    by (simp add: observeNotification_def)
  from observed [OF this] obtain l row where l: "l \<in> set (extractEventLines (ln_Logs n))"
      "ParseEvent l (ln_Slot n) (ln_Signature n) = Inr (Some ev)" "lookupKey ev \<noteq> ''''"
      "ResolveAny row (lookupKey ev) rows = Some w" "w \<noteq> nilUUID" by blast
  have "programDataPrefix @ l \<in> set (ln_Logs n)" using l(1) by (auto simp: extractEventLines_def prefix_def)
  moreover from l(2,3) obtain raw where "b64_decode l = Some raw" "lookupKey ev = event_address raw"
      "ce_Slot ev = ln_Slot n" "ce_Signature ev = ln_Signature n" by (rule parsed_address)
  ultimately show ?thesis using ok l owned_by_row by blast
qed

text \<open>Property C33. Every event line of a policy that a single tenant has subscribed, in a transaction that succeeded, is
  handed to the publisher for that tenant, as the canonical event with its own fields, at least once for each
  time it is logged, as long as the lookups answer and the tenant's bucket holds out. Whatever is handed over at
  all comes from a line of a transaction that succeeded and goes to a tenant with a subscription for the address
  that the line's own bytes name, the policy's for a template event and the dWallet's for one of the dWallet
  program, never to the nil tenant; so the events of that policy go to its tenant and to nobody else.\<close>

theorem listener_publishes_to_subscribers:
  assumes "in64 (event_time e)" and "who \<noteq> nilUUID"
    and "owns_address rows who (base58 (arr_bytes (event_policy e)))"
    and "\<forall>w. owns_address rows w (base58 (arr_bytes (event_policy e))) \<longrightarrow> w = who"
  shows "(\<not> ln_Failed n \<and> (\<forall>i < length (ln_Logs n). lf_Row (fate i) \<noteq> None \<and> lf_Allow (fate i)) \<longrightarrow>
       count_list (ln_Logs n) (''Program data: '' @ b64_encode (template_bytes e))
         \<le> count_list (observeNotification rows fate n) (who, template_canonical e (ln_Slot n) (ln_Signature n)))
    \<and> (\<forall>(w, ev) \<in> set (observeNotification rows fate n).
         \<not> ln_Failed n \<and> w \<noteq> nilUUID \<and> ce_Slot ev = ln_Slot n \<and> ce_Signature ev = ln_Signature n
         \<and> (\<exists>l raw. ''Program data: '' @ l \<in> set (ln_Logs n) \<and> b64_decode l = Some raw \<and> owns_address rows w (event_address raw))
         \<and> (ce_Policy ev = base58 (arr_bytes (event_policy e)) \<longrightarrow> w = who))"
proof (intro conjI impI ballI; clarify?)
  assume ok: "\<not> ln_Failed n" and fate: "\<forall>i < length (ln_Logs n). lf_Row (fate i) \<noteq> None \<and> lf_Allow (fate i)"
  have "length (extractEventLines (ln_Logs n)) \<le> length (ln_Logs n)" by (simp add: extractEventLines_def)
  with fate have "\<forall>j < length (extractEventLines (ln_Logs n)). observe_line rows (fate (0 + j)) (ln_Slot n) (ln_Signature n)
      (b64_encode (template_bytes e)) = [(who, template_canonical e (ln_Slot n) (ln_Signature n))]"
    using template_line_published [OF assms(1,2) _ _ assms(3,4)] by simp
  from observe_count [OF this] show "count_list (ln_Logs n) (''Program data: '' @ b64_encode (template_bytes e))
      \<le> count_list (observeNotification rows fate n) (who, template_canonical e (ln_Slot n) (ln_Signature n))"
    by (simp add: observeNotification_def ok count_lines programDataPrefix_def)
next
  fix w ev
  assume "(w, ev) \<in> set (observeNotification rows fate n)"
  note published_has_line [OF this]
  moreover have "lookupKey ev = ce_Policy ev" if "ce_Policy ev = base58 (arr_bytes (event_policy e))"
    using that by (simp add: lookupKey_def base58_key)
  ultimately show "\<not> ln_Failed n \<and> w \<noteq> nilUUID \<and> ce_Slot ev = ln_Slot n \<and> ce_Signature ev = ln_Signature n
      \<and> (\<exists>l raw. ''Program data: '' @ l \<in> set (ln_Logs n) \<and> b64_decode l = Some raw \<and> owns_address rows w (event_address raw))
      \<and> (ce_Policy ev = base58 (arr_bytes (event_policy e)) \<longrightarrow> w = who)"
    using assms(4) by (metis programDataPrefix_def)
qed

text \<open>A notification with a foreign line, the pause of a policy and a line that is no base64; two tenants with a policy each.\<close>

definition demo_pause :: template_event where "demo_pause = PolicyPaused (mk_arr (replicate 32 1)) 7"

definition demo_subscriptions :: "Subscription list" where
  "demo_subscriptions = Subscribe ''tenant-b'' (base58 (arr_bytes (event_policy demo_pause))) ''engine'' ''program'' ''''
     (Subscribe ''tenant-a'' ''0'' ''engine'' ''program'' '''' [])"

definition demo_notification :: LogNotification where
  "demo_notification = \<lparr>ln_Slot = 5, ln_Signature = ''sig'', ln_Failed = False,
     ln_Logs = [''Program log: hello'', ''Program data: '' @ b64_encode (template_bytes demo_pause), ''Program data: ?'']\<rparr>"

definition demo_fates :: "nat \<Rightarrow> line_fate" where "demo_fates i = \<lparr>lf_Row = Some 0, lf_Allow = True\<rparr>"

lemma demo_owner: "owns_address demo_subscriptions w (base58 (arr_bytes (event_policy demo_pause))) \<longleftrightarrow> w = ''tenant-b''"
proof -
  have "base58 (arr_bytes (event_policy demo_pause)) \<noteq> ''0''"
    using base58_chars [of "CHR ''0''" "arr_bytes (event_policy demo_pause)"] by (auto simp: b58_alphabet_def)
  then show ?thesis using base58_key [of "event_policy demo_pause"]
    by (auto simp: demo_subscriptions_def Subscribe_def owns_address_def)
qed

theorem listener_publishes_to_subscribers_witness:
  "0 < count_list (observeNotification demo_subscriptions demo_fates demo_notification) (''tenant-b'', template_canonical demo_pause 5 ''sig'')
   \<and> list_all (\<lambda>(w, ev). w \<noteq> nilUUID \<and> ce_Slot ev = 5) (observeNotification demo_subscriptions demo_fates demo_notification)"
proof -
  have n: "ln_Slot demo_notification = 5" "ln_Signature demo_notification = ''sig''" "\<not> ln_Failed demo_notification"
    "0 < count_list (ln_Logs demo_notification) (''Program data: '' @ b64_encode (template_bytes demo_pause))"
    by (simp_all add: demo_notification_def)
  have f: "\<forall>i < length (ln_Logs demo_notification). lf_Row (demo_fates i) \<noteq> None \<and> lf_Allow (demo_fates i)"
    by (simp add: demo_fates_def)
  have "in64 (event_time demo_pause)" by (simp add: demo_pause_def in64_def)
  moreover have "''tenant-b'' \<noteq> nilUUID" by (simp add: nilUUID_def)
  moreover have "owns_address demo_subscriptions ''tenant-b'' (base58 (arr_bytes (event_policy demo_pause)))"
    "\<forall>w. owns_address demo_subscriptions w (base58 (arr_bytes (event_policy demo_pause))) \<longrightarrow> w = ''tenant-b''"
    by (simp_all only: demo_owner, simp_all)
  ultimately have p: "(\<not> ln_Failed demo_notification \<and> (\<forall>i < length (ln_Logs demo_notification). lf_Row (demo_fates i) \<noteq> None \<and> lf_Allow (demo_fates i)) \<longrightarrow>
       count_list (ln_Logs demo_notification) (''Program data: '' @ b64_encode (template_bytes demo_pause))
         \<le> count_list (observeNotification demo_subscriptions demo_fates demo_notification)
             (''tenant-b'', template_canonical demo_pause (ln_Slot demo_notification) (ln_Signature demo_notification)))"
    and q: "\<forall>(w, ev) \<in> set (observeNotification demo_subscriptions demo_fates demo_notification).
         w \<noteq> nilUUID \<and> ce_Slot ev = ln_Slot demo_notification"
    using listener_publishes_to_subscribers [of demo_pause "''tenant-b''" demo_subscriptions demo_notification demo_fates] by blast+
  from p n(3) f have "count_list (ln_Logs demo_notification) (''Program data: '' @ b64_encode (template_bytes demo_pause))
      \<le> count_list (observeNotification demo_subscriptions demo_fates demo_notification)
          (''tenant-b'', template_canonical demo_pause (ln_Slot demo_notification) (ln_Signature demo_notification))" by blast
  with n(4) have "0 < count_list (observeNotification demo_subscriptions demo_fates demo_notification)
      (''tenant-b'', template_canonical demo_pause 5 ''sig'')" unfolding n(1,2) by (rule order.strict_trans2)
  moreover from q have "list_all (\<lambda>(w, ev). w \<noteq> nilUUID \<and> ce_Slot ev = 5) (observeNotification demo_subscriptions demo_fates demo_notification)"
    unfolding n(1) list_all_iff .
  ultimately show ?thesis by blast
qed

text \<open>While nothing has subscribed, nobody is told of anything.\<close>

lemma nobody_subscribed: "observeNotification [] fate n = []"
proof -
  have "observeNotification [] fate n = [] \<or> (\<exists>w ev. (w, ev) \<in> set (observeNotification [] fate n))" by (cases "observeNotification [] fate n") auto
  then show ?thesis using published_has_line by (fastforce simp: owns_address_def)
qed

text \<open>The tenant of an address is the last one that subscribed it, whoever had it before.\<close>

lemma Resolve_Subscribe:
  "Resolve a (Subscribe key p template prog w rows) = (if a = p then Some key else Resolve a rows)"
proof -
  let ?r = "\<lparr>su_PolicyAddress = p, su_APIKeyID = key, su_Template = template, su_ProgramID = prog, su_DwalletAddress = w\<rparr>"
  have "map_option su_APIKeyID (find (\<lambda>s. su_PolicyAddress s = a) (map (\<lambda>s. if su_PolicyAddress s = p then ?r else s) rows))
      = (if a = p then (if list_ex (\<lambda>s. su_PolicyAddress s = p) rows then Some key else None) else Resolve a rows)"
    by (induction rows) (auto simp: Resolve_def)
  moreover have "Resolve a (rows @ [?r]) = (if a = p then Some key else Resolve a rows)" if "\<not> list_ex (\<lambda>s. su_PolicyAddress s = p) rows"
    using that by (induction rows) (auto simp: Resolve_def)
  ultimately show ?thesis by (auto simp: Subscribe_def Let_def Resolve_def)
qed

text \<open>A committed signature carries neither a policy nor a dWallet, so nobody is told of it.\<close>

lemma parse_ika: "ParseEvent (b64_encode (ikaEventTagLE @ body)) slot sig = Inr (parseIkaEvent body slot sig)"
  by (simp only: ParseEvent_def b64_decode_encode) (simp add: ikaEventTagLE_def)

lemma completed_signatures_reach_nobody:
  assumes "length payload \<ge> 34"
  shows "observe_lines rows fate i slot sig [b64_encode (ikaEventTagLE @ 2 # payload)] = []"
  using assms by (simp add: observe_line_def parse_ika parseIkaEvent_def lookupKey_def bare_event_def Let_def)

section \<open>Reconnecting\<close>

definition nextBackoff :: "int \<Rightarrow> int" where
  "nextBackoff d = (let nx = wrap64 (d * 2) in if nx > 60 * second then 60 * second else nx)"

fun waits :: "nat \<Rightarrow> int \<Rightarrow> int list" where
  "waits 0 d = []"
| "waits (Suc n) d = d # waits n (nextBackoff d)"

lemma waits_bounds: "second \<le> d \<Longrightarrow> d \<le> 60 * second \<Longrightarrow> t \<in> set (waits n d) \<Longrightarrow> second \<le> t \<and> t \<le> 60 * second"
proof (induction n arbitrary: d)
  case (Suc n)
  have "wrap64 (d * 2) = d * 2" using Suc.prems(1,2) by (intro wrap64_id) (simp add: in64_def second_def)
  then show ?case using Suc.IH [of "nextBackoff d"] Suc.prems by (auto simp: nextBackoff_def Let_def second_def split: if_splits)
qed simp

end
