(* ===== verification/HookRuns.thy ===== *)
theory HookRuns
  imports HookTries HookSafety WebhookEvents
begin

text \<open>
  Runs of the webhook system: histories in which a delivery is resent for ever, in which a delivered one is
  opened again and in which the guard is passed and an internal address is reached, and the instances of the
  properties.
\<close>

section \<open>One delivery, one endpoint\<close>

definition waiting :: "hook_env \<Rightarrow> Endpoint \<Rightarrow> Delivery \<Rightarrow> hooks \<Rightarrow> bool" where
  "waiting E ep d w \<longleftrightarrow> hook_reach E w \<and> the_rows w = [d] \<and> hd_endpoints (wh_db w) = [ep] \<and> wh_jobs w = []
     \<and> dv_Status d = Pending \<and> dv_NextAttemptAt d \<le> wh_now w \<and> dv_EndpointID d = ep_ID ep \<and> ep_Active ep"

lemma claim_one:
  assumes "claimable now d"
  shows "ClaimDeliveries now 100 60 owner {} [d] = ([claim_row now 60 owner d], [claim_row now 60 owner d])"
proof -
  have "dv_ID (claim_row now 60 owner d) = dv_ID d" by simp
  then show ?thesis using assms by (simp add: ClaimDeliveries_def picked_def Let_def)
qed

text \<open>Claim, look up, pass the guard, post.\<close>

lemma post_once:
  assumes "waiting E ep d w" "ValidateDispatch (we_net E) (wh_queries w) (ep_URL ep)" "ip \<in> dial (we_net E) (Suc (wh_queries w)) (ep_URL ep)"
  defines "d' \<equiv> claim_row (wh_now w) 60 ''r1'' d"
  shows "\<exists>w'. hook_reach E w' \<and> the_rows w' = [d'] \<and> hd_endpoints (wh_db w') = [ep] \<and> wh_jobs w' = [after_answer E (wh_now w) d' ans]
    \<and> wh_posts w' = wh_posts w @ [(the_post E (wh_now w) d' ep ip, ans)] \<and> wh_now w' = wh_now w \<and> wh_queries w' = wh_queries w + 2
    \<and> wh_retried w' = wh_retried w"
proof -
  have w: "hook_reach E w" "the_rows w = [d]" "hd_endpoints (wh_db w) = [ep]" "wh_jobs w = []" "claimable (wh_now w) d"
    "dv_EndpointID d = ep_ID ep" "ep_Active ep" using assms(1) by (auto simp: waiting_def claimable_def)
  let ?w1 = "(with_rows [d'] w)\<lparr>wh_jobs := [Queued d']\<rparr>"
  have "hook_step E w ((with_rows (snd ([d'], [d'])) w)\<lparr>wh_jobs := wh_jobs w @ map Queued (fst ([d'], [d']))\<rparr>)"
    by (rule hook_step.claim [where n = 100 and lease = 60 and owner = "''r1''" and locked = "{}"]) (simp add: w claim_one d'_def)
  then have r1: "hook_reach E ?w1" using hook_next [OF w(1)] w(4) by simp
  have id: "dv_EndpointID d' = ep_ID ep" using w(6) by (simp add: d'_def claim_row_def)
  have "hook_step E ?w1 (?w1\<lparr>wh_jobs := (wh_jobs ?w1)[0 := after_fetch E (wh_now ?w1) d' (Some ep)]\<rparr>)"
    by (rule hook_step.fetch) (use w(3) id in \<open>auto simp: find_endpoint_def\<close>)
  moreover have "after_fetch E (wh_now ?w1) d' (Some ep) = Fetched d' ep" using w(7) by (simp add: after_fetch_def)
  ultimately have r2: "hook_reach E (?w1\<lparr>wh_jobs := [Fetched d' ep]\<rparr>)" using hook_next [OF r1] by simp
  let ?w2 = "?w1\<lparr>wh_jobs := [Fetched d' ep]\<rparr>"
  let ?w3 = "?w2\<lparr>wh_now := wh_now ?w2, wh_queries := wh_queries ?w2 + 2, wh_posts := wh_posts ?w2 @ [(the_post E (wh_now ?w2) d' ep ip, ans)],
      wh_jobs := (wh_jobs ?w2)[0 := after_answer E (wh_now ?w2) d' ans]\<rparr>"
  have "hook_step E ?w2 ?w3" by (rule hook_step.send) (use assms(2,3) in \<open>simp_all add: with_rows_def\<close>)
  then have "hook_reach E ?w3" using hook_next [OF r2] by blast
  then show ?thesis using w(3) by (intro exI [of _ ?w3]) (simp add: with_rows_def the_rows_def)
qed

section \<open>A concrete system\<close>

lemma pg_ascii: "list_all (\<lambda>c. 0 < (of_char c :: nat) \<and> (of_char c :: nat) < 0x80) s \<Longrightarrow> pg_text s"
proof -
  assume a: "list_all (\<lambda>c. 0 < (of_char c :: nat) \<and> (of_char c :: nat) < 0x80) s"
  then have "valid_utf8 s"
  proof (induction s)
    case (Cons c s)
    then have "rune_len (c # s) = Suc 0" by (simp add: rune_len_1)
    with Cons show ?case by (simp add: Let_def)
  qed simp
  moreover have "CHR 0x00 \<notin> set s" using a by (auto simp: list_all_iff)
  ultimately show ?thesis by (simp add: pg_text_def)
qed

text \<open>In production, two names that resolve to a public address: one always, the other for every lookup but the third.\<close>

definition demo_net :: net_env where
  "demo_net = \<lparr>ne_mode = ModeProduction,
     ne_parse = (\<lambda>s. if prefix ''https://'' s then Some \<lparr>u_Scheme = ''https'', u_User = False, u_Host = drop 8 s\<rparr> else None),
     ne_ip = (\<lambda>_. None),
     ne_dns = (\<lambda>h q. if h = ''a.io'' then Some [[8, 8, 8, 8]]
       else if h = ''b.io'' then Some [if q = 2 then [127, 0, 0, 1] else [8, 8, 8, 8]] else None)\<rparr>"

definition demo_hooks :: hook_env where
  "demo_hooks = \<lparr>we_hmac = (\<lambda>k m. take 32 (k @ m)), we_jsonb = Some, we_iso = IntDec, we_conv = (\<lambda>n. - (2 ^ 63)), we_net = demo_net\<rparr>"

definition demo_endpoint :: "string \<Rightarrow> Endpoint" where
  "demo_endpoint url = \<lparr>ep_ID = ''e1'', ep_APIKeyID = ''k'', ep_URL = url, ep_Secret = ''s'', ep_Events = [], ep_Active = True,
     ep_CreatedAt = 0, ep_LastSuccessAt = None, ep_LastFailureAt = None, ep_FailureCount = 0\<rparr>"

definition demo_delivery :: Delivery where
  "demo_delivery = \<lparr>dv_ID = ''d1'', dv_EndpointID = ''e1'', dv_EventType = ''policy.paused'', dv_EventID = ''v1'',
     dv_Payload = publish_body demo_hooks 0 ''v1'' ''policy.paused'' ''{}'', dv_Status = Pending, dv_Attempts = 0, dv_NextAttemptAt = 0,
     dv_LastResponseStatus = None, dv_LastResponseBody = None, dv_CreatedAt = 0, dv_DeliveredAt = None, dv_ClaimedAt = None,
     dv_ClaimDeadline = None, dv_ClaimOwner = None\<rparr>"

abbreviation "safe_url \<equiv> ''https://a.io''"
abbreviation "rebound_url \<equiv> ''https://b.io''"

lemma demo_guard:
  "ValidateRegister demo_net q safe_url" "q \<noteq> 2 \<Longrightarrow> ValidateRegister demo_net q rebound_url"
  "dial demo_net q safe_url = {[8, 8, 8, 8]}" "dial demo_net 2 rebound_url = {[127, 0, 0, 1]}"
proof -
  have ip: "\<not> isBlockedIP [8, 8, 8, 8]" by (simp add: isBlockedIP_v4 internal_v4_def)
  have t: "TrimSpace safe_url = safe_url" "TrimSpace rebound_url = rebound_url" by (simp_all add: TrimSpace_def is_space_def)
  have l: "ToLower ''https'' = ''https''" by (simp add: ToLower_def lower_def)
  show "ValidateRegister demo_net q safe_url" "q \<noteq> 2 \<Longrightarrow> ValidateRegister demo_net q rebound_url"
    using ip by (simp_all add: ValidateRegister_def parseAndCheck_def checkHostIPs_def demo_net_def t l Let_def)
  show "dial demo_net q safe_url = {[8, 8, 8, 8]}" "dial demo_net 2 rebound_url = {[127, 0, 0, 1]}"
    by (simp_all add: dial_def demo_net_def)
qed

definition demo_start :: "string \<Rightarrow> hooks" where
  "demo_start url = \<lparr>wh_now = 0, wh_db = \<lparr>hd_endpoints = [demo_endpoint url], hd_deliveries = [demo_delivery]\<rparr>, wh_jobs = [],
     wh_posts = [], wh_queries = 1, wh_owner = [(''e1'', ''k'', ''s'')],
     wh_sent = [(''v1'', ''k'', ''policy.paused'', publish_body demo_hooks 0 ''v1'' ''policy.paused'' ''{}'')], wh_ids = [''d1''],
     wh_recovered = [], wh_retried = []\<rparr>"

lemma demo_start_reach:
  assumes "url = safe_url \<or> url = rebound_url"
  shows "hook_reach demo_hooks (demo_start url)"
proof -
  let ?w1 = "(no_hooks 0)\<lparr>wh_db := \<lparr>hd_endpoints = [demo_endpoint url], hd_deliveries = []\<rparr>, wh_queries := 1, wh_owner := [(''e1'', ''k'', ''s'')]\<rparr>"
  have t: "TrimSpace url = url" "url \<noteq> []" using assms by (auto simp: TrimSpace_def is_space_def)
  have "pg_text safe_url" "pg_text rebound_url" by (rule pg_ascii, simp)+
  then have u: "pg_text url" "ValidateRegister demo_net 0 url" using assms demo_guard(1) [of 0] demo_guard(2) [of 0] by auto
  have c: "url_check url" using assms by (auto simp: url_check_def)
  have "handleCreateEndpoint demo_hooks 0 0 ''e1'' ''s'' ''k'' url (Some []) (wh_db (no_hooks 0))
      = (Created (demo_endpoint url) ''s'', \<lparr>hd_endpoints = [demo_endpoint url], hd_deliveries = []\<rparr>)"
    using t u c by (simp add: handleCreateEndpoint_def CreateEndpoint_def no_hooks_def demo_endpoint_def demo_hooks_def Let_def)
  then have "hook_step demo_hooks (no_hooks 0) ?w1"
    using hook_step.create [of "''e1''" "no_hooks 0" demo_hooks "''k''" "''s''" url "Some []"] by (simp add: no_hooks_def)
  then have r1: "hook_reach demo_hooks ?w1" using hook_next [OF hook_init] by blast
  have "Publish demo_hooks 0 ''v1'' [(''d1'', False)] ''k'' ''policy.paused'' ''{}'' (wh_db ?w1)
      = ((1, True), \<lparr>hd_endpoints = [demo_endpoint url], hd_deliveries = [demo_delivery]\<rparr>)"
    by (simp add: Publish_def GetActiveEndpointsForEvent_def demo_endpoint_def EnqueueDelivery_def demo_delivery_def demo_hooks_def
        pg_ascii)
  then have "hook_step demo_hooks ?w1 (demo_start url)"
    using hook_step.publish [of "[(''d1'', False)]" ?w1 demo_hooks "''v1''" "''k''" "''policy.paused''" "''{}''"]
    by (simp add: no_hooks_def demo_start_def)
  then show ?thesis using hook_next [OF r1] by blast
qed

lemma demo_waiting:
  assumes "url = safe_url \<or> url = rebound_url"
  shows "waiting demo_hooks (demo_endpoint url) demo_delivery (demo_start url)"
  using demo_start_reach [OF assms] by (simp add: waiting_def demo_start_def the_rows_def demo_delivery_def demo_endpoint_def)

lemma demo_posted:
  assumes "waiting demo_hooks (demo_endpoint url) d w" "ValidateRegister demo_net (wh_queries w) url" "ip \<in> dial demo_net (Suc (wh_queries w)) url"
  defines "d' \<equiv> claim_row (wh_now w) 60 ''r1'' d"
  shows "\<exists>w'. hook_reach demo_hooks w' \<and> the_rows w' = [d'] \<and> hd_endpoints (wh_db w') = [demo_endpoint url]
    \<and> wh_jobs w' = [after_answer demo_hooks (wh_now w) d' ans]
    \<and> wh_posts w' = wh_posts w @ [(the_post demo_hooks (wh_now w) d' (demo_endpoint url) ip, ans)] \<and> wh_now w' = wh_now w
    \<and> wh_queries w' = wh_queries w + 2 \<and> wh_retried w' = wh_retried w"
proof -
  have "we_net demo_hooks = demo_net" "ep_URL (demo_endpoint url) = url" by (simp_all add: demo_hooks_def demo_endpoint_def)
  then show ?thesis using post_once [OF assms(1)] assms(2,3) unfolding d'_def ValidateDispatch_def by simp
qed

section \<open>The guard and the dialler do not see the same address\<close>

text \<open>Property C31. The guard does not keep a delivery from an internal address: in production there is a history in which a
  tenant's endpoint passes the guard at registration and at dispatch and the request then goes to 127.0.0.1,
  because the client looks the name up again.\<close>

theorem rebinding_reaches_loopback:
  "\<exists>w. hook_reach demo_hooks w \<and> ne_mode (we_net demo_hooks) = ModeProduction \<and> IsLoopback [127, 0, 0, 1]
     \<and> map (po_address \<circ> fst) (wh_posts w) = [[127, 0, 0, 1]]"
proof -
  have "wh_queries (demo_start rebound_url) = 1" by (simp add: demo_start_def)
  then have "ValidateRegister demo_net (wh_queries (demo_start rebound_url)) rebound_url"
    "[127, 0, 0, 1] \<in> dial demo_net (Suc (wh_queries (demo_start rebound_url))) rebound_url"
    using demo_guard(2) [of 1] demo_guard(4) by (simp_all only: numeral_2_eq_2 One_nat_def) simp_all
  from demo_posted [OF demo_waiting [OF disjI2 [OF refl]] this] obtain w' where w': "hook_reach demo_hooks w'"
    "wh_posts w' = wh_posts (demo_start rebound_url) @ [(the_post demo_hooks (wh_now (demo_start rebound_url))
        (claim_row (wh_now (demo_start rebound_url)) 60 ''r1'' demo_delivery) (demo_endpoint rebound_url) [127, 0, 0, 1], None)]"
    by blast
  have "map (po_address \<circ> fst) (wh_posts w') = [[127, 0, 0, 1]]" using w'(2) by (simp add: the_post_def demo_start_def)
  moreover have "IsLoopback [127, 0, 0, 1]" by (simp add: IsLoopback_def To4_def)
  moreover have "ne_mode (we_net demo_hooks) = ModeProduction" by (simp add: demo_hooks_def demo_net_def)
  ultimately show ?thesis using w'(1) by (intro exI [of _ w'] conjI)
qed

section \<open>An answer the database cannot store\<close>

text \<open>One round: post, be answered 200 with a byte that is no text, wait for the lease to run out, be swept.\<close>

lemma unreadable_round:
  assumes "waiting demo_hooks (demo_endpoint safe_url) d w"
  shows "\<exists>w' d' p. waiting demo_hooks (demo_endpoint safe_url) d' w' \<and> dv_ID d' = dv_ID d \<and> wh_retried w' = wh_retried w
    \<and> wh_posts w' = wh_posts w @ [(p, Some (200, [CHR 0xFF]))] \<and> po_delivery p = dv_ID d"
proof -
  let ?ans = "Some (200 :: int, [CHR 0xFF])" and ?d = "claim_row (wh_now w) 60 ''r1'' d"
  obtain w1 where w1: "hook_reach demo_hooks w1" "the_rows w1 = [?d]" "hd_endpoints (wh_db w1) = [demo_endpoint safe_url]"
    "wh_jobs w1 = [after_answer demo_hooks (wh_now w) ?d ?ans]"
    "wh_posts w1 = wh_posts w @ [(the_post demo_hooks (wh_now w) ?d (demo_endpoint safe_url) [8, 8, 8, 8], ?ans)]"
    "wh_now w1 = wh_now w" "wh_retried w1 = wh_retried w"
    using demo_posted [OF assms, of "[8, 8, 8, 8]" ?ans] demo_guard(1,3) by auto
  have bad: "\<not> pg_text [CHR 0xFF]" by (simp add: pg_text_def rune_len_def lead_len_def Let_def)
  have j: "wh_jobs w1 = [Judged (dv_ID d) (MarkOK 200 [CHR 0xFF])]" using w1(4) by (simp add: after_answer_def)
  have "write_verdict (wh_now w1) (dv_ID d) (MarkOK 200 [CHR 0xFF]) (wh_db w1) = wh_db w1"
    using bad by (simp add: write_verdict_def MarkDelivered_def truncateBody_def)
  then have "hook_step demo_hooks w1 (w1\<lparr>wh_db := wh_db w1, wh_jobs := []\<rparr>)"
    using hook_step.verdict_written [of 0 w1 "dv_ID d" "MarkOK 200 [CHR 0xFF]" demo_hooks] j by (simp add: without_def)
  then have r2: "hook_reach demo_hooks (w1\<lparr>wh_jobs := []\<rparr>)" using hook_next [OF w1(1)] by simp
  let ?w2 = "w1\<lparr>wh_jobs := []\<rparr>" and ?t = "wh_now w + 61 * second"
  have "hook_step demo_hooks ?w2 (?w2\<lparr>wh_now := ?t\<rparr>)" by (rule hook_step.clock) (simp add: w1(6) second_def)
  then have r3: "hook_reach demo_hooks (?w2\<lparr>wh_now := ?t\<rparr>)" by (rule hook_next [OF r2])
  let ?w3 = "?w2\<lparr>wh_now := ?t\<rparr>" and ?d' = "(unclaimed ?d)\<lparr>dv_Status := Pending, dv_NextAttemptAt := wh_now w + 61 * second\<rparr>"
  have st: "stuck ?t ?d" by (simp add: stuck_def claim_row_def second_def)
  have "hook_step demo_hooks ?w3 ((with_rows (RecoverStuck (wh_now ?w3) (the_rows ?w3)) ?w3)\<lparr>wh_recovered :=
      map dv_ID (filter (stuck (wh_now ?w3)) (the_rows ?w3)) @ wh_recovered ?w3\<rparr>)" by (rule hook_step.sweep)
  moreover have "RecoverStuck (wh_now ?w3) (the_rows ?w3) = [?d']" using st w1(2) by (simp add: RecoverStuck_def)
  ultimately have "hook_reach demo_hooks ((with_rows [?d'] ?w3)\<lparr>wh_recovered := map dv_ID (filter (stuck (wh_now ?w3)) (the_rows ?w3)) @ wh_recovered ?w3\<rparr>)"
    (is "hook_reach demo_hooks ?w4") using hook_next [OF r3] by simp
  moreover have "dv_EndpointID ?d' = dv_EndpointID d" by (simp add: unclaimed_def claim_row_def)
  ultimately have "waiting demo_hooks (demo_endpoint safe_url) ?d' ?w4"
    using w1(3) assms by (simp add: waiting_def)
  moreover have "wh_retried ?w4 = wh_retried w" "wh_posts ?w4 = wh_posts w1" using w1(7) by simp_all
  ultimately show ?thesis using w1(5) by (intro exI [of _ ?w4] exI [of _ ?d'] exI [of _ "the_post demo_hooks (wh_now w) ?d (demo_endpoint safe_url) [8, 8, 8, 8]"])
      (simp add: the_post_def)
qed

text \<open>Property C18. A receiver that accepts every delivery with status 200 can still be sent one delivery any number of times,
  without anybody asking for a retry: an answer that is not text cannot be stored, the failure to mark the
  delivery as delivered is dropped, and the sweep hands the delivery out again.\<close>

theorem unreadable_answer_is_resent:
  "\<exists>w. hook_reach demo_hooks w \<and> wh_retried w = []
     \<and> map (\<lambda>(p, ans). (po_delivery p, ans)) (wh_posts w) = replicate n (''d1'', Some (200, [CHR 0xFF]))"
proof -
  have "\<exists>w d. waiting demo_hooks (demo_endpoint safe_url) d w \<and> dv_ID d = ''d1'' \<and> wh_retried w = []
     \<and> map (\<lambda>(p, ans). (po_delivery p, ans)) (wh_posts w) = replicate n (''d1'', Some (200, [CHR 0xFF]))"
  proof (induction n)
    case 0
    then show ?case using demo_waiting [of safe_url]
      by (intro exI [of _ "demo_start safe_url"] exI [of _ demo_delivery]) (simp add: demo_start_def demo_delivery_def)
  next
    case (Suc n)
    then obtain w d where w: "waiting demo_hooks (demo_endpoint safe_url) d w" "dv_ID d = ''d1''" "wh_retried w = []"
      "map (\<lambda>(p, ans). (po_delivery p, ans)) (wh_posts w) = replicate n (''d1'', Some (200, [CHR 0xFF]))" by blast
    obtain w' d' p where "waiting demo_hooks (demo_endpoint safe_url) d' w'" "dv_ID d' = dv_ID d" "wh_retried w' = wh_retried w"
      "wh_posts w' = wh_posts w @ [(p, Some (200, [CHR 0xFF]))]" "po_delivery p = dv_ID d"
      using unreadable_round [OF w(1)] by blast
    then show ?case using w by (intro exI [of _ w'] exI [of _ d']) (simp add: replicate_append_same)
  qed
  then show ?thesis by (auto simp: waiting_def)
qed

section \<open>Instances\<close>

lemma demo_post:
  "\<exists>w p ans d. hook_reach demo_hooks w \<and> (p, ans) \<in> set (wh_posts w) \<and> d \<in> set (the_rows w) \<and> po_delivery p = dv_ID d"
proof -
  obtain w' d' p where "waiting demo_hooks (demo_endpoint safe_url) d' w'" "dv_ID d' = dv_ID demo_delivery"
    "wh_posts w' = wh_posts (demo_start safe_url) @ [(p, Some (200, [CHR 0xFF]))]" "po_delivery p = dv_ID demo_delivery"
    using unreadable_round [OF demo_waiting [of safe_url]] by blast
  then show ?thesis by (intro exI [of _ w'] exI [of _ p] exI [of _ "Some (200, [CHR 0xFF])"] exI [of _ d']) (simp add: waiting_def)
qed

theorem posts_are_bounded_witness:
  "\<exists>w d. hook_reach demo_hooks w \<and> d \<in> set (the_rows w) \<and> 0 < length (filter (\<lambda>p. po_delivery (fst p) = dv_ID d) (wh_posts w))
    \<and> length (filter (\<lambda>p. po_delivery (fst p) = dv_ID d) (wh_posts w))
        \<le> 8 + count_list (wh_retried w) (dv_ID d) + count_list (wh_recovered w) (dv_ID d)"
proof -
  obtain w p ans d where w: "hook_reach demo_hooks w" "(p, ans) \<in> set (wh_posts w)" "d \<in> set (the_rows w)" "po_delivery p = dv_ID d"
    using demo_post by blast
  have "filter (\<lambda>p. po_delivery (fst p) = dv_ID d) (wh_posts w) \<noteq> []" using w(2,4) by (force simp: filter_empty_conv)
  then show ?thesis using w posts_are_bounded [OF w(1,3)] by blast
qed

theorem posts_are_authentic_witness:
  "\<exists>w p ans secret body payload. hook_reach demo_hooks w \<and> (p, ans) \<in> set (wh_posts w)
    \<and> (po_endpoint p, po_tenant p, secret) \<in> set (wh_owner w)
    \<and> (po_event_id p, po_tenant p, po_event_type p, body) \<in> set (wh_sent w) \<and> we_jsonb demo_hooks body = Some payload
    \<and> po_signature p = signature_header demo_hooks secret (po_time p div second) payload"
proof -
  obtain w p ans d where w: "hook_reach demo_hooks w" "(p, ans) \<in> set (wh_posts w)" using demo_post by blast
  then show ?thesis using posts_are_authentic [OF w] by blast
qed

theorem ParseEvent_reads_template_events_witness:
  "ParseEvent (b64_encode (template_bytes (PolicyPaused (mk_arr (replicate 32 1)) 7))) 5 ''sig''
    = Inr (Some (template_canonical (PolicyPaused (mk_arr (replicate 32 1)) 7) 5 ''sig''))"
  by (rule ParseEvent_reads_template_events) (simp add: in64_def)

end
