(* ===== verification/RateLimit.thy ===== *)
theory RateLimit
  imports Complex_Main Prelude
begin

text \<open>
  The rate limiter, \<open>gateway/internal/ratelimit/ratelimit.go\<close>: the token bucket of the Lua script
  with the table Redis keeps, and \<open>Allow\<close> around it. Lua's numbers are doubles; here they are
  exact rationals (every value the script computes is a multiple of a thousandth). Two clocks
  matter: the script measures with the clock of the gateway that calls it, and Redis lets a key
  expire on its own. The first part is the code; then come the bound on what is admitted, the
  effect of a refused call, and what gateways with different clocks do to the bound.
\<close>

section \<open>The script\<close>

record bucket =
  rl_tokens :: rat
  rl_ts :: int
  rl_until :: int

type_synonym buckets = "string \<rightharpoonup> bucket"

definition live :: "int \<Rightarrow> bucket option \<Rightarrow> bucket option" where
  "live clock b = (case b of Some x \<Rightarrow> if clock < rl_until x then Some x else None | None \<Rightarrow> None)"

definition ttl :: "int \<Rightarrow> int \<Rightarrow> int" where
  "ttl rate burst = max 2000 \<lceil>(of_int burst / of_int rate :: rat) * 2000\<rceil>"

text \<open>\<open>redis\<close> is the clock of Redis, \<open>now\<close> the argument of the caller; \<open>data\<close> is what \<open>HMGET\<close> finds.\<close>

definition tokenBucketScript :: "int \<Rightarrow> int \<Rightarrow> int \<Rightarrow> int \<Rightarrow> bucket option \<Rightarrow> bool \<times> bucket" where
  "tokenBucketScript redis now rate burst data =
     (let tokens = (case data of None \<Rightarrow> of_int burst | Some b \<Rightarrow> rl_tokens b);
          ts = (case data of None \<Rightarrow> now | Some b \<Rightarrow> rl_ts b);
          elapsed = max 0 (now - ts);
          tokens = min (of_int burst) (tokens + of_int (elapsed * rate) / 1000)
      in if tokens < 1 then (False, \<lparr>rl_tokens = tokens, rl_ts = now, rl_until = redis + ttl rate burst\<rparr>)
         else (True, \<lparr>rl_tokens = tokens - 1, rl_ts = now, rl_until = redis + ttl rate burst\<rparr>))"

section \<open>Allow\<close>

text \<open>What becomes of the \<open>EVAL\<close>: it is answered, its answer is lost, or it does not reach Redis.\<close>

datatype eval = Answered | AnswerLost | Unreached

datatype verdict = Admitted | Limited | Unavailable

record limiter =
  lm_redis :: bool
  lm_failOpen :: bool

definition bucket_key :: "string \<Rightarrow> string" where
  "bucket_key key = ''rl:'' @ key"

definition limits :: "int \<Rightarrow> int \<Rightarrow> (int \<times> int) option" where
  "limits rps burst =
     (if rps \<le> 0 \<and> burst \<le> 0 then None
      else let rps = (if rps \<le> 0 then burst else rps) in Some (rps, if burst \<le> 0 then rps else burst))"

definition Allow :: "limiter \<Rightarrow> eval \<Rightarrow> int \<Rightarrow> int \<Rightarrow> string \<Rightarrow> int \<Rightarrow> int \<Rightarrow> buckets \<Rightarrow> verdict \<times> buckets" where
  "Allow L ev redis now key rps burst st =
     (if \<not> lm_redis L then (Admitted, st)
      else case limits rps burst of
        None \<Rightarrow> (Admitted, st)
      | Some (rate, cap) \<Rightarrow>
          let bk = bucket_key key;
              (ok, b) = tokenBucketScript redis now rate cap (live redis (st bk));
              st1 = st(bk \<mapsto> b);
              failed = (if lm_failOpen L then Admitted else Unavailable)
          in (case ev of
                Answered \<Rightarrow> (if ok then Admitted else Limited, st1)
              | AnswerLost \<Rightarrow> (failed, st1)
              | Unreached \<Rightarrow> (failed, st)))"

section \<open>What one call does to a bucket\<close>

definition level :: "int \<Rightarrow> int \<Rightarrow> int \<Rightarrow> bucket option \<Rightarrow> rat" where
  "level now rate burst data =
     (case data of None \<Rightarrow> of_int burst
      | Some b \<Rightarrow> min (of_int burst) (rl_tokens b + of_int (max 0 (now - rl_ts b) * rate) / 1000))"

lemma script_level:
  "tokenBucketScript redis now rate burst data =
     (1 \<le> level now rate burst data,
      \<lparr>rl_tokens = level now rate burst data - of_bool (1 \<le> level now rate burst data),
       rl_ts = now, rl_until = redis + ttl rate burst\<rparr>)"
  by (auto simp: tokenBucketScript_def level_def Let_def not_le min_less_iff_disj split: option.split)

text \<open>A key outlives its refill: once it expires the bucket would have been full.\<close>

lemma ttl_fills: "0 < rate \<Longrightarrow> ttl rate burst \<le> e \<Longrightarrow> (of_int burst :: rat) \<le> of_int (e * rate) / 1000 \<or> burst < 0"
proof -
  assume r: "0 < rate" and e: "ttl rate burst \<le> e"
  let ?q = "(of_int burst / of_int rate :: rat)"
  have "\<lceil>?q * 2000\<rceil> \<le> e" using e by (simp add: ttl_def)
  then have "?q * 2000 \<le> of_int e" by (simp add: ceiling_le_iff)
  then have "of_int burst * 2000 \<le> (of_int e * of_int rate :: rat)"
    using r by (simp add: field_simps)
  then show ?thesis by auto
qed

definition bucket_ok :: "int \<Rightarrow> int \<Rightarrow> int \<Rightarrow> bucket \<Rightarrow> bool" where
  "bucket_ok d rate burst b \<longleftrightarrow> 0 \<le> rl_tokens b \<and> rl_tokens b \<le> of_int burst \<and> rl_until b = rl_ts b + d + ttl rate burst"

text \<open>What is there at a time, expiry or not, when Redis and the caller keep the same time.\<close>

lemma level_live:
  assumes "0 < rate" "0 < burst" "bucket_ok d rate burst b" "rl_ts b \<le> t"
  shows "level t rate burst (live (t + d) (Some b)) = min (of_int burst) (rl_tokens b + of_int ((t - rl_ts b) * rate) / 1000)"
proof (cases "t + d < rl_until b")
  case False
  then have "(of_int burst :: rat) \<le> of_int ((t - rl_ts b) * rate) / 1000"
    using ttl_fills [OF assms(1), of burst "t - rl_ts b"] assms(2,3) by (auto simp: bucket_ok_def)
  moreover have "0 \<le> rl_tokens b" using assms(3) by (simp add: bucket_ok_def)
  ultimately have "of_int burst \<le> rl_tokens b + of_int ((t - rl_ts b) * rate) / 1000" by linarith
  with False show ?thesis by (simp add: live_def level_def min_absorb1)
qed (use assms(4) in \<open>simp add: live_def level_def\<close>)

lemma live_None [simp]: "live clock None = None"
  by (simp add: live_def)

lemma level_le: "level t rate burst data \<le> of_int burst"
  by (simp add: level_def split: option.split)

lemma level_nonneg: "0 < rate \<Longrightarrow> 0 < burst \<Longrightarrow> (\<And>b. data = Some b \<Longrightarrow> 0 \<le> rl_tokens b) \<Longrightarrow> 0 \<le> level t rate burst data"
  by (auto simp: level_def split: option.split)

section \<open>A sequence of calls\<close>

text \<open>A call is a key, the clock of Redis and the clock of the calling gateway; \<open>plan\<close> gives each key its
  two numbers. \<open>served\<close> lists the admitted calls.\<close>

record call =
  cl_key :: string
  cl_redis :: int
  cl_now :: int

fun served :: "limiter \<Rightarrow> (string \<Rightarrow> int \<times> int) \<Rightarrow> call list \<Rightarrow> buckets \<Rightarrow> call list" where
  "served L plan [] st = []"
| "served L plan (c # cs) st =
     (let (v, st1) = Allow L Answered (cl_redis c) (cl_now c) (cl_key c) (fst (plan (cl_key c))) (snd (plan (cl_key c))) st
      in (if v = Admitted then [c] else []) @ served L plan cs st1)"

definition on_time :: "int \<Rightarrow> call list \<Rightarrow> bool" where
  "on_time d cs \<longleftrightarrow> sorted (map cl_now cs) \<and> (\<forall>c\<in>set cs. cl_redis c = cl_now c + d)"

definition tally :: "string \<Rightarrow> int \<Rightarrow> int \<Rightarrow> call list \<Rightarrow> nat" where
  "tally k a b cs = length (filter (\<lambda>c. cl_key c = k \<and> a \<le> cl_now c \<and> cl_now c \<le> b) cs)"

lemma within_simps [simp]:
  "tally k a b [] = 0"
  "tally k a b (c # cs) = of_bool (cl_key c = k \<and> a \<le> cl_now c \<and> cl_now c \<le> b) + tally k a b cs"
  "tally k a b (cs @ cs') = tally k a b cs + tally k a b cs'"
  by (simp_all add: tally_def)

lemma served_Cons:
  "served L plan (c # cs) st =
    (let r = Allow L Answered (cl_redis c) (cl_now c) (cl_key c) (fst (plan (cl_key c))) (snd (plan (cl_key c))) st
     in (if fst r = Admitted then [c] else []) @ served L plan cs (snd r))"
  by (simp add: Let_def case_prod_beta)

lemma served_subset: "set (served L plan cs st) \<subseteq> set cs"
  by (induction cs arbitrary: st) (auto simp: Let_def split: prod.split)

lemma on_time_Cons: "on_time d (c # cs) \<longleftrightarrow> cl_redis c = cl_now c + d \<and> (\<forall>x\<in>set cs. cl_now c \<le> cl_now x) \<and> on_time d cs"
  by (auto simp: on_time_def)

lemma bucket_key_inj [simp]: "bucket_key k = bucket_key l \<longleftrightarrow> k = l"
  by (simp add: bucket_key_def)

lemma limits_pos: "limits rps burst = Some (rate, cap) \<Longrightarrow> 0 < rate \<and> 0 < cap"
  by (auto simp: limits_def Let_def split: if_splits)

text \<open>One call of a key that is limited.\<close>

lemma Allow_limited:
  assumes "lm_redis L" "limits rps burst = Some (rate, cap)"
  shows "Allow L Answered redis now k rps burst st =
    (if 1 \<le> level now rate cap (live redis (st (bucket_key k))) then Admitted else Limited,
     st(bucket_key k \<mapsto> snd (tokenBucketScript redis now rate cap (live redis (st (bucket_key k))))))"
  using assms by (simp add: Allow_def script_level Let_def)

lemma Allow_other:
  assumes "k \<noteq> k'"
  shows "(snd (Allow L ev redis now k' rps burst st)) (bucket_key k) = st (bucket_key k)"
  using assms by (auto simp: Allow_def Let_def split: option.split prod.split eval.split)

text \<open>From a bucket: no more than its tokens and what flows in.\<close>

lemma served_from_bucket:
  assumes L: "lm_redis L" "limits (fst (plan k)) (snd (plan k)) = Some (rate, cap)"
    and "on_time d cs" "st (bucket_key k) = Some B" "bucket_ok d rate cap B" "\<forall>c\<in>set cs. rl_ts B \<le> cl_now c" "rl_ts B \<le> b"
  shows "of_nat (tally k a b (served L plan cs st)) \<le> rl_tokens B + of_int ((b - rl_ts B) * rate) / 1000"
  using assms(3-)
proof (induction cs arbitrary: st B)
  case Nil
  have "0 \<le> (b - rl_ts B) * rate" using Nil limits_pos [OF L(2)] by simp
  then have "0 \<le> (of_int ((b - rl_ts B) * rate) :: rat)" by (metis of_int_0_le_iff)
  with Nil show ?case by (simp add: bucket_ok_def)
next
  case (Cons c cs)
  note pos = limits_pos [OF L(2)]
  have c: "cl_redis c = cl_now c + d" "on_time d cs" "rl_ts B \<le> cl_now c" using Cons.prems by (auto simp: on_time_Cons)
  show ?case
  proof (cases "cl_key c = k")
    case False
    let ?st = "snd (Allow L Answered (cl_redis c) (cl_now c) (cl_key c) (fst (plan (cl_key c))) (snd (plan (cl_key c))) st)"
    have "of_nat (tally k a b (served L plan cs ?st)) \<le> rl_tokens B + of_int ((b - rl_ts B) * rate) / 1000"
      by (rule Cons.IH) (use Cons.prems c False in \<open>auto simp: Allow_other\<close>)
    then show ?thesis using False by (simp add: served_Cons Let_def del: served.simps)
  next
    case True
    let ?l = "level (cl_now c) rate cap (live (cl_redis c) (st (bucket_key k)))"
    have l: "?l = min (of_int cap) (rl_tokens B + of_int ((cl_now c - rl_ts B) * rate) / 1000)"
      using level_live [of rate cap d B "cl_now c"] pos Cons.prems(2,3) c by simp
    then have l': "?l \<le> rl_tokens B + of_int ((cl_now c - rl_ts B) * rate) / 1000" by simp
    have l0: "0 \<le> ?l" "?l \<le> of_int cap"
    proof -
      have "0 \<le> (of_int ((cl_now c - rl_ts B) * rate) :: rat)" using c(3) pos by (simp del: of_int_mult)
      then show "0 \<le> ?l" using l pos Cons.prems(3) by (simp add: bucket_ok_def)
    qed (rule level_le)
    let ?B = "\<lparr>rl_tokens = ?l - of_bool (1 \<le> ?l), rl_ts = cl_now c, rl_until = cl_redis c + ttl rate cap\<rparr>"
    let ?st = "st(bucket_key k \<mapsto> ?B)"
    have s: "served L plan (c # cs) st = (if 1 \<le> ?l then [c] else []) @ served L plan cs ?st"
      using True by (simp add: served_Cons Allow_limited [OF L] script_level del: served.simps)
    have ok: "bucket_ok d rate cap ?B" using l0 c(1) by (auto simp: bucket_ok_def)
    show ?thesis
    proof (cases "cl_now c \<le> b")
      case True
      have "of_nat (tally k a b (served L plan cs ?st)) \<le> rl_tokens ?B + of_int ((b - rl_ts ?B) * rate) / 1000"
        by (rule Cons.IH) (use Cons.prems c True ok in \<open>auto simp: on_time_Cons\<close>)
      moreover have "of_nat (tally k a b (if 1 \<le> ?l then [c] else [])) \<le> (of_bool (1 \<le> ?l) :: rat)" by simp
      ultimately have "of_nat (tally k a b (served L plan (c # cs) st)) \<le> ?l + of_int ((b - cl_now c) * rate) / 1000"
        unfolding s by (simp del: of_int_mult served.simps of_int_diff)
      also have "\<dots> \<le> rl_tokens B + of_int ((b - rl_ts B) * rate) / 1000"
        using l' by (simp add: algebra_simps) (simp add: diff_divide_distrib add_divide_distrib)
      finally show ?thesis .
    next
      case False
      have "tally k a b (served L plan (c # cs) st) = 0"
        using served_subset [of L plan "c # cs" st] False Cons.prems(1) by (fastforce simp: tally_def filter_empty_conv on_time_Cons)
      moreover have "0 \<le> (of_int ((b - rl_ts B) * rate) :: rat)" using Cons.prems(5) pos by (simp del: of_int_mult)
      ultimately show ?thesis using Cons.prems(3) by (simp add: bucket_ok_def)
    qed
  qed
qed

text \<open>However the calls of the keys are mixed, a key gets no more in a span of time than its burst and what
  its rate gives for the span.\<close>

lemma served_in_span:
  assumes L: "lm_redis L" "limits (fst (plan k)) (snd (plan k)) = Some (rate, cap)"
    and "on_time d cs" "\<forall>B. st (bucket_key k) = Some B \<longrightarrow> bucket_ok d rate cap B \<and> (\<forall>c\<in>set cs. rl_ts B \<le> cl_now c)" "a \<le> b"
  shows "of_nat (tally k a b (served L plan cs st)) \<le> (of_int cap + of_int ((b - a) * rate) / 1000 :: rat)"
  using assms(3-)
proof (induction cs arbitrary: st)
  case Nil
  have "0 \<le> (of_int ((b - a) * rate) :: rat)" using Nil limits_pos [OF L(2)] by (simp del: of_int_mult)
  then show ?case using limits_pos [OF L(2)] by simp
next
  case (Cons c cs)
  note pos = limits_pos [OF L(2)]
  have c: "cl_redis c = cl_now c + d" "on_time d cs" "\<forall>x\<in>set cs. cl_now c \<le> cl_now x" using Cons.prems by (auto simp: on_time_Cons)
  let ?r = "Allow L Answered (cl_redis c) (cl_now c) (cl_key c) (fst (plan (cl_key c))) (snd (plan (cl_key c))) st"
  show ?case
  proof (cases "cl_key c = k")
    case False
    have "of_nat (tally k a b (served L plan cs (snd ?r))) \<le> (of_int cap + of_int ((b - a) * rate) / 1000 :: rat)"
      by (rule Cons.IH) (use Cons.prems c False in \<open>auto simp: Allow_other\<close>)
    then show ?thesis using False by (simp add: served_Cons Let_def del: served.simps)
  next
    case True
    let ?l = "level (cl_now c) rate cap (live (cl_redis c) (st (bucket_key k)))"
    let ?B = "\<lparr>rl_tokens = ?l - of_bool (1 \<le> ?l), rl_ts = cl_now c, rl_until = cl_redis c + ttl rate cap\<rparr>"
    let ?st = "st(bucket_key k \<mapsto> ?B)"
    have "0 \<le> ?l"
    proof (rule level_nonneg)
      fix B assume "live (cl_redis c) (st (bucket_key k)) = Some B"
      then have "st (bucket_key k) = Some B" by (auto simp: live_def split: option.splits if_splits)
      then show "0 \<le> rl_tokens B" using Cons.prems(2) by (auto simp: bucket_ok_def)
    qed (use pos in simp_all)
    moreover have "?l \<le> of_int cap" by (rule level_le)
    ultimately have ok: "bucket_ok d rate cap ?B" using c(1) by (auto simp: bucket_ok_def)
    have s: "served L plan (c # cs) st = (if 1 \<le> ?l then [c] else []) @ served L plan cs ?st"
      using True by (simp add: served_Cons Allow_limited [OF L] script_level del: served.simps)
    show ?thesis
    proof (cases "a \<le> cl_now c \<and> cl_now c \<le> b")
      case True
      have "of_nat (tally k a b (served L plan cs ?st)) \<le> rl_tokens ?B + of_int ((b - rl_ts ?B) * rate) / 1000"
        by (rule served_from_bucket [where d = d and rate = rate and cap = cap]) (use L c True ok in auto)
      moreover have "of_nat (tally k a b (if 1 \<le> ?l then [c] else [])) \<le> (of_bool (1 \<le> ?l) :: rat)" by simp
      moreover have "of_int ((b - cl_now c) * rate) \<le> (of_int ((b - a) * rate) :: rat)"
        using True pos by (simp del: of_int_mult add: mult_right_mono)
      ultimately show ?thesis unfolding s using level_le [of "cl_now c" rate cap "live (cl_redis c) (st (bucket_key k))"]
        by (simp del: of_int_mult served.simps of_int_diff)
    next
      case False
      have "of_nat (tally k a b (served L plan cs ?st)) \<le> (of_int cap + of_int ((b - a) * rate) / 1000 :: rat)"
        by (rule Cons.IH) (use Cons.prems c ok in \<open>auto\<close>)
      then show ?thesis unfolding s using False by auto
    qed
  qed
qed

section \<open>What the limiter promises\<close>

text \<open>A key gets no more requests in any span of time than its burst and the share of the span
  at its rate, whatever the other keys do, across expiry of the key in Redis, as long as the callers keep Redis' time.\<close>

theorem rate_is_bounded:
  assumes "lm_redis L" "limits (fst (plan k)) (snd (plan k)) = Some (rate, cap)" "on_time d cs" "a \<le> b"
  shows "of_nat (tally k a b (served L plan cs Map.empty)) \<le> (of_int cap + of_int ((b - a) * rate) / 1000 :: rat)"
  by (rule served_in_span [where d = d]) (use assms in auto)

definition demo_limiter :: limiter where "demo_limiter = \<lparr>lm_redis = True, lm_failOpen = True\<rparr>"

definition poll :: "int \<Rightarrow> call list" where
  "poll step = map (\<lambda>i. \<lparr>cl_key = ''k'', cl_redis = 7 + step * int i, cl_now = step * int i\<rparr>) [0..<6]"

theorem rate_is_bounded_witness:
  "length (served demo_limiter (\<lambda>_. (2, 3)) (poll 100) Map.empty) = 4
    \<and> of_nat (tally ''k'' 0 500 (served demo_limiter (\<lambda>_. (2, 3)) (poll 100) Map.empty)) \<le> (4 :: rat)"
proof
  have "on_time 7 (poll 100)" by (simp add: on_time_def poll_def upt_rec)
  then have "of_nat (tally ''k'' 0 500 (served demo_limiter (\<lambda>_. (2, 3)) (poll 100) Map.empty)) \<le> (of_int 3 + of_int ((500 - 0) * 2) / 1000 :: rat)"
    by (intro rate_is_bounded) (simp_all add: demo_limiter_def limits_def)
  then show "of_nat (tally ''k'' 0 500 (served demo_limiter (\<lambda>_. (2, 3)) (poll 100) Map.empty)) \<le> (4 :: rat)" by simp
  show "length (served demo_limiter (\<lambda>_. (2, 3)) (poll 100) Map.empty) = 4"
    by (simp add: poll_def upt_rec served_Cons Allow_def limits_def demo_limiter_def script_level level_def live_def ttl_def
        Let_def del: served.simps(2))
qed

text \<open>A refused call costs nothing: whatever follows is as if it had not been made, so a client
  that keeps asking is served no later than one that waits.\<close>

theorem refused_call_costs_nothing:
  assumes L: "lm_redis L" "limits rps burst = Some (rate, cap)"
    and ok: "\<forall>B. st (bucket_key k) = Some B \<longrightarrow> bucket_ok d rate cap B \<and> rl_ts B \<le> t1" and t: "t1 \<le> t2"
    and no: "fst (Allow L Answered (t1 + d) t1 k rps burst st) = Limited"
  shows "Allow L Answered (t2 + d) t2 k rps burst (snd (Allow L Answered (t1 + d) t1 k rps burst st))
    = Allow L Answered (t2 + d) t2 k rps burst st"
proof -
  note pos = limits_pos [OF L(2)]
  let ?l = "level t1 rate cap (live (t1 + d) (st (bucket_key k)))"
  have l: "\<not> 1 \<le> ?l" using no by (simp add: Allow_limited [OF L] split: if_splits)
  then obtain B where B: "st (bucket_key k) = Some B" "bucket_ok d rate cap B" "rl_ts B \<le> t1"
    using ok pos by (cases "st (bucket_key k)") (auto simp: level_def)
  have e: "?l = min (of_int cap) (rl_tokens B + of_int ((t1 - rl_ts B) * rate) / 1000)"
    using level_live [of rate cap d B t1] pos B by simp
  let ?B = "\<lparr>rl_tokens = ?l, rl_ts = t1, rl_until = t1 + d + ttl rate cap\<rparr>"
  have l': "?l = rl_tokens B + of_int ((t1 - rl_ts B) * rate) / 1000" using l e pos by (simp add: min_def split: if_splits)
  have "0 \<le> ?l" by (rule level_nonneg) (use pos B in \<open>auto simp: live_def bucket_ok_def split: if_splits\<close>)
  then have okB: "bucket_ok d rate cap ?B" using l e by (simp add: bucket_ok_def)
  have "level t2 rate cap (live (t2 + d) (Some ?B)) = min (of_int cap) (?l + of_int ((t2 - t1) * rate) / 1000)"
    using level_live [of rate cap d ?B t2] pos okB t by simp
  also have "\<dots> = min (of_int cap) (rl_tokens B + of_int ((t2 - rl_ts B) * rate) / 1000)"
    unfolding l' by (simp add: algebra_simps) (simp add: diff_divide_distrib add_divide_distrib)
  also have "\<dots> = level t2 rate cap (live (t2 + d) (Some B))"
    using level_live [of rate cap d B t2] pos B t by simp
  finally show ?thesis using l B(1) by (simp add: Allow_limited [OF L] script_level)
qed

theorem refused_call_costs_nothing_witness:
  "Allow demo_limiter Answered 400 400 ''k'' 2 1 (snd (Allow demo_limiter Answered 300 300 ''k'' 2 1
      [''rl:k'' \<mapsto> \<lparr>rl_tokens = 0, rl_ts = 100, rl_until = 2100\<rparr>]))
    = Allow demo_limiter Answered 400 400 ''k'' 2 1 [''rl:k'' \<mapsto> \<lparr>rl_tokens = 0, rl_ts = 100, rl_until = 2100\<rparr>]"
  using refused_call_costs_nothing [of demo_limiter 2 1 2 1 "[''rl:k'' \<mapsto> \<lparr>rl_tokens = 0, rl_ts = 100, rl_until = 2100\<rparr>]" "''k''" 0 300 400]
  by (simp add: demo_limiter_def limits_def bucket_key_def bucket_ok_def ttl_def Allow_def script_level level_def live_def Let_def)

text \<open>Calls of one key at one instant of Redis, from two gateways in turn, one of them ahead.\<close>

definition in_turn :: "string \<Rightarrow> int \<Rightarrow> int \<Rightarrow> int \<Rightarrow> nat \<Rightarrow> call list" where
  "in_turn k redis t ahead n = concat (replicate n [\<lparr>cl_key = k, cl_redis = redis, cl_now = t + ahead\<rparr>,
     \<lparr>cl_key = k, cl_redis = redis, cl_now = t\<rparr>])"

lemma in_turn_served:
  assumes L: "lm_redis L" "limits (fst (plan k)) (snd (plan k)) = Some (rate, cap)" and c: "2 \<le> cap" and a: "2000 \<le> ahead * rate"
    and "\<forall>B. st (bucket_key k) = Some B \<longrightarrow> 0 \<le> rl_tokens B \<and> rl_ts B \<le> t"
  shows "served L plan (in_turn k redis t ahead n) st = in_turn k redis t ahead n"
  using assms(5)
proof (induction n arbitrary: st)
  case 0
  then show ?case by (simp add: in_turn_def)
next
  case (Suc n)
  note pos = limits_pos [OF L(2)]
  have "0 < ahead * rate" using a by simp
  then have ahead: "0 < ahead" using pos by (simp add: zero_less_mult_iff)
  let ?l = "level (t + ahead) rate cap (live redis (st (bucket_key k)))"
  have l: "2 \<le> ?l"
  proof (cases "live redis (st (bucket_key k))")
    case (Some B)
    then have B: "0 \<le> rl_tokens B" "rl_ts B \<le> t" using Suc.prems by (auto simp: live_def split: option.splits if_splits)
    have "ahead * rate \<le> max 0 (t + ahead - rl_ts B) * rate" using B pos by (intro mult_right_mono) auto
    then have "2000 \<le> (of_int (max 0 (t + ahead - rl_ts B) * rate) :: rat)" using a by (simp del: of_int_mult)
    with B c show ?thesis by (simp add: Some level_def del: of_int_mult)
  qed (use c in \<open>simp add: level_def\<close>)
  let ?B = "\<lparr>rl_tokens = ?l - 1, rl_ts = t + ahead, rl_until = redis + ttl rate cap\<rparr>"
  let ?m = "level t rate cap (Some ?B)"
  have alive: "live redis (Some ?B) = Some ?B" by (simp add: live_def ttl_def)
  have m: "1 \<le> ?m" using l c ahead by (simp add: level_def)
  let ?C = "\<lparr>rl_tokens = ?m - 1, rl_ts = t, rl_until = redis + ttl rate cap\<rparr>"
  have "served L plan (in_turn k redis t ahead n) (st(bucket_key k \<mapsto> ?C)) = in_turn k redis t ahead n"
    by (rule Suc.IH) (use m in simp)
  then show ?case using l m
    by (simp add: in_turn_def served_Cons Allow_limited [OF L] script_level alive del: served.simps(2))
qed

text \<open>Gateways whose clocks differ defeat the limiter. Each call writes its caller's clock into the
  bucket, also when that takes it back, so two gateways that are apart by the time of two tokens refill it in turn: any
  number of requests passes at one instant.\<close>

theorem clocks_apart_defeat_the_limit:
  assumes "lm_redis L" "limits (fst (plan k)) (snd (plan k)) = Some (rate, cap)" "2 \<le> cap" "2000 \<le> ahead * rate"
  shows "served L plan (in_turn k redis t ahead n) Map.empty = in_turn k redis t ahead n"
  by (rule in_turn_served) (use assms in auto)

theorem clocks_apart_defeat_the_limit_witness:
  "length (served demo_limiter (\<lambda>_. (10, 20)) (in_turn ''k'' 0 0 200 1000) Map.empty) = 2000"
  by (subst clocks_apart_defeat_the_limit [of _ _ _ 10 20])
    (simp_all add: demo_limiter_def limits_def in_turn_def length_concat sum_list_replicate)

end
