(* ===== verification/Catalogue.thy ===== *)
theory Catalogue
  imports Prelude Idempotency
begin

text \<open>
  The catalogue of routes, \<open>gateway/internal/routes/routes.go\<close>: every public route with the class of
  its rate limit, the scope it asks for and whether the \<open>Idempotency-Key\<close> header is mandatory, and the
  look-up by which the idempotency middleware finds that out.
\<close>

section \<open>Routes\<close>

record Route =
  rt_Method :: string
  rt_Path :: string
  rt_Upstream :: string
  rt_UpstreamPath :: string
  rt_Key :: string
  rt_Idempotent :: bool
  rt_RequiresKey :: bool
  rt_RateClass :: string
  rt_Timeout :: int
  rt_DeprecatedAt :: string
  rt_SunsetAt :: string
  rt_MaxBody :: nat
  rt_Local :: bool
  rt_AdminScope :: bool

abbreviation RateClassRead :: string where "RateClassRead \<equiv> ''read''"
abbreviation RateClassTx :: string where "RateClassTx \<equiv> ''tx''"

text \<open>An entry of the catalogue; what it does not name has its zero value.\<close>

definition catalogued :: "string \<Rightarrow> string \<Rightarrow> string \<Rightarrow> string \<Rightarrow> string \<Rightarrow> Route" where
  "catalogued m p u k c = \<lparr>rt_Method = m, rt_Path = p, rt_Upstream = u, rt_UpstreamPath = [], rt_Key = k,
     rt_Idempotent = False, rt_RequiresKey = False, rt_RateClass = c, rt_Timeout = 0, rt_DeprecatedAt = [],
     rt_SunsetAt = [], rt_MaxBody = 0, rt_Local = False, rt_AdminScope = False\<rparr>"

definition ika_routes :: "Route list" where
  "ika_routes =
    [catalogued ''POST'' ''/v1/dwallet/dkg/prepare'' ''ika'' ''ika.dkg.prepare'' RateClassTx,
     (catalogued ''POST'' ''/v1/dwallet/dkg/submit'' ''ika'' ''ika.dkg.submit'' RateClassTx)\<lparr>rt_Idempotent := True, rt_RequiresKey := True, rt_Timeout := 120\<rparr>,
     catalogued ''GET'' ''/v1/dwallet/presigns/{userPubkey}'' ''ika'' ''ika.presigns.list'' RateClassRead,
     (catalogued ''POST'' ''/v1/dwallet/create'' ''ika'' ''ika.dwallet.create'' RateClassTx)\<lparr>rt_Idempotent := True, rt_Timeout := 120\<rparr>,
     (catalogued ''POST'' ''/v1/dwallet/transfer-ownership'' ''ika'' ''ika.dwallet.transferOwnership'' RateClassTx)\<lparr>rt_Idempotent := True, rt_Timeout := 90\<rparr>,
     (catalogued ''POST'' ''/v1/dwallet/presign'' ''ika'' ''ika.dwallet.presign'' RateClassTx)\<lparr>rt_Idempotent := True, rt_Timeout := 90\<rparr>,
     (catalogued ''POST'' ''/v1/dwallet/sign'' ''ika'' ''ika.dwallet.sign'' RateClassTx)\<lparr>rt_Idempotent := True, rt_Timeout := 90\<rparr>,
     catalogued ''GET'' ''/v1/dwallet/addresses/{dwalletAddress}'' ''ika'' ''ika.dwallet.addresses'' RateClassRead,
     catalogued ''POST'' ''/v1/dwallet/prepare-message'' ''ika'' ''ika.dwallet.prepareMessage'' RateClassRead,
     (catalogued ''POST'' ''/v1/dwallet/sign/submit'' ''ika'' ''ika.sign.submit'' RateClassTx)\<lparr>rt_Idempotent := True, rt_RequiresKey := True, rt_Timeout := 90\<rparr>,
     (catalogued ''POST'' ''/v1/dwallet/presign/submit'' ''ika'' ''ika.presign.submit'' RateClassTx)\<lparr>rt_Idempotent := True, rt_RequiresKey := True, rt_Timeout := 90\<rparr>,
     (catalogued ''POST'' ''/v1/dwallet/future-sign/submit'' ''ika'' ''ika.future-sign.submit'' RateClassTx)\<lparr>rt_Idempotent := True, rt_RequiresKey := True, rt_Timeout := 120\<rparr>,
     (catalogued ''POST'' ''/v1/dwallet/future-sign/complete/submit'' ''ika'' ''ika.future-sign.complete.submit'' RateClassTx)\<lparr>rt_Idempotent := True, rt_RequiresKey := True, rt_Timeout := 120\<rparr>,
     (catalogued ''POST'' ''/v1/dwallet/re-encrypt-share/submit'' ''ika'' ''ika.re-encrypt-share.submit'' RateClassTx)\<lparr>rt_Idempotent := True\<rparr>,
     (catalogued ''POST'' ''/v1/dwallet/make-share-public/submit'' ''ika'' ''ika.make-share-public.submit'' RateClassTx)\<lparr>rt_Idempotent := True\<rparr>,
     (catalogued ''POST'' ''/v1/oidc/nonce'' ''ika'' ''ika.oidc.nonce'' RateClassRead)\<lparr>rt_MaxBody := 1024\<rparr>,
     (catalogued ''POST'' ''/v1/oidc/validate'' ''ika'' ''ika.oidc.validate'' RateClassRead)\<lparr>rt_Idempotent := True, rt_MaxBody := 8192\<rparr>]"

definition encrypt_routes :: "Route list" where
  "encrypt_routes =
    [(catalogued ''POST'' ''/v1/private-tx/submit'' ''encrypt'' ''encrypt.private-tx.submit'' RateClassTx)\<lparr>rt_Idempotent := True\<rparr>,
     catalogued ''GET'' ''/v1/private-tx/status/{signature}'' ''encrypt'' ''encrypt.private-tx.status'' RateClassRead,
     (catalogued ''POST'' ''/v1/ciphertext/create'' ''encrypt'' ''encrypt.ciphertext.create'' RateClassTx)\<lparr>rt_Idempotent := True\<rparr>,
     catalogued ''POST'' ''/v1/ciphertext/read'' ''encrypt'' ''encrypt.ciphertext.read'' RateClassRead,
     catalogued ''GET'' ''/v1/ciphertext/account/{address}'' ''encrypt'' ''encrypt.ciphertext.account.get'' RateClassRead,
     (catalogued ''POST'' ''/v1/graph/execute/prepare'' ''encrypt'' ''encrypt.graph.execute.prepare'' RateClassTx)\<lparr>rt_Idempotent := True\<rparr>,
     (catalogued ''POST'' ''/v1/graph/register/prepare'' ''encrypt'' ''encrypt.graph.register.prepare'' RateClassTx)\<lparr>rt_Idempotent := True\<rparr>,
     (catalogued ''POST'' ''/v1/graph/execute-registered/prepare'' ''encrypt'' ''encrypt.graph.execute-registered.prepare'' RateClassTx)\<lparr>rt_Idempotent := True\<rparr>,
     (catalogued ''POST'' ''/v1/graph/commit/prepare'' ''encrypt'' ''encrypt.graph.commit.prepare'' RateClassTx)\<lparr>rt_Idempotent := True\<rparr>,
     (catalogued ''POST'' ''/v1/graph/submit'' ''encrypt'' ''encrypt.graph.submit'' RateClassTx)\<lparr>rt_Idempotent := True\<rparr>,
     catalogued ''GET'' ''/v1/graph/status/{signature}'' ''encrypt'' ''encrypt.graph.status'' RateClassRead,
     catalogued ''GET'' ''/v1/graph/operations'' ''encrypt'' ''encrypt.graph.operations.list'' RateClassRead,
     (catalogued ''POST'' ''/v1/graph/operations/register-bytes'' ''encrypt'' ''encrypt.graph.operations.register-bytes'' RateClassTx)\<lparr>rt_Idempotent := True\<rparr>,
     catalogued ''GET'' ''/v1/dsl/types'' ''encrypt'' ''encrypt.dsl.types'' RateClassRead,
     (catalogued ''POST'' ''/v1/dsl/op/prepare'' ''encrypt'' ''encrypt.dsl.op.prepare'' RateClassTx)\<lparr>rt_Idempotent := True\<rparr>,
     (catalogued ''POST'' ''/v1/decrypt/request/prepare'' ''encrypt'' ''encrypt.decrypt.request.prepare'' RateClassTx)\<lparr>rt_Idempotent := True\<rparr>,
     catalogued ''GET'' ''/v1/decrypt/poll/{account}'' ''encrypt'' ''encrypt.decrypt.poll'' RateClassRead,
     catalogued ''GET'' ''/v1/nek/current'' ''encrypt'' ''encrypt.nek.current'' RateClassRead,
     (catalogued ''POST'' ''/v1/events/emit/prepare'' ''encrypt'' ''encrypt.events.emit.prepare'' RateClassTx)\<lparr>rt_Idempotent := True\<rparr>,
     catalogued ''GET'' ''/v1/events/by-signature/{signature}'' ''encrypt'' ''encrypt.events.by-signature'' RateClassRead,
     (catalogued ''POST'' ''/v1/wallet/balance/init'' ''encrypt'' ''encrypt.wallet.balance.init'' RateClassTx)\<lparr>rt_Idempotent := True\<rparr>,
     catalogued ''POST'' ''/v1/authority/add/prepare'' ''encrypt'' ''encrypt.authority.add.prepare'' RateClassTx,
     catalogued ''POST'' ''/v1/authority/remove/prepare'' ''encrypt'' ''encrypt.authority.remove.prepare'' RateClassTx,
     catalogued ''POST'' ''/v1/authority/register-nek/prepare'' ''encrypt'' ''encrypt.authority.register-nek.prepare'' RateClassTx,
     catalogued ''POST'' ''/v1/fees/deposit/create/prepare'' ''encrypt'' ''encrypt.fees.deposit.create.prepare'' RateClassTx,
     catalogued ''POST'' ''/v1/fees/deposit/top-up/prepare'' ''encrypt'' ''encrypt.fees.deposit.top-up.prepare'' RateClassTx,
     catalogued ''POST'' ''/v1/fees/deposit/withdraw/prepare'' ''encrypt'' ''encrypt.fees.deposit.withdraw.prepare'' RateClassTx,
     catalogued ''POST'' ''/v1/fees/deposit/request-withdraw/prepare'' ''encrypt'' ''encrypt.fees.deposit.request-withdraw.prepare'' RateClassTx,
     catalogued ''POST'' ''/v1/fees/deposit/reimburse/prepare'' ''encrypt'' ''encrypt.fees.deposit.reimburse.prepare'' RateClassTx,
     catalogued ''POST'' ''/v1/fees/config/update/prepare'' ''encrypt'' ''encrypt.fees.config.update.prepare'' RateClassTx,
     catalogued ''POST'' ''/v1/ownership/transfer/prepare'' ''encrypt'' ''encrypt.ownership.transfer.prepare'' RateClassTx,
     catalogued ''POST'' ''/v1/ownership/copy/prepare'' ''encrypt'' ''encrypt.ownership.copy.prepare'' RateClassTx,
     catalogued ''POST'' ''/v1/ownership/make-public/prepare'' ''encrypt'' ''encrypt.ownership.make-public.prepare'' RateClassTx]"

definition policy_routes :: "Route list" where
  "policy_routes =
    [(catalogued ''GET'' ''/v1/policy/{dwallet}'' ''local'' ''policy.engine.read'' RateClassRead)\<lparr>rt_Local := True\<rparr>,
     (catalogued ''POST'' ''/v1/policy/init/challenge'' ''local'' ''policy.engine.init.challenge'' RateClassRead)\<lparr>rt_Local := True, rt_AdminScope := True\<rparr>,
     (catalogued ''POST'' ''/v1/policy/init/submit'' ''local'' ''policy.engine.init.submit'' RateClassTx)\<lparr>rt_Idempotent := True, rt_RequiresKey := True, rt_Local := True, rt_AdminScope := True, rt_Timeout := 60\<rparr>,
     (catalogued ''POST'' ''/v1/policy/rules/add/challenge'' ''local'' ''policy.engine.rules.add.challenge'' RateClassRead)\<lparr>rt_Local := True, rt_AdminScope := True\<rparr>,
     (catalogued ''POST'' ''/v1/policy/rules/add/submit'' ''local'' ''policy.engine.rules.add.submit'' RateClassTx)\<lparr>rt_Idempotent := True, rt_RequiresKey := True, rt_Local := True, rt_AdminScope := True\<rparr>,
     (catalogued ''POST'' ''/v1/policy/rules/{ruleIndex}/items/add/challenge'' ''local'' ''policy.engine.rules.items.add.challenge'' RateClassRead)\<lparr>rt_Local := True, rt_AdminScope := True\<rparr>,
     (catalogued ''POST'' ''/v1/policy/rules/{ruleIndex}/items/add/submit'' ''local'' ''policy.engine.rules.items.add.submit'' RateClassTx)\<lparr>rt_Idempotent := True, rt_RequiresKey := True, rt_Local := True, rt_AdminScope := True\<rparr>,
     (catalogued ''POST'' ''/v1/policy/rules/{ruleIndex}/remove/challenge'' ''local'' ''policy.engine.rules.remove.challenge'' RateClassRead)\<lparr>rt_Local := True, rt_AdminScope := True\<rparr>,
     (catalogued ''POST'' ''/v1/policy/rules/{ruleIndex}/remove/submit'' ''local'' ''policy.engine.rules.remove.submit'' RateClassTx)\<lparr>rt_Idempotent := True, rt_RequiresKey := True, rt_Local := True, rt_AdminScope := True\<rparr>,
     (catalogued ''POST'' ''/v1/policy/request-signature/challenge'' ''local'' ''policy.engine.request-signature.challenge'' RateClassRead)\<lparr>rt_Local := True\<rparr>,
     (catalogued ''POST'' ''/v1/policy/request-signature/submit'' ''local'' ''policy.engine.request-signature.submit'' RateClassTx)\<lparr>rt_Idempotent := True, rt_RequiresKey := True, rt_Local := True, rt_Timeout := 60\<rparr>,
     (catalogued ''POST'' ''/v1/policy/recover-as-primary/challenge'' ''local'' ''policy.engine.recover-as-primary.challenge'' RateClassRead)\<lparr>rt_Local := True\<rparr>,
     (catalogued ''POST'' ''/v1/policy/recover-as-primary/submit'' ''local'' ''policy.engine.recover-as-primary.submit'' RateClassTx)\<lparr>rt_Idempotent := True, rt_RequiresKey := True, rt_Local := True, rt_Timeout := 60\<rparr>,
     (catalogued ''POST'' ''/v1/policy/quorum/session/open/challenge'' ''local'' ''policy.engine.quorum.open.challenge'' RateClassRead)\<lparr>rt_Local := True\<rparr>,
     (catalogued ''POST'' ''/v1/policy/quorum/session/open/submit'' ''local'' ''policy.engine.quorum.open.submit'' RateClassTx)\<lparr>rt_Idempotent := True, rt_RequiresKey := True, rt_Local := True, rt_Timeout := 60\<rparr>,
     (catalogued ''POST'' ''/v1/policy/quorum/session/contribute/challenge'' ''local'' ''policy.engine.quorum.contribute.challenge'' RateClassRead)\<lparr>rt_Local := True\<rparr>,
     (catalogued ''POST'' ''/v1/policy/quorum/session/contribute/submit'' ''local'' ''policy.engine.quorum.contribute.submit'' RateClassTx)\<lparr>rt_Idempotent := True, rt_RequiresKey := True, rt_Local := True, rt_Timeout := 60\<rparr>,
     (catalogued ''POST'' ''/v1/policy/quorum/session/finalize'' ''local'' ''policy.engine.quorum.finalize'' RateClassTx)\<lparr>rt_Idempotent := True, rt_RequiresKey := True, rt_Local := True, rt_Timeout := 120\<rparr>,
     (catalogued ''POST'' ''/v1/policy/quorum/session/close'' ''local'' ''policy.engine.quorum.close'' RateClassTx)\<lparr>rt_Idempotent := True, rt_RequiresKey := True, rt_Local := True\<rparr>,
     (catalogued ''POST'' ''/v1/policy/passkey/session/open/challenge'' ''local'' ''policy.engine.passkey.open.challenge'' RateClassRead)\<lparr>rt_Local := True, rt_MaxBody := 4096\<rparr>,
     (catalogued ''POST'' ''/v1/policy/passkey/session/open/submit'' ''local'' ''policy.engine.passkey.open.submit'' RateClassTx)\<lparr>rt_Idempotent := True, rt_RequiresKey := True, rt_Local := True, rt_Timeout := 60, rt_MaxBody := 8192\<rparr>,
     (catalogued ''POST'' ''/v1/policy/passkey/use/challenge'' ''local'' ''policy.engine.passkey.use.challenge'' RateClassRead)\<lparr>rt_Local := True\<rparr>,
     (catalogued ''POST'' ''/v1/policy/passkey/use/submit'' ''local'' ''policy.engine.passkey.use.submit'' RateClassTx)\<lparr>rt_Idempotent := True, rt_RequiresKey := True, rt_Local := True, rt_Timeout := 60\<rparr>,
     (catalogued ''POST'' ''/v1/policy/passkey/session/close'' ''local'' ''policy.engine.passkey.close'' RateClassTx)\<lparr>rt_Idempotent := True, rt_RequiresKey := True, rt_Local := True\<rparr>]"

definition session_routes :: "Route list" where
  "session_routes =
    [(catalogued ''POST'' ''/v1/policy/session/open/challenge'' ''local'' ''policy.engine.session.open.challenge'' RateClassRead)\<lparr>rt_Local := True, rt_MaxBody := 4096\<rparr>,
     (catalogued ''POST'' ''/v1/policy/session/open/submit'' ''local'' ''policy.engine.session.open.submit'' RateClassTx)\<lparr>rt_Idempotent := True, rt_RequiresKey := True, rt_Local := True, rt_Timeout := 60, rt_MaxBody := 8192\<rparr>,
     (catalogued ''POST'' ''/v1/policy/session/revoke/challenge'' ''local'' ''policy.engine.session.revoke.challenge'' RateClassRead)\<lparr>rt_Local := True\<rparr>,
     (catalogued ''POST'' ''/v1/policy/session/revoke/submit'' ''local'' ''policy.engine.session.revoke.submit'' RateClassTx)\<lparr>rt_Idempotent := True, rt_RequiresKey := True, rt_Local := True, rt_Timeout := 60\<rparr>,
     (catalogued ''POST'' ''/v1/policy/session/close/challenge'' ''local'' ''policy.engine.session.close.challenge'' RateClassRead)\<lparr>rt_Local := True\<rparr>,
     (catalogued ''POST'' ''/v1/policy/session/close/submit'' ''local'' ''policy.engine.session.close.submit'' RateClassTx)\<lparr>rt_Idempotent := True, rt_RequiresKey := True, rt_Local := True, rt_Timeout := 60\<rparr>,
     (catalogued ''POST'' ''/v1/policy/session/close-expired'' ''local'' ''policy.engine.session.close-expired'' RateClassTx)\<lparr>rt_Idempotent := True, rt_RequiresKey := True, rt_Local := True, rt_Timeout := 30\<rparr>,
     (catalogued ''POST'' ''/v1/policy/session/destinations/add/challenge'' ''local'' ''policy.engine.session.destinations.add.challenge'' RateClassRead)\<lparr>rt_Local := True\<rparr>,
     (catalogued ''POST'' ''/v1/policy/session/destinations/add/submit'' ''local'' ''policy.engine.session.destinations.add.submit'' RateClassTx)\<lparr>rt_Idempotent := True, rt_RequiresKey := True, rt_Local := True\<rparr>,
     (catalogued ''POST'' ''/v1/policy/session/destinations/remove/challenge'' ''local'' ''policy.engine.session.destinations.remove.challenge'' RateClassRead)\<lparr>rt_Local := True\<rparr>,
     (catalogued ''POST'' ''/v1/policy/session/destinations/remove/submit'' ''local'' ''policy.engine.session.destinations.remove.submit'' RateClassTx)\<lparr>rt_Idempotent := True, rt_RequiresKey := True, rt_Local := True\<rparr>,
     (catalogued ''POST'' ''/v1/policy/session/use/build'' ''local'' ''policy.engine.session.use.build'' RateClassRead)\<lparr>rt_Local := True, rt_MaxBody := 8192\<rparr>,
     (catalogued ''GET'' ''/v1/policy/session/state/{engine}/{sessionIndex}'' ''local'' ''policy.engine.session.read'' RateClassRead)\<lparr>rt_Local := True\<rparr>]"

definition trigger_routes :: "Route list" where
  "trigger_routes =
    [(catalogued ''POST'' ''/v1/oracle/triggers'' ''local'' ''oracle.triggers.arm'' RateClassTx)\<lparr>rt_Idempotent := True, rt_RequiresKey := True, rt_Local := True\<rparr>,
     (catalogued ''GET'' ''/v1/oracle/triggers'' ''local'' ''oracle.triggers.list'' RateClassRead)\<lparr>rt_Local := True\<rparr>,
     (catalogued ''GET'' ''/v1/oracle/triggers/{id}'' ''local'' ''oracle.triggers.get'' RateClassRead)\<lparr>rt_Local := True\<rparr>,
     (catalogued ''DELETE'' ''/v1/oracle/triggers/{id}'' ''local'' ''oracle.triggers.cancel'' RateClassTx)\<lparr>rt_Idempotent := True, rt_RequiresKey := True, rt_Local := True\<rparr>]"

definition util_routes :: "Route list" where
  "util_routes =
    [(catalogued ''GET'' ''/v1/util/format-amount'' ''local'' ''util.format-amount'' RateClassRead)\<lparr>rt_Local := True\<rparr>]"

definition intent_routes :: "Route list" where
  "intent_routes =
    [(catalogued ''POST'' ''/v1/intents/quote'' ''intents'' ''intent.quote'' RateClassRead)\<lparr>rt_UpstreamPath := ''/quote'', rt_MaxBody := 16384\<rparr>,
     (catalogued ''GET'' ''/v1/intents/chains'' ''intents'' ''intent.chains'' RateClassRead)\<lparr>rt_UpstreamPath := ''/chains''\<rparr>,
     (catalogued ''GET'' ''/v1/intents/tokens'' ''intents'' ''intent.tokens'' RateClassRead)\<lparr>rt_UpstreamPath := ''/tokens''\<rparr>,
     (catalogued ''POST'' ''/v1/intents/simulate'' ''local'' ''intent.simulate'' RateClassRead)\<lparr>rt_Local := True, rt_MaxBody := 32768\<rparr>,
     (catalogued ''POST'' ''/v1/intents/swap/prepare'' ''local'' ''intent.swap.prepare'' RateClassTx)\<lparr>rt_Idempotent := True, rt_RequiresKey := True, rt_Local := True, rt_Timeout := 30, rt_MaxBody := 32768\<rparr>,
     (catalogued ''POST'' ''/v1/intents/swap/challenge'' ''local'' ''intent.swap.challenge'' RateClassRead)\<lparr>rt_Local := True, rt_MaxBody := 4096\<rparr>,
     (catalogued ''POST'' ''/v1/intents/swap/submit'' ''local'' ''intent.swap.submit'' RateClassTx)\<lparr>rt_Idempotent := True, rt_RequiresKey := True, rt_Local := True, rt_Timeout := 120, rt_MaxBody := 16384\<rparr>,
     (catalogued ''GET'' ''/v1/intents/status/{intentId}'' ''local'' ''intent.status'' RateClassRead)\<lparr>rt_Local := True\<rparr>,
     (catalogued ''GET'' ''/v1/intents/capabilities'' ''local'' ''intent.capabilities'' RateClassRead)\<lparr>rt_Local := True\<rparr>]"

definition All :: "Route list" where
  "All = ika_routes @ encrypt_routes @ policy_routes @ session_routes @ trigger_routes @ util_routes @ intent_routes"

definition EffectiveRateClass :: "Route \<Rightarrow> string" where
  "EffectiveRateClass r = (if rt_RateClass r = [] then RateClassTx else rt_RateClass r)"

definition RequiredScope :: "Route \<Rightarrow> string" where
  "RequiredScope r =
     (if rt_AdminScope r then ''admin''
      else if EffectiveRateClass r = RateClassRead then ''read'' else ''write'')"

definition TargetPath :: "Route \<Rightarrow> string" where
  "TargetPath r = (if rt_UpstreamPath r \<noteq> [] then rt_UpstreamPath r else rt_Path r)"

section \<open>The mandatory header\<close>

fun splits :: "char \<Rightarrow> string \<Rightarrow> string list" where
  "splits c [] = [[]]"
| "splits c (x # xs) = (if x = c then [] # splits c xs else (case splits c xs of [] \<Rightarrow> [[x]] | s # ss \<Rightarrow> (x # s) # ss))"

definition trim_slashes :: "string \<Rightarrow> string" where
  "trim_slashes p = rev (dropWhile ((=) (CHR ''/'')) (rev (dropWhile ((=) (CHR ''/'')) p)))"

definition splitPath :: "string \<Rightarrow> string list" where
  "splitPath p = (let p = trim_slashes p in if p = [] then [] else splits (CHR ''/'') p)"

definition placeholder :: "string \<Rightarrow> bool" where
  "placeholder s \<longleftrightarrow> prefix ''{'' s \<and> suffix ''}'' s"

definition pathMatchesPattern :: "string \<Rightarrow> string list \<Rightarrow> bool" where
  "pathMatchesPattern pattern reqSegs =
     (let patSegs = splitPath pattern in
      length patSegs = length reqSegs \<and> list_all2 (\<lambda>p s. placeholder p \<or> p = s) patSegs reqSegs)"

definition RequiresIdempotencyKeyForRequest :: "string \<Rightarrow> string \<Rightarrow> bool" where
  "RequiresIdempotencyKeyForRequest method path =
     (let reqSegs = splitPath path in
      list_ex (\<lambda>rt. rt_RequiresKey rt \<and> rt_Method rt = method \<and> pathMatchesPattern (rt_Path rt) reqSegs) All)"

section \<open>Paths of a route\<close>

text \<open>A path of a route: its placeholders filled with segments.\<close>

definition segment :: "string \<Rightarrow> bool" where
  "segment s \<longleftrightarrow> s \<noteq> [] \<and> CHR ''/'' \<notin> set s"

definition fills :: "Route \<Rightarrow> string list \<Rightarrow> bool" where
  "fills rt segs \<longleftrightarrow> list_all2 (\<lambda>p s. if placeholder p then segment s else p = s) (splitPath (rt_Path rt)) segs"

definition path_of :: "string list \<Rightarrow> string" where
  "path_of segs = concat (map (\<lambda>s. CHR ''/'' # s) segs)"

lemmas catalogue_defs = All_def ika_routes_def encrypt_routes_def policy_routes_def session_routes_def
  trigger_routes_def util_routes_def intent_routes_def catalogued_def

lemma splits_segment: "CHR ''/'' \<notin> set s \<Longrightarrow> splits (CHR ''/'') s = [s]"
  by (induction s) auto

lemma splits_append: "CHR ''/'' \<notin> set s \<Longrightarrow> splits (CHR ''/'') (s @ CHR ''/'' # t) = s # splits (CHR ''/'') t"
  by (induction s) auto

lemma splits_path: "segs \<noteq> [] \<Longrightarrow> list_all segment segs \<Longrightarrow> splits (CHR ''/'') (tl (path_of segs)) = segs"
proof (induction segs rule: induct_list012)
  case (3 s t segs)
  have "tl (path_of (s # t # segs)) = s @ CHR ''/'' # tl (path_of (t # segs))" by (simp add: path_of_def)
  with 3 show ?case by (simp add: splits_append segment_def)
qed (simp_all add: path_of_def splits_segment segment_def)

lemma path_of_trim:
  assumes "segs \<noteq> []" "list_all segment segs"
  shows "trim_slashes (path_of segs) = tl (path_of segs)" "tl (path_of segs) \<noteq> []"
proof -
  obtain s ss where s: "segs = s # ss" using assms(1) by (cases segs) auto
  obtain ts t where t: "segs = ts @ [t]" using assms(1) by (metis rev_exhaust)
  have st: "segment s" "segment t" using assms(2) s by simp (use assms(2) t in simp)
  have d: "dropWhile ((=) (CHR ''/'')) (path_of segs) = tl (path_of segs)"
    using st(1) by (cases s) (auto simp: s path_of_def segment_def)
  have "rev (tl (path_of segs)) = rev t @ rev (tl (path_of ts @ [CHR ''/'']))"
    by (cases ts) (auto simp: t path_of_def)
  moreover have "rev t \<noteq> [] \<and> hd (rev t) \<noteq> CHR ''/''" using st(2) by (metis segment_def hd_in_set rev_is_Nil_conv set_rev)
  ultimately have "dropWhile ((=) (CHR ''/'')) (rev (tl (path_of segs))) = rev (tl (path_of segs))"
    by (cases "rev t") auto
  with d show "trim_slashes (path_of segs) = tl (path_of segs)" by (simp add: trim_slashes_def)
  show "tl (path_of segs) \<noteq> []" using st(1) by (simp add: s path_of_def segment_def)
qed

lemma splitPath_path_of: "segs \<noteq> [] \<Longrightarrow> list_all segment segs \<Longrightarrow> splitPath (path_of segs) = segs"
  by (simp add: splitPath_def Let_def path_of_trim splits_path)

section \<open>The catalogue is consistent\<close>

text \<open>The header can only be enforced where the middleware applies and is wired: on a write, on an idempotent route.\<close>

definition key_enforced :: "Route \<Rightarrow> bool" where
  "key_enforced r \<longleftrightarrow> rt_RequiresKey r \<longrightarrow> rt_Idempotent r \<and> (rt_Method r = ''POST'' \<or> rt_Method r = ''DELETE'')"

definition class_known :: "Route \<Rightarrow> bool" where
  "class_known r \<longleftrightarrow> rt_RateClass r = RateClassRead \<or> rt_RateClass r = RateClassTx"

definition upstream_known :: "Route \<Rightarrow> bool" where
  "upstream_known r \<longleftrightarrow> (if rt_Local r then rt_Upstream r = ''local''
     else (rt_Upstream r = ''ika'' \<or> rt_Upstream r = ''encrypt'' \<or> rt_Upstream r = ''intents'') \<and> \<not> rt_AdminScope r)"

lemma All_key_enforced: "list_all key_enforced All"
  by (simp add: catalogue_defs key_enforced_def)

lemma All_class_known: "list_all class_known All"
  by (simp add: catalogue_defs class_known_def)

lemma All_upstream_known: "list_all upstream_known All"
  by (simp add: catalogue_defs upstream_known_def)

lemma required_route_is_found:
  "rt \<in> set All \<Longrightarrow> rt_RequiresKey rt \<Longrightarrow> pathMatchesPattern (rt_Path rt) (splitPath path) \<Longrightarrow>
     RequiresIdempotencyKeyForRequest (rt_Method rt) path"
  by (auto simp: RequiresIdempotencyKeyForRequest_def Let_def list_ex_iff)

lemma required_route_is_written:
  "rt \<in> set All \<Longrightarrow> rt_RequiresKey rt \<Longrightarrow> rt_Idempotent rt \<and> (rt_Method rt = ''POST'' \<or> rt_Method rt = ''DELETE'')"
  using All_key_enforced by (auto simp: list_all_iff key_enforced_def)

lemma fills_matches: "segs \<noteq> [] \<Longrightarrow> list_all segment segs \<Longrightarrow> fills rt segs \<Longrightarrow> pathMatchesPattern (rt_Path rt) (splitPath (path_of segs))"
  by (auto simp: pathMatchesPattern_def splitPath_path_of fills_def Let_def dest: list_all2_lengthD elim!: list_all2_mono split: if_splits)

end
