(* ===== verification/Billing.thy ===== *)
theory Billing
  imports Prelude "HOL-Library.Product_Lexorder"
begin

text \<open>
  Token billing: \<open>gateway/internal/store/quotamath.go\<close> (the allocation of a charge and the
  rollover of a period) and \<open>consume.go\<close> (charge, refund, ledger). The tables of the database
  are a record of lists and maps; a transaction is a function from the tables to the tables and
  a result, and an error leaves the tables alone (the deferred rollback). \<open>int64\<close> arithmetic of
  the Go code wraps; the database's own additions are on integers.
\<close>

section \<open>Calendar time\<close>

text \<open>A UTC \<open>time.Time\<close> as its date and the nanosecond of its day; \<open>AddDate\<close> adds to the date
  and normalises, a day past the end of the month running into the next one.\<close>

record time =
  year :: int
  month :: int
  day :: int
  nanos :: int

definition leap :: "int \<Rightarrow> bool" where
  "leap y \<longleftrightarrow> y mod 4 = 0 \<and> (y mod 100 \<noteq> 0 \<or> y mod 400 = 0)"

definition days_in :: "int \<Rightarrow> int \<Rightarrow> int" where
  "days_in y m =
     (if m = 2 then (if leap y then 29 else 28) else if m \<in> {4, 6, 9, 11} then 30 else 31)"

definition valid_time :: "time \<Rightarrow> bool" where
  "valid_time t \<longleftrightarrow> 1 \<le> month t \<and> month t \<le> 12 \<and> 1 \<le> day t \<and> day t \<le> days_in (year t) (month t)"

definition time_key :: "time \<Rightarrow> int \<times> int \<times> int \<times> int" where
  "time_key t = (year t, month t, day t, nanos t)"

definition before :: "time \<Rightarrow> time \<Rightarrow> bool" where
  "before a b \<longleftrightarrow> time_key a < time_key b"

definition norm_day :: "time \<Rightarrow> time" where
  "norm_day t =
     (if day t \<le> days_in (year t) (month t) then t
      else if month t = 12 then t\<lparr>year := year t + 1, month := 1, day := day t - days_in (year t) 12\<rparr>
      else t\<lparr>month := month t + 1, day := day t - days_in (year t) (month t)\<rparr>)"

definition nextPeriodEnd :: "time \<Rightarrow> time" where
  "nextPeriodEnd t =
     norm_day (if month t = 12 then t\<lparr>year := year t + 1, month := 1\<rparr> else t\<lparr>month := month t + 1\<rparr>)"

definition annualPeriodEnd :: "time \<Rightarrow> time" where
  "annualPeriodEnd t = norm_day (t\<lparr>year := year t + 1\<rparr>)"

definition period_step :: "bool \<Rightarrow> time \<Rightarrow> time" where
  "period_step annual = (if annual then annualPeriodEnd else nextPeriodEnd)"

lemma days_in_bounds: "28 \<le> days_in y m" "days_in y m \<le> 31"
  by (auto simp: days_in_def)

lemma norm_day_valid:
  "1 \<le> month t \<Longrightarrow> month t \<le> 12 \<Longrightarrow> 1 \<le> day t \<Longrightarrow> day t \<le> 31 \<Longrightarrow> valid_time (norm_day t)"
  using days_in_bounds [of "year t" "month t"] days_in_bounds [of "year t" "month t + 1"]
    days_in_bounds [of "year t + 1" 1]
  by (auto simp: norm_day_def valid_time_def)

lemma valid_day: "valid_time t \<Longrightarrow> 1 \<le> day t \<and> day t \<le> 31"
  using days_in_bounds(2) [of "year t" "month t"] by (simp add: valid_time_def)

lemma period_step_valid:
  assumes "valid_time t"
  shows "valid_time (period_step annual t)"
proof -
  have d: "1 \<le> month t" "month t \<le> 12" "1 \<le> day t" "day t \<le> 31"
    using assms valid_day [OF assms] by (auto simp: valid_time_def)
  have "valid_time (norm_day (t\<lparr>year := year t + 1\<rparr>))"
    by (rule norm_day_valid) (use d in simp_all)
  moreover have "valid_time (norm_day (t\<lparr>year := year t + 1, month := 1\<rparr>))"
    by (rule norm_day_valid) (use d in simp_all)
  moreover have "valid_time (norm_day (t\<lparr>month := month t + 1\<rparr>))" if "month t \<noteq> 12"
    by (rule norm_day_valid) (use d that in simp_all)
  ultimately show ?thesis by (simp add: period_step_def nextPeriodEnd_def annualPeriodEnd_def)
qed

text \<open>Months since year zero: a step moves on by at least one of them.\<close>

definition month_no :: "time \<Rightarrow> int" where
  "month_no t = year t * 12 + month t"

lemma period_step_month: "month_no t < month_no (period_step annual t)"
  by (auto simp: period_step_def nextPeriodEnd_def annualPeriodEnd_def norm_day_def month_no_def)

lemma before_month: "valid_time a \<Longrightarrow> valid_time b \<Longrightarrow> month_no a < month_no b \<Longrightarrow> before a b"
  by (auto simp: before_def time_key_def month_no_def valid_time_def)

lemma not_before_month: "valid_time a \<Longrightarrow> valid_time b \<Longrightarrow> \<not> before a b \<Longrightarrow> month_no b \<le> month_no a"
  using before_month [of a b] by force

text \<open>The loop of \<open>rollPeriod\<close>. The fuel is the number of months still to go; more is never
  needed, so the result on valid times does not depend on it.\<close>

fun roll_loop :: "nat \<Rightarrow> bool \<Rightarrow> time \<Rightarrow> time \<Rightarrow> time \<Rightarrow> (time \<times> time) option" where
  "roll_loop 0 annual now start end = (if before now end then Some (start, end) else None)"
| "roll_loop (Suc n) annual now start end =
     (if before now end then Some (start, end) else roll_loop n annual now end (period_step annual end))"

definition rollPeriod :: "time \<Rightarrow> bool \<Rightarrow> time \<Rightarrow> (time \<times> time) option" where
  "rollPeriod expiredEnd annual now =
     roll_loop (nat (month_no now - month_no expiredEnd + 1)) annual now expiredEnd (period_step annual expiredEnd)"

lemma roll_loop_spec:
  assumes "valid_time now" "valid_time start" "\<not> before now start" "end = period_step annual start"
    and "month_no now - month_no end < int n"
  shows "\<exists>s. roll_loop n annual now start end = Some (s, period_step annual s) \<and> valid_time s
    \<and> \<not> before now s \<and> before now (period_step annual s)"
  using assms
proof (induction n arbitrary: start "end")
  case 0
  then have "before now end" using period_step_valid [of start annual] by (intro before_month) auto
  with 0 show ?case by auto
next
  case (Suc n)
  show ?case
  proof (cases "before now end")
    case False
    have "month_no now - month_no (period_step annual end) < int n"
      using period_step_month [of "end" annual] Suc.prems(5) by linarith
    with False Suc.IH [OF Suc.prems(1), of "end" "period_step annual end"] Suc.prems(2,4) period_step_valid
    show ?thesis by auto
  qed (use Suc.prems in auto)
qed

text \<open>
  Rolling over an expired period always ends, however long the subscription
  slept: it returns the billing period that contains the present instant, a whole step long
  and starting at the end of an earlier one.
\<close>

theorem rollPeriod_contains_now:
  assumes "valid_time now" "valid_time expiredEnd" "\<not> before now expiredEnd"
  shows "\<exists>s. rollPeriod expiredEnd annual now = Some (s, period_step annual s)
    \<and> valid_time s \<and> \<not> before now s \<and> before now (period_step annual s)"
proof -
  have "month_no now - month_no (period_step annual expiredEnd)
    < int (nat (month_no now - month_no expiredEnd + 1))"
    using period_step_month [of expiredEnd annual] not_before_month [OF assms] by linarith
  from roll_loop_spec [OF assms refl this] show ?thesis by (simp add: rollPeriod_def)
qed

theorem rollPeriod_contains_now_witness:
  "rollPeriod \<lparr>year = 2025, month = 1, day = 31, nanos = 0\<rparr> False \<lparr>year = 2026, month = 3, day = 2, nanos = 0\<rparr>
     \<noteq> None"
  using rollPeriod_contains_now [of "\<lparr>year = 2026, month = 3, day = 2, nanos = 0\<rparr>"
      "\<lparr>year = 2025, month = 1, day = 31, nanos = 0\<rparr>" False]
  by (auto simp: valid_time_def days_in_def before_def time_key_def)

text \<open>
  Monthly billing drifts: a period that starts on the 31st of January ends on the
  3rd of March in a common year, and every later period then starts on the 3rd.
\<close>

theorem month_step_drifts:
  "nextPeriodEnd \<lparr>year = 2025, month = 1, day = 31, nanos = 0\<rparr> = \<lparr>year = 2025, month = 3, day = 3, nanos = 0\<rparr>
   \<and> nextPeriodEnd \<lparr>year = 2025, month = 3, day = 3, nanos = 0\<rparr> = \<lparr>year = 2025, month = 4, day = 3, nanos = 0\<rparr>"
  by (simp add: nextPeriodEnd_def norm_day_def days_in_def leap_def)

section \<open>Allocation of a charge\<close>

record creditBucket =
  bk_id :: string
  bk_amount :: int
  bk_consumed :: int

record creditUpdate =
  cu_id :: string
  newConsumed :: int
  exhausted :: bool

record CreditDebit =
  CreditID :: string
  Amount :: int

record drainPlan =
  fromCredits :: int
  fromMonthly :: int
  fromOverage :: int
  creditUpdates :: "creditUpdate list"
  creditDebits :: "CreditDebit list"

datatype store_error = ErrInvalid | ErrNotFound | ErrQuotaExceeded | ErrLoadPlan | ErrNoRows | ErrDb | Diverges

text \<open>The counters of a subscription the allocation reads.\<close>

record counters =
  ct_used :: int
  ct_limit :: int
  ct_overageUsed :: int
  ct_overageCap :: int
  ct_overageEnabled :: bool
  ct_cardPresent :: bool

definition avail :: "creditBucket \<Rightarrow> int" where
  "avail b = wrap64 (bk_amount b - bk_consumed b)"

text \<open>The loop over the credit rows: it stops as soon as nothing remains to be charged and
  skips rows with nothing left. It returns what remains and the plan so far.\<close>

fun drain :: "creditBucket list \<Rightarrow> int \<Rightarrow> drainPlan \<Rightarrow> int \<times> drainPlan" where
  "drain [] remaining plan = (remaining, plan)"
| "drain (cr # crs) remaining plan =
     (if remaining = 0 then (remaining, plan)
      else if avail cr \<le> 0 then drain crs remaining plan
      else let take = min (avail cr) remaining; newc = wrap64 (bk_consumed cr + take) in
        drain crs (remaining - take)
          (plan\<lparr>fromCredits := fromCredits plan + take,
                creditDebits := creditDebits plan @ [\<lparr>CreditID = bk_id cr, Amount = take\<rparr>],
                creditUpdates := creditUpdates plan
                  @ [\<lparr>cu_id = bk_id cr, newConsumed = newc, exhausted = bk_amount cr \<le> newc\<rparr>]\<rparr>))"

definition empty_plan :: drainPlan where
  "empty_plan = \<lparr>fromCredits = 0, fromMonthly = 0, fromOverage = 0, creditUpdates = [], creditDebits = []\<rparr>"

definition allocateConsumption ::
  "int \<Rightarrow> creditBucket list \<Rightarrow> counters \<Rightarrow> store_error + drainPlan" where
  "allocateConsumption cost crs ct =
     (if cost \<le> 0 then Inl ErrInvalid
      else let (r1, p1) = drain crs cost empty_plan;
               monthlyAvail = wrap64 (ct_limit ct - ct_used ct);
               take = (if 0 < r1 \<and> 0 < monthlyAvail then min monthlyAvail r1 else 0);
               r2 = r1 - take;
               p2 = p1\<lparr>fromMonthly := take\<rparr>
           in if 0 < r2 then
                if \<not> ct_overageEnabled ct \<or> \<not> ct_cardPresent ct then Inl ErrQuotaExceeded
                else if wrap64 (ct_overageCap ct - ct_overageUsed ct) < r2 then Inl ErrQuotaExceeded
                else Inr (p2\<lparr>fromOverage := r2\<rparr>)
              else Inr p2)"

definition threshold_at :: "int \<Rightarrow> int \<Rightarrow> int \<Rightarrow> int \<Rightarrow> bool" where
  "threshold_at limit old new pct =
     (let thr = quot (wrap64 (limit * pct)) 100 in old < thr \<and> thr \<le> new)"

definition crossedThresholds :: "int \<Rightarrow> int \<Rightarrow> int \<Rightarrow> bool \<times> bool \<times> bool \<times> bool" where
  "crossedThresholds limit old new =
     (if limit \<le> 0 then (False, False, False, False)
      else (threshold_at limit old new 80, threshold_at limit old new 95,
            threshold_at limit old new 100, threshold_at limit old new 200))"

subsection \<open>What the allocation takes\<close>

abbreviation (input) pos :: "int \<Rightarrow> int" where "pos x \<equiv> max 0 x"

definition credit_total :: "creditBucket list \<Rightarrow> int" where
  "credit_total crs = sum_list (map (\<lambda>b. pos (avail b)) crs)"

definition debit_total :: "CreditDebit list \<Rightarrow> int" where
  "debit_total ds = sum_list (map Amount ds)"

lemma credit_total_simps [simp]:
  "credit_total [] = 0" "credit_total (b # bs) = pos (avail b) + credit_total bs"
  by (simp_all add: credit_total_def)

lemma debit_total_simps [simp]:
  "debit_total [] = 0" "debit_total (d # ds) = Amount d + debit_total ds"
  "debit_total (ds @ es) = debit_total ds + debit_total es"
  by (simp_all add: debit_total_def)

lemma credit_total_nonneg: "0 \<le> credit_total bs"
  by (induction bs) auto

text \<open>The debits of a run of the loop, as a list of their own.\<close>

fun takes :: "creditBucket list \<Rightarrow> int \<Rightarrow> (creditBucket \<times> int) list" where
  "takes [] remaining = []"
| "takes (cr # crs) remaining =
     (if remaining = 0 then []
      else if avail cr \<le> 0 then takes crs remaining
      else (cr, min (avail cr) remaining) # takes crs (remaining - min (avail cr) remaining))"

definition debit_of :: "creditBucket \<times> int \<Rightarrow> CreditDebit" where
  "debit_of bt = \<lparr>CreditID = bk_id (fst bt), Amount = snd bt\<rparr>"

definition update_of :: "creditBucket \<times> int \<Rightarrow> creditUpdate" where
  "update_of bt = (let newc = wrap64 (bk_consumed (fst bt) + snd bt) in
     \<lparr>cu_id = bk_id (fst bt), newConsumed = newc, exhausted = bk_amount (fst bt) \<le> newc\<rparr>)"

lemma drain_takes:
  "drain crs r plan =
     (r - sum_list (map snd (takes crs r)),
      plan\<lparr>fromCredits := fromCredits plan + sum_list (map snd (takes crs r)),
           creditDebits := creditDebits plan @ map debit_of (takes crs r),
           creditUpdates := creditUpdates plan @ map update_of (takes crs r)\<rparr>)"
proof (induction crs arbitrary: r plan)
  case (Cons cr crs)
  show ?case
    by (cases "r = 0"; cases "avail cr \<le> 0")
      (simp_all add: Cons.IH Let_def debit_of_def update_of_def algebra_simps)
qed simp

lemma takes_sum: "0 \<le> r \<Longrightarrow> sum_list (map snd (takes crs r)) = min r (credit_total crs)"
proof (induction crs arbitrary: r)
  case (Cons cr crs)
  show ?case
  proof (cases "r = 0 \<or> avail cr \<le> 0")
    case True
    then show ?thesis
      using Cons credit_total_nonneg [of crs] by (auto simp: min_def max_def)
  next
    case False
    with Cons.prems have "sum_list (map snd (takes crs (r - min (avail cr) r)))
      = min (r - min (avail cr) r) (credit_total crs)" by (intro Cons.IH) auto
    with False Cons.prems credit_total_nonneg [of crs] show ?thesis by (auto simp: min_def max_def)
  qed
qed simp

lemma takes_bound:
  "0 \<le> r \<Longrightarrow> (b, t) \<in> set (takes crs r) \<Longrightarrow> b \<in> set crs \<and> 0 < t \<and> t \<le> avail b"
proof (induction crs arbitrary: r)
  case (Cons cr crs)
  show ?case
  proof (cases "r = 0 \<or> avail cr \<le> 0")
    case False
    with Cons.prems show ?thesis
      using Cons.IH [of "r - min (avail cr) r"] by (auto simp: min_def split: if_splits)
  qed (use Cons in \<open>auto split: if_splits\<close>)
qed simp

lemma takes_distinct:
  "distinct (map bk_id crs) \<Longrightarrow> 0 \<le> r \<Longrightarrow> distinct (map (\<lambda>bt. bk_id (fst bt)) (takes crs r))"
proof (induction crs arbitrary: r)
  case (Cons cr crs)
  show ?case
  proof (cases "r = 0 \<or> avail cr \<le> 0")
    case False
    define r' where "r' = r - min (avail cr) r"
    have r: "0 \<le> r'" using Cons.prems by (simp add: r'_def)
    have "bk_id cr \<notin> (\<lambda>bt. bk_id (fst bt)) ` set (takes crs r')"
      using Cons.prems(1) takes_bound [OF r, of _ _ crs] by (auto simp: image_iff)
    moreover have "distinct (map (\<lambda>bt. bk_id (fst bt)) (takes crs r'))"
      using Cons.prems(1) r by (intro Cons.IH) simp_all
    moreover have "takes (cr # crs) r = (cr, min (avail cr) r) # takes crs r'"
      using False by (simp add: r'_def)
    ultimately show ?thesis by (simp only: list.map distinct.simps set_map fst_conv simp_thms)
  qed (use Cons in auto)
qed simp

text \<open>The whole allocation in closed form.\<close>

definition monthly_budget :: "counters \<Rightarrow> int" where
  "monthly_budget ct = pos (wrap64 (ct_limit ct - ct_used ct))"

definition overage_budget :: "counters \<Rightarrow> int" where
  "overage_budget ct = (if ct_overageEnabled ct \<and> ct_cardPresent ct
     then pos (wrap64 (ct_overageCap ct - ct_overageUsed ct)) else 0)"

lemma allocate_closed:
  fixes crs :: "creditBucket list" and ct :: counters
  assumes "0 < cost"
  defines "c \<equiv> min cost (credit_total crs)"
  defines "m \<equiv> min (cost - c) (monthly_budget ct)"
  shows "allocateConsumption cost crs ct =
    (if cost - c - m \<le> overage_budget ct
     then Inr \<lparr>fromCredits = c, fromMonthly = m, fromOverage = cost - c - m,
              creditUpdates = map update_of (takes crs cost), creditDebits = map debit_of (takes crs cost)\<rparr>
     else Inl ErrQuotaExceeded)"
proof -
  have c: "sum_list (map snd (takes crs cost)) = c" using assms takes_sum [of cost crs] by simp
  have "0 \<le> c" "c \<le> cost" using assms credit_total_nonneg [of crs] by auto
  then have m: "(if 0 < cost - c \<and> 0 < wrap64 (ct_limit ct - ct_used ct)
      then min (wrap64 (ct_limit ct - ct_used ct)) (cost - c) else 0) = m"
    by (auto simp: m_def monthly_budget_def min_def max_def)
  have "0 \<le> cost - c - m" by (auto simp: m_def)
  with assms(1) show ?thesis
    unfolding allocateConsumption_def drain_takes c Let_def prod.case m
    by (auto simp: empty_plan_def overage_budget_def max_def)
qed

text \<open>
  A charge that succeeds is split without loss: the three shares add up to the
  cost, none is negative or exceeds its bucket, and the per-row debits add up to the credit
  share, each positive and within what its row has left. The order is kept: the monthly share
  is taken only when the credits are drained, overage only when the month is too, and only when
  the tenant enabled it with a card on file.
\<close>

theorem allocateConsumption_split:
  assumes "allocateConsumption cost crs ct = Inr plan"
  shows "fromCredits plan + fromMonthly plan + fromOverage plan = cost
    \<and> 0 \<le> fromCredits plan \<and> fromCredits plan \<le> credit_total crs
    \<and> 0 \<le> fromMonthly plan \<and> fromMonthly plan \<le> monthly_budget ct
    \<and> 0 \<le> fromOverage plan \<and> fromOverage plan \<le> overage_budget ct
    \<and> debit_total (creditDebits plan) = fromCredits plan
    \<and> (\<forall>d \<in> set (creditDebits plan). \<exists>b \<in> set crs. bk_id b = CreditID d \<and> 0 < Amount d \<and> Amount d \<le> avail b)
    \<and> (0 < fromMonthly plan \<longrightarrow> fromCredits plan = credit_total crs)
    \<and> (0 < fromOverage plan \<longrightarrow> fromMonthly plan = monthly_budget ct
         \<and> ct_overageEnabled ct \<and> ct_cardPresent ct)"
proof -
  have c: "0 < cost" using assms by (auto simp: allocateConsumption_def split: if_splits)
  have d: "debit_total (map debit_of ts) = sum_list (map snd ts)" for ts
    by (induction ts) (simp_all add: debit_of_def)
  have t: "\<exists>b \<in> set crs. bk_id b = CreditID d \<and> 0 < Amount d \<and> Amount d \<le> avail b"
    if "d \<in> set (map debit_of (takes crs cost))" for d
    using that takes_bound [of cost _ _ crs] c by (fastforce simp: debit_of_def)
  have n: "0 \<le> monthly_budget ct" by (simp add: monthly_budget_def)
  have o: "0 < overage_budget ct \<Longrightarrow> ct_overageEnabled ct \<and> ct_cardPresent ct"
    by (auto simp: overage_budget_def split: if_splits)
  show ?thesis
    using assms c t n o credit_total_nonneg [of crs]
    by (auto simp: allocate_closed d takes_sum min_def split: if_splits)
qed

theorem allocateConsumption_split_witness:
  "fromMonthly \<lparr>fromCredits = 3, fromMonthly = 4, fromOverage = 1,
      creditUpdates = [\<lparr>cu_id = ''a'', newConsumed = 5, exhausted = True\<rparr>],
      creditDebits = [\<lparr>CreditID = ''a'', Amount = 3\<rparr>]\<rparr> \<le>
    monthly_budget \<lparr>ct_used = 6, ct_limit = 10, ct_overageUsed = 0, ct_overageCap = 20,
      ct_overageEnabled = True, ct_cardPresent = True\<rparr>"
proof -
  have a: "allocateConsumption 8 [\<lparr>bk_id = ''a'', bk_amount = 5, bk_consumed = 2\<rparr>]
    \<lparr>ct_used = 6, ct_limit = 10, ct_overageUsed = 0, ct_overageCap = 20,
      ct_overageEnabled = True, ct_cardPresent = True\<rparr>
    = Inr \<lparr>fromCredits = 3, fromMonthly = 4, fromOverage = 1,
      creditUpdates = [\<lparr>cu_id = ''a'', newConsumed = 5, exhausted = True\<rparr>],
      creditDebits = [\<lparr>CreditID = ''a'', Amount = 3\<rparr>]\<rparr>"
    by (simp add: allocateConsumption_def avail_def in64_def empty_plan_def)
  show ?thesis using allocateConsumption_split [OF a] by blast
qed

text \<open>
  A charge of a positive cost is refused exactly when the three buckets together
  cannot cover it, and then with \<open>ErrQuotaExceeded\<close>.
\<close>

theorem allocateConsumption_fails_iff:
  assumes "0 < cost"
  shows "allocateConsumption cost crs ct = Inl ErrQuotaExceeded \<longleftrightarrow>
    credit_total crs + monthly_budget ct + overage_budget ct < cost"
proof -
  have "0 \<le> monthly_budget ct" "0 \<le> overage_budget ct"
    by (simp_all add: monthly_budget_def overage_budget_def)
  then show ?thesis using assms credit_total_nonneg [of crs] by (auto simp: allocate_closed min_def)
qed

theorem allocateConsumption_fails_iff_witness:
  "allocateConsumption 5 [] \<lparr>ct_used = 6, ct_limit = 10, ct_overageUsed = 0, ct_overageCap = 20,
      ct_overageEnabled = True, ct_cardPresent = False\<rparr> = Inl ErrQuotaExceeded"
  by (subst allocateConsumption_fails_iff)
    (simp_all add: monthly_budget_def overage_budget_def in64_def)

end
