(* ===== verification/Ledger.thy ===== *)
theory Ledger
  imports Billing "HOL-Library.Multiset"
begin

text \<open>
  The ledger of \<open>gateway/internal/store/consume.go\<close>, \<open>credits.go\<close> and migration 033: the
  charge, its replay, the refund and its clamp. The tables are the record \<open>db\<close>; a
  transaction that fails leaves them as they were (the deferred rollback), so a failing
  operation returns no new tables. The row lock on the subscription serialises the calls of
  one tenant, so an operation is one function of the tables. \<open>dbnow\<close> is the database's
  \<open>now()\<close>, \<open>now\<close> the gateway's clock, \<open>fresh\<close> the identifier minted for an empty \<open>opID\<close>.
\<close>

section \<open>Tables\<close>

record rates =
  rate_limit_rps :: int
  rate_limit_burst :: int
  read_rps :: int
  read_burst :: int
  tx_rps :: int
  tx_burst :: int

record plan =
  monthly_tokens :: int
  pl_rates :: rates

record credit =
  cd_id :: string
  cd_user :: string
  cd_amount :: int
  cd_consumed :: int
  cd_expires :: time
  cd_exhausted :: "time option"
  cd_created :: time

record subscription =
  sb_user :: string
  sb_plan :: string
  sb_active :: bool
  sb_annual :: bool
  sb_start :: time
  sb_end :: time
  sb_counters :: counters
  sb_rates :: rates

record ConsumptionResult =
  rs_Cost :: int
  rs_FromCredits :: int
  rs_FromMonthly :: int
  rs_FromOverage :: int
  rs_TokensUsed :: int
  rs_OverageUsed :: int
  rs_Subscription :: "subscription option"
  rs_CreditDebits :: "CreditDebit list"
  rs_Crossed :: "bool \<times> bool \<times> bool \<times> bool"

datatype kind = Charge | Refund

record ledger_row =
  lg_op :: string
  lg_kind :: kind
  lg_subscription :: string
  lg_cost :: int
  lg_breakdown :: "ConsumptionResult option"

record db =
  subs :: "string \<rightharpoonup> subscription"
  plans :: "string \<rightharpoonup> plan"
  credits :: "credit list"
  ledger :: "ledger_row list"

text \<open>\<open>UNIQUE (op_id, kind)\<close> and the look-up of a charge by its subscription.\<close>

definition claimed :: "string \<Rightarrow> kind \<Rightarrow> db \<Rightarrow> bool" where
  "claimed op k d \<longleftrightarrow> (op, k) \<in> set (map (\<lambda>r. (lg_op r, lg_kind r)) (ledger d))"

definition charge_row :: "string \<Rightarrow> string \<Rightarrow> db \<Rightarrow> ledger_row option" where
  "charge_row subID op d =
     find (\<lambda>r. lg_op r = op \<and> lg_kind r = Charge \<and> lg_subscription r = subID) (ledger d)"

text \<open>\<open>cost integer\<close>: a wider value does not encode.\<close>

definition int4 :: "int \<Rightarrow> bool" where
  "int4 x \<longleftrightarrow> - (2 ^ 31) \<le> x \<and> x < 2 ^ 31"

section \<open>The charge\<close>

text \<open>Step 2: the subscription as the rollover leaves it.\<close>

definition load_period :: "time \<Rightarrow> (string \<rightharpoonup> plan) \<Rightarrow> subscription \<Rightarrow> store_error + subscription" where
  "load_period now ps sub =
     (if before now (sb_end sub) then Inr sub
      else case ps (sb_plan sub) of
        None \<Rightarrow> Inl ErrLoadPlan
      | Some p \<Rightarrow> (case rollPeriod (sb_end sub) (sb_annual sub) now of
          None \<Rightarrow> Inl Diverges
        | Some (newStart, newEnd) \<Rightarrow>
            Inr (sub\<lparr>sb_start := newStart, sb_end := newEnd, sb_rates := pl_rates p,
              sb_counters := (sb_counters sub)\<lparr>ct_used := 0, ct_limit := monthly_tokens p,
                ct_overageUsed := 0, ct_overageCap := wrap64 (monthly_tokens p * 2)\<rparr>\<rparr>)))"

text \<open>Step 3: the active credit rows of a user, the one that expires first in front. Rows that
  agree in both keys come in the order of the table.\<close>

definition is_active_credit :: "time \<Rightarrow> string \<Rightarrow> credit \<Rightarrow> bool" where
  "is_active_credit dbnow user c \<longleftrightarrow>
     cd_user c = user \<and> cd_exhausted c = None \<and> before dbnow (cd_expires c)"

definition ListActiveCredits :: "time \<Rightarrow> string \<Rightarrow> credit list \<Rightarrow> credit list" where
  "ListActiveCredits dbnow user cs =
     sort_key (\<lambda>c. (time_key (cd_expires c), time_key (cd_created c))) (filter (is_active_credit dbnow user) cs)"

definition SumActiveCredits :: "time \<Rightarrow> string \<Rightarrow> credit list \<Rightarrow> int" where
  "SumActiveCredits dbnow user cs =
     sum_list (map (\<lambda>c. cd_amount c - cd_consumed c) (filter (is_active_credit dbnow user) cs))"

definition bucket_of :: "credit \<Rightarrow> creditBucket" where
  "bucket_of c = \<lparr>bk_id = cd_id c, bk_amount = cd_amount c, bk_consumed = cd_consumed c\<rparr>"

text \<open>Step 4a: \<open>UPDATE credits SET consumed = $2, exhausted_at = $3 WHERE id = $1\<close>.\<close>

definition set_credit :: "time \<Rightarrow> creditUpdate \<Rightarrow> credit \<Rightarrow> credit" where
  "set_credit now u c =
     (if cd_id c = cu_id u
      then c\<lparr>cd_consumed := newConsumed u, cd_exhausted := (if exhausted u then Some now else None)\<rparr>
      else c)"

definition apply_updates :: "time \<Rightarrow> creditUpdate list \<Rightarrow> credit list \<Rightarrow> credit list" where
  "apply_updates now us cs = fold (\<lambda>u. map (set_credit now u)) us cs"

text \<open>Step 4b: the counters of the subscription.\<close>

definition add_usage :: "drainPlan \<Rightarrow> subscription \<Rightarrow> subscription" where
  "add_usage p sub = sub\<lparr>sb_counters := (sb_counters sub)
     \<lparr>ct_used := ct_used (sb_counters sub) + fromMonthly p,
      ct_overageUsed := ct_overageUsed (sb_counters sub) + fromOverage p\<rparr>\<rparr>"

definition result_of :: "int \<Rightarrow> drainPlan \<Rightarrow> subscription \<Rightarrow> ConsumptionResult" where
  "result_of cost p sub =
     (let c = sb_counters sub;
          totalNew = wrap64 (ct_used c + ct_overageUsed c);
          totalOld = wrap64 (totalNew - wrap64 (fromMonthly p + fromOverage p))
      in \<lparr>rs_Cost = cost, rs_FromCredits = fromCredits p, rs_FromMonthly = fromMonthly p,
          rs_FromOverage = fromOverage p, rs_TokensUsed = ct_used c, rs_OverageUsed = ct_overageUsed c,
          rs_Subscription = Some sub, rs_CreditDebits = creditDebits p,
          rs_Crossed = crossedThresholds (ct_limit c) totalOld totalNew\<rparr>)"

text \<open>Steps 2 to 7. The breakdown on the ledger row leaves the subscription out
  (\<open>json:"-"\<close>). The re-read joins the plan.\<close>

definition charge_tx ::
  "time \<Rightarrow> time \<Rightarrow> string \<Rightarrow> int \<Rightarrow> string \<Rightarrow> subscription \<Rightarrow> db \<Rightarrow> store_error + (ConsumptionResult \<times> db)" where
  "charge_tx now dbnow subID cost opID sub d =
     bind_res (load_period now (plans d) sub) (\<lambda>sub1.
     bind_res (allocateConsumption cost
         (map bucket_of (ListActiveCredits dbnow (sb_user sub) (credits d))) (sb_counters sub1)) (\<lambda>p.
     let sub2 = add_usage p sub1; res = result_of cost p sub2 in
     if \<not> in64 (ct_used (sb_counters sub2)) \<or> \<not> in64 (ct_overageUsed (sb_counters sub2)) then Inl ErrDb
     else if plans d (sb_plan sub2) = None then Inl ErrNoRows
     else Inr (res, d\<lparr>subs := (subs d)(subID \<mapsto> sub2),
       credits := apply_updates now (creditUpdates p) (credits d),
       ledger := ledger d @ [\<lparr>lg_op = opID, lg_kind = Charge, lg_subscription = subID, lg_cost = cost,
         lg_breakdown = Some (res\<lparr>rs_Subscription := None\<rparr>)\<rparr>]\<rparr>)))"

definition zero_result :: ConsumptionResult where
  "zero_result = \<lparr>rs_Cost = 0, rs_FromCredits = 0, rs_FromMonthly = 0, rs_FromOverage = 0,
     rs_TokensUsed = 0, rs_OverageUsed = 0, rs_Subscription = None, rs_CreditDebits = [],
     rs_Crossed = (False, False, False, False)\<rparr>"

definition replayLedgerCharge :: "string \<Rightarrow> string \<Rightarrow> db \<Rightarrow> store_error + (ConsumptionResult \<times> db)" where
  "replayLedgerCharge subID opID d =
     (case charge_row subID opID d of
        None \<Rightarrow> Inl ErrNoRows
      | Some row \<Rightarrow>
          let res = (case lg_breakdown row of Some b \<Rightarrow> b | None \<Rightarrow> zero_result) in
          case subs d subID of
            None \<Rightarrow> Inl ErrNoRows
          | Some sub \<Rightarrow>
              if plans d (sb_plan sub) = None then Inl ErrNoRows
              else Inr (res\<lparr>rs_Subscription := Some sub, rs_TokensUsed := ct_used (sb_counters sub),
                rs_OverageUsed := ct_overageUsed (sb_counters sub),
                rs_Crossed := (False, False, False, False)\<rparr>, d))"

definition ConsumeTokensV2 ::
  "time \<Rightarrow> time \<Rightarrow> string \<Rightarrow> string \<Rightarrow> int \<Rightarrow> string \<Rightarrow> db \<Rightarrow> store_error + (ConsumptionResult \<times> db)" where
  "ConsumeTokensV2 now dbnow fresh subID cost opID0 d =
     (if cost \<le> 0 then Inl ErrInvalid
      else let opID = (if opID0 = [] then fresh else opID0) in
        case subs d subID of
          None \<Rightarrow> Inl ErrNotFound
        | Some sub \<Rightarrow>
            if \<not> sb_active sub then Inl ErrNotFound
            else if \<not> int4 cost then Inl ErrDb
            else if claimed opID Charge d then replayLedgerCharge subID opID d
            else charge_tx now dbnow subID cost opID sub d)"

section \<open>The refund\<close>

definition nothing_taken :: "ConsumptionResult \<Rightarrow> bool" where
  "nothing_taken r \<longleftrightarrow> rs_FromMonthly r = 0 \<and> rs_FromOverage r = 0 \<and> rs_CreditDebits r = []"

definition chargedByCredit :: "CreditDebit list \<Rightarrow> string \<Rightarrow> int" where
  "chargedByCredit ds i = wrap64 (debit_total (filter (\<lambda>d. CreditID d = i) ds))"

definition clamp_debits :: "CreditDebit list \<Rightarrow> CreditDebit list \<Rightarrow> CreditDebit list" where
  "clamp_debits charged ds =
     filter (\<lambda>d. 0 < Amount d)
       (map (\<lambda>d. d\<lparr>Amount := min (Amount d) (chargedByCredit charged (CreditID d))\<rparr>) ds)"

definition clampRefundToCharge ::
  "string \<Rightarrow> string \<Rightarrow> db \<Rightarrow> ConsumptionResult \<Rightarrow> ConsumptionResult" where
  "clampRefundToCharge subID opID d r =
     (case charge_row subID opID d of
        Some row \<Rightarrow> (case lg_breakdown row of
          Some charge \<Rightarrow>
            r\<lparr>rs_FromMonthly := min (rs_FromMonthly r) (rs_FromMonthly charge),
              rs_FromOverage := min (rs_FromOverage r) (rs_FromOverage charge),
              rs_CreditDebits := clamp_debits (rs_CreditDebits charge) (rs_CreditDebits r)\<rparr>
        | None \<Rightarrow> r)
      | None \<Rightarrow> r)"

definition take_usage :: "ConsumptionResult \<Rightarrow> subscription \<Rightarrow> subscription" where
  "take_usage r sub = sub\<lparr>sb_counters := (sb_counters sub)
     \<lparr>ct_used := max (ct_used (sb_counters sub) - rs_FromMonthly r) 0,
      ct_overageUsed := max (ct_overageUsed (sb_counters sub) - rs_FromOverage r) 0\<rparr>\<rparr>"

definition give_back :: "CreditDebit \<Rightarrow> credit \<Rightarrow> credit" where
  "give_back x c =
     (if cd_id c = CreditID x
      then let n = max (cd_consumed c - Amount x) 0 in
        c\<lparr>cd_consumed := n, cd_exhausted := (if n < cd_amount c then None else cd_exhausted c)\<rparr>
      else c)"

definition refund_credits :: "CreditDebit list \<Rightarrow> credit list \<Rightarrow> credit list" where
  "refund_credits ds cs =
     fold (\<lambda>x cs. if Amount x \<le> 0 \<or> CreditID x = [] then cs else map (give_back x) cs) ds cs"

definition apply_refund :: "string \<Rightarrow> ConsumptionResult \<Rightarrow> db \<Rightarrow> db" where
  "apply_refund subID r d =
     d\<lparr>subs := (if 0 < rs_FromMonthly r \<or> 0 < rs_FromOverage r
                then (subs d)(subID := map_option (take_usage r) (subs d subID)) else subs d),
       credits := refund_credits (rs_CreditDebits r) (credits d)\<rparr>"

definition RefundTokensV2 :: "string \<Rightarrow> ConsumptionResult \<Rightarrow> string \<Rightarrow> db \<Rightarrow> store_error + db" where
  "RefundTokensV2 subID r opID d =
     (if nothing_taken r then Inr d
      else if opID = [] then Inr (apply_refund subID r d)
      else if \<not> int4 (rs_Cost r) then Inl ErrDb
      else if claimed opID Refund d then Inr d
      else let d1 = d\<lparr>ledger := ledger d @ [\<lparr>lg_op = opID, lg_kind = Refund, lg_subscription = subID,
                 lg_cost = rs_Cost r, lg_breakdown = None\<rparr>]\<rparr>;
               r1 = clampRefundToCharge subID opID d1 r
           in if nothing_taken r1 then Inr d1 else Inr (apply_refund subID r1 d1))"

section \<open>The balance\<close>

record Balance =
  bl_Subscription :: "subscription option"
  bl_Credits :: int
  bl_MonthlyRemaining :: int
  bl_OverageAvailable :: int
  bl_TotalRemaining :: int

text \<open>\<open>sub\<close> is what \<open>GetActiveSubscription\<close> finds for the user, if anything.\<close>

definition ComputeBalance :: "time \<Rightarrow> string \<Rightarrow> subscription option \<Rightarrow> db \<Rightarrow> Balance" where
  "ComputeBalance dbnow user osub d =
     (let cr = SumActiveCredits dbnow user (credits d);
          ct = map_option sb_counters osub;
          m = (case ct of Some c \<Rightarrow> max 0 (wrap64 (ct_limit c - ct_used c)) | None \<Rightarrow> 0);
          ov = (case ct of
            Some c \<Rightarrow> (if ct_overageEnabled c \<and> ct_cardPresent c
              then max 0 (wrap64 (ct_overageCap c - ct_overageUsed c)) else 0)
          | None \<Rightarrow> 0)
      in \<lparr>bl_Subscription = osub, bl_Credits = cr, bl_MonthlyRemaining = m, bl_OverageAvailable = ov,
          bl_TotalRemaining = wrap64 (wrap64 (cr + m) + ov)\<rparr>)"

section \<open>What the credit updates do\<close>

text \<open>Updates of distinct rows act on a row at most once.\<close>

lemma fold_map_rows: "fold (\<lambda>u. map (f u)) us cs = map (fold f us) cs"
  by (induction us arbitrary: cs) auto

lemma fold_once:
  assumes "\<And>u c. key u \<noteq> cd_id c \<Longrightarrow> f u c = c" and "\<And>u c. cd_id (f u c) = cd_id c"
    and "distinct (map key us)"
  shows "fold f us c = (case find (\<lambda>u. key u = cd_id c) us of None \<Rightarrow> c | Some u \<Rightarrow> f u c)"
  using assms(3)
proof (induction us arbitrary: c)
  case (Cons u us)
  show ?case
  proof (cases "key u = cd_id c")
    case True
    with Cons.prems have "find (\<lambda>v. key v = cd_id c) us = None"
      by (auto simp: find_None_iff image_iff)
    with True Cons show ?thesis using assms(2) by simp
  next
    case False
    with Cons show ?thesis using assms(1) by simp
  qed
qed simp

lemma find_map_eq: "find P (map f xs) = map_option f (find (\<lambda>x. P (f x)) xs)"
  by (induction xs) auto

definition credit_ok :: "credit \<Rightarrow> bool" where
  "credit_ok c \<longleftrightarrow> cd_id c \<noteq> [] \<and> 0 \<le> cd_consumed c \<and> cd_consumed c \<le> cd_amount c \<and> cd_amount c < 2 ^ 63"

definition credits_ok :: "credit list \<Rightarrow> bool" where
  "credits_ok cs \<longleftrightarrow> distinct (map cd_id cs) \<and> (\<forall>c \<in> set cs. credit_ok c)"

lemma avail_bucket: "credit_ok c \<Longrightarrow> avail (bucket_of c) = cd_amount c - cd_consumed c"
  by (simp add: avail_def bucket_of_def credit_ok_def in64_def)

text \<open>The debits an allocation makes from the active rows of a user.\<close>

definition debits_ok :: "string \<Rightarrow> (creditBucket \<times> int) list \<Rightarrow> credit list \<Rightarrow> bool" where
  "debits_ok user ts cs \<longleftrightarrow> distinct (map (\<lambda>bt. bk_id (fst bt)) ts)
     \<and> (\<forall>(b, t) \<in> set ts. \<exists>c \<in> set cs. b = bucket_of c \<and> cd_exhausted c = None \<and> cd_user c = user
          \<and> 0 < t \<and> t \<le> cd_amount c - cd_consumed c)"

lemma active_subset: "c \<in> set (ListActiveCredits dbnow user cs) \<Longrightarrow>
    c \<in> set cs \<and> cd_user c = user \<and> cd_exhausted c = None"
  by (auto simp: ListActiveCredits_def is_active_credit_def)

lemma active_distinct:
  assumes "credits_ok cs"
  shows "distinct (map (\<lambda>c. bk_id (bucket_of c)) (ListActiveCredits dbnow user cs))"
proof -
  have "distinct cs" "inj_on cd_id (set cs)"
    using assms by (auto simp: credits_ok_def distinct_map)
  then show ?thesis
    using active_subset [of _ dbnow user cs]
    by (auto simp: distinct_map ListActiveCredits_def bucket_of_def intro!: inj_onI dest: inj_onD)
qed

lemma takes_debits_ok:
  assumes "credits_ok cs" "0 \<le> cost"
  shows "debits_ok user (takes (map bucket_of (ListActiveCredits dbnow user cs)) cost) cs"
  unfolding debits_ok_def
proof (intro conjI ballI)
  show "distinct (map (\<lambda>bt. bk_id (fst bt)) (takes (map bucket_of (ListActiveCredits dbnow user cs)) cost))"
    using active_distinct [OF assms(1)] assms(2) by (intro takes_distinct) (simp_all add: comp_def)
  fix bt assume "bt \<in> set (takes (map bucket_of (ListActiveCredits dbnow user cs)) cost)"
  then obtain b t where bt: "bt = (b, t)" "(b, t) \<in> set (takes (map bucket_of (ListActiveCredits dbnow user cs)) cost)"
    by (metis surj_pair)
  from takes_bound [OF assms(2) bt(2)] obtain c where c: "c \<in> set (ListActiveCredits dbnow user cs)"
    "b = bucket_of c" "0 < t" "t \<le> avail b" by auto
  have "credit_ok c" using active_subset [OF c(1)] assms(1) by (auto simp: credits_ok_def)
  with c active_subset [OF c(1)] bt(1)
  show "case bt of (b, t) \<Rightarrow> \<exists>c \<in> set cs. b = bucket_of c \<and> cd_exhausted c = None \<and> cd_user c = user
          \<and> 0 < t \<and> t \<le> cd_amount c - cd_consumed c"
    by (auto simp: avail_bucket)
qed

definition debit_at :: "(creditBucket \<times> int) list \<Rightarrow> credit \<Rightarrow> (creditBucket \<times> int) option" where
  "debit_at ts c = find (\<lambda>bt. bk_id (fst bt) = cd_id c) ts"

lemma debit_at_Some:
  assumes "debit_at ts c = Some (b, t)" "debits_ok user ts cs" "credits_ok cs" "c \<in> set cs"
  shows "b = bucket_of c \<and> cd_exhausted c = None \<and> cd_user c = user \<and> 0 < t \<and> t \<le> cd_amount c - cd_consumed c
    \<and> credit_ok c"
proof -
  have m: "(b, t) \<in> set ts" "bk_id b = cd_id c"
    using assms(1) by (auto simp: debit_at_def find_Some_iff in_set_conv_nth) (metis fst_conv)
  have "\<exists>c \<in> set cs. b = bucket_of c \<and> cd_exhausted c = None \<and> cd_user c = user
      \<and> 0 < t \<and> t \<le> cd_amount c - cd_consumed c"
    using assms(2) m(1) unfolding debits_ok_def by auto
  then obtain c' where c': "c' \<in> set cs" "b = bucket_of c'" "cd_exhausted c' = None" "cd_user c' = user"
    "0 < t" "t \<le> cd_amount c' - cd_consumed c'" by blast
  have "c' = c" using c' m(2) assms(3,4) by (auto simp: credits_ok_def bucket_of_def distinct_map dest: inj_onD)
  with c' assms(3,4) show ?thesis by (simp add: credits_ok_def)
qed

lemma apply_updates_rows:
  assumes "debits_ok user ts cs0"
  shows "apply_updates now (map update_of ts) cs = map (\<lambda>c. case debit_at ts c of None \<Rightarrow> c
    | Some bt \<Rightarrow> set_credit now (update_of bt) c) cs"
proof -
  have "distinct (map cu_id (map update_of ts))"
    using assms by (simp add: debits_ok_def update_of_def Let_def comp_def)
  then have "fold (set_credit now) (map update_of ts) c
    = (case find (\<lambda>u. cu_id u = cd_id c) (map update_of ts) of None \<Rightarrow> c | Some u \<Rightarrow> set_credit now u c)" for c
    by (intro fold_once) (simp_all add: set_credit_def)
  then show ?thesis
    by (auto simp: apply_updates_def fold_map_rows find_map_eq debit_at_def update_of_def Let_def
        split: option.splits)
qed

definition give_back' :: "CreditDebit \<Rightarrow> credit \<Rightarrow> credit" where
  "give_back' x c = (if Amount x \<le> 0 \<or> CreditID x = [] then c else give_back x c)"

lemma give_back'_id [simp]: "cd_id (give_back' x c) = cd_id c"
  by (simp add: give_back'_def give_back_def Let_def)

lemma refund_credits_map: "refund_credits ds cs = map (fold give_back' ds) cs"
proof -
  have "(\<lambda>x cs. if Amount x \<le> 0 \<or> CreditID x = [] then cs else map (give_back x) cs) = (\<lambda>x. map (give_back' x))"
    by (auto simp: give_back'_def fun_eq_iff cong: map_cong)
  then show ?thesis by (simp add: refund_credits_def fold_map_rows)
qed

lemma refund_credits_rows:
  assumes "debits_ok user ts cs0"
  shows "refund_credits (map debit_of ts) cs = map (\<lambda>c. case debit_at ts c of None \<Rightarrow> c
    | Some bt \<Rightarrow> give_back' (debit_of bt) c) cs"
proof -
  have "distinct (map CreditID (map debit_of ts))"
    using assms by (simp add: debits_ok_def debit_of_def comp_def)
  then have "fold give_back' (map debit_of ts) c
    = (case find (\<lambda>u. CreditID u = cd_id c) (map debit_of ts) of None \<Rightarrow> c | Some u \<Rightarrow> give_back' u c)" for c
    by (intro fold_once) (auto simp: give_back'_def give_back_def)
  then show ?thesis
    by (auto simp: refund_credits_map find_map_eq debit_at_def debit_of_def split: option.splits)
qed

lemma refund_undoes_updates:
  assumes "credits_ok cs" "debits_ok user ts cs"
  shows "refund_credits (map debit_of ts) (apply_updates now (map update_of ts) cs) = cs"
proof -
  define g where "g = (\<lambda>c. case debit_at ts c of None \<Rightarrow> c | Some bt \<Rightarrow> set_credit now (update_of bt) c)"
  have "(case debit_at ts (g c) of None \<Rightarrow> g c | Some bt \<Rightarrow> give_back' (debit_of bt) (g c)) = c"
    if "c \<in> set cs" for c
  proof (cases "debit_at ts c")
    case (Some bt)
    obtain b t where bt: "bt = (b, t)" by (cases bt)
    note ok = debit_at_Some [OF Some [unfolded bt] assms(2,1) that]
    have "cd_id (g c) = cd_id c" using Some by (simp add: g_def set_credit_def)
    then have "debit_at ts (g c) = Some bt" using Some by (simp add: debit_at_def)
    moreover have "in64 (cd_consumed c + t)" using ok by (auto simp: credit_ok_def in64_def)
    ultimately show ?thesis
      using Some ok by (auto simp: g_def bt set_credit_def update_of_def bucket_of_def Let_def give_back'_def
          give_back_def debit_of_def credit_ok_def)
  qed (simp add: g_def)
  then have "map (\<lambda>c. case debit_at ts c of None \<Rightarrow> c | Some bt \<Rightarrow> give_back' (debit_of bt) c) (map g cs) = cs"
    by (simp add: map_idI)
  then show ?thesis
    by (simp only: refund_credits_rows [OF assms(2)] apply_updates_rows [OF assms(2)] g_def)
qed

lemma apply_updates_ok:
  assumes "credits_ok cs" "debits_ok user ts cs"
  shows "credits_ok (apply_updates now (map update_of ts) cs)"
proof -
  have "cd_id (set_credit now u c) = cd_id c" for u c by (simp add: set_credit_def)
  then have m: "map cd_id (apply_updates now (map update_of ts) cs) = map cd_id cs"
    by (auto simp: apply_updates_rows [OF assms(2)] split: option.splits)
  have "credit_ok (case debit_at ts c of None \<Rightarrow> c | Some bt \<Rightarrow> set_credit now (update_of bt) c)"
    if c: "c \<in> set cs" for c
  proof (cases "debit_at ts c")
    case (Some bt)
    obtain b t where bt: "bt = (b, t)" by (cases bt)
    note ok = debit_at_Some [OF Some [unfolded bt] assms(2,1) c]
    then have "in64 (cd_consumed c + t)" by (auto simp: credit_ok_def in64_def)
    with Some ok show ?thesis by (auto simp: bt set_credit_def update_of_def bucket_of_def Let_def credit_ok_def)
  qed (use assms(1) c in \<open>simp add: credits_ok_def\<close>)
  then have "\<forall>c \<in> set (apply_updates now (map update_of ts) cs). credit_ok c"
    by (auto simp: apply_updates_rows [OF assms(2)])
  with m assms(1) show ?thesis by (simp add: credits_ok_def)
qed

text \<open>The tokens consumed over all rows grow by the sum of the debits; rows of other users keep
  theirs.\<close>

definition consumed_total :: "credit list \<Rightarrow> int" where
  "consumed_total cs = sum_list (map cd_consumed cs)"

lemma sum_list_at:
  "distinct (map cd_id cs) \<Longrightarrow> c \<in> set cs \<Longrightarrow> g c = 0 \<Longrightarrow>
   sum_list (map (\<lambda>x. if cd_id x = cd_id c then v else g x) cs) = (v :: int) + sum_list (map g cs)"
proof (induction cs)
  case (Cons x xs)
  have none: "sum_list (map (\<lambda>y. if cd_id y = cd_id c then v else g y) ys) = sum_list (map g ys)"
    if "cd_id c \<notin> cd_id ` set ys" for ys
    using that by (induction ys) auto
  show ?case
  proof (cases "x = c")
    case True
    with Cons none [of xs] show ?thesis by simp
  next
    case False
    then have "c \<in> set xs" "cd_id x \<noteq> cd_id c" using Cons.prems by auto
    with Cons show ?thesis by simp
  qed
qed simp

lemma debit_sum:
  assumes "credits_ok cs"
  shows "debits_ok user ts cs \<Longrightarrow>
    sum_list (map (\<lambda>c. case debit_at ts c of None \<Rightarrow> 0 | Some bt \<Rightarrow> snd bt) cs) = sum_list (map snd ts)"
proof (induction ts)
  case (Cons bt ts)
  then obtain c where c: "c \<in> set cs" "bk_id (fst bt) = cd_id c"
    by (cases bt) (auto simp: debits_ok_def bucket_of_def)
  have "cd_id c \<notin> (\<lambda>bt. bk_id (fst bt)) ` set ts" using Cons.prems c(2) by (simp add: debits_ok_def)
  then have "debit_at ts c = None" by (auto simp: debit_at_def find_None_iff image_iff)
  then have "sum_list (map (\<lambda>x. if cd_id x = cd_id c then snd bt
      else case debit_at ts x of None \<Rightarrow> 0 | Some bt \<Rightarrow> snd bt) cs)
    = snd bt + sum_list (map (\<lambda>x. case debit_at ts x of None \<Rightarrow> 0 | Some bt \<Rightarrow> snd bt) cs)"
    using assms c(1) by (intro sum_list_at) (auto simp: credits_ok_def)
  moreover have "(case debit_at (bt # ts) x of None \<Rightarrow> 0 | Some bt \<Rightarrow> snd bt) =
     (if cd_id x = cd_id c then snd bt else case debit_at ts x of None \<Rightarrow> 0 | Some bt \<Rightarrow> snd bt)" for x
    using c(2) by (auto simp: debit_at_def)
  ultimately show ?case using Cons by (auto simp: debits_ok_def)
qed (simp add: debit_at_def)

lemma consumed_row:
  assumes "credits_ok cs" "debits_ok user ts cs" "c \<in> set cs"
  shows "cd_consumed (case debit_at ts c of None \<Rightarrow> c | Some bt \<Rightarrow> set_credit now (update_of bt) c)
    = cd_consumed c + (case debit_at ts c of None \<Rightarrow> 0 | Some bt \<Rightarrow> snd bt)"
proof (cases "debit_at ts c")
  case (Some bt)
  obtain b t where bt: "bt = (b, t)" by (cases bt)
  note ok = debit_at_Some [OF Some [unfolded bt] assms(2,1,3)]
  then have "in64 (cd_consumed c + t)" by (auto simp: credit_ok_def in64_def)
  with Some ok show ?thesis by (auto simp: bt set_credit_def update_of_def bucket_of_def Let_def)
qed simp

lemma consumed_total_updates:
  assumes "credits_ok cs" "debits_ok user ts cs"
  shows "consumed_total (apply_updates now (map update_of ts) cs) = consumed_total cs + sum_list (map snd ts)"
proof -
  have "consumed_total (apply_updates now (map update_of ts) cs)
    = sum_list (map (\<lambda>c. cd_consumed c + (case debit_at ts c of None \<Rightarrow> 0 | Some bt \<Rightarrow> snd bt)) cs)"
    unfolding consumed_total_def apply_updates_rows [OF assms(2)] map_map
    by (intro arg_cong [of _ _ sum_list] map_cong) (simp_all add: consumed_row [OF assms])
  then show ?thesis by (simp add: sum_list_addf debit_sum [OF assms] consumed_total_def)
qed

lemma other_users_untouched:
  assumes "credits_ok cs" "debits_ok user ts cs" "v \<noteq> user"
  shows "filter (\<lambda>c. cd_user c = v) (apply_updates now (map update_of ts) cs) = filter (\<lambda>c. cd_user c = v) cs"
proof -
  define g where "g = (\<lambda>c. case debit_at ts c of None \<Rightarrow> c | Some bt \<Rightarrow> set_credit now (update_of bt) c)"
  have u: "cd_user (g c) = cd_user c" for c by (auto simp: g_def set_credit_def split: option.splits)
  have k: "g c = c" if "c \<in> set cs" "cd_user c = v" for c
    using debit_at_Some [OF _ assms(2,1) that(1)] assms(3) that(2) by (auto simp: g_def split: option.splits)
  have "filter (\<lambda>c. cd_user c = v) (map g cs) = map g (filter (\<lambda>c. cd_user c = v) cs)"
    by (simp add: filter_map comp_def u)
  also have "\<dots> = filter (\<lambda>c. cd_user c = v) cs" using k by (intro map_idI) auto
  finally show ?thesis by (simp add: apply_updates_rows [OF assms(2)] g_def)
qed

section \<open>One charge\<close>

lemma find_append: "find P (xs @ ys) = (case find P xs of None \<Rightarrow> find P ys | Some x \<Rightarrow> Some x)"
  by (induction xs) auto

lemma unclaimed_row: "\<not> claimed op Charge d \<Longrightarrow> charge_row subID op d = None"
  by (auto simp: claimed_def charge_row_def find_None_iff image_iff)

lemma load_period_keeps:
  "load_period now ps sub = Inr sub1 \<Longrightarrow>
     sb_user sub1 = sb_user sub \<and> sb_plan sub1 = sb_plan sub \<and> sb_active sub1 = sb_active sub"
  by (auto simp: load_period_def split: if_splits option.splits prod.splits)

lemma add_usage_keeps [simp]:
  "sb_user (add_usage p sub) = sb_user sub" "sb_plan (add_usage p sub) = sb_plan sub"
  "sb_active (add_usage p sub) = sb_active sub"
  by (simp_all add: add_usage_def)

text \<open>A first charge, taken apart: the debits \<open>ts\<close> decide everything it writes.\<close>

lemma charge_tx_cases:
  assumes "charge_tx now dbnow subID cost opID sub d = Inr (r, d')" "0 < cost" "credits_ok (credits d)"
  obtains sub1 ts p where
    "load_period now (plans d) sub = Inr sub1"
    "ts = takes (map bucket_of (ListActiveCredits dbnow (sb_user sub) (credits d))) cost"
    "allocateConsumption cost (map bucket_of (ListActiveCredits dbnow (sb_user sub) (credits d))) (sb_counters sub1)
       = Inr p"
    "debits_ok (sb_user sub) ts (credits d)"
    "fromCredits p = sum_list (map snd ts)" "creditDebits p = map debit_of ts"
    "creditUpdates p = map update_of ts"
    "r = result_of cost p (add_usage p sub1)"
    "plans d (sb_plan sub) \<noteq> None"
    "d' = d\<lparr>subs := (subs d)(subID \<mapsto> add_usage p sub1),
       credits := apply_updates now (map update_of ts) (credits d),
       ledger := ledger d @ [\<lparr>lg_op = opID, lg_kind = Charge, lg_subscription = subID, lg_cost = cost,
         lg_breakdown = Some (r\<lparr>rs_Subscription := None\<rparr>)\<rparr>]\<rparr>"
proof -
  define bs where "bs = map bucket_of (ListActiveCredits dbnow (sb_user sub) (credits d))"
  from assms(1) obtain sub1 p where 1: "load_period now (plans d) sub = Inr sub1"
    "allocateConsumption cost bs (sb_counters sub1) = Inr p" "r = result_of cost p (add_usage p sub1)"
    "plans d (sb_plan sub1) \<noteq> None"
    "d' = d\<lparr>subs := (subs d)(subID \<mapsto> add_usage p sub1), credits := apply_updates now (creditUpdates p) (credits d),
       ledger := ledger d @ [\<lparr>lg_op = opID, lg_kind = Charge, lg_subscription = subID, lg_cost = cost,
         lg_breakdown = Some (r\<lparr>rs_Subscription := None\<rparr>)\<rparr>]\<rparr>"
    by (auto simp: charge_tx_def Let_def bs_def split: if_splits)
  have p: "fromCredits p = sum_list (map snd (takes bs cost))" "creditDebits p = map debit_of (takes bs cost)"
    "creditUpdates p = map update_of (takes bs cost)"
    using 1(2) assms(2) by (auto simp: allocate_closed takes_sum split: if_splits)
  have o: "debits_ok (sb_user sub) (takes bs cost) (credits d)"
    unfolding bs_def using assms(2,3) by (intro takes_debits_ok) simp_all
  show thesis
    by (rule that [of sub1 "takes bs cost" p])
      (use 1 p o load_period_keeps [OF 1(1)] in \<open>simp_all add: bs_def\<close>)
qed

lemma consume_fresh:
  assumes "ConsumeTokensV2 now dbnow fresh subID cost opID d = Inr (r, d')" "opID \<noteq> []" "\<not> claimed opID Charge d"
  obtains sub where "subs d subID = Some sub" "sb_active sub" "0 < cost" "int4 cost"
    "charge_tx now dbnow subID cost opID sub d = Inr (r, d')"
  using assms by (auto simp: ConsumeTokensV2_def Let_def split: if_splits option.splits)

lemma result_of_simps [simp]:
  "rs_Cost (result_of cost p sub) = cost" "rs_FromCredits (result_of cost p sub) = fromCredits p"
  "rs_FromMonthly (result_of cost p sub) = fromMonthly p" "rs_FromOverage (result_of cost p sub) = fromOverage p"
  "rs_CreditDebits (result_of cost p sub) = creditDebits p"
  by (simp_all add: result_of_def Let_def)

text \<open>
  Property C12. A first charge takes exactly its cost: the credit rows of the tenant grow by the
  credit share, the subscription's counters by the monthly and the overage share (after the
  rollover, where the period is over), the three add up to the cost; the rows of other users
  and the other subscriptions are untouched, and one ledger row with the breakdown is written.
\<close>

theorem ConsumeTokensV2_takes_cost:
  assumes "credits_ok (credits d)" "opID \<noteq> []" "\<not> claimed opID Charge d"
    and "ConsumeTokensV2 now dbnow fresh subID cost opID d = Inr (r, d')"
  shows "\<exists>sub sub1 sub2. subs d subID = Some sub \<and> load_period now (plans d) sub = Inr sub1
    \<and> subs d' = (subs d)(subID \<mapsto> sub2)
    \<and> ct_used (sb_counters sub2) = ct_used (sb_counters sub1) + rs_FromMonthly r
    \<and> ct_overageUsed (sb_counters sub2) = ct_overageUsed (sb_counters sub1) + rs_FromOverage r
    \<and> rs_FromCredits r + rs_FromMonthly r + rs_FromOverage r = cost
    \<and> consumed_total (credits d') = consumed_total (credits d) + rs_FromCredits r
    \<and> (\<forall>v. v \<noteq> sb_user sub \<longrightarrow> filter (\<lambda>c. cd_user c = v) (credits d') = filter (\<lambda>c. cd_user c = v) (credits d))
    \<and> ledger d' = ledger d @ [\<lparr>lg_op = opID, lg_kind = Charge, lg_subscription = subID, lg_cost = cost,
         lg_breakdown = Some (r\<lparr>rs_Subscription := None\<rparr>)\<rparr>]"
proof -
  from consume_fresh [OF assms(4,2,3)] obtain sub where sub: "subs d subID = Some sub" "0 < cost"
    "charge_tx now dbnow subID cost opID sub d = Inr (r, d')" by blast
  from charge_tx_cases [OF sub(3,2) assms(1)] obtain sub1 ts p bs where c:
    "load_period now (plans d) sub = Inr sub1" "allocateConsumption cost bs (sb_counters sub1) = Inr p"
    "debits_ok (sb_user sub) ts (credits d)" "fromCredits p = sum_list (map snd ts)"
    "r = result_of cost p (add_usage p sub1)"
    "d' = d\<lparr>subs := (subs d)(subID \<mapsto> add_usage p sub1), credits := apply_updates now (map update_of ts) (credits d),
       ledger := ledger d @ [\<lparr>lg_op = opID, lg_kind = Charge, lg_subscription = subID, lg_cost = cost,
         lg_breakdown = Some (r\<lparr>rs_Subscription := None\<rparr>)\<rparr>]\<rparr>" by metis
  have "fromCredits p + fromMonthly p + fromOverage p = cost"
    using c(2) sub(2) by (auto simp: allocate_closed split: if_splits)
  then show ?thesis
    by (intro exI [of _ sub] exI [of _ sub1] exI [of _ "add_usage p sub1"])
      (simp add: c(1) sub(1) c(5,6) consumed_total_updates [OF assms(1) c(3)] c(4)
        other_users_untouched [OF assms(1) c(3)], simp add: add_usage_def)
qed

text \<open>A small database for the witnesses: one tenant with one credit row and an allowance.\<close>

definition t0 :: time where "t0 = \<lparr>year = 2026, month = 1, day = 1, nanos = 0\<rparr>"
definition t1 :: time where "t1 = \<lparr>year = 2026, month = 1, day = 15, nanos = 0\<rparr>"
definition t2 :: time where "t2 = \<lparr>year = 2026, month = 2, day = 1, nanos = 0\<rparr>"

definition demo_rates :: rates where
  "demo_rates = \<lparr>rate_limit_rps = 1, rate_limit_burst = 1, read_rps = 0, read_burst = 0, tx_rps = 0, tx_burst = 0\<rparr>"

definition demo_sub :: subscription where
  "demo_sub = \<lparr>sb_user = ''u'', sb_plan = ''p'', sb_active = True, sb_annual = False, sb_start = t0,
     sb_end = t2, sb_counters = \<lparr>ct_used = 6, ct_limit = 10, ct_overageUsed = 0, ct_overageCap = 20,
       ct_overageEnabled = False, ct_cardPresent = False\<rparr>, sb_rates = demo_rates\<rparr>"

definition demo_db :: db where
  "demo_db = \<lparr>subs = [''s'' \<mapsto> demo_sub], plans = [''p'' \<mapsto> \<lparr>monthly_tokens = 10, pl_rates = demo_rates\<rparr>],
     credits = [\<lparr>cd_id = ''c'', cd_user = ''u'', cd_amount = 5, cd_consumed = 2, cd_expires = t2,
       cd_exhausted = None, cd_created = t0\<rparr>], ledger = []\<rparr>"

lemmas demo = demo_db_def demo_sub_def demo_rates_def t0_def t1_def t2_def before_def time_key_def

definition demo_charge :: "ConsumptionResult \<times> db" where
  "demo_charge = (case ConsumeTokensV2 t1 t1 ''f'' ''s'' 4 ''op'' demo_db of Inr x \<Rightarrow> x | Inl _ \<Rightarrow> (zero_result, demo_db))"

lemma demo_fresh: "credits_ok (credits demo_db) \<and> \<not> claimed ''op'' Charge demo_db \<and> \<not> claimed ''op'' Refund demo_db"
  by (simp add: demo credits_ok_def credit_ok_def claimed_def)

lemma demo_charges: "ConsumeTokensV2 t1 t1 ''f'' ''s'' 4 ''op'' demo_db = Inr demo_charge"
  by (simp add: demo_charge_def demo ConsumeTokensV2_def Let_def int4_def claimed_def charge_tx_def
      load_period_def allocateConsumption_def ListActiveCredits_def is_active_credit_def bucket_of_def
      avail_def in64_def empty_plan_def add_usage_def)

theorem ConsumeTokensV2_takes_cost_witness:
  "rs_FromCredits (fst demo_charge) + rs_FromMonthly (fst demo_charge) + rs_FromOverage (fst demo_charge) = 4"
  using ConsumeTokensV2_takes_cost [of demo_db "''op''" t1 t1 "''f''" "''s''" 4 "fst demo_charge" "snd demo_charge"]
    demo_fresh demo_charges by (simp only: prod.collapse list.distinct simp_thms) blast

section \<open>Replay and refund\<close>

text \<open>After a successful charge its row is in the ledger, for this subscription.\<close>

lemma consume_leaves_row:
  assumes "ConsumeTokensV2 now dbnow fresh subID cost opID d = Inr (r, d')" "opID \<noteq> []"
  obtains row sub where "claimed opID Charge d'" "charge_row subID opID d' = Some row" "subs d' subID = Some sub"
    "sb_active sub" "plans d' (sb_plan sub) \<noteq> None"
    "\<exists>b. (case lg_breakdown row of Some b \<Rightarrow> b | None \<Rightarrow> zero_result) = b \<and> rs_FromCredits b = rs_FromCredits r
       \<and> rs_FromMonthly b = rs_FromMonthly r \<and> rs_FromOverage b = rs_FromOverage r \<and> rs_Cost b = rs_Cost r
       \<and> rs_CreditDebits b = rs_CreditDebits r"
proof (cases "claimed opID Charge d")
  case True
  then have "replayLedgerCharge subID opID d = Inr (r, d')" and a: "\<exists>sub. subs d subID = Some sub \<and> sb_active sub"
    using assms by (auto simp: ConsumeTokensV2_def Let_def split: if_splits option.splits)
  then show ?thesis
    using True by (auto simp: replayLedgerCharge_def Let_def split: option.splits if_splits intro!: that)
next
  case False
  from consume_fresh [OF assms False] obtain sub where sub: "sb_active sub"
    "charge_tx now dbnow subID cost opID sub d = Inr (r, d')" by blast
  then obtain sub1 p where c: "load_period now (plans d) sub = Inr sub1" "r = result_of cost p (add_usage p sub1)"
    "plans d (sb_plan sub1) \<noteq> None"
    "d' = d\<lparr>subs := (subs d)(subID \<mapsto> add_usage p sub1), credits := apply_updates now (creditUpdates p) (credits d),
       ledger := ledger d @ [\<lparr>lg_op = opID, lg_kind = Charge, lg_subscription = subID, lg_cost = cost,
         lg_breakdown = Some (r\<lparr>rs_Subscription := None\<rparr>)\<rparr>]\<rparr>"
    by (auto simp: charge_tx_def Let_def split: if_splits)
  define row where "row = \<lparr>lg_op = opID, lg_kind = Charge, lg_subscription = subID, lg_cost = cost,
         lg_breakdown = Some (r\<lparr>rs_Subscription := None\<rparr>)\<rparr>"
  have "charge_row subID opID d' = Some row"
    using unclaimed_row [OF False, of subID] by (simp add: charge_row_def c(4) find_append row_def)
  moreover have "claimed opID Charge d'" by (simp add: claimed_def c(4))
  ultimately show ?thesis
    by (intro that [of row "add_usage p sub1"])
      (use c sub(1) load_period_keeps [OF c(1)] in \<open>auto simp: row_def\<close>)
qed

lemma replay_from_row:
  assumes "claimed opID Charge d" "charge_row subID opID d = Some row" "subs d subID = Some sub" "sb_active sub"
    "plans d (sb_plan sub) \<noteq> None" "opID \<noteq> []" "0 < cost" "int4 cost"
  shows "\<exists>r. ConsumeTokensV2 now dbnow fresh subID cost opID d = Inr (r, d)
    \<and> (\<exists>b. (case lg_breakdown row of Some b \<Rightarrow> b | None \<Rightarrow> zero_result) = b \<and> rs_FromCredits r = rs_FromCredits b
       \<and> rs_FromMonthly r = rs_FromMonthly b \<and> rs_FromOverage r = rs_FromOverage b \<and> rs_Cost r = rs_Cost b
       \<and> rs_CreditDebits r = rs_CreditDebits b) \<and> rs_Crossed r = (False, False, False, False)"
  using assms by (auto simp: ConsumeTokensV2_def replayLedgerCharge_def)

definition same_split :: "ConsumptionResult \<Rightarrow> ConsumptionResult \<Rightarrow> bool" where
  "same_split r s \<longleftrightarrow> rs_Cost r = rs_Cost s \<and> rs_FromCredits r = rs_FromCredits s
     \<and> rs_FromMonthly r = rs_FromMonthly s \<and> rs_FromOverage r = rs_FromOverage s
     \<and> rs_CreditDebits r = rs_CreditDebits s"

text \<open>
  Property C15. Charging is idempotent in the operation's identifier: repeating a charge that went
  through, at any later time and whatever cost it asks for, succeeds, changes no table at all,
  reports the split of the first charge and announces no threshold again.
\<close>

theorem ConsumeTokensV2_replays:
  assumes "ConsumeTokensV2 now dbnow fresh subID cost opID d = Inr (r, d')" "opID \<noteq> []"
    and "0 < cost2" "int4 cost2"
  shows "\<exists>r2. ConsumeTokensV2 now2 dbnow2 fresh2 subID cost2 opID d' = Inr (r2, d') \<and> same_split r2 r
    \<and> rs_Crossed r2 = (False, False, False, False)"
proof -
  from consume_leaves_row [OF assms(1,2)] obtain row sub where a:
    "claimed opID Charge d'" "charge_row subID opID d' = Some row" "subs d' subID = Some sub"
    "sb_active sub" "plans d' (sb_plan sub) \<noteq> None" and b:
    "\<exists>b. (case lg_breakdown row of Some b \<Rightarrow> b | None \<Rightarrow> zero_result) = b \<and> rs_FromCredits b = rs_FromCredits r
       \<and> rs_FromMonthly b = rs_FromMonthly r \<and> rs_FromOverage b = rs_FromOverage r \<and> rs_Cost b = rs_Cost r
       \<and> rs_CreditDebits b = rs_CreditDebits r" by blast
  show ?thesis
    using replay_from_row [OF a assms(2-4), of now2 dbnow2 fresh2] b by (auto simp: same_split_def)
qed

theorem ConsumeTokensV2_replays_witness:
  "\<exists>r2. ConsumeTokensV2 t2 t2 ''g'' ''s'' 1000 ''op'' (snd demo_charge) = Inr (r2, snd demo_charge)
     \<and> same_split r2 (fst demo_charge)"
  using ConsumeTokensV2_replays [of t1 t1 "''f''" "''s''" 4 "''op''" demo_db "fst demo_charge" "snd demo_charge"
      1000 t2 t2 "''g''"] demo_charges by (auto simp: int4_def)

text \<open>The clamp leaves the split of the charge itself alone.\<close>

lemma chargedByCredit_own:
  assumes "distinct (map CreditID ds)" "x \<in> set ds" "in64 (Amount x)"
  shows "chargedByCredit ds (CreditID x) = Amount x"
proof -
  have "filter (\<lambda>d. CreditID d = CreditID x) ds = [x]"
    using assms(1,2) by (induction ds) (auto simp: filter_empty_conv image_iff dest: sym)
  with assms(3) show ?thesis by (simp add: chargedByCredit_def)
qed

lemma clamp_debits_own:
  assumes "distinct (map CreditID ds)" "\<forall>x \<in> set ds. 0 < Amount x \<and> in64 (Amount x)"
  shows "clamp_debits ds ds = ds"
proof -
  have "map (\<lambda>d. d\<lparr>Amount := min (Amount d) (chargedByCredit ds (CreditID d))\<rparr>) ds = ds"
    using assms by (intro map_idI) (simp add: chargedByCredit_own)
  with assms(2) show ?thesis by (simp add: clamp_debits_def)
qed

lemma debits_ok_clamp:
  assumes "debits_ok user ts cs" "credits_ok cs"
  shows "clamp_debits (map debit_of ts) (map debit_of ts) = map debit_of ts"
proof (rule clamp_debits_own)
  show "distinct (map CreditID (map debit_of ts))"
    using assms(1) by (simp add: debits_ok_def debit_of_def comp_def)
  show "\<forall>x \<in> set (map debit_of ts). 0 < Amount x \<and> in64 (Amount x)"
    using assms by (fastforce simp: debits_ok_def debit_of_def credits_ok_def credit_ok_def in64_def)
qed

lemma refund_undoes_charge:
  assumes "credits_ok (credits d)" "opID \<noteq> []" "\<not> claimed opID Charge d" "\<not> claimed opID Refund d"
    and "ConsumeTokensV2 now dbnow fresh subID cost opID d = Inr (r, d')"
    and "\<forall>sub. subs d subID = Some sub \<longrightarrow> 0 \<le> ct_used (sb_counters sub) \<and> 0 \<le> ct_overageUsed (sb_counters sub)"
  shows "\<exists>sub sub1 d2. subs d subID = Some sub \<and> load_period now (plans d) sub = Inr sub1
    \<and> RefundTokensV2 subID r opID d' = Inr d2 \<and> subs d2 = (subs d)(subID \<mapsto> sub1)
    \<and> credits d2 = credits d \<and> plans d2 = plans d
    \<and> map (\<lambda>x. (lg_op x, lg_kind x)) (ledger d2) = map (\<lambda>x. (lg_op x, lg_kind x)) (ledger d) @ [(opID, Charge), (opID, Refund)]"
proof -
  from consume_fresh [OF assms(5,2,3)] obtain sub where sub: "subs d subID = Some sub" "0 < cost" "int4 cost"
    "charge_tx now dbnow subID cost opID sub d = Inr (r, d')" by blast
  from charge_tx_cases [OF sub(4,2) assms(1)] obtain sub1 ts p bs where c:
    "load_period now (plans d) sub = Inr sub1" "allocateConsumption cost bs (sb_counters sub1) = Inr p"
    "debits_ok (sb_user sub) ts (credits d)" "creditDebits p = map debit_of ts" "fromCredits p = sum_list (map snd ts)"
    "r = result_of cost p (add_usage p sub1)"
    "d' = d\<lparr>subs := (subs d)(subID \<mapsto> add_usage p sub1), credits := apply_updates now (map update_of ts) (credits d),
       ledger := ledger d @ [\<lparr>lg_op = opID, lg_kind = Charge, lg_subscription = subID, lg_cost = cost,
         lg_breakdown = Some (r\<lparr>rs_Subscription := None\<rparr>)\<rparr>]\<rparr>" by metis
  have p: "fromCredits p + fromMonthly p + fromOverage p = cost" "0 \<le> fromMonthly p" "0 \<le> fromOverage p"
    using c(2) sub(2) by (auto simp: allocate_closed monthly_budget_def split: if_splits)
  have nonneg: "0 \<le> ct_used (sb_counters sub1)" "0 \<le> ct_overageUsed (sb_counters sub1)"
    using c(1) assms(6) sub(1) by (auto simp: load_period_def split: if_splits option.splits prod.splits)
  have some: "\<not> nothing_taken r"
    using p sub(2) c(4,5,6) by (auto simp: nothing_taken_def)
  define d1 where "d1 = d'\<lparr>ledger := ledger d' @ [\<lparr>lg_op = opID, lg_kind = Refund, lg_subscription = subID,
                 lg_cost = rs_Cost r, lg_breakdown = None\<rparr>]\<rparr>"
  have "charge_row subID opID d1 = Some \<lparr>lg_op = opID, lg_kind = Charge, lg_subscription = subID, lg_cost = cost,
         lg_breakdown = Some (r\<lparr>rs_Subscription := None\<rparr>)\<rparr>"
    using unclaimed_row [OF assms(3), of subID] by (simp add: charge_row_def d1_def c(7) find_append)
  then have clamp: "clampRefundToCharge subID opID d1 r = r"
    using debits_ok_clamp [OF c(3) assms(1)] by (simp add: clampRefundToCharge_def c(4,6))
  have "\<not> claimed opID Refund d'" using assms(4) by (simp add: claimed_def c(7))
  moreover have "int4 (rs_Cost r)" using sub(3) by (simp add: c(6))
  ultimately have res: "RefundTokensV2 subID r opID d' = Inr (apply_refund subID r d1)"
    using some assms(2) clamp by (simp add: RefundTokensV2_def Let_def flip: d1_def)
  have "subs (apply_refund subID r d1) = (subs d)(subID \<mapsto> sub1)"
    using nonneg p by (auto simp: apply_refund_def d1_def c(6,7) take_usage_def add_usage_def max_def)
  moreover have "credits (apply_refund subID r d1) = credits d"
    using refund_undoes_updates [OF assms(1) c(3)] by (simp add: apply_refund_def d1_def c(6,7) c(4))
  ultimately show ?thesis
    by (intro exI [of _ sub] exI [of _ sub1] exI [of _ "apply_refund subID r d1"])
      (simp add: sub(1) c(1) res, simp add: apply_refund_def d1_def c(7))
qed

text \<open>
  Property C13. A refund undoes its charge: it puts the subscription back to its state after
  the rollover and every credit row to what it was, exhaustion mark included; the two ledger
  rows are all that remains.
\<close>

theorem RefundTokensV2_undoes_charge:
  assumes "credits_ok (credits d)" "opID \<noteq> []" "\<not> claimed opID Charge d" "\<not> claimed opID Refund d"
    and "ConsumeTokensV2 now dbnow fresh subID cost opID d = Inr (r, d')"
    and "\<forall>sub. subs d subID = Some sub \<longrightarrow> 0 \<le> ct_used (sb_counters sub) \<and> 0 \<le> ct_overageUsed (sb_counters sub)"
  shows "\<exists>sub sub1 d2. subs d subID = Some sub \<and> load_period now (plans d) sub = Inr sub1
    \<and> RefundTokensV2 subID r opID d' = Inr d2 \<and> subs d2 = (subs d)(subID \<mapsto> sub1)
    \<and> credits d2 = credits d \<and> plans d2 = plans d
    \<and> map (\<lambda>x. (lg_op x, lg_kind x)) (ledger d2) = map (\<lambda>x. (lg_op x, lg_kind x)) (ledger d) @ [(opID, Charge), (opID, Refund)]"
  using assms by (rule refund_undoes_charge)

theorem RefundTokensV2_undoes_charge_witness:
  "\<exists>d2. RefundTokensV2 ''s'' (fst demo_charge) ''op'' (snd demo_charge) = Inr d2 \<and> credits d2 = credits demo_db"
  using RefundTokensV2_undoes_charge [of demo_db "''op''" t1 t1 "''f''" "''s''" 4 "fst demo_charge" "snd demo_charge"]
    demo_fresh demo_charges by (auto simp: demo_db_def demo_sub_def)

text \<open>
  A refund is applied at most once: after a refund under an identifier every
  further refund under it, of whatever amounts, changes nothing.
\<close>

theorem RefundTokensV2_once:
  assumes "RefundTokensV2 subID r opID d = Inr d1" "opID \<noteq> []" "\<not> nothing_taken r" "int4 (rs_Cost s)"
  shows "RefundTokensV2 subID2 s opID d1 = Inr d1"
proof -
  have "claimed opID Refund d1"
    using assms(1-3) by (auto simp: RefundTokensV2_def Let_def claimed_def apply_refund_def split: if_splits)
  with assms(2,4) show ?thesis by (simp add: RefundTokensV2_def)
qed

theorem RefundTokensV2_once_witness:
  "\<exists>d2. RefundTokensV2 ''s'' (fst demo_charge) ''op'' (snd demo_charge) = Inr d2
     \<and> RefundTokensV2 ''s'' (fst demo_charge) ''op'' d2 = Inr d2"
proof -
  have r: "fst demo_charge = fst demo_charge\<lparr>rs_Cost := 4\<rparr>" "\<not> nothing_taken (fst demo_charge)"
    by (simp_all add: demo_charge_def demo ConsumeTokensV2_def Let_def int4_def claimed_def charge_tx_def
      load_period_def allocateConsumption_def ListActiveCredits_def is_active_credit_def bucket_of_def
      avail_def in64_def empty_plan_def add_usage_def nothing_taken_def result_of_def)
  have "int4 (rs_Cost (fst demo_charge))" by (subst r(1)) (simp add: int4_def)
  moreover from this obtain d2 where "RefundTokensV2 ''s'' (fst demo_charge) ''op'' (snd demo_charge) = Inr d2"
    by (cases "RefundTokensV2 ''s'' (fst demo_charge) ''op'' (snd demo_charge)")
      (auto simp: RefundTokensV2_def Let_def split: if_splits)
  ultimately show ?thesis
    using RefundTokensV2_once [of "''s''" "fst demo_charge" "''op''" "snd demo_charge" d2] r(2) by blast
qed

lemma refund_keeps_rows:
  assumes "RefundTokensV2 subID r opID d = Inr d2"
  shows "plans d2 = plans d" "claimed op Charge d \<Longrightarrow> claimed op Charge d2"
    "charge_row s op d = Some row \<Longrightarrow> charge_row s op d2 = Some row"
    "subs d s = Some sub \<Longrightarrow> \<exists>sub2. subs d2 s = Some sub2 \<and> sb_active sub2 = sb_active sub \<and> sb_plan sub2 = sb_plan sub"
  using assms by (auto simp: RefundTokensV2_def Let_def apply_refund_def claimed_def charge_row_def find_append
      take_usage_def split: if_splits)

text \<open>
  A request that was charged, refunded (the upstream failed) and tried again under
  the same identifier is not charged again: the retry finds the first charge in the ledger,
  reports its split as if it had been paid, and debits nothing, although the refund has given
  all of it back.
\<close>

theorem refunded_charge_retries_free:
  assumes "ConsumeTokensV2 now dbnow fresh subID cost opID d = Inr (r, d1)" "opID \<noteq> []"
    and "RefundTokensV2 subID r opID d1 = Inr d2" "0 < cost" "int4 cost"
  shows "\<exists>r2. ConsumeTokensV2 now2 dbnow2 fresh2 subID cost opID d2 = Inr (r2, d2) \<and> same_split r2 r"
proof -
  from consume_leaves_row [OF assms(1,2)] obtain row sub where a:
    "claimed opID Charge d1" "charge_row subID opID d1 = Some row" "subs d1 subID = Some sub"
    "sb_active sub" "plans d1 (sb_plan sub) \<noteq> None" and b:
    "\<exists>b. (case lg_breakdown row of Some b \<Rightarrow> b | None \<Rightarrow> zero_result) = b \<and> rs_FromCredits b = rs_FromCredits r
       \<and> rs_FromMonthly b = rs_FromMonthly r \<and> rs_FromOverage b = rs_FromOverage r \<and> rs_Cost b = rs_Cost r
       \<and> rs_CreditDebits b = rs_CreditDebits r" by blast
  note k = refund_keeps_rows [OF assms(3)]
  from k(4) [OF a(3)] obtain sub2 where s2: "subs d2 subID = Some sub2" "sb_active sub2" "plans d2 (sb_plan sub2) \<noteq> None"
    using a(4,5) k(1) by auto
  show ?thesis
    using replay_from_row [OF k(2) [OF a(1)] k(3) [OF a(2)] s2 assms(2,4,5), of now2 dbnow2 fresh2] b
    by (auto simp: same_split_def)
qed

theorem refunded_charge_retries_free_witness:
  "\<exists>d2 r2. RefundTokensV2 ''s'' (fst demo_charge) ''op'' (snd demo_charge) = Inr d2
     \<and> ConsumeTokensV2 t1 t1 ''g'' ''s'' 4 ''op'' d2 = Inr (r2, d2) \<and> same_split r2 (fst demo_charge)"
proof -
  obtain d2 where d2: "RefundTokensV2 ''s'' (fst demo_charge) ''op'' (snd demo_charge) = Inr d2"
    by (cases "RefundTokensV2 ''s'' (fst demo_charge) ''op'' (snd demo_charge)")
      (auto simp: demo_charge_def demo ConsumeTokensV2_def Let_def int4_def claimed_def charge_tx_def
      load_period_def allocateConsumption_def ListActiveCredits_def is_active_credit_def bucket_of_def
      avail_def in64_def empty_plan_def add_usage_def result_of_def RefundTokensV2_def split: if_splits)
  show ?thesis
    using refunded_charge_retries_free [of t1 t1 "''f''" "''s''" 4 "''op''" demo_db "fst demo_charge" "snd demo_charge"
      d2 t1 t1 "''g''"] demo_charges d2 by (auto simp: int4_def)
qed

section \<open>Granting credit\<close>

text \<open>Thirty days on from a date (\<open>now.Add(30 * 24h)\<close> in UTC): at most two month ends are crossed.\<close>

definition add_30_days :: "time \<Rightarrow> time" where
  "add_30_days t = norm_day (norm_day (t\<lparr>day := day t + 30\<rparr>))"

record CreditGrant =
  cg_UserID :: string
  cg_Amount :: int
  cg_ExpiresAt :: "time option"

text \<open>\<open>newID\<close> is the identifier the table mints, \<open>created\<close> its \<open>now()\<close>; the reason and the
  granter are labels nothing else reads.\<close>

definition GrantCredit :: "time \<Rightarrow> time \<Rightarrow> string \<Rightarrow> CreditGrant \<Rightarrow> db \<Rightarrow> store_error + (credit \<times> db)" where
  "GrantCredit now created newID g d =
     (if cg_UserID g = [] then Inl ErrNotFound
      else if cg_Amount g \<le> 0 then Inl ErrInvalid
      else let maxExp = add_30_days now;
               e = (case cg_ExpiresAt g of None \<Rightarrow> maxExp | Some e \<Rightarrow> e);
               e = (if before maxExp e then maxExp else e)
           in if \<not> before now e then Inl ErrInvalid
              else let c = \<lparr>cd_id = newID, cd_user = cg_UserID g, cd_amount = cg_Amount g, cd_consumed = 0,
                     cd_expires = e, cd_exhausted = None, cd_created = created\<rparr>
                   in Inr (c, d\<lparr>credits := credits d @ [c]\<rparr>))"

section \<open>Histories of the ledger\<close>

text \<open>One transaction after another. A grant brings a new identifier and an \<open>int64\<close> amount; a
  refund hands back a split without negative shares, as every split a charge reports is.\<close>

inductive billing_step :: "db \<Rightarrow> db \<Rightarrow> bool" where
  charge: "ConsumeTokensV2 now dbnow fresh subID cost opID d = Inr (r, d') \<Longrightarrow> fresh \<noteq> [] \<Longrightarrow> billing_step d d'"
| refund: "RefundTokensV2 subID r opID d = Inr d' \<Longrightarrow> 0 \<le> rs_FromMonthly r \<Longrightarrow> 0 \<le> rs_FromOverage r \<Longrightarrow>
     billing_step d d'"
| grant: "GrantCredit now created newID g d = Inr (c, d') \<Longrightarrow> newID \<noteq> [] \<Longrightarrow>
     newID \<notin> cd_id ` set (credits d) \<Longrightarrow> cg_Amount g < 2 ^ 63 \<Longrightarrow> billing_step d d'"

inductive_cases billing_stepE: "billing_step d d'"

text \<open>The budget of a subscription, and the tables' invariant.\<close>

definition within_budget :: "counters \<Rightarrow> bool" where
  "within_budget ct \<longleftrightarrow> 0 \<le> ct_used ct \<and> ct_used ct \<le> ct_limit ct \<and> ct_limit ct < 2 ^ 63
     \<and> 0 \<le> ct_overageUsed ct \<and> ct_overageUsed ct \<le> ct_overageCap ct \<and> ct_overageCap ct < 2 ^ 63"

definition plans_ok :: "(string \<rightharpoonup> plan) \<Rightarrow> bool" where
  "plans_ok ps \<longleftrightarrow> (\<forall>i p. ps i = Some p \<longrightarrow> 0 \<le> monthly_tokens p \<and> monthly_tokens p < 2 ^ 62)"

definition db_ok :: "db \<Rightarrow> bool" where
  "db_ok d \<longleftrightarrow> credits_ok (credits d) \<and> distinct (map (\<lambda>x. (lg_op x, lg_kind x)) (ledger d))
     \<and> plans_ok (plans d) \<and> (\<forall>i sub. subs d i = Some sub \<longrightarrow> within_budget (sb_counters sub))"

lemma load_period_budget:
  assumes "load_period now ps sub = Inr sub1" "plans_ok ps" "within_budget (sb_counters sub)"
  shows "within_budget (sb_counters sub1)"
proof (cases "before now (sb_end sub)")
  case False
  with assms(1) obtain p where p: "ps (sb_plan sub) = Some p"
    "ct_used (sb_counters sub1) = 0" "ct_limit (sb_counters sub1) = monthly_tokens p"
    "ct_overageUsed (sb_counters sub1) = 0" "ct_overageCap (sb_counters sub1) = wrap64 (monthly_tokens p * 2)"
    by (auto simp: load_period_def split: option.splits prod.splits)
  have m: "0 \<le> monthly_tokens p" "monthly_tokens p < 2 ^ 62" using assms(2) p(1) by (auto simp: plans_ok_def)
  then have "wrap64 (monthly_tokens p * 2) = monthly_tokens p * 2" by (simp add: in64_def)
  with m p show ?thesis by (simp add: within_budget_def)
qed (use assms in \<open>simp add: load_period_def\<close>)

lemma budgets:
  "within_budget ct \<Longrightarrow> monthly_budget ct = ct_limit ct - ct_used ct"
  "within_budget ct \<Longrightarrow> overage_budget ct \<le> ct_overageCap ct - ct_overageUsed ct"
  by (auto simp: within_budget_def monthly_budget_def overage_budget_def in64_def)

lemma add_usage_budget:
  assumes "within_budget (sb_counters sub)" "allocateConsumption cost bs (sb_counters sub) = Inr p" "0 < cost"
  shows "within_budget (sb_counters (add_usage p sub))"
proof -
  have p: "0 \<le> fromMonthly p" "fromMonthly p \<le> monthly_budget (sb_counters sub)" "0 \<le> fromOverage p"
    "fromOverage p \<le> overage_budget (sb_counters sub)"
    using assms(2,3) by (auto simp: allocate_closed monthly_budget_def split: if_splits)
  show ?thesis
    using p budgets [OF assms(1)] assms(1) by (simp add: within_budget_def add_usage_def)
qed

lemma charge_keeps_ok:
  assumes "db_ok d" "ConsumeTokensV2 now dbnow fresh subID cost opID0 d = Inr (r, d')" "fresh \<noteq> []"
  shows "db_ok d' \<and> (\<exists>l. ledger d' = ledger d @ l)"
proof -
  define opID where "opID = (if opID0 = [] then fresh else opID0)"
  have o: "opID \<noteq> []" "ConsumeTokensV2 now dbnow fresh subID cost opID d = Inr (r, d')"
    using assms(2,3) by (auto simp: opID_def ConsumeTokensV2_def)
  show ?thesis
  proof (cases "claimed opID Charge d")
    case True
    with o have "d' = d"
      by (auto simp: ConsumeTokensV2_def replayLedgerCharge_def Let_def split: if_splits option.splits)
    with assms(1) show ?thesis by simp
  next
    case False
    from consume_fresh [OF o(2,1) False] obtain sub where sub: "subs d subID = Some sub" "0 < cost"
      "charge_tx now dbnow subID cost opID sub d = Inr (r, d')" by blast
    have cr: "credits_ok (credits d)" using assms(1) by (simp add: db_ok_def)
    from charge_tx_cases [OF sub(3,2) cr] obtain sub1 ts p bs where c:
      "load_period now (plans d) sub = Inr sub1" "allocateConsumption cost bs (sb_counters sub1) = Inr p"
      "debits_ok (sb_user sub) ts (credits d)"
      "d' = d\<lparr>subs := (subs d)(subID \<mapsto> add_usage p sub1), credits := apply_updates now (map update_of ts) (credits d),
         ledger := ledger d @ [\<lparr>lg_op = opID, lg_kind = Charge, lg_subscription = subID, lg_cost = cost,
           lg_breakdown = Some (r\<lparr>rs_Subscription := None\<rparr>)\<rparr>]\<rparr>" by metis
    have "within_budget (sb_counters (add_usage p sub1))"
      using assms(1) sub(1) by (intro add_usage_budget [OF load_period_budget [OF c(1)] c(2) sub(2)])
        (auto simp: db_ok_def)
    with assms(1) False apply_updates_ok [OF cr c(3)] show ?thesis
      by (auto simp: db_ok_def c(4) claimed_def)
  qed
qed

lemma refund_credits_ok:
  assumes "credits_ok cs" shows "credits_ok (refund_credits ds cs)"
proof -
  have step: "credit_ok (give_back' x c)" if "credit_ok c" for x c
    using that by (auto simp: credit_ok_def give_back'_def give_back_def Let_def)
  have "credit_ok (fold give_back' ds c)" if "credit_ok c" for c
    using that by (induction ds arbitrary: c) (auto intro: step)
  moreover have id: "cd_id (fold give_back' ds c) = cd_id c" for c
    by (induction ds arbitrary: c) auto
  ultimately show ?thesis using assms by (simp add: credits_ok_def refund_credits_map comp_def)
qed

lemma take_usage_budget:
  "within_budget (sb_counters sub) \<Longrightarrow> 0 \<le> rs_FromMonthly r \<Longrightarrow> 0 \<le> rs_FromOverage r \<Longrightarrow>
   within_budget (sb_counters (take_usage r sub))"
  by (auto simp: within_budget_def take_usage_def)

definition splits_nonneg :: "db \<Rightarrow> bool" where
  "splits_nonneg d \<longleftrightarrow> (\<forall>row \<in> set (ledger d). \<forall>b. lg_breakdown row = Some b \<longrightarrow>
     0 \<le> rs_FromMonthly b \<and> 0 \<le> rs_FromOverage b)"

lemma charge_splits_nonneg:
  assumes "splits_nonneg d" "ConsumeTokensV2 now dbnow fresh subID cost opID0 d = Inr (r, d')"
  shows "splits_nonneg d'"
proof -
  have n: "0 \<le> fromMonthly p \<and> 0 \<le> fromOverage p"
    if "allocateConsumption cost bs ct = Inr p" "0 < cost" for p bs ct
    using that by (auto simp: allocate_closed monthly_budget_def split: if_splits)
  show ?thesis
    using assms by (auto simp: ConsumeTokensV2_def replayLedgerCharge_def charge_tx_def Let_def splits_nonneg_def
        split: if_splits option.splits dest!: n)
qed

lemma clamp_nonneg:
  assumes "splits_nonneg d" "0 \<le> rs_FromMonthly r" "0 \<le> rs_FromOverage r"
  shows "0 \<le> rs_FromMonthly (clampRefundToCharge subID opID d r)
    \<and> 0 \<le> rs_FromOverage (clampRefundToCharge subID opID d r)"
proof -
  have "row \<in> set (ledger d)" if "charge_row subID opID d = Some row" for row
    using that by (auto simp: charge_row_def find_Some_iff)
  with assms show ?thesis
    by (fastforce simp: clampRefundToCharge_def splits_nonneg_def split: option.split)
qed

lemma apply_refund_ok:
  assumes "db_ok d" "0 \<le> rs_FromMonthly r" "0 \<le> rs_FromOverage r"
  shows "db_ok (apply_refund subID r d)"
  using assms refund_credits_ok [of "credits d"] take_usage_budget [of _ r]
  by (auto simp: db_ok_def apply_refund_def split: if_splits)

lemma refund_keeps_ok:
  assumes "db_ok d" "splits_nonneg d" "RefundTokensV2 subID r opID d = Inr d'"
    "0 \<le> rs_FromMonthly r" "0 \<le> rs_FromOverage r"
  shows "db_ok d' \<and> splits_nonneg d' \<and> (\<exists>l. ledger d' = ledger d @ l)"
proof (cases "nothing_taken r \<or> opID = [] \<or> claimed opID Refund d")
  case True
  then consider "d' = d" | "d' = apply_refund subID r d"
    using assms(3) by (auto simp: RefundTokensV2_def split: if_splits)
  then show ?thesis
    using assms apply_refund_ok by cases (auto simp: apply_refund_def splits_nonneg_def)
next
  case False
  define d1 where "d1 = d\<lparr>ledger := ledger d @ [\<lparr>lg_op = opID, lg_kind = Refund, lg_subscription = subID,
                 lg_cost = rs_Cost r, lg_breakdown = None\<rparr>]\<rparr>"
  have ok: "db_ok d1" "splits_nonneg d1" "\<exists>l. ledger d1 = ledger d @ l"
    using assms(1,2) False by (auto simp: d1_def db_ok_def claimed_def splits_nonneg_def)
  have "d' = d1 \<or> d' = apply_refund subID (clampRefundToCharge subID opID d1 r) d1"
    using assms(3) False by (auto simp: RefundTokensV2_def Let_def d1_def split: if_splits)
  then show ?thesis
    using ok apply_refund_ok [OF ok(1)] clamp_nonneg [OF ok(2) assms(4,5), of subID opID]
    by (auto simp: apply_refund_def splits_nonneg_def)
qed

lemma grant_keeps_ok:
  assumes "db_ok d" "GrantCredit now created newID g d = Inr (c, d')" "newID \<noteq> []"
    "newID \<notin> cd_id ` set (credits d)" "cg_Amount g < 2 ^ 63"
  shows "db_ok d' \<and> ledger d' = ledger d"
proof -
  have "d' = d\<lparr>credits := credits d @ [c]\<rparr>" "cd_id c = newID" "credit_ok c"
    using assms(2,3,5) by (auto simp: GrantCredit_def Let_def credit_ok_def split: if_splits)
  with assms show ?thesis by (auto simp: db_ok_def credits_ok_def)
qed

text \<open>
  Property C14. Whatever charges, replays, refunds and grants happen in whatever order, no
  subscription ever stands above its monthly limit or its overage cap, no credit row above its
  amount, and the ledger only grows, with at most one charge and one refund under an identifier.
\<close>

theorem billing_stays_in_budget:
  assumes "billing_step\<^sup>*\<^sup>* d0 d" "db_ok d0" "splits_nonneg d0"
  shows "db_ok d \<and> (\<exists>l. ledger d = ledger d0 @ l)"
proof -
  have "db_ok d \<and> splits_nonneg d \<and> (\<exists>l. ledger d = ledger d0 @ l)"
    using assms(1)
  proof (induction rule: rtranclp_induct)
    case (step d d')
    from step.hyps(2) step.IH show ?case
    proof (cases rule: billing_step.cases)
      case (charge now dbnow fresh subID cost opID r)
      with step.IH show ?thesis
        using charge_keeps_ok [of d] charge_splits_nonneg [of d] by (metis append_assoc)
    next
      case (refund subID r opID)
      with step.IH show ?thesis using refund_keeps_ok [of d] by (metis append_assoc)
    next
      case (grant now created newID g c)
      with step.IH grant_keeps_ok [of d] show ?thesis by (auto simp: splits_nonneg_def)
    qed
  qed (use assms in simp)
  then show ?thesis by blast
qed

lemma demo_ok: "db_ok demo_db \<and> splits_nonneg demo_db"
  using demo_fresh by (simp add: db_ok_def splits_nonneg_def demo plans_ok_def within_budget_def split: if_splits)

theorem billing_stays_in_budget_witness: "db_ok (snd demo_charge)"
proof -
  have "billing_step\<^sup>*\<^sup>* demo_db (snd demo_charge)"
    using billing_step.charge [of t1 t1 "''f''" "''s''" 4 "''op''" demo_db "fst demo_charge" "snd demo_charge"]
      demo_charges by auto
  from billing_stays_in_budget [OF this] demo_ok show ?thesis by blast
qed

section \<open>The balance foretells the charge\<close>

lemma credit_total_active:
  assumes "credits_ok cs"
  shows "credit_total (map bucket_of (ListActiveCredits dbnow user cs)) = SumActiveCredits dbnow user cs"
proof -
  have "max 0 (avail (bucket_of c)) = cd_amount c - cd_consumed c" if "c \<in> set cs" for c
    using assms that by (auto simp: credits_ok_def avail_bucket credit_ok_def)
  then have "sum_list (map (\<lambda>c. max 0 (avail (bucket_of c))) (ListActiveCredits dbnow user cs))
    = sum_list (map (\<lambda>c. cd_amount c - cd_consumed c) (ListActiveCredits dbnow user cs))"
    using active_subset [of _ dbnow user cs] by (intro arg_cong [of _ _ sum_list] map_cong) auto
  also have "\<dots> = SumActiveCredits dbnow user cs"
    unfolding ListActiveCredits_def SumActiveCredits_def sum_mset_sum_list [symmetric] mset_map mset_sort ..
  finally show ?thesis by (simp add: credit_total_def comp_def)
qed

lemma balance_total:
  assumes "within_budget (sb_counters sub)"
    and "in64 (SumActiveCredits dbnow user (credits d) + monthly_budget (sb_counters sub))"
    and "in64 (SumActiveCredits dbnow user (credits d) + monthly_budget (sb_counters sub) + overage_budget (sb_counters sub))"
  shows "bl_TotalRemaining (ComputeBalance dbnow user (Some sub) d) = SumActiveCredits dbnow user (credits d)
    + monthly_budget (sb_counters sub) + overage_budget (sb_counters sub)"
  using assms by (simp add: ComputeBalance_def Let_def monthly_budget_def overage_budget_def)

text \<open>
  Inside a billing period the balance shown to a tenant is what a charge can take:
  a new charge goes through exactly when its cost is at most \<open>TotalRemaining\<close>.
\<close>

theorem ComputeBalance_foretells_charge:
  assumes "db_ok d" "subs d subID = Some sub" "sb_active sub" "plans d (sb_plan sub) \<noteq> None"
    and "before now (sb_end sub)" "opID \<noteq> []" "\<not> claimed opID Charge d" "0 < cost" "int4 cost"
    and "in64 (SumActiveCredits dbnow (sb_user sub) (credits d) + monthly_budget (sb_counters sub))"
    and "in64 (SumActiveCredits dbnow (sb_user sub) (credits d) + monthly_budget (sb_counters sub)
      + overage_budget (sb_counters sub))"
  shows "(\<exists>r d'. ConsumeTokensV2 now dbnow fresh subID cost opID d = Inr (r, d')) \<longleftrightarrow>
    cost \<le> bl_TotalRemaining (ComputeBalance dbnow (sb_user sub) (Some sub) d)"
proof -
  define bs where "bs = map bucket_of (ListActiveCredits dbnow (sb_user sub) (credits d))"
  have b: "within_budget (sb_counters sub)" and cr: "credits_ok (credits d)" using assms(1,2) by (auto simp: db_ok_def)
  have lp: "load_period now (plans d) sub = Inr sub" using assms(5) by (simp add: load_period_def)
  have fit: "in64 (ct_used (sb_counters (add_usage p sub))) \<and> in64 (ct_overageUsed (sb_counters (add_usage p sub)))"
    if "allocateConsumption cost bs (sb_counters sub) = Inr p" for p
    using add_usage_budget [OF b that assms(8)] by (simp add: within_budget_def in64_def)
  have "(\<exists>r d'. ConsumeTokensV2 now dbnow fresh subID cost opID d = Inr (r, d'))
    \<longleftrightarrow> (\<exists>p. allocateConsumption cost bs (sb_counters sub) = Inr p)"
  proof (cases "allocateConsumption cost bs (sb_counters sub)")
    case (Inr p)
    then show ?thesis
      using assms(2-9) fit [OF Inr] by (simp add: ConsumeTokensV2_def charge_tx_def lp Let_def flip: bs_def)
  qed (use assms(2-9) in \<open>simp add: ConsumeTokensV2_def charge_tx_def lp Let_def flip: bs_def\<close>)
  also have "\<dots> \<longleftrightarrow> cost \<le> credit_total bs + monthly_budget (sb_counters sub) + overage_budget (sb_counters sub)"
  proof -
    have "0 \<le> monthly_budget (sb_counters sub)" "0 \<le> overage_budget (sb_counters sub)"
      by (simp_all add: monthly_budget_def overage_budget_def)
    then show ?thesis using assms(8) credit_total_nonneg [of bs] by (auto simp: allocate_closed min_def)
  qed
  finally show ?thesis
    using balance_total [OF b assms(10,11)] by (simp add: bs_def credit_total_active [OF cr])
qed

theorem ComputeBalance_foretells_charge_witness:
  "\<not> (\<exists>r d'. ConsumeTokensV2 t1 t1 ''f'' ''s'' 8 ''op'' demo_db = Inr (r, d'))"
  using ComputeBalance_foretells_charge [of demo_db "''s''" demo_sub t1 "''op''" 8 t1 "''f''"] demo_ok demo_fresh
  by (simp add: demo ComputeBalance_def SumActiveCredits_def is_active_credit_def in64_def monthly_budget_def
      overage_budget_def int4_def)

end
