(* ===== verification/Access.thy ===== *)
theory Access
  imports Prelude HumanFmt AuthCore Ledger Idempotency
begin

text \<open>
  Who may call: the API key in the headers, its look-up (\<open>store/keys.go\<close>), and the two allowlists of a
  key, \<open>gateway/internal/auth\<close>, with the address of the caller (\<open>api/realip.go\<close>). The parsers of addresses
  and of URLs are parameters, chi's \<open>RealIP\<close> too; header keys are in their canonical form and header values
  ASCII.
\<close>

unbundle bit_operations_syntax

section \<open>The API key of a request\<close>

definition hget :: "header \<Rightarrow> string \<Rightarrow> string" where
  "hget h k = (case h k of Some (v # _) \<Rightarrow> v | _ \<Rightarrow> [])"

definition EqualFold :: "string \<Rightarrow> string \<Rightarrow> bool" where
  "EqualFold a b \<longleftrightarrow> ToLower a = ToLower b"

definition ExtractAPIKey :: "header \<Rightarrow> string" where
  "ExtractAPIKey h =
     (let v = TrimSpace (hget h ''X-Api-Key'') in
      if v \<noteq> [] then v
      else let v = TrimSpace (hget h ''Authorization''); bearer = ''bearer '' in
        if v \<noteq> [] \<and> length bearer < length v \<and> EqualFold (take (length bearer) v) bearer
        then TrimSpace (drop (length bearer) v) else [])"

section \<open>The address of the caller\<close>

fun last_index :: "char \<Rightarrow> string \<Rightarrow> nat option" where
  "last_index c [] = None"
| "last_index c (x # xs) = (case last_index c xs of Some i \<Rightarrow> Some (Suc i) | None \<Rightarrow> if x = c then Some 0 else None)"

fun first_index :: "char \<Rightarrow> string \<Rightarrow> nat option" where
  "first_index c [] = None"
| "first_index c (x # xs) = (if x = c then Some 0 else map_option Suc (first_index c xs))"

text \<open>\<open>net.SplitHostPort\<close>, its host.\<close>

definition SplitHost :: "string \<Rightarrow> string option" where
  "SplitHost a =
     (case last_index (CHR '':'') a of
        None \<Rightarrow> None
      | Some i \<Rightarrow>
          if hd a = CHR ''['' then
            (case first_index (CHR '']'') a of
               None \<Rightarrow> None
             | Some e \<Rightarrow>
                 if Suc e \<noteq> i then None
                 else if CHR ''['' \<in> set (drop 1 a) \<or> CHR '']'' \<in> set (drop (Suc e) a) then None
                 else Some (drop 1 (take e a)))
          else if CHR '':'' \<in> set (take i a) \<or> CHR ''['' \<in> set a \<or> CHR '']'' \<in> set a then None
          else Some (take i a))"

definition hostFromAddr :: "string \<Rightarrow> string" where
  "hostFromAddr a = (case SplitHost a of Some h \<Rightarrow> h | None \<Rightarrow> a)"

text \<open>Networks. \<open>net.ParseIP\<close> gives sixteen bytes; a text without a colon is an IPv4 address.\<close>

definition v4_prefix :: bytes where
  "v4_prefix = replicate 10 0 @ [255, 255]"

definition ip_to4 :: "bytes \<Rightarrow> bytes" where
  "ip_to4 ip = (if length ip = 16 \<and> take 12 ip = v4_prefix then drop 12 ip else ip)"

record cidr =
  cn_IP :: bytes
  cn_Mask :: bytes

definition mask_byte :: "nat \<Rightarrow> byte" where
  "mask_byte k = of_nat (256 - 2 ^ (8 - min 8 k))"

definition CIDRMask :: "nat \<Rightarrow> nat \<Rightarrow> bytes" where
  "CIDRMask n bits = map (\<lambda>i. mask_byte (n - 8 * i)) [0..<bits div 8]"

definition dtoi :: "string \<Rightarrow> nat option" where
  "dtoi s = (if s \<noteq> [] \<and> list_all is_digit s \<and> undec s < 16777215 then Some (undec s) else None)"

definition ParseCIDR :: "(string \<Rightarrow> bytes option) \<Rightarrow> string \<Rightarrow> cidr option" where
  "ParseCIDR ip s =
     (case first_index (CHR ''/'') s of
        None \<Rightarrow> None
      | Some i \<Rightarrow>
          let addr = take i s; bits = (if CHR '':'' \<in> set addr then 128 else 32) in
          (case (ip addr, dtoi (drop (Suc i) s)) of
             (Some a, Some n) \<Rightarrow>
               if bits < n then None
               else let m = CIDRMask n bits; a = (if bits = 32 then ip_to4 a else a)
                 in Some \<lparr>cn_IP = map2 (AND) a m, cn_Mask = m\<rparr>
           | _ \<Rightarrow> None))"

definition Contains :: "cidr \<Rightarrow> bytes \<Rightarrow> bool" where
  "Contains n ip =
     (let nn = ip_to4 (cn_IP n);
          m = (if length (cn_Mask n) = 16 \<and> length nn = 4 then drop 12 (cn_Mask n) else cn_Mask n);
          x = ip_to4 ip
      in length x = length nn \<and> map2 (AND) nn m = map2 (AND) x m)"

definition remoteIPTrusted :: "(string \<Rightarrow> bytes option) \<Rightarrow> string \<Rightarrow> cidr list \<Rightarrow> bool" where
  "remoteIPTrusted ip addr trusted =
     (case ip (hostFromAddr addr) of None \<Rightarrow> False | Some a \<Rightarrow> list_ex (\<lambda>n. Contains n a) trusted)"

text \<open>The remote address the handlers see; \<open>realip\<close> is chi's rewriting of it from the headers.\<close>

definition trustedRealIP :: "(string \<Rightarrow> bytes option) \<Rightarrow> (header \<Rightarrow> string \<Rightarrow> string) \<Rightarrow> string list \<Rightarrow> header \<Rightarrow> string \<Rightarrow> string" where
  "trustedRealIP ip realip trustedCIDRs h addr =
     (let trusted = List.map_filter (ParseCIDR ip) trustedCIDRs in
      if trusted = [] \<or> \<not> remoteIPTrusted ip addr trusted then addr else realip h addr)"

section \<open>The allowlists of a key\<close>

definition entry_matches :: "(string \<Rightarrow> bytes option) \<Rightarrow> bytes \<Rightarrow> string \<Rightarrow> bool" where
  "entry_matches ip a entry0 =
     (let entry = TrimSpace entry0 in
      if entry = [] then False
      else if CHR ''/'' \<in> set entry then (case ParseCIDR ip entry of None \<Rightarrow> False | Some n \<Rightarrow> Contains n a)
      else (case ip entry of None \<Rightarrow> False | Some b \<Rightarrow> b = a))"

definition MatchesIPAllowlist :: "(string \<Rightarrow> bytes option) \<Rightarrow> string list \<Rightarrow> string \<Rightarrow> bool" where
  "MatchesIPAllowlist ip allowlist callerIP =
     (if allowlist = [] then True
      else case ip (TrimSpace callerIP) of None \<Rightarrow> False | Some a \<Rightarrow> list_ex (entry_matches ip a) allowlist)"

definition ValidateIPAllowlist :: "(string \<Rightarrow> bytes option) \<Rightarrow> string list \<Rightarrow> string" where
  "ValidateIPAllowlist ip allowlist =
     (case find (\<lambda>entry0. let entry = TrimSpace entry0 in entry \<noteq> []
           \<and> (if CHR ''/'' \<in> set entry then ParseCIDR ip entry = None else ip entry = None)) allowlist of
        Some e \<Rightarrow> TrimSpace e | None \<Rightarrow> [])"

record ourl =
  ou_Scheme :: string
  ou_Host :: string
  ou_Path :: string
  ou_Query :: string
  ou_Fragment :: string
  ou_User :: bool

definition NormalizeOrigin :: "(string \<Rightarrow> ourl option) \<Rightarrow> string \<Rightarrow> string" where
  "NormalizeOrigin parse entry0 =
     (let entry = TrimSpace entry0 in
      if entry = [] then []
      else case parse entry of
        None \<Rightarrow> []
      | Some u \<Rightarrow>
          let scheme = ToLower (ou_Scheme u) in
          if scheme \<notin> {''http'', ''https''} then []
          else if ou_Host u = [] then []
          else if ou_Path u \<noteq> [] \<and> ou_Path u \<noteq> ''/'' then []
          else if ou_Query u \<noteq> [] \<or> ou_Fragment u \<noteq> [] \<or> ou_User u then []
          else scheme @ ''://'' @ ToLower (ou_Host u))"

definition ValidateOriginAllowlist :: "(string \<Rightarrow> ourl option) \<Rightarrow> string list \<Rightarrow> string" where
  "ValidateOriginAllowlist parse allowlist =
     (case find (\<lambda>e. TrimSpace e \<noteq> [] \<and> NormalizeOrigin parse e = []) allowlist of Some e \<Rightarrow> e | None \<Rightarrow> [])"

definition MatchesOriginAllowlist :: "(string \<Rightarrow> ourl option) \<Rightarrow> string list \<Rightarrow> string \<Rightarrow> bool" where
  "MatchesOriginAllowlist parse allowlist requestOrigin =
     (if allowlist = [] then True
      else let o' = NormalizeOrigin parse requestOrigin in
        if o' = [] then True else list_ex (\<lambda>entry. NormalizeOrigin parse entry = o') allowlist)"

section \<open>The look-up of a key\<close>

record api_key =
  ak_id :: string
  ak_user :: string
  ak_hash :: string
  ak_scopes :: "string list"
  ak_ips :: "string list"
  ak_origins :: "string list"
  ak_revoked :: bool

record authed =
  au_user :: string
  au_key :: api_key
  au_sub :: "(string \<times> subscription) option"

text \<open>The left join: the active subscription of a user, of which the database has at most one
  (\<open>idx_subscriptions_one_active\<close>). \<open>ids\<close> are the identifiers of the table's rows.\<close>

definition active_subscription :: "string list \<Rightarrow> db \<Rightarrow> string \<Rightarrow> (string \<times> subscription) option" where
  "active_subscription ids d user =
     (case find (\<lambda>i. case subs d i of Some s \<Rightarrow> sb_user s = user \<and> sb_active s | None \<Rightarrow> False) ids of
        None \<Rightarrow> None
      | Some i \<Rightarrow> map_option (Pair i) (subs d i))"

datatype key_error = KeyNotFound | KeyRevoked

definition AuthenticateAPIKey :: "string list \<Rightarrow> db \<Rightarrow> api_key list \<Rightarrow> string \<Rightarrow> key_error + authed" where
  "AuthenticateAPIKey ids d keys hashed =
     (case find (\<lambda>k. ak_hash k = hashed) keys of
        None \<Rightarrow> Inl KeyNotFound
      | Some k \<Rightarrow>
          if ak_revoked k then Inl KeyRevoked
          else Inr \<lparr>au_user = ak_user k, au_key = k, au_sub = active_subscription ids d (ak_user k)\<rparr>)"

lemma active_subscription_Some:
  "active_subscription ids d user = Some (i, s) \<Longrightarrow> subs d i = Some s \<and> sb_user s = user \<and> sb_active s \<and> i \<in> set ids"
  by (auto simp: active_subscription_def find_Some_iff split: option.splits)

lemma AuthenticateAPIKey_Inr:
  "AuthenticateAPIKey ids d keys hashed = Inr a \<Longrightarrow>
     au_key a \<in> set keys \<and> ak_hash (au_key a) = hashed \<and> \<not> ak_revoked (au_key a) \<and> au_user a = ak_user (au_key a)
     \<and> au_sub a = active_subscription ids d (ak_user (au_key a))"
  by (auto simp: AuthenticateAPIKey_def find_Some_iff split: option.splits if_splits)

end
