(* ===== verification/Gateway.thy ===== *)
theory Gateway
  imports ClearSigning Challenges RateLimit Catalogue Access
begin

text \<open>
  The path of a request through the gateway: the middlewares of \<open>gateway/internal/api/middleware.go\<close>, the
  proxy of \<open>api/proxy.go\<close> with the rewriting of \<open>upstream/upstream.go\<close>, the MCP charges, and the chains
  \<open>api/server.go\<close> builds of them. A handler takes the request, the headers set on the response so far
  and the state, and gives the response and the state, so a middleware is a function on handlers as in the
  code. Requests run one after the other (how the requests under one idempotency key interleave is in
  theory Idempotency); what fails around a request, and what the upstream answers, is its environment.
  A refusal has its code for a body. Metrics, logs and the timeouts of the calls are left out.
\<close>

section \<open>State and surroundings\<close>

record hreq =
  hr_method :: string
  hr_path :: string
  hr_header :: header
  hr_remote :: string
  hr_body :: bytes
  hr_limit :: "nat option"
  hr_params :: "(string \<times> string) list"
  hr_id :: string
  hr_loopback :: bool
  hr_auth :: "authed option"
  hr_cost :: int
  hr_consumption :: "ConsumptionResult option"
  hr_op :: string

record upcall =
  uc_upstream :: string
  uc_method :: string
  uc_path :: string
  uc_header :: header
  uc_body :: bytes

record usage_event =
  us_user :: string
  us_key :: string
  us_sub :: "string option"
  us_route :: string
  us_cost :: int
  us_status :: int
  us_request :: string

text \<open>\<open>gw_fed\<close> is what the circuit breakers were told; \<open>gw_replays\<close> what \<open>OnReplay\<close> wrote to the audit log;
  \<open>gw_usage\<close> the channel of the usage recorder; \<open>gw_touched\<close> the debounce of \<open>last_used_at\<close> and
  \<open>gw_touches\<close> its writes.\<close>

record gw =
  gw_db :: db
  gw_subIDs :: "string list"
  gw_keys :: "api_key list"
  gw_redis :: "string \<rightharpoonup> redis_value"
  gw_buckets :: buckets
  gw_calls :: "upcall list"
  gw_fed :: "(string \<times> bool) list"
  gw_replays :: "(string \<times> string \<times> int) list"
  gw_usage :: "usage_event list"
  gw_drops :: nat
  gw_touched :: "string \<rightharpoonup> int"
  gw_touches :: "string list"

datatype answer = Answer int header bytes | ClientGone | Broken

record env =
  ev_now :: time
  ev_dbnow :: time
  ev_ms :: int
  ev_redis_ms :: int
  ev_saved :: string
  ev_uuid :: string
  ev_id :: string
  ev_keys_down :: bool
  ev_charge_down :: bool
  ev_refund_down :: bool
  ev_limiter :: eval
  ev_get_down :: bool
  ev_setnx_down :: bool
  ev_set_down :: bool
  ev_del_down :: bool
  ev_open :: "string \<Rightarrow> bool"
  ev_answer :: answer

record target =
  tg_proxy :: bool
  tg_base_path :: string
  tg_authValue :: string

text \<open>What a deployment fixes.\<close>

record site =
  si_production :: bool
  si_trusted :: "string list"
  si_ip :: "string \<Rightarrow> bytes option"
  si_realip :: "header \<Rightarrow> string \<Rightarrow> string"
  si_url :: "string \<Rightarrow> ourl option"
  si_requestID :: "header \<Rightarrow> string \<Rightarrow> string"
  si_sha :: "bytes \<Rightarrow> bytes"
  si_limiter :: limiter
  si_idempotency :: bool
  si_failClosed :: bool
  si_maxBody :: nat
  si_costs :: "string \<rightharpoonup> int"
  si_defaultCost :: int
  si_targets :: "string \<Rightarrow> target option"

text \<open>\<open>Registry.Get\<close>, and the header \<open>NewRegistry\<close> has the gateway authenticate with.\<close>

definition Get_target :: "site \<Rightarrow> string \<Rightarrow> target option" where
  "Get_target N name = (if name \<in> {''ika'', ''encrypt'', ''intents''} then si_targets N name else None)"

definition authHeader :: "string \<Rightarrow> string" where
  "authHeader name = (if name = ''ika'' then ''X-Api-Key'' else ''X-Internal-Key'')"

type_synonym handler = "hreq \<Rightarrow> header \<Rightarrow> gw \<Rightarrow> resp \<times> gw"

definition hset :: "string \<Rightarrow> string \<Rightarrow> header \<Rightarrow> header" where
  "hset k v h = h(k \<mapsto> [v])"

definition writeError :: "int \<Rightarrow> string \<Rightarrow> header \<Rightarrow> gw \<Rightarrow> resp \<times> gw" where
  "writeError status code w S =
     (\<lparr>rp_status = status, rp_header = hset ''Content-Type'' ''application/json'' w, rp_body = ascii code\<rparr>, S)"

definition Hash :: "site \<Rightarrow> string \<Rightarrow> string" where
  "Hash N key = hex_lower (si_sha N (ascii key))"

section \<open>Authentication\<close>

definition apiKeyTouchInterval :: int where "apiKeyTouchInterval = 60000"

definition maybeTouchAPIKey :: "env \<Rightarrow> string \<Rightarrow> gw \<Rightarrow> gw" where
  "maybeTouchAPIKey E i S =
     (let touch = S\<lparr>gw_touched := (gw_touched S)(i \<mapsto> ev_ms E), gw_touches := gw_touches S @ [i]\<rparr> in
      case gw_touched S i of
        Some t \<Rightarrow> if ev_ms E - t < apiKeyTouchInterval then S else touch
      | None \<Rightarrow> touch)"

definition callerIP :: "hreq \<Rightarrow> string" where
  "callerIP r = hostFromAddr (hr_remote r)"

definition requireAPIKey :: "site \<Rightarrow> env \<Rightarrow> handler \<Rightarrow> handler" where
  "requireAPIKey N E next' r w S =
     (let raw = ExtractAPIKey (hr_header r) in
      if raw = [] then writeError 401 ''missing_api_key'' w S
      else if ev_keys_down E then writeError 500 ''internal_error'' w S
      else case AuthenticateAPIKey (gw_subIDs S) (gw_db S) (gw_keys S) (Hash N raw) of
        Inl _ \<Rightarrow> writeError 401 ''invalid_api_key'' w S
      | Inr a \<Rightarrow>
          let k = au_key a in
          if ak_ips k \<noteq> [] \<and> si_production N \<and> si_trusted N = [] then writeError 403 ''ip_allowlist_unsupported'' w S
          else if \<not> MatchesIPAllowlist (si_ip N) (ak_ips k) (callerIP r) then writeError 403 ''ip_not_allowed'' w S
          else if \<not> MatchesOriginAllowlist (si_url N) (ak_origins k) (hget (hr_header r) ''Origin'')
            then writeError 403 ''origin_not_allowed'' w S
          else next' (r\<lparr>hr_auth := Some a\<rparr>) w (maybeTouchAPIKey E (ak_id k) S))"

definition requireScope :: "string \<Rightarrow> handler \<Rightarrow> handler" where
  "requireScope scope next' r w S =
     (case hr_auth r of
        None \<Rightarrow> writeError 401 ''missing_api_key'' w S
      | Some a \<Rightarrow> if HasScope (ak_scopes (au_key a)) scope then next' r w S else writeError 403 ''scope_missing'' w S)"

definition auth_sub :: "hreq \<Rightarrow> (string \<times> subscription) option" where
  "auth_sub r = (case hr_auth r of None \<Rightarrow> None | Some a \<Rightarrow> au_sub a)"

definition requireSubscription :: "handler \<Rightarrow> handler" where
  "requireSubscription next' r w S =
     (if auth_sub r = None then writeError 403 ''no_active_subscription'' w S else next' r w S)"

section \<open>Rate limit\<close>

definition rateLimitFor :: "subscription \<Rightarrow> string \<Rightarrow> int \<times> int" where
  "rateLimitFor sub c =
     (let p = (if c = RateClassRead then (read_rps (sb_rates sub), read_burst (sb_rates sub))
               else (tx_rps (sb_rates sub), tx_burst (sb_rates sub)))
      in if fst p = 0 \<and> snd p = 0 then (rate_limit_rps (sb_rates sub), rate_limit_burst (sb_rates sub)) else p)"

definition applyRateLimitFor :: "site \<Rightarrow> env \<Rightarrow> string \<Rightarrow> handler \<Rightarrow> handler" where
  "applyRateLimitFor N E c next' r w S =
     (case hr_auth r of
        Some a \<Rightarrow> (case au_sub a of
          Some (_, sub) \<Rightarrow>
            let (rps, burst) = rateLimitFor sub c;
                (v, b) = Allow (si_limiter N) (ev_limiter E) (ev_redis_ms E) (ev_ms E) (ak_id (au_key a) @ '':'' @ c) rps burst (gw_buckets S);
                S1 = S\<lparr>gw_buckets := b\<rparr>;
                w1 = hset ''X-Andromeda-Ratelimit-Class'' c w
            in (case v of
                  Limited \<Rightarrow> writeError 429 ''rate_limited'' (hset ''Retry-After'' ''1'' w1) S1
                | Unavailable \<Rightarrow> writeError 503 ''rate_limit_unavailable'' w S1
                | Admitted \<Rightarrow> next' r w1 S1)
        | None \<Rightarrow> next' r w S)
      | None \<Rightarrow> next' r w S)"

section \<open>Charge and refund\<close>

definition Cost :: "site \<Rightarrow> string \<Rightarrow> int" where
  "Cost N key = (case si_costs N key of Some c \<Rightarrow> c | None \<Rightarrow> max 1 (si_defaultCost N))"

definition opID :: "string \<Rightarrow> string \<Rightarrow> hreq \<Rightarrow> string" where
  "opID subID routeKey r =
     (let idemKey = TrimSpace (hget (hr_header r) ''Idempotency-Key'') in
      subID @ '':'' @ routeKey @ '':'' @ (if idemKey = [] then hr_id r else idemKey))"

definition charge_headers :: "int \<Rightarrow> ConsumptionResult \<Rightarrow> header \<Rightarrow> header" where
  "charge_headers cost res w =
     (let limit = (case rs_Subscription res of Some s \<Rightarrow> ct_limit (sb_counters s) | None \<Rightarrow> 0);
          w1 = hset ''X-Andromeda-Tokens-Limit'' (IntDec limit)
            (hset ''X-Andromeda-Tokens-Used'' (IntDec (rs_TokensUsed res)) (hset ''X-Andromeda-Tokens-Cost'' (IntDec cost) w));
          w2 = (if 0 < rs_FromCredits res then hset ''X-Andromeda-Tokens-From-Credits'' (IntDec (rs_FromCredits res)) w1 else w1)
      in if 0 < rs_FromOverage res
         then hset ''X-Andromeda-Overage-Used'' (IntDec (rs_OverageUsed res))
            (hset ''X-Andromeda-Tokens-From-Overage'' (IntDec (rs_FromOverage res)) w2)
         else w2)"

definition chargeQuota :: "site \<Rightarrow> env \<Rightarrow> string \<Rightarrow> handler \<Rightarrow> handler" where
  "chargeQuota N E routeKey next' r w S =
     (if hr_loopback r then next' r w S
      else case auth_sub r of
        None \<Rightarrow> writeError 403 ''no_active_subscription'' w S
      | Some (subID, sub) \<Rightarrow>
          let cost = max 1 (Cost N routeKey); op' = opID subID routeKey r in
          if ev_charge_down E then writeError 500 ''internal_error'' w S
          else case ConsumeTokensV2 (ev_now E) (ev_dbnow E) (ev_uuid E) subID cost op' (gw_db S) of
            Inl ErrQuotaExceeded \<Rightarrow>
              writeError 402 ''quota_exceeded'' (hset ''X-Andromeda-Tokens-Limit'' (IntDec (ct_limit (sb_counters sub))) w) S
          | Inl _ \<Rightarrow> writeError 500 ''internal_error'' w S
          | Inr (res, d) \<Rightarrow>
              next' (r\<lparr>hr_cost := cost, hr_consumption := Some res, hr_op := op'\<rparr>) (charge_headers cost res w) (S\<lparr>gw_db := d\<rparr>))"

definition refund :: "env \<Rightarrow> hreq \<Rightarrow> gw \<Rightarrow> gw" where
  "refund E r S =
     (case (auth_sub r, hr_consumption r) of
        (Some (subID, _), Some c) \<Rightarrow>
          if ev_refund_down E then S
          else (case RefundTokensV2 subID c (hr_op r) (gw_db S) of Inl _ \<Rightarrow> S | Inr d \<Rightarrow> S\<lparr>gw_db := d\<rparr>)
      | _ \<Rightarrow> S)"

definition refundOnError :: "env \<Rightarrow> handler \<Rightarrow> handler" where
  "refundOnError E next' r w S = (let (x, S1) = next' r w S in (x, if 500 \<le> rp_status x then refund E r S1 else S1))"

definition usageBuffer :: nat where "usageBuffer = 4096"

definition recordUsage :: "hreq \<Rightarrow> string \<Rightarrow> int \<Rightarrow> bool \<Rightarrow> gw \<Rightarrow> gw" where
  "recordUsage r routeKey status refunded S =
     (case hr_auth r of
        None \<Rightarrow> S
      | Some a \<Rightarrow>
          if length (gw_usage S) < usageBuffer
          then S\<lparr>gw_usage := gw_usage S @ [\<lparr>us_user = au_user a, us_key = ak_id (au_key a),
            us_sub = map_option fst (au_sub a), us_route = routeKey, us_cost = (if refunded then 0 else hr_cost r),
            us_status = status, us_request = hr_id r\<rparr>]\<rparr>
          else S\<lparr>gw_drops := Suc (gw_drops S)\<rparr>)"

section \<open>Headers of the proxied request\<close>

text \<open>\<open>http.CanonicalHeaderKey\<close>, for \<open>Del\<close> under a name a client chose.\<close>

definition token_char :: "char \<Rightarrow> bool" where
  "token_char c \<longleftrightarrow> (let n = (of_char c :: nat) in
     (48 \<le> n \<and> n \<le> 57) \<or> (65 \<le> n \<and> n \<le> 90) \<or> (97 \<le> n \<and> n \<le> 122) \<or> n \<in> {33, 35, 36, 37, 38, 39, 42, 43, 45, 46, 94, 95, 96, 124, 126})"

definition upper :: "char \<Rightarrow> char" where
  "upper c = (let n = (of_char c :: nat) in if 97 \<le> n \<and> n \<le> 122 then char_of (n - 32) else c)"

fun canon_loop :: "bool \<Rightarrow> string \<Rightarrow> string" where
  "canon_loop up [] = []"
| "canon_loop up (c # cs) = (if up then upper c else lower c) # canon_loop (c = CHR ''-'') cs"

definition CanonicalHeaderKey :: "string \<Rightarrow> string" where
  "CanonicalHeaderKey s = (if list_all token_char s then canon_loop True s else s)"

definition hdel :: "string \<Rightarrow> header \<Rightarrow> header" where
  "hdel k h = h(CanonicalHeaderKey k := None)"

definition stripAndromedaHeaders :: "header \<Rightarrow> header" where
  "stripAndromedaHeaders h k =
     (if length ''X-Andromeda-'' \<le> length k \<and> EqualFold (take (length ''X-Andromeda-'') k) ''X-Andromeda-'' then None else h k)"

definition hopHeaders :: "string list" where
  "hopHeaders = [''Connection'', ''Proxy-Connection'', ''Keep-Alive'', ''Proxy-Authenticate'', ''Proxy-Authorization'',
     ''Te'', ''Trailer'', ''Transfer-Encoding'', ''Upgrade'']"

text \<open>\<open>httputil.ReverseProxy\<close> before and after \<open>Rewrite\<close>; upgrades and trailers are left out.\<close>

definition connection_options :: "header \<Rightarrow> string list" where
  "connection_options h =
     (case h ''Connection'' of None \<Rightarrow> [] | Some vs \<Rightarrow>
       filter (\<lambda>s. s \<noteq> []) (map TrimSpace (concat (map (splits (CHR '','')) vs))))"

definition removeHopByHopHeaders :: "header \<Rightarrow> header" where
  "removeHopByHopHeaders h = fold hdel hopHeaders (fold hdel (connection_options h) h)"

definition strip_forwarding :: "header \<Rightarrow> header" where
  "strip_forwarding h = fold hdel [''Forwarded'', ''X-Forwarded-For'', ''X-Forwarded-Host'', ''X-Forwarded-Proto''] h"

definition singleJoiningSlash :: "string \<Rightarrow> string \<Rightarrow> string" where
  "singleJoiningSlash a b =
     (let aslash = suffix ''/'' a; bslash = prefix ''/'' b in
      if aslash \<and> bslash then a @ tl b else if \<not> aslash \<and> \<not> bslash then a @ ''/'' @ b else a @ b)"

definition Rewrite :: "string \<Rightarrow> target \<Rightarrow> hreq \<Rightarrow> header \<Rightarrow> string \<times> header" where
  "Rewrite name t r h =
     (let path0 = singleJoiningSlash (tg_base_path t) (hr_path r);
          rewritten = hget h ''X-Andromeda-Upstream-Path'';
          path = (if rewritten \<noteq> [] then rewritten else path0);
          h1 = (if rewritten \<noteq> [] then hdel ''X-Andromeda-Upstream-Path'' h else h);
          h2 = hdel ''X-Internal-Key'' (hdel ''X-Api-Key'' (hdel ''Authorization'' h1))
      in (path, if tg_authValue t \<noteq> [] then hset (authHeader name) (tg_authValue t) h2 else h2))"

text \<open>A body over the limit breaks the upload off, and with it the round trip.\<close>

definition over_limit :: "hreq \<Rightarrow> bool" where
  "over_limit r \<longleftrightarrow> (case hr_limit r of None \<Rightarrow> False | Some m \<Rightarrow> m < length (hr_body r))"

definition StatusClientClosedRequest :: int where "StatusClientClosedRequest = 499"

definition add_header :: "header \<Rightarrow> header \<Rightarrow> header" where
  "add_header w h k = (case (w k, h k) of (None, x) \<Rightarrow> x | (x, None) \<Rightarrow> x | (Some a, Some b) \<Rightarrow> Some (a @ b))"

definition ServeProxy :: "env \<Rightarrow> string \<Rightarrow> target \<Rightarrow> handler" where
  "ServeProxy E name t r w S =
     (let (path, h) = Rewrite name t r (strip_forwarding (removeHopByHopHeaders (hr_header r)));
          S1 = S\<lparr>gw_calls := gw_calls S @ [\<lparr>uc_upstream = name, uc_method = hr_method r, uc_path = path, uc_header = h, uc_body = hr_body r\<rparr>]\<rparr>
      in (case (if over_limit r then Broken else ev_answer E) of
            ClientGone \<Rightarrow> (\<lparr>rp_status = StatusClientClosedRequest, rp_header = w, rp_body = []\<rparr>, S1)
          | Broken \<Rightarrow> writeError 502 ''upstream_error'' w S1
          | Answer status h body \<Rightarrow>
              (\<lparr>rp_status = status, rp_header = add_header w (hset ''X-Andromeda-Upstream'' name (removeHopByHopHeaders h)),
                rp_body = body\<rparr>, S1)))"

section \<open>The proxy\<close>

fun ReplaceAll_fuel :: "nat \<Rightarrow> string \<Rightarrow> string \<Rightarrow> string \<Rightarrow> string" where
  "ReplaceAll_fuel 0 s old new = s"
| "ReplaceAll_fuel (Suc n) [] old new = []"
| "ReplaceAll_fuel (Suc n) (c # cs) old new =
     (if old \<noteq> [] \<and> prefix old (c # cs) then new @ ReplaceAll_fuel n (drop (length old) (c # cs)) old new
      else c # ReplaceAll_fuel n cs old new)"

text \<open>One step consumes a character at least, so the length is fuel enough; \<open>old\<close> is not empty where it is used.\<close>

definition ReplaceAll :: "string \<Rightarrow> string \<Rightarrow> string \<Rightarrow> string" where
  "ReplaceAll s old new = ReplaceAll_fuel (length s) s old new"

definition upstream_path :: "Route \<Rightarrow> hreq \<Rightarrow> string" where
  "upstream_path route r = fold (\<lambda>(k, v) p. ReplaceAll p (''{'' @ k @ ''}'') v) (hr_params r) (TargetPath route)"

fun join_commas :: "string list \<Rightarrow> string" where
  "join_commas [] = []"
| "join_commas [x] = x"
| "join_commas (x # y # xs) = x @ '','' @ join_commas (y # xs)"

definition forwarded_header :: "Route \<Rightarrow> hreq \<Rightarrow> header" where
  "forwarded_header route r =
     (let h = hset ''X-Andromeda-Request-Id'' (hr_id r)
            (hset ''X-Andromeda-Upstream-Path'' (upstream_path route r) (stripAndromedaHeaders (hr_header r)))
      in case hr_auth r of
        None \<Rightarrow> h
      | Some a \<Rightarrow>
          let h1 = hset ''X-Andromeda-Api-Key-Id'' (ak_id (au_key a)) (hset ''X-Andromeda-User-Id'' (au_user a) h) in
          if ak_origins (au_key a) \<noteq> [] then hset ''X-Andromeda-Allowed-Origins'' (join_commas (ak_origins (au_key a))) h1 else h1)"

definition route_headers :: "Route \<Rightarrow> header \<Rightarrow> header" where
  "route_headers route w =
     (let w1 = (if rt_DeprecatedAt route \<noteq> [] then hset ''Deprecation'' (rt_DeprecatedAt route) w else w)
      in if rt_SunsetAt route \<noteq> [] then hset ''Sunset'' (rt_SunsetAt route) w1 else w1)"

definition MarkResult :: "string \<Rightarrow> int \<Rightarrow> gw \<Rightarrow> gw" where
  "MarkResult name status S = S\<lparr>gw_fed := gw_fed S @ [(name, status < 500)]\<rparr>"

definition after_proxy :: "env \<Rightarrow> Route \<Rightarrow> hreq \<Rightarrow> resp \<Rightarrow> gw \<Rightarrow> gw" where
  "after_proxy E route r x S =
     (let status = final_status x;
          clientClosed = (status = StatusClientClosedRequest);
          S1 = (if clientClosed then S else MarkResult (rt_Upstream route) status S);
          refunded = (500 \<le> status \<or> (clientClosed \<and> EffectiveRateClass route = RateClassRead \<and> rp_body x = []));
          S2 = (if refunded then refund E r S1 else S1)
      in recordUsage r (rt_Key route) status refunded S2)"

definition proxyHandler :: "site \<Rightarrow> env \<Rightarrow> Route \<Rightarrow> handler" where
  "proxyHandler N E route r w S =
     (case Get_target N (rt_Upstream route) of
        Some t \<Rightarrow>
          if \<not> tg_proxy t
          then (let (x, S1) = writeError 502 ''upstream_unavailable'' w S in (x, refund E r (recordUsage r (rt_Key route) 502 True S1)))
          else let w1 = route_headers route w in
            if ev_open E (rt_Upstream route)
            then (let (x, S1) = writeError 503 ''upstream_circuit_open'' (hset ''Retry-After'' ''30'' w1) S
                  in (x, refund E r (recordUsage r (rt_Key route) 503 True S1)))
            else (let r1 = r\<lparr>hr_header := forwarded_header route r\<rparr>;
                      (x, S1) = ServeProxy E (rt_Upstream route) t r1 w1 S
                  in (x, after_proxy E route r1 x S1))
      | None \<Rightarrow> (let (x, S1) = writeError 502 ''upstream_unavailable'' w S in (x, refund E r (recordUsage r (rt_Key route) 502 True S1))))"

section \<open>Idempotency\<close>

definition idem_request :: "hreq \<Rightarrow> request" where
  "idem_request r = \<lparr>rq_method = hr_method r, rq_path = hr_path r, rq_key_header = hget (hr_header r) ''Idempotency-Key'',
     rq_api_key = (case hr_auth r of None \<Rightarrow> [] | Some a \<Rightarrow> ak_id (au_key a)), rq_body = hr_body r,
     rq_required = RequiresIdempotencyKeyForRequest (hr_method r) (hr_path r)\<rparr>"

text \<open>A body over the limit of the route does not read, which is reported as too large to hash.\<close>

definition idem_gate :: "site \<Rightarrow> hreq \<Rightarrow> gate" where
  "idem_gate N r =
     (case handle_gate (\<lambda>b. hex_lower (si_sha N b)) (idem_request r) of
        Protect s \<Rightarrow> if over_limit r then Refuse 400 ''body_too_large'' else Protect s
      | g \<Rightarrow> g)"

definition idem_run :: "env \<Rightarrow> slot \<Rightarrow> handler \<Rightarrow> handler" where
  "idem_run E s next' r w S =
     (let lk = lockKey (sl_key s);
          (x, S1) = next' r w (S\<lparr>gw_redis := (gw_redis S)(lk \<mapsto> Lock (sl_hash s))\<rparr>);
          S2 = (if cacheable x \<and> \<not> ev_set_down E
                then S1\<lparr>gw_redis := (gw_redis S1)(sl_key s \<mapsto> Entry (entry_of (sl_hash s) (ev_saved E) x))\<rparr> else S1)
      in (x, if ev_del_down E then S2 else S2\<lparr>gw_redis := (gw_redis S2)(lk := None)\<rparr>))"

definition idem_replayed :: "hreq \<Rightarrow> int \<Rightarrow> gw \<Rightarrow> gw" where
  "idem_replayed r status S =
     (case hr_auth r of None \<Rightarrow> S
      | Some a \<Rightarrow> S\<lparr>gw_replays := gw_replays S @ [(ak_id (au_key a), TrimSpace (hget (hr_header r) ''Idempotency-Key''), status)]\<rparr>)"

definition idempotencyChain :: "site \<Rightarrow> env \<Rightarrow> handler \<Rightarrow> handler" where
  "idempotencyChain N E next' r w S =
     (if \<not> si_idempotency N then next' r w S
      else case idem_gate N r of
        Bypass \<Rightarrow> next' r w S
      | Refuse status code \<Rightarrow> writeError status code w S
      | Protect s \<Rightarrow>
          (case after_get (si_failClosed N) s w (if ev_get_down E then None else Some (gw_redis S (sl_key s))) of
             Finished (Refused status code) \<Rightarrow> writeError status code w S
           | Finished (Replayed x) \<Rightarrow> (x, idem_replayed r (rp_status x) S)
           | Missed \<Rightarrow>
               (case after_setnx (si_failClosed N) s
                    (if ev_setnx_down E then None else Some (gw_redis S (lockKey (sl_key s)) = None)) of
                  Finished (Refused status code) \<Rightarrow> writeError status code w S
                | Locked \<Rightarrow> idem_run E s next' r w S
                | _ \<Rightarrow> next' r w S)
           | _ \<Rightarrow> next' r w S))"

section \<open>The chains of the router\<close>

definition limitPayload :: "nat \<Rightarrow> handler \<Rightarrow> handler" where
  "limitPayload m next' r w S =
     next' (if hr_method r \<noteq> ''GET'' \<and> hr_method r \<noteq> ''HEAD''
       then r\<lparr>hr_limit := Some (case hr_limit r of None \<Rightarrow> m | Some l \<Rightarrow> min l m)\<rparr> else r) w S"

definition registerProxyRoute :: "site \<Rightarrow> env \<Rightarrow> Route \<Rightarrow> handler" where
  "registerProxyRoute N E route =
     requireAPIKey N E (requireScope (RequiredScope route)
      ((if 0 < rt_MaxBody route then limitPayload (rt_MaxBody route) else (\<lambda>h. h))
       ((if rt_Idempotent route then idempotencyChain N E else (\<lambda>h. h))
        (requireSubscription (applyRateLimitFor N E (EffectiveRateClass route) (chargeQuota N E (rt_Key route)
         (proxyHandler N E route)))))))"

text \<open>What the router puts around every route (chi's request identifier, which may come from a header, the
  address of the caller, the limit on the body), and the groups of the routes the gateway serves itself.\<close>

definition Router :: "site \<Rightarrow> env \<Rightarrow> handler \<Rightarrow> handler" where
  "Router N E h r w S =
     limitPayload (si_maxBody N) h (r\<lparr>hr_id := si_requestID N (hr_header r) (ev_id E),
       hr_remote := trustedRealIP (si_ip N) (si_realip N) (si_trusted N) (hr_header r) (hr_remote r)\<rparr>) w S"

definition webhooks_group :: "site \<Rightarrow> env \<Rightarrow> handler \<Rightarrow> handler" where
  "webhooks_group N E h = requireAPIKey N E (requireScope ScopeAdmin (requireSubscription (applyRateLimitFor N E RateClassTx
     (idempotencyChain N E (chargeQuota N E ''gateway.webhooks.admin'' h)))))"

definition audit_group :: "site \<Rightarrow> env \<Rightarrow> handler \<Rightarrow> handler" where
  "audit_group N E h = requireAPIKey N E (requireScope ScopeAdmin (requireSubscription (applyRateLimitFor N E RateClassRead
     (chargeQuota N E ''gateway.audit.read'' h))))"

definition policy_group :: "site \<Rightarrow> env \<Rightarrow> handler \<Rightarrow> handler" where
  "policy_group N E h = requireAPIKey N E (requireSubscription (applyRateLimitFor N E RateClassTx
     (idempotencyChain N E (chargeQuota N E ''gateway.policy-engine'' h))))"

definition intents_write_group :: "site \<Rightarrow> env \<Rightarrow> string \<Rightarrow> handler \<Rightarrow> handler" where
  "intents_write_group N E key h = requireAPIKey N E (requireScope ScopeWrite (requireSubscription (applyRateLimitFor N E RateClassTx
     (idempotencyChain N E (chargeQuota N E key (refundOnError E h))))))"

definition intents_read_group :: "site \<Rightarrow> env \<Rightarrow> string \<Rightarrow> handler \<Rightarrow> handler" where
  "intents_read_group N E key h = requireAPIKey N E (requireScope ScopeRead (requireSubscription (applyRateLimitFor N E RateClassRead
     (chargeQuota N E key (refundOnError E h)))))"

definition future_sign_group :: "site \<Rightarrow> env \<Rightarrow> handler \<Rightarrow> handler" where
  "future_sign_group N E h = requireAPIKey N E (requireScope ScopeAdmin (requireSubscription (applyRateLimitFor N E RateClassTx
     (idempotencyChain N E (chargeQuota N E ''gateway.future-sign.admin'' h)))))"

definition oracle_triggers_group :: "site \<Rightarrow> env \<Rightarrow> handler \<Rightarrow> handler" where
  "oracle_triggers_group N E h = requireAPIKey N E (requireScope ScopeWrite (requireSubscription (applyRateLimitFor N E RateClassTx
     (idempotencyChain N E (chargeQuota N E ''gateway.oracle-triggers.admin'' h)))))"

definition util_group :: "site \<Rightarrow> env \<Rightarrow> handler \<Rightarrow> handler" where
  "util_group N E h = requireAPIKey N E (requireSubscription (applyRateLimitFor N E RateClassRead
     (chargeQuota N E ''util.format-amount'' h)))"

section \<open>MCP\<close>

text \<open>A tool call: the charge of the tool under a fresh identifier, the tool, and the refund of a technical
  failure. The envelope of the protocol is left out: the tool is a route of the catalogue, and \<open>path\<close> and
  \<open>body\<close> what its arguments give.\<close>

record tool_result =
  tr_status :: int
  tr_IsError :: bool
  tr_Refundable :: bool

definition mcpCharge :: "site \<Rightarrow> env \<Rightarrow> string \<Rightarrow> hreq \<Rightarrow> gw \<Rightarrow> (bool + (string \<times> ConsumptionResult)) \<times> gw" where
  "mcpCharge N E toolKey r S =
     (case auth_sub r of
        None \<Rightarrow> (Inl False, S)
      | Some (subID, sub) \<Rightarrow>
          if ev_charge_down E then (Inl False, S)
          else case ConsumeTokensV2 (ev_now E) (ev_dbnow E) (ev_uuid E) subID (max 1 (Cost N toolKey)) (ev_uuid E) (gw_db S) of
            Inl ErrQuotaExceeded \<Rightarrow> (Inl True, S)
          | Inl _ \<Rightarrow> (Inl False, S)
          | Inr (res, d) \<Rightarrow> (Inr (subID, res), S\<lparr>gw_db := d\<rparr>))"

definition mcpRefund :: "env \<Rightarrow> string \<times> ConsumptionResult \<Rightarrow> gw \<Rightarrow> gw" where
  "mcpRefund E c S =
     (if ev_refund_down E then S
      else (case RefundTokensV2 (fst c) (snd c) (ev_uuid E) (gw_db S) of Inl _ \<Rightarrow> S | Inr d \<Rightarrow> S\<lparr>gw_db := d\<rparr>))"

definition singleSlashJoin :: "string \<Rightarrow> string \<Rightarrow> string" where
  "singleSlashJoin a0 b0 =
     (let a = rev (dropWhile ((=) (CHR ''/'')) (rev a0)); b = dropWhile ((=) (CHR ''/'')) b0 in
      if a = [] then ''/'' @ b else if b = [] then a else a @ ''/'' @ b)"

definition Call :: "env \<Rightarrow> string \<Rightarrow> target \<Rightarrow> string \<Rightarrow> string \<Rightarrow> bytes \<Rightarrow> (string \<times> string) list \<Rightarrow> gw \<Rightarrow> int option \<times> gw" where
  "Call E name t method path body extra S =
     (if \<not> tg_proxy t then (None, S)
      else let h0 = (if tg_authValue t \<noteq> [] then hset (authHeader name) (tg_authValue t) Map.empty else Map.empty);
               h1 = (if body \<noteq> [] then hset ''Content-Type'' ''application/json'' h0 else h0);
               h2 = hset ''Accept'' ''application/json'' h1;
               h3 = fold (\<lambda>(k, v) h. if k = [] \<or> v = [] then h else hset (CanonicalHeaderKey k) v h) extra h2;
               S1 = S\<lparr>gw_calls := gw_calls S @ [\<lparr>uc_upstream = name, uc_method = method,
                 uc_path = singleSlashJoin (tg_base_path t) path, uc_header = h3, uc_body = body\<rparr>]\<rparr>
           in (case ev_answer E of Answer status _ _ \<Rightarrow> (Some status, S1) | _ \<Rightarrow> (None, S1)))"

text \<open>\<open>makeProxyHandler\<close> and \<open>makeLoopbackHandler\<close>; a loopback request keeps the headers it is allowed.\<close>

definition technical :: tool_result where
  "technical = \<lparr>tr_status = 0, tr_IsError = True, tr_Refundable = True\<rparr>"

definition of_status :: "int \<Rightarrow> tool_result" where
  "of_status s = \<lparr>tr_status = s, tr_IsError = (400 \<le> s), tr_Refundable = (500 \<le> s)\<rparr>"

definition proxy_tool :: "site \<Rightarrow> env \<Rightarrow> Route \<Rightarrow> string \<Rightarrow> bytes \<Rightarrow> hreq \<Rightarrow> gw \<Rightarrow> tool_result \<times> gw" where
  "proxy_tool N E route path body r S =
     (case Get_target N (rt_Upstream route) of
        None \<Rightarrow> (technical, S)
      | Some t \<Rightarrow>
          let user = (case hr_auth r of None \<Rightarrow> [] | Some a \<Rightarrow> au_user a);
              extra = (if user = [] then [] else [(''X-Andromeda-User-Id'', user)])
          in (case Call E (rt_Upstream route) t (rt_Method route) path body extra S of
                (None, S1) \<Rightarrow> (technical, S1)
              | (Some status, S1) \<Rightarrow> (of_status status, S1)))"

definition loopbackForwardedHeaders :: "string list" where
  "loopbackForwardedHeaders = [''X-Api-Key'', ''Authorization'', ''Origin'', ''X-Forwarded-For'', ''X-Real-Ip'',
     ''Idempotency-Key'', ''X-Andromeda-User-Id'', ''User-Agent'']"

definition loopback_request :: "Route \<Rightarrow> string \<Rightarrow> bytes \<Rightarrow> hreq \<Rightarrow> hreq" where
  "loopback_request route path body r =
     r\<lparr>hr_method := rt_Method route, hr_path := path, hr_body := body, hr_limit := None, hr_id := [], hr_params := [], hr_loopback := True,
       hr_header := (\<lambda>k. if k \<in> set loopbackForwardedHeaders \<and> hget (hr_header r) k \<noteq> [] then Some [hget (hr_header r) k]
         else if k = ''Content-Type'' \<and> body \<noteq> [] then Some [''application/json''] else None)\<rparr>"

definition loopback_tool :: "site \<Rightarrow> env \<Rightarrow> handler \<Rightarrow> Route \<Rightarrow> string \<Rightarrow> bytes \<Rightarrow> hreq \<Rightarrow> gw \<Rightarrow> tool_result \<times> gw" where
  "loopback_tool N E mux route path body r S =
     (let (x, S1) = mux (loopback_request route path body r) Map.empty S in (of_status (final_status x), S1))"

definition tools_call :: "site \<Rightarrow> env \<Rightarrow> handler \<Rightarrow> Route \<Rightarrow> string \<Rightarrow> bytes \<Rightarrow> hreq \<Rightarrow> gw \<Rightarrow> (int + tool_result) \<times> gw" where
  "tools_call N E mux route path body r S =
     (case mcpCharge N E (rt_Key route) r S of
        (Inl quota, S1) \<Rightarrow> (Inl (if quota then 402 else 500), S1)
      | (Inr c, S1) \<Rightarrow>
          let (res, S2) = (if rt_Local route then loopback_tool N E mux route path body r S1
                           else proxy_tool N E route path body r S1)
          in (Inr res, if tr_Refundable res then mcpRefund E c S2 else S2))"

text \<open>The tool call as the handler behind \<open>/mcp\<close>; a tool's failure is an answer with status 200.\<close>

definition mcp_handler :: "site \<Rightarrow> env \<Rightarrow> handler \<Rightarrow> Route \<Rightarrow> string \<Rightarrow> bytes \<Rightarrow> handler" where
  "mcp_handler N E mux route path body r w S =
     (case tools_call N E mux route path body r S of
        (Inl status, S1) \<Rightarrow> (\<lparr>rp_status = status, rp_header = hset ''Content-Type'' ''application/json'' w, rp_body = []\<rparr>, S1)
      | (Inr res, S1) \<Rightarrow> (\<lparr>rp_status = 200, rp_header = hset ''Content-Type'' ''application/json'' w, rp_body = [of_bool (tr_IsError res)]\<rparr>, S1))"

definition mcp_group :: "site \<Rightarrow> env \<Rightarrow> handler \<Rightarrow> handler" where
  "mcp_group N E h = requireAPIKey N E (requireScope ScopeWrite (requireSubscription (applyRateLimitFor N E RateClassTx
     (idempotencyChain N E h))))"

end
