(* ===== verification/GatewaySafety.thy ===== *)
theory GatewaySafety
  imports Gateway
begin

text \<open>
  What the chain of a proxied route guarantees. A request reaches the upstream only through every
  guard of the chain; what it sends there is worked out once (\<open>proxied\<close>), and the properties are read off
  it: who is allowed, what the upstream sees of the caller, the refund of a failed call, the mandatory
  idempotency key, and that every request is a history of the ledger.
\<close>

section \<open>What a middleware lets through\<close>

lemma writeError_state [simp]: "snd (writeError status code w S) = S" "rp_status (fst (writeError status code w S)) = status"
  "rp_body (fst (writeError status code w S)) = ascii code"
  by (simp_all add: writeError_def)

lemma touch_simps [simp]:
  "gw_calls (maybeTouchAPIKey E i S) = gw_calls S" "gw_db (maybeTouchAPIKey E i S) = gw_db S"
  "gw_redis (maybeTouchAPIKey E i S) = gw_redis S" "gw_buckets (maybeTouchAPIKey E i S) = gw_buckets S"
  "gw_subIDs (maybeTouchAPIKey E i S) = gw_subIDs S" "gw_keys (maybeTouchAPIKey E i S) = gw_keys S"
  "gw_fed (maybeTouchAPIKey E i S) = gw_fed S" "gw_usage (maybeTouchAPIKey E i S) = gw_usage S"
  by (simp_all add: maybeTouchAPIKey_def Let_def split: option.split)

lemma refund_simps [simp]:
  "gw_calls (refund E r S) = gw_calls S" "gw_redis (refund E r S) = gw_redis S" "gw_buckets (refund E r S) = gw_buckets S"
  "gw_subIDs (refund E r S) = gw_subIDs S" "gw_keys (refund E r S) = gw_keys S" "gw_fed (refund E r S) = gw_fed S"
  by (auto simp: refund_def split: option.split sum.split prod.split)

lemma recordUsage_simps [simp]:
  "gw_calls (recordUsage r k c b S) = gw_calls S" "gw_redis (recordUsage r k c b S) = gw_redis S"
  "gw_db (recordUsage r k c b S) = gw_db S" "gw_fed (recordUsage r k c b S) = gw_fed S"
  "gw_subIDs (recordUsage r k c b S) = gw_subIDs S" "gw_keys (recordUsage r k c b S) = gw_keys S"
  "gw_buckets (recordUsage r k c b S) = gw_buckets S"
  by (auto simp: recordUsage_def split: option.split)

text \<open>The key and its owner as the first middleware accepts them.\<close>

definition admits :: "site \<Rightarrow> env \<Rightarrow> hreq \<Rightarrow> gw \<Rightarrow> authed \<Rightarrow> bool" where
  "admits N E r S a \<longleftrightarrow> ExtractAPIKey (hr_header r) \<noteq> [] \<and> \<not> ev_keys_down E
     \<and> AuthenticateAPIKey (gw_subIDs S) (gw_db S) (gw_keys S) (Hash N (ExtractAPIKey (hr_header r))) = Inr a
     \<and> \<not> (ak_ips (au_key a) \<noteq> [] \<and> si_production N \<and> si_trusted N = [])
     \<and> MatchesIPAllowlist (si_ip N) (ak_ips (au_key a)) (callerIP r)
     \<and> MatchesOriginAllowlist (si_url N) (ak_origins (au_key a)) (hget (hr_header r) ''Origin'')"

lemma requireAPIKey_cases:
  obtains (refused) status code where "requireAPIKey N E h r w S = writeError status code w S" "400 \<le> status" "status \<le> 500"
  | (passed) a where "admits N E r S a" "requireAPIKey N E h r w S = h (r\<lparr>hr_auth := Some a\<rparr>) w (maybeTouchAPIKey E (ak_id (au_key a)) S)"
proof (cases "ExtractAPIKey (hr_header r) = [] \<or> ev_keys_down E")
  case True
  then have "requireAPIKey N E h r w S = writeError 401 ''missing_api_key'' w S
     \<or> requireAPIKey N E h r w S = writeError 500 ''internal_error'' w S"
    by (auto simp: requireAPIKey_def Let_def)
  then show ?thesis using refused [of 401 "''missing_api_key''"] refused [of 500 "''internal_error''"] by auto
next
  case False
  note guard = False
  let ?A = "AuthenticateAPIKey (gw_subIDs S) (gw_db S) (gw_keys S) (Hash N (ExtractAPIKey (hr_header r)))"
  show ?thesis
  proof (cases ?A)
    case (Inl e)
    with guard show ?thesis by (intro refused [of 401]) (simp_all add: requireAPIKey_def Let_def)
  next
    case (Inr a)
    let ?k = "au_key a"
    let ?bad = "ak_ips ?k \<noteq> [] \<and> si_production N \<and> si_trusted N = []"
    let ?ip = "MatchesIPAllowlist (si_ip N) (ak_ips ?k) (callerIP r)"
    let ?or = "MatchesOriginAllowlist (si_url N) (ak_origins ?k) (hget (hr_header r) ''Origin'')"
    have e: "requireAPIKey N E h r w S =
      (if ?bad then writeError 403 ''ip_allowlist_unsupported'' w S
       else if \<not> ?ip then writeError 403 ''ip_not_allowed'' w S
       else if \<not> ?or then writeError 403 ''origin_not_allowed'' w S
       else h (r\<lparr>hr_auth := Some a\<rparr>) w (maybeTouchAPIKey E (ak_id ?k) S))"
      using guard by (simp add: requireAPIKey_def Let_def Inr)
    show ?thesis
    proof (cases "\<not> ?bad \<and> ?ip \<and> ?or")
      case True
      moreover have "admits N E r S a" using True guard Inr unfolding admits_def by blast
      ultimately show ?thesis by (intro passed [of a]) (simp_all only: e if_False if_True not_True_eq_False)
    next
      case False
      then obtain code where "requireAPIKey N E h r w S = writeError 403 code w S" using e by metis
      then show ?thesis by (intro refused [of 403 code]) simp_all
    qed
  qed
qed

lemma requireScope_auth:
  "hr_auth r = Some a \<Longrightarrow> requireScope sc h r w S =
     (if HasScope (ak_scopes (au_key a)) sc then h r w S else writeError 403 ''scope_missing'' w S)"
  by (simp add: requireScope_def)

lemma idem_cases:
  obtains (kept) x S1 where "idempotencyChain N E h r w S = (x, S1)" "gw_calls S1 = gw_calls S" "gw_db S1 = gw_db S"
      "gw_fed S1 = gw_fed S" "gw_keys S1 = gw_keys S" "gw_subIDs S1 = gw_subIDs S"
  | (opened) "idempotencyChain N E h r w S = h r w S" "si_idempotency N \<longrightarrow> (\<nexists>st c. idem_gate N r = Refuse st c)"
  | (locked) s where "idem_gate N r = Protect s" "idempotencyChain N E h r w S = idem_run E s h r w S"
proof (cases "si_idempotency N")
  case False
  then show ?thesis by (intro opened) (simp_all add: idempotencyChain_def)
next
  case on: True
  show ?thesis
  proof (cases "idem_gate N r")
    case Bypass
    with on show ?thesis by (intro opened) (simp_all add: idempotencyChain_def)
  next
    case (Refuse st c)
    with on show ?thesis
      by (intro kept [of "fst (writeError st c w S)" S]) (simp_all add: idempotencyChain_def writeError_def)
  next
    case (Protect s)
    let ?g = "after_get (si_failClosed N) s w (if ev_get_down E then None else Some (gw_redis S (sl_key s)))"
    let ?n = "after_setnx (si_failClosed N) s (if ev_setnx_down E then None else Some (gw_redis S (lockKey (sl_key s)) = None))"
    have g: "?g = Missed \<or> ?g = Open \<or> (\<exists>st c. ?g = Finished (Refused st c)) \<or> (\<exists>x. ?g = Finished (Replayed x))"
      by (auto simp: after_get_def get_error_def split: option.split redis_value.split)
    have n: "?n = Locked \<or> ?n = Open \<or> (\<exists>st c. ?n = Finished (Refused st c))"
      by (auto simp: after_setnx_def get_error_def split: option.split bool.split)
    have e: "idempotencyChain N E h r w S =
      (case ?g of Finished (Refused status code) \<Rightarrow> writeError status code w S
         | Finished (Replayed x) \<Rightarrow> (x, idem_replayed r (rp_status x) S)
         | Missed \<Rightarrow> (case ?n of Finished (Refused status code) \<Rightarrow> writeError status code w S
             | Locked \<Rightarrow> idem_run E s h r w S | _ \<Rightarrow> h r w S)
         | _ \<Rightarrow> h r w S)"
      using on Protect by (simp only: idempotencyChain_def not_True_eq_False if_False gate.case)
    have wr: "writeError st c w S = (fst (writeError st c w S), S)" for st c by (simp add: writeError_def)
    from g show ?thesis
    proof (elim disjE exE)
      assume m: "?g = Missed"
      from n show ?thesis
      proof (elim disjE exE)
        assume "?n = Locked"
        with m show ?thesis by (intro locked [OF Protect]) (simp only: e phase.case)
      next
        assume "?n = Open"
        with m Protect show ?thesis by (intro opened) (simp_all only: e phase.case gate.distinct, simp)
      next
        fix st c assume "?n = Finished (Refused st c)"
        with m have "idempotencyChain N E h r w S = (fst (writeError st c w S), S)" by (simp only: e phase.case outcome.case) (rule wr)
        then show ?thesis by (rule kept) simp_all
      qed
    next
      assume "?g = Open"
      with Protect show ?thesis by (intro opened) (simp_all only: e phase.case gate.distinct, simp)
    next
      fix st c assume "?g = Finished (Refused st c)"
      then have "idempotencyChain N E h r w S = (fst (writeError st c w S), S)" by (simp only: e phase.case outcome.case) (rule wr)
      then show ?thesis by (rule kept) simp_all
    next
      fix x assume "?g = Finished (Replayed x)"
      then have "idempotencyChain N E h r w S = (x, idem_replayed r (rp_status x) S)" by (simp only: e phase.case outcome.case)
      then show ?thesis by (rule kept) (simp_all add: idem_replayed_def split: option.split)
    qed
  qed
qed

lemma idem_run_eq:
  "idem_run E s h r w S = (let y = h r w (S\<lparr>gw_redis := (gw_redis S)(lockKey (sl_key s) \<mapsto> Lock (sl_hash s))\<rparr>) in
     (fst y, snd y\<lparr>gw_redis := gw_redis (snd (idem_run E s h r w S))\<rparr>))"
  by (simp add: idem_run_def Let_def case_prod_beta)

text \<open>What the limiter says for an authenticated request of a route.\<close>

definition limiter_verdict :: "site \<Rightarrow> env \<Rightarrow> authed \<Rightarrow> subscription \<Rightarrow> string \<Rightarrow> gw \<Rightarrow> verdict \<times> buckets" where
  "limiter_verdict N E a sub c S = Allow (si_limiter N) (ev_limiter E) (ev_redis_ms E) (ev_ms E) (ak_id (au_key a) @ '':'' @ c)
     (fst (rateLimitFor sub c)) (snd (rateLimitFor sub c)) (gw_buckets S)"

lemma limit_cases:
  assumes "hr_auth r = Some a" "au_sub a = Some (subID, sub)"
  obtains (refused) x S1 where "applyRateLimitFor N E c h r w S = (x, S1)" "S1 = S\<lparr>gw_buckets := snd (limiter_verdict N E a sub c S)\<rparr>"
  | (passed) "fst (limiter_verdict N E a sub c S) = Admitted"
      "applyRateLimitFor N E c h r w S = h r (hset ''X-Andromeda-Ratelimit-Class'' c w) (S\<lparr>gw_buckets := snd (limiter_verdict N E a sub c S)\<rparr>)"
proof (cases "fst (limiter_verdict N E a sub c S) = Admitted")
  case True
  with assms show ?thesis
    by (intro passed) (simp_all add: applyRateLimitFor_def limiter_verdict_def Let_def case_prod_beta)
next
  case False
  with assms have "snd (applyRateLimitFor N E c h r w S) = S\<lparr>gw_buckets := snd (limiter_verdict N E a sub c S)\<rparr>"
    by (auto simp: applyRateLimitFor_def limiter_verdict_def Let_def case_prod_beta split: verdict.split)
  then show ?thesis using refused by (metis prod.collapse)
qed

lemma charge_cases:
  assumes "\<not> hr_loopback r" "auth_sub r = Some (subID, sub)"
  obtains (refused) x where "chargeQuota N E key h r w S = (x, S)"
  | (passed) res d where "ConsumeTokensV2 (ev_now E) (ev_dbnow E) (ev_uuid E) subID (max 1 (Cost N key)) (opID subID key r) (gw_db S) = Inr (res, d)"
      "chargeQuota N E key h r w S = h (r\<lparr>hr_cost := max 1 (Cost N key), hr_consumption := Some res, hr_op := opID subID key r\<rparr>)
         (charge_headers (max 1 (Cost N key)) res w) (S\<lparr>gw_db := d\<rparr>)"
proof (cases "ev_charge_down E")
  case True
  then show ?thesis using assms refused [of "fst (writeError 500 ''internal_error'' w S)"]
    by (simp add: chargeQuota_def Let_def writeError_def)
next
  case False
  let ?C = "ConsumeTokensV2 (ev_now E) (ev_dbnow E) (ev_uuid E) subID (max 1 (Cost N key)) (opID subID key r) (gw_db S)"
  show ?thesis
  proof (cases ?C)
    case (Inl e)
    then have "snd (chargeQuota N E key h r w S) = S"
      using assms False by (cases e) (simp_all add: chargeQuota_def Let_def)
    then show ?thesis using refused by (metis prod.collapse)
  next
    case (Inr y)
    then obtain res d where y: "?C = Inr (res, d)" by (cases y) auto
    then show ?thesis using assms False by (intro passed) (simp_all add: chargeQuota_def Let_def)
  qed
qed

section \<open>What reaches the upstream\<close>

text \<open>The request the proxy serves when the chain lets it through: what the caller sent, its owner, what it cost.\<close>

definition admitted :: "site \<Rightarrow> Route \<Rightarrow> hreq \<Rightarrow> authed \<Rightarrow> string \<Rightarrow> ConsumptionResult \<Rightarrow> hreq" where
  "admitted N route r a subID res = r\<lparr>hr_auth := Some a,
     hr_limit := (if 0 < rt_MaxBody route \<and> hr_method r \<noteq> ''GET'' \<and> hr_method r \<noteq> ''HEAD''
       then Some (case hr_limit r of None \<Rightarrow> rt_MaxBody route | Some l \<Rightarrow> min l (rt_MaxBody route)) else hr_limit r),
     hr_cost := max 1 (Cost N (rt_Key route)), hr_consumption := Some res, hr_op := opID subID (rt_Key route) r\<rparr>"

record passage =
  ps_auth :: authed
  ps_subID :: string
  ps_sub :: subscription
  ps_res :: ConsumptionResult
  ps_db :: db
  ps_target :: target
  ps_resp :: resp

text \<open>What stands behind a call: every guard, and the call itself.\<close>

definition behind :: "site \<Rightarrow> env \<Rightarrow> Route \<Rightarrow> hreq \<Rightarrow> gw \<Rightarrow> passage \<Rightarrow> bool" where
  "behind N E route r S p \<longleftrightarrow> admits N E r S (ps_auth p)
     \<and> HasScope (ak_scopes (au_key (ps_auth p))) (RequiredScope route)
     \<and> au_sub (ps_auth p) = Some (ps_subID p, ps_sub p)
     \<and> fst (limiter_verdict N E (ps_auth p) (ps_sub p) (EffectiveRateClass route) S) = Admitted
     \<and> ConsumeTokensV2 (ev_now E) (ev_dbnow E) (ev_uuid E) (ps_subID p) (max 1 (Cost N (rt_Key route)))
         (opID (ps_subID p) (rt_Key route) r) (gw_db S) = Inr (ps_res p, ps_db p)
     \<and> Get_target N (rt_Upstream route) = Some (ps_target p) \<and> tg_proxy (ps_target p) \<and> \<not> ev_open E (rt_Upstream route)
     \<and> (rt_Idempotent route \<longrightarrow> si_idempotency N \<longrightarrow> (\<nexists>st c. idem_gate N (admitted N route r (ps_auth p) (ps_subID p) (ps_res p)) = Refuse st c))"

definition the_request :: "site \<Rightarrow> Route \<Rightarrow> hreq \<Rightarrow> passage \<Rightarrow> hreq" where
  "the_request N route r p = (admitted N route r (ps_auth p) (ps_subID p) (ps_res p))
     \<lparr>hr_header := forwarded_header route (admitted N route r (ps_auth p) (ps_subID p) (ps_res p))\<rparr>"

definition the_call :: "site \<Rightarrow> Route \<Rightarrow> hreq \<Rightarrow> passage \<Rightarrow> upcall" where
  "the_call N route r p =
     (let q = the_request N route r p;
          z = Rewrite (rt_Upstream route) (ps_target p) q (strip_forwarding (removeHopByHopHeaders (hr_header q)))
      in \<lparr>uc_upstream = rt_Upstream route, uc_method = hr_method r, uc_path = fst z, uc_header = snd z, uc_body = hr_body r\<rparr>)"

lemma proxyHandler_cases:
  obtains (kept) x S1 where "proxyHandler N E route r w S = (x, S1)" "gw_calls S1 = gw_calls S"
  | (called) t x S1 r1 where "Get_target N (rt_Upstream route) = Some t" "tg_proxy t" "\<not> ev_open E (rt_Upstream route)"
      "r1 = r\<lparr>hr_header := forwarded_header route r\<rparr>"
      "ServeProxy E (rt_Upstream route) t r1 (route_headers route w) S = (x, S1)"
      "proxyHandler N E route r w S = (x, after_proxy E route r1 x S1)"
proof (cases "\<exists>t. Get_target N (rt_Upstream route) = Some t \<and> tg_proxy t \<and> \<not> ev_open E (rt_Upstream route)")
  case True
  then obtain t where t: "Get_target N (rt_Upstream route) = Some t" "tg_proxy t" "\<not> ev_open E (rt_Upstream route)" by blast
  obtain x S1 where "ServeProxy E (rt_Upstream route) t (r\<lparr>hr_header := forwarded_header route r\<rparr>) (route_headers route w) S = (x, S1)"
    by (rule prod.exhaust)
  with t show ?thesis by (intro called) (simp_all add: proxyHandler_def Let_def)
next
  case False
  then have "gw_calls (snd (proxyHandler N E route r w S)) = gw_calls S"
    by (auto simp: proxyHandler_def writeError_def Let_def split: option.split)
  then show ?thesis using kept by (metis prod.collapse)
qed

lemma ServeProxy_state:
  "snd (ServeProxy E name t r w S) = S\<lparr>gw_calls := gw_calls S @ [\<lparr>uc_upstream = name, uc_method = hr_method r,
     uc_path = fst (Rewrite name t r (strip_forwarding (removeHopByHopHeaders (hr_header r)))),
     uc_header = snd (Rewrite name t r (strip_forwarding (removeHopByHopHeaders (hr_header r)))), uc_body = hr_body r\<rparr>]\<rparr>"
  by (simp add: ServeProxy_def Let_def case_prod_beta split: answer.split)

lemma after_proxy_calls [simp]:
  "gw_calls (after_proxy E route r x S) = gw_calls S" "gw_redis (after_proxy E route r x S) = gw_redis S"
  "gw_keys (after_proxy E route r x S) = gw_keys S" "gw_subIDs (after_proxy E route r x S) = gw_subIDs S"
  by (simp_all add: after_proxy_def Let_def MarkResult_def)

text \<open>The state the proxy leaves, up to the tables of Redis and the debounce: the charge, and the refund where it is due.\<close>

definition due_refund :: "Route \<Rightarrow> resp \<Rightarrow> bool" where
  "due_refund route x \<longleftrightarrow> 500 \<le> final_status x
     \<or> (final_status x = StatusClientClosedRequest \<and> EffectiveRateClass route = RateClassRead \<and> rp_body x = [])"

definition db_after :: "env \<Rightarrow> Route \<Rightarrow> hreq \<Rightarrow> passage \<Rightarrow> db" where
  "db_after E route r p =
     (if due_refund route (ps_resp p) \<and> \<not> ev_refund_down E
      then (case RefundTokensV2 (ps_subID p) (ps_res p) (opID (ps_subID p) (rt_Key route) r) (ps_db p) of Inl _ \<Rightarrow> ps_db p | Inr d \<Rightarrow> d)
      else ps_db p)"

text \<open>The innermost part of the chain.\<close>

definition paid :: "site \<Rightarrow> env \<Rightarrow> Route \<Rightarrow> handler" where
  "paid N E route = requireSubscription (applyRateLimitFor N E (EffectiveRateClass route) (chargeQuota N E (rt_Key route) (proxyHandler N E route)))"

definition charged_request :: "site \<Rightarrow> Route \<Rightarrow> hreq \<Rightarrow> string \<Rightarrow> ConsumptionResult \<Rightarrow> hreq" where
  "charged_request N route r subID res = (let q = r\<lparr>hr_cost := max 1 (Cost N (rt_Key route)), hr_consumption := Some res,
     hr_op := opID subID (rt_Key route) r\<rparr> in q\<lparr>hr_header := forwarded_header route q\<rparr>)"

lemma paid_calls:
  assumes "paid N E route r w S = (x, S')" "gw_calls S' \<noteq> gw_calls S" "\<not> hr_loopback r" "hr_auth r = Some a"
  obtains subID sub res d t w1 where "au_sub a = Some (subID, sub)"
    "fst (limiter_verdict N E a sub (EffectiveRateClass route) S) = Admitted"
    "ConsumeTokensV2 (ev_now E) (ev_dbnow E) (ev_uuid E) subID (max 1 (Cost N (rt_Key route))) (opID subID (rt_Key route) r) (gw_db S) = Inr (res, d)"
    "Get_target N (rt_Upstream route) = Some t" "tg_proxy t" "\<not> ev_open E (rt_Upstream route)"
    "x = fst (ServeProxy E (rt_Upstream route) t (charged_request N route r subID res) w1
       (S\<lparr>gw_buckets := snd (limiter_verdict N E a sub (EffectiveRateClass route) S), gw_db := d\<rparr>))"
    "S' = after_proxy E route (charged_request N route r subID res) x
       (snd (ServeProxy E (rt_Upstream route) t (charged_request N route r subID res) w1
       (S\<lparr>gw_buckets := snd (limiter_verdict N E a sub (EffectiveRateClass route) S), gw_db := d\<rparr>)))"
proof -
  have "auth_sub r \<noteq> None" using assms(1,2) by (auto simp: paid_def requireSubscription_def writeError_def split: if_splits)
  then obtain subID sub where sub: "au_sub a = Some (subID, sub)" "auth_sub r = Some (subID, sub)"
    using assms(4) by (auto simp: auth_sub_def)
  let ?S = "S\<lparr>gw_buckets := snd (limiter_verdict N E a sub (EffectiveRateClass route) S)\<rparr>"
  let ?w = "hset ''X-Andromeda-Ratelimit-Class'' (EffectiveRateClass route) w"
  let ?L = "applyRateLimitFor N E (EffectiveRateClass route) (chargeQuota N E (rt_Key route) (proxyHandler N E route)) r w S"
  have e: "?L = (x, S')" using assms(1) sub(2) by (simp add: paid_def requireSubscription_def)
  have l: "fst (limiter_verdict N E a sub (EffectiveRateClass route) S) = Admitted"
    "chargeQuota N E (rt_Key route) (proxyHandler N E route) r ?w ?S = (x, S')"
  proof (rule_tac [!] limit_cases [OF assms(4) sub(1), of N E "EffectiveRateClass route" "chargeQuota N E (rt_Key route) (proxyHandler N E route)" w S])
    fix y S1 assume y: "?L = (y, S1)" "S1 = ?S"
    have "gw_calls S1 = gw_calls S" by (simp add: y(2))
    then have False using y(1) e assms(2) by simp
    then show "fst (limiter_verdict N E a sub (EffectiveRateClass route) S) = Admitted"
      "chargeQuota N E (rt_Key route) (proxyHandler N E route) r ?w ?S = (x, S')" by blast+
  next
    assume y: "fst (limiter_verdict N E a sub (EffectiveRateClass route) S) = Admitted"
      "?L = chargeQuota N E (rt_Key route) (proxyHandler N E route) r ?w ?S"
    show "fst (limiter_verdict N E a sub (EffectiveRateClass route) S) = Admitted" by (rule y(1))
    show "chargeQuota N E (rt_Key route) (proxyHandler N E route) r ?w ?S = (x, S')" using y(2) e by (rule trans [OF sym])
  qed
  define q where "q res = r\<lparr>hr_cost := max 1 (Cost N (rt_Key route)), hr_consumption := Some res, hr_op := opID subID (rt_Key route) r\<rparr>" for res
  obtain res d where c: "ConsumeTokensV2 (ev_now E) (ev_dbnow E) (ev_uuid E) subID (max 1 (Cost N (rt_Key route))) (opID subID (rt_Key route) r) (gw_db S) = Inr (res, d)"
    "proxyHandler N E route (q res) (charge_headers (max 1 (Cost N (rt_Key route))) res ?w) (?S\<lparr>gw_db := d\<rparr>) = (x, S')"
  proof (rule charge_cases [OF assms(3) sub(2), of N E "rt_Key route" "proxyHandler N E route" ?w ?S])
    fix z assume "chargeQuota N E (rt_Key route) (proxyHandler N E route) r ?w ?S = (z, ?S)"
    then show thesis using l(2) assms(2) by simp
  next
    fix res d
    assume k: "ConsumeTokensV2 (ev_now E) (ev_dbnow E) (ev_uuid E) subID (max 1 (Cost N (rt_Key route))) (opID subID (rt_Key route) r) (gw_db ?S) = Inr (res, d)"
      and e: "chargeQuota N E (rt_Key route) (proxyHandler N E route) r ?w ?S = proxyHandler N E route
        (r\<lparr>hr_cost := max 1 (Cost N (rt_Key route)), hr_consumption := Some res, hr_op := opID subID (rt_Key route) r\<rparr>)
        (charge_headers (max 1 (Cost N (rt_Key route))) res ?w) (?S\<lparr>gw_db := d\<rparr>)"
    have "gw_db ?S = gw_db S" by simp
    then show thesis by (rule_tac that [of res d]) (use k e l(2) in \<open>simp_all only: q_def\<close>)
  qed
  from proxyHandler_cases [of N E route "q res"
      "charge_headers (max 1 (Cost N (rt_Key route))) res ?w" "?S\<lparr>gw_db := d\<rparr>"]
  show ?thesis
  proof cases
    case (kept y S1)
    with c(2) assms(2) show ?thesis by simp
  next
    case (called t y S1 r1)
    have r1: "r1 = charged_request N route r subID res" by (simp add: called(4) charged_request_def Let_def q_def)
    have y: "y = x" "S' = after_proxy E route r1 x S1" using called(6) c(2) by auto
    have sp: "fst (ServeProxy E (rt_Upstream route) t r1 (route_headers route (charge_headers (max 1 (Cost N (rt_Key route))) res ?w)) (?S\<lparr>gw_db := d\<rparr>)) = x"
      "snd (ServeProxy E (rt_Upstream route) t r1 (route_headers route (charge_headers (max 1 (Cost N (rt_Key route))) res ?w)) (?S\<lparr>gw_db := d\<rparr>)) = S1"
      using called(5) y(1) by simp_all
    show ?thesis
      by (rule that [OF sub(1) l(1) c(1) called(1-3), of "route_headers route (charge_headers (max 1 (Cost N (rt_Key route))) res ?w)"])
        (simp_all only: sp y flip: r1)
  qed
qed

lemma ServeProxy_status:
  "rp_status (fst (ServeProxy E name t r w S)) =
     (if over_limit r then 502 else case ev_answer E of Answer st hh bd \<Rightarrow> st | ClientGone \<Rightarrow> 499 | Broken \<Rightarrow> 502)"
  by (simp add: ServeProxy_def Let_def case_prod_beta StatusClientClosedRequest_def split: answer.split)

lemma after_proxy_db:
  assumes "auth_sub q = Some (subID, sub)" "hr_consumption q = Some res"
  shows "gw_db (after_proxy E route q x S) =
    (if due_refund route x \<and> \<not> ev_refund_down E
     then (case RefundTokensV2 subID res (hr_op q) (gw_db S) of Inl _ \<Rightarrow> gw_db S | Inr d \<Rightarrow> d) else gw_db S)"
  using assms by (auto simp: after_proxy_def due_refund_def Let_def MarkResult_def refund_def split: sum.split)

lemma after_proxy_fed:
  "gw_fed (after_proxy E route q x S) =
     gw_fed S @ (if final_status x = StatusClientClosedRequest then [] else [(rt_Upstream route, final_status x < 500)])"
  by (simp add: after_proxy_def Let_def MarkResult_def)

lemma charged_admitted:
  "charged_request N route (r\<lparr>hr_auth := Some a, hr_limit := hr_limit (admitted N route r a subID res)\<rparr>) subID res =
     (admitted N route r a subID res)\<lparr>hr_header := forwarded_header route (admitted N route r a subID res)\<rparr>"
  by (simp add: charged_request_def admitted_def opID_def Let_def)

lemma idem_gate_cong:
  assumes "hr_method r = hr_method q" "hr_path r = hr_path q" "hr_header r = hr_header q" "hr_auth r = hr_auth q"
    "hr_body r = hr_body q" "hr_limit r = hr_limit q"
  shows "idem_gate N r = idem_gate N q"
  unfolding idem_gate_def idem_request_def over_limit_def assms by (rule refl)

lemma opID_auth [simp]: "opID s k (r\<lparr>hr_auth := a, hr_limit := l\<rparr>) = opID s k r"
  by (simp add: opID_def Let_def)

text \<open>The idempotency layer, where a route has it, around the rest.\<close>

lemma idem_calls:
  assumes "(if b then idempotencyChain N E else (\<lambda>h. h)) h r w S = (x, S')" "gw_calls S' \<noteq> gw_calls S"
  obtains S1 S2 where "h r w S1 = (x, S2)" "S1 = S\<lparr>gw_redis := gw_redis S1\<rparr>" "S' = S2\<lparr>gw_redis := gw_redis S'\<rparr>"
    "b \<Longrightarrow> si_idempotency N \<Longrightarrow> \<nexists>st c. idem_gate N r = Refuse st c"
proof (cases b)
  case False
  then show ?thesis using assms by (intro that [of S S']) simp_all
next
  case True
  then have e: "idempotencyChain N E h r w S = (x, S')" using assms(1) by simp
  show ?thesis
  proof (rule idem_cases [of N E h r w S])
    fix y S1 assume "idempotencyChain N E h r w S = (y, S1)" "gw_calls S1 = gw_calls S"
    with e assms(2) show thesis by simp
  next
    assume "idempotencyChain N E h r w S = h r w S" "si_idempotency N \<longrightarrow> (\<nexists>st c. idem_gate N r = Refuse st c)"
    with e show thesis by (intro that [of S S']) simp_all
  next
    fix s assume s: "idem_gate N r = Protect s" "idempotencyChain N E h r w S = idem_run E s h r w S"
    let ?S1 = "S\<lparr>gw_redis := (gw_redis S)(lockKey (sl_key s) \<mapsto> Lock (sl_hash s))\<rparr>"
    have run: "(x, S') = idem_run E s h r w S" using s(2) e by simp
    have x: "x = fst (h r w ?S1)" and S': "S' = snd (h r w ?S1)\<lparr>gw_redis := gw_redis S'\<rparr>"
      using idem_run_eq [of E s h r w S] by (simp_all add: Let_def flip: run)
    show thesis
      by (rule that [of ?S1 "snd (h r w ?S1)"]) (use x S' s(1) in simp_all)
  qed
qed

lemma registerProxyRoute_paid:
  "registerProxyRoute N E route = requireAPIKey N E (requireScope (RequiredScope route)
      ((if 0 < rt_MaxBody route then limitPayload (rt_MaxBody route) else (\<lambda>h. h))
       ((if rt_Idempotent route then idempotencyChain N E else (\<lambda>h. h)) (paid N E route))))"
  by (simp add: registerProxyRoute_def paid_def)

lemma limit_request:
  "(if 0 < rt_MaxBody route then limitPayload (rt_MaxBody route) else (\<lambda>h. h)) h (r\<lparr>hr_auth := Some a\<rparr>) w S
    = h (r\<lparr>hr_auth := Some a, hr_limit := hr_limit (admitted N route r a subID res)\<rparr>) w S"
  by (simp add: limitPayload_def admitted_def)

lemma proxied:
  assumes "registerProxyRoute N E route r w S = (x, S')" "gw_calls S' \<noteq> gw_calls S" "\<not> hr_loopback r"
  obtains p where "behind N E route r S p" "ps_resp p = x" "gw_calls S' = gw_calls S @ [the_call N route r p]"
    "gw_db S' = db_after E route r p"
    "gw_fed S' = gw_fed S @ (if final_status x = StatusClientClosedRequest then [] else [(rt_Upstream route, final_status x < 500)])"
    "rp_status x = (if over_limit (the_request N route r p) then 502
       else case ev_answer E of Answer st hh bd \<Rightarrow> st | ClientGone \<Rightarrow> 499 | Broken \<Rightarrow> 502)"
    "gw_keys S' = gw_keys S" "gw_subIDs S' = gw_subIDs S"
proof -
  let ?I = "if rt_Idempotent route then idempotencyChain N E else (\<lambda>h. h)"
  let ?L = "if 0 < rt_MaxBody route then limitPayload (rt_MaxBody route) else (\<lambda>h. h)"
  let ?H = "requireScope (RequiredScope route) (?L (?I (paid N E route)))"
  have e0: "requireAPIKey N E ?H r w S = (x, S')" using assms(1) by (simp only: registerProxyRoute_paid)
  obtain a where a: "admits N E r S a" "?H (r\<lparr>hr_auth := Some a\<rparr>) w (maybeTouchAPIKey E (ak_id (au_key a)) S) = (x, S')"
  proof (rule requireAPIKey_cases [of N E ?H r w S])
    fix status code assume "requireAPIKey N E ?H r w S = writeError status code w S"
    then have "S' = S" using e0 by (simp add: writeError_def)
    with assms(2) show thesis by simp
  next
    fix a assume "admits N E r S a"
      "requireAPIKey N E ?H r w S = ?H (r\<lparr>hr_auth := Some a\<rparr>) w (maybeTouchAPIKey E (ak_id (au_key a)) S)"
    with e0 show thesis by (intro that [of a]) (simp_all only:)
  qed
  let ?S = "maybeTouchAPIKey E (ak_id (au_key a)) S"
  let ?r = "\<lambda>subID res. r\<lparr>hr_auth := Some a, hr_limit := hr_limit (admitted N route r a subID res)\<rparr>"
  have scope: "HasScope (ak_scopes (au_key a)) (RequiredScope route)"
    using a(2) assms(2) by (auto simp: requireScope_def writeError_def split: if_splits)
  have lim: "?r subID res = ?r [] undefined" for subID res by (simp add: admitted_def)
  have e1: "?I (paid N E route) (?r [] undefined) w ?S = (x, S')"
    using a(2) scope limit_request [where route = route and h = "?I (paid N E route)" and r = r and a = a and w = w and S = ?S and N = N and subID = "[]" and res = undefined] by (simp add: requireScope_def)
  from idem_calls [OF e1] assms(2) obtain S1 S2 where S12: "paid N E route (?r [] undefined) w S1 = (x, S2)"
    "S1 = ?S\<lparr>gw_redis := gw_redis S1\<rparr>" "S' = S2\<lparr>gw_redis := gw_redis S'\<rparr>"
    "rt_Idempotent route \<Longrightarrow> si_idempotency N \<Longrightarrow> \<nexists>st c. idem_gate N (?r [] undefined) = Refuse st c"
    by (metis touch_simps(1))
  have S1: "gw_calls S1 = gw_calls S" "gw_db S1 = gw_db S" "gw_buckets S1 = gw_buckets S" "gw_fed S1 = gw_fed S"
    "gw_keys S1 = gw_keys S" "gw_subIDs S1 = gw_subIDs S"
    by (subst S12(2), simp)+
  have S2: "gw_calls S' = gw_calls S2" "gw_db S' = gw_db S2" "gw_fed S' = gw_fed S2" "gw_keys S' = gw_keys S2" "gw_subIDs S' = gw_subIDs S2" by (subst S12(3), simp)+
  have grown: "gw_calls S2 \<noteq> gw_calls S1" using assms(2) S1(1) S2(1) by simp
  obtain subID sub res d t w1 where p: "au_sub a = Some (subID, sub)"
    "fst (limiter_verdict N E a sub (EffectiveRateClass route) S1) = Admitted"
    "ConsumeTokensV2 (ev_now E) (ev_dbnow E) (ev_uuid E) subID (max 1 (Cost N (rt_Key route))) (opID subID (rt_Key route) (?r [] undefined)) (gw_db S1) = Inr (res, d)"
    "Get_target N (rt_Upstream route) = Some t" "tg_proxy t" "\<not> ev_open E (rt_Upstream route)"
    "x = fst (ServeProxy E (rt_Upstream route) t (charged_request N route (?r [] undefined) subID res) w1
       (S1\<lparr>gw_buckets := snd (limiter_verdict N E a sub (EffectiveRateClass route) S1), gw_db := d\<rparr>))"
    "S2 = after_proxy E route (charged_request N route (?r [] undefined) subID res) x
       (snd (ServeProxy E (rt_Upstream route) t (charged_request N route (?r [] undefined) subID res) w1
       (S1\<lparr>gw_buckets := snd (limiter_verdict N E a sub (EffectiveRateClass route) S1), gw_db := d\<rparr>)))"
    by (rule paid_calls [OF S12(1) grown]) (use assms(3) in auto)
  define p0 where "p0 = \<lparr>ps_auth = a, ps_subID = subID, ps_sub = sub, ps_res = res, ps_db = d, ps_target = t, ps_resp = x\<rparr>"
  let ?q = "charged_request N route (?r [] undefined) subID res"
  have q: "?q = the_request N route r p0"
    by (simp add: lim [of subID res, symmetric] charged_admitted the_request_def p0_def del: opID_auth)
  have q': "hr_op ?q = opID subID (rt_Key route) r" "hr_consumption ?q = Some res" "auth_sub ?q = Some (subID, sub)"
    "hr_method ?q = hr_method r" "hr_body ?q = hr_body r"
    by (simp_all add: charged_request_def Let_def auth_sub_def p(1))
  let ?S3 = "S1\<lparr>gw_buckets := snd (limiter_verdict N E a sub (EffectiveRateClass route) S1), gw_db := d\<rparr>"
  note st = ServeProxy_state [of E "rt_Upstream route" t ?q w1 ?S3]
  have verdict: "limiter_verdict N E a sub c S1 = limiter_verdict N E a sub c S" for c by (simp add: limiter_verdict_def S1)
  have gate: "idem_gate N (?r [] undefined) = idem_gate N (admitted N route r a subID res)"
    by (rule idem_gate_cong) (simp_all add: admitted_def)
  show ?thesis
  proof (rule that [of p0])
    show "behind N E route r S p0"
      using a(1) scope p(1-6) S12(4) by (simp add: behind_def p0_def verdict S1 gate)
    show "ps_resp p0 = x" by (simp add: p0_def)
    have "gw_calls S2 = gw_calls (snd (ServeProxy E (rt_Upstream route) t ?q w1 ?S3))" by (subst p(8)) simp
    then show "gw_calls S' = gw_calls S @ [the_call N route r p0]"
      by (simp add: S2 st S1 q' the_call_def Let_def flip: q) (simp add: p0_def)
    have "gw_db (snd (ServeProxy E (rt_Upstream route) t ?q w1 ?S3)) = d" by (simp add: st)
    then have "gw_db S2 = db_after E route r p0"
      using after_proxy_db [OF q'(3,2), of E route x "snd (ServeProxy E (rt_Upstream route) t ?q w1 ?S3)"]
      by (subst p(8)) (auto simp: db_after_def p0_def q'(1) split: sum.split)
    then show "gw_db S' = db_after E route r p0" by (simp add: S2)
    have "gw_fed S2 = gw_fed S @ (if final_status x = StatusClientClosedRequest then [] else [(rt_Upstream route, final_status x < 500)])"
      by (subst p(8)) (simp add: after_proxy_fed st S1)
    then show "gw_fed S' = gw_fed S @ (if final_status x = StatusClientClosedRequest then [] else [(rt_Upstream route, final_status x < 500)])"
      by (simp add: S2)
    show "rp_status x = (if over_limit (the_request N route r p0) then 502
       else case ev_answer E of Answer st hh bd \<Rightarrow> st | ClientGone \<Rightarrow> 499 | Broken \<Rightarrow> 502)"
      using ServeProxy_status [of E "rt_Upstream route" t ?q w1 ?S3] p(7) by (simp add: q)
    have "gw_keys S2 = gw_keys S" "gw_subIDs S2 = gw_subIDs S" by (subst p(8), simp add: st S1)+
    then show "gw_keys S' = gw_keys S" "gw_subIDs S' = gw_subIDs S" by (simp_all add: S2)
  qed
qed

section \<open>Headers on the way out\<close>

lemma fold_hdel: "fold hdel ks h k = (if k \<in> CanonicalHeaderKey ` set ks then None else h k)"
  by (induction ks arbitrary: h) (auto simp: hdel_def)

lemma canonical_names [simp]:
  "CanonicalHeaderKey ''X-Internal-Key'' = ''X-Internal-Key''" "CanonicalHeaderKey ''X-Api-Key'' = ''X-Api-Key''"
  "CanonicalHeaderKey ''Authorization'' = ''Authorization''"
  "CanonicalHeaderKey ''X-Andromeda-Upstream-Path'' = ''X-Andromeda-Upstream-Path''"
  by code_simp+

lemma own_headers_survive:
  "''X-Andromeda-User-Id'' \<notin> CanonicalHeaderKey ` set hopHeaders" "''X-Andromeda-Api-Key-Id'' \<notin> CanonicalHeaderKey ` set hopHeaders"
  "''X-Andromeda-User-Id'' \<notin> CanonicalHeaderKey ` set [''Forwarded'', ''X-Forwarded-For'', ''X-Forwarded-Host'', ''X-Forwarded-Proto'']"
  "''X-Andromeda-Api-Key-Id'' \<notin> CanonicalHeaderKey ` set [''Forwarded'', ''X-Forwarded-For'', ''X-Forwarded-Host'', ''X-Forwarded-Proto'']"
  by code_simp+

lemma outbound_header:
  "strip_forwarding (removeHopByHopHeaders h) k =
     (if k \<in> CanonicalHeaderKey ` set [''Forwarded'', ''X-Forwarded-For'', ''X-Forwarded-Host'', ''X-Forwarded-Proto'']
         \<or> k \<in> CanonicalHeaderKey ` set hopHeaders \<or> k \<in> CanonicalHeaderKey ` set (connection_options h)
      then None else h k)"
  by (simp only: strip_forwarding_def removeHopByHopHeaders_def fold_hdel flip: if_bool_eq_disj split: if_split) blast

lemma Rewrite_header:
  "k \<notin> {''X-Andromeda-Upstream-Path'', ''Authorization'', ''X-Api-Key'', ''X-Internal-Key''} \<Longrightarrow> snd (Rewrite name t r h) k = h k"
  "snd (Rewrite name t r h) ''Authorization'' = None"
  "snd (Rewrite name t r h) ''X-Api-Key'' \<in> {None, Some [tg_authValue t]}"
  "snd (Rewrite name t r h) ''X-Internal-Key'' \<in> {None, Some [tg_authValue t]}"
  by (auto simp: Rewrite_def Let_def hdel_def hset_def authHeader_def)

lemma strip_Connection [simp]: "stripAndromedaHeaders h ''Connection'' = h ''Connection''"
  by (simp add: stripAndromedaHeaders_def)

lemma forwarded_names:
  assumes "hr_auth r = Some a"
  shows "forwarded_header route r ''X-Andromeda-User-Id'' = Some [au_user a]"
    "forwarded_header route r ''X-Andromeda-Api-Key-Id'' = Some [ak_id (au_key a)]"
    "forwarded_header route r ''Connection'' = hr_header r ''Connection''"
  using assms by (simp_all add: forwarded_header_def Let_def hset_def)

lemma connection_options_cong: "h ''Connection'' = g ''Connection'' \<Longrightarrow> connection_options h = connection_options g"
  by (simp add: connection_options_def)


text \<open>What the upstream learns of the caller. The owner and the key it names are those of the authenticated key,
  whatever headers the client sends, and the client's own credentials stay behind. But a client that names the gateway's header
  in \<open>Connection\<close> has it taken off again, and the upstream sees a request of nobody.\<close>

theorem upstream_sees_owner_or_nobody:
  assumes "registerProxyRoute N E route r w S = (x, S')" "gw_calls S' \<noteq> gw_calls S" "\<not> hr_loopback r"
  shows "\<exists>a t c. AuthenticateAPIKey (gw_subIDs S) (gw_db S) (gw_keys S) (Hash N (ExtractAPIKey (hr_header r))) = Inr a
    \<and> Get_target N (rt_Upstream route) = Some t \<and> gw_calls S' = gw_calls S @ [c]
    \<and> uc_header c ''X-Andromeda-User-Id'' =
        (if ''X-Andromeda-User-Id'' \<in> CanonicalHeaderKey ` set (connection_options (hr_header r)) then None else Some [au_user a])
    \<and> uc_header c ''X-Andromeda-Api-Key-Id'' =
        (if ''X-Andromeda-Api-Key-Id'' \<in> CanonicalHeaderKey ` set (connection_options (hr_header r)) then None else Some [ak_id (au_key a)])
    \<and> uc_header c ''Authorization'' = None
    \<and> uc_header c ''X-Api-Key'' \<in> {None, Some [tg_authValue t]} \<and> uc_header c ''X-Internal-Key'' \<in> {None, Some [tg_authValue t]}"
proof -
  obtain p where p: "behind N E route r S p" "gw_calls S' = gw_calls S @ [the_call N route r p]"
    by (rule proxied [OF assms])
  let ?q = "admitted N route r (ps_auth p) (ps_subID p) (ps_res p)"
  have q: "hr_auth ?q = Some (ps_auth p)" "hr_header ?q = hr_header r" by (simp_all add: admitted_def)
  let ?h = "forwarded_header route ?q"
  have o: "connection_options ?h = connection_options (hr_header r)"
    by (rule connection_options_cong) (simp add: forwarded_names [OF q(1)] q(2))
  have c: "uc_header (the_call N route r p) = snd (Rewrite (rt_Upstream route) (ps_target p) (the_request N route r p)
      (strip_forwarding (removeHopByHopHeaders ?h)))"
    by (simp add: the_call_def the_request_def Let_def)
  have n: "uc_header (the_call N route r p) k =
      (if k \<in> CanonicalHeaderKey ` set (connection_options (hr_header r)) then None else ?h k)"
    if "k \<in> {''X-Andromeda-User-Id'', ''X-Andromeda-Api-Key-Id''}" for k
  proof -
    have "k \<notin> {''X-Andromeda-Upstream-Path'', ''Authorization'', ''X-Api-Key'', ''X-Internal-Key''}" using that by auto
    then have out: "uc_header (the_call N route r p) k = strip_forwarding (removeHopByHopHeaders ?h) k"
      unfolding c by (rule Rewrite_header(1))
    have hop: "k \<notin> CanonicalHeaderKey ` set hopHeaders"
      "k \<notin> CanonicalHeaderKey ` set [''Forwarded'', ''X-Forwarded-For'', ''X-Forwarded-Host'', ''X-Forwarded-Proto'']"
      using that by (elim insertE emptyE; simp only: own_headers_survive not_False_eq_True)+
    show ?thesis unfolding out outbound_header o by (simp only: hop simp_thms)
  qed
  show ?thesis
  proof (rule exI [of _ "ps_auth p"], rule exI [of _ "ps_target p"], rule exI [of _ "the_call N route r p"], intro conjI)
    show "AuthenticateAPIKey (gw_subIDs S) (gw_db S) (gw_keys S) (Hash N (ExtractAPIKey (hr_header r))) = Inr (ps_auth p)"
      "Get_target N (rt_Upstream route) = Some (ps_target p)" using p(1) by (simp_all add: behind_def admits_def)
  qed (simp_all only: p(2) n insertI1 insertI2 forwarded_names [OF q(1)], simp_all only: c Rewrite_header)
qed

text \<open>A body over the limit of its route breaks the upload off in the proxy, which answers 502 and tells the circuit
  breaker that the upstream failed, whatever the upstream does: the breaker all tenants share.\<close>

theorem oversized_body_counts_against_the_upstream:
  assumes "registerProxyRoute N E route r w S = (x, S')" "gw_calls S' \<noteq> gw_calls S" "\<not> hr_loopback r"
    and "hr_method r = ''POST''" "0 < rt_MaxBody route" "rt_MaxBody route < length (hr_body r)"
  shows "rp_status x = 502 \<and> gw_fed S' = gw_fed S @ [(rt_Upstream route, False)]"
proof -
  obtain p where p: "gw_fed S' = gw_fed S @ (if final_status x = StatusClientClosedRequest then [] else [(rt_Upstream route, final_status x < 500)])"
    "rp_status x = (if over_limit (the_request N route r p) then 502
       else case ev_answer E of Answer st hh bd \<Rightarrow> st | ClientGone \<Rightarrow> 499 | Broken \<Rightarrow> 502)"
    by (rule proxied [OF assms(1-3)])
  have "over_limit (the_request N route r p)"
    using assms(4-6) by (auto simp: over_limit_def the_request_def admitted_def split: option.split)
  then have "rp_status x = 502" using p(2) by simp
  then show ?thesis using p(1) by (simp add: final_status_def StatusClientClosedRequest_def)
qed

text \<open>A route whose idempotency key is mandatory does not reach its upstream without one.\<close>

theorem no_key_no_call:
  assumes "rt \<in> set All" "rt_RequiresKey rt" "pathMatchesPattern (rt_Path rt) (splitPath (hr_path r))" "hr_method r = rt_Method rt"
    and "TrimSpace (hget (hr_header r) ''Idempotency-Key'') = []" "si_idempotency N" "\<not> hr_loopback r"
  shows "gw_calls (snd (registerProxyRoute N E rt r w S)) = gw_calls S"
proof (rule ccontr)
  assume g: "gw_calls (snd (registerProxyRoute N E rt r w S)) \<noteq> gw_calls S"
  obtain p where p: "behind N E rt r S p"
    by (rule proxied [OF prod.collapse [symmetric] g assms(7)])
  note w = required_route_is_written [OF assms(1,2)]
  let ?q = "admitted N rt r (ps_auth p) (ps_subID p) (ps_res p)"
  have "rq_required (idem_request ?q)" "rq_method (idem_request ?q) = rt_Method rt" "rq_key_header (idem_request ?q) = hget (hr_header r) ''Idempotency-Key''"
    using required_route_is_found [OF assms(1-3)] assms(4) by (simp_all add: idem_request_def admitted_def)
  then have "idem_gate N ?q = Refuse 400 ''missing_idempotency_key''"
    using w assms(5) by (auto simp: idem_gate_def handle_gate_def shouldApply_def Let_def)
  with p w assms(6) show False by (auto simp: behind_def)
qed

end
