(* ===== verification/GatewayBilling.thy ===== *)
theory GatewayBilling
  imports GatewaySafety
begin

text \<open>
  What a request costs. The chains refine the ledger: whatever a request does, the tables it leaves are those
  of a history of ledger operations (\<open>layer\<close> is the contract every middleware keeps, so a chain keeps
  it). A call that fails in the upstream gives back what it took; a second call under the same idempotency
  key takes nothing; and a refusal is kept under the key like any other answer.
\<close>

section \<open>Requests as histories of the ledger\<close>

text \<open>A request carries no split with negative shares, and a handler turns one history into a longer one.\<close>

definition fair :: "hreq \<Rightarrow> bool" where
  "fair r \<longleftrightarrow> (\<forall>c. hr_consumption r = Some c \<longrightarrow> 0 \<le> rs_FromMonthly c \<and> 0 \<le> rs_FromOverage c)"

definition bills :: "handler \<Rightarrow> bool" where
  "bills h \<longleftrightarrow> (\<forall>r w S. fair r \<longrightarrow> splits_nonneg (gw_db S) \<longrightarrow>
     billing_step\<^sup>*\<^sup>* (gw_db S) (gw_db (snd (h r w S))) \<and> splits_nonneg (gw_db (snd (h r w S))))"

lemma billsI:
  "(\<And>r w S. fair r \<Longrightarrow> splits_nonneg (gw_db S) \<Longrightarrow>
     billing_step\<^sup>*\<^sup>* (gw_db S) (gw_db (snd (h r w S))) \<and> splits_nonneg (gw_db (snd (h r w S)))) \<Longrightarrow> bills h"
  by (simp add: bills_def)

lemma billsD:
  "bills h \<Longrightarrow> fair r \<Longrightarrow> splits_nonneg (gw_db S) \<Longrightarrow>
     billing_step\<^sup>*\<^sup>* (gw_db S) (gw_db (snd (h r w S))) \<and> splits_nonneg (gw_db (snd (h r w S)))"
  by (simp add: bills_def)

lemma fair_simps [simp]:
  "fair (r\<lparr>hr_auth := a\<rparr>) = fair r" "fair (r\<lparr>hr_limit := l\<rparr>) = fair r" "fair (r\<lparr>hr_header := h\<rparr>) = fair r"
  "fair (r\<lparr>hr_id := i, hr_remote := m\<rparr>) = fair r"
  by (simp_all add: fair_def)

lemma refund_nonneg:
  assumes "splits_nonneg d" "RefundTokensV2 subID r op d = Inr d'"
  shows "splits_nonneg d'"
  using assms by (auto simp: RefundTokensV2_def Let_def apply_refund_def splits_nonneg_def split: if_splits)

lemma consumed_nonneg:
  assumes "splits_nonneg d" "ConsumeTokensV2 now dbnow fresh subID cost op d = Inr (res, d')"
  shows "0 \<le> rs_FromMonthly res \<and> 0 \<le> rs_FromOverage res"
proof -
  let ?op = "if op = [] then fresh else op"
  from assms(2) consider "replayLedgerCharge subID ?op d = Inr (res, d')"
    | sub where "charge_tx now dbnow subID cost ?op sub d = Inr (res, d')" "0 < cost"
    by (auto simp: ConsumeTokensV2_def Let_def split: if_splits option.splits)
  then show ?thesis
  proof cases
    case 1
    then obtain row where row: "charge_row subID ?op d = Some row" "rs_FromMonthly res = (case lg_breakdown row of Some b \<Rightarrow> rs_FromMonthly b | None \<Rightarrow> 0)"
      "rs_FromOverage res = (case lg_breakdown row of Some b \<Rightarrow> rs_FromOverage b | None \<Rightarrow> 0)"
      by (auto simp: replayLedgerCharge_def Let_def zero_result_def split: option.splits if_splits)
    then have "row \<in> set (ledger d)" by (auto simp: charge_row_def find_Some_iff)
    with row assms(1) show ?thesis by (auto simp: splits_nonneg_def split: option.split)
  next
    case 2
    then show ?thesis by (auto simp: charge_tx_def Let_def allocate_closed monthly_budget_def split: if_splits)
  qed
qed

lemma consume_steps:
  assumes "ConsumeTokensV2 now dbnow fresh subID cost op d = Inr (res, d')" "op \<noteq> []"
  shows "billing_step d d'"
proof (rule billing_step.charge)
  show "ConsumeTokensV2 now dbnow ''f'' subID cost op d = Inr (res, d')" using assms by (auto simp: ConsumeTokensV2_def Let_def split: if_splits)
qed simp

lemma refund_steps:
  assumes "fair r" "splits_nonneg (gw_db S)"
  shows "billing_step\<^sup>*\<^sup>* (gw_db S) (gw_db (refund E r S)) \<and> splits_nonneg (gw_db (refund E r S))"
proof (cases "refund E r S = S")
  case True
  then show ?thesis using assms(2) by simp
next
  case False
  then obtain subID c d where d: "hr_consumption r = Some c" "RefundTokensV2 subID c (hr_op r) (gw_db S) = Inr d" "gw_db (refund E r S) = d"
    by (auto simp: refund_def split: option.splits if_splits sum.splits)
  then have "billing_step (gw_db S) d" using assms(1) by (auto simp: fair_def intro: billing_step.refund)
  then show ?thesis using d refund_nonneg [OF assms(2) d(2)] by auto
qed

lemma opID_nonempty [simp]: "opID s k r \<noteq> []"
  by (simp add: opID_def Let_def)

text \<open>The contract of a middleware.\<close>

locale layer =
  fixes M :: "handler \<Rightarrow> handler"
  assumes keeps: "bills h \<Longrightarrow> bills (M h)"
begin

lemma steps:
  fixes S :: gw
  assumes "bills h" "fair r" "splits_nonneg (gw_db S)"
  shows "billing_step\<^sup>*\<^sup>* (gw_db S) (gw_db (snd (M h r w S)))"
  using billsD [OF keeps [OF assms(1)] assms(2,3)] by blast

lemma under: "layer M' \<Longrightarrow> layer (\<lambda>h. M (M' h))"
  using keeps by (simp add: layer_def)

end

text \<open>A middleware that hands the request on with the tables of the ledger as they are, or refuses it with them as they are.\<close>

definition passes :: "(handler \<Rightarrow> handler) \<Rightarrow> bool" where
  "passes M \<longleftrightarrow> (\<forall>h r w S. fair r \<longrightarrow> gw_db (snd (M h r w S)) = gw_db S
     \<or> (\<exists>r' w' S'. fair r' \<and> gw_db S' = gw_db S \<and> gw_db (snd (M h r w S)) = gw_db (snd (h r' w' S'))))"

lemma passes_layer: "passes M \<Longrightarrow> layer M"
proof
  fix h assume M: "passes M" and h: "bills h"
  show "bills (M h)"
  proof (rule billsI)
    fix r :: hreq and w :: header and S :: gw assume r: "fair r" and S: "splits_nonneg (gw_db S)"
    from M r consider "gw_db (snd (M h r w S)) = gw_db S"
      | r' w' S' where "fair r'" "gw_db S' = gw_db S" "gw_db (snd (M h r w S)) = gw_db (snd (h r' w' S'))"
      unfolding passes_def by metis
    then show "billing_step\<^sup>*\<^sup>* (gw_db S) (gw_db (snd (M h r w S))) \<and> splits_nonneg (gw_db (snd (M h r w S)))"
    proof cases
      case 1
      with S show ?thesis by simp
    next
      case (2 r' w' S')
      with billsD [OF h 2(1), of S' w'] S show ?thesis by simp
    qed
  qed
qed

interpretation key: layer "requireAPIKey N E" for N E
proof (rule passes_layer, unfold passes_def, intro allI impI)
  fix h :: handler and r :: hreq and w :: header and S :: gw assume "fair r"
  show "gw_db (snd (requireAPIKey N E h r w S)) = gw_db S
     \<or> (\<exists>r' w' S'. fair r' \<and> gw_db S' = gw_db S \<and> gw_db (snd (requireAPIKey N E h r w S)) = gw_db (snd (h r' w' S')))"
  proof (rule requireAPIKey_cases [of N E h r w S])
    fix a assume "requireAPIKey N E h r w S = h (r\<lparr>hr_auth := Some a\<rparr>) w (maybeTouchAPIKey E (ak_id (au_key a)) S)"
    with \<open>fair r\<close> show ?thesis
      by (intro disjI2 exI [of _ "r\<lparr>hr_auth := Some a\<rparr>"] exI [of _ w] exI [of _ "maybeTouchAPIKey E (ak_id (au_key a)) S"]) simp
  qed simp
qed

interpretation scope: layer "requireScope sc" for sc
  by (rule passes_layer) (auto simp: passes_def requireScope_def split: option.split)

interpretation subscribed: layer requireSubscription
  by (rule passes_layer) (auto simp: passes_def requireSubscription_def)

interpretation payload: layer "limitPayload m" for m
proof (rule passes_layer, unfold passes_def, intro allI impI disjI2)
  fix h :: handler and r :: hreq and w :: header and S :: gw assume "fair r"
  then show "\<exists>r' w' S'. fair r' \<and> gw_db S' = gw_db S \<and> gw_db (snd (limitPayload m h r w S)) = gw_db (snd (h r' w' S'))"
    unfolding limitPayload_def by (intro exI conjI, rule_tac [3] refl) auto
qed

interpretation limited: layer "applyRateLimitFor N E c" for N E c
proof (rule passes_layer, unfold passes_def, intro allI impI)
  fix h :: handler and r :: hreq and w :: header and S :: gw assume f: "fair r"
  show "gw_db (snd (applyRateLimitFor N E c h r w S)) = gw_db S
     \<or> (\<exists>r' w' S'. fair r' \<and> gw_db S' = gw_db S \<and> gw_db (snd (applyRateLimitFor N E c h r w S)) = gw_db (snd (h r' w' S')))"
  proof (cases "auth_sub r")
    case None
    then have "applyRateLimitFor N E c h r w S = h r w S"
      by (auto simp: applyRateLimitFor_def auth_sub_def split: option.splits)
    with f show ?thesis by metis
  next
    case (Some y)
    then obtain a subID sub where a: "hr_auth r = Some a" "au_sub a = Some (subID, sub)"
      by (cases y) (auto simp: auth_sub_def split: option.splits)
    show ?thesis
    proof (rule limit_cases [OF a, of N E c h w S])
      fix x S1 assume "applyRateLimitFor N E c h r w S = (x, S1)" "S1 = S\<lparr>gw_buckets := snd (limiter_verdict N E a sub c S)\<rparr>"
      then show ?thesis by simp
    next
      assume "applyRateLimitFor N E c h r w S = h r (hset ''X-Andromeda-Ratelimit-Class'' c w) (S\<lparr>gw_buckets := snd (limiter_verdict N E a sub c S)\<rparr>)"
      with f show ?thesis
        by (intro disjI2 exI [of _ r] exI [of _ "hset ''X-Andromeda-Ratelimit-Class'' c w"]
            exI [of _ "S\<lparr>gw_buckets := snd (limiter_verdict N E a sub c S)\<rparr>"]) simp
    qed
  qed
qed

interpretation idempotent: layer "idempotencyChain N E" for N E
proof (rule passes_layer, unfold passes_def, intro allI impI)
  fix h :: handler and r :: hreq and w :: header and S :: gw assume f: "fair r"
  show "gw_db (snd (idempotencyChain N E h r w S)) = gw_db S
     \<or> (\<exists>r' w' S'. fair r' \<and> gw_db S' = gw_db S \<and> gw_db (snd (idempotencyChain N E h r w S)) = gw_db (snd (h r' w' S')))"
  proof (rule idem_cases [of N E h r w S])
    fix x S1 assume "idempotencyChain N E h r w S = (x, S1)" "gw_db S1 = gw_db S"
    then show ?thesis by simp
  next
    assume "idempotencyChain N E h r w S = h r w S"
    with f show ?thesis by metis
  next
    fix s assume s: "idempotencyChain N E h r w S = idem_run E s h r w S"
    have "gw_db (snd (idem_run E s h r w S)) = gw_db (snd (h r w (S\<lparr>gw_redis := (gw_redis S)(lockKey (sl_key s) \<mapsto> Lock (sl_hash s))\<rparr>)))"
      by (simp add: idem_run_def Let_def case_prod_beta)
    with f show ?thesis
      by (intro disjI2 exI [of _ r] exI [of _ w] exI [of _ "S\<lparr>gw_redis := (gw_redis S)(lockKey (sl_key s) \<mapsto> Lock (sl_hash s))\<rparr>"])
        (simp add: s)
  qed
qed

interpretation charged: layer "chargeQuota N E key" for N E key
proof
  fix h assume h: "bills h"
  show "bills (chargeQuota N E key h)"
  proof (rule billsI)
    fix r :: hreq and w :: header and S :: gw assume f: "fair r" and S: "splits_nonneg (gw_db S)"
    show "billing_step\<^sup>*\<^sup>* (gw_db S) (gw_db (snd (chargeQuota N E key h r w S))) \<and> splits_nonneg (gw_db (snd (chargeQuota N E key h r w S)))"
    proof (cases "hr_loopback r \<or> auth_sub r = None")
      case True
      then show ?thesis using billsD [OF h f S, of w] S by (auto simp: chargeQuota_def)
    next
      case False
      then obtain subID sub where s: "\<not> hr_loopback r" "auth_sub r = Some (subID, sub)" by auto
      show ?thesis
      proof (rule charge_cases [OF s, of N E key h w S])
        fix x assume "chargeQuota N E key h r w S = (x, S)"
        with S show ?thesis by simp
      next
        fix res d
        assume c: "ConsumeTokensV2 (ev_now E) (ev_dbnow E) (ev_uuid E) subID (max 1 (Cost N key)) (opID subID key r) (gw_db S) = Inr (res, d)"
          and e: "chargeQuota N E key h r w S = h (r\<lparr>hr_cost := max 1 (Cost N key), hr_consumption := Some res, hr_op := opID subID key r\<rparr>)
            (charge_headers (max 1 (Cost N key)) res w) (S\<lparr>gw_db := d\<rparr>)"
        let ?r = "r\<lparr>hr_cost := max 1 (Cost N key), hr_consumption := Some res, hr_op := opID subID key r\<rparr>"
        have "fair ?r" using consumed_nonneg [OF S c] by (simp add: fair_def)
        moreover have "splits_nonneg (gw_db (S\<lparr>gw_db := d\<rparr>))" using charge_splits_nonneg [OF S c] by simp
        ultimately have "billing_step\<^sup>*\<^sup>* (gw_db (S\<lparr>gw_db := d\<rparr>)) (gw_db (snd (chargeQuota N E key h r w S)))
            \<and> splits_nonneg (gw_db (snd (chargeQuota N E key h r w S)))"
          unfolding e by (rule billsD [OF h])
        moreover have "billing_step (gw_db S) d" by (rule consume_steps [OF c]) simp
        ultimately show ?thesis by (auto intro: converse_rtranclp_into_rtranclp)
      qed
    qed
  qed
qed

interpretation refunded: layer "refundOnError E" for E
proof
  fix h assume h: "bills h"
  show "bills (refundOnError E h)"
  proof (rule billsI)
    fix r :: hreq and w :: header and S :: gw assume f: "fair r" and S: "splits_nonneg (gw_db S)"
    note b = billsD [OF h f S, of w]
    show "billing_step\<^sup>*\<^sup>* (gw_db S) (gw_db (snd (refundOnError E h r w S))) \<and> splits_nonneg (gw_db (snd (refundOnError E h r w S)))"
      using b refund_steps [OF f, of "snd (h r w S)" E]
      by (auto simp: refundOnError_def Let_def case_prod_beta intro: rtranclp_trans)
  qed
qed

lemma same_db_step: "gw_db T = gw_db S \<Longrightarrow> fair r \<Longrightarrow> splits_nonneg (gw_db S) \<Longrightarrow>
  billing_step\<^sup>*\<^sup>* (gw_db S) (gw_db (refund E r T)) \<and> splits_nonneg (gw_db (refund E r T))"
  using refund_steps [of r T E] by simp

lemma after_proxy_bills:
  assumes "fair r" "splits_nonneg (gw_db S)"
  shows "billing_step\<^sup>*\<^sup>* (gw_db S) (gw_db (after_proxy E route r x S)) \<and> splits_nonneg (gw_db (after_proxy E route r x S))"
proof -
  have m: "gw_db (MarkResult (rt_Upstream route) (final_status x) S) = gw_db S" by (simp add: MarkResult_def)
  show ?thesis
    using assms same_db_step [OF m assms, of E] same_db_step [OF refl assms, of E] m by (simp add: after_proxy_def Let_def)
qed

lemma proxy_bills: "bills (proxyHandler N E route)"
proof (rule billsI)
  fix r :: hreq and w :: header and S :: gw assume f: "fair r" and S: "splits_nonneg (gw_db S)"
  show "billing_step\<^sup>*\<^sup>* (gw_db S) (gw_db (snd (proxyHandler N E route r w S))) \<and> splits_nonneg (gw_db (snd (proxyHandler N E route r w S)))"
  proof (cases "\<exists>t. Get_target N (rt_Upstream route) = Some t \<and> tg_proxy t \<and> \<not> ev_open E (rt_Upstream route)")
    case True
    then obtain t where t: "Get_target N (rt_Upstream route) = Some t" "tg_proxy t" "\<not> ev_open E (rt_Upstream route)" by blast
    let ?r = "r\<lparr>hr_header := forwarded_header route r\<rparr>"
    let ?p = "ServeProxy E (rt_Upstream route) t ?r (route_headers route w) S"
    have "snd (proxyHandler N E route r w S) = after_proxy E route ?r (fst ?p) (snd ?p)"
      using t by (simp add: proxyHandler_def Let_def case_prod_beta)
    moreover have "gw_db (snd ?p) = gw_db S" by (simp add: ServeProxy_state)
    moreover have "fair ?r" using f by simp
    ultimately show ?thesis using after_proxy_bills [of ?r "snd ?p" E route "fst ?p"] S by simp
  next
    case False
    then have "\<exists>c. snd (proxyHandler N E route r w S) = refund E r (recordUsage r (rt_Key route) c True S)"
      by (auto simp: proxyHandler_def writeError_def Let_def split: option.split)
    then obtain c where "snd (proxyHandler N E route r w S) = refund E r (recordUsage r (rt_Key route) c True S)" by blast
    then show ?thesis using same_db_step [OF _ f S, of "recordUsage r (rt_Key route) c True S" E] by simp
  qed
qed

section \<open>The chains\<close>

lemma route_bills: "bills (registerProxyRoute N E route)"
  unfolding registerProxyRoute_def
  by (cases "0 < rt_MaxBody route"; cases "rt_Idempotent route";
      simp only: if_True if_False;
      intro key.keeps scope.keeps payload.keeps idempotent.keeps subscribed.keeps limited.keeps charged.keeps proxy_bills)

lemma group_bills:
  assumes "bills h"
  shows "bills (webhooks_group N E h)" "bills (audit_group N E h)" "bills (policy_group N E h)" "bills (intents_write_group N E k h)"
    "bills (intents_read_group N E k h)" "bills (future_sign_group N E h)" "bills (oracle_triggers_group N E h)" "bills (util_group N E h)"
    "bills (mcp_group N E h)"
  unfolding webhooks_group_def audit_group_def policy_group_def intents_write_group_def intents_read_group_def
    future_sign_group_def oracle_triggers_group_def util_group_def mcp_group_def
  by (intro key.keeps scope.keeps payload.keeps idempotent.keeps subscribed.keeps limited.keeps charged.keeps refunded.keeps assms)+

text \<open>A tool of the MCP server, over any multiplexer that keeps the contract.\<close>

lemma mcp_bills:
  assumes mux: "bills mux" and u: "ev_uuid E \<noteq> []"
  shows "bills (mcp_handler N E mux route path body)"
proof (rule billsI)
  fix r :: hreq and w :: header and S :: gw assume f: "fair r" and S: "splits_nonneg (gw_db S)"
  have st: "snd (mcp_handler N E mux route path body r w S) = snd (tools_call N E mux route path body r S)"
    by (auto simp: mcp_handler_def case_prod_beta split: sum.split)
  show "billing_step\<^sup>*\<^sup>* (gw_db S) (gw_db (snd (mcp_handler N E mux route path body r w S)))
    \<and> splits_nonneg (gw_db (snd (mcp_handler N E mux route path body r w S)))"
  proof (cases "fst (mcpCharge N E (rt_Key route) r S)")
    case (Inl q)
    then have "snd (tools_call N E mux route path body r S) = S"
      by (auto simp: tools_call_def mcpCharge_def case_prod_beta split: option.splits sum.splits store_error.splits)
    with S st show ?thesis by simp
  next
    case (Inr c)
    then obtain subID res d where c: "c = (subID, res)" "mcpCharge N E (rt_Key route) r S = (Inr (subID, res), S\<lparr>gw_db := d\<rparr>)"
      "ConsumeTokensV2 (ev_now E) (ev_dbnow E) (ev_uuid E) subID (max 1 (Cost N (rt_Key route))) (ev_uuid E) (gw_db S) = Inr (res, d)"
      by (auto simp: mcpCharge_def split: option.splits if_splits sum.splits store_error.splits)
    have d: "billing_step (gw_db S) d" "splits_nonneg d" "0 \<le> rs_FromMonthly res \<and> 0 \<le> rs_FromOverage res"
      using consume_steps [OF c(3) u] charge_splits_nonneg [OF S c(3)] consumed_nonneg [OF S c(3)] by auto
    let ?S1 = "S\<lparr>gw_db := d\<rparr>"
    let ?t = "if rt_Local route then loopback_tool N E mux route path body r ?S1 else proxy_tool N E route path body r ?S1"
    have t: "billing_step\<^sup>*\<^sup>* d (gw_db (snd ?t)) \<and> splits_nonneg (gw_db (snd ?t))"
    proof (cases "rt_Local route")
      case True
      have "fair (loopback_request route path body r)" using f by (simp add: loopback_request_def fair_def)
      from billsD [OF mux this, of ?S1 Map.empty] True d(2) show ?thesis
        by (simp add: loopback_tool_def Let_def case_prod_beta)
    next
      case False
      have "gw_db (snd (proxy_tool N E route path body r ?S1)) = d"
        by (auto simp: proxy_tool_def Call_def Let_def split: option.splits answer.splits if_splits)
      with False d(2) show ?thesis by simp
    qed
    have e: "snd (tools_call N E mux route path body r S) = (if tr_Refundable (fst ?t) then mcpRefund E (subID, res) (snd ?t) else snd ?t)"
      by (simp add: tools_call_def c Let_def case_prod_beta)
    have "billing_step\<^sup>*\<^sup>* (gw_db (snd ?t)) (gw_db (mcpRefund E (subID, res) (snd ?t))) \<and> splits_nonneg (gw_db (mcpRefund E (subID, res) (snd ?t)))"
    proof (cases "mcpRefund E (subID, res) (snd ?t) = snd ?t")
      case True
      with t show ?thesis by simp
    next
      case False
      then obtain d2 where d2: "RefundTokensV2 subID res (ev_uuid E) (gw_db (snd ?t)) = Inr d2" "gw_db (mcpRefund E (subID, res) (snd ?t)) = d2"
        by (auto simp: mcpRefund_def split: sum.splits if_splits)
      have "billing_step (gw_db (snd ?t)) d2" by (rule billing_step.refund [OF d2(1)]) (use d(3) in simp_all)
      moreover have "splits_nonneg d2" using t refund_nonneg [OF _ d2(1)] by blast
      ultimately show ?thesis unfolding d2(2) by blast
    qed
    with t have "billing_step\<^sup>*\<^sup>* d (gw_db (snd (tools_call N E mux route path body r S)))
       \<and> splits_nonneg (gw_db (snd (tools_call N E mux route path body r S)))"
      by (auto simp: e intro: rtranclp_trans)
    with d(1) st show ?thesis by (auto intro: converse_rtranclp_into_rtranclp)
  qed
qed

section \<open>The gateway and its ledger\<close>

text \<open>What the router serves: a proxied route, a group of local routes, the MCP server.\<close>

inductive served_by :: "site \<Rightarrow> env \<Rightarrow> handler \<Rightarrow> bool" for N E where
  proxied_route: "served_by N E (Router N E (registerProxyRoute N E route))"
| webhooks: "bills h \<Longrightarrow> served_by N E (Router N E (webhooks_group N E h))"
| audit: "bills h \<Longrightarrow> served_by N E (Router N E (audit_group N E h))"
| policy: "bills h \<Longrightarrow> served_by N E (Router N E (policy_group N E h))"
| intents_write: "bills h \<Longrightarrow> served_by N E (Router N E (intents_write_group N E k h))"
| intents_read: "bills h \<Longrightarrow> served_by N E (Router N E (intents_read_group N E k h))"
| future_sign: "bills h \<Longrightarrow> served_by N E (Router N E (future_sign_group N E h))"
| oracle_triggers: "bills h \<Longrightarrow> served_by N E (Router N E (oracle_triggers_group N E h))"
| util: "bills h \<Longrightarrow> served_by N E (Router N E (util_group N E h))"
| mcp: "bills mux \<Longrightarrow> served_by N E (Router N E (mcp_group N E (mcp_handler N E mux route path body)))"

inductive gateway_step :: "site \<Rightarrow> gw \<Rightarrow> gw \<Rightarrow> bool" for N where
  request: "served_by N E h \<Longrightarrow> ev_uuid E \<noteq> [] \<Longrightarrow> hr_consumption r = None \<Longrightarrow> h r w S = (x, S') \<Longrightarrow> gateway_step N S S'"

lemma Router_bills: "bills h \<Longrightarrow> bills (Router N E h)"
proof (rule billsI)
  fix r :: hreq and w :: header and S :: gw assume h: "bills h" "fair r" and S: "splits_nonneg (gw_db S)"
  let ?r = "r\<lparr>hr_id := si_requestID N (hr_header r) (ev_id E), hr_remote := trustedRealIP (si_ip N) (si_realip N) (si_trusted N) (hr_header r) (hr_remote r)\<rparr>"
  have "fair ?r" using h(2) by (simp add: fair_def)
  from billsD [OF payload.keeps [OF h(1)] this S]
  show "billing_step\<^sup>*\<^sup>* (gw_db S) (gw_db (snd (Router N E h r w S))) \<and> splits_nonneg (gw_db (snd (Router N E h r w S)))"
    by (simp add: Router_def)
qed

lemma served_bills: "served_by N E h \<Longrightarrow> ev_uuid E \<noteq> [] \<Longrightarrow> bills h"
  by (induction rule: served_by.induct) (auto intro!: Router_bills route_bills group_bills mcp_bills)

text \<open>The gateway refines its ledger: whatever requests it serves, on proxied routes, on its own or through MCP, the
  billing tables it leaves are those of a history of charges and refunds.\<close>

theorem gateway_refines_ledger:
  assumes "(gateway_step N)\<^sup>*\<^sup>* S S'" "splits_nonneg (gw_db S)"
  shows "billing_step\<^sup>*\<^sup>* (gw_db S) (gw_db S')"
proof -
  have "billing_step\<^sup>*\<^sup>* (gw_db S) (gw_db S') \<and> splits_nonneg (gw_db S')"
    using assms
  proof (induction rule: rtranclp_induct)
    case (step T T')
    then have T: "billing_step\<^sup>*\<^sup>* (gw_db S) (gw_db T)" "splits_nonneg (gw_db T)" by simp_all
    from step.hyps(2) obtain E h r w x where h: "served_by N E h" "ev_uuid E \<noteq> []" "hr_consumption r = None" "h r w T = (x, T')"
      by (cases rule: gateway_step.cases) blast
    have "fair r" using h(3) by (simp add: fair_def)
    from billsD [OF served_bills [OF h(1,2)] this T(2), of w] h(4) T(1) show ?case by (auto intro: rtranclp_trans)
  qed simp
  then show ?thesis by blast
qed

section \<open>Failed and repeated calls\<close>

lemma final_500: "500 \<le> rp_status x \<Longrightarrow> due_refund route x"
  by (auto simp: due_refund_def final_status_def)

text \<open>A call the upstream fails costs nothing: the subscription is as the rollover leaves it and every credit as it
  was, whatever buckets had paid.\<close>

theorem failed_call_is_refunded:
  assumes "registerProxyRoute N E route r w S = (x, S')" "gw_calls S' \<noteq> gw_calls S" "\<not> hr_loopback r"
    and "500 \<le> rp_status x" "\<not> ev_refund_down E" "credits_ok (credits (gw_db S))"
    and "\<And>i k. \<not> claimed (opID i (rt_Key route) r) k (gw_db S)"
    and "\<And>i sub. subs (gw_db S) i = Some sub \<Longrightarrow> 0 \<le> ct_used (sb_counters sub) \<and> 0 \<le> ct_overageUsed (sb_counters sub)"
  shows "\<exists>i sub sub1. subs (gw_db S) i = Some sub \<and> load_period (ev_now E) (plans (gw_db S)) sub = Inr sub1
    \<and> subs (gw_db S') = (subs (gw_db S))(i \<mapsto> sub1) \<and> credits (gw_db S') = credits (gw_db S) \<and> plans (gw_db S') = plans (gw_db S)"
proof -
  obtain p where p: "behind N E route r S p" "ps_resp p = x" "gw_db S' = db_after E route r p"
    by (rule proxied [OF assms(1-3)])
  have c: "ConsumeTokensV2 (ev_now E) (ev_dbnow E) (ev_uuid E) (ps_subID p) (max 1 (Cost N (rt_Key route)))
         (opID (ps_subID p) (rt_Key route) r) (gw_db S) = Inr (ps_res p, ps_db p)" using p(1) by (simp add: behind_def)
  from refund_undoes_charge [OF assms(6) opID_nonempty assms(7,7) c] assms(8)
  obtain sub sub1 d2 where d: "subs (gw_db S) (ps_subID p) = Some sub" "load_period (ev_now E) (plans (gw_db S)) sub = Inr sub1"
    "RefundTokensV2 (ps_subID p) (ps_res p) (opID (ps_subID p) (rt_Key route) r) (ps_db p) = Inr d2"
    "subs d2 = (subs (gw_db S))(ps_subID p \<mapsto> sub1)" "credits d2 = credits (gw_db S)" "plans d2 = plans (gw_db S)" by blast
  have "gw_db S' = d2" using p(2,3) final_500 [OF assms(4)] assms(5) d(3) by (simp add: db_after_def)
  with d show ?thesis by blast
qed

text \<open>The owner of a subscription and its state do not change by charges and refunds.\<close>

definition owner_of :: "db \<Rightarrow> string \<Rightarrow> (string \<times> bool \<times> string) option" where
  "owner_of d i = map_option (\<lambda>s. (sb_user s, sb_active s, sb_plan s)) (subs d i)"

lemma consume_owner: "ConsumeTokensV2 now dbnow fresh subID cost op d = Inr (res, d') \<Longrightarrow> owner_of d' = owner_of d \<and> plans d' = plans d"
  by (auto simp: owner_of_def fun_eq_iff ConsumeTokensV2_def Let_def replayLedgerCharge_def charge_tx_def
      split: if_splits option.splits dest: load_period_keeps)

lemma refund_owner: "RefundTokensV2 subID r op d = Inr d' \<Longrightarrow> owner_of d' = owner_of d \<and> plans d' = plans d"
  by (auto simp: owner_of_def fun_eq_iff RefundTokensV2_def Let_def apply_refund_def take_usage_def option.map_comp comp_def split: if_splits)

lemma active_owner:
  assumes "owner_of d' = owner_of d"
  shows "map_option fst (active_subscription ids d' user) = map_option fst (active_subscription ids d user)"
proof -
  have o: "map_option (\<lambda>s. (sb_user s, sb_active s, sb_plan s)) (subs d' i) = map_option (\<lambda>s. (sb_user s, sb_active s, sb_plan s)) (subs d i)" for i
    using assms by (auto simp: owner_of_def fun_eq_iff)
  have t: "(case subs d' i of None \<Rightarrow> False | Some s \<Rightarrow> sb_user s = user \<and> sb_active s)
     = (case subs d i of None \<Rightarrow> False | Some s \<Rightarrow> sb_user s = user \<and> sb_active s)" for i
    using o [of i] by (auto split: option.split)
  have n: "subs d' i = None \<longleftrightarrow> subs d i = None" for i using o [of i] by (cases "subs d i"; cases "subs d' i") auto
  have m: "map_option fst (map_option (Pair i) (subs d' i)) = map_option fst (map_option (Pair i) (subs d i))" for i
    using n [of i] by (cases "subs d i"; cases "subs d' i") simp_all
  show ?thesis unfolding active_subscription_def t by (cases "find (\<lambda>i. case subs d i of None \<Rightarrow> False | Some s \<Rightarrow> sb_user s = user \<and> sb_active s) ids") (simp_all only: option.case m option.map)
qed

lemma db_after_facts:
  assumes "behind N E route r S p"
  shows "owner_of (db_after E route r p) = owner_of (gw_db S)"
    "claimed (opID (ps_subID p) (rt_Key route) r) Charge (db_after E route r p)"
    "\<exists>row sub. charge_row (ps_subID p) (opID (ps_subID p) (rt_Key route) r) (db_after E route r p) = Some row
       \<and> subs (db_after E route r p) (ps_subID p) = Some sub \<and> sb_active sub \<and> plans (db_after E route r p) (sb_plan sub) \<noteq> None"
    "int4 (max 1 (Cost N (rt_Key route)))"
proof -
  let ?op = "opID (ps_subID p) (rt_Key route) r"
  have c: "ConsumeTokensV2 (ev_now E) (ev_dbnow E) (ev_uuid E) (ps_subID p) (max 1 (Cost N (rt_Key route))) ?op (gw_db S) = Inr (ps_res p, ps_db p)"
    using assms by (simp add: behind_def)
  show "int4 (max 1 (Cost N (rt_Key route)))" using c by (auto simp: ConsumeTokensV2_def Let_def split: if_splits option.splits)
  consider "db_after E route r p = ps_db p" | "RefundTokensV2 (ps_subID p) (ps_res p) ?op (ps_db p) = Inr (db_after E route r p)"
    unfolding db_after_def
    by (cases "due_refund route (ps_resp p) \<and> \<not> ev_refund_down E"; cases "RefundTokensV2 (ps_subID p) (ps_res p) ?op (ps_db p)") auto
  note k = this
  from consume_leaves_row [OF c opID_nonempty] obtain row sub where a: "claimed ?op Charge (ps_db p)" "charge_row (ps_subID p) ?op (ps_db p) = Some row"
    "subs (ps_db p) (ps_subID p) = Some sub" "sb_active sub" "plans (ps_db p) (sb_plan sub) \<noteq> None" by blast
  from k show "owner_of (db_after E route r p) = owner_of (gw_db S)"
    using consume_owner [OF c] by cases (auto dest: refund_owner)
  from k show "claimed ?op Charge (db_after E route r p)" using a(1) by cases (auto intro: refund_keeps_rows)
  from k show "\<exists>row sub. charge_row (ps_subID p) ?op (db_after E route r p) = Some row
       \<and> subs (db_after E route r p) (ps_subID p) = Some sub \<and> sb_active sub \<and> plans (db_after E route r p) (sb_plan sub) \<noteq> None"
  proof cases
    case 2
    from refund_keeps_rows(4) [OF 2 a(3)] obtain sub2 where s: "subs (db_after E route r p) (ps_subID p) = Some sub2" "sb_active sub2 = sb_active sub" "sb_plan sub2 = sb_plan sub" by blast
    from refund_keeps_rows(3) [OF 2 a(2)] s a(4,5) refund_keeps_rows(1) [OF 2] show ?thesis by auto
  qed (use a in auto)
qed

text \<open>A route is paid once per idempotency key, not once per call. A second request under the same key goes through to
  the upstream all the same where the route keeps no answers, and leaves the billing tables untouched, also when the first one was
  refunded.\<close>

theorem repeated_key_is_charged_once:
  assumes "registerProxyRoute N E1 route r1 w1 S = (x1, S1)" "gw_calls S1 \<noteq> gw_calls S" "\<not> hr_loopback r1"
    and "registerProxyRoute N E2 route r2 w2 S1 = (x2, S2)" "gw_calls S2 \<noteq> gw_calls S1" "\<not> hr_loopback r2"
    and "ExtractAPIKey (hr_header r2) = ExtractAPIKey (hr_header r1)"
    and "TrimSpace (hget (hr_header r2) ''Idempotency-Key'') = TrimSpace (hget (hr_header r1) ''Idempotency-Key'')"
    and "TrimSpace (hget (hr_header r1) ''Idempotency-Key'') \<noteq> []" "200 \<le> rp_status x2" "rp_status x2 < 499"
  shows "gw_db S2 = gw_db S1 \<and> length (gw_calls S2) = length (gw_calls S) + 2"
proof -
  obtain p where p: "behind N E1 route r1 S p" "gw_calls S1 = gw_calls S @ [the_call N route r1 p]" "gw_db S1 = db_after E1 route r1 p"
    "gw_keys S1 = gw_keys S" "gw_subIDs S1 = gw_subIDs S"
    by (rule proxied [OF assms(1-3)])
  obtain q where q: "behind N E2 route r2 S1 q" "ps_resp q = x2" "gw_calls S2 = gw_calls S1 @ [the_call N route r2 q]" "gw_db S2 = db_after E2 route r2 q"
    by (rule proxied [OF assms(4-6)])
  note facts = db_after_facts [OF p(1)]
  have a: "AuthenticateAPIKey (gw_subIDs S) (gw_db S) (gw_keys S) (Hash N (ExtractAPIKey (hr_header r1))) = Inr (ps_auth p)"
    "au_sub (ps_auth p) = Some (ps_subID p, ps_sub p)" using p(1) by (simp_all add: behind_def admits_def)
  have b: "AuthenticateAPIKey (gw_subIDs S) (gw_db S1) (gw_keys S) (Hash N (ExtractAPIKey (hr_header r1))) = Inr (ps_auth q)"
    "au_sub (ps_auth q) = Some (ps_subID q, ps_sub q)" using q(1) p(4,5) assms(7) by (simp_all add: behind_def admits_def)
  have "map_option fst (active_subscription (gw_subIDs S) (gw_db S1) u) = map_option fst (active_subscription (gw_subIDs S) (gw_db S) u)" for u
    by (rule active_owner) (simp add: p(3) facts(1))
  then have "map_option fst (au_sub (ps_auth q)) = map_option fst (au_sub (ps_auth p))"
    using a(1) b(1) by (auto simp: AuthenticateAPIKey_def split: option.splits if_splits dest!: sym [where t = "ps_auth p"] sym [where t = "ps_auth q"])
  then have same: "ps_subID q = ps_subID p" using a(2) b(2) by simp
  have op: "opID (ps_subID p) (rt_Key route) r2 = opID (ps_subID p) (rt_Key route) r1"
    using assms(8,9) by (simp add: opID_def Let_def)
  obtain row sub where row: "charge_row (ps_subID p) (opID (ps_subID p) (rt_Key route) r1) (gw_db S1) = Some row"
    "subs (gw_db S1) (ps_subID p) = Some sub" "sb_active sub" "plans (gw_db S1) (sb_plan sub) \<noteq> None"
    using facts(3) p(3) by auto
  have "\<exists>r. ConsumeTokensV2 (ev_now E2) (ev_dbnow E2) (ev_uuid E2) (ps_subID p) (max 1 (Cost N (rt_Key route)))
      (opID (ps_subID p) (rt_Key route) r1) (gw_db S1) = Inr (r, gw_db S1)"
    using replay_from_row [OF facts(2) [folded p(3)] row opID_nonempty _ facts(4), of "ev_now E2" "ev_dbnow E2" "ev_uuid E2"]
    by (auto simp: less_max_iff_disj)
  moreover have "ConsumeTokensV2 (ev_now E2) (ev_dbnow E2) (ev_uuid E2) (ps_subID q) (max 1 (Cost N (rt_Key route)))
      (opID (ps_subID q) (rt_Key route) r2) (gw_db S1) = Inr (ps_res q, ps_db q)" using q(1) by (simp add: behind_def)
  ultimately have "ps_db q = gw_db S1" by (simp add: same op)
  moreover have "\<not> due_refund route x2"
    using assms(10,11) by (auto simp: due_refund_def final_status_def StatusClientClosedRequest_def)
  ultimately have "gw_db S2 = gw_db S1" using q(2,4) by (simp add: db_after_def)
  then show ?thesis using p(2) q(3) by simp
qed

section \<open>Refusals under an idempotency key\<close>

lemma proxy_redis: "gw_redis (snd (proxyHandler N E route r w S)) = gw_redis S"
  by (auto simp: proxyHandler_def writeError_def Let_def case_prod_beta ServeProxy_state split: option.split)

lemma charge_redis:
  "(\<And>r w S. gw_redis (snd (h r w S)) = gw_redis S) \<Longrightarrow> gw_redis (snd (chargeQuota N E k h r w S)) = gw_redis S"
  by (auto simp: chargeQuota_def Let_def split: option.split sum.split store_error.split)

lemma limit_redis:
  "(\<And>r w S. gw_redis (snd (h r w S)) = gw_redis S) \<Longrightarrow> gw_redis (snd (applyRateLimitFor N E c h r w S)) = gw_redis S"
  by (auto simp: applyRateLimitFor_def Let_def case_prod_beta split: option.split verdict.split)

lemma paid_redis: "gw_redis (snd (paid N E route r w S)) = gw_redis S"
  by (auto simp: paid_def requireSubscription_def intro: limit_redis charge_redis proxy_redis)

text \<open>A refusal for want of a subscription, of tokens or of patience is an answer like any other to the idempotency
  layer of a proxied route: while the entry lives, a request with the same body under the same key gets it again, whatever has become of
  the account, the bucket and the upstream.\<close>

theorem refusals_are_replayed:
  assumes "idem_gate N r = Protect s" "si_idempotency N" "gw_redis S (sl_key s) = None" "gw_redis S (lockKey (sl_key s)) = None"
    and "\<not> ev_get_down E" "\<not> ev_setnx_down E" "\<not> ev_set_down E"
    and "idempotencyChain N E (paid N E route) r w S = (x, S1)" "rp_status x = 402 \<or> rp_status x = 403 \<or> rp_status x = 429"
    and "idem_gate N r2 = Protect s" "\<not> ev_get_down E2" "gw_redis S2 (sl_key s) = gw_redis S1 (sl_key s)"
  shows "\<exists>x2. idempotencyChain N E2 (paid N E2 route) r2 w2 S2 = (x2, idem_replayed r2 (rp_status x2) S2)
    \<and> rp_status x2 = rp_status x \<and> rp_body x2 = rp_body x"
proof -
  have run: "idem_run E s (paid N E route) r w S = (x, S1)"
    using assms(1-8) by (simp add: idempotencyChain_def after_get_def after_setnx_def)
  have "cacheable x" "final_status x = rp_status x" using assms(9) by (auto simp: cacheable_def final_status_def)
  moreover have "sl_key s \<noteq> lockKey (sl_key s)" by simp
  ultimately have e: "gw_redis S1 (sl_key s) = Some (Entry (entry_of (sl_hash s) (ev_saved E) x))"
    using run assms(7) by (auto simp: idem_run_def Let_def case_prod_beta)
  let ?x2 = "replayCached w2 (entry_of (sl_hash s) (ev_saved E) x)"
  have "after_get (si_failClosed N) s w2 (Some (gw_redis S2 (sl_key s))) = Finished (Replayed ?x2)"
    by (simp add: assms(12) e after_get_def entry_of_def)
  then have "idempotencyChain N E2 (paid N E2 route) r2 w2 S2 = (?x2, idem_replayed r2 (rp_status ?x2) S2)"
    using assms(2,10,11) by (simp add: idempotencyChain_def)
  then show ?thesis
    by (intro exI [of _ ?x2]) (simp add: replayCached_def entry_of_def \<open>final_status x = rp_status x\<close>)
qed

section \<open>A request that is let through\<close>

text \<open>The converse of \<open>proxied\<close>, for a route without idempotency: what passes every guard is sent.\<close>

lemma let_through:
  assumes "admits N E r S a" "HasScope (ak_scopes (au_key a)) (RequiredScope route)" "au_sub a = Some (subID, sub)"
    and "fst (limiter_verdict N E a sub (EffectiveRateClass route) S) = Admitted" "\<not> hr_loopback r" "\<not> ev_charge_down E"
    and "ConsumeTokensV2 (ev_now E) (ev_dbnow E) (ev_uuid E) subID (max 1 (Cost N (rt_Key route))) (opID subID (rt_Key route) r) (gw_db S) = Inr (res, d)"
    and "Get_target N (rt_Upstream route) = Some t" "tg_proxy t" "\<not> ev_open E (rt_Upstream route)" "\<not> rt_Idempotent route"
  shows "length (gw_calls (snd (registerProxyRoute N E route r w S))) = Suc (length (gw_calls S))"
proof -
  define r1 where "r1 = r\<lparr>hr_auth := Some a, hr_limit := hr_limit (admitted N route r a [] undefined)\<rparr>"
  let ?S = "maybeTouchAPIKey E (ak_id (au_key a)) S"
  have k: "requireAPIKey N E h r w S = h (r\<lparr>hr_auth := Some a\<rparr>) w ?S" for h
    using assms(1) unfolding requireAPIKey_def admits_def Let_def by (simp only: if_False simp_thms sum.case)
  have e: "registerProxyRoute N E route r w S = paid N E route r1 w ?S"
    using assms(2,11) limit_request [where route = route and h = "paid N E route" and r = r and a = a and w = w and S = ?S and N = N
        and subID = "[]" and res = undefined]
    by (simp add: registerProxyRoute_paid k requireScope_def r1_def)
  have a1: "hr_auth r1 = Some a" "auth_sub r1 = Some (subID, sub)" "\<not> hr_loopback r1" "opID subID k r1 = opID subID k r" for k
    using assms(3,5) by (simp_all add: r1_def auth_sub_def)
  have v: "fst (limiter_verdict N E a sub (EffectiveRateClass route) ?S) = Admitted"
    using assms(4) by (simp add: limiter_verdict_def)
  have l: "applyRateLimitFor N E c h r1 w ?S = h r1 (hset ''X-Andromeda-Ratelimit-Class'' c w) (?S\<lparr>gw_buckets := snd (limiter_verdict N E a sub c ?S)\<rparr>)"
    if "fst (limiter_verdict N E a sub c ?S) = Admitted" for c h
    using that a1(1) assms(3) by (simp add: applyRateLimitFor_def limiter_verdict_def Let_def case_prod_beta)
  have c: "chargeQuota N E (rt_Key route) h r1 w' (?S\<lparr>gw_buckets := b\<rparr>) =
      h (r1\<lparr>hr_cost := max 1 (Cost N (rt_Key route)), hr_consumption := Some res, hr_op := opID subID (rt_Key route) r\<rparr>)
        (charge_headers (max 1 (Cost N (rt_Key route))) res w') (?S\<lparr>gw_buckets := b, gw_db := d\<rparr>)" for h w' b
    using a1 assms(6,7) by (simp add: chargeQuota_def Let_def)
  show ?thesis
    using assms(8-10) a1(2) by (simp add: e paid_def requireSubscription_def l [OF v] c proxyHandler_def Let_def case_prod_beta ServeProxy_state)
qed

end
