(* ===== verification/GatewayRuns.thy ===== *)
theory GatewayRuns
  imports GatewayBilling
begin

text \<open>
  Runs of the gateway on a small account: one key, one subscription, the engine behind \<open>ika\<close>. They show that
  the properties of the chain apply, and two behaviours of the router that only a concrete route shows:
  the routes of the policy engine ask for no scope, and a tool of the MCP server needs no idempotency key.
\<close>

section \<open>An account\<close>

definition demo_site :: site where
  "demo_site = \<lparr>si_production = False, si_trusted = [], si_ip = (\<lambda>_. None), si_realip = (\<lambda>_ a. a), si_url = (\<lambda>_. None),
     si_requestID = (\<lambda>_ i. i), si_sha = (\<lambda>b. b), si_limiter = demo_limiter, si_idempotency = True, si_failClosed = True,
     si_maxBody = 10485760, si_costs = Map.empty, si_defaultCost = 1,
     si_targets = (\<lambda>_. Some \<lparr>tg_proxy = True, tg_base_path = ''/'', tg_authValue = ''internal''\<rparr>)\<rparr>"

definition demo_key :: "string list \<Rightarrow> api_key" where
  "demo_key scopes = \<lparr>ak_id = ''k1'', ak_user = ''u'', ak_hash = Hash demo_site ''secret'', ak_scopes = scopes, ak_ips = [],
     ak_origins = [], ak_revoked = False\<rparr>"

definition demo_world :: "string list \<Rightarrow> gw" where
  "demo_world scopes = \<lparr>gw_db = demo_db, gw_subIDs = [''s''], gw_keys = [demo_key scopes], gw_redis = Map.empty, gw_buckets = Map.empty,
     gw_calls = [], gw_fed = [], gw_replays = [], gw_usage = [], gw_drops = 0, gw_touched = Map.empty, gw_touches = []\<rparr>"

definition demo_env :: "int \<Rightarrow> int \<Rightarrow> env" where
  "demo_env ms status = \<lparr>ev_now = t1, ev_dbnow = t1, ev_ms = ms, ev_redis_ms = ms, ev_saved = ''t'', ev_uuid = ''f'', ev_id = ''i'',
     ev_keys_down = False, ev_charge_down = False, ev_refund_down = False, ev_limiter = Answered, ev_get_down = False,
     ev_setnx_down = False, ev_set_down = False, ev_del_down = False, ev_open = (\<lambda>_. False), ev_answer = Answer status Map.empty [1]\<rparr>"

definition demo_req :: "string \<Rightarrow> string \<Rightarrow> header \<Rightarrow> bytes \<Rightarrow> hreq" where
  "demo_req m p h b = \<lparr>hr_method = m, hr_path = p, hr_header = h(''X-Api-Key'' \<mapsto> [''secret'']), hr_remote = ''1.2.3.4:5'', hr_body = b,
     hr_limit = None, hr_params = [], hr_id = ''i'', hr_loopback = False, hr_auth = None, hr_cost = 0, hr_consumption = None, hr_op = []\<rparr>"

definition nonce_route :: Route where
  "nonce_route = (catalogued ''POST'' ''/v1/oidc/nonce'' ''ika'' ''ika.oidc.nonce'' RateClassRead)\<lparr>rt_MaxBody := 1024\<rparr>"

lemma nonce_route_catalogued: "nonce_route \<in> set All"
  by (simp add: nonce_route_def catalogue_defs)

lemma site_simps [simp]:
  "si_production demo_site = False" "si_limiter demo_site = demo_limiter" "si_idempotency demo_site" "si_failClosed demo_site"
  "si_trusted demo_site = []" "Cost demo_site k = 1"
  "Get_target demo_site ''ika'' = Some \<lparr>tg_proxy = True, tg_base_path = ''/'', tg_authValue = ''internal''\<rparr>"
  by (simp_all add: demo_site_def Cost_def Get_target_def)

lemma env_simps [simp]:
  "ev_now (demo_env m st) = t1" "ev_dbnow (demo_env m st) = t1" "ev_ms (demo_env m st) = m" "ev_redis_ms (demo_env m st) = m"
  "ev_uuid (demo_env m st) = ''f''" "ev_limiter (demo_env m st) = Answered" "\<not> ev_keys_down (demo_env m st)"
  "\<not> ev_charge_down (demo_env m st)" "\<not> ev_refund_down (demo_env m st)" "\<not> ev_open (demo_env m st) u"
  "\<not> ev_get_down (demo_env m st)" "\<not> ev_setnx_down (demo_env m st)" "\<not> ev_set_down (demo_env m st)"
  "ev_answer (demo_env m st) = Answer st Map.empty [1]"
  by (simp_all add: demo_env_def)

lemma req_simps [simp]:
  "hr_method (demo_req m p h b) = m" "hr_path (demo_req m p h b) = p" "hr_body (demo_req m p h b) = b"
  "\<not> hr_loopback (demo_req m p h b)" "hr_consumption (demo_req m p h b) = None"
  "hr_header (demo_req m p h b) = h(''X-Api-Key'' \<mapsto> [''secret''])"
  by (simp_all add: demo_req_def)

lemma key_simps [simp]:
  "ak_id (demo_key sc) = ''k1''" "ak_user (demo_key sc) = ''u''" "ak_hash (demo_key sc) = Hash demo_site ''secret''"
  "ak_scopes (demo_key sc) = sc" "ak_ips (demo_key sc) = []" "ak_origins (demo_key sc) = []" "\<not> ak_revoked (demo_key sc)"
  by (simp_all add: demo_key_def)

lemma world_simps [simp]:
  "gw_db (demo_world sc) = demo_db" "gw_subIDs (demo_world sc) = [''s'']" "gw_keys (demo_world sc) = [demo_key sc]"
  "gw_buckets (demo_world sc) = Map.empty" "gw_redis (demo_world sc) = Map.empty" "gw_calls (demo_world sc) = []" "gw_fed (demo_world sc) = []"
  by (simp_all add: demo_world_def)

lemma demo_secret [simp]: "ExtractAPIKey (h(''X-Api-Key'' \<mapsto> [''secret''])) = ''secret''"
  by (simp add: ExtractAPIKey_def hget_def TrimSpace_def is_space_def)

lemma demo_subscription [simp]: "active_subscription [''s''] demo_db ''u'' = Some (''s'', demo_sub)"
  by (simp add: active_subscription_def demo_db_def demo_sub_def)

definition demo_authed :: "string list \<Rightarrow> authed" where
  "demo_authed sc = \<lparr>au_user = ''u'', au_key = demo_key sc, au_sub = Some (''s'', demo_sub)\<rparr>"

lemma demo_admits: "admits demo_site (demo_env m st) (demo_req me p h b) (demo_world sc) (demo_authed sc)"
  by (simp add: admits_def AuthenticateAPIKey_def MatchesIPAllowlist_def MatchesOriginAllowlist_def demo_authed_def)

lemma demo_rate [simp]: "rateLimitFor demo_sub c = (1, 1)"
  by (simp add: rateLimitFor_def demo_sub_def demo_rates_def)

lemma demo_verdict: "fst (limiter_verdict demo_site (demo_env m st) (demo_authed sc) demo_sub c (demo_world sc)) = Admitted"
  by (simp add: limiter_verdict_def Allow_def demo_limiter_def limits_def script_level level_def)

text \<open>The first charge of the account, whatever its identifier.\<close>

lemma demo_charged: "op \<noteq> [] \<Longrightarrow> \<exists>res d. ConsumeTokensV2 t1 t1 fresh ''s'' 1 op demo_db = Inr (res, d)"
  by (simp add: demo ConsumeTokensV2_def Let_def int4_def claimed_def charge_tx_def
      load_period_def allocateConsumption_def ListActiveCredits_def is_active_credit_def bucket_of_def
      avail_def in64_def empty_plan_def add_usage_def)

lemma demo_sent:
  "HasScope sc ''read'' \<Longrightarrow>
    length (gw_calls (snd (registerProxyRoute demo_site (demo_env m st) nonce_route (demo_req me p h b) w (demo_world sc)))) = 1"
proof -
  assume sc: "HasScope sc ''read''"
  let ?r = "demo_req me p h b"
  obtain res d where c: "ConsumeTokensV2 t1 t1 ''f'' ''s'' 1 (opID ''s'' (rt_Key nonce_route) ?r) demo_db = Inr (res, d)"
    using demo_charged [of "opID ''s'' (rt_Key nonce_route) ?r" "''f''"] by auto
  have "length (gw_calls (snd (registerProxyRoute demo_site (demo_env m st) nonce_route ?r w (demo_world sc)))) = Suc (length (gw_calls (demo_world sc)))"
    by (rule let_through [where a = "demo_authed sc" and subID = "''s''" and sub = demo_sub
          and t = "\<lparr>tg_proxy = True, tg_base_path = ''/'', tg_authValue = ''internal''\<rparr>", OF demo_admits])
      (use sc c demo_verdict in \<open>simp_all add: demo_authed_def nonce_route_def catalogued_def RequiredScope_def EffectiveRateClass_def\<close>)
  then show ?thesis by simp
qed

section \<open>The properties apply\<close>

abbreviation nonce_run :: "int \<Rightarrow> header \<Rightarrow> bytes \<Rightarrow> resp \<times> gw" where
  "nonce_run status h b \<equiv> registerProxyRoute demo_site (demo_env 0 status) nonce_route (demo_req ''POST'' ''/v1/oidc/nonce'' h b) Map.empty (demo_world [''read''])"

lemma nonce_sent: "length (gw_calls (snd (nonce_run status h b))) = 1"
  by (rule demo_sent) (simp add: HasScope_def)

lemma nonce_grows: "gw_calls (snd (nonce_run status h b)) \<noteq> gw_calls (demo_world [''read''])"
  using nonce_sent [of status h b] by auto


lemma demo_Connection:
  "''X-Andromeda-User-Id'' \<in> CanonicalHeaderKey ` set (connection_options [''Connection'' \<mapsto> [''close, x-andromeda-user-id'']])"
proof -
  have "connection_options [''Connection'' \<mapsto> [''close, x-andromeda-user-id'']] = [''close'', ''x-andromeda-user-id'']"
    by code_simp
  moreover have "CanonicalHeaderKey ''x-andromeda-user-id'' = ''X-Andromeda-User-Id''" by code_simp
  ultimately show ?thesis by (simp only: list.set image_insert) simp
qed

theorem upstream_sees_owner_or_nobody_witness:
  "\<exists>c. gw_calls (snd (nonce_run 200 [''Connection'' \<mapsto> [''close, x-andromeda-user-id'']] [])) = [c] \<and> uc_header c ''X-Andromeda-User-Id'' = None"
proof -
  have "connection_options ([''Connection'' \<mapsto> [''close, x-andromeda-user-id'']](''X-Api-Key'' \<mapsto> [''secret'']))
    = connection_options [''Connection'' \<mapsto> [''close, x-andromeda-user-id'']]" by (rule connection_options_cong) simp
  then show ?thesis
    using upstream_sees_owner_or_nobody [OF prod.collapse [symmetric] nonce_grows [of 200 "[''Connection'' \<mapsto> [''close, x-andromeda-user-id'']]" "[]"]]
      demo_Connection by auto
qed

theorem oversized_body_counts_against_the_upstream_witness:
  "gw_fed (snd (nonce_run 200 Map.empty (replicate 1025 0))) = [(''ika'', False)]"
  using oversized_body_counts_against_the_upstream [OF prod.collapse [symmetric] nonce_grows [of 200 Map.empty "replicate 1025 0"]]
  by (simp add: nonce_route_def catalogued_def)

definition sign_route :: Route where
  "sign_route = (catalogued ''POST'' ''/v1/dwallet/sign/submit'' ''ika'' ''ika.sign.submit'' RateClassTx)\<lparr>rt_Idempotent := True, rt_RequiresKey := True, rt_Timeout := 90\<rparr>"

lemma sign_route_catalogued: "sign_route \<in> set All"
  by (simp add: sign_route_def catalogue_defs)

theorem no_key_no_call_witness:
  "gw_calls (snd (registerProxyRoute demo_site (demo_env 0 200) sign_route (demo_req ''POST'' ''/v1/dwallet/sign/submit'' Map.empty [1]) Map.empty (demo_world []))) = []"
proof -
  have "pathMatchesPattern (rt_Path sign_route) (splitPath ''/v1/dwallet/sign/submit'')"
    by (simp add: sign_route_def catalogued_def pathMatchesPattern_def Let_def list_all2_same)
  then show ?thesis
    using no_key_no_call [OF sign_route_catalogued, of "demo_req ''POST'' ''/v1/dwallet/sign/submit'' Map.empty [1]" demo_site "demo_env 0 200" Map.empty "demo_world []"]
    by (simp add: sign_route_def catalogued_def hget_def TrimSpace_def)
qed

theorem gateway_refines_ledger_witness:
  "billing_step\<^sup>*\<^sup>* demo_db (gw_db (snd (Router demo_site (demo_env 0 200) (registerProxyRoute demo_site (demo_env 0 200) nonce_route)
     (demo_req ''POST'' ''/v1/oidc/nonce'' Map.empty []) Map.empty (demo_world [''read'']))))"
proof -
  let ?h = "Router demo_site (demo_env 0 200) (registerProxyRoute demo_site (demo_env 0 200) nonce_route)"
  have "gateway_step demo_site (demo_world [''read'']) (snd (?h (demo_req ''POST'' ''/v1/oidc/nonce'' Map.empty []) Map.empty (demo_world [''read''])))"
    by (rule gateway_step.request [where E = "demo_env 0 200", OF served_by.proxied_route _ _ prod.collapse [symmetric]]) simp_all
  then have "(gateway_step demo_site)\<^sup>*\<^sup>* (demo_world [''read'']) (snd (?h (demo_req ''POST'' ''/v1/oidc/nonce'' Map.empty []) Map.empty (demo_world [''read''])))" by blast
  from gateway_refines_ledger [OF this] show ?thesis by (simp add: splits_nonneg_def demo_db_def)
qed

lemma nonce_status: "rp_status (fst (nonce_run status h [])) = status"
proof -
  obtain p where "rp_status (fst (nonce_run status h [])) = (if over_limit (the_request demo_site nonce_route (demo_req ''POST'' ''/v1/oidc/nonce'' h []) p) then 502
       else case ev_answer (demo_env 0 status) of Answer st hh bd \<Rightarrow> st | ClientGone \<Rightarrow> 499 | Broken \<Rightarrow> 502)"
    by (rule proxied [OF prod.collapse [symmetric] nonce_grows [of status h "[]"]]) simp_all
  then show ?thesis by (simp add: over_limit_def the_request_def admitted_def split: option.split)
qed

lemma demo_unclaimed: "\<not> claimed op k demo_db"
  by (simp add: claimed_def demo_db_def)

lemma demo_counters: "subs demo_db i = Some sub \<Longrightarrow> 0 \<le> ct_used (sb_counters sub) \<and> 0 \<le> ct_overageUsed (sb_counters sub)"
  by (auto simp: demo_db_def demo_sub_def split: if_splits)

theorem failed_call_is_refunded_witness:
  "rp_status (fst (nonce_run 503 Map.empty [])) = 503 \<and> credits (gw_db (snd (nonce_run 503 Map.empty []))) = credits demo_db"
proof -
  have "credits (gw_db (snd (nonce_run 503 Map.empty []))) = credits (gw_db (demo_world [''read'']))"
    using failed_call_is_refunded [OF prod.collapse [symmetric] nonce_grows [of 503 Map.empty "[]"]] demo_fresh nonce_status [of 503 Map.empty]
      demo_unclaimed demo_counters by simp blast
  then show ?thesis using nonce_status [of 503 Map.empty] by simp
qed

text \<open>The same key again, with the limiter out of reach: the second call is free.\<close>

definition demo_retry :: "int \<Rightarrow> env" where "demo_retry status = (demo_env 0 status)\<lparr>ev_limiter := Unreached\<rparr>"

lemma retry_simps [simp]:
  "ev_now (demo_retry st) = t1" "ev_dbnow (demo_retry st) = t1" "ev_uuid (demo_retry st) = ''f''" "\<not> ev_keys_down (demo_retry st)"
  "ev_limiter (demo_retry st) = Unreached" "\<not> ev_charge_down (demo_retry st)" "\<not> ev_open (demo_retry st) u"
  "ev_answer (demo_retry st) = Answer st Map.empty [1]"
  by (simp_all add: demo_retry_def)

lemma retry_verdict: "fst (limiter_verdict demo_site (demo_retry st) a sub c S) = Admitted"
  by (simp add: limiter_verdict_def Allow_def demo_limiter_def Let_def split: option.split prod.split)

lemma retry_sent:
  assumes "gw_keys S = [demo_key [''read'']]" "gw_subIDs S = [''s'']"
    and "subs (gw_db S) ''s'' = Some sub" "sb_user sub = ''u''" "sb_active sub"
    and "ConsumeTokensV2 t1 t1 ''f'' ''s'' 1 (opID ''s'' (rt_Key nonce_route) r) (gw_db S) = Inr (res, d)" "r = demo_req me p h b"
  shows "length (gw_calls (snd (registerProxyRoute demo_site (demo_retry st) nonce_route r w S))) = Suc (length (gw_calls S))"
proof -
  have a: "active_subscription [''s''] (gw_db S) ''u'' = Some (''s'', sub)" using assms(3-5) by (simp add: active_subscription_def)
  have "admits demo_site (demo_retry st) r S \<lparr>au_user = ''u'', au_key = demo_key [''read''], au_sub = Some (''s'', sub)\<rparr>"
    using a assms(1,2) by (simp add: admits_def AuthenticateAPIKey_def MatchesIPAllowlist_def MatchesOriginAllowlist_def assms(7))
  then show ?thesis
    by (rule let_through [where subID = "''s''" and sub = sub and res = res and d = d
          and t = "\<lparr>tg_proxy = True, tg_base_path = ''/'', tg_authValue = ''internal''\<rparr>"])
      (use assms(6) retry_verdict in \<open>simp_all add: assms(7) HasScope_def nonce_route_def catalogued_def RequiredScope_def EffectiveRateClass_def\<close>)
qed

abbreviation keyed_req :: hreq where
  "keyed_req \<equiv> demo_req ''POST'' ''/v1/oidc/nonce'' [''Idempotency-Key'' \<mapsto> [''12345678'']] []"

lemma retry_of_nonce:
  assumes "S1 = snd (nonce_run status [''Idempotency-Key'' \<mapsto> [''12345678'']] [])"
  shows "length (gw_calls (snd (registerProxyRoute demo_site (demo_retry st) nonce_route keyed_req w S1))) = Suc (length (gw_calls S1))"
proof -
  obtain p where p: "behind demo_site (demo_env 0 status) nonce_route keyed_req (demo_world [''read'']) p"
    "gw_db S1 = db_after (demo_env 0 status) nonce_route keyed_req p" "gw_keys S1 = gw_keys (demo_world [''read''])" "gw_subIDs S1 = gw_subIDs (demo_world [''read''])"
    using proxied [OF prod.collapse [symmetric] nonce_grows [of status "[''Idempotency-Key'' \<mapsto> [''12345678'']]" "[]"]] assms by (metis req_simps(4))
  have "Inr (ps_auth p) = (Inr (demo_authed [''read'']) :: key_error + authed)" "au_sub (ps_auth p) = Some (ps_subID p, ps_sub p)"
    using p(1) by (simp_all add: behind_def admits_def AuthenticateAPIKey_def demo_authed_def)
  then have "ps_subID p = ''s''" by (auto simp: demo_authed_def)
  note facts = db_after_facts [OF p(1), unfolded this]
  from facts(3) obtain row sub where row: "charge_row ''s'' (opID ''s'' (rt_Key nonce_route) keyed_req) (gw_db S1) = Some row"
      "subs (gw_db S1) ''s'' = Some sub" "sb_active sub" "plans (gw_db S1) (sb_plan sub) \<noteq> None" unfolding p(2) by blast
  have "sb_user sub = ''u''" using facts(1) row(2) unfolding p(2) by (auto simp: owner_of_def fun_eq_iff demo_db_def demo_sub_def dest!: spec [of _ "''s''"])
  moreover obtain res where "ConsumeTokensV2 t1 t1 ''f'' ''s'' 1 (opID ''s'' (rt_Key nonce_route) keyed_req) (gw_db S1) = Inr (res, gw_db S1)"
    using replay_from_row [OF facts(2) [folded p(2)] row opID_nonempty _ facts(4), of t1 t1 "''f''"] by auto
  ultimately show ?thesis using row p(3,4) by (intro retry_sent) simp_all
qed

theorem repeated_key_is_charged_once_witness:
  "let S1 = snd (nonce_run 503 [''Idempotency-Key'' \<mapsto> [''12345678'']] []);
       S2 = snd (registerProxyRoute demo_site (demo_retry 200) nonce_route keyed_req Map.empty S1)
   in gw_db S2 = gw_db S1 \<and> length (gw_calls S2) = 2"
proof -
  let ?S1 = "snd (nonce_run 503 [''Idempotency-Key'' \<mapsto> [''12345678'']] [])"
  let ?R2 = "registerProxyRoute demo_site (demo_retry 200) nonce_route keyed_req Map.empty ?S1"
  have g: "gw_calls (snd ?R2) \<noteq> gw_calls ?S1" using retry_of_nonce [OF refl, of 200 Map.empty 503] by auto
  have "rp_status (fst ?R2) = 200"
  proof -
    obtain q where "rp_status (fst ?R2) = (if over_limit (the_request demo_site nonce_route keyed_req q) then 502
       else case ev_answer (demo_retry 200) of Answer st hh bd \<Rightarrow> st | ClientGone \<Rightarrow> 499 | Broken \<Rightarrow> 502)"
      by (rule proxied [OF prod.collapse [symmetric] g]) simp_all
    then show ?thesis by (simp add: over_limit_def the_request_def admitted_def split: option.split)
  qed
  then show ?thesis
    using repeated_key_is_charged_once [OF prod.collapse [symmetric] nonce_grows [of 503 "[''Idempotency-Key'' \<mapsto> [''12345678'']]" "[]"] _
        prod.collapse [symmetric] g]
    by (simp add: hget_def TrimSpace_def is_space_def)
qed

text \<open>A key without a subscription is refused with 403, and still is when the user has one.\<close>

definition unsubscribed :: hreq where
  "unsubscribed = (demo_req ''POST'' ''/v1/dwallet/sign/submit'' [''Idempotency-Key'' \<mapsto> [''12345678'']] [1])
     \<lparr>hr_auth := Some ((demo_authed [])\<lparr>au_sub := None\<rparr>)\<rparr>"

definition subscribed :: hreq where
  "subscribed = unsubscribed\<lparr>hr_auth := Some (demo_authed [])\<rparr>"

theorem refusals_are_replayed_witness:
  "let (x, S1) = idempotencyChain demo_site (demo_env 0 200) (paid demo_site (demo_env 0 200) sign_route) unsubscribed Map.empty (demo_world [])
   in rp_status x = 403 \<and> (\<exists>x2. idempotencyChain demo_site (demo_env 9 200) (paid demo_site (demo_env 9 200) sign_route) subscribed Map.empty S1
         = (x2, idem_replayed subscribed 403 S1) \<and> rp_status x2 = 403)"
proof -
  let ?R = "idempotencyChain demo_site (demo_env 0 200) (paid demo_site (demo_env 0 200) sign_route) unsubscribed Map.empty (demo_world [])"
  have q: "idem_request subscribed = idem_request unsubscribed" "\<not> over_limit unsubscribed" "\<not> over_limit subscribed"
    by (simp_all add: idem_request_def subscribed_def unsubscribed_def demo_authed_def over_limit_def demo_req_def)
  have "\<exists>s. handle_gate (\<lambda>b. hex_lower (si_sha demo_site b)) (idem_request unsubscribed) = Protect s"
    by (simp add: handle_gate_def Let_def idem_request_def unsubscribed_def shouldApply_def hget_def TrimSpace_def is_space_def
        maxBodyHashBytes_def demo_req_def)
  then obtain s where s: "idem_gate demo_site unsubscribed = Protect s" "idem_gate demo_site subscribed = Protect s"
    using q by (auto simp: idem_gate_def)
  have "rp_status (fst ?R) = 403"
    using s(1) by (simp add: idempotencyChain_def after_get_def after_setnx_def idem_run_def paid_def requireSubscription_def auth_sub_def
        unsubscribed_def writeError_def Let_def case_prod_beta)
  then show ?thesis
    using refusals_are_replayed [of demo_site unsubscribed s "demo_world []" "demo_env 0 200" sign_route Map.empty "fst ?R" "snd ?R"
        subscribed "demo_env 9 200" "snd ?R" Map.empty] s
    by (auto simp: case_prod_beta demo_env_def)
qed

end
