(* ===== verification/Triggers.thy ===== *)
theory Triggers
  imports Prelude
begin

text \<open>
  What the two trigger stores share (\<open>gateway/internal/oraclemonitor\<close> and
  \<open>gateway/internal/futuresign\<close>): the states of a trigger, an \<open>UPDATE ... WHERE\<close> on a table of
  rows, and the contract of the stores as a locale over the ways a row may change. The clients
  get from it that a finished trigger stays as it is and that failures are bounded.
\<close>

datatype status = Armed | Firing | Fired | Expired | Cancelled | Failed

fun terminal :: "status \<Rightarrow> bool" where
  "terminal Armed = False"
| "terminal Firing = False"
| "terminal _ = True"

definition MaxRetryCount :: int where "MaxRetryCount = 10"

text \<open>An \<open>UPDATE\<close>: the number of rows affected and the new table.\<close>

definition update_where :: "('r \<Rightarrow> bool) \<Rightarrow> ('r \<Rightarrow> 'r) \<Rightarrow> 'r list \<Rightarrow> nat \<times> 'r list" where
  "update_where P f tbl = (length (filter P tbl), map (\<lambda>r. if P r then f r else r) tbl)"

lemma snd_update_where [simp]: "snd (update_where P f tbl) = map (\<lambda>r. if P r then f r else r) tbl"
  by (simp add: update_where_def)

lemma update_where_none: "fst (update_where P f tbl) = 0 \<Longrightarrow> snd (update_where P f tbl) = tbl"
  by (auto simp: update_where_def filter_empty_conv intro: map_idI)

text \<open>The row that comes first under a key, and rewriting rows without changing the key.\<close>

lemma insort_key_map:
  "(\<And>y. k (f y) = k y) \<Longrightarrow> insort_key k (f x) (map f xs) = map f (insort_key k x xs)"
  by (induction xs) auto

lemma sort_key_map: "(\<And>y. k (f y) = k y) \<Longrightarrow> sort_key k (map f xs) = map f (sort_key k xs)"
  by (induction xs) (simp_all add: insort_key_map)

locale trigger_rows =
  fixes rid :: "'r \<Rightarrow> string" and st :: "'r \<Rightarrow> status" and fails :: "'r \<Rightarrow> int"
    and signed :: "'r \<Rightarrow> string option" and move :: "'r \<Rightarrow> 'r \<Rightarrow> bool"
  assumes move_id: "move r r' \<Longrightarrow> rid r' = rid r"
    and move_terminal: "move r r' \<Longrightarrow> terminal (st r) \<Longrightarrow> st r' = st r \<and> signed r' = signed r"
    and move_fails: "move r r' \<Longrightarrow> fails r' = fails r \<and> (st r' \<in> {Armed, Firing} \<longrightarrow> st r \<in> {Armed, Firing})
      \<or> st r = Firing \<and> fails r' = fails r + 1 \<and> st r' = (if MaxRetryCount \<le> fails r' then Failed else Armed)"
    and move_signed: "move r r' \<Longrightarrow> signed r' = signed r \<or> st r' = Fired"
begin

text \<open>A store operation rewrites rows by moves and may add new armed rows at the end.\<close>

definition fresh_row :: "'r \<Rightarrow> bool" where
  "fresh_row r \<longleftrightarrow> st r = Armed \<and> fails r = 0 \<and> signed r = None"

definition op :: "'r list \<Rightarrow> 'r list \<Rightarrow> bool" where
  "op tbl tbl' \<longleftrightarrow> (\<exists>rows news. tbl' = rows @ news \<and> list_all2 (\<lambda>r r'. r' = r \<or> move r r') tbl rows
     \<and> list_all fresh_row news)"

lemma op_refl: "op tbl tbl"
  unfolding op_def by (intro exI [of _ tbl] exI [of _ "[]"]) (simp add: list_all2_same)

lemma op_update:
  assumes "\<And>r. P r \<Longrightarrow> move r (f r)"
  shows "op tbl (snd (update_where P f tbl))"
  unfolding op_def
  by (intro exI [of _ "snd (update_where P f tbl)"] exI [of _ "[]"])
    (simp add: list_all2_map2 list_all2_same assms)

lemma op_insert: "fresh_row r \<Longrightarrow> op tbl (tbl @ [r])"
  unfolding op_def by (intro exI [of _ tbl] exI [of _ "[r]"]) (simp add: list_all2_same)

text \<open>What holds of a row in any history.\<close>

definition row_ok :: "'r \<Rightarrow> bool" where
  "row_ok r \<longleftrightarrow> 0 \<le> fails r \<and> fails r \<le> MaxRetryCount \<and> (st r \<in> {Armed, Firing} \<longrightarrow> fails r < MaxRetryCount)
     \<and> (signed r \<noteq> None \<longrightarrow> st r = Fired)"

lemma move_ok:
  assumes "move r r'" "row_ok r"
  shows "row_ok r'"
proof -
  have "signed r' \<noteq> None \<longrightarrow> st r' = Fired"
    using move_signed [OF assms(1)] move_terminal [OF assms(1)] assms(2) by (auto simp: row_ok_def)
  with move_fails [OF assms(1)] assms(2) show ?thesis by (auto simp: row_ok_def split: if_splits)
qed

definition persists :: "'r \<Rightarrow> 'r \<Rightarrow> bool" where
  "persists r r' \<longleftrightarrow> rid r' = rid r \<and> (terminal (st r) \<longrightarrow> st r' = st r \<and> signed r' = signed r)"

lemma op_keeps:
  assumes "op tbl tbl'" "list_all row_ok tbl"
  shows "list_all row_ok tbl' \<and> length tbl \<le> length tbl' \<and> (\<forall>i < length tbl. persists (tbl ! i) (tbl' ! i))"
proof -
  from assms(1) obtain rows news where o: "tbl' = rows @ news"
    "list_all2 (\<lambda>r r'. r' = r \<or> move r r') tbl rows" "list_all fresh_row news" unfolding op_def by blast
  have len: "length rows = length tbl" using o(2) by (simp add: list_all2_lengthD)
  have row: "tbl ! i = rows ! i \<or> move (tbl ! i) (rows ! i)" if "i < length tbl" for i
    using list_all2_nthD [OF o(2) that] by auto
  have "row_ok (rows ! i)" if "i < length rows" for i
    using row [of i] assms(2) that len move_ok by (auto simp: list_all_length)
  moreover have "list_all row_ok news"
    using o(3) by (auto simp: list_all_iff fresh_row_def row_ok_def MaxRetryCount_def)
  moreover have "persists (tbl ! i) (rows ! i)" if "i < length tbl" for i
    using row [OF that] move_id move_terminal unfolding persists_def by metis
  ultimately show ?thesis using o(1) len by (auto simp: list_all_length nth_append)
qed

lemma history_keeps:
  assumes "op\<^sup>*\<^sup>* tbl tbl'" "list_all row_ok tbl"
  shows "list_all row_ok tbl' \<and> length tbl \<le> length tbl' \<and> (\<forall>i < length tbl. persists (tbl ! i) (tbl' ! i))"
  using assms(1)
proof (induction rule: rtranclp_induct)
  case base
  with assms(2) show ?case by (simp add: persists_def)
next
  case (step t1 t2)
  with op_keeps [OF step.hyps(2)] show ?case unfolding persists_def by (metis order_less_le_trans order_trans)
qed

text \<open>In particular, on the identifiers: a trigger that is finished is finished the same way in
  every later table.\<close>

lemma finished_stays:
  assumes "op\<^sup>*\<^sup>* tbl tbl'" "list_all row_ok tbl" "r \<in> set tbl" "terminal (st r)"
  shows "\<exists>r' \<in> set tbl'. rid r' = rid r \<and> st r' = st r \<and> signed r' = signed r"
proof -
  from assms(3) obtain i where i: "i < length tbl" "tbl ! i = r" by (auto simp: in_set_conv_nth)
  with history_keeps [OF assms(1,2)] assms(4) have "persists r (tbl' ! i)" "i < length tbl'" by auto
  then show ?thesis using assms(4) by (intro bexI [of _ "tbl' ! i"]) (simp_all add: persists_def)
qed

lemma failures_bounded:
  "op\<^sup>*\<^sup>* tbl tbl' \<Longrightarrow> list_all row_ok tbl \<Longrightarrow> r \<in> set tbl' \<Longrightarrow>
   fails r \<le> MaxRetryCount \<and> (st r \<in> {Armed, Firing} \<longrightarrow> fails r < MaxRetryCount) \<and> (signed r \<noteq> None \<longrightarrow> st r = Fired)"
  using history_keeps [of tbl tbl'] by (auto simp: list_all_iff row_ok_def)

end

end
