(* ===== verification/OracleMonitor.thy ===== *)
theory OracleMonitor
  imports Triggers
begin

text \<open>
  The managed price-trigger keeper, \<open>gateway/internal/oraclemonitor\<close>: the store (\<open>store.go\<close>, one
  definition per statement on the table), the band test and the tick of the watcher
  (\<open>watcher.go\<close>). Times are instants in nanoseconds; \<open>dbnow\<close> is the database's \<open>now()\<close>. The
  prices of Hermes and the outcome of a fire are arguments.
\<close>

section \<open>The store\<close>

record PriceTrigger =
  pt_ID :: string
  pt_APIKeyID :: string
  pt_Cluster :: string
  pt_DWalletAddress :: string
  pt_FeedCachePDA :: string
  pt_PythFeedIDHex :: string
  pt_Min1e8 :: int
  pt_Max1e8 :: int
  pt_HysteresisBps :: int
  pt_Payload :: string
  pt_Status :: status
  pt_CreatedAt :: int
  pt_ExpiresAt :: int
  pt_FiredAt :: "int option"
  pt_TxSignature :: "string option"
  pt_LastCheckAt :: "int option"
  pt_LastPrice1e8 :: "int option"
  pt_FailureCount :: int
  pt_LastError :: "string option"

record CreateRequest =
  cr_DWalletAddress :: string
  cr_FeedCachePDA :: string
  cr_PythFeedIDHex :: string
  cr_Min1e8 :: int
  cr_Max1e8 :: int
  cr_HysteresisBps :: int
  cr_ExpiresInSeconds :: int
  cr_Payload :: string

type_synonym table = "PriceTrigger list"

definition MaxArmedPerTenant :: nat where "MaxArmedPerTenant = 100"

datatype create_error = MinNegative | MinAboveMax | ExpiresTooSoon | TooManyArmed

definition Create ::
  "int \<Rightarrow> int \<Rightarrow> string \<Rightarrow> string \<Rightarrow> string \<Rightarrow> CreateRequest \<Rightarrow> table \<Rightarrow> create_error + (PriceTrigger \<times> table)" where
  "Create now dbnow newID apiKeyID cluster req tbl =
     (if cr_Min1e8 req < 0 then Inl MinNegative
      else if cr_Max1e8 req < cr_Min1e8 req then Inl MinAboveMax
      else if cr_ExpiresInSeconds req < 60 then Inl ExpiresTooSoon
      else if MaxArmedPerTenant
          \<le> length (filter (\<lambda>r. pt_APIKeyID r = apiKeyID \<and> pt_Cluster r = cluster \<and> pt_Status r = Armed) tbl)
        then Inl TooManyArmed
      else let t = \<lparr>pt_ID = newID, pt_APIKeyID = apiKeyID, pt_Cluster = cluster,
             pt_DWalletAddress = cr_DWalletAddress req, pt_FeedCachePDA = cr_FeedCachePDA req,
             pt_PythFeedIDHex = cr_PythFeedIDHex req, pt_Min1e8 = cr_Min1e8 req, pt_Max1e8 = cr_Max1e8 req,
             pt_HysteresisBps = cr_HysteresisBps req,
             pt_Payload = (if cr_Payload req = [] then ''{}'' else cr_Payload req), pt_Status = Armed,
             pt_CreatedAt = dbnow, pt_ExpiresAt = now + wrap64 (cr_ExpiresInSeconds req * 1000000000),
             pt_FiredAt = None, pt_TxSignature = None, pt_LastCheckAt = None, pt_LastPrice1e8 = None,
             pt_FailureCount = 0, pt_LastError = None\<rparr>
           in Inr (t, tbl @ [t]))"

definition Get :: "string \<Rightarrow> string \<Rightarrow> table \<Rightarrow> PriceTrigger option" where
  "Get apiKeyID tid tbl = find (\<lambda>r. pt_ID r = tid \<and> pt_APIKeyID r = apiKeyID) tbl"

definition List :: "string \<Rightarrow> int \<Rightarrow> table \<Rightarrow> PriceTrigger list" where
  "List apiKeyID limit tbl =
     (let limit = (if limit \<le> 0 \<or> 200 < limit then 50 else limit)
      in take (nat limit) (sort_key (\<lambda>r. - pt_CreatedAt r) (filter (\<lambda>r. pt_APIKeyID r = apiKeyID) tbl)))"

definition ListActiveArmed :: "string \<Rightarrow> int \<Rightarrow> int \<Rightarrow> table \<Rightarrow> PriceTrigger list" where
  "ListActiveArmed cluster limit now tbl =
     (let limit = (if limit \<le> 0 \<or> 1000 < limit then 500 else limit)
      in take (nat limit) (sort_key pt_CreatedAt
           (filter (\<lambda>r. pt_Cluster r = cluster \<and> pt_Status r = Armed \<and> now < pt_ExpiresAt r) tbl)))"

definition CountArmed :: "string \<Rightarrow> table \<Rightarrow> nat" where
  "CountArmed cluster tbl = length (filter (\<lambda>r. pt_Cluster r = cluster \<and> pt_Status r = Armed) tbl)"

text \<open>The row updates. Each returns the rows affected and the table; the Go methods turn zero
  rows into \<open>ErrNotFound\<close> (\<open>Cancel\<close>, \<open>MarkFired\<close>, \<open>MarkFailed\<close>) or false (\<open>ClaimByID\<close>).\<close>

definition Cancel :: "string \<Rightarrow> string \<Rightarrow> table \<Rightarrow> nat \<times> table" where
  "Cancel apiKeyID tid = update_where (\<lambda>r. pt_ID r = tid \<and> pt_APIKeyID r = apiKeyID \<and> pt_Status r = Armed)
     (pt_Status_update (\<lambda>_. Cancelled))"

definition ClaimByID :: "int \<Rightarrow> string \<Rightarrow> int \<Rightarrow> table \<Rightarrow> nat \<times> table" where
  "ClaimByID dbnow tid price = update_where (\<lambda>r. pt_ID r = tid \<and> pt_Status r = Armed)
     (\<lambda>r. r\<lparr>pt_Status := Firing, pt_LastCheckAt := Some dbnow, pt_LastPrice1e8 := Some price\<rparr>)"

definition MarkFired :: "int \<Rightarrow> string \<Rightarrow> string \<Rightarrow> table \<Rightarrow> nat \<times> table" where
  "MarkFired dbnow tid txSignature = update_where (\<lambda>r. pt_ID r = tid \<and> pt_Status r = Firing)
     (\<lambda>r. r\<lparr>pt_Status := Fired, pt_FiredAt := Some dbnow, pt_TxSignature := Some txSignature\<rparr>)"

definition sanitize :: "string \<Rightarrow> string" where
  "sanitize s = (if 500 < length s then take 500 s else s)"

definition MarkFailed :: "string \<Rightarrow> string \<Rightarrow> table \<Rightarrow> nat \<times> table" where
  "MarkFailed tid reason = update_where (\<lambda>r. pt_ID r = tid \<and> pt_Status r = Firing)
     (\<lambda>r. r\<lparr>pt_Status := (if MaxRetryCount \<le> pt_FailureCount r + 1 then Failed else Armed),
        pt_FailureCount := pt_FailureCount r + 1, pt_LastError := Some (sanitize reason)\<rparr>)"

definition RecordCheck :: "int \<Rightarrow> string \<Rightarrow> int \<Rightarrow> table \<Rightarrow> nat \<times> table" where
  "RecordCheck dbnow tid price = update_where (\<lambda>r. pt_ID r = tid \<and> pt_Status r = Armed)
     (\<lambda>r. r\<lparr>pt_LastCheckAt := Some dbnow, pt_LastPrice1e8 := Some price\<rparr>)"

definition is_stuck :: "int \<Rightarrow> PriceTrigger \<Rightarrow> bool" where
  "is_stuck olderThan r \<longleftrightarrow> pt_Status r = Firing
     \<and> (case pt_LastCheckAt r of Some c \<Rightarrow> c < olderThan | None \<Rightarrow> False)"

definition ReapStuckFiring :: "int \<Rightarrow> table \<Rightarrow> string list \<times> table" where
  "ReapStuckFiring olderThan tbl =
     (map pt_ID (filter (is_stuck olderThan) tbl),
      snd (update_where (is_stuck olderThan)
        (\<lambda>r. r\<lparr>pt_Status := Failed, pt_LastError := Some
           ''stuck in firing (worker interrupted); not retried to avoid double-sign''\<rparr>) tbl))"

definition ExpireOverdue :: "int \<Rightarrow> table \<Rightarrow> string list \<times> table" where
  "ExpireOverdue now tbl =
     (map pt_ID (filter (\<lambda>r. pt_Status r = Armed \<and> pt_ExpiresAt r \<le> now) tbl),
      snd (update_where (\<lambda>r. pt_Status r = Armed \<and> pt_ExpiresAt r \<le> now) (pt_Status_update (\<lambda>_. Expired)) tbl))"

section \<open>The watcher\<close>

definition absI64 :: "int \<Rightarrow> int" where
  "absI64 v = (if v < 0 then wrap64 (- v) else v)"

definition inBand :: "int \<Rightarrow> int \<Rightarrow> int \<Rightarrow> int \<Rightarrow> bool" where
  "inBand price lo hi hystBps =
     (if hystBps \<le> 0 then lo \<le> price \<and> price \<le> hi
      else let effMin = wrap64 (lo + wrap64 (quot (absI64 lo) 10000 * hystBps));
               effMax = wrap64 (hi - wrap64 (quot (absI64 hi) 10000 * hystBps))
           in if effMax < effMin then lo \<le> price \<and> price \<le> hi
              else effMin \<le> price \<and> price \<le> effMax)"

text \<open>The surroundings of a tick: what Hermes answers for a list of feeds, whether a firer is
  wired and what a fire of a trigger yields (an error or the signature), which database calls
  fail, and after how many triggers the context is cancelled.\<close>

record tick_env =
  te_now :: int
  te_dbnow :: int
  te_cluster :: string
  te_batch :: int
  te_LatestPrices :: "string list \<Rightarrow> (string \<rightharpoonup> int) option"
  te_firer :: "(string \<Rightarrow> string \<Rightarrow> string + string) option"
  te_claim_fails :: "string \<Rightarrow> bool"
  te_check_fails :: "string \<Rightarrow> bool"
  te_mark_fails :: "string \<Rightarrow> bool"
  te_live :: nat

datatype effect = FireCall string string int | FiredEvent string string

definition mark_failed :: "tick_env \<Rightarrow> string \<Rightarrow> string \<Rightarrow> table \<Rightarrow> table" where
  "mark_failed env tid reason tbl = (if te_mark_fails env tid then tbl else snd (MarkFailed tid reason tbl))"

definition fire :: "tick_env \<Rightarrow> PriceTrigger \<Rightarrow> int \<Rightarrow> table \<Rightarrow> table \<times> effect list" where
  "fire env t price tbl =
     (case te_firer env of
        None \<Rightarrow> (mark_failed env (pt_ID t) ''firer not configured'' tbl, [])
      | Some f \<Rightarrow>
          (case f (pt_ID t) (pt_Payload t) of
             Inl e \<Rightarrow> (mark_failed env (pt_ID t) e tbl, [FireCall (pt_ID t) (pt_Payload t) price])
           | Inr txSig \<Rightarrow>
               if te_mark_fails env (pt_ID t) \<or> fst (MarkFired (te_dbnow env) (pt_ID t) txSig tbl) = 0
               then (tbl, [FireCall (pt_ID t) (pt_Payload t) price])
               else (snd (MarkFired (te_dbnow env) (pt_ID t) txSig tbl),
                     [FireCall (pt_ID t) (pt_Payload t) price, FiredEvent (pt_APIKeyID t) (pt_ID t)])))"

text \<open>The body of the loop for one trigger of the batch.\<close>

definition tick_trigger ::
  "tick_env \<Rightarrow> (string \<rightharpoonup> int) \<Rightarrow> PriceTrigger \<Rightarrow> table \<Rightarrow> table \<times> effect list" where
  "tick_trigger env prices t tbl =
     (case prices (pt_PythFeedIDHex t) of
        None \<Rightarrow> (tbl, [])
      | Some price \<Rightarrow>
          if \<not> inBand price (pt_Min1e8 t) (pt_Max1e8 t) (pt_HysteresisBps t) then
            (if pt_LastPrice1e8 t \<noteq> Some price \<and> \<not> te_check_fails env (pt_ID t)
             then (snd (RecordCheck (te_dbnow env) (pt_ID t) price tbl), []) else (tbl, []))
          else if te_claim_fails env (pt_ID t) then (tbl, [])
          else let (n, tbl1) = ClaimByID (te_dbnow env) (pt_ID t) price tbl in
            if n \<noteq> 1 then (tbl1, []) else fire env t price tbl1)"

fun tick_loop :: "tick_env \<Rightarrow> (string \<rightharpoonup> int) \<Rightarrow> PriceTrigger list \<Rightarrow> table \<Rightarrow> table \<times> effect list" where
  "tick_loop env prices [] tbl = (tbl, [])"
| "tick_loop env prices (t # ts) tbl =
     (let (tbl1, es) = tick_trigger env prices t tbl; (tbl2, es2) = tick_loop env prices ts tbl1
      in (tbl2, es @ es2))"

definition tickOnce :: "tick_env \<Rightarrow> table \<Rightarrow> table \<times> effect list" where
  "tickOnce env tbl =
     (let triggers = ListActiveArmed (te_cluster env) (te_batch env) (te_now env) tbl
      in if triggers = [] then (tbl, [])
         else case te_LatestPrices env (rev (remdups (rev (map pt_PythFeedIDHex triggers)))) of
           None \<Rightarrow> (tbl, [])
         | Some prices \<Rightarrow> tick_loop env prices (take (te_live env) triggers) tbl)"

text \<open>One round of the expiry loop; an event goes out for each expired trigger, to nobody in
  particular (\<open>uuid.Nil\<close>).\<close>

definition stuckFiringTimeout :: int where "stuckFiringTimeout = 5 * 60 * 1000000000"

definition expiry_round :: "int \<Rightarrow> table \<Rightarrow> string list \<times> table" where
  "expiry_round now tbl =
     (let (ids, tbl1) = ExpireOverdue now tbl in (ids, snd (ReapStuckFiring (now - stuckFiringTimeout) tbl1)))"

section \<open>The store keeps the contract\<close>

inductive price_move :: "PriceTrigger \<Rightarrow> PriceTrigger \<Rightarrow> bool" where
  cancelled: "pt_Status r = Armed \<Longrightarrow> price_move r (pt_Status_update (\<lambda>_. Cancelled) r)"
| expired: "pt_Status r = Armed \<Longrightarrow> price_move r (pt_Status_update (\<lambda>_. Expired) r)"
| checked: "pt_Status r = Armed \<Longrightarrow> price_move r (r\<lparr>pt_LastCheckAt := c, pt_LastPrice1e8 := p\<rparr>)"
| claimed: "pt_Status r = Armed \<Longrightarrow> price_move r (r\<lparr>pt_Status := Firing, pt_LastCheckAt := c, pt_LastPrice1e8 := p\<rparr>)"
| fired: "pt_Status r = Firing \<Longrightarrow> price_move r (r\<lparr>pt_Status := Fired, pt_FiredAt := c, pt_TxSignature := Some s\<rparr>)"
| failed: "pt_Status r = Firing \<Longrightarrow> price_move r
     (r\<lparr>pt_Status := (if MaxRetryCount \<le> pt_FailureCount r + 1 then Failed else Armed),
        pt_FailureCount := pt_FailureCount r + 1, pt_LastError := e\<rparr>)"
| reaped: "pt_Status r = Firing \<Longrightarrow> price_move r (r\<lparr>pt_Status := Failed, pt_LastError := e\<rparr>)"

inductive_cases price_moveE: "price_move r r'"

interpretation pt: trigger_rows pt_ID pt_Status pt_FailureCount pt_TxSignature price_move
proof unfold_locales
  fix r r' assume m: "price_move r r'"
  show "pt_ID r' = pt_ID r" using m by cases auto
  show "terminal (pt_Status r) \<Longrightarrow> pt_Status r' = pt_Status r \<and> pt_TxSignature r' = pt_TxSignature r"
    using m by cases auto
  show "pt_FailureCount r' = pt_FailureCount r \<and> (pt_Status r' \<in> {Armed, Firing} \<longrightarrow> pt_Status r \<in> {Armed, Firing}) \<or>
    pt_Status r = Firing \<and> pt_FailureCount r' = pt_FailureCount r + 1 \<and>
    pt_Status r' = (if MaxRetryCount \<le> pt_FailureCount r' then Failed else Armed)"
    using m by cases auto
  show "pt_TxSignature r' = pt_TxSignature r \<or> pt_Status r' = Fired" using m by cases auto
qed

lemma store_ops:
  "pt.op tbl (snd (Cancel a i tbl))" "pt.op tbl (snd (ClaimByID n i p tbl))"
  "pt.op tbl (snd (MarkFired n i s tbl))" "pt.op tbl (snd (MarkFailed i e tbl))"
  "pt.op tbl (snd (RecordCheck n i p tbl))" "pt.op tbl (snd (ReapStuckFiring n tbl))"
  "pt.op tbl (snd (ExpireOverdue n tbl))"
  unfolding Cancel_def ClaimByID_def MarkFired_def MarkFailed_def RecordCheck_def ReapStuckFiring_def
    ExpireOverdue_def is_stuck_def snd_conv
  by (rule pt.op_update; blast intro: price_move.intros)+

lemma create_op: "Create now dbnow i a c req tbl = Inr (t, tbl') \<Longrightarrow> pt.op tbl tbl'"
  by (auto simp: Create_def Let_def pt.fresh_row_def split: if_splits intro!: pt.op_insert)

text \<open>A history of the table: the calls of the routes, the statements of any number of watchers in
  any order, and whole ticks.\<close>

inductive price_step :: "table \<Rightarrow> table \<Rightarrow> bool" where
  create: "Create now dbnow i a c req tbl = Inr (t, tbl') \<Longrightarrow> price_step tbl tbl'"
| cancel: "price_step tbl (snd (Cancel a i tbl))"
| claim: "price_step tbl (snd (ClaimByID n i p tbl))"
| mark_fired: "price_step tbl (snd (MarkFired n i s tbl))"
| mark_failed: "price_step tbl (snd (MarkFailed i e tbl))"
| check: "price_step tbl (snd (RecordCheck n i p tbl))"
| tick: "price_step tbl (fst (tickOnce env tbl))"
| expiry: "price_step tbl (snd (expiry_round n tbl))"

lemma fire_ops: "pt.op\<^sup>*\<^sup>* tbl (fst (fire env t p tbl))"
  by (auto simp: fire_def mark_failed_def split: option.split sum.split intro: store_ops r_into_rtranclp)

lemma tick_trigger_ops: "pt.op\<^sup>*\<^sup>* tbl (fst (tick_trigger env prices t tbl))"
proof -
  have c: "pt.op\<^sup>*\<^sup>* tbl (fst (fire env t p (snd (ClaimByID n i p tbl))))" for n i p
    using store_ops(2) [of tbl n i p] fire_ops by (rule converse_rtranclp_into_rtranclp)
  show ?thesis
    using c by (auto simp: tick_trigger_def split_beta split: option.split intro: store_ops r_into_rtranclp)
qed

lemma tick_loop_ops: "pt.op\<^sup>*\<^sup>* tbl (fst (tick_loop env prices ts tbl))"
proof (induction ts arbitrary: tbl)
  case (Cons t ts)
  have "pt.op\<^sup>*\<^sup>* tbl (fst (tick_trigger env prices t tbl))" by (rule tick_trigger_ops)
  also have "pt.op\<^sup>*\<^sup>* (fst (tick_trigger env prices t tbl)) (fst (tick_loop env prices ts (fst (tick_trigger env prices t tbl))))"
    by (rule Cons.IH)
  finally show ?case by (simp add: split_beta)
qed simp

lemma tick_ops: "pt.op\<^sup>*\<^sup>* tbl (fst (tickOnce env tbl))"
  by (simp add: tickOnce_def Let_def tick_loop_ops split: option.split)

lemma expiry_ops: "pt.op\<^sup>*\<^sup>* tbl (snd (expiry_round n tbl))"
proof -
  have "pt.op tbl (snd (ExpireOverdue n tbl))" by (rule store_ops)
  moreover have "pt.op (snd (ExpireOverdue n tbl)) (snd (expiry_round n tbl))"
    by (simp add: expiry_round_def split_beta store_ops)
  ultimately show ?thesis by (meson converse_rtranclp_into_rtranclp r_into_rtranclp)
qed

lemma price_step_ops: "price_step tbl tbl' \<Longrightarrow> pt.op\<^sup>*\<^sup>* tbl tbl'"
  by (induction rule: price_step.induct) (auto intro: store_ops create_op tick_ops expiry_ops r_into_rtranclp)

lemma price_history: "price_step\<^sup>*\<^sup>* tbl tbl' \<Longrightarrow> pt.op\<^sup>*\<^sup>* tbl tbl'"
  by (induction rule: rtranclp_induct) (auto dest: price_step_ops)

definition price_ok :: "PriceTrigger \<Rightarrow> bool" where
  "price_ok r \<longleftrightarrow> 0 \<le> pt_FailureCount r \<and> pt_FailureCount r \<le> MaxRetryCount
     \<and> (pt_Status r \<in> {Armed, Firing} \<longrightarrow> pt_FailureCount r < MaxRetryCount)
     \<and> (pt_TxSignature r \<noteq> None \<longrightarrow> pt_Status r = Fired)"

lemma price_ok_row: "price_ok = pt.row_ok"
  by (simp add: fun_eq_iff price_ok_def pt.row_ok_def)

text \<open>
  Whatever the routes and any number of watchers do in whatever order, a price
  trigger that has fired, failed, expired or been cancelled stays so, with the signature it
  has; and no trigger is tried again once \<open>MaxRetryCount\<close> fires of it have failed.
\<close>

theorem finished_price_triggers_stay:
  assumes "price_step\<^sup>*\<^sup>* tbl tbl'" "list_all price_ok tbl"
  shows "(\<forall>r \<in> set tbl. terminal (pt_Status r) \<longrightarrow>
      (\<exists>r' \<in> set tbl'. pt_ID r' = pt_ID r \<and> pt_Status r' = pt_Status r \<and> pt_TxSignature r' = pt_TxSignature r))
    \<and> (\<forall>r \<in> set tbl'. price_ok r)"
  using pt.finished_stays [OF price_history [OF assms(1)]] pt.history_keeps [OF price_history [OF assms(1)]] assms(2)
  by (auto simp: price_ok_row list_all_iff)

definition demo_trigger :: PriceTrigger where
  "demo_trigger = \<lparr>pt_ID = ''t'', pt_APIKeyID = ''a'', pt_Cluster = ''devnet'', pt_DWalletAddress = ''w'',
     pt_FeedCachePDA = ''f'', pt_PythFeedIDHex = ''feed'', pt_Min1e8 = 0, pt_Max1e8 = 100, pt_HysteresisBps = 0,
     pt_Payload = ''{}'', pt_Status = Armed, pt_CreatedAt = 0, pt_ExpiresAt = 1000, pt_FiredAt = None,
     pt_TxSignature = None, pt_LastCheckAt = None, pt_LastPrice1e8 = None, pt_FailureCount = 0, pt_LastError = None\<rparr>"

definition demo_env :: tick_env where
  "demo_env = \<lparr>te_now = 10, te_dbnow = 10, te_cluster = ''devnet'', te_batch = 0,
     te_LatestPrices = (\<lambda>_. Some [''feed'' \<mapsto> 50]), te_firer = Some (\<lambda>_ _. Inr ''sig''),
     te_claim_fails = (\<lambda>_. False), te_check_fails = (\<lambda>_. False), te_mark_fails = (\<lambda>_. False), te_live = 9\<rparr>"

theorem finished_price_triggers_stay_witness:
  "\<exists>r \<in> set (snd (Cancel ''a'' ''t'' [demo_trigger\<lparr>pt_Status := Fired, pt_TxSignature := Some ''sig''\<rparr>])).
     pt_Status r = Fired \<and> pt_TxSignature r = Some ''sig''"
proof -
  let ?tbl = "[demo_trigger\<lparr>pt_Status := Fired, pt_TxSignature := Some ''sig''\<rparr>]"
  have h: "price_step\<^sup>*\<^sup>* ?tbl (snd (Cancel ''a'' ''t'' ?tbl))" by (rule r_into_rtranclp, rule price_step.cancel)
  have ok: "list_all price_ok ?tbl" by (simp add: price_ok_def demo_trigger_def MaxRetryCount_def)
  from conjunct1 [OF finished_price_triggers_stay [OF h ok]] show ?thesis by auto
qed

section \<open>What a tick fires\<close>

fun fire_ids :: "effect list \<Rightarrow> string list" where
  "fire_ids [] = []"
| "fire_ids (FireCall i p x # es) = i # fire_ids es"
| "fire_ids (FiredEvent a i # es) = fire_ids es"

lemma fire_ids_append [simp]: "fire_ids (es @ fs) = fire_ids es @ fire_ids fs"
  by (induction es rule: fire_ids.induct) auto

lemma fire_fire_ids: "fire_ids (snd (fire env t price tbl)) = [] \<or> fire_ids (snd (fire env t price tbl)) = [pt_ID t]"
  by (simp add: fire_def split: option.split sum.split)

lemma fire_calls:
  "FireCall i p x \<in> set (snd (fire env t price tbl)) \<Longrightarrow> i = pt_ID t \<and> p = pt_Payload t \<and> x = price"
  by (auto simp: fire_def split: option.splits sum.splits if_splits)

lemma tick_trigger_ids:
  "fire_ids (snd (tick_trigger env prices t tbl)) = [] \<or> fire_ids (snd (tick_trigger env prices t tbl)) = [pt_ID t]"
  using fire_fire_ids [of env t] by (simp add: tick_trigger_def split_beta split: option.split)

lemma tick_trigger_calls:
  "FireCall i p x \<in> set (snd (tick_trigger env prices t tbl)) \<Longrightarrow> i = pt_ID t \<and> p = pt_Payload t
     \<and> prices (pt_PythFeedIDHex t) = Some x \<and> inBand x (pt_Min1e8 t) (pt_Max1e8 t) (pt_HysteresisBps t)"
  by (auto simp: tick_trigger_def split_beta split: option.splits if_splits dest!: fire_calls)

lemma tick_loop_calls:
  "FireCall i p x \<in> set (snd (tick_loop env prices ts tbl)) \<Longrightarrow>
   \<exists>t \<in> set ts. i = pt_ID t \<and> p = pt_Payload t \<and> prices (pt_PythFeedIDHex t) = Some x
     \<and> inBand x (pt_Min1e8 t) (pt_Max1e8 t) (pt_HysteresisBps t)"
proof (induction ts arbitrary: tbl)
  case (Cons t ts)
  then consider "FireCall i p x \<in> set (snd (tick_trigger env prices t tbl))"
    | "FireCall i p x \<in> set (snd (tick_loop env prices ts (fst (tick_trigger env prices t tbl))))"
    by (auto simp: split_beta)
  then show ?case
    using tick_trigger_calls [of i p x env prices t tbl] Cons.IH by cases auto
qed simp

lemma tick_loop_once:
  "distinct (map pt_ID ts) \<Longrightarrow> distinct (fire_ids (snd (tick_loop env prices ts tbl)))
     \<and> set (fire_ids (snd (tick_loop env prices ts tbl))) \<subseteq> pt_ID ` set ts"
proof (induction ts arbitrary: tbl)
  case (Cons t ts)
  then have ih: "distinct (fire_ids (snd (tick_loop env prices ts tbl')))
     \<and> set (fire_ids (snd (tick_loop env prices ts tbl'))) \<subseteq> pt_ID ` set ts" for tbl' by simp
  have "pt_ID t \<notin> pt_ID ` set ts" using Cons.prems by simp
  then have "pt_ID t \<notin> set (fire_ids (snd (tick_loop env prices ts tbl')))" for tbl' using ih by blast
  with ih tick_trigger_ids [of env prices t tbl] show ?case
    by (auto simp: split_beta)
qed simp

lemma active_armed:
  "t \<in> set (ListActiveArmed c limit now tbl) \<Longrightarrow>
     t \<in> set tbl \<and> pt_Cluster t = c \<and> pt_Status t = Armed \<and> now < pt_ExpiresAt t"
  by (auto simp: ListActiveArmed_def Let_def dest: in_set_takeD)

lemma active_armed_distinct: "distinct (map pt_ID tbl) \<Longrightarrow> distinct (map pt_ID (ListActiveArmed c limit now tbl))"
  unfolding ListActiveArmed_def Let_def
  by (auto simp: distinct_map distinct_take intro: inj_on_subset dest!: in_set_takeD)

text \<open>
  Property C37. One tick releases only what is due: every call to the firer carries the stored
  payload of a trigger that the table showed armed, unexpired and on this cluster, at a price
  Hermes returned for its feed and inside its band, and no trigger is fired twice in a tick,
  whatever the firer answers and whichever database calls fail.
\<close>

theorem tickOnce_fires_only_due:
  assumes "distinct (map pt_ID tbl)"
  shows "distinct (fire_ids (snd (tickOnce env tbl)))
    \<and> (\<forall>i p x. FireCall i p x \<in> set (snd (tickOnce env tbl)) \<longrightarrow>
        (\<exists>t \<in> set tbl. \<exists>feeds prices. i = pt_ID t \<and> p = pt_Payload t \<and> pt_Status t = Armed
          \<and> pt_Cluster t = te_cluster env \<and> te_now env < pt_ExpiresAt t
          \<and> te_LatestPrices env feeds = Some prices \<and> prices (pt_PythFeedIDHex t) = Some x
          \<and> inBand x (pt_Min1e8 t) (pt_Max1e8 t) (pt_HysteresisBps t)))"
proof -
  define ts where "ts = ListActiveArmed (te_cluster env) (te_batch env) (te_now env) tbl"
  define feeds where "feeds = rev (remdups (rev (map pt_PythFeedIDHex ts)))"
  show ?thesis
  proof (cases "ts = [] \<or> te_LatestPrices env feeds = None")
    case True
    then have "snd (tickOnce env tbl) = []"
      by (auto simp: tickOnce_def Let_def ts_def feeds_def)
    then show ?thesis by simp
  next
    case False
    then obtain prices where pr: "te_LatestPrices env feeds = Some prices" by auto
    have t: "tickOnce env tbl = tick_loop env prices (take (te_live env) ts) tbl"
      using False pr by (simp add: tickOnce_def Let_def flip: ts_def feeds_def)
    have "distinct (map pt_ID (take (te_live env) ts))"
      using active_armed_distinct [OF assms] by (simp add: ts_def distinct_take flip: take_map)
    with tick_loop_once have 1: "distinct (fire_ids (snd (tickOnce env tbl)))" by (simp add: t)
    have "\<exists>t \<in> set tbl. \<exists>feeds prices. i = pt_ID t \<and> p = pt_Payload t \<and> pt_Status t = Armed
          \<and> pt_Cluster t = te_cluster env \<and> te_now env < pt_ExpiresAt t
          \<and> te_LatestPrices env feeds = Some prices \<and> prices (pt_PythFeedIDHex t) = Some x
          \<and> inBand x (pt_Min1e8 t) (pt_Max1e8 t) (pt_HysteresisBps t)"
      if "FireCall i p x \<in> set (snd (tickOnce env tbl))" for i p x
    proof -
      from tick_loop_calls [OF that [unfolded t]] obtain u where u: "u \<in> set ts" "i = pt_ID u" "p = pt_Payload u"
        "prices (pt_PythFeedIDHex u) = Some x" "inBand x (pt_Min1e8 u) (pt_Max1e8 u) (pt_HysteresisBps u)"
        by (auto dest: in_set_takeD)
      from active_armed [OF u(1) [unfolded ts_def]] u pr show ?thesis by blast
    qed
    with 1 show ?thesis by blast
  qed
qed

theorem tickOnce_fires_only_due_witness:
  "distinct (fire_ids (snd (tickOnce demo_env [demo_trigger]))) \<and>
   snd (tickOnce demo_env [demo_trigger]) = [FireCall ''t'' ''{}'' 50, FiredEvent ''a'' ''t'']"
  using tickOnce_fires_only_due [of "[demo_trigger]" demo_env]
  by (simp add: tickOnce_def ListActiveArmed_def demo_env_def demo_trigger_def tick_trigger_def inBand_def
      ClaimByID_def update_where_def fire_def MarkFired_def)

text \<open>
  The hysteresis only narrows the band: a price that passes lies inside the band the
  tenant set, and, unless the margins cross, clear of both edges by the margin. This needs the
  lower edge below \<open>2^62\<close>, where its margin cannot overflow.
\<close>

theorem inBand_within_band:
  assumes "inBand price lo hi h" "0 \<le> lo" "lo < 2 ^ 62" "lo \<le> hi" "hi < 2 ^ 63" "0 \<le> h" "h \<le> 10000"
  shows "lo \<le> price \<and> price \<le> hi
    \<and> (lo + lo div 10000 * h \<le> hi - hi div 10000 * h \<longrightarrow>
        lo + lo div 10000 * h \<le> price \<and> price \<le> hi - hi div 10000 * h)"
proof -
  have m: "0 \<le> v div 10000 * h \<and> v div 10000 * h \<le> v" if "0 \<le> v" for v
  proof -
    have "v div 10000 * h \<le> v div 10000 * 10000" using that assms(7) by (intro mult_left_mono) simp_all
    also have "\<dots> \<le> v" using minus_mod_eq_div_mult [of v 10000] pos_mod_sign [of 10000 v] by linarith
    finally show ?thesis using that assms(6) by simp
  qed
  have q: "quot (absI64 v) 10000 = v div 10000" if "0 \<le> v" for v
    using that by (simp add: absI64_def quot_nonneg)
  have w: "wrap64 (lo + wrap64 (quot (absI64 lo) 10000 * h)) = lo + lo div 10000 * h"
    "wrap64 (hi - wrap64 (quot (absI64 hi) 10000 * h)) = hi - hi div 10000 * h"
    using m [of lo] m [of hi] assms(2-5) by (simp_all add: q in64_def)
  have n: "h = 0" if "h \<le> 0" using that assms(6) by simp
  obtain a b where ab: "a = lo div 10000 * h" "b = hi div 10000 * h" by blast
  have "0 \<le> a" "0 \<le> b" using m [of lo] m [of hi] assms(2,4) by (simp_all add: ab)
  moreover have "a = 0 \<and> b = 0" if "h \<le> 0" using n [OF that] by (simp add: ab)
  ultimately show ?thesis
    using assms(1) unfolding inBand_def w Let_def ab [symmetric] by (cases "h \<le> 0") (auto split: if_splits)
qed

theorem inBand_within_band_witness: "(0 :: int) \<le> 50 \<and> inBand 50 0 100 100"
proof -
  have i: "inBand 50 0 100 100" by (simp add: inBand_def absI64_def quot_def in64_def)
  show ?thesis using inBand_within_band [OF i] i by simp
qed

end
