(* ===== verification/FutureSign.thy ===== *)
theory FutureSign
  imports Triggers
begin

text \<open>
  Future-sign triggers, \<open>gateway/internal/futuresign\<close>: the store (\<open>store.go\<close>) and the two polling
  loops of the watcher (\<open>watcher.go\<close>). A condition is held as what its JSON decodes to. A tick
  claims one trigger after the other until none is left; the loop is run with fuel, so that
  not returning is the value \<open>None\<close> for every amount of it. Database calls succeed here and
  no other worker holds a row; the answers of the callback and of the signing service are
  arguments, indexed by how many calls the tick has made.
\<close>

section \<open>The store\<close>

datatype TriggerType = OraclePyth | OracleSwitchboard | SolanaEvent | SlotTime | ExternalWebhook | Unknown string

definition IsKnown :: "TriggerType \<Rightarrow> bool" where
  "IsKnown t = (case t of Unknown _ \<Rightarrow> False | _ \<Rightarrow> True)"

record ConditionExternalWebhook =
  CallbackURL :: string
  PollIntervalSeconds :: int
  BearerToken :: string

datatype condition = ConditionSlotTime int | WebhookCond ConditionExternalWebhook | Undecodable string

record Trigger =
  tg_ID :: string
  tg_APIKeyID :: string
  tg_PartialSigCapID :: string
  tg_DWalletAddress :: string
  tg_PolicyProgramID :: "string option"
  tg_TriggerType :: TriggerType
  tg_Condition :: condition
  tg_WebhookURL :: string
  tg_Status :: status
  tg_CreatedAt :: int
  tg_ExpiresAt :: int
  tg_FiredAt :: "int option"
  tg_SignatureHex :: "string option"
  tg_LastCheckAt :: "int option"
  tg_FailureCount :: int
  tg_LastError :: "string option"
  tg_CompletePayload :: string

record CreateRequest =
  fr_PartialSigCapID :: string
  fr_DWalletAddress :: string
  fr_PolicyProgramID :: "string option"
  fr_TriggerType :: TriggerType
  fr_Condition :: condition
  fr_WebhookURL :: string
  fr_ExpiresInSeconds :: int
  fr_CompletePayload :: string

type_synonym table = "Trigger list"

datatype create_error = ExpiresTooSoon | UnknownType

definition Create ::
  "int \<Rightarrow> int \<Rightarrow> string \<Rightarrow> string \<Rightarrow> CreateRequest \<Rightarrow> table \<Rightarrow> create_error + (Trigger \<times> table)" where
  "Create now dbnow newID apiKeyID req tbl =
     (if fr_ExpiresInSeconds req < 60 then Inl ExpiresTooSoon
      else if \<not> IsKnown (fr_TriggerType req) then Inl UnknownType
      else let t = \<lparr>tg_ID = newID, tg_APIKeyID = apiKeyID, tg_PartialSigCapID = fr_PartialSigCapID req,
             tg_DWalletAddress = fr_DWalletAddress req, tg_PolicyProgramID = fr_PolicyProgramID req,
             tg_TriggerType = fr_TriggerType req, tg_Condition = fr_Condition req,
             tg_WebhookURL = fr_WebhookURL req, tg_Status = Armed, tg_CreatedAt = dbnow,
             tg_ExpiresAt = now + wrap64 (fr_ExpiresInSeconds req * 1000000000), tg_FiredAt = None,
             tg_SignatureHex = None, tg_LastCheckAt = None, tg_FailureCount = 0, tg_LastError = None,
             tg_CompletePayload = (if fr_CompletePayload req = [] then ''{}'' else fr_CompletePayload req)\<rparr>
           in Inr (t, tbl @ [t]))"

definition Get :: "string \<Rightarrow> string \<Rightarrow> table \<Rightarrow> Trigger option" where
  "Get apiKeyID i tbl = find (\<lambda>r. tg_ID r = i \<and> tg_APIKeyID r = apiKeyID) tbl"

definition List :: "string \<Rightarrow> int \<Rightarrow> table \<Rightarrow> Trigger list" where
  "List apiKeyID limit tbl =
     (let limit = (if limit \<le> 0 \<or> 200 < limit then 50 else limit)
      in take (nat limit) (sort_key (\<lambda>r. - tg_CreatedAt r) (filter (\<lambda>r. tg_APIKeyID r = apiKeyID) tbl)))"

definition Cancel :: "string \<Rightarrow> string \<Rightarrow> table \<Rightarrow> nat \<times> table" where
  "Cancel apiKeyID i = update_where (\<lambda>r. tg_ID r = i \<and> tg_APIKeyID r = apiKeyID \<and> tg_Status r = Armed)
     (tg_Status_update (\<lambda>_. Cancelled))"

text \<open>\<open>SELECT ... ORDER BY created_at LIMIT 1\<close> and the update of the row found.\<close>

definition claimable :: "TriggerType list \<Rightarrow> int \<Rightarrow> Trigger \<Rightarrow> bool" where
  "claimable kinds now r \<longleftrightarrow> tg_Status r = Armed \<and> now < tg_ExpiresAt r \<and> tg_TriggerType r \<in> set kinds"

definition set_firing :: "int \<Rightarrow> Trigger \<Rightarrow> Trigger" where
  "set_firing now r = r\<lparr>tg_Status := Firing, tg_LastCheckAt := Some now\<rparr>"

definition ClaimDueArmed :: "TriggerType list \<Rightarrow> int \<Rightarrow> table \<Rightarrow> (Trigger \<times> table) option" where
  "ClaimDueArmed kinds now tbl =
     (case sort_key tg_CreatedAt (filter (claimable kinds now) tbl) of
        [] \<Rightarrow> None
      | t # _ \<Rightarrow> Some (set_firing now t, snd (update_where (\<lambda>r. tg_ID r = tg_ID t) (set_firing now) tbl)))"

definition MarkFired :: "int \<Rightarrow> string \<Rightarrow> string \<Rightarrow> table \<Rightarrow> nat \<times> table" where
  "MarkFired now i signatureHex = update_where (\<lambda>r. tg_ID r = i \<and> tg_Status r \<in> {Armed, Firing})
     (\<lambda>r. r\<lparr>tg_Status := Fired, tg_FiredAt := Some now, tg_SignatureHex := Some signatureHex\<rparr>)"

definition MarkArmedChecked :: "int \<Rightarrow> string \<Rightarrow> table \<Rightarrow> nat \<times> table" where
  "MarkArmedChecked now i = update_where (\<lambda>r. tg_ID r = i \<and> tg_Status r = Firing)
     (\<lambda>r. r\<lparr>tg_Status := Armed, tg_LastCheckAt := Some now\<rparr>)"

definition fail_row :: "string \<Rightarrow> Trigger \<Rightarrow> Trigger" where
  "fail_row reason r = r\<lparr>tg_Status := (if MaxRetryCount \<le> tg_FailureCount r + 1 then Failed else Armed),
     tg_FailureCount := tg_FailureCount r + 1, tg_LastError := Some reason\<rparr>"

definition MarkFailed :: "string \<Rightarrow> string \<Rightarrow> table \<Rightarrow> nat \<times> table" where
  "MarkFailed i reason = update_where (\<lambda>r. tg_ID r = i \<and> tg_Status r = Firing) (fail_row reason)"

definition ExpireOverdue :: "int \<Rightarrow> table \<Rightarrow> (string \<times> string) list \<times> table" where
  "ExpireOverdue now tbl =
     (map (\<lambda>r. (tg_ID r, tg_APIKeyID r)) (filter (\<lambda>r. tg_Status r = Armed \<and> tg_ExpiresAt r \<le> now) tbl),
      snd (update_where (\<lambda>r. tg_Status r = Armed \<and> tg_ExpiresAt r \<le> now) (tg_Status_update (\<lambda>_. Expired)) tbl))"

section \<open>The watcher\<close>

text \<open>The callback's answer: no answer, or a status and the decoded body.\<close>

datatype callback = Unreachable string | Answer int "bool option"

datatype poll = PollError string | NotReady | Ready bool

definition pollExternalWebhook :: "ConditionExternalWebhook \<Rightarrow> callback \<Rightarrow> poll" where
  "pollExternalWebhook c answer =
     (if CallbackURL c = [] then PollError ''callbackUrl missing''
      else case answer of
        Unreachable e \<Rightarrow> PollError (''callback request: '' @ e)
      | Answer code body \<Rightarrow>
          if 300 \<le> code \<and> code < 400 then NotReady
          else if code < 200 \<or> 300 \<le> code then PollError ''callback non-2xx''
          else case body of
            None \<Rightarrow> PollError ''decode callback''
          | Some shouldFire \<Rightarrow> Ready shouldFire)"

text \<open>What a loop decides about a claimed trigger.\<close>

datatype verdict = Fail string | NotYet | Fire

definition judge_slot :: "int \<Rightarrow> nat \<Rightarrow> Trigger \<Rightarrow> verdict" where
  "judge_slot currentSlot n t =
     (case tg_Condition t of
        ConditionSlotTime s \<Rightarrow> (if currentSlot < s then NotYet else Fire)
      | _ \<Rightarrow> Fail ''invalid condition'')"

definition judge_webhook :: "(string \<Rightarrow> bool) \<Rightarrow> (nat \<Rightarrow> ConditionExternalWebhook \<Rightarrow> callback) \<Rightarrow> nat \<Rightarrow> Trigger \<Rightarrow> verdict" where
  "judge_webhook ValidateDispatch ask n t =
     (case tg_Condition t of
        WebhookCond c \<Rightarrow>
          (if \<not> ValidateDispatch (CallbackURL c) then Fail ''callbackUrl rejected by url guard''
           else case pollExternalWebhook c (ask n c) of
             PollError e \<Rightarrow> Fail e
           | NotReady \<Rightarrow> NotYet
           | Ready shouldFire \<Rightarrow> (if shouldFire then Fire else NotYet))
      | _ \<Rightarrow> Fail ''invalid condition'')"

text \<open>\<open>ika\<close> is the completer, absent when not configured; \<open>calls\<close> lists the payloads sent to it.\<close>

record tick_state =
  tbl :: table
  rounds :: nat
  calls :: "(string \<times> string) list"
  published :: "(string \<times> string) list"

definition fire :: "int \<Rightarrow> (nat \<Rightarrow> string \<Rightarrow> string + string) option \<Rightarrow> Trigger \<Rightarrow> tick_state \<Rightarrow> tick_state" where
  "fire now ika t s =
     (case ika of
        None \<Rightarrow> s\<lparr>tbl := snd (MarkFailed (tg_ID t) ''ika completer not configured'' (tbl s))\<rparr>
      | Some f \<Rightarrow>
          let s1 = s\<lparr>calls := calls s @ [(tg_ID t, tg_CompletePayload t)]\<rparr> in
          case f (length (calls s)) (tg_CompletePayload t) of
            Inl e \<Rightarrow> s1\<lparr>tbl := snd (MarkFailed (tg_ID t) e (tbl s))\<rparr>
          | Inr signatureHex \<Rightarrow>
              if fst (MarkFired now (tg_ID t) signatureHex (tbl s)) = 0 then s1
              else s1\<lparr>tbl := snd (MarkFired now (tg_ID t) signatureHex (tbl s)),
                      published := published s @ [(tg_APIKeyID t, tg_ID t)]\<rparr>)"

fun tick_loop ::
  "nat \<Rightarrow> TriggerType \<Rightarrow> (nat \<Rightarrow> Trigger \<Rightarrow> verdict) \<Rightarrow> int \<Rightarrow> (nat \<Rightarrow> string \<Rightarrow> string + string) option
     \<Rightarrow> tick_state \<Rightarrow> tick_state option" where
  "tick_loop 0 kind judge now ika s = None"
| "tick_loop (Suc fuel) kind judge now ika s =
     (case ClaimDueArmed [kind] now (tbl s) of
        None \<Rightarrow> Some s
      | Some (t, tbl1) \<Rightarrow>
          let s1 = s\<lparr>tbl := tbl1, rounds := Suc (rounds s)\<rparr> in
          tick_loop fuel kind judge now ika
            (case judge (rounds s) t of
               Fail e \<Rightarrow> s1\<lparr>tbl := snd (MarkFailed (tg_ID t) e tbl1)\<rparr>
             | NotYet \<Rightarrow> s1\<lparr>tbl := snd (MarkArmedChecked now (tg_ID t) tbl1)\<rparr>
             | Fire \<Rightarrow> fire now ika t s1))"

definition start :: "table \<Rightarrow> tick_state" where
  "start t = \<lparr>tbl = t, rounds = 0, calls = [], published = []\<rparr>"

text \<open>\<open>currentSlot\<close>: the provider's answer, or 400 ms of wall clock a slot.\<close>

definition currentSlot :: "int option option \<Rightarrow> int \<Rightarrow> int option" where
  "currentSlot provider unixMilli = (case provider of Some r \<Rightarrow> r | None \<Rightarrow> Some (quot unixMilli 400))"

definition tickSlotTime ::
  "nat \<Rightarrow> int option \<Rightarrow> int \<Rightarrow> (nat \<Rightarrow> string \<Rightarrow> string + string) option \<Rightarrow> table \<Rightarrow> tick_state option" where
  "tickSlotTime fuel slot now ika t =
     (case slot of None \<Rightarrow> Some (start t)
      | Some cur \<Rightarrow> tick_loop fuel SlotTime (judge_slot cur) now ika (start t))"

definition tickExternalWebhook ::
  "nat \<Rightarrow> (string \<Rightarrow> bool) \<Rightarrow> (nat \<Rightarrow> ConditionExternalWebhook \<Rightarrow> callback) \<Rightarrow> int
     \<Rightarrow> (nat \<Rightarrow> string \<Rightarrow> string + string) option \<Rightarrow> table \<Rightarrow> tick_state option" where
  "tickExternalWebhook fuel ValidateDispatch ask now ika t =
     tick_loop fuel ExternalWebhook (judge_webhook ValidateDispatch ask) now ika (start t)"

section \<open>The store keeps the contract\<close>

inductive future_move :: "Trigger \<Rightarrow> Trigger \<Rightarrow> bool" where
  cancelled: "tg_Status r = Armed \<Longrightarrow> future_move r (tg_Status_update (\<lambda>_. Cancelled) r)"
| expired: "tg_Status r = Armed \<Longrightarrow> future_move r (tg_Status_update (\<lambda>_. Expired) r)"
| claimed: "tg_Status r = Armed \<Longrightarrow> future_move r (set_firing now r)"
| rearmed: "tg_Status r = Firing \<Longrightarrow> future_move r (r\<lparr>tg_Status := Armed, tg_LastCheckAt := c\<rparr>)"
| fired: "tg_Status r \<in> {Armed, Firing} \<Longrightarrow>
     future_move r (r\<lparr>tg_Status := Fired, tg_FiredAt := c, tg_SignatureHex := Some s\<rparr>)"
| failed: "tg_Status r = Firing \<Longrightarrow> future_move r (fail_row e r)"

interpretation fs: trigger_rows tg_ID tg_Status tg_FailureCount tg_SignatureHex future_move
proof unfold_locales
  fix r r' assume m: "future_move r r'"
  show "tg_ID r' = tg_ID r" using m by cases (auto simp: set_firing_def fail_row_def)
  show "terminal (tg_Status r) \<Longrightarrow> tg_Status r' = tg_Status r \<and> tg_SignatureHex r' = tg_SignatureHex r"
    using m by cases auto
  show "tg_FailureCount r' = tg_FailureCount r \<and> (tg_Status r' \<in> {Armed, Firing} \<longrightarrow> tg_Status r \<in> {Armed, Firing}) \<or>
    tg_Status r = Firing \<and> tg_FailureCount r' = tg_FailureCount r + 1 \<and>
    tg_Status r' = (if MaxRetryCount \<le> tg_FailureCount r' then Failed else Armed)"
    using m by cases (auto simp: set_firing_def fail_row_def)
  show "tg_SignatureHex r' = tg_SignatureHex r \<or> tg_Status r' = Fired"
    using m by cases (auto simp: set_firing_def fail_row_def)
qed

lemma future_ops:
  "fs.op t (snd (Cancel a i t))" "fs.op t (snd (MarkFired n i s t))" "fs.op t (snd (MarkArmedChecked n i t))"
  "fs.op t (snd (MarkFailed i e t))" "fs.op t (snd (ExpireOverdue n t))"
  unfolding Cancel_def MarkFired_def MarkArmedChecked_def MarkFailed_def ExpireOverdue_def snd_conv
  by (rule fs.op_update; blast intro: future_move.intros)+

lemma future_create_op: "Create now dbnow i a req t = Inr (x, t') \<Longrightarrow> fs.op t t' \<and> t' = t @ [x] \<and> tg_ID x = i"
  by (auto simp: Create_def Let_def fs.fresh_row_def split: if_splits intro!: fs.op_insert)

lemma claim_result:
  assumes "ClaimDueArmed kinds now t = Some (x, t')" "distinct (map tg_ID t)"
  obtains r where "r \<in> set t" "claimable kinds now r" "x = set_firing now r"
    "t' = map (\<lambda>y. if tg_ID y = tg_ID r then set_firing now y else y) t"
    "\<And>y. y \<in> set t \<Longrightarrow> tg_ID y = tg_ID r \<Longrightarrow> y = r"
    "\<exists>rs. sort_key tg_CreatedAt (filter (claimable kinds now) t) = r # rs"
proof -
  from assms(1) obtain r rs where r: "sort_key tg_CreatedAt (filter (claimable kinds now) t) = r # rs"
    "x = set_firing now r" "t' = map (\<lambda>y. if tg_ID y = tg_ID r then set_firing now y else y) t"
    by (auto simp: ClaimDueArmed_def split: list.splits)
  have "r \<in> set (filter (claimable kinds now) t)" by (metis r(1) list.set_intros(1) set_sort)
  moreover have "\<And>y. y \<in> set t \<Longrightarrow> tg_ID y = tg_ID r \<Longrightarrow> y = r"
    using assms(2) calculation by (auto simp: distinct_map dest: inj_onD)
  ultimately show thesis using that r by auto
qed

lemma future_claim_op:
  assumes "ClaimDueArmed kinds now t = Some (x, t')" "distinct (map tg_ID t)"
  shows "fs.op t t'"
proof -
  from claim_result [OF assms] obtain r where r: "claimable kinds now r" "r \<in> set t"
    "t' = map (\<lambda>y. if tg_ID y = tg_ID r then set_firing now y else y) t"
    "\<And>y. y \<in> set t \<Longrightarrow> tg_ID y = tg_ID r \<Longrightarrow> y = r" by blast
  have "t' = map (\<lambda>y. if y = r then set_firing now y else y) t"
    unfolding r(3) by (rule map_cong [OF refl]) (use r(4) in auto)
  also have "\<dots> = snd (update_where (\<lambda>y. y = r) (set_firing now) t)" by simp
  finally show ?thesis
    using r(1) by (auto simp: claimable_def intro!: fs.op_update future_move.claimed simp del: snd_update_where)
qed

text \<open>A history of the table; a new trigger has a new identifier (the primary key).\<close>

inductive future_step :: "table \<Rightarrow> table \<Rightarrow> bool" where
  create: "Create now dbnow i a req t = Inr (x, t') \<Longrightarrow> i \<notin> tg_ID ` set t \<Longrightarrow> future_step t t'"
| cancel: "future_step t (snd (Cancel a i t))"
| claim: "ClaimDueArmed kinds now t = Some (x, t') \<Longrightarrow> future_step t t'"
| mark_fired: "future_step t (snd (MarkFired n i s t))"
| mark_armed: "future_step t (snd (MarkArmedChecked n i t))"
| mark_failed: "future_step t (snd (MarkFailed i e t))"
| expire: "future_step t (snd (ExpireOverdue n t))"

lemma update_ids: "(\<And>r. tg_ID (f r) = tg_ID r) \<Longrightarrow> map tg_ID (snd (update_where P f t)) = map tg_ID t"
  by simp

lemma future_step_ids: "future_step t t' \<Longrightarrow> distinct (map tg_ID t) \<Longrightarrow> distinct (map tg_ID t')"
proof (induction rule: future_step.induct)
  case (create now dbnow i a req t x t')
  then show ?case using future_create_op [OF create(1)] by auto
next
  case (claim kinds now t x t')
  then have "map tg_ID t' = map tg_ID t"
    by (auto simp: ClaimDueArmed_def set_firing_def split: list.splits)
  with claim show ?case by simp
qed (simp_all only: Cancel_def MarkFired_def MarkArmedChecked_def MarkFailed_def ExpireOverdue_def snd_conv,
    (subst update_ids; simp add: fail_row_def)+)

lemma future_step_op: "future_step t t' \<Longrightarrow> distinct (map tg_ID t) \<Longrightarrow> fs.op t t'"
proof (induction rule: future_step.induct)
  case create
  then show ?case using future_create_op by blast
next
  case claim
  then show ?case using future_claim_op by blast
qed (rule future_ops)+

lemma future_history:
  "future_step\<^sup>*\<^sup>* t t' \<Longrightarrow> distinct (map tg_ID t) \<Longrightarrow> fs.op\<^sup>*\<^sup>* t t' \<and> distinct (map tg_ID t')"
  by (induction rule: rtranclp_induct)
    (auto intro: rtranclp.rtrancl_into_rtrancl dest: future_step_op future_step_ids)

definition future_ok :: "Trigger \<Rightarrow> bool" where
  "future_ok r \<longleftrightarrow> 0 \<le> tg_FailureCount r \<and> tg_FailureCount r \<le> MaxRetryCount
     \<and> (tg_Status r \<in> {Armed, Firing} \<longrightarrow> tg_FailureCount r < MaxRetryCount)
     \<and> (tg_SignatureHex r \<noteq> None \<longrightarrow> tg_Status r = Fired)"

lemma future_ok_row: "future_ok = fs.row_ok"
  by (simp add: fun_eq_iff future_ok_def fs.row_ok_def)

text \<open>
  Property C35. Whatever the routes and any number of workers do in whatever order, a future-sign
  trigger that has fired, failed, expired or been cancelled stays so, with the signature it
  has, and no trigger is tried again once \<open>MaxRetryCount\<close> tries of it have failed.
\<close>

theorem finished_future_triggers_stay:
  assumes "future_step\<^sup>*\<^sup>* t t'" "list_all future_ok t" "distinct (map tg_ID t)"
  shows "(\<forall>r \<in> set t. terminal (tg_Status r) \<longrightarrow>
      (\<exists>r' \<in> set t'. tg_ID r' = tg_ID r \<and> tg_Status r' = tg_Status r \<and> tg_SignatureHex r' = tg_SignatureHex r))
    \<and> (\<forall>r \<in> set t'. future_ok r)"
proof -
  have h: "fs.op\<^sup>*\<^sup>* t t'" using future_history [OF assms(1,3)] by simp
  show ?thesis
    using fs.finished_stays [OF h] fs.history_keeps [OF h] assms(2) by (auto simp: future_ok_row list_all_iff)
qed

definition demo_future :: Trigger where
  "demo_future = \<lparr>tg_ID = ''t'', tg_APIKeyID = ''a'', tg_PartialSigCapID = ''c'', tg_DWalletAddress = ''w'',
     tg_PolicyProgramID = None, tg_TriggerType = SlotTime, tg_Condition = ConditionSlotTime 100,
     tg_WebhookURL = ''https://x'', tg_Status = Armed, tg_CreatedAt = 0, tg_ExpiresAt = 1000, tg_FiredAt = None,
     tg_SignatureHex = None, tg_LastCheckAt = None, tg_FailureCount = 0, tg_LastError = None,
     tg_CompletePayload = ''{}''\<rparr>"

theorem finished_future_triggers_stay_witness:
  "\<exists>r \<in> set (snd (MarkFired 5 ''t'' ''other'' [demo_future\<lparr>tg_Status := Cancelled\<rparr>])). tg_Status r = Cancelled"
proof -
  let ?t = "[demo_future\<lparr>tg_Status := Cancelled\<rparr>]"
  have h: "future_step\<^sup>*\<^sup>* ?t (snd (MarkFired 5 ''t'' ''other'' ?t))"
    by (rule r_into_rtranclp, rule future_step.mark_fired)
  have ok: "list_all future_ok ?t" "distinct (map tg_ID ?t)"
    by (simp_all add: future_ok_def demo_future_def MaxRetryCount_def)
  from conjunct1 [OF finished_future_triggers_stay [OF h ok]] show ?thesis by auto
qed

section \<open>Does a tick return?\<close>

text \<open>What one round does to the table: it rewrites the claimed row.\<close>

definition mark_fired_row :: "int \<Rightarrow> string \<Rightarrow> Trigger \<Rightarrow> Trigger" where
  "mark_fired_row now sig r = r\<lparr>tg_Status := Fired, tg_FiredAt := Some now, tg_SignatureHex := Some sig\<rparr>"

lemma set_firing_simps [simp]:
  "tg_ID (set_firing now r) = tg_ID r" "tg_Status (set_firing now r) = Firing"
  "tg_CreatedAt (set_firing now r) = tg_CreatedAt r" "tg_Condition (set_firing now r) = tg_Condition r"
  "tg_FailureCount (set_firing now r) = tg_FailureCount r" "tg_ExpiresAt (set_firing now r) = tg_ExpiresAt r"
  "tg_TriggerType (set_firing now r) = tg_TriggerType r" "tg_CompletePayload (set_firing now r) = tg_CompletePayload r"
  by (simp_all add: set_firing_def)

lemma marks_after_claim:
  fixes t :: table and now :: int and i :: string
  defines "t1 \<equiv> map (\<lambda>y. if tg_ID y = i then set_firing now y else y) t"
  shows "snd (MarkFailed i e t1) = map (\<lambda>y. if tg_ID y = i then fail_row e (set_firing now y) else y) t"
    and "snd (MarkArmedChecked now i t1) =
      map (\<lambda>y. if tg_ID y = i then y\<lparr>tg_Status := Armed, tg_LastCheckAt := Some now\<rparr> else y) t"
    and "snd (MarkFired now i sig t1) = map (\<lambda>y. if tg_ID y = i then mark_fired_row now sig (set_firing now y) else y) t"
    and "i \<in> tg_ID ` set t \<Longrightarrow> fst (MarkFired now i sig t1) \<noteq> 0"
  by (auto simp: t1_def MarkFailed_def MarkArmedChecked_def MarkFired_def mark_fired_row_def set_firing_def
      update_where_def filter_empty_conv)

text \<open>The trigger a loop claims next, and a table where it is one the loop hands straight back.\<close>

definition next_claim :: "TriggerType \<Rightarrow> int \<Rightarrow> table \<Rightarrow> Trigger option" where
  "next_claim kind now t =
     (case sort_key tg_CreatedAt (filter (claimable [kind] now) t) of [] \<Rightarrow> None | r # _ \<Rightarrow> Some r)"

definition stuck_on :: "TriggerType \<Rightarrow> int \<Rightarrow> condition \<Rightarrow> table \<Rightarrow> bool" where
  "stuck_on kind now c t \<longleftrightarrow> distinct (map tg_ID t)
     \<and> (case next_claim kind now t of Some r \<Rightarrow> tg_Condition r = c | None \<Rightarrow> False)"

lemma recheck_stuck:
  assumes "stuck_on kind now c t" "next_claim kind now t = Some r"
  shows "stuck_on kind now c
    (map (\<lambda>y. if tg_ID y = tg_ID r then y\<lparr>tg_Status := Armed, tg_LastCheckAt := Some now\<rparr> else y) t)"
proof -
  define f where "f = (\<lambda>y :: Trigger. if tg_ID y = tg_ID r then y\<lparr>tg_Status := Armed, tg_LastCheckAt := Some now\<rparr> else y)"
  from assms(2) obtain rs where r: "sort_key tg_CreatedAt (filter (claimable [kind] now) t) = r # rs"
    by (auto simp: next_claim_def split: list.splits)
  have "r \<in> set (filter (claimable [kind] now) t)" by (metis r list.set_intros(1) set_sort)
  then have rt: "r \<in> set t" "claimable [kind] now r" by auto
  have d: "distinct (map tg_ID t)" "tg_Condition r = c" using assms by (auto simp: stuck_on_def)
  have cl: "claimable [kind] now (f y) = claimable [kind] now y" if "y \<in> set t" for y
  proof (cases "tg_ID y = tg_ID r")
    case True
    then have "y = r" using d(1) rt(1) that by (auto simp: distinct_map dest: inj_onD)
    then show ?thesis using rt(2) by (simp add: f_def claimable_def)
  qed (simp add: f_def)
  have "filter (claimable [kind] now) (map f t) = map f (filter (claimable [kind] now) t)"
    using cl by (auto simp: filter_map comp_def intro!: arg_cong [of _ _ "map f"] filter_cong)
  then have "sort_key tg_CreatedAt (filter (claimable [kind] now) (map f t)) = map f (r # rs)"
    by (simp only: r [symmetric]) (rule sort_key_map, simp add: f_def)
  moreover have "tg_Condition (f r) = c" using d(2) by (simp add: f_def)
  moreover have "map tg_ID (map f t) = map tg_ID t" by (simp add: f_def)
  then have "distinct (map tg_ID (map f t))" using d(1) by (simp only:)
  ultimately have "stuck_on kind now c (map f t)" by (simp add: stuck_on_def next_claim_def del: map_map)
  then show ?thesis by (simp add: f_def)
qed

lemma tick_loop_diverges:
  assumes "\<And>n x. tg_Condition x = c \<Longrightarrow> judge n x = NotYet"
  shows "stuck_on kind now c (tbl s) \<Longrightarrow> tick_loop fuel kind judge now ika s = None"
proof (induction fuel arbitrary: s)
  case (Suc fuel)
  from Suc.prems obtain r where r: "next_claim kind now (tbl s) = Some r" "tg_Condition r = c"
    by (auto simp: stuck_on_def split: option.splits)
  then have cl: "ClaimDueArmed [kind] now (tbl s) =
      Some (set_firing now r, map (\<lambda>y. if tg_ID y = tg_ID r then set_firing now y else y) (tbl s))"
    by (auto simp: ClaimDueArmed_def next_claim_def split: list.splits)
  have j: "judge (rounds s) (set_firing now r) = NotYet" using assms r(2) by simp
  have "stuck_on kind now c (map (\<lambda>y. if tg_ID y = tg_ID r
      then y\<lparr>tg_Status := Armed, tg_LastCheckAt := Some now\<rparr> else y) (tbl s))"
    by (rule recheck_stuck [OF Suc.prems r(1)])
  then show ?case
    by (simp add: cl j Let_def marks_after_claim(2) Suc.IH del: snd_update_where)
qed simp

text \<open>
  Property C36. A tick of the slot loop does not return when the oldest armed, unexpired slot
  trigger is not due yet: it is claimed, handed back as armed and claimed again, for ever, and
  no trigger behind it is looked at.
\<close>

theorem tickSlotTime_never_returns:
  assumes "distinct (map tg_ID t)" "next_claim SlotTime now t = Some r"
    and "tg_Condition r = ConditionSlotTime slot" "cur < slot"
  shows "tickSlotTime fuel (Some cur) now ika t = None"
  unfolding tickSlotTime_def option.case
  by (rule tick_loop_diverges [of "ConditionSlotTime slot"])
    (use assms in \<open>simp_all add: judge_slot_def stuck_on_def start_def\<close>)

theorem tickSlotTime_never_returns_witness:
  "tickSlotTime 1000000 (Some 99) 10 None [demo_future, demo_future\<lparr>tg_ID := ''u'', tg_CreatedAt := 1\<rparr>] = None"
  by (rule tickSlotTime_never_returns [of _ _ demo_future 100])
    (simp_all add: next_claim_def demo_future_def claimable_def)

text \<open>The other way round: when no claim is answered with \<open>NotYet\<close>, every round takes a try from
  the claimed trigger or finishes it.\<close>

definition tries_left :: "TriggerType \<Rightarrow> int \<Rightarrow> Trigger \<Rightarrow> nat" where
  "tries_left kind now r = (if claimable [kind] now r then nat (MaxRetryCount - tg_FailureCount r) else 0)"

definition all_tries :: "TriggerType \<Rightarrow> int \<Rightarrow> table \<Rightarrow> nat" where
  "all_tries kind now t = sum_list (map (tries_left kind now) t)"

lemma sum_list_less:
  fixes w :: "'a \<Rightarrow> nat"
  shows "r \<in> set xs \<Longrightarrow> w (f r) < w r \<Longrightarrow> (\<And>x. x \<in> set xs \<Longrightarrow> w (f x) \<le> w x) \<Longrightarrow>
    sum_list (map w (map f xs)) < sum_list (map w xs)"
proof (induction xs)
  case (Cons x xs)
  have le: "sum_list (map w (map f xs)) \<le> sum_list (map w xs)"
    unfolding map_map by (rule sum_list_mono) (use Cons.prems(3) in auto)
  show ?case
  proof (cases "r = x")
    case True
    with le Cons.prems(2) show ?thesis by simp
  next
    case False
    then have "sum_list (map w (map f xs)) < sum_list (map w xs)" using Cons by auto
    moreover have "w (f x) \<le> w x" using Cons.prems(3) by simp
    ultimately show ?thesis by simp
  qed
qed simp

definition tick_ready :: "TriggerType \<Rightarrow> (nat \<Rightarrow> Trigger \<Rightarrow> verdict) \<Rightarrow> int \<Rightarrow> table \<Rightarrow> bool" where
  "tick_ready kind judge now t \<longleftrightarrow> distinct (map tg_ID t)
     \<and> (\<forall>r \<in> set t. claimable [kind] now r \<longrightarrow> tg_FailureCount r < MaxRetryCount
          \<and> (\<forall>n x. tg_Condition x = tg_Condition r \<longrightarrow> judge n x \<noteq> NotYet))"

lemma round_progress:
  assumes "tick_ready kind judge now t" "r \<in> set t" "claimable [kind] now r"
    and g: "g = fail_row e \<or> g = mark_fired_row now sig"
  defines "t' \<equiv> map (\<lambda>y. if tg_ID y = tg_ID r then g (set_firing now y) else y) t"
  shows "tick_ready kind judge now t' \<and> all_tries kind now t' < all_tries kind now t"
proof -
  define f where "f = (\<lambda>y. if tg_ID y = tg_ID r then g (set_firing now y) else y)"
  have d: "distinct (map tg_ID t)" and fc: "tg_FailureCount r < MaxRetryCount"
    and j: "\<And>n x. tg_Condition x = tg_Condition r \<Longrightarrow> judge n x \<noteq> NotYet"
    using assms(1-3) by (auto simp: tick_ready_def)
  have r: "f y = g (set_firing now r) \<and> y = r \<or> f y = y" if "y \<in> set t" for y
    using d assms(2) that by (auto simp: f_def distinct_map dest: inj_onD)
  have pos: "0 < tries_left kind now r" using fc assms(3) by (simp add: tries_left_def)
  have gr: "tries_left kind now (g (set_firing now r)) < tries_left kind now r"
    using g
  proof
    assume "g = fail_row e"
    with pos fc assms(3) show ?thesis by (simp add: tries_left_def claimable_def fail_row_def)
  next
    assume "g = mark_fired_row now sig"
    then have "tries_left kind now (g (set_firing now r)) = 0"
      by (simp add: tries_left_def claimable_def mark_fired_row_def)
    with pos show ?thesis by simp
  qed
  have gc: "tg_FailureCount (g (set_firing now r)) < MaxRetryCount" if "claimable [kind] now (g (set_firing now r))"
    using g that by (auto simp: claimable_def fail_row_def mark_fired_row_def split: if_splits)
  have gd: "tg_Condition (g (set_firing now r)) = tg_Condition r" "tg_ID (g (set_firing now y)) = tg_ID y" for y
    using g by (auto simp: fail_row_def mark_fired_row_def)
  have 1: "all_tries kind now (map f t) < all_tries kind now t"
    unfolding all_tries_def
  proof (rule sum_list_less [OF assms(2)])
    show "tries_left kind now (f r) < tries_left kind now r" using gr by (simp add: f_def)
    show "tries_left kind now (f x) \<le> tries_left kind now x" if "x \<in> set t" for x
      using r [OF that] gr by auto
  qed
  have "map tg_ID (map f t) = map tg_ID t" by (simp add: f_def gd(2))
  then have 2: "distinct (map tg_ID (map f t))" using d by (simp only:)
  have 3: "\<forall>y \<in> set (map f t). claimable [kind] now y \<longrightarrow> tg_FailureCount y < MaxRetryCount
      \<and> (\<forall>n x. tg_Condition x = tg_Condition y \<longrightarrow> judge n x \<noteq> NotYet)"
  proof
    fix z assume "z \<in> set (map f t)"
    then obtain y where "y \<in> set t" "z = f y" by auto
    with r [of y] consider "z = g (set_firing now r)" | "z \<in> set t" by auto
    then show "claimable [kind] now z \<longrightarrow> tg_FailureCount z < MaxRetryCount
      \<and> (\<forall>n x. tg_Condition x = tg_Condition z \<longrightarrow> judge n x \<noteq> NotYet)"
      using gc gd(1) j assms(1) by cases (auto simp: tick_ready_def)
  qed
  have t': "t' = map f t" by (simp add: t'_def f_def)
  show ?thesis unfolding t' tick_ready_def by (intro conjI 1 2 3)
qed

lemma tick_loop_returns:
  "tick_ready kind judge now (tbl s) \<Longrightarrow> all_tries kind now (tbl s) < fuel \<Longrightarrow>
   \<exists>s'. tick_loop fuel kind judge now ika s = Some s' \<and> next_claim kind now (tbl s') = None"
proof (induction fuel arbitrary: s)
  case (Suc fuel)
  show ?case
  proof (cases "ClaimDueArmed [kind] now (tbl s)")
    case None
    then have "next_claim kind now (tbl s) = None" by (simp add: ClaimDueArmed_def next_claim_def split: list.splits)
    with None show ?thesis by simp
  next
    case (Some xt)
    obtain x t1 where xt: "ClaimDueArmed [kind] now (tbl s) = Some (x, t1)" using Some by (cases xt) simp
    have "distinct (map tg_ID (tbl s))" using Suc.prems(1) by (simp add: tick_ready_def)
    from claim_result [OF xt this] obtain r where r: "r \<in> set (tbl s)" "claimable [kind] now r"
      "x = set_firing now r" "t1 = map (\<lambda>y. if tg_ID y = tg_ID r then set_firing now y else y) (tbl s)" by blast
    have j: "judge (rounds s) x \<noteq> NotYet" using Suc.prems(1) r(1-3) by (simp add: tick_ready_def)
    have go: "\<exists>s'. tick_loop fuel kind judge now ika s2 = Some s' \<and> next_claim kind now (tbl s') = None"
      if "tbl s2 = map (\<lambda>y. if tg_ID y = tg_ID r then g (set_firing now y) else y) (tbl s)"
        "g = fail_row e \<or> g = mark_fired_row now sig" for s2 g e sig
      using round_progress [OF Suc.prems(1) r(1,2) that(2)] Suc.prems(2) by (intro Suc.IH) (simp_all add: that(1))
    note m = marks_after_claim [where t = "tbl s" and now = now and i = "tg_ID r", folded r(4)]
    have fired: "(fst (MarkFired now (tg_ID r) sig t1) = 0) = False" for sig using m(4) r(1) by simp
    show ?thesis
    proof (cases "judge (rounds s) x")
      case (Fail e)
      have "tbl (s\<lparr>rounds := Suc (rounds s), tbl := snd (MarkFailed (tg_ID x) e t1)\<rparr>)
          = map (\<lambda>y. if tg_ID y = tg_ID r then fail_row e (set_firing now y) else y) (tbl s)"
        using m(1) by (simp add: r(3))
      from go [OF this disjI1 [OF refl]] Fail show ?thesis by (simp add: xt Let_def)
    next
      case Fire
      have "\<exists>g e sig. tbl (fire now ika x (s\<lparr>tbl := t1, rounds := Suc (rounds s)\<rparr>))
          = map (\<lambda>y. if tg_ID y = tg_ID r then g (set_firing now y) else y) (tbl s)
        \<and> (g = fail_row e \<or> g = mark_fired_row now sig)"
        using m(1) m(3) by (auto simp: fire_def r(3) Let_def fired split: option.split sum.split)
      then obtain g e sig where "tbl (fire now ika x (s\<lparr>tbl := t1, rounds := Suc (rounds s)\<rparr>))
          = map (\<lambda>y. if tg_ID y = tg_ID r then g (set_firing now y) else y) (tbl s)"
        "g = fail_row e \<or> g = mark_fired_row now sig" by blast
      from go [OF this] Fire show ?thesis by (simp add: xt Let_def)
    qed (use j in simp)
  qed
qed simp

text \<open>
  When every claimable slot trigger is due (or does not decode), a tick returns,
  within as many rounds as tries are left, and leaves no claimable slot trigger behind.
\<close>

theorem tickSlotTime_returns:
  assumes "distinct (map tg_ID t)"
    and "\<forall>r \<in> set t. claimable [SlotTime] now r \<longrightarrow> tg_FailureCount r < MaxRetryCount
      \<and> (\<forall>slot. tg_Condition r = ConditionSlotTime slot \<longrightarrow> slot \<le> cur)"
    and "all_tries SlotTime now t < fuel"
  shows "\<exists>s. tickSlotTime fuel (Some cur) now ika t = Some s \<and> next_claim SlotTime now (tbl s) = None"
proof -
  have "judge_slot cur n x \<noteq> NotYet"
    if "r \<in> set t" "claimable [SlotTime] now r" "tg_Condition x = tg_Condition r" for r n x
    using assms(2) that by (auto simp: judge_slot_def split: condition.splits)
  then have "tick_ready SlotTime (judge_slot cur) now t" using assms(1,2) by (auto simp: tick_ready_def)
  then show ?thesis
    using tick_loop_returns [of SlotTime "judge_slot cur" now "start t" fuel ika] assms(3)
    by (simp add: tickSlotTime_def start_def)
qed

theorem tickSlotTime_returns_witness:
  "\<exists>s. tickSlotTime 11 (Some 100) 10 None [demo_future] = Some s \<and> next_claim SlotTime 10 (tbl s) = None"
  by (rule tickSlotTime_returns)
    (simp_all add: demo_future_def MaxRetryCount_def all_tries_def tries_left_def claimable_def)

definition after_burn :: "int \<Rightarrow> string \<Rightarrow> Trigger \<Rightarrow> tick_state \<Rightarrow> tick_state" where
  "after_burn now e r s = s\<lparr>tbl := [fail_row e (set_firing now r)], rounds := Suc (rounds s),
     calls := calls s @ [(tg_ID r, tg_CompletePayload r)]\<rparr>"

lemma burn_step:
  assumes "claimable [SlotTime] now r" "tg_Condition r = ConditionSlotTime slot" "slot \<le> cur" "tbl s = [r]"
  shows "tick_loop (Suc fuel) SlotTime (judge_slot cur) now (Some (\<lambda>_ _. Inl e)) s
    = tick_loop fuel SlotTime (judge_slot cur) now (Some (\<lambda>_ _. Inl e)) (after_burn now e r s)"
proof -
  have c: "ClaimDueArmed [SlotTime] now (tbl s) = Some (set_firing now r, [set_firing now r])"
    using assms(1,4) by (simp add: ClaimDueArmed_def)
  have j: "judge_slot cur (rounds s) (set_firing now r) = Fire" using assms(2,3) by (simp add: judge_slot_def)
  have "snd (MarkFailed (tg_ID r) e [set_firing now r]) = [fail_row e (set_firing now r)]" by (simp add: MarkFailed_def)
  then have f: "fire now (Some (\<lambda>_ _. Inl e)) (set_firing now r)
      (s\<lparr>tbl := [set_firing now r], rounds := Suc (rounds s)\<rparr>) = after_burn now e r s"
    by (simp add: fire_def after_burn_def)
  show ?thesis by (simp add: c j f Let_def)
qed

lemma burn_loop:
  assumes "claimable [SlotTime] now r" "tg_Condition r = ConditionSlotTime slot" "slot \<le> cur"
  shows "tbl s = [r] \<Longrightarrow> tg_FailureCount r + int (Suc n) = MaxRetryCount \<Longrightarrow>
    \<exists>s'. tick_loop (Suc (Suc n)) SlotTime (judge_slot cur) now (Some (\<lambda>_ _. Inl e)) s = Some s'
      \<and> length (calls s') = length (calls s) + Suc n \<and> map tg_Status (tbl s') = [Failed]"
  using assms
proof (induction n arbitrary: s r)
  case 0
  have "ClaimDueArmed [SlotTime] now (tbl (after_burn now e r s)) = None"
    using 0 by (simp add: after_burn_def ClaimDueArmed_def claimable_def fail_row_def)
  then have "tick_loop (Suc 0) SlotTime (judge_slot cur) now (Some (\<lambda>_ _. Inl e)) (after_burn now e r s)
    = Some (after_burn now e r s)" by simp
  with burn_step [OF 0(3-5,1)] 0(2) show ?case
    by (simp add: after_burn_def fail_row_def del: tick_loop.simps)
next
  case (Suc n)
  let ?r = "fail_row e (set_firing now r)"
  have c: "claimable [SlotTime] now ?r" "tg_Condition ?r = ConditionSlotTime slot"
    "tg_FailureCount ?r + int (Suc n) = MaxRetryCount"
    using Suc.prems by (simp_all add: claimable_def fail_row_def)
  have "tbl (after_burn now e r s) = [?r]" by (simp add: after_burn_def)
  from Suc.IH [OF this c(3,1,2) Suc.prems(5)] burn_step [OF Suc.prems(3-5,1)] show ?case
    by (simp add: after_burn_def del: tick_loop.simps)
qed

text \<open>
  The circuit breaker trips inside one tick: a due trigger whose completion fails is
  claimed again at once, so the tick calls the signing service \<open>MaxRetryCount\<close> times in a row and
  leaves the trigger failed for good.
\<close>

theorem one_tick_burns_all_tries:
  assumes "claimable [SlotTime] now r" "tg_Condition r = ConditionSlotTime slot" "slot \<le> cur" "tg_FailureCount r = 0"
  shows "\<exists>s. tickSlotTime 11 (Some cur) now (Some (\<lambda>_ _. Inl e)) [r] = Some s
    \<and> length (calls s) = 10 \<and> map tg_Status (tbl s) = [Failed]"
  using burn_loop [OF assms(1-3), of "start [r]" 9 e] assms(4)
  by (simp add: tickSlotTime_def start_def MaxRetryCount_def eval_nat_numeral del: tick_loop.simps)

theorem one_tick_burns_all_tries_witness:
  "\<exists>s. tickSlotTime 11 (Some 100) 10 (Some (\<lambda>_ _. Inl ''down'')) [demo_future] = Some s
     \<and> map tg_Status (tbl s) = [Failed]"
  using one_tick_burns_all_tries [of 10 demo_future 100 100 "''down''"]
  by (auto simp: demo_future_def claimable_def)

end
