(* ===== verification/Spec2Isabelle.thy ===== *)
theory Spec2Isabelle
  imports Templates AuditRuns HookRuns IntentRuns IntentOnce IntentTenants GatewayRuns Ledger Idempotency OracleMonitor FutureSign
begin

text \<open>
  Andromeda is a gateway that lets tenants govern Solana dWallets by policies and sign with them.
  The Go gateway (\<open>src/gateway\<close>) is the part modelled here: it computes the challenges an owner
  signs, builds the instructions of the on-chain policy engine, meters every call in tokens, makes
  retried requests safe, takes swaps from a quote to the broadcast, and fires armed triggers. The on-chain programs (\<open>src/contracts\<close>, Rust),
  the Ika backend and the dashboards are its surroundings.

  \<^bold>\<open>Theories, from the bottom up.\<close>

  \<^item> \<open>Prelude\<close>: bytes, little-endian words (a locale \<open>fixed_codec\<close>, interpreted for 16, 32 and 64
    bits), \<open>int64\<close> arithmetic with its wrap-around, results as sums, length-prefixed text, labels
    none of which is a prefix of another.
  \<^item> \<open>HumanFmt\<close> (\<open>internal/humanfmt/amount.go\<close>): amounts as decimal text; the text determines the
    amount.
  \<^item> \<open>Solana\<close> (\<open>internal/policy/pda.go\<close> and the account types): fixed arrays, instructions, the
    seeds of the program-derived addresses; different addresses have different preimages.
  \<^item> \<open>AuthCore\<close> (\<open>internal/auth/core.go\<close>, \<open>hashv.go\<close>, \<open>scopes.go\<close>, \<open>precompile.go\<close>): member slots,
    scopes, and the signature precompiles, which carry the very bytes they are said to carry.
  \<^item> \<open>ClearSigning\<close> (\<open>internal/auth/clear_signing.go\<close>): the 23 texts an approver reads, and what a
    text determines of the operation and its parameters.
  \<^item> \<open>Templates\<close> (\<open>internal/auth/challenges_templates.go\<close>, \<open>challenges_templates_init.go\<close>,
    \<open>challenges_recovery.go\<close>): every challenge of the policy templates; no two different requests
    share a preimage.
  \<^item> \<open>Challenges\<close> (\<open>internal/policy/challenges.go\<close>, \<open>challenges_recovery.go\<close>, \<open>owner_auth.go\<close>, parts
    of \<open>routes.go\<close> and \<open>handlers_session.go\<close>): the challenges of the policy engine, with the same
    separation, and that the preimage of \<open>ComputeOwnerAuthChallenge\<close> fixes the terms the owner agrees to.
  \<^item> \<open>Instructions\<close> (\<open>internal/policy/ix_*.go\<close>): all builders; who has to sign each instruction, and
    that instruction bytes and accounts determine the request.
  \<^item> \<open>Codecs\<close> (\<open>internal/policy/codecs.go\<close>): the decoders of the engine and allowlist accounts.
  \<^item> \<open>Encoding\<close>: hexadecimal, base64 and decimal text as Go's library reads and writes them.
  \<^item> \<open>PolicyService\<close> (\<open>internal/policy/routes.go\<close>, \<open>submit.go\<close>, \<open>internal/httpx/validate.go\<close>): what the
    policy handlers share: the wired service, validation, decoding, sending and auditing.
  \<^item> \<open>PolicyAdmin\<close> (\<open>routes.go\<close>, \<open>submit.go\<close>, \<open>routes_spending_usd.go\<close>, \<open>submit_spending_usd.go\<close>,
    \<open>remove_rule.go\<close>), \<open>PolicySessions\<close> (\<open>handlers_session.go\<close>), \<open>PolicyRecovery\<close>
    (\<open>handlers_recovery.go\<close>, \<open>handlers_quorum.go\<close>, \<open>handlers_passkey.go\<close>), \<open>PolicySigning\<close>
    (\<open>routes.go\<close>, \<open>submit.go\<close>, \<open>authorize_swap.go\<close>, \<open>owner_auth.go\<close>), \<open>PolicyResolve\<close>
    (\<open>resolve_accounts.go\<close>, \<open>read.go\<close>): every policy handler, a challenge route as a function to its
    answer, a submit route as the plan it computes and the effects of carrying it out.
  \<^item> \<open>PolicyReads\<close>: what the account readers return, and that the resolved trailing accounts are those the
    engine's own dispatch takes (\<open>contracts/policy-engine/src/lib.rs\<close>). \<open>PolicySubmits\<close>: a submit route relays exactly the
    challenge its challenge route serves, the administration routes refine the reference
    \<open>instruction_for\<close>, and where the pairs of routes disagree.
  \<^item> \<open>IntentData\<close> (\<open>internal/intents/types.go\<close>, \<open>chain_kinds.go\<close>, the pure part of
    \<open>orchestrator.go\<close>), \<open>IntentFlow\<close> (the operations of \<open>orchestrator.go\<close> and \<open>reconciler.go\<close> as
    programs: a call, and what follows on each answer), \<open>IntentStore\<close> (\<open>store.go\<close>, \<open>handlers.go\<close>, and
    the system of requests and sweeps whose calls interleave over the rows, with lost answers and
    crashes). \<open>IntentSafety\<close> holds the method: the locale \<open>monitored\<close> takes a guard over what a
    process has seen, checked once for every program, to every reachable world. \<open>IntentOnce\<close>,
    \<open>IntentTenants\<close>, \<open>IntentAuthorize\<close> and \<open>IntentPrepare\<close> are its interpretations.
    \<open>IntentChallenge\<close>: the challenge served is the one submission uses. \<open>IntentRuns\<close>: runs computed
    from schedules, as witnesses, and one in which the reconciler fails a live swap.
  \<^item> \<open>Json\<close> and \<open>JsonCanon\<close>: JSON as \<open>encoding/json\<close> writes and reads it, byte by byte; a text
    determines its value, and values that differ in the order of keys have one text.
  \<^item> \<open>AuditLog\<close> (\<open>internal/audit\<close>, \<open>internal/api/bridges.go\<close>): events, what the sanitizer keeps of them,
    appends that interleave, the hash chain, the signer, the snapshots, the reads. \<open>AuditChain\<close>: the
    chain of every tenant is intact in every history (\<open>audit_reach\<close>) and its head determines it.
    \<open>AuditGaps\<close>: what the rows do not say, the two canonical writers, the signatures, the snapshots that
    never advance, pages, the redaction of tokens. \<open>AuditRuns\<close>: witnesses.
  \<^item> \<open>Netsafety\<close> (\<open>internal/netsafety\<close>): the guard of outbound URLs and the addresses it blocks. \<open>Webhooks\<close>
    (\<open>internal/webhooks/store.go\<close>, \<open>publisher.go\<close>, \<open>dispatcher.go\<close>, \<open>routes.go\<close>): the tables, publishing, the
    stages of a delivery, the routes; \<open>HookSystem\<close>: tenants, publishers, workers and sweeps in any order
    (\<open>hook_step\<close>). \<open>HookTries\<close> bounds how often a delivery goes out, \<open>HookSafety\<close> says what goes out and to
    whom. \<open>WebhookEvents\<close> (\<open>events.go\<close>, \<open>listener.go\<close>, \<open>internal/policy/subscriptions.go\<close>): base58, the
    parser of on-chain events against the events the programs emit, and what the listener publishes.
    \<open>HookRuns\<close>: runs, among them endless redelivery and a request to the loopback address.
  \<^item> \<open>Billing\<close> (\<open>internal/store/quotamath.go\<close>): the calendar of billing periods and the allocation of
    a charge over credits, month and overage.
  \<^item> \<open>Ledger\<close> (\<open>internal/store/consume.go\<close>, \<open>credits.go\<close>): charge, replay, refund and balance over the
    tables, and an invariant over every history of them (\<open>billing_step\<close>).
  \<^item> \<open>Idempotency\<close> (\<open>internal/idempotency/idempotency.go\<close>): the middleware as events of concurrent
    requests over one Redis table (\<open>act\<close>, \<open>idem_reach\<close>).
  \<^item> \<open>RateLimit\<close> (\<open>internal/ratelimit/ratelimit.go\<close>): the token bucket, its bound, and what clocks that differ do
    to it. \<open>Catalogue\<close> (\<open>internal/routes/routes.go\<close>): the public routes. \<open>Access\<close> (\<open>internal/auth/apikey.go\<close>,
    \<open>scopes.go\<close>, \<open>internal/store/keys.go\<close>, \<open>internal/api/realip.go\<close>): keys and what they allow. \<open>Gateway\<close>
    (\<open>internal/api/middleware.go\<close>, \<open>proxy.go\<close>, \<open>server.go\<close>, \<open>mcp_charger.go\<close>, \<open>internal/upstream\<close>, \<open>internal/mcp\<close>): the
    path of a request through the chains of the router, to the upstream and back; it uses the ledger, the
    limiter, the catalogue and the functions of the idempotency layer. \<open>GatewaySafety\<close>: what holds of every
    call to an upstream. \<open>GatewayBilling\<close>: the chains refine the ledger (\<open>gateway_refines_ledger\<close>), what a
    failed call and a repeated key cost. \<open>GatewayRuns\<close>: witnesses.
  \<^item> \<open>Triggers\<close>: the contract of the two trigger stores as the locale \<open>trigger_rows\<close>, interpreted by
    \<open>OracleMonitor\<close> (\<open>internal/oraclemonitor\<close>) and \<open>FutureSign\<close> (\<open>internal/futuresign\<close>), which model
    the stores and the watchers.

  \<^bold>\<open>How the code is read.\<close> A Go function is a function of the same name; a pair of a value and an error
  is a sum, every early return a branch. Structs are records. \<open>uint8\<close> to \<open>uint64\<close> are words; \<open>int64\<close> and
  \<open>int\<close> are integers wrapped by \<open>wrap64\<close>; the database's own arithmetic is on integers, with its
  range errors. SHA-256, program-address derivation, base58 and the answers of other services are
  arguments. The theorems on challenges speak of the bytes that are hashed, so nothing is assumed of the
  hash. Where a theorem needs it, base58 is taken to be injective and to have the length it has.

  \<^bold>\<open>Fuel.\<close> \<open>rollPeriod\<close> runs with the number of months still to go plus one, and
  \<open>rollPeriod_contains_now\<close> shows that it always suffices on valid times. The ticks of \<open>FutureSign\<close> take
  fuel as an argument: \<open>tickSlotTime_returns\<close> bounds the rounds by the tries left, and
  \<open>tickSlotTime_never_returns\<close> shows that no amount suffices when the oldest trigger is not due.

  The wait for an approval of an intent runs for \<open>maxWait div 2 + 2\<close> rounds; \<open>poll_rounds_suffice\<close> shows
  that more change nothing when every wait takes its two seconds.

  \<^bold>\<open>Not modelled\<close>: the parsing of JSON, the matching of paths to routes, metrics, logging and tracing; the
  HTTP handlers outside packages \<open>api\<close>, \<open>policy\<close>, \<open>intents\<close>, \<open>audit\<close> and \<open>webhooks\<close>; the risk engine, the
  issuing of keys, the breaker library, the presign and gas-sponsor services, the envelope of the MCP
  protocol and the oracle relay; the contracts. In the stores, connection errors are left out
  beyond those named; a tie in a sort by time is broken by the order of the table.

  \<^bold>\<open>What the model showed.\<close> \<open>ValidateScopes\<close> accepts unknown scopes behind an empty entry; a count above 32
  makes \<open>DecodeAllowlistRule\<close> panic; the session challenges show the text of a pause; a bundle's
  challenge does not depend on the text shown for a leg; monthly periods drift; a charge that was
  refunded is replayed without a new debit; the idempotency lock does not keep the handler from running
  twice, and a client key can take the name of another key's lock; the future-sign tick spins on a
  trigger that is not due and burns all retries of a failing one at once; a challenge for a rule
  generation above 1 can never be submitted; the recovery challenge binds neither amount nor
  destination; a swap that needs an approval cannot be submitted over HTTP, and the reconciler can fail a
  swap that is being broadcast; the audit rows of the policy engine and of swaps do not say what was done,
  the snapshots of the audit log never get past their first batch, and readers are told to hash another
  text than the one that is hashed; a webhook answered with a body that is no text is sent again for ever,
  the URL guard does not see the address that is dialled, and since nothing fills the table of
  subscriptions no on-chain event reaches a tenant; a handler that outlives its idempotency lock runs beside
  the next; a repeated idempotency key pays once for many calls and gets refusals replayed for a day;
  gateways whose clocks differ defeat the rate limit; a body over its limit counts as a failure of the
  upstream; and a client can take the gateway's identity headers off its own request.
\<close>

end
